(* ===== verification/Prelude.thy ===== *)
theory Prelude
  imports
    Complex_Main
    "HOL-Library.Word"
    "HOL-Library.AList"
    "HOL-Library.Char_ord"
    "HOL-Library.List_Lexorder"
    "HOL-Library.Product_Lexorder"
begin

text \<open>
  Shared vocabulary of the development: the Python exceptions the program raises (as values of one
  error type), results, database sessions with their commit and rollback, UUIDs, the string
  functions of Python that the program calls, insertion-ordered de-duplication, and the locale
  from which every component gets the lifting of an invariant from one step to whole runs.

  Conventions. A Python \<open>str\<close> is a \<^typ>\<open>string\<close>; the case functions are exact on ASCII and leave
  other characters unchanged. A \<open>datetime\<close> is a rational number of seconds and a \<open>date\<close> the
  triple of year, month and day, which compares lexicographically. A \<open>float\<close> score is a \<^typ>\<open>rat\<close>.
\<close>

section \<open>Fact collections\<close>

named_theorems res_simps \<open>evaluation of results and of the session wrapper\<close>
named_theorems row_simps \<open>lookups and updates in database tables\<close>

section \<open>Types shared by all components\<close>

type_synonym uuid = "128 word"
type_synonym datetime = rat
type_synonym date = "nat \<times> nat \<times> nat"
type_synonym score = rat

text \<open>The exceptions of the program, of its ports and of the standard library, by class name.\<close>

datatype exn =
    ValueError string
  | TypeError string
  | LookupError string
  | KeyError string
  | RuntimeError string
  | OverflowError
  | TimeoutError
  | OSError
  | IntegrityError string
  | ProviderError string
  | AuthorizationDenied string
  | DocumentPermissionDenied string
  | InvalidDocumentTransition
  | DocumentPublishFailed string
  | DocumentPublishPending string
  | JobOwnershipError
  | UnknownJobType string
  | RunNotFound
  | ThreadNotFound
  | RunAccessDenied string
  | RunStateConflict string
  | ResumeInputMismatch
  | RunExecutionContractError
  | RunGraphUnavailable
  | RunGraphContractError
  | IssueCreationDenied string
  | ConfirmationExpired
  | ConfirmationPayloadMismatch
  | RateLimitWaitTimeout
  | MultipleResultsFound

type_synonym 'a res = "exn + 'a"

text \<open>\<open>type(exc).__name__\<close>, which the worker stores as the error code of a failed job.\<close>

fun exn_name :: "exn \<Rightarrow> string" where
  "exn_name (ValueError _) = ''ValueError''"
| "exn_name (TypeError _) = ''TypeError''"
| "exn_name (LookupError _) = ''LookupError''"
| "exn_name (KeyError _) = ''KeyError''"
| "exn_name (RuntimeError _) = ''RuntimeError''"
| "exn_name OverflowError = ''OverflowError''"
| "exn_name TimeoutError = ''TimeoutError''"
| "exn_name OSError = ''OSError''"
| "exn_name (IntegrityError _) = ''IntegrityError''"
| "exn_name (ProviderError n) = n"
| "exn_name (AuthorizationDenied _) = ''AuthorizationDenied''"
| "exn_name (DocumentPermissionDenied _) = ''DocumentPermissionDenied''"
| "exn_name InvalidDocumentTransition = ''InvalidDocumentTransition''"
| "exn_name (DocumentPublishFailed _) = ''DocumentPublishFailed''"
| "exn_name (DocumentPublishPending _) = ''DocumentPublishPending''"
| "exn_name JobOwnershipError = ''JobOwnershipError''"
| "exn_name (UnknownJobType _) = ''UnknownJobType''"
| "exn_name RunNotFound = ''RunNotFound''"
| "exn_name ThreadNotFound = ''ThreadNotFound''"
| "exn_name (RunAccessDenied _) = ''RunAccessDenied''"
| "exn_name (RunStateConflict _) = ''RunStateConflict''"
| "exn_name ResumeInputMismatch = ''ResumeInputMismatch''"
| "exn_name RunExecutionContractError = ''RunExecutionContractError''"
| "exn_name RunGraphUnavailable = ''RunGraphUnavailable''"
| "exn_name RunGraphContractError = ''RunGraphContractError''"
| "exn_name (IssueCreationDenied _) = ''IssueCreationDenied''"
| "exn_name ConfirmationExpired = ''ConfirmationExpired''"
| "exn_name ConfirmationPayloadMismatch = ''ConfirmationPayloadMismatch''"
| "exn_name RateLimitWaitTimeout = ''RateLimitWaitTimeout''"
| "exn_name MultipleResultsFound = ''MultipleResultsFound''"

text \<open>The subclass relations that \<open>except\<close> clauses of the program use.\<close>

fun is_lookup_error :: "exn \<Rightarrow> bool" where
  "is_lookup_error (LookupError _) = True"
| "is_lookup_error (KeyError _) = True"
| "is_lookup_error RunNotFound = True"
| "is_lookup_error ThreadNotFound = True"
| "is_lookup_error (UnknownJobType _) = True"
| "is_lookup_error _ = False"

fun is_timeout_or_os_error :: "exn \<Rightarrow> bool" where
  "is_timeout_or_os_error TimeoutError = True"
| "is_timeout_or_os_error OSError = True"
| "is_timeout_or_os_error RateLimitWaitTimeout = True"
| "is_timeout_or_os_error (AuthorizationDenied _) = True"
| "is_timeout_or_os_error (DocumentPermissionDenied _) = True"
| "is_timeout_or_os_error (RunAccessDenied _) = True"
| "is_timeout_or_os_error (IssueCreationDenied _) = True"
| "is_timeout_or_os_error ConfirmationExpired = True"
| "is_timeout_or_os_error _ = False"

section \<open>Results\<close>

definition bind_res :: "'a res \<Rightarrow> ('a \<Rightarrow> 'b res) \<Rightarrow> 'b res" where
  "bind_res r f = (case r of Inl e \<Rightarrow> Inl e | Inr x \<Rightarrow> f x)"

lemma bind_res_simps [simp, res_simps]:
  "bind_res (Inl e) f = Inl e"
  "bind_res (Inr x) f = f x"
  by (simp_all add: bind_res_def)

lemma bind_res_Inr_iff:
  "bind_res r f = Inr y \<longleftrightarrow> (\<exists>x. r = Inr x \<and> f x = Inr y)"
  by (cases r) auto

definition the_or :: "exn \<Rightarrow> 'a option \<Rightarrow> 'a res" where
  "the_or e opt = (case opt of None \<Rightarrow> Inl e | Some x \<Rightarrow> Inr x)"

lemma the_or_simps [simp, res_simps]:
  "the_or e None = Inl e"
  "the_or e (Some x) = Inr x"
  by (simp_all add: the_or_def)

lemma the_or_Inr_iff [simp]: "the_or e opt = Inr x \<longleftrightarrow> opt = Some x"
  by (cases opt) auto

text \<open>A comprehension whose body may raise.\<close>

fun map_res :: "('a \<Rightarrow> 'b res) \<Rightarrow> 'a list \<Rightarrow> 'b list res" where
  "map_res f [] = Inr []"
| "map_res f (x # xs) = bind_res (f x) (\<lambda>y. bind_res (map_res f xs) (\<lambda>ys. Inr (y # ys)))"

lemma map_res_Inr_iff:
  "map_res f xs = Inr ys \<longleftrightarrow> list_all2 (\<lambda>x y. f x = Inr y) xs ys"
  by (induction xs arbitrary: ys) (auto simp: bind_res_Inr_iff list_all2_Cons1)

lemma map_res_Inr_set:
  "map_res f xs = Inr ys \<Longrightarrow> y \<in> set ys \<Longrightarrow> \<exists>x\<in>set xs. f x = Inr y"
  by (induction xs arbitrary: ys) (auto simp: bind_res_Inr_iff)

section \<open>Database sessions\<close>

text \<open>
  A SQLAlchemy session works on its own copy of the tables until it commits. Rolling back drops
  the working copy. A request handler runs inside a session that is committed when the handler
  returns and rolled back when it raises.
\<close>

record 'db session =
  committed :: 'db
  working :: 'db

definition begin_session :: "'db \<Rightarrow> 'db session" where
  "begin_session db = \<lparr>committed = db, working = db\<rparr>"

definition commit :: "'db session \<Rightarrow> 'db session" where
  "commit s = s\<lparr>committed := working s\<rparr>"

definition rollback :: "'db session \<Rightarrow> 'db session" where
  "rollback s = s\<lparr>working := committed s\<rparr>"

definition with_session :: "('db session \<Rightarrow> 'a res \<times> 'db session) \<Rightarrow> 'db \<Rightarrow> 'a res \<times> 'db" where
  "with_session body db =
     (let (r, s) = body (begin_session db)
      in case r of
           Inl e \<Rightarrow> (Inl e, committed (rollback s))
         | Inr x \<Rightarrow> (Inr x, committed (commit s)))"

lemma session_simps [simp, res_simps]:
  "committed (begin_session db) = db"
  "working (begin_session db) = db"
  "committed (commit s) = working s"
  "working (commit s) = working s"
  "committed (rollback s) = committed s"
  "working (rollback s) = committed s"
  by (simp_all add: begin_session_def commit_def rollback_def)

lemma with_session_Inr:
  "body (begin_session db) = (Inr x, s) \<Longrightarrow> with_session body db = (Inr x, working s)"
  by (simp add: with_session_def)

lemma with_session_Inl:
  "body (begin_session db) = (Inl e, s) \<Longrightarrow> with_session body db = (Inl e, committed s)"
  by (simp add: with_session_def)

section \<open>Operations that may raise and that change state\<close>

text \<open>
  An operation takes the state and returns its result or exception together with the state it
  leaves behind: a raise does not undo the changes made before it. An exception skips the rest of
  the body.
\<close>

type_synonym ('a, 's) op = "'s \<Rightarrow> 'a res \<times> 's"

definition return_op :: "'a \<Rightarrow> ('a, 's) op" where
  "return_op x s = (Inr x, s)"

definition raise_op :: "exn \<Rightarrow> ('a, 's) op" where
  "raise_op e s = (Inl e, s)"

definition of_res :: "'a res \<Rightarrow> ('a, 's) op" where
  "of_res r s = (r, s)"

definition bind_op :: "('a, 's) op \<Rightarrow> ('a \<Rightarrow> ('b, 's) op) \<Rightarrow> ('b, 's) op" where
  "bind_op m f s = (case m s of (Inl e, s') \<Rightarrow> (Inl e, s') | (Inr x, s') \<Rightarrow> f x s')"

definition read_op :: "('s \<Rightarrow> 'a res) \<Rightarrow> ('a, 's) op" where
  "read_op f s = (f s, s)"

definition modify_op :: "('s \<Rightarrow> 's) \<Rightarrow> (unit, 's) op" where
  "modify_op f s = (Inr (), f s)"

lemma op_simps [simp, res_simps]:
  "return_op x s = (Inr x, s)"
  "raise_op e s = (Inl e, s)"
  "of_res r s = (r, s)"
  "read_op g s = (g s, s)"
  "modify_op h s = (Inr (), h s)"
  by (simp_all add: return_op_def raise_op_def of_res_def read_op_def modify_op_def)

lemma bind_op_Inl [res_simps]: "m s = (Inl e, s') \<Longrightarrow> bind_op m f s = (Inl e, s')"
  by (simp add: bind_op_def)

lemma bind_op_Inr [res_simps]: "m s = (Inr x, s') \<Longrightarrow> bind_op m f s = f x s'"
  by (simp add: bind_op_def)

lemma bind_op_basic [simp, res_simps]:
  "bind_op (return_op x) f s = f x s"
  "bind_op (raise_op e) f s = (Inl e, s)"
  "bind_op (of_res (Inr x)) f s = f x s"
  "bind_op (of_res (Inl e)) f s = (Inl e, s)"
  "bind_op (modify_op h) g s = g () (h s)"
  by (simp_all add: bind_op_def)

lemma bind_op_Inr_iff:
  "bind_op m f s = (Inr y, t) \<longleftrightarrow> (\<exists>x u. m s = (Inr x, u) \<and> f x u = (Inr y, t))"
  by (auto simp: bind_op_def split: prod.splits sum.splits)

lemma bind_op_Inl_iff:
  "bind_op m f s = (Inl e, t) \<longleftrightarrow>
     m s = (Inl e, t) \<or> (\<exists>x u. m s = (Inr x, u) \<and> f x u = (Inl e, t))"
  by (auto simp: bind_op_def split: prod.splits sum.splits)

lemma bind_read_op [simp, res_simps]:
  "bind_op (read_op g) f s = (case g s of Inl e \<Rightarrow> (Inl e, s) | Inr x \<Rightarrow> f x s)"
  by (simp add: bind_op_def read_op_def)

lemma bind_of_res:
  "bind_op (of_res r) f s = (case r of Inl e \<Rightarrow> (Inl e, s) | Inr x \<Rightarrow> f x s)"
  by (simp add: bind_op_def of_res_def)

text \<open>A unit of work: its changes are kept if it returns and dropped if it raises.\<close>

definition transactional :: "('a, 's) op \<Rightarrow> ('a, 's) op" where
  "transactional m s = (case m s of (Inl e, _) \<Rightarrow> (Inl e, s) | (Inr x, s') \<Rightarrow> (Inr x, s'))"

lemma transactional_Inr [simp]: "transactional m s = (Inr x, s') \<longleftrightarrow> m s = (Inr x, s')"
  by (auto simp: transactional_def split: prod.splits sum.splits)

lemma transactional_Inl [simp]:
  "transactional m s = (Inl e, s') \<longleftrightarrow> s' = s \<and> fst (m s) = Inl e"
  by (auto simp: transactional_def split: prod.splits sum.splits)

text \<open>A repository operation acts on the working copy of the session it was given.\<close>

definition on_working :: "('a, 'db) op \<Rightarrow> ('a, 'db session) op" where
  "on_working m s = (case m (working s) of (r, d) \<Rightarrow> (r, s\<lparr>working := d\<rparr>))"

lemma on_working_simps:
  "on_working m s = (fst (m (working s)), s\<lparr>working := snd (m (working s))\<rparr>)"
  by (simp add: on_working_def split: prod.splits)

lemma on_working_iff:
  "on_working m s = (r, s') \<longleftrightarrow> (\<exists>d. m (working s) = (r, d) \<and> s' = s\<lparr>working := d\<rparr>)"
  by (auto simp: on_working_def split: prod.splits)

section \<open>JSON values\<close>

datatype json =
    JNull
  | JBool bool
  | JInt int
  | JFloat rat
  | JStr string
  | JArr "json list"
  | JObj "(string \<times> json) list"

type_synonym payload = "(string \<times> json) list"

definition opt_str :: "string option \<Rightarrow> json" where
  "opt_str v = (case v of None \<Rightarrow> JNull | Some s \<Rightarrow> JStr s)"

definition str_field :: "payload \<Rightarrow> string \<Rightarrow> string option" where
  "str_field p k = (case map_of p k of Some (JStr s) \<Rightarrow> Some s | _ \<Rightarrow> None)"

lemma str_field_simps [simp]:
  "str_field [] k = None"
  "str_field ((k', v) # p) k =
     (if k = k' then (case v of JStr s \<Rightarrow> Some s | _ \<Rightarrow> None) else str_field p k)"
  by (auto simp: str_field_def split: json.splits)

section \<open>Rows of a table\<close>

text \<open>Tables are lists of rows; a primary-key lookup is the first row that has the key.\<close>

definition row_by :: "('r \<Rightarrow> 'k) \<Rightarrow> 'k \<Rightarrow> 'r list \<Rightarrow> 'r option" where
  "row_by key k rows = find (\<lambda>r. key r = k) rows"

definition update_rows :: "('r \<Rightarrow> bool) \<Rightarrow> ('r \<Rightarrow> 'r) \<Rightarrow> 'r list \<Rightarrow> 'r list" where
  "update_rows p f rows = map (\<lambda>r. if p r then f r else r) rows"

lemma row_by_SomeD:
  "row_by key k rows = Some r \<Longrightarrow> r \<in> set rows \<and> key r = k"
  by (auto simp: row_by_def find_Some_iff)

lemma row_by_None_iff:
  "row_by key k rows = None \<longleftrightarrow> (\<forall>r\<in>set rows. key r \<noteq> k)"
  by (auto simp: row_by_def find_None_iff)

lemma row_by_distinct:
  "distinct (map key rows) \<Longrightarrow> r \<in> set rows \<Longrightarrow> row_by key (key r) rows = Some r"
  by (induction rows) (force simp: row_by_def)+

lemma row_by_Nil [simp, row_simps]: "row_by key k [] = None"
  by (simp add: row_by_def)

lemma row_by_Cons [simp, row_simps]:
  "row_by key k (r # rows) = (if key r = k then Some r else row_by key k rows)"
  by (simp add: row_by_def)

lemma row_by_append [row_simps]:
  "row_by key k (xs @ ys) =
     (case row_by key k xs of None \<Rightarrow> row_by key k ys | Some r \<Rightarrow> Some r)"
  by (induction xs) auto

lemma set_update_rows [simp, row_simps]:
  "set (update_rows p f rows) = (\<lambda>r. if p r then f r else r) ` set rows"
  by (simp add: update_rows_def)

lemma update_rows_simps [simp, row_simps]:
  "update_rows p f [] = []"
  "update_rows p f (r # rows) = (if p r then f r else r) # update_rows p f rows"
  by (simp_all add: update_rows_def)

lemma map_update_rows [row_simps]:
  "(\<And>r. p r \<Longrightarrow> key (f r) = key r) \<Longrightarrow> map key (update_rows p f rows) = map key rows"
  by (simp add: update_rows_def)

lemma length_update_rows [simp]: "length (update_rows p f rows) = length rows"
  by (simp add: update_rows_def)

lemma row_by_update_rows:
  assumes "\<And>r. p r \<Longrightarrow> key (f r) = key r"
  shows "row_by key k (update_rows p f rows) =
     map_option (\<lambda>r. if p r then f r else r) (row_by key k rows)"
  using assms by (induction rows) auto

section \<open>Insertion-ordered de-duplication: \<open>dict.fromkeys\<close>\<close>

fun fromkeys :: "'a list \<Rightarrow> 'a list" where
  "fromkeys [] = []"
| "fromkeys (x # xs) = x # filter (\<lambda>y. y \<noteq> x) (fromkeys xs)"

lemma set_fromkeys [simp]: "set (fromkeys xs) = set xs"
  by (induction xs) auto

lemma distinct_fromkeys [simp]: "distinct (fromkeys xs)"
  by (induction xs) auto

lemma fromkeys_eq_Nil [simp]: "fromkeys xs = [] \<longleftrightarrow> xs = []"
  by (cases xs) auto

lemma fromkeys_distinct: "distinct xs \<Longrightarrow> fromkeys xs = xs"
  by (induction xs) (auto simp: filter_id_conv)

text \<open>\<open>tuple(sorted(set(xs), key=k))\<close>: the distinct elements in the order of a key.\<close>

definition sorted_set_by :: "('a \<Rightarrow> 'k::linorder) \<Rightarrow> 'a list \<Rightarrow> 'a list" where
  "sorted_set_by k xs = sort_key k (fromkeys xs)"

lemma set_sorted_set_by [simp]: "set (sorted_set_by k xs) = set xs"
  by (simp add: sorted_set_by_def)

lemma distinct_sorted_set_by [simp]: "distinct (sorted_set_by k xs)"
  by (simp add: sorted_set_by_def distinct_sort)

lemma sorted_sorted_set_by: "sorted (map k (sorted_set_by k xs))"
  by (simp add: sorted_set_by_def)

lemma sorted_set_by_eq_Nil [simp]: "sorted_set_by k xs = [] \<longleftrightarrow> xs = []"
  by (metis set_empty set_sorted_set_by)

section \<open>Lifting an invariant to runs\<close>

text \<open>
  A component with state is a set of initial states and a step relation. A predicate that holds
  initially and that each step keeps holds after every run.
\<close>

locale invariant_system =
  fixes init :: "'s \<Rightarrow> bool"
    and step :: "'s \<Rightarrow> 's \<Rightarrow> bool"
    and inv :: "'s \<Rightarrow> bool"
  assumes inv_init: "init s \<Longrightarrow> inv s"
    and inv_step: "inv s \<Longrightarrow> step s t \<Longrightarrow> inv t"
begin

lemma inv_run: "step\<^sup>*\<^sup>* s t \<Longrightarrow> inv s \<Longrightarrow> inv t"
  by (induction rule: rtranclp_induct) (auto intro: inv_step)

lemma inv_reachable: "init s \<Longrightarrow> step\<^sup>*\<^sup>* s t \<Longrightarrow> inv t"
  using inv_init inv_run by blast

lemma run_preserves:
  assumes "step\<^sup>*\<^sup>* s t" and "inv s" and "P s"
    and keep: "\<And>u v. inv u \<Longrightarrow> P u \<Longrightarrow> step u v \<Longrightarrow> P v"
  shows "P t"
  using assms(1)
proof (induction rule: rtranclp_induct)
  case base
  show ?case by (rule assms(3))
next
  case (step u v)
  then show ?case using keep assms(2) inv_run by blast
qed

end

end
