(* ===== verification/Domain.thy ===== *)
theory Domain
  imports Prelude
begin

text \<open>
  The enumerations of \<open>domain/\<close> and of the ports, with their \<open>.value\<close> strings and, where the
  program parses a stored string back, the enum constructor applied to a string (a
  \<open>ValueError\<close> for an unknown one). Also \<open>ProjectMembership\<close> with its validity window and
  the lifecycle of document versions.
\<close>

section \<open>domain/enums.py\<close>

datatype ProjectRole = PROJECT_MANAGER | DEVELOPER | QA | IMPLEMENTATION | SUPPORT | VIEWER

fun ProjectRole_value :: "ProjectRole \<Rightarrow> string" where
  "ProjectRole_value PROJECT_MANAGER = ''project_manager''"
| "ProjectRole_value DEVELOPER = ''developer''"
| "ProjectRole_value QA = ''qa''"
| "ProjectRole_value IMPLEMENTATION = ''implementation''"
| "ProjectRole_value SUPPORT = ''support''"
| "ProjectRole_value VIEWER = ''viewer''"

definition ProjectRole_of :: "string \<Rightarrow> ProjectRole res" where
  "ProjectRole_of s =
     (case find (\<lambda>r. ProjectRole_value r = s)
        [PROJECT_MANAGER, DEVELOPER, QA, IMPLEMENTATION, SUPPORT, VIEWER] of
        None \<Rightarrow> Inl (ValueError s) | Some r \<Rightarrow> Inr r)"

lemma ProjectRole_of_value [simp]: "ProjectRole_of (ProjectRole_value r) = Inr r"
  by (cases r) (simp_all add: ProjectRole_of_def)

datatype ProjectLifecycleStatus =
  PL_ACTIVE | PL_MAINTENANCE | PL_CLOSED | PL_ARCHIVED | PL_DELETION_PENDING | PL_DELETED

datatype DocumentLifecycleStatus =
  DRAFT | UNDER_REVIEW | APPROVED | PUBLISHED | SUPERSEDED | ARCHIVED | DELETE_PENDING | DELETED

fun is_online_retrievable :: "DocumentLifecycleStatus \<Rightarrow> bool" where
  "is_online_retrievable st = (st = PUBLISHED)"

datatype IssueType = IT_BUG | IT_TASK | IT_SUPPORT

fun IssueType_value :: "IssueType \<Rightarrow> string" where
  "IssueType_value IT_BUG = ''bug''"
| "IssueType_value IT_TASK = ''task''"
| "IssueType_value IT_SUPPORT = ''support''"

datatype IssuePriority = LOW | MEDIUM | HIGH | CRITICAL

fun IssuePriority_value :: "IssuePriority \<Rightarrow> string" where
  "IssuePriority_value LOW = ''low''"
| "IssuePriority_value MEDIUM = ''medium''"
| "IssuePriority_value HIGH = ''high''"
| "IssuePriority_value CRITICAL = ''critical''"

datatype DocumentCategory =
    REQUIREMENT_BASELINE | APPROVED_DESIGN | API_SPECIFICATION | DATABASE_DESIGN
  | APPROVED_TEST_SPEC | RELEASE_RUNBOOK | APPROVED_MEETING_MINUTES | ISSUE_RECORD

fun DocumentCategory_value :: "DocumentCategory \<Rightarrow> string" where
  "DocumentCategory_value REQUIREMENT_BASELINE = ''requirement_baseline''"
| "DocumentCategory_value APPROVED_DESIGN = ''approved_design''"
| "DocumentCategory_value API_SPECIFICATION = ''api_specification''"
| "DocumentCategory_value DATABASE_DESIGN = ''database_design''"
| "DocumentCategory_value APPROVED_TEST_SPEC = ''approved_test_spec''"
| "DocumentCategory_value RELEASE_RUNBOOK = ''release_runbook''"
| "DocumentCategory_value APPROVED_MEETING_MINUTES = ''approved_meeting_minutes''"
| "DocumentCategory_value ISSUE_RECORD = ''issue_record''"

datatype AuthorityLevel =
    AL_SIGNED_SCOPE | AL_APPROVED_CHANGE | AL_REQUIREMENT_BASELINE | AL_APPROVED_MEETING_MINUTES
  | AL_APPROVED_DESIGN | AL_APPROVED_TEST_SPEC | AL_RELEASE_RUNBOOK | AL_ISSUE_RECORD
  | AL_INFORMAL_NOTE

fun AuthorityLevel_value :: "AuthorityLevel \<Rightarrow> string" where
  "AuthorityLevel_value AL_SIGNED_SCOPE = ''signed_scope''"
| "AuthorityLevel_value AL_APPROVED_CHANGE = ''approved_change''"
| "AuthorityLevel_value AL_REQUIREMENT_BASELINE = ''requirement_baseline''"
| "AuthorityLevel_value AL_APPROVED_MEETING_MINUTES = ''approved_meeting_minutes''"
| "AuthorityLevel_value AL_APPROVED_DESIGN = ''approved_design''"
| "AuthorityLevel_value AL_APPROVED_TEST_SPEC = ''approved_test_spec''"
| "AuthorityLevel_value AL_RELEASE_RUNBOOK = ''release_runbook''"
| "AuthorityLevel_value AL_ISSUE_RECORD = ''issue_record''"
| "AuthorityLevel_value AL_INFORMAL_NOTE = ''informal_note''"

section \<open>domain/documents.py\<close>

fun ALLOWED_TRANSITIONS :: "DocumentLifecycleStatus \<Rightarrow> DocumentLifecycleStatus list" where
  "ALLOWED_TRANSITIONS DRAFT = [UNDER_REVIEW, DELETE_PENDING]"
| "ALLOWED_TRANSITIONS UNDER_REVIEW = [DRAFT, APPROVED, DELETE_PENDING]"
| "ALLOWED_TRANSITIONS APPROVED = [DRAFT, PUBLISHED, DELETE_PENDING]"
| "ALLOWED_TRANSITIONS PUBLISHED = [SUPERSEDED, ARCHIVED, DELETE_PENDING]"
| "ALLOWED_TRANSITIONS SUPERSEDED = [ARCHIVED, DELETE_PENDING]"
| "ALLOWED_TRANSITIONS ARCHIVED = [DELETE_PENDING]"
| "ALLOWED_TRANSITIONS DELETE_PENDING = [DELETED]"
| "ALLOWED_TRANSITIONS DELETED = []"

definition can_transition_document ::
  "DocumentLifecycleStatus \<Rightarrow> DocumentLifecycleStatus \<Rightarrow> bool" where
  "can_transition_document current target \<longleftrightarrow> target \<in> set (ALLOWED_TRANSITIONS current)"

definition transition_document_status ::
  "DocumentLifecycleStatus \<Rightarrow> DocumentLifecycleStatus \<Rightarrow> DocumentLifecycleStatus res" where
  "transition_document_status current target =
     (if \<not> can_transition_document current target then Inl InvalidDocumentTransition
      else Inr target)"

section \<open>domain/projects.py: the validity window of a membership\<close>

record ProjectMembership =
  pm_project_id :: uuid
  pm_user_id :: uuid
  pm_role :: ProjectRole
  pm_valid_from :: datetime
  pm_valid_to :: "datetime option"

definition validate_window :: "ProjectMembership \<Rightarrow> ProjectMembership res" where
  "validate_window m =
     (case pm_valid_to m of
        Some t \<Rightarrow> if t \<le> pm_valid_from m
                  then Inl (ValueError ''valid_to must be later than valid_from'') else Inr m
      | None \<Rightarrow> Inr m)"

definition is_active_at :: "ProjectMembership \<Rightarrow> datetime \<Rightarrow> bool" where
  "is_active_at m now =
     (if now < pm_valid_from m then False
      else case pm_valid_to m of None \<Rightarrow> True | Some t \<Rightarrow> now < t)"

section \<open>domain/issues.py, domain/runs.py and the ports\<close>

datatype IssueDraftStatus = DS_DRAFT | DS_CONFIRMED | DS_CANCELLED | DS_CREATED

datatype ConfirmationAction = CONFIRM | CANCEL

fun ConfirmationAction_value :: "ConfirmationAction \<Rightarrow> string" where
  "ConfirmationAction_value CONFIRM = ''confirm''"
| "ConfirmationAction_value CANCEL = ''cancel''"

definition ConfirmationAction_of :: "string \<Rightarrow> ConfirmationAction res" where
  "ConfirmationAction_of s =
     (if s = ''confirm'' then Inr CONFIRM
      else if s = ''cancel'' then Inr CANCEL else Inl (ValueError s))"

lemma ConfirmationAction_of_value [simp]:
  "ConfirmationAction_of (ConfirmationAction_value a) = Inr a"
  by (cases a) (simp_all add: ConfirmationAction_of_def)

datatype ToolConfirmationStatus = TC_CONFIRMED | TC_CANCELLED

datatype IdempotencyStatus = IN_PROGRESS | COMPLETED

datatype RunBusinessMode = MODE_QA | ISSUE_LOOKUP | ISSUE_CREATE

datatype RunStatus =
  QUEUED | RUNNING | WAITING_CONFIRMATION | SUCCEEDED | REFUSED | CANCELLED | FAILED

datatype AgentEventType =
    RUN_QUEUED | RUN_STARTED | RUN_PROGRESS | ARTIFACT_AVAILABLE | EV_WAITING_CONFIRMATION
  | RUN_RESUME_QUEUED | RUN_RESUMED | RUN_SUCCEEDED | RUN_REFUSED | RUN_CANCELLED | RUN_FAILED

datatype RunJobType = EXECUTE | RESUME

fun RunJobType_value :: "RunJobType \<Rightarrow> string" where
  "RunJobType_value EXECUTE = ''EXECUTE_AGENT_RUN''"
| "RunJobType_value RESUME = ''RESUME_AGENT_RUN''"

definition TERMINAL_RUN_STATUSES :: "RunStatus list" where
  "TERMINAL_RUN_STATUSES = [SUCCEEDED, REFUSED, CANCELLED, FAILED]"

definition TERMINAL_EVENT_TYPES :: "AgentEventType list" where
  "TERMINAL_EVENT_TYPES = [RUN_SUCCEEDED, RUN_REFUSED, RUN_CANCELLED, RUN_FAILED]"

abbreviation terminal_status :: "RunStatus \<Rightarrow> bool" where
  "terminal_status st \<equiv> st \<in> set TERMINAL_RUN_STATUSES"

abbreviation terminal_event :: "AgentEventType \<Rightarrow> bool" where
  "terminal_event t \<equiv> t \<in> set TERMINAL_EVENT_TYPES"

datatype RunGraphOutcomeKind = OUT_SUCCEEDED | OUT_REFUSED | OUT_CANCELLED | OUT_WAITING_CONFIRMATION

datatype JobState = JOB_PENDING | JOB_RUNNING | JOB_SUCCEEDED | JOB_FAILED

datatype IngestionState = ING_PENDING | ING_RUNNING | ING_SUCCEEDED | ING_FAILED

section \<open>The document lifecycle is a well-founded workflow with one way into publication\<close>

lemma can_transition_simps [simp]:
  "can_transition_document s DELETE_PENDING \<longleftrightarrow> s \<notin> {DELETE_PENDING, DELETED}"
  "can_transition_document s PUBLISHED \<longleftrightarrow> s = APPROVED"
  "can_transition_document s APPROVED \<longleftrightarrow> s = UNDER_REVIEW"
  "can_transition_document s DELETED \<longleftrightarrow> s = DELETE_PENDING"
  "can_transition_document DELETED t \<longleftrightarrow> False"
  "can_transition_document DELETE_PENDING t \<longleftrightarrow> t = DELETED"
  by (cases s; simp add: can_transition_document_def)+

lemma transition_document_status_Inr_iff [simp]:
  "transition_document_status c t = Inr r \<longleftrightarrow> can_transition_document c t \<and> r = t"
  by (auto simp: transition_document_status_def)

lemma deleted_absorbing:
  assumes "can_transition_document\<^sup>*\<^sup>* s t" and "s = DELETE_PENDING \<or> s = DELETED"
  shows "t = DELETE_PENDING \<or> t = DELETED"
  using assms by (induction rule: rtranclp_induct) auto

text \<open>
  Workflow histories: a published version was approved right before, and an approved one was
  under review right before, wherever the history starts below them.
\<close>

lemma published_after_approval:
  assumes "successively can_transition_document (xs @ [s, PUBLISHED])"
  shows "s = APPROVED"
  using assms by (simp add: successively_append_iff)

lemma approved_after_review:
  assumes "successively can_transition_document (xs @ [s, APPROVED])"
  shows "s = UNDER_REVIEW"
  using assms by (simp add: successively_append_iff)

lemma history_to_published:
  assumes "successively can_transition_document (DRAFT # xs @ [PUBLISHED])"
  shows "\<exists>ys. DRAFT # xs = ys @ [UNDER_REVIEW, APPROVED]"
proof (cases xs rule: rev_cases)
  case Nil
  with assms show ?thesis by simp
next
  case (snoc zs s)
  with assms published_after_approval [of "DRAFT # zs" s] have s: "s = APPROVED" by simp
  show ?thesis
  proof (cases zs rule: rev_cases)
    case Nil
    with assms snoc s show ?thesis by simp
  next
    case (snoc us r)
    with assms \<open>xs = zs @ [s]\<close> s have "r = UNDER_REVIEW"
      by (simp add: successively_append_iff successively_Cons)
    with snoc s \<open>xs = zs @ [s]\<close> show ?thesis by simp
  qed
qed

end
