(* ===== verification/PyStr.thy ===== *)
theory PyStr
  imports Prelude
begin

text \<open>
  The string functions of Python and the UUIDs of its \<open>uuid\<close> module that the program calls.
  \<open>str(u)\<close> is the canonical lower-case form with dashes; \<open>UUID(s)\<close> is the parser of the
  standard library: it drops \<open>urn:\<close> and \<open>uuid:\<close>, strips braces, drops dashes, wants 32
  characters and reads them with \<open>int(_, 16)\<close>.
\<close>

section \<open>Stripping, case, splitting\<close>

definition strip_by :: "(char \<Rightarrow> bool) \<Rightarrow> string \<Rightarrow> string" where
  "strip_by p s = rev (dropWhile p (rev (dropWhile p s)))"

definition is_space :: "char \<Rightarrow> bool" where
  "is_space c \<longleftrightarrow> (of_char c :: nat) \<in> set [9, 10, 11, 12, 13, 28, 29, 30, 31, 32, 133, 160]"

definition py_strip :: "string \<Rightarrow> string" where
  "py_strip s = strip_by is_space s"

definition strip_chars :: "string \<Rightarrow> string \<Rightarrow> string" where
  "strip_chars cs s = strip_by (\<lambda>c. c \<in> set cs) s"

definition rstrip_chars :: "string \<Rightarrow> string \<Rightarrow> string" where
  "rstrip_chars cs s = rev (dropWhile (\<lambda>c. c \<in> set cs) (rev s))"

definition upper_char :: "char \<Rightarrow> char" where
  "upper_char c = (if CHR ''a'' \<le> c \<and> c \<le> CHR ''z'' then char_of ((of_char c :: nat) - 32) else c)"

definition lower_char :: "char \<Rightarrow> char" where
  "lower_char c = (if CHR ''A'' \<le> c \<and> c \<le> CHR ''Z'' then char_of ((of_char c :: nat) + 32) else c)"

definition py_upper :: "string \<Rightarrow> string" where
  "py_upper s = map upper_char s"

definition py_lower :: "string \<Rightarrow> string" where
  "py_lower s = map lower_char s"

fun drop_prefix :: "string \<Rightarrow> string \<Rightarrow> string option" where
  "drop_prefix [] s = Some s"
| "drop_prefix (p # ps) [] = None"
| "drop_prefix (p # ps) (c # cs) = (if p = c then drop_prefix ps cs else None)"

lemma drop_prefix_Some: "drop_prefix p s = Some r \<longleftrightarrow> s = p @ r"
  by (induction p s rule: drop_prefix.induct) auto

text \<open>\<open>s.replace(old, new)\<close> for a non-empty \<open>old\<close>: leftmost occurrences first.\<close>

function py_replace :: "string \<Rightarrow> string \<Rightarrow> string \<Rightarrow> string" where
  "py_replace old new [] = []"
| "py_replace old new (c # cs) =
     (case drop_prefix old (c # cs) of
        Some rest \<Rightarrow> if old = [] then c # cs else new @ py_replace old new rest
      | None \<Rightarrow> c # py_replace old new cs)"
  by pat_completeness auto
termination
  by (relation "measure (\<lambda>(old, new, s). length s)") (auto simp: drop_prefix_Some)

lemma drop_prefix_None: "x \<in> set p \<Longrightarrow> x \<notin> set s \<Longrightarrow> drop_prefix p s = None"
  by (cases "drop_prefix p s") (auto simp: drop_prefix_Some)

lemma py_replace_noop: "x \<in> set old \<Longrightarrow> x \<notin> set s \<Longrightarrow> py_replace old new s = s"
  by (induction s) (auto simp: drop_prefix_None)

lemma dropWhile_none: "(\<And>c. c \<in> set s \<Longrightarrow> \<not> p c) \<Longrightarrow> dropWhile p s = s"
  by (cases s) auto

lemma strip_by_none: "(\<And>c. c \<in> set s \<Longrightarrow> \<not> p c) \<Longrightarrow> strip_by p s = s"
  using dropWhile_none [of s p] dropWhile_none [of "rev s" p] by (auto simp: strip_by_def)

lemma set_dropWhile_subset: "set (dropWhile p s) \<subseteq> set s"
  by (auto dest: set_dropWhileD)

lemma set_strip_by: "set (strip_by p s) \<subseteq> set s"
  unfolding strip_by_def using set_dropWhile_subset [of p s]
    set_dropWhile_subset [of p "rev (dropWhile p s)"] by auto

lemma strip_by_Nil_iff: "strip_by p s = [] \<longleftrightarrow> (\<forall>c\<in>set s. p c)"
proof
  assume "strip_by p s = []"
  then have "\<forall>c\<in>set (dropWhile p s). p c" by (simp add: strip_by_def dropWhile_eq_Nil_conv)
  then have "dropWhile p s = []"
    by (metis hd_dropWhile list.set_sel(1))
  then show "\<forall>c\<in>set s. p c" by (simp add: dropWhile_eq_Nil_conv)
next
  assume "\<forall>c\<in>set s. p c"
  then show "strip_by p s = []" by (auto simp: strip_by_def dest: set_dropWhileD)
qed

section \<open>Hexadecimal digits\<close>

definition hex_chars :: string where
  "hex_chars = ''0123456789abcdef''"

lemma hex_charsD:
  assumes "c \<in> set hex_chars"
  shows "c \<notin> set ''-_+xXu{}:''" and "\<not> is_space c"
  using assms by (auto simp: hex_chars_def is_space_def)

definition hexdigit :: "nat \<Rightarrow> char" where
  "hexdigit n = hex_chars ! (n mod 16)"

definition hexval :: "char \<Rightarrow> nat option" where
  "hexval c =
     (if CHR ''0'' \<le> c \<and> c \<le> CHR ''9'' then Some (of_char c - 48)
      else if CHR ''a'' \<le> c \<and> c \<le> CHR ''f'' then Some (of_char c - 87)
      else if CHR ''A'' \<le> c \<and> c \<le> CHR ''F'' then Some (of_char c - 55)
      else None)"

fun hex_digits :: "nat \<Rightarrow> nat \<Rightarrow> string" where
  "hex_digits 0 n = []"
| "hex_digits (Suc k) n = hex_digits k (n div 16) @ [hexdigit n]"

lemma length_hex_digits [simp]: "length (hex_digits k n) = k"
  by (induction k arbitrary: n) auto

lemma hexdigit_cases: "hexdigit n \<in> set hex_chars"
  unfolding hexdigit_def by (rule nth_mem) (simp add: hex_chars_def)

lemma set_hex_digits: "set (hex_digits k n) \<subseteq> set hex_chars"
  using hexdigit_cases by (induction k arbitrary: n) auto

lemma hexval_hexdigit: "hexval (hexdigit n) = Some (n mod 16)"
proof -
  have "\<forall>m<16. hexval (hex_chars ! m) = Some m"
    by (simp add: hex_chars_def hexval_def less_eq_char_def numeral_eq_Suc All_less_Suc)
  then show ?thesis by (simp add: hexdigit_def)
qed

text \<open>\<open>int(s, 16)\<close>: blanks, a sign, a \<open>0x\<close> prefix and single underscores are allowed.\<close>

fun int16_digits :: "nat \<Rightarrow> string \<Rightarrow> nat option" where
  "int16_digits acc [] = Some acc"
| "int16_digits acc (c # cs) =
     (if c = CHR ''_'' then
        (case cs of
           [] \<Rightarrow> None
         | d # ds \<Rightarrow> (case hexval d of None \<Rightarrow> None | Some v \<Rightarrow> int16_digits (16 * acc + v) ds))
      else (case hexval c of None \<Rightarrow> None | Some v \<Rightarrow> int16_digits (16 * acc + v) cs))"

definition int16_unsigned :: "string \<Rightarrow> nat option" where
  "int16_unsigned s =
     (case s of
        a # b # cs \<Rightarrow>
          if a = CHR ''0'' \<and> (b = CHR ''x'' \<or> b = CHR ''X'')
          then (if cs = [] then None else int16_digits 0 cs)
          else if a = CHR ''_'' then None else int16_digits 0 s
      | [a] \<Rightarrow> int16_digits 0 s
      | [] \<Rightarrow> None)"

definition py_int16 :: "string \<Rightarrow> int option" where
  "py_int16 s =
     (let t = py_strip s in
      case t of
        c # cs \<Rightarrow>
          if c = CHR ''+'' then map_option int (int16_unsigned cs)
          else if c = CHR ''-'' then map_option (\<lambda>n. - int n) (int16_unsigned cs)
          else map_option int (int16_unsigned t)
      | [] \<Rightarrow> None)"

lemma int16_digits_append:
  assumes "set xs \<subseteq> set hex_chars"
  shows "int16_digits acc (xs @ ys) =
     (case int16_digits acc xs of None \<Rightarrow> None | Some a \<Rightarrow> int16_digits a ys)"
  using assms
proof (induction xs arbitrary: acc)
  case Nil
  then show ?case by simp
next
  case (Cons c xs)
  then have "c \<noteq> CHR ''_''" using hex_charsD(1) [of c] by auto
  with Cons show ?case by (auto split: option.splits)
qed

lemma int16_digits_hex:
  "int16_digits acc (hex_digits k n) = Some (acc * 16 ^ k + n mod 16 ^ k)"
proof (induction k arbitrary: n)
  case 0
  then show ?case by simp
next
  case (Suc k)
  have d: "hexdigit n \<noteq> CHR ''_''" using hex_charsD(1) [OF hexdigit_cases [of n]] by auto
  have "n mod 16 ^ Suc k = 16 * (n div 16 mod 16 ^ k) + n mod 16"
    by (simp add: mod_mult2_eq)
  then show ?case
    using Suc d by (simp add: int16_digits_append [OF set_hex_digits] hexval_hexdigit algebra_simps)
qed

section \<open>UUIDs\<close>

definition uuid_str :: "uuid \<Rightarrow> string" where
  "uuid_str u =
     (let h = hex_digits 32 (unat u)
      in take 8 h @ ''-'' @ take 4 (drop 8 h) @ ''-'' @ take 4 (drop 12 h) @ ''-'' @
         take 4 (drop 16 h) @ ''-'' @ drop 20 h)"

definition UUID :: "string \<Rightarrow> uuid res" where
  "UUID s =
     (let h = filter (\<lambda>c. c \<noteq> CHR ''-'')
                (strip_chars ''{}'' (py_replace ''uuid:'' '''' (py_replace ''urn:'' '''' s)))
      in if length h \<noteq> 32 then Inl (ValueError ''badly formed hexadecimal UUID string'')
         else case py_int16 h of
                None \<Rightarrow> Inl (ValueError ''invalid literal for int() with base 16'')
              | Some i \<Rightarrow> if 0 \<le> i \<and> i < 2 ^ 128 then Inr (word_of_int i)
                          else Inl (ValueError ''int is out of range''))"

lemma set_segments:
  "set (take m (drop k xs)) \<subseteq> set xs" "set (take m xs) \<subseteq> set xs" "set (drop m xs) \<subseteq> set xs"
  by (meson in_set_takeD in_set_dropD subset_eq)+

lemma uuid_str_chars: "set (uuid_str u) \<subseteq> insert (CHR ''-'') (set hex_chars)"
  using set_segments [where xs = "hex_digits 32 (unat u)"] set_hex_digits [of 32 "unat u"]
  unfolding uuid_str_def Let_def set_append by (simp add: subset_eq) blast

lemma split_32:
  "take 8 h @ take 4 (drop 8 h) @ take 4 (drop 12 h) @ take 4 (drop 16 h) @ drop 20 h = h"
proof -
  have "take 4 (drop 16 h) @ drop 20 h = drop 16 h"
    using append_take_drop_id [of 4 "drop 16 h"] by simp
  moreover have "take 4 (drop 12 h) @ drop 16 h = drop 12 h"
    using append_take_drop_id [of 4 "drop 12 h"] by simp
  moreover have "take 4 (drop 8 h) @ drop 12 h = drop 8 h"
    using append_take_drop_id [of 4 "drop 8 h"] by simp
  ultimately show ?thesis by simp
qed

lemma filter_dash_uuid_str: "filter (\<lambda>c. c \<noteq> CHR ''-'') (uuid_str u) = hex_digits 32 (unat u)"
proof -
  let ?h = "hex_digits 32 (unat u)"
  have nodash: "filter (\<lambda>c. c \<noteq> CHR ''-'') xs = xs" if "set xs \<subseteq> set ?h" for xs
  proof -
    have "\<forall>c\<in>set xs. c \<noteq> CHR ''-''"
      using that set_hex_digits [of 32 "unat u"] hex_charsD(1) by fastforce
    then show ?thesis by (simp add: filter_id_conv)
  qed
  show ?thesis
    unfolding uuid_str_def Let_def by (simp add: nodash set_segments split_32)
qed

lemma py_int16_hex: "py_int16 (hex_digits 32 n) = Some (int (n mod 16 ^ 32))"
proof -
  let ?h = "hex_digits 32 n"
  have strip: "py_strip ?h = ?h"
    unfolding py_strip_def
    by (rule strip_by_none) (use set_hex_digits hex_charsD(2) in blast)
  obtain a b cs where h: "?h = a # b # cs"
    using length_hex_digits [of 32 n] by (cases ?h; cases "tl ?h") auto
  then have "a \<in> set hex_chars" "b \<in> set hex_chars"
    using set_hex_digits [of 32 n] by auto
  then have ab: "a \<notin> set ''-_+xXu{}:''" "b \<notin> set ''-_+xXu{}:''"
    using hex_charsD(1) by blast+
  have "int16_unsigned ?h = int16_digits 0 ?h"
    unfolding h using ab by (auto simp add: int16_unsigned_def simp del: int16_digits.simps)
  then have "int16_unsigned ?h = Some (n mod 16 ^ 32)"
    by (simp add: int16_digits_hex)
  moreover have "py_int16 ?h = map_option int (int16_unsigned ?h)"
    unfolding py_int16_def strip Let_def unfolding h using ab by auto
  ultimately show ?thesis by simp
qed

lemma UUID_uuid_str [simp]: "UUID (uuid_str u) = Inr u"
proof -
  have c: "CHR ''u'' \<notin> set (uuid_str u)" "CHR ''{'' \<notin> set (uuid_str u)" "CHR ''}'' \<notin> set (uuid_str u)"
    using uuid_str_chars [of u] hex_charsD(1) by force+
  have "strip_chars ''{}'' (py_replace ''uuid:'' '''' (py_replace ''urn:'' '''' (uuid_str u))) = uuid_str u"
    using c by (auto simp: py_replace_noop [of "CHR ''u''"] strip_chars_def intro!: strip_by_none)
  then have "UUID (uuid_str u) =
      (if unat u mod 16 ^ 32 < 2 ^ 128 then Inr (word_of_int (int (unat u mod 16 ^ 32)))
       else Inl (ValueError ''int is out of range''))"
    by (simp add: UUID_def filter_dash_uuid_str py_int16_hex nat_less_iff)
  moreover have "(16::nat) ^ 32 = 2 ^ 128" by simp
  moreover have "unat u < 2 ^ 128" using unsigned_less [of u, where ?'a = nat] by simp
  ultimately show ?thesis by (simp add: word_of_int_uint)
qed

lemma uuid_str_inject [simp]: "uuid_str u = uuid_str v \<longleftrightarrow> u = v"
  by (metis UUID_uuid_str sum.inject(2))

section \<open>Decimal numbers and dates\<close>

definition digit_char :: "nat \<Rightarrow> char" where
  "digit_char n = ''0123456789'' ! (n mod 10)"

definition is_digit :: "char \<Rightarrow> bool" where
  "is_digit c \<longleftrightarrow> CHR ''0'' \<le> c \<and> c \<le> CHR ''9''"

fun str_nat :: "nat \<Rightarrow> string" where
  "str_nat n = (if n < 10 then [digit_char n] else str_nat (n div 10) @ [digit_char n])"

declare str_nat.simps [simp del]

text \<open>\<open>int(s, 10)\<close> on a string of ASCII digits.\<close>

definition int10_digits :: "string \<Rightarrow> nat" where
  "int10_digits s = foldl (\<lambda>acc c. acc * 10 + (of_char c - 48)) 0 s"

definition str_int :: "int \<Rightarrow> string" where
  "str_int k = (if k < 0 then CHR ''-'' # str_nat (nat (- k)) else str_nat (nat k))"

definition zfill :: "nat \<Rightarrow> string \<Rightarrow> string" where
  "zfill w s = replicate (w - length s) CHR ''0'' @ s"

fun isoformat :: "date \<Rightarrow> string" where
  "isoformat (y, m, d) = zfill 4 (str_nat y) @ ''-'' @ zfill 2 (str_nat m) @ ''-'' @ zfill 2 (str_nat d)"

lemma digit_char_props:
  "is_digit (digit_char n)" "of_char (digit_char n) - 48 = n mod 10"
proof -
  have "\<forall>m<10. is_digit (''0123456789'' ! m) \<and> of_char (''0123456789'' ! m) - 48 = m"
    by (simp add: is_digit_def less_eq_char_def numeral_eq_Suc All_less_Suc)
  then show "is_digit (digit_char n)" "of_char (digit_char n) - 48 = n mod 10"
    by (simp_all add: digit_char_def)
qed

lemma str_nat_digits: "str_nat n \<noteq> [] \<and> (\<forall>c\<in>set (str_nat n). is_digit c)"
  by (induction n rule: str_nat.induct) (subst (1 2) str_nat.simps, auto simp: digit_char_props(1))

lemma int10_digits_str_nat [simp]: "int10_digits (str_nat n) = n"
proof (induction n rule: str_nat.induct)
  case (1 n)
  show ?case
  proof (cases "n < 10")
    case True
    then show ?thesis
      by (subst str_nat.simps) (simp add: int10_digits_def digit_char_props(2))
  next
    case False
    with 1 have "foldl (\<lambda>acc c. acc * 10 + (of_char c - 48)) 0 (str_nat (n div 10)) = n div 10"
      by (simp add: int10_digits_def)
    with False show ?thesis
      by (subst str_nat.simps) (simp add: int10_digits_def digit_char_props(2))
  qed
qed

end
