(* ===== verification/Documents.thy ===== *)
theory Documents
  imports Domain PyStr
begin

text \<open>
  The document workflow: the tables of projects, knowledge spaces, documents, document versions and
  the audit log (\<open>infrastructure/db/models/schema.py\<close>), the repository over them
  (\<open>infrastructure/db/repositories/documents.py\<close>) and the use cases upload, submit, approve,
  publish, finalize and delete (\<open>application/use_cases\<close>).

  Status columns hold the enumeration itself, since the program only writes \<open>.value\<close> of it. Keys
  made by \<open>uuid4()\<close> and the clock are arguments. The object store and the knowledge provider are
  arguments as well: functions that return a result or raise. Foreign keys that an insert relies
  on are checked and raise \<open>IntegrityError\<close>. A use case runs in the session of its request; the
  commit barrier is \<^const>\<open>commit\<close> on that session.
\<close>

section \<open>Tables\<close>

record ProjectModel =
  pr_id :: uuid
  pr_company_id :: uuid
  pr_client_id :: uuid
  pr_code :: string
  pr_lifecycle_status :: ProjectLifecycleStatus

record ProjectMembershipModel =
  mm_id :: uuid
  mm_project_id :: uuid
  mm_user_id :: uuid
  mm_role :: string
  mm_valid_from :: datetime
  mm_valid_to :: "datetime option"

record ProjectKnowledgeSpaceModel =
  ks_id :: uuid
  ks_project_id :: uuid
  ks_provider :: string
  ks_external_space_id :: string
  ks_status :: string

record DocumentModel =
  do_id :: uuid
  do_company_id :: uuid
  do_project_id :: uuid
  do_document_category :: string
  do_title :: string
  do_owner_user_id :: "uuid option"

record DocumentVersionModel =
  dv_id :: uuid
  dv_document_id :: uuid
  dv_version_no :: int
  dv_version_label :: string
  dv_authority_level :: string
  dv_lifecycle_status :: DocumentLifecycleStatus
  dv_effective_from :: "date option"
  dv_effective_to :: "date option"
  dv_supersedes_version_id :: "uuid option"
  dv_source_uri :: "string option"
  dv_content_hash :: "string option"
  dv_published_at :: "datetime option"
  dv_created_by :: uuid

record AuditLogModel =
  al_project_id :: "uuid option"
  al_user_id :: "uuid option"
  al_action :: string
  al_resource_type :: string
  al_resource_id :: "string option"
  al_outcome :: string
  al_details_json :: payload

record doc_db =
  projects :: "ProjectModel list"
  memberships :: "ProjectMembershipModel list"
  knowledge_spaces :: "ProjectKnowledgeSpaceModel list"
  documents :: "DocumentModel list"
  versions :: "DocumentVersionModel list"
  audit_logs :: "AuditLogModel list"

section \<open>application/ports/document_repository.py\<close>

record DocumentVersionRecord =
  vr_company_id :: uuid
  vr_project_id :: uuid
  vr_document_id :: uuid
  vr_version_id :: uuid
  vr_document_category :: string
  vr_title :: string
  vr_version_no :: int
  vr_version_label :: string
  vr_authority_level :: string
  vr_lifecycle_status :: DocumentLifecycleStatus
  vr_owner_user_id :: "uuid option"
  vr_created_by :: uuid
  vr_source_uri :: string
  vr_content_hash :: string
  vr_effective_from :: "date option"
  vr_effective_to :: "date option"
  vr_supersedes_version_id :: "uuid option"
  vr_published_at :: "datetime option"

record CreateDocumentDraft =
  cd_company_id :: uuid
  cd_project_id :: uuid
  cd_document_id :: "uuid option"
  cd_document_category :: string
  cd_title :: string
  cd_version_label :: string
  cd_authority_level :: string
  cd_owner_user_id :: "uuid option"
  cd_created_by :: uuid
  cd_source_uri :: string
  cd_content_hash :: string
  cd_effective_from :: "date option"
  cd_effective_to :: "date option"
  cd_supersedes_version_id :: "uuid option"

record DocumentAuditRecord =
  da_action :: string
  da_project_id :: uuid
  da_version_id :: uuid
  da_user_id :: "uuid option"
  da_outcome :: string
  da_details :: payload

section \<open>infrastructure/db/repositories/documents.py\<close>

definition to_record :: "DocumentModel \<Rightarrow> DocumentVersionModel \<Rightarrow> DocumentVersionRecord res" where
  "to_record document version =
     (case (dv_source_uri version, dv_content_hash version) of
        (Some uri, Some h) \<Rightarrow> Inr
          \<lparr>vr_company_id = do_company_id document, vr_project_id = do_project_id document,
           vr_document_id = do_id document, vr_version_id = dv_id version,
           vr_document_category = do_document_category document, vr_title = do_title document,
           vr_version_no = dv_version_no version, vr_version_label = dv_version_label version,
           vr_authority_level = dv_authority_level version,
           vr_lifecycle_status = dv_lifecycle_status version,
           vr_owner_user_id = do_owner_user_id document, vr_created_by = dv_created_by version,
           vr_source_uri = uri, vr_content_hash = h,
           vr_effective_from = dv_effective_from version, vr_effective_to = dv_effective_to version,
           vr_supersedes_version_id = dv_supersedes_version_id version,
           vr_published_at = dv_published_at version\<rparr>
      | _ \<Rightarrow> Inl (ValueError ''document version source metadata is incomplete''))"

definition load_version :: "uuid \<Rightarrow> doc_db \<Rightarrow> (DocumentModel \<times> DocumentVersionModel) res" where
  "load_version version_id db =
     (case row_by dv_id version_id (versions db) of
        None \<Rightarrow> Inl (LookupError ''document version does not exist'')
      | Some v \<Rightarrow>
          (case row_by do_id (dv_document_id v) (documents db) of
             None \<Rightarrow> Inl (LookupError ''document version does not exist'')
           | Some d \<Rightarrow> Inr (d, v)))"

text \<open>\<open>int(max_version or 0) + 1\<close> over the versions of one document.\<close>

definition next_version_no :: "uuid \<Rightarrow> doc_db \<Rightarrow> int" where
  "next_version_no document_id db =
     (let nos = map dv_version_no (filter (\<lambda>v. dv_document_id v = document_id) (versions db))
      in (if nos = [] then 0 else Max (set nos)) + 1)"

definition draft_document :: "uuid \<Rightarrow> CreateDocumentDraft \<Rightarrow> DocumentModel" where
  "draft_document new_id draft =
     \<lparr>do_id = new_id, do_company_id = cd_company_id draft, do_project_id = cd_project_id draft,
      do_document_category = cd_document_category draft, do_title = cd_title draft,
      do_owner_user_id = cd_owner_user_id draft\<rparr>"

definition draft_version :: "uuid \<Rightarrow> uuid \<Rightarrow> int \<Rightarrow> CreateDocumentDraft \<Rightarrow> DocumentVersionModel" where
  "draft_version new_id document_id no draft =
     \<lparr>dv_id = new_id, dv_document_id = document_id, dv_version_no = no,
      dv_version_label = cd_version_label draft, dv_authority_level = cd_authority_level draft,
      dv_lifecycle_status = DRAFT, dv_effective_from = cd_effective_from draft,
      dv_effective_to = cd_effective_to draft,
      dv_supersedes_version_id = cd_supersedes_version_id draft,
      dv_source_uri = Some (cd_source_uri draft), dv_content_hash = Some (cd_content_hash draft),
      dv_published_at = None, dv_created_by = cd_created_by draft\<rparr>"

definition draft_target :: "uuid \<Rightarrow> CreateDocumentDraft \<Rightarrow> (DocumentModel, doc_db) op" where
  "draft_target new_doc draft db =
     (case cd_document_id draft of
        None \<Rightarrow>
          (if row_by pr_id (cd_project_id draft) (projects db) = None
           then (Inl (IntegrityError ''documents.project_id''), db)
           else let document = draft_document new_doc draft
                in (Inr document, db\<lparr>documents := documents db @ [document]\<rparr>))
      | Some document_id \<Rightarrow>
          (case row_by do_id document_id (documents db) of
             None \<Rightarrow> (Inl (LookupError ''document does not exist''), db)
           | Some document \<Rightarrow>
               if do_project_id document \<noteq> cd_project_id draft
               then (Inl (ValueError ''document cannot move across projects''), db)
               else if do_document_category document \<noteq> cd_document_category draft
               then (Inl (ValueError ''new version cannot change document category''), db)
               else (Inr document, db)))"

definition insert_version :: "DocumentVersionModel \<Rightarrow> (unit, doc_db) op" where
  "insert_version version db =
     (if dv_supersedes_version_id version \<noteq> None \<and>
         row_by dv_id (the (dv_supersedes_version_id version)) (versions db) = None
      then (Inl (IntegrityError ''document_versions.supersedes_version_id''), db)
      else (Inr (), db\<lparr>versions := versions db @ [version]\<rparr>))"

definition create_draft ::
  "uuid \<Rightarrow> uuid \<Rightarrow> CreateDocumentDraft \<Rightarrow> (DocumentVersionRecord, doc_db) op" where
  "create_draft new_doc new_version draft =
     bind_op (draft_target new_doc draft) (\<lambda>document db.
       let version = draft_version new_version (do_id document)
             (next_version_no (do_id document) db) draft
       in bind_op (insert_version version) (\<lambda>_. of_res (to_record document version)) db)"

definition get_version :: "uuid \<Rightarrow> doc_db \<Rightarrow> DocumentVersionRecord res" where
  "get_version version_id db =
     bind_res (load_version version_id db) (\<lambda>(document, version). to_record document version)"

definition set_version_status :: "uuid \<Rightarrow> DocumentLifecycleStatus \<Rightarrow> doc_db \<Rightarrow> doc_db" where
  "set_version_status version_id target db =
     db\<lparr>versions := update_rows (\<lambda>v. dv_id v = version_id)
          (\<lambda>v. v\<lparr>dv_lifecycle_status := target\<rparr>) (versions db)\<rparr>"

definition transition ::
  "uuid \<Rightarrow> DocumentLifecycleStatus \<Rightarrow> DocumentLifecycleStatus \<Rightarrow> (DocumentVersionRecord, doc_db) op"
where
  "transition version_id expected target =
     bind_op (read_op (load_version version_id)) (\<lambda>(document, version).
       if dv_lifecycle_status version \<noteq> expected
       then raise_op (ValueError ''unexpected status'')
       else bind_op (of_res (transition_document_status (dv_lifecycle_status version) target))
         (\<lambda>_. bind_op (modify_op (set_version_status version_id target))
           (\<lambda>_. of_res (to_record document (version\<lparr>dv_lifecycle_status := target\<rparr>)))))"

text \<open>The check of the version to be superseded, before either row changes.\<close>

definition load_superseded :: "DocumentModel \<Rightarrow> uuid option \<Rightarrow> doc_db \<Rightarrow> uuid option res" where
  "load_superseded document supersedes db =
     (case supersedes of
        None \<Rightarrow> Inr None
      | Some old_id \<Rightarrow>
          bind_res (load_version old_id db) (\<lambda>(old_document, old_version).
            if do_id old_document \<noteq> do_id document
            then Inl (ValueError ''superseded version must belong to the same document'')
            else if dv_lifecycle_status old_version \<noteq> PUBLISHED
            then Inl (ValueError ''superseded version must still be PUBLISHED'')
            else Inr (Some old_id)))"

definition publish_rows :: "datetime \<Rightarrow> uuid \<Rightarrow> uuid option \<Rightarrow> doc_db \<Rightarrow> doc_db" where
  "publish_rows now version_id old db =
     (let db' = db\<lparr>versions := update_rows (\<lambda>v. dv_id v = version_id)
            (\<lambda>v. v\<lparr>dv_lifecycle_status := PUBLISHED, dv_published_at := Some now\<rparr>) (versions db)\<rparr>
      in case old of None \<Rightarrow> db' | Some old_id \<Rightarrow> set_version_status old_id SUPERSEDED db')"

definition complete_publication ::
  "datetime \<Rightarrow> uuid \<Rightarrow> uuid option \<Rightarrow> (DocumentVersionRecord, doc_db) op" where
  "complete_publication now version_id supersedes =
     bind_op (read_op (load_version version_id)) (\<lambda>(document, version).
       if dv_lifecycle_status version \<noteq> APPROVED
       then raise_op (ValueError ''only APPROVED version can complete publication'')
       else bind_op (read_op (load_superseded document supersedes)) (\<lambda>old.
         bind_op (modify_op (publish_rows now version_id old)) (\<lambda>_.
           of_res (to_record document
             (version\<lparr>dv_lifecycle_status := PUBLISHED, dv_published_at := Some now\<rparr>)))))"

definition audit_row :: "DocumentAuditRecord \<Rightarrow> AuditLogModel" where
  "audit_row audit =
     \<lparr>al_project_id = Some (da_project_id audit), al_user_id = da_user_id audit,
      al_action = da_action audit, al_resource_type = ''document_version'',
      al_resource_id = Some (uuid_str (da_version_id audit)), al_outcome = da_outcome audit,
      al_details_json = da_details audit\<rparr>"

definition add_audit :: "DocumentAuditRecord \<Rightarrow> (unit, doc_db) op" where
  "add_audit audit = modify_op (\<lambda>db. db\<lparr>audit_logs := audit_logs db @ [audit_row audit]\<rparr>)"

definition project_code :: "uuid \<Rightarrow> doc_db \<Rightarrow> string res" where
  "project_code project_id db =
     (case row_by pr_id project_id (projects db) of
        None \<Rightarrow> Inl (LookupError ''project does not exist'') | Some p \<Rightarrow> Inr (pr_code p))"

definition active_ragflow_space :: "uuid \<Rightarrow> ProjectKnowledgeSpaceModel \<Rightarrow> bool" where
  "active_ragflow_space project_id k \<longleftrightarrow>
     ks_project_id k = project_id \<and> ks_provider k = ''ragflow'' \<and> ks_status k = ''active''"

definition knowledge_space_id :: "uuid \<Rightarrow> doc_db \<Rightarrow> string res" where
  "knowledge_space_id project_id db =
     (case filter (active_ragflow_space project_id) (knowledge_spaces db) of
        [] \<Rightarrow> Inl (LookupError ''project has no active RAGFlow knowledge space'')
      | [k] \<Rightarrow> Inr (ks_external_space_id k)
      | _ \<Rightarrow> Inl MultipleResultsFound)"

section \<open>Ports of the workflow\<close>

record DocumentActor =
  ac_user_id :: uuid
  ac_permissions :: "string list"

record PutObjectRequest =
  po_project_id :: string
  po_object_key :: string
  po_data :: string
  po_mime_type :: string

record StoredObject =
  so_object_key :: string
  so_sha256 :: string

record KnowledgeIngestionRequest =
  ki_project_id :: string
  ki_knowledge_space_id :: string
  ki_document_version_id :: string
  ki_object_key :: string
  ki_metadata :: "(string \<times> string) list"

record KnowledgeIngestionStatus =
  ks_state :: IngestionState
  ks_error_code :: "string option"

record DeleteKnowledgeDocumentRequest =
  dk_project_id :: string
  dk_document_version_id :: string
  dk_knowledge_space_id :: string

type_synonym object_put = "PutObjectRequest \<Rightarrow> StoredObject res"
type_synonym knowledge_ingest = "KnowledgeIngestionRequest \<Rightarrow> string res"
type_synonym ingestion_status = "string \<Rightarrow> KnowledgeIngestionStatus res"
type_synonym knowledge_delete = "DeleteKnowledgeDocumentRequest \<Rightarrow> unit res"

type_synonym 'a doc_op = "('a, doc_db session) op"

section \<open>application/use_cases/upload_document.py\<close>

record MetadataSuggestion =
  ms_suggested_project_id :: "uuid option"
  ms_suggested_document_category :: "string option"
  ms_suggested_version_label :: "string option"
  ms_suggested_authority_level :: "string option"
  ms_suggested_effective_from :: "date option"
  ms_suggested_supersedes_version_id :: "uuid option"
  ms_confidence :: "rat option"
  ms_evidence :: "string list"

definition suggestion_json :: "MetadataSuggestion \<Rightarrow> json" where
  "suggestion_json m = JObj
     [(''suggested_project_id'', opt_str (map_option uuid_str (ms_suggested_project_id m))),
      (''suggested_document_category'', opt_str (ms_suggested_document_category m)),
      (''suggested_version_label'', opt_str (ms_suggested_version_label m)),
      (''suggested_authority_level'', opt_str (ms_suggested_authority_level m)),
      (''suggested_effective_from'', opt_str (map_option isoformat (ms_suggested_effective_from m))),
      (''suggested_supersedes_version_id'',
         opt_str (map_option uuid_str (ms_suggested_supersedes_version_id m))),
      (''confidence'', (case ms_confidence m of None \<Rightarrow> JNull | Some c \<Rightarrow> JFloat c)),
      (''evidence'', JArr (map JStr (ms_evidence m)))]"

record UploadDocumentCommand =
  uc_company_id :: uuid
  uc_project_id :: uuid
  uc_document_id :: "uuid option"
  uc_document_category :: DocumentCategory
  uc_title :: string
  uc_version_label :: string
  uc_authority_level :: AuthorityLevel
  uc_filename :: string
  uc_data :: string
  uc_mime_type :: string
  uc_owner_user_id :: "uuid option"
  uc_effective_from :: "date option"
  uc_effective_to :: "date option"
  uc_supersedes_version_id :: "uuid option"
  uc_actor :: DocumentActor
  uc_suggestion :: "MetadataSuggestion option"

text \<open>\<open>uuid4().hex\<close>: the UUID without dashes.\<close>

definition uuid_hex :: "uuid \<Rightarrow> string" where
  "uuid_hex u = filter (\<lambda>c. c \<noteq> CHR ''-'') (uuid_str u)"

definition upload_draft :: "StoredObject \<Rightarrow> UploadDocumentCommand \<Rightarrow> CreateDocumentDraft" where
  "upload_draft stored c =
     \<lparr>cd_company_id = uc_company_id c, cd_project_id = uc_project_id c,
      cd_document_id = uc_document_id c,
      cd_document_category = DocumentCategory_value (uc_document_category c),
      cd_title = uc_title c, cd_version_label = uc_version_label c,
      cd_authority_level = AuthorityLevel_value (uc_authority_level c),
      cd_owner_user_id = uc_owner_user_id c, cd_created_by = ac_user_id (uc_actor c),
      cd_source_uri = so_object_key stored, cd_content_hash = so_sha256 stored,
      cd_effective_from = uc_effective_from c, cd_effective_to = uc_effective_to c,
      cd_supersedes_version_id = uc_supersedes_version_id c\<rparr>"

definition upload_audit :: "UploadDocumentCommand \<Rightarrow> uuid \<Rightarrow> DocumentAuditRecord" where
  "upload_audit c version_id =
     \<lparr>da_action = ''document_metadata_confirmed'', da_project_id = uc_project_id c,
      da_version_id = version_id, da_user_id = Some (ac_user_id (uc_actor c)),
      da_outcome = ''success'',
      da_details =
        [(''filename'', JStr (uc_filename c)),
         (''suggestion'', (case uc_suggestion c of None \<Rightarrow> JNull | Some m \<Rightarrow> suggestion_json m)),
         (''suggestion_confidence'',
            (case Option.bind (uc_suggestion c) ms_confidence of
               None \<Rightarrow> JNull | Some q \<Rightarrow> JFloat q)),
         (''final'', JObj
            [(''project_id'', JStr (uuid_str (uc_project_id c))),
             (''document_category'', JStr (DocumentCategory_value (uc_document_category c))),
             (''title'', JStr (uc_title c)),
             (''version_label'', JStr (uc_version_label c)),
             (''authority_level'', JStr (AuthorityLevel_value (uc_authority_level c))),
             (''effective_from'', opt_str (map_option isoformat (uc_effective_from c))),
             (''effective_to'', opt_str (map_option isoformat (uc_effective_to c))),
             (''supersedes_version_id'', opt_str (map_option uuid_str (uc_supersedes_version_id c)))]),
         (''confirmed_by'', JStr (uuid_str (ac_user_id (uc_actor c))))]\<rparr>"

definition upload_document ::
  "object_put \<Rightarrow> uuid \<Rightarrow> uuid \<Rightarrow> uuid \<Rightarrow> UploadDocumentCommand \<Rightarrow> DocumentVersionRecord doc_op" where
  "upload_document put new_key new_doc new_version c =
     bind_op (of_res (put \<lparr>po_project_id = uuid_str (uc_project_id c),
         po_object_key = ''objects/'' @ uuid_hex new_key,
         po_data = uc_data c, po_mime_type = uc_mime_type c\<rparr>)) (\<lambda>stored.
       bind_op (on_working (create_draft new_doc new_version (upload_draft stored c))) (\<lambda>rcd.
         if vr_lifecycle_status rcd \<noteq> DRAFT
         then raise_op (RuntimeError ''upload repository must create DRAFT only'')
         else bind_op (on_working (add_audit (upload_audit c (vr_version_id rcd))))
           (\<lambda>_. return_op rcd)))"

section \<open>application/use_cases/review_document.py\<close>

definition simple_audit :: "string \<Rightarrow> uuid \<Rightarrow> uuid \<Rightarrow> uuid \<Rightarrow> payload \<Rightarrow> DocumentAuditRecord" where
  "simple_audit action project_id version_id user_id details =
     \<lparr>da_action = action, da_project_id = project_id, da_version_id = version_id,
      da_user_id = Some user_id, da_outcome = ''success'', da_details = details\<rparr>"

definition submit_review :: "uuid \<Rightarrow> DocumentActor \<Rightarrow> DocumentVersionRecord doc_op" where
  "submit_review version_id actor =
     bind_op (on_working (read_op (get_version version_id))) (\<lambda>current.
       if \<not> (ac_user_id actor = vr_created_by current \<or>
             Some (ac_user_id actor) = vr_owner_user_id current) \<and>
          ''submit_review'' \<notin> set (ac_permissions actor)
       then raise_op (DocumentPermissionDenied ''actor cannot submit this document for review'')
       else bind_op (on_working (transition version_id DRAFT UNDER_REVIEW)) (\<lambda>updated.
         bind_op (on_working (add_audit (simple_audit ''document_submitted_for_review''
             (vr_project_id current) version_id (ac_user_id actor) [])))
           (\<lambda>_. return_op updated)))"

definition approve_document :: "uuid \<Rightarrow> DocumentActor \<Rightarrow> DocumentVersionRecord doc_op" where
  "approve_document version_id actor =
     bind_op (on_working (read_op (get_version version_id))) (\<lambda>current.
       if vr_owner_user_id current \<noteq> Some (ac_user_id actor)
       then raise_op (DocumentPermissionDenied ''only the document owner can approve the document'')
       else bind_op (on_working (transition version_id UNDER_REVIEW APPROVED)) (\<lambda>updated.
         bind_op (on_working (add_audit (simple_audit ''document_approved''
             (vr_project_id current) version_id (ac_user_id actor) [])))
           (\<lambda>_. return_op updated)))"

section \<open>application/use_cases/publish_document.py\<close>

definition failed_audit ::
  "DocumentVersionRecord \<Rightarrow> DocumentActor \<Rightarrow> string option \<Rightarrow> DocumentAuditRecord" where
  "failed_audit current actor code =
     \<lparr>da_action = ''document_publication_failed'', da_project_id = vr_project_id current,
      da_version_id = vr_version_id current, da_user_id = Some (ac_user_id actor),
      da_outcome = ''failed'', da_details = [(''error_code'', opt_str code)]\<rparr>"

definition publish_finalize ::
  "ingestion_status \<Rightarrow> datetime \<Rightarrow> DocumentVersionRecord \<Rightarrow> string \<Rightarrow> DocumentActor \<Rightarrow>
   DocumentVersionRecord doc_op" where
  "publish_finalize get_status now current job_id actor =
     bind_op (of_res (get_status job_id)) (\<lambda>status.
       if ks_state status = ING_FAILED
       then bind_op (on_working (add_audit (failed_audit current actor (ks_error_code status)))) (\<lambda>_.
         bind_op (modify_op commit) (\<lambda>_.
           raise_op (DocumentPublishFailed
             (case ks_error_code status of
                None \<Rightarrow> ''knowledge ingestion failed''
              | Some code \<Rightarrow> if code = [] then ''knowledge ingestion failed'' else code))))
       else if ks_state status \<noteq> ING_SUCCEEDED then raise_op (DocumentPublishPending job_id)
       else bind_op (on_working (complete_publication now (vr_version_id current)
           (vr_supersedes_version_id current))) (\<lambda>published.
         bind_op (on_working (add_audit (simple_audit ''document_published'' (vr_project_id current)
             (vr_version_id current) (ac_user_id actor)
             [(''supersedes_version_id'',
                opt_str (map_option uuid_str (vr_supersedes_version_id current)))])))
           (\<lambda>_. return_op published)))"

definition ingestion_request :: "DocumentVersionRecord \<Rightarrow> string \<Rightarrow> string \<Rightarrow> KnowledgeIngestionRequest" where
  "ingestion_request current code space =
     \<lparr>ki_project_id = code, ki_knowledge_space_id = space,
      ki_document_version_id = uuid_str (vr_version_id current),
      ki_object_key = vr_source_uri current,
      ki_metadata =
        [(''filename'', vr_title current), (''document_category'', vr_document_category current),
         (''version_label'', vr_version_label current),
         (''authority_level'', vr_authority_level current)]\<rparr>"

definition publish_document ::
  "knowledge_ingest \<Rightarrow> ingestion_status \<Rightarrow> datetime \<Rightarrow> uuid \<Rightarrow> DocumentActor \<Rightarrow>
   DocumentVersionRecord doc_op" where
  "publish_document ingest get_status now version_id actor =
     (if ''publish_document'' \<notin> set (ac_permissions actor)
      then raise_op (DocumentPermissionDenied ''publish_document permission is required'')
      else bind_op (on_working (read_op (get_version version_id))) (\<lambda>current.
        if vr_lifecycle_status current \<noteq> APPROVED
        then raise_op (ValueError ''only APPROVED documents can be published'')
        else bind_op (on_working (read_op (project_code (vr_project_id current)))) (\<lambda>code.
          bind_op (on_working (read_op (knowledge_space_id (vr_project_id current)))) (\<lambda>space.
            bind_op (of_res (ingest (ingestion_request current code space))) (\<lambda>job_id.
              bind_op (on_working (add_audit (simple_audit ''document_publication_submitted''
                  (vr_project_id current) (vr_version_id current) (ac_user_id actor)
                  [(''ingestion_job_id'', JStr job_id)]))) (\<lambda>_.
                bind_op (modify_op commit) (\<lambda>_.
                  publish_finalize get_status now current job_id actor)))))))"

definition finalize_document ::
  "ingestion_status \<Rightarrow> datetime \<Rightarrow> uuid \<Rightarrow> string \<Rightarrow> DocumentActor \<Rightarrow> DocumentVersionRecord doc_op" where
  "finalize_document get_status now version_id job_id actor =
     (if ''publish_document'' \<notin> set (ac_permissions actor)
      then raise_op (DocumentPermissionDenied ''publish_document permission is required'')
      else bind_op (on_working (read_op (get_version version_id))) (\<lambda>current.
        if vr_lifecycle_status current \<noteq> APPROVED
        then raise_op (ValueError ''only APPROVED documents can complete publication'')
        else publish_finalize get_status now current job_id actor))"

section \<open>application/use_cases/delete_document.py\<close>

text \<open>The provider cleanup that follows the commit.\<close>

definition delete_cleanup :: "knowledge_delete \<Rightarrow> DocumentVersionRecord \<Rightarrow> unit doc_op" where
  "delete_cleanup provider_delete current =
     bind_op (on_working (read_op (project_code (vr_project_id current)))) (\<lambda>code.
       bind_op (on_working (read_op (knowledge_space_id (vr_project_id current)))) (\<lambda>space.
         of_res (provider_delete \<lparr>dk_project_id = code,
           dk_document_version_id = uuid_str (vr_version_id current),
           dk_knowledge_space_id = space\<rparr>)))"

definition delete_document :: "knowledge_delete \<Rightarrow> uuid \<Rightarrow> DocumentActor \<Rightarrow> DocumentVersionRecord doc_op" where
  "delete_document provider_delete version_id actor =
     (if ''archive_document'' \<notin> set (ac_permissions actor)
      then raise_op (DocumentPermissionDenied ''archive_document permission is required'')
      else bind_op (on_working (read_op (get_version version_id))) (\<lambda>current.
        bind_op (on_working (transition version_id (vr_lifecycle_status current) DELETE_PENDING))
          (\<lambda>pending.
          bind_op (on_working (add_audit (simple_audit ''document_delete_pending''
              (vr_project_id current) version_id (ac_user_id actor) []))) (\<lambda>_.
            bind_op (modify_op commit) (\<lambda>_.
              bind_op (delete_cleanup provider_delete current) (\<lambda>_. return_op pending))))))"

end
