(* ===== verification/DocumentProofs.thy ===== *)
theory DocumentProofs
  imports Documents
begin

text \<open>
  Correctness of the document workflow. Each request that the API serves in its own session is
  shown to act on the committed tables as a short sequence of effects: an audit entry, a new draft,
  one allowed status change with its audit entry, or a publication. The invariant and the lifecycle
  properties follow from the effects.
\<close>

section \<open>Requests\<close>

inductive doc_request :: "doc_db \<Rightarrow> doc_db \<Rightarrow> bool" where
  req_upload:
    "new_doc \<notin> do_id ` set (documents db) \<Longrightarrow> new_version \<notin> dv_id ` set (versions db) \<Longrightarrow>
     doc_request db (snd (with_session (upload_document put new_key new_doc new_version c) db))"
| req_submit: "doc_request db (snd (with_session (submit_review version_id actor) db))"
| req_approve: "doc_request db (snd (with_session (approve_document version_id actor) db))"
| req_publish:
    "doc_request db (snd (with_session (publish_document ingest get_status now version_id actor) db))"
| req_finalize:
    "doc_request db
       (snd (with_session (finalize_document get_status now version_id job_id actor) db))"
| req_delete: "doc_request db (snd (with_session (delete_document provider version_id actor) db))"

inductive_cases doc_requestE: "doc_request db db'"

section \<open>Effects on the tables\<close>

definition audited :: "DocumentAuditRecord \<Rightarrow> doc_db \<Rightarrow> doc_db" where
  "audited a db = db\<lparr>audit_logs := audit_logs db @ [audit_row a]\<rparr>"

fun move_action :: "DocumentLifecycleStatus \<Rightarrow> string" where
  "move_action UNDER_REVIEW = ''document_submitted_for_review''"
| "move_action APPROVED = ''document_approved''"
| "move_action _ = ''document_delete_pending''"

inductive doc_effect :: "doc_db \<Rightarrow> doc_db \<Rightarrow> bool" where
  eff_audit: "doc_effect db (audited a db)"
| eff_draft:
    "draft_target new_doc draft db = (Inr d, db') \<Longrightarrow> new_doc \<notin> do_id ` set (documents db) \<Longrightarrow>
     new_version \<notin> dv_id ` set (versions db) \<Longrightarrow>
     v = draft_version new_version (do_id d) (next_version_no (do_id d) db') draft \<Longrightarrow>
     (dv_supersedes_version_id v \<noteq> None \<longrightarrow>
        row_by dv_id (the (dv_supersedes_version_id v)) (versions db') \<noteq> None) \<Longrightarrow>
     doc_effect db (db'\<lparr>versions := versions db' @ [v]\<rparr>)"
| eff_move:
    "load_version version_id db = Inr (d, v) \<Longrightarrow>
     can_transition_document (dv_lifecycle_status v) t \<Longrightarrow> t \<in> {UNDER_REVIEW, APPROVED, DELETE_PENDING} \<Longrightarrow>
     (t = APPROVED \<longrightarrow> do_owner_user_id d = Some u) \<Longrightarrow>
     doc_effect db (audited (simple_audit (move_action t) (do_project_id d) version_id u [])
                      (set_version_status version_id t db))"
| eff_publish:
    "load_version version_id db = Inr (d, v) \<Longrightarrow> dv_lifecycle_status v = APPROVED \<Longrightarrow>
     load_superseded d (dv_supersedes_version_id v) db = Inr old \<Longrightarrow>
     doc_effect db (audited (simple_audit ''document_published'' (do_project_id d) version_id u details)
                      (publish_rows now version_id old db))"

inductive_cases doc_effectE: "doc_effect db db'"

section \<open>What the repository operations do\<close>

lemma to_record_Inr:
  assumes "to_record d v = Inr x"
  shows "vr_project_id x = do_project_id d \<and> vr_version_id x = dv_id v \<and>
    vr_lifecycle_status x = dv_lifecycle_status v \<and> vr_owner_user_id x = do_owner_user_id d \<and>
    vr_supersedes_version_id x = dv_supersedes_version_id v \<and> vr_created_by x = dv_created_by v"
  using assms by (auto simp: to_record_def split: option.splits)

lemma load_version_Inr:
  "load_version version_id db = Inr (d, v) \<longleftrightarrow>
     row_by dv_id version_id (versions db) = Some v \<and>
     row_by do_id (dv_document_id v) (documents db) = Some d"
  by (auto simp: load_version_def split: option.splits)

lemma load_version_id: "load_version version_id db = Inr (d, v) \<Longrightarrow> dv_id v = version_id"
  by (auto simp: load_version_Inr dest: row_by_SomeD)

lemma get_version_Inr:
  "get_version version_id db = Inr x \<longleftrightarrow>
     (\<exists>d v. load_version version_id db = Inr (d, v) \<and> to_record d v = Inr x)"
  by (auto simp: get_version_def bind_res_Inr_iff)

lemma transition_Inr:
  "transition version_id expected target db = (Inr x, db') \<longleftrightarrow>
     (\<exists>d v. load_version version_id db = Inr (d, v) \<and> dv_lifecycle_status v = expected \<and>
        can_transition_document expected target \<and> db' = set_version_status version_id target db \<and>
        to_record d (v\<lparr>dv_lifecycle_status := target\<rparr>) = Inr x)"
  by (auto simp: transition_def transition_document_status_def split: if_splits sum.splits)

lemma complete_publication_Inr:
  "complete_publication now version_id supersedes db = (Inr x, db') \<longleftrightarrow>
     (\<exists>d v old. load_version version_id db = Inr (d, v) \<and> dv_lifecycle_status v = APPROVED \<and>
        load_superseded d supersedes db = Inr old \<and> db' = publish_rows now version_id old db \<and>
        to_record d (v\<lparr>dv_lifecycle_status := PUBLISHED, dv_published_at := Some now\<rparr>) = Inr x)"
  by (auto simp: complete_publication_def split: if_splits sum.splits)

lemma add_audit_simp [simp]: "add_audit a db = (Inr (), audited a db)"
  by (simp add: add_audit_def audited_def)

lemma bind_add_audit [simp]:
  "bind_op (on_working (add_audit a)) f s = f () (s\<lparr>working := audited a (working s)\<rparr>)"
  by (simp add: bind_op_def on_working_def)

lemma bind_read_working [simp]:
  "bind_op (on_working (read_op g)) f s =
     (case g (working s) of Inl e \<Rightarrow> (Inl e, s) | Inr x \<Rightarrow> f x s)"
  by (simp add: bind_op_def on_working_def split: sum.splits)

lemma bind_on_working_Inr:
  "bind_op (on_working m) f s = (Inr y, t) \<longleftrightarrow>
     (\<exists>x d. m (working s) = (Inr x, d) \<and> f x (s\<lparr>working := d\<rparr>) = (Inr y, t))"
  by (auto simp: bind_op_Inr_iff on_working_iff)

lemma bind_on_working_Inl:
  "bind_op (on_working m) f s = (Inl e, t) \<longleftrightarrow>
     (\<exists>d. m (working s) = (Inl e, d) \<and> t = s\<lparr>working := d\<rparr>) \<or>
     (\<exists>x d. m (working s) = (Inr x, d) \<and> f x (s\<lparr>working := d\<rparr>) = (Inl e, t))"
  by (auto simp: bind_op_Inl_iff on_working_iff)

lemmas bind_on_working = bind_on_working_Inr bind_on_working_Inl

section \<open>Requests act by effects\<close>

text \<open>What a session leaves committed after its request: its working copy if the request returned,
  and what was committed on the way if it raised.\<close>

definition left_committed :: "'a res \<Rightarrow> doc_db session \<Rightarrow> doc_db" where
  "left_committed r s = (case r of Inl _ \<Rightarrow> committed s | Inr _ \<Rightarrow> working s)"

lemma with_session_left:
  "body (begin_session db) = (r, s) \<Longrightarrow> snd (with_session body db) = left_committed r s"
  by (cases r) (simp_all add: with_session_def left_committed_def)

lemma submit_review_effect:
  assumes "submit_review version_id actor s = (r, s')" and "committed s = working s"
  shows "doc_effect\<^sup>*\<^sup>* (working s) (left_committed r s')"
proof (cases r)
  case (Inl e)
  then show ?thesis using assms
    by (auto simp: submit_review_def left_committed_def bind_on_working split: sum.splits if_splits)
next
  case (Inr x)
  then obtain d v where "load_version version_id (working s) = Inr (d, v)"
      "dv_lifecycle_status v = DRAFT"
      "working s' = audited (simple_audit (move_action UNDER_REVIEW) (do_project_id d) version_id
         (ac_user_id actor) []) (set_version_status version_id UNDER_REVIEW (working s))"
    using assms(1)
    by (auto simp: submit_review_def bind_on_working get_version_Inr transition_Inr
        dest!: to_record_Inr split: sum.splits if_splits)
  then have "doc_effect (working s) (working s')"
    using eff_move [of version_id "working s" d v UNDER_REVIEW "ac_user_id actor"]
    by (simp add: can_transition_document_def)
  then show ?thesis using Inr by (simp add: left_committed_def)
qed

lemma approve_document_effect:
  assumes "approve_document version_id actor s = (r, s')" and "committed s = working s"
  shows "doc_effect\<^sup>*\<^sup>* (working s) (left_committed r s')"
proof (cases r)
  case (Inl e)
  then show ?thesis using assms
    by (auto simp: approve_document_def left_committed_def bind_on_working
        split: sum.splits if_splits)
next
  case (Inr x)
  then obtain d v where "load_version version_id (working s) = Inr (d, v)"
      "dv_lifecycle_status v = UNDER_REVIEW" "do_owner_user_id d = Some (ac_user_id actor)"
      "working s' = audited (simple_audit (move_action APPROVED) (do_project_id d) version_id
         (ac_user_id actor) []) (set_version_status version_id APPROVED (working s))"
    using assms(1)
    by (auto simp: approve_document_def bind_on_working get_version_Inr transition_Inr
        dest!: to_record_Inr split: sum.splits if_splits)
  then have "doc_effect (working s) (working s')"
    using eff_move [of version_id "working s" d v APPROVED "ac_user_id actor"]
    by (simp add: can_transition_document_def)
  then show ?thesis using Inr by (simp add: left_committed_def)
qed

lemma delete_cleanup_state: "delete_cleanup provider current s = (r, s') \<Longrightarrow> s' = s"
  by (auto simp: delete_cleanup_def split: sum.splits)

lemma delete_document_cases:
  assumes "delete_document provider version_id actor s = (r, s')"
  shows "(\<exists>e. r = Inl e) \<and> committed s' = committed s \<or>
    (\<exists>d v. load_version version_id (working s) = Inr (d, v) \<and>
       can_transition_document (dv_lifecycle_status v) DELETE_PENDING \<and>
       working s' = audited (simple_audit (move_action DELETE_PENDING) (do_project_id d)
         version_id (ac_user_id actor) []) (set_version_status version_id DELETE_PENDING (working s)) \<and>
       committed s' = working s')"
  using assms
  by (cases r)
    (auto simp: delete_document_def bind_op_Inr_iff bind_op_Inl_iff on_working_iff get_version_Inr
      transition_Inr dest!: to_record_Inr delete_cleanup_state split: sum.splits if_splits)

lemma delete_document_effect:
  assumes "delete_document provider version_id actor s = (r, s')" and "committed s = working s"
  shows "doc_effect\<^sup>*\<^sup>* (working s) (left_committed r s')"
  using delete_document_cases [OF assms(1)] assms(2)
    eff_move [of version_id "working s" _ _ DELETE_PENDING "ac_user_id actor"]
  by (auto simp: left_committed_def split: sum.splits)

lemma publish_finalize_cases:
  assumes "publish_finalize get_status now current job_id actor s = (r, s')"
  shows "(\<exists>e. r = Inl e) \<and> committed s' = committed s \<or>
    (\<exists>st. get_status job_id = Inr st \<and> ks_state st = ING_FAILED \<and> (\<exists>e. r = Inl (DocumentPublishFailed e)) \<and>
       committed s' = audited (failed_audit current actor (ks_error_code st)) (working s)) \<or>
    (\<exists>st d v old x. get_status job_id = Inr st \<and> ks_state st = ING_SUCCEEDED \<and> r = Inr x \<and>
       load_version (vr_version_id current) (working s) = Inr (d, v) \<and>
       dv_lifecycle_status v = APPROVED \<and>
       load_superseded d (vr_supersedes_version_id current) (working s) = Inr old \<and>
       working s' = audited (simple_audit ''document_published'' (vr_project_id current)
             (vr_version_id current) (ac_user_id actor)
             [(''supersedes_version_id'',
                opt_str (map_option uuid_str (vr_supersedes_version_id current)))])
           (publish_rows now (vr_version_id current) old (working s)))"
  using assms
  by (cases "get_status job_id"; cases r)
    (auto simp: publish_finalize_def bind_op_Inr_iff bind_op_Inl_iff on_working_iff
      complete_publication_Inr split: if_splits)

lemma publish_finalize_effect:
  assumes "publish_finalize get_status now current job_id actor s = (r, s')"
    and "committed s = working s"
    and "load_version version_id (working s) = Inr (d, v)" and "to_record d v = Inr current"
  shows "doc_effect\<^sup>*\<^sup>* (working s) (left_committed r s')"
proof -
  have c: "vr_version_id current = version_id" "vr_project_id current = do_project_id d"
      "vr_supersedes_version_id current = dv_supersedes_version_id v"
    using to_record_Inr [OF assms(4)] load_version_id [OF assms(3)] by auto
  show ?thesis
    using publish_finalize_cases [OF assms(1)]
  proof (elim disjE exE conjE)
    fix st d' v' old x
    assume "r = Inr x" "load_version (vr_version_id current) (working s) = Inr (d', v')"
      "dv_lifecycle_status v' = APPROVED"
      "load_superseded d' (vr_supersedes_version_id current) (working s) = Inr old"
      "working s' = audited (simple_audit ''document_published'' (vr_project_id current)
             (vr_version_id current) (ac_user_id actor)
             [(''supersedes_version_id'',
                opt_str (map_option uuid_str (vr_supersedes_version_id current)))])
           (publish_rows now (vr_version_id current) old (working s))"
    then have "doc_effect (working s) (working s')"
      using assms(3) eff_publish [of version_id "working s" d v old] by (simp add: c)
    with \<open>r = Inr x\<close> show ?thesis by (simp add: left_committed_def)
  qed (auto simp: left_committed_def assms(2) intro: r_into_rtranclp eff_audit)
qed

lemma publish_document_effect:
  assumes "publish_document ingest get_status now version_id actor s = (r, s')"
    and "committed s = working s"
  shows "doc_effect\<^sup>*\<^sup>* (working s) (left_committed r s')"
proof -
  let ?sub = "\<lambda>(current :: DocumentVersionRecord) job. simple_audit ''document_publication_submitted'' (vr_project_id current)
      (vr_version_id current) (ac_user_id actor) [(''ingestion_job_id'', JStr job)]"
  have "(\<exists>e. r = Inl e) \<and> s' = s \<or>
    (\<exists>d v current job. load_version version_id (working s) = Inr (d, v) \<and>
       to_record d v = Inr current \<and>
       publish_finalize get_status now current job actor
         (commit (s\<lparr>working := audited (?sub current job) (working s)\<rparr>)) = (r, s'))"
  proof (cases "get_version version_id (working s)")
    case (Inl e)
    then show ?thesis using assms(1) [symmetric] by (auto simp: publish_document_def split: if_splits)
  next
    case (Inr current)
    then obtain d v where dv: "load_version version_id (working s) = Inr (d, v)"
        "to_record d v = Inr current"
      by (auto simp: get_version_Inr)
    show ?thesis using assms(1) Inr dv
      by (auto simp: publish_document_def bind_of_res simp del: not_None_eq
          split: if_splits sum.splits)
  qed
  then show ?thesis
  proof (elim disjE exE conjE)
    fix d v and current :: DocumentVersionRecord and job
    let ?s = "commit (s\<lparr>working := audited (?sub current job) (working s)\<rparr>)"
    assume v: "load_version version_id (working s) = Inr (d, v)" "to_record d v = Inr current"
      and fin: "publish_finalize get_status now current job actor ?s = (r, s')"
    have "load_version version_id (working ?s) = Inr (d, v)"
      using v(1) by (simp add: load_version_Inr audited_def)
    then have "doc_effect\<^sup>*\<^sup>* (working ?s) (left_committed r s')"
      by (intro publish_finalize_effect [OF fin _ _ v(2)]) simp_all
    moreover have "doc_effect (working s) (working ?s)" by (simp add: eff_audit)
    ultimately show ?thesis by (rule converse_rtranclp_into_rtranclp [rotated])
  qed (auto simp: left_committed_def assms(2))
qed

lemma finalize_document_effect:
  assumes "finalize_document get_status now version_id job_id actor s = (r, s')"
    and "committed s = working s"
  shows "doc_effect\<^sup>*\<^sup>* (working s) (left_committed r s')"
proof -
  have "(\<exists>e. r = Inl e) \<and> s' = s \<or>
    (\<exists>d v current. load_version version_id (working s) = Inr (d, v) \<and>
       to_record d v = Inr current \<and>
       publish_finalize get_status now current job_id actor s = (r, s'))"
  proof (cases "get_version version_id (working s)")
    case (Inl e)
    then show ?thesis using assms(1) [symmetric] by (auto simp: finalize_document_def split: if_splits)
  next
    case (Inr current)
    then obtain d v where dv: "load_version version_id (working s) = Inr (d, v)"
        "to_record d v = Inr current"
      by (auto simp: get_version_Inr)
    show ?thesis using assms(1) Inr dv by (auto simp: finalize_document_def split: if_splits)
  qed
  then show ?thesis
    using publish_finalize_effect [OF _ assms(2)] assms(2) by (auto simp: left_committed_def)
qed

lemma create_draft_Inr:
  assumes "create_draft new_doc new_version draft db = (Inr x, db')"
  obtains d db1 where "draft_target new_doc draft db = (Inr d, db1)"
    "(cd_supersedes_version_id draft \<noteq> None \<longrightarrow>
       row_by dv_id (the (cd_supersedes_version_id draft)) (versions db1) \<noteq> None)"
    "db' = db1\<lparr>versions := versions db1 @
       [draft_version new_version (do_id d) (next_version_no (do_id d) db1) draft]\<rparr>"
    "to_record d (draft_version new_version (do_id d) (next_version_no (do_id d) db1) draft) = Inr x"
  using assms
  by (auto simp: create_draft_def bind_op_Inr_iff insert_version_def Let_def draft_version_def
      split: if_splits)

lemma upload_document_effect:
  assumes "upload_document put new_key new_doc new_version c s = (r, s')"
    and "committed s = working s" and "new_doc \<notin> do_id ` set (documents (working s))"
    and "new_version \<notin> dv_id ` set (versions (working s))"
  shows "doc_effect\<^sup>*\<^sup>* (working s) (left_committed r s')"
proof (cases r)
  case (Inl e)
  then have "committed s' = committed s"
    using assms(1)
    by (auto simp: upload_document_def bind_op_Inl_iff on_working_iff split: if_splits)
  then show ?thesis using Inl assms(2) by (simp add: left_committed_def)
next
  case (Inr x)
  then obtain draft db' y a where cd: "create_draft new_doc new_version draft (working s) = (Inr y, db')"
      and s': "working s' = audited a db'"
    using assms(1)
    by (auto simp: upload_document_def bind_op_Inr_iff on_working_iff split: if_splits)
  have "doc_effect (working s) db'"
    using cd by (rule create_draft_Inr)
      (auto intro!: eff_draft [OF _ assms(3,4)] simp: draft_version_def)
  then show ?thesis
    using Inr s' eff_audit [of db' a] by (auto simp: left_committed_def)
qed

lemma doc_request_effects: "doc_request db db' \<Longrightarrow> doc_effect\<^sup>*\<^sup>* db db'"
proof (induction rule: doc_request.induct)
  case (req_upload new_doc db new_version put new_key c)
  then show ?case
    by (cases "upload_document put new_key new_doc new_version c (begin_session db)")
      (auto simp: with_session_left dest!: upload_document_effect)
next
  case (req_submit db version_id actor)
  then show ?case
    by (cases "submit_review version_id actor (begin_session db)")
      (auto simp: with_session_left dest!: submit_review_effect)
next
  case (req_approve db version_id actor)
  then show ?case
    by (cases "approve_document version_id actor (begin_session db)")
      (auto simp: with_session_left dest!: approve_document_effect)
next
  case (req_publish db ingest get_status now version_id actor)
  then show ?case
    by (cases "publish_document ingest get_status now version_id actor (begin_session db)")
      (auto simp: with_session_left dest!: publish_document_effect)
next
  case (req_finalize db get_status now version_id job_id actor)
  then show ?case
    by (cases "finalize_document get_status now version_id job_id actor (begin_session db)")
      (auto simp: with_session_left dest!: finalize_document_effect)
next
  case (req_delete db provider version_id actor)
  then show ?case
    by (cases "delete_document provider version_id actor (begin_session db)")
      (auto simp: with_session_left dest!: delete_document_effect)
qed

section \<open>The invariant of the workflow tables\<close>

definition audit_of :: "string \<Rightarrow> uuid \<Rightarrow> AuditLogModel \<Rightarrow> bool" where
  "audit_of action version_id a \<longleftrightarrow>
     al_action a = action \<and> al_resource_id a = Some (uuid_str version_id)"

text \<open>A version that is approved or beyond was approved by the owner of its document, and one that
  is or was published has a publication time and a publication entry; both are in the audit log.\<close>

definition version_ok :: "DocumentModel list \<Rightarrow> AuditLogModel list \<Rightarrow> DocumentVersionModel \<Rightarrow> bool" where
  "version_ok docs audits v \<longleftrightarrow>
     (\<exists>d\<in>set docs. do_id d = dv_document_id v \<and>
        (dv_lifecycle_status v \<in> {APPROVED, PUBLISHED, SUPERSEDED} \<longrightarrow>
           (\<exists>u. do_owner_user_id d = Some u \<and>
              (\<exists>a\<in>set audits. audit_of ''document_approved'' (dv_id v) a \<and> al_user_id a = Some u)))) \<and>
     (dv_lifecycle_status v \<in> {PUBLISHED, SUPERSEDED} \<longrightarrow>
        dv_published_at v \<noteq> None \<and> (\<exists>a\<in>set audits. audit_of ''document_published'' (dv_id v) a))"

definition version_numbers :: "uuid \<Rightarrow> DocumentVersionModel list \<Rightarrow> int list" where
  "version_numbers document_id vs = map dv_version_no (filter (\<lambda>v. dv_document_id v = document_id) vs)"

definition docs_ok :: "doc_db \<Rightarrow> bool" where
  "docs_ok db \<longleftrightarrow>
     distinct (map do_id (documents db)) \<and> distinct (map dv_id (versions db)) \<and>
     (\<forall>document_id. version_numbers document_id (versions db) =
        map int [1..<Suc (length (version_numbers document_id (versions db)))]) \<and>
     (\<forall>v\<in>set (versions db). version_ok (documents db) (audit_logs db) v)"

lemma version_ok_mono:
  "version_ok docs audits v \<Longrightarrow> set docs \<subseteq> set docs' \<Longrightarrow> set audits \<subseteq> set audits' \<Longrightarrow>
   version_ok docs' audits' v"
  unfolding version_ok_def by blast

lemma docs_okD:
  assumes "docs_ok db"
  shows "distinct (map do_id (documents db))" "distinct (map dv_id (versions db))"
    "v \<in> set (versions db) \<Longrightarrow> version_ok (documents db) (audit_logs db) v"
  using assms by (simp_all add: docs_ok_def)

lemma same_version:
  "docs_ok db \<Longrightarrow> v \<in> set (versions db) \<Longrightarrow> w \<in> set (versions db) \<Longrightarrow> dv_id v = dv_id w \<Longrightarrow> v = w"
  using docs_okD(2) by (metis distinct_map inj_onD)

lemma Max_one_to: "0 < n \<Longrightarrow> Max (set (map int [1..<Suc n])) = int n"
  by (intro Max_eqI) auto

lemma one_to_snoc: "map int [1..<Suc n] @ [int (Suc n)] = map int [1..<Suc (Suc n)]"
  by simp

lemma next_version_no_eq:
  assumes "docs_ok db"
  shows "next_version_no d db = int (Suc (length (version_numbers d (versions db))))"
proof -
  let ?n = "length (version_numbers d (versions db))"
  have nos: "version_numbers d (versions db) = map int [1..<Suc ?n]"
    using assms unfolding docs_ok_def by blast
  have "Max (set (version_numbers d (versions db))) = int ?n" if "?n \<noteq> 0"
    using that Max_one_to [of ?n] arg_cong [OF nos, of "\<lambda>l. Max (set l)"] by simp
  moreover have "version_numbers d (versions db) = [] \<longleftrightarrow> ?n = 0" by simp
  ultimately show ?thesis
    by (simp add: next_version_no_def Let_def version_numbers_def)
qed

lemma version_numbers_snoc:
  assumes "docs_ok db" and "dv_version_no v = next_version_no (dv_document_id v) db"
  shows "version_numbers d (versions db @ [v]) =
    map int [1..<Suc (length (version_numbers d (versions db @ [v])))]"
proof -
  have nos: "version_numbers d (versions db) =
      map int [1..<Suc (length (version_numbers d (versions db)))]"
    using assms(1) unfolding docs_ok_def by blast
  show ?thesis
  proof (cases "dv_document_id v = d")
    case True
    then have snoc: "version_numbers d (versions db @ [v]) =
        version_numbers d (versions db) @ [int (Suc (length (version_numbers d (versions db))))]"
      using assms next_version_no_eq [OF assms(1), of d] by (simp add: version_numbers_def)
    then have "length (version_numbers d (versions db @ [v])) =
        Suc (length (version_numbers d (versions db)))" by simp
    with snoc nos one_to_snoc show ?thesis by metis
  next
    case False
    then have "version_numbers d (versions db @ [v]) = version_numbers d (versions db)"
      by (simp add: version_numbers_def)
    with nos show ?thesis by metis
  qed
qed

lemma version_numbers_update:
  "(\<And>v. p v \<Longrightarrow> dv_document_id (f v) = dv_document_id v \<and> dv_version_no (f v) = dv_version_no v) \<Longrightarrow>
   version_numbers d (update_rows p f vs) = version_numbers d vs"
  by (induction vs) (auto simp: version_numbers_def)

text \<open>Changing the status of rows keeps the invariant when the changed rows are in order.\<close>

lemma docs_ok_update:
  assumes "docs_ok db"
    and db': "versions db' = update_rows p f (versions db)" "documents db' = documents db"
      "set (audit_logs db) \<subseteq> set (audit_logs db')"
    and keep: "\<And>v. p v \<Longrightarrow> dv_id (f v) = dv_id v \<and> dv_document_id (f v) = dv_document_id v \<and>
      dv_version_no (f v) = dv_version_no v"
    and ok: "\<And>v. v \<in> set (versions db) \<Longrightarrow> p v \<Longrightarrow>
      version_ok (documents db) (audit_logs db') (f v)"
  shows "docs_ok db'"
proof -
  have "map dv_id (versions db') = map dv_id (versions db)"
    using keep by (simp add: db' map_update_rows)
  moreover have "version_numbers d (versions db') = version_numbers d (versions db)" for d
    using keep by (simp add: db' version_numbers_update)
  moreover have "version_ok (documents db') (audit_logs db') v" if "v \<in> set (versions db')" for v
    using that ok docs_okD(3) [OF assms(1)] version_ok_mono [OF _ subset_refl db'(3)]
    by (auto simp: db' split: if_splits)
  ultimately show ?thesis using assms(1) by (simp add: docs_ok_def db')
qed

lemma docs_ok_audited: "docs_ok db \<Longrightarrow> docs_ok (audited a db)"
  by (rule docs_ok_update [where p = "\<lambda>_. False" and f = id]) (auto simp: audited_def update_rows_def)

lemma draft_target_Inr:
  assumes "draft_target new_doc draft db = (Inr d, db')"
  shows "d \<in> set (documents db')" and "versions db' = versions db" and "audit_logs db' = audit_logs db"
    and "projects db' = projects db"
    and "documents db' = documents db \<or>
         do_id d = new_doc \<and> documents db' = documents db @ [d]"
  using assms
  by (auto simp: draft_target_def draft_document_def Let_def dest!: row_by_SomeD
      split: option.splits if_splits)

lemma docs_ok_draft:
  assumes "docs_ok db" and "draft_target new_doc draft db = (Inr d, db')"
    and "new_doc \<notin> do_id ` set (documents db)" and "new_version \<notin> dv_id ` set (versions db)"
    and v: "v = draft_version new_version (do_id d) (next_version_no (do_id d) db') draft"
  shows "docs_ok (db'\<lparr>versions := versions db' @ [v]\<rparr>)"
proof -
  note t = draft_target_Inr [OF assms(2)]
  have "next_version_no (do_id d) db' = next_version_no (do_id d) db"
    by (simp add: next_version_no_def t(2))
  then have "version_numbers k (versions db @ [v]) =
      map int [1..<Suc (length (version_numbers k (versions db @ [v])))]" for k
    using version_numbers_snoc [OF assms(1), of v] by (simp add: v draft_version_def)
  moreover have "distinct (map do_id (documents db'))"
    using t(5) docs_okD(1) [OF assms(1)] assms(3) by auto
  moreover have "set (documents db) \<subseteq> set (documents db')" using t(5) by auto
  then have "version_ok (documents db') (audit_logs db') w" if "w \<in> set (versions db)" for w
    using that docs_okD(3) [OF assms(1)] t(3) by (auto intro: version_ok_mono)
  moreover have "version_ok (documents db') (audit_logs db') v"
    using t(1) by (auto simp: version_ok_def v draft_version_def)
  ultimately show ?thesis
    using docs_okD(2) [OF assms(1)] assms(4) t(2)
    by (auto simp: docs_ok_def v draft_version_def)
qed

lemma audited_set: "set (audit_logs (audited a db)) = insert (audit_row a) (set (audit_logs db))"
  by (simp add: audited_def)

lemma docs_ok_move:
  assumes "docs_ok db" and ld: "load_version version_id db = Inr (d, v)"
    and t: "t \<in> {UNDER_REVIEW, APPROVED, DELETE_PENDING}"
      "t = APPROVED \<longrightarrow> do_owner_user_id d = Some u"
  shows "docs_ok (audited (simple_audit (move_action t) (do_project_id d) version_id u [])
    (set_version_status version_id t db))"
proof (rule docs_ok_update [OF assms(1), where p = "\<lambda>v. dv_id v = version_id"
      and f = "\<lambda>v. v\<lparr>dv_lifecycle_status := t\<rparr>"])
  have d: "d \<in> set (documents db)" "do_id d = dv_document_id v" and v: "v \<in> set (versions db)" "dv_id v = version_id"
    using ld by (auto simp: load_version_Inr dest: row_by_SomeD)
  fix w assume "w \<in> set (versions db)" "dv_id w = version_id"
  then have "w = v" using same_version [OF assms(1)] v by simp
  with t d v(2) show "version_ok (documents db)
      (audit_logs (audited (simple_audit (move_action t) (do_project_id d) version_id u [])
        (set_version_status version_id t db))) (w\<lparr>dv_lifecycle_status := t\<rparr>)"
    by (auto simp: version_ok_def audited_set audit_of_def audit_row_def simple_audit_def)
qed (auto simp: audited_def set_version_status_def)

lemma load_superseded_Inr:
  "load_superseded d supersedes db = Inr old \<Longrightarrow>
   old = supersedes \<and> (\<forall>old_id. old = Some old_id \<longrightarrow>
     (\<exists>w\<in>set (versions db). dv_id w = old_id \<and> dv_lifecycle_status w = PUBLISHED \<and>
        dv_document_id w = do_id d))"
  by (auto simp: load_superseded_def bind_res_Inr_iff load_version_Inr dest!: row_by_SomeD
      split: option.splits if_splits)

text \<open>The two updates of a publication as one: the rows differ, since one is approved and the
  other published.\<close>

definition publish_row :: "datetime \<Rightarrow> uuid \<Rightarrow> uuid option \<Rightarrow> DocumentVersionModel \<Rightarrow> DocumentVersionModel" where
  "publish_row now version_id old w =
     (if dv_id w = version_id then w\<lparr>dv_lifecycle_status := PUBLISHED, dv_published_at := Some now\<rparr>
      else if Some (dv_id w) = old then w\<lparr>dv_lifecycle_status := SUPERSEDED\<rparr> else w)"

lemma publish_rows_eq:
  "old \<noteq> Some version_id \<Longrightarrow>
   publish_rows now version_id old db = db\<lparr>versions := map (publish_row now version_id old) (versions db)\<rparr>"
  by (auto simp: publish_rows_def Let_def set_version_status_def update_rows_def publish_row_def
      split: option.splits)

lemma publish_distinct_rows:
  assumes "docs_ok db" and "load_version version_id db = Inr (d, v)"
    and "dv_lifecycle_status v = APPROVED" and "load_superseded d supersedes db = Inr old"
  shows "old \<noteq> Some version_id"
proof
  assume "old = Some version_id"
  then obtain w where "w \<in> set (versions db)" "dv_id w = version_id" "dv_lifecycle_status w = PUBLISHED"
    using load_superseded_Inr [OF assms(4)] by blast
  moreover have "v \<in> set (versions db)" "dv_id v = version_id"
    using assms(2) by (auto simp: load_version_Inr dest: row_by_SomeD)
  ultimately show False using same_version [OF assms(1)] assms(3) by fastforce
qed

lemma version_ok_published:
  assumes "version_ok docs audits v" and "dv_lifecycle_status v = APPROVED"
    and "audit_of ''document_published'' (dv_id v) a" and "set audits' = insert a (set audits)"
  shows "version_ok docs audits' (v\<lparr>dv_lifecycle_status := PUBLISHED, dv_published_at := Some now\<rparr>)"
proof -
  have "version_ok docs audits' v" by (rule version_ok_mono [OF assms(1)]) (auto simp: assms(4))
  with assms(2-4) show ?thesis by (simp add: version_ok_def)
qed

lemma docs_ok_publish:
  assumes "docs_ok db" and ld: "load_version version_id db = Inr (d, v)"
    and "dv_lifecycle_status v = APPROVED" and old: "load_superseded d supersedes db = Inr old"
  shows "docs_ok (audited (simple_audit ''document_published'' (do_project_id d) version_id u details)
    (publish_rows now version_id old db))"
proof (rule docs_ok_update [OF assms(1), where p = "\<lambda>_. True" and f = "publish_row now version_id old"])
  note ne = publish_distinct_rows [OF assms]
  show "versions (audited (simple_audit ''document_published'' (do_project_id d) version_id u details)
      (publish_rows now version_id old db)) = update_rows (\<lambda>_. True) (publish_row now version_id old) (versions db)"
    by (simp add: audited_def publish_rows_eq [OF ne] update_rows_def)
  show "documents (audited (simple_audit ''document_published'' (do_project_id d) version_id u details)
      (publish_rows now version_id old db)) = documents db"
    by (simp add: audited_def publish_rows_eq [OF ne])
  show "set (audit_logs db) \<subseteq> set (audit_logs (audited (simple_audit ''document_published''
      (do_project_id d) version_id u details) (publish_rows now version_id old db)))"
    by (auto simp: audited_def publish_rows_eq [OF ne])
  let ?au = "audit_logs (audited (simple_audit ''document_published'' (do_project_id d) version_id u details)
      (publish_rows now version_id old db))"
  have au: "set ?au = insert (audit_row (simple_audit ''document_published'' (do_project_id d)
      version_id u details)) (set (audit_logs db))"
    by (simp add: audited_def publish_rows_eq [OF ne])
  fix w assume w: "w \<in> set (versions db)"
  have ok: "version_ok (documents db) (audit_logs db) w" by (rule docs_okD(3) [OF assms(1) w])
  have v: "v \<in> set (versions db)" "dv_id v = version_id"
    using ld by (auto simp: load_version_Inr dest: row_by_SomeD)
  consider "w = v" | "dv_id w \<noteq> version_id" "Some (dv_id w) = old" | "dv_id w \<noteq> version_id" "Some (dv_id w) \<noteq> old"
    using same_version [OF assms(1) w v(1)] v(2) by fastforce
  then show "version_ok (documents db) ?au (publish_row now version_id old w)"
  proof cases
    case 1
    then show ?thesis
      using version_ok_published [OF ok _ _ au] v(2) assms(3)
      by (simp add: publish_row_def audit_of_def audit_row_def simple_audit_def)
  next
    case 2
    then have "dv_lifecycle_status w = PUBLISHED"
      using load_superseded_Inr [OF old] same_version [OF assms(1) w] by force
    with 2 ok show ?thesis by (auto simp: version_ok_def publish_row_def au)
  next
    case 3
    then show ?thesis
      using version_ok_mono [OF ok subset_refl, of ?au] by (auto simp: publish_row_def au)
  qed
qed (auto simp: publish_row_def)

lemma doc_effect_ok: "doc_effect db db' \<Longrightarrow> docs_ok db \<Longrightarrow> docs_ok db'"
  by (induction rule: doc_effect.induct)
    (simp_all add: docs_ok_audited docs_ok_draft docs_ok_move docs_ok_publish)

lemma doc_effects_ok: "doc_effect\<^sup>*\<^sup>* db db' \<Longrightarrow> docs_ok db \<Longrightarrow> docs_ok db'"
  by (induction rule: rtranclp_induct) (auto intro: doc_effect_ok)

interpretation dw: invariant_system "\<lambda>db. documents db = [] \<and> versions db = []" doc_request docs_ok
proof
  show "documents db = [] \<and> versions db = [] \<Longrightarrow> docs_ok db" for db
    by (simp add: docs_ok_def version_numbers_def)
  show "docs_ok db \<Longrightarrow> doc_request db db' \<Longrightarrow> docs_ok db'" for db db'
    using doc_request_effects doc_effects_ok by blast
qed

section \<open>What happens to a version\<close>

definition version_content :: "DocumentVersionModel \<Rightarrow>
  uuid \<times> uuid \<times> int \<times> string \<times> string \<times> string option \<times> string option \<times> uuid option \<times> uuid" where
  "version_content v =
     (dv_id v, dv_document_id v, dv_version_no v, dv_version_label v, dv_authority_level v,
      dv_source_uri v, dv_content_hash v, dv_supersedes_version_id v, dv_created_by v)"

definition version_evolves :: "DocumentVersionModel \<Rightarrow> DocumentVersionModel \<Rightarrow> bool" where
  "version_evolves v v' \<longleftrightarrow> version_content v' = version_content v \<and>
     can_transition_document\<^sup>*\<^sup>* (dv_lifecycle_status v) (dv_lifecycle_status v')"

lemma version_evolves_refl [simp]: "version_evolves v v"
  by (simp add: version_evolves_def)

lemma version_evolves_trans: "version_evolves u v \<Longrightarrow> version_evolves v w \<Longrightarrow> version_evolves u w"
  by (auto simp: version_evolves_def)

lemma version_evolvesI:
  "version_content v' = version_content v \<Longrightarrow>
   dv_lifecycle_status v' = dv_lifecycle_status v \<or>
   can_transition_document (dv_lifecycle_status v) (dv_lifecycle_status v') \<Longrightarrow> version_evolves v v'"
  by (auto simp: version_evolves_def)

lemma publish_row_evolves:
  assumes "docs_ok db" and ld: "load_version version_id db = Inr (d, v)"
    and "dv_lifecycle_status v = APPROVED" and old: "load_superseded d supersedes db = Inr old"
    and w: "w \<in> set (versions db)"
  shows "version_evolves w (publish_row now version_id old w)"
proof (rule version_evolvesI)
  have v: "v \<in> set (versions db)" "dv_id v = version_id"
    using ld by (auto simp: load_version_Inr dest: row_by_SomeD)
  have "dv_lifecycle_status w = APPROVED" if "dv_id w = version_id"
    using same_version [OF assms(1) w v(1)] that v(2) assms(3) by simp
  moreover have "dv_lifecycle_status w = PUBLISHED" if "Some (dv_id w) = old"
    using load_superseded_Inr [OF old] same_version [OF assms(1) w] that by force
  ultimately show "dv_lifecycle_status (publish_row now version_id old w) = dv_lifecycle_status w \<or>
      can_transition_document (dv_lifecycle_status w)
        (dv_lifecycle_status (publish_row now version_id old w))"
    by (simp add: publish_row_def) (simp add: can_transition_document_def)
qed (simp add: publish_row_def version_content_def)

lemma doc_effect_evolves:
  "doc_effect db db' \<Longrightarrow> docs_ok db \<Longrightarrow> v \<in> set (versions db) \<Longrightarrow>
   \<exists>v'\<in>set (versions db'). version_evolves v v'"
proof (induction arbitrary: v rule: doc_effect.induct)
  case (eff_audit db a)
  then show ?case by (auto simp: audited_def intro!: bexI [of _ v])
next
  case (eff_draft new_doc draft db d db' new_version nv)
  then show ?case
    using draft_target_Inr(2) [OF eff_draft(1)] by (auto intro!: bexI [of _ v])
next
  case (eff_move version_id db d w t u)
  let ?v = "if dv_id v = version_id then v\<lparr>dv_lifecycle_status := t\<rparr> else v"
  have w: "w \<in> set (versions db)" "dv_id w = version_id"
    using eff_move(1) by (auto simp: load_version_Inr dest: row_by_SomeD)
  then have "v = w" if "dv_id v = version_id"
    using same_version [OF eff_move.prems(1)] eff_move.prems(2) that by simp
  then have "version_evolves v ?v"
    using eff_move(2) by (intro version_evolvesI) (auto simp: version_content_def)
  moreover have "?v \<in> set (versions (audited (simple_audit (move_action t) (do_project_id d)
      version_id u []) (set_version_status version_id t db)))"
    using eff_move.prems(2) by (auto simp: audited_def set_version_status_def)
  ultimately show ?case by (rule rev_bexI [rotated])
next
  case (eff_publish version_id db d w old u details now)
  have "publish_row now version_id old v \<in> set (versions (audited (simple_audit
      ''document_published'' (do_project_id d) version_id u details) (publish_rows now version_id old db)))"
    using publish_distinct_rows [OF eff_publish.prems(1) eff_publish(1-3)] eff_publish.prems(2)
    by (simp add: audited_def publish_rows_eq)
  with publish_row_evolves [OF eff_publish.prems(1) eff_publish(1-3) eff_publish.prems(2)]
  show ?case by (rule rev_bexI [rotated])
qed

lemma doc_effects_evolve:
  assumes "doc_effect\<^sup>*\<^sup>* db db'" and "docs_ok db" and "v \<in> set (versions db)"
  shows "\<exists>v'\<in>set (versions db'). version_evolves v v'"
  using assms(1)
proof (induction rule: rtranclp_induct)
  case base
  show ?case by (rule bexI [OF version_evolves_refl assms(3)])
next
  case (step b c)
  then show ?case
    using doc_effect_evolves [OF step(2)] doc_effects_ok [OF step(1) assms(2)]
    by (metis version_evolves_trans)
qed

lemma doc_requests_effects: "doc_request\<^sup>*\<^sup>* db db' \<Longrightarrow> doc_effect\<^sup>*\<^sup>* db db'"
proof (induction rule: rtranclp_induct)
  case (step b c)
  from step(3) doc_request_effects [OF step(2)] show ?case by (rule rtranclp_trans)
qed simp

section \<open>Theorems\<close>

text \<open>C21: in every state that requests reach from empty tables, a published version was approved by
  the owner of its document, and both the approval and the publication are in the audit log.\<close>

theorem published_was_approved:
  assumes "documents db0 = []" and "versions db0 = []" and "doc_request\<^sup>*\<^sup>* db0 db"
    and "v \<in> set (versions db)" and "dv_lifecycle_status v = PUBLISHED"
  shows "\<exists>d\<in>set (documents db). \<exists>u. do_id d = dv_document_id v \<and> do_owner_user_id d = Some u \<and>
    (\<exists>a\<in>set (audit_logs db). al_action a = ''document_approved'' \<and>
       al_resource_id a = Some (uuid_str (dv_id v)) \<and> al_user_id a = Some u) \<and>
    (\<exists>a\<in>set (audit_logs db). al_action a = ''document_published'' \<and>
       al_resource_id a = Some (uuid_str (dv_id v))) \<and> dv_published_at v \<noteq> None"
proof -
  have "docs_ok db" using dw.inv_reachable [OF _ assms(3)] assms(1,2) by blast
  then have "version_ok (documents db) (audit_logs db) v" using assms(4) by (rule docs_okD(3))
  with assms(5) show ?thesis unfolding version_ok_def audit_of_def by fastforce
qed

text \<open>C22: whatever requests follow, a version is never lost and never edited: its content stays
  what was uploaded, and its status only moves along the lifecycle table.\<close>

theorem version_never_edited:
  assumes "doc_request\<^sup>*\<^sup>* db db'" and "docs_ok db" and "v \<in> set (versions db)"
  shows "\<exists>v'\<in>set (versions db'). dv_id v' = dv_id v \<and> dv_document_id v' = dv_document_id v \<and>
    dv_version_no v' = dv_version_no v \<and> dv_source_uri v' = dv_source_uri v \<and>
    dv_content_hash v' = dv_content_hash v \<and> dv_authority_level v' = dv_authority_level v \<and>
    dv_created_by v' = dv_created_by v \<and>
    can_transition_document\<^sup>*\<^sup>* (dv_lifecycle_status v) (dv_lifecycle_status v')"
  using doc_effects_evolve [OF doc_requests_effects [OF assms(1)] assms(2,3)]
  by (auto simp: version_evolves_def version_content_def)

text \<open>The versions of a document are numbered 1, 2, 3 and so on in the order of upload.\<close>

theorem version_numbers_gapless:
  assumes "documents db0 = []" and "versions db0 = []" and "doc_request\<^sup>*\<^sup>* db0 db"
  shows "map dv_version_no (filter (\<lambda>v. dv_document_id v = document_id) (versions db)) =
    map int [1..<Suc (length (filter (\<lambda>v. dv_document_id v = document_id) (versions db)))]"
proof -
  have "docs_ok db" using dw.inv_reachable [OF _ assms(3)] assms(1,2) by blast
  then have "version_numbers document_id (versions db) =
      map int [1..<Suc (length (version_numbers document_id (versions db)))]"
    unfolding docs_ok_def by blast
  then show ?thesis by (simp only: version_numbers_def length_map)
qed

text \<open>What a publication request leaves behind, before the theorem.\<close>

lemma publish_document_cases:
  assumes "publish_document ingest get_status now version_id actor s = (r, s')"
    and "committed s = working s"
  shows "(\<exists>e. r = Inl e) \<and> versions (committed s') = versions (working s) \<or>
    (\<exists>d v old x job st. r = Inr x \<and> get_status job = Inr st \<and> ks_state st = ING_SUCCEEDED \<and>
       load_version version_id (working s) = Inr (d, v) \<and> dv_lifecycle_status v = APPROVED \<and>
       load_superseded d (dv_supersedes_version_id v) (working s) = Inr old \<and>
       versions (working s') = versions (publish_rows now version_id old (working s)))"
proof (cases "get_version version_id (working s)")
  case (Inl e)
  then show ?thesis using assms(1) [symmetric] assms(2)
    by (auto simp: publish_document_def split: if_splits)
next
  case (Inr current)
  then obtain d v where dv: "load_version version_id (working s) = Inr (d, v)"
      "to_record d v = Inr current" by (auto simp: get_version_Inr)
  then have cur: "vr_version_id current = version_id"
      "vr_supersedes_version_id current = dv_supersedes_version_id v"
    using to_record_Inr load_version_id by metis+
  let ?sub = "\<lambda>job. simple_audit ''document_publication_submitted'' (vr_project_id current)
      (vr_version_id current) (ac_user_id actor) [(''ingestion_job_id'', JStr job)]"
  have aud: "load_version k (audited a db) = load_version k db"
    "load_superseded dd k' (audited a db) = load_superseded dd k' db"
    "versions (publish_rows now k k' (audited a db)) = versions (publish_rows now k k' db)"
    "versions (audited a db) = versions db" for k k' a dd db
    by (auto simp: load_version_def load_superseded_def audited_def publish_rows_def
        set_version_status_def Let_def split: option.splits)
  have "(\<exists>e. r = Inl e) \<and> s' = s \<or>
    (\<exists>job. publish_finalize get_status now current job actor
         (commit (s\<lparr>working := audited (?sub job) (working s)\<rparr>)) = (r, s'))"
    using assms(1) Inr
    by (auto simp: publish_document_def bind_of_res split: if_splits sum.splits)
  then show ?thesis
    using assms(2) dv(1)
    by (elim disjE exE; auto simp: aud cur dest!: publish_finalize_cases)
qed

text \<open>C23: publication switches authority in one step. If the request returns, the provider had
  reported success, the version is published now, the version it supersedes (which was published)
  is superseded, and no other version changed; if it raises, no version changed at all.\<close>

theorem publish_switches_atomically:
  assumes "docs_ok db"
    and "with_session (publish_document ingest get_status now version_id actor) db = (r, db')"
  shows "case r of
      Inl _ \<Rightarrow> versions db' = versions db
    | Inr _ \<Rightarrow> \<exists>v job st. get_status job = Inr st \<and> ks_state st = ING_SUCCEEDED \<and>
        v \<in> set (versions db) \<and> dv_id v = version_id \<and> dv_lifecycle_status v = APPROVED \<and>
        (\<forall>old. dv_supersedes_version_id v = Some old \<longrightarrow>
           (\<exists>w\<in>set (versions db). dv_id w = old \<and> dv_lifecycle_status w = PUBLISHED \<and>
              dv_document_id w = dv_document_id v)) \<and>
        versions db' = map (\<lambda>w.
          if dv_id w = version_id then w\<lparr>dv_lifecycle_status := PUBLISHED, dv_published_at := Some now\<rparr>
          else if Some (dv_id w) = dv_supersedes_version_id v then w\<lparr>dv_lifecycle_status := SUPERSEDED\<rparr>
          else w) (versions db)"
proof -
  obtain s' where run: "publish_document ingest get_status now version_id actor (begin_session db) = (r, s')"
      and db': "db' = left_committed r s'"
    using assms(2) with_session_left
    by (cases "publish_document ingest get_status now version_id actor (begin_session db)")
      (auto simp: with_session_def left_committed_def split: sum.splits)
  have "committed (begin_session db) = working (begin_session db)" by simp
  from publish_document_cases [OF run this] show ?thesis
  proof (elim disjE exE conjE)
    fix d v old x job st
    assume a: "r = Inr x" "get_status job = Inr st" "ks_state st = ING_SUCCEEDED"
      "load_version version_id (working (begin_session db)) = Inr (d, v)" "dv_lifecycle_status v = APPROVED"
      "load_superseded d (dv_supersedes_version_id v) (working (begin_session db)) = Inr old"
      "versions (working s') = versions (publish_rows now version_id old (working (begin_session db)))"
    then have ld: "load_version version_id db = Inr (d, v)"
      and old: "load_superseded d (dv_supersedes_version_id v) db = Inr old" by simp_all
    have "do_id d = dv_document_id v" "v \<in> set (versions db)" "dv_id v = version_id"
      using ld by (auto simp: load_version_Inr dest: row_by_SomeD)
    moreover note load_superseded_Inr [OF old] publish_distinct_rows [OF assms(1) ld a(5) old]
    moreover have "versions db' = map (publish_row now version_id old) (versions db)"
      using a(1,7) calculation(5) by (simp add: db' left_committed_def publish_rows_eq)
    ultimately show ?thesis using a(1-3,5)
      by (auto simp: publish_row_def [abs_def])
  qed (simp add: db' left_committed_def)
qed

text \<open>Deletion withdraws a version before the provider is asked to clean up: whatever the
  provider does, raising included, the version ends committed as pending deletion, together with
  its audit entry, and every other version is as before.\<close>

theorem delete_withdraws_first:
  assumes "load_version version_id db = Inr (d, v)" and "to_record d v = Inr current"
    and "dv_lifecycle_status v \<notin> {DELETE_PENDING, DELETED}"
    and "''archive_document'' \<in> set (ac_permissions actor)"
  shows "versions (snd (with_session (delete_document provider version_id actor) db)) =
      map (\<lambda>w. if dv_id w = version_id then w\<lparr>dv_lifecycle_status := DELETE_PENDING\<rparr> else w) (versions db) \<and>
    audit_logs (snd (with_session (delete_document provider version_id actor) db)) =
      audit_logs db @ [audit_row (simple_audit ''document_delete_pending'' (do_project_id d)
        version_id (ac_user_id actor) [])]"
proof -
  obtain r s' where run: "delete_document provider version_id actor (begin_session db) = (r, s')"
    by (cases "delete_document provider version_id actor (begin_session db)")
  have get: "get_version version_id db = Inr current"
    using assms(1,2) by (auto simp: get_version_Inr)
  have st: "vr_lifecycle_status current = dv_lifecycle_status v" "vr_project_id current = do_project_id d"
    using to_record_Inr [OF assms(2)] by auto
  obtain p where "to_record d (v\<lparr>dv_lifecycle_status := DELETE_PENDING\<rparr>) = Inr p"
    using assms(2) by (auto simp: to_record_def split: option.splits)
  then have tr: "transition version_id (vr_lifecycle_status current) DELETE_PENDING db =
      (Inr p, set_version_status version_id DELETE_PENDING db)"
    using assms(1,3) by (auto simp: transition_Inr st)
  have "s' = commit \<lparr>committed = db, working = audited (simple_audit ''document_delete_pending''
      (do_project_id d) version_id (ac_user_id actor) []) (set_version_status version_id DELETE_PENDING db)\<rparr>"
    using run assms(4) get tr
    by (cases r) (auto simp: delete_document_def begin_session_def bind_op_Inr_iff bind_op_Inl_iff
        on_working_iff st dest!: delete_cleanup_state)
  then show ?thesis
    using with_session_left [of "delete_document provider version_id actor" db, OF run]
    by (cases r) (simp_all add: left_committed_def audited_def set_version_status_def update_rows_def
        commit_def)
qed

section \<open>Witnesses\<close>

definition sample_project :: ProjectModel where
  "sample_project = \<lparr>pr_id = 1, pr_company_id = 2, pr_client_id = 3, pr_code = ''PRJ-A-1'',
     pr_lifecycle_status = PL_ACTIVE\<rparr>"

definition sample_space :: ProjectKnowledgeSpaceModel where
  "sample_space = \<lparr>ks_id = 4, ks_project_id = 1, ks_provider = ''ragflow'',
     ks_external_space_id = ''space'', ks_status = ''active''\<rparr>"

definition sample_document :: DocumentModel where
  "sample_document = \<lparr>do_id = 10, do_company_id = 2, do_project_id = 1,
     do_document_category = ''api_specification'', do_title = ''API'', do_owner_user_id = Some 5\<rparr>"

definition sample_version :: "uuid \<Rightarrow> int \<Rightarrow> DocumentLifecycleStatus \<Rightarrow> uuid option \<Rightarrow> DocumentVersionModel" where
  "sample_version i no st old = \<lparr>dv_id = i, dv_document_id = 10, dv_version_no = no,
     dv_version_label = ''v1'', dv_authority_level = ''approved_design'', dv_lifecycle_status = st,
     dv_effective_from = None, dv_effective_to = None, dv_supersedes_version_id = old,
     dv_source_uri = Some ''uri'', dv_content_hash = Some ''hash'',
     dv_published_at = (if st = PUBLISHED then Some 0 else None), dv_created_by = 6\<rparr>"

definition sample_docs :: doc_db where
  "sample_docs = \<lparr>projects = [sample_project],
     memberships = [\<lparr>mm_id = 7, mm_project_id = 1, mm_user_id = 5, mm_role = ''project_manager'',
       mm_valid_from = 0, mm_valid_to = None\<rparr>],
     knowledge_spaces = [sample_space], documents = [sample_document],
     versions = [sample_version 20 1 PUBLISHED None, sample_version 21 2 APPROVED (Some 20)],
     audit_logs = [audit_row (simple_audit ''document_approved'' 1 20 5 []),
       audit_row (simple_audit ''document_published'' 1 20 5 []),
       audit_row (simple_audit ''document_approved'' 1 21 5 [])]\<rparr>"

definition sample_manager :: DocumentActor where
  "sample_manager = \<lparr>ac_user_id = 5, ac_permissions =
     [''upload_document'', ''submit_review'', ''approve_document'', ''publish_document'', ''archive_document'']\<rparr>"

definition sample_status :: ingestion_status where
  "sample_status job = Inr \<lparr>ks_state = ING_SUCCEEDED, ks_error_code = None\<rparr>"

lemma sample_docs_ok: "docs_ok sample_docs"
  by (auto simp: docs_ok_def sample_docs_def sample_version_def sample_document_def version_ok_def
      version_numbers_def audit_of_def audit_row_def simple_audit_def)

lemmas sample_doc_defs = sample_docs_def sample_version_def sample_document_def sample_project_def
  sample_space_def sample_manager_def sample_status_def

definition empty_docs :: doc_db where
  "empty_docs = \<lparr>projects = [sample_project], memberships = [], knowledge_spaces = [sample_space],
     documents = [], versions = [], audit_logs = []\<rparr>"

definition sample_upload :: UploadDocumentCommand where
  "sample_upload = \<lparr>uc_company_id = 2, uc_project_id = 1, uc_document_id = None,
     uc_document_category = API_SPECIFICATION, uc_title = ''API'', uc_version_label = ''v1'',
     uc_authority_level = AL_APPROVED_DESIGN, uc_filename = ''a.md'', uc_data = ''x'',
     uc_mime_type = ''text/plain'', uc_owner_user_id = Some 5, uc_effective_from = None,
     uc_effective_to = None, uc_supersedes_version_id = None, uc_actor = sample_manager,
     uc_suggestion = None\<rparr>"

definition sample_put :: object_put where
  "sample_put req = Inr \<lparr>so_object_key = ''uri'', so_sha256 = ''hash''\<rparr>"

definition sample_db1 :: doc_db where
  "sample_db1 = snd (with_session (upload_document sample_put 9 10 20 sample_upload) empty_docs)"

definition sample_db2 :: doc_db where
  "sample_db2 = snd (with_session (submit_review 20 sample_manager) sample_db1)"

definition sample_db3 :: doc_db where
  "sample_db3 = snd (with_session (approve_document 20 sample_manager) sample_db2)"

definition sample_db4 :: doc_db where
  "sample_db4 = snd (with_session
     (publish_document (\<lambda>_. Inr ''job'') sample_status 8 20 sample_manager) sample_db3)"

lemma sample_run_requests: "doc_request\<^sup>*\<^sup>* empty_docs sample_db4"
proof -
  have "doc_request empty_docs sample_db1"
    unfolding sample_db1_def by (rule req_upload) (simp_all add: empty_docs_def)
  moreover have "doc_request sample_db1 sample_db2" unfolding sample_db2_def by (rule req_submit)
  moreover have "doc_request sample_db2 sample_db3" unfolding sample_db3_def by (rule req_approve)
  moreover have "doc_request sample_db3 sample_db4" unfolding sample_db4_def by (rule req_publish)
  ultimately show ?thesis by (meson rtranclp.rtrancl_into_rtrancl rtranclp.rtrancl_refl)
qed

lemmas doc_eval = with_session_def begin_session_def commit_def rollback_def bind_op_def on_working_def
  get_version_def load_version_def to_record_def transition_def set_version_status_def
  transition_document_status_def can_transition_document_def audited_def simple_audit_def Let_def

lemma sample_db1_eval: "documents sample_db1 = [sample_document]"
    "versions sample_db1 = [(sample_version 20 1 DRAFT None)\<lparr>dv_created_by := 5\<rparr>]"
    "projects sample_db1 = [sample_project]" "knowledge_spaces sample_db1 = [sample_space]"
  by (simp_all add: sample_db1_def upload_document_def create_draft_def draft_target_def
      insert_version_def draft_document_def draft_version_def next_version_no_def upload_draft_def
      sample_put_def sample_upload_def empty_docs_def sample_doc_defs doc_eval)

lemma sample_db2_eval: "documents sample_db2 = [sample_document]"
    "versions sample_db2 = [(sample_version 20 1 UNDER_REVIEW None)\<lparr>dv_created_by := 5\<rparr>]"
    "projects sample_db2 = [sample_project]" "knowledge_spaces sample_db2 = [sample_space]"
  by (simp_all add: sample_db2_def submit_review_def sample_doc_defs doc_eval
      sample_db1_eval [unfolded sample_doc_defs])

lemma sample_db3_eval: "documents sample_db3 = [sample_document]"
    "versions sample_db3 = [(sample_version 20 1 APPROVED None)\<lparr>dv_created_by := 5\<rparr>]"
    "projects sample_db3 = [sample_project]" "knowledge_spaces sample_db3 = [sample_space]"
  by (simp_all add: sample_db3_def approve_document_def sample_doc_defs doc_eval
      sample_db2_eval [unfolded sample_doc_defs])

lemma sample_db4_eval:
    "versions sample_db4 = [(sample_version 20 1 PUBLISHED None)\<lparr>dv_created_by := 5, dv_published_at := Some 8\<rparr>]"
  by (simp add: sample_db4_def publish_document_def publish_finalize_def complete_publication_def
      load_superseded_def publish_rows_def project_code_def knowledge_space_id_def
      active_ragflow_space_def sample_doc_defs doc_eval sample_db3_eval [unfolded sample_doc_defs])

theorem published_was_approved_witness:
  "\<exists>a\<in>set (audit_logs sample_db4). al_action a = ''document_approved'' \<and>
     al_resource_id a = Some (uuid_str 20)"
proof -
  have "hd (versions sample_db4) \<in> set (versions sample_db4)"
      "dv_lifecycle_status (hd (versions sample_db4)) = PUBLISHED" "dv_id (hd (versions sample_db4)) = 20"
    by (simp_all add: sample_db4_eval sample_version_def)
  then show ?thesis
    using published_was_approved [OF _ _ sample_run_requests, of "hd (versions sample_db4)"]
    by (auto simp: empty_docs_def)
qed

theorem version_never_edited_witness:
  "\<exists>v'\<in>set (versions (snd (with_session (approve_document 21 sample_manager) sample_docs))).
     dv_id v' = 20 \<and> dv_source_uri v' = Some ''uri''"
proof -
  have "doc_request\<^sup>*\<^sup>* sample_docs (snd (with_session (approve_document 21 sample_manager) sample_docs))"
    by (rule r_into_rtranclp, rule req_approve)
  moreover have "sample_version 20 1 PUBLISHED None \<in> set (versions sample_docs)"
    by (simp add: sample_docs_def)
  ultimately obtain v' where
    "v'\<in>set (versions (snd (with_session (approve_document 21 sample_manager) sample_docs)))"
    "dv_id v' = dv_id (sample_version 20 1 PUBLISHED None)"
    "dv_source_uri v' = dv_source_uri (sample_version 20 1 PUBLISHED None)"
    using version_never_edited [OF _ sample_docs_ok] by blast
  then show ?thesis by (intro bexI [of _ v']) (simp_all add: sample_version_def)
qed

theorem version_numbers_gapless_witness:
  "map dv_version_no (filter (\<lambda>v. dv_document_id v = 10) (versions sample_db4)) = [1]"
  using version_numbers_gapless [OF _ _ sample_run_requests, of 10]
  by (simp add: empty_docs_def sample_db4_eval sample_version_def)

theorem publish_switches_atomically_witness:
  "map (\<lambda>v. (dv_id v, dv_lifecycle_status v))
     (versions (snd (with_session (publish_document (\<lambda>_. Inr ''job'') sample_status 8 21 sample_manager)
        sample_docs))) = [(20, SUPERSEDED), (21, PUBLISHED)]"
proof -
  obtain r db' where run: "with_session (publish_document (\<lambda>_. Inr ''job'') sample_status 8 21 sample_manager)
      sample_docs = (r, db')"
    by (cases "with_session (publish_document (\<lambda>_. Inr ''job'') sample_status 8 21 sample_manager) sample_docs")
  have "fst (with_session (publish_document (\<lambda>_. Inr ''job'') sample_status 8 21 sample_manager)
      sample_docs) \<noteq> Inl e" for e
    by (simp add: publish_document_def publish_finalize_def complete_publication_def
      load_superseded_def publish_rows_def project_code_def knowledge_space_id_def
      active_ragflow_space_def sample_doc_defs doc_eval bind_res_def)
  then obtain x where "r = Inr x" using run by (cases r) auto
  then show ?thesis
    using publish_switches_atomically [OF sample_docs_ok run] run
    by (auto simp: sample_docs_def sample_version_def split: if_splits)
qed

theorem delete_withdraws_first_witness:
  "map (\<lambda>v. (dv_id v, dv_lifecycle_status v))
     (versions (snd (with_session (delete_document (\<lambda>_. Inl TimeoutError) 20 sample_manager) sample_docs))) =
   [(20, DELETE_PENDING), (21, APPROVED)]"
proof -
  have "load_version 20 sample_docs = Inr (sample_document, sample_version 20 1 PUBLISHED None)"
    by (simp add: load_version_Inr sample_doc_defs)
  moreover obtain c where "to_record sample_document (sample_version 20 1 PUBLISHED None) = Inr c"
    by (simp add: to_record_def sample_version_def)
  ultimately show ?thesis
    using delete_withdraws_first [of 20 sample_docs sample_document "sample_version 20 1 PUBLISHED None"
        c sample_manager "\<lambda>_. Inl TimeoutError"]
    by (simp add: sample_doc_defs)
qed

end
