(* ===== verification/Authorization.thy ===== *)
theory Authorization
  imports DocumentProofs
begin

text \<open>
  Who may see and do what: the queries over memberships and published documents
  (\<open>infrastructure/db/repositories/authorization.py\<close>), the authorization service, the document
  permissions of roles (\<open>application/services/document_access.py\<close>), the retrieval policy
  (\<open>agent/policies/access.py\<close>) and the selection of a project (\<open>agent/nodes/select_project.py\<close>).

  \<open>LIMIT 1\<close> without \<open>ORDER BY\<close> may return any matching row: the argument \<open>pick\<close> says which.
\<close>

section \<open>domain/access.py and the records of the service\<close>

record ProjectAccessScope =
  sc_company_id :: uuid
  sc_user_id :: uuid
  sc_allowed_client_ids :: "uuid list"
  sc_allowed_project_ids :: "uuid list"
  sc_allowed_document_version_ids :: "uuid list option"
  sc_allowed_document_categories :: "string list"
  sc_role_ids :: "string list"
  sc_max_security_level :: int
  sc_policy_version :: string

record MembershipAccessRecord =
  ma_company_id :: uuid
  ma_client_id :: uuid
  ma_project_id :: uuid
  ma_project_code :: string
  ma_role :: ProjectRole
  ma_valid_from :: datetime
  ma_valid_to :: "datetime option"

record DocumentAccessRecord =
  da_document_version_id :: uuid
  da_document_category :: string

record AuthorizedProjectContext =
  cx_scope :: ProjectAccessScope
  cx_project_code :: string
  cx_knowledge_space_ids :: "string list"

section \<open>infrastructure/db/repositories/authorization.py\<close>

definition membership_active :: "datetime \<Rightarrow> ProjectMembershipModel \<Rightarrow> ProjectModel \<Rightarrow> bool" where
  "membership_active now m p \<longleftrightarrow>
     mm_valid_from m \<le> now \<and> (case mm_valid_to m of None \<Rightarrow> True | Some t \<Rightarrow> now < t) \<and>
     pr_lifecycle_status p \<notin> {PL_DELETION_PENDING, PL_DELETED}"

definition membership_rows ::
  "uuid \<Rightarrow> datetime \<Rightarrow> doc_db \<Rightarrow> (ProjectMembershipModel \<times> ProjectModel) list" where
  "membership_rows user_id now db =
     [(m, p) . m \<leftarrow> memberships db, p \<leftarrow> projects db,
        pr_id p = mm_project_id m, mm_user_id m = user_id, membership_active now m p]"

definition membership_record ::
  "ProjectMembershipModel \<times> ProjectModel \<Rightarrow> MembershipAccessRecord res" where
  "membership_record row =
     (case row of (m, p) \<Rightarrow>
        bind_res (ProjectRole_of (mm_role m)) (\<lambda>role. Inr
          \<lparr>ma_company_id = pr_company_id p, ma_client_id = pr_client_id p, ma_project_id = pr_id p,
           ma_project_code = pr_code p, ma_role = role, ma_valid_from = mm_valid_from m,
           ma_valid_to = mm_valid_to m\<rparr>))"

definition limit_one :: "nat \<Rightarrow> 'a list \<Rightarrow> 'a option" where
  "limit_one pick rows = (if rows = [] then None else Some (rows ! (pick mod length rows)))"

definition get_active_membership ::
  "nat \<Rightarrow> uuid \<Rightarrow> uuid \<Rightarrow> datetime \<Rightarrow> doc_db \<Rightarrow> MembershipAccessRecord option res" where
  "get_active_membership pick user_id project_id now db =
     (case limit_one pick
        (filter (\<lambda>(m, p). mm_project_id m = project_id) (membership_rows user_id now db)) of
        None \<Rightarrow> Inr None
      | Some row \<Rightarrow> bind_res (membership_record row) (\<lambda>r. Inr (Some r)))"

definition list_active_memberships_for_user ::
  "uuid \<Rightarrow> datetime \<Rightarrow> doc_db \<Rightarrow> MembershipAccessRecord list res" where
  "list_active_memberships_for_user user_id now db =
     map_res membership_record (sort_key (\<lambda>(m, p). pr_code p) (membership_rows user_id now db))"

definition published_rows :: "uuid \<Rightarrow> doc_db \<Rightarrow> (DocumentVersionModel \<times> DocumentModel) list" where
  "published_rows project_id db =
     [(v, d) . v \<leftarrow> versions db, d \<leftarrow> documents db,
        do_id d = dv_document_id v, do_project_id d = project_id, dv_lifecycle_status v = PUBLISHED]"

fun first_per_document ::
  "uuid list \<Rightarrow> (DocumentVersionModel \<times> DocumentModel) list \<Rightarrow> DocumentAccessRecord list" where
  "first_per_document seen [] = []"
| "first_per_document seen ((v, d) # rows) =
     (if dv_document_id v \<in> set seen then first_per_document seen rows
      else \<lparr>da_document_version_id = dv_id v, da_document_category = do_document_category d\<rparr> #
        first_per_document (dv_document_id v # seen) rows)"

definition list_published_document_access :: "uuid \<Rightarrow> doc_db \<Rightarrow> DocumentAccessRecord list" where
  "list_published_document_access project_id db =
     first_per_document []
       (sort_key (\<lambda>(v, d). (dv_document_id v, - dv_version_no v)) (published_rows project_id db))"

definition list_active_knowledge_space_ids :: "uuid \<Rightarrow> doc_db \<Rightarrow> string list" where
  "list_active_knowledge_space_ids project_id db =
     sort (map ks_external_space_id (filter (active_ragflow_space project_id) (knowledge_spaces db)))"

section \<open>application/services/authorization.py\<close>

definition POLICY_VERSION :: string where
  "POLICY_VERSION = ''project-membership-v1''"

definition list_authorized_projects ::
  "datetime \<Rightarrow> uuid \<Rightarrow> doc_db \<Rightarrow> MembershipAccessRecord list res" where
  "list_authorized_projects now user_id db = list_active_memberships_for_user user_id now db"

definition authorize_project ::
  "nat \<Rightarrow> datetime \<Rightarrow> uuid \<Rightarrow> uuid \<Rightarrow> doc_db \<Rightarrow> AuthorizedProjectContext res" where
  "authorize_project pick now user_id project_id db =
     bind_res (get_active_membership pick user_id project_id now db) (\<lambda>found.
       case found of
         None \<Rightarrow> Inl (AuthorizationDenied ''active project membership is required'')
       | Some membership \<Rightarrow>
           (let docs = list_published_document_access project_id db;
                spaces = list_active_knowledge_space_ids project_id db
            in Inr \<lparr>cx_scope =
                 \<lparr>sc_company_id = ma_company_id membership, sc_user_id = user_id,
                  sc_allowed_client_ids = [ma_client_id membership],
                  sc_allowed_project_ids = [ma_project_id membership],
                  sc_allowed_document_version_ids =
                    Some (sort_key uuid_str (map da_document_version_id docs)),
                  sc_allowed_document_categories = sorted_set_by id (map da_document_category docs),
                  sc_role_ids = [ProjectRole_value (ma_role membership)],
                  sc_max_security_level = 0, sc_policy_version = POLICY_VERSION\<rparr>,
               cx_project_code = ma_project_code membership,
               cx_knowledge_space_ids = sorted_set_by id spaces\<rparr>))"

section \<open>application/services/document_access.py\<close>

datatype DocumentOperation = OP_UPLOAD | OP_SUBMIT_REVIEW | OP_APPROVE | OP_PUBLISH | OP_ARCHIVE

fun DocumentOperation_value :: "DocumentOperation \<Rightarrow> string" where
  "DocumentOperation_value OP_UPLOAD = ''upload_document''"
| "DocumentOperation_value OP_SUBMIT_REVIEW = ''submit_review''"
| "DocumentOperation_value OP_APPROVE = ''approve_document''"
| "DocumentOperation_value OP_PUBLISH = ''publish_document''"
| "DocumentOperation_value OP_ARCHIVE = ''archive_document''"

fun ROLE_DOCUMENT_PERMISSIONS :: "ProjectRole \<Rightarrow> string list" where
  "ROLE_DOCUMENT_PERMISSIONS PROJECT_MANAGER =
     map DocumentOperation_value [OP_UPLOAD, OP_SUBMIT_REVIEW, OP_APPROVE, OP_PUBLISH, OP_ARCHIVE]"
| "ROLE_DOCUMENT_PERMISSIONS VIEWER = []"
| "ROLE_DOCUMENT_PERMISSIONS _ = map DocumentOperation_value [OP_UPLOAD, OP_SUBMIT_REVIEW]"

definition authorize_project_operation ::
  "nat \<Rightarrow> datetime \<Rightarrow> uuid \<Rightarrow> uuid \<Rightarrow> DocumentOperation \<Rightarrow> uuid option \<Rightarrow> doc_db \<Rightarrow>
   (AuthorizedProjectContext \<times> DocumentActor) res" where
  "authorize_project_operation pick now user_id project_id operation expected_company db =
     bind_res (authorize_project pick now user_id project_id db) (\<lambda>context.
       if expected_company \<noteq> None \<and> Some (sc_company_id (cx_scope context)) \<noteq> expected_company
       then Inl (AuthorizationDenied ''membership company does not match requested company'')
       else case sc_role_ids (cx_scope context) of
         [role_id] \<Rightarrow>
           (case ProjectRole_of role_id of
              Inl _ \<Rightarrow> Inl (AuthorizationDenied ''unknown project role'')
            | Inr role \<Rightarrow>
                if DocumentOperation_value operation \<notin> set (ROLE_DOCUMENT_PERMISSIONS role)
                then Inl (AuthorizationDenied (DocumentOperation_value operation @ '' permission is required''))
                else Inr (context,
                  \<lparr>ac_user_id = user_id, ac_permissions = ROLE_DOCUMENT_PERMISSIONS role\<rparr>))
       | _ \<Rightarrow> Inl (AuthorizationDenied ''exactly one project role is required''))"

definition authorize_version_operation ::
  "nat \<Rightarrow> datetime \<Rightarrow> uuid \<Rightarrow> uuid \<Rightarrow> DocumentOperation \<Rightarrow> doc_db \<Rightarrow>
   (AuthorizedProjectContext \<times> DocumentActor) res" where
  "authorize_version_operation pick now user_id version_id operation db =
     bind_res (get_version version_id db) (\<lambda>version.
       authorize_project_operation pick now user_id (vr_project_id version) operation
         (Some (vr_company_id version)) db)"

section \<open>agent/policies/access.py\<close>

record KnowledgeRetrievalRequest =
  rq_project_id :: string
  rq_query :: string
  rq_limit :: int
  rq_document_version_ids :: "string list"
  rq_knowledge_space_ids :: "string list"

record KnowledgeChunk =
  ch_project_id :: string
  ch_document_version_id :: string
  ch_content :: string
  ch_score :: score
  ch_knowledge_space_id :: "string option"
  ch_provider_ref :: "string option"
  ch_page_no :: "int option"
  ch_section :: "string option"
  ch_metadata :: "(string \<times> string) list"

definition allowed_versions :: "AuthorizedProjectContext \<Rightarrow> string list" where
  "allowed_versions context =
     (case sc_allowed_document_version_ids (cx_scope context) of
        None \<Rightarrow> [] | Some ids \<Rightarrow> map uuid_str ids)"

definition restrict_to :: "string list \<Rightarrow> string list \<Rightarrow> string list" where
  "restrict_to allowed requested =
     sorted_set_by id (if requested \<noteq> [] then filter (\<lambda>x. x \<in> set requested) allowed else allowed)"

definition constrain_retrieval ::
  "KnowledgeRetrievalRequest \<Rightarrow> AuthorizedProjectContext \<Rightarrow> KnowledgeRetrievalRequest option res" where
  "constrain_retrieval request context =
     (if rq_project_id request \<noteq> cx_project_code context
      then Inl (AuthorizationDenied ''retrieval project does not match authorized project'')
      else if allowed_versions context = [] \<or> cx_knowledge_space_ids context = [] then Inr None
      else let vs = restrict_to (allowed_versions context) (rq_document_version_ids request);
               spaces = restrict_to (cx_knowledge_space_ids context) (rq_knowledge_space_ids request)
           in if vs = [] \<or> spaces = [] then Inr None
              else Inr (Some \<lparr>rq_project_id = cx_project_code context, rq_query = rq_query request,
                     rq_limit = rq_limit request, rq_document_version_ids = vs,
                     rq_knowledge_space_ids = spaces\<rparr>))"

definition postfilter_evidence ::
  "KnowledgeChunk list \<Rightarrow> AuthorizedProjectContext \<Rightarrow> KnowledgeChunk list" where
  "postfilter_evidence chunks context =
     (if allowed_versions context = [] \<or> cx_knowledge_space_ids context = [] then []
      else filter (\<lambda>chunk. ch_project_id chunk = cx_project_code context \<and>
        ch_document_version_id chunk \<in> set (allowed_versions context) \<and>
        (case ch_knowledge_space_id chunk of
           None \<Rightarrow> False | Some k \<Rightarrow> k \<in> set (cx_knowledge_space_ids context))) chunks)"

section \<open>agent/nodes/select_project.py\<close>

record ProjectSelection =
  se_selected_project_id :: "uuid option"
  se_candidate_project_codes :: "string list"
  se_route :: string
  se_error_code :: "string option"

definition selection ::
  "uuid option \<Rightarrow> string list \<Rightarrow> string \<Rightarrow> string option \<Rightarrow> ProjectSelection" where
  "selection project codes route error =
     \<lparr>se_selected_project_id = project, se_candidate_project_codes = codes, se_route = route,
      se_error_code = error\<rparr>"

text \<open>A dict comprehension keeps the last item for a key.\<close>

definition dict_get :: "('a \<Rightarrow> 'k) \<Rightarrow> 'a list \<Rightarrow> 'k \<Rightarrow> 'a option" where
  "dict_get key items k = row_by key k (rev items)"

definition select_among ::
  "MembershipAccessRecord list \<Rightarrow> string list \<Rightarrow> uuid option \<Rightarrow> ProjectSelection" where
  "select_among ms project_codes requested =
     (let codes = sorted_set_by id (map ma_project_code ms);
          query_codes = fromkeys project_codes
      in case requested of
           Some project_id \<Rightarrow>
             (case dict_get ma_project_id ms project_id of
                None \<Rightarrow> selection None codes ''refusal'' (Some ''PROJECT_ACCESS_DENIED'')
              | Some m \<Rightarrow>
                  if query_codes \<noteq> [] \<and>
                     (length query_codes \<noteq> 1 \<or> hd query_codes \<noteq> ma_project_code m)
                  then selection None codes ''clarification'' (Some ''PROJECT_MISMATCH'')
                  else selection (Some project_id) codes ''project_knowledge_qa'' None)
         | None \<Rightarrow>
             if 1 < length query_codes
             then selection None codes ''clarification'' (Some ''AMBIGUOUS_PROJECT'')
             else if length query_codes = 1
             then (case dict_get ma_project_code ms (hd query_codes) of
                     None \<Rightarrow> selection None codes ''refusal'' (Some ''PROJECT_ACCESS_DENIED'')
                   | Some m \<Rightarrow> selection (Some (ma_project_id m)) codes ''project_knowledge_qa'' None)
             else if length ms = 1
             then selection (Some (ma_project_id (hd ms))) codes ''project_knowledge_qa'' None
             else if 1 < length ms
             then selection None codes ''clarification'' (Some ''PROJECT_REQUIRED'')
             else selection None [] ''refusal'' (Some ''NO_AUTHORIZED_PROJECT''))"

definition select_project ::
  "datetime \<Rightarrow> uuid \<Rightarrow> string list \<Rightarrow> uuid option \<Rightarrow> doc_db \<Rightarrow> ProjectSelection res" where
  "select_project now user_id project_codes requested db =
     bind_res (list_authorized_projects now user_id db)
       (\<lambda>ms. Inr (select_among ms project_codes requested))"

section \<open>Which versions a project shows\<close>

abbreviation newest_key :: "DocumentVersionModel \<times> DocumentModel \<Rightarrow> uuid \<times> int" where
  "newest_key \<equiv> \<lambda>(v, d). (dv_document_id v, - dv_version_no v)"

definition newest_in :: "(DocumentVersionModel \<times> DocumentModel) list \<Rightarrow> DocumentVersionModel \<Rightarrow> bool" where
  "newest_in rows v \<longleftrightarrow>
     (\<forall>w\<in>fst ` set rows. dv_document_id w = dv_document_id v \<longrightarrow> dv_version_no w \<le> dv_version_no v)"

lemma newest_inD:
  "newest_in rows v \<Longrightarrow> (w, d) \<in> set rows \<Longrightarrow> dv_document_id w = dv_document_id v \<Longrightarrow>
   dv_version_no w \<le> dv_version_no v"
  by (force simp: newest_in_def)

lemma newest_in_Cons:
  "newest_in ((w, e) # rows) v \<longleftrightarrow> newest_in rows v \<and>
     (dv_document_id w = dv_document_id v \<longrightarrow> dv_version_no w \<le> dv_version_no v)"
  by (auto simp: newest_in_def)

lemma newest_in_head: "sorted (map newest_key ((v, d) # rows)) \<Longrightarrow> newest_in rows v"
  by (auto simp: newest_in_def less_eq_prod_def split: prod.splits)

definition shows_newest ::
  "uuid list \<Rightarrow> (DocumentVersionModel \<times> DocumentModel) list \<Rightarrow> DocumentAccessRecord \<Rightarrow> bool" where
  "shows_newest seen rows r \<longleftrightarrow>
     (\<exists>v d. (v, d) \<in> set rows \<and> dv_document_id v \<notin> set seen \<and> da_document_version_id r = dv_id v \<and>
        da_document_category r = do_document_category d \<and> newest_in rows v)"

lemma shows_newest_skip:
  "shows_newest seen rows r \<Longrightarrow> dv_document_id w \<in> set seen \<Longrightarrow> shows_newest seen ((w, e) # rows) r"
  unfolding shows_newest_def newest_in_Cons by (metis list.set_intros(2))

lemma first_per_document_sound:
  "sorted (map newest_key rows) \<Longrightarrow> r \<in> set (first_per_document seen rows) \<Longrightarrow>
   shows_newest seen rows r"
proof (induction seen rows rule: first_per_document.induct)
  case (2 seen v d rows)
  have sorted: "sorted (map newest_key rows)" using "2.prems"(1) by simp
  show ?case
  proof (cases "dv_document_id v \<in> set seen")
    case True
    then have "shows_newest seen rows r" using "2.IH"(1) [OF True sorted] "2.prems"(2) by simp
    then show ?thesis using True by (rule shows_newest_skip)
  next
    case False
    with "2.prems"(2) consider
        "r = \<lparr>da_document_version_id = dv_id v, da_document_category = do_document_category d\<rparr>"
      | "r \<in> set (first_per_document (dv_document_id v # seen) rows)" by auto
    then show ?thesis
    proof cases
      case 1
      then show ?thesis
        using False newest_in_head [OF "2.prems"(1)]
        by (auto simp: shows_newest_def newest_in_Cons)
    next
      case 2
      then have "shows_newest (dv_document_id v # seen) rows r" using "2.IH"(2) [OF False sorted] by simp
      then have "shows_newest (dv_document_id v # seen) ((v, d) # rows) r" by (rule shows_newest_skip) simp
      then show ?thesis by (auto simp: shows_newest_def)
    qed
  qed
qed simp

lemma first_per_document_complete:
  "(v, d) \<in> set rows \<Longrightarrow> dv_document_id v \<notin> set seen \<Longrightarrow>
   \<exists>r\<in>set (first_per_document seen rows). \<exists>v' d'. (v', d') \<in> set rows \<and>
     dv_document_id v' = dv_document_id v \<and> da_document_version_id r = dv_id v'"
proof (induction seen rows rule: first_per_document.induct)
  case (2 seen w e rows)
  show ?case
  proof (cases "dv_document_id w = dv_document_id v")
    case True
    then show ?thesis using "2.prems"(2)
      by (intro bexI [of _ "\<lparr>da_document_version_id = dv_id w, da_document_category = do_document_category e\<rparr>"]
          exI [of _ w] exI [of _ e]) simp_all
  next
    case False
    then have in_rows: "(v, d) \<in> set rows" using "2.prems"(1) by auto
    obtain r v' d' where "r \<in> set (first_per_document seen ((w, e) # rows))" "(v', d') \<in> set rows"
        "dv_document_id v' = dv_document_id v" "da_document_version_id r = dv_id v'"
    proof (cases "dv_document_id w \<in> set seen")
      case True
      with "2.IH"(1) [OF True in_rows "2.prems"(2)] that show ?thesis by auto
    next
      case new: False
      with "2.IH"(2) [OF new in_rows] "2.prems"(2) False that show ?thesis by auto
    qed
    then show ?thesis by (meson list.set_intros(2))
  qed
qed simp

lemma set_published_rows:
  "(v, d) \<in> set (published_rows project_id db) \<longleftrightarrow>
     v \<in> set (versions db) \<and> d \<in> set (documents db) \<and> do_id d = dv_document_id v \<and>
     do_project_id d = project_id \<and> dv_lifecycle_status v = PUBLISHED"
  by (auto simp: published_rows_def)

lemma same_number_same_version:
  assumes "docs_ok db" and "v \<in> set (versions db)" and "w \<in> set (versions db)"
    and "dv_document_id v = dv_document_id w" and "dv_version_no v = dv_version_no w"
  shows "v = w"
proof -
  let ?vs = "filter (\<lambda>x. dv_document_id x = dv_document_id w) (versions db)"
  have "version_numbers (dv_document_id w) (versions db) =
      map int [1..<Suc (length (version_numbers (dv_document_id w) (versions db)))]"
    using assms(1) unfolding docs_ok_def by blast
  then have "distinct (version_numbers (dv_document_id w) (versions db))"
    by (metis distinct_map distinct_upt inj_on_of_nat)
  then have "inj_on dv_version_no (set ?vs)" by (simp add: version_numbers_def distinct_map)
  then show ?thesis using assms(2-5) by (auto dest: inj_onD)
qed

definition newest_published :: "doc_db \<Rightarrow> uuid \<Rightarrow> uuid \<Rightarrow> bool" where
  "newest_published db project_id version_id \<longleftrightarrow>
     (\<exists>v\<in>set (versions db). \<exists>d\<in>set (documents db).
        dv_id v = version_id \<and> do_id d = dv_document_id v \<and> do_project_id d = project_id \<and>
        dv_lifecycle_status v = PUBLISHED \<and>
        (\<forall>w\<in>set (versions db). dv_document_id w = dv_document_id v \<and> dv_lifecycle_status w = PUBLISHED \<longrightarrow>
           dv_version_no w \<le> dv_version_no v))"

lemma newest_in_published:
  assumes "docs_ok db" and "(v, d) \<in> set (published_rows project_id db)"
  shows "newest_in (published_rows project_id db) v \<longleftrightarrow>
    (\<forall>w\<in>set (versions db). dv_document_id w = dv_document_id v \<and> dv_lifecycle_status w = PUBLISHED \<longrightarrow>
       dv_version_no w \<le> dv_version_no v)"
proof -
  have "w \<in> fst ` set (published_rows project_id db) \<longleftrightarrow>
      w \<in> set (versions db) \<and> dv_lifecycle_status w = PUBLISHED"
    if "dv_document_id w = dv_document_id v" for w
    using assms(2) that
    by (auto simp: set_published_rows intro!: image_eqI [of w fst "(w, d)"])
  then show ?thesis unfolding newest_in_def by blast
qed

lemma newest_published_rows:
  assumes "docs_ok db"
  shows "newest_published db project_id version_id \<longleftrightarrow>
    (\<exists>v d. (v, d) \<in> set (published_rows project_id db) \<and> dv_id v = version_id \<and>
       newest_in (published_rows project_id db) v)"
  unfolding newest_published_def
  using newest_in_published [OF assms] set_published_rows by blast

lemma published_access_iff:
  assumes "docs_ok db"
  shows "version_id \<in> da_document_version_id ` set (list_published_document_access project_id db) \<longleftrightarrow>
    newest_published db project_id version_id"
proof
  let ?rows = "sort_key newest_key (published_rows project_id db)"
  have sorted: "sorted (map newest_key ?rows)" by simp
  have set: "set ?rows = set (published_rows project_id db)"
    "newest_in ?rows v \<longleftrightarrow> newest_in (published_rows project_id db) v" for v
    by (simp_all add: newest_in_def)
  {
    assume "version_id \<in> da_document_version_id ` set (list_published_document_access project_id db)"
    then obtain r where r: "r \<in> set (first_per_document [] ?rows)" "da_document_version_id r = version_id"
      by (auto simp: list_published_document_access_def)
    then show "newest_published db project_id version_id"
      using first_per_document_sound [OF sorted r(1)] unfolding newest_published_rows [OF assms] shows_newest_def set
      by metis
  next
    assume "newest_published db project_id version_id"
    then obtain v d where v: "(v, d) \<in> set ?rows" "dv_id v = version_id" "newest_in ?rows v"
      unfolding newest_published_rows [OF assms] set by blast
    obtain r v' d' where r: "r \<in> set (first_per_document [] ?rows)" "(v', d') \<in> set ?rows"
        "dv_document_id v' = dv_document_id v" "da_document_version_id r = dv_id v'"
      using first_per_document_complete [OF v(1), of "[]"] by auto
    obtain v1 d1 where v1: "(v1, d1) \<in> set ?rows" "dv_id v' = dv_id v1" "newest_in ?rows v1"
    proof -
      from first_per_document_sound [OF sorted r(1)] obtain w e where
        "(w, e) \<in> set ?rows" "da_document_version_id r = dv_id w" "newest_in ?rows w"
        unfolding shows_newest_def by blast
      with that r(4) show ?thesis by simp
    qed
    have in_db: "v \<in> set (versions db)" "v' \<in> set (versions db)" "v1 \<in> set (versions db)"
      using v(1) r(2) v1(1) unfolding set set_published_rows by blast+
    then have "v' = v1" using same_version [OF assms] v1(2) by blast
    then have "newest_in ?rows v'" using v1(3) by simp
    then have "dv_version_no v \<le> dv_version_no v'" by (rule newest_inD [OF _ v(1) r(3) [symmetric]])
    moreover have "dv_version_no v' \<le> dv_version_no v" by (rule newest_inD [OF v(3) r(2,3)])
    ultimately have "dv_version_no v' = dv_version_no v" by (rule antisym [rotated])
    then have "v' = v" using same_number_same_version [OF assms in_db(2,1) r(3)] by blast
    then show "version_id \<in> da_document_version_id ` set (list_published_document_access project_id db)"
      unfolding list_published_document_access_def
      by (intro image_eqI [of _ _ r]) (simp_all add: r(1,4) v(2))
  }
qed

section \<open>Memberships\<close>

lemma limit_one_Some: "limit_one pick rows = Some r \<Longrightarrow> r \<in> set rows"
  by (auto simp: limit_one_def split: if_splits)

lemma set_membership_rows:
  "(m, p) \<in> set (membership_rows user_id now db) \<longleftrightarrow>
     m \<in> set (memberships db) \<and> p \<in> set (projects db) \<and> pr_id p = mm_project_id m \<and>
     mm_user_id m = user_id \<and> membership_active now m p"
  by (auto simp: membership_rows_def)

text \<open>What it means to be an active member of a project.\<close>

definition active_member :: "doc_db \<Rightarrow> datetime \<Rightarrow> uuid \<Rightarrow> uuid \<Rightarrow> MembershipAccessRecord \<Rightarrow> bool" where
  "active_member db now user_id project_id r \<longleftrightarrow>
     (\<exists>m\<in>set (memberships db). \<exists>p\<in>set (projects db).
        mm_user_id m = user_id \<and> mm_project_id m = project_id \<and> pr_id p = project_id \<and>
        membership_active now m p \<and> membership_record (m, p) = Inr r)"

lemma get_active_membership_Some:
  "get_active_membership pick user_id project_id now db = Inr (Some r) \<Longrightarrow>
   active_member db now user_id project_id r"
  by (auto simp: get_active_membership_def active_member_def bind_res_Inr_iff set_membership_rows
      dest!: limit_one_Some split: option.splits) blast

lemma membership_record_project: "membership_record (m, p) = Inr r \<Longrightarrow> ma_project_id r = pr_id p"
  by (auto simp: membership_record_def bind_res_Inr_iff)

lemma authorize_project_Inr:
  assumes "authorize_project pick now user_id project_id db = Inr ctx"
  obtains r where "active_member db now user_id project_id r"
    "sc_company_id (cx_scope ctx) = ma_company_id r" "sc_user_id (cx_scope ctx) = user_id"
    "sc_allowed_project_ids (cx_scope ctx) = [project_id]"
    "sc_role_ids (cx_scope ctx) = [ProjectRole_value (ma_role r)]"
    "cx_project_code ctx = ma_project_code r"
    "sc_allowed_document_version_ids (cx_scope ctx) = Some (sort_key uuid_str
       (map da_document_version_id (list_published_document_access project_id db)))"
proof -
  obtain r where r: "get_active_membership pick user_id project_id now db = Inr (Some r)"
    using assms by (auto simp: authorize_project_def bind_res_Inr_iff split: option.splits)
  then have am: "active_member db now user_id project_id r" by (rule get_active_membership_Some)
  moreover from am have "ma_project_id r = project_id"
    unfolding active_member_def by (auto dest: membership_record_project)
  ultimately show thesis
    using that assms r by (auto simp: authorize_project_def Let_def)
qed

lemma allowed_versions_authorized:
  assumes "docs_ok db" and "authorize_project pick now user_id project_id db = Inr ctx"
  shows "set (allowed_versions ctx) = uuid_str ` {v. newest_published db project_id v}"
  using assms(2)
proof (rule authorize_project_Inr)
  fix r assume "sc_allowed_document_version_ids (cx_scope ctx) = Some (sort_key uuid_str
       (map da_document_version_id (list_published_document_access project_id db)))"
  then have "set (allowed_versions ctx) =
      uuid_str ` da_document_version_id ` set (list_published_document_access project_id db)"
    by (simp add: allowed_versions_def image_image)
  also have "da_document_version_id ` set (list_published_document_access project_id db) =
      {v. newest_published db project_id v}"
    using published_access_iff [OF assms(1)] by blast
  finally show ?thesis .
qed

lemma set_restrict_to:
  "set (restrict_to allowed requested) =
     (if requested = [] then set allowed else set allowed \<inter> set requested)"
  by (auto simp: restrict_to_def)

lemma dict_get_Some: "dict_get key items k = Some m \<Longrightarrow> m \<in> set items \<and> key m = k"
  unfolding dict_get_def using row_by_SomeD by fastforce

lemma select_among_Some:
  assumes "se_selected_project_id (select_among ms codes requested) = Some project_id"
  shows "(\<exists>m\<in>set ms. ma_project_id m = project_id \<and>
      (codes \<noteq> [] \<longrightarrow> set codes = {ma_project_code m})) \<and>
    (requested \<noteq> None \<longrightarrow> requested = Some project_id)"
proof -
  have one: "set codes = {c}" if "fromkeys codes = [c]" for c
    using that set_fromkeys [of codes] by simp
  have ms1: "\<exists>m. ms = [m]" if "length ms = 1" using that by (auto simp: length_Suc_conv)
  have few: "codes = []" if "\<not> Suc 0 < length (fromkeys codes)" "\<forall>y. fromkeys codes \<noteq> [y]"
    using that by (cases "fromkeys codes" rule: remdups_adj.cases) auto
  show ?thesis
    using assms one ms1 few
    by (auto simp: select_among_def selection_def Let_def length_Suc_conv
        dest!: dict_get_Some split: option.splits if_splits)
qed

section \<open>Theorems\<close>

text \<open>An authorization that is granted rests on an active membership of the user in that very
  project, and its scope is exactly the project and, per document of the project, the newest
  published version.\<close>

theorem authorized_scope_exact:
  assumes "docs_ok db" and "authorize_project pick now user_id project_id db = Inr ctx"
  shows "(\<exists>r. active_member db now user_id project_id r \<and>
      sc_company_id (cx_scope ctx) = ma_company_id r \<and> cx_project_code ctx = ma_project_code r \<and>
      sc_role_ids (cx_scope ctx) = [ProjectRole_value (ma_role r)]) \<and>
    sc_allowed_project_ids (cx_scope ctx) = [project_id] \<and>
    set (allowed_versions ctx) = uuid_str ` {v. newest_published db project_id v}"
  using assms(2)
  by (rule authorize_project_Inr) (use allowed_versions_authorized [OF assms] in blast)

text \<open>Without a membership row that is in force for a live project, access is denied.\<close>

theorem no_membership_denied:
  assumes "\<forall>m\<in>set (memberships db). \<forall>p\<in>set (projects db).
      mm_user_id m = user_id \<and> mm_project_id m = project_id \<and> pr_id p = project_id \<longrightarrow>
      now < mm_valid_from m \<or> (\<exists>t. mm_valid_to m = Some t \<and> t \<le> now) \<or>
      pr_lifecycle_status p \<in> {PL_DELETION_PENDING, PL_DELETED}"
  shows "authorize_project pick now user_id project_id db =
    Inl (AuthorizationDenied ''active project membership is required'')"
proof -
  have "filter (\<lambda>(m, p). mm_project_id m = project_id) (membership_rows user_id now db) = []"
    using assms
    by (auto simp: filter_empty_conv set_membership_rows membership_active_def split: option.splits)
      (force simp: not_less)+
  then show ?thesis by (simp add: authorize_project_def get_active_membership_def limit_one_def)
qed

text \<open>C30: whatever a provider answers to a constrained request, the evidence that passes the filter
  belongs to the authorized project and to a version that is the newest published one of its
  document; and the request itself never asks for other versions.\<close>

theorem retrieval_confined:
  assumes "docs_ok db" and "authorize_project pick now user_id project_id db = Inr ctx"
    and "constrain_retrieval request ctx = Inr (Some request')"
  shows "set (rq_document_version_ids request') \<subseteq> uuid_str ` {v. newest_published db project_id v} \<and>
    (rq_document_version_ids request \<noteq> [] \<longrightarrow>
       set (rq_document_version_ids request') \<subseteq> set (rq_document_version_ids request)) \<and>
    rq_document_version_ids request' \<noteq> [] \<and> rq_knowledge_space_ids request' \<noteq> [] \<and>
    (\<forall>chunk\<in>set (postfilter_evidence (retrieve request') ctx).
       ch_project_id chunk = cx_project_code ctx \<and>
       (\<exists>v. newest_published db project_id v \<and> ch_document_version_id chunk = uuid_str v) \<and>
       (\<exists>k\<in>set (cx_knowledge_space_ids ctx). ch_knowledge_space_id chunk = Some k))"
proof -
  note allowed = allowed_versions_authorized [OF assms(1,2)]
  have vs: "rq_document_version_ids request' =
      restrict_to (allowed_versions ctx) (rq_document_version_ids request)"
    "rq_document_version_ids request' \<noteq> []" "rq_knowledge_space_ids request' \<noteq> []"
    using assms(3) by (auto simp: constrain_retrieval_def Let_def split: if_splits)
  then have "set (rq_document_version_ids request') \<subseteq> set (allowed_versions ctx)"
    "rq_document_version_ids request \<noteq> [] \<longrightarrow>
       set (rq_document_version_ids request') \<subseteq> set (rq_document_version_ids request)"
    by (auto simp: set_restrict_to)
  moreover have "ch_project_id chunk = cx_project_code ctx \<and>
      ch_document_version_id chunk \<in> set (allowed_versions ctx) \<and>
      (\<exists>k\<in>set (cx_knowledge_space_ids ctx). ch_knowledge_space_id chunk = Some k)"
    if "chunk \<in> set (postfilter_evidence (retrieve request') ctx)" for chunk
    using that by (auto simp: postfilter_evidence_def split: if_splits option.splits)
  ultimately show ?thesis using vs(2,3) unfolding allowed by blast
qed

text \<open>Only an active project manager may approve, publish or archive, a viewer may do nothing,
  and the actor handed to the use case is the authenticated user.\<close>

theorem document_roles_enforced:
  assumes "authorize_project_operation pick now user_id project_id operation company db = Inr (ctx, actor)"
  shows "ac_user_id actor = user_id \<and> DocumentOperation_value operation \<in> set (ac_permissions actor) \<and>
    (\<exists>r. active_member db now user_id project_id r \<and> ma_role r \<noteq> VIEWER \<and>
       (operation \<in> {OP_APPROVE, OP_PUBLISH, OP_ARCHIVE} \<longrightarrow> ma_role r = PROJECT_MANAGER) \<and>
       (\<forall>c. company = Some c \<longrightarrow> ma_company_id r = c))"
proof -
  have auth: "authorize_project pick now user_id project_id db = Inr ctx"
    using assms by (auto simp: authorize_project_operation_def bind_res_Inr_iff
        split: if_splits list.splits sum.splits)
  then obtain r where r: "active_member db now user_id project_id r"
      "sc_company_id (cx_scope ctx) = ma_company_id r"
      "sc_role_ids (cx_scope ctx) = [ProjectRole_value (ma_role r)]"
    by (rule authorize_project_Inr)
  have perm: "DocumentOperation_value operation \<in> set (ROLE_DOCUMENT_PERMISSIONS (ma_role r))"
      "actor = \<lparr>ac_user_id = user_id, ac_permissions = ROLE_DOCUMENT_PERMISSIONS (ma_role r)\<rparr>"
      "\<forall>c. company = Some c \<longrightarrow> ma_company_id r = c"
    using assms r(2,3) by (auto simp: authorize_project_operation_def auth split: if_splits)
  from perm(1) have "ma_role r \<noteq> VIEWER \<and>
      (operation \<in> {OP_APPROVE, OP_PUBLISH, OP_ARCHIVE} \<longrightarrow> ma_role r = PROJECT_MANAGER)"
    by (cases "ma_role r"; cases operation) simp_all
  with perm r(1) show ?thesis by auto
qed

text \<open>A project is selected only if the user is an active member of it; a requested project is
  never replaced by another, and codes named in the query must be the code of the selection.\<close>

theorem selection_authorized:
  assumes "select_project now user_id codes requested db = Inr sel"
    and "se_selected_project_id sel = Some project_id"
  shows "(\<exists>r. active_member db now user_id project_id r \<and>
      (codes \<noteq> [] \<longrightarrow> set codes = {ma_project_code r})) \<and>
    (requested \<noteq> None \<longrightarrow> requested = Some project_id)"
proof -
  obtain ms where ms: "list_active_memberships_for_user user_id now db = Inr ms"
      "sel = select_among ms codes requested"
    using assms(1) by (auto simp: select_project_def list_authorized_projects_def bind_res_Inr_iff)
  have "active_member db now user_id (ma_project_id r) r" if mem: "r \<in> set ms" for r
  proof -
    obtain m p where "(m, p) \<in> set (membership_rows user_id now db)" "membership_record (m, p) = Inr r"
      using map_res_Inr_set [OF ms(1) [unfolded list_active_memberships_for_user_def] mem] by auto
    then show ?thesis
      unfolding active_member_def set_membership_rows
      by (intro bexI [of _ m] bexI [of _ p]) (auto dest: membership_record_project)
  qed
  with select_among_Some [OF assms(2) [unfolded ms(2)]] show ?thesis by blast
qed

section \<open>Witnesses\<close>

lemmas auth_eval = authorize_project_def get_active_membership_def membership_rows_def
  membership_active_def limit_one_def membership_record_def ProjectRole_of_def Let_def

lemma sample_authorized: "\<exists>ctx. authorize_project 0 1 5 1 sample_docs = Inr ctx \<and>
    cx_project_code ctx = ''PRJ-A-1'' \<and> cx_knowledge_space_ids ctx = [''space''] \<and>
    sc_allowed_document_version_ids (cx_scope ctx) = Some [20]"
  by (simp add: auth_eval sample_doc_defs list_published_document_access_def published_rows_def
      list_active_knowledge_space_ids_def active_ragflow_space_def sorted_set_by_def)

theorem authorized_scope_exact_witness:
  "\<exists>ctx. authorize_project 0 1 5 1 sample_docs = Inr ctx \<and> newest_published sample_docs 1 20"
proof -
  obtain ctx where "authorize_project 0 1 5 1 sample_docs = Inr ctx"
      "sc_allowed_document_version_ids (cx_scope ctx) = Some [20]"
    using sample_authorized by blast
  then show ?thesis
    using authorized_scope_exact [OF sample_docs_ok, of 0 1 5 1 ctx]
    by (auto simp: allowed_versions_def dest!: equalityD1)
qed

theorem no_membership_denied_witness:
  "authorize_project 0 1 6 1 sample_docs =
     Inl (AuthorizationDenied ''active project membership is required'')"
  by (rule no_membership_denied) (simp add: sample_docs_def)

definition sample_retrieval :: KnowledgeRetrievalRequest where
  "sample_retrieval = \<lparr>rq_project_id = ''PRJ-A-1'', rq_query = ''q'', rq_limit = 10,
     rq_document_version_ids = [], rq_knowledge_space_ids = []\<rparr>"

theorem retrieval_confined_witness:
  "\<exists>ctx request'. authorize_project 0 1 5 1 sample_docs = Inr ctx \<and>
     constrain_retrieval sample_retrieval ctx = Inr (Some request') \<and>
     rq_document_version_ids request' \<noteq> []"
proof -
  obtain ctx where ctx: "authorize_project 0 1 5 1 sample_docs = Inr ctx"
      "cx_project_code ctx = ''PRJ-A-1''" "cx_knowledge_space_ids ctx = [''space'']"
      "sc_allowed_document_version_ids (cx_scope ctx) = Some [20]"
    using sample_authorized by blast
  then obtain request' where "constrain_retrieval sample_retrieval ctx = Inr (Some request')"
    by (simp add: constrain_retrieval_def sample_retrieval_def allowed_versions_def restrict_to_def)
  then show ?thesis using retrieval_confined [OF sample_docs_ok ctx(1)] ctx(1) by blast
qed

theorem document_roles_enforced_witness:
  "\<exists>ctx actor. authorize_project_operation 0 1 5 1 OP_PUBLISH (Some 2) sample_docs = Inr (ctx, actor) \<and>
     ac_user_id actor = 5 \<and> ''publish_document'' \<in> set (ac_permissions actor)"
proof -
  obtain ctx actor where
    "authorize_project_operation 0 1 5 1 OP_PUBLISH (Some 2) sample_docs = Inr (ctx, actor)"
    by (simp add: authorize_project_operation_def auth_eval sample_doc_defs)
  then show ?thesis using document_roles_enforced [of 0 1 5 1 OP_PUBLISH "Some 2" sample_docs] by force
qed

theorem selection_authorized_witness:
  "\<exists>sel r. select_project 1 5 [''PRJ-A-1''] None sample_docs = Inr sel \<and>
     se_selected_project_id sel = Some 1 \<and> active_member sample_docs 1 5 1 r"
proof -
  obtain sel where "select_project 1 5 [''PRJ-A-1''] None sample_docs = Inr sel"
      "se_selected_project_id sel = Some 1"
    by (simp add: select_project_def list_authorized_projects_def list_active_memberships_for_user_def
        select_among_def dict_get_def selection_def auth_eval sample_doc_defs)
  then show ?thesis using selection_authorized [of 1 5 "[''PRJ-A-1'']" None sample_docs] by blast
qed

end
