(* ===== verification/JobQueue.thy ===== *)
theory JobQueue
  imports Domain PyStr
begin

text \<open>
  \<open>infrastructure/jobs/postgres.py\<close>: the PostgreSQL job queue with expiring worker leases. The
  state is the table of \<open>BackgroundJobModel\<close> rows. Every operation of \<open>PostgresJobQueue\<close> is one
  committed transaction, so an operation maps a table to a table; the clock readings and the
  rows that \<open>FOR UPDATE SKIP LOCKED\<close> finds locked by other transactions are arguments. The step
  relation \<open>queue_step\<close> interleaves the operations of all workers and of the reaper.
\<close>

section \<open>Rows, requests and configuration\<close>

record BackgroundJobModel =
  bj_id :: uuid
  bj_namespace :: string
  bj_job_type :: string
  bj_aggregate_id :: string
  bj_status :: JobState
  bj_attempt_count :: int
  bj_max_attempts :: int
  bj_available_at :: datetime
  bj_locked_by :: "string option"
  bj_locked_at :: "datetime option"
  bj_heartbeat_at :: "datetime option"
  bj_lease_expires_at :: "datetime option"
  bj_last_error :: "string option"
  bj_created_at :: datetime
  bj_updated_at :: datetime

record EnqueueJobRequest =
  ej_job_type :: string
  ej_aggregate_id :: string
  ej_max_attempts :: int

record QueuedJob =
  qj_job_id :: string
  qj_job_type :: string
  qj_aggregate_id :: string
  qj_state :: JobState
  qj_attempts :: int
  qj_max_attempts :: int
  qj_worker_id :: "string option"
  qj_last_error_code :: "string option"
  qj_available_at :: "datetime option"
  qj_lease_expires_at :: "datetime option"
  qj_heartbeat_at :: "datetime option"

record queue_config =
  lease_seconds :: rat
  retry_base_seconds :: rat
  retry_max_seconds :: rat
  queue_namespace :: string

type_synonym jobs = "BackgroundJobModel list"

section \<open>Module-level functions\<close>

text \<open>\<open>2.0 ** n\<close> raises \<open>OverflowError\<close> from \<open>n = 1024\<close> on.\<close>

definition compute_retry_delay :: "int \<Rightarrow> rat \<Rightarrow> rat \<Rightarrow> rat res" where
  "compute_retry_delay attempt_count base_seconds max_seconds =
     (if base_seconds < 0 \<or> max_seconds < 0 then Inl (ValueError ''retry delays cannot be negative'')
      else if base_seconds = 0 then Inr 0
      else if 1024 \<le> max 0 (attempt_count - 1) then Inl OverflowError
      else Inr (min (base_seconds * 2 ^ nat (max 0 (attempt_count - 1))) max_seconds))"

definition should_retry :: "int \<Rightarrow> int \<Rightarrow> bool" where
  "should_retry attempt_count max_attempts \<longleftrightarrow> attempt_count < max_attempts"

definition claimable :: "datetime \<Rightarrow> BackgroundJobModel \<Rightarrow> bool" where
  "claimable now r \<longleftrightarrow> bj_status r = JOB_PENDING \<and> bj_available_at r \<le> now"

definition claim_key :: "BackgroundJobModel \<Rightarrow> datetime \<times> datetime \<times> uuid" where
  "claim_key r = (bj_available_at r, bj_created_at r, bj_id r)"

definition build_claim_statement :: "uuid list \<Rightarrow> int \<Rightarrow> datetime \<Rightarrow> jobs \<Rightarrow> jobs" where
  "build_claim_statement locked limit now jobs =
     take (nat limit)
       (filter (\<lambda>r. bj_id r \<notin> set locked) (sort_key claim_key (filter (claimable now) jobs)))"

definition validate_enqueue_request :: "EnqueueJobRequest \<Rightarrow> unit res" where
  "validate_enqueue_request req =
     (if py_strip (ej_aggregate_id req) = '''' then Inl (ValueError ''aggregate_id is required'')
      else if ej_max_attempts req < 1 then Inl (ValueError ''max_attempts must be >= 1'')
      else Inr ())"

text \<open>The defaults of the columns that \<open>_build_job_model\<close> leaves out come from the schema:
  \<open>id\<close> is a fresh \<open>uuid4\<close>, the timestamps are the database's \<open>now()\<close>.\<close>

definition build_job_model ::
  "uuid \<Rightarrow> datetime \<Rightarrow> string \<Rightarrow> EnqueueJobRequest \<Rightarrow> BackgroundJobModel" where
  "build_job_model new_id now namespace req =
     \<lparr>bj_id = new_id, bj_namespace = namespace, bj_job_type = ej_job_type req,
      bj_aggregate_id = ej_aggregate_id req, bj_status = JOB_PENDING, bj_attempt_count = 0,
      bj_max_attempts = ej_max_attempts req, bj_available_at = now, bj_locked_by = None,
      bj_locked_at = None, bj_heartbeat_at = None, bj_lease_expires_at = None,
      bj_last_error = None, bj_created_at = now, bj_updated_at = now\<rparr>"

definition to_job :: "BackgroundJobModel \<Rightarrow> QueuedJob" where
  "to_job r =
     \<lparr>qj_job_id = uuid_str (bj_id r), qj_job_type = bj_job_type r,
      qj_aggregate_id = bj_aggregate_id r, qj_state = bj_status r,
      qj_attempts = bj_attempt_count r, qj_max_attempts = bj_max_attempts r,
      qj_worker_id = bj_locked_by r, qj_last_error_code = bj_last_error r,
      qj_available_at = Some (bj_available_at r), qj_lease_expires_at = bj_lease_expires_at r,
      qj_heartbeat_at = bj_heartbeat_at r\<rparr>"

section \<open>PostgresJobQueue\<close>

definition init_job_queue :: "rat \<Rightarrow> rat \<Rightarrow> rat \<Rightarrow> string \<Rightarrow> queue_config res" where
  "init_job_queue lease base mx namespace =
     (if lease \<le> 0 then Inl (ValueError ''lease_seconds must be positive'')
      else if base < 0 \<or> mx < 0 then Inl (ValueError ''retry delays cannot be negative'')
      else Inr \<lparr>lease_seconds = lease, retry_base_seconds = base, retry_max_seconds = mx,
                queue_namespace = namespace\<rparr>)"

definition enqueue ::
  "string \<Rightarrow> uuid \<Rightarrow> datetime \<Rightarrow> EnqueueJobRequest \<Rightarrow> jobs \<Rightarrow> QueuedJob res \<times> jobs" where
  "enqueue namespace new_id now req jobs =
     (case validate_enqueue_request req of
        Inl e \<Rightarrow> (Inl e, jobs)
      | Inr _ \<Rightarrow>
          let row = build_job_model new_id now namespace req
          in (Inr (to_job row), jobs @ [row]))"

definition claim_row :: "queue_config \<Rightarrow> string \<Rightarrow> datetime \<Rightarrow> BackgroundJobModel \<Rightarrow> BackgroundJobModel" where
  "claim_row cfg worker now r =
     r\<lparr>bj_status := JOB_RUNNING, bj_attempt_count := bj_attempt_count r + 1,
       bj_locked_by := Some worker, bj_locked_at := Some now, bj_heartbeat_at := Some now,
       bj_lease_expires_at := Some (now + lease_seconds cfg), bj_updated_at := now\<rparr>"

definition claim ::
  "queue_config \<Rightarrow> uuid list \<Rightarrow> string \<Rightarrow> int \<Rightarrow> datetime \<Rightarrow> datetime \<Rightarrow> jobs \<Rightarrow> QueuedJob list \<times> jobs" where
  "claim cfg locked worker limit now stmt_now jobs =
     (if limit < 1 then ([], jobs)
      else let rows = build_claim_statement locked limit stmt_now jobs;
               ids = map bj_id rows
           in (map (\<lambda>r. to_job (claim_row cfg worker now r)) rows,
               update_rows (\<lambda>r. bj_id r \<in> set ids) (claim_row cfg worker now) jobs))"

definition job_uuid :: "string \<Rightarrow> uuid res" where
  "job_uuid job_id = (case UUID job_id of Inl _ \<Rightarrow> Inl (LookupError job_id) | Inr u \<Rightarrow> Inr u)"

definition owned_running :: "string \<Rightarrow> string \<Rightarrow> jobs \<Rightarrow> BackgroundJobModel res" where
  "owned_running job_id worker jobs =
     bind_res (job_uuid job_id) (\<lambda>u.
       case row_by bj_id u jobs of
         None \<Rightarrow> Inl (LookupError job_id)
       | Some r \<Rightarrow> if bj_status r \<noteq> JOB_RUNNING \<or> bj_locked_by r \<noteq> Some worker
                   then Inl JobOwnershipError else Inr r)"

definition heartbeat :: "queue_config \<Rightarrow> datetime \<Rightarrow> string \<Rightarrow> string \<Rightarrow> jobs \<Rightarrow> unit res \<times> jobs" where
  "heartbeat cfg now job_id worker jobs =
     (case owned_running job_id worker jobs of
        Inl e \<Rightarrow> (Inl e, jobs)
      | Inr row \<Rightarrow>
          (Inr (), update_rows (\<lambda>r. bj_id r = bj_id row)
             (\<lambda>r. r\<lparr>bj_heartbeat_at := Some now,
                    bj_lease_expires_at := Some (now + lease_seconds cfg),
                    bj_updated_at := now\<rparr>) jobs))"

definition unlock_row :: "BackgroundJobModel \<Rightarrow> BackgroundJobModel" where
  "unlock_row r = r\<lparr>bj_locked_by := None, bj_locked_at := None, bj_heartbeat_at := None,
                    bj_lease_expires_at := None\<rparr>"

definition complete :: "datetime \<Rightarrow> string \<Rightarrow> string \<Rightarrow> jobs \<Rightarrow> unit res \<times> jobs" where
  "complete now job_id worker jobs =
     (case owned_running job_id worker jobs of
        Inl e \<Rightarrow> (Inl e, jobs)
      | Inr row \<Rightarrow>
          (Inr (), update_rows (\<lambda>r. bj_id r = bj_id row)
             (\<lambda>r. (unlock_row r)\<lparr>bj_status := JOB_SUCCEEDED, bj_updated_at := now\<rparr>) jobs))"

definition fail_row :: "queue_config \<Rightarrow> datetime \<Rightarrow> string \<Rightarrow> BackgroundJobModel \<Rightarrow> BackgroundJobModel res" where
  "fail_row cfg now error_code r =
     (let r1 = (unlock_row r)\<lparr>bj_last_error := Some error_code\<rparr>
      in if \<not> should_retry (bj_attempt_count r) (bj_max_attempts r)
         then Inr (r1\<lparr>bj_status := JOB_FAILED, bj_updated_at := now\<rparr>)
         else bind_res (compute_retry_delay (bj_attempt_count r) (retry_base_seconds cfg)
                          (retry_max_seconds cfg))
                (\<lambda>delay. Inr (r1\<lparr>bj_status := JOB_PENDING, bj_available_at := now + delay,
                                  bj_updated_at := now\<rparr>)))"

definition fail_job ::
  "queue_config \<Rightarrow> datetime \<Rightarrow> string \<Rightarrow> string \<Rightarrow> string \<Rightarrow> jobs \<Rightarrow> unit res \<times> jobs" where
  "fail_job cfg now job_id worker error_code jobs =
     (case bind_res (owned_running job_id worker jobs) (fail_row cfg now error_code) of
        Inl e \<Rightarrow> (Inl e, jobs)
      | Inr row \<Rightarrow> (Inr (), update_rows (\<lambda>r. bj_id r = bj_id row) (\<lambda>_. row) jobs))"

definition get_job :: "string \<Rightarrow> jobs \<Rightarrow> QueuedJob option res" where
  "get_job job_id jobs =
     bind_res (job_uuid job_id) (\<lambda>u. Inr (map_option to_job (row_by bj_id u jobs)))"

definition lease_expired :: "datetime \<Rightarrow> BackgroundJobModel \<Rightarrow> bool" where
  "lease_expired now r \<longleftrightarrow> bj_status r = JOB_RUNNING \<and>
     (case bj_lease_expires_at r of None \<Rightarrow> False | Some t \<Rightarrow> t < now)"

definition reap_row :: "datetime \<Rightarrow> BackgroundJobModel \<Rightarrow> BackgroundJobModel" where
  "reap_row now r =
     (if \<not> should_retry (bj_attempt_count r) (bj_max_attempts r)
      then (unlock_row r)\<lparr>bj_status := JOB_FAILED,
             bj_last_error := (case bj_last_error r of
                Some e \<Rightarrow> if e = '''' then Some ''LEASE_EXPIRED_MAX_ATTEMPTS'' else Some e
              | None \<Rightarrow> Some ''LEASE_EXPIRED_MAX_ATTEMPTS''),
             bj_updated_at := now\<rparr>
      else (unlock_row r)\<lparr>bj_status := JOB_PENDING, bj_available_at := now,
             bj_last_error := Some ''LEASE_EXPIRED'', bj_updated_at := now\<rparr>)"

definition reap_expired :: "uuid list \<Rightarrow> int \<Rightarrow> datetime \<Rightarrow> jobs \<Rightarrow> nat \<times> jobs" where
  "reap_expired locked limit now jobs =
     (let rows = take (nat limit) (filter (\<lambda>r. bj_id r \<notin> set locked)
                   (sort_key (\<lambda>r. (the (bj_lease_expires_at r), bj_id r))
                      (filter (lease_expired now) jobs)));
          ids = map bj_id rows
      in (length rows, update_rows (\<lambda>r. bj_id r \<in> set ids) (reap_row now) jobs))"

section \<open>Interleavings\<close>

text \<open>One step is one committed transaction of a client, of a worker or of the reaper.\<close>

inductive queue_step :: "queue_config \<Rightarrow> jobs \<Rightarrow> jobs \<Rightarrow> bool" for cfg where
  step_enqueue: "new_id \<notin> bj_id ` set jobs \<Longrightarrow>
     queue_step cfg jobs (snd (enqueue (queue_namespace cfg) new_id now req jobs))"
| step_claim: "queue_step cfg jobs (snd (claim cfg locked worker limit now stmt_now jobs))"
| step_heartbeat: "queue_step cfg jobs (snd (heartbeat cfg now job_id worker jobs))"
| step_complete: "queue_step cfg jobs (snd (complete now job_id worker jobs))"
| step_fail: "queue_step cfg jobs (snd (fail_job cfg now job_id worker code jobs))"
| step_reap: "queue_step cfg jobs (snd (reap_expired locked limit now jobs))"

inductive_cases queue_stepE: "queue_step cfg jobs jobs'"

section \<open>Well-formed rows\<close>

definition row_ok :: "BackgroundJobModel \<Rightarrow> bool" where
  "row_ok r \<longleftrightarrow> 1 \<le> bj_max_attempts r \<and> 0 \<le> bj_attempt_count r \<and>
     bj_attempt_count r \<le> bj_max_attempts r \<and>
     (bj_status r = JOB_PENDING \<longrightarrow> bj_attempt_count r < bj_max_attempts r) \<and>
     (if bj_status r = JOB_RUNNING
      then 1 \<le> bj_attempt_count r \<and> bj_locked_by r \<noteq> None \<and> bj_locked_at r \<noteq> None \<and>
           bj_heartbeat_at r \<noteq> None \<and> bj_lease_expires_at r \<noteq> None
      else bj_locked_by r = None \<and> bj_locked_at r = None \<and> bj_heartbeat_at r = None \<and>
           bj_lease_expires_at r = None)"

definition jobs_ok :: "jobs \<Rightarrow> bool" where
  "jobs_ok jobs \<longleftrightarrow> distinct (map bj_id jobs) \<and> (\<forall>r\<in>set jobs. row_ok r)"

definition finished :: "BackgroundJobModel \<Rightarrow> bool" where
  "finished r \<longleftrightarrow> bj_status r = JOB_SUCCEEDED \<or> bj_status r = JOB_FAILED"

text \<open>What a row may become: it keeps its identity and its budget, its attempt counter never
  falls, a finished row does not change, and a well-formed row stays well-formed.\<close>

definition row_evolves :: "BackgroundJobModel \<Rightarrow> BackgroundJobModel \<Rightarrow> bool" where
  "row_evolves r r' \<longleftrightarrow> bj_id r' = bj_id r \<and> bj_max_attempts r' = bj_max_attempts r \<and>
     bj_job_type r' = bj_job_type r \<and> bj_aggregate_id r' = bj_aggregate_id r \<and>
     bj_attempt_count r \<le> bj_attempt_count r' \<and> (finished r \<longrightarrow> r' = r) \<and>
     (row_ok r \<longrightarrow> row_ok r')"

lemma row_evolves_refl [simp]: "row_evolves r r"
  by (simp add: row_evolves_def)

lemma row_evolves_trans: "row_evolves r s \<Longrightarrow> row_evolves s t \<Longrightarrow> row_evolves r t"
  by (auto simp: row_evolves_def)

definition jobs_evolve :: "jobs \<Rightarrow> jobs \<Rightarrow> bool" where
  "jobs_evolve jobs jobs' \<longleftrightarrow>
     (\<exists>upd new. jobs' = upd @ new \<and> list_all2 row_evolves jobs upd \<and> (\<forall>r\<in>set new. row_ok r))"

lemma jobs_evolve_refl: "jobs_evolve jobs jobs"
  unfolding jobs_evolve_def by (rule exI [of _ jobs], rule exI [of _ "[]"]) (simp add: list.rel_refl)

lemma jobs_evolve_snoc: "row_ok r \<Longrightarrow> jobs_evolve jobs (jobs @ [r])"
  unfolding jobs_evolve_def
  by (rule exI [of _ jobs], rule exI [of _ "[r]"]) (simp add: list.rel_refl)

lemma jobs_evolve_trans:
  assumes "jobs_evolve a b" and "jobs_evolve b c"
  shows "jobs_evolve a c"
proof -
  from assms(1) obtain u n where b: "b = u @ n" "list_all2 row_evolves a u" "\<forall>r\<in>set n. row_ok r"
    by (auto simp: jobs_evolve_def)
  from assms(2) b(1) obtain u1 u2 m where
    c: "c = u1 @ u2 @ m" "list_all2 row_evolves u u1" "list_all2 row_evolves n u2" "\<forall>r\<in>set m. row_ok r"
    by (auto simp: jobs_evolve_def list_all2_append1)
  have "\<forall>r\<in>set u2. row_ok r"
    using c(3) b(3) by (fastforce simp: list_all2_conv_all_nth in_set_conv_nth row_evolves_def)
  moreover have "list_all2 row_evolves a u1"
    using b(2) c(2) by (rule list_all2_trans [rotated]) (rule row_evolves_trans)
  ultimately show ?thesis
    unfolding jobs_evolve_def using c(1,4) by (intro exI [of _ u1] exI [of _ "u2 @ m"]) auto
qed

lemma update_rows_evolve:
  "(\<And>r. r \<in> set jobs \<Longrightarrow> p r \<Longrightarrow> row_evolves r (f r)) \<Longrightarrow> jobs_evolve jobs (update_rows p f jobs)"
  unfolding jobs_evolve_def
  by (rule exI [of _ "update_rows p f jobs"], rule exI [of _ "[]"])
     (auto simp: update_rows_def list_all2_conv_all_nth)

lemma jobs_evolve_member:
  assumes "jobs_evolve jobs jobs'" and "r \<in> set jobs"
  shows "\<exists>r'\<in>set jobs'. row_evolves r r'"
  using assms by (fastforce simp: jobs_evolve_def list_all2_conv_all_nth in_set_conv_nth nth_append)

section \<open>Rows under the operations\<close>

lemma claim_row_evolves: "claimable now' r \<Longrightarrow> row_evolves r (claim_row cfg worker now r)"
  by (auto simp: row_evolves_def claimable_def claim_row_def row_ok_def finished_def)

lemma reap_row_evolves: "lease_expired now' r \<Longrightarrow> row_evolves r (reap_row now r)"
  by (auto simp: row_evolves_def lease_expired_def reap_row_def unlock_row_def row_ok_def
      finished_def should_retry_def)

lemma fail_row_evolves:
  "fail_row cfg now code r = Inr r' \<Longrightarrow> bj_status r = JOB_RUNNING \<Longrightarrow> row_evolves r r'"
  by (auto simp: row_evolves_def fail_row_def unlock_row_def row_ok_def finished_def
      should_retry_def bind_res_Inr_iff Let_def split: if_splits)

lemma owned_runningD:
  assumes "owned_running job_id worker jobs = Inr r"
  shows "r \<in> set jobs" and "bj_status r = JOB_RUNNING" and "bj_locked_by r = Some worker"
    and "UUID job_id = Inr (bj_id r)"
  using assms
  by (auto simp: owned_running_def bind_res_Inr_iff job_uuid_def dest: row_by_SomeD
      split: option.splits sum.splits if_splits)

lemma same_id_same_row:
  "jobs_ok jobs \<Longrightarrow> r \<in> set jobs \<Longrightarrow> r0 \<in> set jobs \<Longrightarrow> bj_id r = bj_id r0 \<Longrightarrow> r = r0"
  by (auto simp: jobs_ok_def distinct_map dest: inj_onD)

lemma owned_update_evolves:
  assumes "jobs_ok jobs" and "owned_running job_id worker jobs = Inr row" and "row_evolves row (f row)"
  shows "jobs_evolve jobs (update_rows (\<lambda>r. bj_id r = bj_id row) f jobs)"
proof (rule update_rows_evolve)
  fix r
  assume "r \<in> set jobs" and "bj_id r = bj_id row"
  then have "r = row" using same_id_same_row [OF assms(1)] owned_runningD(1) [OF assms(2)] by blast
  with assms(3) show "row_evolves r (f r)" by simp
qed

lemma heartbeat_row_evolves:
  "bj_status r = JOB_RUNNING \<Longrightarrow> row_evolves r (r\<lparr>bj_heartbeat_at := Some now,
     bj_lease_expires_at := Some t, bj_updated_at := now\<rparr>)"
  by (simp add: row_evolves_def row_ok_def finished_def)

lemma complete_row_evolves:
  "bj_status r = JOB_RUNNING \<Longrightarrow>
   row_evolves r ((unlock_row r)\<lparr>bj_status := JOB_SUCCEEDED, bj_updated_at := now\<rparr>)"
  by (simp add: row_evolves_def row_ok_def finished_def unlock_row_def)

lemma set_build_claim_statement:
  "set (build_claim_statement locked limit now jobs) \<subseteq>
     {r \<in> set jobs. claimable now r \<and> bj_id r \<notin> set locked}"
  unfolding build_claim_statement_def by (auto dest: in_set_takeD)

lemma queue_step_evolves:
  assumes "queue_step cfg jobs jobs'" and ok: "jobs_ok jobs"
  shows "jobs_evolve jobs jobs'"
  using assms(1)
proof cases
  case (step_enqueue new_id now req)
  have "row_ok (build_job_model new_id now ns req)" if "validate_enqueue_request req = Inr ()" for ns
    using that by (auto simp: validate_enqueue_request_def build_job_model_def row_ok_def split: if_splits)
  then show ?thesis
    using step_enqueue
    by (auto simp: enqueue_def Let_def jobs_evolve_refl intro!: jobs_evolve_snoc split: sum.splits)
next
  case (step_claim locked worker limit now stmt_now)
  have "row_evolves r (claim_row cfg worker now r)"
    if "r \<in> set jobs" "bj_id r \<in> bj_id ` set (build_claim_statement locked limit stmt_now jobs)" for r
    using that set_build_claim_statement same_id_same_row [OF ok] claim_row_evolves by blast
  then show ?thesis
    using step_claim by (auto simp: claim_def Let_def jobs_evolve_refl intro!: update_rows_evolve)
next
  case (step_heartbeat now job_id worker)
  then show ?thesis
    by (auto simp: heartbeat_def jobs_evolve_refl split: sum.splits
        intro!: owned_update_evolves [OF ok] heartbeat_row_evolves dest: owned_runningD(2))
next
  case (step_complete now job_id worker)
  then show ?thesis
    by (auto simp: complete_def jobs_evolve_refl split: sum.splits
        intro!: owned_update_evolves [OF ok] complete_row_evolves dest: owned_runningD(2))
next
  case (step_fail now job_id worker code)
  show ?thesis
  proof (cases "bind_res (owned_running job_id worker jobs) (fail_row cfg now code)")
    case (Inl e)
    with step_fail show ?thesis by (simp add: fail_job_def jobs_evolve_refl)
  next
    case (Inr row)
    then obtain r0 where r0: "owned_running job_id worker jobs = Inr r0"
        "fail_row cfg now code r0 = Inr row"
      by (auto simp: bind_res_Inr_iff)
    have ev: "row_evolves r0 row" using fail_row_evolves [OF r0(2) owned_runningD(2) [OF r0(1)]] .
    then have "bj_id row = bj_id r0" by (simp add: row_evolves_def)
    then show ?thesis
      using step_fail Inr owned_update_evolves [OF ok r0(1), of "\<lambda>_. row"] ev by (simp add: fail_job_def)
  qed
next
  case (step_reap locked limit now)
  have "row_evolves r (reap_row now r)"
    if "r \<in> set jobs" "bj_id r \<in> bj_id ` set (take (nat limit) (filter (\<lambda>r. bj_id r \<notin> set locked)
          (sort_key (\<lambda>r. (the (bj_lease_expires_at r), bj_id r)) (filter (lease_expired now) jobs))))" for r
    using that same_id_same_row [OF ok] reap_row_evolves [of now] by (auto dest!: in_set_takeD) blast
  then show ?thesis
    using step_reap by (auto simp: reap_expired_def Let_def intro!: update_rows_evolve)
qed

lemma jobs_evolve_ids:
  assumes "jobs_evolve jobs jobs'" and "length jobs' = length jobs"
  shows "map bj_id jobs' = map bj_id jobs"
  using assms
  by (auto simp: jobs_evolve_def row_evolves_def list_all2_conv_all_nth intro: nth_equalityI)

lemma queue_step_ids:
  assumes "queue_step cfg jobs jobs'" and ok: "jobs_ok jobs"
  shows "map bj_id jobs' = map bj_id jobs \<or>
         (\<exists>new_id. new_id \<notin> bj_id ` set jobs \<and> map bj_id jobs' = map bj_id jobs @ [new_id])"
proof (cases "length jobs' = length jobs")
  case True
  with jobs_evolve_ids [OF queue_step_evolves [OF assms]] show ?thesis by simp
next
  case False
  with assms(1) obtain new_id now req where
    "new_id \<notin> bj_id ` set jobs" "jobs' = snd (enqueue (queue_namespace cfg) new_id now req jobs)"
    by cases (auto simp: claim_def heartbeat_def complete_def fail_job_def reap_expired_def Let_def
        split: sum.splits if_splits)
  with False show ?thesis
    by (auto simp: enqueue_def build_job_model_def Let_def split: sum.splits)
qed

lemma queue_step_ok: "queue_step cfg jobs jobs' \<Longrightarrow> jobs_ok jobs \<Longrightarrow> jobs_ok jobs'"
proof -
  assume st: "queue_step cfg jobs jobs'" and ok: "jobs_ok jobs"
  from queue_step_evolves [OF st ok] obtain u n where
    j: "jobs' = u @ n" "list_all2 row_evolves jobs u" "\<forall>r\<in>set n. row_ok r"
    by (auto simp: jobs_evolve_def)
  have "\<forall>r\<in>set u. row_ok r"
    using j(2) ok by (fastforce simp: jobs_ok_def list_all2_conv_all_nth in_set_conv_nth row_evolves_def)
  moreover have "distinct (map bj_id jobs')"
    using queue_step_ids [OF st ok] ok by (auto simp: jobs_ok_def)
  ultimately show ?thesis using j by (auto simp: jobs_ok_def)
qed

interpretation jq: invariant_system "\<lambda>jobs. jobs = []" "queue_step cfg" jobs_ok
  by unfold_locales (auto simp: jobs_ok_def [of "[]"] intro: queue_step_ok)

lemma queue_run_evolves:
  assumes "(queue_step cfg)\<^sup>*\<^sup>* jobs jobs'" and "jobs_ok jobs"
  shows "jobs_evolve jobs jobs'"
  by (rule jq.run_preserves [OF assms(1,2), where P = "jobs_evolve jobs"])
     (auto intro: jobs_evolve_refl jobs_evolve_trans queue_step_evolves)

section \<open>Claiming\<close>

lemma claim_statement_length:
  assumes "1 \<le> limit"
  shows "int (length (build_claim_statement locked limit now jobs)) \<le> limit"
proof -
  have "length (build_claim_statement locked limit now jobs) \<le> nat limit"
    by (simp add: build_claim_statement_def)
  with assms show ?thesis by linarith
qed

definition claim_queue :: "uuid list \<Rightarrow> datetime \<Rightarrow> jobs \<Rightarrow> jobs" where
  "claim_queue locked now jobs =
     filter (\<lambda>r. bj_id r \<notin> set locked) (sort_key claim_key (filter (claimable now) jobs))"

lemma claim_statement_queue:
  "build_claim_statement locked limit now jobs = take (nat limit) (claim_queue locked now jobs)"
  by (simp add: build_claim_statement_def claim_queue_def)

lemma claim_queue_sorted: "sorted (map claim_key (claim_queue locked now jobs))"
  unfolding claim_queue_def by (rule sorted_filter) simp

lemma set_claim_queue:
  "set (claim_queue locked now jobs) = {r \<in> set jobs. claimable now r \<and> bj_id r \<notin> set locked}"
  by (auto simp: claim_queue_def)

lemma claim_statement_first:
  assumes "r \<in> set (build_claim_statement locked limit now jobs)"
    and "r' \<in> set jobs" "claimable now r'" "bj_id r' \<notin> set locked"
    and "r' \<notin> set (build_claim_statement locked limit now jobs)"
  shows "claim_key r \<le> claim_key r'"
proof -
  let ?q = "claim_queue locked now jobs"
  have split: "set ?q = set (take (nat limit) ?q) \<union> set (drop (nat limit) ?q)"
    by (metis append_take_drop_id set_append)
  have "r' \<in> set ?q" using assms(2-4) by (simp add: set_claim_queue)
  with assms(5) split have "r' \<in> set (drop (nat limit) ?q)"
    by (simp add: claim_statement_queue)
  moreover have "sorted (map claim_key (take (nat limit) ?q) @ map claim_key (drop (nat limit) ?q))"
    using claim_queue_sorted [of locked now jobs] by (simp flip: map_append)
  ultimately show ?thesis
    using assms(1) by (simp add: claim_statement_queue sorted_append)
qed

lemma distinct_claim_statement:
  assumes "jobs_ok jobs"
  shows "distinct (map bj_id (build_claim_statement locked limit now jobs))"
proof -
  have "distinct (claim_queue locked now jobs)"
    using assms by (simp add: claim_queue_def jobs_ok_def distinct_map distinct_sort)
  moreover have "inj_on bj_id (set (claim_queue locked now jobs))"
    using assms by (auto simp: set_claim_queue jobs_ok_def distinct_map intro: inj_on_subset)
  ultimately show ?thesis
    by (auto simp: claim_statement_queue distinct_map intro: inj_on_subset dest: in_set_takeD)
qed

lemma row_by_claim:
  assumes ok: "jobs_ok jobs" and r: "r \<in> set jobs" and l: "1 \<le> limit"
  shows "row_by bj_id (bj_id r) (snd (claim cfg locked worker limit now stmt_now jobs)) =
     Some (if r \<in> set (build_claim_statement locked limit stmt_now jobs)
           then claim_row cfg worker now r else r)"
proof -
  have iff: "bj_id r \<in> bj_id ` set (build_claim_statement locked limit stmt_now jobs) \<longleftrightarrow>
      r \<in> set (build_claim_statement locked limit stmt_now jobs)"
    using set_build_claim_statement same_id_same_row [OF ok r] by blast
  have "row_by bj_id (bj_id r) jobs = Some r"
    using ok r by (simp add: jobs_ok_def row_by_distinct)
  then show ?thesis
    using l iff by (simp add: claim_def Let_def row_by_update_rows claim_row_def)
qed

section \<open>Properties\<close>

text \<open>C17: in every state the interleaved operations can reach from the empty table, job ids are
  unique, every attempt counter is within its budget, pending jobs have attempts left, and a job
  has an owner, a lease and a heartbeat exactly while it is running.\<close>

theorem queue_reachable_ok:
  assumes "(queue_step cfg)\<^sup>*\<^sup>* [] jobs"
  shows "jobs_ok jobs"
  using jq.inv_reachable [OF refl assms] .

text \<open>C18: a claim takes at most \<open>limit\<close> jobs, each of them pending, due and not locked by another
  transaction; they become running, owned by the caller with a fresh lease and one more attempt;
  no other row changes.\<close>

theorem claim_exclusive:
  assumes "jobs_ok jobs" and "1 \<le> limit"
    and "claim cfg locked worker limit now stmt_now jobs = (claimed, jobs')"
  shows "int (length claimed) \<le> limit \<and> distinct (map qj_job_id claimed) \<and>
    (\<forall>q\<in>set claimed. \<exists>r\<in>set jobs. bj_status r = JOB_PENDING \<and> bj_available_at r \<le> stmt_now \<and>
        bj_id r \<notin> set locked \<and> q = to_job (claim_row cfg worker now r) \<and>
        row_by bj_id (bj_id r) jobs' = Some (claim_row cfg worker now r)) \<and>
    (\<forall>r\<in>set jobs. uuid_str (bj_id r) \<notin> qj_job_id ` set claimed \<longrightarrow>
        row_by bj_id (bj_id r) jobs' = Some r)"
proof -
  let ?rows = "build_claim_statement locked limit stmt_now jobs"
  have claimed: "claimed = map (\<lambda>r. to_job (claim_row cfg worker now r)) ?rows"
    and jobs': "jobs' = snd (claim cfg locked worker limit now stmt_now jobs)"
    using assms(2,3) by (auto simp: claim_def Let_def)
  have ids: "map qj_job_id claimed = map uuid_str (map bj_id ?rows)"
    by (simp add: claimed to_job_def claim_row_def)
  have "distinct (map qj_job_id claimed)"
    unfolding ids using distinct_claim_statement [OF assms(1), of locked limit stmt_now]
    by (simp add: distinct_map inj_on_def)
  moreover have "\<exists>r\<in>set jobs. bj_status r = JOB_PENDING \<and> bj_available_at r \<le> stmt_now \<and>
        bj_id r \<notin> set locked \<and> q = to_job (claim_row cfg worker now r) \<and>
        row_by bj_id (bj_id r) jobs' = Some (claim_row cfg worker now r)" if "q \<in> set claimed" for q
  proof -
    from that obtain r where r: "r \<in> set ?rows" "q = to_job (claim_row cfg worker now r)"
      by (auto simp: claimed)
    then have "r \<in> set jobs" "claimable stmt_now r" "bj_id r \<notin> set locked"
      using set_build_claim_statement by blast+
    with r row_by_claim [OF assms(1) \<open>r \<in> set jobs\<close> assms(2)] show ?thesis
      by (auto simp: jobs' claimable_def)
  qed
  moreover have "row_by bj_id (bj_id r) jobs' = Some r"
    if "r \<in> set jobs" "uuid_str (bj_id r) \<notin> qj_job_id ` set claimed" for r
  proof -
    have "r \<notin> set ?rows" using that(2) by (auto simp: claimed to_job_def claim_row_def image_iff)
    then show ?thesis using row_by_claim [OF assms(1) that(1) assms(2)] by (simp add: jobs')
  qed
  ultimately show ?thesis
    using claim_statement_length [OF assms(2)] by (simp add: claimed)
qed

text \<open>Claims are oldest first: the claimed jobs come in the order of availability, creation
  time and id, and no claimable job that is left behind precedes a claimed one.\<close>

theorem claim_oldest_first:
  "sorted (map claim_key (build_claim_statement locked limit now jobs)) \<and>
   (\<forall>r\<in>set (build_claim_statement locked limit now jobs). \<forall>r'\<in>set jobs.
      claimable now r' \<and> bj_id r' \<notin> set locked \<and>
      r' \<notin> set (build_claim_statement locked limit now jobs) \<longrightarrow> claim_key r \<le> claim_key r')"
proof
  show "sorted (map claim_key (build_claim_statement locked limit now jobs))"
    using sorted_wrt_take [OF claim_queue_sorted, of "nat limit" locked now jobs]
    by (simp add: claim_statement_queue take_map)
qed (use claim_statement_first in blast)

text \<open>Over any run of the queue a job keeps its id, type, aggregate and attempt budget, its
  attempt counter never falls and never exceeds the budget, and once it has succeeded or failed
  its row never changes again.\<close>

theorem queue_run_bounded:
  assumes "(queue_step cfg)\<^sup>*\<^sup>* jobs jobs'" and "jobs_ok jobs" and "r \<in> set jobs"
  shows "\<exists>r'\<in>set jobs'. bj_id r' = bj_id r \<and> bj_job_type r' = bj_job_type r \<and>
     bj_aggregate_id r' = bj_aggregate_id r \<and> bj_max_attempts r' = bj_max_attempts r \<and>
     bj_attempt_count r \<le> bj_attempt_count r' \<and> bj_attempt_count r' \<le> bj_max_attempts r \<and>
     (finished r \<longrightarrow> r' = r)"
proof -
  obtain r' where r': "r' \<in> set jobs'" "row_evolves r r'"
    using jobs_evolve_member [OF queue_run_evolves [OF assms(1,2)] assms(3)] by blast
  have "jobs_ok jobs'" by (rule jq.inv_run [OF assms(1,2)])
  then have "row_ok r'" using r'(1) by (simp add: jobs_ok_def)
  then have "bj_attempt_count r' \<le> bj_max_attempts r'" by (simp add: row_ok_def)
  with r'(2) show ?thesis
    by (intro bexI [OF _ r'(1)]) (auto simp: row_evolves_def)
qed

text \<open>Only the worker that holds a running job may heartbeat, complete or fail it: for anyone
  else, and for a job that is not running, all three raise and leave the table unchanged.\<close>

theorem only_owner_changes_job:
  assumes "row_by bj_id u jobs = Some r" and "bj_status r \<noteq> JOB_RUNNING \<or> bj_locked_by r \<noteq> Some worker"
  shows "heartbeat cfg now (uuid_str u) worker jobs = (Inl JobOwnershipError, jobs) \<and>
         complete now (uuid_str u) worker jobs = (Inl JobOwnershipError, jobs) \<and>
         fail_job cfg now (uuid_str u) worker code jobs = (Inl JobOwnershipError, jobs)"
proof -
  have "owned_running (uuid_str u) worker jobs = Inl JobOwnershipError"
    using assms by (auto simp: owned_running_def job_uuid_def)
  then show ?thesis by (simp add: heartbeat_def complete_def fail_job_def)
qed

text \<open>The reaper leaves no expired lease behind: with no row locked elsewhere and a batch
  large enough, afterwards no job has an expired lease, and each one that had is pending and due
  now if it has attempts left, and failed otherwise.\<close>

theorem reap_recovers_expired:
  assumes "jobs_ok jobs" and "int (length (filter (lease_expired now) jobs)) \<le> limit"
    and "reap_expired [] limit now jobs = (n, jobs')"
  shows "n = length (filter (lease_expired now) jobs) \<and> (\<forall>r\<in>set jobs'. \<not> lease_expired now r) \<and>
    (\<forall>r\<in>set jobs. lease_expired now r \<longrightarrow>
       (\<exists>r'\<in>set jobs'. bj_id r' = bj_id r \<and> bj_locked_by r' = None \<and>
          (if bj_attempt_count r < bj_max_attempts r
           then bj_status r' = JOB_PENDING \<and> bj_available_at r' = now
           else bj_status r' = JOB_FAILED)))"
proof -
  let ?key = "\<lambda>r. (the (bj_lease_expires_at r), bj_id r)"
  let ?rows = "sort_key ?key (filter (lease_expired now) jobs)"
  have take: "take (nat limit) ?rows = ?rows" using assms(2) by simp
  have p: "bj_id r \<in> bj_id ` set ?rows \<longleftrightarrow> lease_expired now r" if "r \<in> set jobs" for r
    using that same_id_same_row [OF assms(1) that] by auto
  have jobs': "jobs' = map (\<lambda>r. if lease_expired now r then reap_row now r else r) jobs"
    using assms(3) p by (auto simp: reap_expired_def Let_def take update_rows_def)
  have n: "n = length (filter (lease_expired now) jobs)"
    using assms(3) by (simp add: reap_expired_def Let_def take)
  have reaped: "\<not> lease_expired now (reap_row now r) \<and> bj_id (reap_row now r) = bj_id r \<and>
      bj_locked_by (reap_row now r) = None \<and>
      (if bj_attempt_count r < bj_max_attempts r
       then bj_status (reap_row now r) = JOB_PENDING \<and> bj_available_at (reap_row now r) = now
       else bj_status (reap_row now r) = JOB_FAILED)" for r
    by (simp add: reap_row_def lease_expired_def unlock_row_def should_retry_def)
  have "\<forall>r\<in>set jobs'. \<not> lease_expired now r" unfolding jobs' using reaped by auto
  moreover have "\<exists>r'\<in>set jobs'. bj_id r' = bj_id r \<and> bj_locked_by r' = None \<and>
      (if bj_attempt_count r < bj_max_attempts r
       then bj_status r' = JOB_PENDING \<and> bj_available_at r' = now
       else bj_status r' = JOB_FAILED)" if "r \<in> set jobs" "lease_expired now r" for r
  proof (rule bexI [of _ "reap_row now r"])
    show "reap_row now r \<in> set jobs'" unfolding jobs' using that by force
  qed (use reaped in blast)
  ultimately show ?thesis using n by blast
qed

text \<open>The retry delay is never negative, never above the configured maximum, and doubles with
  each attempt until it reaches that maximum.\<close>

theorem retry_delay_backoff:
  assumes "0 < base" and "0 \<le> mx" and "1 \<le> n" and "n \<le> 1023"
  shows "\<exists>d d'. compute_retry_delay n base mx = Inr d \<and> compute_retry_delay (n + 1) base mx = Inr d' \<and>
    0 \<le> d \<and> d \<le> mx \<and> d' = min (2 * d) mx"
proof -
  have e: "nat (max 0 (n + 1 - 1)) = Suc (nat (n - 1))" "nat (max 0 (n - 1)) = nat (n - 1)"
    using assms(3) by auto
  have "compute_retry_delay n base mx = Inr (min (base * 2 ^ nat (n - 1)) mx)"
    using assms e by (auto simp: compute_retry_delay_def)
  moreover have "compute_retry_delay (n + 1) base mx = Inr (min (2 * (base * 2 ^ nat (n - 1))) mx)"
    using assms unfolding compute_retry_delay_def e by auto
  ultimately show ?thesis using assms by auto
qed

section \<open>Witnesses\<close>

definition sample_config :: queue_config where
  "sample_config = \<lparr>lease_seconds = 60, retry_base_seconds = 5, retry_max_seconds = 300,
     queue_namespace = ''project-agent''\<rparr>"

definition sample_request :: EnqueueJobRequest where
  "sample_request = \<lparr>ej_job_type = ''EXECUTE_AGENT_RUN'', ej_aggregate_id = ''a'', ej_max_attempts = 3\<rparr>"

definition sample_jobs :: jobs where
  "sample_jobs = [build_job_model 7 0 ''project-agent'' sample_request,
     claim_row sample_config ''w1'' 0 (build_job_model 8 0 ''project-agent'' sample_request)]"

lemma sample_jobs_ok: "jobs_ok sample_jobs"
  by (simp add: jobs_ok_def sample_jobs_def build_job_model_def claim_row_def row_ok_def
      sample_request_def)

theorem queue_reachable_ok_witness:
  "jobs_ok (snd (enqueue ''project-agent'' 7 0 sample_request []))"
proof -
  have "queue_step sample_config [] (snd (enqueue (queue_namespace sample_config) 7 0 sample_request []))"
    by (rule step_enqueue) simp
  then have "(queue_step sample_config)\<^sup>*\<^sup>* [] (snd (enqueue ''project-agent'' 7 0 sample_request []))"
    by (simp add: sample_config_def r_into_rtranclp)
  then show ?thesis by (rule queue_reachable_ok)
qed

theorem claim_exclusive_witness:
  "\<exists>claimed jobs'. claim sample_config [] ''w2'' 4 10 10 sample_jobs = (claimed, jobs') \<and>
     int (length claimed) \<le> 4 \<and> map qj_job_id claimed = [uuid_str 7]"
proof -
  obtain c j where cj: "claim sample_config [] ''w2'' 4 10 10 sample_jobs = (c, j)"
    by (cases "claim sample_config [] ''w2'' 4 10 10 sample_jobs")
  have "int (length c) \<le> 4" using claim_exclusive [OF sample_jobs_ok _ cj] by simp
  moreover have "build_claim_statement [] 4 10 sample_jobs =
      [build_job_model 7 0 ''project-agent'' sample_request]"
    by (simp add: build_claim_statement_def sample_jobs_def build_job_model_def
        claim_row_def claimable_def)
  then have "map qj_job_id c = [uuid_str 7]"
    using cj by (auto simp: claim_def Let_def to_job_def claim_row_def build_job_model_def)
  ultimately show ?thesis using cj by (intro exI conjI)
qed

theorem claim_oldest_first_witness:
  "sorted (map claim_key (build_claim_statement [] 1 10 sample_jobs))"
  using claim_oldest_first [of "[]" 1 10 sample_jobs] by simp

theorem queue_run_bounded_witness:
  "\<exists>r'\<in>set (snd (claim sample_config [] ''w2'' 1 10 10 sample_jobs)).
     bj_id r' = 7 \<and> bj_attempt_count r' \<le> 3"
proof -
  have "queue_step sample_config sample_jobs (snd (claim sample_config [] ''w2'' 1 10 10 sample_jobs))"
    by (rule step_claim)
  then have run: "(queue_step sample_config)\<^sup>*\<^sup>* sample_jobs
      (snd (claim sample_config [] ''w2'' 1 10 10 sample_jobs))" by (rule r_into_rtranclp)
  have "hd sample_jobs \<in> set sample_jobs" by (simp add: sample_jobs_def)
  then obtain r' where "r' \<in> set (snd (claim sample_config [] ''w2'' 1 10 10 sample_jobs))"
      "bj_id r' = bj_id (hd sample_jobs)" "bj_attempt_count r' \<le> bj_max_attempts (hd sample_jobs)"
    using queue_run_bounded [OF run sample_jobs_ok] by blast
  then show ?thesis
    by (auto simp: sample_jobs_def build_job_model_def sample_request_def)
qed

theorem only_owner_changes_job_witness:
  "complete 1 (uuid_str 8) ''w2'' sample_jobs = (Inl JobOwnershipError, sample_jobs)"
proof -
  have "row_by bj_id 8 sample_jobs =
      Some (claim_row sample_config ''w1'' 0 (build_job_model 8 0 ''project-agent'' sample_request))"
    by (simp add: sample_jobs_def build_job_model_def claim_row_def)
  then show ?thesis
    using only_owner_changes_job [where worker = "''w2''" and u = 8 and jobs = sample_jobs]
    by (simp add: claim_row_def)
qed

theorem reap_recovers_expired_witness:
  "\<exists>jobs'. reap_expired [] 100 61 sample_jobs = (1, jobs') \<and> (\<forall>r\<in>set jobs'. \<not> lease_expired 61 r)"
proof -
  have exp: "filter (lease_expired 61) sample_jobs =
      [claim_row sample_config ''w1'' 0 (build_job_model 8 0 ''project-agent'' sample_request)]"
    by (simp add: sample_jobs_def build_job_model_def claim_row_def lease_expired_def sample_config_def)
  obtain n j where nj: "reap_expired [] 100 61 sample_jobs = (n, j)"
    by (cases "reap_expired [] 100 61 sample_jobs")
  then show ?thesis
    using reap_recovers_expired [OF sample_jobs_ok _ nj] by (simp add: exp)
qed

theorem retry_delay_backoff_witness:
  "\<exists>d. compute_retry_delay 2 5 300 = Inr d \<and> d \<le> 300 \<and> compute_retry_delay 3 5 300 = Inr (min (2 * d) 300)"
  using retry_delay_backoff [of 5 300 2] by auto

end
