(* ===== verification/Runs.thy ===== *)
theory Runs
  imports Authorization JobQueue
begin

text \<open>
  Threads, runs and their event log: the tables, the repository
  (\<open>infrastructure/db/repositories/runs.py\<close>) with the artifact events of
  \<open>infrastructure/db/repositories/qa_graph.py\<close>, the application service that creates and resumes
  runs (\<open>application/services/runs.py\<close>), the execution service that moves a run through its states
  (\<open>application/services/run_execution.py\<close>), the worker's job handlers
  (\<open>workers/run_execution.py\<close>) and the event stream of the API (\<open>api/v1/runs.py\<close>).

  Each service call runs in one transaction: it commits when it returns and changes nothing when
  it raises (\<open>transactional\<close>). Row locks serialise the transactions of one run, so a history of the
  tables is a sequence of such calls. Keys and times are arguments.
\<close>

section \<open>Tables and records\<close>

record ThreadModel =
  th_id :: uuid
  th_company_id :: uuid
  th_project_id :: uuid
  th_user_id :: uuid
  th_title :: "string option"

record AgentRunModel =
  ar_id :: uuid
  ar_thread_id :: uuid
  ar_company_id :: uuid
  ar_project_id :: uuid
  ar_user_id :: uuid
  ar_business_mode :: "RunBusinessMode option"
  ar_status :: RunStatus
  ar_model_alias :: "string option"
  ar_prompt_version :: "string option"
  ar_prompt_content_hash :: "string option"
  ar_input_tokens :: int
  ar_output_tokens :: int
  ar_total_tokens :: int
  ar_retrieval_rounds :: int
  ar_estimated_cost_microunits :: int
  ar_cost_currency :: string
  ar_started_at :: "datetime option"
  ar_finished_at :: "datetime option"

record AgentEventModel =
  ae_id :: uuid
  ae_run_id :: uuid
  ae_sequence_no :: int
  ae_event_type :: AgentEventType
  ae_payload :: payload

record RunRecord =
  rr_id :: uuid
  rr_thread_id :: uuid
  rr_company_id :: uuid
  rr_project_id :: uuid
  rr_user_id :: uuid
  rr_business_mode :: RunBusinessMode
  rr_status :: RunStatus
  rr_started_at :: "datetime option"
  rr_finished_at :: "datetime option"
  rr_result_ref :: "string option"
  rr_result_summary :: "string option"

record run_db =
  threads :: "ThreadModel list"
  runs :: "AgentRunModel list"
  events :: "AgentEventModel list"
  queue :: jobs

type_synonym 'a run_op = "('a, run_db) op"

section \<open>infrastructure/db/repositories/runs.py\<close>

definition get_thread :: "uuid \<Rightarrow> run_db \<Rightarrow> ThreadModel option" where
  "get_thread thread_id db = row_by th_id thread_id (threads db)"

definition create_thread :: "uuid \<Rightarrow> uuid \<Rightarrow> uuid \<Rightarrow> uuid \<Rightarrow> ThreadModel run_op" where
  "create_thread new_id company_id project_id user_id db =
     (let row = \<lparr>th_id = new_id, th_company_id = company_id, th_project_id = project_id,
                 th_user_id = user_id, th_title = None\<rparr>
      in (Inr row, db\<lparr>threads := threads db @ [row]\<rparr>))"

definition to_run :: "AgentRunModel \<Rightarrow> AgentEventModel option \<Rightarrow> RunRecord res" where
  "to_run row terminal =
     (case ar_business_mode row of
        None \<Rightarrow> Inl (ValueError ''agent run has no business_mode'')
      | Some mode \<Rightarrow> Inr
          \<lparr>rr_id = ar_id row, rr_thread_id = ar_thread_id row, rr_company_id = ar_company_id row,
           rr_project_id = ar_project_id row, rr_user_id = ar_user_id row, rr_business_mode = mode,
           rr_status = ar_status row, rr_started_at = ar_started_at row,
           rr_finished_at = ar_finished_at row,
           rr_result_ref = Option.bind terminal (\<lambda>e. str_field (ae_payload e) ''result_ref''),
           rr_result_summary = Option.bind terminal (\<lambda>e. str_field (ae_payload e) ''summary'')\<rparr>)"

definition new_run_row ::
  "uuid \<Rightarrow> uuid \<Rightarrow> uuid \<Rightarrow> uuid \<Rightarrow> uuid \<Rightarrow> RunBusinessMode \<Rightarrow> AgentRunModel" where
  "new_run_row new_id thread_id company_id project_id user_id mode =
     \<lparr>ar_id = new_id, ar_thread_id = thread_id, ar_company_id = company_id,
      ar_project_id = project_id, ar_user_id = user_id, ar_business_mode = Some mode,
      ar_status = QUEUED, ar_model_alias = None, ar_prompt_version = None,
      ar_prompt_content_hash = None, ar_input_tokens = 0, ar_output_tokens = 0, ar_total_tokens = 0,
      ar_retrieval_rounds = 0, ar_estimated_cost_microunits = 0, ar_cost_currency = ''USD'',
      ar_started_at = None, ar_finished_at = None\<rparr>"

definition repo_create_run ::
  "uuid \<Rightarrow> uuid \<Rightarrow> uuid \<Rightarrow> uuid \<Rightarrow> uuid \<Rightarrow> RunBusinessMode \<Rightarrow> RunRecord run_op" where
  "repo_create_run new_id thread_id company_id project_id user_id mode db =
     (let row = new_run_row new_id thread_id company_id project_id user_id mode
      in (to_run row None, db\<lparr>runs := runs db @ [row]\<rparr>))"

definition events_of :: "uuid \<Rightarrow> run_db \<Rightarrow> AgentEventModel list" where
  "events_of run_id db = filter (\<lambda>e. ae_run_id e = run_id) (events db)"

text \<open>\<open>ORDER BY sequence_no DESC LIMIT 1\<close>.\<close>

definition latest_row :: "AgentEventModel list \<Rightarrow> AgentEventModel option" where
  "latest_row rows = (if rows = [] then None else Some (last (sort_key ae_sequence_no rows)))"

definition latest_event_of_type :: "uuid \<Rightarrow> AgentEventType \<Rightarrow> run_db \<Rightarrow> AgentEventModel option" where
  "latest_event_of_type run_id event_type db =
     latest_row (filter (\<lambda>e. ae_event_type e = event_type) (events_of run_id db))"

definition latest_terminal_event :: "uuid \<Rightarrow> run_db \<Rightarrow> AgentEventModel option" where
  "latest_terminal_event run_id db =
     latest_row (filter (\<lambda>e. terminal_event (ae_event_type e)) (events_of run_id db))"

definition repo_get_run :: "uuid \<Rightarrow> run_db \<Rightarrow> RunRecord option res" where
  "repo_get_run run_id db =
     (case row_by ar_id run_id (runs db) of
        None \<Rightarrow> Inr None
      | Some row \<Rightarrow>
          bind_res (to_run row (latest_terminal_event run_id db)) (\<lambda>r. Inr (Some r)))"

definition next_sequence :: "uuid \<Rightarrow> run_db \<Rightarrow> int" where
  "next_sequence run_id db =
     (let nos = map ae_sequence_no (events_of run_id db)
      in (if nos = [] then 0 else Max (set nos)) + 1)"

definition append_event :: "uuid \<Rightarrow> uuid \<Rightarrow> AgentEventType \<Rightarrow> payload \<Rightarrow> AgentEventModel run_op" where
  "append_event new_id run_id event_type payload db =
     (if row_by ar_id run_id (runs db) = None then (Inl (LookupError (uuid_str run_id)), db)
      else let row = \<lparr>ae_id = new_id, ae_run_id = run_id,
                      ae_sequence_no = next_sequence run_id db, ae_event_type = event_type,
                      ae_payload = payload\<rparr>
           in (Inr row, db\<lparr>events := events db @ [row]\<rparr>))"

definition list_events_after :: "uuid \<Rightarrow> int \<Rightarrow> int \<Rightarrow> run_db \<Rightarrow> AgentEventModel list" where
  "list_events_after run_id after limit db =
     (if limit < 1 then []
      else take (nat limit)
        (sort_key ae_sequence_no (filter (\<lambda>e. after < ae_sequence_no e) (events_of run_id db))))"

definition set_status :: "uuid \<Rightarrow> RunStatus \<Rightarrow> RunRecord run_op" where
  "set_status run_id status db =
     (case row_by ar_id run_id (runs db) of
        None \<Rightarrow> (Inl (LookupError (uuid_str run_id)), db)
      | Some row \<Rightarrow>
          (to_run (row\<lparr>ar_status := status\<rparr>) None,
           db\<lparr>runs := update_rows (\<lambda>r. ar_id r = run_id) (\<lambda>r. r\<lparr>ar_status := status\<rparr>) (runs db)\<rparr>))"

definition set_lifecycle ::
  "uuid \<Rightarrow> RunStatus \<Rightarrow> datetime option \<Rightarrow> datetime option \<Rightarrow> RunRecord run_op" where
  "set_lifecycle run_id status started_at finished_at db =
     (let f = (\<lambda>r. r\<lparr>ar_status := status, ar_started_at := started_at, ar_finished_at := finished_at\<rparr>)
      in case row_by ar_id run_id (runs db) of
           None \<Rightarrow> (Inl (LookupError (uuid_str run_id)), db)
         | Some row \<Rightarrow>
             (to_run (f row) None, db\<lparr>runs := update_rows (\<lambda>r. ar_id r = run_id) f (runs db)\<rparr>))"

section \<open>infrastructure/db/repositories/qa_graph.py: the query and the artifacts of a run\<close>

definition load_query :: "uuid \<Rightarrow> run_db \<Rightarrow> string res" where
  "load_query run_id db =
     (case sort_key ae_sequence_no
        (filter (\<lambda>e. ae_event_type e = RUN_QUEUED) (events_of run_id db)) of
        [] \<Rightarrow> Inl (LookupError ''run has no durable query event'')
      | e # _ \<Rightarrow>
          (case map_of (ae_payload e) ''query_text'' of
             Some (JStr q) \<Rightarrow>
               if py_strip q = [] then Inl (ValueError ''durable query event is missing query text'')
               else Inr q
           | Some _ \<Rightarrow> Inl (ValueError ''durable query event is missing query text'')
           | None \<Rightarrow>
               (case map_of (ae_payload e) ''query'' of
                  Some (JStr q) \<Rightarrow>
                    if py_strip q = [] then Inl (ValueError ''durable query event is missing query text'')
                    else Inr q
                | _ \<Rightarrow> Inl (ValueError ''durable query event is missing query text''))))"

definition save_artifact :: "uuid \<Rightarrow> uuid \<Rightarrow> string \<Rightarrow> payload \<Rightarrow> uuid run_op" where
  "save_artifact new_id run_id artifact_type payload =
     bind_op (append_event new_id run_id ARTIFACT_AVAILABLE
         [(''artifact_type'', JStr artifact_type), (''artifact'', JObj payload)])
       (\<lambda>e. return_op (ae_id e))"

definition load_artifact :: "uuid \<Rightarrow> run_db \<Rightarrow> payload res" where
  "load_artifact artifact_id db =
     (case row_by ae_id artifact_id (events db) of
        None \<Rightarrow> Inl (LookupError ''graph artifact does not exist'')
      | Some e \<Rightarrow>
          if ae_event_type e = ARTIFACT_AVAILABLE
          then (case map_of (ae_payload e) ''artifact'' of
                  Some (JObj a) \<Rightarrow> Inr a
                | _ \<Rightarrow> Inl (ValueError ''graph artifact has invalid event payload''))
          else Inr (ae_payload e))"

section \<open>application/services/runs.py\<close>

record ResumeRunCommand =
  rc_action :: ConfirmationAction
  rc_request_payload_hash :: string

record CreateRunCommand =
  cr_project_id :: uuid
  cr_business_mode :: RunBusinessMode
  cr_query_text :: string
  cr_thread_id :: "uuid option"

definition enqueue_run_job :: "uuid \<Rightarrow> datetime \<Rightarrow> RunJobType \<Rightarrow> uuid \<Rightarrow> QueuedJob run_op" where
  "enqueue_run_job new_job now job_type run_id db =
     (case enqueue ''project-agent'' new_job now
        \<lparr>ej_job_type = RunJobType_value job_type, ej_aggregate_id = uuid_str run_id,
         ej_max_attempts = 3\<rparr> (queue db) of
        (r, q) \<Rightarrow> (r, db\<lparr>queue := q\<rparr>))"

definition thread_for_run ::
  "uuid \<Rightarrow> uuid \<Rightarrow> uuid \<Rightarrow> CreateRunCommand \<Rightarrow> ThreadModel run_op" where
  "thread_for_run new_thread company_id user_id command =
     (case cr_thread_id command of
        None \<Rightarrow> create_thread new_thread company_id (cr_project_id command) user_id
      | Some thread_id \<Rightarrow>
          bind_op (read_op (\<lambda>db. the_or ThreadNotFound (get_thread thread_id db))) (\<lambda>thread.
            if th_project_id thread \<noteq> cr_project_id command \<or> th_company_id thread \<noteq> company_id \<or>
               th_user_id thread \<noteq> user_id
            then raise_op (RunAccessDenied ''thread does not belong to the authorized actor scope'')
            else return_op thread))"

record fresh_ids =
  new_thread :: uuid
  new_run :: uuid
  new_event :: uuid
  new_job :: uuid

definition create_run ::
  "nat \<Rightarrow> doc_db \<Rightarrow> datetime \<Rightarrow> fresh_ids \<Rightarrow> uuid \<Rightarrow> CreateRunCommand \<Rightarrow> RunRecord run_op" where
  "create_run pick gov now ids user_id command =
     (let query_text = py_strip (cr_query_text command)
      in if query_text = [] then raise_op (ValueError ''query text must not be blank'')
         else bind_op (of_res (authorize_project pick now user_id (cr_project_id command) gov)) (\<lambda>authorized.
           let company_id = sc_company_id (cx_scope authorized)
           in bind_op (thread_for_run (new_thread ids) company_id user_id command) (\<lambda>thread.
             bind_op (repo_create_run (new_run ids) (th_id thread) company_id (cr_project_id command)
                 user_id (cr_business_mode command)) (\<lambda>run.
               bind_op (append_event (new_event ids) (rr_id run) RUN_QUEUED
                   [(''query_text'', JStr query_text)]) (\<lambda>_.
                 bind_op (enqueue_run_job (new_job ids) now EXECUTE (rr_id run)) (\<lambda>_.
                   return_op run))))))"

definition resume_run ::
  "nat \<Rightarrow> doc_db \<Rightarrow> datetime \<Rightarrow> fresh_ids \<Rightarrow> uuid \<Rightarrow> uuid \<Rightarrow> ResumeRunCommand \<Rightarrow> RunRecord run_op" where
  "resume_run pick gov now ids user_id run_id command =
     bind_op (read_op (repo_get_run run_id)) (\<lambda>found.
     bind_op (of_res (the_or RunNotFound found)) (\<lambda>run.
     bind_op (of_res (authorize_project pick now user_id (rr_project_id run) gov)) (\<lambda>authorized.
       if sc_company_id (cx_scope authorized) \<noteq> rr_company_id run
       then raise_op (RunAccessDenied ''run company does not match current authorization'')
       else if user_id \<noteq> rr_user_id run
       then raise_op (RunAccessDenied ''only the original run actor may resume this run'')
       else if rr_business_mode run \<noteq> ISSUE_CREATE
       then raise_op (RunStateConflict ''run business mode does not accept confirmation resume'')
       else if rr_status run \<noteq> WAITING_CONFIRMATION
       then raise_op (RunStateConflict ''run is not waiting for confirmation'')
       else bind_op (read_op (\<lambda>db. the_or (RunStateConflict ''run has no durable waiting confirmation event'')
             (latest_event_of_type (rr_id run) EV_WAITING_CONFIRMATION db))) (\<lambda>waiting.
         bind_op (of_res (the_or (RunStateConflict ''waiting confirmation event has no payload hash'')
             (str_field (ae_payload waiting) ''request_payload_hash''))) (\<lambda>expected_hash.
           if rc_request_payload_hash command \<noteq> expected_hash then raise_op ResumeInputMismatch
           else bind_op (append_event (new_event ids) (rr_id run) RUN_RESUME_QUEUED
               [(''action'', JStr (ConfirmationAction_value (rc_action command))),
                (''request_payload_hash'', JStr (rc_request_payload_hash command)),
                (''actor_id'', JStr (uuid_str user_id))]) (\<lambda>_.
             bind_op (set_status (rr_id run) QUEUED) (\<lambda>updated.
               bind_op (enqueue_run_job (new_job ids) now RESUME (rr_id run)) (\<lambda>_.
                 return_op updated))))))))"

definition get_run :: "nat \<Rightarrow> doc_db \<Rightarrow> datetime \<Rightarrow> uuid \<Rightarrow> uuid \<Rightarrow> run_db \<Rightarrow> RunRecord res" where
  "get_run pick gov now user_id run_id db =
     bind_res (repo_get_run run_id db) (\<lambda>found.
     bind_res (the_or RunNotFound found) (\<lambda>run.
     bind_res (authorize_project pick now user_id (rr_project_id run) gov) (\<lambda>authorized.
       if sc_company_id (cx_scope authorized) \<noteq> rr_company_id run
       then Inl (RunAccessDenied ''run company does not match current authorization'')
       else Inr run)))"

section \<open>application/services/run_execution.py\<close>

record RunGraphOutcome =
  ro_kind :: RunGraphOutcomeKind
  ro_result_ref :: "string option"
  ro_summary :: "string option"
  ro_waiting_payload :: "payload option"

record RunExecutionPreparation =
  rp_run :: RunRecord
  rp_invoke :: bool
  rp_resume_payload :: "payload option"

abbreviation no_invoke :: "RunRecord \<Rightarrow> RunExecutionPreparation" where
  "no_invoke run \<equiv> \<lparr>rp_run = run, rp_invoke = False, rp_resume_payload = None\<rparr>"

definition require_run :: "uuid \<Rightarrow> run_db \<Rightarrow> RunRecord res" where
  "require_run run_id db =
     bind_res (repo_get_run run_id db) (\<lambda>found. the_or (LookupError (uuid_str run_id)) found)"

text \<open>An optional event that is later, or not earlier, than a sequence number.\<close>

definition later_than :: "int \<Rightarrow> AgentEventModel option \<Rightarrow> bool" where
  "later_than n e = (case e of None \<Rightarrow> False | Some ev \<Rightarrow> n < ae_sequence_no ev)"

definition missing_since :: "int \<Rightarrow> AgentEventModel option \<Rightarrow> bool" where
  "missing_since n e = (case e of None \<Rightarrow> True | Some ev \<Rightarrow> ae_sequence_no ev < n)"

definition prepare_execute :: "datetime \<Rightarrow> uuid \<Rightarrow> uuid \<Rightarrow> RunExecutionPreparation run_op" where
  "prepare_execute now new_ev run_id =
     bind_op (read_op (require_run run_id)) (\<lambda>run.
       if rr_status run = WAITING_CONFIRMATION \<or> terminal_status (rr_status run)
       then return_op (no_invoke run)
       else bind_op (read_op (\<lambda>db. Inr (latest_event_of_type run_id RUN_QUEUED db,
             latest_event_of_type run_id RUN_RESUME_QUEUED db, latest_event_of_type run_id RUN_RESUMED db,
             latest_event_of_type run_id RUN_STARTED db))) (\<lambda>(queued, resume_queued, resumed, started).
         case queued of
           None \<Rightarrow> return_op (no_invoke run)
         | Some q \<Rightarrow>
             if later_than (ae_sequence_no q) resume_queued \<or> later_than (ae_sequence_no q) resumed
             then return_op (no_invoke run)
             else if rr_status run = QUEUED
             then bind_op (set_lifecycle run_id RUNNING
                 (Some (case rr_started_at run of None \<Rightarrow> now | Some t \<Rightarrow> t)) None) (\<lambda>run'.
               bind_op (if missing_since (ae_sequence_no q) started
                   then bind_op (append_event new_ev run_id RUN_STARTED []) (\<lambda>_. return_op ())
                   else return_op ()) (\<lambda>_.
                 return_op \<lparr>rp_run = run', rp_invoke = True, rp_resume_payload = None\<rparr>))
             else if rr_status run \<noteq> RUNNING then return_op (no_invoke run)
             else return_op \<lparr>rp_run = run, rp_invoke = True, rp_resume_payload = None\<rparr>))"

definition prepare_resume :: "uuid \<Rightarrow> uuid \<Rightarrow> RunExecutionPreparation run_op" where
  "prepare_resume new_ev run_id =
     bind_op (read_op (require_run run_id)) (\<lambda>run.
       if rr_status run = WAITING_CONFIRMATION \<or> terminal_status (rr_status run)
       then return_op (no_invoke run)
       else if rr_status run \<notin> {QUEUED, RUNNING} then return_op (no_invoke run)
       else bind_op (read_op (\<lambda>db. Inr (latest_event_of_type run_id RUN_RESUME_QUEUED db,
             latest_event_of_type run_id RUN_STARTED db, latest_event_of_type run_id RUN_RESUMED db)))
           (\<lambda>(resume_queued, started, resumed).
         case resume_queued of
           None \<Rightarrow> return_op (no_invoke run)
         | Some rq \<Rightarrow>
             if (case started of None \<Rightarrow> False | Some st \<Rightarrow> ae_sequence_no rq \<le> ae_sequence_no st)
             then return_op (no_invoke run)
             else bind_op (if rr_status run = QUEUED
                 then set_lifecycle run_id RUNNING (rr_started_at run) None
                 else return_op run) (\<lambda>run'.
               bind_op (if missing_since (ae_sequence_no rq) resumed
                   then bind_op (append_event new_ev run_id RUN_RESUMED []) (\<lambda>_. return_op ())
                   else return_op ()) (\<lambda>_.
                 return_op \<lparr>rp_run = run', rp_invoke = True,
                   rp_resume_payload = Some (ae_payload rq)\<rparr>))))"

fun terminal_projection :: "RunGraphOutcomeKind \<Rightarrow> (RunStatus \<times> AgentEventType) res" where
  "terminal_projection OUT_SUCCEEDED = Inr (SUCCEEDED, RUN_SUCCEEDED)"
| "terminal_projection OUT_REFUSED = Inr (REFUSED, RUN_REFUSED)"
| "terminal_projection OUT_CANCELLED = Inr (CANCELLED, RUN_CANCELLED)"
| "terminal_projection OUT_WAITING_CONFIRMATION = Inl RunExecutionContractError"

definition outcome_payload :: "RunGraphOutcome \<Rightarrow> payload" where
  "outcome_payload outcome =
     (case ro_result_ref outcome of None \<Rightarrow> [] | Some r \<Rightarrow> [(''result_ref'', JStr r)]) @
     (case ro_summary outcome of None \<Rightarrow> [] | Some s \<Rightarrow> [(''summary'', JStr s)])"

definition persist_outcome :: "datetime \<Rightarrow> uuid \<Rightarrow> uuid \<Rightarrow> RunGraphOutcome \<Rightarrow> RunRecord run_op" where
  "persist_outcome now new_ev run_id outcome =
     bind_op (read_op (require_run run_id)) (\<lambda>run.
       if terminal_status (rr_status run) \<or> rr_status run = WAITING_CONFIRMATION then return_op run
       else if ro_kind outcome = OUT_WAITING_CONFIRMATION
       then (case ro_waiting_payload outcome of
               None \<Rightarrow> raise_op RunExecutionContractError
             | Some p \<Rightarrow>
                 if str_field p ''request_payload_hash'' = None then raise_op RunExecutionContractError
                 else bind_op (set_lifecycle run_id WAITING_CONFIRMATION (rr_started_at run) None) (\<lambda>run'.
                   bind_op (append_event new_ev run_id EV_WAITING_CONFIRMATION p) (\<lambda>_. return_op run')))
       else bind_op (of_res (terminal_projection (ro_kind outcome))) (\<lambda>(status, event_type).
         bind_op (set_lifecycle run_id status (rr_started_at run) (Some now)) (\<lambda>run'.
           bind_op (append_event new_ev run_id event_type (outcome_payload outcome)) (\<lambda>_.
             return_op run'))))"

definition mark_final_failure :: "datetime \<Rightarrow> uuid \<Rightarrow> uuid \<Rightarrow> string \<Rightarrow> RunRecord run_op" where
  "mark_final_failure now new_ev run_id error_code =
     bind_op (read_op (require_run run_id)) (\<lambda>run.
       if terminal_status (rr_status run) then return_op run
       else bind_op (set_lifecycle run_id FAILED (rr_started_at run) (Some now)) (\<lambda>run'.
         bind_op (append_event new_ev run_id RUN_FAILED [(''error_code'', JStr error_code)]) (\<lambda>_.
           return_op run')))"

section \<open>workers/run_execution.py\<close>

type_synonym run_graph = "RunRecord \<Rightarrow> payload option \<Rightarrow> RunGraphOutcome res"

definition handle_failure ::
  "datetime \<Rightarrow> uuid \<Rightarrow> QueuedJob \<Rightarrow> uuid \<Rightarrow> exn \<Rightarrow> unit run_op" where
  "handle_failure now new_ev job run_id exc =
     (if qj_max_attempts job \<le> qj_attempts job
      then bind_op (transactional (mark_final_failure now new_ev run_id (exn_name exc))) (\<lambda>_. return_op ())
      else return_op ())"

text \<open>The part that both handlers share: the graph runs outside any transaction of the run tables.\<close>

definition run_and_persist ::
  "run_graph \<Rightarrow> datetime \<Rightarrow> uuid \<Rightarrow> QueuedJob \<Rightarrow> uuid \<Rightarrow> RunExecutionPreparation \<Rightarrow> unit run_op" where
  "run_and_persist graph now new_ev job run_id prep =
     (if \<not> rp_invoke prep then return_op ()
      else case graph (rp_run prep) (rp_resume_payload prep) of
        Inl exc \<Rightarrow> bind_op (handle_failure now new_ev job run_id exc) (\<lambda>_. raise_op exc)
      | Inr outcome \<Rightarrow>
          bind_op (transactional (persist_outcome now new_ev run_id outcome)) (\<lambda>_. return_op ()))"

definition execute_agent_run_handler ::
  "run_graph \<Rightarrow> datetime \<Rightarrow> uuid \<Rightarrow> uuid \<Rightarrow> QueuedJob \<Rightarrow> unit run_op" where
  "execute_agent_run_handler graph now ev1 ev2 job =
     bind_op (of_res (UUID (qj_aggregate_id job))) (\<lambda>run_id.
       bind_op (transactional (prepare_execute now ev1 run_id)) (\<lambda>prep.
         run_and_persist graph now ev2 job run_id prep))"

definition resume_agent_run_handler ::
  "run_graph \<Rightarrow> datetime \<Rightarrow> uuid \<Rightarrow> uuid \<Rightarrow> QueuedJob \<Rightarrow> unit run_op" where
  "resume_agent_run_handler graph now ev1 ev2 job =
     bind_op (of_res (UUID (qj_aggregate_id job))) (\<lambda>run_id.
       bind_op (transactional (prepare_resume ev1 run_id)) (\<lambda>prep.
         if rp_invoke prep \<and> rp_resume_payload prep = None
         then raise_op (RuntimeError ''resume preparation did not provide durable payload'')
         else run_and_persist graph now ev2 job run_id prep))"

section \<open>api/v1/runs.py: the event stream\<close>

definition parse_last_event_id :: "string option \<Rightarrow> int res" where
  "parse_last_event_id value =
     (case value of
        None \<Rightarrow> Inr 0
      | Some s \<Rightarrow>
          if s = [] then Inr 0
          else if \<not> list_all is_digit s then Inl (ValueError ''invalid Last-Event-ID'')
          else Inr (int (int10_digits s)))"

text \<open>One iteration of the polling loop reads the events and, if there are none, the run. The two
  reads see the tables at two moments; \<open>Stop\<close> is the return of the generator.\<close>

datatype sse_next = Continue int | Stop

fun emit_events :: "int \<Rightarrow> AgentEventModel list \<Rightarrow> AgentEventModel list \<times> sse_next" where
  "emit_events cursor [] = ([], Continue cursor)"
| "emit_events cursor (e # es) =
     (if terminal_event (ae_event_type e) then ([e], Stop)
      else case emit_events (ae_sequence_no e) es of (sent, next) \<Rightarrow> (e # sent, next))"

definition sse_round :: "uuid \<Rightarrow> int \<Rightarrow> run_db \<Rightarrow> run_db \<Rightarrow> AgentEventModel list \<times> sse_next" where
  "sse_round run_id cursor db1 db2 =
     (let evs = list_events_after run_id cursor 100 db1
      in if evs \<noteq> [] then emit_events cursor evs
         else case row_by ar_id run_id (runs db2) of
           None \<Rightarrow> ([], Stop)
         | Some row \<Rightarrow> if terminal_status (ar_status row) then ([], Stop) else ([], Continue cursor))"

text \<open>The stream over a finite history of pairs of snapshots, one pair per iteration.\<close>

fun iter_sse_events :: "uuid \<Rightarrow> int \<Rightarrow> (run_db \<times> run_db) list \<Rightarrow> AgentEventModel list \<times> bool" where
  "iter_sse_events run_id cursor [] = ([], False)"
| "iter_sse_events run_id cursor ((db1, db2) # rest) =
     (case sse_round run_id cursor db1 db2 of
        (sent, Stop) \<Rightarrow> (sent, True)
      | (sent, Continue cursor') \<Rightarrow>
          (case iter_sse_events run_id cursor' rest of (later, stopped) \<Rightarrow> (sent @ later, stopped)))"

end
