(* ===== verification/RunProofs.thy ===== *)
theory RunProofs
  imports Runs
begin

text \<open>
  Correctness of runs. The event log of a run is its history: numbered without gaps, starting with
  \<open>RUN_QUEUED\<close>, each lifecycle event an allowed successor of the one before, and the status column is
  a function of the last lifecycle event. Every transaction of the services keeps this.
\<close>

section \<open>The life of a run as its event log tells it\<close>

definition lifecycle_event :: "AgentEventType \<Rightarrow> bool" where
  "lifecycle_event t \<longleftrightarrow> t \<notin> {ARTIFACT_AVAILABLE, RUN_PROGRESS}"

fun status_of_event :: "AgentEventType \<Rightarrow> RunStatus" where
  "status_of_event RUN_STARTED = RUNNING"
| "status_of_event RUN_RESUMED = RUNNING"
| "status_of_event EV_WAITING_CONFIRMATION = WAITING_CONFIRMATION"
| "status_of_event RUN_SUCCEEDED = SUCCEEDED"
| "status_of_event RUN_REFUSED = REFUSED"
| "status_of_event RUN_CANCELLED = CANCELLED"
| "status_of_event RUN_FAILED = FAILED"
| "status_of_event _ = QUEUED"

fun next_event :: "AgentEventType \<Rightarrow> AgentEventType \<Rightarrow> bool" where
  "next_event RUN_QUEUED t \<longleftrightarrow> t \<in> {RUN_STARTED, EV_WAITING_CONFIRMATION} \<or> terminal_event t"
| "next_event RUN_STARTED t \<longleftrightarrow> t = EV_WAITING_CONFIRMATION \<or> terminal_event t"
| "next_event EV_WAITING_CONFIRMATION t \<longleftrightarrow> t \<in> {RUN_RESUME_QUEUED, RUN_FAILED}"
| "next_event RUN_RESUME_QUEUED t \<longleftrightarrow> t \<in> {RUN_RESUMED, EV_WAITING_CONFIRMATION} \<or> terminal_event t"
| "next_event RUN_RESUMED t \<longleftrightarrow> t = EV_WAITING_CONFIRMATION \<or> terminal_event t"
| "next_event _ t \<longleftrightarrow> False"

definition life :: "uuid \<Rightarrow> run_db \<Rightarrow> AgentEventType list" where
  "life run_id db = filter lifecycle_event (map ae_event_type (events_of run_id db))"

definition numbered :: "AgentEventModel list \<Rightarrow> bool" where
  "numbered evs \<longleftrightarrow> map ae_sequence_no evs = map int [1..<Suc (length evs)]"

definition run_ok :: "run_db \<Rightarrow> AgentRunModel \<Rightarrow> bool" where
  "run_ok db r \<longleftrightarrow>
     life (ar_id r) db \<noteq> [] \<and> hd (life (ar_id r) db) = RUN_QUEUED \<and>
     successively next_event (life (ar_id r) db) \<and>
     ar_status r = status_of_event (last (life (ar_id r) db)) \<and>
     (terminal_event (last (life (ar_id r) db)) \<longleftrightarrow> ar_finished_at r \<noteq> None) \<and>
     ar_business_mode r \<noteq> None"

definition runs_ok :: "run_db \<Rightarrow> bool" where
  "runs_ok db \<longleftrightarrow>
     distinct (map ar_id (runs db)) \<and> (\<forall>r\<in>set (runs db). run_ok db r) \<and>
     (\<forall>run_id. numbered (events_of run_id db)) \<and>
     (\<forall>e\<in>set (events db). ae_run_id e \<in> ar_id ` set (runs db))"

lemma runs_okD:
  assumes "runs_ok db"
  shows "distinct (map ar_id (runs db))" "r \<in> set (runs db) \<Longrightarrow> run_ok db r"
    "numbered (events_of run_id db)" "e \<in> set (events db) \<Longrightarrow> ae_run_id e \<in> ar_id ` set (runs db)"
  using assms by (auto simp: runs_ok_def)

lemma status_terminal_iff: "terminal_status (status_of_event t) \<longleftrightarrow> terminal_event t"
  by (cases t) (simp_all add: TERMINAL_RUN_STATUSES_def TERMINAL_EVENT_TYPES_def)

lemma terminal_is_lifecycle [simp]: "terminal_event t \<Longrightarrow> lifecycle_event t"
  by (cases t) (simp_all add: TERMINAL_EVENT_TYPES_def lifecycle_event_def)

lemma next_event_lifecycle: "next_event t t' \<Longrightarrow> lifecycle_event t'"
  by (cases t) (auto simp: lifecycle_event_def TERMINAL_EVENT_TYPES_def)

lemma next_event_not_terminal: "next_event t t' \<Longrightarrow> \<not> terminal_event t"
  by (cases t) (auto simp: TERMINAL_EVENT_TYPES_def)

lemma next_event_not_queued: "next_event t t' \<Longrightarrow> t' \<noteq> RUN_QUEUED"
  by (cases t) (auto simp: TERMINAL_EVENT_TYPES_def)

section \<open>Reading the log\<close>

lemma numbered_sorted: "numbered evs \<Longrightarrow> sorted_wrt (<) (map ae_sequence_no evs)"
proof -
  assume "numbered evs"
  then have "map ae_sequence_no evs = map int [1..<Suc (length evs)]" by (simp add: numbered_def)
  moreover have "sorted_wrt (<) (map int [1..<Suc (length evs)])"
    by (simp add: sorted_wrt_map del: upt_Suc)
  ultimately show ?thesis by metis
qed

lemma numbered_filter_sorted:
  assumes "numbered evs"
  shows "sort_key ae_sequence_no (filter P evs) = filter P evs"
proof -
  have "sorted (map ae_sequence_no evs)"
    using numbered_sorted [OF assms] by (rule sorted_wrt_mono_rel [rotated]) simp
  then show ?thesis by (simp add: sorted_filter sort_key_id_if_sorted)
qed

lemma latest_event_last:
  "numbered (events_of run_id db) \<Longrightarrow>
   latest_event_of_type run_id t db =
     (let evs = filter (\<lambda>e. ae_event_type e = t) (events_of run_id db)
      in if evs = [] then None else Some (last evs))"
  by (simp add: latest_event_of_type_def latest_row_def Let_def numbered_filter_sorted)

text \<open>The last lifecycle event is later than every other one.\<close>

lemma latest_of_last:
  assumes "numbered (events_of run_id db)" and "lifecycle_event t"
    and "filter (\<lambda>e. lifecycle_event (ae_event_type e)) (events_of run_id db) = es @ [e]"
  shows "latest_event_of_type run_id t db =
    (if ae_event_type e = t then Some e
     else if filter (\<lambda>e. ae_event_type e = t) es = [] then None
     else Some (last (filter (\<lambda>e. ae_event_type e = t) es)))"
proof -
  have "filter (\<lambda>e. ae_event_type e = t) (events_of run_id db) =
      filter (\<lambda>e. ae_event_type e = t) (filter (\<lambda>e. lifecycle_event (ae_event_type e)) (events_of run_id db))"
    using assms(2) by (auto intro!: filter_cong)
  then show ?thesis
    unfolding assms(3) by (simp add: latest_event_last [OF assms(1)] Let_def)
qed

lemma earlier_sequence:
  assumes "numbered evs" and "filter P evs = es @ [e]" and "x \<in> set es"
  shows "ae_sequence_no x < ae_sequence_no e"
proof -
  have "sorted_wrt (\<lambda>x y. ae_sequence_no x < ae_sequence_no y) evs"
    using numbered_sorted [OF assms(1)] by (simp add: sorted_wrt_map)
  then have "sorted_wrt (\<lambda>x y. ae_sequence_no x < ae_sequence_no y) (filter P evs)"
    by (rule sorted_wrt_filter)
  then show ?thesis using assms(3) by (simp add: assms(2) sorted_wrt_append)
qed

lemma life_split:
  assumes "life run_id db \<noteq> []"
  obtains es e where
    "filter (\<lambda>e. lifecycle_event (ae_event_type e)) (events_of run_id db) = es @ [e]"
    "life run_id db = map ae_event_type es @ [ae_event_type e]"
proof -
  have l: "life run_id db =
      map ae_event_type (filter (\<lambda>e. lifecycle_event (ae_event_type e)) (events_of run_id db))"
    by (simp add: life_def filter_map comp_def)
  with assms obtain es e where
    "filter (\<lambda>e. lifecycle_event (ae_event_type e)) (events_of run_id db) = es @ [e]"
    by (metis map_is_Nil_conv rev_exhaust)
  with l that show thesis by simp
qed

lemma last_life_lifecycle: "life run_id db \<noteq> [] \<Longrightarrow> lifecycle_event (last (life run_id db))"
  using last_in_set [of "life run_id db"] by (auto simp: life_def)

lemma next_sequence_eq:
  assumes "numbered (events_of run_id db)"
  shows "next_sequence run_id db = int (Suc (length (events_of run_id db)))"
proof -
  have "map ae_sequence_no (events_of run_id db) = map int [1..<Suc (length (events_of run_id db))]"
    using assms by (simp add: numbered_def)
  then have "Max (set (map ae_sequence_no (events_of run_id db))) = int (length (events_of run_id db))"
    if "events_of run_id db \<noteq> []"
    using that Max_one_to [of "length (events_of run_id db)"] by (simp del: upt_Suc)
  then show ?thesis by (simp add: next_sequence_def Let_def)
qed

section \<open>Effects on the run tables\<close>

definition event_row :: "uuid \<Rightarrow> uuid \<Rightarrow> AgentEventType \<Rightarrow> payload \<Rightarrow> run_db \<Rightarrow> AgentEventModel" where
  "event_row new_id run_id t p db =
     \<lparr>ae_id = new_id, ae_run_id = run_id, ae_sequence_no = next_sequence run_id db,
      ae_event_type = t, ae_payload = p\<rparr>"

definition moved_runs ::
  "uuid \<Rightarrow> AgentEventType \<Rightarrow> datetime option \<Rightarrow> datetime option \<Rightarrow> AgentRunModel list \<Rightarrow> AgentRunModel list" where
  "moved_runs run_id t started fin_at rows = update_rows (\<lambda>x. ar_id x = run_id)
     (\<lambda>x. x\<lparr>ar_status := status_of_event t, ar_started_at := started, ar_finished_at := fin_at\<rparr>) rows"

inductive run_effect :: "run_db \<Rightarrow> run_db \<Rightarrow> bool" where
  eff_none: "runs db' = runs db \<Longrightarrow> events db' = events db \<Longrightarrow> run_effect db db'"
| eff_create:
    "run_id \<notin> ar_id ` set (runs db) \<Longrightarrow>
     runs db' = runs db @ [new_run_row run_id thread company project user mode] \<Longrightarrow>
     events db' = events db @ [event_row new_id run_id RUN_QUEUED p db] \<Longrightarrow> run_effect db db'"
| eff_artifact:
    "run_id \<in> ar_id ` set (runs db) \<Longrightarrow> runs db' = runs db \<Longrightarrow>
     events db' = events db @ [event_row new_id run_id ARTIFACT_AVAILABLE p db] \<Longrightarrow> run_effect db db'"
| eff_move:
    "r \<in> set (runs db) \<Longrightarrow> next_event (last (life (ar_id r) db)) t \<Longrightarrow>
     (terminal_event t \<longleftrightarrow> fin_at \<noteq> None) \<Longrightarrow>
     runs db' = moved_runs (ar_id r) t started fin_at (runs db) \<Longrightarrow>
     events db' = events db @ [event_row new_id (ar_id r) t p db] \<Longrightarrow> run_effect db db'"

inductive_cases run_effectE: "run_effect db db'"

lemma numbered_snoc:
  assumes "numbered evs" and "ae_sequence_no e = int (Suc (length evs))"
  shows "numbered (evs @ [e])"
  using assms one_to_snoc [of "length evs"] by (simp add: numbered_def del: upt_Suc)

lemma events_of_append:
  assumes "events db' = events db @ [e]"
  shows "events_of run_id db' = events_of run_id db @ (if ae_run_id e = run_id then [e] else [])"
    and "life run_id db' = life run_id db @
      (if ae_run_id e = run_id \<and> lifecycle_event (ae_event_type e) then [ae_event_type e] else [])"
  using assms by (auto simp: events_of_def life_def)

lemma numbered_append:
  assumes "runs_ok db" and "events db' = events db @ [event_row new_id run_id t p db]"
  shows "numbered (events_of k db')"
  using events_of_append(1) [OF assms(2), of k] runs_okD(3) [OF assms(1)]
  by (auto simp: event_row_def next_sequence_eq intro!: numbered_snoc)

lemma run_ok_same_life:
  "run_ok db r \<Longrightarrow> life (ar_id r) db' = life (ar_id r) db \<Longrightarrow> run_ok db' r"
  by (simp add: run_ok_def)

lemma runs_ok_create:
  assumes "runs_ok db" and new: "run_id \<notin> ar_id ` set (runs db)"
    and r': "runs db' = runs db @ [new_run_row run_id thread company project user mode]"
    and e': "events db' = events db @ [event_row new_id run_id RUN_QUEUED p db]"
  shows "runs_ok db'"
proof -
  have "events_of run_id db = []"
    using runs_okD(4) [OF assms(1)] new by (auto simp: events_of_def filter_empty_conv)
  then have "run_ok db' (new_run_row run_id thread company project user mode)"
    by (simp add: run_ok_def new_run_row_def events_of_append [OF e'] event_row_def life_def
        lifecycle_event_def TERMINAL_EVENT_TYPES_def)
  moreover have "run_ok db' r" if "r \<in> set (runs db)" for r
  proof -
    have "ar_id r \<noteq> run_id" using that new by auto
    then show ?thesis using runs_okD(2) [OF assms(1) that] events_of_append(2) [OF e', of "ar_id r"]
      by (auto simp: event_row_def intro: run_ok_same_life)
  qed
  moreover have "distinct (map ar_id (runs db'))"
    using runs_okD(1) [OF assms(1)] new by (auto simp: r' new_run_row_def)
  moreover have "\<forall>e\<in>set (events db'). ae_run_id e \<in> ar_id ` set (runs db')"
    using runs_okD(4) [OF assms(1)] by (auto simp: e' r' event_row_def new_run_row_def)
  ultimately show ?thesis
    using numbered_append [OF assms(1) e'] by (auto simp: runs_ok_def r')
qed

lemma runs_ok_move:
  assumes "runs_ok db" and r: "r \<in> set (runs db)" and nx: "next_event (last (life (ar_id r) db)) t"
    and fin: "terminal_event t \<longleftrightarrow> fin_at \<noteq> None"
    and r': "runs db' = moved_runs (ar_id r) t started fin_at (runs db)"
    and e': "events db' = events db @ [event_row new_id (ar_id r) t p db]"
  shows "runs_ok db'"
proof -
  let ?f = "\<lambda>x. x\<lparr>ar_status := status_of_event t, ar_started_at := started, ar_finished_at := fin_at\<rparr>"
  have ids: "map ar_id (runs db') = map ar_id (runs db)" by (simp add: r' moved_runs_def map_update_rows)
  then have ids': "ar_id ` set (runs db') = ar_id ` set (runs db)" by (metis list.set_map)
  have "run_ok db' x" if x: "x \<in> set (runs db')" for x
  proof (cases "ar_id x = ar_id r")
    case True
    then obtain y where y: "y \<in> set (runs db)" "x = ?f y" "ar_id y = ar_id r"
      using x by (auto simp: r' moved_runs_def split: if_splits)
    then have "run_ok db y" using runs_okD(2) [OF assms(1)] by blast
    then show ?thesis
      using y nx fin events_of_append(2) [OF e', of "ar_id r"] next_event_lifecycle [OF nx]
      by (simp add: run_ok_def event_row_def successively_append_iff)
  next
    case False
    then have "x \<in> set (runs db)" using x by (auto simp: r' moved_runs_def split: if_splits)
    then have "run_ok db x" using runs_okD(2) [OF assms(1)] by blast
    then show ?thesis using False events_of_append(2) [OF e', of "ar_id x"]
      by (auto simp: event_row_def intro: run_ok_same_life)
  qed
  moreover have "\<forall>e\<in>set (events db'). ae_run_id e \<in> ar_id ` set (runs db')"
    using runs_okD(4) [OF assms(1)] r by (auto simp: e' ids' event_row_def)
  ultimately show ?thesis
    using numbered_append [OF assms(1) e'] runs_okD(1) [OF assms(1)] by (simp add: runs_ok_def ids)
qed

lemma runs_ok_artifact:
  assumes "runs_ok db" and "run_id \<in> ar_id ` set (runs db)" and r': "runs db' = runs db"
    and e': "events db' = events db @ [event_row new_id run_id ARTIFACT_AVAILABLE p db]"
  shows "runs_ok db'"
proof -
  have "life k db' = life k db" for k
    using events_of_append(2) [OF e'] by (simp add: event_row_def lifecycle_event_def)
  then show ?thesis
    using assms(1,2) numbered_append [OF assms(1) e']
    by (auto simp: runs_ok_def r' e' event_row_def intro: run_ok_same_life)
qed

lemma run_effect_ok: "run_effect db db' \<Longrightarrow> runs_ok db \<Longrightarrow> runs_ok db'"
proof (induction rule: run_effect.induct)
  case (eff_none db' db)
  then have "events_of k db' = events_of k db" "life k db' = life k db" for k
    by (simp_all add: events_of_def life_def)
  then show ?case using eff_none by (auto simp: runs_ok_def intro: run_ok_same_life)
qed (blast intro: runs_ok_create runs_ok_artifact runs_ok_move)+

section \<open>What the repository operations do\<close>

lemma repo_get_run_Some:
  "repo_get_run run_id db = Inr (Some x) \<Longrightarrow>
   \<exists>r\<in>set (runs db). row_by ar_id run_id (runs db) = Some r \<and> ar_id r = run_id \<and> rr_id x = run_id \<and>
     rr_status x = ar_status r \<and> rr_started_at x = ar_started_at r \<and> rr_user_id x = ar_user_id r \<and>
     rr_project_id x = ar_project_id r \<and> rr_company_id x = ar_company_id r \<and>
     ar_business_mode r = Some (rr_business_mode x)"
  by (auto simp: repo_get_run_def to_run_def bind_res_Inr_iff dest!: row_by_SomeD split: option.splits)

lemma require_run_Inr:
  assumes "require_run run_id db = Inr x"
  obtains r where "r \<in> set (runs db)" "row_by ar_id run_id (runs db) = Some r" "ar_id r = run_id"
    "rr_status x = ar_status r" "rr_started_at x = ar_started_at r"
  using assms repo_get_run_Some [of run_id db x]
  by (auto simp: require_run_def bind_res_Inr_iff)

lemma append_event_Inr:
  "append_event new_id run_id t p db = (Inr e, db') \<longleftrightarrow>
     run_id \<in> ar_id ` set (runs db) \<and> e = event_row new_id run_id t p db \<and>
     db' = db\<lparr>events := events db @ [e]\<rparr>"
  by (auto simp: append_event_def event_row_def Let_def row_by_None_iff image_iff)

lemma set_lifecycle_Inr:
  "set_lifecycle run_id st started fin_at db = (Inr x, db') \<Longrightarrow>
   db' = db\<lparr>runs := update_rows (\<lambda>r. ar_id r = run_id)
     (\<lambda>r. r\<lparr>ar_status := st, ar_started_at := started, ar_finished_at := fin_at\<rparr>) (runs db)\<rparr>"
  by (auto simp: set_lifecycle_def Let_def split: option.splits)

lemma next_sequence_runs [simp]:
  "next_sequence run_id (db\<lparr>runs := rs\<rparr>) = next_sequence run_id db"
  "events_of run_id (db\<lparr>runs := rs\<rparr>) = events_of run_id db"
  by (simp_all add: next_sequence_def events_of_def)

text \<open>The pair of calls that every state change makes: set the status, append the event.\<close>

lemma lifecycle_then_event:
  assumes "set_lifecycle run_id (status_of_event t) started fin_at db = (Inr x, db1)"
    and "append_event new_id run_id t p db1 = (Inr e, db')"
    and "r \<in> set (runs db)" "ar_id r = run_id" "next_event (last (life run_id db)) t"
    and "terminal_event t \<longleftrightarrow> fin_at \<noteq> None"
  shows "run_effect db db'"
proof (rule eff_move [OF assms(3)])
  show "next_event (last (life (ar_id r) db)) t" using assms(4,5) by simp
  show "runs db' = moved_runs (ar_id r) t started fin_at (runs db)"
    using set_lifecycle_Inr [OF assms(1)] assms(2,4) by (simp add: append_event_Inr moved_runs_def)
  show "events db' = events db @ [event_row new_id (ar_id r) t p db]"
    using set_lifecycle_Inr [OF assms(1)] assms(2,4) by (simp add: append_event_Inr event_row_def)
qed (rule assms(6))

lemma last_life_cases:
  assumes "runs_ok db" and "r \<in> set (runs db)"
  shows "life (ar_id r) db \<noteq> []" "ar_status r = status_of_event (last (life (ar_id r) db))"
    "last (life (ar_id r) db) \<noteq> ARTIFACT_AVAILABLE" "last (life (ar_id r) db) \<noteq> RUN_PROGRESS"
proof -
  have ok: "run_ok db r" by (rule runs_okD(2) [OF assms])
  then show ne: "life (ar_id r) db \<noteq> []" "ar_status r = status_of_event (last (life (ar_id r) db))"
    unfolding run_ok_def by blast+
  have "lifecycle_event (last (life (ar_id r) db))" by (rule last_life_lifecycle [OF ne(1)])
  then show "last (life (ar_id r) db) \<noteq> ARTIFACT_AVAILABLE" "last (life (ar_id r) db) \<noteq> RUN_PROGRESS"
    by (auto simp: lifecycle_event_def)
qed

lemma status_of_event_cases:
  "lifecycle_event t \<Longrightarrow> status_of_event t = QUEUED \<longleftrightarrow> t = RUN_QUEUED \<or> t = RUN_RESUME_QUEUED"
  "status_of_event t = RUNNING \<longleftrightarrow> t = RUN_STARTED \<or> t = RUN_RESUMED"
  "status_of_event t = WAITING_CONFIRMATION \<longleftrightarrow> t = EV_WAITING_CONFIRMATION"
  by (cases t; simp add: lifecycle_event_def)+

text \<open>\<open>RUN_QUEUED\<close> is the first event and never comes back.\<close>

lemma successively_next_not_queued: "successively next_event (t # ts) \<Longrightarrow> RUN_QUEUED \<notin> set ts"
  by (induction ts arbitrary: t) (auto dest: next_event_not_queued)

lemma last_queued_single:
  assumes "runs_ok db" and "r \<in> set (runs db)" and "last (life (ar_id r) db) = RUN_QUEUED"
  shows "life (ar_id r) db = [RUN_QUEUED]"
proof -
  have ok: "run_ok db r" by (rule runs_okD(2) [OF assms(1,2)])
  then obtain ts where ts: "life (ar_id r) db = RUN_QUEUED # ts"
    unfolding run_ok_def by (metis list.collapse)
  then have "RUN_QUEUED \<notin> set ts"
    using ok successively_next_not_queued [of RUN_QUEUED ts] unfolding run_ok_def by simp
  then show ?thesis using assms(3) ts by (cases ts rule: rev_cases) auto
qed

lemma terminal_projection_Inr:
  "terminal_projection k = Inr (st, t) \<Longrightarrow> terminal_event t \<and> st = status_of_event t"
  by (cases k) (auto simp: TERMINAL_EVENT_TYPES_def)

lemma persist_outcome_effect:
  assumes "runs_ok db" and "persist_outcome now new_ev run_id outcome db = (Inr x, db')"
  shows "run_effect db db'"
proof -
  obtain run where run: "require_run run_id db = Inr run"
    using assms(2) by (auto simp: persist_outcome_def split: sum.splits)
  obtain r where r: "r \<in> set (runs db)" "ar_id r = run_id" "rr_status run = ar_status r"
    using run by (rule require_run_Inr)
  let ?l = "last (life run_id db)"
  have l: "ar_status r = status_of_event ?l" "?l \<noteq> ARTIFACT_AVAILABLE" "?l \<noteq> RUN_PROGRESS"
    using last_life_cases [OF assms(1) r(1)] r(2) by simp_all
  have nx: "next_event ?l EV_WAITING_CONFIRMATION" "terminal_event t \<Longrightarrow> next_event ?l t"
    if "\<not> terminal_status (ar_status r)" "ar_status r \<noteq> WAITING_CONFIRMATION" for t
    using that l by (cases ?l; simp add: TERMINAL_RUN_STATUSES_def)+
  show ?thesis
  proof (cases "terminal_status (rr_status run) \<or> rr_status run = WAITING_CONFIRMATION")
    case True
    then show ?thesis using assms(2) run by (auto simp: persist_outcome_def intro: eff_none)
  next
    case False
    show ?thesis
    proof (cases "ro_kind outcome = OUT_WAITING_CONFIRMATION")
      case True
      then obtain p y db1 e where
        "set_lifecycle run_id (status_of_event EV_WAITING_CONFIRMATION) (rr_started_at run) None db = (Inr y, db1)"
        "append_event new_ev run_id EV_WAITING_CONFIRMATION p db1 = (Inr e, db')"
        using assms(2) run False
        by (auto simp: persist_outcome_def bind_op_Inr_iff split: option.splits if_splits)
      then show ?thesis
        using r nx(1) False
        by (intro lifecycle_then_event) (auto simp: TERMINAL_EVENT_TYPES_def)
    next
      case other: False
      then obtain st t y db1 e where t: "terminal_projection (ro_kind outcome) = Inr (st, t)"
        "set_lifecycle run_id st (rr_started_at run) (Some now) db = (Inr y, db1)"
        "append_event new_ev run_id t (outcome_payload outcome) db1 = (Inr e, db')"
        using assms(2) run False by (auto simp: persist_outcome_def bind_op_Inr_iff)
      with terminal_projection_Inr [OF t(1)] have t: "terminal_event t"
        "set_lifecycle run_id (status_of_event t) (rr_started_at run) (Some now) db = (Inr y, db1)"
        "append_event new_ev run_id t (outcome_payload outcome) db1 = (Inr e, db')" by simp_all
      then show ?thesis
        using r nx(2) [OF _ _ t(1)] False by (intro lifecycle_then_event) auto
    qed
  qed
qed

lemma mark_final_failure_effect:
  assumes "runs_ok db" and "mark_final_failure now new_ev run_id code db = (Inr x, db')"
  shows "run_effect db db'"
proof -
  obtain run where run: "require_run run_id db = Inr run"
    using assms(2) by (auto simp: mark_final_failure_def split: sum.splits)
  obtain r where r: "r \<in> set (runs db)" "ar_id r = run_id" "rr_status run = ar_status r"
    using run by (rule require_run_Inr)
  let ?l = "last (life run_id db)"
  have l: "ar_status r = status_of_event ?l" "?l \<noteq> ARTIFACT_AVAILABLE" "?l \<noteq> RUN_PROGRESS"
    using last_life_cases [OF assms(1) r(1)] r(2) by simp_all
  show ?thesis
  proof (cases "terminal_status (rr_status run)")
    case True
    then show ?thesis using assms(2) run by (auto simp: mark_final_failure_def intro: eff_none)
  next
    case False
    then have nx: "next_event ?l RUN_FAILED"
      using l r(3) by (cases ?l; simp add: TERMINAL_RUN_STATUSES_def TERMINAL_EVENT_TYPES_def)
    obtain y db1 e p where
      "set_lifecycle run_id (status_of_event RUN_FAILED) (rr_started_at run) (Some now) db = (Inr y, db1)"
      "append_event new_ev run_id RUN_FAILED p db1 = (Inr e, db')"
      using assms(2) run False by (auto simp: mark_final_failure_def bind_op_Inr_iff)
    then show ?thesis
      using r nx by (intro lifecycle_then_event) (auto simp: TERMINAL_EVENT_TYPES_def)
  qed
qed

text \<open>What the latest events say, when the last lifecycle event is known.\<close>

lemma latest_when_queued:
  assumes "runs_ok db" and "r \<in> set (runs db)" and "last (life (ar_id r) db) = RUN_QUEUED"
  obtains q where "latest_event_of_type (ar_id r) RUN_QUEUED db = Some q"
    "latest_event_of_type (ar_id r) RUN_RESUME_QUEUED db = None"
    "latest_event_of_type (ar_id r) RUN_RESUMED db = None"
    "latest_event_of_type (ar_id r) RUN_STARTED db = None"
proof -
  have "life (ar_id r) db = [RUN_QUEUED]" by (rule last_queued_single [OF assms])
  then obtain es e where split: "filter (\<lambda>e. lifecycle_event (ae_event_type e)) (events_of (ar_id r) db) = es @ [e]"
      "[RUN_QUEUED] = map ae_event_type es @ [ae_event_type e]"
    using life_split [of "ar_id r" db] by (metis list.distinct(1))
  then have "es = []" "ae_event_type e = RUN_QUEUED" by (cases es; simp)+
  with latest_of_last [OF runs_okD(3) [OF assms(1)] _ split(1)] that show thesis
    by (auto simp: lifecycle_event_def)
qed

lemma latest_when:
  assumes "runs_ok db" and "r \<in> set (runs db)" and "last (life (ar_id r) db) = t"
  shows "\<exists>e. latest_event_of_type (ar_id r) t db = Some e \<and>
    (\<forall>t' e'. t' \<noteq> t \<longrightarrow> lifecycle_event t' \<longrightarrow> latest_event_of_type (ar_id r) t' db = Some e' \<longrightarrow>
       ae_sequence_no e' < ae_sequence_no e)"
proof -
  have ne: "life (ar_id r) db \<noteq> []" by (rule last_life_cases(1) [OF assms(1,2)])
  obtain es e where split: "filter (\<lambda>e. lifecycle_event (ae_event_type e)) (events_of (ar_id r) db) = es @ [e]"
      "life (ar_id r) db = map ae_event_type es @ [ae_event_type e]"
    using life_split [OF ne] by blast
  have num: "numbered (events_of (ar_id r) db)" by (rule runs_okD(3) [OF assms(1)])
  have t: "ae_event_type e = t" "lifecycle_event t"
    using assms(3) split(2) last_life_lifecycle [OF ne] by simp_all
  have "latest_event_of_type (ar_id r) t db = Some e"
    using latest_of_last [OF num t(2) split(1)] t(1) by simp
  moreover have "ae_sequence_no e' < ae_sequence_no e"
    if "t' \<noteq> t" "lifecycle_event t'" "latest_event_of_type (ar_id r) t' db = Some e'" for t' e'
  proof -
    have e': "filter (\<lambda>e. ae_event_type e = t') es \<noteq> []" "e' = last (filter (\<lambda>e. ae_event_type e = t') es)"
      using latest_of_last [OF num that(2) split(1)] that(1,3) t(1) by (auto split: if_splits)
    then have "e' \<in> set es" using last_in_set [OF e'(1)] by auto
    then show ?thesis by (rule earlier_sequence [OF num split(1)])
  qed
  ultimately show ?thesis by blast
qed

lemma prepare_execute_effect:
  assumes "runs_ok db" and "prepare_execute now new_ev run_id db = (Inr x, db')"
  shows "run_effect db db'"
proof -
  obtain run where run: "require_run run_id db = Inr run"
    using assms(2) by (auto simp: prepare_execute_def split: sum.splits)
  obtain r where r: "r \<in> set (runs db)" "ar_id r = run_id" "rr_status run = ar_status r"
    using run by (rule require_run_Inr)
  have l: "ar_status r = status_of_event (last (life run_id db))"
      "lifecycle_event (last (life run_id db))"
    using last_life_cases [OF assms(1) r(1)] r(2) by (simp_all add: lifecycle_event_def)
  show ?thesis
  proof (cases "last (life run_id db) = RUN_QUEUED")
    case True
    then obtain q where q: "latest_event_of_type run_id RUN_QUEUED db = Some q"
        "latest_event_of_type run_id RUN_RESUME_QUEUED db = None"
        "latest_event_of_type run_id RUN_RESUMED db = None"
        "latest_event_of_type run_id RUN_STARTED db = None"
      using latest_when_queued [OF assms(1) r(1)] r(2) by metis
    then obtain y db1 e s where
      "set_lifecycle run_id (status_of_event RUN_STARTED) (Some s) None db = (Inr y, db1)"
      "append_event new_ev run_id RUN_STARTED [] db1 = (Inr e, db')"
      using assms(2) run True l r(3)
      by (auto simp: prepare_execute_def bind_op_Inr_iff later_than_def missing_since_def
          TERMINAL_RUN_STATUSES_def)
    then show ?thesis
      using r True by (intro lifecycle_then_event) (auto simp: TERMINAL_EVENT_TYPES_def)
  next
    case False
    have "db' = db"
    proof (cases "last (life run_id db) = RUN_RESUME_QUEUED")
      case True
      then have last: "last (life (ar_id r) db) = RUN_RESUME_QUEUED" using r(2) by simp
      obtain rq where rq: "latest_event_of_type (ar_id r) RUN_RESUME_QUEUED db = Some rq"
          "\<And>t' e'. t' \<noteq> RUN_RESUME_QUEUED \<Longrightarrow> lifecycle_event t' \<Longrightarrow>
             latest_event_of_type (ar_id r) t' db = Some e' \<Longrightarrow> ae_sequence_no e' < ae_sequence_no rq"
        using latest_when [OF assms(1) r(1) last] by blast
      have "ae_sequence_no q < ae_sequence_no rq" if "latest_event_of_type run_id RUN_QUEUED db = Some q" for q
        using rq(2) [of RUN_QUEUED q] that r(2) by (simp add: lifecycle_event_def)
      then show ?thesis using assms(2) run True l r(2,3) rq(1)
        by (auto simp: prepare_execute_def later_than_def TERMINAL_RUN_STATUSES_def split: option.splits)
    next
      case no_resume: False
      then have "rr_status run \<noteq> QUEUED"
        using False l r(3) status_of_event_cases(1) by auto
      then show ?thesis using assms(2) run
        by (auto simp: prepare_execute_def split: option.splits if_splits)
    qed
    then show ?thesis by (simp add: eff_none)
  qed
qed

lemma prepare_resume_effect:
  assumes "runs_ok db" and "prepare_resume new_ev run_id db = (Inr x, db')"
  shows "run_effect db db'"
proof -
  obtain run where run: "require_run run_id db = Inr run"
    using assms(2) by (auto simp: prepare_resume_def split: sum.splits)
  obtain r where r: "r \<in> set (runs db)" "ar_id r = run_id" "rr_status run = ar_status r"
    using run by (rule require_run_Inr)
  let ?l = "last (life (ar_id r) db)"
  have l: "ar_status r = status_of_event ?l" "lifecycle_event ?l"
    using last_life_cases [OF assms(1) r(1)] by (simp_all add: lifecycle_event_def)
  obtain e where e: "latest_event_of_type (ar_id r) ?l db = Some e"
      "\<And>t' e'. t' \<noteq> ?l \<Longrightarrow> lifecycle_event t' \<Longrightarrow>
         latest_event_of_type (ar_id r) t' db = Some e' \<Longrightarrow> ae_sequence_no e' < ae_sequence_no e"
    using latest_when [OF assms(1) r(1) refl] by blast
  show ?thesis
  proof (cases "?l = RUN_RESUME_QUEUED")
    case True
    have early: "ae_sequence_no x < ae_sequence_no e"
      if "latest_event_of_type run_id t db = Some x" "t \<in> {RUN_STARTED, RUN_RESUMED}" for t x
      using e(2) [of t x] that r(2) True by (auto simp: lifecycle_event_def)
    have miss: "missing_since (ae_sequence_no e) (latest_event_of_type run_id RUN_RESUMED db)"
      using early by (auto simp: missing_since_def split: option.splits)
    have "\<not> (case latest_event_of_type run_id RUN_STARTED db of
        None \<Rightarrow> False | Some st \<Rightarrow> ae_sequence_no e \<le> ae_sequence_no st)"
      using early by (force split: option.splits)
    then obtain y db1 ev where
      "set_lifecycle run_id (status_of_event RUN_RESUMED) (rr_started_at run) None db = (Inr y, db1)"
      "append_event new_ev run_id RUN_RESUMED [] db1 = (Inr ev, db')"
      using assms(2) run True l r(2,3) e(1) miss
      by (auto simp: prepare_resume_def bind_op_Inr_iff TERMINAL_RUN_STATUSES_def)
    then show ?thesis
      using r True by (intro lifecycle_then_event) (auto simp: TERMINAL_EVENT_TYPES_def)
  next
    case False
    have "db' = db"
    proof (cases "?l = RUN_RESUMED")
      case True
      have "ae_sequence_no rq < ae_sequence_no e"
        if "latest_event_of_type run_id RUN_RESUME_QUEUED db = Some rq" for rq
        using e(2) [of RUN_RESUME_QUEUED rq] that r(2) True by (auto simp: lifecycle_event_def)
      then have "\<not> missing_since (ae_sequence_no rq) (latest_event_of_type run_id RUN_RESUMED db)"
        if "latest_event_of_type run_id RUN_RESUME_QUEUED db = Some rq" for rq
        using that e(1) True r(2) by (force simp: missing_since_def)
      then show ?thesis using assms(2) run True l r(3)
        by (auto simp: prepare_resume_def split: option.splits if_splits)
    next
      case no_resumed: False
      consider "?l = RUN_QUEUED" | "?l = RUN_STARTED" | "rr_status run \<notin> {QUEUED, RUNNING}"
        using False no_resumed l r(3) status_of_event_cases by auto
      then show ?thesis
      proof cases
        case 1
        then have "latest_event_of_type run_id RUN_RESUME_QUEUED db = None"
          using latest_when_queued [OF assms(1) r(1) 1] r(2) by metis
        then show ?thesis using assms(2) run
          by (auto simp: prepare_resume_def split: if_splits)
      next
        case 2
        have "ae_sequence_no rq < ae_sequence_no e"
          if "latest_event_of_type run_id RUN_RESUME_QUEUED db = Some rq" for rq
          using e(2) [of RUN_RESUME_QUEUED rq] that r(2) 2 by (auto simp: lifecycle_event_def)
        then show ?thesis using assms(2) run 2 e(1) r(2)
          by (auto simp: prepare_resume_def split: option.splits if_splits)
      next
        case 3
        then show ?thesis using assms(2) run
          by (auto simp: prepare_resume_def split: if_splits)
      qed
    qed
    then show ?thesis by (simp add: eff_none)
  qed
qed

lemma enqueue_run_job_tables:
  "enqueue_run_job new_id now t run_id db = (x, db') \<Longrightarrow>
   runs db' = runs db \<and> events db' = events db \<and> threads db' = threads db"
  by (auto simp: enqueue_run_job_def split: prod.splits)

lemma thread_for_run_tables:
  "thread_for_run new_id company user command db = (x, db') \<Longrightarrow> runs db' = runs db \<and> events db' = events db"
  by (auto simp: thread_for_run_def create_thread_def Let_def split: option.splits sum.splits if_splits)

lemma same_events_sequence: "events db' = events db \<Longrightarrow> event_row new_id run_id t p db' = event_row new_id run_id t p db"
  by (simp add: event_row_def next_sequence_def events_of_def)

lemma create_run_Inr:
  assumes "create_run pick gov now ids user_id command db = (Inr x, db')"
  obtains ctx thread company where "authorize_project pick now user_id (cr_project_id command) gov = Inr ctx"
    "py_strip (cr_query_text command) \<noteq> []"
    "runs db' = runs db @ [new_run_row (new_run ids) thread company (cr_project_id command) user_id
       (cr_business_mode command)]"
    "events db' = events db @ [event_row (new_event ids) (new_run ids) RUN_QUEUED
       [(''query_text'', JStr (py_strip (cr_query_text command)))] db]"
    "company = sc_company_id (cx_scope ctx)"
proof -
  obtain ctx thread db1 run db2 e db3 j where steps:
    "authorize_project pick now user_id (cr_project_id command) gov = Inr ctx"
    "py_strip (cr_query_text command) \<noteq> []"
    "thread_for_run (new_thread ids) (sc_company_id (cx_scope ctx)) user_id command db = (Inr thread, db1)"
    "repo_create_run (new_run ids) (th_id thread) (sc_company_id (cx_scope ctx)) (cr_project_id command)
       user_id (cr_business_mode command) db1 = (Inr run, db2)"
    "append_event (new_event ids) (rr_id run) RUN_QUEUED
       [(''query_text'', JStr (py_strip (cr_query_text command)))] db2 = (Inr e, db3)"
    "enqueue_run_job (new_job ids) now EXECUTE (rr_id run) db3 = (Inr j, db')"
    using assms by (auto simp: create_run_def Let_def bind_op_Inr_iff split: if_splits)
  have rid: "rr_id run = new_run ids"
    using steps(4) by (auto simp: repo_create_run_def to_run_def new_run_row_def Let_def)
  have "runs db2 = runs db @ [new_run_row (new_run ids) (th_id thread) (sc_company_id (cx_scope ctx))
      (cr_project_id command) user_id (cr_business_mode command)]" "events db2 = events db"
    using steps(4) thread_for_run_tables [OF steps(3)] by (auto simp: repo_create_run_def Let_def)
  then show thesis
    using that [OF steps(1,2)] steps(5) enqueue_run_job_tables [OF steps(6)] rid
      same_events_sequence [of db2 db]
    by (auto simp: append_event_Inr)
qed

lemma create_run_effect:
  assumes "create_run pick gov now ids user_id command db = (Inr x, db')"
    and "new_run ids \<notin> ar_id ` set (runs db)"
  shows "run_effect db db'"
  using assms(1) by (rule create_run_Inr) (rule eff_create [OF assms(2)])

lemma resume_run_Inr:
  assumes "resume_run pick gov now ids user_id run_id command db = (Inr x, db')"
  obtains r ctx w where "r \<in> set (runs db)" "row_by ar_id run_id (runs db) = Some r" "ar_id r = run_id"
    "authorize_project pick now user_id (ar_project_id r) gov = Inr ctx"
    "sc_company_id (cx_scope ctx) = ar_company_id r" "user_id = ar_user_id r"
    "ar_business_mode r = Some ISSUE_CREATE" "ar_status r = WAITING_CONFIRMATION"
    "latest_event_of_type run_id EV_WAITING_CONFIRMATION db = Some w"
    "str_field (ae_payload w) ''request_payload_hash'' = Some (rc_request_payload_hash command)"
    "runs db' = update_rows (\<lambda>r. ar_id r = run_id) (\<lambda>r. r\<lparr>ar_status := QUEUED\<rparr>) (runs db)"
    "events db' = events db @ [event_row (new_event ids) run_id RUN_RESUME_QUEUED
       [(''action'', JStr (ConfirmationAction_value (rc_action command))),
        (''request_payload_hash'', JStr (rc_request_payload_hash command)),
        (''actor_id'', JStr (uuid_str user_id))] db]"
proof -
  obtain run where run: "repo_get_run run_id db = Inr (Some run)"
    using assms by (auto simp: resume_run_def bind_of_res split: sum.splits option.splits)
  then obtain r where r: "r \<in> set (runs db)" "row_by ar_id run_id (runs db) = Some r" "ar_id r = run_id"
      "rr_id run = run_id" "rr_status run = ar_status r" "rr_user_id run = ar_user_id r"
      "rr_project_id run = ar_project_id r" "rr_company_id run = ar_company_id r"
      "ar_business_mode r = Some (rr_business_mode run)"
    using repo_get_run_Some by blast
  obtain ctx w e db1 y db2 j where steps:
    "authorize_project pick now user_id (ar_project_id r) gov = Inr ctx"
    "sc_company_id (cx_scope ctx) = ar_company_id r" "user_id = ar_user_id r"
    "rr_business_mode run = ISSUE_CREATE" "ar_status r = WAITING_CONFIRMATION"
    "latest_event_of_type run_id EV_WAITING_CONFIRMATION db = Some w"
    "str_field (ae_payload w) ''request_payload_hash'' = Some (rc_request_payload_hash command)"
    "append_event (new_event ids) run_id RUN_RESUME_QUEUED
       [(''action'', JStr (ConfirmationAction_value (rc_action command))),
        (''request_payload_hash'', JStr (rc_request_payload_hash command)),
        (''actor_id'', JStr (uuid_str user_id))] db = (Inr e, db1)"
    "set_status run_id QUEUED db1 = (Inr y, db2)"
    "enqueue_run_job (new_job ids) now RESUME run_id db2 = (Inr j, db')"
    using assms run r
    by (auto simp: resume_run_def bind_op_Inr_iff split: if_splits sum.splits option.splits)
  have "runs db2 = update_rows (\<lambda>r. ar_id r = run_id) (\<lambda>r. r\<lparr>ar_status := QUEUED\<rparr>) (runs db1)"
      "events db2 = events db1"
    using steps(9) by (auto simp: set_status_def split: option.splits)
  then show thesis
    using that [OF r(1-3) steps(1-3) _ steps(5-7)] r(9) steps(4,8) enqueue_run_job_tables [OF steps(10)]
    by (auto simp: append_event_Inr)
qed

lemma keep_times:
  "ar_finished_at r = None \<Longrightarrow>
   r\<lparr>ar_status := st\<rparr> = r\<lparr>ar_status := st, ar_started_at := ar_started_at r, ar_finished_at := None\<rparr>"
  by (cases r) simp

lemma resume_run_effect:
  assumes "runs_ok db" and "resume_run pick gov now ids user_id run_id command db = (Inr x, db')"
  shows "run_effect db db'"
  using assms(2)
proof (rule resume_run_Inr)
  fix r p
  assume r: "r \<in> set (runs db)" "ar_id r = run_id" "ar_status r = WAITING_CONFIRMATION"
    and r': "runs db' = update_rows (\<lambda>r. ar_id r = run_id) (\<lambda>r. r\<lparr>ar_status := QUEUED\<rparr>) (runs db)"
    and e': "events db' = events db @ [event_row (new_event ids) run_id RUN_RESUME_QUEUED
       [(''action'', JStr (ConfirmationAction_value (rc_action command))),
        (''request_payload_hash'', JStr (rc_request_payload_hash command)),
        (''actor_id'', JStr (uuid_str user_id))] db]"
  have last: "last (life (ar_id r) db) = EV_WAITING_CONFIRMATION"
    using last_life_cases(2) [OF assms(1) r(1)] r(3) status_of_event_cases(3) by metis
  have ok: "run_ok db r" by (rule runs_okD(2) [OF assms(1) r(1)])
  then have fin: "ar_finished_at r = None"
    using last by (auto simp: run_ok_def TERMINAL_EVENT_TYPES_def)
  have same: "x = r" if "x \<in> set (runs db)" "ar_id x = ar_id r" for x
    using runs_okD(1) [OF assms(1)] r(1) that by (metis distinct_map inj_onD)
  show ?thesis
  proof (rule eff_move [OF r(1)])
    show "next_event (last (life (ar_id r) db)) RUN_RESUME_QUEUED" by (simp add: last)
    show "terminal_event RUN_RESUME_QUEUED \<longleftrightarrow> None \<noteq> None" by (simp add: TERMINAL_EVENT_TYPES_def)
    show "runs db' = moved_runs (ar_id r) RUN_RESUME_QUEUED (ar_started_at r) None (runs db)"
      unfolding r' moved_runs_def update_rows_def
      using r(2) same keep_times [OF fin] by (intro map_cong) auto
    show "events db' = events db @ [event_row (new_event ids) (ar_id r) RUN_RESUME_QUEUED
       [(''action'', JStr (ConfirmationAction_value (rc_action command))),
        (''request_payload_hash'', JStr (rc_request_payload_hash command)),
        (''actor_id'', JStr (uuid_str user_id))] db]" using e' r(2) by simp
  qed
qed

lemma save_artifact_effect:
  "save_artifact new_id run_id artifact_type p db = (Inr x, db') \<Longrightarrow> run_effect db db'"
  by (auto simp: save_artifact_def bind_op_Inr_iff append_event_Inr intro: eff_artifact)

section \<open>Histories of the run tables\<close>

inductive run_step :: "run_db \<Rightarrow> run_db \<Rightarrow> bool" where
  step_create: "new_run ids \<notin> ar_id ` set (runs db) \<Longrightarrow>
     run_step db (snd (transactional (create_run pick gov now ids user_id command) db))"
| step_resume: "run_step db (snd (transactional (resume_run pick gov now ids user_id run_id rcommand) db))"
| step_prepare_execute: "run_step db (snd (transactional (prepare_execute now new_ev run_id) db))"
| step_prepare_resume: "run_step db (snd (transactional (prepare_resume new_ev run_id) db))"
| step_persist: "run_step db (snd (transactional (persist_outcome now new_ev run_id outcome) db))"
| step_fail: "run_step db (snd (transactional (mark_final_failure now new_ev run_id code) db))"
| step_artifact: "run_step db (snd (transactional (save_artifact new_ev run_id artifact_type p) db))"

lemma transactional_effect:
  assumes "\<And>x db'. m db = (Inr x, db') \<Longrightarrow> run_effect db db'"
  shows "run_effect db (snd (transactional m db))"
  using assms by (auto simp: transactional_def intro: eff_none split: prod.splits sum.splits)

lemma run_step_effect: "run_step db db' \<Longrightarrow> runs_ok db \<Longrightarrow> run_effect db db'"
  by (induction rule: run_step.induct)
    (auto intro!: transactional_effect intro: create_run_effect resume_run_effect prepare_execute_effect
      prepare_resume_effect persist_outcome_effect mark_final_failure_effect save_artifact_effect)

interpretation rs: invariant_system "\<lambda>db. runs db = [] \<and> events db = []" run_step runs_ok
proof
  show "runs db = [] \<and> events db = [] \<Longrightarrow> runs_ok db" for db
    by (simp add: runs_ok_def events_of_def numbered_def)
  show "runs_ok db \<Longrightarrow> run_step db db' \<Longrightarrow> runs_ok db'" for db db'
    using run_step_effect run_effect_ok by blast
qed

section \<open>Consequences for runs and their logs\<close>

lemma run_effect_events: "run_effect db db' \<Longrightarrow> \<exists>es. events db' = events db @ es"
  by (induction rule: run_effect.induct) auto

lemma run_step_append:
  assumes "run_step\<^sup>*\<^sup>* db db'" and "runs_ok db"
  shows "\<exists>es. events_of run_id db' = events_of run_id db @ es"
  using assms(1)
proof (induction rule: rtranclp_induct)
  case base
  show ?case by simp
next
  case (step b c)
  then obtain es es' where "events_of run_id b = events_of run_id db @ es" "events c = events b @ es'"
    using run_effect_events [OF run_step_effect [OF step(2)]] rs.inv_run [OF step(1) assms(2)] by blast
  then show ?case by (auto simp: events_of_def)
qed

definition settled_run :: "run_db \<Rightarrow> AgentRunModel \<Rightarrow> AgentEventType list \<Rightarrow> bool" where
  "settled_run db r ts \<longleftrightarrow> r \<in> set (runs db) \<and> life (ar_id r) db = ts"

lemma run_effect_settled:
  assumes "run_effect db db'" and "runs_ok db" and "settled_run db r ts" and "terminal_event (last ts)"
  shows "settled_run db' r ts"
  using assms(1)
proof cases
  case eff_none
  then show ?thesis using assms(3) by (simp add: settled_run_def life_def events_of_def)
next
  case (eff_create run_id thread company project user mode new_id p)
  then have "ar_id r \<noteq> run_id" using assms(3) by (auto simp: settled_run_def)
  then show ?thesis using assms(3) eff_create events_of_append(2) [OF eff_create(3), of "ar_id r"]
    by (simp add: settled_run_def event_row_def)
next
  case (eff_artifact run_id new_id p)
  then show ?thesis using assms(3) events_of_append(2) [OF eff_artifact(3), of "ar_id r"]
    by (simp add: settled_run_def event_row_def lifecycle_event_def)
next
  case (eff_move r2 t fin_at started new_id p)
  have ne: "ar_id r2 \<noteq> ar_id r"
    using next_event_not_terminal [OF eff_move(2)] assms(3,4) by (auto simp: settled_run_def)
  then have "r \<in> set (runs db')" using assms(3) eff_move(4)
    by (auto simp: settled_run_def moved_runs_def image_iff)
  then show ?thesis using assms(3) ne events_of_append(2) [OF eff_move(5), of "ar_id r"]
    by (simp add: settled_run_def event_row_def)
qed

lemma one_terminal_event:
  "successively next_event ts \<Longrightarrow> ts \<noteq> [] \<Longrightarrow> terminal_event (last ts) \<Longrightarrow>
   filter terminal_event ts = [last ts]"
proof (induction ts rule: rev_induct)
  case (snoc t ts)
  have "\<forall>x\<in>set ts. \<not> terminal_event x"
    using snoc.prems(1) by (induction ts) (auto simp: successively_append_iff successively_Cons
        dest: next_event_not_terminal split: if_splits)
  then show ?case using snoc.prems(3) by (simp add: filter_empty_conv)
qed simp

section \<open>Theorems\<close>

text \<open>C31: in every state the services reach, the log of a run is numbered 1, 2, 3 without gap or
  duplicate, begins with \<open>RUN_QUEUED\<close>, each lifecycle event is an allowed successor of the one
  before, and the status column is the one its last lifecycle event stands for.\<close>

theorem run_log_consistent:
  assumes "runs db0 = []" and "events db0 = []" and "run_step\<^sup>*\<^sup>* db0 db" and "r \<in> set (runs db)"
  shows "map ae_sequence_no (events_of (ar_id r) db) =
      map int [1..<Suc (length (events_of (ar_id r) db))] \<and>
    hd (life (ar_id r) db) = RUN_QUEUED \<and> successively next_event (life (ar_id r) db) \<and>
    ar_status r = status_of_event (last (life (ar_id r) db)) \<and>
    (terminal_status (ar_status r) \<longleftrightarrow> ar_finished_at r \<noteq> None)"
proof -
  have ok: "runs_ok db" using rs.inv_reachable [OF _ assms(3)] assms(1,2) by blast
  have "run_ok db r" "numbered (events_of (ar_id r) db)"
    using runs_okD(2) [OF ok assms(4)] runs_okD(3) [OF ok] by blast+
  then show ?thesis by (simp add: run_ok_def numbered_def status_terminal_iff del: upt_Suc)
qed

text \<open>A run that has reached a terminal state is final: whatever jobs, retries and resumes follow,
  its row does not change, and its log keeps exactly one terminal event, the last of its lifecycle.\<close>

theorem terminal_run_final:
  assumes "run_step\<^sup>*\<^sup>* db db'" and "runs_ok db" and "r \<in> set (runs db)" and "terminal_status (ar_status r)"
  shows "r \<in> set (runs db') \<and> life (ar_id r) db' = life (ar_id r) db \<and>
    filter terminal_event (life (ar_id r) db') = [last (life (ar_id r) db')]"
proof -
  have ok: "run_ok db r" by (rule runs_okD(2) [OF assms(2,3)])
  then have t: "terminal_event (last (life (ar_id r) db))"
    using assms(4) status_terminal_iff unfolding run_ok_def by metis
  have "settled_run db' r (life (ar_id r) db)"
  proof (rule rs.run_preserves [OF assms(1,2)])
    show "settled_run db r (life (ar_id r) db)" using assms(3) by (simp add: settled_run_def)
  next
    fix u v assume "runs_ok u" "settled_run u r (life (ar_id r) db)" "run_step u v"
    then show "settled_run v r (life (ar_id r) db)"
      using run_effect_settled run_step_effect t by blast
  qed
  then show ?thesis
    using one_terminal_event [of "life (ar_id r) db"] ok t by (auto simp: settled_run_def run_ok_def)
qed

lemma last_sort_key_greatest:
  assumes "x \<in> set xs"
  shows "f x \<le> f (last (sort_key f xs))"
proof -
  have ne: "sort_key f xs \<noteq> []" using assms by (metis empty_iff set_empty set_sort)
  then obtain ys where ys: "sort_key f xs = ys @ [last (sort_key f xs)]" by (metis append_butlast_last_id)
  have "sorted (map f (ys @ [last (sort_key f xs)]))" using sorted_sort_key [of f xs] ys by metis
  moreover have "x \<in> set (ys @ [last (sort_key f xs)])" using assms ys by (metis set_sort)
  ultimately show ?thesis by (auto simp: sorted_append)
qed

text \<open>C32: a run is resumed only by the user who started it, with an active membership in its project
  and company, only while an issue-creating run waits for confirmation, and only with the payload
  hash of the latest confirmation that was shown; then it is queued again and the decision is on record.\<close>

theorem resume_guarded:
  assumes "resume_run pick gov now ids user_id run_id command db = (Inr x, db')"
  shows "\<exists>r\<in>set (runs db). ar_id r = run_id \<and> ar_user_id r = user_id \<and>
    ar_business_mode r = Some ISSUE_CREATE \<and> ar_status r = WAITING_CONFIRMATION \<and>
    (\<exists>m. active_member gov now user_id (ar_project_id r) m \<and> ma_company_id m = ar_company_id r) \<and>
    (\<exists>w\<in>set (events_of run_id db). ae_event_type w = EV_WAITING_CONFIRMATION \<and>
       (\<forall>e\<in>set (events_of run_id db). ae_event_type e = EV_WAITING_CONFIRMATION \<longrightarrow>
          ae_sequence_no e \<le> ae_sequence_no w) \<and>
       str_field (ae_payload w) ''request_payload_hash'' = Some (rc_request_payload_hash command)) \<and>
    row_by ar_id run_id (runs db') = Some (r\<lparr>ar_status := QUEUED\<rparr>) \<and>
    (\<exists>e. events db' = events db @ [e] \<and> ae_event_type e = RUN_RESUME_QUEUED \<and> ae_run_id e = run_id \<and>
       str_field (ae_payload e) ''action'' = Some (ConfirmationAction_value (rc_action command)))"
  using assms
proof (rule resume_run_Inr)
  fix r ctx w
  assume r: "r \<in> set (runs db)" "row_by ar_id run_id (runs db) = Some r" "ar_id r = run_id"
    and ctx: "authorize_project pick now user_id (ar_project_id r) gov = Inr ctx"
      "sc_company_id (cx_scope ctx) = ar_company_id r"
    and g: "user_id = ar_user_id r" "ar_business_mode r = Some ISSUE_CREATE" "ar_status r = WAITING_CONFIRMATION"
    and w: "latest_event_of_type run_id EV_WAITING_CONFIRMATION db = Some w"
      "str_field (ae_payload w) ''request_payload_hash'' = Some (rc_request_payload_hash command)"
    and db': "runs db' = update_rows (\<lambda>r. ar_id r = run_id) (\<lambda>r. r\<lparr>ar_status := QUEUED\<rparr>) (runs db)"
      "events db' = events db @ [event_row (new_event ids) run_id RUN_RESUME_QUEUED
       [(''action'', JStr (ConfirmationAction_value (rc_action command))),
        (''request_payload_hash'', JStr (rc_request_payload_hash command)),
        (''actor_id'', JStr (uuid_str user_id))] db]"
  have "\<exists>m. active_member gov now user_id (ar_project_id r) m \<and> ma_company_id m = ar_company_id r"
    using ctx(1) by (rule authorize_project_Inr) (use ctx(2) in auto)
  moreover have "w \<in> set (events_of run_id db)" "ae_event_type w = EV_WAITING_CONFIRMATION"
      "\<forall>e\<in>set (events_of run_id db). ae_event_type e = EV_WAITING_CONFIRMATION \<longrightarrow> ae_sequence_no e \<le> ae_sequence_no w"
  proof -
    let ?f = "filter (\<lambda>e. ae_event_type e = EV_WAITING_CONFIRMATION) (events_of run_id db)"
    have "w = last (sort_key ae_sequence_no ?f)" "?f \<noteq> []"
      using w(1) by (auto simp: latest_event_of_type_def latest_row_def split: if_splits)
    then have "w \<in> set ?f" by (metis last_in_set set_empty set_sort)
    then show "w \<in> set (events_of run_id db)" "ae_event_type w = EV_WAITING_CONFIRMATION" by auto
    have "ae_sequence_no e \<le> ae_sequence_no w" if "e \<in> set ?f" for e
      using last_sort_key_greatest [of e ?f ae_sequence_no] that \<open>w = last (sort_key ae_sequence_no ?f)\<close> by simp
    then show "\<forall>e\<in>set (events_of run_id db). ae_event_type e = EV_WAITING_CONFIRMATION \<longrightarrow> ae_sequence_no e \<le> ae_sequence_no w"
      by simp
  qed
  moreover have "row_by ar_id run_id (runs db') = Some (r\<lparr>ar_status := QUEUED\<rparr>)"
    using r(2,3) by (simp add: db'(1) row_by_update_rows)
  ultimately show ?thesis using r g w(2) db'(2) by (intro bexI [OF _ r(1)]) (auto simp: event_row_def)
qed

end
