(* ===== verification/RunHandlers.thy ===== *)
theory RunHandlers
  imports RunProofs
begin

text \<open>
  What the job handlers of the worker and the event stream of the API achieve: on the last attempt a
  failing graph leaves a failed run, a result leaves the run in the state it stands for, and the
  stream sends the log in order, without gaps and without repetition.
\<close>

section \<open>One transaction on an existing run\<close>

lemma require_run_existing:
  assumes "runs_ok db" and "row_by ar_id run_id (runs db) = Some r"
  shows "\<exists>run. require_run run_id db = Inr run \<and> rr_status run = ar_status r \<and>
    rr_started_at run = ar_started_at r \<and> rr_id run = run_id"
proof -
  have r: "r \<in> set (runs db)" "ar_id r = run_id" using row_by_SomeD [OF assms(2)] by auto
  then obtain mode where "ar_business_mode r = Some mode"
    using runs_okD(2) [OF assms(1)] by (auto simp: run_ok_def)
  then show ?thesis using assms(2) r(2)
    by (simp add: require_run_def repo_get_run_def to_run_def)
qed

definition logged :: "uuid \<Rightarrow> uuid \<Rightarrow> RunStatus \<Rightarrow> datetime option \<Rightarrow> datetime option \<Rightarrow>
  AgentEventType \<Rightarrow> payload \<Rightarrow> run_db \<Rightarrow> run_db" where
  "logged new_ev run_id st started fin_at t p db =
     db\<lparr>runs := update_rows (\<lambda>r. ar_id r = run_id)
          (\<lambda>r. r\<lparr>ar_status := st, ar_started_at := started, ar_finished_at := fin_at\<rparr>) (runs db),
        events := events db @ [event_row new_ev run_id t p db]\<rparr>"

lemma lifecycle_event_total:
  assumes "runs_ok db" and "row_by ar_id run_id (runs db) = Some r"
  shows "\<exists>x. bind_op (set_lifecycle run_id st started fin_at) (\<lambda>run'.
      bind_op (append_event new_ev run_id t p) (\<lambda>_. return_op run')) db =
    (Inr x, logged new_ev run_id st started fin_at t p db)"
proof -
  have r: "r \<in> set (runs db)" "ar_id r = run_id" using row_by_SomeD [OF assms(2)] by auto
  then obtain mode where mode: "ar_business_mode r = Some mode"
    using runs_okD(2) [OF assms(1)] by (auto simp: run_ok_def)
  have found: "row_by ar_id run_id (update_rows (\<lambda>r. ar_id r = run_id)
      (\<lambda>r. r\<lparr>ar_status := st, ar_started_at := started, ar_finished_at := fin_at\<rparr>) (runs db)) \<noteq> None"
    using assms(2) by (simp add: row_by_update_rows)
  show ?thesis
    using assms(2) mode found
    by (auto simp: bind_op_def set_lifecycle_def append_event_def Let_def to_run_def logged_def
        event_row_def)
qed

lemma logged_row:
  assumes "row_by ar_id run_id (runs db) = Some r"
  shows "row_by ar_id run_id (runs (logged new_ev run_id st started fin_at t p db)) =
    Some (r\<lparr>ar_status := st, ar_started_at := started, ar_finished_at := fin_at\<rparr>)"
  using assms row_by_SomeD [OF assms] by (simp add: logged_def row_by_update_rows)

lemma prepare_execute_invoke:
  assumes "runs_ok db" and "prepare_execute now new_ev run_id db = (Inr prep, db1)" and "rp_invoke prep"
  obtains r where "row_by ar_id run_id (runs db1) = Some r" "ar_status r = RUNNING"
proof -
  obtain run where run: "require_run run_id db = Inr run"
    using assms(2) by (auto simp: prepare_execute_def split: sum.splits)
  obtain r where r: "row_by ar_id run_id (runs db) = Some r" "rr_status run = ar_status r"
    using run by (rule require_run_Inr)
  show thesis
  proof (cases "ar_status r = QUEUED")
    case True
    obtain s y d where sl: "set_lifecycle run_id RUNNING (Some s) None db = (Inr y, d)" "runs db1 = runs d"
      using assms(2,3) run True r(2)
      by (auto simp: prepare_execute_def bind_op_Inr_iff append_event_Inr
          split: option.splits if_splits)
    then have "row_by ar_id run_id (runs db1) =
        Some (r\<lparr>ar_status := RUNNING, ar_started_at := Some s, ar_finished_at := None\<rparr>)"
      using set_lifecycle_Inr [OF sl(1)] r(1) row_by_SomeD [OF r(1)] by (simp add: row_by_update_rows)
    then show thesis by (rule that) simp
  next
    case False
    then have "db1 = db \<and> ar_status r = RUNNING"
      using assms(2,3) run r(2)
      by (auto simp: prepare_execute_def split: option.splits if_splits)
    then show thesis using that r(1) by blast
  qed
qed

lemma persist_terminal_total:
  assumes "runs_ok db" and "row_by ar_id run_id (runs db) = Some r" and "ar_status r = RUNNING"
    and "terminal_projection (ro_kind outcome) = Inr (st, t)"
  shows "\<exists>x. persist_outcome now new_ev run_id outcome db =
    (Inr x, logged new_ev run_id st (ar_started_at r) (Some now) t (outcome_payload outcome) db)"
proof -
  obtain run where run: "require_run run_id db = Inr run" "rr_status run = RUNNING"
      "rr_started_at run = ar_started_at r"
    using require_run_existing [OF assms(1,2)] assms(3) by auto
  have "ro_kind outcome \<noteq> OUT_WAITING_CONFIRMATION" using assms(4) by auto
  then show ?thesis
    using run assms(4) lifecycle_event_total [OF assms(1,2), of st "ar_started_at r" "Some now" new_ev t
        "outcome_payload outcome"]
    by (simp add: persist_outcome_def TERMINAL_RUN_STATUSES_def)
qed

lemma mark_final_failure_total:
  assumes "runs_ok db" and "row_by ar_id run_id (runs db) = Some r" and "ar_status r = RUNNING"
  shows "\<exists>x. mark_final_failure now new_ev run_id code db =
    (Inr x, logged new_ev run_id FAILED (ar_started_at r) (Some now) RUN_FAILED [(''error_code'', JStr code)] db)"
proof -
  obtain run where run: "require_run run_id db = Inr run" "rr_status run = RUNNING"
      "rr_started_at run = ar_started_at r"
    using require_run_existing [OF assms(1,2)] assms(3) by auto
  then show ?thesis
    using lifecycle_event_total [OF assms(1,2), of FAILED "ar_started_at r" "Some now" new_ev RUN_FAILED]
    by (simp add: mark_final_failure_def TERMINAL_RUN_STATUSES_def)
qed

section \<open>The stream of events\<close>

lemma numbered_nth:
  assumes "numbered evs" and "i < length evs"
  shows "ae_sequence_no (evs ! i) = int (Suc i)"
proof -
  have "map ae_sequence_no evs ! i = map int [1..<Suc (length evs)] ! i"
    using assms(1) by (simp only: numbered_def)
  then show ?thesis using assms(2) by (simp del: upt_Suc)
qed

lemma numbered_take:
  assumes "numbered evs"
  shows "numbered (take k evs)"
  unfolding numbered_def
  by (rule nth_equalityI) (simp_all add: numbered_nth [OF assms] del: upt_Suc)

lemma filter_after:
  assumes "numbered evs" and "0 \<le> c"
  shows "filter (\<lambda>e. c < ae_sequence_no e) evs = drop (nat c) evs"
proof -
  have "evs = take (nat c) evs @ drop (nat c) evs" by simp
  moreover have "filter (\<lambda>e. c < ae_sequence_no e) (take (nat c) evs) = []"
    using numbered_nth [OF assms(1)] by (auto simp: filter_empty_conv in_set_conv_nth)
  moreover have "filter (\<lambda>e. c < ae_sequence_no e) (drop (nat c) evs) = drop (nat c) evs"
    using numbered_nth [OF assms(1)] assms(2) by (auto simp: filter_id_conv in_set_conv_nth)
  ultimately show ?thesis by (metis append_Nil filter_append)
qed

lemma list_events_after_drop:
  assumes "numbered (events_of run_id db)" and "0 \<le> c"
  shows "list_events_after run_id c 100 db = take 100 (drop (nat c) (events_of run_id db))"
  using numbered_filter_sorted [OF assms(1), of "\<lambda>e. c < ae_sequence_no e"] filter_after [OF assms]
  by (simp add: list_events_after_def)

lemma last_take_drop:
  assumes "xs = take j (drop n ys)" and "xs \<noteq> []"
  shows "last xs = ys ! (n + length xs - 1)" and "n + length xs \<le> length ys"
    and "xs = take (length xs) (drop n ys)"
proof -
  have "0 < length xs" using assms(2) by simp
  then show le: "n + length xs \<le> length ys" unfolding assms(1) by auto
  show "xs = take (length xs) (drop n ys)"
    unfolding assms(1) by (cases "j \<le> length (drop n ys)") simp_all
  have "take j (drop n ys) ! i = ys ! (n + i)" if "i < length (take j (drop n ys))" for i
    using that le by (auto simp: nth_drop)
  then have "xs ! (length xs - 1) = ys ! (n + (length xs - 1))"
    using \<open>0 < length xs\<close> unfolding assms(1) [symmetric] by simp
  then show "last xs = ys ! (n + length xs - 1)"
    using \<open>0 < length xs\<close> by (simp add: last_conv_nth assms(2))
qed

lemma emit_events_prefix:
  "\<exists>m. fst (emit_events c es) = take m es \<and>
     (\<forall>c'. snd (emit_events c es) = Continue c' \<longrightarrow> m = length es \<and>
        c' = (if es = [] then c else ae_sequence_no (last es)))"
proof (induction es arbitrary: c)
  case (Cons e es)
  show ?case
  proof (cases "terminal_event (ae_event_type e)")
    case True
    then show ?thesis by (intro exI [of _ 1]) simp
  next
    case False
    obtain m where "fst (emit_events (ae_sequence_no e) es) = take m es"
      "\<forall>c'. snd (emit_events (ae_sequence_no e) es) = Continue c' \<longrightarrow> m = length es \<and>
        c' = (if es = [] then ae_sequence_no e else ae_sequence_no (last es))"
      using Cons by blast
    with False show ?thesis by (intro exI [of _ "Suc m"]) (auto split: prod.splits)
  qed
qed simp

lemma iter_sse_prefix:
  assumes "numbered evs" and "\<forall>(d1, d2)\<in>set hist. \<exists>k. events_of run_id d1 = take k evs" and "0 \<le> c"
  shows "\<exists>m. fst (iter_sse_events run_id c hist) = take m (drop (nat c) evs)"
  using assms(2,3)
proof (induction hist arbitrary: c)
  case (Cons d hist)
  obtain d1 d2 where d: "d = (d1, d2)" by (cases d)
  obtain k where k: "events_of run_id d1 = take k evs" using Cons.prems(1) d by auto
  let ?es = "list_events_after run_id c 100 d1"
  have es: "?es = take 100 (drop (nat c) (take k evs))"
    using list_events_after_drop [of run_id d1 c] numbered_take [OF assms(1), of k] Cons.prems(2) k by simp
  then have es': "?es = take (min 100 (k - nat c)) (drop (nat c) evs)"
    by (simp add: drop_take)
  show ?case
  proof (cases "?es = []")
    case True
    then show ?thesis
      using Cons.IH [of c] Cons.prems by (auto simp: d sse_round_def split: option.splits prod.splits)
  next
    case False
    obtain m where m: "fst (emit_events c ?es) = take m ?es"
      "\<And>c'. snd (emit_events c ?es) = Continue c' \<Longrightarrow> m = length ?es \<and> c' = ae_sequence_no (last ?es)"
      using emit_events_prefix [of c ?es] False by auto
    show ?thesis
    proof (cases "snd (emit_events c ?es)")
      case Stop
      have "fst (iter_sse_events run_id c (d # hist)) = fst (emit_events c ?es)"
        using Stop False by (auto simp: d sse_round_def split: prod.splits)
      then show ?thesis using m(1) es' by (metis take_take)
    next
      case (Continue c')
      let ?n = "length ?es"
      note last = last_take_drop [OF es' False]
      have c': "c' = int (nat c + ?n)"
        using m(2) [OF Continue] numbered_nth [OF assms(1), of "nat c + ?n - 1"] last False by (cases ?es) auto
      then have nat_c': "nat c' = nat c + ?n" by (simp only: nat_int)
      obtain m' where m': "fst (iter_sse_events run_id c' hist) = take m' (drop (nat c') evs)"
        using Cons.IH [of c'] Cons.prems(1) c' by auto
      have "fst (iter_sse_events run_id c (d # hist)) = ?es @ fst (iter_sse_events run_id c' hist)"
        using Continue False m by (auto simp: d sse_round_def split: prod.splits)
      also have "\<dots> = take ?n (drop (nat c) evs) @ take m' (drop (nat c + ?n) evs)"
        unfolding m' nat_c' using last(3) by simp
      also have "\<dots> = take (?n + m') (drop (nat c) evs)"
        by (simp only: take_add drop_drop add.commute [of ?n "nat c"])
      finally show ?thesis by blast
    qed
  qed
qed (auto intro: exI [of _ 0])

definition upto_terminal :: "AgentEventModel list \<Rightarrow> AgentEventModel list" where
  "upto_terminal es = takeWhile (\<lambda>e. \<not> terminal_event (ae_event_type e)) es @
     take 1 (dropWhile (\<lambda>e. \<not> terminal_event (ae_event_type e)) es)"

lemma upto_terminal_Cons:
  "upto_terminal (e # es) = e # (if terminal_event (ae_event_type e) then [] else upto_terminal es)"
  by (simp add: upto_terminal_def)

lemma upto_terminal_append:
  "upto_terminal (es @ es') =
     (if \<exists>e\<in>set es. terminal_event (ae_event_type e) then upto_terminal es else es @ upto_terminal es')"
  by (induction es) (auto simp: upto_terminal_Cons)

lemma emit_events_upto:
  "emit_events c es = (upto_terminal es,
     if \<exists>e\<in>set es. terminal_event (ae_event_type e) then Stop
     else Continue (if es = [] then c else ae_sequence_no (last es)))"
  by (induction es arbitrary: c) (auto simp: upto_terminal_Cons upto_terminal_def)

lemma iter_sse_quiescent:
  assumes "numbered (events_of run_id db)" and "row_by ar_id run_id (runs db) = Some r"
    and "terminal_status (ar_status r)"
  shows "0 \<le> c \<Longrightarrow> length (drop (nat c) (events_of run_id db)) < n \<Longrightarrow>
    iter_sse_events run_id c (replicate n (db, db)) = (upto_terminal (drop (nat c) (events_of run_id db)), True)"
proof (induction n arbitrary: c)
  case (Suc n)
  let ?rest = "drop (nat c) (events_of run_id db)"
  let ?es = "list_events_after run_id c 100 db"
  have es: "?es = take 100 ?rest" by (rule list_events_after_drop [OF assms(1) Suc.prems(1)])
  have split: "upto_terminal ?rest = upto_terminal (?es @ drop 100 ?rest)" by (simp only: es append_take_drop_id)
  show ?case
  proof (cases "?es = []")
    case True
    then have "?rest = []" by (simp add: es)
    then show ?thesis using True assms(2,3) by (simp add: sse_round_def upto_terminal_def)
  next
    case False
    show ?thesis
    proof (cases "\<exists>e\<in>set ?es. terminal_event (ae_event_type e)")
      case True
      then show ?thesis using False split
        by (simp add: sse_round_def emit_events_upto upto_terminal_append)
    next
      case no_term: False
      note last = last_take_drop [OF es False]
      let ?c = "c + int (length ?es)"
      have seq: "ae_sequence_no (last ?es) = ?c"
      proof -
        have pos: "0 < length ?es" using False by simp
        then have "nat c + length ?es - 1 < length (events_of run_id db)" using last(2) by linarith
        with pos show ?thesis
          using numbered_nth [OF assms(1), of "nat c + length ?es - 1"] last(1) Suc.prems(1) by simp
      qed
      have sent: "upto_terminal ?es = ?es"
        using no_term upto_terminal_append [of ?es "[]"] by (auto simp: upto_terminal_def [of "[]"])
      have rest: "drop (nat ?c) (events_of run_id db) = drop 100 ?rest"
      proof (cases "100 \<le> length ?rest")
        case True
        then show ?thesis using es Suc.prems(1) by (simp add: nat_add_distrib add.commute)
      next
        case short: False
        then have "length ?es = length ?rest" using es by simp
        then show ?thesis using short Suc.prems(1) by (simp add: nat_add_distrib)
      qed
      have "iter_sse_events run_id ?c (replicate n (db, db)) = (upto_terminal (drop 100 ?rest), True)"
        unfolding rest [symmetric]
        by (rule Suc.IH) (use Suc.prems False rest in \<open>auto simp: es\<close>)
      then show ?thesis
        using False no_term split sent seq
        by (simp add: sse_round_def emit_events_upto upto_terminal_append Let_def)
    qed
  qed
qed simp

lemma parse_last_event_id_str: "0 \<le> k \<Longrightarrow> parse_last_event_id (Some (str_int k)) = Inr k"
  using str_nat_digits [of "nat k"] by (simp add: parse_last_event_id_def str_int_def list_all_iff)


lemma terminal_event_in_life:
  assumes "runs_ok db" and "r \<in> set (runs db)" and "e \<in> set (events_of (ar_id r) db)"
    and "terminal_event (ae_event_type e)"
  shows "terminal_status (ar_status r)"
proof -
  have ok: "run_ok db r" by (rule runs_okD(2) [OF assms(1,2)])
  have "ae_event_type e \<in> set (life (ar_id r) db)" using assms(3,4) by (auto simp: life_def)
  then obtain xs ys where split: "life (ar_id r) db = xs @ ae_event_type e # ys" by (meson split_list)
  have "ys = []"
  proof (cases ys)
    case (Cons y zs)
    then have "next_event (ae_event_type e) y"
      using ok split by (auto simp: run_ok_def successively_append_iff)
    then show ?thesis using next_event_not_terminal assms(4) by blast
  qed
  then have "last (life (ar_id r) db) = ae_event_type e" using split by simp
  then show ?thesis using ok assms(4) status_terminal_iff by (simp add: run_ok_def)
qed

lemma terminal_run_has_event:
  assumes "runs_ok db" and "r \<in> set (runs db)" and "terminal_status (ar_status r)"
  shows "\<exists>e\<in>set (events_of (ar_id r) db). terminal_event (ae_event_type e)"
proof -
  have ok: "run_ok db r" by (rule runs_okD(2) [OF assms(1,2)])
  then have "terminal_event (last (life (ar_id r) db))" "last (life (ar_id r) db) \<in> set (life (ar_id r) db)"
    using assms(3) status_terminal_iff last_in_set unfolding run_ok_def by metis+
  then show ?thesis by (auto simp: life_def)
qed

section \<open>Theorems\<close>

text \<open>When the graph delivers a final outcome, the handler returns and the run ends in the state of
  that outcome, with the finishing time and the terminal event that carries the result.\<close>

theorem execute_handler_records_outcome:
  assumes "runs_ok db" and "UUID (qj_aggregate_id job) = Inr run_id"
    and "prepare_execute now ev1 run_id db = (Inr prep, db1)" and "rp_invoke prep"
    and "graph (rp_run prep) (rp_resume_payload prep) = Inr outcome"
    and "terminal_projection (ro_kind outcome) = Inr (st, t)"
  shows "\<exists>r db'. execute_agent_run_handler graph now ev1 ev2 job db = (Inr (), db') \<and>
    row_by ar_id run_id (runs db') = Some r \<and> ar_status r = st \<and> ar_finished_at r = Some now \<and>
    events db' = events db1 @ [event_row ev2 run_id t (outcome_payload outcome) db1]"
proof -
  obtain r where r: "row_by ar_id run_id (runs db1) = Some r" "ar_status r = RUNNING"
    using prepare_execute_invoke [OF assms(1,3,4)] by blast
  have ok: "runs_ok db1" using prepare_execute_effect [OF assms(1,3)] assms(1) run_effect_ok by blast
  obtain x where "persist_outcome now ev2 run_id outcome db1 =
      (Inr x, logged ev2 run_id st (ar_started_at r) (Some now) t (outcome_payload outcome) db1)"
    using persist_terminal_total [OF ok r assms(6)] by blast
  then have "execute_agent_run_handler graph now ev1 ev2 job db =
      (Inr (), logged ev2 run_id st (ar_started_at r) (Some now) t (outcome_payload outcome) db1)"
    using assms(2-5)
    by (simp add: execute_agent_run_handler_def run_and_persist_def bind_op_def transactional_def)
  then show ?thesis using logged_row [OF r(1)] by (auto simp: logged_def)
qed

text \<open>When the graph raises, the handler re-raises; on the last attempt the run is marked failed
  with the exception's class name, before it the run stays running for the retry.\<close>

theorem execute_handler_failure:
  assumes "runs_ok db" and "UUID (qj_aggregate_id job) = Inr run_id"
    and "prepare_execute now ev1 run_id db = (Inr prep, db1)" and "rp_invoke prep"
    and "graph (rp_run prep) (rp_resume_payload prep) = Inl exc"
  shows "\<exists>r db'. execute_agent_run_handler graph now ev1 ev2 job db = (Inl exc, db') \<and>
    row_by ar_id run_id (runs db') = Some r \<and>
    (if qj_max_attempts job \<le> qj_attempts job
     then ar_status r = FAILED \<and> ar_finished_at r = Some now \<and>
       events db' = events db1 @ [event_row ev2 run_id RUN_FAILED [(''error_code'', JStr (exn_name exc))] db1]
     else ar_status r = RUNNING \<and> db' = db1)"
proof -
  obtain r where r: "row_by ar_id run_id (runs db1) = Some r" "ar_status r = RUNNING"
    using prepare_execute_invoke [OF assms(1,3,4)] by blast
  have ok: "runs_ok db1" using prepare_execute_effect [OF assms(1,3)] assms(1) run_effect_ok by blast
  obtain x where x: "mark_final_failure now ev2 run_id (exn_name exc) db1 =
      (Inr x, logged ev2 run_id FAILED (ar_started_at r) (Some now) RUN_FAILED
        [(''error_code'', JStr (exn_name exc))] db1)"
    using mark_final_failure_total [OF ok r] by blast
  show ?thesis
  proof (cases "qj_max_attempts job \<le> qj_attempts job")
    case True
    then have "execute_agent_run_handler graph now ev1 ev2 job db =
        (Inl exc, logged ev2 run_id FAILED (ar_started_at r) (Some now) RUN_FAILED
          [(''error_code'', JStr (exn_name exc))] db1)"
      using assms(2-5) x
      by (simp add: execute_agent_run_handler_def run_and_persist_def handle_failure_def bind_op_def
          transactional_def)
    then show ?thesis using logged_row [OF r(1)] True by (auto simp: logged_def)
  next
    case False
    then have "execute_agent_run_handler graph now ev1 ev2 job db = (Inl exc, db1)"
      using assms(2-5)
      by (simp add: execute_agent_run_handler_def run_and_persist_def handle_failure_def bind_op_def
          transactional_def)
    then show ?thesis using r False by auto
  qed
qed

text \<open>An outcome that asks for confirmation without a payload hash is rejected after the graph has
  run, outside the failure handling: even on the last attempt the handler raises and the run is
  left running, with no failure on record.\<close>

theorem contract_error_leaves_running:
  assumes "runs_ok db" and "UUID (qj_aggregate_id job) = Inr run_id"
    and "prepare_execute now ev1 run_id db = (Inr prep, db1)" and "rp_invoke prep"
    and "graph (rp_run prep) (rp_resume_payload prep) = Inr outcome"
    and "ro_kind outcome = OUT_WAITING_CONFIRMATION"
    and "case ro_waiting_payload outcome of None \<Rightarrow> True | Some p \<Rightarrow> str_field p ''request_payload_hash'' = None"
  shows "execute_agent_run_handler graph now ev1 ev2 job db = (Inl RunExecutionContractError, db1) \<and>
    (\<exists>r. row_by ar_id run_id (runs db1) = Some r \<and> ar_status r = RUNNING)"
proof -
  obtain r where r: "row_by ar_id run_id (runs db1) = Some r" "ar_status r = RUNNING"
    using prepare_execute_invoke [OF assms(1,3,4)] by blast
  have ok: "runs_ok db1" using prepare_execute_effect [OF assms(1,3)] assms(1) run_effect_ok by blast
  obtain run where "require_run run_id db1 = Inr run" "rr_status run = RUNNING"
    using require_run_existing [OF ok r(1)] r(2) by auto
  then have "persist_outcome now ev2 run_id outcome db1 = (Inl RunExecutionContractError, db1)"
    using assms(6,7) by (auto simp: persist_outcome_def TERMINAL_RUN_STATUSES_def split: option.splits)
  then show ?thesis
    using assms(2-5) r
    by (simp add: execute_agent_run_handler_def run_and_persist_def bind_op_def transactional_def)
qed

text \<open>Whatever happens while a client polls, what it has been sent is a beginning of the events
  after its cursor in the log as it is in the end: in order, nothing left out, nothing twice.\<close>

theorem stream_in_order:
  assumes "runs_ok final" and "\<forall>(d1, d2)\<in>set hist. runs_ok d1 \<and> run_step\<^sup>*\<^sup>* d1 final" and "0 \<le> cursor"
  shows "\<exists>m. fst (iter_sse_events run_id cursor hist) = take m (drop (nat cursor) (events_of run_id final))"
proof (rule iter_sse_prefix [OF runs_okD(3) [OF assms(1)] _ assms(3)])
  have "\<exists>k. events_of run_id d1 = take k (events_of run_id final)" if h: "(d1, d2) \<in> set hist" for d1 d2
  proof -
    have "runs_ok d1" "run_step\<^sup>*\<^sup>* d1 final" using assms(2) h by auto
    then obtain es where "events_of run_id final = events_of run_id d1 @ es"
      using run_step_append by blast
    then show ?thesis by (metis append_eq_conv_conj)
  qed
  then show "\<forall>(d1, d2)\<in>set hist. \<exists>k. events_of run_id d1 = take k (events_of run_id final)" by blast
qed

text \<open>C33: once a run has ended and nothing else changes, a client that reconnects with the id of the
  last event it saw gets the rest of the log up to the terminal event, and the stream ends.\<close>

theorem stream_complete:
  assumes "runs_ok db" and "row_by ar_id run_id (runs db) = Some r" and "terminal_status (ar_status r)"
    and "0 \<le> k" and "length (events_of run_id db) < n"
  shows "parse_last_event_id (Some (str_int k)) = Inr k \<and>
    iter_sse_events run_id k (replicate n (db, db)) =
      (upto_terminal (drop (nat k) (events_of run_id db)), True)"
  using iter_sse_quiescent [OF runs_okD(3) [OF assms(1)] assms(2,3,4)] assms(4,5) parse_last_event_id_str
  by simp

text \<open>The two reads of a polling round can straddle the end of a run: if the run ends after the
  events were read (none new) and before its status is read, the stream closes without ever
  sending the terminal event.\<close>

theorem stream_can_miss_end:
  assumes "runs_ok d1" and "run_step\<^sup>*\<^sup>* d1 d2" and "row_by ar_id run_id (runs d1) = Some r1"
    and "\<not> terminal_status (ar_status r1)" and "row_by ar_id run_id (runs d2) = Some r2"
    and "terminal_status (ar_status r2)"
  shows "iter_sse_events run_id (int (length (events_of run_id d1))) ((d1, d2) # rest) = ([], True) \<and>
    (\<exists>e\<in>set (events_of run_id d2). terminal_event (ae_event_type e) \<and>
       int (length (events_of run_id d1)) < ae_sequence_no e)"
proof -
  let ?n = "length (events_of run_id d1)"
  have ok2: "runs_ok d2" by (rule rs.inv_run [OF assms(2,1)])
  have r1: "r1 \<in> set (runs d1)" "ar_id r1 = run_id" and r2: "r2 \<in> set (runs d2)" "ar_id r2 = run_id"
    using row_by_SomeD [OF assms(3)] row_by_SomeD [OF assms(5)] by auto
  have "list_events_after run_id (int ?n) 100 d1 = []"
    using list_events_after_drop [OF runs_okD(3) [OF assms(1)], where c = "int ?n"] by simp
  then have "iter_sse_events run_id (int ?n) ((d1, d2) # rest) = ([], True)"
    using assms(5,6) by (simp add: sse_round_def)
  moreover obtain e where e: "e \<in> set (events_of run_id d2)" "terminal_event (ae_event_type e)"
    using terminal_run_has_event [OF ok2 r2(1) assms(6)] r2(2) by auto
  obtain es where es: "events_of run_id d2 = events_of run_id d1 @ es"
    using run_step_append [OF assms(2,1)] by blast
  have "e \<notin> set (events_of run_id d1)"
    using terminal_event_in_life [OF assms(1) r1(1), of e] r1(2) e(2) assms(4) by auto
  then obtain i where i: "i < length (events_of run_id d2)" "events_of run_id d2 ! i = e" "?n \<le> i"
    using e(1) unfolding in_set_conv_nth by (metis es nth_append not_less nth_mem)
  then have "int ?n < ae_sequence_no e" using numbered_nth [OF runs_okD(3) [OF ok2] i(1)] by simp
  ultimately show ?thesis using e by blast
qed

section \<open>Witnesses\<close>

text \<open>A run of issue creation: created, started, waiting for confirmation; and one that ends.\<close>

definition sample_ids :: fresh_ids where
  "sample_ids = \<lparr>new_thread = 30, new_run = 31, new_event = 32, new_job = 33\<rparr>"

definition sample_create :: CreateRunCommand where
  "sample_create = \<lparr>cr_project_id = 1, cr_business_mode = ISSUE_CREATE, cr_query_text = ''q'',
     cr_thread_id = None\<rparr>"

definition rdb0 :: run_db where
  "rdb0 = \<lparr>threads = [], runs = [], events = [], queue = []\<rparr>"

definition rdb1 :: run_db where
  "rdb1 = snd (transactional (create_run 0 sample_docs 1 sample_ids 5 sample_create) rdb0)"

definition rdb2 :: run_db where
  "rdb2 = snd (transactional (prepare_execute 2 34 31) rdb1)"

definition waiting_outcome :: RunGraphOutcome where
  "waiting_outcome = \<lparr>ro_kind = OUT_WAITING_CONFIRMATION, ro_result_ref = None, ro_summary = None,
     ro_waiting_payload = Some [(''request_payload_hash'', JStr ''h'')]\<rparr>"

definition done_outcome :: RunGraphOutcome where
  "done_outcome = \<lparr>ro_kind = OUT_SUCCEEDED, ro_result_ref = Some ''a'', ro_summary = None,
     ro_waiting_payload = None\<rparr>"

definition rdb3 :: run_db where
  "rdb3 = snd (transactional (persist_outcome 3 35 31 waiting_outcome) rdb2)"

definition rdb_done :: run_db where
  "rdb_done = snd (transactional (persist_outcome 3 35 31 done_outcome) rdb2)"

abbreviation row31 :: AgentRunModel where
  "row31 \<equiv> new_run_row 31 30 2 1 5 ISSUE_CREATE"

abbreviation ev31 :: "uuid \<Rightarrow> int \<Rightarrow> AgentEventType \<Rightarrow> payload \<Rightarrow> AgentEventModel" where
  "ev31 i n t p \<equiv> \<lparr>ae_id = i, ae_run_id = 31, ae_sequence_no = n, ae_event_type = t, ae_payload = p\<rparr>"

lemma uuid_str_not_blank: "py_strip (uuid_str u) \<noteq> []"
proof -
  have "CHR ''-'' \<in> set (uuid_str u)" by (simp add: uuid_str_def Let_def)
  moreover have "\<not> is_space (CHR ''-'')" by (simp add: is_space_def)
  ultimately show ?thesis unfolding py_strip_def strip_by_Nil_iff by blast
qed

lemmas run_eval = transactional_def bind_op_def append_event_def set_lifecycle_def Let_def to_run_def
  require_run_def repo_get_run_def next_sequence_def events_of_def latest_event_of_type_def latest_row_def
  latest_terminal_event_def TERMINAL_RUN_STATUSES_def TERMINAL_EVENT_TYPES_def new_run_row_def

lemma rdb1_eval: "runs rdb1 = [row31]" "events rdb1 = [ev31 32 1 RUN_QUEUED [(''query_text'', JStr ''q'')]]"
proof -
  obtain ctx where ctx: "authorize_project 0 1 5 1 sample_docs = Inr ctx" "sc_company_id (cx_scope ctx) = 2"
    by (simp add: auth_eval sample_doc_defs)
  have q: "py_strip ''q'' = ''q''" by (simp add: py_strip_def strip_by_def is_space_def)
  show "runs rdb1 = [row31]" "events rdb1 = [ev31 32 1 RUN_QUEUED [(''query_text'', JStr ''q'')]]"
    using ctx uuid_str_not_blank
    by (simp_all add: rdb1_def rdb0_def create_run_def sample_create_def sample_ids_def thread_for_run_def
        create_thread_def repo_create_run_def enqueue_run_job_def enqueue_def validate_enqueue_request_def
        q run_eval)
qed

lemma rdb2_eval:
  "runs rdb2 = [row31\<lparr>ar_status := RUNNING, ar_started_at := Some 2\<rparr>]"
  "events rdb2 = events rdb1 @ [ev31 34 2 RUN_STARTED []]"
  by (simp_all add: rdb2_def prepare_execute_def rdb1_eval missing_since_def later_than_def run_eval)

lemma rdb3_eval:
  "runs rdb3 = [row31\<lparr>ar_status := WAITING_CONFIRMATION, ar_started_at := Some 2\<rparr>]"
  "events rdb3 = events rdb2 @ [ev31 35 3 EV_WAITING_CONFIRMATION [(''request_payload_hash'', JStr ''h'')]]"
  by (simp_all add: rdb3_def persist_outcome_def waiting_outcome_def rdb1_eval rdb2_eval [unfolded new_run_row_def] run_eval)

lemma rdb_done_eval:
  "runs rdb_done = [row31\<lparr>ar_status := SUCCEEDED, ar_started_at := Some 2, ar_finished_at := Some 3\<rparr>]"
  "events rdb_done = events rdb2 @ [ev31 35 3 RUN_SUCCEEDED [(''result_ref'', JStr ''a'')]]"
  by (simp_all add: rdb_done_def persist_outcome_def done_outcome_def outcome_payload_def rdb1_eval
      rdb2_eval [unfolded new_run_row_def] run_eval)

lemma rdb1_run: "run_step rdb0 rdb1" "run_step rdb1 rdb2" "run_step rdb2 rdb3" "run_step rdb2 rdb_done"
  unfolding rdb1_def rdb2_def rdb3_def rdb_done_def
  by (auto intro: step_prepare_execute step_persist) (rule step_create, simp add: rdb0_def)

lemma rdb_single: "run_step\<^sup>*\<^sup>* rdb0 rdb1" "run_step\<^sup>*\<^sup>* rdb2 rdb_done"
  using rdb1_run by (blast intro: r_into_rtranclp)+

lemma rdb_runs: "run_step\<^sup>*\<^sup>* rdb0 rdb2" "run_step\<^sup>*\<^sup>* rdb0 rdb3" "run_step\<^sup>*\<^sup>* rdb0 rdb_done"
  using rdb1_run by (meson rtranclp.rtrancl_into_rtrancl rtranclp.rtrancl_refl)+

lemma rdb_ok: "runs_ok rdb1" "runs_ok rdb2" "runs_ok rdb3" "runs_ok rdb_done"
proof -
  have r0: "runs rdb0 = [] \<and> events rdb0 = []" by (simp add: rdb0_def)
  show "runs_ok rdb1" by (rule rs.inv_reachable [OF r0 rdb_single(1)])
  show "runs_ok rdb2" "runs_ok rdb3" "runs_ok rdb_done"
    by (rule rs.inv_reachable [OF r0 rdb_runs(1)] rs.inv_reachable [OF r0 rdb_runs(2)]
        rs.inv_reachable [OF r0 rdb_runs(3)])+
qed

theorem run_log_consistent_witness:
  "map ae_sequence_no (events_of 31 rdb3) = [1, 2, 3]"
proof -
  have r: "hd (runs rdb3) \<in> set (runs rdb3)" "ar_id (hd (runs rdb3)) = 31"
    by (simp_all add: rdb3_eval new_run_row_def)
  have "length (events_of 31 rdb3) = 3"
    by (simp add: events_of_def rdb1_eval rdb2_eval rdb3_eval)
  then show ?thesis
    using run_log_consistent [OF _ _ rdb_runs(2) r(1)] r(2) by (simp add: rdb0_def upt_rec)
qed

theorem terminal_run_final_witness:
  "hd (runs rdb_done) \<in> set (runs (snd (transactional (mark_final_failure 9 40 31 ''X'') rdb_done)))"
proof -
  have "run_step\<^sup>*\<^sup>* rdb_done (snd (transactional (mark_final_failure 9 40 31 ''X'') rdb_done))"
    by (rule r_into_rtranclp, rule step_fail)
  moreover have "hd (runs rdb_done) \<in> set (runs rdb_done)" "terminal_status (ar_status (hd (runs rdb_done)))"
    by (simp_all add: rdb_done_eval TERMINAL_RUN_STATUSES_def)
  ultimately show ?thesis using terminal_run_final [OF _ rdb_ok(4)] by blast
qed

theorem resume_guarded_witness:
  "\<exists>x db'. resume_run 0 sample_docs 1 sample_ids 5 31
       \<lparr>rc_action = CONFIRM, rc_request_payload_hash = ''h''\<rparr> rdb3 = (Inr x, db') \<and>
     (\<exists>r. row_by ar_id 31 (runs db') = Some r \<and> ar_status r = QUEUED)"
proof -
  obtain ctx where ctx: "authorize_project 0 1 5 1 sample_docs = Inr ctx" "sc_company_id (cx_scope ctx) = 2"
    by (simp add: auth_eval sample_doc_defs)
  then obtain x db' where run: "resume_run 0 sample_docs 1 sample_ids 5 31
       \<lparr>rc_action = CONFIRM, rc_request_payload_hash = ''h''\<rparr> rdb3 = (Inr x, db')"
    using uuid_str_not_blank
    by (simp add: resume_run_def rdb1_eval rdb2_eval [unfolded new_run_row_def]
        rdb3_eval [unfolded new_run_row_def] set_status_def enqueue_run_job_def enqueue_def
        validate_enqueue_request_def bind_of_res run_eval)
  from resume_guarded [OF run] have "\<exists>r. row_by ar_id 31 (runs db') = Some (r\<lparr>ar_status := QUEUED\<rparr>)" by blast
  with run show ?thesis by fastforce
qed

definition sample_job :: "int \<Rightarrow> QueuedJob" where
  "sample_job n = \<lparr>qj_job_id = ''j'', qj_job_type = ''EXECUTE_AGENT_RUN'', qj_aggregate_id = uuid_str 31,
     qj_state = JOB_RUNNING, qj_attempts = n, qj_max_attempts = 3, qj_worker_id = Some ''w'',
     qj_last_error_code = None, qj_available_at = None, qj_lease_expires_at = None, qj_heartbeat_at = None\<rparr>"

lemma prepare_rdb1: "\<exists>prep. prepare_execute 2 34 31 rdb1 = (Inr prep, rdb2) \<and> rp_invoke prep"
proof -
  have "fst (prepare_execute 2 34 31 rdb1) \<noteq> Inl e" for e
    by (simp add: prepare_execute_def rdb1_eval missing_since_def later_than_def run_eval)
  then obtain prep where "fst (prepare_execute 2 34 31 rdb1) = Inr prep"
    by (cases "fst (prepare_execute 2 34 31 rdb1)") auto
  then have "prepare_execute 2 34 31 rdb1 = (Inr prep, rdb2)"
    unfolding rdb2_def by (cases "prepare_execute 2 34 31 rdb1") (simp add: transactional_def)
  moreover from this have "rp_invoke prep"
    by (auto simp: prepare_execute_def rdb1_eval missing_since_def later_than_def run_eval)
  ultimately show ?thesis by blast
qed

theorem execute_handler_records_outcome_witness:
  "\<exists>r db'. execute_agent_run_handler (\<lambda>_ _. Inr done_outcome) 2 34 35 (sample_job 1) rdb1 = (Inr (), db') \<and>
     row_by ar_id 31 (runs db') = Some r \<and> ar_status r = SUCCEEDED"
proof -
  obtain prep where "prepare_execute 2 34 31 rdb1 = (Inr prep, rdb2)" "rp_invoke prep"
    using prepare_rdb1 by blast
  then show ?thesis
    using execute_handler_records_outcome [of rdb1 "sample_job 1" 31 2 34 prep rdb2
        "\<lambda>_ _. Inr done_outcome" done_outcome SUCCEEDED RUN_SUCCEEDED 35] rdb_ok(1)
    by (auto simp: sample_job_def done_outcome_def)
qed

theorem execute_handler_failure_witness:
  "\<exists>r db'. execute_agent_run_handler (\<lambda>_ _. Inl TimeoutError) 2 34 35 (sample_job 3) rdb1 = (Inl TimeoutError, db') \<and>
     row_by ar_id 31 (runs db') = Some r \<and> ar_status r = FAILED"
proof -
  obtain prep where "prepare_execute 2 34 31 rdb1 = (Inr prep, rdb2)" "rp_invoke prep"
    using prepare_rdb1 by blast
  then show ?thesis
    using execute_handler_failure [of rdb1 "sample_job 3" 31 2 34 prep rdb2 "\<lambda>_ _. Inl TimeoutError" TimeoutError 35]
      rdb_ok(1)
    by (auto simp: sample_job_def)
qed

theorem contract_error_leaves_running_witness:
  "fst (execute_agent_run_handler (\<lambda>_ _. Inr (waiting_outcome\<lparr>ro_waiting_payload := None\<rparr>)) 2 34 35
     (sample_job 3) rdb1) = Inl RunExecutionContractError"
proof -
  obtain prep where "prepare_execute 2 34 31 rdb1 = (Inr prep, rdb2)" "rp_invoke prep"
    using prepare_rdb1 by blast
  then show ?thesis
    using contract_error_leaves_running [of rdb1 "sample_job 3" 31 2 34 prep rdb2
        "\<lambda>_ _. Inr (waiting_outcome\<lparr>ro_waiting_payload := None\<rparr>)" "waiting_outcome\<lparr>ro_waiting_payload := None\<rparr>" 35]
      rdb_ok(1)
    by (auto simp: sample_job_def waiting_outcome_def)
qed

theorem stream_in_order_witness:
  "\<exists>m. fst (iter_sse_events 31 0 [(rdb2, rdb2), (rdb_done, rdb_done)]) =
     take m (drop (nat 0) (events_of 31 rdb_done))"
proof (rule stream_in_order [OF rdb_ok(4)])
  show "\<forall>(d1, d2)\<in>set [(rdb2, rdb2), (rdb_done, rdb_done)]. runs_ok d1 \<and> run_step\<^sup>*\<^sup>* d1 rdb_done"
    using rdb_ok rdb1_run(4) by auto
qed simp

theorem stream_complete_witness:
  "snd (iter_sse_events 31 1 (replicate 5 (rdb_done, rdb_done)))"
proof -
  have "row_by ar_id 31 (runs rdb_done) = Some (hd (runs rdb_done))"
      "terminal_status (ar_status (hd (runs rdb_done)))" "length (events_of 31 rdb_done) < 5"
    by (simp_all add: rdb_done_eval rdb1_eval rdb2_eval new_run_row_def events_of_def TERMINAL_RUN_STATUSES_def)
  then show ?thesis using stream_complete [OF rdb_ok(4), of 31 _ 1 5] by simp
qed

theorem stream_can_miss_end_witness:
  "iter_sse_events 31 2 [(rdb2, rdb_done)] = ([], True)"
proof -
  have "row_by ar_id 31 (runs rdb_done) = Some (hd (runs rdb_done))"
      "terminal_status (ar_status (hd (runs rdb_done)))"
      "row_by ar_id 31 (runs rdb2) = Some (hd (runs rdb2))"
      "\<not> terminal_status (ar_status (hd (runs rdb2)))" "length (events_of 31 rdb2) = 2"
    by (simp_all add: rdb_done_eval rdb1_eval rdb2_eval new_run_row_def events_of_def TERMINAL_RUN_STATUSES_def)
  then show ?thesis
    using stream_can_miss_end [OF rdb_ok(2) rdb_single(2), of 31 "hd (runs rdb2)" "hd (runs rdb_done)" "[]"]
    by simp
qed

end
