(* ===== verification/Workers.thy ===== *)
theory Workers
  imports RunHandlers
begin

text \<open>
  The worker process: the registry of handlers (\<open>workers/handlers.py\<close>), the claiming loop with its heartbeats
  (\<open>workers/main.py\<close>), the registrations of the production runtime (\<open>runtime/worker.py\<close>), the reaper
  (\<open>workers/reaper.py\<close>), the retention sweep (\<open>workers/retention.py\<close>) and the token buckets
  (\<open>workers/rate_limit.py\<close>).

  A handler is a function on the tables; the jobs of a batch run concurrently under \<open>asyncio.gather\<close>, which
  the relation \<open>worker_step\<close> interleaves with the heartbeats and with what other processes do to the queue.
  Numbers of the token bucket, floats in the program, are exact rationals.
\<close>

section \<open>workers/handlers.py\<close>

abbreviation INGEST_DOCUMENT :: string where "INGEST_DOCUMENT \<equiv> ''INGEST_DOCUMENT''"
abbreviation DELETE_DOCUMENT :: string where "DELETE_DOCUMENT \<equiv> ''DELETE_DOCUMENT''"
abbreviation RETENTION_SWEEP :: string where "RETENTION_SWEEP \<equiv> ''RETENTION_SWEEP''"

text \<open>The registry is a dictionary from job types to handlers.\<close>

type_synonym 'h registry = "string \<rightharpoonup> 'h"

definition register_handler :: "string \<Rightarrow> 'h \<Rightarrow> 'h registry \<Rightarrow> 'h registry" where
  "register_handler job_type h reg = reg(job_type \<mapsto> h)"

definition resolve_handler :: "'h registry \<Rightarrow> string \<Rightarrow> 'h res" where
  "resolve_handler reg job_type =
     (case reg job_type of None \<Rightarrow> Inl (UnknownJobType job_type) | Some h \<Rightarrow> Inr h)"

type_synonym 's job_handler = "QueuedJob \<Rightarrow> (unit, 's) op"

text \<open>\<open>runtime/worker.py\<close>: what the production worker registers; a set switch makes the two document
  jobs a configuration error, and a retention sweep needs an injected repository.\<close>

record worker_flags =
  wf_ingest_enabled :: bool
  wf_delete_enabled :: bool
  wf_retention_enabled :: bool

definition validate_worker_configuration :: "worker_flags \<Rightarrow> 'h option \<Rightarrow> unit res" where
  "validate_worker_configuration fl retention =
     (if wf_ingest_enabled fl then Inl (RuntimeError ''INGEST_DOCUMENT is intentionally disabled in WS3'')
      else if wf_delete_enabled fl then Inl (RuntimeError ''DELETE_DOCUMENT is intentionally disabled in WS3'')
      else if wf_retention_enabled fl \<and> retention = None
      then Inl (RuntimeError ''RETENTION_SWEEP requires an injected RetentionRepository when enabled'')
      else Inr ())"

definition build_handler_registry ::
  "worker_flags \<Rightarrow> 'h \<Rightarrow> 'h \<Rightarrow> 'h \<Rightarrow> 'h option \<Rightarrow> 'h registry res" where
  "build_handler_registry fl execute resume reconcile_job retention =
     (let reg = register_handler ''RECONCILE_ISSUE_CREATE'' reconcile_job
                  (register_handler ''RESUME_AGENT_RUN'' resume
                    (register_handler ''EXECUTE_AGENT_RUN'' execute Map.empty))
      in if wf_retention_enabled fl
         then (case retention of
                 None \<Rightarrow> Inl (RuntimeError ''RETENTION_SWEEP requires an injected RetentionRepository when enabled'')
               | Some h \<Rightarrow> Inr (register_handler RETENTION_SWEEP h reg))
         else Inr reg)"

section \<open>workers/main.py\<close>

record WorkerSettings =
  ws_concurrency :: int
  ws_claim_limit :: int

definition init_worker :: "WorkerSettings \<Rightarrow> WorkerSettings res" where
  "init_worker st =
     (if ws_concurrency st < 1 then Inl (ValueError ''worker concurrency must be >= 1'')
      else if ws_claim_limit st < 1 then Inl (ValueError ''worker claim_limit must be >= 1'')
      else Inr st)"

definition batch_limit :: "WorkerSettings \<Rightarrow> int" where
  "batch_limit st = min (ws_concurrency st) (ws_claim_limit st)"

text \<open>The end of \<open>_invoke_handler\<close>: an exception fails the job with its class name, otherwise it is complete.\<close>

definition settle :: "queue_config \<Rightarrow> datetime \<Rightarrow> string \<Rightarrow> QueuedJob \<Rightarrow> unit res \<Rightarrow> jobs \<Rightarrow> unit res \<times> jobs" where
  "settle cfg now worker job result jobs =
     (case result of
        Inl exc \<Rightarrow> fail_job cfg now (qj_job_id job) worker (exn_name exc) jobs
      | Inr _ \<Rightarrow> complete now (qj_job_id job) worker jobs)"

definition invoke_handler ::
  "queue_config \<Rightarrow> datetime \<Rightarrow> string \<Rightarrow> (run_db job_handler) registry \<Rightarrow> QueuedJob \<Rightarrow> unit run_op" where
  "invoke_handler cfg now worker reg job db =
     (case (case resolve_handler reg (qj_job_type job) of Inl e \<Rightarrow> (Inl e, db) | Inr h \<Rightarrow> h job db) of
        (result, db') \<Rightarrow>
          (case settle cfg now worker job result (queue db') of (r, q) \<Rightarrow> (r, db'\<lparr>queue := q\<rparr>)))"

text \<open>
  The worker's state: the jobs of the current batch whose handler runs; the jobs that are settled while their
  \<open>_process\<close> has not ended, with what settling them gave; the heartbeat loops that ended in an exception, by
  job id; the first exception that escaped \<open>run_once\<close>, and with it \<open>serve_forever\<close>; and the stop event.
\<close>

record worker_state =
  wk_tasks :: "QueuedJob list"
  wk_settled :: "(QueuedJob \<times> unit res) list"
  wk_beatless :: "(string \<times> exn) list"
  wk_died :: "exn option"
  wk_stopped :: bool

definition idle_worker :: worker_state where
  "idle_worker = \<lparr>wk_tasks = [], wk_settled = [], wk_beatless = [], wk_died = None, wk_stopped = False\<rparr>"

text \<open>
  Every operation of the queue is a transaction of its own, which the database may break off with an
  exception of its own class, before or after it has been applied.
\<close>

type_synonym db_fault = "(string \<times> bool) option"

fun with_fault :: "db_fault \<Rightarrow> 'a res \<times> jobs \<Rightarrow> jobs \<Rightarrow> 'a res \<times> jobs" where
  "with_fault None out before = out"
| "with_fault (Some (name, applied)) (_, after) before = (Inl (ProviderError name), if applied then after else before)"

definition dies :: "exn option \<Rightarrow> worker_state \<Rightarrow> worker_state" where
  "dies exc w = w\<lparr>wk_died := (case wk_died w of None \<Rightarrow> exc | Some e \<Rightarrow> Some e)\<rparr>"

text \<open>One round of \<open>serve_forever\<close> up to the start of the tasks; it begins when the last batch has been gathered.\<close>

definition start_batch ::
  "queue_config \<Rightarrow> WorkerSettings \<Rightarrow> string \<Rightarrow> uuid list \<Rightarrow> datetime \<Rightarrow> datetime \<Rightarrow> db_fault \<Rightarrow>
   worker_state \<times> jobs \<Rightarrow> worker_state \<times> jobs" where
  "start_batch cfg st worker locked now stmt_now fault = (\<lambda>(w, jobs).
     if wk_tasks w \<noteq> [] \<or> wk_settled w \<noteq> [] \<or> wk_died w \<noteq> None \<or> wk_stopped w then (w, jobs)
     else case claim cfg locked worker (batch_limit st) now stmt_now jobs of
       (claimed, jobs') \<Rightarrow>
         (case with_fault fault (Inr claimed, jobs') jobs of
            (Inl e, jobs'') \<Rightarrow> (dies (Some e) w, jobs'')
          | (Inr batch, jobs'') \<Rightarrow> (w\<lparr>wk_tasks := batch, wk_beatless := []\<rparr>, jobs'')))"

text \<open>
  One turn of \<open>_heartbeat_loop\<close>, whose task lives until \<open>_process\<close> has cancelled it: so a turn may also come
  after the job was settled. An exception ends the loop and is kept by its task.
\<close>

definition beat ::
  "queue_config \<Rightarrow> string \<Rightarrow> datetime \<Rightarrow> db_fault \<Rightarrow> QueuedJob \<Rightarrow> worker_state \<times> jobs \<Rightarrow> worker_state \<times> jobs" where
  "beat cfg worker now fault job = (\<lambda>(w, jobs).
     if job \<notin> set (wk_tasks w) \<union> fst ` set (wk_settled w) \<or> qj_job_id job \<in> fst ` set (wk_beatless w) then (w, jobs)
     else case with_fault fault (heartbeat cfg now (qj_job_id job) worker jobs) jobs of
       (Inl e, jobs') \<Rightarrow> (w\<lparr>wk_beatless := (qj_job_id job, e) # wk_beatless w\<rparr>, jobs')
     | (Inr _, jobs') \<Rightarrow> (w, jobs'))"

text \<open>The end of \<open>_invoke_handler\<close>: the handler has returned or raised, and the job is settled.\<close>

definition settle_task ::
  "queue_config \<Rightarrow> string \<Rightarrow> datetime \<Rightarrow> db_fault \<Rightarrow> QueuedJob \<Rightarrow> unit res \<Rightarrow> worker_state \<times> jobs \<Rightarrow>
   worker_state \<times> jobs" where
  "settle_task cfg worker now fault job result = (\<lambda>(w, jobs).
     if job \<notin> set (wk_tasks w) then (w, jobs)
     else case with_fault fault (settle cfg now worker job result jobs) jobs of
       (r, jobs') \<Rightarrow>
         (w\<lparr>wk_tasks := remove1 job (wk_tasks w), wk_settled := (job, r) # wk_settled w\<rparr>, jobs'))"

text \<open>
  The \<open>finally\<close> of \<open>_process\<close>: the heartbeat task is cancelled and awaited. Awaiting raises again the exception
  its loop ended with, in place of what settling raised; what escapes \<open>_process\<close> escapes \<open>gather\<close> and ends
  the worker.
\<close>

definition close_task :: "QueuedJob \<Rightarrow> worker_state \<times> jobs \<Rightarrow> worker_state \<times> jobs" where
  "close_task job = (\<lambda>(w, jobs).
     case map_of (wk_settled w) job of
       None \<Rightarrow> (w, jobs)
     | Some r \<Rightarrow>
         (dies (case map_of (wk_beatless w) (qj_job_id job) of
                  Some e \<Rightarrow> Some e
                | None \<Rightarrow> (case r of Inl e \<Rightarrow> Some e | Inr _ \<Rightarrow> None))
            (w\<lparr>wk_settled := filter (\<lambda>(q, _). q \<noteq> job) (wk_settled w)\<rparr>), jobs))"

text \<open>What other processes do to the queue: any operation under another worker id, and, only if a reaper
  runs, reaping.\<close>

inductive other_step :: "queue_config \<Rightarrow> bool \<Rightarrow> string \<Rightarrow> jobs \<Rightarrow> jobs \<Rightarrow> bool" for cfg reaper me where
  other_enqueue: "new_id \<notin> bj_id ` set jobs \<Longrightarrow>
     other_step cfg reaper me jobs (snd (enqueue (queue_namespace cfg) new_id now req jobs))"
| other_claim: "v \<noteq> me \<Longrightarrow> other_step cfg reaper me jobs (snd (claim cfg locked v limit now stmt_now jobs))"
| other_beat: "v \<noteq> me \<Longrightarrow> other_step cfg reaper me jobs (snd (heartbeat cfg now job_id v jobs))"
| other_complete: "v \<noteq> me \<Longrightarrow> other_step cfg reaper me jobs (snd (complete now job_id v jobs))"
| other_fail: "v \<noteq> me \<Longrightarrow> other_step cfg reaper me jobs (snd (fail_job cfg now job_id v code jobs))"
| other_reap: "reaper \<Longrightarrow> other_step cfg reaper me jobs (snd (reap_expired locked limit now jobs))"

inductive_cases other_stepE: "other_step cfg reaper me jobs jobs'"

inductive worker_step ::
  "queue_config \<Rightarrow> WorkerSettings \<Rightarrow> bool \<Rightarrow> string \<Rightarrow> worker_state \<times> jobs \<Rightarrow> worker_state \<times> jobs \<Rightarrow> bool"
  for cfg st reaper me where
  step_batch: "worker_step cfg st reaper me s (start_batch cfg st me locked now stmt_now fault s)"
| step_beat: "worker_step cfg st reaper me s (beat cfg me now fault job s)"
| step_settle: "worker_step cfg st reaper me s (settle_task cfg me now fault job result s)"
| step_close: "worker_step cfg st reaper me s (close_task job s)"
| step_stop: "worker_step cfg st reaper me (w, jobs) (w\<lparr>wk_stopped := True\<rparr>, jobs)"
| step_other: "other_step cfg reaper me jobs jobs' \<Longrightarrow> worker_step cfg st reaper me (w, jobs) (w, jobs')"

section \<open>workers/reaper.py\<close>

definition reaper_run_once :: "int \<Rightarrow> uuid list \<Rightarrow> datetime \<Rightarrow> jobs \<Rightarrow> nat \<times> jobs" where
  "reaper_run_once batch_size locked now jobs = reap_expired locked batch_size now jobs"

section \<open>workers/retention.py\<close>

record RetentionCandidate =
  rt_resource_type :: string
  rt_resource_id :: string
  rt_lifecycle_status :: string
  rt_legal_hold :: bool

record RetentionSweepResult =
  rs_dry_run :: bool
  rs_eligible_ids :: "string list"
  rs_deleted_ids :: "string list"
  rs_protected_ids :: "string list"

definition safe_cleanup_states :: "string list" where
  "safe_cleanup_states = [''ARCHIVED'', ''DELETE_PENDING'', ''DELETION_PENDING'', ''DELETED'']"

definition protected_candidate :: "RetentionCandidate \<Rightarrow> bool" where
  "protected_candidate c \<longleftrightarrow>
     rt_legal_hold c \<or> py_upper (rt_lifecycle_status c) \<notin> set safe_cleanup_states"

fun delete_all :: "(RetentionCandidate \<Rightarrow> (unit, 's) op) \<Rightarrow> RetentionCandidate list \<Rightarrow> (string list, 's) op" where
  "delete_all del [] = return_op []"
| "delete_all del (c # cs) =
     bind_op (del c) (\<lambda>_. bind_op (delete_all del cs) (\<lambda>ids. return_op (rt_resource_id c # ids)))"

text \<open>The repository is injected: what it lists for a policy, and how it deletes a candidate.\<close>

definition retention_sweep ::
  "bool \<Rightarrow> (string \<Rightarrow> (RetentionCandidate list, 's) op) \<Rightarrow> (RetentionCandidate \<Rightarrow> (unit, 's) op) \<Rightarrow>
   QueuedJob \<Rightarrow> (RetentionSweepResult, 's) op" where
  "retention_sweep dry_run list_candidates del job =
     bind_op (list_candidates (qj_aggregate_id job)) (\<lambda>candidates.
       let eligible = filter (\<lambda>c. \<not> protected_candidate c) candidates
       in bind_op (if dry_run then return_op [] else delete_all del eligible) (\<lambda>deleted.
         return_op \<lparr>rs_dry_run = dry_run, rs_eligible_ids = map rt_resource_id eligible, rs_deleted_ids = deleted,
           rs_protected_ids = map rt_resource_id (filter protected_candidate candidates)\<rparr>))"

section \<open>workers/rate_limit.py\<close>

record token_bucket =
  tb_capacity :: rat
  tb_refill_rate :: rat
  tb_tokens :: rat
  tb_updated_at :: rat

definition init_bucket :: "rat \<Rightarrow> rat \<Rightarrow> rat \<Rightarrow> token_bucket res" where
  "init_bucket capacity rate now =
     (if capacity \<le> 0 then Inl (ValueError ''capacity must be positive'')
      else if rate \<le> 0 then Inl (ValueError ''refill rate must be positive'')
      else Inr \<lparr>tb_capacity = capacity, tb_refill_rate = rate, tb_tokens = capacity, tb_updated_at = now\<rparr>)"

definition refill :: "rat \<Rightarrow> token_bucket \<Rightarrow> token_bucket" where
  "refill now b =
     (let elapsed = max 0 (now - tb_updated_at b)
      in if elapsed \<noteq> 0
         then b\<lparr>tb_tokens := min (tb_capacity b) (tb_tokens b + elapsed * tb_refill_rate b), tb_updated_at := now\<rparr>
         else b)"

datatype bucket_answer = Granted | Wait rat | Expired

text \<open>One round of \<open>acquire\<close> under the lock; the clock is read in \<open>_refill\<close> and again for the deadline.\<close>

definition try_acquire :: "rat \<Rightarrow> rat \<Rightarrow> rat \<Rightarrow> rat \<Rightarrow> token_bucket \<Rightarrow> bucket_answer \<times> token_bucket" where
  "try_acquire amount deadline now now' b =
     (let b' = refill now b
      in if amount \<le> tb_tokens b' then (Granted, b'\<lparr>tb_tokens := tb_tokens b' - amount\<rparr>)
         else let wait_for = (amount - tb_tokens b') / tb_refill_rate b'
              in if deadline - now' < wait_for then (Expired, b') else (Wait wait_for, b'))"

text \<open>
  \<open>acquire\<close> without other users of the bucket, over the clock readings of its rounds: \<open>None\<close> when they
  are used up while it still waits.
\<close>

fun acquire_rounds :: "rat \<Rightarrow> rat \<Rightarrow> (rat \<times> rat) list \<Rightarrow> token_bucket \<Rightarrow> (unit res \<times> token_bucket) option" where
  "acquire_rounds amount deadline [] b = None"
| "acquire_rounds amount deadline ((now, now') # clock) b =
     (case try_acquire amount deadline now now' b of
        (Granted, b') \<Rightarrow> Some (Inr (), b')
      | (Expired, b') \<Rightarrow> Some (Inl RateLimitWaitTimeout, b')
      | (Wait _, b') \<Rightarrow> acquire_rounds amount deadline clock b')"

definition acquire ::
  "rat \<Rightarrow> rat \<Rightarrow> rat \<Rightarrow> (rat \<times> rat) list \<Rightarrow> token_bucket \<Rightarrow> (unit res \<times> token_bucket) option" where
  "acquire amount timeout now clock b =
     (if amount \<le> 0 then Some (Inr (), b)
      else if tb_capacity b < amount then Some (Inl (ValueError ''requested amount exceeds bucket capacity''), b)
      else acquire_rounds amount (now + max 0 timeout) clock b)"

text \<open>
  Any number of tasks on one bucket: a history of rounds, each with its amount, deadline and clock
  readings, and what was granted in all.
\<close>

fun bucket_history :: "(rat \<times> rat \<times> rat \<times> rat) list \<Rightarrow> token_bucket \<Rightarrow> rat \<times> token_bucket" where
  "bucket_history [] b = (0, b)"
| "bucket_history ((amount, deadline, now, now') # rounds) b =
     (case try_acquire amount deadline now now' b of
        (answer, b') \<Rightarrow>
          (case bucket_history rounds b' of
             (granted, b'') \<Rightarrow> ((if answer = Granted then amount else 0) + granted, b'')))"

text \<open>\<open>ModelTokenBucketRegistry\<close>: a request bucket and a token bucket per model alias, made on first use.\<close>

record bucket_registry =
  br_request_capacity :: rat
  br_token_capacity :: rat
  br_window :: rat
  br_buckets :: "string \<rightharpoonup> token_bucket \<times> token_bucket"

definition init_registry :: "rat \<Rightarrow> rat \<Rightarrow> rat \<Rightarrow> bucket_registry res" where
  "init_registry requests tokens window =
     (if window \<le> 0 then Inl (ValueError ''window_seconds must be positive'')
      else Inr \<lparr>br_request_capacity = requests, br_token_capacity = tokens, br_window = window,
                br_buckets = Map.empty\<rparr>)"

definition buckets_for :: "rat \<Rightarrow> string \<Rightarrow> (token_bucket \<times> token_bucket, bucket_registry) op" where
  "buckets_for now model reg =
     (case br_buckets reg model of
        Some pair \<Rightarrow> (Inr pair, reg)
      | None \<Rightarrow>
          (case bind_res (init_bucket (br_request_capacity reg) (br_request_capacity reg / br_window reg) now) (\<lambda>r.
                bind_res (init_bucket (br_token_capacity reg) (br_token_capacity reg / br_window reg) now) (\<lambda>t.
                  Inr (r, t))) of
             Inl e \<Rightarrow> (Inl e, reg)
           | Inr pair \<Rightarrow> (Inr pair, reg\<lparr>br_buckets := (br_buckets reg)(model \<mapsto> pair)\<rparr>)))"

definition registry_acquire ::
  "rat \<Rightarrow> string \<Rightarrow> int \<Rightarrow> rat \<Rightarrow> (rat \<times> rat) list \<Rightarrow> rat \<Rightarrow> (rat \<times> rat) list \<Rightarrow> bucket_registry \<Rightarrow>
   (unit res \<times> bucket_registry) option" where
  "registry_acquire now model estimated_tokens timeout clock1 now2 clock2 reg =
     (case buckets_for now model reg of
        (Inl e, reg') \<Rightarrow> Some (Inl e, reg')
      | (Inr (requests, tokens), reg') \<Rightarrow>
          (case acquire 1 timeout now clock1 requests of
             None \<Rightarrow> None
           | Some (Inl e, requests') \<Rightarrow> Some (Inl e, reg'\<lparr>br_buckets := (br_buckets reg')(model \<mapsto> (requests', tokens))\<rparr>)
           | Some (Inr _, requests') \<Rightarrow>
               (case acquire (of_int (max 1 estimated_tokens)) timeout now2 clock2 tokens of
                  None \<Rightarrow> None
                | Some (r, tokens') \<Rightarrow>
                    Some (r, reg'\<lparr>br_buckets := (br_buckets reg')(model \<mapsto> (requests', tokens'))\<rparr>))))"

end
