(* ===== verification/OpHoare.thy ===== *)
theory OpHoare
  imports Prelude
begin

text \<open>
  A Hoare calculus for operations that may raise: \<open>triple P m Q E\<close> says that from a state with
  \<open>P\<close> the operation returns \<open>x\<close> in a state with \<open>Q x\<close> or raises in a state with \<open>E\<close>. The rules
  follow the shape of the operations, so that the proof about a service is the composition of the
  facts about the repository calls it makes.
\<close>

definition triple ::
  "('s \<Rightarrow> bool) \<Rightarrow> ('a, 's) op \<Rightarrow> ('a \<Rightarrow> 's \<Rightarrow> bool) \<Rightarrow> ('s \<Rightarrow> bool) \<Rightarrow> bool" where
  "triple P m Q E \<longleftrightarrow>
     (\<forall>s. P s \<longrightarrow> (case m s of (Inl e, s') \<Rightarrow> E s' | (Inr x, s') \<Rightarrow> Q x s'))"

lemma tripleI:
  assumes "\<And>s s' e. P s \<Longrightarrow> m s = (Inl e, s') \<Longrightarrow> E s'"
    and "\<And>s s' x. P s \<Longrightarrow> m s = (Inr x, s') \<Longrightarrow> Q x s'"
  shows "triple P m Q E"
  unfolding triple_def using assms by (auto split: prod.splits sum.splits)

lemma triple_Inr: "triple P m Q E \<Longrightarrow> P s \<Longrightarrow> m s = (Inr x, s') \<Longrightarrow> Q x s'"
  unfolding triple_def by fastforce

lemma triple_Inl: "triple P m Q E \<Longrightarrow> P s \<Longrightarrow> m s = (Inl e, s') \<Longrightarrow> E s'"
  unfolding triple_def by fastforce

lemma triple_bind:
  assumes "triple P m R E" and "\<And>x. triple (R x) (f x) Q E"
  shows "triple P (bind_op m f) Q E"
proof (rule tripleI)
  fix s s' e assume "P s" and "bind_op m f s = (Inl e, s')"
  then show "E s'"
    using triple_Inl [OF assms(1)] triple_Inr [OF assms(1)] triple_Inl [OF assms(2)]
    unfolding bind_op_Inl_iff by blast
next
  fix s s' x assume "P s" and "bind_op m f s = (Inr x, s')"
  then show "Q x s'"
    using triple_Inr [OF assms(1)] triple_Inr [OF assms(2)] unfolding bind_op_Inr_iff by blast
qed

lemma triple_return: "(\<And>s. P s \<Longrightarrow> Q x s) \<Longrightarrow> triple P (return_op x) Q E"
  by (simp add: triple_def)

lemma triple_raise: "(\<And>s. P s \<Longrightarrow> E s) \<Longrightarrow> triple P (raise_op e) Q E"
  by (simp add: triple_def)

lemma triple_of_res:
  "(\<And>s. P s \<Longrightarrow> E s) \<Longrightarrow> (\<And>s x. P s \<Longrightarrow> r = Inr x \<Longrightarrow> Q x s) \<Longrightarrow> triple P (of_res r) Q E"
  by (cases r) (simp_all add: triple_def)

lemma triple_if:
  "(b \<Longrightarrow> triple P m Q E) \<Longrightarrow> (\<not> b \<Longrightarrow> triple P n Q E) \<Longrightarrow> triple P (if b then m else n) Q E"
  by simp

lemma triple_pre: "triple P m Q E \<Longrightarrow> (\<And>s. P' s \<Longrightarrow> P s) \<Longrightarrow> triple P' m Q E"
  by (auto simp: triple_def)

lemma triple_post:
  "triple P m Q E \<Longrightarrow> (\<And>x s. Q x s \<Longrightarrow> Q' x s) \<Longrightarrow> (\<And>s. E s \<Longrightarrow> E' s) \<Longrightarrow> triple P m Q' E'"
  unfolding triple_def by (fastforce split: prod.splits sum.splits)

lemma triple_fact:
  "(F \<Longrightarrow> triple P m Q E) \<Longrightarrow> triple (\<lambda>s. P s \<and> F) m Q E"
  by (auto simp: triple_def)

text \<open>A triple with the same assertion everywhere: the operation keeps it.\<close>

abbreviation keeps :: "('s \<Rightarrow> bool) \<Rightarrow> ('a, 's) op \<Rightarrow> bool" where
  "keeps P m \<equiv> triple P m (\<lambda>_. P) P"

text \<open>\<open>try: x = m() except \<dots>: h(e)\<close>, then \<open>k(x)\<close> outside of the \<open>try\<close>.\<close>

definition try_op :: "('a, 's) op \<Rightarrow> (exn \<Rightarrow> ('b, 's) op) \<Rightarrow> ('a \<Rightarrow> ('b, 's) op) \<Rightarrow> ('b, 's) op" where
  "try_op m h k s = (case m s of (Inl e, s') \<Rightarrow> h e s' | (Inr x, s') \<Rightarrow> k x s')"

lemma try_op_simps:
  "m s = (Inl e, s') \<Longrightarrow> try_op m h k s = h e s'"
  "m s = (Inr x, s') \<Longrightarrow> try_op m h k s = k x s'"
  by (simp_all add: try_op_def)

lemma triple_try:
  assumes "triple P m R F" and "\<And>e. triple F (h e) Q E" and "\<And>x. triple (R x) (k x) Q E"
  shows "triple P (try_op m h k) Q E"
  unfolding triple_def
proof (intro allI impI)
  fix s assume P: "P s"
  show "case try_op m h k s of (Inl e, s') \<Rightarrow> E s' | (Inr x, s') \<Rightarrow> Q x s'"
  proof (cases "m s")
    case (Pair r s')
    show ?thesis
    proof (cases r)
      case (Inl e)
      then have "F s'" using triple_Inl [OF assms(1) P] Pair by simp
      then show ?thesis using assms(2) [of e] Pair Inl by (simp add: try_op_def triple_def)
    next
      case (Inr x)
      then have "R x s'" using triple_Inr [OF assms(1) P] Pair by simp
      then show ?thesis using assms(3) [of x] Pair Inr by (simp add: try_op_def triple_def)
    qed
  qed
qed

end
