(* ===== verification/WorkerProofs.thy ===== *)
theory WorkerProofs
  imports Workers OpHoare
begin

text \<open>
  What the worker guarantees: it holds the lease of every job it works on, never more jobs than its settings
  allow; a job it executes and its run end in states that belong together; a sweep deletes nothing that is
  protected; a token bucket grants no more than its capacity and its rate. And what it does not: a job whose
  worker died is never taken up again when no reaper runs.
\<close>

section \<open>Leases\<close>

text \<open>\<open>held u me jobs r\<close>: row \<open>r\<close> of job \<open>u\<close> is running under the worker \<open>me\<close>.\<close>

definition held :: "uuid \<Rightarrow> string \<Rightarrow> jobs \<Rightarrow> BackgroundJobModel \<Rightarrow> bool" where
  "held u me jobs r \<longleftrightarrow> row_by bj_id u jobs = Some r \<and> bj_status r = JOB_RUNNING \<and> bj_locked_by r = Some me"

lemma heldD: "held u me jobs r \<Longrightarrow> r \<in> set jobs" "held u me jobs r \<Longrightarrow> bj_id r = u"
  unfolding held_def by (auto dest: row_by_SomeD)

lemma held_owned: "held u me jobs r \<Longrightarrow> owned_running (uuid_str u) me jobs = Inr r"
  by (simp add: held_def owned_running_def job_uuid_def)

lemma update_elsewhere:
  assumes "row_by bj_id u jobs = Some r" and "\<not> p r" and "\<And>x. p x \<Longrightarrow> bj_id (f x) = bj_id x"
  shows "row_by bj_id u (update_rows p f jobs) = Some r"
  using assms by (simp add: row_by_update_rows)

text \<open>An operation of another worker, or on another job, that owns the row it changes.\<close>

lemma owned_update_elsewhere:
  assumes "jobs_ok jobs" and "held u me jobs r" and "owned_running job_id v jobs = Inr row"
    and "v \<noteq> me \<or> bj_id row \<noteq> u" and "\<And>x. bj_id x = bj_id row \<Longrightarrow> bj_id (f x) = bj_id row"
  shows "row_by bj_id u (update_rows (\<lambda>x. bj_id x = bj_id row) f jobs) = Some r"
proof (rule update_elsewhere)
  show "row_by bj_id u jobs = Some r" using assms(2) by (simp add: held_def)
  show "bj_id r \<noteq> bj_id row"
    using assms(1-4) same_id_same_row [OF assms(1), of r row] owned_runningD [OF assms(3)] heldD [OF assms(2)]
    by (auto simp: held_def)
qed (use assms(5) in auto)

lemma fail_row_id: "fail_row cfg now code r = Inr r' \<Longrightarrow> bj_id r' = bj_id r"
  by (auto simp: fail_row_def Let_def unlock_row_def bind_res_Inr_iff split: if_splits)

lemma settle_elsewhere:
  assumes "jobs_ok jobs" and "held u me jobs r" and "v \<noteq> me \<or> UUID (qj_job_id job) \<noteq> Inr u"
  shows "row_by bj_id u (snd (settle cfg now v job result jobs)) = Some r"
proof -
  have at: "row_by bj_id u jobs = Some r" using assms(2) by (simp add: held_def)
  have other: "v \<noteq> me \<or> bj_id row \<noteq> u" if "owned_running (qj_job_id job) v jobs = Inr row" for row
    using assms(3) owned_runningD(4) [OF that] by auto
  have completed: "row_by bj_id u (snd (complete now (qj_job_id job) v jobs)) = Some r"
    using owned_update_elsewhere [OF assms(1,2) _ other] at
    by (auto simp: complete_def unlock_row_def split: sum.splits)
  have "row_by bj_id u (snd (fail_job cfg now (qj_job_id job) v code jobs)) = Some r" for code
  proof (cases "bind_res (owned_running (qj_job_id job) v jobs) (fail_row cfg now code)")
    case (Inr row)
    then obtain r0 where r0: "owned_running (qj_job_id job) v jobs = Inr r0" "fail_row cfg now code r0 = Inr row"
      by (auto simp: bind_res_Inr_iff)
    then show ?thesis
      using owned_update_elsewhere [OF assms(1,2) r0(1) other [OF r0(1)], of "\<lambda>_. row"] Inr fail_row_id [OF r0(2)]
      by (simp add: fail_job_def)
  qed (simp add: fail_job_def at)
  then show ?thesis using completed by (cases result) (simp_all add: settle_def)
qed

lemma claim_elsewhere:
  assumes "jobs_ok jobs" and "held u me jobs r"
  shows "row_by bj_id u (snd (claim cfg locked v limit now stmt_now jobs)) = Some r"
proof -
  have at: "row_by bj_id u jobs = Some r" "bj_status r = JOB_RUNNING" "r \<in> set jobs" "bj_id r = u"
    using assms(2) heldD [OF assms(2)] by (auto simp: held_def)
  have "bj_id r \<noteq> bj_id x" if "x \<in> set (build_claim_statement locked limit stmt_now jobs)" for x
  proof
    assume "bj_id r = bj_id x"
    moreover have "x \<in> set jobs" "claimable stmt_now x" using that set_build_claim_statement by blast+
    ultimately have "claimable stmt_now r" using same_id_same_row [OF assms(1) at(3)] by blast
    then show False using at(2) by (simp add: claimable_def)
  qed
  then have "bj_id r \<notin> bj_id ` set (build_claim_statement locked limit stmt_now jobs)" by auto
  then have "row_by bj_id u (update_rows (\<lambda>x. bj_id x \<in> bj_id ` set (build_claim_statement locked limit stmt_now jobs))
      (claim_row cfg v now) jobs) = Some r"
    by (intro update_elsewhere at(1)) (simp_all add: claim_row_def)
  then show ?thesis using at(1) by (simp add: claim_def Let_def)
qed

lemma other_keeps_lease:
  assumes "other_step cfg False me jobs jobs'" and ok: "jobs_ok jobs" and "held u me jobs r"
  shows "held u me jobs' r"
proof -
  have at: "row_by bj_id u jobs = Some r" using assms(3) by (simp add: held_def)
  have "row_by bj_id u jobs' = Some r"
    using assms(1)
  proof cases
    case other_enqueue
    then show ?thesis using at by (auto simp: enqueue_def Let_def row_by_append split: sum.splits)
  next
    case other_claim
    then show ?thesis using claim_elsewhere [OF ok assms(3)] by simp
  next
    case (other_beat v now job_id)
    then show ?thesis
      using owned_update_elsewhere [OF ok assms(3)] at by (auto simp: heartbeat_def split: sum.splits)
  next
    case (other_complete v now job_id)
    then show ?thesis
      using owned_update_elsewhere [OF ok assms(3)] at
      by (auto simp: complete_def unlock_row_def split: sum.splits)
  next
    case (other_fail v now job_id code)
    have "row_by bj_id u (snd (settle cfg now v \<lparr>qj_job_id = job_id, qj_job_type = [], qj_aggregate_id = [],
        qj_state = JOB_RUNNING, qj_attempts = 0, qj_max_attempts = 0, qj_worker_id = None,
        qj_last_error_code = None, qj_available_at = None, qj_lease_expires_at = None, qj_heartbeat_at = None\<rparr>
        (Inl (ProviderError code)) jobs)) = Some r"
      by (rule settle_elsewhere [OF ok assms(3)]) (use other_fail in simp)
    then show ?thesis using other_fail by (simp add: settle_def)
  qed simp
  then show ?thesis using assms(3) by (simp add: held_def)
qed

lemma other_is_queue_step: "other_step cfg reaper me jobs jobs' \<Longrightarrow> queue_step cfg jobs jobs'"
  by (induction rule: other_step.induct) (auto intro: queue_step.intros)

section \<open>The invariant of the worker\<close>

lemma with_fault_cases:
  "with_fault fault out before = (r, after) \<Longrightarrow>
     (fault = None \<and> out = (r, after)) \<or> (\<exists>name. r = Inl (ProviderError name) \<and> (after = snd out \<or> after = before))"
  by (cases fault; cases out) (auto split: if_splits)

lemma with_fault_snd: "snd (with_fault fault out before) = snd out \<or> snd (with_fault fault out before) = before"
  by (cases fault; cases out) (auto split: if_splits)

lemma settle_queue: "queue_step cfg jobs (snd (settle cfg now me job result jobs))"
  by (cases result) (simp_all add: settle_def queue_step.step_fail queue_step.step_complete)

lemma worker_step_queue:
  assumes "worker_step cfg st reaper me s s'"
  shows "snd s' = snd s \<or> queue_step cfg (snd s) (snd s')"
  using assms
proof cases
  case (step_batch locked now stmt_now fault)
  then show ?thesis
    using queue_step.step_claim [of cfg "snd s" locked me "batch_limit st" now stmt_now]
    by (cases fault) (auto simp: start_batch_def split: prod.splits if_splits)
next
  case (step_beat now fault job)
  then show ?thesis
    using queue_step.step_heartbeat [of cfg "snd s" now "qj_job_id job" me]
      with_fault_snd [of fault "heartbeat cfg now (qj_job_id job) me (snd s)" "snd s"]
    by (auto simp: beat_def split: prod.splits sum.splits)
next
  case (step_settle now fault job result)
  then show ?thesis
    using settle_queue [of cfg "snd s" now me job result]
      with_fault_snd [of fault "settle cfg now me job result (snd s)" "snd s"]
    by (auto simp: settle_task_def split: prod.splits)
qed (auto simp: close_task_def dest: other_is_queue_step split: option.splits prod.splits)

text \<open>The lease of a task: its row, found by the job's id.\<close>

definition leased :: "string \<Rightarrow> jobs \<Rightarrow> QueuedJob \<Rightarrow> bool" where
  "leased me jobs q \<longleftrightarrow> (\<exists>u r. qj_job_id q = uuid_str u \<and> held u me jobs r)"

definition retries_ok :: "queue_config \<Rightarrow> bool" where
  "retries_ok cfg \<longleftrightarrow> 0 \<le> retry_base_seconds cfg \<and> 0 \<le> retry_max_seconds cfg"

definition overflowed :: "jobs \<Rightarrow> bool" where
  "overflowed jobs \<longleftrightarrow> (\<exists>r\<in>set jobs. 1024 < bj_attempt_count r)"

text \<open>What may end the worker, and what settling a job may raise.\<close>

definition settles_well :: "jobs \<Rightarrow> unit res \<Rightarrow> bool" where
  "settles_well jobs r \<longleftrightarrow> r = Inr () \<or> (r = Inl OverflowError \<and> overflowed jobs) \<or> (\<exists>name. r = Inl (ProviderError name))"

definition death_explained :: "jobs \<Rightarrow> exn \<Rightarrow> bool" where
  "death_explained jobs e \<longleftrightarrow> (e = OverflowError \<and> overflowed jobs) \<or> e = JobOwnershipError \<or> (\<exists>name. e = ProviderError name)"

definition loop_ended_well :: "exn \<Rightarrow> bool" where
  "loop_ended_well e \<longleftrightarrow> e = JobOwnershipError \<or> (\<exists>name. e = ProviderError name)"

definition known :: "jobs \<Rightarrow> QueuedJob \<Rightarrow> bool" where
  "known jobs q \<longleftrightarrow> (\<exists>u r. qj_job_id q = uuid_str u \<and> row_by bj_id u jobs = Some r)"

definition batch_of :: "worker_state \<Rightarrow> QueuedJob list" where
  "batch_of w = wk_tasks w @ map fst (wk_settled w)"

definition worker_ok :: "queue_config \<Rightarrow> WorkerSettings \<Rightarrow> string \<Rightarrow> worker_state \<times> jobs \<Rightarrow> bool" where
  "worker_ok cfg st me = (\<lambda>(w, jobs). jobs_ok jobs \<and> retries_ok cfg \<and>
     distinct (map qj_job_id (batch_of w)) \<and> int (length (batch_of w)) \<le> max 0 (batch_limit st) \<and>
     (\<forall>q\<in>set (wk_tasks w). leased me jobs q \<and>
        (\<forall>e. (qj_job_id q, e) \<in> set (wk_beatless w) \<longrightarrow> (\<exists>name. e = ProviderError name))) \<and>
     (\<forall>(q, r)\<in>set (wk_settled w). settles_well jobs r \<and> known jobs q) \<and>
     (\<forall>(i, e)\<in>set (wk_beatless w). loop_ended_well e) \<and>
     (\<forall>e. wk_died w = Some e \<longrightarrow> death_explained jobs e))"

lemma overflowed_stays: "jobs_evolve jobs jobs' \<Longrightarrow> overflowed jobs \<Longrightarrow> overflowed jobs'"
proof -
  assume ev: "jobs_evolve jobs jobs'" and "overflowed jobs"
  then obtain r where r: "r \<in> set jobs" "1024 < bj_attempt_count r" by (auto simp: overflowed_def)
  obtain r' where "r' \<in> set jobs'" "row_evolves r r'" using jobs_evolve_member [OF ev r(1)] by blast
  then show ?thesis using r(2) unfolding overflowed_def row_evolves_def by (meson less_le_trans)
qed

lemma settle_held:
  assumes "held u me jobs r" and "qj_job_id job = uuid_str u" and "retries_ok cfg"
  shows "(\<exists>jobs'. settle cfg now me job result jobs = (Inr (), jobs')) \<or>
     (1024 < bj_attempt_count r \<and> settle cfg now me job result jobs = (Inl OverflowError, jobs))"
  using held_owned [OF assms(1)] assms(2,3)
  by (cases result)
    (auto simp: settle_def complete_def fail_job_def fail_row_def Let_def bind_res_def compute_retry_delay_def
      retries_ok_def split: sum.splits if_splits)

lemma claim_held:
  assumes "jobs_ok jobs" and "claim cfg locked me limit now stmt_now jobs = (claimed, jobs')"
  shows "distinct (map qj_job_id claimed) \<and> int (length claimed) \<le> max 0 limit \<and> (\<forall>q\<in>set claimed. leased me jobs' q)"
proof (cases "limit < 1")
  case False
  let ?rows = "build_claim_statement locked limit stmt_now jobs"
  have c: "claimed = map (\<lambda>r. to_job (claim_row cfg me now r)) ?rows" "jobs' = snd (claim cfg locked me limit now stmt_now jobs)"
    using assms(2) False by (auto simp: claim_def Let_def)
  have ids: "map qj_job_id claimed = map uuid_str (map bj_id ?rows)"
    by (simp add: c to_job_def claim_row_def)
  have "inj uuid_str" by (rule injI) (metis UUID_uuid_str sum.inject(2))
  then have "distinct (map uuid_str (map bj_id ?rows))"
    using distinct_claim_statement [OF assms(1)] inj_on_subset unfolding distinct_map by blast
  moreover have "leased me jobs' q" if "q \<in> set claimed" for q
  proof -
    obtain r where r: "r \<in> set ?rows" "q = to_job (claim_row cfg me now r)" using \<open>q \<in> set claimed\<close> c(1) by auto
    then have "row_by bj_id (bj_id r) jobs' = Some (claim_row cfg me now r)"
      using row_by_claim [OF assms(1), of r limit] set_build_claim_statement [of locked limit stmt_now jobs] False c(2) by auto
    then show ?thesis
      unfolding leased_def held_def r(2) by (intro exI [of _ "bj_id r"]) (simp add: to_job_def claim_row_def)
  qed
  moreover have "int (length claimed) \<le> limit"
    using claim_statement_length [of limit locked stmt_now jobs] False c(1) by simp
  ultimately show ?thesis using ids by auto
qed (use assms in \<open>auto simp: claim_def\<close>)

lemma row_by_known: "jobs_ok jobs \<Longrightarrow> r \<in> set jobs \<Longrightarrow> row_by bj_id (bj_id r) jobs = Some r"
  by (simp add: jobs_ok_def row_by_distinct)

lemma known_stays: "known jobs q \<Longrightarrow> jobs_evolve jobs jobs' \<Longrightarrow> jobs_ok jobs' \<Longrightarrow> known jobs' q"
proof -
  assume "known jobs q" and ev: "jobs_evolve jobs jobs'" and ok: "jobs_ok jobs'"
  then obtain u r where r: "qj_job_id q = uuid_str u" "r \<in> set jobs" "bj_id r = u"
    by (auto simp: known_def dest: row_by_SomeD)
  obtain r' where "r' \<in> set jobs'" "row_evolves r r'" using jobs_evolve_member [OF ev r(2)] by blast
  then have "row_by bj_id u jobs' = Some r'" using row_by_known [OF ok, of r'] r(3) by (simp add: row_evolves_def)
  then show ?thesis using r(1) unfolding known_def by blast
qed

lemma leased_known: "leased me jobs q \<Longrightarrow> known jobs q"
  by (auto simp: leased_def known_def held_def)

lemma heartbeat_keeps_lease:
  assumes "leased me jobs q"
  shows "leased me (snd (heartbeat cfg now job_id me jobs)) q"
proof (cases "owned_running job_id me jobs")
  case (Inr row)
  let ?f = "\<lambda>r. r\<lparr>bj_heartbeat_at := Some now, bj_lease_expires_at := Some (now + lease_seconds cfg), bj_updated_at := now\<rparr>"
  have "held v me (update_rows (\<lambda>x. bj_id x = bj_id row) ?f jobs) (if bj_id x = bj_id row then ?f x else x)"
    if "held v me jobs x" for v x
    using that by (simp add: held_def row_by_update_rows)
  then show ?thesis using assms Inr unfolding leased_def by (simp add: heartbeat_def) blast
qed (use assms in \<open>simp add: heartbeat_def\<close>)

lemma heartbeat_leased: "leased me jobs q \<Longrightarrow> fst (heartbeat cfg now (qj_job_id q) me jobs) = Inr ()"
  by (auto simp: leased_def heartbeat_def held_owned)

lemma heartbeat_known: "known jobs q \<Longrightarrow> fst (heartbeat cfg now (qj_job_id q) me jobs) = Inl e \<Longrightarrow> e = JobOwnershipError"
  by (auto simp: known_def heartbeat_def owned_running_def job_uuid_def split: if_splits)

lemma settles_well_stays: "settles_well jobs r \<Longrightarrow> jobs_evolve jobs jobs' \<Longrightarrow> settles_well jobs' r"
  using overflowed_stays by (auto simp: settles_well_def)

lemma death_stays: "death_explained jobs e \<Longrightarrow> jobs_evolve jobs jobs' \<Longrightarrow> death_explained jobs' e"
  using overflowed_stays by (auto simp: death_explained_def)

text \<open>A step of the queue that keeps the leases of the jobs in work keeps the invariant.\<close>

lemma ok_under_queue:
  assumes "worker_ok cfg st me (w, jobs)" and "jobs_ok jobs'" and "jobs_evolve jobs jobs'"
    and "\<And>q. q \<in> set (wk_tasks w) \<Longrightarrow> leased me jobs q \<Longrightarrow> leased me jobs' q"
  shows "worker_ok cfg st me (w, jobs')"
  using assms(1,2,4) settles_well_stays [OF _ assms(3)] death_stays [OF _ assms(3)] known_stays [OF _ assms(3,2)]
  by (fastforce simp: worker_ok_def)

lemma ok_dies:
  assumes "worker_ok cfg st me (w, jobs)" and "\<And>e. exc = Some e \<Longrightarrow> death_explained jobs e"
  shows "worker_ok cfg st me (dies exc w, jobs)"
  using assms by (auto simp: worker_ok_def dies_def batch_of_def split: option.splits)

lemma ok_beatless:
  assumes "worker_ok cfg st me (w, jobs)" and "loop_ended_well e"
    and "\<And>q. q \<in> set (wk_tasks w) \<Longrightarrow> qj_job_id q = i \<Longrightarrow> \<exists>name. e = ProviderError name"
  shows "worker_ok cfg st me (w\<lparr>wk_beatless := (i, e) # wk_beatless w\<rparr>, jobs)"
  using assms by (fastforce simp: worker_ok_def batch_of_def)

lemma ok_batch:
  assumes "worker_ok cfg st me (w, jobs)" and "wk_settled w = []" and "\<forall>q\<in>set claimed. leased me jobs q"
    and "distinct (map qj_job_id claimed)" and "int (length claimed) \<le> max 0 (batch_limit st)"
  shows "worker_ok cfg st me (w\<lparr>wk_tasks := claimed, wk_beatless := []\<rparr>, jobs)"
  using assms by (auto simp: worker_ok_def batch_of_def)

lemma ok_settled:
  assumes "worker_ok cfg st me (w, jobs)" and "job \<in> set (wk_tasks w)"
    and "jobs_ok jobs'" and "jobs_evolve jobs jobs'" and "settles_well jobs' r"
    and "\<And>q. qj_job_id q \<noteq> qj_job_id job \<Longrightarrow> leased me jobs q \<Longrightarrow> leased me jobs' q"
  shows "worker_ok cfg st me (w\<lparr>wk_tasks := remove1 job (wk_tasks w), wk_settled := (job, r) # wk_settled w\<rparr>, jobs')"
proof -
  obtain xs ys where xy: "wk_tasks w = xs @ job # ys" "job \<notin> set xs" using split_list_first [OF assms(2)] by blast
  have rest: "remove1 job (wk_tasks w) = xs @ ys" using xy by (simp add: remove1_append)
  have apart: "qj_job_id job \<notin> qj_job_id ` set (xs @ ys)"
    using assms(1) xy(1) by (auto simp: worker_ok_def batch_of_def)
  have ids: "qj_job_id q \<noteq> qj_job_id job" "leased me jobs q" if "q \<in> set (xs @ ys)" for q
    using that apart assms(1) xy(1) by (metis image_eqI) (use that assms(1) xy(1) in \<open>auto simp: worker_ok_def\<close>)
  have "leased me jobs' q" if "q \<in> set (xs @ ys)" for q using assms(6) ids [OF that] by blast
  moreover have "known jobs' job"
    using known_stays [OF leased_known assms(4,3)] assms(1,2) by (auto simp: worker_ok_def)
  moreover have "\<forall>(q, r)\<in>set (wk_settled w). settles_well jobs' r \<and> known jobs' q"
    using assms(1) settles_well_stays [OF _ assms(4)] known_stays [OF _ assms(4,3)] by (auto simp: worker_ok_def)
  moreover have "\<forall>e. wk_died w = Some e \<longrightarrow> death_explained jobs' e"
    using assms(1) death_stays [OF _ assms(4)] by (auto simp: worker_ok_def)
  ultimately show ?thesis
    unfolding worker_ok_def batch_of_def using assms(1,3,5) xy(1) rest by (auto simp: worker_ok_def batch_of_def)
qed

lemma ok_closed:
  assumes "worker_ok cfg st me (w, jobs)"
  shows "worker_ok cfg st me (w\<lparr>wk_settled := filter p (wk_settled w)\<rparr>, jobs)"
proof -
  let ?S = "filter p (wk_settled w)"
  have "distinct (map qj_job_id (map fst ?S))"
    using assms distinct_map_filter [of "qj_job_id \<circ> fst" "wk_settled w" p] by (simp add: worker_ok_def batch_of_def)
  moreover have "int (length (wk_tasks w)) + int (length ?S) \<le> max 0 (batch_limit st)"
  proof -
    have "int (length ?S) \<le> int (length (wk_settled w))" by simp
    moreover have "int (length (wk_tasks w)) + int (length (wk_settled w)) \<le> max 0 (batch_limit st)"
      using assms by (simp add: worker_ok_def batch_of_def)
    ultimately show ?thesis by linarith
  qed
  moreover have "qj_job_id ` set (wk_tasks w) \<inter> (\<lambda>x. qj_job_id (fst x)) ` {x \<in> set (wk_settled w). p x} = {}"
    using assms by (auto simp: worker_ok_def batch_of_def)
  ultimately show ?thesis using assms by (auto simp: worker_ok_def batch_of_def)
qed

lemma settle_leased:
  assumes "leased me jobs job" and "retries_ok cfg" and "jobs_evolve jobs (snd (settle cfg now me job result jobs))"
  shows "settles_well (snd (settle cfg now me job result jobs)) (fst (settle cfg now me job result jobs))"
proof -
  obtain u row where u: "qj_job_id job = uuid_str u" "held u me jobs row" using assms(1) unfolding leased_def by blast
  then show ?thesis
    using settle_held [OF u(2,1) assms(2), of now result] heldD(1) [OF u(2)]
    by (fastforce simp: settles_well_def overflowed_def)
qed

lemma settle_keeps_lease:
  assumes "jobs_ok jobs" and "leased me jobs q" and "leased me jobs job" and "qj_job_id q \<noteq> qj_job_id job"
  shows "leased me (snd (settle cfg now me job result jobs)) q"
proof -
  obtain v x where v: "qj_job_id q = uuid_str v" "held v me jobs x" using assms(2) unfolding leased_def by blast
  then have "UUID (qj_job_id job) \<noteq> Inr v" using assms(3,4) by (auto simp: leased_def)
  then show ?thesis
    using settle_elsewhere [OF assms(1) v(2)] v unfolding leased_def held_def by blast
qed

text \<open>A settled job is no longer anybody's.\<close>

lemma settled_not_owned:
  assumes "leased me jobs job" and "settle cfg now me job result jobs = (Inr (), jobs')"
  shows "heartbeat cfg later (qj_job_id job) me jobs' = (Inl JobOwnershipError, jobs')"
proof -
  obtain u row where u: "qj_job_id job = uuid_str u" "held u me jobs row" using assms(1) unfolding leased_def by blast
  have row: "row_by bj_id u jobs = Some row" "bj_id row = u" using u(2) heldD by (auto simp: held_def)
  have "\<exists>row'. row_by bj_id u jobs' = Some row' \<and> bj_locked_by row' = None"
    using assms(2) held_owned [OF u(2)] row u(1)
    by (cases result)
      (auto simp: settle_def complete_def fail_job_def fail_row_def Let_def bind_res_def row_by_update_rows unlock_row_def
        split: sum.splits if_splits)
  then show ?thesis by (auto simp: u(1) heartbeat_def owned_running_def job_uuid_def)
qed

lemma settle_task_ok:
  assumes "worker_ok cfg st me (w, jobs)"
    and "jobs_ok (snd (settle cfg now me job result jobs))"
    and "jobs_evolve jobs (snd (settle cfg now me job result jobs))"
  shows "worker_ok cfg st me (settle_task cfg me now fault job result (w, jobs))"
proof (cases "job \<in> set (wk_tasks w)")
  case True
  have ok: "jobs_ok jobs" "retries_ok cfg" "leased me jobs job" using assms(1) True by (auto simp: worker_ok_def)
  obtain r jobs' where f: "with_fault fault (settle cfg now me job result jobs) jobs = (r, jobs')" by fastforce
  have to: "jobs' = jobs \<or> jobs' = snd (settle cfg now me job result jobs)"
    using with_fault_snd [of fault "settle cfg now me job result jobs" jobs] f by auto
  have r: "settles_well jobs' r"
    using with_fault_cases [OF f] settle_leased [OF ok(3,2) assms(3)] by (auto simp: settles_well_def)
  have "leased me jobs' q" if "qj_job_id q \<noteq> qj_job_id job" "leased me jobs q" for q
    using to settle_keeps_lease [OF ok(1) that(2) ok(3) that(1)] that(2) by auto
  then have "worker_ok cfg st me
      (w\<lparr>wk_tasks := remove1 job (wk_tasks w), wk_settled := (job, r) # wk_settled w\<rparr>, jobs')"
    using to assms(2,3) ok(1) jobs_evolve_refl by (intro ok_settled [OF assms(1) True _ _ r]) auto
  then show ?thesis using True f by (simp add: settle_task_def)
qed (use assms(1) in \<open>simp add: settle_task_def\<close>)

lemma close_task_ok:
  assumes "worker_ok cfg st me (w, jobs)"
  shows "worker_ok cfg st me (close_task job (w, jobs))"
proof (cases "map_of (wk_settled w) job")
  case (Some r)
  let ?exc = "case map_of (wk_beatless w) (qj_job_id job) of Some e \<Rightarrow> Some e | None \<Rightarrow> (case r of Inl e \<Rightarrow> Some e | Inr _ \<Rightarrow> None)"
  have "settles_well jobs r" using map_of_SomeD [OF Some] assms by (auto simp: worker_ok_def)
  moreover have "loop_ended_well e" if "map_of (wk_beatless w) (qj_job_id job) = Some e" for e
    using map_of_SomeD [OF that] assms by (auto simp: worker_ok_def)
  ultimately have "death_explained jobs e" if "?exc = Some e" for e
    using that by (auto simp: settles_well_def loop_ended_well_def death_explained_def split: option.splits sum.splits)
  then show ?thesis
    using ok_dies [OF ok_closed [OF assms]] Some by (simp add: close_task_def)
qed (use assms in \<open>simp add: close_task_def\<close>)

lemma beat_ok:
  assumes "worker_ok cfg st me (w, jobs)"
    and "jobs_ok (snd (heartbeat cfg now (qj_job_id job) me jobs))"
    and "jobs_evolve jobs (snd (heartbeat cfg now (qj_job_id job) me jobs))"
  shows "worker_ok cfg st me (beat cfg me now fault job (w, jobs))"
proof (cases "job \<in> set (wk_tasks w) \<union> fst ` set (wk_settled w) \<and> qj_job_id job \<notin> fst ` set (wk_beatless w)")
  case True
  have ok: "jobs_ok jobs" "known jobs job" using assms(1) True leased_known by (auto simp: worker_ok_def)
  obtain r jobs' where f: "with_fault fault (heartbeat cfg now (qj_job_id job) me jobs) jobs = (r, jobs')" by fastforce
  have to: "jobs' = jobs \<or> jobs' = snd (heartbeat cfg now (qj_job_id job) me jobs)"
    using with_fault_snd [of fault "heartbeat cfg now (qj_job_id job) me jobs" jobs] f by auto
  then have kept: "worker_ok cfg st me (w, jobs')"
    using ok_under_queue [OF assms(1,2,3)] assms(1) heartbeat_keeps_lease by auto
  show ?thesis
  proof (cases r)
    case (Inl e)
    have "loop_ended_well e"
      using with_fault_cases [OF f] heartbeat_known [OF ok(2), of cfg now me e] Inl by (auto simp: loop_ended_well_def)
    moreover have "\<exists>name. e = ProviderError name" if "q \<in> set (wk_tasks w)" "qj_job_id q = qj_job_id job" for q
    proof -
      have "leased me jobs q" using assms(1) that(1) by (auto simp: worker_ok_def)
      then show ?thesis
        using heartbeat_leased [of me jobs q cfg now] with_fault_cases [OF f] Inl that(2) by auto
    qed
    ultimately show ?thesis using ok_beatless [OF kept] True f Inl by (auto simp: beat_def)
  qed (use kept True f in \<open>auto simp: beat_def\<close>)
qed (use assms(1) in \<open>auto simp: beat_def\<close>)

lemma start_batch_ok:
  assumes "worker_ok cfg st me (w, jobs)"
    and "jobs_ok (snd (claim cfg locked me (batch_limit st) now stmt_now jobs))"
    and "jobs_evolve jobs (snd (claim cfg locked me (batch_limit st) now stmt_now jobs))"
  shows "worker_ok cfg st me (start_batch cfg st me locked now stmt_now fault (w, jobs))"
proof (cases "wk_tasks w = [] \<and> wk_settled w = [] \<and> wk_died w = None \<and> \<not> wk_stopped w")
  case True
  obtain claimed jobs' where c: "claim cfg locked me (batch_limit st) now stmt_now jobs = (claimed, jobs')" by fastforce
  have ok: "jobs_ok jobs" using assms(1) by (simp add: worker_ok_def)
  have after: "worker_ok cfg st me (w, jobs')" using ok_under_queue [OF assms] c True by simp
  show ?thesis
  proof (cases fault)
    case None
    then show ?thesis
      using ok_batch [OF after] claim_held [OF ok c] True c by (simp add: start_batch_def)
  next
    case (Some f)
    then show ?thesis
      using ok_dies [OF after, of "Some (ProviderError (fst f))"] ok_dies [OF assms(1), of "Some (ProviderError (fst f))"] True c
      by (cases f) (auto simp: start_batch_def death_explained_def)
  qed
qed (use assms(1) in \<open>auto simp: start_batch_def\<close>)

lemma worker_step_ok:
  assumes "worker_ok cfg st me s" and step: "worker_step cfg st False me s s'"
  shows "worker_ok cfg st me s'"
proof -
  obtain w jobs where s: "s = (w, jobs)" by fastforce
  have ok: "jobs_ok jobs" using assms(1) s by (simp add: worker_ok_def)
  have ev: "jobs_ok jobs' \<and> jobs_evolve jobs jobs'" if "queue_step cfg jobs jobs'" for jobs'
    using queue_step_ok [OF that ok] queue_step_evolves [OF that ok] by simp
  have moves: "queue_step cfg jobs (snd (claim cfg locked me n now stmt_now jobs))"
      "queue_step cfg jobs (snd (heartbeat cfg now i me jobs))" for locked n now stmt_now i
    by (rule queue_step.intros)+
  show ?thesis
    using step
  proof cases
    case step_batch
    then show ?thesis using start_batch_ok ev moves(1) assms(1) s by blast
  next
    case step_beat
    then show ?thesis using beat_ok ev moves(2) assms(1) s by blast
  next
    case step_settle
    then show ?thesis using settle_task_ok ev settle_queue assms(1) s by blast
  next
    case step_close
    then show ?thesis using close_task_ok assms(1) s by blast
  next
    case (step_stop w' jobs')
    then show ?thesis using assms(1) by (auto simp: worker_ok_def batch_of_def)
  next
    case (step_other jobs0 jobs' w')
    have "leased me jobs' q" if "leased me jobs q" for q
      using that other_keeps_lease [OF step_other(3)] ok step_other s unfolding leased_def by blast
    then show ?thesis
      using ok_under_queue [OF assms(1)[unfolded s]] ev other_is_queue_step [OF step_other(3)] step_other s by auto
  qed
qed

interpretation wk: invariant_system
  "\<lambda>s. fst s = idle_worker \<and> jobs_ok (snd s) \<and> retries_ok cfg" "worker_step cfg st False me" "worker_ok cfg st me"
proof unfold_locales
  show "worker_ok cfg st me s'" if "worker_ok cfg st me s" "worker_step cfg st False me s s'" for s s'
    using that by (rule worker_step_ok)
qed (auto simp: worker_ok_def idle_worker_def batch_of_def)

lemma worker_reachable:
  assumes "init_job_queue lease base mx ns = Inr cfg" and "jobs_ok jobs0"
    and "(worker_step cfg st False me)\<^sup>*\<^sup>* (idle_worker, jobs0) (w, jobs)"
  shows "worker_ok cfg st me (w, jobs)"
  using assms by (intro wk.inv_reachable [OF _ assms(3)]) (auto simp: init_job_queue_def retries_ok_def split: if_splits)

text \<open>C13: as long as no reaper runs and no other process uses its worker id, a worker holds the lease of every
  job whose handler it runs: the job's row is running under its id, so no other worker gets the job and its
  heartbeats are never refused; they end early only by an exception of the database itself. The jobs of a batch
  are distinct and no more than the settings allow, and settling one is never refused either: it raises only
  when the database does, or after more than 1024 attempts, whose retry delay overflows. The worker itself ends
  by one of these exceptions, or by the refusal of a heartbeat that came after its job was settled.\<close>

theorem worker_holds_leases:
  assumes "init_job_queue lease base mx ns = Inr cfg" and "init_worker st0 = Inr st" and "jobs_ok jobs0"
    and "(worker_step cfg st False me)\<^sup>*\<^sup>* (idle_worker, jobs0) (w, jobs)"
  shows "distinct (map qj_job_id (wk_tasks w @ map fst (wk_settled w))) \<and>
     int (length (wk_tasks w @ map fst (wk_settled w))) \<le> min (ws_concurrency st) (ws_claim_limit st) \<and>
     (\<forall>q\<in>set (wk_tasks w). (\<exists>u r. qj_job_id q = uuid_str u \<and> row_by bj_id u jobs = Some r \<and>
        bj_status r = JOB_RUNNING \<and> bj_locked_by r = Some me) \<and>
        (\<forall>e. (qj_job_id q, e) \<in> set (wk_beatless w) \<longrightarrow> (\<exists>name. e = ProviderError name))) \<and>
     (\<forall>(q, r)\<in>set (wk_settled w). r = Inr () \<or> (\<exists>name. r = Inl (ProviderError name)) \<or>
        r = Inl OverflowError \<and> (\<exists>r\<in>set jobs. 1024 < bj_attempt_count r)) \<and>
     (\<forall>e. wk_died w = Some e \<longrightarrow> e = JobOwnershipError \<or> (\<exists>name. e = ProviderError name) \<or>
        e = OverflowError \<and> (\<exists>r\<in>set jobs. 1024 < bj_attempt_count r))"
proof -
  have "1 \<le> batch_limit st" using assms(2) by (auto simp: init_worker_def batch_limit_def split: if_splits)
  then show ?thesis
    using worker_reachable [OF assms(1,3,4)]
    by (auto simp: worker_ok_def batch_of_def leased_def held_def settles_well_def death_explained_def overflowed_def
        batch_limit_def)
qed

text \<open>The refused late heartbeat is a real run of the worker: in any state it can reach, once a job whose
  heartbeat loop is alive has been settled in the table, a heartbeat that comes before the loop is cancelled is
  refused, and awaiting the cancelled loop raises the refusal again. The job is settled as the handler ended, and
  the worker dies of \<open>JobOwnershipError\<close> all the same: no further batch is started.\<close>

theorem late_heartbeat_kills_worker:
  assumes "init_job_queue lease base mx ns = Inr cfg" and "jobs_ok jobs0"
    and "(worker_step cfg st False me)\<^sup>*\<^sup>* (idle_worker, jobs0) (w, jobs)" and "wk_died w = None"
    and "job \<in> set (wk_tasks w)" and "qj_job_id job \<notin> fst ` set (wk_beatless w)"
    and "settle cfg now me job result jobs = (Inr (), jobs')"
  shows "\<exists>w'. (worker_step cfg st False me)\<^sup>*\<^sup>* (idle_worker, jobs0) (w', jobs') \<and>
     (w', jobs') = close_task job (beat cfg me later None job (settle_task cfg me now None job result (w, jobs))) \<and>
     wk_died w' = Some JobOwnershipError \<and>
     start_batch cfg st me locked now' stmt_now fault (w', jobs') = (w', jobs')"
proof -
  let ?w1 = "w\<lparr>wk_tasks := remove1 job (wk_tasks w), wk_settled := (job, Inr ()) # wk_settled w\<rparr>"
  let ?w2 = "?w1\<lparr>wk_beatless := (qj_job_id job, JobOwnershipError) # wk_beatless w\<rparr>"
  let ?w3 = "dies (Some JobOwnershipError) (?w2\<lparr>wk_settled := filter (\<lambda>(q, _). q \<noteq> job) ((job, Inr ()) # wk_settled w)\<rparr>)"
  have "leased me jobs job" using worker_reachable [OF assms(1-3)] assms(5) by (auto simp: worker_ok_def)
  then have refused: "heartbeat cfg later (qj_job_id job) me jobs' = (Inl JobOwnershipError, jobs')"
    using settled_not_owned assms(7) by blast
  have e1: "settle_task cfg me now None job result (w, jobs) = (?w1, jobs')"
    using assms(5,7) by (simp add: settle_task_def)
  have e2: "beat cfg me later None job (?w1, jobs') = (?w2, jobs')"
    using refused assms(6) by (simp add: beat_def)
  have e3: "close_task job (?w2, jobs') = (?w3, jobs')" by (simp add: close_task_def)
  have "(worker_step cfg st False me)\<^sup>*\<^sup>* (w, jobs) (?w3, jobs')"
    using step_settle [of cfg st False me "(w, jobs)" now None job result] step_beat [of cfg st False me "(?w1, jobs')" later None job]
      step_close [of cfg st False me "(?w2, jobs')" job]
    unfolding e1 e2 e3 by (meson rtranclp.rtrancl_into_rtrancl rtranclp.rtrancl_refl)
  moreover have "wk_died ?w3 = Some JobOwnershipError" using assms(4) by (simp add: dies_def)
  ultimately show ?thesis
    using assms(3) e1 e2 e3 by (intro exI [of _ ?w3]) (auto simp: start_batch_def)
qed

section \<open>Abandoned jobs\<close>

text \<open>A job whose worker died while it ran is never taken up again. No operation of another worker and no
  new job changes its row; only the reaper would, and the production runtime starts none.\<close>

theorem abandoned_job_stuck:
  assumes "(other_step cfg False dead)\<^sup>*\<^sup>* jobs jobs'" and "jobs_ok jobs"
    and "row_by bj_id u jobs = Some r" and "bj_status r = JOB_RUNNING" and "bj_locked_by r = Some dead"
  shows "row_by bj_id u jobs' = Some r"
proof -
  have "jobs_ok jobs' \<and> held u dead jobs' r"
    using assms(1)
  proof (induction rule: rtranclp_induct)
    case base
    show ?case using assms by (simp add: held_def)
  next
    case (step a b)
    then show ?case using queue_step_ok other_is_queue_step other_keeps_lease by blast
  qed
  then show ?thesis by (simp add: held_def)
qed

section \<open>A job and its run\<close>

abbreviation keeps_queue :: "jobs \<Rightarrow> 'a run_op \<Rightarrow> bool" where
  "keeps_queue q m \<equiv> keeps (\<lambda>db. queue db = q) m"

lemma lifecycle_queue: "keeps_queue q (set_lifecycle run_id st started fin)"
  by (rule tripleI) (auto simp: set_lifecycle_def Let_def split: option.splits)

lemma append_queue: "keeps_queue q (append_event new_id run_id t p)"
  by (rule tripleI) (auto simp: append_event_def Let_def split: if_splits)

lemma read_queue: "keeps_queue q (read_op f)"
  by (rule tripleI) (auto simp: read_op_def)

lemma transactional_queue: "keeps_queue q m \<Longrightarrow> keeps_queue q (transactional m)"
  by (rule tripleI) (auto dest: triple_Inr)

lemma keeps_parts:
  "keeps P (return_op x)" "keeps P (raise_op e)" "keeps P (of_res r)" "keeps P (read_op f)"
  by (rule triple_return, assumption) (rule triple_raise, assumption, rule triple_of_res, assumption+,
      rule tripleI, auto simp: read_op_def)

lemma keeps_seq: "keeps P m \<Longrightarrow> (\<And>x. keeps P (f x)) \<Longrightarrow> keeps P (bind_op m f)"
  by (rule triple_bind)

lemma keeps_cases:
  "keeps P n \<Longrightarrow> (\<And>x. keeps P (f x)) \<Longrightarrow> keeps P (case found of None \<Rightarrow> n | Some x \<Rightarrow> f x)"
  "(\<And>a b. keeps P (g a b)) \<Longrightarrow> keeps P (case pair of (a, b) \<Rightarrow> g a b)"
  "(\<And>e. keeps P (h e)) \<Longrightarrow> (\<And>x. keeps P (f x)) \<Longrightarrow> keeps P (case r of Inl e \<Rightarrow> h e | Inr x \<Rightarrow> f x)"
  by (simp_all split: option.split prod.split sum.split)

lemmas keeps_queue_rules = keeps_seq keeps_parts keeps_cases triple_if lifecycle_queue append_queue transactional_queue

lemma prepare_queue: "keeps_queue q (prepare_execute now new_ev run_id)"
  unfolding prepare_execute_def by (intro keeps_queue_rules)

lemma persist_queue: "keeps_queue q (persist_outcome now new_ev run_id outcome)"
  unfolding persist_outcome_def by (intro keeps_queue_rules)

lemma failure_queue: "keeps_queue q (mark_final_failure now new_ev run_id code)"
  unfolding mark_final_failure_def by (intro keeps_queue_rules)

lemma execute_queue: "keeps_queue q (execute_agent_run_handler graph now ev1 ev2 job)"
  unfolding execute_agent_run_handler_def run_and_persist_def handle_failure_def
  by (intro keeps_queue_rules prepare_queue persist_queue failure_queue)

text \<open>How a job and its run end for what the graph gave: the job's result, and the run's status.\<close>

definition final_attempt :: "QueuedJob \<Rightarrow> bool" where
  "final_attempt job \<longleftrightarrow> qj_max_attempts job \<le> qj_attempts job"

definition asks_with_hash :: "RunGraphOutcome \<Rightarrow> bool" where
  "asks_with_hash out \<longleftrightarrow>
     (\<exists>p. ro_waiting_payload out = Some p \<and> str_field p ''request_payload_hash'' \<noteq> None)"

definition handler_end :: "QueuedJob \<Rightarrow> RunGraphOutcome res \<Rightarrow> unit res \<times> RunStatus" where
  "handler_end job result =
     (case result of
        Inl exc \<Rightarrow> (Inl exc, if final_attempt job then FAILED else RUNNING)
      | Inr out \<Rightarrow>
          (case terminal_projection (ro_kind out) of
             Inr (st, _) \<Rightarrow> (Inr (), st)
           | Inl _ \<Rightarrow> if asks_with_hash out then (Inr (), WAITING_CONFIRMATION)
                      else (Inl RunExecutionContractError, RUNNING)))"

definition job_end :: "QueuedJob \<Rightarrow> unit res \<Rightarrow> JobState" where
  "job_end job result =
     (case result of Inr _ \<Rightarrow> JOB_SUCCEEDED | Inl _ \<Rightarrow> if final_attempt job then JOB_FAILED else JOB_PENDING)"

lemma waiting_projection: "terminal_projection k = Inl e \<Longrightarrow> k = OUT_WAITING_CONFIRMATION"
  by (cases k) auto

lemma persist_waiting:
  assumes "runs_ok db" and "row_by ar_id run_id (runs db) = Some r" and "ar_status r = RUNNING"
    and "ro_kind out = OUT_WAITING_CONFIRMATION"
  shows "if asks_with_hash out
     then \<exists>x p. persist_outcome now new_ev run_id out db =
        (Inr x, logged new_ev run_id WAITING_CONFIRMATION (ar_started_at r) None EV_WAITING_CONFIRMATION p db)
     else persist_outcome now new_ev run_id out db = (Inl RunExecutionContractError, db)"
proof -
  obtain run where run: "require_run run_id db = Inr run" "rr_status run = RUNNING" "rr_started_at run = ar_started_at r"
    using require_run_existing [OF assms(1,2)] assms(3) by auto
  show ?thesis
  proof (cases "asks_with_hash out")
    case True
    then obtain p where p: "ro_waiting_payload out = Some p" "str_field p ''request_payload_hash'' \<noteq> None"
      by (auto simp: asks_with_hash_def)
    obtain x where "bind_op (set_lifecycle run_id WAITING_CONFIRMATION (ar_started_at r) None) (\<lambda>run'.
        bind_op (append_event new_ev run_id EV_WAITING_CONFIRMATION p) (\<lambda>_. return_op run')) db =
        (Inr x, logged new_ev run_id WAITING_CONFIRMATION (ar_started_at r) None EV_WAITING_CONFIRMATION p db)"
      using lifecycle_event_total [OF assms(1,2)] by blast
    then show ?thesis
      using True run p assms(4) by (auto simp: persist_outcome_def TERMINAL_RUN_STATUSES_def)
  next
    case False
    then show ?thesis
      using run assms(4) by (auto simp: persist_outcome_def TERMINAL_RUN_STATUSES_def asks_with_hash_def split: option.splits)
  qed
qed

lemma execute_handler_end:
  assumes "runs_ok db" and "UUID (qj_aggregate_id job) = Inr run_id"
    and "prepare_execute now ev1 run_id db = (Inr prep, db1)" and "rp_invoke prep"
  shows "\<exists>r db'. execute_agent_run_handler graph now ev1 ev2 job db =
       (fst (handler_end job (graph (rp_run prep) (rp_resume_payload prep))), db') \<and>
     row_by ar_id run_id (runs db') = Some r \<and>
     ar_status r = snd (handler_end job (graph (rp_run prep) (rp_resume_payload prep)))"
proof (cases "graph (rp_run prep) (rp_resume_payload prep)")
  case (Inl exc)
  then show ?thesis
    using execute_handler_failure [where graph = graph and ?ev2.0 = ev2, OF assms] by (force simp: handler_end_def final_attempt_def)
next
  case (Inr out)
  show ?thesis
  proof (cases "terminal_projection (ro_kind out)")
    case (Inl e)
    have ok: "runs_ok db1" using prepare_execute_effect [OF assms(1,3)] assms(1) run_effect_ok by blast
    obtain r where r: "row_by ar_id run_id (runs db1) = Some r" "ar_status r = RUNNING"
      using prepare_execute_invoke [OF assms(1,3,4)] by blast
    have run: "execute_agent_run_handler graph now ev1 ev2 job db =
        bind_op (transactional (persist_outcome now ev2 run_id out)) (\<lambda>_. return_op ()) db1"
      using assms(2-4) Inr
      by (simp add: execute_agent_run_handler_def run_and_persist_def bind_op_def transactional_def)
    show ?thesis
      using persist_waiting [OF ok r waiting_projection [OF Inl], of now ev2] logged_row [OF r(1)] r
      unfolding run handler_end_def \<open>graph (rp_run prep) (rp_resume_payload prep) = Inr out\<close>
      by (auto simp: bind_op_def transactional_def Inl split: if_splits)
  next
    case (Inr proj)
    then obtain st t where "terminal_projection (ro_kind out) = Inr (st, t)" by (cases proj) auto
    then show ?thesis
      using execute_handler_records_outcome [where graph = graph and ?ev2.0 = ev2, OF assms]
        \<open>graph (rp_run prep) (rp_resume_payload prep) = Inr out\<close>
      by (force simp: handler_end_def)
  qed
qed

lemma settle_end:
  assumes "held u me jobs j" and "qj_job_id job = uuid_str u" and "retries_ok cfg" and "bj_attempt_count j \<le> 1024"
    and "qj_attempts job = bj_attempt_count j" and "qj_max_attempts job = bj_max_attempts j"
  shows "\<exists>jobs' j'. settle cfg now me job result jobs = (Inr (), jobs') \<and> row_by bj_id u jobs' = Some j' \<and>
     bj_status j' = job_end job result"
proof -
  have j: "row_by bj_id u jobs = Some j" "bj_id j = u" using assms(1) heldD by (auto simp: held_def)
  show ?thesis
    using held_owned [OF assms(1)] assms(2-6) j
    by (cases result)
      (auto simp: settle_def complete_def fail_job_def fail_row_def Let_def bind_res_def compute_retry_delay_def
        should_retry_def retries_ok_def row_by_update_rows unlock_row_def job_end_def final_attempt_def)
qed

text \<open>C12: a worker that processes an execution job whose lease it holds always settles it, and the job and its
  run end in states that belong together: after a result, succeeded, with the run in the state of the outcome
  or waiting for a confirmation; after an exception, pending again with the run still running, or failed with
  a failed run on the last attempt. The one exception is an outcome that asks for confirmation without a hash:
  its last attempt leaves a failed job and a running run.\<close>

theorem worker_executes_run:
  assumes "runs_ok db" and "init_job_queue lease base mx ns = Inr cfg"
    and "row_by bj_id u (queue db) = Some j" and "bj_status j = JOB_RUNNING" and "bj_locked_by j = Some me"
    and "bj_attempt_count j \<le> 1024" and "UUID (bj_aggregate_id j) = Inr run_id"
    and "reg (bj_job_type j) = Some (execute_agent_run_handler graph now ev1 ev2)"
    and "prepare_execute now ev1 run_id db = (Inr prep, db1)" and "rp_invoke prep"
  shows "\<exists>db' j' r. invoke_handler cfg now me reg (to_job j) db = (Inr (), db') \<and>
     row_by bj_id u (queue db') = Some j' \<and> row_by ar_id run_id (runs db') = Some r \<and>
     (let (result, st) = handler_end (to_job j) (graph (rp_run prep) (rp_resume_payload prep))
      in bj_status j' = job_end (to_job j) result \<and> ar_status r = st)"
proof -
  let ?job = "to_job j" and ?res = "graph (rp_run prep) (rp_resume_payload prep)"
  have q: "UUID (qj_aggregate_id ?job) = Inr run_id" "qj_job_id ?job = uuid_str u" "qj_job_type ?job = bj_job_type j"
      "qj_attempts ?job = bj_attempt_count j" "qj_max_attempts ?job = bj_max_attempts j"
    using assms(3,7) by (auto simp: to_job_def dest: row_by_SomeD)
  obtain r db2 where h: "execute_agent_run_handler graph now ev1 ev2 ?job db = (fst (handler_end ?job ?res), db2)"
      "row_by ar_id run_id (runs db2) = Some r" "ar_status r = snd (handler_end ?job ?res)"
    using execute_handler_end [OF assms(1) q(1) assms(9,10)] by blast
  have "queue db2 = queue db"
    using execute_queue [of "queue db" graph now ev1 ev2 ?job] h(1) unfolding triple_def by (fastforce split: sum.splits)
  then have held: "held u me (queue db2) j" using assms(3-5) by (simp add: held_def)
  have "retries_ok cfg" using assms(2) by (auto simp: init_job_queue_def retries_ok_def split: if_splits)
  then obtain jobs' j' where s: "settle cfg now me ?job (fst (handler_end ?job ?res)) (queue db2) = (Inr (), jobs')"
      "row_by bj_id u jobs' = Some j'" "bj_status j' = job_end ?job (fst (handler_end ?job ?res))"
    using settle_end [OF held q(2) _ assms(6) q(4,5)] by blast
  have "invoke_handler cfg now me reg ?job db = (Inr (), db2\<lparr>queue := jobs'\<rparr>)"
    using assms(8) h(1) s(1) q(3) by (simp add: invoke_handler_def resolve_handler_def)
  then show ?thesis using s h by (auto simp: split_beta Let_def)
qed

section \<open>Token buckets\<close>

definition bucket_ok :: "token_bucket \<Rightarrow> bool" where
  "bucket_ok b \<longleftrightarrow> 0 < tb_refill_rate b \<and> 0 \<le> tb_tokens b \<and> tb_tokens b \<le> tb_capacity b"

lemma init_bucket_ok: "init_bucket capacity rate now = Inr b \<Longrightarrow> bucket_ok b \<and> tb_tokens b = tb_capacity b \<and> tb_updated_at b = now"
  by (auto simp: init_bucket_def bucket_ok_def split: if_splits)

text \<open>What a refill adds is bounded by the time it takes into account.\<close>

lemma refill_bound:
  assumes "bucket_ok b"
  shows "bucket_ok (refill now b) \<and> tb_capacity (refill now b) = tb_capacity b \<and>
     tb_refill_rate (refill now b) = tb_refill_rate b \<and> tb_updated_at (refill now b) = max now (tb_updated_at b) \<and>
     tb_tokens b \<le> tb_tokens (refill now b) \<and>
     tb_tokens (refill now b) - tb_tokens b \<le> tb_refill_rate b * (tb_updated_at (refill now b) - tb_updated_at b)"
proof (cases "now \<le> tb_updated_at b")
  case True
  then show ?thesis using assms by (simp add: refill_def max_def)
next
  case False
  let ?more = "(now - tb_updated_at b) * tb_refill_rate b"
  have more: "0 < ?more" using False assms by (simp add: bucket_ok_def)
  have e: "refill now b = b\<lparr>tb_tokens := min (tb_capacity b) (tb_tokens b + ?more), tb_updated_at := now\<rparr>"
    using False by (simp add: refill_def max_def)
  have "0 \<le> min (tb_capacity b) (tb_tokens b + ?more)" "tb_tokens b \<le> min (tb_capacity b) (tb_tokens b + ?more)"
      "min (tb_capacity b) (tb_tokens b + ?more) - tb_tokens b \<le> ?more"
    using more assms by (auto simp: bucket_ok_def)
  then show ?thesis using False assms by (simp add: e bucket_ok_def max_def mult.commute)
qed

lemma round_bound:
  assumes "bucket_ok b" and "try_acquire amount deadline now now' b = (answer, b')"
  shows "(0 \<le> amount \<longrightarrow> bucket_ok b') \<and> tb_capacity b' = tb_capacity b \<and> tb_refill_rate b' = tb_refill_rate b \<and>
     tb_updated_at b' = max now (tb_updated_at b) \<and>
     (if answer = Granted then amount else 0) + tb_tokens b' - tb_tokens b \<le>
       tb_refill_rate b * (tb_updated_at b' - tb_updated_at b)"
  using refill_bound [OF assms(1), of now] assms(2)
  by (auto simp: try_acquire_def Let_def bucket_ok_def split: if_splits)

lemma history_bound:
  assumes "bucket_ok b" and "\<forall>(amount, _, now, _)\<in>set rounds. 0 < amount \<and> now \<le> t" and "tb_updated_at b \<le> t"
    and "bucket_history rounds b = (granted, b')"
  shows "bucket_ok b' \<and> tb_capacity b' = tb_capacity b \<and> tb_updated_at b' \<le> t \<and>
     granted + tb_tokens b' - tb_tokens b \<le> tb_refill_rate b * (tb_updated_at b' - tb_updated_at b)"
  using assms
proof (induction rounds arbitrary: b granted b')
  case (Cons rd rounds)
  obtain amount deadline now now' where rd: "rd = (amount, deadline, now, now')" by (cases rd) auto
  obtain answer b1 where one: "try_acquire amount deadline now now' b = (answer, b1)" by fastforce
  obtain g b2 where rest: "bucket_history rounds b1 = (g, b2)" by fastforce
  have out: "granted = (if answer = Granted then amount else 0) + g" "b' = b2"
    using Cons.prems(4) rd one rest by auto
  have n: "0 < amount" "now \<le> t" using Cons.prems(2) rd by auto
  have r: "bucket_ok b1" "tb_capacity b1 = tb_capacity b" "tb_refill_rate b1 = tb_refill_rate b"
      "tb_updated_at b1 \<le> t" "(if answer = Granted then amount else 0) + tb_tokens b1 - tb_tokens b \<le>
       tb_refill_rate b * (tb_updated_at b1 - tb_updated_at b)"
    using round_bound [OF Cons.prems(1) one] n Cons.prems(3) by (auto simp: less_imp_le)
  have later: "bucket_ok b2 \<and> tb_capacity b2 = tb_capacity b1 \<and> tb_updated_at b2 \<le> t \<and>
      g + tb_tokens b2 - tb_tokens b1 \<le> tb_refill_rate b1 * (tb_updated_at b2 - tb_updated_at b1)"
    using Cons.IH [OF r(1) _ r(4) rest] Cons.prems(2) by auto
  then show ?case using r out by (auto simp: algebra_simps)
qed auto

text \<open>Whatever tasks ask of a token bucket, and in whatever order, at any deadlines and clock readings up
  to a time, the tokens it has granted never exceed its capacity plus its rate times the time since it was
  made; and it always holds between none and its capacity.\<close>

theorem token_bucket_bounded:
  assumes "init_bucket capacity rate t0 = Inr b" and "bucket_history rounds b = (granted, b')"
    and "\<forall>(amount, _, now, _)\<in>set rounds. 0 < amount \<and> now \<le> t" and "t0 \<le> t"
  shows "granted \<le> capacity + rate * (t - t0) \<and> 0 \<le> tb_tokens b' \<and> tb_tokens b' \<le> capacity"
proof -
  have b: "bucket_ok b" "tb_tokens b = capacity" "tb_capacity b = capacity" "tb_refill_rate b = rate" "tb_updated_at b = t0"
      "0 < rate"
  proof -
    have "b = \<lparr>tb_capacity = capacity, tb_refill_rate = rate, tb_tokens = capacity, tb_updated_at = t0\<rparr>" "0 < rate"
      using assms(1) by (auto simp: init_bucket_def split: if_splits)
    then show "bucket_ok b" "tb_tokens b = capacity" "tb_capacity b = capacity" "tb_refill_rate b = rate"
        "tb_updated_at b = t0" "0 < rate"
      using init_bucket_ok [OF assms(1)] by simp_all
  qed
  have h: "bucket_ok b'" "tb_capacity b' = capacity" "tb_updated_at b' \<le> t"
      "granted + tb_tokens b' - capacity \<le> rate * (tb_updated_at b' - t0)"
    using history_bound [OF b(1) assms(3) _ assms(2)] assms(4) b by auto
  have "rate * (tb_updated_at b' - t0) \<le> rate * (t - t0)" using b(6) h(3) by simp
  then show ?thesis using h by (auto simp: bucket_ok_def)
qed

text \<open>Alone on its bucket, a request for no more than the capacity is granted after one wait at the latest,
  if the clock advances by the wait and the timeout allows it.\<close>

lemma acquire_alone:
  assumes "bucket_ok b" and "0 < amount" and "amount \<le> tb_capacity b"
    and "try_acquire amount (t0 + max 0 timeout) now now' b = (Wait w, b1)" and "tb_updated_at b1 + w \<le> later"
  shows "\<exists>b2. acquire amount timeout t0 ((now, now') # (later, later') # clock) b = Some (Inr (), b2)"
proof -
  have b1: "b1 = refill now b" "w = (amount - tb_tokens b1) / tb_refill_rate b1" "\<not> amount \<le> tb_tokens b1"
    using assms(4) by (auto simp: try_acquire_def Let_def split: if_splits)
  have r: "0 < tb_refill_rate b1" "tb_capacity b1 = tb_capacity b" using refill_bound [OF assms(1), of now] b1 by (auto simp: bucket_ok_def)
  then have w: "0 < w" "w * tb_refill_rate b1 = amount - tb_tokens b1" using b1 by auto
  have "w * tb_refill_rate b1 \<le> (later - tb_updated_at b1) * tb_refill_rate b1"
    using assms(5) r(1) by (intro mult_right_mono) auto
  then have "amount \<le> tb_tokens (refill later b1)"
    using w assms(3,5) r(2) by (auto simp: refill_def Let_def)
  then show ?thesis using assms(2-4) by (simp add: acquire_def try_acquire_def [of _ _ later] Let_def)
qed

section \<open>Retention\<close>

lemma delete_all_ids: "delete_all del cs s = (Inr ids, s') \<Longrightarrow> ids = map rt_resource_id cs"
  by (induction cs arbitrary: s ids) (auto simp: bind_op_Inr_iff)

text \<open>A property of the state that deleting unprotected candidates keeps is kept by a sweep, also when a
  deletion raises; a dry run deletes nothing at all.\<close>

lemma sweep_keeps:
  assumes "\<And>c. \<not> protected_candidate c \<Longrightarrow> \<not> dry_run \<Longrightarrow> keeps P (del c)" and "\<And>policy. keeps P (list_candidates policy)"
  shows "keeps P (retention_sweep dry_run list_candidates del job)"
proof -
  have all: "keeps P (delete_all del cs)" if "\<forall>c\<in>set cs. \<not> protected_candidate c" "\<not> dry_run" for cs
    using that by (induction cs) (auto intro!: keeps_seq keeps_parts(1) assms(1) triple_return)
  show ?thesis
    unfolding retention_sweep_def Let_def
    by (intro keeps_seq assms(2) triple_if keeps_parts(1) all) auto
qed

section \<open>Witnesses\<close>

definition sample_settings :: WorkerSettings where
  "sample_settings = \<lparr>ws_concurrency = 4, ws_claim_limit = 2\<rparr>"

definition execute_request :: EnqueueJobRequest where
  "execute_request = \<lparr>ej_job_type = ''EXECUTE_AGENT_RUN'', ej_aggregate_id = uuid_str 31, ej_max_attempts = 3\<rparr>"

definition claimed_row :: BackgroundJobModel where
  "claimed_row = claim_row sample_config ''w'' 1 (build_job_model 33 0 ''project-agent'' execute_request)"

lemma sample_config_init: "init_job_queue 60 5 300 ''project-agent'' = Inr sample_config"
  by (simp add: init_job_queue_def sample_config_def)

lemma claimed_fields: "bj_id claimed_row = 33" "bj_status claimed_row = JOB_RUNNING" "bj_locked_by claimed_row = Some ''w''"
    "bj_attempt_count claimed_row = 1" "bj_aggregate_id claimed_row = uuid_str 31"
    "bj_job_type claimed_row = ''EXECUTE_AGENT_RUN''" "bj_max_attempts claimed_row = 3"
  by (simp_all add: claimed_row_def claim_row_def build_job_model_def execute_request_def)

lemma claimed_ok: "jobs_ok [claimed_row]"
  by (simp add: jobs_ok_def row_ok_def claimed_row_def claim_row_def build_job_model_def execute_request_def)

lemma sample_settings_init: "init_worker sample_settings = Inr sample_settings"
  by (simp add: init_worker_def sample_settings_def)

lemma sample_batch:
  "\<exists>w jobs q. start_batch sample_config sample_settings ''w2'' [] 10 10 None (idle_worker, sample_jobs) = (w, jobs) \<and>
     (worker_step sample_config sample_settings False ''w2'')\<^sup>*\<^sup>* (idle_worker, sample_jobs) (w, jobs) \<and>
     wk_tasks w = [q] \<and> qj_job_id q = uuid_str 7 \<and> wk_beatless w = [] \<and> wk_died w = None"
proof -
  obtain w jobs where s: "start_batch sample_config sample_settings ''w2'' [] 10 10 None (idle_worker, sample_jobs) = (w, jobs)"
    by fastforce
  have run: "(worker_step sample_config sample_settings False ''w2'')\<^sup>*\<^sup>* (idle_worker, sample_jobs) (w, jobs)"
    using worker_step.step_batch [of sample_config sample_settings False "''w2''" "(idle_worker, sample_jobs)" "[]" 10 10 None] s
    by auto
  have "build_claim_statement [] 2 10 sample_jobs = [build_job_model 7 0 ''project-agent'' sample_request]"
    by (simp add: build_claim_statement_def sample_jobs_def claimable_def build_job_model_def claim_row_def)
  then have "\<exists>q. wk_tasks w = [q] \<and> qj_job_id q = uuid_str 7" "wk_beatless w = []" "wk_died w = None"
    using s by (auto simp: start_batch_def idle_worker_def claim_def batch_limit_def sample_settings_def Let_def
        to_job_def claim_row_def build_job_model_def)
  then show ?thesis using s run by blast
qed

theorem worker_holds_leases_witness:
  "\<exists>w jobs. start_batch sample_config sample_settings ''w2'' [] 10 10 None (idle_worker, sample_jobs) = (w, jobs) \<and>
     map qj_job_id (wk_tasks w) = [uuid_str 7] \<and>
     (\<exists>r. row_by bj_id 7 jobs = Some r \<and> bj_status r = JOB_RUNNING \<and> bj_locked_by r = Some ''w2'')"
proof -
  obtain w jobs q where s: "start_batch sample_config sample_settings ''w2'' [] 10 10 None (idle_worker, sample_jobs) = (w, jobs)"
      "(worker_step sample_config sample_settings False ''w2'')\<^sup>*\<^sup>* (idle_worker, sample_jobs) (w, jobs)"
      "wk_tasks w = [q]" "qj_job_id q = uuid_str 7"
    using sample_batch by blast
  have "\<exists>u r. qj_job_id q = uuid_str u \<and> row_by bj_id u jobs = Some r \<and> bj_status r = JOB_RUNNING \<and> bj_locked_by r = Some ''w2''"
    using worker_holds_leases [OF sample_config_init sample_settings_init sample_jobs_ok s(2)] s(3) by simp
  moreover have "u = 7" if "uuid_str 7 = uuid_str u" for u using that by (metis UUID_uuid_str sum.inject(2))
  ultimately show ?thesis using s by auto
qed

theorem late_heartbeat_kills_worker_witness:
  "\<exists>w jobs. (worker_step sample_config sample_settings False ''w2'')\<^sup>*\<^sup>* (idle_worker, sample_jobs) (w, jobs) \<and>
     wk_died w = Some JobOwnershipError \<and> (\<exists>r. row_by bj_id 7 jobs = Some r \<and> bj_status r = JOB_SUCCEEDED)"
proof -
  obtain w jobs q where s: "(worker_step sample_config sample_settings False ''w2'')\<^sup>*\<^sup>* (idle_worker, sample_jobs) (w, jobs)"
      "wk_tasks w = [q]" "qj_job_id q = uuid_str 7" "wk_beatless w = []" "wk_died w = None"
    using sample_batch by blast
  have "leased ''w2'' jobs q" using worker_reachable [OF sample_config_init sample_jobs_ok s(1)] s(2) by (simp add: worker_ok_def)
  then obtain r where r: "held 7 ''w2'' jobs r"
    using s(3) unfolding leased_def by (metis UUID_uuid_str sum.inject(2))
  obtain jobs' where e: "settle sample_config 20 ''w2'' q (Inr ()) jobs = (Inr (), jobs')"
      "\<exists>r. row_by bj_id 7 jobs' = Some r \<and> bj_status r = JOB_SUCCEEDED"
    using held_owned [OF r] s(3) heldD(2) [OF r] r
    by (auto simp: settle_def complete_def held_def row_by_update_rows unlock_row_def)
  show ?thesis
    using late_heartbeat_kills_worker [OF sample_config_init sample_jobs_ok s(1,5) _ _ e(1)] s(2,4) e(2) by fastforce
qed

theorem abandoned_job_stuck_witness:
  "row_by bj_id 33 (snd (claim sample_config [] ''w2'' 4 1000 1000 [claimed_row])) = Some claimed_row"
proof -
  have "(other_step sample_config False ''w'')\<^sup>*\<^sup>* [claimed_row] (snd (claim sample_config [] ''w2'' 4 1000 1000 [claimed_row]))"
    by (rule r_into_rtranclp, rule other_claim) simp
  then show ?thesis by (rule abandoned_job_stuck [OF _ claimed_ok]) (simp_all add: claimed_fields)
qed

theorem worker_executes_run_witness:
  "\<exists>db' j' r. invoke_handler sample_config 2 ''w''
       [''EXECUTE_AGENT_RUN'' \<mapsto> execute_agent_run_handler (\<lambda>_ _. Inl TimeoutError) 2 34 35] (to_job claimed_row)
       (rdb1\<lparr>queue := [claimed_row]\<rparr>) = (Inr (), db') \<and>
     row_by bj_id 33 (queue db') = Some j' \<and> bj_status j' = JOB_PENDING \<and>
     row_by ar_id 31 (runs db') = Some r \<and> ar_status r = RUNNING"
proof -
  let ?db = "rdb1\<lparr>queue := [claimed_row]\<rparr>"
  have ok: "runs_ok ?db" using rdb_ok(1) by (simp add: runs_ok_def run_ok_def life_def events_of_def)
  obtain prep db1 where p: "prepare_execute 2 34 31 ?db = (Inr prep, db1)" "rp_invoke prep"
  proof -
    have "fst (prepare_execute 2 34 31 ?db) \<noteq> Inl e" for e
      by (simp add: prepare_execute_def rdb1_eval missing_since_def later_than_def run_eval)
    then obtain prep where "fst (prepare_execute 2 34 31 ?db) = Inr prep"
      by (cases "fst (prepare_execute 2 34 31 ?db)") auto
    then have "prepare_execute 2 34 31 ?db = (Inr prep, snd (prepare_execute 2 34 31 ?db))" by (metis prod.collapse)
    moreover from this have "rp_invoke prep"
      by (auto simp: prepare_execute_def rdb1_eval missing_since_def later_than_def run_eval)
    ultimately show thesis by (rule that)
  qed
  have q: "row_by bj_id 33 (queue ?db) = Some claimed_row" "bj_attempt_count claimed_row \<le> 1024"
      "UUID (bj_aggregate_id claimed_row) = Inr 31"
      "[''EXECUTE_AGENT_RUN'' \<mapsto> execute_agent_run_handler (\<lambda>_ _. Inl TimeoutError) 2 34 35] (bj_job_type claimed_row) =
        Some (execute_agent_run_handler (\<lambda>_ _. Inl TimeoutError) 2 34 35)"
    by (simp_all add: claimed_fields)
  have f: "\<not> final_attempt (to_job claimed_row)" by (simp add: final_attempt_def to_job_def claimed_fields)
  show ?thesis
    using worker_executes_run [where reg = "[''EXECUTE_AGENT_RUN'' \<mapsto> execute_agent_run_handler (\<lambda>_ _. Inl TimeoutError) 2 34 35]"
        and graph = "\<lambda>_ _. Inl TimeoutError", OF ok sample_config_init q(1) claimed_fields(2,3) q(2-4) p] f
    by (auto simp: handler_end_def job_end_def)
qed

theorem token_bucket_bounded_witness:
  "\<exists>b. init_bucket 2 1 0 = Inr b \<and> fst (bucket_history [(2, 9, 0, 0), (2, 9, 1, 1), (2, 9, 2, 2)] b) = 4 \<and>
     fst (bucket_history [(2, 9, 0, 0), (2, 9, 1, 1), (2, 9, 2, 2)] b) \<le> 2 + 1 * (2 - 0)"
proof -
  let ?b = "\<lparr>tb_capacity = 2, tb_refill_rate = 1, tb_tokens = 2, tb_updated_at = 0\<rparr>"
  have i: "init_bucket 2 1 0 = Inr ?b" by (simp add: init_bucket_def)
  obtain g b' where h: "bucket_history [(2, 9, 0, 0), (2, 9, 1, 1), (2, 9, 2, 2)] ?b = (g, b')" by fastforce
  have "g = 4" using h by (simp add: try_acquire_def refill_def Let_def)
  then show ?thesis using i h token_bucket_bounded [OF i h, of 2] by simp
qed

end
