(* ===== verification/Regex.thy ===== *)
theory Regex
  imports PyStr
begin

text \<open>
  The regular expressions of Python's \<open>re\<close> module that the program uses, with the order in which
  a backtracking matcher tries the alternatives: a cursor is the text already read (reversed) and
  the text still to be read, and \<open>ends r x\<close> lists the cursors at which a match of \<open>r\<close> that
  starts at \<open>x\<close> may end, the preferred one first. Repetition is greedy and gives up on an
  iteration that reads nothing. The character classes are those of ASCII text.

  The lemmas relate the matcher to the language of the expression: it finds exactly the ends the
  expression admits, the bound on the iterations of a repetition loses none of them, and a match
  is a piece of the text.
\<close>

section \<open>Expressions and their matches\<close>

datatype regex =
    Eps
  | Cls "char \<Rightarrow> bool"
  | Seq regex regex
  | Alt regex regex
  | Star regex
  | WordB
  | NotBehind "char \<Rightarrow> bool"
  | NotAhead regex
  | LineStart

type_synonym cursor = "string \<times> string"

definition is_alpha :: "char \<Rightarrow> bool" where
  "is_alpha c \<longleftrightarrow> (CHR ''a'' \<le> c \<and> c \<le> CHR ''z'') \<or> (CHR ''A'' \<le> c \<and> c \<le> CHR ''Z'')"

definition is_alnum :: "char \<Rightarrow> bool" where
  "is_alnum c \<longleftrightarrow> is_alpha c \<or> is_digit c"

definition is_word :: "char \<Rightarrow> bool" where
  "is_word c \<longleftrightarrow> is_alnum c \<or> c = CHR ''_''"

text \<open>The tests on the bits of a character, for evaluation.\<close>

lemma is_alpha_code [code]:
  "is_alpha (Char b0 b1 b2 b3 b4 b5 b6 b7) \<longleftrightarrow>
     b6 \<and> \<not> b7 \<and> (b0 \<or> b1 \<or> b2 \<or> b3 \<or> b4) \<and> \<not> (b4 \<and> b3 \<and> (b2 \<or> (b1 \<and> b0)))"
  by (cases b0; cases b1; cases b2; cases b3; cases b4; cases b5; cases b6; cases b7)
    (simp_all add: is_alpha_def less_eq_char_def)

lemma is_digit_code [code]:
  "is_digit (Char b0 b1 b2 b3 b4 b5 b6 b7) \<longleftrightarrow>
     \<not> b7 \<and> \<not> b6 \<and> b5 \<and> b4 \<and> \<not> (b3 \<and> (b2 \<or> b1))"
  by (cases b0; cases b1; cases b2; cases b3; cases b4; cases b5; cases b6; cases b7)
    (simp_all add: is_digit_def less_eq_char_def)

lemma is_space_code [code]:
  "is_space (Char b0 b1 b2 b3 b4 b5 b6 b7) \<longleftrightarrow>
     (if b7 then \<not> b6 \<and> ((b5 \<and> \<not> b4 \<and> \<not> b3 \<and> \<not> b2 \<and> \<not> b1 \<and> \<not> b0)
                        \<or> (\<not> b5 \<and> \<not> b4 \<and> \<not> b3 \<and> b2 \<and> \<not> b1 \<and> b0))
      else \<not> b6 \<and> (if b5 then \<not> b4 \<and> \<not> b3 \<and> \<not> b2 \<and> \<not> b1 \<and> \<not> b0
                   else b3 \<and> (if b4 then b2 else (b2 \<and> (\<not> b1)) \<or> (\<not> b2 \<and> (b1 \<or> b0)))))"
  by (cases b0; cases b1; cases b2; cases b3; cases b4; cases b5; cases b6; cases b7)
    (simp_all add: is_space_def)

lemma lower_char_code [code]:
  "lower_char (Char b0 b1 b2 b3 b4 b5 b6 b7) =
     Char b0 b1 b2 b3 b4 (b5 \<or> is_alpha (Char b0 b1 b2 b3 b4 b5 b6 b7)) b6 b7"
  by (cases b0; cases b1; cases b2; cases b3; cases b4; cases b5; cases b6; cases b7)
    (simp_all add: is_alpha_code lower_char_def less_eq_char_def char_of_def bit_0)

fun word_before :: "cursor \<Rightarrow> bool" where
  "word_before ([], s) = False"
| "word_before (c # b, s) = is_word c"

fun word_after :: "cursor \<Rightarrow> bool" where
  "word_after (b, []) = False"
| "word_after (b, c # s) = is_word c"

fun step_cls :: "(char \<Rightarrow> bool) \<Rightarrow> cursor \<Rightarrow> cursor list" where
  "step_cls p (b, []) = []"
| "step_cls p (b, c # s) = (if p c then [(c # b, s)] else [])"

fun line_start :: "cursor \<Rightarrow> bool" where
  "line_start ([], s) = True"
| "line_start (c # b, s) = (c = CHR 0x0A)"

fun not_behind :: "(char \<Rightarrow> bool) \<Rightarrow> cursor \<Rightarrow> bool" where
  "not_behind p ([], s) = True"
| "not_behind p (c # b, s) = (\<not> p c)"

fun star_ends :: "nat \<Rightarrow> (cursor \<Rightarrow> cursor list) \<Rightarrow> cursor \<Rightarrow> cursor list" where
  "star_ends 0 f x = [x]"
| "star_ends (Suc n) f x =
     concat (map (\<lambda>y. if length (snd y) < length (snd x) then star_ends n f y else []) (f x)) @ [x]"

primrec ends :: "regex \<Rightarrow> cursor \<Rightarrow> cursor list" where
  "ends Eps x = [x]"
| "ends (Cls p) x = step_cls p x"
| "ends (Seq r q) x = concat (map (ends q) (ends r x))"
| "ends (Alt r q) x = ends r x @ ends q x"
| "ends (Star r) x = star_ends (length (snd x)) (ends r) x"
| "ends WordB x = (if word_before x \<noteq> word_after x then [x] else [])"
| "ends (NotBehind p) x = (if not_behind p x then [x] else [])"
| "ends (NotAhead r) x = (if ends r x = [] then [x] else [])"
| "ends LineStart x = (if line_start x then [x] else [])"

text \<open>Derived forms: a literal (also without regard to case), \<open>r+\<close>, \<open>r?\<close>, \<open>r{m,n}\<close>, a choice.\<close>

definition seqs :: "regex list \<Rightarrow> regex" where
  "seqs rs = foldr Seq rs Eps"

fun alts :: "regex list \<Rightarrow> regex" where
  "alts [] = NotAhead Eps"
| "alts [r] = r"
| "alts (r # rs) = Alt r (alts rs)"

definition lit :: "string \<Rightarrow> regex" where
  "lit s = seqs (map (\<lambda>c. Cls (\<lambda>d. d = c)) s)"

definition lit_ci :: "string \<Rightarrow> regex" where
  "lit_ci s = seqs (map (\<lambda>c. Cls (\<lambda>d. lower_char d = lower_char c)) s)"

definition plus :: "regex \<Rightarrow> regex" where
  "plus r = Seq r (Star r)"

definition opt :: "regex \<Rightarrow> regex" where
  "opt r = Alt r Eps"

fun upto_times :: "nat \<Rightarrow> regex \<Rightarrow> regex" where
  "upto_times 0 r = Eps"
| "upto_times (Suc n) r = opt (Seq r (upto_times n r))"

definition times :: "nat \<Rightarrow> nat \<Rightarrow> regex \<Rightarrow> regex" where
  "times m n r = Seq (seqs (replicate m r)) (upto_times (n - m) r)"

section \<open>Searching\<close>

text \<open>
  A pattern is the part before the first group, the group and the part after it. A match is the
  whole piece it read, the group's piece and the cursor after the match.
\<close>

type_synonym pattern = "regex \<times> regex \<times> regex"

definition read_between :: "cursor \<Rightarrow> cursor \<Rightarrow> string" where
  "read_between x y = take (length (snd x) - length (snd y)) (snd x)"

definition all_matches :: "pattern \<Rightarrow> cursor \<Rightarrow> (string \<times> string \<times> cursor) list" where
  "all_matches p x =
     concat (map (\<lambda>u. concat (map (\<lambda>v. map (\<lambda>w. (read_between x w, read_between u v, w))
                                           (ends (snd (snd p)) v))
                                 (ends (fst (snd p)) u)))
                 (ends (fst p) x))"

definition match_at :: "pattern \<Rightarrow> cursor \<Rightarrow> (string \<times> string \<times> cursor) option" where
  "match_at p x = (case all_matches p x of [] \<Rightarrow> None | m # _ \<Rightarrow> Some m)"

fun next_char :: "cursor \<Rightarrow> cursor option" where
  "next_char (b, []) = None"
| "next_char (b, c # s) = Some (c # b, s)"

text \<open>
  \<open>finditer\<close>: the leftmost match, then the search goes on where it ended (one character further
  after an empty match). The fuel is the length of the text plus one: every step reads a character.
\<close>

fun scan :: "nat \<Rightarrow> pattern \<Rightarrow> cursor \<Rightarrow> (string \<times> string) list" where
  "scan 0 p x = []"
| "scan (Suc n) p x =
     (case match_at p x of
        None \<Rightarrow> (case next_char x of None \<Rightarrow> [] | Some y \<Rightarrow> scan n p y)
      | Some (whole, grp, y) \<Rightarrow>
          (whole, grp) #
          (if length (snd y) < length (snd x) then scan n p y
           else case next_char y of None \<Rightarrow> [] | Some z \<Rightarrow> scan n p z))"

definition finditer :: "pattern \<Rightarrow> string \<Rightarrow> (string \<times> string) list" where
  "finditer p t = scan (Suc (length t)) p ([], t)"

definition search :: "pattern \<Rightarrow> string \<Rightarrow> string option" where
  "search p t = (case finditer p t of [] \<Rightarrow> None | m # _ \<Rightarrow> Some (snd m))"

text \<open>\<open>fullmatch\<close>: the first match that reads the whole text; the result is the group.\<close>

definition fullmatch :: "pattern \<Rightarrow> string \<Rightarrow> string option" where
  "fullmatch p t = map_option (\<lambda>m. fst (snd m))
     (find (\<lambda>m. snd (snd (snd m)) = []) (all_matches p ([], t)))"

section \<open>The matcher against the language\<close>

definition advance :: "cursor \<Rightarrow> cursor \<Rightarrow> bool" where
  "advance x y \<longleftrightarrow> (\<exists>w. snd x = w @ snd y \<and> fst y = rev w @ fst x)"

lemma advance_refl [simp, intro]: "advance x x"
  by (simp add: advance_def)

lemma advance_trans [trans]: "advance x y \<Longrightarrow> advance y z \<Longrightarrow> advance x z"
  unfolding advance_def by (metis append.assoc rev_append)

lemma advance_length: "advance x y \<Longrightarrow> length (snd y) \<le> length (snd x)"
  by (auto simp: advance_def)

lemma step_cls_advance: "y \<in> set (step_cls p x) \<Longrightarrow> advance x y"
  by (cases "(p, x)" rule: step_cls.cases) (auto simp: advance_def split: if_splits)

lemma in_star_ends:
  "y \<in> set (star_ends (Suc n) f x) \<longleftrightarrow>
     y = x \<or> (\<exists>u\<in>set (f x). length (snd u) < length (snd x) \<and> y \<in> set (star_ends n f u))"
  by (simp only: star_ends.simps set_append set_concat set_map) (force split: if_splits)

lemma in_seq_ends:
  "y \<in> set (ends (Seq r q) x) \<longleftrightarrow> (\<exists>u\<in>set (ends r x). y \<in> set (ends q u))"
  by simp

lemma star_ends_advance:
  assumes "\<And>x y. y \<in> set (f x) \<Longrightarrow> advance x y"
  shows "y \<in> set (star_ends n f x) \<Longrightarrow> advance x y"
proof (induction n arbitrary: x)
  case (Suc n)
  then show ?case unfolding in_star_ends using assms advance_trans advance_refl by metis
qed simp

lemma ends_advance: "y \<in> set (ends r x) \<Longrightarrow> advance x y"
proof (induction r arbitrary: x y)
  case (Seq r q)
  then show ?case unfolding in_seq_ends using advance_trans by blast
next
  case (Star r)
  then show ?case using star_ends_advance [of "ends r"] by simp
qed (auto dest: step_cls_advance split: if_splits)

inductive matches :: "regex \<Rightarrow> cursor \<Rightarrow> cursor \<Rightarrow> bool" where
  m_eps: "matches Eps x x"
| m_cls: "p c \<Longrightarrow> matches (Cls p) (b, c # s) (c # b, s)"
| m_seq: "matches r x y \<Longrightarrow> matches q y z \<Longrightarrow> matches (Seq r q) x z"
| m_altl: "matches r x y \<Longrightarrow> matches (Alt r q) x y"
| m_altr: "matches q x y \<Longrightarrow> matches (Alt r q) x y"
| m_star0: "matches (Star r) x x"
| m_star1: "matches r x y \<Longrightarrow> length (snd y) < length (snd x) \<Longrightarrow> matches (Star r) y z
    \<Longrightarrow> matches (Star r) x z"
| m_wordb: "word_before x \<noteq> word_after x \<Longrightarrow> matches WordB x x"
| m_behind: "not_behind p x \<Longrightarrow> matches (NotBehind p) x x"
| m_ahead: "ends r x = [] \<Longrightarrow> matches (NotAhead r) x x"
| m_line: "line_start x \<Longrightarrow> matches LineStart x x"

inductive_cases matches_EpsE: "matches Eps x y"
inductive_cases matches_ClsE: "matches (Cls p) x y"
inductive_cases matches_SeqE: "matches (Seq r q) x y"
inductive_cases matches_AltE: "matches (Alt r q) x y"
inductive_cases matches_WordBE: "matches WordB x y"
inductive_cases matches_NotBehindE: "matches (NotBehind p) x y"
inductive_cases matches_NotAheadE: "matches (NotAhead r) x y"
inductive_cases matches_LineStartE: "matches LineStart x y"

lemma star_ends_sound:
  assumes "\<And>x y. y \<in> set (f x) \<Longrightarrow> matches r x y"
  shows "y \<in> set (star_ends n f x) \<Longrightarrow> matches (Star r) x y"
proof (induction n arbitrary: x)
  case (Suc n)
  then show ?case unfolding in_star_ends using assms m_star0 m_star1 by metis
qed (simp add: m_star0)

lemma ends_sound: "y \<in> set (ends r x) \<Longrightarrow> matches r x y"
proof (induction r arbitrary: x y)
  case (Cls p)
  then show ?case
    by (cases "(p, x)" rule: step_cls.cases) (auto intro: m_cls split: if_splits)
next
  case (Seq r q)
  then show ?case unfolding in_seq_ends using m_seq by blast
next
  case (Alt r q)
  then have "y \<in> set (ends r x) \<or> y \<in> set (ends q x)" by simp
  then show ?case using Alt.IH m_altl m_altr by blast
next
  case (Star r)
  then show ?case using star_ends_sound [of "ends r" r] by simp
next
  case Eps
  then show ?case using m_eps by simp
next
  case WordB
  then show ?case using m_wordb by (simp split: if_splits)
next
  case (NotBehind p)
  then show ?case using m_behind by (simp split: if_splits)
next
  case (NotAhead r)
  then show ?case using m_ahead by (simp split: if_splits)
next
  case LineStart
  then show ?case using m_line by (simp split: if_splits)
qed

lemma star_ends_complete:
  assumes "matches (Star r) x y" and "\<And>u v. matches r u v \<Longrightarrow> v \<in> set (f u)"
    and "length (snd x) \<le> n"
  shows "y \<in> set (star_ends n f x)"
  using assms(1,3)
proof (induction "Star r" x y arbitrary: n rule: matches.induct)
  case (m_star0 x)
  then show ?case by (cases n) auto
next
  case (m_star1 x y z)
  then obtain k where k: "n = Suc k" by (cases n) auto
  have "z \<in> set (star_ends k f y)" using m_star1 k by auto
  moreover have "y \<in> set (f x)" using m_star1(1) assms(2) by blast
  ultimately show ?case using m_star1(3) unfolding k in_star_ends by blast
qed

lemma ends_complete: "matches r x y \<Longrightarrow> y \<in> set (ends r x)"
proof (induction r arbitrary: x y)
  case (Seq r q)
  then show ?case unfolding in_seq_ends by (metis matches_SeqE)
next
  case (Star r)
  then show ?case using star_ends_complete [of r x y "ends r"] by simp
qed (auto elim!: matches_EpsE matches_ClsE matches_AltE matches_WordBE matches_NotBehindE
      matches_NotAheadE matches_LineStartE)

lemma ends_iff_matches: "set (ends r x) = {y. matches r x y}"
  using ends_sound ends_complete by blast

section \<open>A match is a piece of the text\<close>

definition piece_of :: "string \<Rightarrow> string \<Rightarrow> bool" where
  "piece_of w t \<longleftrightarrow> (\<exists>u v. t = u @ w @ v)"

lemma read_between_advance:
  "advance x y \<Longrightarrow> snd x = read_between x y @ snd y"
  by (auto simp: advance_def read_between_def)

lemma read_between_piece:
  assumes "advance x y" and "advance y z"
  shows "piece_of (read_between y z) (snd x)"
  using assms read_between_advance [of y z] unfolding advance_def piece_of_def by fastforce

lemma match_at_advance:
  assumes "match_at p x = Some (whole, grp, y)"
  shows "advance x y" and "piece_of whole (snd x)" and "piece_of grp (snd x)"
proof -
  have "(whole, grp, y) \<in> set (all_matches p x)"
    using assms by (auto simp: match_at_def split: list.splits)
  then obtain u v where u: "u \<in> set (ends (fst p) x)" and v: "v \<in> set (ends (fst (snd p)) u)"
    and y: "y \<in> set (ends (snd (snd p)) v)"
    and w: "whole = read_between x y" and g: "grp = read_between u v"
    by (auto simp: all_matches_def)
  note adv = ends_advance [OF u] ends_advance [OF v] ends_advance [OF y]
  show xy: "advance x y" using adv by (blast intro: advance_trans)
  show "piece_of whole (snd x)" unfolding w by (rule read_between_piece [OF advance_refl xy])
  show "piece_of grp (snd x)" unfolding g by (rule read_between_piece [OF adv(1,2)])
qed

lemma next_char_advance: "next_char x = Some y \<Longrightarrow> advance x y"
  by (cases x rule: next_char.cases) (auto simp: advance_def)

lemma piece_of_advance: "advance x y \<Longrightarrow> piece_of w (snd y) \<Longrightarrow> piece_of w (snd x)"
  unfolding advance_def piece_of_def by (metis append.assoc)

lemma scan_pieces:
  "m \<in> set (scan n p x) \<Longrightarrow> piece_of (fst m) (snd x) \<and> piece_of (snd m) (snd x)"
proof (induction n p x rule: scan.induct)
  case (2 n p x)
  show ?case
  proof (cases "match_at p x")
    case None
    then obtain z where z: "next_char x = Some z" and m: "m \<in> set (scan n p z)"
      using "2.prems" by (cases "next_char x") auto
    then show ?thesis
      using "2.IH"(1) [OF None z m] next_char_advance [OF z] piece_of_advance by blast
  next
    case (Some mm)
    obtain whole grp y where mm: "mm = (whole, grp, y)" by (cases mm) auto
    note adv = match_at_advance [OF Some [unfolded mm]]
    consider "m = (whole, grp)" | "m \<in> set (scan n p y)" "length (snd y) < length (snd x)"
      | z where "next_char y = Some z" "m \<in> set (scan n p z)" "\<not> length (snd y) < length (snd x)"
      using "2.prems" Some mm by (cases "next_char y") (auto split: if_splits)
    then show ?thesis
    proof cases
      case 1
      then show ?thesis using adv by simp
    next
      case 2
      then show ?thesis
        using "2.IH"(2) [OF Some mm [symmetric] refl 2(2) 2(1)] adv(1) piece_of_advance by blast
    next
      case 3
      have "advance x z" using 3(1) adv(1) next_char_advance advance_trans by blast
      then show ?thesis
        using "2.IH"(3) [OF Some mm [symmetric] refl 3(3) 3(1) 3(2)] piece_of_advance by blast
    qed
  qed
qed simp

lemma finditer_pieces:
  assumes "m \<in> set (finditer p t)"
  shows "piece_of (fst m) t" and "piece_of (snd m) t"
  using scan_pieces [OF assms [unfolded finditer_def]] by simp_all

end
