(* ===== verification/Identifiers.thy ===== *)
theory Identifiers
  imports Regex Documents
begin

text \<open>
  Deterministic identifiers: their canonical form (\<open>domain/identifiers.py\<close>), their extraction
  from text (\<open>application/services/identifier_extractor.py\<close>), the registry table and service
  (\<open>infrastructure/db/repositories/identifiers.py\<close>,
  \<open>application/services/identifier_registry.py\<close>), the analysis of a query
  (\<open>agent/nodes/analyze_query.py\<close>) and the resolution of its identifiers to authorized
  document versions (\<open>agent/nodes/resolve_identifiers.py\<close>).

  Text is ASCII: the Chinese labels and punctuation that the patterns also accept do not occur in
  it. The trigram similarity of PostgreSQL is an argument of \<open>suggest\<close>. A bracketed host in a
  URL is only checked for balanced brackets.
\<close>

section \<open>Identifier types\<close>

datatype IdentifierType =
  PROJECT_CODE | REQUIREMENT_ID | ISSUE_KEY | API_PATH | DB_TABLE | DB_COLUMN | ERROR_CODE | VERSION

datatype IdentifierSource = SRC_REGEX | SRC_STRUCTURE | SRC_MANUAL

record ManualIdentifier =
  mi_identifier_type :: IdentifierType
  mi_raw_value :: string
  mi_page_no :: "int option"
  mi_section :: "string option"

record ExtractedIdentifier =
  ei_identifier_type :: IdentifierType
  ei_raw_value :: string
  ei_normalized_value :: string
  ei_source :: IdentifierSource
  ei_confidence :: score
  ei_page_no :: "int option"
  ei_section :: "string option"

record IdentifierSpellingSuggestion =
  ss_normalized_value :: string
  ss_similarity :: score

section \<open>Canonical form\<close>

text \<open>The path component that \<open>urllib.parse.urlsplit\<close> returns.\<close>

definition scheme_char :: "char \<Rightarrow> bool" where
  "scheme_char c \<longleftrightarrow> is_alnum c \<or> c \<in> set ''+-.''"

definition drop_scheme :: "string \<Rightarrow> string" where
  "drop_scheme url =
     (let scheme = takeWhile (\<lambda>c. c \<noteq> CHR '':'') url
      in if scheme \<noteq> [] \<and> length scheme < length url \<and> is_alpha (hd url) \<and> list_all scheme_char scheme
         then drop (Suc (length scheme)) url else url)"

definition drop_netloc :: "string \<Rightarrow> string res" where
  "drop_netloc url =
     (case drop_prefix ''//'' url of
        None \<Rightarrow> Inr url
      | Some rest \<Rightarrow>
          (let netloc = takeWhile (\<lambda>c. c \<notin> set ''/?#'') rest
           in if (CHR ''['' \<in> set netloc) \<noteq> (CHR '']'' \<in> set netloc)
              then Inl (ValueError ''Invalid IPv6 URL'')
              else Inr (drop (length netloc) rest)))"

definition before_char :: "char \<Rightarrow> string \<Rightarrow> string" where
  "before_char c s = takeWhile (\<lambda>d. d \<noteq> c) s"

definition urlsplit_path :: "string \<Rightarrow> string res" where
  "urlsplit_path url =
     (let url1 = filter (\<lambda>c. (of_char c :: nat) \<notin> {9, 10, 13})
                   (dropWhile (\<lambda>c. (of_char c :: nat) \<le> 32) url)
      in bind_res (drop_netloc (drop_scheme url1))
           (\<lambda>rest. Inr (before_char (CHR ''?'') (before_char (CHR ''#'') rest))))"

text \<open>\<open>re.sub(r"/{2,}", "/", path)\<close>.\<close>

fun collapse_slashes :: "string \<Rightarrow> string" where
  "collapse_slashes [] = []"
| "collapse_slashes [c] = [c]"
| "collapse_slashes (c # d # s) =
     (if c = CHR ''/'' \<and> d = CHR ''/'' then collapse_slashes (d # s) else c # collapse_slashes (d # s))"

definition digits1 :: regex where
  "digits1 = plus (Cls is_digit)"

definition chr1 :: "char \<Rightarrow> regex" where
  "chr1 c = Cls (\<lambda>d. d = c)"

definition VERSION_RE :: pattern where
  "VERSION_RE =
     (Seq (opt (Cls (\<lambda>c. c \<in> set ''vV''))) (Star (Cls is_space)),
      Seq digits1 (times 1 3 (Seq (chr1 (CHR ''.'')) digits1)), Eps)"

definition windows_drive :: "string \<Rightarrow> bool" where
  "windows_drive s = (case s of c # d # _ \<Rightarrow> is_alpha c \<and> d = CHR '':'' | _ \<Rightarrow> False)"

definition trim_value :: "string \<Rightarrow> string" where
  "trim_value raw = strip_chars ''.,;:()[]{}<>'' (py_strip raw)"

definition normalize_path :: "string \<Rightarrow> string res" where
  "normalize_path v =
     (if windows_drive v then Inl (ValueError ''windows drive path is not an API identifier'')
      else bind_res (urlsplit_path v) (\<lambda>parsed.
        let path = (if parsed \<noteq> [] then parsed else before_char (CHR ''#'') (before_char (CHR ''?'') v));
            path1 = collapse_slashes path;
            path2 = (if length path1 > 1 then rstrip_chars ''/'' path1 else path1)
        in Inr (case path2 of CHR ''/'' # _ \<Rightarrow> path2 | _ \<Rightarrow> CHR ''/'' # path2)))"

definition after_last_dot :: "string \<Rightarrow> string" where
  "after_last_dot s =
     (if CHR ''.'' \<in> set s then rev (takeWhile (\<lambda>c. c \<noteq> CHR ''.'') (rev s)) else s)"

definition normalize_identifier :: "IdentifierType \<Rightarrow> string \<Rightarrow> string res" where
  "normalize_identifier ty raw =
     (let v = trim_value raw
      in if v = [] then Inl (ValueError ''identifier cannot be blank'')
         else case ty of
             PROJECT_CODE \<Rightarrow> Inr (py_upper v)
           | REQUIREMENT_ID \<Rightarrow> Inr (py_upper v)
           | ISSUE_KEY \<Rightarrow> Inr (py_upper v)
           | ERROR_CODE \<Rightarrow> Inr (py_upper v)
           | VERSION \<Rightarrow>
               (case fullmatch VERSION_RE v of
                  None \<Rightarrow> Inr (filter (\<lambda>c. c \<noteq> CHR '' '') (py_lower v))
                | Some g \<Rightarrow> Inr (CHR ''v'' # g))
           | API_PATH \<Rightarrow> normalize_path v
           | DB_TABLE \<Rightarrow>
               Inr (py_lower (after_last_dot (py_strip (filter (\<lambda>c. c \<noteq> CHR ''`'' \<and> c \<noteq> CHR 0x22) v))))
           | DB_COLUMN \<Rightarrow>
               Inr (py_lower (after_last_dot (py_strip (filter (\<lambda>c. c \<noteq> CHR ''`'' \<and> c \<noteq> CHR 0x22) v)))))"

section \<open>Extraction\<close>

definition alnum1 :: regex where
  "alnum1 = plus (Cls is_alnum)"

definition dashed :: regex where
  "dashed = Seq (chr1 (CHR ''-'')) alnum1"

definition api_char :: "char \<Rightarrow> bool" where
  "api_char c \<longleftrightarrow> is_alnum c \<or> c \<in> set ''._~!$&()*+,;=:@%{}-/'' \<or> c = CHR 0x27"

definition column_suffix :: regex where
  "column_suffix = alts (map lit_ci [''_id'', ''_code'', ''_no'', ''_at'', ''_time'', ''_date'',
     ''_status'', ''_flag'', ''_ref''])"

definition whole_pattern :: "regex list \<Rightarrow> pattern" where
  "whole_pattern rs = (Eps, seqs rs, Eps)"

definition patterns :: "(IdentifierType \<times> pattern) list" where
  "patterns =
    [(PROJECT_CODE, whole_pattern [WordB, lit_ci ''PRJ-'', alnum1, plus dashed, WordB]),
     (REQUIREMENT_ID,
      whole_pattern [WordB, lit_ci ''REQ-'', digits1, plus (Seq (chr1 (CHR ''.'')) digits1), WordB]),
     (ERROR_CODE,
      whole_pattern [WordB,
        Alt (seqs [lit_ci ''ERR-'', alnum1, plus dashed]) (Seq (lit_ci ''E'') (times 3 7 (Cls is_digit))),
        WordB]),
     (ISSUE_KEY,
      whole_pattern [NotBehind (\<lambda>c. is_alnum c \<or> c = CHR ''-''),
        NotAhead (Seq (alts [lit_ci ''PRJ'', lit_ci ''REQ'', lit_ci ''ERR'']) (chr1 (CHR ''-''))),
        Cls is_alpha, times 1 15 (Cls is_alnum), chr1 (CHR ''-''), digits1, WordB]),
     (API_PATH, whole_pattern [NotBehind is_alnum, lit ''/api/'', plus (Cls api_char)]),
     (DB_TABLE,
      whole_pattern [WordB, alts [lit_ci ''t'', lit_ci ''tb'', lit_ci ''tbl''], chr1 (CHR ''_''),
        Cls is_alpha, Star (Cls is_word), WordB]),
     (DB_COLUMN, whole_pattern [WordB, Cls is_alpha, Star (Cls is_word), column_suffix, WordB]),
     (VERSION,
      whole_pattern [WordB, Cls (\<lambda>c. c \<in> set ''vV''), digits1,
        times 1 3 (Seq (chr1 (CHR ''.'')) digits1), WordB])]"

definition spaces :: regex where
  "spaces = Star (Cls is_space)"

definition quote_opt :: regex where
  "quote_opt = opt (Cls (\<lambda>c. c = CHR ''`'' \<or> c = CHR 0x22))"

definition dotted_name :: regex where
  "dotted_name = Seq (Cls (\<lambda>c. is_alpha c \<or> c = CHR ''_'')) (Star (Cls (\<lambda>c. is_word c \<or> c = CHR ''.'')))"

definition label_pattern :: "string \<Rightarrow> pattern" where
  "label_pattern word =
     (seqs [lit_ci word, opt (seqs [plus (Cls is_space), lit_ci ''name'']), spaces,
            Cls (\<lambda>c. c \<in> set '':=''), spaces, quote_opt],
      dotted_name, quote_opt)"

definition table_label :: pattern where
  "table_label = label_pattern ''table''"

definition column_label :: pattern where
  "column_label = label_pattern ''column''"

definition sql_table :: pattern where
  "sql_table =
     (seqs [WordB, alts [lit_ci ''CREATE'', lit_ci ''ALTER''], plus (Cls is_space), lit_ci ''TABLE'',
            opt (seqs [plus (Cls is_space), lit_ci ''IF'', plus (Cls is_space), lit_ci ''NOT'',
                       plus (Cls is_space), lit_ci ''EXISTS'']),
            plus (Cls is_space), quote_opt],
      dotted_name, quote_opt)"

definition sql_column :: pattern where
  "sql_column =
     (seqs [LineStart, Star (Cls (\<lambda>c. c = CHR '' '' \<or> c = CHR 0x09)), quote_opt],
      Seq (Cls (\<lambda>c. is_alpha c \<or> c = CHR ''_'')) (Star (Cls is_word)),
      seqs [quote_opt, plus (Cls (\<lambda>c. c = CHR '' '' \<or> c = CHR 0x09)),
            alts [lit_ci ''UUID'', lit_ci ''BIGINT'', lit_ci ''SMALLINT'',
                  Seq (lit_ci ''INT'') (opt (lit_ci ''EGER'')), lit_ci ''VARCHAR'', lit_ci ''CHAR'',
                  lit_ci ''TEXT'', lit_ci ''BOOLEAN'', lit_ci ''BOOL'', lit_ci ''DATE'',
                  lit_ci ''TIMESTAMP'', lit_ci ''TIMESTAMPTZ'', lit_ci ''NUMERIC'', lit_ci ''DECIMAL'',
                  lit_ci ''REAL'', lit_ci ''DOUBLE'', Seq (lit_ci ''JSON'') (opt (lit_ci ''B'')),
                  lit_ci ''BYTEA''],
            WordB])"

definition source_rank :: "IdentifierSource \<Rightarrow> nat" where
  "source_rank src = (case src of SRC_MANUAL \<Rightarrow> 3 | SRC_STRUCTURE \<Rightarrow> 2 | SRC_REGEX \<Rightarrow> 1)"

definition ei_key :: "ExtractedIdentifier \<Rightarrow> IdentifierType \<times> string" where
  "ei_key item = (ei_identifier_type item, ei_normalized_value item)"

definition dedupe_step ::
  "((IdentifierType \<times> string) \<times> ExtractedIdentifier) list \<Rightarrow> ExtractedIdentifier
    \<Rightarrow> ((IdentifierType \<times> string) \<times> ExtractedIdentifier) list" where
  "dedupe_step acc item =
     (case map_of acc (ei_key item) of
        None \<Rightarrow> acc @ [(ei_key item, item)]
      | Some previous \<Rightarrow>
          if source_rank (ei_source item) > source_rank (ei_source previous)
          then AList.update (ei_key item) item acc else acc)"

definition deduplicate :: "ExtractedIdentifier list \<Rightarrow> ExtractedIdentifier list" where
  "deduplicate values = map snd (foldl dedupe_step [] values)"

definition extracted ::
  "int option \<Rightarrow> string option \<Rightarrow> IdentifierSource \<Rightarrow> IdentifierType \<Rightarrow> string \<Rightarrow> ExtractedIdentifier res"
where
  "extracted page section src ty raw =
     bind_res (normalize_identifier ty raw) (\<lambda>v.
       Inr \<lparr>ei_identifier_type = ty, ei_raw_value = raw, ei_normalized_value = v, ei_source = src,
            ei_confidence = 1, ei_page_no = page, ei_section = section\<rparr>)"

definition extract_labeled_structure ::
  "int option \<Rightarrow> string option \<Rightarrow> string \<Rightarrow> IdentifierType \<Rightarrow> pattern \<Rightarrow> ExtractedIdentifier list res"
where
  "extract_labeled_structure page section txt ty p =
     map_res (\<lambda>m. extracted page section SRC_STRUCTURE ty (snd m)) (finditer p txt)"

definition extract_patterns ::
  "int option \<Rightarrow> string option \<Rightarrow> string \<Rightarrow> ExtractedIdentifier list res" where
  "extract_patterns page section txt =
     bind_res
       (map_res (\<lambda>(ty, p). map_res (\<lambda>m. extracted page section SRC_REGEX ty (fst m)) (finditer p txt))
          patterns)
       (\<lambda>found. Inr (concat found))"

definition extract_automatic ::
  "int option \<Rightarrow> string option \<Rightarrow> string \<Rightarrow> ExtractedIdentifier list res" where
  "extract_automatic page section txt =
     bind_res (extract_patterns page section txt) (\<lambda>vs.
     bind_res (map_res (\<lambda>(ty, p). extract_labeled_structure page section txt ty p)
                 [(DB_TABLE, table_label), (DB_COLUMN, column_label),
                  (DB_TABLE, sql_table), (DB_COLUMN, sql_column)]) (\<lambda>found.
     Inr (deduplicate (vs @ concat found))))"

definition manual_extracted ::
  "int option \<Rightarrow> string option \<Rightarrow> ManualIdentifier \<Rightarrow> ExtractedIdentifier res" where
  "manual_extracted page section item =
     extracted (case mi_page_no item of None \<Rightarrow> page | Some p \<Rightarrow> Some p)
       (case mi_section item of None \<Rightarrow> section | Some s \<Rightarrow> Some s)
       SRC_MANUAL (mi_identifier_type item) (mi_raw_value item)"

definition extract_identifiers ::
  "ManualIdentifier list \<Rightarrow> IdentifierType list \<Rightarrow> int option \<Rightarrow> string option \<Rightarrow> string
    \<Rightarrow> ExtractedIdentifier list res" where
  "extract_identifiers manual_identifiers manual_override_types page section txt =
     bind_res (extract_automatic page section txt) (\<lambda>automatic.
     bind_res (map_res (manual_extracted page section) manual_identifiers) (\<lambda>manual.
       let manual_types = map ei_identifier_type manual @ manual_override_types;
           merged = filter (\<lambda>item. ei_identifier_type item \<notin> set manual_types) automatic @ manual
       in Inr (deduplicate merged)))"

abbreviation extract_text :: "string \<Rightarrow> ExtractedIdentifier list res" where
  "extract_text \<equiv> extract_identifiers [] [] None None"

section \<open>The registry\<close>

record DocumentIdentifierModel =
  di_id :: uuid
  di_company_id :: uuid
  di_project_id :: uuid
  di_document_version_id :: uuid
  di_identifier_type :: IdentifierType
  di_normalized_value :: string
  di_raw_value :: string
  di_page_no :: "int option"
  di_section :: "string option"
  di_source :: IdentifierSource
  di_confidence :: "score option"
  di_created_at :: datetime

type_synonym registry = "DocumentIdentifierModel list"

definition identifier_row ::
  "datetime \<Rightarrow> uuid \<Rightarrow> uuid \<Rightarrow> uuid \<Rightarrow> uuid \<Rightarrow> ExtractedIdentifier \<Rightarrow> DocumentIdentifierModel" where
  "identifier_row now new_id company project version e =
     \<lparr>di_id = new_id, di_company_id = company, di_project_id = project,
      di_document_version_id = version, di_identifier_type = ei_identifier_type e,
      di_normalized_value = ei_normalized_value e, di_raw_value = ei_raw_value e,
      di_page_no = ei_page_no e, di_section = ei_section e, di_source = ei_source e,
      di_confidence = Some (ei_confidence e), di_created_at = now\<rparr>"

text \<open>Row ids come from \<open>new_ids\<close>; rows of one transaction have the same \<open>created_at\<close>.\<close>

definition replace_for_document_version ::
  "(nat \<Rightarrow> uuid) \<Rightarrow> datetime \<Rightarrow> uuid \<Rightarrow> uuid \<Rightarrow> uuid \<Rightarrow> ExtractedIdentifier list
    \<Rightarrow> registry \<Rightarrow> DocumentIdentifierModel list \<times> registry" where
  "replace_for_document_version new_ids now company project version identifiers rows =
     (let models = map (\<lambda>(i, e). identifier_row now (new_ids i) company project version e)
                     (List.enumerate 0 identifiers)
      in (models, filter (\<lambda>r. di_document_version_id r \<noteq> version) rows @ models))"

definition repo_find_exact ::
  "uuid \<Rightarrow> IdentifierType \<Rightarrow> string \<Rightarrow> registry \<Rightarrow> DocumentIdentifierModel list" where
  "repo_find_exact project ty v rows =
     sort_key (\<lambda>r. (di_created_at r, di_id r))
       (filter (\<lambda>r. di_project_id r = project \<and> di_identifier_type r = ty \<and> di_normalized_value r = v)
          rows)"

text \<open>One row per value, with the largest similarity of its group.\<close>

definition repo_suggest ::
  "(string \<Rightarrow> string \<Rightarrow> score) \<Rightarrow> uuid \<Rightarrow> IdentifierType \<Rightarrow> string \<Rightarrow> nat \<Rightarrow> score \<Rightarrow> registry
    \<Rightarrow> IdentifierSpellingSuggestion list" where
  "repo_suggest similarity project ty v limit threshold rows =
     (let hits = fromkeys (map di_normalized_value (filter
                   (\<lambda>r. di_project_id r = project \<and> di_identifier_type r = ty \<and>
                        di_normalized_value r \<noteq> v \<and> threshold \<le> similarity (di_normalized_value r) v)
                   rows));
          ordered = sort_key (\<lambda>w. (- similarity w v, w)) hits
      in map (\<lambda>w. \<lparr>ss_normalized_value = w, ss_similarity = similarity w v\<rparr>) (take limit ordered))"

definition index_text ::
  "(nat \<Rightarrow> uuid) \<Rightarrow> datetime \<Rightarrow> uuid \<Rightarrow> uuid \<Rightarrow> uuid \<Rightarrow> string \<Rightarrow> ManualIdentifier list
    \<Rightarrow> IdentifierType list \<Rightarrow> int option \<Rightarrow> string option \<Rightarrow> (DocumentIdentifierModel list, registry) op"
where
  "index_text new_ids now company project version txt manual override page section =
     bind_op (of_res (extract_identifiers manual override page section txt)) (\<lambda>identifiers rows.
       let (models, rows') =
             replace_for_document_version new_ids now company project version identifiers rows
       in (Inr models, rows'))"

definition find_exact ::
  "uuid \<Rightarrow> IdentifierType \<Rightarrow> string \<Rightarrow> registry \<Rightarrow> DocumentIdentifierModel list res" where
  "find_exact project ty v rows =
     bind_res (normalize_identifier ty v) (\<lambda>n. Inr (repo_find_exact project ty n rows))"

definition suggest_spelling ::
  "(string \<Rightarrow> string \<Rightarrow> score) \<Rightarrow> uuid \<Rightarrow> IdentifierType \<Rightarrow> string \<Rightarrow> int \<Rightarrow> score \<Rightarrow> registry
    \<Rightarrow> IdentifierSpellingSuggestion list res" where
  "suggest_spelling similarity project ty v limit threshold rows =
     (if limit < 1 \<or> limit > 20 then Inl (ValueError ''limit must be between 1 and 20'')
      else if \<not> (0 \<le> threshold \<and> threshold \<le> 1) then Inl (ValueError ''threshold must be between 0 and 1'')
      else bind_res (normalize_identifier ty v) (\<lambda>n.
             Inr (repo_suggest similarity project ty n (nat limit) threshold rows)))"

section \<open>Query analysis and exact resolution\<close>

record QueryExactIdentifier =
  qi_identifier_type :: IdentifierType
  qi_raw_value :: string
  qi_normalized_value :: string

record QueryAnalysis =
  qa_original_query :: string
  qa_standalone_query :: string
  qa_exact_identifiers :: "QueryExactIdentifier list"

definition project_codes :: "QueryAnalysis \<Rightarrow> string list" where
  "project_codes an = map qi_normalized_value
     (filter (\<lambda>i. qi_identifier_type i = PROJECT_CODE) (qa_exact_identifiers an))"

definition analyze :: "string \<Rightarrow> QueryAnalysis res" where
  "analyze query =
     (let normalized_query = py_strip query
      in if normalized_query = [] then Inl (ValueError ''query cannot be blank'')
         else bind_res (extract_text normalized_query) (\<lambda>found.
           Inr \<lparr>qa_original_query = query, qa_standalone_query = normalized_query,
                qa_exact_identifiers =
                  map (\<lambda>e. \<lparr>qi_identifier_type = ei_identifier_type e, qi_raw_value = ei_raw_value e,
                            qi_normalized_value = ei_normalized_value e\<rparr>) found\<rparr>))"

record IdentifierResolution =
  ir_identifier_type :: IdentifierType
  ir_raw_value :: string
  ir_normalized_value :: string
  ir_authorized_document_version_ids :: "uuid list"
  ir_unique_authorized_hit :: bool

record ExactResolutionResult =
  er_resolutions :: "IdentifierResolution list"
  er_constrained_document_version_ids :: "uuid list"

definition resolve_one ::
  "uuid \<Rightarrow> uuid list \<Rightarrow> registry \<Rightarrow> QueryExactIdentifier \<Rightarrow> IdentifierResolution res" where
  "resolve_one project allowed rows i =
     bind_res (find_exact project (qi_identifier_type i) (qi_normalized_value i) rows) (\<lambda>hits.
       let authorized = sorted_set_by uuid_str
             (filter (\<lambda>v. v \<in> set allowed) (map di_document_version_id hits))
       in Inr \<lparr>ir_identifier_type = qi_identifier_type i, ir_raw_value = qi_raw_value i,
               ir_normalized_value = qi_normalized_value i,
               ir_authorized_document_version_ids = authorized,
               ir_unique_authorized_hit = (length authorized = 1)\<rparr>)"

definition resolve ::
  "uuid \<Rightarrow> QueryAnalysis \<Rightarrow> uuid list \<Rightarrow> registry \<Rightarrow> ExactResolutionResult res" where
  "resolve project an allowed rows =
     bind_res (map_res (resolve_one project allowed rows)
                 (filter (\<lambda>i. qi_identifier_type i \<noteq> PROJECT_CODE) (qa_exact_identifiers an)))
       (\<lambda>rs. Inr \<lparr>er_resolutions = rs,
                   er_constrained_document_version_ids = sorted_set_by uuid_str
                     (concat (map ir_authorized_document_version_ids
                                (filter ir_unique_authorized_hit rs)))\<rparr>)"

section \<open>De-duplication keeps the strongest source of every key\<close>

definition dedupe_of ::
  "ExtractedIdentifier list \<Rightarrow> ((IdentifierType \<times> string) \<times> ExtractedIdentifier) list \<Rightarrow> bool" where
  "dedupe_of vs acc \<longleftrightarrow>
     distinct (map fst acc) \<and> dom (map_of acc) = ei_key ` set vs \<and>
     (\<forall>k e. map_of acc k = Some e \<longrightarrow> ei_key e = k \<and> e \<in> set vs \<and>
        (\<forall>v\<in>set vs. ei_key v = k \<longrightarrow> source_rank (ei_source v) \<le> source_rank (ei_source e)))"

lemma dedupe_step_of:
  assumes acc: "dedupe_of vs acc"
  shows "dedupe_of (vs @ [v]) (dedupe_step acc v)"
proof -
  have dist: "distinct (map fst acc)" and dom: "dom (map_of acc) = ei_key ` set vs"
    and el: "\<And>k e. map_of acc k = Some e \<Longrightarrow> ei_key e = k \<and> e \<in> set vs \<and>
        (\<forall>w\<in>set vs. ei_key w = k \<longrightarrow> source_rank (ei_source w) \<le> source_rank (ei_source e))"
    using acc by (auto simp: dedupe_of_def)
  show ?thesis
  proof (cases "map_of acc (ei_key v)")
    case None
    then have fresh: "\<forall>w\<in>set vs. ei_key w \<noteq> ei_key v" using dom by (metis domIff image_eqI)
    have m: "map_of (acc @ [(ei_key v, v)]) = (map_of acc)(ei_key v \<mapsto> v)"
      using None by (auto simp: map_add_def fun_eq_iff split: option.splits)
    have "ei_key v \<notin> set (map fst acc)" using None by (simp add: map_of_eq_None_iff)
    then have "distinct (map fst (acc @ [(ei_key v, v)]))" using dist by simp
    then show ?thesis
      unfolding dedupe_of_def dedupe_step_def None option.simps m
      using dom fresh el by (auto split: if_splits)
  next
    case (Some e)
    show ?thesis
    proof (cases "source_rank (ei_source e) < source_rank (ei_source v)")
      case True
      have m: "map_of (dedupe_step acc v) = (map_of acc)(ei_key v \<mapsto> v)"
        and d: "distinct (map fst (dedupe_step acc v))"
        using Some True dist by (simp_all add: dedupe_step_def update_conv' distinct_update)
      have "source_rank (ei_source w) \<le> source_rank (ei_source v)"
        if "w \<in> set vs" "ei_key w = ei_key v" for w
        using el [OF Some] that True by fastforce
      then show ?thesis unfolding dedupe_of_def m using d dom el by simp
    next
      case False
      have stay: "dedupe_step acc v = acc" using Some False by (simp add: dedupe_step_def)
      have "ei_key v \<in> ei_key ` set vs" using Some dom by blast
      moreover have "source_rank (ei_source v) \<le> source_rank (ei_source f)"
        if "map_of acc (ei_key v) = Some f" for f
        using that Some False by simp
      ultimately show ?thesis
        unfolding dedupe_of_def stay using dist dom el by auto
    qed
  qed
qed

lemma foldl_dedupe: "dedupe_of vs (foldl dedupe_step [] vs)"
proof (induction vs rule: rev_induct)
  case Nil
  show ?case by (simp add: dedupe_of_def)
next
  case (snoc v vs)
  then show ?case using dedupe_step_of by simp
qed

lemma deduplicate_facts:
  shows "distinct (map ei_key (deduplicate vs))"
    and "ei_key ` set (deduplicate vs) = ei_key ` set vs"
    and "set (deduplicate vs) \<subseteq> set vs"
    and "e \<in> set (deduplicate vs) \<Longrightarrow> v \<in> set vs \<Longrightarrow> ei_key v = ei_key e \<Longrightarrow>
           source_rank (ei_source v) \<le> source_rank (ei_source e)"
proof -
  define acc where "acc = foldl dedupe_step [] vs"
  have of: "dedupe_of vs acc" unfolding acc_def by (rule foldl_dedupe)
  have dd: "deduplicate vs = map snd acc" by (simp add: deduplicate_def acc_def)
  have el: "map_of acc (fst p) = Some (snd p)" if "p \<in> set acc" for p
    using of that by (simp add: dedupe_of_def)
  have keys: "map ei_key (map snd acc) = map fst acc"
    using of el by (auto simp: dedupe_of_def)
  show "distinct (map ei_key (deduplicate vs))"
    unfolding dd keys using of by (simp add: dedupe_of_def)
  have "ei_key ` set (deduplicate vs) = set (map ei_key (map snd acc))" by (simp add: dd image_image)
  also have "\<dots> = dom (map_of acc)" unfolding keys by (simp add: dom_map_of_conv_image_fst)
  finally show "ei_key ` set (deduplicate vs) = ei_key ` set vs" using of by (simp add: dedupe_of_def)
  show "set (deduplicate vs) \<subseteq> set vs"
    unfolding dd using of el unfolding dedupe_of_def by fastforce
  show "source_rank (ei_source v) \<le> source_rank (ei_source e)"
    if e: "e \<in> set (deduplicate vs)" and v: "v \<in> set vs" "ei_key v = ei_key e"
  proof -
    obtain p where p: "p \<in> set acc" "e = snd p" using e dd by auto
    have m: "map_of acc (fst p) = Some e" using el [OF p(1)] p(2) by simp
    have "\<forall>k e. map_of acc k = Some e \<longrightarrow> ei_key e = k \<and> e \<in> set vs \<and>
        (\<forall>v\<in>set vs. ei_key v = k \<longrightarrow> source_rank (ei_source v) \<le> source_rank (ei_source e))"
      using of unfolding dedupe_of_def by blast
    then show ?thesis using m v by metis
  qed
qed

section \<open>What extraction returns\<close>

lemma extracted_Inr:
  assumes "extracted page section src ty raw = Inr e"
  shows "normalize_identifier (ei_identifier_type e) (ei_raw_value e) = Inr (ei_normalized_value e)"
    and "ei_source e = src" and "ei_raw_value e = raw" and "ei_identifier_type e = ty"
  using assms by (auto simp: extracted_def bind_res_Inr_iff)

definition found_in :: "string \<Rightarrow> ExtractedIdentifier \<Rightarrow> bool" where
  "found_in txt e \<longleftrightarrow>
     ei_source e \<noteq> SRC_MANUAL \<and> piece_of (ei_raw_value e) txt \<and>
     normalize_identifier (ei_identifier_type e) (ei_raw_value e) = Inr (ei_normalized_value e)"

lemma extract_patterns_found:
  assumes "extract_patterns page section txt = Inr vs" and "e \<in> set vs"
  shows "found_in txt e"
proof -
  obtain found where
    f: "map_res (\<lambda>(ty, p). map_res (\<lambda>m. extracted page section SRC_REGEX ty (fst m)) (finditer p txt))
          patterns = Inr found"
    and vs: "vs = concat found"
    using assms(1) by (auto simp: extract_patterns_def bind_res_Inr_iff)
  from assms(2) vs obtain es where es: "es \<in> set found" "e \<in> set es" by auto
  obtain tp where
    tp: "map_res (\<lambda>m. extracted page section SRC_REGEX (fst tp) (fst m)) (finditer (snd tp) txt) = Inr es"
    using map_res_Inr_set [OF f es(1)] by auto
  obtain m where m: "m \<in> set (finditer (snd tp) txt)"
    "extracted page section SRC_REGEX (fst tp) (fst m) = Inr e"
    using map_res_Inr_set [OF tp es(2)] by blast
  show ?thesis
    using extracted_Inr [OF m(2)] finditer_pieces(1) [OF m(1)] by (simp add: found_in_def)
qed

lemma extract_structure_found:
  assumes "extract_labeled_structure page section txt ty p = Inr vs" and "e \<in> set vs"
  shows "found_in txt e"
proof -
  obtain m where m: "m \<in> set (finditer p txt)"
    "extracted page section SRC_STRUCTURE ty (snd m) = Inr e"
    using map_res_Inr_set assms unfolding extract_labeled_structure_def by meson
  show ?thesis
    using extracted_Inr [OF m(2)] finditer_pieces(2) [OF m(1)] by (simp add: found_in_def)
qed

lemma extract_automatic_found:
  assumes "extract_automatic page section txt = Inr vs" and "e \<in> set vs"
  shows "found_in txt e"
proof -
  obtain ps found where ps: "extract_patterns page section txt = Inr ps"
    and f: "map_res (\<lambda>(ty, p). extract_labeled_structure page section txt ty p)
         [(DB_TABLE, table_label), (DB_COLUMN, column_label),
          (DB_TABLE, sql_table), (DB_COLUMN, sql_column)] = Inr found"
    and vs: "vs = deduplicate (ps @ concat found)"
    using assms(1) unfolding extract_automatic_def bind_res_Inr_iff by auto
  from assms(2) vs deduplicate_facts(3) have "e \<in> set ps \<or> (\<exists>es\<in>set found. e \<in> set es)" by fastforce
  then show ?thesis
  proof
    assume "e \<in> set ps"
    then show ?thesis using extract_patterns_found [OF ps] by blast
  next
    assume "\<exists>es\<in>set found. e \<in> set es"
    then obtain es where es: "es \<in> set found" "e \<in> set es" by blast
    then obtain tp where "(\<lambda>(ty, p). extract_labeled_structure page section txt ty p) tp = Inr es"
      using map_res_Inr_set [OF f] by blast
    then show ?thesis using extract_structure_found es(2) by (cases tp) auto
  qed
qed

lemma extract_identifiers_cases:
  assumes "extract_identifiers manual override page section txt = Inr items"
  obtains automatic ms where "extract_automatic page section txt = Inr automatic"
    "map_res (manual_extracted page section) manual = Inr ms"
    "items = deduplicate
       (filter (\<lambda>e. ei_identifier_type e \<notin> set (map ei_identifier_type ms @ override)) automatic @ ms)"
  using assms unfolding extract_identifiers_def bind_res_Inr_iff Let_def by auto

lemma manual_Inr_types:
  assumes "map_res (manual_extracted page section) manual = Inr ms"
  shows "map ei_identifier_type ms = map mi_identifier_type manual"
    and "\<And>e. e \<in> set ms \<Longrightarrow> ei_source e = SRC_MANUAL \<and>
      normalize_identifier (ei_identifier_type e) (ei_raw_value e) = Inr (ei_normalized_value e)"
    and "\<And>m. m \<in> set manual \<Longrightarrow> \<exists>e\<in>set ms. ei_identifier_type e = mi_identifier_type m \<and>
      normalize_identifier (mi_identifier_type m) (mi_raw_value m) = Inr (ei_normalized_value e)"
proof -
  have all: "list_all2 (\<lambda>m e. manual_extracted page section m = Inr e) manual ms"
    using assms by (simp add: map_res_Inr_iff)
  then show "map ei_identifier_type ms = map mi_identifier_type manual"
    by (induction rule: list_all2_induct)
      (auto simp: manual_extracted_def extracted_def bind_res_Inr_iff)
  from all show "\<And>e. e \<in> set ms \<Longrightarrow> ei_source e = SRC_MANUAL \<and>
      normalize_identifier (ei_identifier_type e) (ei_raw_value e) = Inr (ei_normalized_value e)"
    by (induction rule: list_all2_induct)
      (auto simp: manual_extracted_def extracted_def bind_res_Inr_iff)
  from all show "\<And>m. m \<in> set manual \<Longrightarrow> \<exists>e\<in>set ms. ei_identifier_type e = mi_identifier_type m \<and>
      normalize_identifier (mi_identifier_type m) (mi_raw_value m) = Inr (ei_normalized_value e)"
    by (induction rule: list_all2_induct)
      (auto simp: manual_extracted_def extracted_def bind_res_Inr_iff)
qed

lemma extraction_facts:
  assumes "extract_identifiers manual override page section txt = Inr items" and "e \<in> set items"
  shows "normalize_identifier (ei_identifier_type e) (ei_raw_value e) = Inr (ei_normalized_value e)"
    and "ei_source e \<noteq> SRC_MANUAL \<Longrightarrow> piece_of (ei_raw_value e) txt \<and>
          ei_identifier_type e \<notin> set override \<union> mi_identifier_type ` set manual"
proof -
  obtain au ms where au: "extract_automatic page section txt = Inr au"
    and ms: "map_res (manual_extracted page section) manual = Inr ms"
    and items: "items = deduplicate
       (filter (\<lambda>e. ei_identifier_type e \<notin> set (map ei_identifier_type ms @ override)) au @ ms)"
    using extract_identifiers_cases [OF assms(1)] .
  note types = manual_Inr_types [OF ms]
  have tys: "set (map ei_identifier_type ms) = mi_identifier_type ` set manual" by (simp add: types(1))
  have "(found_in txt e \<and> ei_identifier_type e \<notin> set override \<union> mi_identifier_type ` set manual)
      \<or> e \<in> set ms"
    using assms(2) items extract_automatic_found [OF au] tys
      deduplicate_facts(3) [of "filter (\<lambda>e. ei_identifier_type e
         \<notin> set (map ei_identifier_type ms @ override)) au @ ms"] by auto
  then show "normalize_identifier (ei_identifier_type e) (ei_raw_value e) = Inr (ei_normalized_value e)"
    and "ei_source e \<noteq> SRC_MANUAL \<Longrightarrow> piece_of (ei_raw_value e) txt \<and>
          ei_identifier_type e \<notin> set override \<union> mi_identifier_type ` set manual"
    using types(2) unfolding found_in_def by blast+
qed

text \<open>C34: what extraction returns has one entry per type and canonical value, each canonical value is
  the canonical form of the raw value, an automatically found value is a piece of the text of a type
  that is neither overridden nor manually given, every manual identifier is there under its canonical
  value, and every automatic find of the other types is there under its key.\<close>

theorem extraction_sound:
  assumes "extract_identifiers manual override page section txt = Inr items"
  shows "distinct (map ei_key items) \<and>
    (\<forall>e\<in>set items.
       normalize_identifier (ei_identifier_type e) (ei_raw_value e) = Inr (ei_normalized_value e) \<and>
       (ei_source e \<noteq> SRC_MANUAL \<longrightarrow> piece_of (ei_raw_value e) txt \<and>
          ei_identifier_type e \<notin> set override \<union> mi_identifier_type ` set manual)) \<and>
    (\<forall>m\<in>set manual. \<exists>e\<in>set items. ei_source e = SRC_MANUAL \<and>
       ei_identifier_type e = mi_identifier_type m \<and>
       normalize_identifier (mi_identifier_type m) (mi_raw_value m) = Inr (ei_normalized_value e)) \<and>
    (\<forall>automatic. extract_automatic page section txt = Inr automatic \<longrightarrow>
       (\<forall>a\<in>set automatic. ei_identifier_type a \<notin> set override \<union> mi_identifier_type ` set manual \<longrightarrow>
          (\<exists>e\<in>set items. ei_key e = ei_key a)))"
proof -
  obtain au ms where au: "extract_automatic page section txt = Inr au"
    and ms: "map_res (manual_extracted page section) manual = Inr ms"
    and items: "items = deduplicate
       (filter (\<lambda>e. ei_identifier_type e \<notin> set (map ei_identifier_type ms @ override)) au @ ms)"
    using extract_identifiers_cases [OF assms] .
  define kept where
    "kept = filter (\<lambda>e. ei_identifier_type e \<notin> set (map ei_identifier_type ms @ override)) au"
  note types = manual_Inr_types [OF ms]
  have items': "items = deduplicate (kept @ ms)" by (simp add: items kept_def)
  have tys: "set (map ei_identifier_type ms) = mi_identifier_type ` set manual" by (simp add: types(1))
  have kept: "found_in txt e \<and> ei_identifier_type e \<notin> set override \<union> mi_identifier_type ` set manual"
    if "e \<in> set kept" for e
    using that extract_automatic_found [OF au] tys by (auto simp: kept_def)
  have member: "e \<in> set kept \<or> e \<in> set ms" if "e \<in> set items" for e
    using that deduplicate_facts(3) [of "kept @ ms"] items' by auto
  have keys: "\<exists>e\<in>set items. ei_key e = ei_key a" if "a \<in> set (kept @ ms)" for a
    using that deduplicate_facts(2) [of "kept @ ms"] items' by (metis image_iff)
  have "\<forall>m\<in>set manual. \<exists>e\<in>set items. ei_source e = SRC_MANUAL \<and>
       ei_identifier_type e = mi_identifier_type m \<and>
       normalize_identifier (mi_identifier_type m) (mi_raw_value m) = Inr (ei_normalized_value e)"
  proof
    fix m assume "m \<in> set manual"
    then obtain f where f: "f \<in> set ms" "ei_identifier_type f = mi_identifier_type m"
      "normalize_identifier (mi_identifier_type m) (mi_raw_value m) = Inr (ei_normalized_value f)"
      using types(3) by blast
    obtain e where e: "e \<in> set items" "ei_key e = ei_key f" using keys [of f] f(1) by auto
    have "e \<notin> set kept"
      using kept [of e] e(2) f(2) \<open>m \<in> set manual\<close> by (auto simp: ei_key_def)
    then have "ei_source e = SRC_MANUAL" using member [OF e(1)] types(2) by blast
    then show "\<exists>e\<in>set items. ei_source e = SRC_MANUAL \<and>
       ei_identifier_type e = mi_identifier_type m \<and>
       normalize_identifier (mi_identifier_type m) (mi_raw_value m) = Inr (ei_normalized_value e)"
      using e f by (auto simp: ei_key_def)
  qed
  moreover have "\<forall>automatic. extract_automatic page section txt = Inr automatic \<longrightarrow>
       (\<forall>a\<in>set automatic. ei_identifier_type a \<notin> set override \<union> mi_identifier_type ` set manual \<longrightarrow>
          (\<exists>e\<in>set items. ei_key e = ei_key a))"
    using au keys tys by (auto simp: kept_def)
  moreover have "\<forall>e\<in>set items.
       normalize_identifier (ei_identifier_type e) (ei_raw_value e) = Inr (ei_normalized_value e) \<and>
       (ei_source e \<noteq> SRC_MANUAL \<longrightarrow> piece_of (ei_raw_value e) txt \<and>
          ei_identifier_type e \<notin> set override \<union> mi_identifier_type ` set manual)"
    using extraction_facts [OF assms] by blast
  moreover have "distinct (map ei_key items)" unfolding items' by (rule deduplicate_facts(1))
  ultimately show ?thesis by blast
qed

theorem extraction_sound_witness:
  "\<exists>items. extract_identifiers
       [\<lparr>mi_identifier_type = VERSION, mi_raw_value = ''V 2.0'', mi_page_no = None, mi_section = None\<rparr>]
       [ISSUE_KEY] None None ''E123 v1.2'' = Inr items \<and>
     map ei_normalized_value items = [''E123'', ''v2.0''] \<and> distinct (map ei_key items)"
proof -
  have ev: "map_sum id (map ei_normalized_value) (extract_identifiers
       [\<lparr>mi_identifier_type = VERSION, mi_raw_value = ''V 2.0'', mi_page_no = None, mi_section = None\<rparr>]
       [ISSUE_KEY] None None ''E123 v1.2'') = Inr [''E123'', ''v2.0'']"
    by code_simp
  then obtain items where "extract_identifiers
       [\<lparr>mi_identifier_type = VERSION, mi_raw_value = ''V 2.0'', mi_page_no = None, mi_section = None\<rparr>]
       [ISSUE_KEY] None None ''E123 v1.2'' = Inr items"
    by (cases "extract_identifiers
       [\<lparr>mi_identifier_type = VERSION, mi_raw_value = ''V 2.0'', mi_page_no = None, mi_section = None\<rparr>]
       [ISSUE_KEY] None None ''E123 v1.2''") auto
  then show ?thesis using extraction_sound ev by force
qed

section \<open>Indexing and lookup\<close>

definition entry_for :: "uuid \<Rightarrow> uuid \<Rightarrow> ExtractedIdentifier \<Rightarrow> DocumentIdentifierModel \<Rightarrow> bool" where
  "entry_for project version e r \<longleftrightarrow>
     di_project_id r = project \<and> di_document_version_id r = version \<and>
     di_identifier_type r = ei_identifier_type e \<and> di_normalized_value r = ei_normalized_value e \<and>
     di_raw_value r = ei_raw_value e"

lemma index_text_Inr:
  assumes "index_text new_ids now company project version txt manual override page section rows
             = (Inr models, rows')"
  obtains items where "extract_identifiers manual override page section txt = Inr items"
    "models = map (\<lambda>(i, e). identifier_row now (new_ids i) company project version e)
                (List.enumerate 0 items)"
    "rows' = filter (\<lambda>r. di_document_version_id r \<noteq> version) rows @ models"
  using assms
  by (auto simp: index_text_def bind_of_res replace_for_document_version_def Let_def
      split: sum.splits)

lemma enumerate_member: "e \<in> set es \<Longrightarrow> \<exists>i. (i, e) \<in> set (List.enumerate n es)"
  by (induction es arbitrary: n) auto

text \<open>C35: indexing a version replaces its entries and leaves every other version's alone, and each
  identifier extracted from the text can then be found by its raw value: the lookup returns an entry
  of that version, and whatever it returns is of the project, type and canonical value asked for, the
  oldest entries first.\<close>

theorem index_then_find:
  assumes "index_text new_ids now company project version txt manual override page section rows
             = (Inr models, rows')"
    and "extract_identifiers manual override page section txt = Inr items"
  shows "filter (\<lambda>r. di_document_version_id r \<noteq> version) rows'
           = filter (\<lambda>r. di_document_version_id r \<noteq> version) rows \<and>
    length (filter (\<lambda>r. di_document_version_id r = version) rows') = length items \<and>
    (\<forall>e\<in>set items. \<exists>hits.
       find_exact project (ei_identifier_type e) (ei_raw_value e) rows' = Inr hits \<and>
       (\<exists>r\<in>set hits. entry_for project version e r) \<and>
       (\<forall>r\<in>set hits. r \<in> set rows' \<and> di_project_id r = project \<and>
          di_identifier_type r = ei_identifier_type e \<and> di_normalized_value r = ei_normalized_value e) \<and>
       sorted (map (\<lambda>r. (di_created_at r, di_id r)) hits))"
proof -
  have models: "models = map (\<lambda>(i, e). identifier_row now (new_ids i) company project version e)
        (List.enumerate 0 items)"
    and rows': "rows' = filter (\<lambda>r. di_document_version_id r \<noteq> version) rows @ models"
    using index_text_Inr [OF assms(1)] assms(2) by auto
  have vs: "di_document_version_id r = version" if "r \<in> set models" for r
    using that by (auto simp: models identifier_row_def)
  have none: "filter (\<lambda>r. di_document_version_id r \<noteq> version) models = []"
    and all: "filter (\<lambda>r. di_document_version_id r = version) models = models"
    using vs by (auto simp: filter_empty_conv filter_id_conv)
  have found: "\<exists>hits.
       find_exact project (ei_identifier_type e) (ei_raw_value e) rows' = Inr hits \<and>
       (\<exists>r\<in>set hits. entry_for project version e r) \<and>
       (\<forall>r\<in>set hits. r \<in> set rows' \<and> di_project_id r = project \<and>
          di_identifier_type r = ei_identifier_type e \<and> di_normalized_value r = ei_normalized_value e) \<and>
       sorted (map (\<lambda>r. (di_created_at r, di_id r)) hits)"
    if e: "e \<in> set items" for e
  proof -
    have n: "normalize_identifier (ei_identifier_type e) (ei_raw_value e) = Inr (ei_normalized_value e)"
      using extraction_facts(1) [OF assms(2) e] .
    obtain i where "(i, e) \<in> set (List.enumerate 0 items)" using enumerate_member [OF e] by blast
    then have "identifier_row now (new_ids i) company project version e \<in> set models"
      unfolding models by (auto intro!: image_eqI [where x = "(i, e)"])
    moreover have "entry_for project version e (identifier_row now (new_ids i) company project version e)"
      by (simp add: entry_for_def identifier_row_def)
    ultimately have "\<exists>r\<in>set rows'. entry_for project version e r" unfolding rows' by auto
    then show ?thesis
      by (auto simp: find_exact_def n repo_find_exact_def entry_for_def)
  qed
  then show ?thesis using none all by (simp add: rows' models)
qed

definition sample_registry :: registry where
  "sample_registry =
     snd (index_text (\<lambda>i. of_nat i) 0 1 2 3 ''E123'' [] [] None None [])"

definition sample_identifier :: ExtractedIdentifier where
  "sample_identifier = \<lparr>ei_identifier_type = ERROR_CODE, ei_raw_value = ''E123'',
     ei_normalized_value = ''E123'', ei_source = SRC_REGEX, ei_confidence = 1, ei_page_no = None,
     ei_section = None\<rparr>"

lemma extract_sample: "extract_text ''E123'' = Inr [sample_identifier]"
  by code_simp

lemma sample_registry_simps: "sample_registry = [identifier_row 0 0 1 2 3 sample_identifier]"
  by (simp add: sample_registry_def index_text_def extract_sample replace_for_document_version_def
      Let_def)

lemma normalize_sample: "normalize_identifier ERROR_CODE ''E123'' = Inr ''E123''"
  by code_simp

theorem index_then_find_witness:
  "\<exists>models rows' items hits.
     index_text (\<lambda>i. of_nat (Suc i)) 1 1 2 4 ''E123'' [] [] None None sample_registry
       = (Inr models, rows') \<and>
     extract_identifiers [] [] None None ''E123'' = Inr items \<and> length items = 1 \<and>
     find_exact 2 ERROR_CODE ''E123'' rows' = Inr hits \<and>
     (\<exists>r\<in>set hits. entry_for 2 4 (hd items) r) \<and> map di_document_version_id hits = [3, 4]"
proof -
  have ix: "index_text (\<lambda>i. of_nat (Suc i)) 1 1 2 4 ''E123'' [] [] None None sample_registry
      = (Inr [identifier_row 1 1 1 2 4 sample_identifier],
         sample_registry @ [identifier_row 1 1 1 2 4 sample_identifier])"
    by (simp add: index_text_def extract_sample replace_for_document_version_def sample_registry_simps
        identifier_row_def Let_def)
  have "find_exact 2 ERROR_CODE ''E123'' (sample_registry @ [identifier_row 1 1 1 2 4 sample_identifier])
      = Inr [identifier_row 0 0 1 2 3 sample_identifier, identifier_row 1 1 1 2 4 sample_identifier]"
    by (simp add: find_exact_def normalize_sample repo_find_exact_def sample_registry_simps
        identifier_row_def sample_identifier_def)
  then show ?thesis
    using index_then_find [OF ix extract_sample] ix extract_sample
    by (auto simp: sample_identifier_def identifier_row_def)
qed

section \<open>Resolution stays within the authorized versions\<close>

definition registered :: "registry \<Rightarrow> uuid \<Rightarrow> IdentifierType \<Rightarrow> string \<Rightarrow> uuid \<Rightarrow> bool" where
  "registered rows project ty v version \<longleftrightarrow>
     (\<exists>r\<in>set rows. di_project_id r = project \<and> di_identifier_type r = ty \<and>
        di_normalized_value r = v \<and> di_document_version_id r = version)"

lemma resolve_one_Inr:
  assumes "resolve_one project allowed rows i = Inr s"
  obtains v where "normalize_identifier (qi_identifier_type i) (qi_normalized_value i) = Inr v"
    "set (ir_authorized_document_version_ids s) =
       {u. u \<in> set allowed \<and> registered rows project (qi_identifier_type i) v u}"
    "distinct (ir_authorized_document_version_ids s)"
    "ir_unique_authorized_hit s \<longleftrightarrow> length (ir_authorized_document_version_ids s) = 1"
    "ir_normalized_value s = qi_normalized_value i" "ir_identifier_type s = qi_identifier_type i"
proof -
  obtain v where v: "normalize_identifier (qi_identifier_type i) (qi_normalized_value i) = Inr v"
    and s: "s = \<lparr>ir_identifier_type = qi_identifier_type i, ir_raw_value = qi_raw_value i,
      ir_normalized_value = qi_normalized_value i,
      ir_authorized_document_version_ids = sorted_set_by uuid_str (filter (\<lambda>u. u \<in> set allowed)
        (map di_document_version_id (repo_find_exact project (qi_identifier_type i) v rows))),
      ir_unique_authorized_hit = (length (sorted_set_by uuid_str (filter (\<lambda>u. u \<in> set allowed)
        (map di_document_version_id (repo_find_exact project (qi_identifier_type i) v rows)))) = 1)\<rparr>"
    using assms unfolding resolve_one_def find_exact_def bind_res_Inr_iff Let_def by auto
  show thesis
    by (rule that [OF v]) (auto simp: s registered_def repo_find_exact_def)
qed

text \<open>C36: the versions to which a query is narrowed are authorized ones, and each of them is the only
  authorized version of the project that the registry has for what it looks up for one of the query's identifiers:
  the canonical form of the identifier's canonical form, since the registry normalizes once more. (The two differ
  for a path like \<open>/api/x./\<close>, which is looked up as \<open>/api/x\<close>.) The resolutions follow the identifiers in
  order, and each lists exactly the authorized versions registered for that value.\<close>

theorem resolver_confined:
  assumes "resolve project an allowed rows = Inr result"
  shows "set (er_constrained_document_version_ids result) \<subseteq> set allowed \<and>
    (\<forall>u\<in>set (er_constrained_document_version_ids result).
       \<exists>i\<in>set (qa_exact_identifiers an). \<exists>v. qi_identifier_type i \<noteq> PROJECT_CODE \<and>
         normalize_identifier (qi_identifier_type i) (qi_normalized_value i) = Inr v \<and>
         {w. w \<in> set allowed \<and> registered rows project (qi_identifier_type i) v w} = {u}) \<and>
    length (er_resolutions result)
      = length (filter (\<lambda>i. qi_identifier_type i \<noteq> PROJECT_CODE) (qa_exact_identifiers an)) \<and>
    (\<forall>s\<in>set (er_resolutions result).
       set (ir_authorized_document_version_ids s) \<subseteq> set allowed) \<and>
    list_all2 (\<lambda>i s. \<exists>v. normalize_identifier (qi_identifier_type i) (qi_normalized_value i) = Inr v \<and>
         set (ir_authorized_document_version_ids s) =
           {w. w \<in> set allowed \<and> registered rows project (qi_identifier_type i) v w})
      (filter (\<lambda>i. qi_identifier_type i \<noteq> PROJECT_CODE) (qa_exact_identifiers an)) (er_resolutions result)"
proof -
  let ?is = "filter (\<lambda>i. qi_identifier_type i \<noteq> PROJECT_CODE) (qa_exact_identifiers an)"
  obtain rs where rs: "map_res (resolve_one project allowed rows) ?is = Inr rs"
    and res: "er_resolutions result = rs"
    "er_constrained_document_version_ids result = sorted_set_by uuid_str
       (concat (map ir_authorized_document_version_ids (filter ir_unique_authorized_hit rs)))"
    using assms by (auto simp: resolve_def bind_res_Inr_iff)
  have len: "length rs = length ?is"
    using rs by (auto simp: map_res_Inr_iff dest: list_all2_lengthD)
  have sub: "set (ir_authorized_document_version_ids s) \<subseteq> set allowed" if s: "s \<in> set rs" for s
  proof -
    obtain i where "resolve_one project allowed rows i = Inr s" using map_res_Inr_set [OF rs s] by blast
    then show ?thesis by (rule resolve_one_Inr) auto
  qed
  have uniq: "\<exists>i\<in>set (qa_exact_identifiers an). \<exists>v. qi_identifier_type i \<noteq> PROJECT_CODE \<and>
         normalize_identifier (qi_identifier_type i) (qi_normalized_value i) = Inr v \<and>
         {w. w \<in> set allowed \<and> registered rows project (qi_identifier_type i) v w} = {u}"
    if u: "s \<in> set rs" "ir_unique_authorized_hit s" "u \<in> set (ir_authorized_document_version_ids s)" for s u
  proof -
    obtain i where i: "i \<in> set ?is" "resolve_one project allowed rows i = Inr s"
      using map_res_Inr_set [OF rs u(1)] by blast
    obtain v where v: "normalize_identifier (qi_identifier_type i) (qi_normalized_value i) = Inr v"
      "set (ir_authorized_document_version_ids s) =
         {w. w \<in> set allowed \<and> registered rows project (qi_identifier_type i) v w}"
      "length (ir_authorized_document_version_ids s) = 1"
      by (rule resolve_one_Inr [OF i(2)]) (use u(2) in auto)
    from v(3) u(3) have "set (ir_authorized_document_version_ids s) = {u}"
      by (cases "ir_authorized_document_version_ids s") auto
    then show ?thesis using v i(1) by auto
  qed
  have "set (er_constrained_document_version_ids result) \<subseteq> set allowed"
    using sub by (auto simp: res(2))
  moreover have "\<forall>u\<in>set (er_constrained_document_version_ids result).
       \<exists>i\<in>set (qa_exact_identifiers an). \<exists>v. qi_identifier_type i \<noteq> PROJECT_CODE \<and>
         normalize_identifier (qi_identifier_type i) (qi_normalized_value i) = Inr v \<and>
         {w. w \<in> set allowed \<and> registered rows project (qi_identifier_type i) v w} = {u}"
    using uniq by (auto simp: res(2))
  moreover have "list_all2 (\<lambda>i s. \<exists>v. normalize_identifier (qi_identifier_type i) (qi_normalized_value i) = Inr v \<and>
       set (ir_authorized_document_version_ids s) =
         {w. w \<in> set allowed \<and> registered rows project (qi_identifier_type i) v w}) ?is rs"
    using rs unfolding map_res_Inr_iff by (rule list_all2_mono) (erule resolve_one_Inr, blast)
  ultimately show ?thesis using len sub by (simp add: res(1))
qed

theorem resolver_confined_witness:
  "\<exists>an result. analyze '' E123 '' = Inr an \<and>
     resolve 2 an [3, 5] sample_registry = Inr result \<and>
     er_constrained_document_version_ids result = [3] \<and>
     set (er_constrained_document_version_ids result) \<subseteq> set [3, 5]"
proof -
  define an where "an = \<lparr>qa_original_query = '' E123 '', qa_standalone_query = ''E123'',
      qa_exact_identifiers = [\<lparr>qi_identifier_type = ERROR_CODE, qi_raw_value = ''E123'',
        qi_normalized_value = ''E123''\<rparr>]\<rparr>"
  have strip: "py_strip '' E123 '' = ''E123''" by code_simp
  have an: "analyze '' E123 '' = Inr an"
    by (simp add: analyze_def strip extract_sample sample_identifier_def an_def Let_def)
  have rs: "resolve 2 an [3, 5] sample_registry = Inr \<lparr>er_resolutions =
      [\<lparr>ir_identifier_type = ERROR_CODE, ir_raw_value = ''E123'', ir_normalized_value = ''E123'',
        ir_authorized_document_version_ids = [3], ir_unique_authorized_hit = True\<rparr>],
      er_constrained_document_version_ids = [3]\<rparr>"
    by (simp add: an_def resolve_def resolve_one_def find_exact_def normalize_sample repo_find_exact_def
        sample_registry_simps identifier_row_def sample_identifier_def sorted_set_by_def)
  show ?thesis using an rs resolver_confined [OF rs] by auto
qed

text \<open>The resolver normalizes a value that is already canonical once more. A path that ends in
  punctuation before its last slash is not a fixed point of the normalization, so a version indexed
  for it is found under its raw text but never by resolving a query that names it.\<close>

theorem resolver_misses_indexed_path:
  "snd (index_text new_ids now company project version ''/api/x./'' [] [] None None [])
     = [identifier_row now (new_ids 0) company project version
          \<lparr>ei_identifier_type = API_PATH, ei_raw_value = ''/api/x./'', ei_normalized_value = ''/api/x.'',
           ei_source = SRC_REGEX, ei_confidence = 1, ei_page_no = None, ei_section = None\<rparr>] \<and>
   map_sum id (map di_document_version_id)
     (find_exact project API_PATH ''/api/x./''
       (snd (index_text new_ids now company project version ''/api/x./'' [] [] None None [])))
     = Inr [version] \<and>
   bind_res (analyze ''/api/x./'') (\<lambda>an. resolve project an [version]
       (snd (index_text new_ids now company project version ''/api/x./'' [] [] None None [])))
     = Inr \<lparr>er_resolutions =
              [\<lparr>ir_identifier_type = API_PATH, ir_raw_value = ''/api/x./'',
                ir_normalized_value = ''/api/x.'', ir_authorized_document_version_ids = [],
                ir_unique_authorized_hit = False\<rparr>],
            er_constrained_document_version_ids = []\<rparr>"
proof -
  let ?e = "\<lparr>ei_identifier_type = API_PATH, ei_raw_value = ''/api/x./'', ei_normalized_value = ''/api/x.'',
      ei_source = SRC_REGEX, ei_confidence = 1, ei_page_no = None, ei_section = None\<rparr>"
  have ex: "extract_text ''/api/x./'' = Inr [?e]" by code_simp
  have strip: "py_strip ''/api/x./'' = ''/api/x./''" by code_simp
  have n1: "normalize_identifier API_PATH ''/api/x./'' = Inr ''/api/x.''" by code_simp
  have n2: "normalize_identifier API_PATH ''/api/x.'' = Inr ''/api/x''" by code_simp
  have an: "analyze ''/api/x./'' = Inr \<lparr>qa_original_query = ''/api/x./'',
      qa_standalone_query = ''/api/x./'', qa_exact_identifiers =
        [\<lparr>qi_identifier_type = API_PATH, qi_raw_value = ''/api/x./'', qi_normalized_value = ''/api/x.''\<rparr>]\<rparr>"
    by (simp add: analyze_def strip ex Let_def)
  have ix: "snd (index_text new_ids now company project version ''/api/x./'' [] [] None None [])
      = [identifier_row now (new_ids 0) company project version ?e]"
    by (simp add: index_text_def ex replace_for_document_version_def Let_def)
  show ?thesis
    unfolding ix an
    by (simp add: find_exact_def n1 n2 repo_find_exact_def identifier_row_def resolve_def resolve_one_def
        sorted_set_by_def)
qed

end
