(* ===== verification/Evidence.thy ===== *)
theory Evidence
  imports Authorization
begin

text \<open>
  Evidence governance: the values of \<open>domain/evidence.py\<close>, the metadata query of
  \<open>infrastructure/db/repositories/evidence_governance.py\<close>, the service
  \<open>application/services/evidence_governance.py\<close> that turns retrieved chunks into a labelled pack of
  authoritative evidence, and the selector of \<open>application/services/issue_evidence.py\<close>.
  The current date is an argument. Scores are exact numbers.
\<close>

section \<open>Enumerations as stored\<close>

definition AuthorityLevel_of :: "string \<Rightarrow> AuthorityLevel res" where
  "AuthorityLevel_of s =
     (case find (\<lambda>a. AuthorityLevel_value a = s)
        [AL_SIGNED_SCOPE, AL_APPROVED_CHANGE, AL_REQUIREMENT_BASELINE, AL_APPROVED_MEETING_MINUTES,
         AL_APPROVED_DESIGN, AL_APPROVED_TEST_SPEC, AL_RELEASE_RUNBOOK, AL_ISSUE_RECORD,
         AL_INFORMAL_NOTE] of
        None \<Rightarrow> Inl (ValueError s) | Some a \<Rightarrow> Inr a)"

lemma AuthorityLevel_of_value [simp]: "AuthorityLevel_of (AuthorityLevel_value a) = Inr a"
  by (cases a) (simp_all add: AuthorityLevel_of_def)

definition DocumentCategory_of :: "string \<Rightarrow> DocumentCategory res" where
  "DocumentCategory_of s =
     (case find (\<lambda>c. DocumentCategory_value c = s)
        [REQUIREMENT_BASELINE, APPROVED_DESIGN, API_SPECIFICATION, DATABASE_DESIGN,
         APPROVED_TEST_SPEC, RELEASE_RUNBOOK, APPROVED_MEETING_MINUTES, ISSUE_RECORD] of
        None \<Rightarrow> Inl (ValueError s) | Some c \<Rightarrow> Inr c)"

lemma DocumentCategory_of_value [simp]: "DocumentCategory_of (DocumentCategory_value c) = Inr c"
  by (cases c) (simp_all add: DocumentCategory_of_def)

section \<open>domain/evidence.py\<close>

record GovernedEvidence =
  ge_label :: string
  ge_project_id :: uuid
  ge_project_code :: string
  ge_document_version_id :: uuid
  ge_document_category :: DocumentCategory
  ge_document_title :: string
  ge_version_no :: int
  ge_version_label :: string
  ge_authority_level :: AuthorityLevel
  ge_lifecycle_status :: DocumentLifecycleStatus
  ge_is_current :: bool
  ge_effective_from :: "date option"
  ge_effective_to :: "date option"
  ge_content :: string
  ge_score :: score
  ge_knowledge_space_id :: "string option"
  ge_provider_ref :: "string option"
  ge_page_no :: "int option"
  ge_section :: "string option"
  ge_provider_metadata :: "(string \<times> string) list"
  ge_conflict_key :: "string option"
  ge_claim_value :: "string option"
  ge_unresolved_conflict :: bool

definition newline_char :: char where
  "newline_char = CHR 0x0A"

text \<open>The text whose SHA-256 is \<open>GovernedEvidence.content_hash\<close>.\<close>

definition content_hash :: "(string \<Rightarrow> string) \<Rightarrow> GovernedEvidence \<Rightarrow> string" where
  "content_hash sha256 e = sha256
     (uuid_str (ge_project_id e) @ [newline_char] @ uuid_str (ge_document_version_id e) @ [newline_char] @
      AuthorityLevel_value (ge_authority_level e) @ [newline_char] @ ge_version_label e @ [newline_char] @
      ge_content e)"

record GovernedEvidencePack =
  gp_evidence :: "GovernedEvidence list"
  gp_unresolved_conflicts :: "(string \<times> string list) list"

record FrozenEvidence =
  fe_snapshot_id :: uuid
  fe_label :: string
  fe_project_id :: uuid
  fe_project_code :: string
  fe_document_version_id :: uuid
  fe_document_category :: DocumentCategory
  fe_document_title :: string
  fe_version_no :: int
  fe_version_label :: string
  fe_authority_level :: AuthorityLevel
  fe_lifecycle_status :: DocumentLifecycleStatus
  fe_is_current :: bool
  fe_effective_from :: "date option"
  fe_effective_to :: "date option"
  fe_content :: string
  fe_content_hash :: string
  fe_score :: score
  fe_knowledge_space_id :: "string option"
  fe_provider_ref :: "string option"
  fe_page_no :: "int option"
  fe_section :: "string option"
  fe_conflict_key :: "string option"
  fe_claim_value :: "string option"
  fe_unresolved_conflict :: bool

record FrozenEvidenceBundle =
  fb_evidence :: "FrozenEvidence list"
  fb_unresolved_conflicts :: "(string \<times> string list) list"

record GroundedAnswerClaim =
  gc_text :: string
  gc_evidence_ids :: "string list"

record GroundedAnswerDraft =
  gd_claims :: "GroundedAnswerClaim list"
  gd_conflict_disclosure :: "GroundedAnswerClaim option"

record CitationReference =
  cf_citation_no :: int
  cf_evidence_snapshot_id :: uuid

section \<open>infrastructure/db/repositories/evidence_governance.py\<close>

record DocumentEvidenceMetadata =
  em_document_version_id :: uuid
  em_document_id :: uuid
  em_project_id :: uuid
  em_document_category :: DocumentCategory
  em_title :: string
  em_authority_level :: AuthorityLevel
  em_lifecycle_status :: DocumentLifecycleStatus
  em_version_no :: int
  em_version_label :: string
  em_effective_from :: "date option"
  em_effective_to :: "date option"
  em_is_current :: bool

text \<open>\<open>max(version_no)\<close> over the published versions of a document.\<close>

definition current_version_no :: "uuid \<Rightarrow> doc_db \<Rightarrow> int option" where
  "current_version_no document_id db =
     (let nos = map dv_version_no (filter (\<lambda>v. dv_document_id v = document_id \<and>
                  dv_lifecycle_status v = PUBLISHED) (versions db))
      in if nos = [] then None else Some (Max (set nos)))"

definition evidence_metadata ::
  "doc_db \<Rightarrow> DocumentVersionModel \<times> DocumentModel \<Rightarrow> DocumentEvidenceMetadata res" where
  "evidence_metadata db row =
     (case row of (v, d) \<Rightarrow>
        bind_res (DocumentCategory_of (do_document_category d)) (\<lambda>category.
        bind_res (AuthorityLevel_of (dv_authority_level v)) (\<lambda>authority.
        Inr \<lparr>em_document_version_id = dv_id v, em_document_id = dv_document_id v,
             em_project_id = do_project_id d, em_document_category = category, em_title = do_title d,
             em_authority_level = authority, em_lifecycle_status = dv_lifecycle_status v,
             em_version_no = dv_version_no v, em_version_label = dv_version_label v,
             em_effective_from = dv_effective_from v, em_effective_to = dv_effective_to v,
             em_is_current = (dv_lifecycle_status v = PUBLISHED \<and>
               current_version_no (dv_document_id v) db = Some (dv_version_no v))\<rparr>)))"

definition get_document_evidence_metadata ::
  "uuid list \<Rightarrow> doc_db \<Rightarrow> DocumentEvidenceMetadata list res" where
  "get_document_evidence_metadata version_ids db =
     (if version_ids = [] then Inr []
      else map_res (evidence_metadata db)
        [(v, d) . v \<leftarrow> versions db, d \<leftarrow> documents db, do_id d = dv_document_id v, dv_id v \<in> set version_ids])"

text \<open>The dictionary by version: \<open>metadata.get(version_id)\<close>; a later row replaces an earlier one.\<close>

definition metadata_of :: "DocumentEvidenceMetadata list \<Rightarrow> uuid \<Rightarrow> DocumentEvidenceMetadata option" where
  "metadata_of rows version_id = find (\<lambda>r. em_document_version_id r = version_id) (rev rows)"

section \<open>EvidenceGovernanceService\<close>

definition AUTHORITY_ORDER :: "AuthorityLevel list" where
  "AUTHORITY_ORDER =
     [AL_SIGNED_SCOPE, AL_APPROVED_CHANGE, AL_REQUIREMENT_BASELINE, AL_APPROVED_MEETING_MINUTES,
      AL_APPROVED_DESIGN, AL_APPROVED_TEST_SPEC, AL_RELEASE_RUNBOOK, AL_ISSUE_RECORD, AL_INFORMAL_NOTE]"

definition authority_rank :: "AuthorityLevel \<Rightarrow> nat" where
  "authority_rank a = length (takeWhile (\<lambda>b. b \<noteq> a) AUTHORITY_ORDER)"

definition in_force :: "date \<Rightarrow> date option \<Rightarrow> date option \<Rightarrow> bool" where
  "in_force today from_date to_date \<longleftrightarrow>
     (case from_date of None \<Rightarrow> True | Some d \<Rightarrow> d \<le> today) \<and>
     (case to_date of None \<Rightarrow> True | Some d \<Rightarrow> today \<le> d)"

definition text_or_none :: "(string \<times> string) list \<Rightarrow> string \<Rightarrow> string option" where
  "text_or_none metadata key =
     (case map_of metadata key of None \<Rightarrow> None | Some s \<Rightarrow> if s = [] then None else Some s)"

definition parse_chunks :: "string \<Rightarrow> KnowledgeChunk list \<Rightarrow> (KnowledgeChunk \<times> uuid) list" where
  "parse_chunks code chunks =
     List.map_filter (\<lambda>c. if ch_project_id c \<noteq> code then None
       else (case UUID (ch_document_version_id c) of Inl _ \<Rightarrow> None | Inr v \<Rightarrow> Some (c, v))) chunks"

definition eligible :: "uuid \<Rightarrow> date \<Rightarrow> DocumentEvidenceMetadata \<Rightarrow> bool" where
  "eligible project_id today info \<longleftrightarrow>
     em_project_id info = project_id \<and> em_lifecycle_status info = PUBLISHED \<and> em_is_current info \<and>
     in_force today (em_effective_from info) (em_effective_to info)"

definition governed ::
  "uuid \<Rightarrow> string \<Rightarrow> KnowledgeChunk \<Rightarrow> uuid \<Rightarrow> DocumentEvidenceMetadata \<Rightarrow> GovernedEvidence" where
  "governed project_id code chunk version_id info =
     \<lparr>ge_label = [], ge_project_id = project_id, ge_project_code = code,
      ge_document_version_id = version_id, ge_document_category = em_document_category info,
      ge_document_title = em_title info, ge_version_no = em_version_no info,
      ge_version_label = em_version_label info, ge_authority_level = em_authority_level info,
      ge_lifecycle_status = em_lifecycle_status info, ge_is_current = em_is_current info,
      ge_effective_from = em_effective_from info, ge_effective_to = em_effective_to info,
      ge_content = ch_content chunk, ge_score = ch_score chunk,
      ge_knowledge_space_id = ch_knowledge_space_id chunk, ge_provider_ref = ch_provider_ref chunk,
      ge_page_no = ch_page_no chunk, ge_section = ch_section chunk,
      ge_provider_metadata = ch_metadata chunk,
      ge_conflict_key = text_or_none (ch_metadata chunk) ''conflict_key'',
      ge_claim_value = text_or_none (ch_metadata chunk) ''claim_value'', ge_unresolved_conflict = False\<rparr>"

fun govern_chunks ::
  "uuid \<Rightarrow> string \<Rightarrow> date \<Rightarrow> DocumentEvidenceMetadata list \<Rightarrow> (uuid \<times> string) list
    \<Rightarrow> (KnowledgeChunk \<times> uuid) list \<Rightarrow> GovernedEvidence list" where
  "govern_chunks project_id code today metadata seen [] = []"
| "govern_chunks project_id code today metadata seen ((chunk, version_id) # rest) =
     (case metadata_of metadata version_id of
        None \<Rightarrow> govern_chunks project_id code today metadata seen rest
      | Some info \<Rightarrow>
          if \<not> eligible project_id today info
          then govern_chunks project_id code today metadata seen rest
          else let key = (version_id, py_strip (ch_content chunk))
               in if key \<in> set seen then govern_chunks project_id code today metadata seen rest
                  else governed project_id code chunk version_id info #
                    govern_chunks project_id code today metadata (key # seen) rest)"

definition grouped :: "GovernedEvidence \<Rightarrow> bool" where
  "grouped e \<longleftrightarrow> ge_conflict_key e \<noteq> None \<and> ge_claim_value e \<noteq> None"

definition resolve_group :: "GovernedEvidence list \<Rightarrow> GovernedEvidence list" where
  "resolve_group group_items =
     (if length (fromkeys (map ge_claim_value group_items)) \<le> 1 then group_items
      else let best = Min (set (map (\<lambda>e. authority_rank (ge_authority_level e)) group_items));
               top = filter (\<lambda>e. authority_rank (ge_authority_level e) = best) group_items
           in if length (fromkeys (map ge_claim_value top)) = 1 then top
              else map (\<lambda>e. e\<lparr>ge_unresolved_conflict := True\<rparr>) top)"

definition resolve_explicit_conflicts :: "GovernedEvidence list \<Rightarrow> GovernedEvidence list" where
  "resolve_explicit_conflicts candidates =
     filter (\<lambda>e. \<not> grouped e) candidates @
     concat (map (\<lambda>k. resolve_group (filter (\<lambda>e. grouped e \<and> ge_conflict_key e = k) candidates))
       (fromkeys (map ge_conflict_key (filter grouped candidates))))"

definition evidence_order :: "GovernedEvidence \<Rightarrow> nat \<times> score \<times> int \<times> string" where
  "evidence_order e =
     (authority_rank (ge_authority_level e), - ge_score e, - ge_version_no e,
      uuid_str (ge_document_version_id e))"

text \<open>The first \<open>max_evidence\<close> candidates, and beyond them every side of an unresolved conflict.\<close>

definition select_evidence :: "nat \<Rightarrow> GovernedEvidence list \<Rightarrow> GovernedEvidence list" where
  "select_evidence max_evidence candidates =
     (let selected = take max_evidence candidates;
          protected_keys = map ge_conflict_key
            (filter (\<lambda>e. ge_unresolved_conflict e \<and> ge_conflict_key e \<noteq> None) candidates)
      in if protected_keys = [] then selected
         else sort_key evidence_order
           (selected @ filter (\<lambda>e. ge_unresolved_conflict e \<and> ge_conflict_key e \<in> set protected_keys)
             (drop max_evidence candidates)))"

definition evidence_label :: "nat \<Rightarrow> string" where
  "evidence_label i = CHR ''E'' # str_nat i"

definition label_evidence :: "GovernedEvidence list \<Rightarrow> GovernedEvidence list" where
  "label_evidence items = map (\<lambda>(i, e). e\<lparr>ge_label := evidence_label i\<rparr>) (List.enumerate 1 items)"

definition conflict_table :: "GovernedEvidence list \<Rightarrow> (string \<times> string list) list" where
  "conflict_table labeled =
     (let conflicting = filter (\<lambda>e. ge_unresolved_conflict e \<and> ge_conflict_key e \<noteq> None) labeled;
          keys = sort (fromkeys (map (the \<circ> ge_conflict_key) conflicting));
          group_of = (\<lambda>k. filter (\<lambda>e. ge_conflict_key e = Some k) conflicting)
      in map (\<lambda>k. (k, map ge_label (group_of k)))
           (filter (\<lambda>k. 1 < length (fromkeys (map ge_claim_value (group_of k)))) keys))"

definition pack ::
  "nat \<Rightarrow> date \<Rightarrow> uuid \<Rightarrow> string \<Rightarrow> KnowledgeChunk list \<Rightarrow> doc_db \<Rightarrow> GovernedEvidencePack res" where
  "pack max_evidence today project_id code chunks db =
     (let parsed = parse_chunks code chunks
      in bind_res (get_document_evidence_metadata (fromkeys (map snd parsed)) db) (\<lambda>metadata.
         let candidates = sort_key evidence_order
               (resolve_explicit_conflicts (govern_chunks project_id code today metadata [] parsed));
             labeled = label_evidence (select_evidence max_evidence candidates)
         in Inr \<lparr>gp_evidence = labeled, gp_unresolved_conflicts = conflict_table labeled\<rparr>))"

section \<open>IssueEvidenceSelector\<close>

definition ALLOWED_CATEGORIES :: "DocumentCategory list" where
  "ALLOWED_CATEGORIES = [REQUIREMENT_BASELINE, APPROVED_TEST_SPEC]"

definition select_document_version_ids ::
  "date \<Rightarrow> uuid \<Rightarrow> AuthorizedProjectContext \<Rightarrow> doc_db \<Rightarrow> uuid list res" where
  "select_document_version_ids today project_id context db =
     (case sc_allowed_document_version_ids (cx_scope context) of
        None \<Rightarrow> Inr []
      | Some allowed \<Rightarrow>
          if allowed = [] then Inr []
          else bind_res (get_document_evidence_metadata allowed db) (\<lambda>metadata. Inr
            (sorted_set_by uuid_str (filter (\<lambda>v. case metadata_of metadata v of
                 None \<Rightarrow> False
               | Some info \<Rightarrow> eligible project_id today info \<and>
                   em_document_category info \<in> set ALLOWED_CATEGORIES) allowed))))"

end
