(* ===== verification/Codec.thy ===== *)
theory Codec
  imports Identifiers Evidence
begin

text \<open>
  The artifacts that the nodes of the question-answering graph exchange through the event log, as JSON:
  \<open>model_dump(mode="json")\<close> and \<open>model_validate\<close> of \<open>agent/nodes/models.py\<close>,
  \<open>agent/nodes/analyze_query.py\<close>, \<open>agent/nodes/resolve_identifiers.py\<close> and \<open>domain/evidence.py\<close>, and
  the two functions of \<open>agent/nodes/serialization.py\<close>. The readers accept the JSON types that the writers
  produce; the coercions by which a pydantic field would also accept other types are not modelled, they
  are never exercised on an artifact of the program.
\<close>

section \<open>Readers\<close>

definition as_str :: "json \<Rightarrow> string res" where
  "as_str v = (case v of JStr s \<Rightarrow> Inr s | _ \<Rightarrow> Inl (ValueError ''string_type''))"

definition as_nonempty_str :: "json \<Rightarrow> string res" where
  "as_nonempty_str v =
     bind_res (as_str v) (\<lambda>s. if s = [] then Inl (ValueError ''string_too_short'') else Inr s)"

definition as_bool :: "json \<Rightarrow> bool res" where
  "as_bool v = (case v of JBool b \<Rightarrow> Inr b | _ \<Rightarrow> Inl (ValueError ''bool_type''))"

definition as_int :: "json \<Rightarrow> int res" where
  "as_int v = (case v of JInt i \<Rightarrow> Inr i | _ \<Rightarrow> Inl (ValueError ''int_type''))"

definition as_uuid :: "json \<Rightarrow> uuid res" where
  "as_uuid v = bind_res (as_str v) UUID"

definition as_list :: "(json \<Rightarrow> 'a res) \<Rightarrow> json \<Rightarrow> 'a list res" where
  "as_list f v = (case v of JArr xs \<Rightarrow> map_res f xs | _ \<Rightarrow> Inl (ValueError ''tuple_type''))"

definition as_opt :: "(json \<Rightarrow> 'a res) \<Rightarrow> json \<Rightarrow> 'a option res" where
  "as_opt f v = (if v = JNull then Inr None else bind_res (f v) (\<lambda>x. Inr (Some x)))"

definition as_obj :: "(payload \<Rightarrow> 'a res) \<Rightarrow> json \<Rightarrow> 'a res" where
  "as_obj f v = (case v of JObj p \<Rightarrow> f p | _ \<Rightarrow> Inl (ValueError ''model_type''))"

definition required :: "payload \<Rightarrow> string \<Rightarrow> (json \<Rightarrow> 'a res) \<Rightarrow> 'a res" where
  "required p k f = (case map_of p k of None \<Rightarrow> Inl (ValueError ''missing'') | Some v \<Rightarrow> f v)"

definition defaulted :: "payload \<Rightarrow> string \<Rightarrow> 'a \<Rightarrow> (json \<Rightarrow> 'a res) \<Rightarrow> 'a res" where
  "defaulted p k d f = (case map_of p k of None \<Rightarrow> Inr d | Some v \<Rightarrow> f v)"

section \<open>Writers\<close>

definition of_uuids :: "uuid list \<Rightarrow> json" where
  "of_uuids ids = JArr (map (\<lambda>u. JStr (uuid_str u)) ids)"

definition of_strs :: "string list \<Rightarrow> json" where
  "of_strs xs = JArr (map JStr xs)"

fun IdentifierType_value :: "IdentifierType \<Rightarrow> string" where
  "IdentifierType_value PROJECT_CODE = ''project_code''"
| "IdentifierType_value REQUIREMENT_ID = ''requirement_id''"
| "IdentifierType_value ISSUE_KEY = ''issue_key''"
| "IdentifierType_value API_PATH = ''api_path''"
| "IdentifierType_value DB_TABLE = ''db_table''"
| "IdentifierType_value DB_COLUMN = ''db_column''"
| "IdentifierType_value ERROR_CODE = ''error_code''"
| "IdentifierType_value VERSION = ''version''"

definition IdentifierType_of :: "string \<Rightarrow> IdentifierType res" where
  "IdentifierType_of s =
     (case find (\<lambda>t. IdentifierType_value t = s)
        [PROJECT_CODE, REQUIREMENT_ID, ISSUE_KEY, API_PATH, DB_TABLE, DB_COLUMN, ERROR_CODE, VERSION] of
        None \<Rightarrow> Inl (ValueError s) | Some t \<Rightarrow> Inr t)"

lemma IdentifierType_of_value [simp]: "IdentifierType_of (IdentifierType_value t) = Inr t"
  by (cases t) (simp_all add: IdentifierType_of_def)

section \<open>agent/nodes/models.py\<close>

record RetrievalPlan =
  rp_original_query :: string
  rp_standalone_query :: string
  rp_exact_identifiers :: "string list"
  rp_identifier_resolutions :: "IdentifierResolution list"
  rp_constrained_document_version_ids :: "uuid list"
  rp_constrained_provider_document_ids :: "string list"
  rp_allowed_categories :: "string list"
  rp_allow_second_round :: bool

datatype RetrievalGradeReason =
  ADEQUATE | EMPTY_EVIDENCE | INSUFFICIENT_RELEVANCE | INSUFFICIENT_COVERAGE

fun RetrievalGradeReason_value :: "RetrievalGradeReason \<Rightarrow> string" where
  "RetrievalGradeReason_value ADEQUATE = ''ADEQUATE''"
| "RetrievalGradeReason_value EMPTY_EVIDENCE = ''EMPTY_EVIDENCE''"
| "RetrievalGradeReason_value INSUFFICIENT_RELEVANCE = ''INSUFFICIENT_RELEVANCE''"
| "RetrievalGradeReason_value INSUFFICIENT_COVERAGE = ''INSUFFICIENT_COVERAGE''"

record RetrievalGrade =
  rg_adequate :: bool
  rg_reason :: RetrievalGradeReason
  rg_second_round_justified :: bool
  rg_refined_query :: "string option"

definition validate_consistent_shape :: "RetrievalGrade \<Rightarrow> RetrievalGrade res" where
  "validate_consistent_shape g =
     (let refined = map_option py_strip (rg_refined_query g)
      in if rg_adequate g
         then if rg_reason g \<noteq> ADEQUATE \<or> rg_second_round_justified g \<or> refined \<noteq> None
              then Inl (ValueError ''adequate retrieval grade cannot request refinement'') else Inr g
         else if rg_reason g = ADEQUATE
         then Inl (ValueError ''inadequate retrieval grade requires an inadequate reason'')
         else if rg_second_round_justified g \<and> (refined = None \<or> refined = Some [])
         then Inl (ValueError ''justified second retrieval requires a refined query'')
         else if \<not> rg_second_round_justified g \<and> refined \<noteq> None
         then Inl (ValueError ''refined query requires justified second retrieval'')
         else Inr g)"

definition dump_grade :: "RetrievalGrade \<Rightarrow> payload" where
  "dump_grade g =
     [(''adequate'', JBool (rg_adequate g)), (''reason'', JStr (RetrievalGradeReason_value (rg_reason g))),
      (''second_round_justified'', JBool (rg_second_round_justified g)),
      (''refined_query'', opt_str (rg_refined_query g))]"

definition dump_analysis :: "QueryAnalysis \<Rightarrow> payload" where
  "dump_analysis a =
     [(''original_query'', JStr (qa_original_query a)), (''standalone_query'', JStr (qa_standalone_query a)),
      (''exact_identifiers'', JArr (map (\<lambda>i. JObj
         [(''identifier_type'', JStr (IdentifierType_value (qi_identifier_type i))),
          (''raw_value'', JStr (qi_raw_value i)), (''normalized_value'', JStr (qi_normalized_value i))])
         (qa_exact_identifiers a)))]"

definition load_identifier :: "payload \<Rightarrow> QueryExactIdentifier res" where
  "load_identifier p =
     bind_res (required p ''identifier_type'' (\<lambda>v. bind_res (as_str v) IdentifierType_of)) (\<lambda>ty.
     bind_res (required p ''raw_value'' as_str) (\<lambda>raw.
     bind_res (required p ''normalized_value'' as_str) (\<lambda>norm.
       Inr \<lparr>qi_identifier_type = ty, qi_raw_value = raw, qi_normalized_value = norm\<rparr>)))"

definition load_analysis :: "payload \<Rightarrow> QueryAnalysis res" where
  "load_analysis p =
     bind_res (required p ''original_query'' as_str) (\<lambda>orig.
     bind_res (required p ''standalone_query'' as_str) (\<lambda>standalone.
     bind_res (required p ''exact_identifiers'' (as_list (as_obj load_identifier))) (\<lambda>ids.
       Inr \<lparr>qa_original_query = orig, qa_standalone_query = standalone, qa_exact_identifiers = ids\<rparr>)))"

definition dump_resolution :: "IdentifierResolution \<Rightarrow> payload" where
  "dump_resolution r =
     [(''identifier_type'', JStr (IdentifierType_value (ir_identifier_type r))),
      (''raw_value'', JStr (ir_raw_value r)), (''normalized_value'', JStr (ir_normalized_value r)),
      (''authorized_document_version_ids'', of_uuids (ir_authorized_document_version_ids r)),
      (''unique_authorized_hit'', JBool (ir_unique_authorized_hit r))]"

definition load_resolution :: "payload \<Rightarrow> IdentifierResolution res" where
  "load_resolution p =
     bind_res (required p ''identifier_type'' (\<lambda>v. bind_res (as_str v) IdentifierType_of)) (\<lambda>ty.
     bind_res (required p ''raw_value'' as_str) (\<lambda>raw.
     bind_res (required p ''normalized_value'' as_str) (\<lambda>norm.
     bind_res (required p ''authorized_document_version_ids'' (as_list as_uuid)) (\<lambda>ids.
     bind_res (required p ''unique_authorized_hit'' as_bool) (\<lambda>unique.
       Inr \<lparr>ir_identifier_type = ty, ir_raw_value = raw, ir_normalized_value = norm,
            ir_authorized_document_version_ids = ids, ir_unique_authorized_hit = unique\<rparr>)))))"

definition dump_plan :: "RetrievalPlan \<Rightarrow> payload" where
  "dump_plan p =
     [(''original_query'', JStr (rp_original_query p)), (''standalone_query'', JStr (rp_standalone_query p)),
      (''exact_identifiers'', of_strs (rp_exact_identifiers p)),
      (''identifier_resolutions'', JArr (map (\<lambda>r. JObj (dump_resolution r)) (rp_identifier_resolutions p))),
      (''constrained_document_version_ids'', of_uuids (rp_constrained_document_version_ids p)),
      (''constrained_provider_document_ids'', of_strs (rp_constrained_provider_document_ids p)),
      (''allowed_categories'', of_strs (rp_allowed_categories p)),
      (''allow_second_round'', JBool (rp_allow_second_round p))]"

definition load_plan :: "payload \<Rightarrow> RetrievalPlan res" where
  "load_plan p =
     bind_res (required p ''original_query'' as_str) (\<lambda>orig.
     bind_res (required p ''standalone_query'' as_str) (\<lambda>standalone.
     bind_res (required p ''exact_identifiers'' (as_list as_str)) (\<lambda>ids.
     bind_res (required p ''identifier_resolutions'' (as_list (as_obj load_resolution))) (\<lambda>rs.
     bind_res (required p ''constrained_document_version_ids'' (as_list as_uuid)) (\<lambda>vs.
     bind_res (defaulted p ''constrained_provider_document_ids'' [] (as_list as_str)) (\<lambda>prov.
     bind_res (defaulted p ''allowed_categories'' [] (as_list as_str)) (\<lambda>cats.
     bind_res (defaulted p ''allow_second_round'' False as_bool) (\<lambda>again.
       Inr \<lparr>rp_original_query = orig, rp_standalone_query = standalone, rp_exact_identifiers = ids,
            rp_identifier_resolutions = rs, rp_constrained_document_version_ids = vs,
            rp_constrained_provider_document_ids = prov, rp_allowed_categories = cats,
            rp_allow_second_round = again\<rparr>))))))))"

section \<open>Grounded drafts\<close>

definition dump_claim :: "GroundedAnswerClaim \<Rightarrow> payload" where
  "dump_claim c = [(''text'', JStr (gc_text c)), (''evidence_ids'', of_strs (gc_evidence_ids c))]"

definition load_claim :: "payload \<Rightarrow> GroundedAnswerClaim res" where
  "load_claim p =
     bind_res (required p ''text'' as_nonempty_str) (\<lambda>t.
     bind_res (defaulted p ''evidence_ids'' [] (as_list as_str)) (\<lambda>ids.
       Inr \<lparr>gc_text = t, gc_evidence_ids = ids\<rparr>))"

definition dump_draft :: "GroundedAnswerDraft \<Rightarrow> payload" where
  "dump_draft d =
     [(''claims'', JArr (map (\<lambda>c. JObj (dump_claim c)) (gd_claims d))),
      (''conflict_disclosure'',
       (case gd_conflict_disclosure d of None \<Rightarrow> JNull | Some c \<Rightarrow> JObj (dump_claim c)))]"

definition load_draft :: "payload \<Rightarrow> GroundedAnswerDraft res" where
  "load_draft p =
     bind_res (defaulted p ''claims'' [] (as_list (as_obj load_claim))) (\<lambda>claims.
     bind_res (defaulted p ''conflict_disclosure'' None (as_opt (as_obj load_claim))) (\<lambda>disclosure.
       Inr \<lparr>gd_claims = claims, gd_conflict_disclosure = disclosure\<rparr>))"

text \<open>A draft whose texts are not empty: the fields of the pydantic models have \<open>min_length=1\<close>.\<close>

definition draft_ok :: "GroundedAnswerDraft \<Rightarrow> bool" where
  "draft_ok d \<longleftrightarrow> (\<forall>c\<in>set (gd_claims d). gc_text c \<noteq> []) \<and>
     (case gd_conflict_disclosure d of None \<Rightarrow> True | Some c \<Rightarrow> gc_text c \<noteq> [])"

section \<open>agent/nodes/serialization.py\<close>

definition dump_scope :: "ProjectAccessScope \<Rightarrow> payload" where
  "dump_scope s =
     [(''company_id'', JStr (uuid_str (sc_company_id s))), (''user_id'', JStr (uuid_str (sc_user_id s))),
      (''allowed_client_ids'', of_uuids (sc_allowed_client_ids s)),
      (''allowed_project_ids'', of_uuids (sc_allowed_project_ids s)),
      (''allowed_document_version_ids'',
       (case sc_allowed_document_version_ids s of None \<Rightarrow> JNull | Some ids \<Rightarrow> of_uuids ids)),
      (''allowed_document_categories'', of_strs (sc_allowed_document_categories s)),
      (''role_ids'', of_strs (sc_role_ids s)), (''max_security_level'', JInt (sc_max_security_level s)),
      (''policy_version'', JStr (sc_policy_version s))]"

definition load_scope :: "payload \<Rightarrow> ProjectAccessScope res" where
  "load_scope p =
     bind_res (required p ''company_id'' as_uuid) (\<lambda>company.
     bind_res (required p ''user_id'' as_uuid) (\<lambda>user.
     bind_res (defaulted p ''allowed_client_ids'' [] (as_list as_uuid)) (\<lambda>clients.
     bind_res (defaulted p ''allowed_project_ids'' [] (as_list as_uuid)) (\<lambda>projs.
     bind_res (defaulted p ''allowed_document_version_ids'' None (as_opt (as_list as_uuid))) (\<lambda>vs.
     bind_res (defaulted p ''allowed_document_categories'' [] (as_list as_str)) (\<lambda>cats.
     bind_res (defaulted p ''role_ids'' [] (as_list as_str)) (\<lambda>roles.
     bind_res (defaulted p ''max_security_level'' 0 as_int) (\<lambda>level.
     bind_res (required p ''policy_version'' as_str) (\<lambda>policy.
       Inr \<lparr>sc_company_id = company, sc_user_id = user, sc_allowed_client_ids = clients,
            sc_allowed_project_ids = projs, sc_allowed_document_version_ids = vs,
            sc_allowed_document_categories = cats, sc_role_ids = roles, sc_max_security_level = level,
            sc_policy_version = policy\<rparr>)))))))))"

definition serialize_authorized_context :: "AuthorizedProjectContext \<Rightarrow> payload" where
  "serialize_authorized_context ctx =
     [(''project_code'', JStr (cx_project_code ctx)),
      (''knowledge_space_ids'', of_strs (cx_knowledge_space_ids ctx)),
      (''scope'', JObj (dump_scope (cx_scope ctx)))]"

definition deserialize_authorized_context :: "payload \<Rightarrow> AuthorizedProjectContext res" where
  "deserialize_authorized_context p =
     (case map_of p ''scope'' of
        Some (JObj raw_scope) \<Rightarrow>
          (case (map_of p ''project_code'', map_of p ''knowledge_space_ids'') of
             (Some (JStr code), Some (JArr names)) \<Rightarrow>
               bind_res (load_scope raw_scope) (\<lambda>sc.
               bind_res (map_res as_str names) (\<lambda>ss.
                 Inr \<lparr>cx_scope = sc, cx_project_code = code, cx_knowledge_space_ids = ss\<rparr>))
           | _ \<Rightarrow> Inl (ValueError ''access scope artifact is malformed''))
      | _ \<Rightarrow> Inl (ValueError ''access scope artifact is missing scope''))"

section \<open>Reading back what was written\<close>

named_theorems codec_simps \<open>a reader applied to the output of its writer\<close>

lemma reader_simps [codec_simps]:
  "as_str (JStr s) = Inr s"
  "as_bool (JBool b) = Inr b"
  "as_int (JInt i) = Inr i"
  "as_uuid (JStr (uuid_str u)) = Inr u"
  "as_list f (JArr xs) = map_res f xs"
  "as_opt f JNull = Inr None"
  "as_obj g (JObj p) = g p"
  by (simp_all add: as_str_def as_bool_def as_int_def as_uuid_def as_list_def as_opt_def as_obj_def)

lemma map_res_map_Inr:
  "(\<And>x. x \<in> set xs \<Longrightarrow> f (g x) = Inr x) \<Longrightarrow> map_res f (map g xs) = Inr xs"
  by (induction xs) simp_all

lemma list_codecs [codec_simps]:
  "as_list as_uuid (of_uuids ids) = Inr ids"
  "as_list as_str (of_strs ss) = Inr ss"
  "map_res as_str (map JStr ss) = Inr ss"
  "as_opt (as_list as_uuid) (of_uuids ids) = Inr (Some ids)"
proof -
  show u: "as_list as_uuid (of_uuids ids) = Inr ids"
    unfolding of_uuids_def reader_simps(5) by (rule map_res_map_Inr) (rule reader_simps(4))
  show s: "map_res as_str (map JStr ss) = Inr ss"
    by (rule map_res_map_Inr) (rule reader_simps(1))
  then show "as_list as_str (of_strs ss) = Inr ss" by (simp add: of_strs_def reader_simps)
  show "as_opt (as_list as_uuid) (of_uuids ids) = Inr (Some ids)"
    using u by (simp add: as_opt_def of_uuids_def)
qed

lemma load_dump_analysis: "load_analysis (dump_analysis a) = Inr a"
proof -
  let ?obj = "\<lambda>i. JObj
         [(''identifier_type'', JStr (IdentifierType_value (qi_identifier_type i))),
          (''raw_value'', JStr (qi_raw_value i)), (''normalized_value'', JStr (qi_normalized_value i))]"
  have "map_res (as_obj load_identifier) (map ?obj is) = Inr is" for "is"
    by (rule map_res_map_Inr) (simp add: codec_simps load_identifier_def required_def)
  then show ?thesis by (simp add: load_analysis_def dump_analysis_def required_def codec_simps)
qed

lemma load_dump_resolution: "load_resolution (dump_resolution r) = Inr r"
  by (simp add: load_resolution_def dump_resolution_def required_def codec_simps)

lemma load_dump_plan: "load_plan (dump_plan p) = Inr p"
proof -
  have "map_res (as_obj load_resolution) (map (\<lambda>r. JObj (dump_resolution r)) rs) = Inr rs" for rs
    by (rule map_res_map_Inr) (simp add: codec_simps load_dump_resolution)
  then show ?thesis
    by (simp add: load_plan_def dump_plan_def required_def defaulted_def codec_simps)
qed

lemma load_dump_claim: "gc_text c \<noteq> [] \<Longrightarrow> load_claim (dump_claim c) = Inr c"
  by (simp add: load_claim_def dump_claim_def required_def defaulted_def as_nonempty_str_def codec_simps)

lemma load_dump_draft:
  assumes "draft_ok d"
  shows "load_draft (dump_draft d) = Inr d"
proof -
  have "map_res (as_obj load_claim) (map (\<lambda>c. JObj (dump_claim c)) (gd_claims d)) = Inr (gd_claims d)"
    using assms by (intro map_res_map_Inr) (auto simp: codec_simps load_dump_claim draft_ok_def)
  then show ?thesis using assms
    by (auto simp: load_draft_def dump_draft_def defaulted_def codec_simps draft_ok_def as_opt_def
        load_dump_claim split: option.splits)
qed

lemma deserialize_serialize: "deserialize_authorized_context (serialize_authorized_context ctx) = Inr ctx"
proof -
  have "load_scope (dump_scope s) = Inr s" for s
    by (cases "sc_allowed_document_version_ids s")
      (simp_all add: load_scope_def dump_scope_def required_def defaulted_def codec_simps)
  then show ?thesis
    by (simp add: deserialize_authorized_context_def serialize_authorized_context_def of_strs_def codec_simps)
qed

end
