(* ===== verification/Tracker.thy ===== *)
theory Tracker
  imports Identifiers
begin

text \<open>
  The sandbox project tracker (\<open>infrastructure/project_tracker/sandbox.py\<close>,
  \<open>application/ports/project_tracker.py\<close>) with its tables, and the ranking of possible duplicates
  (\<open>application/services/issue_candidates.py\<close>). Rows that default to \<open>uuid4()\<close> take their id from
  an argument. Times are compared and ordered as seconds, so \<open>timestamp()\<close> is the time itself.
  Scores are exact: the rounding of binary floats is not modelled, that of \<open>round(_, 6)\<close> and of a
  \<open>Numeric(8, 6)\<close> column is.
\<close>

section \<open>Tables and requests\<close>

record SandboxProjectModel =
  sp_id :: uuid
  sp_project_id :: uuid
  sp_external_key :: string
  sp_status :: string

record SandboxIssueModel =
  si_id :: uuid
  si_project_id :: uuid
  si_sandbox_project_id :: uuid
  si_issue_key :: string
  si_title :: string
  si_description :: string
  si_issue_type :: string
  si_priority :: string
  si_status :: string
  si_module :: "string option"
  si_error_code :: "string option"
  si_environment :: "string option"
  si_reporter_id :: uuid
  si_source :: string
  si_client_request_id :: "string option"
  si_created_at :: datetime

record SandboxIssueEventModel =
  se_id :: uuid
  se_sandbox_issue_id :: uuid
  se_event_type :: string
  se_actor_id :: "uuid option"
  se_payload :: payload

record tracker_db =
  sandbox_projects :: "SandboxProjectModel list"
  sandbox_issues :: "SandboxIssueModel list"
  sandbox_issue_events :: "SandboxIssueEventModel list"

record SearchIssuesRequest =
  sr_project_id :: string
  sr_query :: "string option"
  sr_error_code :: "string option"
  sr_module :: "string option"
  sr_statuses :: "string list"
  sr_limit :: int

record ProjectIssue =
  pi_project_id :: string
  pi_issue_key :: string
  pi_title :: string
  pi_description :: string
  pi_status :: string
  pi_issue_type :: string
  pi_priority :: string
  pi_module :: "string option"
  pi_error_code :: "string option"
  pi_environment :: "string option"
  pi_created_at :: "datetime option"

record CreateIssueRequest =
  xr_project_id :: string
  xr_request_id :: string
  xr_title :: string
  xr_description :: string
  xr_issue_type :: string
  xr_priority :: string
  xr_reporter_id :: string
  xr_module :: "string option"
  xr_error_code :: "string option"
  xr_environment :: "string option"

record CreatedIssue =
  ci_project_id :: string
  ci_request_id :: string
  ci_issue_key :: string
  ci_status :: string

section \<open>Searching\<close>

definition project_uuid :: "string \<Rightarrow> uuid res" where
  "project_uuid s =
     (case UUID s of Inl _ \<Rightarrow> Inl (ValueError ''project_id must be a UUID string'') | Inr u \<Rightarrow> Inr u)"

definition escape_like :: "string \<Rightarrow> string" where
  "escape_like v =
     py_replace ''_'' [CHR 0x5C, CHR ''_'']
       (py_replace ''%'' [CHR 0x5C, CHR ''%'']
         (py_replace [CHR 0x5C] [CHR 0x5C, CHR 0x5C] v))"

text \<open>\<open>LIKE\<close> with the backslash as escape character, and \<open>ILIKE\<close>.\<close>

function like :: "string \<Rightarrow> string \<Rightarrow> bool" where
  "like [] s = (s = [])"
| "like (p # ps) s =
     (if p = CHR ''%'' then like ps s \<or> (case s of [] \<Rightarrow> False | _ # s' \<Rightarrow> like (p # ps) s')
      else case s of
          [] \<Rightarrow> False
        | c # s' \<Rightarrow>
            if p = CHR ''_'' then like ps s'
            else if p = CHR 0x5C then (case ps of [] \<Rightarrow> False | q # qs \<Rightarrow> c = q \<and> like qs s')
            else c = p \<and> like ps s')"
  by pat_completeness auto
termination
  by (relation "measure (\<lambda>(p, s). length p + length s)") auto

definition ilike :: "string \<Rightarrow> string \<Rightarrow> bool" where
  "ilike pattern s = like (py_lower pattern) (py_lower s)"

definition search_matches :: "uuid \<Rightarrow> SearchIssuesRequest \<Rightarrow> SandboxIssueModel \<Rightarrow> bool" where
  "search_matches project req i \<longleftrightarrow>
     si_project_id i = project \<and>
     (case sr_error_code req of None \<Rightarrow> True | Some e \<Rightarrow> si_error_code i = Some (py_upper (py_strip e))) \<and>
     (case sr_module req of None \<Rightarrow> True | Some m \<Rightarrow> si_module i = Some (py_strip m)) \<and>
     (sr_statuses req = [] \<or>
        si_status i \<in> set (fromkeys (map (\<lambda>s. py_upper (py_strip s)) (sr_statuses req)))) \<and>
     (case sr_query req of
        None \<Rightarrow> True
      | Some q \<Rightarrow>
          if py_strip q = [] then True
          else let pattern = ''%'' @ escape_like (py_strip q) @ ''%''
               in ilike pattern (si_title i) \<or> ilike pattern (si_description i))"

definition build_search_statement ::
  "SearchIssuesRequest \<Rightarrow> tracker_db \<Rightarrow> SandboxIssueModel list res" where
  "build_search_statement req db =
     (if sr_limit req < 1 \<or> sr_limit req > 100 then Inl (ValueError ''limit must be between 1 and 100'')
      else bind_res (project_uuid (sr_project_id req)) (\<lambda>project.
        Inr (take (nat (sr_limit req))
          (sort_key (\<lambda>i. (- si_created_at i, si_issue_key i))
            (filter (search_matches project req) (sandbox_issues db))))))"

definition to_project_issue :: "SandboxIssueModel \<Rightarrow> ProjectIssue" where
  "to_project_issue i =
     \<lparr>pi_project_id = uuid_str (si_project_id i), pi_issue_key = si_issue_key i, pi_title = si_title i,
      pi_description = si_description i, pi_status = si_status i, pi_issue_type = si_issue_type i,
      pi_priority = si_priority i, pi_module = si_module i, pi_error_code = si_error_code i,
      pi_environment = si_environment i, pi_created_at = Some (si_created_at i)\<rparr>"

definition search_issues :: "SearchIssuesRequest \<Rightarrow> tracker_db \<Rightarrow> ProjectIssue list res" where
  "search_issues req db =
     bind_res (build_search_statement req db) (\<lambda>rows. Inr (map to_project_issue rows))"

section \<open>Creating\<close>

definition issues_of_request :: "uuid \<Rightarrow> string \<Rightarrow> tracker_db \<Rightarrow> SandboxIssueModel list" where
  "issues_of_request project request db =
     sort_key (\<lambda>i. (si_created_at i, si_id i))
       (filter (\<lambda>i. si_project_id i = project \<and> si_client_request_id i = Some request)
          (sandbox_issues db))"

definition get_issue_by_request_id ::
  "string \<Rightarrow> string \<Rightarrow> tracker_db \<Rightarrow> CreatedIssue option res" where
  "get_issue_by_request_id project_id request_id db =
     bind_res (project_uuid project_id) (\<lambda>project.
       Inr (case issues_of_request project request_id db of
              [] \<Rightarrow> None
            | i # _ \<Rightarrow> Some \<lparr>ci_project_id = uuid_str (si_project_id i), ci_request_id = request_id,
                             ci_issue_key = si_issue_key i, ci_status = si_status i\<rparr>))"

definition active_sandbox_project :: "uuid \<Rightarrow> tracker_db \<Rightarrow> SandboxProjectModel option" where
  "active_sandbox_project project db =
     find (\<lambda>p. sp_project_id p = project \<and> sp_status p = ''active'') (sandbox_projects db)"

definition new_issue_key :: "SandboxProjectModel \<Rightarrow> uuid \<Rightarrow> string" where
  "new_issue_key sp model_id =
     sp_external_key sp @ ''-'' @ zfill 6 (str_nat (unat model_id mod 1000000))"

definition new_issue_row ::
  "datetime \<Rightarrow> uuid \<Rightarrow> uuid \<Rightarrow> SandboxProjectModel \<Rightarrow> uuid \<Rightarrow> CreateIssueRequest \<Rightarrow> SandboxIssueModel" where
  "new_issue_row now model_id project sp reporter req =
     \<lparr>si_id = model_id, si_project_id = project, si_sandbox_project_id = sp_id sp,
      si_issue_key = new_issue_key sp model_id, si_title = xr_title req,
      si_description = xr_description req, si_issue_type = xr_issue_type req,
      si_priority = xr_priority req, si_status = ''OPEN'', si_module = xr_module req,
      si_error_code = (case xr_error_code req of
         None \<Rightarrow> None | Some e \<Rightarrow> if e = [] then None else Some (py_upper e)),
      si_environment = xr_environment req, si_reporter_id = reporter, si_source = ''sandbox'',
      si_client_request_id = Some (xr_request_id req), si_created_at = now\<rparr>"

text \<open>
  \<open>INSERT \<dots> ON CONFLICT (project_id, client_request_id) DO NOTHING\<close>: the other unique keys of the
  table, the primary key and the issue key within the project, still raise.
\<close>

definition insert_issue :: "SandboxIssueModel \<Rightarrow> (bool, tracker_db) op" where
  "insert_issue row db =
     (if \<exists>i\<in>set (sandbox_issues db). si_project_id i = si_project_id row \<and>
           si_client_request_id i = si_client_request_id row
      then (Inr False, db)
      else if \<exists>i\<in>set (sandbox_issues db). si_id i = si_id row \<or>
           (si_project_id i = si_project_id row \<and> si_issue_key i = si_issue_key row)
      then (Inl (IntegrityError ''sandbox_issues''), db)
      else (Inr True, db\<lparr>sandbox_issues := sandbox_issues db @ [row]\<rparr>))"

definition create_issue ::
  "datetime \<Rightarrow> uuid \<Rightarrow> uuid \<Rightarrow> CreateIssueRequest \<Rightarrow> (CreatedIssue, tracker_db) op" where
  "create_issue now model_id event_id req =
     bind_op (read_op (get_issue_by_request_id (xr_project_id req) (xr_request_id req))) (\<lambda>existing.
       case existing of
         Some c \<Rightarrow> return_op c
       | None \<Rightarrow>
           bind_op (of_res (project_uuid (xr_project_id req))) (\<lambda>project.
           bind_op (read_op (\<lambda>db. the_or (LookupError ''active sandbox project is required'')
                                     (active_sandbox_project project db))) (\<lambda>sp.
           bind_op (of_res (UUID (xr_reporter_id req))) (\<lambda>reporter.
             let row = new_issue_row now model_id project sp reporter req
             in bind_op (insert_issue row) (\<lambda>inserted.
                  if \<not> inserted then
                    bind_op (read_op (get_issue_by_request_id (xr_project_id req) (xr_request_id req)))
                      (\<lambda>existing. of_res (the_or
                         (RuntimeError ''sandbox issue request id conflict could not be reconciled'')
                         existing))
                  else
                    bind_op (modify_op (\<lambda>db. db\<lparr>sandbox_issue_events := sandbox_issue_events db @
                        [\<lparr>se_id = event_id, se_sandbox_issue_id = model_id, se_event_type = ''CREATED'',
                          se_actor_id = Some reporter,
                          se_payload = [(''client_request_id'', JStr (xr_request_id req))]\<rparr>]\<rparr>)) (\<lambda>_.
                      return_op \<lparr>ci_project_id = xr_project_id req, ci_request_id = xr_request_id req,
                        ci_issue_key = si_issue_key row, ci_status = ''OPEN''\<rparr>))))))"

section \<open>Possible duplicates\<close>

datatype IssueCandidateAction = VIEW_EXISTING | LINK_EXISTING | CONTINUE_CREATE | CANCEL_CREATE

record IssueCandidateQuery =
  cq_project_id :: string
  cq_title :: string
  cq_description :: string
  cq_error_code :: "string option"
  cq_module :: "string option"
  cq_statuses :: "string list"
  cq_semantic_scores :: "(string \<times> score) list"
  cq_limit :: int

record IssueCandidate =
  ic_project_id :: string
  ic_issue_key :: string
  ic_title :: string
  ic_description :: string
  ic_status :: string
  ic_issue_type :: string
  ic_priority :: string
  ic_module :: "string option"
  ic_error_code :: "string option"
  ic_environment :: "string option"
  ic_created_at :: "datetime option"
  ic_score :: score
  ic_reasons :: "string list"
  ic_semantic_score :: "score option"

record IssueCandidateResult =
  cr_query :: IssueCandidateQuery
  cr_possible_duplicates :: "IssueCandidate list"
  cr_user_options :: "IssueCandidateAction list"

text \<open>\<open>round(x, 6)\<close>: half to even; and the rounding of a numeric column: half away from zero.\<close>

definition round6 :: "score \<Rightarrow> score" where
  "round6 x =
     (let y = x * 1000000; f = floor y; d = y - of_int f
      in of_int (if d < 1 / 2 \<or> (d = 1 / 2 \<and> even f) then f else f + 1) / 1000000)"

definition numeric6 :: "score \<Rightarrow> score" where
  "numeric6 x = (let y = \<bar>x\<bar> * 1000000 in sgn x * of_int (floor (y + 1 / 2)) / 1000000)"

definition status_score_of :: "string \<Rightarrow> score" where
  "status_score_of s =
     (case map_of [(''OPEN'', 8), (''REOPENED'', 8), (''IN_PROGRESS'', 7), (''RESOLVED'', 3), (''CLOSED'', 0)] s of
        None \<Rightarrow> 0 | Some v \<Rightarrow> v)"

definition tokens :: "string \<Rightarrow> string list" where
  "tokens v = fromkeys (map py_lower (filter (\<lambda>t. length t > 1)
     (map fst (finditer (Eps, plus (Cls is_word), Eps) v))))"

definition overlap :: "string list \<Rightarrow> string list \<Rightarrow> score" where
  "overlap left right =
     (if left = [] \<or> right = [] then 0
      else of_nat (length (filter (\<lambda>t. t \<in> set right) left)) /
           of_nat (max 1 (min (length left) (length right))))"

definition both_match :: "(string \<Rightarrow> string) \<Rightarrow> string option \<Rightarrow> string option \<Rightarrow> bool" where
  "both_match f a b =
     (case (a, b) of (Some x, Some y) \<Rightarrow> x \<noteq> [] \<and> y \<noteq> [] \<and> f y = f x | _ \<Rightarrow> False)"

type_synonym rank_key = "score \<times> score \<times> score \<times> score \<times> score \<times> score \<times> score"

definition MODULE_LABEL :: pattern where
  "MODULE_LABEL =
     (seqs [lit_ci ''module'', Star (Cls is_space), Cls (\<lambda>c. c \<in> set '':=''), Star (Cls is_space)],
      plus (Cls (\<lambda>c. is_word c \<or> c \<in> set ''.-'')), Eps)"

definition rank_issue :: "IssueCandidateQuery \<Rightarrow> ProjectIssue \<Rightarrow> (rank_key \<times> IssueCandidate) option" where
  "rank_issue q issue =
     (if pi_project_id issue \<noteq> cq_project_id q then None
      else
        let exact_error = both_match py_upper (cq_error_code q) (pi_error_code issue);
            module_match = both_match py_lower (cq_module q) (pi_module issue);
            title_overlap = overlap (tokens (cq_title q)) (tokens (pi_title issue));
            description_overlap = overlap (tokens (cq_description q)) (tokens (pi_description issue));
            requested = py_upper (pi_status issue) \<in> set (map py_upper (cq_statuses q));
            status_score = status_score_of (py_upper (pi_status issue)) + (if requested then 10 else 0);
            semantic = map_option (\<lambda>s. max 0 (min s 1)) (map_of (cq_semantic_scores q) (pi_issue_key issue));
            bounded = (case semantic of None \<Rightarrow> 0 | Some s \<Rightarrow> s);
            reasons = (if exact_error then [''exact_error_code''] else []) @
                      (if module_match then [''module_match''] else []) @
                      (if title_overlap > 0 then [''title_keyword''] else []) @
                      (if description_overlap > 0 then [''description_keyword''] else []) @
                      (if requested then [''requested_status''] else []) @
                      [''status:'' @ py_upper (pi_status issue)] @
                      (if bounded > 0 then [''semantic_score''] else []);
            matched = (exact_error \<or> module_match \<or> title_overlap > 0 \<or> description_overlap > 0 \<or>
                       requested \<or> bounded > 0);
            display_score = (if exact_error then 1000 else 0) + (if module_match then 100 else 0) +
              title_overlap * 20 + description_overlap * 10 + status_score + bounded * 5
        in if \<not> matched then None
           else Some
             ((if exact_error then 1 else 0, if module_match then 1 else 0, title_overlap,
               description_overlap, status_score, bounded,
               case pi_created_at issue of None \<Rightarrow> 0 | Some t \<Rightarrow> t),
              \<lparr>ic_project_id = pi_project_id issue, ic_issue_key = pi_issue_key issue,
               ic_title = pi_title issue, ic_description = pi_description issue,
               ic_status = pi_status issue, ic_issue_type = pi_issue_type issue,
               ic_priority = pi_priority issue, ic_module = pi_module issue,
               ic_error_code = pi_error_code issue, ic_environment = pi_environment issue,
               ic_created_at = pi_created_at issue, ic_score = round6 display_score,
               ic_reasons = reasons, ic_semantic_score = semantic\<rparr>))"

definition sort_rank :: "rank_key \<times> IssueCandidate \<Rightarrow> rank_key \<times> string" where
  "sort_rank kc =
     (case kc of ((a, b, c, d, e, f, g), cand) \<Rightarrow>
        ((- a, - b, - c, - d, - e, - f, - g), ic_issue_key cand))"

definition find_candidates :: "IssueCandidateQuery \<Rightarrow> tracker_db \<Rightarrow> IssueCandidateResult res" where
  "find_candidates q db =
     bind_res (search_issues \<lparr>sr_project_id = cq_project_id q, sr_query = None, sr_error_code = None,
                 sr_module = None, sr_statuses = [], sr_limit = 100\<rparr> db) (\<lambda>pool.
       let ranked = sort_key sort_rank (List.map_filter (rank_issue q) pool)
       in Inr \<lparr>cr_query = q, cr_possible_duplicates = map snd (take (nat (cq_limit q)) ranked),
               cr_user_options = [VIEW_EXISTING, LINK_EXISTING, CONTINUE_CREATE, CANCEL_CREATE]\<rparr>)"

definition first_error_code :: "ExtractedIdentifier list \<Rightarrow> string option" where
  "first_error_code found =
     map_option ei_normalized_value (find (\<lambda>e. ei_identifier_type e = ERROR_CODE) found)"

definition find_candidates_from_text ::
  "string \<Rightarrow> string \<Rightarrow> int \<Rightarrow> (string \<times> score) list \<Rightarrow> tracker_db \<Rightarrow> IssueCandidateResult res" where
  "find_candidates_from_text project_id txt limit semantic_scores db =
     (let stripped = py_strip txt
      in if stripped = [] then Inl (ValueError ''issue text cannot be blank'')
         else bind_res (extract_text stripped) (\<lambda>found.
           if project_id = [] \<or> limit < 1 \<or> limit > 20 then Inl (ValueError ''IssueCandidateQuery'')
           else find_candidates
             \<lparr>cq_project_id = project_id, cq_title = stripped, cq_description = stripped,
              cq_error_code = first_error_code found, cq_module = search MODULE_LABEL stripped,
              cq_statuses = [], cq_semantic_scores = semantic_scores, cq_limit = limit\<rparr> db))"

section \<open>A search text is matched literally\<close>

definition esc1 :: "char \<Rightarrow> string" where
  "esc1 c = (if c \<in> {CHR 0x5C, CHR ''%'', CHR ''_''} then [CHR 0x5C, c] else [c])"

lemma py_replace_char:
  "py_replace [c] new s = concat (map (\<lambda>d. if d = c then new else [d]) s)"
  by (induction s) auto

lemma escape_like_concat: "escape_like v = concat (map esc1 v)"
  unfolding escape_like_def py_replace_char by (induction v) (auto simp: esc1_def)

lemma lower_special:
  "lower_char c = CHR 0x5C \<longleftrightarrow> c = CHR 0x5C"
  "lower_char c = CHR ''%'' \<longleftrightarrow> c = CHR ''%''"
  "lower_char c = CHR ''_'' \<longleftrightarrow> c = CHR ''_''"
  by (cases c rule: char.exhaust; auto simp: lower_char_code is_alpha_code)+

lemma lower_escape: "py_lower (escape_like v) = escape_like (py_lower v)"
  unfolding escape_like_concat py_lower_def
  by (induction v) (auto simp: esc1_def lower_special)

lemma like_escaped:
  "like (concat (map esc1 q) @ ps) s \<longleftrightarrow> (\<exists>s'. s = q @ s' \<and> like ps s')"
proof (induction q arbitrary: s)
  case (Cons c q)
  show ?case
  proof (cases s)
    case (Cons d s')
    then show ?thesis using Cons.IH [of s'] \<open>s = d # s'\<close>
      by (auto simp: esc1_def)
  qed (auto simp: esc1_def)
qed simp

declare like.simps [simp del]

lemma like_percent: "like (CHR ''%'' # ps) s \<longleftrightarrow> (\<exists>u v. s = u @ v \<and> like ps v)"
proof (induction s)
  case Nil
  then show ?case by (simp add: like.simps)
next
  case (Cons c s)
  have "like (CHR ''%'' # ps) (c # s) \<longleftrightarrow> like ps (c # s) \<or> (\<exists>u v. s = u @ v \<and> like ps v)"
    using Cons.IH by (subst like.simps(2)) simp
  also have "\<dots> \<longleftrightarrow> (\<exists>u v. c # s = u @ v \<and> like ps v)" by (auto simp: Cons_eq_append_conv)
  finally show ?case .
qed

lemma ilike_piece:
  "ilike (''%'' @ escape_like q @ ''%'') s \<longleftrightarrow> piece_of (py_lower q) (py_lower s)"
proof -
  have low: "py_lower (''%'' @ escape_like q @ ''%'') = ''%'' @ escape_like (py_lower q) @ ''%''"
    using lower_escape [of q] by (simp add: py_lower_def lower_special)
  have all: "like ''%'' v" for v
    by (metis like_percent append_Nil2 like.simps(1))
  have "like (''%'' @ escape_like (py_lower q) @ ''%'') (py_lower s) \<longleftrightarrow>
      (\<exists>u v. py_lower s = u @ v \<and> like (concat (map esc1 (py_lower q)) @ ''%'') v)"
    using like_percent [of "escape_like (py_lower q) @ ''%''"] by (simp add: escape_like_concat)
  then show ?thesis
    unfolding ilike_def low like_escaped piece_of_def using all by auto
qed

text \<open>C38: a text search returns exactly the issues of the project that pass the other filters and whose
  title or description contains the stripped text, without regard to case: the wildcards and the
  escape character of SQL in the text stand for themselves. The newest issues come first, and at most
  the requested number is returned.\<close>

theorem search_is_literal:
  assumes "search_issues req db = Inr found" and "sr_query req = Some q" and "py_strip q \<noteq> []"
  shows "\<exists>project. project_uuid (sr_project_id req) = Inr project \<and>
    found = map to_project_issue (take (nat (sr_limit req))
      (sort_key (\<lambda>i. (- si_created_at i, si_issue_key i))
        (filter (\<lambda>i. search_matches project (req\<lparr>sr_query := None\<rparr>) i \<and>
             (piece_of (py_lower (py_strip q)) (py_lower (si_title i)) \<or>
              piece_of (py_lower (py_strip q)) (py_lower (si_description i))))
           (sandbox_issues db)))) \<and>
    length found \<le> nat (sr_limit req) \<and> 1 \<le> sr_limit req \<and> sr_limit req \<le> 100"
proof -
  have m: "search_matches project req = (\<lambda>i. search_matches project (req\<lparr>sr_query := None\<rparr>) i \<and>
             (piece_of (py_lower (py_strip q)) (py_lower (si_title i)) \<or>
              piece_of (py_lower (py_strip q)) (py_lower (si_description i))))" for project
    using assms(2,3) by (simp add: fun_eq_iff search_matches_def ilike_piece [simplified] Let_def)
  show ?thesis
    using assms(1)
    by (auto simp: search_issues_def build_search_statement_def bind_res_Inr_iff m split: if_splits)
qed

definition sample_issue :: SandboxIssueModel where
  "sample_issue = \<lparr>si_id = 7, si_project_id = 2, si_sandbox_project_id = 1, si_issue_key = ''K-1'',
     si_title = ''at 50% CPU'', si_description = ''slow'', si_issue_type = ''BUG'', si_priority = ''HIGH'',
     si_status = ''OPEN'', si_module = None, si_error_code = Some ''E123'', si_environment = None,
     si_reporter_id = 4, si_source = ''sandbox'', si_client_request_id = None, si_created_at = 10\<rparr>"

definition sample_tracker :: tracker_db where
  "sample_tracker = \<lparr>sandbox_projects = [\<lparr>sp_id = 1, sp_project_id = 2, sp_external_key = ''K'',
       sp_status = ''active''\<rparr>],
     sandbox_issues = [sample_issue, sample_issue\<lparr>si_id := 8, si_issue_key := ''K-2'',
       si_title := ''at 500 CPU'', si_error_code := None, si_created_at := 20\<rparr>], sandbox_issue_events = []\<rparr>"

theorem search_is_literal_witness:
  "\<exists>found. search_issues \<lparr>sr_project_id = uuid_str 2, sr_query = Some ''50% cpu'', sr_error_code = None,
       sr_module = None, sr_statuses = [], sr_limit = 20\<rparr> sample_tracker = Inr found \<and>
     map pi_issue_key found = [''K-1''] \<and> length found \<le> 20"
proof -
  let ?req = "\<lparr>sr_project_id = uuid_str 2, sr_query = Some ''50% cpu'', sr_error_code = None,
       sr_module = None, sr_statuses = [], sr_limit = 20\<rparr>"
  have ev: "search_issues ?req sample_tracker = Inr [to_project_issue sample_issue]" by code_simp
  have st: "py_strip ''50% cpu'' \<noteq> []" by code_simp
  have "length [to_project_issue sample_issue] \<le> nat (sr_limit ?req)"
    using search_is_literal [OF ev, of "''50% cpu''"] st by simp
  then show ?thesis using ev by (simp add: to_project_issue_def sample_issue_def)
qed

section \<open>The ranking of possible duplicates\<close>

lemma find_candidates_Inr:
  assumes "find_candidates q db = Inr r"
  obtains pool where "search_issues \<lparr>sr_project_id = cq_project_id q, sr_query = None,
      sr_error_code = None, sr_module = None, sr_statuses = [], sr_limit = 100\<rparr> db = Inr pool"
    "cr_possible_duplicates r
       = map snd (take (nat (cq_limit q)) (sort_key sort_rank (List.map_filter (rank_issue q) pool)))"
  using assms by (auto simp: find_candidates_def bind_res_Inr_iff Let_def)

lemma if_None_eq_Some: "(if P then None else X) = Some y \<longleftrightarrow> \<not> P \<and> X = Some y"
  by simp

lemma rank_issue_Some:
  assumes "rank_issue q i = Some (k, c)"
  shows "pi_project_id i = cq_project_id q" and "ic_project_id c = cq_project_id q"
    and "ic_issue_key c = pi_issue_key i" and "length (ic_reasons c) \<ge> 2"
    and "fst k = (if both_match py_upper (cq_error_code q) (pi_error_code i) then 1 else 0)"
    and "ic_error_code c = pi_error_code i"
proof -
  note r = assms [unfolded rank_issue_def Let_def if_None_eq_Some option.inject prod.inject]
  show "pi_project_id i = cq_project_id q" using r by simp
  show "ic_project_id c = cq_project_id q" and "ic_issue_key c = pi_issue_key i"
    and "fst k = (if both_match py_upper (cq_error_code q) (pi_error_code i) then 1 else 0)"
    and "ic_error_code c = pi_error_code i"
    using r by (elim conjE; hypsubst; simp)+
  show "length (ic_reasons c) \<ge> 2" using r by (elim conjE; hypsubst) (simp; linarith?)
qed

lemma sort_rank_first: "sort_rank x \<le> sort_rank y \<Longrightarrow> fst (fst y) \<le> fst (fst x)"
  by (cases x; cases y) (auto simp: sort_rank_def less_eq_prod_def split: prod.splits)

lemma sorted_take_nth:
  "i < j \<Longrightarrow> j < length (take n (sort_key f xs)) \<Longrightarrow>
     f (take n (sort_key f xs) ! i) \<le> f (take n (sort_key f xs) ! j)"
  using sorted_sort_key [of f xs] by (simp add: sorted_iff_nth_mono)

text \<open>The possible duplicates are at most the requested number, each is an issue of the queried
  project that the tracker returned and has a reason beside its status, and an issue whose error code
  equals the queried one never comes after one whose error code does not.\<close>

theorem candidates_ranked:
  assumes "find_candidates q db = Inr r" and "cs = cr_possible_duplicates r"
  shows "length cs \<le> nat (cq_limit q) \<and>
    (\<forall>c\<in>set cs. ic_project_id c = cq_project_id q \<and> length (ic_reasons c) \<ge> 2 \<and>
       (\<exists>i\<in>set (sandbox_issues db). uuid_str (si_project_id i) = cq_project_id q \<and>
          si_issue_key i = ic_issue_key c \<and> si_error_code i = ic_error_code c)) \<and>
    (\<forall>i j. i < j \<longrightarrow> j < length cs \<longrightarrow>
       both_match py_upper (cq_error_code q) (ic_error_code (cs ! j)) \<longrightarrow>
       both_match py_upper (cq_error_code q) (ic_error_code (cs ! i)))"
proof -
  obtain pool where pool: "search_issues \<lparr>sr_project_id = cq_project_id q, sr_query = None,
      sr_error_code = None, sr_module = None, sr_statuses = [], sr_limit = 100\<rparr> db = Inr pool"
    and dup: "cr_possible_duplicates r
       = map snd (take (nat (cq_limit q)) (sort_key sort_rank (List.map_filter (rank_issue q) pool)))"
    by (rule find_candidates_Inr [OF assms(1)])
  define rs where "rs = take (nat (cq_limit q)) (sort_key sort_rank (List.map_filter (rank_issue q) pool))"
  have cs: "cs = map snd rs" using assms(2) dup by (simp add: rs_def)
  have len: "length cs \<le> nat (cq_limit q)" by (simp add: cs rs_def)
  have from_pool: "\<exists>i\<in>set pool. rank_issue q i = Some kc" if "kc \<in> set rs" for kc
    using set_take_subset [of "nat (cq_limit q)"] that by (fastforce simp: rs_def map_filter_def)
  have in_db: "\<exists>j\<in>set (sandbox_issues db). i = to_project_issue j" if "i \<in> set pool" for i
    using pool that set_take_subset
    by (fastforce simp: search_issues_def build_search_statement_def bind_res_Inr_iff)
  have each: "ic_project_id c = cq_project_id q \<and> length (ic_reasons c) \<ge> 2 \<and>
       (\<exists>i\<in>set (sandbox_issues db). uuid_str (si_project_id i) = cq_project_id q \<and>
          si_issue_key i = ic_issue_key c \<and> si_error_code i = ic_error_code c)" if c: "c \<in> set cs" for c
  proof -
    obtain kc where kc: "kc \<in> set rs" "c = snd kc" using c unfolding cs set_map by blast
    obtain i where i: "i \<in> set pool" "rank_issue q i = Some (fst kc, c)"
      using from_pool [OF kc(1)] kc(2) by auto
    obtain j where j: "j \<in> set (sandbox_issues db)" "i = to_project_issue j" using in_db i(1) by blast
    show ?thesis
      using rank_issue_Some [OF i(2)] j by (auto simp: to_project_issue_def)
  qed
  have first: "fst (fst kc) = (if both_match py_upper (cq_error_code q) (ic_error_code (snd kc)) then 1 else 0)"
    if "kc \<in> set rs" for kc
    using from_pool [OF that] rank_issue_Some by (cases kc) fastforce
  have order: "both_match py_upper (cq_error_code q) (ic_error_code (cs ! i))"
    if ij: "i < j" "j < length cs" and m: "both_match py_upper (cq_error_code q) (ic_error_code (cs ! j))"
    for i j
  proof -
    have "fst (fst (rs ! j)) \<le> fst (fst (rs ! i))"
      using sorted_take_nth [of i j "nat (cq_limit q)" sort_rank "List.map_filter (rank_issue q) pool"] ij
      unfolding cs length_map rs_def [symmetric] by (blast intro: sort_rank_first)
    then show ?thesis
      using first [of "rs ! i"] first [of "rs ! j"] ij m cs by (auto split: if_splits)
  qed
  show ?thesis using len each order by blast
qed

theorem candidates_ranked_witness:
  "\<exists>r. find_candidates \<lparr>cq_project_id = uuid_str 2, cq_title = ''500 cpu'', cq_description = ''x'',
        cq_error_code = Some ''e123'', cq_module = None, cq_statuses = [], cq_semantic_scores = [],
        cq_limit = 5\<rparr> sample_tracker = Inr r \<and>
     map ic_issue_key (cr_possible_duplicates r) = [''K-1'', ''K-2''] \<and>
     length (cr_possible_duplicates r) \<le> 5"
proof -
  let ?q = "\<lparr>cq_project_id = uuid_str 2, cq_title = ''500 cpu'', cq_description = ''x'',
        cq_error_code = Some ''e123'', cq_module = None, cq_statuses = [], cq_semantic_scores = [],
        cq_limit = 5\<rparr>"
  have ev: "map_sum id (\<lambda>r. map ic_issue_key (cr_possible_duplicates r)) (find_candidates ?q sample_tracker)
      = Inr [''K-1'', ''K-2'']"
    by code_simp
  then obtain r where r: "find_candidates ?q sample_tracker = Inr r"
    by (cases "find_candidates ?q sample_tracker") auto
  have "length (cr_possible_duplicates r) \<le> nat (cq_limit ?q)"
    using candidates_ranked [OF r refl] by blast
  then show ?thesis using r ev by simp
qed

end
