(* ===== verification/QAStore.thy ===== *)
theory QAStore
  imports Codec Runs Tracker
begin

text \<open>
  The store of the question-answering graph (\<open>infrastructure/db/repositories/qa_graph.py\<close>): artifacts as
  events of the run, token usage and cost (\<open>observability/cost.py\<close>), bundles and snapshots of evidence,
  answers and citations; and the prompt configuration with its cache
  (\<open>application/services/prompt_config.py\<close>, \<open>infrastructure/db/repositories/system_config.py\<close>).

  The state also records the requests that were sent to the knowledge provider, in their order: the
  one effect of a run that no rollback undoes.

  Primary keys are drawn from a supply in the state (\<open>uuid4\<close>); an insertion with a key that the table
  has already raises, as the primary key of the table does. Sizes of the columns are checked where
  a value that the program does not control can exceed them.
\<close>

section \<open>Tables\<close>

record EvidenceBundleModel =
  eb_id :: uuid
  eb_run_id :: uuid
  eb_query_text :: string

record EvidenceSnapshotModel =
  es_id :: uuid
  es_bundle_id :: uuid
  es_project_id :: uuid
  es_document_version_id :: "uuid option"
  es_source_type :: string
  es_source_ref :: string
  es_content :: string
  es_rank :: int
  es_score :: "score option"
  es_metadata :: payload

record AnswerModel =
  aw_id :: uuid
  aw_run_id :: uuid
  aw_answer_text :: string
  aw_refusal_reason :: "string option"

record CitationModel =
  ci_id :: uuid
  ci_answer_id :: uuid
  ci_evidence_snapshot_id :: uuid
  ci_citation_no :: int
  ci_quoted_text :: "string option"

record qa_db =
  qb_runs :: run_db
  qb_bundles :: "EvidenceBundleModel list"
  qb_snapshots :: "EvidenceSnapshotModel list"
  qb_answers :: "AnswerModel list"
  qb_citations :: "CitationModel list"
  qb_supply :: "nat \<Rightarrow> uuid"
  qb_next :: nat
  qb_requests :: "KnowledgeRetrievalRequest list"

type_synonym 'a qa_op = "('a, qa_db) op"

definition uuid4 :: "uuid qa_op" where
  "uuid4 s = (Inr (qb_supply s (qb_next s)), s\<lparr>qb_next := Suc (qb_next s)\<rparr>)"

definition on_runs :: "'a run_op \<Rightarrow> 'a qa_op" where
  "on_runs m s = (case m (qb_runs s) of (r, d) \<Rightarrow> (r, s\<lparr>qb_runs := d\<rparr>))"

definition read_runs :: "(run_db \<Rightarrow> 'a res) \<Rightarrow> 'a qa_op" where
  "read_runs f = read_op (\<lambda>s. f (qb_runs s))"

definition insert_bundle :: "EvidenceBundleModel \<Rightarrow> unit qa_op" where
  "insert_bundle row s =
     (if row_by eb_id (eb_id row) (qb_bundles s) \<noteq> None
      then (Inl (IntegrityError ''pk_evidence_bundles''), s)
      else (Inr (), s\<lparr>qb_bundles := qb_bundles s @ [row]\<rparr>))"

text \<open>\<open>source_ref\<close> is a \<open>String(255)\<close> and \<open>score\<close> a \<open>Numeric(8, 6)\<close>, which rounds.\<close>

definition snapshot_fits :: "EvidenceSnapshotModel \<Rightarrow> bool" where
  "snapshot_fits row \<longleftrightarrow> length (es_source_ref row) \<le> 255 \<and>
     (case es_score row of None \<Rightarrow> True | Some x \<Rightarrow> \<bar>numeric6 x\<bar> < 100)"

definition insert_snapshot :: "EvidenceSnapshotModel \<Rightarrow> unit qa_op" where
  "insert_snapshot row s =
     (if row_by es_id (es_id row) (qb_snapshots s) \<noteq> None
      then (Inl (IntegrityError ''pk_evidence_snapshots''), s)
      else if \<not> snapshot_fits row then (Inl (ProviderError ''DBAPIError''), s)
      else (Inr (), s\<lparr>qb_snapshots := qb_snapshots s @
              [row\<lparr>es_score := map_option numeric6 (es_score row)\<rparr>]\<rparr>))"

definition insert_answer :: "AnswerModel \<Rightarrow> unit qa_op" where
  "insert_answer row s =
     (if row_by aw_id (aw_id row) (qb_answers s) \<noteq> None \<or> row_by aw_run_id (aw_run_id row) (qb_answers s) \<noteq> None
      then (Inl (IntegrityError ''answers''), s)
      else (Inr (), s\<lparr>qb_answers := qb_answers s @ [row]\<rparr>))"

definition insert_citation :: "CitationModel \<Rightarrow> unit qa_op" where
  "insert_citation row s =
     (if row_by ci_id (ci_id row) (qb_citations s) \<noteq> None \<or>
         row_by es_id (ci_evidence_snapshot_id row) (qb_snapshots s) = None \<or>
         (\<exists>c\<in>set (qb_citations s). ci_answer_id c = ci_answer_id row \<and> ci_citation_no c = ci_citation_no row)
      then (Inl (IntegrityError ''citations''), s)
      else (Inr (), s\<lparr>qb_citations := qb_citations s @ [row]\<rparr>))"

text \<open>\<open>for x in xs: body(x)\<close>.\<close>

fun for_each :: "'a list \<Rightarrow> ('a \<Rightarrow> (unit, 's) op) \<Rightarrow> (unit, 's) op" where
  "for_each [] body = return_op ()"
| "for_each (x # xs) body = bind_op (body x) (\<lambda>_. for_each xs body)"

section \<open>Artifacts\<close>

definition qa_load_query :: "uuid \<Rightarrow> string qa_op" where
  "qa_load_query run_id = read_runs (load_query run_id)"

definition qa_save_artifact :: "uuid \<Rightarrow> string \<Rightarrow> payload \<Rightarrow> uuid qa_op" where
  "qa_save_artifact run_id artifact_type payload =
     bind_op uuid4 (\<lambda>new_id.
     bind_op (read_runs (\<lambda>db. if row_by ae_id new_id (events db) \<noteq> None
         then Inl (IntegrityError ''pk_agent_events'') else Inr ())) (\<lambda>_.
       on_runs (save_artifact new_id run_id artifact_type payload)))"

definition qa_load_artifact :: "uuid \<Rightarrow> payload qa_op" where
  "qa_load_artifact artifact_id = read_runs (load_artifact artifact_id)"

section \<open>Prompt configuration\<close>

record SystemConfigModel =
  sy_config_key :: string
  sy_config_value :: payload
  sy_version :: int
  sy_content_hash :: string
  sy_enabled :: bool

record PromptSnapshot =
  ps_config_key :: string
  ps_content :: string
  ps_version :: int
  ps_content_hash :: string

definition latest_enabled :: "string \<Rightarrow> SystemConfigModel list \<Rightarrow> PromptSnapshot res" where
  "latest_enabled config_key rows =
     (case rev (sort_key sy_version (filter (\<lambda>r. sy_config_key r = config_key \<and> sy_enabled r) rows)) of
        [] \<Rightarrow> Inl (LookupError ''no enabled prompt config'')
      | row # _ \<Rightarrow>
          (case map_of (sy_config_value row) ''content'' of
             Some (JStr content) \<Rightarrow>
               if content = [] then Inl (ValueError ''prompt config is missing string content'')
               else Inr \<lparr>ps_config_key = sy_config_key row, ps_content = content,
                         ps_version = sy_version row, ps_content_hash = sy_content_hash row\<rparr>
           | _ \<Rightarrow> Inl (ValueError ''prompt config is missing string content'')))"

record PromptCache =
  pc_ttl :: rat
  pc_cache :: "((string \<times> int) \<times> PromptSnapshot) list"
  pc_latest :: "(string \<times> (rat \<times> int)) list"

definition prompt_service :: "rat \<Rightarrow> PromptCache res" where
  "prompt_service ttl_seconds =
     (if ttl_seconds < 0 then Inl (ValueError ''ttl_seconds cannot be negative'')
      else Inr \<lparr>pc_ttl = ttl_seconds, pc_cache = [], pc_latest = []\<rparr>)"

definition get_snapshot ::
  "rat \<Rightarrow> SystemConfigModel list \<Rightarrow> string \<Rightarrow> (PromptSnapshot, PromptCache) op" where
  "get_snapshot now rows config_key c =
     (let refresh =
        (case latest_enabled config_key rows of
           Inl e \<Rightarrow> (Inl e, c)
         | Inr r \<Rightarrow>
             (let key = (ps_config_key r, ps_version r)
              in case map_of (pc_cache c) key of
                   Some snapshot \<Rightarrow>
                     (Inr snapshot, c\<lparr>pc_latest := AList.update config_key (now, ps_version r) (pc_latest c)\<rparr>)
                 | None \<Rightarrow>
                     (Inr r, c\<lparr>pc_cache := AList.update key r (pc_cache c),
                               pc_latest := AList.update config_key (now, ps_version r) (pc_latest c)\<rparr>)))
      in case map_of (pc_latest c) config_key of
           Some (at_time, version) \<Rightarrow>
             if now - at_time \<le> pc_ttl c
             then (case map_of (pc_cache c) (config_key, version) of
                     Some snapshot \<Rightarrow> (Inr snapshot, c)
                   | None \<Rightarrow> (Inl (KeyError config_key), c))
             else refresh
         | None \<Rightarrow> refresh)"

definition invalidate :: "string option \<Rightarrow> PromptCache \<Rightarrow> PromptCache" where
  "invalidate config_key c =
     (case config_key of
        None \<Rightarrow> c\<lparr>pc_cache := [], pc_latest := []\<rparr>
      | Some k \<Rightarrow> c\<lparr>pc_latest := AList.delete k (pc_latest c),
                    pc_cache := filter (\<lambda>(key, _). fst key \<noteq> k) (pc_cache c)\<rparr>)"

section \<open>Usage and cost\<close>

record TokenCostPolicy =
  tc_input_rate :: "int option"
  tc_output_rate :: "int option"
  tc_currency :: string

definition cost_policy :: "int option \<Rightarrow> int option \<Rightarrow> string \<Rightarrow> TokenCostPolicy res" where
  "cost_policy input_rate output_rate currency =
     (let norm = py_upper (py_strip currency)
      in if (input_rate = None) \<noteq> (output_rate = None)
         then Inl (ValueError ''input and output token prices must be both configured or both omitted'')
         else if (case input_rate of None \<Rightarrow> False | Some r \<Rightarrow> r < 0)
         then Inl (ValueError ''input token price must be non-negative'')
         else if (case output_rate of None \<Rightarrow> False | Some r \<Rightarrow> r < 0)
         then Inl (ValueError ''output token price must be non-negative'')
         else if length norm \<noteq> 3 \<or> \<not> list_all (\<lambda>ch. CHR ''A'' \<le> ch \<and> ch \<le> CHR ''Z'') norm
         then Inl (ValueError ''currency must be exactly three ASCII letters'')
         else Inr \<lparr>tc_input_rate = input_rate, tc_output_rate = output_rate, tc_currency = norm\<rparr>)"

definition estimate :: "TokenCostPolicy \<Rightarrow> int \<Rightarrow> int \<Rightarrow> (int \<times> string) res" where
  "estimate policy input_tokens output_tokens =
     (if input_tokens < 0 \<or> output_tokens < 0 then Inl (ValueError ''token counts must be non-negative'')
      else case (tc_input_rate policy, tc_output_rate policy) of
        (Some i, Some out) \<Rightarrow>
          Inr ((input_tokens * i + output_tokens * out) div 1000000, tc_currency policy)
      | _ \<Rightarrow> Inr (0, tc_currency policy))"

definition update_run :: "uuid \<Rightarrow> (AgentRunModel \<Rightarrow> AgentRunModel res) \<Rightarrow> unit run_op" where
  "update_run run_id f db =
     (case row_by ar_id run_id (runs db) of
        None \<Rightarrow> (Inl (LookupError ''agent run does not exist''), db)
      | Some row \<Rightarrow>
          (case f row of
             Inl e \<Rightarrow> (Inl e, db)
           | Inr row' \<Rightarrow>
               (Inr (), db\<lparr>runs := update_rows (\<lambda>r. ar_id r = run_id) (\<lambda>_. row') (runs db)\<rparr>)))"

definition record_prompt_snapshot :: "uuid \<Rightarrow> string \<Rightarrow> PromptSnapshot \<Rightarrow> uuid qa_op" where
  "record_prompt_snapshot run_id model_alias snapshot =
     bind_op (on_runs (update_run run_id (\<lambda>run. Inr (run\<lparr>ar_model_alias := Some model_alias,
         ar_prompt_version := Some (str_int (ps_version snapshot)),
         ar_prompt_content_hash := Some (ps_content_hash snapshot)\<rparr>)))) (\<lambda>_.
       qa_save_artifact run_id ''PROMPT_SNAPSHOT''
         [(''config_key'', JStr (ps_config_key snapshot)), (''content'', JStr (ps_content snapshot)),
          (''version'', JInt (ps_version snapshot)), (''content_hash'', JStr (ps_content_hash snapshot))])"

definition record_llm_usage :: "TokenCostPolicy \<Rightarrow> uuid \<Rightarrow> int \<Rightarrow> int \<Rightarrow> unit qa_op" where
  "record_llm_usage policy run_id input_tokens output_tokens =
     (if input_tokens < 0 \<or> output_tokens < 0
      then raise_op (ValueError ''token usage cannot be negative'')
      else on_runs (update_run run_id (\<lambda>run.
        let run' = run\<lparr>ar_input_tokens := ar_input_tokens run + input_tokens,
              ar_output_tokens := ar_output_tokens run + output_tokens,
              ar_total_tokens := ar_total_tokens run + (input_tokens + output_tokens)\<rparr>
        in bind_res (estimate policy (ar_input_tokens run') (ar_output_tokens run')) (\<lambda>(units, currency).
             Inr (run'\<lparr>ar_estimated_cost_microunits := units, ar_cost_currency := currency\<rparr>)))))"

definition increment_retrieval_rounds :: "uuid \<Rightarrow> unit qa_op" where
  "increment_retrieval_rounds run_id =
     on_runs (update_run run_id (\<lambda>run. Inr (run\<lparr>ar_retrieval_rounds := ar_retrieval_rounds run + 1\<rparr>)))"

section \<open>Evidence of a retrieval round\<close>

text \<open>\<open>metadata.update\<close>: a new key goes to the end, an existing one keeps its place.\<close>

definition dict_update :: "payload \<Rightarrow> payload \<Rightarrow> payload" where
  "dict_update d upd = AList.updates (map fst upd) (map snd upd) d"

definition opt_int :: "int option \<Rightarrow> json" where
  "opt_int v = (case v of None \<Rightarrow> JNull | Some i \<Rightarrow> JInt i)"

definition candidate_metadata :: "int \<Rightarrow> KnowledgeChunk \<Rightarrow> payload" where
  "candidate_metadata retrieval_round chunk =
     dict_update (map (\<lambda>(k, v). (k, JStr v)) (ch_metadata chunk))
       [(''retrieval_round'', JInt retrieval_round), (''project_code'', JStr (ch_project_id chunk)),
        (''knowledge_space_id'', opt_str (ch_knowledge_space_id chunk)),
        (''page_no'', opt_int (ch_page_no chunk)), (''section'', opt_str (ch_section chunk))]"

text \<open>\<open>a or b\<close> on optional strings: an empty string is false too.\<close>

definition or_else :: "string option \<Rightarrow> string \<Rightarrow> string" where
  "or_else a b = (case a of None \<Rightarrow> b | Some s \<Rightarrow> if s = [] then b else s)"

definition save_candidate :: "uuid \<Rightarrow> uuid \<Rightarrow> int \<Rightarrow> nat \<times> KnowledgeChunk \<Rightarrow> unit qa_op" where
  "save_candidate bundle_id project_id retrieval_round item =
     (case item of (rank, chunk) \<Rightarrow>
        bind_op (of_res (UUID (ch_document_version_id chunk))) (\<lambda>version_id.
        bind_op uuid4 (\<lambda>new_id.
          insert_snapshot
            \<lparr>es_id = new_id, es_bundle_id = bundle_id, es_project_id = project_id,
             es_document_version_id = Some version_id, es_source_type = ''retrieval_candidate'',
             es_source_ref = or_else (ch_provider_ref chunk) (''retrieval:'' @ str_nat rank),
             es_content = ch_content chunk, es_rank = int rank, es_score = Some (ch_score chunk),
             es_metadata = candidate_metadata retrieval_round chunk\<rparr>)))"

definition save_round_marker :: "uuid \<Rightarrow> uuid \<Rightarrow> int \<Rightarrow> unit qa_op" where
  "save_round_marker bundle_id project_id retrieval_round =
     bind_op uuid4 (\<lambda>new_id.
       insert_snapshot
         \<lparr>es_id = new_id, es_bundle_id = bundle_id, es_project_id = project_id, es_document_version_id = None,
          es_source_type = ''retrieval_round_marker'', es_source_ref = ''evaluation:empty-retrieval-round'',
          es_content = [], es_rank = 0, es_score = None,
          es_metadata = [(''retrieval_round'', JInt retrieval_round)]\<rparr>)"

definition new_bundle :: "uuid \<Rightarrow> string \<Rightarrow> uuid qa_op" where
  "new_bundle run_id query_text =
     bind_op uuid4 (\<lambda>bundle_id.
     bind_op (insert_bundle \<lparr>eb_id = bundle_id, eb_run_id = run_id, eb_query_text = query_text\<rparr>) (\<lambda>_.
       return_op bundle_id))"

definition save_evidence_bundle ::
  "uuid \<Rightarrow> uuid \<Rightarrow> string \<Rightarrow> KnowledgeChunk list \<Rightarrow> int \<Rightarrow> uuid qa_op" where
  "save_evidence_bundle run_id project_id query_text chunks retrieval_round =
     (if retrieval_round < 1 then raise_op (ValueError ''retrieval_round must be positive'')
      else bind_op (new_bundle run_id query_text) (\<lambda>bundle_id.
           bind_op (if chunks = [] then save_round_marker bundle_id project_id retrieval_round
                    else return_op ()) (\<lambda>_.
           bind_op (for_each (List.enumerate 1 chunks)
               (save_candidate bundle_id project_id retrieval_round)) (\<lambda>_.
             return_op bundle_id))))"

text \<open>The rows of one kind in a bundle, by rank.\<close>

definition bundle_rows :: "string \<Rightarrow> uuid \<Rightarrow> qa_db \<Rightarrow> EvidenceSnapshotModel list" where
  "bundle_rows source_type bundle_id s =
     sort_key es_rank (filter (\<lambda>r. es_bundle_id r = bundle_id \<and> es_source_type r = source_type) (qb_snapshots s))"

text \<open>\<open>str(value)\<close> of a metadata value: the provider's values are strings.\<close>

definition str_value :: "json \<Rightarrow> string res" where
  "str_value v =
     (case v of JStr s \<Rightarrow> Inr s | JInt i \<Rightarrow> Inr (str_int i) | JNull \<Rightarrow> Inr ''None''
      | JBool b \<Rightarrow> Inr (if b then ''True'' else ''False'') | _ \<Rightarrow> Inl (TypeError ''str''))"

definition metadata_str :: "string \<times> json \<Rightarrow> (string \<times> string) res" where
  "metadata_str entry = (case entry of (k, v) \<Rightarrow> bind_res (str_value v) (\<lambda>s. Inr (k, s)))"

definition reserved_keys :: "string list" where
  "reserved_keys = [''retrieval_round'', ''project_code'', ''knowledge_space_id'', ''page_no'', ''section'']"

definition load_candidate :: "EvidenceSnapshotModel \<Rightarrow> KnowledgeChunk res" where
  "load_candidate row =
     (let md = es_metadata row;
          rest = filter (\<lambda>(k, _). k \<notin> set reserved_keys) md
      in case (map_of md ''project_code'', es_document_version_id row) of
           (Some (JStr code), Some version_id) \<Rightarrow>
             bind_res (case map_of md ''knowledge_space_id'' of
                 None \<Rightarrow> Inr None | Some JNull \<Rightarrow> Inr None
               | Some v \<Rightarrow> bind_res (str_value v) (\<lambda>s. Inr (Some s))) (\<lambda>space.
             bind_res (map_res metadata_str rest) (\<lambda>other.
               Inr \<lparr>ch_project_id = code, ch_document_version_id = uuid_str version_id,
                    ch_content = es_content row,
                    ch_score = (case es_score row of None \<Rightarrow> 0 | Some x \<Rightarrow> x),
                    ch_knowledge_space_id = space, ch_provider_ref = Some (es_source_ref row),
                    ch_page_no = (case map_of md ''page_no'' of Some (JInt i) \<Rightarrow> Some i | _ \<Rightarrow> None),
                    ch_section = str_field md ''section'', ch_metadata = other\<rparr>))
         | _ \<Rightarrow> Inl (ValueError ''evidence snapshot is missing project/version mapping''))"

definition load_evidence_bundle :: "uuid \<Rightarrow> KnowledgeChunk list qa_op" where
  "load_evidence_bundle bundle_id =
     read_op (\<lambda>s. map_res load_candidate (bundle_rows ''retrieval_candidate'' bundle_id s))"

section \<open>Governed evidence\<close>

definition opt_date :: "date option \<Rightarrow> json" where
  "opt_date v = (case v of None \<Rightarrow> JNull | Some d \<Rightarrow> JStr (isoformat d))"

fun DocumentLifecycleStatus_value :: "DocumentLifecycleStatus \<Rightarrow> string" where
  "DocumentLifecycleStatus_value DRAFT = ''DRAFT''"
| "DocumentLifecycleStatus_value UNDER_REVIEW = ''UNDER_REVIEW''"
| "DocumentLifecycleStatus_value APPROVED = ''APPROVED''"
| "DocumentLifecycleStatus_value PUBLISHED = ''PUBLISHED''"
| "DocumentLifecycleStatus_value SUPERSEDED = ''SUPERSEDED''"
| "DocumentLifecycleStatus_value ARCHIVED = ''ARCHIVED''"
| "DocumentLifecycleStatus_value DELETE_PENDING = ''DELETE_PENDING''"
| "DocumentLifecycleStatus_value DELETED = ''DELETED''"

definition DocumentLifecycleStatus_of :: "string \<Rightarrow> DocumentLifecycleStatus res" where
  "DocumentLifecycleStatus_of s =
     (case find (\<lambda>d. DocumentLifecycleStatus_value d = s)
        [DRAFT, UNDER_REVIEW, APPROVED, PUBLISHED, SUPERSEDED, ARCHIVED, DELETE_PENDING, DELETED] of
        None \<Rightarrow> Inl (ValueError s) | Some d \<Rightarrow> Inr d)"

lemma DocumentLifecycleStatus_of_value [simp]:
  "DocumentLifecycleStatus_of (DocumentLifecycleStatus_value d) = Inr d"
  by (cases d) (simp_all add: DocumentLifecycleStatus_of_def)

definition governed_metadata :: "(string \<Rightarrow> string) \<Rightarrow> GovernedEvidence \<Rightarrow> payload" where
  "governed_metadata sha item =
     [(''evidence_label'', JStr (ge_label item)), (''project_code'', JStr (ge_project_code item)),
      (''knowledge_space_id'', opt_str (ge_knowledge_space_id item)),
      (''page_no'', opt_int (ge_page_no item)), (''section'', opt_str (ge_section item)),
      (''document_version_id'', JStr (uuid_str (ge_document_version_id item))),
      (''document_category'', JStr (DocumentCategory_value (ge_document_category item))),
      (''document_title'', JStr (ge_document_title item)), (''version_no'', JInt (ge_version_no item)),
      (''version_label'', JStr (ge_version_label item)),
      (''authority_level'', JStr (AuthorityLevel_value (ge_authority_level item))),
      (''lifecycle_status'', JStr (DocumentLifecycleStatus_value (ge_lifecycle_status item))),
      (''is_current'', JBool (ge_is_current item)), (''effective_from'', opt_date (ge_effective_from item)),
      (''effective_to'', opt_date (ge_effective_to item)), (''content_hash'', JStr (content_hash sha item)),
      (''conflict_key'', opt_str (ge_conflict_key item)), (''claim_value'', opt_str (ge_claim_value item)),
      (''unresolved_conflict'', JBool (ge_unresolved_conflict item)),
      (''provider_metadata'', JObj (map (\<lambda>(k, v). (k, JStr v)) (ge_provider_metadata item)))]"

definition save_governed ::
  "(string \<Rightarrow> string) \<Rightarrow> uuid \<Rightarrow> uuid \<Rightarrow> nat \<times> GovernedEvidence \<Rightarrow> unit qa_op" where
  "save_governed sha bundle_id project_id item =
     (case item of (rank, e) \<Rightarrow>
        bind_op uuid4 (\<lambda>new_id.
          insert_snapshot
            \<lparr>es_id = new_id, es_bundle_id = bundle_id, es_project_id = project_id,
             es_document_version_id = Some (ge_document_version_id e), es_source_type = ''governed_evidence'',
             es_source_ref = or_else (ge_provider_ref e) (ge_label e), es_content = ge_content e,
             es_rank = int rank, es_score = Some (ge_score e), es_metadata = governed_metadata sha e\<rparr>))"

definition save_governed_evidence_bundle ::
  "(string \<Rightarrow> string) \<Rightarrow> uuid \<Rightarrow> uuid \<Rightarrow> string \<Rightarrow> GovernedEvidencePack \<Rightarrow> uuid qa_op" where
  "save_governed_evidence_bundle sha run_id project_id query_text pk =
     bind_op (new_bundle run_id query_text) (\<lambda>bundle_id.
     bind_op (for_each (List.enumerate 1 (gp_evidence pk)) (save_governed sha bundle_id project_id)) (\<lambda>_.
       return_op bundle_id))"

text \<open>\<open>date.fromisoformat\<close> on the format that \<open>isoformat\<close> writes.\<close>

fun days_in_month :: "nat \<Rightarrow> nat \<Rightarrow> nat" where
  "days_in_month y m =
     (if m \<in> {4, 6, 9, 11} then 30
      else if m = 2 then (if y mod 4 = 0 \<and> (y mod 100 \<noteq> 0 \<or> y mod 400 = 0) then 29 else 28) else 31)"

fun valid_date :: "date \<Rightarrow> bool" where
  "valid_date (y, m, d) \<longleftrightarrow> 1 \<le> y \<and> y \<le> 9999 \<and> 1 \<le> m \<and> m \<le> 12 \<and> 1 \<le> d \<and> d \<le> days_in_month y m"

definition fromisoformat :: "string \<Rightarrow> date res" where
  "fromisoformat s =
     (let y = take 4 s; m = take 2 (drop 5 s); d = drop 8 s;
          dt = (int10_digits y, int10_digits m, int10_digits d)
      in if length s = 10 \<and> s ! 4 = CHR ''-'' \<and> s ! 7 = CHR ''-'' \<and> list_all is_digit (y @ m @ d) \<and> valid_date dt
         then Inr dt else Inl (ValueError ''Invalid isoformat string''))"

definition date_field :: "payload \<Rightarrow> string \<Rightarrow> date option res" where
  "date_field md k =
     (case map_of md k of
        None \<Rightarrow> Inr None | Some JNull \<Rightarrow> Inr None | Some (JStr []) \<Rightarrow> Inr None
      | Some v \<Rightarrow> bind_res (str_value v) (\<lambda>s. bind_res (fromisoformat s) (\<lambda>d. Inr (Some d))))"

text \<open>\<open>str(metadata[k])\<close>, and \<open>str(metadata[k]) if metadata.get(k) is not None else None\<close>.\<close>

definition str_item :: "payload \<Rightarrow> string \<Rightarrow> string res" where
  "str_item md k = (case map_of md k of None \<Rightarrow> Inl (KeyError k) | Some v \<Rightarrow> str_value v)"

definition str_item_opt :: "payload \<Rightarrow> string \<Rightarrow> string option res" where
  "str_item_opt md k =
     (case map_of md k of
        None \<Rightarrow> Inr None | Some JNull \<Rightarrow> Inr None | Some v \<Rightarrow> bind_res (str_value v) (\<lambda>s. Inr (Some s)))"

text \<open>\<open>bool(value)\<close>, and \<open>int(value)\<close> of the number that the writer stored.\<close>

definition truthy :: "json \<Rightarrow> bool" where
  "truthy v = (case v of JNull \<Rightarrow> False | JBool b \<Rightarrow> b | JInt i \<Rightarrow> i \<noteq> 0 | JFloat q \<Rightarrow> q \<noteq> 0
     | JStr s \<Rightarrow> s \<noteq> [] | JArr xs \<Rightarrow> xs \<noteq> [] | JObj p \<Rightarrow> p \<noteq> [])"

definition int_item :: "payload \<Rightarrow> string \<Rightarrow> int res" where
  "int_item md k = (case map_of md k of None \<Rightarrow> Inl (KeyError k) | Some (JInt i) \<Rightarrow> Inr i
     | Some _ \<Rightarrow> Inl (ValueError ''invalid literal for int()''))"

definition flag_item :: "payload \<Rightarrow> string \<Rightarrow> bool res" where
  "flag_item md k = (case map_of md k of None \<Rightarrow> Inl (KeyError k) | Some v \<Rightarrow> Inr (truthy v))"

definition row_version :: "EvidenceSnapshotModel \<Rightarrow> uuid res" where
  "row_version row =
     (case es_document_version_id row of
        Some v \<Rightarrow> Inr v
      | None \<Rightarrow>
          (case map_of (es_metadata row) ''document_version_id'' of
             None \<Rightarrow> Inl (ValueError ''governed evidence is missing document version'')
           | Some JNull \<Rightarrow> Inl (ValueError ''governed evidence is missing document version'')
           | Some v \<Rightarrow> bind_res (str_value v) UUID))"

definition unresolved_flag :: "payload \<Rightarrow> bool" where
  "unresolved_flag md = (case map_of md ''unresolved_conflict'' of None \<Rightarrow> False | Some v \<Rightarrow> truthy v)"

definition freeze_row :: "EvidenceSnapshotModel \<Rightarrow> FrozenEvidence res" where
  "freeze_row row =
     (let md = es_metadata row
      in bind_res (row_version row) (\<lambda>version_id.
         case (str_field md ''evidence_label'', str_field md ''project_code'') of
           (Some label, Some code) \<Rightarrow>
             bind_res (bind_res (str_item md ''document_category'') DocumentCategory_of) (\<lambda>category.
             bind_res (str_item md ''document_title'') (\<lambda>title.
             bind_res (int_item md ''version_no'') (\<lambda>no.
             bind_res (str_item md ''version_label'') (\<lambda>version_label.
             bind_res (bind_res (str_item md ''authority_level'') AuthorityLevel_of) (\<lambda>authority.
             bind_res (bind_res (str_item md ''lifecycle_status'') DocumentLifecycleStatus_of) (\<lambda>status.
             bind_res (flag_item md ''is_current'') (\<lambda>current.
             bind_res (date_field md ''effective_from'') (\<lambda>from_date.
             bind_res (date_field md ''effective_to'') (\<lambda>to_date.
             bind_res (str_item md ''content_hash'') (\<lambda>chash.
             bind_res (str_item_opt md ''knowledge_space_id'') (\<lambda>space.
             bind_res (str_item_opt md ''section'') (\<lambda>sec.
             bind_res (str_item_opt md ''conflict_key'') (\<lambda>key.
             bind_res (str_item_opt md ''claim_value'') (\<lambda>claim.
               Inr \<lparr>fe_snapshot_id = es_id row, fe_label = label, fe_project_id = es_project_id row,
                    fe_project_code = code, fe_document_version_id = version_id,
                    fe_document_category = category, fe_document_title = title, fe_version_no = no,
                    fe_version_label = version_label, fe_authority_level = authority,
                    fe_lifecycle_status = status, fe_is_current = current, fe_effective_from = from_date,
                    fe_effective_to = to_date, fe_content = es_content row, fe_content_hash = chash,
                    fe_score = (case es_score row of None \<Rightarrow> 0 | Some x \<Rightarrow> x),
                    fe_knowledge_space_id = space, fe_provider_ref = Some (es_source_ref row),
                    fe_page_no = (case map_of md ''page_no'' of Some (JInt i) \<Rightarrow> Some i | _ \<Rightarrow> None),
                    fe_section = sec, fe_conflict_key = key, fe_claim_value = claim,
                    fe_unresolved_conflict = unresolved_flag md\<rparr>))))))))))))))
         | _ \<Rightarrow> Inl (ValueError ''governed evidence is missing label/project'')))"

text \<open>\<open>conflicts.setdefault(key, []).append(label)\<close> over the rows.\<close>

definition frozen_conflicts :: "FrozenEvidence list \<Rightarrow> (string \<times> string list) list" where
  "frozen_conflicts items =
     (let conflicting = filter (\<lambda>e. fe_unresolved_conflict e \<and> fe_conflict_key e \<noteq> None) items
      in map (\<lambda>k. (k, map fe_label (filter (\<lambda>e. fe_conflict_key e = Some k) conflicting)))
           (fromkeys (map (the \<circ> fe_conflict_key) conflicting)))"

definition load_governed_evidence_bundle :: "uuid \<Rightarrow> FrozenEvidenceBundle qa_op" where
  "load_governed_evidence_bundle bundle_id =
     read_op (\<lambda>s. bind_res (map_res freeze_row (bundle_rows ''governed_evidence'' bundle_id s)) (\<lambda>items.
       Inr \<lparr>fb_evidence = items, fb_unresolved_conflicts = frozen_conflicts items\<rparr>))"

section \<open>Answers and citations\<close>

definition save_answer :: "uuid \<Rightarrow> string \<Rightarrow> string option \<Rightarrow> uuid qa_op" where
  "save_answer run_id answer_text refusal_reason =
     bind_op (read_op (\<lambda>s. Inr (filter (\<lambda>a. aw_run_id a = run_id) (qb_answers s)))) (\<lambda>existing.
       case existing of
         [] \<Rightarrow>
           bind_op uuid4 (\<lambda>new_id.
           bind_op (insert_answer \<lparr>aw_id = new_id, aw_run_id = run_id, aw_answer_text = answer_text,
                                   aw_refusal_reason = refusal_reason\<rparr>) (\<lambda>_.
             return_op new_id))
       | [row] \<Rightarrow>
           bind_op (modify_op (\<lambda>s. s\<lparr>qb_answers := update_rows (\<lambda>a. aw_id a = aw_id row)
               (\<lambda>a. a\<lparr>aw_answer_text := answer_text, aw_refusal_reason := refusal_reason\<rparr>) (qb_answers s)\<rparr>)) (\<lambda>_.
             return_op (aw_id row))
       | _ \<Rightarrow> raise_op MultipleResultsFound)"

text \<open>\<open>unique.setdefault(citation_no, citation)\<close>, then in the order of the numbers.\<close>

definition unique_citations :: "CitationReference list \<Rightarrow> CitationReference list" where
  "unique_citations citations =
     map (\<lambda>n. the (row_by cf_citation_no n citations)) (sorted_set_by id (map cf_citation_no citations))"

definition save_citation :: "uuid \<Rightarrow> CitationReference \<Rightarrow> unit qa_op" where
  "save_citation answer_id c =
     bind_op uuid4 (\<lambda>new_id.
       insert_citation \<lparr>ci_id = new_id, ci_answer_id = answer_id,
         ci_evidence_snapshot_id = cf_evidence_snapshot_id c, ci_citation_no = cf_citation_no c,
         ci_quoted_text = None\<rparr>)"

definition save_grounded_answer :: "uuid \<Rightarrow> string \<Rightarrow> CitationReference list \<Rightarrow> uuid qa_op" where
  "save_grounded_answer run_id answer_text citations =
     bind_op (save_answer run_id answer_text None) (\<lambda>answer_id.
     bind_op (modify_op (\<lambda>s. s\<lparr>qb_citations := filter (\<lambda>c. ci_answer_id c \<noteq> answer_id) (qb_citations s)\<rparr>)) (\<lambda>_.
     bind_op (for_each (unique_citations citations) (save_citation answer_id)) (\<lambda>_.
       return_op answer_id)))"

end
