(* ===== verification/Issues.thy ===== *)
theory Issues
  imports Tracker Authorization JobQueue OpHoare
begin

text \<open>
  Issue drafts, their confirmation and the creation of the issue: the tables and repository of
  \<open>infrastructure/db/repositories/issue_workflow.py\<close>, the services
  \<open>application/services/issue_drafts.py\<close>, \<open>issue_confirmation.py\<close> and \<open>issue_creation.py\<close>, and the
  reconciliation job of \<open>workers/issue_reconciliation.py\<close>.

  A service works in a database session. The idempotency store and the job queue use sessions of
  their own, which are committed before the call returns: what they write stays when the session of
  the service is rolled back. The state of a call therefore has three parts, the session of the
  service, the idempotency table and the queue.

  The arguments that a call takes from its surroundings are collected in \<open>issue_env\<close>: the clock,
  the time to live of a confirmation, the hash (\<open>hashlib.sha256(text.encode()).hexdigest()\<close>), the
  membership tables that authorization reads, the fresh ids, and the tracker's \<open>create_issue\<close>.
\<close>

section \<open>Tables\<close>

record IssueDraftModel =
  dr_id :: uuid
  dr_run_id :: uuid
  dr_project_id :: uuid
  dr_created_by :: uuid
  dr_title :: string
  dr_description :: string
  dr_issue_type :: string
  dr_proposed_priority :: string
  dr_module :: "string option"
  dr_environment :: "string option"
  dr_reproduction_steps :: "string list"
  dr_expected_behavior :: "string option"
  dr_actual_behavior :: "string option"
  dr_evidence_ids :: "string list"
  dr_status :: IssueDraftStatus
  dr_created_at :: datetime
  dr_updated_at :: datetime

record IssueDraftCreate =
  dc_run_id :: uuid
  dc_project_id :: uuid
  dc_created_by :: uuid
  dc_title :: string
  dc_description :: string
  dc_issue_type :: string
  dc_proposed_priority :: string
  dc_module :: "string option"
  dc_evidence_ids :: "string list"

record IssueCandidateLink =
  cl_issue_key :: string
  cl_rank :: int
  cl_score :: "score option"
  cl_reasons :: "string list"

record IssueCandidateModel =
  cm_id :: uuid
  cm_issue_draft_id :: uuid
  cm_sandbox_issue_id :: uuid
  cm_rank :: int
  cm_score :: "score option"
  cm_reasons :: "string list"

record ToolConfirmationModel =
  tc_id :: uuid
  tc_run_id :: uuid
  tc_tool_name :: string
  tc_request_payload_hash :: string
  tc_status :: ToolConfirmationStatus
  tc_confirmed_by :: "uuid option"
  tc_confirmed_at :: "datetime option"
  tc_expires_at :: "datetime option"
  tc_created_at :: datetime

record ToolConfirmationReceipt =
  rc_id :: uuid
  rc_run_id :: uuid
  rc_tool_name :: string
  rc_request_payload_hash :: string
  rc_status :: ToolConfirmationStatus
  rc_confirmed_by :: uuid
  rc_confirmed_at :: datetime
  rc_expires_at :: datetime

record IdempotencyRecordModel =
  id_id :: uuid
  id_namespace :: string
  id_request_id :: string
  id_project_id :: "uuid option"
  id_status :: IdempotencyStatus
  id_resource_type :: "string option"
  id_resource_id :: "string option"
  id_response :: "payload option"
  id_created_at :: datetime
  id_updated_at :: datetime

record issue_db =
  tracker :: tracker_db
  issue_drafts :: "IssueDraftModel list"
  issue_candidates :: "IssueCandidateModel list"
  tool_confirmations :: "ToolConfirmationModel list"

record issue_sys =
  is_session :: "issue_db session"
  is_idem :: "IdempotencyRecordModel list"
  is_jobs :: jobs

type_synonym 'a issue_op = "('a, issue_sys) op"

record issue_env =
  ie_now :: datetime
  ie_ttl :: rat
  ie_sha256 :: "string \<Rightarrow> string"
  ie_pick :: nat
  ie_gov :: doc_db
  ie_new_draft :: uuid
  ie_new_candidates :: "nat \<Rightarrow> uuid"
  ie_new_confirmation :: uuid
  ie_new_idempotency :: uuid
  ie_new_job :: uuid
  ie_create_issue :: "CreateIssueRequest \<Rightarrow> (CreatedIssue, tracker_db) op"

definition db_op :: "('a, issue_db) op \<Rightarrow> 'a issue_op" where
  "db_op m s = (case on_working m (is_session s) of (r, ss) \<Rightarrow> (r, s\<lparr>is_session := ss\<rparr>))"

definition tracker_op :: "('a, tracker_db) op \<Rightarrow> 'a issue_op" where
  "tracker_op m = db_op (\<lambda>db. case m (tracker db) of (r, t) \<Rightarrow> (r, db\<lparr>tracker := t\<rparr>))"

section \<open>SqlAlchemyIssueWorkflowRepository\<close>

definition new_draft_row :: "issue_env \<Rightarrow> IssueDraftCreate \<Rightarrow> IssueDraftModel" where
  "new_draft_row env c =
     \<lparr>dr_id = ie_new_draft env, dr_run_id = dc_run_id c, dr_project_id = dc_project_id c,
      dr_created_by = dc_created_by c, dr_title = dc_title c, dr_description = dc_description c,
      dr_issue_type = dc_issue_type c, dr_proposed_priority = dc_proposed_priority c,
      dr_module = dc_module c, dr_environment = None, dr_reproduction_steps = [],
      dr_expected_behavior = None, dr_actual_behavior = None, dr_evidence_ids = dc_evidence_ids c,
      dr_status = DS_DRAFT, dr_created_at = ie_now env, dr_updated_at = ie_now env\<rparr>"

definition repo_create_draft :: "issue_env \<Rightarrow> IssueDraftCreate \<Rightarrow> (IssueDraftModel, issue_db) op" where
  "repo_create_draft env c db =
     (if \<exists>d\<in>set (issue_drafts db). dr_id d = ie_new_draft env
      then (Inl (IntegrityError ''issue_drafts''), db)
      else let row = new_draft_row env c
           in (Inr row, db\<lparr>issue_drafts := issue_drafts db @ [row]\<rparr>))"

definition get_draft :: "uuid \<Rightarrow> issue_db \<Rightarrow> IssueDraftModel res" where
  "get_draft draft_id db =
     the_or (LookupError ''issue draft does not exist'') (row_by dr_id draft_id (issue_drafts db))"

definition set_draft_status ::
  "datetime \<Rightarrow> uuid \<Rightarrow> IssueDraftStatus \<Rightarrow> (IssueDraftModel, issue_db) op" where
  "set_draft_status now draft_id status =
     bind_op (read_op (get_draft draft_id)) (\<lambda>d.
       bind_op (modify_op (\<lambda>db. db\<lparr>issue_drafts := update_rows (\<lambda>r. dr_id r = draft_id)
           (\<lambda>r. r\<lparr>dr_status := status, dr_updated_at := now\<rparr>) (issue_drafts db)\<rparr>)) (\<lambda>_.
         return_op (d\<lparr>dr_status := status, dr_updated_at := now\<rparr>)))"

definition insert_candidate ::
  "uuid \<Rightarrow> uuid \<Rightarrow> SandboxIssueModel list \<Rightarrow> IssueCandidateLink \<Rightarrow> IssueCandidateModel list
    \<Rightarrow> IssueCandidateModel list" where
  "insert_candidate new_id draft_id rows link cms =
     (case row_by si_issue_key (cl_issue_key link) rows of
        None \<Rightarrow> cms
      | Some issue \<Rightarrow>
          if \<exists>cm\<in>set cms. cm_issue_draft_id cm = draft_id \<and> cm_sandbox_issue_id cm = si_id issue
          then cms
          else cms @ [\<lparr>cm_id = new_id, cm_issue_draft_id = draft_id, cm_sandbox_issue_id = si_id issue,
                       cm_rank = cl_rank link, cm_score = map_option numeric6 (cl_score link),
                       cm_reasons = cl_reasons link\<rparr>])"

definition save_candidate_links ::
  "issue_env \<Rightarrow> uuid \<Rightarrow> IssueCandidateLink list \<Rightarrow> (unit, issue_db) op" where
  "save_candidate_links env draft_id links =
     (if links = [] then return_op ()
      else bind_op (read_op (get_draft draft_id)) (\<lambda>draft.
        modify_op (\<lambda>db.
          let keys = fromkeys (map cl_issue_key links);
              rows = filter (\<lambda>i. si_project_id i = dr_project_id draft \<and> si_issue_key i \<in> set keys)
                       (sandbox_issues (tracker db))
          in db\<lparr>issue_candidates := fold (\<lambda>(n, link). insert_candidate (ie_new_candidates env n) draft_id rows link)
                  (List.enumerate 0 links) (issue_candidates db)\<rparr>)))"

definition list_candidate_links :: "uuid \<Rightarrow> issue_db \<Rightarrow> IssueCandidateLink list" where
  "list_candidate_links draft_id db =
     map (\<lambda>(cm, i). \<lparr>cl_issue_key = si_issue_key i, cl_rank = cm_rank cm, cl_score = cm_score cm,
                     cl_reasons = cm_reasons cm\<rparr>)
       (sort_key (\<lambda>(cm, i). (cm_rank cm, si_issue_key i))
         [(cm, i). cm \<leftarrow> issue_candidates db, i \<leftarrow> sandbox_issues (tracker db),
            si_id i = cm_sandbox_issue_id cm, cm_issue_draft_id cm = draft_id])"

definition to_confirmation :: "ToolConfirmationModel \<Rightarrow> ToolConfirmationReceipt res" where
  "to_confirmation m =
     (case (tc_confirmed_by m, tc_confirmed_at m, tc_expires_at m) of
        (Some who, Some at_time, Some expires) \<Rightarrow>
          Inr \<lparr>rc_id = tc_id m, rc_run_id = tc_run_id m, rc_tool_name = tc_tool_name m,
               rc_request_payload_hash = tc_request_payload_hash m, rc_status = tc_status m,
               rc_confirmed_by = who, rc_confirmed_at = at_time, rc_expires_at = expires\<rparr>
      | _ \<Rightarrow> Inl (ValueError ''persisted tool confirmation is incomplete''))"

definition same_decision :: "ToolConfirmationReceipt \<Rightarrow> ToolConfirmationModel \<Rightarrow> bool" where
  "same_decision r m \<longleftrightarrow>
     tc_run_id m = rc_run_id r \<and> tc_tool_name m = rc_tool_name r \<and>
     tc_request_payload_hash m = rc_request_payload_hash r \<and> tc_status m = rc_status r \<and>
     tc_confirmed_by m = Some (rc_confirmed_by r)"

definition confirmation_row :: "datetime \<Rightarrow> ToolConfirmationReceipt \<Rightarrow> ToolConfirmationModel" where
  "confirmation_row now r =
     \<lparr>tc_id = rc_id r, tc_run_id = rc_run_id r, tc_tool_name = rc_tool_name r,
      tc_request_payload_hash = rc_request_payload_hash r, tc_status = rc_status r,
      tc_confirmed_by = Some (rc_confirmed_by r), tc_confirmed_at = Some (rc_confirmed_at r),
      tc_expires_at = Some (rc_expires_at r), tc_created_at = now\<rparr>"

definition save_confirmation ::
  "datetime \<Rightarrow> ToolConfirmationReceipt \<Rightarrow> (ToolConfirmationReceipt, issue_db) op" where
  "save_confirmation now receipt db =
     (case sort_key (\<lambda>m. - tc_created_at m) (filter (same_decision receipt) (tool_confirmations db)) of
        existing # _ \<Rightarrow> (to_confirmation existing, db)
      | [] \<Rightarrow>
          if \<exists>m\<in>set (tool_confirmations db). tc_id m = rc_id receipt
          then (Inl (IntegrityError ''tool_confirmations''), db)
          else (to_confirmation (confirmation_row now receipt),
                db\<lparr>tool_confirmations := tool_confirmations db @ [confirmation_row now receipt]\<rparr>))"

definition get_confirmation :: "uuid \<Rightarrow> issue_db \<Rightarrow> ToolConfirmationReceipt res" where
  "get_confirmation confirmation_id db =
     (case row_by tc_id confirmation_id (tool_confirmations db) of
        None \<Rightarrow> Inl (LookupError ''tool confirmation does not exist'')
      | Some m \<Rightarrow> to_confirmation m)"

section \<open>PostgresIdempotencyStore\<close>

definition idem_row ::
  "string \<Rightarrow> string \<Rightarrow> IdempotencyRecordModel list \<Rightarrow> IdempotencyRecordModel option" where
  "idem_row namespace request_id rows =
     find (\<lambda>r. id_namespace r = namespace \<and> id_request_id r = request_id) rows"

text \<open>\<open>_to_record\<close>: an empty response is read as no response.\<close>

definition to_idem_record :: "IdempotencyRecordModel \<Rightarrow> IdempotencyRecordModel res" where
  "to_idem_record m =
     (if id_project_id m = None then Inl (ValueError ''issue idempotency record must be project scoped'')
      else Inr (m\<lparr>id_response := (case id_response m of Some [] \<Rightarrow> None | r \<Rightarrow> r)\<rparr>))"

definition idem_get ::
  "string \<Rightarrow> string \<Rightarrow> IdempotencyRecordModel list \<Rightarrow> IdempotencyRecordModel option res" where
  "idem_get namespace request_id rows =
     (case idem_row namespace request_id rows of
        None \<Rightarrow> Inr None
      | Some m \<Rightarrow> bind_res (to_idem_record m) (\<lambda>r. Inr (Some r)))"

definition idem_reserve ::
  "issue_env \<Rightarrow> string \<Rightarrow> string \<Rightarrow> uuid
    \<Rightarrow> (IdempotencyRecordModel \<times> bool, IdempotencyRecordModel list) op" where
  "idem_reserve env namespace request_id project_id rows =
     (let created = (idem_row namespace request_id rows = None);
          rows' = (if created then rows @
             [\<lparr>id_id = ie_new_idempotency env, id_namespace = namespace, id_request_id = request_id,
               id_project_id = Some project_id, id_status = IN_PROGRESS, id_resource_type = None,
               id_resource_id = None, id_response = None, id_created_at = ie_now env,
               id_updated_at = ie_now env\<rparr>] else rows)
      in (bind_res (idem_get namespace request_id rows') (\<lambda>found.
            case found of
              None \<Rightarrow> Inl (RuntimeError ''idempotency reservation disappeared after commit'')
            | Some record \<Rightarrow>
                if id_project_id record \<noteq> Some project_id
                then Inl (ValueError ''idempotency key is already bound to another project'')
                else Inr (record, created)),
          rows'))"

definition idem_complete ::
  "datetime \<Rightarrow> string \<Rightarrow> string \<Rightarrow> string \<Rightarrow> string \<Rightarrow> payload
    \<Rightarrow> (IdempotencyRecordModel, IdempotencyRecordModel list) op" where
  "idem_complete now namespace request_id resource_type resource_id response rows =
     (case idem_row namespace request_id rows of
        None \<Rightarrow> (Inl (LookupError ''idempotency reservation is required before completion''), rows)
      | Some m \<Rightarrow>
          let done = (\<lambda>r. r\<lparr>id_status := COMPLETED, id_resource_type := Some resource_type,
                id_resource_id := Some resource_id, id_response := Some response, id_updated_at := now\<rparr>)
          in (to_idem_record (done m),
              update_rows (\<lambda>r. id_namespace r = namespace \<and> id_request_id r = request_id) done rows))"

definition idem_op :: "('a, IdempotencyRecordModel list) op \<Rightarrow> 'a issue_op" where
  "idem_op m s = (case m (is_idem s) of (r, rows) \<Rightarrow> (r, s\<lparr>is_idem := rows\<rparr>))"

section \<open>IssueDraftService\<close>

text \<open>\<open>str.splitlines\<close> on ASCII text; the title is the first line that is not blank.\<close>

definition line_break :: "char \<Rightarrow> bool" where
  "line_break c \<longleftrightarrow> (of_char c :: nat) \<in> set [10, 11, 12, 13, 28, 29, 30]"

fun lines_from :: "string \<Rightarrow> string \<Rightarrow> string list" where
  "lines_from cur [] = (if cur = [] then [] else [rev cur])"
| "lines_from cur (c # s) =
     (if c = CHR 0x0D \<and> s \<noteq> [] \<and> hd s = CHR 0x0A then rev cur # lines_from [] (tl s)
      else if line_break c then rev cur # lines_from [] s
      else lines_from (c # cur) s)"

definition draft_title :: "string \<Rightarrow> string" where
  "draft_title clean =
     take 512 (case filter (\<lambda>l. l \<noteq> []) (map py_strip (lines_from [] clean)) of
                 [] \<Rightarrow> clean | l # _ \<Rightarrow> l)"

definition candidate_links :: "uuid \<Rightarrow> IssueCandidateResult \<Rightarrow> IssueCandidateLink list" where
  "candidate_links project_id candidates =
     map (\<lambda>(rank, item). \<lparr>cl_issue_key = ic_issue_key item, cl_rank = int rank,
                         cl_score = ic_semantic_score item, cl_reasons = ic_reasons item\<rparr>)
       (filter (\<lambda>(rank, item). ic_project_id item = uuid_str project_id)
         (List.enumerate 1 (cr_possible_duplicates candidates)))"

definition draft_command ::
  "uuid \<Rightarrow> uuid \<Rightarrow> uuid \<Rightarrow> string \<Rightarrow> ExtractedIdentifier list \<Rightarrow> string list \<Rightarrow> IssueDraftCreate" where
  "draft_command run_id project_id created_by clean identifiers evidence_ids =
     \<lparr>dc_run_id = run_id, dc_project_id = project_id, dc_created_by = created_by,
      dc_title = draft_title clean, dc_description = clean,
      dc_issue_type = (if list_ex (\<lambda>e. ei_identifier_type e = ERROR_CODE) identifiers
                       then IssueType_value IT_BUG else IssueType_value IT_TASK),
      dc_proposed_priority = IssuePriority_value MEDIUM,
      dc_module = search MODULE_LABEL clean, dc_evidence_ids = evidence_ids\<rparr>"

definition create_from_text ::
  "issue_env \<Rightarrow> uuid \<Rightarrow> uuid \<Rightarrow> uuid \<Rightarrow> string \<Rightarrow> IssueCandidateResult option \<Rightarrow> string list
    \<Rightarrow> IssueDraftModel issue_op" where
  "create_from_text env run_id project_id created_by txt candidates evidence_ids =
     (let clean = py_strip txt
      in if clean = [] then raise_op (ValueError ''issue text cannot be blank'')
         else bind_op (of_res (extract_text clean)) (\<lambda>identifiers.
           bind_op (db_op (repo_create_draft env
             (draft_command run_id project_id created_by clean identifiers evidence_ids))) (\<lambda>draft.
           case candidates of
             None \<Rightarrow> return_op draft
           | Some found \<Rightarrow>
               bind_op (db_op (save_candidate_links env (dr_id draft) (candidate_links project_id found)))
                 (\<lambda>_. return_op draft))))"

definition newline :: string where
  "newline = [CHR 0x0A]"

definition request_description :: "IssueDraftModel \<Rightarrow> string" where
  "request_description d =
     dr_description d @
     (if dr_reproduction_steps d = [] then []
      else newline @ ''Reproduction steps:'' @ newline @
           concat (case map (\<lambda>x. ''- '' @ x) (dr_reproduction_steps d) of
                     [] \<Rightarrow> [] | x # xs \<Rightarrow> x # map (\<lambda>y. newline @ y) xs)) @
     (case dr_expected_behavior d of
        None \<Rightarrow> [] | Some e \<Rightarrow> if e = [] then [] else newline @ ''Expected behavior:'' @ newline @ e) @
     (case dr_actual_behavior d of
        None \<Rightarrow> [] | Some a \<Rightarrow> if a = [] then [] else newline @ ''Actual behavior:'' @ newline @ a)"

definition build_create_request :: "IssueDraftModel \<Rightarrow> CreateIssueRequest res" where
  "build_create_request d =
     bind_res (extract_text (dr_description d)) (\<lambda>found. Inr
       \<lparr>xr_project_id = uuid_str (dr_project_id d), xr_request_id = uuid_str (dr_id d),
        xr_title = dr_title d, xr_description = request_description d,
        xr_issue_type = dr_issue_type d, xr_priority = dr_proposed_priority d,
        xr_reporter_id = uuid_str (dr_created_by d), xr_module = dr_module d,
        xr_error_code = first_error_code found, xr_environment = dr_environment d\<rparr>)"

text \<open>\<open>json.dumps(payload, ensure_ascii=False, sort_keys=True, separators=(",", ":"))\<close>.\<close>

definition json_esc :: "char \<Rightarrow> string" where
  "json_esc c =
     (if c = CHR 0x22 then [CHR 0x5C, CHR 0x22]
      else if c = CHR 0x5C then [CHR 0x5C, CHR 0x5C]
      else if c = CHR 0x0A then CHR 0x5C # ''n''
      else if c = CHR 0x0D then CHR 0x5C # ''r''
      else if c = CHR 0x09 then CHR 0x5C # ''t''
      else if c = CHR 0x0C then CHR 0x5C # ''f''
      else if c = CHR 0x08 then CHR 0x5C # ''b''
      else if (of_char c :: nat) < 32 then CHR 0x5C # ''u00'' @ hex_digits 2 (of_char c)
      else [c])"

definition json_quote :: "string \<Rightarrow> string" where
  "json_quote s = CHR 0x22 # concat (map json_esc s) @ [CHR 0x22]"

definition json_opt :: "string option \<Rightarrow> string" where
  "json_opt v = (case v of None \<Rightarrow> ''null'' | Some s \<Rightarrow> json_quote s)"

definition payload_text :: "CreateIssueRequest \<Rightarrow> string" where
  "payload_text r =
     CHR ''{'' # json_quote ''description'' @ '':'' @ json_quote (xr_description r) @ '','' @
     json_quote ''environment'' @ '':'' @ json_opt (xr_environment r) @ '','' @
     json_quote ''error_code'' @ '':'' @ json_opt (xr_error_code r) @ '','' @
     json_quote ''issue_type'' @ '':'' @ json_quote (xr_issue_type r) @ '','' @
     json_quote ''module'' @ '':'' @ json_opt (xr_module r) @ '','' @
     json_quote ''priority'' @ '':'' @ json_quote (xr_priority r) @ '','' @
     json_quote ''project_id'' @ '':'' @ json_quote (xr_project_id r) @ '','' @
     json_quote ''reporter_id'' @ '':'' @ json_quote (xr_reporter_id r) @ '','' @
     json_quote ''request_id'' @ '':'' @ json_quote (xr_request_id r) @ '','' @
     json_quote ''title'' @ '':'' @ json_quote (xr_title r) @ ''}''"

definition payload_hash :: "issue_env \<Rightarrow> CreateIssueRequest \<Rightarrow> string" where
  "payload_hash env r = ie_sha256 env (payload_text r)"

section \<open>IssueConfirmationService\<close>

definition TOOL_NAME :: string where
  "TOOL_NAME = ''project_tracker.create_issue''"

record ConfirmationRequest =
  cf_draft_id :: uuid
  cf_tool_name :: string
  cf_request_id :: string
  cf_request_payload_hash :: string
  cf_expires_at :: datetime
  cf_title :: string
  cf_description :: string
  cf_issue_type :: string
  cf_priority :: string
  cf_module :: "string option"
  cf_error_code :: "string option"
  cf_environment :: "string option"
  cf_evidence_ids :: "string list"
  cf_possible_duplicates :: "IssueCandidateLink list"

definition prepare_confirmation :: "issue_env \<Rightarrow> uuid \<Rightarrow> issue_db \<Rightarrow> ConfirmationRequest res" where
  "prepare_confirmation env draft_id db =
     bind_res (get_draft draft_id db) (\<lambda>draft.
     bind_res (build_create_request draft) (\<lambda>request.
     Inr \<lparr>cf_draft_id = dr_id draft, cf_tool_name = TOOL_NAME, cf_request_id = xr_request_id request,
          cf_request_payload_hash = payload_hash env request,
          cf_expires_at = dr_created_at draft + ie_ttl env, cf_title = xr_title request,
          cf_description = xr_description request, cf_issue_type = xr_issue_type request,
          cf_priority = xr_priority request, cf_module = xr_module request,
          cf_error_code = xr_error_code request, cf_environment = xr_environment request,
          cf_evidence_ids = dr_evidence_ids draft,
          cf_possible_duplicates = list_candidate_links (dr_id draft) db\<rparr>))"

text \<open>The part of \<open>record_decision\<close> after its guards.\<close>

definition store_decision ::
  "issue_env \<Rightarrow> uuid \<Rightarrow> uuid \<Rightarrow> ConfirmationAction \<Rightarrow> ConfirmationRequest
    \<Rightarrow> ToolConfirmationReceipt issue_op" where
  "store_decision env draft_id actor_id action prepared =
     (let status = (case action of CONFIRM \<Rightarrow> TC_CONFIRMED | CANCEL \<Rightarrow> TC_CANCELLED)
      in bind_op (db_op (read_op (get_draft draft_id))) (\<lambda>draft.
         bind_op (db_op (save_confirmation (ie_now env)
           \<lparr>rc_id = ie_new_confirmation env, rc_run_id = dr_run_id draft, rc_tool_name = TOOL_NAME,
            rc_request_payload_hash = cf_request_payload_hash prepared, rc_status = status,
            rc_confirmed_by = actor_id, rc_confirmed_at = ie_now env,
            rc_expires_at = cf_expires_at prepared\<rparr>)) (\<lambda>receipt.
         bind_op (db_op (set_draft_status (ie_now env) draft_id
             (if status = TC_CONFIRMED then DS_CONFIRMED else DS_CANCELLED))) (\<lambda>_.
         return_op receipt))))"

definition record_decision ::
  "issue_env \<Rightarrow> uuid \<Rightarrow> uuid \<Rightarrow> ConfirmationAction \<Rightarrow> string \<Rightarrow> ToolConfirmationReceipt issue_op" where
  "record_decision env draft_id actor_id action request_payload_hash =
     bind_op (db_op (read_op (prepare_confirmation env draft_id))) (\<lambda>prepared.
       if ie_now env > cf_expires_at prepared then raise_op ConfirmationExpired
       else if request_payload_hash \<noteq> cf_request_payload_hash prepared
       then raise_op ConfirmationPayloadMismatch
       else store_decision env draft_id actor_id action prepared)"

section \<open>IssueCreationService\<close>

datatype IssueCreationStatus = CS_CREATED | ALREADY_CREATED | PENDING_RECONCILIATION | RECONCILED

record IssueCreationOutcome =
  oc_status :: IssueCreationStatus
  oc_draft_id :: uuid
  oc_request_id :: string
  oc_issue_key :: "string option"
  oc_issue_status :: "string option"

definition ALLOWED_ROLES :: "string list" where
  "ALLOWED_ROLES = map ProjectRole_value [PROJECT_MANAGER, DEVELOPER, QA, IMPLEMENTATION, SUPPORT]"

definition assert_can_create :: "string list \<Rightarrow> unit res" where
  "assert_can_create role_ids =
     (if \<exists>r\<in>set role_ids. r \<in> set ALLOWED_ROLES then Inr ()
      else Inl (IssueCreationDenied ''current project role cannot create issues''))"

definition IDEMPOTENCY_NAMESPACE :: string where
  "IDEMPOTENCY_NAMESPACE = ''sandbox_issue_create''"

text \<open>\<open>str(response[key])\<close>: the values are the strings that \<open>_complete\<close> wrote.\<close>

definition response_field :: "payload \<Rightarrow> string \<Rightarrow> string res" where
  "response_field response key =
     (case map_of response key of
        None \<Rightarrow> Inl (KeyError key)
      | Some (JStr s) \<Rightarrow> Inr s
      | Some JNull \<Rightarrow> Inr ''None''
      | Some (JBool b) \<Rightarrow> Inr (if b then ''True'' else ''False'')
      | Some (JInt i) \<Rightarrow> Inr (str_int i)
      | Some _ \<Rightarrow> Inl (TypeError key))"

definition outcome_from_record ::
  "payload option \<Rightarrow> uuid \<Rightarrow> string \<Rightarrow> IssueCreationStatus \<Rightarrow> IssueCreationOutcome res" where
  "outcome_from_record response draft_id request_id status =
     (case response of
        None \<Rightarrow> Inl (RuntimeError ''completed idempotency record has no response'')
      | Some p \<Rightarrow>
          if p = [] then Inl (RuntimeError ''completed idempotency record has no response'')
          else bind_res (response_field p ''issue_key'') (\<lambda>key.
               bind_res (response_field p ''status'') (\<lambda>st.
               Inr \<lparr>oc_status = status, oc_draft_id = draft_id, oc_request_id = request_id,
                    oc_issue_key = Some key, oc_issue_status = Some st\<rparr>)))"

definition enqueue_reconciliation :: "issue_env \<Rightarrow> uuid \<Rightarrow> unit issue_op" where
  "enqueue_reconciliation env draft_id s =
     (case enqueue ''project-agent'' (ie_new_job env) (ie_now env)
        \<lparr>ej_job_type = ''RECONCILE_ISSUE_CREATE'', ej_aggregate_id = uuid_str draft_id,
         ej_max_attempts = 5\<rparr> (is_jobs s) of
        (Inl e, q) \<Rightarrow> (Inl e, s\<lparr>is_jobs := q\<rparr>)
      | (Inr _, q) \<Rightarrow> (Inr (), s\<lparr>is_jobs := q\<rparr>))"

definition created_response :: "CreatedIssue \<Rightarrow> payload" where
  "created_response created =
     [(''project_id'', JStr (ci_project_id created)), (''request_id'', JStr (ci_request_id created)),
      (''issue_key'', JStr (ci_issue_key created)), (''status'', JStr (ci_status created))]"

definition complete_creation ::
  "issue_env \<Rightarrow> uuid \<Rightarrow> string \<Rightarrow> CreatedIssue \<Rightarrow> IssueCreationStatus \<Rightarrow> IssueCreationOutcome issue_op" where
  "complete_creation env draft_id request_id created status =
     bind_op (idem_op (idem_complete (ie_now env) IDEMPOTENCY_NAMESPACE request_id ''sandbox_issue''
         (ci_issue_key created) (created_response created))) (\<lambda>_.
     bind_op (db_op (set_draft_status (ie_now env) draft_id DS_CREATED)) (\<lambda>_.
     return_op \<lparr>oc_status = status, oc_draft_id = draft_id, oc_request_id = request_id,
       oc_issue_key = Some (ci_issue_key created), oc_issue_status = Some (ci_status created)\<rparr>))"

definition pending_outcome :: "issue_env \<Rightarrow> uuid \<Rightarrow> string \<Rightarrow> IssueCreationOutcome issue_op" where
  "pending_outcome env draft_id request_id =
     bind_op (enqueue_reconciliation env draft_id) (\<lambda>_.
     return_op \<lparr>oc_status = PENDING_RECONCILIATION, oc_draft_id = draft_id, oc_request_id = request_id,
       oc_issue_key = None, oc_issue_status = None\<rparr>)"

definition existing_issue :: "CreateIssueRequest \<Rightarrow> CreatedIssue option issue_op" where
  "existing_issue request =
     tracker_op (read_op (get_issue_by_request_id (xr_project_id request) (xr_request_id request)))"

text \<open>The guards of \<open>_execute\<close> up to the idempotency barrier.\<close>

definition check_confirmation ::
  "issue_env \<Rightarrow> uuid \<Rightarrow> uuid \<Rightarrow> uuid \<Rightarrow> issue_db
    \<Rightarrow> (IssueDraftModel \<times> ToolConfirmationReceipt \<times> CreateIssueRequest) res" where
  "check_confirmation env draft_id confirmation_id actor_id db =
     bind_res (get_draft draft_id db) (\<lambda>draft.
     bind_res (case get_confirmation confirmation_id db of
                 Inl e \<Rightarrow> if is_lookup_error e
                          then Inl (IssueCreationDenied ''valid confirmation is required'') else Inl e
               | Inr c \<Rightarrow> Inr c) (\<lambda>confirmation.
     if rc_status confirmation \<noteq> TC_CONFIRMED
     then Inl (IssueCreationDenied ''confirmed tool action is required'')
     else if rc_confirmed_by confirmation \<noteq> actor_id
     then Inl (IssueCreationDenied ''confirmation belongs to another user'')
     else bind_res (build_create_request draft) (\<lambda>request.
       if payload_hash env request \<noteq> rc_request_payload_hash confirmation
       then Inl (IssueCreationDenied ''confirmation does not match current draft payload'')
       else if dr_status draft \<notin> {DS_CONFIRMED, DS_CREATED}
       then Inl (IssueCreationDenied ''draft is not confirmed'')
       else bind_res (authorize_project (ie_pick env) (ie_now env) actor_id (dr_project_id draft)
                        (ie_gov env)) (\<lambda>context.
         bind_res (assert_can_create (sc_role_ids (cx_scope context))) (\<lambda>_.
           Inr (draft, confirmation, request))))))"

definition create_or_reconcile ::
  "issue_env \<Rightarrow> uuid \<Rightarrow> CreateIssueRequest \<Rightarrow> bool \<Rightarrow> IssueCreationOutcome issue_op" where
  "create_or_reconcile env draft_id request created_reservation =
     bind_op (existing_issue request) (\<lambda>existing.
       case existing of
         Some found \<Rightarrow> complete_creation env draft_id (xr_request_id request) found ALREADY_CREATED
       | None \<Rightarrow>
           if \<not> created_reservation then pending_outcome env draft_id (xr_request_id request)
           else try_op (tracker_op (ie_create_issue env request))
                  (\<lambda>e. if is_timeout_or_os_error e
                       then pending_outcome env draft_id (xr_request_id request) else raise_op e)
                  (\<lambda>created. complete_creation env draft_id (xr_request_id request) created CS_CREATED))"

text \<open>The rest of \<open>_execute\<close>: the idempotency barrier, and the tracker behind it.\<close>

definition execute_confirmed ::
  "issue_env \<Rightarrow> IssueDraftModel \<Rightarrow> ToolConfirmationReceipt \<Rightarrow> CreateIssueRequest
    \<Rightarrow> IssueCreationOutcome issue_op" where
  "execute_confirmed env draft confirmation request =
     bind_op (idem_op (read_op (idem_get IDEMPOTENCY_NAMESPACE (xr_request_id request)))) (\<lambda>existing_record.
       if existing_record \<noteq> None \<and> id_status (the existing_record) = COMPLETED
       then of_res (outcome_from_record (id_response (the existing_record)) (dr_id draft)
              (xr_request_id request) ALREADY_CREATED)
       else if ie_now env > rc_expires_at confirmation \<and> existing_record = None
       then raise_op (IssueCreationDenied ''confirmation expired'')
       else bind_op (idem_op (idem_reserve env IDEMPOTENCY_NAMESPACE (xr_request_id request)
              (dr_project_id draft))) (\<lambda>(record, created_reservation).
         if id_status record = COMPLETED
         then of_res (outcome_from_record (id_response record) (dr_id draft) (xr_request_id request)
                ALREADY_CREATED)
         else create_or_reconcile env (dr_id draft) request created_reservation))"

definition execute_creation ::
  "issue_env \<Rightarrow> uuid \<Rightarrow> uuid \<Rightarrow> uuid \<Rightarrow> IssueCreationOutcome issue_op" where
  "execute_creation env draft_id confirmation_id actor_id =
     bind_op (db_op (read_op (check_confirmation env draft_id confirmation_id actor_id)))
       (\<lambda>(draft, confirmation, request). execute_confirmed env draft confirmation request)"

definition reconcile :: "issue_env \<Rightarrow> uuid \<Rightarrow> IssueCreationOutcome issue_op" where
  "reconcile env draft_id =
     bind_op (db_op (read_op (get_draft draft_id))) (\<lambda>draft.
     bind_op (of_res (build_create_request draft)) (\<lambda>request.
     bind_op (idem_op (read_op (idem_get IDEMPOTENCY_NAMESPACE (xr_request_id request)))) (\<lambda>found.
       case found of
         None \<Rightarrow> raise_op
           (IssueCreationDenied ''reconciliation requires a prior confirmed idempotency barrier'')
       | Some record \<Rightarrow>
           if id_status record = COMPLETED
           then of_res (outcome_from_record (id_response record) (dr_id draft) (xr_request_id request)
                  RECONCILED)
           else bind_op (existing_issue request) (\<lambda>existing.
             bind_op (case existing of
                        Some c \<Rightarrow> return_op c
                      | None \<Rightarrow> tracker_op (ie_create_issue env request)) (\<lambda>created.
               complete_creation env (dr_id draft) (xr_request_id request) created RECONCILED)))))"

section \<open>workers/issue_reconciliation.py\<close>

text \<open>
  The job runs in a session of its own that is committed when the call returns; the commit itself may
  fail, and then, as after an exception, the session's changes are lost.
\<close>

definition in_session :: "bool \<Rightarrow> 'a issue_op \<Rightarrow> 'a issue_op" where
  "in_session commit_ok m s =
     (case m (s\<lparr>is_session := begin_session (committed (is_session s))\<rparr>) of
        (Inl e, s') \<Rightarrow> (Inl e, s'\<lparr>is_session := rollback (is_session s')\<rparr>)
      | (Inr x, s') \<Rightarrow>
          if commit_ok then (Inr x, s'\<lparr>is_session := commit (is_session s')\<rparr>)
          else (Inl OSError, s'\<lparr>is_session := rollback (is_session s')\<rparr>))"

definition reconcile_issue_create_handler ::
  "bool \<Rightarrow> issue_env \<Rightarrow> QueuedJob \<Rightarrow> IssueCreationOutcome issue_op" where
  "reconcile_issue_create_handler commit_ok env job =
     in_session commit_ok (bind_op (of_res (UUID (qj_aggregate_id job))) (reconcile env))"

end
