(* ===== verification/Json.thy ===== *)
theory Json
  imports Issues
begin

text \<open>
  \<open>json.loads\<close> of Python's standard library, as the program uses it: the object store reads its metadata files and
  the token verifier its segments with it. The text is decoded; characters above U+00FF, which a \<^typ>\<open>char\<close> cannot
  hold, and the literals \<open>NaN\<close> and \<open>Infinity\<close> are outside the model, and floats are exact rationals. Every
  recursive call has read a character, so the length of the text bounds the recursion.
\<close>

section \<open>Strings and numbers\<close>

definition json_ws :: "string \<Rightarrow> string" where
  "json_ws s = dropWhile (\<lambda>c. c \<in> {CHR '' '', CHR 0x09, CHR 0x0A, CHR 0x0D}) s"

definition json_unesc :: "char \<Rightarrow> char option" where
  "json_unesc e =
     (if e = CHR 0x22 \<or> e = CHR 0x5C \<or> e = CHR ''/'' then Some e
      else if e = CHR ''n'' then Some (CHR 0x0A)
      else if e = CHR ''r'' then Some (CHR 0x0D)
      else if e = CHR ''t'' then Some (CHR 0x09)
      else if e = CHR ''f'' then Some (CHR 0x0C)
      else if e = CHR ''b'' then Some (CHR 0x08)
      else None)"

definition json_hex4 :: "string \<Rightarrow> char option" where
  "json_hex4 h =
     (if list_all (\<lambda>c. hexval c \<noteq> None) h
      then (case int16_digits 0 h of Some n \<Rightarrow> if n < 256 then Some (char_of n) else None | None \<Rightarrow> None)
      else None)"

text \<open>The characters of a string literal up to its closing quote, and the rest.\<close>

fun json_chars :: "string \<Rightarrow> (string \<times> string) option" where
  "json_chars [] = None"
| "json_chars (c # s) =
     (if c = CHR 0x22 then Some ([], s)
      else if c = CHR 0x5C
      then (case s of
              [] \<Rightarrow> None
            | e # s1 \<Rightarrow>
                (case json_unesc e of
                   Some d \<Rightarrow> map_option (\<lambda>(t, r). (d # t, r)) (json_chars s1)
                 | None \<Rightarrow>
                     if e = CHR ''u''
                     then (case json_hex4 (take 4 s1) of
                             Some d \<Rightarrow> if length s1 < 4 then None
                                       else map_option (\<lambda>(t, r). (d # t, r)) (json_chars (drop 4 s1))
                           | None \<Rightarrow> None)
                     else None))
      else if (of_char c :: nat) < 32 then None
      else map_option (\<lambda>(t, r). (c # t, r)) (json_chars s))"

definition json_digits :: "string \<Rightarrow> string \<times> string" where
  "json_digits s = (takeWhile is_digit s, dropWhile is_digit s)"

text \<open>\<open>-?(?:0|[1-9]\d*)(\.\d+)?([eE][-+]?\d+)?\<close>\<close>

definition json_fraction :: "string \<Rightarrow> string \<times> string" where
  "json_fraction s =
     (case s of
        c # s1 \<Rightarrow> if c = CHR ''.'' \<and> fst (json_digits s1) \<noteq> [] then json_digits s1 else ([], s)
      | [] \<Rightarrow> ([], []))"

definition json_exponent :: "string \<Rightarrow> int option \<times> string" where
  "json_exponent s =
     (case s of
        c # s1 \<Rightarrow>
          if c = CHR ''e'' \<or> c = CHR ''E''
          then (let sgn = (case s1 of d # _ \<Rightarrow> if d = CHR ''-'' then -1 else 1 | [] \<Rightarrow> 1);
                    s2 = (case s1 of d # s2 \<Rightarrow> if d = CHR ''-'' \<or> d = CHR ''+'' then s2 else s1 | [] \<Rightarrow> s1);
                    (ds, r) = json_digits s2
                in if ds = [] then (None, s) else (Some (sgn * int (int10_digits ds)), r))
          else (None, s)
      | [] \<Rightarrow> (None, []))"

definition json_unsigned :: "string \<Rightarrow> string \<times> string" where
  "json_unsigned s = (case s of c # t \<Rightarrow> if c = CHR ''0'' then ([c], t) else json_digits s | [] \<Rightarrow> ([], []))"

definition json_number_of :: "bool \<Rightarrow> string \<Rightarrow> (json \<times> string) option" where
  "json_number_of negative s =
     (let (ds, r) = json_unsigned s
      in if ds = [] then None
         else let whole = int (int10_digits ds);
                  (fs, r1) = json_fraction r;
                  (ex, r2) = json_exponent r1
              in if fs = [] \<and> ex = None then Some (JInt (if negative then - whole else whole), r2)
                 else let m = of_int whole + of_nat (int10_digits fs) / 10 ^ length fs;
                          e = (case ex of None \<Rightarrow> 0 | Some k \<Rightarrow> k);
                          x = (if 0 \<le> e then m * 10 ^ nat e else m / 10 ^ nat (- e))
                      in Some (JFloat (if negative then - x else x), r2))"

definition json_number :: "string \<Rightarrow> (json \<times> string) option" where
  "json_number s =
     (case s of c # t \<Rightarrow> if c = CHR ''-'' then json_number_of True t else json_number_of False s | [] \<Rightarrow> None)"

section \<open>Values\<close>

text \<open>A repeated key takes the last value, at the place of the first.\<close>

fun dict_put :: "string \<Rightarrow> json \<Rightarrow> payload \<Rightarrow> payload" where
  "dict_put k v [] = [(k, v)]"
| "dict_put k v ((k', v') # kvs) = (if k' = k then (k, v) # kvs else (k', v') # dict_put k v kvs)"

definition dict_of :: "payload \<Rightarrow> payload" where
  "dict_of kvs = foldl (\<lambda>d (k, v). dict_put k v d) [] kvs"

fun json_value :: "nat \<Rightarrow> string \<Rightarrow> (json \<times> string) option"
and json_elems :: "nat \<Rightarrow> string \<Rightarrow> (json list \<times> string) option"
and json_members :: "nat \<Rightarrow> string \<Rightarrow> (payload \<times> string) option" where
  "json_value 0 s = None"
| "json_value (Suc n) s =
     (case s of
        [] \<Rightarrow> None
      | c # r \<Rightarrow>
          if c = CHR 0x22 then map_option (\<lambda>(t, r'). (JStr t, r')) (json_chars r)
          else if c = CHR ''{''
          then (case json_ws r of
                  d # r' \<Rightarrow> if d = CHR ''}'' then Some (JObj [], r')
                            else map_option (\<lambda>(kvs, r2). (JObj (dict_of kvs), r2)) (json_members n (d # r'))
                | [] \<Rightarrow> None)
          else if c = CHR ''[''
          then (case json_ws r of
                  d # r' \<Rightarrow> if d = CHR '']'' then Some (JArr [], r')
                            else map_option (\<lambda>(vs, r2). (JArr vs, r2)) (json_elems n (d # r'))
                | [] \<Rightarrow> None)
          else if take 4 s = ''null'' then Some (JNull, drop 4 s)
          else if take 4 s = ''true'' then Some (JBool True, drop 4 s)
          else if take 5 s = ''false'' then Some (JBool False, drop 5 s)
          else json_number s)"
| "json_elems 0 s = None"
| "json_elems (Suc n) s =
     (case json_value n s of
        None \<Rightarrow> None
      | Some (v, r) \<Rightarrow>
          (case json_ws r of
             [] \<Rightarrow> None
           | c # r' \<Rightarrow>
               if c = CHR '']'' then Some ([v], r')
               else if c = CHR '','' then map_option (\<lambda>(vs, r2). (v # vs, r2)) (json_elems n (json_ws r'))
               else None))"
| "json_members 0 s = None"
| "json_members (Suc n) s =
     (case s of
        [] \<Rightarrow> None
      | q # s1 \<Rightarrow>
          if q \<noteq> CHR 0x22 then None
          else case json_chars s1 of
            None \<Rightarrow> None
          | Some (k, s2) \<Rightarrow>
              (case json_ws s2 of
                 [] \<Rightarrow> None
               | c # s3 \<Rightarrow>
                   if c \<noteq> CHR '':'' then None
                   else case json_value n (json_ws s3) of
                     None \<Rightarrow> None
                   | Some (v, r) \<Rightarrow>
                       (case json_ws r of
                          [] \<Rightarrow> None
                        | d # r' \<Rightarrow>
                            if d = CHR ''}'' then Some ([(k, v)], r')
                            else if d = CHR '',''
                            then map_option (\<lambda>(kvs, r2). ((k, v) # kvs, r2)) (json_members n (json_ws r'))
                            else None)))"

text \<open>\<open>None\<close> is \<open>JSONDecodeError\<close>.\<close>

definition json_loads :: "string \<Rightarrow> json option" where
  "json_loads s =
     (case json_value (Suc (length s)) (json_ws s) of
        Some (v, r) \<Rightarrow> if json_ws r = [] then Some v else None
      | None \<Rightarrow> None)"

section \<open>Reading back what \<open>json.dumps\<close> wrote\<close>

text \<open>A flat object: its members are strings and integers.\<close>

fun flat_text :: "json \<Rightarrow> string" where
  "flat_text (JStr s) = json_quote s"
| "flat_text (JInt i) = str_int i"
| "flat_text _ = ''null''"

fun flat :: "json \<Rightarrow> bool" where
  "flat (JStr s) = True"
| "flat (JInt i) = True"
| "flat _ = False"

fun members_text :: "payload \<Rightarrow> string" where
  "members_text [] = ''}''"
| "members_text [(k, v)] = json_quote k @ '':'' @ flat_text v @ ''}''"
| "members_text ((k, v) # kvs) = json_quote k @ '':'' @ flat_text v @ '','' @ members_text kvs"

definition flat_object_text :: "payload \<Rightarrow> string" where
  "flat_object_text kvs = CHR ''{'' # members_text kvs"

lemma control_escape:
  assumes "(of_char c :: nat) < 32"
  shows "json_hex4 (''00'' @ hex_digits 2 (of_char c)) = Some c"
proof -
  have d: "hexval (CHR ''0'') = Some 0" by (simp add: hexval_def)
  have u: "CHR ''0'' \<noteq> CHR ''_''" by simp
  have h: "hexdigit n \<noteq> CHR ''_''" for n
    using hexdigit_cases [of n] by (auto simp: hex_chars_def)
  have two: "hex_digits 2 n = [hexdigit (n div 16), hexdigit n]" for n by (simp add: numeral_2_eq_2)
  have "(of_char c :: nat) = 16 * ((of_char c div 16) mod 16) + of_char c mod 16" using assms by simp
  then show ?thesis
    using assms by (simp add: json_hex4_def two d h hexval_hexdigit)
qed

lemma json_chars_esc: "json_chars (json_esc c @ s) = map_option (\<lambda>(t, r). (c # t, r)) (json_chars s)"
proof (cases "c \<in> {CHR 0x22, CHR 0x5C, CHR 0x0A, CHR 0x0D, CHR 0x09, CHR 0x0C, CHR 0x08}")
  case True
  have "\<forall>c\<in>{CHR 0x22, CHR 0x5C, CHR 0x0A, CHR 0x0D, CHR 0x09, CHR 0x0C, CHR 0x08}.
      \<exists>e. json_esc c = [CHR 0x5C, e] \<and> json_unesc e = Some c"
    by (simp add: json_esc_def json_unesc_def)
  then obtain e where "json_esc c = [CHR 0x5C, e]" "json_unesc e = Some c" using True by blast
  then show ?thesis by simp
next
  case False
  then have n: "c \<noteq> CHR 0x22" "c \<noteq> CHR 0x5C" "c \<noteq> CHR 0x0A" "c \<noteq> CHR 0x0D" "c \<noteq> CHR 0x09" "c \<noteq> CHR 0x0C"
      "c \<noteq> CHR 0x08" by auto
  show ?thesis
  proof (cases "(of_char c :: nat) < 32")
    case True
    have e: "json_esc c = CHR 0x5C # CHR ''u'' # ''00'' @ hex_digits 2 (of_char c)"
      using n True by (simp add: json_esc_def)
    have h: "take 4 (''00'' @ hex_digits 2 (of_char c) @ s) = ''00'' @ hex_digits 2 (of_char c)"
        "drop 4 (''00'' @ hex_digits 2 (of_char c) @ s) = s" "4 \<le> length (''00'' @ hex_digits 2 (of_char c) @ s)"
      by simp_all
    have "json_chars (CHR 0x5C # CHR ''u'' # (''00'' @ hex_digits 2 (of_char c) @ s)) =
        map_option (\<lambda>(t, r). (c # t, r)) (json_chars s)"
      unfolding json_chars.simps(2) using h control_escape [OF True]
      by (simp add: json_unesc_def append_Nil del: append.simps(2) json_chars.simps)
    then show ?thesis by (simp add: e)
  next
    case False
    then show ?thesis using n by (simp add: json_esc_def)
  qed
qed

lemma json_chars_quote: "json_chars (concat (map json_esc t) @ CHR 0x22 # r) = Some (t, r)"
  by (induction t) (simp_all add: json_chars_esc)

text \<open>A number ends at a character that cannot continue it.\<close>

definition ends_number :: "string \<Rightarrow> bool" where
  "ends_number r \<longleftrightarrow> (case r of [] \<Rightarrow> True | c # _ \<Rightarrow> c = CHR '','' \<or> c = CHR ''}'')"

lemma ends_numberD:
  assumes "ends_number r"
  shows "takeWhile is_digit r = []" "dropWhile is_digit r = r" "json_fraction r = ([], r)" "json_exponent r = (None, r)"
  using assms
  by (auto simp: ends_number_def json_fraction_def json_exponent_def is_digit_def less_eq_char_def split: list.splits)

lemma str_nat_first: "0 < n \<Longrightarrow> \<exists>c t. str_nat n = c # t \<and> c \<noteq> CHR ''0''"
proof (induction n rule: str_nat.induct)
  case (1 n)
  show ?case
  proof (cases "n < 10")
    case True
    then have "n \<in> {1, 2, 3, 4, 5, 6, 7, 8, 9}" using 1(2) by auto
    then show ?thesis using True by (subst str_nat.simps) (auto simp: digit_char_def)
  next
    case False
    then have "0 < n div 10" by (simp add: div_greater_zero_iff)
    then obtain c t where "str_nat (n div 10) = c # t" "c \<noteq> CHR ''0''" using 1(1) False by blast
    then show ?thesis using False by (subst str_nat.simps) simp
  qed
qed

lemma str_nat_0: "str_nat 0 = ''0''"
  by (subst str_nat.simps) (simp add: digit_char_def)

lemma digits_then:
  assumes "\<forall>c\<in>set ds. is_digit c" and "ends_number r"
  shows "json_digits (ds @ r) = (ds, r)"
proof -
  have "takeWhile is_digit (ds @ r) = ds @ takeWhile is_digit r" "dropWhile is_digit (ds @ r) = dropWhile is_digit r"
    using assms(1) by (simp_all add: takeWhile_append dropWhile_append)
  then show ?thesis using ends_numberD(1,2) [OF assms(2)] by (simp add: json_digits_def)
qed

lemma unsigned_number:
  assumes "ends_number r"
  shows "json_unsigned (str_nat n @ r) = (str_nat n, r)"
proof (cases "n = 0")
  case False
  then obtain c t where ct: "str_nat n = c # t" "c \<noteq> CHR ''0''" using str_nat_first by blast
  then show ?thesis using digits_then [OF _ assms, of "str_nat n"] str_nat_digits [of n] by (simp add: json_unsigned_def)
qed (simp add: str_nat_0 json_unsigned_def)

lemma json_number_of_nat:
  assumes "ends_number r"
  shows "json_number_of negative (str_nat n @ r) = Some (JInt (if negative then - int n else int n), r)"
  using unsigned_number [OF assms, of n] ends_numberD(3,4) [OF assms] str_nat_digits [of n]
  by (simp add: json_number_of_def Let_def)

lemma str_nat_no_sign: "str_nat n \<noteq> [] \<and> hd (str_nat n) \<noteq> CHR ''-''"
proof -
  have "str_nat n \<noteq> [] \<and> is_digit (hd (str_nat n))" using str_nat_digits [of n] by (meson hd_in_set)
  then show ?thesis by (auto simp: is_digit_def less_eq_char_def)
qed

lemma json_number_str_int:
  assumes "ends_number r"
  shows "json_number (str_int i @ r) = Some (JInt i, r)"
proof (cases "i < 0")
  case True
  then show ?thesis
    using json_number_of_nat [OF assms, of True "nat (- i)"] by (simp add: json_number_def str_int_def)
next
  case False
  obtain c t where "str_nat (nat i) = c # t" "c \<noteq> CHR ''-''" using str_nat_no_sign [of "nat i"] by (cases "str_nat (nat i)") auto
  then show ?thesis
    using json_number_of_nat [OF assms, of False "nat i"] False by (simp add: json_number_def str_int_def)
qed

lemma str_int_first: "\<exists>c t. str_int i = c # t \<and> (is_digit c \<or> c = CHR ''-'')"
proof (cases "i < 0")
  case False
  then show ?thesis using str_nat_digits [of "nat i"] by (cases "str_nat (nat i)") (auto simp: str_int_def)
qed (simp add: str_int_def)

lemma flat_value:
  assumes "flat v" and "ends_number r"
  shows "json_value (Suc n) (flat_text v @ r) = Some (v, r)"
  using assms(1)
proof (cases v)
  case (JStr t)
  then show ?thesis using json_chars_quote [of t r] by (simp add: json_quote_def)
next
  case (JInt i)
  obtain c t where ct: "str_int i = c # t" "is_digit c \<or> c = CHR ''-''" using str_int_first by blast
  then have "c \<noteq> CHR 0x22" "c \<noteq> CHR ''{''" "c \<noteq> CHR ''[''" "c \<noteq> CHR ''n''" "c \<noteq> CHR ''t''" "c \<noteq> CHR ''f''"
    by (auto simp: is_digit_def less_eq_char_def)
  then have "json_value (Suc n) (flat_text v @ r) = json_number (str_int i @ r)"
    using JInt ct(1) by simp
  then show ?thesis using json_number_str_int [OF assms(2)] JInt by simp
qed auto

lemma flat_text_first: "flat v \<Longrightarrow> json_ws (flat_text v @ r) = flat_text v @ r"
proof (cases v)
  case (JInt i)
  then show ?thesis
    using str_int_first [of i] by (auto simp: json_ws_def is_digit_def less_eq_char_def)
qed (auto simp: json_ws_def json_quote_def)

lemma members_read:
  assumes "kvs \<noteq> []" and "\<forall>(k, v)\<in>set kvs. flat v" and "length kvs < n"
  shows "json_members n (members_text kvs @ r) = Some (kvs, r)"
  using assms
proof (induction kvs arbitrary: n)
  case (Cons kv kvs)
  obtain k v where kv: "kv = (k, v)" by fastforce
  obtain m where n: "n = Suc (Suc m)" "length kvs < Suc m" using Cons.prems(3) by (cases n; cases "n - 1") auto
  have v: "flat v" using Cons.prems(2) kv by auto
  have colon: "json_ws (CHR '':'' # x) = CHR '':'' # x" for x by (simp add: json_ws_def)
  show ?case
  proof (cases kvs)
    case Nil
    have e: "ends_number (CHR ''}'' # r)" by (simp add: ends_number_def)
    show ?thesis
      using flat_value [OF v e, of m] flat_text_first [OF v, of "CHR ''}'' # r"] json_chars_quote [of k]
      by (simp add: n kv Nil json_quote_def colon json_members.simps(2) [of "Suc m"] json_ws_def [of "CHR ''}'' # r"]
          del: json_value.simps json_members.simps)
  next
    case (Cons kv' kvs')
    let ?rest = "members_text kvs @ r"
    have e: "ends_number (CHR '','' # ?rest)" by (simp add: ends_number_def)
    have t: "members_text (kv # kvs) @ r = CHR 0x22 # concat (map json_esc k) @ CHR 0x22 # CHR '':'' # flat_text v @ CHR '','' # ?rest"
      by (simp add: kv Cons json_quote_def)
    have ws: "json_ws (CHR '','' # ?rest) = CHR '','' # ?rest" by (simp add: json_ws_def)
    have first: "json_ws ?rest = ?rest"
      using Cons by (cases kvs'; cases kv') (simp_all add: json_quote_def json_ws_def)
    have "json_members (Suc m) ?rest = Some (kvs, r)"
      by (rule Cons.IH) (use n(2) Cons.prems(2) Cons in auto)
    then show ?thesis
      unfolding t n(1)
      using flat_value [OF v e, of m] flat_text_first [OF v, of "CHR '','' # ?rest"] json_chars_quote [of k]
      by (simp add: colon ws first kv json_members.simps(2) [of "Suc m"] del: json_value.simps json_members.simps)
  qed
qed simp

lemma dict_put_fresh: "k \<notin> fst ` set d \<Longrightarrow> dict_put k v d = d @ [(k, v)]"
  by (induction d) auto

lemma dict_of_distinct:
  assumes "distinct (map fst kvs)"
  shows "dict_of kvs = kvs"
proof -
  have "foldl (\<lambda>d (k, v). dict_put k v d) d kvs = d @ kvs" if "distinct (map fst (d @ kvs))" for d
    using that by (induction kvs arbitrary: d) (auto simp: dict_put_fresh image_iff split: prod.split)
  from this [of "[]"] show ?thesis using assms by (simp add: dict_of_def)
qed

text \<open>Reading what \<open>json.dumps\<close> wrote of a flat object gives the object.\<close>

lemma json_loads_flat:
  assumes "kvs \<noteq> []" and "\<forall>(k, v)\<in>set kvs. flat v" and "distinct (map fst kvs)"
  shows "json_loads (flat_object_text kvs) = Some (JObj kvs)"
proof -
  have len: "length kvs < length (members_text kvs)" for kvs
    by (induction kvs rule: members_text.induct) (simp_all add: json_quote_def)
  obtain k v kvs' where k: "kvs = (k, v) # kvs'" using assms(1) by (cases kvs) auto
  obtain t where q: "members_text kvs = CHR 0x22 # t" by (cases kvs') (simp_all add: k json_quote_def)
  then have "json_ws (members_text kvs) = members_text kvs" by (simp add: json_ws_def)
  moreover have "json_members (length (flat_object_text kvs)) (members_text kvs) = Some (kvs, [])"
    using members_read [OF assms(1,2), of "length (flat_object_text kvs)" "[]"] len [of kvs]
    by (simp add: flat_object_text_def)
  ultimately have "json_value (Suc (length (flat_object_text kvs))) (flat_object_text kvs) = Some (JObj kvs, [])"
    using q dict_of_distinct [OF assms(3)]
    by (simp add: flat_object_text_def del: json_members.simps)
  then show ?thesis by (simp add: json_loads_def flat_object_text_def json_ws_def)
qed

end
