(* ===== verification/Jwt.thy ===== *)
theory Jwt
  imports Json
begin

text \<open>
  Authentication: the HS256 token verifier (\<open>infrastructure/auth/jwt.py\<close>), the token that the evaluation tools mint
  (\<open>evaluation/auth.py\<close>) and the API dependency that turns a Bearer header into a user
  (\<open>api/dependencies.py\<close>). HMAC-SHA256 is the argument \<open>mac\<close>, from key and message to digest; bytes are the
  \<^typ>\<open>char\<close>s of a \<^typ>\<open>string\<close>. A decoded text with a character above U+00FF, numbers of more than 4300 digits and
  nestings beyond Python's recursion limit are outside the model; floats are exact rationals.
\<close>

section \<open>Bytes and text\<close>

fun utf8_encode :: "string \<Rightarrow> string" where
  "utf8_encode [] = []"
| "utf8_encode (c # s) =
     (let n = (of_char c :: nat)
      in if n < 128 then c # utf8_encode s
         else char_of (192 + n div 64) # char_of (128 + n mod 64) # utf8_encode s)"

fun utf8_decode :: "string \<Rightarrow> string option" where
  "utf8_decode [] = Some []"
| "utf8_decode (c # s) =
     (let n = (of_char c :: nat)
      in if n < 128 then map_option ((#) c) (utf8_decode s)
         else case s of
           [] \<Rightarrow> None
         | d # r \<Rightarrow>
             let m = (of_char d :: nat)
             in if (n = 194 \<or> n = 195) \<and> 128 \<le> m \<and> m < 192
                then map_option ((#) (char_of ((n - 192) * 64 + (m - 128)))) (utf8_decode r)
                else None)"

definition is_ascii :: "string \<Rightarrow> bool" where
  "is_ascii s \<longleftrightarrow> list_all (\<lambda>c. (of_char c :: nat) < 128) s"

section \<open>Base64\<close>

text \<open>The URL-safe alphabet: \<open>A\<close> to \<open>Z\<close>, \<open>a\<close> to \<open>z\<close>, the digits, \<open>-\<close> and \<open>_\<close>.\<close>

definition b64_char :: "nat \<Rightarrow> char" where
  "b64_char n =
     (if n < 26 then char_of (n + 65) else if n < 52 then char_of (n + 71)
      else if n < 62 then char_of (n - 4) else if n = 62 then CHR ''-'' else CHR ''_'')"

text \<open>\<open>base64.urlsafe_b64encode(data).rstrip(b"=")\<close>.\<close>

fun b64url :: "string \<Rightarrow> string" where
  "b64url [] = []"
| "b64url [a] = (let x = (of_char a :: nat) in [b64_char (x div 4), b64_char (x mod 4 * 16)])"
| "b64url [a, b] =
     (let x = (of_char a :: nat); y = of_char b
      in [b64_char (x div 4), b64_char (x mod 4 * 16 + y div 16), b64_char (y mod 16 * 4)])"
| "b64url (a # b # c # s) =
     (let x = (of_char a :: nat); y = of_char b; z = of_char c
      in b64_char (x div 4) # b64_char (x mod 4 * 16 + y div 16) # b64_char (y mod 16 * 4 + z div 64) #
         b64_char (z mod 64) # b64url s)"

text \<open>With \<open>altchars\<close> the two spellings of the last two digits are both accepted.\<close>

definition b64_val :: "char \<Rightarrow> nat option" where
  "b64_val c =
     (let n = (of_char c :: nat)
      in if 65 \<le> n \<and> n \<le> 90 then Some (n - 65)
         else if 97 \<le> n \<and> n \<le> 122 then Some (n - 71)
         else if 48 \<le> n \<and> n \<le> 57 then Some (n + 4)
         else if c = CHR ''-'' \<or> c = CHR ''+'' then Some 62
         else if c = CHR ''_'' \<or> c = CHR ''/'' then Some 63
         else None)"

text \<open>
  \<open>binascii.a2b_base64\<close> in strict mode: the position in the group of four, the bits that are left of it, the
  padding characters read, and whether there was one.
\<close>

fun a2b_strict :: "nat \<Rightarrow> nat \<Rightarrow> nat \<Rightarrow> bool \<Rightarrow> string \<Rightarrow> string option" where
  "a2b_strict quad left pads padded [] = (if quad = 0 then Some [] else None)"
| "a2b_strict quad left pads padded (c # s) =
     (if c = CHR ''=''
      then if 2 \<le> quad \<and> 4 \<le> quad + Suc pads then (if s = [] then Some [] else None)
           else a2b_strict quad left (if 2 \<le> quad then Suc pads else pads) True s
      else case b64_val c of
        None \<Rightarrow> None
      | Some v \<Rightarrow>
          if padded then None
          else if quad = 0 then a2b_strict 1 v 0 padded s
          else if quad = 1
          then map_option ((#) (char_of (left * 4 + v div 16))) (a2b_strict 2 (v mod 16) 0 padded s)
          else if quad = 2
          then map_option ((#) (char_of (left * 16 + v div 4))) (a2b_strict 3 (v mod 4) 0 padded s)
          else map_option ((#) (char_of (left * 64 + v))) (a2b_strict 0 0 0 padded s))"

definition decode_base64url :: "string \<Rightarrow> string option" where
  "decode_base64url s =
     (if s = [] then None
      else let t = s @ replicate (nat ((- int (length s)) mod 4)) (CHR ''='')
        in if take 1 t = ''='' then None else a2b_strict 0 0 0 False t)"

section \<open>The verifier\<close>

datatype jwt_exn = JwtIdentityError string | UnicodeEncodeError | FloatOverflowError | JwtValueError string

record JwtVerifier =
  jv_secret :: string
  jv_issuer :: string
  jv_audience :: string
  jv_leeway_seconds :: int

text \<open>The secret is kept as bytes.\<close>

definition init_verifier :: "string \<Rightarrow> string \<Rightarrow> string \<Rightarrow> int \<Rightarrow> jwt_exn + JwtVerifier" where
  "init_verifier secret issuer audience leeway_seconds =
     (if length (utf8_encode secret) < 32 then Inl (JwtValueError ''JWT HS256 secret must be at least 32 bytes'')
      else Inr \<lparr>jv_secret = utf8_encode secret, jv_issuer = issuer, jv_audience = audience,
                jv_leeway_seconds = max 0 leeway_seconds\<rparr>)"

text \<open>\<open>token.split(".")\<close>\<close>

fun split_dot :: "string \<Rightarrow> string list" where
  "split_dot [] = [[]]"
| "split_dot (c # s) =
     (if c = CHR ''.'' then [] # split_dot s
      else (case split_dot s of w # ws \<Rightarrow> (c # w) # ws | [] \<Rightarrow> [[c]]))"

definition decode_json_object :: "string \<Rightarrow> string \<Rightarrow> jwt_exn + payload" where
  "decode_json_object segment label =
     (case Option.bind (Option.bind (decode_base64url segment) utf8_decode) json_loads of
        None \<Rightarrow> Inl (JwtIdentityError (''invalid JWT '' @ label))
      | Some (JObj kvs) \<Rightarrow> Inr kvs
      | Some _ \<Rightarrow> Inl (JwtIdentityError (''JWT '' @ label @ '' must be an object'')))"

text \<open>\<open>isinstance(v, (int, float))\<close> and \<open>float(v)\<close>: \<open>True\<close> and \<open>False\<close> are integers, and an integer that would be
  rounded to \<open>2 ^ 1024\<close> or more does not fit.\<close>

definition json_number_value :: "json \<Rightarrow> rat option" where
  "json_number_value v =
     (case v of JInt i \<Rightarrow> Some (of_int i) | JFloat x \<Rightarrow> Some x | JBool b \<Rightarrow> Some (if b then 1 else 0) | _ \<Rightarrow> None)"

definition float_overflows :: "json \<Rightarrow> bool" where
  "float_overflows v \<longleftrightarrow> (case v of JInt i \<Rightarrow> 2 ^ 1024 - 2 ^ 970 \<le> \<bar>i\<bar> | _ \<Rightarrow> False)"

definition validate_registered_claims :: "JwtVerifier \<Rightarrow> datetime \<Rightarrow> payload \<Rightarrow> jwt_exn + unit" where
  "validate_registered_claims jv now payload =
     (if map_of payload ''iss'' \<noteq> Some (JStr (jv_issuer jv)) then Inl (JwtIdentityError ''JWT issuer mismatch'')
      else if \<not> (case map_of payload ''aud'' of
                   Some (JStr a) \<Rightarrow> a = jv_audience jv
                 | Some (JArr vs) \<Rightarrow> JStr (jv_audience jv) \<in> set vs
                 | _ \<Rightarrow> False) then Inl (JwtIdentityError ''JWT audience mismatch'')
      else case Option.bind (map_of payload ''exp'') json_number_value of
        None \<Rightarrow> Inl (JwtIdentityError ''JWT exp claim is required'')
      | Some expiry \<Rightarrow>
          if float_overflows (the (map_of payload ''exp'')) then Inl FloatOverflowError
          else if expiry + of_int (jv_leeway_seconds jv) \<le> now then Inl (JwtIdentityError ''JWT has expired'')
          else (case map_of payload ''nbf'' of
                  None \<Rightarrow> Inr ()
                | Some JNull \<Rightarrow> Inr ()
                | Some v \<Rightarrow>
                    (case json_number_value v of
                       None \<Rightarrow> Inl (JwtIdentityError ''JWT nbf must be numeric'')
                     | Some nbf \<Rightarrow>
                         if float_overflows v then Inl FloatOverflowError
                         else if now + of_int (jv_leeway_seconds jv) < nbf
                         then Inl (JwtIdentityError ''JWT is not active yet'')
                         else Inr ())))"

definition verify :: "(string \<Rightarrow> string \<Rightarrow> string) \<Rightarrow> JwtVerifier \<Rightarrow> datetime \<Rightarrow> string \<Rightarrow> jwt_exn + uuid" where
  "verify mac jv now token =
     (case split_dot token of
        [header_segment, payload_segment, signature_segment] \<Rightarrow>
          (case decode_json_object header_segment ''header'' of
             Inl e \<Rightarrow> Inl e
           | Inr header \<Rightarrow>
               if map_of header ''alg'' \<noteq> Some (JStr ''HS256'')
               then Inl (JwtIdentityError ''JWT algorithm must be HS256'')
               else if \<not> is_ascii (header_segment @ ''.'' @ payload_segment) then Inl UnicodeEncodeError
               else (case decode_base64url signature_segment of
                       None \<Rightarrow> Inl (JwtIdentityError ''invalid JWT signature encoding'')
                     | Some supplied \<Rightarrow>
                         if mac (jv_secret jv) (header_segment @ ''.'' @ payload_segment) \<noteq> supplied
                         then Inl (JwtIdentityError ''JWT signature verification failed'')
                         else (case decode_json_object payload_segment ''payload'' of
                                 Inl e \<Rightarrow> Inl e
                               | Inr payload \<Rightarrow>
                                   (case validate_registered_claims jv now payload of
                                      Inl e \<Rightarrow> Inl e
                                    | Inr _ \<Rightarrow>
                                        (case map_of payload ''sub'' of
                                           Some (JStr subject) \<Rightarrow>
                                             (case UUID subject of
                                                Inl _ \<Rightarrow> Inl (JwtIdentityError ''JWT sub must be a UUID string'')
                                              | Inr user_id \<Rightarrow> Inr user_id)
                                         | _ \<Rightarrow> Inl (JwtIdentityError ''JWT sub must be a UUID string''))))))
      | _ \<Rightarrow> Inl (JwtIdentityError ''JWT must contain three segments''))"

text \<open>\<open>header.strip().partition(" ")\<close>\<close>

definition verify_authorization_header ::
  "(string \<Rightarrow> string \<Rightarrow> string) \<Rightarrow> JwtVerifier \<Rightarrow> datetime \<Rightarrow> string \<Rightarrow> jwt_exn + uuid" where
  "verify_authorization_header mac jv now header =
     (let s = py_strip header;
          scheme = takeWhile (\<lambda>c. c \<noteq> CHR '' '') s;
          rest = dropWhile (\<lambda>c. c \<noteq> CHR '' '') s;
          token = tl rest
      in if rest = [] \<or> py_lower scheme \<noteq> ''bearer'' \<or> token = []
         then Inl (JwtIdentityError ''authorization header must use Bearer token'')
         else verify mac jv now token)"

section \<open>The API dependency\<close>

text \<open>The answer to a request that does not get a user: 401, or 500 for an exception that nothing catches.\<close>

definition get_authenticated_identity ::
  "(string \<Rightarrow> string \<Rightarrow> string) \<Rightarrow> JwtVerifier \<Rightarrow> datetime \<Rightarrow> (string \<times> string) option \<Rightarrow> nat + uuid" where
  "get_authenticated_identity mac jv now credentials =
     (case credentials of
        None \<Rightarrow> Inl 401
      | Some (scheme, token) \<Rightarrow>
          if py_lower scheme \<noteq> ''bearer'' then Inl 401
          else (case verify mac jv now token of
                  Inr user_id \<Rightarrow> Inr user_id
                | Inl (JwtIdentityError _) \<Rightarrow> Inl 401
                | Inl _ \<Rightarrow> Inl 500))"

section \<open>Minting\<close>

text \<open>\<open>json.dumps\<close> with \<open>ensure_ascii\<close>: every character outside the printable ASCII range is escaped.\<close>

definition ascii_esc :: "char \<Rightarrow> string" where
  "ascii_esc c =
     (let n = (of_char c :: nat)
      in if 32 \<le> n \<and> n < 127 then [c] else CHR 0x5C # CHR ''u'' # ''00'' @ hex_digits 2 n)"

definition dumps_ascii :: "payload \<Rightarrow> string" where
  "dumps_ascii kvs = concat (map ascii_esc (flat_object_text kvs))"

text \<open>The keys in the order of \<open>sort_keys\<close>; \<open>at\<close> is the timestamp of the timezone-aware clock, and \<open>int\<close> cuts
  its fraction off.\<close>

definition mint_claims :: "uuid \<Rightarrow> string \<Rightarrow> string \<Rightarrow> int \<Rightarrow> datetime \<Rightarrow> payload" where
  "mint_claims user_id issuer audience expires_in_seconds at_time =
     (let issued_at = (if 0 \<le> at_time then \<lfloor>at_time\<rfloor> else \<lceil>at_time\<rceil>)
      in [(''aud'', JStr audience), (''exp'', JInt (issued_at + expires_in_seconds)), (''iat'', JInt issued_at),
          (''iss'', JStr issuer), (''nbf'', JInt issued_at), (''sub'', JStr (uuid_str user_id))])"

definition mint_evaluation_jwt ::
  "(string \<Rightarrow> string \<Rightarrow> string) \<Rightarrow> uuid \<Rightarrow> string \<Rightarrow> string \<Rightarrow> string \<Rightarrow> int \<Rightarrow> datetime \<Rightarrow> jwt_exn + string" where
  "mint_evaluation_jwt mac user_id secret issuer audience expires_in_seconds at_time =
     (if \<not> (1 \<le> expires_in_seconds \<and> expires_in_seconds \<le> 3600)
      then Inl (JwtValueError ''expires_in_seconds must be between 1 and 3600'')
      else if length (utf8_encode secret) < 32 then Inl (JwtValueError ''HS256 secret must contain at least 32 bytes'')
      else if issuer = [] \<or> audience = [] then Inl (JwtValueError ''issuer and audience must be non-empty'')
      else let header = [(''alg'', JStr ''HS256''), (''typ'', JStr ''JWT'')];
               claims = mint_claims user_id issuer audience expires_in_seconds at_time;
               signing_input = b64url (utf8_encode (dumps_ascii header)) @ ''.'' @ b64url (utf8_encode (dumps_ascii claims));
               signature = mac (utf8_encode secret) signing_input
           in Inr (signing_input @ ''.'' @ b64url signature))"

end
