(* ===== verification/DocumentApi.thy ===== *)
theory DocumentApi
  imports Authorization QAStore Jwt
begin

text \<open>
  The document routes of the HTTP API (\<open>api/v1/documents.py\<close>) with the session and the identity that their
  dependencies give them (\<open>api/dependencies.py\<close>): who sends the request, whether that user may, what the use
  case does, and the answer.

  A request comes with its fields parsed; pydantic's \<open>min_length\<close> is checked here. The object store and the
  knowledge provider, the clock and \<open>uuid4()\<close> are the environment of a request.
\<close>

section \<open>Requests, answers, exceptions\<close>

record DocumentUploadRequest =
  du_company_id :: uuid
  du_project_id :: uuid
  du_document_id :: "uuid option"
  du_document_category :: DocumentCategory
  du_title :: string
  du_version_label :: string
  du_authority_level :: AuthorityLevel
  du_filename :: string
  du_mime_type :: string
  du_content_base64 :: string
  du_owner_user_id :: "uuid option"
  du_supersedes_version_id :: "uuid option"

datatype ApiRequest =
    Api_upload DocumentUploadRequest
  | Api_submit uuid
  | Api_approve uuid
  | Api_publish uuid
  | Api_delete uuid

record ApiEnv =
  ae_put :: object_put
  ae_ingest :: knowledge_ingest
  ae_status :: ingestion_status
  ae_delete :: knowledge_delete
  ae_now :: datetime
  ae_published_at :: datetime
  ae_pick :: nat
  ae_key :: uuid
  ae_doc :: uuid
  ae_version :: uuid

text \<open>What a route raises: FastAPI's \<open>HTTPException\<close>, or an exception that nothing in the application catches.\<close>

datatype http_exn = HTTPException nat string | Uncaught exn

datatype HttpAnswer = Answer nat "(string \<times> string) list" | Failure nat string

type_synonym 'a route = "doc_db session \<Rightarrow> (http_exn + 'a) \<times> doc_db session"

text \<open>\<open>get_db_session\<close>: the session is rolled back when the route raises and committed when it returns.\<close>

definition get_db_session :: "'a route \<Rightarrow> doc_db \<Rightarrow> (http_exn + 'a) \<times> doc_db" where
  "get_db_session body db =
     (let (r, s) = body (begin_session db)
      in case r of
           Inl e \<Rightarrow> (Inl e, committed (rollback s))
         | Inr x \<Rightarrow> (Inr x, committed (commit s)))"

text \<open>A call in a route, with the \<open>except\<close> clauses around it.\<close>

definition calling :: "(exn \<Rightarrow> http_exn + 'b) \<Rightarrow> ('a, doc_db session) op \<Rightarrow> ('a \<Rightarrow> 'b route) \<Rightarrow> 'b route" where
  "calling catch m f s =
     (case m s of (Inl e, s') \<Rightarrow> (catch e, s') | (Inr x, s') \<Rightarrow> f x s')"

definition answering :: "'a \<Rightarrow> 'a route" where
  "answering x s = (Inr x, s)"

fun catch_authorization :: "exn \<Rightarrow> http_exn + 'b" where
  "catch_authorization (AuthorizationDenied m) = Inl (HTTPException 403 m)"
| "catch_authorization e = Inl (Uncaught e)"

text \<open>\<open>except (LookupError, KeyError)\<close> comes first in \<open>_authorize_version\<close>.\<close>

definition catch_version :: "uuid \<Rightarrow> exn \<Rightarrow> http_exn + 'b" where
  "catch_version version_id e =
     (if is_lookup_error e
      then Inl (HTTPException 404 (''document version '' @ uuid_str version_id @ '' not found''))
      else catch_authorization e)"

fun catch_permission :: "exn \<Rightarrow> http_exn + 'b" where
  "catch_permission (DocumentPermissionDenied m) = Inl (HTTPException 403 m)"
| "catch_permission e = Inl (Uncaught e)"

fun catch_publish :: "uuid \<Rightarrow> exn \<Rightarrow> http_exn + (string \<times> string) list" where
  "catch_publish version_id (DocumentPermissionDenied m) = Inl (HTTPException 403 m)"
| "catch_publish version_id (DocumentPublishPending job) =
     Inr [(''version_id'', uuid_str version_id), (''status'', ''PUBLISH_PENDING''), (''ingestion_job_id'', job)]"
| "catch_publish version_id (DocumentPublishFailed m) = Inl (HTTPException 502 m)"
| "catch_publish version_id e = Inl (Uncaught e)"

fun catch_none :: "exn \<Rightarrow> http_exn + 'b" where
  "catch_none e = Inl (Uncaught e)"

section \<open>Content\<close>

text \<open>\<open>base64.b64decode(content, validate=True)\<close> with the standard alphabet; \<open>None\<close> is \<open>binascii.Error\<close> or the
  \<open>ValueError\<close> of text that is not ASCII.\<close>

definition decode_content :: "string \<Rightarrow> string option" where
  "decode_content s =
     (if \<not> is_ascii s \<or> CHR ''-'' \<in> set s \<or> CHR ''_'' \<in> set s \<or> take 1 s = ''='' then None
      else a2b_strict 0 0 0 False s)"

definition upload_request_valid :: "DocumentUploadRequest \<Rightarrow> bool" where
  "upload_request_valid q \<longleftrightarrow> du_title q \<noteq> [] \<and> du_version_label q \<noteq> [] \<and> du_filename q \<noteq> [] \<and>
     du_mime_type q \<noteq> [] \<and> du_content_base64 q \<noteq> []"

definition upload_command :: "DocumentUploadRequest \<Rightarrow> string \<Rightarrow> DocumentActor \<Rightarrow> UploadDocumentCommand" where
  "upload_command q data actor =
     \<lparr>uc_company_id = du_company_id q, uc_project_id = du_project_id q, uc_document_id = du_document_id q,
      uc_document_category = du_document_category q, uc_title = du_title q, uc_version_label = du_version_label q,
      uc_authority_level = du_authority_level q, uc_filename = du_filename q, uc_data = data,
      uc_mime_type = du_mime_type q, uc_owner_user_id = du_owner_user_id q, uc_effective_from = None,
      uc_effective_to = None, uc_supersedes_version_id = du_supersedes_version_id q, uc_actor = actor,
      uc_suggestion = None\<rparr>"

section \<open>The routes\<close>

definition upload_route :: "ApiEnv \<Rightarrow> uuid \<Rightarrow> DocumentUploadRequest \<Rightarrow> (string \<times> string) list route" where
  "upload_route env user q =
     calling catch_authorization
       (on_working (read_op (authorize_project_operation (ae_pick env) (ae_now env) user (du_project_id q) OP_UPLOAD
          (Some (du_company_id q))))) (\<lambda>(context, actor) s.
       case decode_content (du_content_base64 q) of
         None \<Rightarrow> (Inl (HTTPException 422 ''invalid content_base64''), s)
       | Some data \<Rightarrow>
           if data = [] then (Inl (Uncaught (ValueError ''data'')), s)
           else calling catch_none
             (upload_document (ae_put env) (ae_key env) (ae_doc env) (ae_version env) (upload_command q data actor))
             (\<lambda>result. answering
               [(''document_id'', uuid_str (vr_document_id result)), (''version_id'', uuid_str (vr_version_id result)),
                (''status'', DocumentLifecycleStatus_value (vr_lifecycle_status result))]) s)"

definition authorized_version ::
  "ApiEnv \<Rightarrow> uuid \<Rightarrow> uuid \<Rightarrow> DocumentOperation \<Rightarrow> (DocumentActor \<Rightarrow> 'b route) \<Rightarrow> 'b route" where
  "authorized_version env user version_id operation f =
     calling (catch_version version_id)
       (on_working (read_op (authorize_version_operation (ae_pick env) (ae_now env) user version_id operation)))
       (\<lambda>(context, actor). f actor)"

definition version_answer :: "DocumentVersionRecord \<Rightarrow> (string \<times> string) list" where
  "version_answer result =
     [(''version_id'', uuid_str (vr_version_id result)),
      (''status'', DocumentLifecycleStatus_value (vr_lifecycle_status result))]"

definition submit_route :: "ApiEnv \<Rightarrow> uuid \<Rightarrow> uuid \<Rightarrow> (string \<times> string) list route" where
  "submit_route env user version_id =
     authorized_version env user version_id OP_SUBMIT_REVIEW (\<lambda>actor.
       calling catch_permission (submit_review version_id actor) (\<lambda>result. answering (version_answer result)))"

definition approve_route :: "ApiEnv \<Rightarrow> uuid \<Rightarrow> uuid \<Rightarrow> (string \<times> string) list route" where
  "approve_route env user version_id =
     authorized_version env user version_id OP_APPROVE (\<lambda>actor.
       calling catch_permission (approve_document version_id actor) (\<lambda>result. answering (version_answer result)))"

definition publish_route :: "ApiEnv \<Rightarrow> uuid \<Rightarrow> uuid \<Rightarrow> (string \<times> string) list route" where
  "publish_route env user version_id =
     authorized_version env user version_id OP_PUBLISH (\<lambda>actor.
       calling (catch_publish version_id)
         (publish_document (ae_ingest env) (ae_status env) (ae_published_at env) version_id actor)
         (\<lambda>result. answering (version_answer result)))"

definition delete_route :: "ApiEnv \<Rightarrow> uuid \<Rightarrow> uuid \<Rightarrow> (string \<times> string) list route" where
  "delete_route env user version_id =
     authorized_version env user version_id OP_ARCHIVE (\<lambda>actor.
       calling catch_permission (delete_document (ae_delete env) version_id actor)
         (\<lambda>result. answering (version_answer result)))"

fun api_route :: "ApiEnv \<Rightarrow> uuid \<Rightarrow> ApiRequest \<Rightarrow> (string \<times> string) list route" where
  "api_route env user (Api_upload q) =
     (if upload_request_valid q then upload_route env user q
      else (\<lambda>s. (Inl (HTTPException 422 ''string_too_short''), s)))"
| "api_route env user (Api_submit version_id) = submit_route env user version_id"
| "api_route env user (Api_approve version_id) = approve_route env user version_id"
| "api_route env user (Api_publish version_id) = publish_route env user version_id"
| "api_route env user (Api_delete version_id) = delete_route env user version_id"

definition success_code :: "ApiRequest \<Rightarrow> nat" where
  "success_code request = (case request of Api_upload _ \<Rightarrow> 201 | _ \<Rightarrow> 200)"

definition http_answer :: "ApiRequest \<Rightarrow> http_exn + (string \<times> string) list \<Rightarrow> HttpAnswer" where
  "http_answer request r =
     (case r of
        Inr body \<Rightarrow> Answer (success_code request) body
      | Inl (HTTPException code detail) \<Rightarrow> Failure code detail
      | Inl (Uncaught _) \<Rightarrow> Failure 500 ''Internal Server Error'')"

text \<open>A request as it arrives, with the credentials of its \<open>Authorization\<close> header.\<close>

definition document_api ::
  "(string \<Rightarrow> string \<Rightarrow> string) \<Rightarrow> JwtVerifier \<Rightarrow> datetime \<Rightarrow> ApiEnv \<Rightarrow> (string \<times> string) option \<Rightarrow> ApiRequest \<Rightarrow>
   doc_db \<Rightarrow> HttpAnswer \<times> doc_db" where
  "document_api mac jv clock env credentials request db =
     (case get_authenticated_identity mac jv clock credentials of
        Inl code \<Rightarrow>
          (Failure code (if code = 401 then ''Invalid or missing Bearer token'' else ''Internal Server Error''), db)
      | Inr user \<Rightarrow>
          (let (r, db') = get_db_session (api_route env user request) db in (http_answer request r, db')))"

end
