(* ===== verification/JwtProofs.thy ===== *)
theory JwtProofs
  imports Jwt
begin

text \<open>
  The token verifier accepts exactly the tokens whose signing input the secret has signed and whose claims are in
  force, the minted tokens of the evaluation tools are among them, and what it does with bytes that are not ASCII.
\<close>

section \<open>Encodings\<close>

lemma of_char_less [simp]: "(of_char c :: nat) < 256"
  by (metis of_char_mod_256 mod_less_divisor zero_less_numeral)

lemma utf8_roundtrip: "utf8_decode (utf8_encode s) = Some s"
proof (induction s)
  case (Cons c s)
  let ?n = "of_char c :: nat"
  have n: "?n < 256" by simp
  show ?case
  proof (cases "?n < 128")
    case False
    have d: "?n div 64 = 2 \<or> ?n div 64 = 3" using n False by linarith
    have "(192 + ?n div 64) mod 256 = 192 + ?n div 64" "(128 + ?n mod 64) mod 256 = 128 + ?n mod 64" using d by auto
    moreover have "(192 + ?n div 64 - 192) * 64 + (128 + ?n mod 64 - 128) = ?n" by simp
    moreover have "char_of ?n = c" by simp
    ultimately show ?thesis using False d Cons by (auto simp: Let_def)
  qed (use Cons in simp)
qed simp

lemma utf8_ascii: "is_ascii s \<Longrightarrow> utf8_encode s = s"
  by (induction s) (auto simp: is_ascii_def)

lemma b64_digit:
  assumes "n < 64"
  shows "b64_val (b64_char n) = Some n" "b64_char n \<noteq> CHR ''=''" "b64_char n \<noteq> CHR ''.''" "(of_char (b64_char n) :: nat) < 128"
proof -
  have e: "(of_char (char_of k) :: nat) = k" if "k < 256" for k using that by simp
  have "(of_char (b64_char n) :: nat) \<noteq> of_char (CHR ''='') \<and> (of_char (b64_char n) :: nat) \<noteq> of_char (CHR ''.'')"
    using assms by (auto simp: b64_char_def e)
  then show "b64_char n \<noteq> CHR ''=''" "b64_char n \<noteq> CHR ''.''" by metis+
  show "(of_char (b64_char n) :: nat) < 128" using assms by (auto simp: b64_char_def e)
  have "n = 63" if "\<not> n < 26" "\<not> n < 52" "\<not> n < 62" "n \<noteq> 62" using that assms by linarith
  then show "b64_val (b64_char n) = Some n" by (auto simp: b64_char_def b64_val_def Let_def e)
qed

lemma b64_quarters:
  "(of_char a :: nat) div 4 < 64" "of_char a mod 4 * 16 + (of_char b :: nat) div 16 < 64"
  "of_char a mod 16 * 4 + (of_char b :: nat) div 64 < 64" "(of_char a :: nat) mod 64 < 64"
  "of_char a mod 4 * 16 < (64 :: nat)" "of_char a mod 16 * 4 < (64 :: nat)"
proof -
  have "(of_char a :: nat) < 256" "(of_char b :: nat) < 256" by simp_all
  then show "(of_char a :: nat) div 4 < 64" "of_char a mod 4 * 16 + (of_char b :: nat) div 16 < 64"
    "of_char a mod 16 * 4 + (of_char b :: nat) div 64 < 64" "(of_char a :: nat) mod 64 < 64"
    "of_char a mod 4 * 16 < (64 :: nat)" "of_char a mod 16 * 4 < (64 :: nat)" by linarith+
qed

lemmas b64_digits =
  b64_digit [OF b64_quarters(1)] b64_digit [OF b64_quarters(2)] b64_digit [OF b64_quarters(3)] b64_digit [OF b64_quarters(4)]
  b64_digit [OF b64_quarters(5)] b64_digit [OF b64_quarters(6)]

lemma b64url_chars: "c \<in> set (b64url bs) \<Longrightarrow> c \<noteq> CHR ''='' \<and> c \<noteq> CHR ''.'' \<and> (of_char c :: nat) < 128"
proof (induction bs rule: b64url.induct)
  case (4 a b d bs)
  then show ?case by (simp add: Let_def) (elim disjE; simp add: b64_digits)
qed (simp_all add: Let_def, (elim disjE; simp add: b64_digits)+)

lemma b64url_ne: "bs \<noteq> [] \<Longrightarrow> b64url bs \<noteq> []"
  by (cases bs rule: b64url.cases) (simp_all add: Let_def)

abbreviation b64_padding :: "nat \<Rightarrow> string" where
  "b64_padding n \<equiv> replicate (nat ((- int n) mod 4)) (CHR ''='')"

lemma padding_step: "b64_padding (Suc (Suc (Suc (Suc n)))) = b64_padding n"
proof -
  have "(- int (Suc (Suc (Suc (Suc n))))) mod 4 = (- int n) mod 4" by presburger
  then show ?thesis by simp
qed

lemma a2b_roundtrip: "a2b_strict 0 0 0 False (b64url bs @ b64_padding (length (b64url bs))) = Some bs"
proof (induction bs rule: b64url.induct)
  case (2 a)
  have "(- int (Suc (Suc 0))) mod 4 = 2" by simp
  moreover have "of_char a div 4 * 4 + of_char a mod 4 * 16 div 16 = (of_char a :: nat)" by simp
  ultimately show ?case by (simp add: Let_def b64_digits numeral_2_eq_2)
next
  case (3 a b)
  let ?x = "of_char a :: nat" and ?y = "of_char b :: nat"
  have "(- int (Suc (Suc (Suc 0)))) mod 4 = 1" by simp
  moreover have "?x div 4 * 4 + (?x mod 4 * 16 + ?y div 16) div 16 = ?x"
  proof -
    have "?y div 16 < 16" using of_char_less [of b] by linarith
    then show ?thesis by (simp add: div_mult_self3)
  qed
  moreover have "(?x mod 4 * 16 + ?y div 16) mod 16 * 16 + ?y mod 16 * 4 div 4 = ?y"
  proof -
    have "?y div 16 < 16" using of_char_less [of b] by linarith
    then show ?thesis by simp
  qed
  ultimately show ?case by (simp add: Let_def b64_digits)
next
  case (4 a b c bs)
  let ?x = "of_char a :: nat" and ?y = "of_char b :: nat" and ?z = "of_char c :: nat"
  have y: "?y div 16 < 16" and z: "?z div 64 < 4" using of_char_less [of b] of_char_less [of c] by linarith+
  have 1: "?x div 4 * 4 + (?x mod 4 * 16 + ?y div 16) div 16 = ?x" using y by simp
  have 2: "(?x mod 4 * 16 + ?y div 16) mod 16 * 16 + (?y mod 16 * 4 + ?z div 64) div 4 = ?y" using y z by simp
  have 3: "(?y mod 16 * 4 + ?z div 64) mod 4 * 64 + ?z mod 64 = ?z" using z by simp
  show ?case
    using 4 1 2 3 by (simp add: Let_def b64_digits padding_step del: of_nat_Suc)
qed simp

lemma base64url_roundtrip: "bs \<noteq> [] \<Longrightarrow> decode_base64url (b64url bs) = Some bs"
  using b64url_ne [of bs] b64url_chars [of "hd (b64url bs)" bs] a2b_roundtrip [of bs]
  by (cases "b64url bs") (simp_all add: decode_base64url_def)


lemma base64url_ascii: "is_ascii (b64url bs)" "CHR ''.'' \<notin> set (b64url bs)"
  using b64url_chars [of _ bs] by (auto simp: is_ascii_def list_all_iff)

lemma split_dot_three:
  assumes "CHR ''.'' \<notin> set h" "CHR ''.'' \<notin> set p" "CHR ''.'' \<notin> set s"
  shows "split_dot (h @ ''.'' @ p @ ''.'' @ s) = [h, p, s]"
proof -
  have one: "CHR ''.'' \<notin> set w \<Longrightarrow> split_dot w = [w]" for w by (induction w) auto
  have more: "CHR ''.'' \<notin> set w \<Longrightarrow> split_dot (w @ CHR ''.'' # r) = w # split_dot r" for w r by (induction w) auto
  show ?thesis using assms by (simp add: one more)
qed

lemma split_dot_ne: "split_dot s \<noteq> []"
  by (induction s) (auto split: list.splits)

lemma split_dot_threeD: "split_dot t = [h, p, s] \<Longrightarrow>
    t = h @ ''.'' @ p @ ''.'' @ s \<and> CHR ''.'' \<notin> set h \<and> CHR ''.'' \<notin> set p \<and> CHR ''.'' \<notin> set s"
proof -
  have one: "split_dot t = [w] \<Longrightarrow> t = w \<and> CHR ''.'' \<notin> set w" for t w
    by (induction t arbitrary: w) (auto simp: split_dot_ne split: if_splits list.splits)
  have more: "split_dot t = w # x # ws \<Longrightarrow> \<exists>r. t = w @ CHR ''.'' # r \<and> CHR ''.'' \<notin> set w \<and> split_dot r = x # ws" for t w x ws
  proof (induction t arbitrary: w)
    case (Cons c t)
    show ?case
    proof (cases "c = CHR ''.''")
      case False
      then obtain v where "split_dot t = v # x # ws" "w = c # v"
        using Cons.prems by (auto split: list.splits simp: split_dot_ne)
      then show ?thesis using Cons.IH False by force
    qed (use Cons.prems in auto)
  qed simp
  assume "split_dot t = [h, p, s]"
  then obtain r where r: "t = h @ CHR ''.'' # r" "CHR ''.'' \<notin> set h" "split_dot r = [p, s]" using more by blast
  then obtain q where "r = p @ CHR ''.'' # q" "CHR ''.'' \<notin> set p" "split_dot q = [s]" using more by blast
  then show ?thesis using r one by auto
qed

section \<open>What is accepted\<close>

text \<open>The JSON object that a segment carries.\<close>

definition carries :: "string \<Rightarrow> payload \<Rightarrow> bool" where
  "carries segment kvs \<longleftrightarrow>
     (\<exists>bytes body. decode_base64url segment = Some bytes \<and> utf8_decode bytes = Some body \<and> json_loads body = Some (JObj kvs))"

lemma decode_object_iff: "decode_json_object segment label = Inr kvs \<longleftrightarrow> carries segment kvs"
  unfolding decode_json_object_def carries_def
  by (auto split: option.splits json.splits simp: bind_eq_Some_conv)

text \<open>Claims in force: issued by the issuer for the audience, not expired, and active.\<close>

definition claims_hold :: "JwtVerifier \<Rightarrow> datetime \<Rightarrow> payload \<Rightarrow> bool" where
  "claims_hold jv now claims \<longleftrightarrow>
     map_of claims ''iss'' = Some (JStr (jv_issuer jv)) \<and>
     (\<exists>aud. map_of claims ''aud'' = Some aud \<and>
        (aud = JStr (jv_audience jv) \<or> (\<exists>vs. aud = JArr vs \<and> JStr (jv_audience jv) \<in> set vs))) \<and>
     (\<exists>v x. map_of claims ''exp'' = Some v \<and> json_number_value v = Some x \<and> \<not> float_overflows v \<and>
        now < x + of_int (jv_leeway_seconds jv)) \<and>
     (map_of claims ''nbf'' \<in> {None, Some JNull} \<or>
      (\<exists>v x. map_of claims ''nbf'' = Some v \<and> json_number_value v = Some x \<and> \<not> float_overflows v \<and>
         x \<le> now + of_int (jv_leeway_seconds jv)))"

lemma audience_iff:
  "(case a of Some (JStr s) \<Rightarrow> s = x | Some (JArr vs) \<Rightarrow> JStr x \<in> set vs | _ \<Rightarrow> False) \<longleftrightarrow>
     (\<exists>aud. a = Some aud \<and> (aud = JStr x \<or> (\<exists>vs. aud = JArr vs \<and> JStr x \<in> set vs)))"
  by (auto split: option.splits json.splits)

lemma active_iff:
  "(case n of None \<Rightarrow> Inr () | Some JNull \<Rightarrow> Inr ()
    | Some v \<Rightarrow> (case json_number_value v of None \<Rightarrow> Inl e1
                 | Some x \<Rightarrow> if float_overflows v then Inl e2 else if bound < x then Inl e3 else Inr ())) = Inr () \<longleftrightarrow>
     n \<in> {None, Some JNull} \<or> (\<exists>v x. n = Some v \<and> json_number_value v = Some x \<and> \<not> float_overflows v \<and> x \<le> bound)"
proof (cases n)
  case (Some v)
  then show ?thesis by (cases v) (auto simp: json_number_value_def not_less)
qed simp

lemma claims_iff: "validate_registered_claims jv now claims = Inr () \<longleftrightarrow> claims_hold jv now claims"
proof -
  let ?exp = "Option.bind (map_of claims ''exp'') json_number_value"
  show ?thesis
  proof (cases ?exp)
    case None
    then have "\<nexists>v x. map_of claims ''exp'' = Some v \<and> json_number_value v = Some x" by (auto simp: bind_eq_None_conv)
    then show ?thesis using None unfolding validate_registered_claims_def claims_hold_def by auto
  next
    case (Some x)
    then obtain v where v: "map_of claims ''exp'' = Some v" "json_number_value v = Some x" by (auto simp: bind_eq_Some_conv)
    show ?thesis
      unfolding validate_registered_claims_def claims_hold_def audience_iff Some option.case
      using v by (simp add: active_iff not_le)
  qed
qed

definition signed :: "(string \<Rightarrow> string \<Rightarrow> string) \<Rightarrow> JwtVerifier \<Rightarrow> string \<Rightarrow> payload \<Rightarrow> payload \<Rightarrow> bool" where
  "signed mac jv token header claims \<longleftrightarrow>
     (\<exists>h p s. token = h @ ''.'' @ p @ ''.'' @ s \<and> CHR ''.'' \<notin> set (h @ p @ s) \<and> is_ascii (h @ ''.'' @ p) \<and>
        carries h header \<and> carries p claims \<and> decode_base64url s = Some (mac (jv_secret jv) (h @ ''.'' @ p)))"

lemma verify_iff: "verify mac jv now token = Inr u \<longleftrightarrow>
    (\<exists>header claims t. signed mac jv token header claims \<and> map_of header ''alg'' = Some (JStr ''HS256'') \<and>
       claims_hold jv now claims \<and> map_of claims ''sub'' = Some (JStr t) \<and> UUID t = Inr u)"
  (is "?l = ?r")
proof
  assume ?l
  then obtain h p s where t: "split_dot token = [h, p, s]"
    by (auto simp: verify_def split: list.splits)
  from \<open>?l\<close> show ?r
    using split_dot_threeD [OF t] unfolding verify_def t
    by (auto simp: signed_def decode_object_iff claims_iff split: sum.splits if_splits option.splits json.splits) blast
next
  assume ?r
  then obtain header claims t h p s where f: "token = h @ ''.'' @ p @ ''.'' @ s" "CHR ''.'' \<notin> set (h @ p @ s)"
      "is_ascii (h @ ''.'' @ p)" "carries h header" "carries p claims"
      "decode_base64url s = Some (mac (jv_secret jv) (h @ ''.'' @ p))" "map_of header ''alg'' = Some (JStr ''HS256'')"
      "claims_hold jv now claims" "map_of claims ''sub'' = Some (JStr t)" "UUID t = Inr u"
    unfolding signed_def by blast
  have "split_dot token = [h, p, s]" using split_dot_three f(1,2) by simp
  moreover have "decode_json_object h ''header'' = Inr header" "decode_json_object p ''payload'' = Inr claims"
    "validate_registered_claims jv now claims = Inr ()"
    using f(4,5,8) by (simp_all add: decode_object_iff claims_iff)
  ultimately show ?l using f(3,6,7,9,10) by (simp add: verify_def)
qed


lemma identity_iff:
  "get_authenticated_identity mac jv now credentials = Inr u \<longleftrightarrow>
     (\<exists>scheme token header claims t. credentials = Some (scheme, token) \<and> py_lower scheme = ''bearer'' \<and>
        signed mac jv token header claims \<and> map_of header ''alg'' = Some (JStr ''HS256'') \<and>
        claims_hold jv now claims \<and> map_of claims ''sub'' = Some (JStr t) \<and> UUID t = Inr u)"
proof (cases credentials)
  case (Some c)
  obtain scheme token where c: "c = (scheme, token)" by fastforce
  have "get_authenticated_identity mac jv now credentials = Inr u \<longleftrightarrow>
      py_lower scheme = ''bearer'' \<and> verify mac jv now token = Inr u"
    by (auto simp: get_authenticated_identity_def Some c split: sum.splits jwt_exn.splits)
  then show ?thesis unfolding verify_iff Some c by auto
qed (simp add: get_authenticated_identity_def)

text \<open>C14: authentication: a request gets a user exactly when it has a Bearer token of three segments whose first two,
  joined, were signed with the secret, whose header names HS256, and whose claims are in force; the user is the one
  that the claim \<open>sub\<close> names, whatever else the token claims.\<close>

theorem identity_needs_signature:
  "get_authenticated_identity mac jv now credentials = Inr u \<longleftrightarrow>
     (\<exists>scheme token header claims t. credentials = Some (scheme, token) \<and> py_lower scheme = ''bearer'' \<and>
        signed mac jv token header claims \<and> map_of header ''alg'' = Some (JStr ''HS256'') \<and>
        claims_hold jv now claims \<and> map_of claims ''sub'' = Some (JStr t) \<and> UUID t = Inr u)"
  by (rule identity_iff)

section \<open>Minted tokens\<close>

definition printable :: "string \<Rightarrow> bool" where
  "printable s \<longleftrightarrow> (\<forall>c\<in>set s. 32 \<le> (of_char c :: nat) \<and> (of_char c :: nat) < 127)"

lemma printable_simps [simp]:
  "printable []" "printable (c # s) \<longleftrightarrow> 32 \<le> (of_char c :: nat) \<and> (of_char c :: nat) < 127 \<and> printable s"
  "printable (s @ t) \<longleftrightarrow> printable s \<and> printable t"
  by (auto simp: printable_def)

lemma printable_hex: "printable (hex_digits k n)"
proof -
  have "\<forall>c\<in>set hex_chars. 32 \<le> (of_char c :: nat) \<and> (of_char c :: nat) < 127" by (simp add: hex_chars_def)
  then show ?thesis using set_hex_digits [of k n] by (auto simp: printable_def)
qed

lemma printable_esc_char: "printable [c] \<Longrightarrow> printable (json_esc c)"
  by (simp add: json_esc_def)

lemma printable_esc: "printable s \<Longrightarrow> printable (concat (map json_esc s))"
proof (induction s)
  case (Cons c s)
  have "printable (json_esc c)" using Cons.prems by (intro printable_esc_char) simp
  then show ?case using Cons by simp
qed simp

lemma bearer_lower: "py_lower ''Bearer'' = ''bearer''"
  by code_simp

lemma printable_int: "printable (str_int i)"
proof -
  have "printable (str_nat n)" for n
  proof -
    have "32 \<le> (of_char c :: nat) \<and> (of_char c :: nat) < 127" if "is_digit c" for c :: char
      using that by (auto simp: is_digit_def less_eq_char_def)
    then show ?thesis using str_nat_digits [of n] by (auto simp: printable_def)
  qed
  then show ?thesis by (simp add: str_int_def)
qed

lemma printable_uuid: "printable (uuid_str u)"
proof -
  have "\<forall>c\<in>insert (CHR ''-'') (set hex_chars). 32 \<le> (of_char c :: nat) \<and> (of_char c :: nat) < 127" by (simp add: hex_chars_def)
  then show ?thesis using uuid_str_chars [of u] by (auto simp: printable_def)
qed

lemma dumps_printable:
  assumes "printable (flat_object_text kvs)"
  shows "dumps_ascii kvs = flat_object_text kvs" "is_ascii (dumps_ascii kvs)"
proof -
  have "printable s \<Longrightarrow> concat (map ascii_esc s) = s" for s by (induction s) (auto simp: ascii_esc_def)
  then show d: "dumps_ascii kvs = flat_object_text kvs" using assms by (simp add: dumps_ascii_def)
  show "is_ascii (dumps_ascii kvs)" unfolding d using assms by (auto simp: is_ascii_def printable_def list_all_iff)
qed

lemma encoded_carries:
  assumes "printable (flat_object_text kvs)" and "kvs \<noteq> []" "\<forall>(k, v)\<in>set kvs. flat v" "distinct (map fst kvs)"
  shows "carries (b64url (utf8_encode (dumps_ascii kvs))) kvs"
proof -
  have "flat_object_text kvs \<noteq> []" by (simp add: flat_object_text_def)
  then show ?thesis
    using base64url_roundtrip [of "dumps_ascii kvs"] utf8_roundtrip [of "dumps_ascii kvs"] json_loads_flat [OF assms(2-4)]
      utf8_ascii [OF dumps_printable(2) [OF assms(1)]] dumps_printable(1) [OF assms(1)]
    by (simp add: carries_def)
qed

lemma claims_printable:
  "printable issuer \<Longrightarrow> printable audience \<Longrightarrow> printable (flat_object_text (mint_claims u issuer audience n t))"
  by (simp add: flat_object_text_def mint_claims_def Let_def json_quote_def printable_esc printable_esc_char printable_int printable_uuid)

lemma minted_identity:
  assumes "mint_evaluation_jwt mac u secret issuer audience lifetime at_time = Inr token"
    and "init_verifier secret issuer audience leeway = Inr jv"
    and "printable issuer" "printable audience" and digest: "\<And>k m. length (mac k m) = 32"
    and "0 \<le> at_time" "at_time < 253402300800" "at_time \<le> now" "now < of_int (\<lfloor>at_time\<rfloor> + lifetime)"
  shows "get_authenticated_identity mac jv now (Some (''Bearer'', token)) = Inr u"
proof -
  define header where "header = [(''alg'', JStr ''HS256''), (''typ'', JStr ''JWT'')]"
  define claims where "claims = mint_claims u issuer audience lifetime at_time"
  define h where "h = b64url (utf8_encode (dumps_ascii header))"
  define p where "p = b64url (utf8_encode (dumps_ascii claims))"
  have jv: "jv_secret jv = utf8_encode secret" "jv_issuer jv = issuer" "jv_audience jv = audience" "0 \<le> jv_leeway_seconds jv"
    using assms(2) by (auto simp: init_verifier_def split: if_splits)
  have token: "token = h @ ''.'' @ p @ ''.'' @ b64url (mac (utf8_encode secret) (h @ ''.'' @ p))" "lifetime \<le> 3600"
    using assms(1) by (auto simp: mint_evaluation_jwt_def h_def p_def header_def claims_def Let_def split: if_splits)
  have "carries h header"
    unfolding h_def by (rule encoded_carries) (simp_all add: header_def flat_object_text_def json_quote_def json_esc_def)
  moreover have "carries p claims"
    unfolding p_def
    by (rule encoded_carries) (simp_all add: claims_def claims_printable assms(3,4), simp_all add: mint_claims_def Let_def)
  moreover have "decode_base64url (b64url (mac (utf8_encode secret) (h @ ''.'' @ p))) = Some (mac (utf8_encode secret) (h @ ''.'' @ p))"
    using digest [of "utf8_encode secret" "h @ ''.'' @ p"] by (intro base64url_roundtrip) auto
  moreover have "is_ascii (h @ ''.'' @ p)" "CHR ''.'' \<notin> set (h @ p @ b64url (mac (utf8_encode secret) (h @ ''.'' @ p)))"
    using base64url_ascii by (auto simp: h_def p_def is_ascii_def)
  ultimately have "signed mac jv token header claims"
    unfolding signed_def jv(1) using token(1) by blast
  moreover have "claims_hold jv now claims"
  proof -
    have small: "\<not> float_overflows (JInt i)" if "\<bar>i\<bar> < 1000000000000" for i
    proof -
      have "(1000000000000 :: int) \<le> 2 ^ 1024 - 2 ^ 970" by simp
      then show ?thesis using that by (simp add: float_overflows_def)
    qed
    have f: "0 \<le> \<lfloor>at_time\<rfloor>" "\<lfloor>at_time\<rfloor> < 253402300800" using assms(6,7) by (simp_all add: floor_less_iff)
    have leeway: "0 \<le> (of_int (jv_leeway_seconds jv) :: rat)" using jv(4) by simp
    have l: "1 \<le> lifetime" using assms(1) by (auto simp: mint_evaluation_jwt_def split: if_splits)
    have "\<not> float_overflows (JInt \<lfloor>at_time\<rfloor>)" by (rule small) (use f in linarith)
    moreover have "\<not> float_overflows (JInt (\<lfloor>at_time\<rfloor> + lifetime))" by (rule small) (use f l token(2) in linarith)
    moreover have "now < of_int (\<lfloor>at_time\<rfloor> + lifetime) + of_int (jv_leeway_seconds jv)"
      using assms(9) leeway by linarith
    moreover have "of_int \<lfloor>at_time\<rfloor> \<le> now + of_int (jv_leeway_seconds jv)"
      using assms(8) leeway of_int_floor_le [of at_time] by linarith
    moreover have "map_of claims ''iss'' = Some (JStr issuer)" "map_of claims ''aud'' = Some (JStr audience)"
      "map_of claims ''exp'' = Some (JInt (\<lfloor>at_time\<rfloor> + lifetime))" "map_of claims ''nbf'' = Some (JInt \<lfloor>at_time\<rfloor>)"
      using assms(6) by (simp_all add: claims_def mint_claims_def Let_def)
    moreover have "json_number_value (JInt i) = Some (of_int i)" for i by (simp add: json_number_value_def)
    ultimately show ?thesis unfolding claims_hold_def jv by blast
  qed
  moreover have "map_of header ''alg'' = Some (JStr ''HS256'')" "map_of claims ''sub'' = Some (JStr (uuid_str u))"
    by (simp_all add: header_def claims_def mint_claims_def Let_def)
  ultimately show ?thesis
    unfolding identity_iff using UUID_uuid_str bearer_lower by blast
qed

text \<open>C15: a token that the evaluation tools mint is accepted by the API that has the same secret, issuer and
  audience, for the user it was minted for, from the second it was minted in until it expires.\<close>

theorem minted_token_accepted:
  assumes "mint_evaluation_jwt mac u secret issuer audience lifetime at_time = Inr token"
    and "init_verifier secret issuer audience leeway = Inr jv"
    and "printable issuer" "printable audience" and digest: "\<And>k m. length (mac k m) = 32"
    and "0 \<le> at_time" "at_time < 253402300800" "at_time \<le> now" "now < of_int (\<lfloor>at_time\<rfloor> + lifetime)"
  shows "get_authenticated_identity mac jv now (Some (''Bearer'', token)) = Inr u"
  by (rule minted_identity [OF assms])

section \<open>Bytes that are not ASCII\<close>

text \<open>C16: a token that nobody signed can make the API fail: when its header is fine and its second segment has a
  byte that is not ASCII, the encoding of the signing input raises, which is no authentication error, and the
  request is answered with 500 instead of 401.\<close>

theorem stray_byte_not_refused:
  assumes "carries h header" and "map_of header ''alg'' = Some (JStr ''HS256'')"
    and "CHR ''.'' \<notin> set h" "CHR ''.'' \<notin> set p" "CHR ''.'' \<notin> set s" and "\<not> is_ascii p"
  shows "get_authenticated_identity mac jv now (Some (''Bearer'', h @ ''.'' @ p @ ''.'' @ s)) = Inl 500"
proof -
  have "verify mac jv now (h @ ''.'' @ p @ ''.'' @ s) = Inl UnicodeEncodeError"
    unfolding verify_def split_dot_three [OF assms(3-5)]
    using assms(1,2,6) decode_object_iff [of h "''header''" header] by (simp add: is_ascii_def)
  then show ?thesis by (simp add: get_authenticated_identity_def bearer_lower)
qed


section \<open>Witnesses\<close>

definition w_mac :: "string \<Rightarrow> string \<Rightarrow> string" where
  "w_mac k m = replicate 32 (CHR ''x'')"

definition w_secret :: string where
  "w_secret = ''0123456789abcdef0123456789abcdef''"

definition w_verifier :: JwtVerifier where
  "w_verifier = \<lparr>jv_secret = w_secret, jv_issuer = ''pa'', jv_audience = ''api'', jv_leeway_seconds = 0\<rparr>"

lemma w_init: "init_verifier w_secret ''pa'' ''api'' (-5) = Inr w_verifier"
  by code_simp

lemma minted_token_accepted_witness:
  "\<exists>token. mint_evaluation_jwt w_mac 5 w_secret ''pa'' ''api'' 900 1000 = Inr token \<and>
     get_authenticated_identity w_mac w_verifier 1500 (Some (''Bearer'', token)) = Inr 5"
proof -
  have secret: "length (utf8_encode w_secret) = 32" by code_simp
  obtain token where t: "mint_evaluation_jwt w_mac 5 w_secret ''pa'' ''api'' 900 1000 = Inr token"
    by (simp add: mint_evaluation_jwt_def secret Let_def)
  have mac: "\<And>k m. length (w_mac k m) = 32" by (simp add: w_mac_def)
  show ?thesis
    using minted_token_accepted [OF t w_init _ _ mac, where now = 1500] t by (simp add: printable_def)
qed

definition w_header :: string where
  "w_header = b64url (utf8_encode (dumps_ascii [(''alg'', JStr ''HS256'')]))"

lemma stray_byte_not_refused_witness:
  "get_authenticated_identity w_mac w_verifier 0 (Some (''Bearer'', w_header @ ''.'' @ [CHR 0xE9] @ ''.'' @ ''AA'')) = Inl 500"
proof (rule stray_byte_not_refused [where header = "[(''alg'', JStr ''HS256'')]"])
  show "carries w_header [(''alg'', JStr ''HS256'')]"
    unfolding w_header_def by (rule encoded_carries) (simp_all add: flat_object_text_def json_quote_def printable_esc_char)
qed (use base64url_ascii in \<open>simp_all add: w_header_def is_ascii_def\<close>)

end
