(* ===== verification/DocumentApiProofs.thy ===== *)
theory DocumentApiProofs
  imports DocumentApi JwtProofs
begin

text \<open>
  What a document request may change: nothing without a signed token of a member of the project whose role
  permits the operation, and then only that project's rows; and the API's requests are requests of the workflow,
  so that its invariants hold of the running API.
\<close>

section \<open>The rows of the other projects\<close>

definition in_project :: "uuid \<Rightarrow> DocumentModel list \<Rightarrow> DocumentVersionModel \<Rightarrow> bool" where
  "in_project p docs v \<longleftrightarrow> (\<exists>d\<in>set docs. do_id d = dv_document_id v \<and> do_project_id d = p)"

definition same_outside :: "uuid \<Rightarrow> doc_db \<Rightarrow> doc_db \<Rightarrow> bool" where
  "same_outside p db db' \<longleftrightarrow>
     projects db' = projects db \<and> memberships db' = memberships db \<and> knowledge_spaces db' = knowledge_spaces db \<and>
     filter (\<lambda>d. do_project_id d \<noteq> p) (documents db') = filter (\<lambda>d. do_project_id d \<noteq> p) (documents db) \<and>
     filter (\<lambda>v. \<not> in_project p (documents db') v) (versions db') =
       filter (\<lambda>v. \<not> in_project p (documents db) v) (versions db) \<and>
     filter (\<lambda>a. al_project_id a \<noteq> Some p) (audit_logs db') = filter (\<lambda>a. al_project_id a \<noteq> Some p) (audit_logs db)"

lemma same_outside_refl [simp]: "same_outside p db db"
  by (simp add: same_outside_def)

lemma same_outside_trans: "same_outside p a b \<Longrightarrow> same_outside p b c \<Longrightarrow> same_outside p a c"
  by (simp add: same_outside_def)

lemma same_outside_audited: "da_project_id a = p \<Longrightarrow> same_outside p db (audited a db)"
  by (simp add: same_outside_def audited_def audit_row_def)

lemma same_outside_then_audit: "same_outside p a b \<Longrightarrow> da_project_id x = p \<Longrightarrow> same_outside p a (audited x b)"
  using same_outside_audited [of x p b] by (blast intro: same_outside_trans)

lemma filter_map_same:
  "(\<And>x. x \<in> set xs \<Longrightarrow> P (f x) = P x) \<Longrightarrow> (\<And>x. x \<in> set xs \<Longrightarrow> P x \<Longrightarrow> f x = x) \<Longrightarrow>
   filter P (map f xs) = filter P xs"
  by (induction xs) auto

lemma same_outside_map:
  assumes "\<And>v. v \<in> set (versions db) \<Longrightarrow> dv_document_id (f v) = dv_document_id v"
    and "\<And>v. v \<in> set (versions db) \<Longrightarrow> \<not> in_project p (documents db) v \<Longrightarrow> f v = v"
  shows "same_outside p db (db\<lparr>versions := map f (versions db)\<rparr>)"
  using assms by (simp add: same_outside_def in_project_def) (rule filter_map_same; simp)

lemma loaded_in_project:
  assumes "docs_ok db" and "load_version version_id db = Inr (d, v)" and "w \<in> set (versions db)"
    and "dv_id w = version_id \<or> dv_document_id w = do_id d"
  shows "in_project (do_project_id d) (documents db) w"
proof -
  have d: "d \<in> set (documents db)" "do_id d = dv_document_id v" and v: "v \<in> set (versions db)" "dv_id v = version_id"
    using assms(2) by (auto simp: load_version_Inr dest: row_by_SomeD)
  have "dv_document_id w = do_id d" using assms(3,4) same_version [OF assms(1) assms(3) v(1)] d(2) v(2) by auto
  with d show ?thesis by (auto simp: in_project_def)
qed

lemma same_outside_status:
  assumes "docs_ok db" and "load_version version_id db = Inr (d, v)"
  shows "same_outside (do_project_id d) db (set_version_status version_id t db)"
  unfolding set_version_status_def update_rows_def
  by (rule same_outside_map) (use loaded_in_project [OF assms] in auto)

lemma same_outside_publish:
  assumes "docs_ok db" and "load_version version_id db = Inr (d, v)"
    and "dv_lifecycle_status v = APPROVED" and "load_superseded d supersedes db = Inr old"
  shows "same_outside (do_project_id d) db (publish_rows now version_id old db)"
  unfolding publish_rows_eq [OF publish_distinct_rows [OF assms]]
proof (rule same_outside_map)
  fix w assume w: "w \<in> set (versions db)" "\<not> in_project (do_project_id d) (documents db) w"
  have "dv_id w \<noteq> version_id" "dv_document_id w \<noteq> do_id d"
    using loaded_in_project [OF assms(1,2) w(1)] w(2) by auto
  moreover have "dv_document_id w = do_id d" if "Some (dv_id w) = old"
    using load_superseded_Inr [OF assms(4)] that same_version [OF assms(1) w(1)] by force
  ultimately show "publish_row now version_id old w = w" by (auto simp: publish_row_def)
qed (simp add: publish_row_def)

lemma same_outside_draft:
  assumes "docs_ok db" and "draft_target new_doc draft db = (Inr d, db')"
    and "new_doc \<notin> do_id ` set (documents db)"
  shows "same_outside (cd_project_id draft) db
    (db'\<lparr>versions := versions db' @ [draft_version new_version (do_id d) no draft]\<rparr>)"
proof -
  note t = draft_target_Inr [OF assms(2)]
  have p: "do_project_id d = cd_project_id draft" "memberships db' = memberships db"
      "knowledge_spaces db' = knowledge_spaces db"
    using assms(2) by (auto simp: draft_target_def draft_document_def Let_def split: option.splits if_splits)
  have docs: "filter (\<lambda>d. do_project_id d \<noteq> cd_project_id draft) (documents db') =
      filter (\<lambda>d. do_project_id d \<noteq> cd_project_id draft) (documents db)"
    using t(5) p(1) by auto
  have "in_project q (documents db') v = in_project q (documents db) v" if "v \<in> set (versions db)" for v q
  proof -
    have v: "v \<in> set (versions db)" by (rule that)
    obtain d0 where "d0 \<in> set (documents db)" "do_id d0 = dv_document_id v"
      using docs_okD(3) [OF assms(1) v] unfolding version_ok_def by blast
    then have "do_id d = new_doc \<Longrightarrow> do_id d \<noteq> dv_document_id v" using assms(3) by force
    then show ?thesis using t(5) unfolding in_project_def by fastforce
  qed
  moreover have "in_project (cd_project_id draft) (documents db') (draft_version new_version (do_id d) no draft)"
    using t(1) p(1) by (auto simp: in_project_def draft_version_def)
  ultimately have "filter (\<lambda>v. \<not> in_project (cd_project_id draft) (documents db') v)
      (versions db' @ [draft_version new_version (do_id d) no draft]) =
      filter (\<lambda>v. \<not> in_project (cd_project_id draft) (documents db) v) (versions db)"
    using t(2) by (simp cong: filter_cong)
  with docs t(3,4) p(2,3) show ?thesis by (simp add: same_outside_def)
qed

section \<open>The use cases stay in the project of their version\<close>

lemma move_confined:
  assumes "docs_ok db" and "load_version version_id db = Inr (d, v)" and "do_project_id d = p"
  shows "same_outside p db (audited (simple_audit action p version_id u details) (set_version_status version_id t db))"
  using same_outside_status [OF assms(1,2), of t] assms(3) by (simp add: same_outside_then_audit simple_audit_def)

lemma submit_confined:
  assumes "docs_ok (working s)" and "committed s = working s" and "get_version version_id (working s) = Inr x"
    and "submit_review version_id actor s = (r, s')"
  shows "same_outside (vr_project_id x) (working s) (left_committed r s')"
proof -
  obtain d v where v: "load_version version_id (working s) = Inr (d, v)" "do_project_id d = vr_project_id x"
    using assms(3) to_record_Inr by (auto simp: get_version_Inr)
  then show ?thesis using assms move_confined [OF assms(1) v]
    by (cases r) (auto simp: submit_review_def left_committed_def bind_on_working transition_Inr split: sum.splits if_splits)
qed

lemma approve_confined:
  assumes "docs_ok (working s)" and "committed s = working s" and "get_version version_id (working s) = Inr x"
    and "approve_document version_id actor s = (r, s')"
  shows "same_outside (vr_project_id x) (working s) (left_committed r s')"
proof -
  obtain d v where v: "load_version version_id (working s) = Inr (d, v)" "do_project_id d = vr_project_id x"
    using assms(3) to_record_Inr by (auto simp: get_version_Inr)
  then show ?thesis using assms move_confined [OF assms(1) v]
    by (cases r) (auto simp: approve_document_def left_committed_def bind_on_working transition_Inr split: sum.splits if_splits)
qed

lemma delete_confined:
  assumes "docs_ok (working s)" and "committed s = working s" and "get_version version_id (working s) = Inr x"
    and "delete_document provider version_id actor s = (r, s')"
  shows "same_outside (vr_project_id x) (working s) (left_committed r s')"
proof -
  obtain d v where v: "load_version version_id (working s) = Inr (d, v)" "do_project_id d = vr_project_id x"
    using assms(3) to_record_Inr by (auto simp: get_version_Inr)
  show ?thesis using delete_document_cases [OF assms(4)] assms(2) v move_confined [OF assms(1) v]
    by (auto simp: left_committed_def split: sum.splits)
qed

lemma finalize_confined:
  assumes "docs_ok (working s)" and "committed s = working s"
    and "load_version (vr_version_id x) (working s) = Inr (d, v)" "do_project_id d = vr_project_id x"
    and "publish_finalize get_status now x job actor s = (r, s')"
  shows "same_outside (vr_project_id x) (working s) (left_committed r s')"
  using publish_finalize_cases [OF assms(5)]
proof (elim disjE exE conjE)
  fix st d' v' old y
  assume a: "r = Inr y" "load_version (vr_version_id x) (working s) = Inr (d', v')" "dv_lifecycle_status v' = APPROVED"
    "load_superseded d' (vr_supersedes_version_id x) (working s) = Inr old"
    and s': "working s' = audited (simple_audit ''document_published'' (vr_project_id x) (vr_version_id x) (ac_user_id actor)
             [(''supersedes_version_id'', opt_str (map_option uuid_str (vr_supersedes_version_id x)))])
           (publish_rows now (vr_version_id x) old (working s))"
  have "same_outside (vr_project_id x) (working s) (publish_rows now (vr_version_id x) old (working s))"
    using same_outside_publish [OF assms(1) a(2,3,4)] assms(3,4) a(2) by simp
  then show ?thesis
    by (simp add: left_committed_def a(1) s' simple_audit_def same_outside_then_audit)
qed (auto simp: left_committed_def assms(2) failed_audit_def intro: same_outside_audited)

lemma publish_confined:
  assumes "docs_ok (working s)" and "committed s = working s" and "get_version version_id (working s) = Inr x"
    and "publish_document ingest get_status now version_id actor s = (r, s')"
  shows "same_outside (vr_project_id x) (working s) (left_committed r s')"
proof -
  obtain d v where v: "load_version version_id (working s) = Inr (d, v)" "do_project_id d = vr_project_id x"
      "vr_version_id x = version_id"
    using assms(3) to_record_Inr load_version_id by (auto simp: get_version_Inr)
  let ?sub = "\<lambda>job. simple_audit ''document_publication_submitted'' (vr_project_id x)
      (vr_version_id x) (ac_user_id actor) [(''ingestion_job_id'', JStr job)]"
  have "(\<exists>e. r = Inl e) \<and> s' = s \<or>
    (\<exists>job. publish_finalize get_status now x job actor
         (commit (s\<lparr>working := audited (?sub job) (working s)\<rparr>)) = (r, s'))"
    using assms(3,4) by (auto simp: publish_document_def bind_of_res split: if_splits sum.splits)
  then show ?thesis
  proof (elim disjE exE conjE)
    fix job
    let ?s = "commit (s\<lparr>working := audited (?sub job) (working s)\<rparr>)"
    assume fin: "publish_finalize get_status now x job actor ?s = (r, s')"
    have "same_outside (vr_project_id x) (working ?s) (left_committed r s')"
      by (rule finalize_confined [OF _ _ _ v(2) fin, where v = v])
        (use assms(1) v(1,3) in \<open>simp_all add: docs_ok_audited load_version_Inr, auto simp: audited_def\<close>)
    moreover have "same_outside (vr_project_id x) (working s) (working ?s)"
      by (simp add: same_outside_audited simple_audit_def)
    ultimately show ?thesis by (rule same_outside_trans [rotated])
  qed (simp add: left_committed_def assms(2))
qed

lemma upload_confined:
  assumes "docs_ok (working s)" and "committed s = working s" and "new_doc \<notin> do_id ` set (documents (working s))"
    and "upload_document put new_key new_doc new_version c s = (r, s')"
  shows "same_outside (uc_project_id c) (working s) (left_committed r s')"
proof (cases r)
  case (Inl e)
  then have "committed s' = committed s"
    using assms(4) by (auto simp: upload_document_def bind_op_Inl_iff on_working_iff split: if_splits)
  then show ?thesis using Inl assms(2) by (simp add: left_committed_def)
next
  case (Inr x)
  then obtain stored db' y where cd: "create_draft new_doc new_version (upload_draft stored c) (working s) = (Inr y, db')"
      and s': "working s' = audited (upload_audit c (vr_version_id y)) db'"
    using assms(4) by (auto simp: upload_document_def bind_op_Inr_iff on_working_iff split: if_splits)
  have "same_outside (uc_project_id c) (working s) db'"
    using cd by (rule create_draft_Inr) (use same_outside_draft [OF assms(1) _ assms(3)] in \<open>force simp: upload_draft_def\<close>)
  then show ?thesis using Inr s'
    by (simp add: left_committed_def upload_audit_def same_outside_then_audit)
qed

section \<open>Routes\<close>

fun operation_of :: "ApiRequest \<Rightarrow> DocumentOperation" where
  "operation_of (Api_upload _) = OP_UPLOAD"
| "operation_of (Api_submit _) = OP_SUBMIT_REVIEW"
| "operation_of (Api_approve _) = OP_APPROVE"
| "operation_of (Api_publish _) = OP_PUBLISH"
| "operation_of (Api_delete _) = OP_ARCHIVE"

text \<open>The project that a request is about: the one an upload names, or the one of its version.\<close>

definition version_in :: "uuid \<Rightarrow> doc_db \<Rightarrow> uuid \<Rightarrow> bool" where
  "version_in version_id db p \<longleftrightarrow> (\<exists>x. get_version version_id db = Inr x \<and> vr_project_id x = p)"

fun targets :: "ApiRequest \<Rightarrow> doc_db \<Rightarrow> uuid \<Rightarrow> bool" where
  "targets (Api_upload q) db p \<longleftrightarrow> p = du_project_id q"
| "targets (Api_submit version_id) db p \<longleftrightarrow> version_in version_id db p"
| "targets (Api_approve version_id) db p \<longleftrightarrow> version_in version_id db p"
| "targets (Api_publish version_id) db p \<longleftrightarrow> version_in version_id db p"
| "targets (Api_delete version_id) db p \<longleftrightarrow> version_in version_id db p"

lemma publish_pending_clean:
  assumes "publish_document ingest get_status now version_id actor s = (Inl (DocumentPublishPending job), s')"
    and "committed s = working s"
  shows "working s' = committed s'"
proof -
  have complete: "complete_publication now k old db \<noteq> (Inl (DocumentPublishPending j), db')" for k old db j db'
    by (auto simp: complete_publication_def load_version_def load_superseded_def to_record_def bind_op_Inl_iff
        bind_res_def split: option.splits sum.splits if_splits)
  show ?thesis using assms complete
    by (auto simp: publish_document_def publish_finalize_def bind_of_res bind_op_Inl_iff on_working_iff
        split: if_splits sum.splits)
qed

lemma begin_working [simp]: "(begin_session db)\<lparr>working := db\<rparr> = begin_session db"
  by (simp add: begin_session_def)

text \<open>What a route leaves committed is what the use case's session leaves.\<close>

lemma session_of_call:
  assumes "get_db_session (calling catch m (\<lambda>x. answering (f x))) db = (r, db')" and "m (begin_session db) = (q, s)"
    and "\<And>e y. q = Inl e \<Longrightarrow> catch e = Inr y \<Longrightarrow> working s = committed s"
  shows "db' = left_committed q s"
  using assms by (cases q) (auto simp: get_db_session_def calling_def answering_def left_committed_def split: sum.splits)

lemma catch_never [simp]: "catch_permission e \<noteq> Inr y" "catch_none e \<noteq> Inr y" "catch_authorization e \<noteq> Inr y" "catch_version i e \<noteq> Inr y"
  by (cases e; simp add: catch_version_def)+

lemma catch_Inl [simp]: "\<exists>e'. catch_authorization e = Inl e'" "\<exists>e'. catch_version i e = Inl e'"
  by (cases e; simp add: catch_version_def)+

lemma catch_publish_Inr: "catch_publish i e = Inr y \<Longrightarrow> \<exists>job. e = DocumentPublishPending job"
  by (cases e) simp_all

text \<open>A request that answers with success or changes a table was authorized; it is a request of the document
  workflow and stays in its project.\<close>

definition granted :: "ApiEnv \<Rightarrow> uuid \<Rightarrow> ApiRequest \<Rightarrow> doc_db \<Rightarrow> doc_db \<Rightarrow> bool" where
  "granted env user request db db' \<longleftrightarrow>
     (\<exists>p company ctx actor. targets request db p \<and>
        authorize_project_operation (ae_pick env) (ae_now env) user p (operation_of request) (Some company) db = Inr (ctx, actor) \<and>
        same_outside p db db' \<and> doc_request db db')"

lemma authorized_version_session:
  assumes "get_db_session (authorized_version env user version_id operation f) db = (r, db')"
  shows "db' = db \<and> (\<exists>e. r = Inl e) \<or>
    (\<exists>x ctx actor. get_version version_id db = Inr x \<and>
       authorize_project_operation (ae_pick env) (ae_now env) user (vr_project_id x) operation (Some (vr_company_id x)) db = Inr (ctx, actor) \<and>
       get_db_session (f actor) db = (r, db'))"
proof (cases "authorize_version_operation (ae_pick env) (ae_now env) user version_id operation db")
  case (Inl e)
  then show ?thesis using assms
    by (cases "catch_version version_id e :: http_exn + 'a") (auto simp: get_db_session_def authorized_version_def calling_def on_working_simps)
next
  case (Inr a)
  then show ?thesis using assms
    by (cases a) (auto simp: get_db_session_def authorized_version_def calling_def on_working_simps
        authorize_version_operation_def bind_res_Inr_iff)
qed

lemma version_route_granted:
  assumes "get_db_session (authorized_version env user version_id (operation_of request)
      (\<lambda>actor. calling (catch actor) (m actor) (\<lambda>x. answering (f x)))) db = (r, db')"
    and "\<And>p. version_in version_id db p \<Longrightarrow> targets request db p"
    and "\<And>actor e y s. m actor (begin_session db) = (Inl e, s) \<Longrightarrow> catch actor e = Inr y \<Longrightarrow> working s = committed s"
    and "\<And>actor q s x. get_version version_id db = Inr x \<Longrightarrow> m actor (begin_session db) = (q, s) \<Longrightarrow>
       same_outside (vr_project_id x) db (left_committed q s)"
    and "\<And>actor. doc_request db (snd (with_session (m actor) db))"
  shows "db' = db \<and> (\<exists>e. r = Inl e) \<or> granted env user request db db'"
proof -
  have "granted env user request db db'"
    if x: "get_version version_id db = Inr x"
      and a: "authorize_project_operation (ae_pick env) (ae_now env) user (vr_project_id x) (operation_of request)
        (Some (vr_company_id x)) db = Inr (ctx, actor)"
      and run: "get_db_session (calling (catch actor) (m actor) (\<lambda>x. answering (f x))) db = (r, db')" for x ctx actor
  proof -
    obtain q s where m: "m actor (begin_session db) = (q, s)" by fastforce
    have "db' = left_committed q s"
      by (rule session_of_call [OF run m]) (use assms(3) m in blast)
    then show ?thesis
      using assms(2) [of "vr_project_id x"] assms(4) [OF x m] assms(5) [of actor] with_session_left [of "m actor" db q s] m x a
      by (auto simp: granted_def version_in_def)
  qed
  then show ?thesis using authorized_version_session [OF assms(1)] by blast
qed

lemma upload_route_granted:
  assumes "docs_ok db" and "ae_doc env \<notin> do_id ` set (documents db)" "ae_version env \<notin> dv_id ` set (versions db)"
    and "get_db_session (upload_route env user q) db = (r, db')"
  shows "db' = db \<and> (\<exists>e. r = Inl e) \<or> granted env user (Api_upload q) db db'"
proof (cases "authorize_project_operation (ae_pick env) (ae_now env) user (du_project_id q) OP_UPLOAD
    (Some (du_company_id q)) db")
  case (Inl e)
  then show ?thesis using assms(4)
    by (cases "catch_authorization e :: http_exn + (string \<times> string) list") (auto simp: get_db_session_def upload_route_def calling_def on_working_simps)
next
  case (Inr a)
  obtain ctx actor where a: "a = (ctx, actor)" by fastforce
  show ?thesis
  proof (cases "decode_content (du_content_base64 q)")
    case None
    then show ?thesis using assms(4) Inr a by (auto simp: get_db_session_def upload_route_def calling_def on_working_simps)
  next
    case (Some data)
    show ?thesis
    proof (cases "data = []")
      case True
      then show ?thesis using assms(4) Inr a Some by (auto simp: get_db_session_def upload_route_def calling_def on_working_simps)
    next
      case False
      let ?m = "upload_document (ae_put env) (ae_key env) (ae_doc env) (ae_version env) (upload_command q data actor)"
      obtain o' s where m: "?m (begin_session db) = (o', s)" by fastforce
      have "get_db_session (calling catch_none ?m (\<lambda>result. answering
               [(''document_id'', uuid_str (vr_document_id result)), (''version_id'', uuid_str (vr_version_id result)),
                (''status'', DocumentLifecycleStatus_value (vr_lifecycle_status result))])) db = (r, db')"
        using assms(4) Inr a Some False by (auto simp: get_db_session_def upload_route_def calling_def on_working_simps)
      then have db': "db' = left_committed o' s" by (rule session_of_call [where m = ?m, OF _ m]) simp
      have "same_outside (du_project_id q) db (left_committed o' s)"
        using upload_confined [OF _ _ _ m] assms(1,2) by (simp add: upload_command_def)
      moreover have "doc_request db (left_committed o' s)"
        using req_upload [OF assms(2,3)] with_session_left [where body = ?m, OF m] by metis
      ultimately show ?thesis using Inr a db' by (auto simp: granted_def)
    qed
  qed
qed

lemma api_route_granted:
  assumes "docs_ok db" and "ae_doc env \<notin> do_id ` set (documents db)" "ae_version env \<notin> dv_id ` set (versions db)"
    and "get_db_session (api_route env user request) db = (r, db')"
  shows "db' = db \<and> (\<exists>e. r = Inl e) \<or> granted env user request db db'"
proof (cases request)
  case (Api_upload q)
  then show ?thesis using upload_route_granted [OF assms(1-3)] assms(4)
    by (auto simp: get_db_session_def split: if_splits)
next
  case (Api_submit version_id)
  then show ?thesis using assms(4) submit_confined [of "begin_session db"] assms(1)
    by (intro version_route_granted [where version_id = version_id and catch = "\<lambda>_. catch_permission"
          and m = "submit_review version_id" and f = version_answer])
      (auto simp: submit_route_def intro: req_submit)
next
  case (Api_approve version_id)
  then show ?thesis using assms(4) approve_confined [of "begin_session db"] assms(1)
    by (intro version_route_granted [where version_id = version_id and catch = "\<lambda>_. catch_permission"
          and m = "approve_document version_id" and f = version_answer])
      (auto simp: approve_route_def intro: req_approve)
next
  case (Api_publish version_id)
  have clean: "working s = committed s"
    if "publish_document (ae_ingest env) (ae_status env) (ae_published_at env) version_id actor (begin_session db) = (Inl e, s)"
      "catch_publish version_id e = Inr y" for actor e y s
    using catch_publish_Inr [OF that(2)] publish_pending_clean that(1) by fastforce
  show ?thesis using Api_publish assms(4) publish_confined [of "begin_session db"] assms(1) clean
    by (intro version_route_granted [where version_id = version_id and catch = "\<lambda>_. catch_publish version_id" and f = version_answer
          and m = "publish_document (ae_ingest env) (ae_status env) (ae_published_at env) version_id"])
      (auto simp: publish_route_def intro: req_publish)
next
  case (Api_delete version_id)
  then show ?thesis using assms(4) delete_confined [of "begin_session db"] assms(1)
    by (intro version_route_granted [where version_id = version_id and catch = "\<lambda>_. catch_permission"
          and m = "delete_document (ae_delete env) version_id" and f = version_answer])
      (auto simp: delete_route_def intro: req_delete)
qed

section \<open>The API\<close>

lemma operation_role:
  assumes "authorize_project_operation pick now user_id project_id operation company db = Inr (ctx, actor)"
  shows "\<exists>r. active_member db now user_id project_id r \<and>
    DocumentOperation_value operation \<in> set (ROLE_DOCUMENT_PERMISSIONS (ma_role r))"
proof -
  have auth: "authorize_project pick now user_id project_id db = Inr ctx"
    using assms by (auto simp: authorize_project_operation_def bind_res_Inr_iff
        split: if_splits list.splits sum.splits)
  then obtain r where "active_member db now user_id project_id r"
      "sc_role_ids (cx_scope ctx) = [ProjectRole_value (ma_role r)]"
    by (rule authorize_project_Inr)
  then show ?thesis using assms by (auto simp: authorize_project_operation_def auth split: if_splits)
qed

text \<open>C20: a document request that changes a table or is answered with success carries a token signed with the
  secret and in force; the user it names is an active member of the project the request is about, in a role
  that permits the operation; and no row of another project, no membership, project or knowledge space changes.
  Every other request fails and changes nothing, whatever it asks for. The tables' invariant survives.\<close>

theorem document_request_isolated:
  assumes "docs_ok db" and "ae_doc env \<notin> do_id ` set (documents db)" "ae_version env \<notin> dv_id ` set (versions db)"
    and "document_api mac jv clock env credentials request db = (answer, db')"
  shows "docs_ok db' \<and>
    (db' = db \<and> (\<exists>code detail. answer = Failure code detail) \<or>
     (\<exists>scheme token header claims t user p member.
        credentials = Some (scheme, token) \<and> signed mac jv token header claims \<and> claims_hold jv clock claims \<and>
        map_of claims ''sub'' = Some (JStr t) \<and> UUID t = Inr user \<and>
        targets request db p \<and> active_member db (ae_now env) user p member \<and>
        DocumentOperation_value (operation_of request) \<in> set (ROLE_DOCUMENT_PERMISSIONS (ma_role member)) \<and>
        same_outside p db db'))"
proof (cases "get_authenticated_identity mac jv clock credentials")
  case (Inl code)
  then show ?thesis using assms by (auto simp: document_api_def)
next
  case (Inr user)
  obtain r where run: "get_db_session (api_route env user request) db = (r, db')" "answer = http_answer request r"
    using assms(4) Inr by (auto simp: document_api_def split: prod.splits)
  obtain scheme token where token: "credentials = Some (scheme, token)" "verify mac jv clock token = Inr user"
    using Inr by (auto simp: get_authenticated_identity_def split: option.splits if_splits sum.splits jwt_exn.splits)
  from api_route_granted [OF assms(1-3) run(1)] show ?thesis
  proof
    assume "db' = db \<and> (\<exists>e. r = Inl e)"
    then show ?thesis using assms(1) run(2) by (auto simp: http_answer_def split: http_exn.splits)
  next
    assume "granted env user request db db'"
    then obtain p company ctx actor where g: "targets request db p" "same_outside p db db'" "doc_request db db'"
      "authorize_project_operation (ae_pick env) (ae_now env) user p (operation_of request) (Some company) db = Inr (ctx, actor)"
      by (auto simp: granted_def)
    obtain member where "active_member db (ae_now env) user p member"
      "DocumentOperation_value (operation_of request) \<in> set (ROLE_DOCUMENT_PERMISSIONS (ma_role member))"
      using operation_role [OF g(4)] by blast
    moreover have "docs_ok db'" using doc_effects_ok [OF doc_request_effects [OF g(3)] assms(1)] .
    ultimately show ?thesis using g(1,2) token verify_iff [of mac jv clock token user] by blast
  qed
qed

text \<open>The requests of all users, one after the other.\<close>

inductive api_request :: "doc_db \<Rightarrow> doc_db \<Rightarrow> bool" where
  api_call:
    "ae_doc env \<notin> do_id ` set (documents db) \<Longrightarrow> ae_version env \<notin> dv_id ` set (versions db) \<Longrightarrow>
     document_api mac jv clock env credentials request db = (answer, db') \<Longrightarrow> api_request db db'"

lemma document_api_effects:
  assumes "docs_ok db" and "ae_doc env \<notin> do_id ` set (documents db)" "ae_version env \<notin> dv_id ` set (versions db)"
    and "document_api mac jv clock env credentials request db = (answer, db')"
  shows "doc_effect\<^sup>*\<^sup>* db db'"
proof (cases "get_authenticated_identity mac jv clock credentials")
  case (Inr user)
  obtain r where "get_db_session (api_route env user request) db = (r, db')"
    using assms(4) Inr by (auto simp: document_api_def split: prod.splits)
  from api_route_granted [OF assms(1-3) this] show ?thesis
    by (auto simp: granted_def dest: doc_request_effects)
qed (use assms(4) in \<open>simp add: document_api_def\<close>)

lemma api_request_effects: "api_request db db' \<Longrightarrow> docs_ok db \<Longrightarrow> doc_effect\<^sup>*\<^sup>* db db'"
  by (induction rule: api_request.induct) (rule document_api_effects)

interpretation api: invariant_system "\<lambda>db. documents db = [] \<and> versions db = []" api_request docs_ok
proof unfold_locales
  fix db db'
  assume "docs_ok db" and "api_request db db'"
  then show "docs_ok db'" using doc_effects_ok [OF api_request_effects] by blast
qed (simp add: docs_ok_def version_numbers_def)

lemma api_requests_effects:
  assumes "api_request\<^sup>*\<^sup>* db db'" and "docs_ok db"
  shows "docs_ok db' \<and> doc_effect\<^sup>*\<^sup>* db db'"
  using api.inv_run [OF assms]
    api.run_preserves [OF assms, where P = "doc_effect\<^sup>*\<^sup>* db"] api_request_effects
  by (meson rtranclp.rtrancl_refl rtranclp_trans)

section \<open>Witness\<close>

definition w_api_env :: ApiEnv where
  "w_api_env = \<lparr>ae_put = sample_put, ae_ingest = (\<lambda>_. Inr ''job''), ae_status = sample_status, ae_delete = (\<lambda>_. Inl TimeoutError),
     ae_now = 1, ae_published_at = 2, ae_pick = 0, ae_key = 100, ae_doc = 101, ae_version = 102\<rparr>"

lemma document_request_isolated_witness:
  "\<exists>token answer db'. document_api w_mac w_verifier 1500 w_api_env (Some (''Bearer'', token)) (Api_delete 20) sample_docs = (answer, db') \<and>
     map dv_lifecycle_status (versions db') = [DELETE_PENDING, APPROVED] \<and> docs_ok db' \<and> same_outside 1 sample_docs db'"
proof -
  have secret: "length (utf8_encode w_secret) = 32" by code_simp
  obtain token where t: "mint_evaluation_jwt w_mac 5 w_secret ''pa'' ''api'' 900 1000 = Inr token"
    by (simp add: mint_evaluation_jwt_def secret Let_def)
  have mac: "\<And>k m. length (w_mac k m) = 32" by (simp add: w_mac_def)
  have user: "get_authenticated_identity w_mac w_verifier 1500 (Some (''Bearer'', token)) = Inr 5"
    using minted_identity [OF t w_init _ _ mac, where now = 1500] by (simp add: printable_def)
  obtain answer db' where run: "document_api w_mac w_verifier 1500 w_api_env (Some (''Bearer'', token)) (Api_delete 20) sample_docs = (answer, db')"
    by fastforce
  have st: "map dv_lifecycle_status (versions db') = [DELETE_PENDING, APPROVED]"
    using run
    by (auto simp: document_api_def user delete_route_def authorized_version_def calling_def get_db_session_def
        authorize_version_operation_def authorize_project_operation_def auth_eval delete_document_def delete_cleanup_def
        project_code_def knowledge_space_id_def active_ragflow_space_def w_api_env_def doc_eval sample_doc_defs
        split: prod.splits sum.splits)
  then have "db' \<noteq> sample_docs" by (auto simp: sample_doc_defs)
  moreover have "version_in 20 sample_docs p \<Longrightarrow> p = 1" for p
    by (simp add: version_in_def sample_doc_defs doc_eval)
  ultimately have "docs_ok db' \<and> same_outside 1 sample_docs db'"
    using document_request_isolated [OF sample_docs_ok _ _ run] by (auto simp: w_api_env_def sample_doc_defs)
  then show ?thesis by (intro exI [of _ token] exI [of _ answer] exI [of _ db']) (simp add: run st)
qed

end
