(* ===== verification/ObjectStore.thy ===== *)
theory ObjectStore
  imports Json Regex
begin

text \<open>
  The object store on the local file system (\<open>infrastructure/object_store/local.py\<close>). The state is the tree
  below the configured root, a partial map from the components of a path to what \<open>lstat\<close> finds there: a
  directory, a file with its bytes, or a symbolic link. An operation answers with a value or with its error.
  SHA-256 and \<open>repr\<close> of values the program never writes are parameters. The faults that the system calls of
  a put and of a deletion may have are an argument; the removal of the staging directory after a failed write,
  whose own errors the code ignores, is taken to succeed, and so are the system calls that only look or read.
  No other process changes the tree during an operation.

  As every component is checked not to be a link, from the root downwards, a path resolves to itself below
  the resolved root: the checks of \<open>_assert_resolves_inside_root\<close> never fail and are left out.
\<close>

section \<open>The file system\<close>

datatype fs_node = Dir | File string | Link

type_synonym fs = "string list \<rightharpoonup> fs_node"

datatype store_error =
    StoreSecurityError | StoreConflictError | StoreCorruptionError | StoreNotFound | StoreValueError | StoreOSError

type_synonym 'a store_op = "fs \<Rightarrow> (store_error + 'a) \<times> fs"

definition rmtree :: "string list \<Rightarrow> fs \<Rightarrow> fs" where
  "rmtree p fs = (\<lambda>q. if take (length p) q = p then None else fs q)"

text \<open>\<open>os.replace\<close> of a directory: everything below it moves along.\<close>

definition rename_dir :: "string list \<Rightarrow> string list \<Rightarrow> fs \<Rightarrow> fs" where
  "rename_dir src dst fs =
     (\<lambda>q. if take (length dst) q = dst then fs (src @ drop (length dst) q)
          else if take (length src) q = src then None else fs q)"

section \<open>Keys\<close>

text \<open>\<open>PurePosixPath(s)\<close>: empty and \<open>.\<close> components are dropped; an absolute path has its root as first part.\<close>

fun split_slash :: "string \<Rightarrow> string list" where
  "split_slash [] = [[]]"
| "split_slash (c # s) =
     (if c = CHR ''/'' then [] # split_slash s
      else (case split_slash s of w # ws \<Rightarrow> (c # w) # ws | [] \<Rightarrow> [[c]]))"

definition is_absolute :: "string \<Rightarrow> bool" where
  "is_absolute s \<longleftrightarrow> take 1 s = ''/''"

definition path_names :: "string \<Rightarrow> string list" where
  "path_names s = filter (\<lambda>w. w \<noteq> [] \<and> w \<noteq> ''.'') (split_slash s)"

definition path_parts :: "string \<Rightarrow> string list" where
  "path_parts s = (if is_absolute s then [''/''] else []) @ path_names s"

fun join_slash :: "string list \<Rightarrow> string" where
  "join_slash [] = []"
| "join_slash [w] = w"
| "join_slash (w # ws) = w @ CHR ''/'' # join_slash ws"

definition as_posix :: "string \<Rightarrow> string" where
  "as_posix s = (if path_names s = [] then ''.'' else join_slash (path_names s))"

definition has_drive :: "string \<Rightarrow> bool" where
  "has_drive s \<longleftrightarrow> (case s of _ # c # _ \<Rightarrow> c = CHR '':'' | _ \<Rightarrow> False)"

text \<open>A full match of \<open>^[A-Za-z0-9][A-Za-z0-9._-]{0,127}$\<close>.\<close>

definition project_id_matches :: "string \<Rightarrow> bool" where
  "project_id_matches s \<longleftrightarrow>
     (case s of
        [] \<Rightarrow> False
      | c # t \<Rightarrow> is_alnum c \<and> length t \<le> 127 \<and> list_all (\<lambda>d. is_alnum d \<or> d \<in> set ''._-'') t)"

definition validate_project_id :: "string \<Rightarrow> store_error + string" where
  "validate_project_id project_id =
     (if project_id_matches project_id then Inr project_id else Inl StoreSecurityError)"

definition validate_logical_key :: "string \<Rightarrow> store_error + string" where
  "validate_logical_key key =
     (if key = [] \<or> CHR 0x00 \<in> set key then Inl StoreSecurityError
      else if CHR 0x5C \<in> set key then Inl StoreSecurityError
      else if is_absolute key \<or> has_drive key \<or> ''..'' \<in> set (path_parts key) then Inl StoreSecurityError
      else Inr (as_posix key))"

definition validate_mime_type :: "string \<Rightarrow> store_error + string" where
  "validate_mime_type mime_type =
     (let normalized = py_strip mime_type
      in if normalized = [] \<or> CHR 0x00 \<in> set normalized \<or> CHR 0x0A \<in> set normalized \<or> CHR 0x0D \<in> set normalized
         then Inl StoreValueError else Inr normalized)"

definition object_parts :: "string \<Rightarrow> uuid \<Rightarrow> string list" where
  "object_parts project_id object_id = [''projects'', project_id, ''objects'', uuid_str object_id]"

definition storage_key :: "string \<Rightarrow> uuid \<Rightarrow> string" where
  "storage_key project_id object_id = join_slash (object_parts project_id object_id)"

definition parse_storage_key :: "string \<Rightarrow> store_error + (string \<times> uuid)" where
  "parse_storage_key key =
     (if key = [] \<or> CHR 0x5C \<in> set key \<or> CHR 0x00 \<in> set key then Inl StoreSecurityError
      else case path_parts key of
        [a, project_id, b, name] \<Rightarrow>
          if is_absolute key \<or> a \<noteq> ''projects'' \<or> b \<noteq> ''objects'' then Inl StoreSecurityError
          else (case validate_project_id project_id of
                  Inl e \<Rightarrow> Inl e
                | Inr _ \<Rightarrow>
                    (case UUID name of
                       Inl _ \<Rightarrow> Inl StoreSecurityError
                     | Inr object_id \<Rightarrow>
                         if uuid_str object_id \<noteq> py_lower name then Inl StoreSecurityError
                         else Inr (project_id, object_id)))
      | _ \<Rightarrow> Inl StoreSecurityError)"

section \<open>Checks\<close>

text \<open>Where a system call of a put fails, if one does: making a missing directory above the object or the
  staging directory, making the staging directory, writing either file, or renaming. After the rename only
  the \<open>fsync\<close> of the parent is left.\<close>

datatype put_fault =
    No_fault | At_directory "string list" | At_mkdir | At_payload | At_metadata | At_replace | At_parent_sync

fun mkdir_safe :: "put_fault \<Rightarrow> string list \<Rightarrow> string list \<Rightarrow> unit store_op" where
  "mkdir_safe fault current [] fs = (Inr (), fs)"
| "mkdir_safe fault current (part # parts) fs =
     (let p = current @ [part]
      in case fs p of
           Some Link \<Rightarrow> (Inl StoreSecurityError, fs)
         | Some (File _) \<Rightarrow> (Inl StoreSecurityError, fs)
         | Some Dir \<Rightarrow> mkdir_safe fault p parts fs
         | None \<Rightarrow> if fault = At_directory p then (Inl StoreOSError, fs) else mkdir_safe fault p parts (fs(p \<mapsto> Dir)))"

text \<open>\<open>_reject_symlink\<close>: \<open>lstat\<close> of a path below a regular file raises \<open>NotADirectoryError\<close>, which is an
  \<open>OSError\<close> but no \<open>FileNotFoundError\<close>. (\<open>is_symlink\<close> and \<open>exists\<close> answer false there.)\<close>

definition regular_file :: "fs_node option \<Rightarrow> bool" where
  "regular_file x \<longleftrightarrow> (case x of Some (File _) \<Rightarrow> True | _ \<Rightarrow> False)"

definition reject_symlink :: "string list \<Rightarrow> fs \<Rightarrow> store_error + unit" where
  "reject_symlink p fs =
     (if list_ex (\<lambda>n. regular_file (fs (take n p))) [1..<length p] then Inl StoreOSError
      else if fs p = Some Link then Inl StoreSecurityError
      else Inr ())"

fun assert_ancestors_safe :: "string list \<Rightarrow> string list \<Rightarrow> fs \<Rightarrow> store_error + unit" where
  "assert_ancestors_safe current [] fs = Inr ()"
| "assert_ancestors_safe current (part # parts) fs =
     (let p = current @ [part]
      in case fs p of
           Some Link \<Rightarrow> Inl StoreSecurityError
         | None \<Rightarrow> Inr ()
         | _ \<Rightarrow> assert_ancestors_safe p parts fs)"

section \<open>put\<close>

text \<open>The record of a stored object extends the two fields that the document workflow reads.\<close>

record StoredObjectInfo = StoredObject +
  so_project_id :: string
  so_size_bytes :: int
  so_mime_type :: string

record ObjectPayload =
  op_object_key :: string
  op_data :: string
  op_mime_type :: string
  op_sha256 :: string

definition object_metadata :: "string \<Rightarrow> string \<Rightarrow> string \<Rightarrow> int \<Rightarrow> string \<Rightarrow> string \<Rightarrow> payload" where
  "object_metadata project_id logical_key key size_bytes digest mime_type =
     [(''logical_object_key'', JStr logical_key), (''mime_type'', JStr mime_type), (''project_id'', JStr project_id),
      (''sha256'', JStr digest), (''size_bytes'', JInt size_bytes), (''storage_key'', JStr key)]"

definition write_object ::
  "put_fault \<Rightarrow> string list \<Rightarrow> string list \<Rightarrow> string \<Rightarrow> string \<Rightarrow> unit store_op" where
  "write_object fault staging final data metadata fs =
     (if fault = At_mkdir then (Inl StoreOSError, fs)
      else let fs1 = fs(staging \<mapsto> Dir)
        in if fault = At_payload then (Inl StoreOSError, rmtree staging fs1)
           else let fs2 = fs1(staging @ [''payload.bin''] \<mapsto> File data)
             in if fault = At_metadata then (Inl StoreOSError, rmtree staging fs2)
                else let fs3 = fs2(staging @ [''metadata.json''] \<mapsto> File metadata)
                  in if fault = At_replace then (Inl StoreOSError, rmtree staging fs3)
                     else (if fault = At_parent_sync then Inl StoreOSError else Inr (), rename_dir staging final fs3))"

definition put_object ::
  "(string \<Rightarrow> string) \<Rightarrow> put_fault \<Rightarrow> uuid \<Rightarrow> PutObjectRequest \<Rightarrow> StoredObjectInfo store_op" where
  "put_object sha fault object_id req fs =
     (case validate_project_id (po_project_id req) of
        Inl e \<Rightarrow> (Inl e, fs)
      | Inr project_id \<Rightarrow>
     (case validate_logical_key (po_object_key req) of
        Inl e \<Rightarrow> (Inl e, fs)
      | Inr logical_key \<Rightarrow>
     (case validate_mime_type (po_mime_type req) of
        Inl e \<Rightarrow> (Inl e, fs)
      | Inr mime_type \<Rightarrow>
     (let final = object_parts project_id object_id
      in case mkdir_safe fault [] (butlast final) fs of
        (Inl e, fs1) \<Rightarrow> (Inl e, fs1)
      | (Inr _, fs1) \<Rightarrow>
          if fs1 final = Some Link then (Inl StoreSecurityError, fs1)
          else if fs1 final \<noteq> None then (Inl StoreConflictError, fs1)
          else case mkdir_safe fault [] [''.tmp''] fs1 of
            (Inl e, fs2) \<Rightarrow> (Inl e, fs2)
          | (Inr _, fs2) \<Rightarrow>
              let staging = [''.tmp'', uuid_str object_id @ ''.partial'']
              in if fs2 staging = Some Link then (Inl StoreSecurityError, fs2)
                 else if fs2 staging \<noteq> None then (Inl StoreConflictError, fs2)
                 else let digest = sha (po_data req);
                          key = storage_key project_id object_id;
                          metadata = object_metadata project_id logical_key key (int (length (po_data req))) digest mime_type
                   in case write_object fault staging final (po_data req) (flat_object_text metadata) fs2 of
                        (Inl e, fs3) \<Rightarrow> (Inl e, fs3)
                      | (Inr _, fs3) \<Rightarrow>
                          (Inr \<lparr>so_object_key = key, so_sha256 = digest, so_project_id = project_id,
                                so_size_bytes = int (length (po_data req)), so_mime_type = mime_type\<rparr>, fs3)))))"

section \<open>get, exists and delete\<close>

definition resolve_existing_object_dir :: "string \<Rightarrow> fs \<Rightarrow> store_error + string list" where
  "resolve_existing_object_dir key fs =
     (case parse_storage_key key of
        Inl e \<Rightarrow> Inl e
      | Inr (project_id, object_id) \<Rightarrow>
          (let p = object_parts project_id object_id
           in case assert_ancestors_safe [] p fs of
                Inl e \<Rightarrow> Inl e
              | Inr _ \<Rightarrow>
                  (case reject_symlink p fs of
                     Inl e \<Rightarrow> Inl e
                   | Inr _ \<Rightarrow>
                       (case fs p of
                          None \<Rightarrow> Inl StoreNotFound
                        | Some Dir \<Rightarrow> Inr p
                        | _ \<Rightarrow> Inl StoreSecurityError))))"

text \<open>The digits of \<open>int(text)\<close>: single underscores may stand between them.\<close>

fun int_literal :: "string \<Rightarrow> bool" where
  "int_literal [] = False"
| "int_literal [c] = is_digit c"
| "int_literal (c # d # s) = (is_digit c \<and> (if d = CHR ''_'' then int_literal s else int_literal (d # s)))"

definition py_int :: "string \<Rightarrow> int option" where
  "py_int s =
     (let t = py_strip s;
          negative = (take 1 t = ''-'');
          ds = (if negative \<or> take 1 t = ''+'' then tl t else t);
          n = int (int10_digits (filter is_digit ds))
      in if int_literal ds then Some (if negative then - n else n) else None)"

text \<open>\<open>str\<close> and \<open>int\<close> of a JSON value; \<open>repr\<close> is \<open>str\<close> of the values that are not text.\<close>

definition json_str :: "(json \<Rightarrow> string) \<Rightarrow> json \<Rightarrow> string" where
  "json_str repr v = (case v of JStr s \<Rightarrow> s | _ \<Rightarrow> repr v)"

definition json_int :: "json \<Rightarrow> int option" where
  "json_int v =
     (case v of
        JInt i \<Rightarrow> Some i
      | JBool b \<Rightarrow> Some (if b then 1 else 0)
      | JFloat x \<Rightarrow> Some (if 0 \<le> x then \<lfloor>x\<rfloor> else \<lceil>x\<rceil>)
      | JStr s \<Rightarrow> py_int s
      | _ \<Rightarrow> None)"

definition read_object ::
  "(string \<Rightarrow> string) \<Rightarrow> (json \<Rightarrow> string) \<Rightarrow> string \<Rightarrow> string list \<Rightarrow> fs \<Rightarrow> store_error + ObjectPayload" where
  "read_object sha repr key d fs =
     (if fs (d @ [''payload.bin'']) = Some Link \<or> fs (d @ [''metadata.json'']) = Some Link then Inl StoreSecurityError
      else case (fs (d @ [''payload.bin'']), fs (d @ [''metadata.json''])) of
        (Some (File data), Some (File text)) \<Rightarrow>
          (case json_loads text of
             Some (JObj m) \<Rightarrow>
               (case (map_of m ''sha256'', Option.bind (map_of m ''size_bytes'') json_int,
                      map_of m ''mime_type'', map_of m ''storage_key'') of
                  (Some h, Some n, Some mime, Some k) \<Rightarrow>
                    if json_str repr k \<noteq> key then Inl StoreCorruptionError
                    else if sha data \<noteq> json_str repr h \<or> int (length data) \<noteq> n then Inl StoreCorruptionError
                    else Inr \<lparr>op_object_key = key, op_data = data, op_mime_type = json_str repr mime,
                              op_sha256 = sha data\<rparr>
                | _ \<Rightarrow> Inl StoreCorruptionError)
           | _ \<Rightarrow> Inl StoreCorruptionError)
      | _ \<Rightarrow> Inl StoreCorruptionError)"

definition get_object :: "(string \<Rightarrow> string) \<Rightarrow> (json \<Rightarrow> string) \<Rightarrow> string \<Rightarrow> fs \<Rightarrow> store_error + ObjectPayload" where
  "get_object sha repr key fs =
     (case resolve_existing_object_dir key fs of Inl e \<Rightarrow> Inl e | Inr d \<Rightarrow> read_object sha repr key d fs)"

definition object_exists :: "string \<Rightarrow> fs \<Rightarrow> store_error + bool" where
  "object_exists key fs =
     (case parse_storage_key key of
        Inl e \<Rightarrow> Inl e
      | Inr (project_id, object_id) \<Rightarrow>
          (let p = object_parts project_id object_id
           in case assert_ancestors_safe [] p fs of
                Inl e \<Rightarrow> Inl e
              | Inr _ \<Rightarrow>
                  (case reject_symlink p fs of Inl e \<Rightarrow> Inl e | Inr _ \<Rightarrow> Inr (fs p = Some Dir))))"

text \<open>
  \<open>shutil.rmtree\<close> raises at the first entry it cannot remove, when it may have removed others, each with
  everything below it; afterwards only the \<open>fsync\<close> of the parent is left.
\<close>

datatype delete_fault = No_delete_fault | At_rmtree "(string \<times> string list) list" | At_directory_sync

fun rmtree_entries :: "(string \<times> string list) list \<Rightarrow> string list \<Rightarrow> fs \<Rightarrow> fs" where
  "rmtree_entries [] p fs = fs"
| "rmtree_entries ((name, below) # removed) p fs = rmtree_entries removed p (rmtree (p @ name # below) fs)"

definition delete_object :: "delete_fault \<Rightarrow> string \<Rightarrow> unit store_op" where
  "delete_object fault key fs =
     (case resolve_existing_object_dir key fs of
        Inl StoreNotFound \<Rightarrow> (Inr (), fs)
      | Inl e \<Rightarrow> (Inl e, fs)
      | Inr d \<Rightarrow>
          (case fault of
             At_rmtree removed \<Rightarrow> (Inl StoreOSError, rmtree_entries removed d fs)
           | At_directory_sync \<Rightarrow> (Inl StoreOSError, rmtree d fs)
           | No_delete_fault \<Rightarrow> (Inr (), rmtree d fs)))"

end
