(* ===== verification/Ragflow.thy ===== *)
theory Ragflow
  imports ObjectStore Jwt
begin

text \<open>
  The knowledge provider's adapter: \<open>infrastructure/ragflow/client.py\<close> with its retries and
  \<open>infrastructure/ragflow/adapter.py\<close> with the bindings of datasets to projects, the upload of a version, its
  ingestion status, retrieval and deletion.

  The server behind the HTTP client is an argument: it answers a call from a state of its own, and every call that
  is sent and every delay is kept in the adapter's state, so that theorems can speak of them. An exception carries
  the name of its class; \<open>str\<close> of JSON values that are not text and \<open>float\<close> of texts are arguments. A loop over
  pages has fuel, and \<open>fuel_exhausted\<close> is no exception of the program: it stands for a listing that still goes on.
\<close>

section \<open>client.py\<close>

record RagflowCall =
  rc_method :: string
  rc_path :: string
  rc_params :: payload
  rc_json :: "json option"
  rc_file :: "(string \<times> string \<times> string) option"

text \<open>
  What \<open>httpx\<close> makes of a call: a response with its status and its body, \<open>None\<close> where it is no JSON; a timeout or
  network error; or another exception.
\<close>

datatype http_outcome = Http_response nat "json option" | Http_transient string | Http_exception string

record RagflowRetryPolicy =
  rp_max_attempts :: nat
  rp_base_delay_seconds :: rat
  rp_max_delay_seconds :: rat

definition init_retry_policy :: "int \<Rightarrow> rat \<Rightarrow> rat \<Rightarrow> RagflowRetryPolicy res" where
  "init_retry_policy max_attempts base_delay max_delay =
     (if max_attempts < 1 then Inl (ValueError ''max_attempts must be >= 1'')
      else if base_delay < 0 \<or> max_delay < 0 then Inl (ValueError ''retry delays cannot be negative'')
      else if max_delay < base_delay then Inl (ValueError ''max_delay_seconds cannot be less than base_delay_seconds'')
      else Inr \<lparr>rp_max_attempts = nat max_attempts, rp_base_delay_seconds = base_delay, rp_max_delay_seconds = max_delay\<rparr>)"

text \<open>The defaults of the class.\<close>

definition default_policy :: RagflowRetryPolicy where
  "default_policy = \<lparr>rp_max_attempts = 3, rp_base_delay_seconds = 1/4, rp_max_delay_seconds = 2\<rparr>"

text \<open>\<open>2.0 ** n\<close> raises \<open>OverflowError\<close> from \<open>n = 1024\<close> on.\<close>

definition delay_for_retry :: "RagflowRetryPolicy \<Rightarrow> nat \<Rightarrow> rat res" where
  "delay_for_retry p retry_number =
     (if retry_number < 1 then Inl (ValueError ''retry_number must be >= 1'')
      else if 1024 \<le> retry_number - 1 then Inl OverflowError
      else Inr (min (rp_base_delay_seconds p * 2 ^ (retry_number - 1)) (rp_max_delay_seconds p)))"

text \<open>A provider document as the application knows it.\<close>

record DocumentMapping =
  dm_project_id :: string
  dm_document_version_id :: string
  dm_metadata :: "(string \<times> string) list"

record 'w ragflow =
  rf_space_to_project :: "string \<rightharpoonup> string"
  rf_project_to_spaces :: "string \<rightharpoonup> string list"
  rf_document_mappings :: "string \<times> string \<rightharpoonup> DocumentMapping"
  rf_world :: 'w
  rf_sent :: "RagflowCall list"
  rf_slept :: "rat list"

type_synonym ('a, 'w) rf_op = "('a, 'w ragflow) op"

text \<open>What an adapter is built with.\<close>

record 'w RagflowConfig =
  rg_http :: "RagflowCall \<Rightarrow> 'w \<Rightarrow> http_outcome \<times> 'w"
  rg_policy :: RagflowRetryPolicy
  rg_object_get :: "(string \<Rightarrow> ObjectPayload res) option"
  rg_embedding_model :: "string option"
  rg_chunk_method :: string
  rg_repr :: "json \<Rightarrow> string"
  rg_float :: "string \<Rightarrow> rat option"
  rg_page_fuel :: nat

definition rf_send :: "'w RagflowConfig \<Rightarrow> RagflowCall \<Rightarrow> (http_outcome, 'w) rf_op" where
  "rf_send g call s =
     (case rg_http g call (rf_world s) of
        (out, w) \<Rightarrow> (Inr out, s\<lparr>rf_world := w, rf_sent := rf_sent s @ [call]\<rparr>))"

definition rf_sleep :: "rat \<Rightarrow> (unit, 'w) rf_op" where
  "rf_sleep delay = modify_op (\<lambda>s. s\<lparr>rf_slept := rf_slept s @ [delay]\<rparr>)"

text \<open>\<open>_request\<close>: the attempts from number \<open>attempt\<close> on, of which \<open>left\<close> are left.\<close>

fun rf_attempts :: "'w RagflowConfig \<Rightarrow> RagflowCall \<Rightarrow> nat \<Rightarrow> nat \<Rightarrow> (nat \<times> json option, 'w) rf_op" where
  "rf_attempts g call attempt 0 = raise_op (RuntimeError ''unreachable RAGFlow retry state'')"
| "rf_attempts g call attempt (Suc left) =
     bind_op (rf_send g call) (\<lambda>out.
       case out of
         Http_exception name \<Rightarrow> raise_op (ProviderError name)
       | Http_transient name \<Rightarrow>
           if rp_max_attempts (rg_policy g) \<le> attempt then raise_op (ProviderError name)
           else bind_op (of_res (delay_for_retry (rg_policy g) attempt)) (\<lambda>delay.
             bind_op (rf_sleep delay) (\<lambda>_. rf_attempts g call (Suc attempt) left))
       | Http_response status body \<Rightarrow>
           if (status = 429 \<or> 500 \<le> status) \<and> attempt < rp_max_attempts (rg_policy g)
           then bind_op (of_res (delay_for_retry (rg_policy g) attempt)) (\<lambda>delay.
             bind_op (rf_sleep delay) (\<lambda>_. rf_attempts g call (Suc attempt) left))
           else if 400 \<le> status then raise_op (ProviderError ''RagflowHttpError'')
           else return_op (status, body))"

definition rf_request :: "'w RagflowConfig \<Rightarrow> RagflowCall \<Rightarrow> (nat \<times> json option, 'w) rf_op" where
  "rf_request g call = rf_attempts g call 1 (rp_max_attempts (rg_policy g))"

text \<open>\<open>code != 0\<close> of a JSON value: \<open>False\<close> and \<open>0.0\<close> are equal to \<open>0\<close>.\<close>

definition json_is_zero :: "json \<Rightarrow> bool" where
  "json_is_zero v \<longleftrightarrow> (case v of JInt i \<Rightarrow> i = 0 | JFloat x \<Rightarrow> x = 0 | JBool b \<Rightarrow> \<not> b | _ \<Rightarrow> False)"

definition json_get :: "payload \<Rightarrow> string \<Rightarrow> json \<Rightarrow> json" where
  "json_get m k d = (case map_of m k of Some v \<Rightarrow> v | None \<Rightarrow> d)"

definition request_data :: "'w RagflowConfig \<Rightarrow> RagflowCall \<Rightarrow> (json, 'w) rf_op" where
  "request_data g call =
     bind_op (rf_request g call) (\<lambda>(_, body).
       case body of
         Some (JObj m) \<Rightarrow>
           if \<not> json_is_zero (json_get m ''code'' JNull) then raise_op (ProviderError ''RagflowApiError'')
           else return_op (json_get m ''data'' JNull)
       | _ \<Rightarrow> raise_op (ProviderError ''RagflowProtocolError''))"

section \<open>Bindings\<close>

definition init_adapter :: "'w \<Rightarrow> 'w ragflow" where
  "init_adapter w = \<lparr>rf_space_to_project = Map.empty, rf_project_to_spaces = Map.empty, rf_document_mappings = Map.empty,
     rf_world = w, rf_sent = [], rf_slept = []\<rparr>"

definition bind_space :: "string \<Rightarrow> string \<Rightarrow> (unit, 'w) rf_op" where
  "bind_space project_id dataset_id s =
     (case rf_space_to_project s dataset_id of
        Some existing \<Rightarrow>
          if existing \<noteq> project_id then (Inl (ProviderError ''RagflowProjectIsolationError''), s)
          else (Inr (), s\<lparr>rf_space_to_project := (rf_space_to_project s)(dataset_id \<mapsto> project_id),
            rf_project_to_spaces := (rf_project_to_spaces s)(project_id \<mapsto>
              List.insert dataset_id (case rf_project_to_spaces s project_id of Some ds \<Rightarrow> ds | None \<Rightarrow> []))\<rparr>)
      | None \<Rightarrow> (Inr (), s\<lparr>rf_space_to_project := (rf_space_to_project s)(dataset_id \<mapsto> project_id),
            rf_project_to_spaces := (rf_project_to_spaces s)(project_id \<mapsto>
              List.insert dataset_id (case rf_project_to_spaces s project_id of Some ds \<Rightarrow> ds | None \<Rightarrow> []))\<rparr>))"

definition assert_space_for_project :: "string \<Rightarrow> string \<Rightarrow> (unit, 'w) rf_op" where
  "assert_space_for_project project_id dataset_id s =
     (if rf_space_to_project s dataset_id \<noteq> Some project_id then (Inl (ProviderError ''RagflowProjectIsolationError''), s)
      else (Inr (), s))"

definition space_ids_for_project :: "string \<Rightarrow> 'w ragflow \<Rightarrow> string list" where
  "space_ids_for_project project_id s =
     (case rf_project_to_spaces s project_id of Some ds \<Rightarrow> sort ds | None \<Rightarrow> [])"

definition baseline_dataset_bindings :: "(string \<times> string) list" where
  "baseline_dataset_bindings =
     [(''company-public'', ''company-public''), (''PRJ-RETAIL-ALPHA'', ''client-a-project-alpha''),
      (''PRJ-LOGISTICS-BETA'', ''client-b-project-beta'')]"

definition validate_baseline_binding :: "string \<Rightarrow> string \<Rightarrow> unit res" where
  "validate_baseline_binding project_id space_key =
     (if list_ex (\<lambda>(p, k). k = space_key \<and> p \<noteq> project_id) baseline_dataset_bindings
      then Inl (ProviderError ''RagflowProjectIsolationError'') else Inr ())"

section \<open>Answers of the provider\<close>

definition required_string :: "payload \<Rightarrow> string \<Rightarrow> string res" where
  "required_string item field =
     (case map_of item field of
        Some (JStr v) \<Rightarrow> if v = [] then Inl (ProviderError ''RagflowProtocolError'') else Inr v
      | _ \<Rightarrow> Inl (ProviderError ''RagflowProtocolError''))"

definition dict_items :: "json list \<Rightarrow> payload list" where
  "dict_items vs = List.map_filter (\<lambda>v. case v of JObj m \<Rightarrow> Some m | _ \<Rightarrow> None) vs"

definition dataset_list :: "json \<Rightarrow> payload list res" where
  "dataset_list data = (case data of JArr vs \<Rightarrow> Inr (dict_items vs) | _ \<Rightarrow> Inl (ProviderError ''RagflowProtocolError''))"

definition project_field :: string where
  "project_field = ''project_agent_project_id''"

definition version_field :: string where
  "version_field = ''project_agent_document_version_id''"

definition mapping_from_document :: "'w RagflowConfig \<Rightarrow> payload \<Rightarrow> DocumentMapping option" where
  "mapping_from_document g document =
     (case map_of document ''meta_fields'' of
        Some (JObj metadata) \<Rightarrow>
          (case (map_of metadata project_field, map_of metadata version_field) of
             (Some (JStr project_id), Some (JStr version_id)) \<Rightarrow>
               if project_id = [] \<or> version_id = [] then None
               else Some \<lparr>dm_project_id = project_id, dm_document_version_id = version_id,
                 dm_metadata = map (\<lambda>(k, v). (k, json_str (rg_repr g) v))
                   (filter (\<lambda>(k, v). k \<notin> {project_field, version_field} \<and> v \<noteq> JNull) metadata)\<rparr>
           | _ \<Rightarrow> None)
      | _ \<Rightarrow> None)"

text \<open>\<open>==\<close> of two dictionaries, and of two mappings.\<close>

definition same_dict :: "(string \<times> string) list \<Rightarrow> (string \<times> string) list \<Rightarrow> bool" where
  "same_dict a b \<longleftrightarrow> list_all (\<lambda>(k, _). map_of a k = map_of b k) (a @ b)"

definition same_mapping :: "DocumentMapping \<Rightarrow> DocumentMapping \<Rightarrow> bool" where
  "same_mapping a b \<longleftrightarrow> dm_project_id a = dm_project_id b \<and> dm_document_version_id a = dm_document_version_id b \<and>
     same_dict (dm_metadata a) (dm_metadata b)"

fun joined :: "string \<Rightarrow> string list \<Rightarrow> string" where
  "joined sep [] = []"
| "joined sep [w] = w"
| "joined sep (w # ws) = w @ sep @ joined sep ws"

text \<open>\<open>json.dumps\<close> with compact separators.\<close>

fun json_dumps :: "(json \<Rightarrow> string) \<Rightarrow> json \<Rightarrow> string" where
  "json_dumps repr (JStr s) = json_quote s"
| "json_dumps repr (JInt i) = str_int i"
| "json_dumps repr (JBool b) = (if b then ''true'' else ''false'')"
| "json_dumps repr JNull = ''null''"
| "json_dumps repr (JFloat x) = repr (JFloat x)"
| "json_dumps repr (JArr vs) =
     ''['' @ joined '','' (map (json_dumps repr) vs) @ '']''"
| "json_dumps repr (JObj kvs) =
     ''{'' @ joined '','' (map (\<lambda>(k, v). json_quote k @ '':'' @ json_dumps repr v) kvs) @ ''}''"


section \<open>Spaces\<close>

definition datasets_path :: string where
  "datasets_path = ''/api/v1/datasets''"

definition documents_path :: "string \<Rightarrow> string" where
  "documents_path dataset_id = datasets_path @ ''/'' @ dataset_id @ ''/documents''"

definition chunks_path :: "string \<Rightarrow> string" where
  "chunks_path dataset_id = datasets_path @ ''/'' @ dataset_id @ ''/chunks''"

definition get_call :: "string \<Rightarrow> payload \<Rightarrow> RagflowCall" where
  "get_call path params = \<lparr>rc_method = ''GET'', rc_path = path, rc_params = params, rc_json = None, rc_file = None\<rparr>"

definition json_call :: "string \<Rightarrow> string \<Rightarrow> json \<Rightarrow> RagflowCall" where
  "json_call verb path body = \<lparr>rc_method = verb, rc_path = path, rc_params = [], rc_json = Some body, rc_file = None\<rparr>"

text \<open>The pages from \<open>page\<close> on; a page with less than a hundred entries is the last.\<close>

definition fuel_exhausted :: exn where
  "fuel_exhausted = RuntimeError ''still listing''"

fun find_dataset_from :: "'w RagflowConfig \<Rightarrow> string \<Rightarrow> nat \<Rightarrow> int \<Rightarrow> string list \<Rightarrow> (payload option, 'w) rf_op" where
  "find_dataset_from g target 0 page seen = raise_op fuel_exhausted"
| "find_dataset_from g target (Suc fuel) page seen =
     bind_op (request_data g (get_call datasets_path [(''page'', JInt page), (''page_size'', JInt 100)])) (\<lambda>data.
     bind_op (of_res (dataset_list data)) (\<lambda>datasets.
       case List.find (\<lambda>item. py_lower (json_str (rg_repr g) (json_get item ''name'' (JStr []))) = target) datasets of
         Some item \<Rightarrow> return_op (Some item)
       | None \<Rightarrow>
           if length datasets < 100 then return_op None
           else let page_ids = List.map_filter (\<lambda>item.
                  case json_get item ''id'' JNull of JNull \<Rightarrow> None | v \<Rightarrow> Some (json_str (rg_repr g) v)) datasets
             in if page_ids \<noteq> [] \<and> list_all (\<lambda>i. i \<in> set seen) page_ids
                then raise_op (ProviderError ''RagflowProtocolError'')
                else find_dataset_from g target fuel (page + 1) (page_ids @ seen)))"

definition find_visible_dataset_by_name :: "'w RagflowConfig \<Rightarrow> string \<Rightarrow> (payload option, 'w) rf_op" where
  "find_visible_dataset_by_name g name = find_dataset_from g (py_lower name) (rg_page_fuel g) 1 []"

definition ensure_space :: "'w RagflowConfig \<Rightarrow> string \<Rightarrow> string \<Rightarrow> (string, 'w) rf_op" where
  "ensure_space g project_id space_key =
     bind_op (of_res (validate_baseline_binding project_id space_key)) (\<lambda>_.
     bind_op (find_visible_dataset_by_name g space_key) (\<lambda>existing.
     bind_op (case existing of
         Some item \<Rightarrow> of_res (required_string item ''id'')
       | None \<Rightarrow>
           bind_op (request_data g (json_call ''POST'' datasets_path (JObj
               ([(''name'', JStr space_key), (''description'', JStr (''Managed by project-agent for scope '' @ project_id)),
                 (''permission'', JStr ''me''), (''chunk_method'', JStr (rg_chunk_method g))] @
                (case rg_embedding_model g of
                   Some model \<Rightarrow> if model = [] then [] else [(''embedding_model'', JStr model)]
                 | None \<Rightarrow> []))))) (\<lambda>created.
             case created of
               JObj item \<Rightarrow> of_res (required_string item ''id'')
             | _ \<Rightarrow> raise_op (ProviderError ''RagflowProtocolError''))) (\<lambda>dataset_id.
     bind_op (bind_space project_id dataset_id) (\<lambda>_. return_op dataset_id))))"

definition delete_owned_space :: "'w RagflowConfig \<Rightarrow> string \<Rightarrow> string \<Rightarrow> string \<Rightarrow> (unit, 'w) rf_op" where
  "delete_owned_space g project_id dataset_id expected_name =
     bind_op (assert_space_for_project project_id dataset_id) (\<lambda>_.
     bind_op (find_visible_dataset_by_name g expected_name) (\<lambda>actual.
       case actual of
         None \<Rightarrow> return_op ()
       | Some item \<Rightarrow>
           if json_str (rg_repr g) (json_get item ''id'' JNull) \<noteq> dataset_id
           then raise_op (ProviderError ''RagflowProjectIsolationError'')
           else bind_op (request_data g (json_call ''DELETE'' datasets_path (JObj [(''ids'', JArr [JStr dataset_id])]))) (\<lambda>_.
             modify_op (\<lambda>s. s\<lparr>rf_space_to_project := (rf_space_to_project s)(dataset_id := None),
               rf_project_to_spaces := (rf_project_to_spaces s)(project_id :=
                 map_option (removeAll dataset_id) (rf_project_to_spaces s project_id))\<rparr>))))"

section \<open>Documents\<close>

definition list_documents ::
  "'w RagflowConfig \<Rightarrow> string \<Rightarrow> string \<Rightarrow> json option \<Rightarrow> (payload list, 'w) rf_op" where
  "list_documents g dataset_id document_id condition =
     bind_op (request_data g (get_call (documents_path dataset_id)
         ([(''page'', JInt 1), (''page_size'', JInt 100)] @
          (if document_id = [] then [] else [(''id'', JStr document_id)]) @
          (case condition of None \<Rightarrow> [] | Some c \<Rightarrow> [(''metadata_condition'', JStr (json_dumps (rg_repr g) c))])))) (\<lambda>data.
       case (case data of JObj m \<Rightarrow> Some (json_get m ''docs'' (JArr [])) | JArr vs \<Rightarrow> Some (JArr vs) | _ \<Rightarrow> None) of
         Some (JArr vs) \<Rightarrow> return_op (dict_items vs)
       | _ \<Rightarrow> raise_op (ProviderError ''RagflowProtocolError''))"

definition condition_on :: "string \<Rightarrow> string \<Rightarrow> json" where
  "condition_on field wanted =
     JObj [(''name'', JStr field), (''comparison_operator'', JStr ''=''), (''value'', JStr wanted)]"

definition version_condition :: "string \<Rightarrow> string \<Rightarrow> json" where
  "version_condition project_id version_id =
     JObj [(''logic'', JStr ''and''),
       (''conditions'', JArr [condition_on project_field project_id, condition_on version_field version_id])]"

definition get_document :: "'w RagflowConfig \<Rightarrow> string \<Rightarrow> string \<Rightarrow> (payload, 'w) rf_op" where
  "get_document g dataset_id document_id =
     bind_op (list_documents g dataset_id document_id None) (\<lambda>documents.
       case List.find (\<lambda>item. json_str (rg_repr g) (json_get item ''id'' (JStr [])) = document_id) documents of
         Some item \<Rightarrow> return_op item
       | None \<Rightarrow> raise_op (ProviderError ''RagflowProtocolError''))"

definition resolve_document_mapping :: "'w RagflowConfig \<Rightarrow> string \<Rightarrow> string \<Rightarrow> (DocumentMapping option, 'w) rf_op" where
  "resolve_document_mapping g dataset_id document_id s =
     (case rf_document_mappings s (dataset_id, document_id) of
        Some cached \<Rightarrow> (Inr (Some cached), s)
      | None \<Rightarrow>
          bind_op (get_document g dataset_id document_id) (\<lambda>document.
            case mapping_from_document g document of
              None \<Rightarrow> return_op None
            | Some mapping \<Rightarrow>
                bind_op (modify_op (\<lambda>s. s\<lparr>rf_document_mappings := (rf_document_mappings s)((dataset_id, document_id) \<mapsto> mapping)\<rparr>))
                  (\<lambda>_. return_op (Some mapping))) s)"

section \<open>Ingestion\<close>

definition reserved_metadata :: "string list" where
  "reserved_metadata = [project_field, version_field, ''filename'']"

definition unreserved :: "(string \<times> string) list \<Rightarrow> (string \<times> string) list" where
  "unreserved m = filter (\<lambda>(k, _). k \<notin> set reserved_metadata) m"

text \<open>The name is compared with the last component of the paths that it spells for POSIX and for Windows.\<close>

definition safe_filename :: "string \<Rightarrow> string res" where
  "safe_filename filename =
     (if filename = [] \<or> CHR 0x00 \<in> set filename then Inl (ProviderError ''RagflowConfigurationError'')
      else if CHR ''/'' \<in> set filename \<or> CHR 0x5C \<in> set filename \<or> filename = ''.'' \<or> has_drive filename
      then Inl (ProviderError ''RagflowConfigurationError'')
      else if 128 < length (utf8_encode filename) then Inl (ProviderError ''RagflowConfigurationError'')
      else Inr filename)"

definition encode_ingestion_job_id :: "string \<Rightarrow> string \<Rightarrow> string" where
  "encode_ingestion_job_id dataset_id document_id = ''ragflow:'' @ dataset_id @ '':'' @ document_id"

text \<open>\<open>split(":", 2)\<close>: the document id may have further colons.\<close>

definition decode_ingestion_job_id :: "string \<Rightarrow> (string \<times> string) res" where
  "decode_ingestion_job_id job =
     (let colon = (\<lambda>c. c \<noteq> CHR '':'');
          first = takeWhile colon job;
          rest = dropWhile colon job;
          second = takeWhile colon (tl rest);
          rest2 = dropWhile colon (tl rest)
      in if rest = [] \<or> rest2 = [] \<or> first \<noteq> ''ragflow'' \<or> second = [] \<or> tl rest2 = []
         then Inl (ProviderError ''RagflowConfigurationError'') else Inr (second, tl rest2))"

definition best_effort_delete_provider_document :: "'w RagflowConfig \<Rightarrow> string \<Rightarrow> string \<Rightarrow> (unit, 'w) rf_op" where
  "best_effort_delete_provider_document g dataset_id document_id =
     try_op (request_data g (json_call ''DELETE'' (documents_path dataset_id) (JObj [(''ids'', JArr [JStr document_id])])))
       (\<lambda>_. return_op ()) (\<lambda>_. return_op ())"

definition sent_metadata :: "KnowledgeIngestionRequest \<Rightarrow> (string \<times> string) list" where
  "sent_metadata req = unreserved (ki_metadata req) @
     [(project_field, ki_project_id req), (version_field, ki_document_version_id req)]"

definition upload_new_document :: "'w RagflowConfig \<Rightarrow> (string \<Rightarrow> ObjectPayload res) \<Rightarrow> KnowledgeIngestionRequest \<Rightarrow> (string, 'w) rf_op" where
  "upload_new_document g object_get req =
     bind_op (of_res (object_get (ki_object_key req))) (\<lambda>object.
     bind_op (of_res (safe_filename (case map_of (ki_metadata req) ''filename'' of
         Some name \<Rightarrow> if name = [] then ki_document_version_id req @ ''.bin'' else name
       | None \<Rightarrow> ki_document_version_id req @ ''.bin''))) (\<lambda>filename.
     bind_op (request_data g \<lparr>rc_method = ''POST'', rc_path = documents_path (ki_knowledge_space_id req), rc_params = [],
         rc_json = None, rc_file = Some (filename, op_data object, op_mime_type object)\<rparr>) (\<lambda>uploaded.
     bind_op (of_res (case uploaded of JArr (JObj item # _) \<Rightarrow> required_string item ''id''
         | _ \<Rightarrow> Inl (ProviderError ''RagflowProtocolError''))) (\<lambda>document_id.
     bind_op (try_op (request_data g (json_call ''PUT'' (documents_path (ki_knowledge_space_id req) @ ''/'' @ document_id)
           (JObj [(''meta_fields'', JObj (map (\<lambda>(k, v). (k, JStr v)) (sent_metadata req)))])))
         (\<lambda>e. bind_op (best_effort_delete_provider_document g (ki_knowledge_space_id req) document_id) (\<lambda>_. raise_op e))
         (\<lambda>_. return_op ())) (\<lambda>_.
     bind_op (modify_op (\<lambda>s. s\<lparr>rf_document_mappings := (rf_document_mappings s)((ki_knowledge_space_id req, document_id) \<mapsto>
         \<lparr>dm_project_id = ki_project_id req, dm_document_version_id = ki_document_version_id req,
          dm_metadata = unreserved (ki_metadata req)\<rparr>)\<rparr>)) (\<lambda>_.
     bind_op (request_data g (json_call ''POST'' (chunks_path (ki_knowledge_space_id req))
         (JObj [(''document_ids'', JArr [JStr document_id])]))) (\<lambda>_.
       return_op document_id)))))))"

definition wanted_mapping :: "KnowledgeIngestionRequest \<Rightarrow> DocumentMapping" where
  "wanted_mapping req = \<lparr>dm_project_id = ki_project_id req, dm_document_version_id = ki_document_version_id req,
     dm_metadata = unreserved (ki_metadata req)\<rparr>"

text \<open>\<open>ingest\<close>; of the receipt only the job id is new.\<close>

definition ingest :: "'w RagflowConfig \<Rightarrow> KnowledgeIngestionRequest \<Rightarrow> (string, 'w) rf_op" where
  "ingest g req =
     bind_op (bind_space (ki_project_id req) (ki_knowledge_space_id req)) (\<lambda>_.
       case rg_object_get g of
         None \<Rightarrow> raise_op (ProviderError ''RagflowConfigurationError'')
       | Some object_get \<Rightarrow>
           bind_op (list_documents g (ki_knowledge_space_id req) []
               (Some (version_condition (ki_project_id req) (ki_document_version_id req)))) (\<lambda>existing_documents.
           bind_op (case List.find (\<lambda>item. case mapping_from_document g item of
                 Some m \<Rightarrow> same_mapping m (wanted_mapping req) | None \<Rightarrow> False) existing_documents of
               Some item \<Rightarrow> of_res (required_string item ''id'')
             | None \<Rightarrow> upload_new_document g object_get req) (\<lambda>document_id.
             return_op (encode_ingestion_job_id (ki_knowledge_space_id req) document_id))))"

definition get_ingestion_status :: "'w RagflowConfig \<Rightarrow> string \<Rightarrow> (KnowledgeIngestionStatus, 'w) rf_op" where
  "get_ingestion_status g job =
     bind_op (of_res (decode_ingestion_job_id job)) (\<lambda>(dataset_id, document_id).
     bind_op (get_document g dataset_id document_id) (\<lambda>document.
       let run = py_upper (json_str (rg_repr g) (json_get document ''run'' (JStr [])));
           message = json_get document ''progress_msg'' JNull;
           truthy = (message \<notin> {JNull, JStr [], JArr [], JObj [], JBool False, JInt 0, JFloat 0})
       in return_op
         (if run \<in> set [''DONE'', ''SUCCEEDED'', ''SUCCESS''] then \<lparr>ks_state = ING_SUCCEEDED, ks_error_code = None\<rparr>
          else if run \<in> set [''FAIL'', ''FAILED'', ''ERROR'', ''CANCEL'', ''CANCELED'', ''CANCELLED'']
          then \<lparr>ks_state = ING_FAILED, ks_error_code = Some (if truthy then json_str (rg_repr g) message else run)\<rparr>
          else if run \<in> set [''RUNNING'', ''PARSING'', ''PROCESSING''] then \<lparr>ks_state = ING_RUNNING, ks_error_code = None\<rparr>
          else \<lparr>ks_state = ING_PENDING, ks_error_code = None\<rparr>)))"


definition delete_document_call :: "string \<Rightarrow> string list \<Rightarrow> RagflowCall" where
  "delete_document_call dataset_id ids = json_call ''DELETE'' (documents_path dataset_id) (JObj [(''ids'', JArr (map JStr ids))])"

text \<open>The comparison of a mapping with its own public metadata leaves the two ids to compare.\<close>

definition delete_provider_document :: "'w RagflowConfig \<Rightarrow> DeleteKnowledgeDocumentRequest \<Rightarrow> (unit, 'w) rf_op" where
  "delete_provider_document g req =
     bind_op (bind_space (dk_project_id req) (dk_knowledge_space_id req)) (\<lambda>_.
     bind_op (list_documents g (dk_knowledge_space_id req) []
         (Some (version_condition (dk_project_id req) (dk_document_version_id req)))) (\<lambda>documents.
     bind_op (of_res (map_res (\<lambda>item. required_string item ''id'')
         (filter (\<lambda>item. case mapping_from_document g item of
              Some m \<Rightarrow> same_mapping m \<lparr>dm_project_id = dk_project_id req, dm_document_version_id = dk_document_version_id req,
                          dm_metadata = dm_metadata m\<rparr>
            | None \<Rightarrow> False) documents))) (\<lambda>ids.
       if ids = [] then return_op ()
       else bind_op (request_data g (delete_document_call (dk_knowledge_space_id req) ids)) (\<lambda>_.
         modify_op (\<lambda>s. s\<lparr>rf_document_mappings :=
           (\<lambda>(d, i). if d = dk_knowledge_space_id req \<and> i \<in> set ids then None else rf_document_mappings s (d, i))\<rparr>)))))"

section \<open>Retrieval\<close>

fun assert_spaces :: "string \<Rightarrow> string list \<Rightarrow> (unit, 'w) rf_op" where
  "assert_spaces project_id [] = return_op ()"
| "assert_spaces project_id (d # ds) = bind_op (assert_space_for_project project_id d) (\<lambda>_. assert_spaces project_id ds)"

definition dataset_ids_for_retrieval :: "KnowledgeRetrievalRequest \<Rightarrow> (string list, 'w) rf_op" where
  "dataset_ids_for_retrieval req =
     (if rq_knowledge_space_ids req \<noteq> []
      then bind_op (assert_spaces (rq_project_id req) (rq_knowledge_space_ids req)) (\<lambda>_. return_op (rq_knowledge_space_ids req))
      else read_op (\<lambda>s. case space_ids_for_project (rq_project_id req) s of
             [] \<Rightarrow> Inl (ProviderError ''RagflowConfigurationError'') | ds \<Rightarrow> Inr ds))"

definition retrieval_call :: "KnowledgeRetrievalRequest \<Rightarrow> string list \<Rightarrow> RagflowCall" where
  "retrieval_call req dataset_ids = json_call ''POST'' ''/api/v1/retrieval''
     (JObj [(''question'', JStr (rq_query req)), (''dataset_ids'', JArr (map JStr dataset_ids)), (''document_ids'', JArr []),
        (''page'', JInt 1), (''page_size'', JInt (max 1 (min (max (rq_limit req * 2) 10) 100))),
        (''metadata_condition'', JObj [(''logic'', JStr ''and''),
           (''conditions'', JArr [condition_on project_field (rq_project_id req)])])])"

text \<open>\<open>float(score_raw)\<close>, with \<open>0.0\<close> for what it refuses.\<close>

definition chunk_score :: "'w RagflowConfig \<Rightarrow> json \<Rightarrow> rat res" where
  "chunk_score g v =
     (if float_overflows v then Inl OverflowError
      else Inr (case v of
                  JStr t \<Rightarrow> (case rg_float g t of Some x \<Rightarrow> x | None \<Rightarrow> 0)
                | _ \<Rightarrow> (case json_number_value v of Some x \<Rightarrow> x | None \<Rightarrow> 0)))"

definition chunk_of :: "'w RagflowConfig \<Rightarrow> KnowledgeRetrievalRequest \<Rightarrow> string \<Rightarrow> payload \<Rightarrow> DocumentMapping \<Rightarrow> string \<Rightarrow>
    rat \<Rightarrow> KnowledgeChunk" where
  "chunk_of g req dataset_id raw mapping content score =
     \<lparr>ch_project_id = rq_project_id req, ch_document_version_id = dm_document_version_id mapping, ch_content = content,
      ch_score = score, ch_knowledge_space_id = Some dataset_id,
      ch_provider_ref = (case json_get raw ''id'' JNull of JNull \<Rightarrow> None | v \<Rightarrow> Some (json_str (rg_repr g) v)),
      ch_page_no = Option.bind (map_of (dm_metadata mapping) ''page_no'') py_int,
      ch_section = map_of (dm_metadata mapping) ''section'', ch_metadata = dm_metadata mapping\<rparr>"

text \<open>The body of the loop over the raw chunks; \<open>None\<close> is \<open>continue\<close>.\<close>

definition scan_chunk :: "'w RagflowConfig \<Rightarrow> KnowledgeRetrievalRequest \<Rightarrow> string list \<Rightarrow> json \<Rightarrow> (KnowledgeChunk option, 'w) rf_op" where
  "scan_chunk g req allowed raw =
     (case raw of
        JObj m \<Rightarrow>
          (let dataset_id = json_str (rg_repr g) (json_get m ''dataset_id'' (JStr []));
               document_id = json_str (rg_repr g) (json_get m ''document_id'' (JStr []))
           in if dataset_id \<notin> set allowed then return_op None
              else if document_id = [] then return_op None
              else bind_op (resolve_document_mapping g dataset_id document_id) (\<lambda>resolved.
                case resolved of
                  None \<Rightarrow> return_op None
                | Some mapping \<Rightarrow>
                    if dm_project_id mapping \<noteq> rq_project_id req then return_op None
                    else if rq_document_version_ids req \<noteq> [] \<and>
                            dm_document_version_id mapping \<notin> set (rq_document_version_ids req) then return_op None
                    else (case json_get m ''content'' (json_get m ''content_with_weight'' (JStr [])) of
                            JStr content \<Rightarrow>
                              if content = [] then return_op None
                              else bind_op (of_res (chunk_score g (json_get m ''similarity'' (JFloat 0)))) (\<lambda>score.
                                return_op (Some (chunk_of g req dataset_id m mapping content score)))
                          | _ \<Rightarrow> return_op None)))
      | _ \<Rightarrow> return_op None)"

fun scan_chunks :: "'w RagflowConfig \<Rightarrow> KnowledgeRetrievalRequest \<Rightarrow> string list \<Rightarrow> json list \<Rightarrow> KnowledgeChunk list \<Rightarrow>
    (KnowledgeChunk list, 'w) rf_op" where
  "scan_chunks g req allowed [] found = return_op found"
| "scan_chunks g req allowed (raw # raws) found =
     bind_op (scan_chunk g req allowed raw) (\<lambda>chunk.
       case chunk of
         None \<Rightarrow> scan_chunks g req allowed raws found
       | Some c \<Rightarrow>
           if rq_limit req \<le> int (length found) + 1 then return_op (found @ [c])
           else scan_chunks g req allowed raws (found @ [c]))"

definition rf_retrieve :: "'w RagflowConfig \<Rightarrow> KnowledgeRetrievalRequest \<Rightarrow> (KnowledgeChunk list, 'w) rf_op" where
  "rf_retrieve g req =
     bind_op (dataset_ids_for_retrieval req) (\<lambda>dataset_ids.
     bind_op (request_data g (retrieval_call req dataset_ids)) (\<lambda>data.
       case (case data of JObj m \<Rightarrow> json_get m ''chunks'' (JArr []) | _ \<Rightarrow> JArr []) of
         JArr raws \<Rightarrow> scan_chunks g req dataset_ids raws []
       | _ \<Rightarrow> raise_op (ProviderError ''RagflowProtocolError'')))"

section \<open>The label of a call in the metrics\<close>

definition ragflow_operation :: "string \<Rightarrow> string \<Rightarrow> string" where
  "ragflow_operation verb path =
     (let v = py_upper verb;
          clean = rstrip_chars ''/'' (takeWhile (\<lambda>c. c \<noteq> CHR ''?'') path);
          parts = filter (\<lambda>w. w \<noteq> []) (split_slash clean);
          tail = drop 4 parts
      in if clean = ''/api/v1/retrieval'' \<and> v = ''POST'' then ''retrieve''
         else if clean = ''/api/v1/datasets'' \<and> v = ''GET'' then ''dataset_list''
         else if clean = ''/api/v1/datasets'' \<and> v = ''POST'' then ''dataset_create''
         else if 5 \<le> length parts \<and> take 3 parts = [''api'', ''v1'', ''datasets'']
         then (if tail = [''documents''] \<and> v = ''POST'' then ''document_upload''
               else if tail = [''documents''] \<and> v = ''GET'' then ''document_list''
               else if tail = [''documents''] \<and> v = ''DELETE'' then ''document_delete''
               else if length tail = 2 \<and> hd tail = ''documents'' \<and> v = ''PUT'' then ''document_metadata_update''
               else if tail = [''chunks''] \<and> v = ''POST'' then ''parse_start''
               else ''other'')
         else ''other'')"

end
