(* ===== verification/ObjectProofs.thy ===== *)
theory ObjectProofs
  imports ObjectStore
begin

text \<open>
  The object store implements a map from project and object id to bytes and type: an object that was put is
  read back unchanged, no operation touches another object or leaves the root, and what is read is what was
  hashed when it was written.
\<close>

section \<open>Keys\<close>

lemma split_slash_word: "CHR ''/'' \<notin> set w \<Longrightarrow> split_slash w = [w]"
  by (induction w) auto

lemma split_slash_append: "CHR ''/'' \<notin> set w \<Longrightarrow> split_slash (w @ CHR ''/'' # s) = w # split_slash s"
  by (induction w) auto

lemma split_join: "ws \<noteq> [] \<Longrightarrow> \<forall>w\<in>set ws. CHR ''/'' \<notin> set w \<Longrightarrow> split_slash (join_slash ws) = ws"
  by (induction ws rule: join_slash.induct) (auto simp: split_slash_word split_slash_append)

lemma alnum_char: "is_alnum c \<Longrightarrow> c \<notin> {CHR ''/'', CHR ''.'', CHR 0x5C, CHR 0x00}"
  by (auto simp: is_alnum_def is_alpha_def is_digit_def less_eq_char_def)

lemma project_id_chars:
  assumes "project_id_matches p"
  shows "p \<noteq> []" "hd p \<noteq> CHR ''.''" "c \<in> set p \<Longrightarrow> c \<notin> {CHR ''/'', CHR 0x5C, CHR 0x00}"
  using assms alnum_char by (auto simp: project_id_matches_def list_all_iff split: list.splits)

lemma uuid_chars: "c \<in> set (uuid_str u) \<Longrightarrow> c \<notin> {CHR ''/'', CHR ''.'', CHR 0x5C, CHR 0x00}"
  using uuid_str_chars [of u] by (auto simp: hex_chars_def)

lemma uuid_str_ne: "uuid_str u \<noteq> []"
  by (simp add: uuid_str_def Let_def)

lemma uuid_lower: "py_lower (uuid_str u) = uuid_str u"
proof -
  have "\<forall>c\<in>set ''0123456789abcdef-''. lower_char c = c" by (simp add: lower_char_def less_eq_char_def)
  then have "\<forall>c\<in>set (uuid_str u). lower_char c = c" using uuid_str_chars [of u] by (auto simp: hex_chars_def)
  then show ?thesis unfolding py_lower_def by (simp add: map_idI)
qed

lemma parse_stored_key:
  assumes p: "project_id_matches p"
  shows "parse_storage_key (storage_key p u) = Inr (p, u)"
proof -
  have parts: "\<forall>w\<in>set (object_parts p u). CHR ''/'' \<notin> set w \<and> w \<noteq> [] \<and> w \<noteq> ''.''"
    using project_id_chars [OF p] uuid_chars [of _ u] uuid_str_ne [of u] by (auto simp: object_parts_def)
  then have "path_names (storage_key p u) = object_parts p u"
    using split_join [of "object_parts p u"] by (simp add: path_names_def storage_key_def object_parts_def)
  moreover have "\<not> is_absolute (storage_key p u)" "storage_key p u \<noteq> []"
    by (simp_all add: is_absolute_def storage_key_def object_parts_def)
  moreover have "c \<notin> {CHR 0x5C, CHR 0x00}" if "c \<in> set (storage_key p u)" for c
    using that project_id_chars(3) [OF p, of c] uuid_chars [of c u] by (auto simp: storage_key_def object_parts_def)
  ultimately show ?thesis
    using p by (auto simp: parse_storage_key_def path_parts_def object_parts_def validate_project_id_def uuid_lower)
qed

lemma parse_storage_keyD: "parse_storage_key key = Inr (p, u) \<Longrightarrow> project_id_matches p"
  by (auto simp: parse_storage_key_def validate_project_id_def split: if_splits list.splits sum.splits)

lemma parse_storage_key_error: "parse_storage_key key = Inl e \<Longrightarrow> e = StoreSecurityError"
  by (auto simp: parse_storage_key_def validate_project_id_def split: if_splits list.splits sum.splits)

section \<open>Reading\<close>

text \<open>What the metadata must say for a payload to be read.\<close>

definition described :: "(string \<Rightarrow> string) \<Rightarrow> (json \<Rightarrow> string) \<Rightarrow> string \<Rightarrow> string \<Rightarrow> string \<Rightarrow> string \<Rightarrow> bool" where
  "described sha repr text key data mime \<longleftrightarrow>
     (\<exists>m h n mt k. json_loads text = Some (JObj m) \<and> map_of m ''sha256'' = Some h \<and>
        Option.bind (map_of m ''size_bytes'') json_int = Some n \<and> map_of m ''mime_type'' = Some mt \<and>
        map_of m ''storage_key'' = Some k \<and> json_str repr k = key \<and> json_str repr h = sha data \<and>
        n = int (length data) \<and> mime = json_str repr mt)"

lemma read_Inr_iff:
  "read_object sha repr key d fs = Inr found \<longleftrightarrow>
     (\<exists>data text mime. fs (d @ [''payload.bin'']) = Some (File data) \<and> fs (d @ [''metadata.json'']) = Some (File text) \<and>
        described sha repr text key data mime \<and>
        found = \<lparr>op_object_key = key, op_data = data, op_mime_type = mime, op_sha256 = sha data\<rparr>)"
proof (cases "\<exists>data text. fs (d @ [''payload.bin'']) = Some (File data) \<and> fs (d @ [''metadata.json'']) = Some (File text)")
  case True
  then show ?thesis
    unfolding read_object_def described_def by (auto split: option.splits json.splits if_splits)
next
  case False
  then show ?thesis
    unfolding read_object_def by (auto split: option.splits fs_node.splits)
qed

lemma read_files_error:
  assumes "fs (d @ [''payload.bin'']) = Some (File data)" and "fs (d @ [''metadata.json'']) = Some (File text)"
    and "\<And>mime. \<not> described sha repr text key data mime"
  shows "read_object sha repr key d fs = Inl StoreCorruptionError"
  using assms unfolding read_object_def described_def by (auto split: option.splits json.splits) blast

section \<open>Well-formed trees\<close>

definition under :: "string list \<Rightarrow> string list \<Rightarrow> bool" where
  "under p q \<longleftrightarrow> take (length p) q = p"

lemma under_iff: "under p q \<longleftrightarrow> (\<exists>r. q = p @ r)"
  unfolding under_def by (metis append_eq_conv_conj append_take_drop_id)

lemma under_append [simp]: "under p (p @ r)"
  by (auto simp: under_iff)

lemma under_butlast: "under p q \<Longrightarrow> q \<noteq> p \<Longrightarrow> under p (butlast q)"
  by (auto simp: under_iff butlast_append)

lemma under_of_butlast: "under p (butlast q) \<Longrightarrow> q \<noteq> [] \<Longrightarrow> under p q"
  unfolding under_iff by (metis append_assoc append_butlast_last_id)

definition tree :: "fs \<Rightarrow> bool" where
  "tree fs \<longleftrightarrow> fs [] = Some Dir \<and> (\<forall>q. q \<noteq> [] \<longrightarrow> fs q \<noteq> None \<longrightarrow> fs (butlast q) = Some Dir)"

lemma treeD: "tree fs \<Longrightarrow> fs q \<noteq> None \<Longrightarrow> q \<noteq> [] \<Longrightarrow> fs (butlast q) = Some Dir"
  by (simp add: tree_def)

lemma tree_ancestor:
  assumes "tree fs" and "fs (p @ r) \<noteq> None"
  shows "fs p \<noteq> None" and "r \<noteq> [] \<Longrightarrow> fs p = Some Dir"
  using assms(2)
proof (induction r rule: rev_induct)
  case (snoc x r)
  {
    case 1
    then have "fs (p @ r) = Some Dir" using treeD [OF assms(1), of "p @ r @ [x]"] by (simp add: butlast_append)
    then show ?case using snoc by simp
  next
    case 2
    then have "fs (p @ r) = Some Dir" using treeD [OF assms(1), of "p @ r @ [x]"] by (simp add: butlast_append)
    then show ?case using snoc by (cases "r = []") simp_all
  }
qed simp_all

lemma tree_add:
  assumes t: "tree fs" and q: "fs q = None" "fs (butlast q) = Some Dir" "q \<noteq> []"
  shows "tree (fs(q \<mapsto> x))"
proof -
  have "(fs(q \<mapsto> x)) (butlast r) = Some Dir" if "r \<noteq> []" "(fs(q \<mapsto> x)) r \<noteq> None" for r
  proof (cases "r = q")
    case True
    have "butlast q \<noteq> q" using q(3) by (metis length_butlast length_greater_0_conv less_irrefl diff_less zero_less_one)
    then show ?thesis using q(2) True by simp
  next
    case False
    then have "fs (butlast r) = Some Dir" using treeD [OF t] that by simp
    then show ?thesis using q(1) by auto
  qed
  moreover have "(fs(q \<mapsto> x)) [] = Some Dir" using t q(3) by (simp add: tree_def)
  ultimately show ?thesis by (simp add: tree_def)
qed

lemma tree_rmtree: "tree fs \<Longrightarrow> p \<noteq> [] \<Longrightarrow> tree (rmtree p fs)"
  using under_of_butlast unfolding tree_def rmtree_def under_def by (auto split: if_splits)

section \<open>The checks\<close>

text \<open>\<open>grown ps fs fs'\<close>: some of the missing paths \<open>ps\<close> have become directories, and nothing else has changed.\<close>

definition grown :: "string list set \<Rightarrow> fs \<Rightarrow> fs \<Rightarrow> bool" where
  "grown ps fs fs' \<longleftrightarrow> (\<forall>q. fs' q = fs q \<or> (fs q = None \<and> fs' q = Some Dir \<and> q \<in> ps))"

lemma grown_refl [simp]: "grown ps fs fs"
  by (simp add: grown_def)

lemma grown_trans: "grown ps fs fs' \<Longrightarrow> grown ps' fs' fs'' \<Longrightarrow> grown (ps \<union> ps') fs fs''"
  unfolding grown_def by (metis UnI1 UnI2)

fun steps :: "string list \<Rightarrow> string list \<Rightarrow> string list list" where
  "steps cur [] = []"
| "steps cur (p # ps) = (cur @ [p]) # steps (cur @ [p]) ps"

lemma mkdir_effect:
  assumes "mkdir_safe fault cur parts fs = (r, fs')" and "tree fs" and "fs cur = Some Dir"
  shows "tree fs' \<and> grown (set (steps cur parts)) fs fs' \<and> (r = Inr () \<longrightarrow> (\<forall>q\<in>set (steps cur parts). fs' q = Some Dir))"
  using assms
proof (induction fault cur parts fs rule: mkdir_safe.induct)
  case (2 fault cur part parts fs)
  let ?p = "cur @ [part]"
  show ?case
  proof (cases "fs ?p")
    case None
    note none = this
    show ?thesis
    proof (cases "fault = At_directory ?p")
      case False
      have t: "tree (fs(?p \<mapsto> Dir))" using tree_add [OF 2(4) None] 2(5) by simp
      have "tree fs' \<and> grown (set (steps ?p parts)) (fs(?p \<mapsto> Dir)) fs' \<and> (r = Inr () \<longrightarrow> (\<forall>q\<in>set (steps ?p parts). fs' q = Some Dir))"
      proof (rule 2(1) [OF refl None False _ t])
        show "mkdir_safe fault ?p parts (fs(?p \<mapsto> Dir)) = (r, fs')" using 2(3) None False by (simp add: Let_def)
      qed simp
      moreover have "grown {?p} fs (fs(?p \<mapsto> Dir))" using None by (simp add: grown_def)
      moreover have "fs' ?p = Some Dir" if "grown (set (steps ?p parts)) (fs(?p \<mapsto> Dir)) fs'"
        using that by (auto simp: grown_def dest: spec [of _ ?p])
      ultimately show ?thesis using grown_trans [of "{?p}" fs "fs(?p \<mapsto> Dir)" "set (steps ?p parts)" fs'] by simp
    qed (use 2(3,4) none in \<open>auto simp: Let_def\<close>)
  next
    case (Some x)
    show ?thesis
    proof (cases x)
      case Dir
      have "tree fs' \<and> grown (set (steps ?p parts)) fs fs' \<and> (r = Inr () \<longrightarrow> (\<forall>q\<in>set (steps ?p parts). fs' q = Some Dir))"
        using 2(2) [OF refl Some] 2(3,4) Some Dir by (simp add: Let_def)
      then show ?thesis using Some Dir by (auto simp: grown_def) (metis option.distinct(1))+
    qed (use 2(3,4) Some in \<open>auto simp: Let_def\<close>)
  qed
qed auto

text \<open>In a tree, the walk over the ancestors of a path refuses exactly the links among them.\<close>

lemma ancestors_iff:
  assumes "tree fs"
  shows "assert_ancestors_safe cur parts fs =
     (if \<exists>q\<in>set (steps cur parts). fs q = Some Link then Inl StoreSecurityError else Inr ())"
proof (induction parts arbitrary: cur)
  case (Cons p parts)
  have below: "fs q = None" if "fs (cur @ [p]) \<noteq> Some Dir" "q \<in> set (steps (cur @ [p]) parts)" for q
  proof -
    have "\<exists>r. r \<noteq> [] \<and> q = (cur @ [p]) @ r"
    proof -
      have "\<exists>r. r \<noteq> [] \<and> q = c @ r" if "q \<in> set (steps c ps)" for c ps
        using that by (induction ps arbitrary: c) (auto, metis append_assoc append_is_Nil_conv)
      then show ?thesis using that(2) by blast
    qed
    then show ?thesis using tree_ancestor(2) [OF assms] that(1) by blast
  qed
  show ?case
    using Cons.IH [of "cur @ [p]"] below
    by (cases "fs (cur @ [p])"; cases "the (fs (cur @ [p]))") (auto simp: Let_def)
qed simp

definition prefixes_of :: "string \<Rightarrow> uuid \<Rightarrow> string list list" where
  "prefixes_of p u = [[''projects''], [''projects'', p], [''projects'', p, ''objects'']]"

lemma steps_object: "steps [] (object_parts p u) = prefixes_of p u @ [object_parts p u]"
  by (simp add: object_parts_def prefixes_of_def)

lemma steps_parent: "steps [] (butlast (object_parts p u)) = prefixes_of p u"
  by (simp add: object_parts_def prefixes_of_def)

lemma reject_object:
  "reject_symlink (object_parts p u) fs =
     (if \<exists>q\<in>set (prefixes_of p u). regular_file (fs q) then Inl StoreOSError
      else if fs (object_parts p u) = Some Link then Inl StoreSecurityError else Inr ())"
  by (simp add: reject_symlink_def object_parts_def prefixes_of_def upt_conv_Cons)

lemma resolve_in_tree:
  assumes "tree fs" and "parse_storage_key key = Inr (p, u)"
  shows "resolve_existing_object_dir key fs =
     (if \<exists>q\<in>set (prefixes_of p u @ [object_parts p u]). fs q = Some Link then Inl StoreSecurityError
      else if \<exists>q\<in>set (prefixes_of p u). regular_file (fs q) then Inl StoreOSError
      else case fs (object_parts p u) of
        None \<Rightarrow> Inl StoreNotFound | Some Dir \<Rightarrow> Inr (object_parts p u) | _ \<Rightarrow> Inl StoreSecurityError)"
  using assms
  by (simp add: resolve_existing_object_dir_def Let_def ancestors_iff steps_object reject_object del: set_append
      split: option.splits fs_node.splits)

text \<open>Two trees that agree on an object, and on the links and files among its ancestors, read it alike.\<close>

definition same_object :: "string \<Rightarrow> uuid \<Rightarrow> fs \<Rightarrow> fs \<Rightarrow> bool" where
  "same_object p u fs fs' \<longleftrightarrow> (\<forall>r. fs' (object_parts p u @ r) = fs (object_parts p u @ r)) \<and>
     (\<forall>q\<in>set (prefixes_of p u). (fs' q = Some Link \<longleftrightarrow> fs q = Some Link) \<and> (regular_file (fs' q) \<longleftrightarrow> regular_file (fs q)))"

lemma same_object_reads:
  assumes "tree fs" and "tree fs'" and "parse_storage_key key = Inr (p, u)" and "same_object p u fs fs'"
  shows "get_object sha repr key fs' = get_object sha repr key fs" and "object_exists key fs' = object_exists key fs"
    and "resolve_existing_object_dir key fs' = resolve_existing_object_dir key fs"
proof -
  have d: "fs' (object_parts p u) = fs (object_parts p u)" "fs' (object_parts p u @ [x]) = fs (object_parts p u @ [x])" for x
    using assms(4) spec [of _ "[]"] by (auto simp: same_object_def dest: spec [of _ "[]"])
  have l: "(\<exists>q\<in>set (prefixes_of p u). fs' q = Some Link) \<longleftrightarrow> (\<exists>q\<in>set (prefixes_of p u). fs q = Some Link)"
    using assms(4) by (auto simp: same_object_def)
  have f: "(\<exists>q\<in>set (prefixes_of p u). regular_file (fs' q)) \<longleftrightarrow> (\<exists>q\<in>set (prefixes_of p u). regular_file (fs q))"
    using assms(4) by (auto simp: same_object_def)
  show res: "resolve_existing_object_dir key fs' = resolve_existing_object_dir key fs"
    unfolding resolve_in_tree [OF assms(1,3)] resolve_in_tree [OF assms(2,3)] set_append bex_Un l f by (simp add: d(1))
  have at: "x = object_parts p u" if "resolve_existing_object_dir key fs = Inr x" for x
    using that unfolding resolve_in_tree [OF assms(1,3)] by (auto split: if_splits option.splits fs_node.splits)
  show "get_object sha repr key fs' = get_object sha repr key fs"
    using at d(2) by (cases "resolve_existing_object_dir key fs") (simp_all add: get_object_def read_object_def res)
  show "object_exists key fs' = object_exists key fs"
    unfolding object_exists_def assms(3) sum.case prod.case Let_def ancestors_iff [OF assms(1)] ancestors_iff [OF assms(2)]
      steps_object set_append bex_Un l reject_object f by (simp add: d(1))
qed

lemma grown_same:
  assumes "grown ps fs fs'" and "\<And>q. q \<in> ps \<Longrightarrow> \<not> under (object_parts p u) q"
  shows "same_object p u fs fs'"
proof -
  have "fs' q = fs q" if "under (object_parts p u) q" for q
    using assms that unfolding grown_def by metis
  moreover have "(fs' q = Some Link \<longleftrightarrow> fs q = Some Link) \<and> (regular_file (fs' q) \<longleftrightarrow> regular_file (fs q))" for q
    using assms(1) unfolding grown_def regular_file_def by (cases "fs' q = fs q") (auto dest: spec [of _ q])
  ultimately show ?thesis by (simp add: same_object_def)
qed

lemma same_object_trans: "same_object p u a b \<Longrightarrow> same_object p u b c \<Longrightarrow> same_object p u a c"
  by (auto simp: same_object_def)

lemma object_parts_inject [simp]: "object_parts p u = object_parts p' u' \<longleftrightarrow> p = p' \<and> u = u'"
  by (simp add: object_parts_def)

lemma under_object:
  "under (object_parts p u) (object_parts p' u' @ r) \<longleftrightarrow> p = p' \<and> u = u'"
  "\<not> under (object_parts p u) (''.tmp'' # r)"
  "q \<in> set (prefixes_of p' u') \<Longrightarrow> \<not> under (object_parts p u) q"
  by (auto simp: under_def object_parts_def prefixes_of_def)

section \<open>Writing\<close>

abbreviation staging_of :: "uuid \<Rightarrow> string list" where
  "staging_of u \<equiv> [''.tmp'', uuid_str u @ ''.partial'']"

lemma tree_rename:
  assumes t: "tree fs" and "fs src = Some Dir" and "fs (butlast dst) = Some Dir" and "dst \<noteq> []" and "src \<noteq> []"
    and apart: "\<not> under dst src" "\<not> under src dst" "\<not> under src (butlast dst)"
  shows "tree (rename_dir src dst fs)"
proof -
  have dst_butlast: "\<not> under dst (butlast dst)" using assms(4) by (simp add: under_def) (metis append_butlast_last_id append_self_conv not_Cons_self2)
  have "rename_dir src dst fs (butlast q) = Some Dir" if q: "q \<noteq> []" "rename_dir src dst fs q \<noteq> None" for q
  proof (cases "under dst q")
    case True
    then obtain r where r: "q = dst @ r" by (auto simp: under_iff)
    then have "fs (src @ r) \<noteq> None" using q(2) by (simp add: rename_dir_def)
    then show ?thesis
    proof (cases "r = []")
      case True
      then have "butlast q = butlast dst" by (simp add: r)
      then show ?thesis using dst_butlast apart(3) assms(3) by (simp add: rename_dir_def under_def)
    next
      case False
      then have "fs (src @ butlast r) = Some Dir"
        using treeD [OF t \<open>fs (src @ r) \<noteq> None\<close>] by (simp add: butlast_append)
      then show ?thesis using False r by (simp add: rename_dir_def butlast_append)
    qed
  next
    case False
    then have s: "\<not> under src q" "fs q \<noteq> None" using q(2) by (auto simp: rename_dir_def under_def split: if_splits)
    have "\<not> under dst (butlast q)" "\<not> under src (butlast q)" using False s(1) under_of_butlast q(1) by blast+
    then show ?thesis using treeD [OF t s(2) q(1)] by (simp add: rename_dir_def under_def)
  qed
  moreover have "rename_dir src dst fs [] = Some Dir" using t assms(4,5) by (simp add: rename_dir_def tree_def)
  ultimately show ?thesis by (simp add: tree_def)
qed

text \<open>The faults that come too late to stop the rename, or at no call of the write.\<close>

definition renames :: "put_fault \<Rightarrow> bool" where
  "renames fault \<longleftrightarrow> fault \<notin> {At_mkdir, At_payload, At_metadata, At_replace}"

text \<open>The effect of a write, for every fault: everything outside the two directories stays, and the object is
  there, whole, or not at all.\<close>

lemma write_effect:
  assumes "write_object fault (staging_of u) (object_parts p u) data meta fs = (r, fs')"
    and t: "tree fs" and d: "fs [''.tmp''] = Some Dir" "fs [''projects'', p, ''objects''] = Some Dir"
    and free: "fs (staging_of u) = None" "fs (object_parts p u) = None"
  shows "tree fs' \<and> (\<forall>q. \<not> under (staging_of u) q \<longrightarrow> \<not> under (object_parts p u) q \<longrightarrow> fs' q = fs q) \<and>
     (if renames fault
      then fs' (object_parts p u) = Some Dir \<and> fs' (object_parts p u @ [''payload.bin'']) = Some (File data) \<and>
        fs' (object_parts p u @ [''metadata.json'']) = Some (File meta) \<and> (r = Inr () \<longleftrightarrow> fault \<noteq> At_parent_sync)
      else r = Inl StoreOSError \<and> (\<forall>q. under (object_parts p u) q \<longrightarrow> fs' q = fs q))"
proof -
  let ?s = "staging_of u" and ?o = "object_parts p u"
  define fs1 where "fs1 = fs(?s \<mapsto> Dir)"
  define fs2 where "fs2 = fs1(?s @ [''payload.bin''] \<mapsto> File data)"
  define fs3 where "fs3 = fs2(?s @ [''metadata.json''] \<mapsto> File meta)"
  have none: "fs (?s @ [x]) = None" for x
    using tree_ancestor(1) [OF t, of ?s "[x]"] free(1) by (metis (no_types))
  have t1: "tree fs1" unfolding fs1_def by (rule tree_add [OF t free(1)]) (use d(1) in simp_all)
  have t2: "tree fs2" unfolding fs2_def
    by (rule tree_add [OF t1]) (use none [of "''payload.bin''"] in \<open>simp_all add: fs1_def\<close>)
  have t3: "tree fs3" unfolding fs3_def
    by (rule tree_add [OF t2]) (use none [of "''metadata.json''"] in \<open>simp_all add: fs1_def fs2_def\<close>)
  have t4: "tree (rename_dir ?s ?o fs3)"
    by (rule tree_rename [OF t3]) (use d(2) in \<open>simp_all add: fs1_def fs2_def fs3_def object_parts_def under_def\<close>)
  have o: "fs3 q = fs q" if "\<not> under ?s q" for q using that by (auto simp: fs1_def fs2_def fs3_def under_def)
  have gone: "rmtree ?s f q = fs q" if "\<And>q. \<not> under ?s q \<Longrightarrow> f q = fs q" "\<not> under ?s q" for f q
    using that by (auto simp: rmtree_def under_def)
  have part: "fs1 q = fs q" "fs2 q = fs q" if "\<not> under ?s q" for q
    using that by (auto simp: fs1_def fs2_def under_def)
  have apart: "\<not> under ?s (?o @ r)" "?o @ r \<noteq> ?s @ q" for r q by (simp_all add: object_parts_def under_def)
  have cases: "write_object fault ?s ?o data meta fs =
      (case fault of At_mkdir \<Rightarrow> (Inl StoreOSError, fs) | At_payload \<Rightarrow> (Inl StoreOSError, rmtree ?s fs1)
       | At_metadata \<Rightarrow> (Inl StoreOSError, rmtree ?s fs2) | At_replace \<Rightarrow> (Inl StoreOSError, rmtree ?s fs3)
       | At_parent_sync \<Rightarrow> (Inl StoreOSError, rename_dir ?s ?o fs3) | _ \<Rightarrow> (Inr (), rename_dir ?s ?o fs3))"
    unfolding write_object_def Let_def fs3_def fs2_def fs1_def by (cases fault) simp_all
  have moved: "rename_dir ?s ?o fs3 q = fs q" if "\<not> under ?s q" "\<not> under ?o q" for q
    using that o by (auto simp: rename_dir_def under_def)
  have there: "rename_dir ?s ?o fs3 ?o = Some Dir" "rename_dir ?s ?o fs3 (?o @ [''payload.bin'']) = Some (File data)"
      "rename_dir ?s ?o fs3 (?o @ [''metadata.json'']) = Some (File meta)"
    by (simp_all add: rename_dir_def fs3_def fs2_def fs1_def object_parts_def)
  have away: "\<not> under ?s q" if "under ?o q" for q using that apart(1) by (auto simp: under_iff [of ?o])
  have rt: "tree (rmtree ?s f)" if "tree f" for f using tree_rmtree [OF that] by simp
  show ?thesis
    using assms(1) unfolding cases
    by (cases fault) (use t t4 rt [OF t1] rt [OF t2] rt [OF t3] gone [OF part(1)] gone [OF part(2)] gone [OF o] moved there away in \<open>auto simp: renames_def\<close>)
qed

section \<open>The operations\<close>

text \<open>What a put does: it refuses and at most makes directories, or it writes.\<close>

definition put_metadata_of :: "(string \<Rightarrow> string) \<Rightarrow> uuid \<Rightarrow> PutObjectRequest \<Rightarrow> string \<Rightarrow> payload" where
  "put_metadata_of sha u req logical = object_metadata (po_project_id req) logical (storage_key (po_project_id req) u)
     (int (length (po_data req))) (sha (po_data req)) (py_strip (po_mime_type req))"

definition put_dirs :: "string \<Rightarrow> uuid \<Rightarrow> string list set" where
  "put_dirs p u = set (prefixes_of p u) \<union> {[''.tmp'']}"

lemma put_cases:
  assumes put: "put_object sha fault u req fs = (r, fs')" and t: "tree fs"
  obtains (refused) e where "r = Inl e" "tree fs'" "grown (put_dirs (po_project_id req) u) fs fs'"
  | (wrote) fs2 logical where "project_id_matches (po_project_id req)" "tree fs2" "grown (put_dirs (po_project_id req) u) fs fs2"
      "\<forall>q\<in>put_dirs (po_project_id req) u. fs2 q = Some Dir" "fs2 (staging_of u) = None"
      "fs2 (object_parts (po_project_id req) u) = None"
      "write_object fault (staging_of u) (object_parts (po_project_id req) u) (po_data req)
         (flat_object_text (put_metadata_of sha u req logical)) fs2 = (map_sum id (\<lambda>_. ()) r, fs')"
      "\<And>so. r = Inr so \<Longrightarrow> so = \<lparr>so_object_key = storage_key (po_project_id req) u, so_sha256 = sha (po_data req),
         so_project_id = po_project_id req, so_size_bytes = int (length (po_data req)),
         so_mime_type = py_strip (po_mime_type req)\<rparr>"
proof -
  let ?p = "po_project_id req"
  show thesis
  proof (cases "validate_project_id ?p")
    case (Inl e)
    then show ?thesis using put t by (intro refused [of e]) (auto simp: put_object_def)
  next
    case (Inr p')
    then have p: "project_id_matches ?p" "p' = ?p" by (auto simp: validate_project_id_def split: if_splits)
    show ?thesis
    proof (cases "validate_logical_key (po_object_key req)")
      case (Inl e)
      then show ?thesis using put t \<open>validate_project_id ?p = Inr p'\<close> by (intro refused [of e]) (auto simp: put_object_def)
    next
      case (Inr logical)
      note k = this
      show ?thesis
      proof (cases "validate_mime_type (po_mime_type req)")
        case (Inl e)
        then show ?thesis using put t k \<open>validate_project_id ?p = Inr p'\<close> by (intro refused [of e]) (auto simp: put_object_def)
      next
        case (Inr mime)
        then have m: "mime = py_strip (po_mime_type req)" by (auto simp: validate_mime_type_def Let_def split: if_splits)
        obtain r1 fs1 where one: "mkdir_safe fault [] (butlast (object_parts ?p u)) fs = (r1, fs1)" by fastforce
        obtain r2 fs2 where two: "mkdir_safe fault [] [''.tmp''] fs1 = (r2, fs2)" by fastforce
        have root: "fs [] = Some Dir" using t by (simp add: tree_def)
        have e1: "tree fs1" "grown (set (prefixes_of ?p u)) fs fs1"
            "r1 = Inr () \<longrightarrow> (\<forall>q\<in>set (prefixes_of ?p u). fs1 q = Some Dir)"
          using mkdir_effect [OF one t root] unfolding steps_parent by auto
        have root1: "fs1 [] = Some Dir" using e1(1) by (simp add: tree_def)
        have e2: "tree fs2" "grown {[''.tmp'']} fs1 fs2" "r2 = Inr () \<longrightarrow> fs2 [''.tmp''] = Some Dir"
          using mkdir_effect [OF two e1(1) root1] by auto
        have g1: "grown (put_dirs ?p u) fs fs1" using e1(2) by (auto simp: grown_def put_dirs_def)
        have g2: "grown (put_dirs ?p u) fs fs2" using grown_trans [OF e1(2) e2(2)] by (simp add: put_dirs_def)
        note run = put [unfolded put_object_def \<open>validate_project_id ?p = Inr p'\<close> k Inr sum.case Let_def p(2) one two prod.case]
        show ?thesis
        proof (cases "r1 = Inr () \<and> fs1 (object_parts ?p u) = None \<and> r2 = Inr () \<and> fs2 (staging_of u) = None")
          case False
          then have "(\<exists>e. r = Inl e) \<and> (fs' = fs1 \<or> fs' = fs2)" using run by (auto split: sum.splits if_splits)
          then show ?thesis using refused e1(1) e2(1) g1 g2 by metis
        next
          case True
          have dirs: "\<forall>q\<in>put_dirs ?p u. fs2 q = Some Dir"
            using e1(3) e2 True unfolding put_dirs_def grown_def by (auto, metis option.distinct(1))
          have free: "fs2 (object_parts ?p u) = None"
            using e2(2) True by (auto simp: grown_def object_parts_def dest: spec [of _ "object_parts ?p u"])
          have w: "write_object fault (staging_of u) (object_parts ?p u) (po_data req)
              (flat_object_text (put_metadata_of sha u req logical)) fs2 = (map_sum id (\<lambda>_. ()) r, fs')"
            using run True m unfolding put_metadata_of_def by (auto split: prod.splits sum.splits)
          show ?thesis
            by (rule wrote [OF p(1) e2(1) g2 dirs _ free w]) (use True run m in \<open>auto split: prod.splits sum.splits\<close>)
        qed
      qed
    qed
  qed
qed

lemma put_dirs_apart: "q \<in> put_dirs p' u' \<Longrightarrow> \<not> under (object_parts p u) q"
  using under_object(2) [of p u "[]"] under_object(3) by (auto simp: put_dirs_def)

lemma metadata_read:
  "json_loads (flat_object_text (put_metadata_of sha u req logical)) = Some (JObj (put_metadata_of sha u req logical))"
  by (rule json_loads_flat) (simp_all add: put_metadata_of_def object_metadata_def)

lemma written_object:
  assumes "tree fs" and "\<forall>q\<in>set (prefixes_of p u). fs q = Some Dir" and "fs (object_parts p u) = Some Dir"
    and "fs (object_parts p u @ [''payload.bin'']) = Some (File (po_data req))"
    and "fs (object_parts p u @ [''metadata.json'']) = Some (File (flat_object_text (put_metadata_of sha u req logical)))"
    and "project_id_matches p" and "p = po_project_id req"
  shows "get_object sha repr (storage_key p u) fs = Inr \<lparr>op_object_key = storage_key p u, op_data = po_data req,
       op_mime_type = py_strip (po_mime_type req), op_sha256 = sha (po_data req)\<rparr>"
    and "object_exists (storage_key p u) fs = Inr True"
proof -
  have key: "parse_storage_key (storage_key p u) = Inr (p, u)" by (rule parse_stored_key [OF assms(6)])
  have "resolve_existing_object_dir (storage_key p u) fs = Inr (object_parts p u)"
    using assms(2,3) by (auto simp: resolve_in_tree [OF assms(1) key] regular_file_def)
  then show "get_object sha repr (storage_key p u) fs = Inr \<lparr>op_object_key = storage_key p u, op_data = po_data req,
       op_mime_type = py_strip (po_mime_type req), op_sha256 = sha (po_data req)\<rparr>"
    using assms(4,5,7)
    by (simp add: get_object_def read_object_def metadata_read)
      (simp add: put_metadata_of_def object_metadata_def json_str_def json_int_def)
  show "object_exists (storage_key p u) fs = Inr True"
    using assms(2,3) by (auto simp: object_exists_def key ancestors_iff [OF assms(1)] steps_object reject_object regular_file_def)
qed

text \<open>The abstract store: which objects can be read, with their bytes and type.\<close>

definition contents :: "(string \<Rightarrow> string) \<Rightarrow> (json \<Rightarrow> string) \<Rightarrow> fs \<Rightarrow> string \<times> uuid \<rightharpoonup> string \<times> string" where
  "contents sha repr fs = (\<lambda>(p, u).
     if project_id_matches p
     then (case get_object sha repr (storage_key p u) fs of
             Inr found \<Rightarrow> Some (op_data found, op_mime_type found) | Inl _ \<Rightarrow> None)
     else None)"

lemma same_contents:
  "tree fs \<Longrightarrow> tree fs' \<Longrightarrow> same_object p u fs fs' \<Longrightarrow> contents sha repr fs' (p, u) = contents sha repr fs (p, u)"
  using same_object_reads(1) [OF _ _ parse_stored_key] by (simp add: contents_def)

lemma missing_object:
  "tree fs \<Longrightarrow> fs (object_parts p u) = None \<Longrightarrow> contents sha repr fs (p, u) = None"
  using resolve_in_tree [OF _ parse_stored_key, of fs p u] by (auto simp: contents_def get_object_def)

lemma put_effect:
  assumes put: "put_object sha fault u req fs = (r, fs')" and t: "tree fs"
  shows "tree fs' \<and>
     (if (\<exists>so. r = Inr so) \<or> (fault = At_parent_sync \<and> contents sha repr fs' \<noteq> contents sha repr fs)
      then contents sha repr fs (po_project_id req, u) = None \<and>
        contents sha repr fs' = (contents sha repr fs)((po_project_id req, u) \<mapsto> (po_data req, py_strip (po_mime_type req)))
      else contents sha repr fs' = contents sha repr fs) \<and>
     (\<forall>so. r = Inr so \<longrightarrow> so_object_key so = storage_key (po_project_id req) u \<and> so_sha256 so = sha (po_data req) \<and>
        get_object sha repr (so_object_key so) fs' = Inr \<lparr>op_object_key = so_object_key so, op_data = po_data req,
          op_mime_type = so_mime_type so, op_sha256 = so_sha256 so\<rparr> \<and> object_exists (so_object_key so) fs' = Inr True)"
  using put t
proof (cases rule: put_cases)
  case (refused e)
  have "contents sha repr fs' (p, v) = contents sha repr fs (p, v)" for p v
    using same_contents [OF t refused(2) grown_same [OF refused(3) put_dirs_apart]] .
  then have "contents sha repr fs' = contents sha repr fs" by auto
  then show ?thesis using refused by auto
next
  case (wrote fs2 logical)
  let ?p = "po_project_id req" and ?o = "object_parts (po_project_id req) u"
  have dirs: "fs2 [''.tmp''] = Some Dir" "fs2 [''projects'', ?p, ''objects''] = Some Dir"
      "\<forall>q\<in>set (prefixes_of ?p u). fs2 q = Some Dir"
    using wrote(4) by (auto simp: put_dirs_def prefixes_of_def)
  note w = write_effect [OF wrote(7,2) dirs(1,2) wrote(5,6)]
  have outside: "fs' q = fs2 q" if "\<not> under (staging_of u) q" "\<not> under ?o q" for q
    using conjunct1 [OF conjunct2 [OF w]] that by blast
  have other: "same_object p v fs fs'" if "(p, v) \<noteq> (?p, u) \<or> (\<forall>q. under ?o q \<longrightarrow> fs' q = fs2 q)" for p v
  proof (rule same_object_trans [OF grown_same [OF wrote(3) put_dirs_apart]])
    have "\<not> under (staging_of u) q" if "q \<in> set (prefixes_of p v) \<or> (\<exists>r. q = object_parts p v @ r)" for q
      using that by (auto simp: prefixes_of_def object_parts_def under_def)
    then have out: "\<not> under (staging_of u) (object_parts p v @ x)" "y \<in> set (prefixes_of p v) \<Longrightarrow> \<not> under (staging_of u) y" for x y
      by blast+
    have eq: "fs' q = fs2 q" if "\<not> under (staging_of u) q" "\<not> under ?o q \<or> (\<forall>q. under ?o q \<longrightarrow> fs' q = fs2 q)" for q
    proof (cases "under ?o q")
      case True
      then have "\<forall>q. under ?o q \<longrightarrow> fs' q = fs2 q" using that(2) by (elim disjE) simp_all
      then show ?thesis using True by (elim allE [where x = q]) simp
    next
      case False
      then show ?thesis by (rule outside [OF that(1)])
    qed
    have "fs' (object_parts p v @ x) = fs2 (object_parts p v @ x)" for x
    proof (rule eq [OF out(1)])
      show "\<not> under ?o (object_parts p v @ x) \<or> (\<forall>q. under ?o q \<longrightarrow> fs' q = fs2 q)"
        using that under_object(1) [of ?p u p v x] by (elim disjE) auto
    qed
    moreover have "fs' y = fs2 y" if "y \<in> set (prefixes_of p v)" for y
      by (rule eq [OF out(2) [OF that]]) (use under_object(3) [OF that] in simp)
    ultimately show "same_object p v fs2 fs'" by (simp add: same_object_def)
  qed
  have old: "contents sha repr fs (?p, u) = None"
  proof -
    have "fs ?o = None" using wrote(3,6) unfolding grown_def by metis
    then show ?thesis by (rule missing_object [OF t])
  qed
  show ?thesis
  proof (cases "renames fault")
    case True
    have pre: "\<forall>q\<in>set (prefixes_of ?p u). fs' q = Some Dir"
      using w dirs(3) under_object(3) by (auto simp: prefixes_of_def under_def)
    have found: "get_object sha repr (storage_key ?p u) fs' = Inr \<lparr>op_object_key = storage_key ?p u, op_data = po_data req,
         op_mime_type = py_strip (po_mime_type req), op_sha256 = sha (po_data req)\<rparr>"
        "object_exists (storage_key ?p u) fs' = Inr True"
      using written_object [OF _ pre _ _ _ wrote(1) refl] w True by auto
    have "contents sha repr fs' (p, v) = ((contents sha repr fs)((?p, u) \<mapsto> (po_data req, py_strip (po_mime_type req)))) (p, v)" for p v
      using same_contents [OF t _ other] w found(1) wrote(1) by (auto simp: contents_def)
    then have "contents sha repr fs' = (contents sha repr fs)((?p, u) \<mapsto> (po_data req, py_strip (po_mime_type req)))" by auto
    moreover from this have "contents sha repr fs' \<noteq> contents sha repr fs" using old by (metis fun_upd_same option.distinct(1))
    ultimately show ?thesis using w old found wrote(8) True by (cases r) auto
  next
    case False
    then have "map_sum id (\<lambda>_. ()) r = Inl StoreOSError" "\<forall>q. under ?o q \<longrightarrow> fs' q = fs2 q" "tree fs'" using w by auto
    then have "r \<noteq> Inr so" "contents sha repr fs' (p, v) = contents sha repr fs (p, v)" for p v so
      using same_contents [OF t _ other] by auto
    then have "contents sha repr fs' = contents sha repr fs" "\<nexists>so. r = Inr so" by auto
    then show ?thesis using \<open>tree fs'\<close> False by auto
  qed
qed

text \<open>A deletion that was broken off: outside the object nothing has changed, and it is whole or unreadable.\<close>

lemma entries_effect:
  assumes "tree fs" and "p \<noteq> []"
  shows "tree (rmtree_entries removed p fs) \<and> (\<forall>q. \<not> under p q \<longrightarrow> rmtree_entries removed p fs q = fs q) \<and>
     rmtree_entries removed p fs p = fs p \<and>
     (\<forall>q. rmtree_entries removed p fs q = fs q \<or> rmtree_entries removed p fs q = None)"
  using assms
proof (induction removed arbitrary: fs)
  case (Cons r removed)
  obtain name below where r: "r = (name, below)" by fastforce
  let ?fs = "rmtree (p @ name # below) fs"
  have t: "tree ?fs" using Cons.prems by (intro tree_rmtree) simp_all
  have same: "?fs q = fs q" if "\<not> under p q \<or> q = p" for q
    using that by (auto simp: rmtree_def under_iff) (metis append_assoc append_take_drop_id)
  have "?fs q = fs q \<or> ?fs q = None" for q by (simp add: rmtree_def)
  then have "rmtree_entries removed p ?fs q = fs q \<or> rmtree_entries removed p ?fs q = None" for q
    using Cons.IH [OF t Cons.prems(2)] by metis
  then show ?case using Cons.IH [OF t Cons.prems(2)] same r by simp
qed simp

lemma entries_same:
  assumes "tree fs" and "(q, v) \<noteq> (p, u)"
  shows "same_object q v fs (rmtree_entries removed (object_parts p u) fs)"
    and "same_object q v fs (rmtree (object_parts p u) fs)"
proof -
  have "\<not> under (object_parts p u) (object_parts q v @ r)" "x \<in> set (prefixes_of q v) \<Longrightarrow> \<not> under (object_parts p u) x" for r x
    using assms(2) under_object(1) [of p u q v r] under_object(3) [of x q v p u] by auto
  moreover have "rmtree_entries removed (object_parts p u) fs x = fs x" if "\<not> under (object_parts p u) x" for x
    using entries_effect [OF assms(1), of "object_parts p u" removed] that by (simp add: object_parts_def)
  ultimately show "same_object q v fs (rmtree_entries removed (object_parts p u) fs)"
      "same_object q v fs (rmtree (object_parts p u) fs)"
    by (simp_all add: same_object_def rmtree_def under_def)
qed

lemma entries_contents:
  assumes t: "tree fs"
  shows "contents sha repr (rmtree_entries removed (object_parts p u) fs) \<in>
     {contents sha repr fs, (contents sha repr fs)((p, u) := None)}"
proof -
  let ?o = "object_parts p u" and ?fs = "rmtree_entries removed (object_parts p u) fs"
  have e: "tree ?fs" "?fs ?o = fs ?o" "\<And>q. \<not> under ?o q \<Longrightarrow> ?fs q = fs q" "\<And>q. ?fs q = fs q \<or> ?fs q = None"
    using entries_effect [OF t, of ?o removed] by (simp_all add: object_parts_def)
  have others: "contents sha repr ?fs (q, v) = contents sha repr fs (q, v)" if "(q, v) \<noteq> (p, u)" for q v
    by (rule same_contents [OF t e(1) entries_same(1) [OF t that]])
  have "contents sha repr ?fs (p, u) = contents sha repr fs (p, u) \<or> contents sha repr ?fs (p, u) = None"
  proof (cases "project_id_matches p")
    case True
    have pre: "?fs q = fs q" if "q \<in> set (prefixes_of p u)" for q by (rule e(3) [OF under_object(3) [OF that]])
    have d: "resolve_existing_object_dir (storage_key p u) ?fs = resolve_existing_object_dir (storage_key p u) fs"
      unfolding resolve_in_tree [OF t parse_stored_key [OF True]] resolve_in_tree [OF e(1) parse_stored_key [OF True]]
      using pre e(2) by simp
    show ?thesis
    proof (cases "resolve_existing_object_dir (storage_key p u) fs")
      case (Inr x)
      have "read_object sha repr key x ?fs = read_object sha repr key x fs \<or> (\<exists>err. read_object sha repr key x ?fs = Inl err)" for key
        using e(4) [of "x @ [''payload.bin'']"] e(4) [of "x @ [''metadata.json'']"]
        by (auto simp: read_object_def split: option.splits fs_node.splits)
      from this [of "storage_key p u"] show ?thesis
        using Inr d by (auto simp: contents_def get_object_def split: sum.splits)
    qed (simp add: contents_def get_object_def d)
  qed (simp add: contents_def)
  moreover have "contents sha repr ?fs = (contents sha repr fs)((p, u) := contents sha repr ?fs (p, u))"
    using others by (auto simp: fun_eq_iff)
  ultimately show ?thesis by (metis fun_upd_triv insert_iff)
qed

lemma rmtree_contents:
  assumes t: "tree fs"
  shows "contents sha repr (rmtree (object_parts p u) fs) = (contents sha repr fs)((p, u) := None)"
proof -
  have t': "tree (rmtree (object_parts p u) fs)" by (rule tree_rmtree [OF t]) (simp add: object_parts_def)
  have "contents sha repr (rmtree (object_parts p u) fs) (q, v) = contents sha repr fs (q, v)" if "(q, v) \<noteq> (p, u)" for q v
    by (rule same_contents [OF t t' entries_same(2) [OF t that]])
  moreover have "contents sha repr (rmtree (object_parts p u) fs) (p, u) = None"
    by (rule missing_object [OF t']) (simp add: rmtree_def)
  ultimately show ?thesis by auto
qed

lemma delete_effect:
  assumes del: "delete_object fault key fs = (r, fs')" and t: "tree fs" and key: "parse_storage_key key = Inr (p, u)"
  shows "tree fs' \<and>
     (if r = Inr () then contents sha repr fs' = (contents sha repr fs)((p, u) := None)
      else contents sha repr fs' = contents sha repr fs \<or>
        (fault \<noteq> No_delete_fault \<and> contents sha repr fs' = (contents sha repr fs)((p, u) := None)))"
proof -
  let ?o = "object_parts p u"
  have o: "?o \<noteq> []" by (simp add: object_parts_def)
  show ?thesis
  proof (cases "resolve_existing_object_dir key fs")
    case (Inl e)
    show ?thesis
    proof (cases "e = StoreNotFound")
      case True
      then have "fs ?o = None"
        using Inl unfolding resolve_in_tree [OF t key] by (auto split: if_splits option.splits fs_node.splits)
      then have "contents sha repr fs (p, u) = None" by (rule missing_object [OF t])
      then show ?thesis using del t Inl True by (auto simp: delete_object_def fun_upd_idem)
    next
      case False
      then have "r = Inl e" "fs' = fs" using del Inl by (auto simp: delete_object_def split: store_error.splits)
      then show ?thesis using t by simp
    qed
  next
    case (Inr d)
    then have d: "d = ?o" unfolding resolve_in_tree [OF t key] by (auto split: if_splits option.splits fs_node.splits)
    show ?thesis
      using del Inr d tree_rmtree [OF t o] rmtree_contents [OF t, of sha repr p u] entries_contents [OF t, of sha repr _ p u]
        entries_effect [OF t o]
      by (cases fault) (auto simp: delete_object_def)
  qed
qed

section \<open>Histories of the store\<close>

datatype store_event = Put put_fault uuid PutObjectRequest | Delete delete_fault string

fun apply_store :: "(string \<Rightarrow> string) \<Rightarrow> store_event \<Rightarrow> fs \<Rightarrow> (store_error + string) \<times> fs" where
  "apply_store sha (Put fault u req) fs =
     (case put_object sha fault u req fs of (r, fs') \<Rightarrow> (map_sum id so_object_key r, fs'))"
| "apply_store sha (Delete fault key) fs = (case delete_object fault key fs of (r, fs') \<Rightarrow> (map_sum id (\<lambda>_. key) r, fs'))"

text \<open>The abstract store: a map from project and object id, where an object is made once and removed whole. A
  put whose last \<open>fsync\<close> fails may have made its object, and a deletion that a system call broke off may have
  removed its object, or left what is no longer readable.\<close>

inductive map_step :: "(string \<times> uuid \<rightharpoonup> string \<times> string) \<Rightarrow> store_event \<Rightarrow> store_error + string \<Rightarrow>
    (string \<times> uuid \<rightharpoonup> string \<times> string) \<Rightarrow> bool" where
  map_put: "m (po_project_id req, u) = None \<Longrightarrow>
     map_step m (Put fault u req) (Inr (storage_key (po_project_id req) u))
       (m((po_project_id req, u) \<mapsto> (po_data req, py_strip (po_mime_type req))))"
| map_put_unsure: "m (po_project_id req, u) = None \<Longrightarrow>
     map_step m (Put At_parent_sync u req) (Inl e) (m((po_project_id req, u) \<mapsto> (po_data req, py_strip (po_mime_type req))))"
| map_refused: "map_step m ev (Inl e) m"
| map_delete: "parse_storage_key key = Inr k \<Longrightarrow> map_step m (Delete fault key) (Inr key) (m(k := None))"
| map_delete_unsure: "parse_storage_key key = Inr k \<Longrightarrow> fault \<noteq> No_delete_fault \<Longrightarrow>
     map_step m (Delete fault key) (Inl e) (m(k := None))"

lemma apply_store_refines:
  assumes "tree fs" and "apply_store sha ev fs = (r, fs')"
  shows "tree fs' \<and> map_step (contents sha repr fs) ev r (contents sha repr fs')"
proof (cases ev)
  case (Put fault u req)
  obtain q where q: "put_object sha fault u req fs = (q, fs')" "r = map_sum id so_object_key q"
    using assms(2) Put by (auto split: prod.splits)
  show ?thesis
    using put_effect [OF q(1) assms(1), where repr = repr] q(2) Put
    by (cases q) (auto intro: map_step.intros split: if_splits)
next
  case (Delete fault key)
  obtain q where q: "delete_object fault key fs = (q, fs')" "r = map_sum id (\<lambda>_. key) q"
    using assms(2) Delete by (auto split: prod.splits)
  show ?thesis
  proof (cases "parse_storage_key key")
    case (Inl e)
    then have "q = Inl e" "fs' = fs"
      using q(1) parse_storage_key_error [OF Inl]
      by (auto simp: delete_object_def resolve_existing_object_dir_def split: store_error.splits)
    then show ?thesis using q(2) assms(1) Delete by (auto intro: map_refused)
  next
    case (Inr k)
    then show ?thesis
      using delete_effect [OF q(1) assms(1), of "fst k" "snd k" sha repr] q(2) Delete map_delete [OF Inr]
        map_delete_unsure [OF Inr]
      by (cases q) (auto intro: map_refused)
  qed
qed

text \<open>A history: the events in order, with what each answered.\<close>

fun run_store :: "(string \<Rightarrow> string) \<Rightarrow> store_event list \<Rightarrow> fs \<Rightarrow> (store_error + string) list \<times> fs" where
  "run_store sha [] fs = ([], fs)"
| "run_store sha (ev # evs) fs =
     (case apply_store sha ev fs of (r, fs1) \<Rightarrow> (case run_store sha evs fs1 of (rs, fs2) \<Rightarrow> (r # rs, fs2)))"

inductive map_run :: "(string \<times> uuid \<rightharpoonup> string \<times> string) \<Rightarrow> (store_event \<times> (store_error + string)) list \<Rightarrow>
    (string \<times> uuid \<rightharpoonup> string \<times> string) \<Rightarrow> bool" where
  map_end: "map_run m [] m"
| map_more: "map_step m ev r m1 \<Longrightarrow> map_run m1 tr m2 \<Longrightarrow> map_run m ((ev, r) # tr) m2"

text \<open>C28: from every tree of directories, files and links, every history of puts and deletes of the object
  store is one of a map from project and object id to bytes and type, also when system calls fail: a put that
  returns a key adds exactly its object, which was not there before; one that raises adds nothing, unless only
  its last \<open>fsync\<close> failed; a delete that returns removes exactly its object, and one that raises leaves it as
  it was or, when a system call of the removal failed, unreadable; no other object ever changes.\<close>

theorem object_store_refines_map:
  assumes "tree fs" and "run_store sha evs fs = (rs, fs')"
  shows "tree fs' \<and> length rs = length evs \<and> map_run (contents sha repr fs) (zip evs rs) (contents sha repr fs')"
  using assms
proof (induction evs arbitrary: fs rs fs')
  case (Cons ev evs)
  obtain r fs1 where e: "apply_store sha ev fs = (r, fs1)" by fastforce
  obtain rs1 fs2 where r: "run_store sha evs fs1 = (rs1, fs2)" by fastforce
  have "tree fs1" "map_step (contents sha repr fs) ev r (contents sha repr fs1)"
    using apply_store_refines [OF Cons.prems(1) e] by blast+
  then show ?case using Cons.IH [OF _ r] Cons.prems(2) e r by (auto intro: map_more)
qed (auto intro: map_end)

lemma get_shape: "get_object sha repr key fs = Inr found \<Longrightarrow> op_object_key found = key \<and> op_sha256 found = sha (op_data found)"
  by (auto simp: get_object_def read_Inr_iff split: sum.splits)

lemma get_contents:
  "contents sha repr fs (p, u) = Some (d, mt) \<longleftrightarrow> project_id_matches p \<and>
     get_object sha repr (storage_key p u) fs = Inr \<lparr>op_object_key = storage_key p u, op_data = d, op_mime_type = mt, op_sha256 = sha d\<rparr>"
proof (cases "get_object sha repr (storage_key p u) fs")
  case (Inr found)
  then show ?thesis using get_shape [OF Inr] by (cases found) (auto simp: contents_def)
qed (simp add: contents_def)

text \<open>An event that cannot remove an object: not the delete of its key.\<close>

definition spares :: "string \<Rightarrow> uuid \<Rightarrow> store_event \<Rightarrow> bool" where
  "spares p u ev \<longleftrightarrow> (case ev of Put _ _ _ \<Rightarrow> True | Delete _ key \<Rightarrow> parse_storage_key key \<noteq> Inr (p, u))"

lemma step_keeps_object:
  assumes "map_step m ev r m'" and "spares p u ev" and "m (p, u) = Some x"
  shows "m' (p, u) = Some x"
  using assms by (cases rule: map_step.cases) (auto simp: spares_def)

lemma history_keeps_object:
  assumes "tree fs" and "contents sha repr fs (p, u) = Some x" and "\<forall>ev\<in>set evs. spares p u ev"
  shows "contents sha repr (fold (\<lambda>ev fs. snd (apply_store sha ev fs)) evs fs) (p, u) = Some x"
  using assms
proof (induction evs arbitrary: fs)
  case (Cons ev evs)
  obtain r fs' where e: "apply_store sha ev fs = (r, fs')" by fastforce
  have "tree fs'" "map_step (contents sha repr fs) ev r (contents sha repr fs')"
    using apply_store_refines [OF Cons.prems(1) e] by blast+
  then show ?case using Cons step_keeps_object e by auto
qed simp

lemma stored_object_read:
  assumes "tree fs" and "put_object sha fault u req fs = (Inr so, fs')" and "\<forall>ev\<in>set evs. spares (po_project_id req) u ev"
  shows "get_object sha repr (so_object_key so) (fold (\<lambda>ev fs. snd (apply_store sha ev fs)) evs fs') =
       Inr \<lparr>op_object_key = so_object_key so, op_data = po_data req, op_mime_type = so_mime_type so, op_sha256 = sha (po_data req)\<rparr>"
    and "so_sha256 so = sha (po_data req) \<and> so_size_bytes so = int (length (po_data req))"
proof -
  have so: "so = \<lparr>so_object_key = storage_key (po_project_id req) u, so_sha256 = sha (po_data req),
       so_project_id = po_project_id req, so_size_bytes = int (length (po_data req)),
       so_mime_type = py_strip (po_mime_type req)\<rparr>"
    by (rule put_cases [OF assms(2,1)]) auto
  have "tree fs'" "contents sha repr fs' (po_project_id req, u) = Some (po_data req, py_strip (po_mime_type req))"
    using put_effect [OF assms(2,1), where repr = repr] by auto
  then have "contents sha repr (fold (\<lambda>ev fs. snd (apply_store sha ev fs)) evs fs') (po_project_id req, u) =
      Some (po_data req, py_strip (po_mime_type req))"
    by (rule history_keeps_object [OF _ _ assms(3)])
  then show "get_object sha repr (so_object_key so) (fold (\<lambda>ev fs. snd (apply_store sha ev fs)) evs fs') =
       Inr \<lparr>op_object_key = so_object_key so, op_data = po_data req, op_mime_type = so_mime_type so, op_sha256 = sha (po_data req)\<rparr>"
    by (simp add: get_contents so)
  show "so_sha256 so = sha (po_data req) \<and> so_size_bytes so = int (length (po_data req))" by (simp add: so)
qed

text \<open>C29: what was put is read back: after a put that returned, its key reads as the bytes that were given, with
  the stripped type and their SHA-256, also after any later puts and after deletes of other keys.\<close>

theorem put_then_get:
  assumes "tree fs" and "put_object sha fault u req fs = (Inr so, fs')" and "\<forall>ev\<in>set evs. spares (po_project_id req) u ev"
  shows "so_sha256 so = sha (po_data req) \<and> so_size_bytes so = int (length (po_data req)) \<and>
     get_object sha repr (so_object_key so) (fold (\<lambda>ev fs. snd (apply_store sha ev fs)) evs fs') =
       Inr \<lparr>op_object_key = so_object_key so, op_data = po_data req, op_mime_type = so_mime_type so, op_sha256 = so_sha256 so\<rparr>"
  using stored_object_read [OF assms] by simp

text \<open>A key whose UUID is not written in lower case names the same object for \<open>exists\<close> and \<open>delete\<close>, but \<open>get\<close>
  calls the object corrupt; likewise any other spelling of the key.\<close>

theorem alias_key_unreadable:
  assumes "tree fs" and "put_object sha fault u req fs = (Inr so, fs')"
    and "parse_storage_key key = Inr (po_project_id req, u)" and "key \<noteq> so_object_key so"
  shows "object_exists key fs' = Inr True \<and> get_object sha repr key fs' = Inl StoreCorruptionError"
proof -
  have g: "get_object sha repr (so_object_key so) fs' = Inr \<lparr>op_object_key = so_object_key so, op_data = po_data req,
       op_mime_type = so_mime_type so, op_sha256 = so_sha256 so\<rparr>" "so_object_key so = storage_key (po_project_id req) u"
      "object_exists (so_object_key so) fs' = Inr True" "tree fs'"
    using put_effect [OF assms(2,1), where repr = repr] by auto
  have key: "parse_storage_key (so_object_key so) = Inr (po_project_id req, u)"
    using parse_stored_key [OF parse_storage_keyD [OF assms(3)]] g(2) by simp
  have "resolve_existing_object_dir key fs' = resolve_existing_object_dir (so_object_key so) fs'"
    "object_exists key fs' = object_exists (so_object_key so) fs'"
    by (simp_all add: resolve_existing_object_dir_def object_exists_def key assms(3))
  moreover obtain d where d: "resolve_existing_object_dir (so_object_key so) fs' = Inr d"
    using g(1) by (auto simp: get_object_def split: sum.splits)
  moreover have "read_object sha repr key d fs' = Inl StoreCorruptionError"
  proof -
    obtain data body mime where f: "fs' (d @ [''payload.bin'']) = Some (File data)"
        "fs' (d @ [''metadata.json'']) = Some (File body)" "described sha repr body (so_object_key so) data mime"
      using g(1) d by (auto simp: get_object_def read_Inr_iff)
    show ?thesis
      by (rule read_files_error [OF f(1,2)]) (use f(3) assms(4) in \<open>auto simp: described_def\<close>)
  qed
  ultimately show ?thesis using g(3) by (simp add: get_object_def)
qed

text \<open>A payload that was replaced by bytes of another hash is never read.\<close>

lemma tampering_detected:
  assumes "read_object sha repr key d fs = Inr found" and "sha data \<noteq> op_sha256 found"
  shows "read_object sha repr key d (fs(d @ [''payload.bin''] \<mapsto> File data)) = Inl StoreCorruptionError"
proof -
  obtain old body mime where f: "fs (d @ [''metadata.json'']) = Some (File body)" "described sha repr body key old mime"
      "op_sha256 found = sha old"
    using assms(1) by (auto simp: read_Inr_iff)
  have same: "\<not> described sha repr body key data mime'" for mime'
  proof
    assume "described sha repr body key data mime'"
    then obtain m h where h: "json_loads body = Some (JObj m)" "map_of m ''sha256'' = Some h" "json_str repr h = sha data"
      unfolding described_def by blast
    obtain m' h' where "json_loads body = Some (JObj m')" "map_of m' ''sha256'' = Some h'" "json_str repr h' = sha old"
      using f(2) unfolding described_def by blast
    then have "sha data = sha old" using h by simp
    then show False using assms(2) f(3) by simp
  qed
  show ?thesis by (rule read_files_error [OF _ _ same]) (simp_all add: f(1))
qed

section \<open>Witnesses\<close>

definition w_fs :: fs where
  "w_fs = [[] \<mapsto> Dir]"

definition w_sum :: "string \<Rightarrow> string" where
  "w_sum s = ''h'' @ s"

definition w_put :: PutObjectRequest where
  "w_put = \<lparr>po_project_id = ''demo'', po_object_key = ''a/b.txt'', po_data = ''hello'', po_mime_type = '' text/plain ''\<rparr>"

lemma w_tree: "tree w_fs"
  by (simp add: tree_def w_fs_def)

lemma w_put_returns: "fst (put_object w_sum No_fault 7 w_put w_fs) = Inr \<lparr>so_object_key = storage_key ''demo'' 7,
     so_sha256 = ''hhello'', so_project_id = ''demo'', so_size_bytes = 5, so_mime_type = ''text/plain''\<rparr>"
  by code_simp

definition w_evs :: "store_event list" where
  "w_evs = [Put No_fault 7 w_put, Put At_replace 8 w_put,
     Delete (At_rmtree [(''payload.bin'', [])]) (storage_key ''demo'' 7), Delete No_delete_fault (storage_key ''demo'' 7)]"

lemma object_store_refines_map_witness:
  "\<exists>rs fs'. run_store w_sum w_evs w_fs = (rs, fs') \<and> hd rs = Inr (storage_key ''demo'' 7) \<and> length rs = 4 \<and> tree fs' \<and>
     map_run (contents w_sum (\<lambda>_. []) w_fs) (zip w_evs rs) (contents w_sum (\<lambda>_. []) fs')"
proof -
  obtain rs fs' where r: "run_store w_sum w_evs w_fs = (rs, fs')" by fastforce
  have "hd rs = map_sum id so_object_key (fst (put_object w_sum No_fault 7 w_put w_fs))"
    using r by (auto simp: w_evs_def split: prod.splits)
  then show ?thesis
    using object_store_refines_map [OF w_tree r, where repr = "\<lambda>_. []"] r w_put_returns by (simp add: w_evs_def)
qed

lemma put_then_get_witness:
  "\<exists>so fs'. put_object w_sum No_fault 7 w_put w_fs = (Inr so, fs') \<and> so_object_key so = storage_key ''demo'' 7 \<and>
     get_object w_sum (\<lambda>_. []) (storage_key ''demo'' 7)
       (fold (\<lambda>ev fs. snd (apply_store w_sum ev fs)) [Put No_fault 9 w_put, Delete No_delete_fault (storage_key ''demo'' 8)] fs') =
     Inr \<lparr>op_object_key = storage_key ''demo'' 7, op_data = ''hello'', op_mime_type = ''text/plain'', op_sha256 = ''hhello''\<rparr>"
proof -
  obtain r fs' where p: "put_object w_sum No_fault 7 w_put w_fs = (r, fs')" by fastforce
  define so where "so = \<lparr>so_object_key = storage_key ''demo'' 7, so_sha256 = ''hhello'', so_project_id = ''demo'',
    so_size_bytes = 5, so_mime_type = ''text/plain''\<rparr>"
  have r: "r = Inr so" using w_put_returns p by (simp add: so_def)
  have spare: "\<forall>ev\<in>set [Put No_fault 9 w_put, Delete No_delete_fault (storage_key ''demo'' 8)]. spares (po_project_id w_put) 7 ev"
    by code_simp
  show ?thesis
    using put_then_get [OF w_tree p [unfolded r] spare, where repr = "\<lambda>_. []"] p r by (simp add: so_def w_put_def)
qed

end
