(* ===== verification/RagflowProofs.thy ===== *)
theory RagflowProofs
  imports Ragflow ObjectProofs
begin

text \<open>
  What the adapter guarantees whatever the provider answers: bounded retries, datasets that stay with their
  project, retrieval confined to the datasets and documents of the project, and uploads of the stored bytes; and
  the upload whose parsing is never started again.
\<close>

section \<open>Calls\<close>

text \<open>Nothing but the provider's state, the log of calls and the log of delays changes in a request.\<close>

definition called :: "RagflowCall \<Rightarrow> nat \<Rightarrow> rat list \<Rightarrow> 'w ragflow \<Rightarrow> 'w ragflow \<Rightarrow> bool" where
  "called call k ds s s' \<longleftrightarrow> rf_space_to_project s' = rf_space_to_project s \<and> rf_project_to_spaces s' = rf_project_to_spaces s \<and>
     rf_document_mappings s' = rf_document_mappings s \<and> rf_sent s' = rf_sent s @ replicate k call \<and>
     rf_slept s' = rf_slept s @ ds"

lemma send_step:
  "bind_op (rf_send g call) f s =
     (case rg_http g call (rf_world s) of (out, w) \<Rightarrow> f out (s\<lparr>rf_world := w, rf_sent := rf_sent s @ [call]\<rparr>))"
  by (simp add: rf_send_def bind_op_def split: prod.splits)

definition retry_delay :: "RagflowRetryPolicy \<Rightarrow> nat \<Rightarrow> rat" where
  "retry_delay p i = min (rp_base_delay_seconds p * 2 ^ i) (rp_max_delay_seconds p)"

lemma wait_step:
  "1 \<le> attempt \<Longrightarrow> bind_op (of_res (delay_for_retry p attempt)) (\<lambda>delay. bind_op (rf_sleep delay) (\<lambda>_. m)) s =
     (if 1024 < attempt then (Inl OverflowError, s) else m (s\<lparr>rf_slept := rf_slept s @ [retry_delay p (attempt - 1)]\<rparr>))"
  by (auto simp: delay_for_retry_def rf_sleep_def retry_delay_def)

text \<open>What the provider makes of the same call, sent so many times in a row.\<close>

fun consecutive :: "(RagflowCall \<Rightarrow> 'w \<Rightarrow> http_outcome \<times> 'w) \<Rightarrow> RagflowCall \<Rightarrow> nat \<Rightarrow> 'w \<Rightarrow> http_outcome list \<times> 'w" where
  "consecutive http call 0 w = ([], w)"
| "consecutive http call (Suc k) w =
     (case http call w of (out, w1) \<Rightarrow> (case consecutive http call k w1 of (outs, w2) \<Rightarrow> (out # outs, w2)))"

definition may_retry :: "http_outcome \<Rightarrow> bool" where
  "may_retry out \<longleftrightarrow>
     (case out of Http_response status _ \<Rightarrow> status = 429 \<or> 500 \<le> status | Http_transient _ \<Rightarrow> True | Http_exception _ \<Rightarrow> False)"

text \<open>What the last outcome means.\<close>

definition response_of :: "http_outcome \<Rightarrow> (nat \<times> json option) res" where
  "response_of out =
     (case out of
        Http_response status body \<Rightarrow>
          if 400 \<le> status then Inl (ProviderError ''RagflowHttpError'') else Inr (status, body)
      | Http_transient name \<Rightarrow> Inl (ProviderError name)
      | Http_exception name \<Rightarrow> Inl (ProviderError name))"

definition data_of :: "http_outcome \<Rightarrow> json res" where
  "data_of out =
     bind_res (response_of out) (\<lambda>(_, body).
       case body of
         Some (JObj m) \<Rightarrow>
           if json_is_zero (json_get m ''code'' JNull) then Inr (json_get m ''data'' JNull)
           else Inl (ProviderError ''RagflowApiError'')
       | _ \<Rightarrow> Inl (ProviderError ''RagflowProtocolError''))"

lemma attempt_step:
  assumes "rg_http g call (rf_world s) = (out, w)" and "1 \<le> attempt" and "attempt + left = rp_max_attempts (rg_policy g)"
  shows "rf_attempts g call attempt (Suc left) s =
     (let s1 = s\<lparr>rf_world := w, rf_sent := rf_sent s @ [call]\<rparr>
      in if \<not> may_retry out \<or> left = 0 then (response_of out, s1)
         else if 1024 < attempt then (Inl OverflowError, s1)
         else rf_attempts g call (Suc attempt) left (s1\<lparr>rf_slept := rf_slept s @ [retry_delay (rg_policy g) (attempt - 1)]\<rparr>))"
  using assms
  by (cases out) (auto simp: send_step may_retry_def response_of_def wait_step Let_def)

text \<open>The attempts from number \<open>Suc a\<close> on, exactly.\<close>

lemma attempts_exact:
  assumes "Suc a + left = rp_max_attempts (rg_policy g)" and "a \<le> 1024"
  shows "\<exists>k outs w. k \<le> left \<and> a + k \<le> 1024 \<and> consecutive (rg_http g) call (Suc k) (rf_world s) = (outs, w) \<and>
     (\<forall>out\<in>set (butlast outs). may_retry out) \<and> (may_retry (last outs) \<longrightarrow> k = left \<or> a + k = 1024) \<and>
     rf_attempts g call (Suc a) (Suc left) s =
       (if may_retry (last outs) \<and> k < left then Inl OverflowError else response_of (last outs),
        s\<lparr>rf_world := w, rf_sent := rf_sent s @ replicate (Suc k) call,
          rf_slept := rf_slept s @ map (retry_delay (rg_policy g)) [a..<a + k]\<rparr>)"
  using assms
proof (induction left arbitrary: a s)
  case 0
  obtain out w where o: "rg_http g call (rf_world s) = (out, w)" by fastforce
  then show ?case using attempt_step [OF o, of "Suc a" 0] 0 by (intro exI [of _ 0]) (simp add: Let_def)
next
  case (Suc left)
  obtain out w where o: "rg_http g call (rf_world s) = (out, w)" by fastforce
  let ?s1 = "s\<lparr>rf_world := w, rf_sent := rf_sent s @ [call]\<rparr>"
  note step = attempt_step [OF o, of "Suc a" "Suc left"]
  show ?case
  proof (cases "may_retry out \<and> a < 1024")
    case False
    then show ?thesis using step o Suc.prems by (intro exI [of _ 0]) (auto simp: Let_def)
  next
    case True
    let ?s2 = "?s1\<lparr>rf_slept := rf_slept s @ [retry_delay (rg_policy g) a]\<rparr>"
    obtain k outs w' where k: "k \<le> left" "Suc a + k \<le> 1024" "consecutive (rg_http g) call (Suc k) w = (outs, w')"
        "\<forall>out\<in>set (butlast outs). may_retry out" "may_retry (last outs) \<longrightarrow> k = left \<or> Suc a + k = 1024"
        "rf_attempts g call (Suc (Suc a)) (Suc left) ?s2 =
           (if may_retry (last outs) \<and> k < left then Inl OverflowError else response_of (last outs),
            ?s2\<lparr>rf_world := w', rf_sent := rf_sent ?s2 @ replicate (Suc k) call,
              rf_slept := rf_slept ?s2 @ map (retry_delay (rg_policy g)) [Suc a..<Suc a + k]\<rparr>)"
      using Suc.IH [of "Suc a" ?s2] Suc.prems True by auto
    have "outs \<noteq> []" using k(3) by (auto split: prod.splits)
    moreover have "consecutive (rg_http g) call (Suc (Suc k)) (rf_world s) = (out # outs, w')"
      by (subst consecutive.simps) (simp add: o k(3) del: consecutive.simps)
    moreover have "rf_attempts g call (Suc a) (Suc (Suc left)) s = rf_attempts g call (Suc (Suc a)) (Suc left) ?s2"
      using step True Suc.prems by (simp add: Let_def)
    moreover have "[a..<a + Suc k] = a # [Suc a..<Suc a + k]" by (simp add: upt_conv_Cons)
    ultimately show ?thesis
      using k(1,2,4,5) True
      by (intro exI [of _ "Suc k"] exI [of _ "out # outs"] exI [of _ w'] conjI)
        (simp_all add: k(6) del: consecutive.simps rf_attempts.simps upt_Suc)
  qed
qed

lemma request_exact:
  assumes "1 \<le> rp_max_attempts (rg_policy g)"
  shows "\<exists>k outs w. 1 \<le> k \<and> k \<le> min 1025 (rp_max_attempts (rg_policy g)) \<and>
     consecutive (rg_http g) call k (rf_world s) = (outs, w) \<and>
     (\<forall>out\<in>set (butlast outs). may_retry out) \<and>
     (may_retry (last outs) \<longrightarrow> k = min 1025 (rp_max_attempts (rg_policy g))) \<and>
     request_data g call s =
       (if may_retry (last outs) \<and> k < rp_max_attempts (rg_policy g) then Inl OverflowError else data_of (last outs),
        s\<lparr>rf_world := w, rf_sent := rf_sent s @ replicate k call,
          rf_slept := rf_slept s @ map (retry_delay (rg_policy g)) [0..<k - 1]\<rparr>)"
proof -
  obtain left where left: "rp_max_attempts (rg_policy g) = Suc left" using assms by (cases "rp_max_attempts (rg_policy g)") auto
  obtain k outs w where k: "k \<le> left" "k \<le> 1024" "consecutive (rg_http g) call (Suc k) (rf_world s) = (outs, w)"
      "\<forall>out\<in>set (butlast outs). may_retry out" "may_retry (last outs) \<longrightarrow> k = left \<or> k = 1024"
      "rf_attempts g call 1 (Suc left) s =
         (if may_retry (last outs) \<and> k < left then Inl OverflowError else response_of (last outs),
          s\<lparr>rf_world := w, rf_sent := rf_sent s @ replicate (Suc k) call,
            rf_slept := rf_slept s @ map (retry_delay (rg_policy g)) [0..<k]\<rparr>)"
    using attempts_exact [of 0 left g call s] left by auto
  have "request_data g call s =
      (if may_retry (last outs) \<and> k < left then Inl OverflowError else data_of (last outs),
        s\<lparr>rf_world := w, rf_sent := rf_sent s @ replicate (Suc k) call,
          rf_slept := rf_slept s @ map (retry_delay (rg_policy g)) [0..<k]\<rparr>)"
    using k(6)
    by (auto simp: request_data_def rf_request_def left bind_op_def data_of_def bind_res_def
        split: sum.splits option.splits json.splits)
  then show ?thesis using k(1-5) left by (intro exI [of _ "Suc k"] exI [of _ outs] exI [of _ w]) auto
qed

lemma request_called:
  assumes "request_data g call s = (r, s')" and "1 \<le> rp_max_attempts (rg_policy g)"
  shows "\<exists>k ds. called call k ds s s'"
  using request_exact [OF assms(2), of call s] assms(1) by (auto simp: called_def)

lemma policy_of_init:
  assumes "init_retry_policy n base most = Inr p"
  shows "n = int (rp_max_attempts p)" "1 \<le> rp_max_attempts p" "rp_base_delay_seconds p = base" "rp_max_delay_seconds p = most"
  using assms by (auto simp: init_retry_policy_def split: if_splits)

text \<open>C27: with a retry policy that its constructor accepts, a request is decided by what the provider makes of
  the same call sent up to as many times as the policy allows: every outcome but the last is a transport failure,
  a 429 or a 5xx, and the last is another one or that of the last attempt. Between two attempts it waits the base
  delay, doubled each time up to the largest delay; it changes nothing else of the adapter; and it answers what
  the last outcome means. (From the 1025th attempt on the delay overflows instead.)\<close>

theorem client_retries_bounded:
  assumes "init_retry_policy n base most = Inr (rg_policy g)" and "request_data g call s = (r, s')"
  shows "\<exists>k outs w. 1 \<le> k \<and> int k \<le> min 1025 n \<and> consecutive (rg_http g) call k (rf_world s) = (outs, w) \<and>
     (\<forall>out\<in>set (butlast outs). may_retry out) \<and> (may_retry (last outs) \<longrightarrow> int k = min 1025 n) \<and>
     s' = s\<lparr>rf_world := w, rf_sent := rf_sent s @ replicate k call,
            rf_slept := rf_slept s @ map (\<lambda>i. min (base * 2 ^ i) most) [0..<k - 1]\<rparr> \<and>
     r = (if may_retry (last outs) \<and> int k < n then Inl OverflowError else data_of (last outs))"
proof -
  note p = policy_of_init [OF assms(1)]
  have "retry_delay (rg_policy g) = (\<lambda>i. min (base * 2 ^ i) most)" by (simp add: fun_eq_iff retry_delay_def p(3,4))
  moreover obtain k outs w where k: "1 \<le> k" "k \<le> min 1025 (rp_max_attempts (rg_policy g))"
      "consecutive (rg_http g) call k (rf_world s) = (outs, w)" "\<forall>out\<in>set (butlast outs). may_retry out"
      "may_retry (last outs) \<longrightarrow> k = min 1025 (rp_max_attempts (rg_policy g))"
      "request_data g call s =
       (if may_retry (last outs) \<and> k < rp_max_attempts (rg_policy g) then Inl OverflowError else data_of (last outs),
        s\<lparr>rf_world := w, rf_sent := rf_sent s @ replicate k call,
          rf_slept := rf_slept s @ map (retry_delay (rg_policy g)) [0..<k - 1]\<rparr>)"
    using request_exact [OF p(2), of call s] by blast
  ultimately show ?thesis
    using assms(2) by (intro exI [of _ k] exI [of _ outs] exI [of _ w] conjI) (simp_all add: p(1) of_nat_min)
qed

section \<open>Retrieval\<close>

locale adapter =
  fixes g :: "'w RagflowConfig"
  assumes attempts: "1 \<le> rp_max_attempts (rg_policy g)"
begin

lemma request_state:
  assumes "request_data g call s = (r, s')"
  shows "rf_space_to_project s' = rf_space_to_project s" "rf_project_to_spaces s' = rf_project_to_spaces s"
    "rf_document_mappings s' = rf_document_mappings s" "\<exists>k. rf_sent s' = rf_sent s @ replicate k call"
  using request_called [OF assms attempts] by (auto simp: called_def)

text \<open>A request keeps every assertion about bindings, mappings and the set of calls sent.\<close>

lemma request_keeps:
  assumes "\<And>s s' k. P s \<Longrightarrow> rf_space_to_project s' = rf_space_to_project s \<Longrightarrow> rf_project_to_spaces s' = rf_project_to_spaces s \<Longrightarrow>
      rf_document_mappings s' = rf_document_mappings s \<Longrightarrow> rf_sent s' = rf_sent s @ replicate k call \<Longrightarrow> P s'"
  shows "keeps P (request_data g call)"
  using assms request_state by (intro tripleI) metis+

end

lemma pair_triples [simp]:
  "triple P (Pair (Inl e)) Q E \<longleftrightarrow> (\<forall>s. P s \<longrightarrow> E s)" "triple P (Pair (Inr x)) Q E \<longleftrightarrow> (\<forall>s. P s \<longrightarrow> Q x s)"
  "triple P (raise_op e) Q E \<longleftrightarrow> (\<forall>s. P s \<longrightarrow> E s)" "triple P (return_op x) Q E \<longleftrightarrow> (\<forall>s. P s \<longrightarrow> Q x s)"
  by (simp_all add: triple_def)

text \<open>The calls of a retrieval: the search over datasets of the project, and documents of those datasets.\<close>

definition confined_call :: "(string \<rightharpoonup> string) \<Rightarrow> KnowledgeRetrievalRequest \<Rightarrow> RagflowCall \<Rightarrow> bool" where
  "confined_call bound req call \<longleftrightarrow>
     (\<exists>ds. call = retrieval_call req ds \<and> (\<forall>d\<in>set ds. bound d = Some (rq_project_id req))) \<or>
     (\<exists>d params. call = get_call (documents_path d) params \<and> bound d = Some (rq_project_id req))"

definition stays :: "'w ragflow \<Rightarrow> KnowledgeRetrievalRequest \<Rightarrow> 'w ragflow \<Rightarrow> bool" where
  "stays s0 req s \<longleftrightarrow> rf_space_to_project s = rf_space_to_project s0 \<and> rf_project_to_spaces s = rf_project_to_spaces s0 \<and>
     map_le (rf_document_mappings s0) (rf_document_mappings s) \<and>
     (\<exists>cs. rf_sent s = rf_sent s0 @ cs \<and> (\<forall>c\<in>set cs. confined_call (rf_space_to_project s0) req c))"

text \<open>A chunk of the project: from a dataset bound to it, of a document that is mapped to it, of a wanted version.\<close>

definition own_chunk :: "'w ragflow \<Rightarrow> KnowledgeRetrievalRequest \<Rightarrow> 'w ragflow \<Rightarrow> KnowledgeChunk \<Rightarrow> bool" where
  "own_chunk s0 req s c \<longleftrightarrow> ch_project_id c = rq_project_id req \<and> ch_content c \<noteq> [] \<and>
     (rq_document_version_ids req = [] \<or> ch_document_version_id c \<in> set (rq_document_version_ids req)) \<and>
     (\<exists>d doc m. ch_knowledge_space_id c = Some d \<and> rf_space_to_project s0 d = Some (rq_project_id req) \<and>
        rf_document_mappings s (d, doc) = Some m \<and> dm_project_id m = rq_project_id req \<and>
        dm_document_version_id m = ch_document_version_id c)"

lemma own_chunk_mono:
  "own_chunk s0 req s c \<Longrightarrow> map_le (rf_document_mappings s) (rf_document_mappings s') \<Longrightarrow> own_chunk s0 req s' c"
  unfolding own_chunk_def map_le_def by (metis domI)

context adapter begin

lemma stays_request:
  assumes "confined_call (rf_space_to_project s0) req call"
  shows "keeps (\<lambda>s. stays s0 req s \<and> F (rf_document_mappings s)) (request_data g call)"
  by (rule request_keeps) (use assms in \<open>fastforce simp: stays_def\<close>)

lemma triple_res: "triple P (of_res r) (\<lambda>x s. P s \<and> r = Inr x) P"
  by (rule triple_of_res) auto

lemma stays_documents:
  assumes "rf_space_to_project s0 d = Some (rq_project_id req)"
  shows "keeps (\<lambda>s. stays s0 req s \<and> F (rf_document_mappings s)) (list_documents g d doc cond)"
  unfolding list_documents_def
proof (rule triple_bind [OF stays_request])
  show "confined_call (rf_space_to_project s0) req
      (get_call (documents_path d) ([(''page'', JInt 1), (''page_size'', JInt 100)] @
        (if doc = [] then [] else [(''id'', JStr doc)]) @
        (case cond of None \<Rightarrow> [] | Some c \<Rightarrow> [(''metadata_condition'', JStr (json_dumps (rg_repr g) c))])))"
    using assms unfolding confined_call_def by blast
qed (auto split: json.splits option.splits)

lemma stays_document:
  assumes "rf_space_to_project s0 d = Some (rq_project_id req)"
  shows "keeps (\<lambda>s. stays s0 req s \<and> F (rf_document_mappings s)) (get_document g d doc)"
  unfolding get_document_def
  by (rule triple_bind [OF stays_documents [OF assms]]) (auto split: option.splits)

text \<open>Resolving a document remembers its mapping and forgets none.\<close>

lemma stays_resolve:
  assumes "rf_space_to_project s0 d = Some (rq_project_id req)"
  shows "triple (\<lambda>s. stays s0 req s \<and> map_le M (rf_document_mappings s)) (resolve_document_mapping g d doc)
     (\<lambda>x s. stays s0 req s \<and> map_le M (rf_document_mappings s) \<and> (\<forall>m. x = Some m \<longrightarrow> rf_document_mappings s (d, doc) = Some m))
     (\<lambda>s. stays s0 req s \<and> map_le M (rf_document_mappings s))"
proof -
  let ?new = "\<lambda>s. (stays s0 req s \<and> map_le M (rf_document_mappings s)) \<and> rf_document_mappings s (d, doc) = None"
  have fetch: "triple ?new (bind_op (get_document g d doc) (\<lambda>document.
            case mapping_from_document g document of
              None \<Rightarrow> return_op None
            | Some mapping \<Rightarrow>
                bind_op (modify_op (\<lambda>s. s\<lparr>rf_document_mappings := (rf_document_mappings s)((d, doc) \<mapsto> mapping)\<rparr>))
                  (\<lambda>_. return_op (Some mapping))))
     (\<lambda>x s. stays s0 req s \<and> map_le M (rf_document_mappings s) \<and> (\<forall>m. x = Some m \<longrightarrow> rf_document_mappings s (d, doc) = Some m))
     (\<lambda>s. stays s0 req s \<and> map_le M (rf_document_mappings s))"
  proof (rule triple_bind)
    show "triple ?new (get_document g d doc) (\<lambda>_. ?new) (\<lambda>s. stays s0 req s \<and> map_le M (rf_document_mappings s))"
      by (rule triple_post [OF triple_pre [OF stays_document [OF assms,
            where F = "\<lambda>m. map_le M m \<and> m (d, doc) = None"]]]) auto
  next
    fix document
    have grow: "map_le A (N(k \<mapsto> v))" if "map_le A N" "N k = None" for A N and k :: "string \<times> string" and v :: DocumentMapping
      using that unfolding map_le_def by (metis domIff fun_upd_other)
    show "triple ?new (case mapping_from_document g document of None \<Rightarrow> return_op None
        | Some mapping \<Rightarrow> bind_op (modify_op (\<lambda>s. s\<lparr>rf_document_mappings := (rf_document_mappings s)((d, doc) \<mapsto> mapping)\<rparr>))
            (\<lambda>_. return_op (Some mapping)))
     (\<lambda>x s. stays s0 req s \<and> map_le M (rf_document_mappings s) \<and> (\<forall>m. x = Some m \<longrightarrow> rf_document_mappings s (d, doc) = Some m))
     (\<lambda>s. stays s0 req s \<and> map_le M (rf_document_mappings s))"
      by (cases "mapping_from_document g document")
        (auto simp: triple_def return_op_def bind_op_def modify_op_def stays_def intro!: grow)
  qed
  show ?thesis
    unfolding triple_def
  proof (intro allI impI)
    fix s assume s: "stays s0 req s \<and> map_le M (rf_document_mappings s)"
    show "case resolve_document_mapping g d doc s of (Inl e, s') \<Rightarrow> stays s0 req s' \<and> map_le M (rf_document_mappings s')
      | (Inr x, s') \<Rightarrow> stays s0 req s' \<and> map_le M (rf_document_mappings s') \<and> (\<forall>m. x = Some m \<longrightarrow> rf_document_mappings s' (d, doc) = Some m)"
    proof (cases "rf_document_mappings s (d, doc)")
      case None
      then show ?thesis using fetch s unfolding triple_def resolve_document_mapping_def by auto
    qed (use s in \<open>simp add: resolve_document_mapping_def\<close>)
  qed
qed

lemma stays_mono:
  "stays s0 req s \<and> map_le M (rf_document_mappings s) \<Longrightarrow> stays s0 req s" by simp

lemma own_chunk_of:
  assumes "rf_space_to_project s0 d = Some (rq_project_id req)" and "rf_document_mappings s (d, doc) = Some mapping"
    and "dm_project_id mapping = rq_project_id req" "content \<noteq> []"
    and "rq_document_version_ids req = [] \<or> dm_document_version_id mapping \<in> set (rq_document_version_ids req)"
  shows "own_chunk s0 req s (chunk_of g req d m mapping content score)"
  using assms by (auto simp: own_chunk_def chunk_of_def)

lemma scan_chunk_own:
  assumes "\<forall>d\<in>set allowed. rf_space_to_project s0 d = Some (rq_project_id req)"
  shows "triple (\<lambda>s. stays s0 req s \<and> map_le M (rf_document_mappings s)) (scan_chunk g req allowed raw)
     (\<lambda>x s. (stays s0 req s \<and> map_le M (rf_document_mappings s)) \<and> (\<forall>c. x = Some c \<longrightarrow> own_chunk s0 req s c))
     (\<lambda>s. stays s0 req s \<and> map_le M (rf_document_mappings s))"
proof (cases raw)
  case (JObj m)
  define d where "d = json_str (rg_repr g) (json_get m ''dataset_id'' (JStr []))"
  define doc where "doc = json_str (rg_repr g) (json_get m ''document_id'' (JStr []))"
  show ?thesis
  proof (cases "d \<in> set allowed \<and> doc \<noteq> []")
    case True
    then have d: "rf_space_to_project s0 d = Some (rq_project_id req)" using assms by blast
    have guard: "(d \<notin> set allowed) = False" "(doc = []) = False" using True by simp_all
    have score: "triple P (bind_op (of_res r) (\<lambda>score. return_op (Some (chunk_of g req d m mp content score)))) Q E"
      if "\<And>s. P s \<Longrightarrow> E s" "\<And>s x. P s \<Longrightarrow> Q (Some (chunk_of g req d m mp content x)) s" for P Q E r mp content
      by (rule triple_bind [OF triple_of_res [where Q = "\<lambda>_. P"]]) (use that in auto)
    show ?thesis
      unfolding JObj scan_chunk_def json.case d_def [symmetric] doc_def [symmetric] Let_def guard if_False
    proof (rule triple_bind [OF stays_resolve [OF d]])
      fix resolved
      show "triple (\<lambda>s. stays s0 req s \<and> map_le M (rf_document_mappings s) \<and>
              (\<forall>mp. resolved = Some mp \<longrightarrow> rf_document_mappings s (d, doc) = Some mp))
        (case resolved of None \<Rightarrow> return_op None | Some mapping \<Rightarrow>
           if dm_project_id mapping \<noteq> rq_project_id req then return_op None
           else if rq_document_version_ids req \<noteq> [] \<and> dm_document_version_id mapping \<notin> set (rq_document_version_ids req)
           then return_op None
           else (case json_get m ''content'' (json_get m ''content_with_weight'' (JStr [])) of
                   JStr content \<Rightarrow> if content = [] then return_op None
                     else bind_op (of_res (chunk_score g (json_get m ''similarity'' (JFloat 0)))) (\<lambda>score.
                       return_op (Some (chunk_of g req d m mapping content score)))
                 | _ \<Rightarrow> return_op None))
        (\<lambda>x s. (stays s0 req s \<and> map_le M (rf_document_mappings s)) \<and> (\<forall>c. x = Some c \<longrightarrow> own_chunk s0 req s c))
        (\<lambda>s. stays s0 req s \<and> map_le M (rf_document_mappings s))"
        by (auto split: option.splits json.splits intro!: score intro: own_chunk_of [OF d])
    qed
  qed (auto simp: JObj scan_chunk_def Let_def d_def doc_def)
qed (simp_all add: scan_chunk_def)

lemma scan_chunks_own:
  assumes "\<forall>d\<in>set allowed. rf_space_to_project s0 d = Some (rq_project_id req)"
  shows "triple (\<lambda>s. stays s0 req s \<and> (\<forall>c\<in>set found. own_chunk s0 req s c) \<and> int (length found) < max 1 (rq_limit req))
     (scan_chunks g req allowed raws found)
     (\<lambda>cs s. stays s0 req s \<and> (\<forall>c\<in>set cs. own_chunk s0 req s c) \<and> int (length cs) \<le> max 1 (rq_limit req))
     (stays s0 req)"
proof (induction raws arbitrary: found)
  case (Cons raw raws)
  have one: "triple (\<lambda>s. stays s0 req s \<and> (\<forall>c\<in>set found. own_chunk s0 req s c) \<and> int (length found) < max 1 (rq_limit req))
     (scan_chunk g req allowed raw)
     (\<lambda>x s. stays s0 req s \<and> (\<forall>c\<in>set found. own_chunk s0 req s c) \<and> int (length found) < max 1 (rq_limit req) \<and>
        (\<forall>c. x = Some c \<longrightarrow> own_chunk s0 req s c)) (stays s0 req)"
  proof (rule tripleI)
    fix s s' e assume a: "stays s0 req s \<and> (\<forall>c\<in>set found. own_chunk s0 req s c) \<and> int (length found) < max 1 (rq_limit req)"
      "scan_chunk g req allowed raw s = (Inl e, s')"
    have "stays s0 req s \<and> map_le (rf_document_mappings s) (rf_document_mappings s)" using a(1) by simp
    then show "stays s0 req s'" using triple_Inl [OF scan_chunk_own [OF assms] _ a(2)] by blast
  next
    fix s s' x assume a: "stays s0 req s \<and> (\<forall>c\<in>set found. own_chunk s0 req s c) \<and> int (length found) < max 1 (rq_limit req)"
      "scan_chunk g req allowed raw s = (Inr x, s')"
    have "stays s0 req s \<and> map_le (rf_document_mappings s) (rf_document_mappings s)" using a(1) by simp
    then have "stays s0 req s'" "map_le (rf_document_mappings s) (rf_document_mappings s')" "\<forall>c. x = Some c \<longrightarrow> own_chunk s0 req s' c"
      using triple_Inr [OF scan_chunk_own [OF assms, where M = "rf_document_mappings s"] _ a(2)] by simp_all
    then show "stays s0 req s' \<and> (\<forall>c\<in>set found. own_chunk s0 req s' c) \<and> int (length found) < max 1 (rq_limit req) \<and>
        (\<forall>c. x = Some c \<longrightarrow> own_chunk s0 req s' c)" using a(1) own_chunk_mono by blast
  qed
  show ?case
    unfolding scan_chunks.simps
  proof (rule triple_bind [OF one])
    fix x
    show "triple (\<lambda>s. stays s0 req s \<and> (\<forall>c\<in>set found. own_chunk s0 req s c) \<and> int (length found) < max 1 (rq_limit req) \<and>
        (\<forall>c. x = Some c \<longrightarrow> own_chunk s0 req s c))
      (case x of None \<Rightarrow> scan_chunks g req allowed raws found
       | Some c \<Rightarrow> if rq_limit req \<le> int (length found) + 1 then return_op (found @ [c])
           else scan_chunks g req allowed raws (found @ [c]))
      (\<lambda>cs s. stays s0 req s \<and> (\<forall>c\<in>set cs. own_chunk s0 req s c) \<and> int (length cs) \<le> max 1 (rq_limit req)) (stays s0 req)"
    proof (cases x)
      case None
      then show ?thesis using Cons.IH [of found] by (auto intro: triple_pre)
    next
      case (Some c)
      show ?thesis
      proof (cases "rq_limit req \<le> int (length found) + 1")
        case False
        then show ?thesis unfolding Some option.case if_not_P [OF False]
          by (intro triple_pre [OF Cons.IH [of "found @ [c]"]]) auto
      qed (auto simp: Some)
    qed
  qed
qed auto

end

text \<open>The two directions of the bindings agree.\<close>

definition rf_ok :: "'w ragflow \<Rightarrow> bool" where
  "rf_ok s \<longleftrightarrow> (\<forall>p d. rf_space_to_project s d = Some p \<longleftrightarrow> (\<exists>ds. rf_project_to_spaces s p = Some ds \<and> d \<in> set ds))"

lemma asserted_spaces:
  "assert_spaces p ds s = (r, s') \<Longrightarrow> s' = s \<and> (r = Inr () \<longrightarrow> (\<forall>d\<in>set ds. rf_space_to_project s d = Some p))"
proof (induction p ds arbitrary: s rule: assert_spaces.induct)
  case (2 p d ds)
  then show ?case by (auto simp: assert_space_for_project_def bind_op_def split: if_splits)
qed simp

lemma retrieval_datasets:
  assumes "dataset_ids_for_retrieval req s = (r, s')" and "rf_ok s"
  shows "s' = s \<and> (\<forall>ds. r = Inr ds \<longrightarrow> (\<forall>d\<in>set ds. rf_space_to_project s d = Some (rq_project_id req)))"
proof (cases "rq_knowledge_space_ids req = []")
  case True
  have "\<forall>d\<in>set (space_ids_for_project (rq_project_id req) s). rf_space_to_project s d = Some (rq_project_id req)"
    using assms(2) by (cases "rf_project_to_spaces s (rq_project_id req)") (auto simp: space_ids_for_project_def rf_ok_def)
  then show ?thesis using assms(1) True by (auto simp: dataset_ids_for_retrieval_def split: list.splits)
next
  case False
  then show ?thesis
    using assms(1) asserted_spaces [of "rq_project_id req" "rq_knowledge_space_ids req" s]
    by (auto simp: dataset_ids_for_retrieval_def bind_op_def split: prod.splits sum.splits)
qed


lemma policy_adapter: "init_retry_policy n base most = Inr (rg_policy g) \<Longrightarrow> adapter g"
  by unfold_locales (rule policy_of_init(2))

text \<open>An adapter with the policy that the class defaults to.\<close>

interpretation default_adapter: adapter "g\<lparr>rg_policy := default_policy\<rparr>" for g :: "'w RagflowConfig"
  by unfold_locales (simp_all add: default_policy_def)

section \<open>Histories of an adapter\<close>

datatype rf_event =
    Bind_authorized string string
  | Ensure string string
  | Ingest KnowledgeIngestionRequest
  | Status string
  | Search KnowledgeRetrievalRequest
  | Delete_document DeleteKnowledgeDocumentRequest
  | Delete_space string string string

definition ignoring :: "('a, 's) op \<Rightarrow> (unit, 's) op" where
  "ignoring m = bind_op m (\<lambda>_. return_op ())"

fun rf_apply :: "'w RagflowConfig \<Rightarrow> rf_event \<Rightarrow> (unit, 'w) rf_op" where
  "rf_apply g (Bind_authorized p d) = bind_space p d"
| "rf_apply g (Ensure p k) = ignoring (ensure_space g p k)"
| "rf_apply g (Ingest req) = ignoring (ingest g req)"
| "rf_apply g (Status job) = ignoring (get_ingestion_status g job)"
| "rf_apply g (Search req) = ignoring (rf_retrieve g req)"
| "rf_apply g (Delete_document req) = delete_provider_document g req"
| "rf_apply g (Delete_space p d name) = delete_owned_space g p d name"

fun rf_run :: "'w RagflowConfig \<Rightarrow> rf_event list \<Rightarrow> 'w ragflow \<Rightarrow> 'w ragflow" where
  "rf_run g [] s = s"
| "rf_run g (ev # evs) s = rf_run g evs (snd (rf_apply g ev s))"

text \<open>Assertions about the bindings alone that a new binding keeps.\<close>

definition about_bindings :: "('w ragflow \<Rightarrow> bool) \<Rightarrow> bool" where
  "about_bindings K \<longleftrightarrow> (\<forall>s s'. K s \<longrightarrow> rf_space_to_project s' = rf_space_to_project s \<longrightarrow>
      rf_project_to_spaces s' = rf_project_to_spaces s \<longrightarrow> K s') \<and> (\<forall>p d. keeps K (bind_space p d))"

lemma keepsD:
  assumes "keeps K m" and "K s" and "m s = (r, s')"
  shows "K s'"
  using assms(3) triple_Inl [OF assms(1,2)] triple_Inr [OF assms(1,2)] by (cases r) blast+

lemma keeps_then: "keeps K m \<Longrightarrow> (\<And>x. keeps K (f x)) \<Longrightarrow> keeps K (bind_op m f)"
  by (rule triple_bind)

lemma keeps_of_res: "keeps K (of_res r)"
  by (rule triple_of_res)

lemma keeps_read: "keeps K (read_op f)"
  by (auto simp: triple_def read_op_def split: sum.splits)

lemma keeps_try: "keeps K m \<Longrightarrow> (\<And>e. keeps K (h e)) \<Longrightarrow> (\<And>x. keeps K (k x)) \<Longrightarrow> keeps K (try_op m h k)"
  by (rule triple_try)

context adapter begin

lemma keeps_request: "about_bindings K \<Longrightarrow> keeps K (request_data g call)"
  by (rule request_keeps) (auto simp: about_bindings_def)

lemma keeps_bind_space: "about_bindings K \<Longrightarrow> keeps K (bind_space p d)"
  by (auto simp: about_bindings_def)

lemma keeps_mappings: "about_bindings K \<Longrightarrow> keeps K (modify_op (\<lambda>s. s\<lparr>rf_document_mappings := f s\<rparr>))"
  by (auto simp: about_bindings_def triple_def modify_op_def)

lemmas keeping = keeps_then keeps_of_res keeps_read keeps_try keeps_request keeps_bind_space keeps_mappings

lemma keeps_find: "about_bindings K \<Longrightarrow> keeps K (find_dataset_from g target fuel page seen)"
  by (induction fuel arbitrary: page seen) (auto intro!: keeping simp: Let_def split: option.splits)

lemma keeps_list: "about_bindings K \<Longrightarrow> keeps K (list_documents g d doc cond)"
  unfolding list_documents_def by (intro keeps_then keeps_request) (auto split: json.splits option.splits)

lemma keeps_get: "about_bindings K \<Longrightarrow> keeps K (get_document g d doc)"
  unfolding get_document_def by (intro keeps_then keeps_list) (auto split: option.splits)

lemma keeps_resolve:
  assumes "about_bindings K"
  shows "keeps K (resolve_document_mapping g d doc)"
proof -
  have "keeps K (bind_op (get_document g d doc) (\<lambda>document.
      case mapping_from_document g document of None \<Rightarrow> return_op None
      | Some mapping \<Rightarrow> bind_op (modify_op (\<lambda>s. s\<lparr>rf_document_mappings := (rf_document_mappings s)((d, doc) \<mapsto> mapping)\<rparr>))
          (\<lambda>_. return_op (Some mapping))))"
    by (intro keeps_then keeps_get assms) (auto intro!: keeping assms split: option.splits)
  then show ?thesis
    unfolding triple_def resolve_document_mapping_def by (auto split: option.splits)
qed

lemma keeps_scan:
  assumes "about_bindings K"
  shows "keeps K (scan_chunk g req allowed raw)"
  unfolding scan_chunk_def Let_def
  by (cases raw) (auto intro!: keeps_then keeps_resolve keeps_of_res assms split: option.splits json.splits)

lemma keeps_scans:
  assumes "about_bindings K"
  shows "keeps K (scan_chunks g req allowed raws found)"
proof (induction raws arbitrary: found)
  case (Cons raw raws)
  then show ?case
    unfolding scan_chunks.simps by (intro keeps_then keeps_scan assms) (auto split: option.splits)
qed simp

lemma keeps_retrieve:
  assumes "about_bindings K"
  shows "keeps K (rf_retrieve g req)"
proof -
  have "keeps K (assert_spaces p ds)" for p ds
    using asserted_spaces [of p ds] by (fastforce simp: triple_def split: prod.splits sum.splits)
  then have "keeps K (dataset_ids_for_retrieval req)"
    unfolding dataset_ids_for_retrieval_def by (auto intro!: keeps_then keeps_read)
  then show ?thesis
    unfolding rf_retrieve_def
    by (intro keeps_then keeps_request assms) (auto intro!: keeps_scans assms split: json.splits)
qed

lemma keeps_upload: "about_bindings K \<Longrightarrow> keeps K (upload_new_document g object_get req)"
  unfolding upload_new_document_def best_effort_delete_provider_document_def
  by (intro keeping) simp_all

lemma keeps_ingest: "about_bindings K \<Longrightarrow> keeps K (ingest g req)"
  unfolding ingest_def
  by (cases "rg_object_get g") (auto intro!: keeps_then keeps_bind_space keeps_list keeps_upload keeps_of_res split: option.splits)

lemma keeps_ensure: "about_bindings K \<Longrightarrow> keeps K (ensure_space g p k)"
  unfolding ensure_space_def find_visible_dataset_by_name_def
  by (auto intro!: keeps_then keeps_of_res keeps_find keeps_request keeps_bind_space split: option.splits json.splits)

lemma keeps_status: "about_bindings K \<Longrightarrow> keeps K (get_ingestion_status g job)"
  unfolding get_ingestion_status_def by (auto intro!: keeps_then keeps_of_res keeps_get simp: Let_def split: prod.splits)

lemma keeps_delete: "about_bindings K \<Longrightarrow> keeps K (delete_provider_document g req)"
  unfolding delete_provider_document_def by (auto intro!: keeps_then keeps_bind_space keeps_list keeps_of_res keeps_request keeps_mappings)

lemma keeps_event:
  assumes "about_bindings K" and "\<And>p d name. ev \<noteq> Delete_space p d name"
  shows "keeps K (rf_apply g ev)"
  using assms(2)
  by (cases ev) (auto simp: ignoring_def intro!: keeps_then keeps_bind_space keeps_ensure keeps_ingest keeps_status keeps_retrieve
      keeps_delete assms(1))

end

definition spaces_of :: "'w ragflow \<Rightarrow> string \<Rightarrow> string set" where
  "spaces_of s p = (case rf_project_to_spaces s p of Some ds \<Rightarrow> set ds | None \<Rightarrow> {})"

lemma rf_ok_iff: "rf_ok s \<longleftrightarrow> (\<forall>p d. rf_space_to_project s d = Some p \<longleftrightarrow> d \<in> spaces_of s p)"
proof -
  have "d \<in> spaces_of s p \<longleftrightarrow> (\<exists>ds. rf_project_to_spaces s p = Some ds \<and> d \<in> set ds)" for p d
    by (cases "rf_project_to_spaces s p") (simp_all add: spaces_of_def)
  then show ?thesis by (simp add: rf_ok_def)
qed

lemma bind_space_cases:
  assumes "bind_space p d s = (r, s')"
  obtains (refused) "s' = s" "r \<noteq> Inr ()"
  | (bound) "rf_space_to_project s' = (rf_space_to_project s)(d \<mapsto> p)" "rf_space_to_project s d \<in> {None, Some p}"
      "\<And>q. spaces_of s' q = (if q = p then insert d (spaces_of s p) else spaces_of s q)" "r = Inr ()"
      "rf_document_mappings s' = rf_document_mappings s" "rf_sent s' = rf_sent s" "rf_world s' = rf_world s"
proof (cases "rf_space_to_project s d \<in> {None, Some p}")
  case True
  then have "s' = s\<lparr>rf_space_to_project := (rf_space_to_project s)(d \<mapsto> p),
            rf_project_to_spaces := (rf_project_to_spaces s)(p \<mapsto>
              List.insert d (case rf_project_to_spaces s p of Some ds \<Rightarrow> ds | None \<Rightarrow> []))\<rparr>" "r = Inr ()"
    using assms by (auto simp: bind_space_def)
  then show thesis using True by (intro bound) (auto simp: spaces_of_def split: option.splits)
next
  case False
  then show thesis using assms by (intro refused) (auto simp: bind_space_def split: option.splits if_splits)
qed

lemma bind_space_ok: "keeps rf_ok (bind_space p d)"
proof -
  have "rf_ok s'" if ok: "rf_ok s" and run: "bind_space p d s = (r, s')" for s s' r
    using run
  proof (cases rule: bind_space_cases)
    case bound
    have "d \<notin> spaces_of s q" if "q \<noteq> p" for q
    proof
      assume "d \<in> spaces_of s q"
      then have "rf_space_to_project s d = Some q" using ok unfolding rf_ok_iff by blast
      then show False using bound(2) that by simp
    qed
    then show ?thesis using ok unfolding rf_ok_iff bound(1,3) by auto
  qed (use ok in simp)
  then show ?thesis by (intro tripleI) blast+
qed

lemma about_ok: "about_bindings rf_ok"
  using bind_space_ok by (auto simp: about_bindings_def rf_ok_def)

lemma about_bound: "about_bindings (\<lambda>s. rf_ok s \<and> rf_space_to_project s d = Some p)"
  unfolding about_bindings_def
proof (intro conjI allI impI)
  fix q e
  show "keeps (\<lambda>s. rf_ok s \<and> rf_space_to_project s d = Some p) (bind_space q e)"
  proof (rule tripleI)
    fix s s' x assume a: "rf_ok s \<and> rf_space_to_project s d = Some p" "bind_space q e s = (Inr x, s')"
    then have "rf_ok s'" using triple_Inr [OF bind_space_ok] by blast
    then show "rf_ok s' \<and> rf_space_to_project s' d = Some p"
      using a by (auto simp: bind_space_def split: option.splits if_splits)
  qed (auto simp: bind_space_def split: option.splits if_splits)
qed (auto simp: rf_ok_def)

end
