(* ===== verification/RagflowSafety.thy ===== *)
theory RagflowSafety
  imports RagflowProofs
begin

text \<open>
  The adapter over its whole life: datasets stay with their project, retrieval stays within the project, uploads
  carry the stored bytes, and an upload whose parsing was not started is taken for done.
\<close>

section \<open>Bindings over a history\<close>

lemma delete_owned_cases:
  fixes s :: "'w ragflow"
  assumes "adapter g" and "delete_owned_space g p d name s = (r, s')"
  shows "(rf_space_to_project s' = rf_space_to_project s \<and> rf_project_to_spaces s' = rf_project_to_spaces s) \<or>
     (rf_space_to_project s d = Some p \<and> rf_space_to_project s' = (rf_space_to_project s)(d := None) \<and>
      rf_project_to_spaces s' = (rf_project_to_spaces s)(p := map_option (removeAll d) (rf_project_to_spaces s p)))"
proof -
  define K where "K = (\<lambda>t :: 'w ragflow. rf_space_to_project t = rf_space_to_project s \<and> rf_project_to_spaces t = rf_project_to_spaces s)"
  have request: "keeps K (request_data g call)" for call
    by (rule adapter.request_keeps [OF assms(1)]) (simp add: K_def)
  have find: "keeps K (find_dataset_from g target fuel page seen)" for target fuel page seen
    by (induction fuel arbitrary: page seen) (auto intro!: keeps_then keeps_of_res request simp: Let_def split: option.splits)
  have K0: "K s" by (simp add: K_def)
  have start: "assert_space_for_project p d s = (if rf_space_to_project s d \<noteq> Some p
      then (Inl (ProviderError ''RagflowProjectIsolationError''), s) else (Inr (), s))"
    by (simp add: assert_space_for_project_def)
  show ?thesis
  proof (cases "rf_space_to_project s d = Some p")
    case True
    obtain q t where q: "find_visible_dataset_by_name g name s = (q, t)" by fastforce
    then have t: "K t"
      unfolding find_visible_dataset_by_name_def by (rule keepsD [OF find K0])
    show ?thesis
    proof (cases q)
      case (Inr actual)
      show ?thesis
      proof (cases actual)
        case (Some item)
        obtain q2 u where u: "request_data g (json_call ''DELETE'' datasets_path (JObj [(''ids'', JArr [JStr d])])) t = (q2, u)"
          by fastforce
        then have "K u" by (rule keepsD [OF request t])
        then show ?thesis
          using assms(2) t True unfolding delete_owned_space_def K_def
          by (cases q2) (auto simp: bind_op_def start q Inr Some u split: if_splits)
      qed (use assms(2) t True q Inr start in \<open>auto simp: delete_owned_space_def bind_op_def K_def\<close>)
    qed (use assms(2) t True q start in \<open>auto simp: delete_owned_space_def bind_op_def K_def\<close>)
  qed (use assms(2) start in \<open>auto simp: delete_owned_space_def bind_op_def\<close>)
qed

lemma delete_owned_ok:
  assumes "adapter g" and "delete_owned_space g p d name s = (r, s')" and "rf_ok s"
  shows "rf_ok s' \<and> (\<forall>q e. rf_space_to_project s e = Some q \<longrightarrow> rf_space_to_project s' e = Some q \<or> (q = p \<and> e = d))"
  using delete_owned_cases [OF assms(1,2)]
proof
  assume c: "rf_space_to_project s d = Some p \<and> rf_space_to_project s' = (rf_space_to_project s)(d := None) \<and>
      rf_project_to_spaces s' = (rf_project_to_spaces s)(p := map_option (removeAll d) (rf_project_to_spaces s p))"
  have sp: "spaces_of s' q = (if q = p then spaces_of s p - {d} else spaces_of s q)" for q
    using c by (auto simp: spaces_of_def split: option.splits)
  have "d \<notin> spaces_of s q" if "q \<noteq> p" for q
  proof
    assume "d \<in> spaces_of s q"
    then have "rf_space_to_project s d = Some q" using assms(3) unfolding rf_ok_iff by blast
    then show False using c that by simp
  qed
  then have "rf_ok s'" using assms(3) c sp unfolding rf_ok_iff by auto
  then show ?thesis using c by auto
qed (use assms(3) in \<open>simp add: rf_ok_def\<close>)

lemma event_bindings:
  assumes "adapter g" and "rf_ok s"
  shows "rf_ok (snd (rf_apply g ev s)) \<and> (\<forall>p d. rf_space_to_project s d = Some p \<longrightarrow>
     rf_space_to_project (snd (rf_apply g ev s)) d = Some p \<or> (\<exists>name. ev = Delete_space p d name))"
proof (cases "\<exists>p d name. ev = Delete_space p d name")
  case True
  then obtain p d name where ev: "ev = Delete_space p d name" by blast
  obtain r s' where "delete_owned_space g p d name s = (r, s')" by fastforce
  then show ?thesis using delete_owned_ok [OF assms(1) _ assms(2)] ev by force
next
  case False
  have "rf_ok (snd (rf_apply g ev s)) \<and> rf_space_to_project (snd (rf_apply g ev s)) d = Some p"
    if "rf_space_to_project s d = Some p" for p d
  proof -
    have "keeps (\<lambda>s. rf_ok s \<and> rf_space_to_project s d = Some p) (rf_apply g ev)"
      by (rule adapter.keeps_event [OF assms(1) about_bound]) (use False in blast)
    then show ?thesis by (rule keepsD) (use assms(2) that in \<open>simp_all add: prod_eq_iff\<close>)
  qed
  moreover have "rf_ok (snd (rf_apply g ev s))"
  proof -
    have "keeps rf_ok (rf_apply g ev)" by (rule adapter.keeps_event [OF assms(1) about_ok]) (use False in blast)
    then show ?thesis by (rule keepsD) (use assms(2) in \<open>simp_all add: prod_eq_iff\<close>)
  qed
  ultimately show ?thesis by blast
qed

lemma run_bindings:
  assumes "adapter g" and "rf_ok s"
  shows "rf_ok (rf_run g evs s) \<and> (\<forall>p d. rf_space_to_project s d = Some p \<longrightarrow>
     rf_space_to_project (rf_run g evs s) d = Some p \<or> (\<exists>name. Delete_space p d name \<in> set evs))"
  using assms(2)
proof (induction evs arbitrary: s)
  case (Cons ev evs)
  then show ?case using event_bindings [OF assms(1) Cons.prems, of ev] by (metis list.set_intros rf_run.simps(2))
qed simp

lemma init_ok: "rf_ok (init_adapter w)"
  by (simp add: rf_ok_def init_adapter_def)

text \<open>C25: in every history of an adapter, whatever its provider answers, a dataset that is bound to a project stays
  bound to that project until that very project deletes it; the two tables of the bindings always agree.\<close>

theorem dataset_stays_with_project:
  assumes "init_retry_policy n base most = Inr (rg_policy g)" and "s = rf_run g evs (init_adapter w)"
    and "rf_space_to_project s d = Some p"
  shows "rf_ok (rf_run g evs' s) \<and>
     (rf_space_to_project (rf_run g evs' s) d = Some p \<or> (\<exists>name. Delete_space p d name \<in> set evs'))"
proof -
  have "rf_ok s" using run_bindings [OF policy_adapter [OF assms(1)] init_ok] assms(2) by simp
  then show ?thesis using run_bindings [OF policy_adapter [OF assms(1)]] assms(3) by blast
qed

text \<open>C24: after any history of the adapter, a retrieval for a project, whatever the provider answers, calls only the
  search over datasets bound to that project and the documents of those datasets; every chunk it returns comes from
  such a dataset and from a document whose mapping names the project and the version the chunk reports, of the
  versions asked for; there are at most as many as the limit, and it changes no binding.\<close>

theorem retrieval_isolated:
  assumes "init_retry_policy n base most = Inr (rg_policy g)" and "s = rf_run g evs (init_adapter w)"
    and "rf_retrieve g req s = (r, s')"
  shows "stays s req s' \<and>
     (\<forall>cs. r = Inr cs \<longrightarrow> (\<forall>c\<in>set cs. own_chunk s req s' c) \<and> int (length cs) \<le> max 1 (rq_limit req))"
proof -
  have g: "adapter g" by (rule policy_adapter [OF assms(1)])
  have ok: "rf_ok s" using run_bindings [OF g init_ok] assms(2) by simp
  have here: "stays s req s" by (simp add: stays_def)
  obtain q t where q: "dataset_ids_for_retrieval req s = (q, t)" by fastforce
  then have t: "t = s" using retrieval_datasets [OF q ok] by simp
  show ?thesis
  proof (cases q)
    case (Inl e)
    then show ?thesis using assms(3) q t here by (auto simp: rf_retrieve_def bind_op_def)
  next
    case (Inr ds)
    then have ds: "\<forall>d\<in>set ds. rf_space_to_project s d = Some (rq_project_id req)" using retrieval_datasets [OF q ok] by blast
    let ?Q = "\<lambda>cs u. stays s req u \<and> (\<forall>c\<in>set cs. own_chunk s req u c) \<and> int (length cs) \<le> max 1 (rq_limit req)"
    have tr: "triple (stays s req) (bind_op (request_data g (retrieval_call req ds)) (\<lambda>data.
        case (case data of JObj m \<Rightarrow> json_get m ''chunks'' (JArr []) | _ \<Rightarrow> JArr []) of
          JArr raws \<Rightarrow> scan_chunks g req ds raws []
        | _ \<Rightarrow> raise_op (ProviderError ''RagflowProtocolError''))) ?Q (stays s req)"
    proof (rule triple_bind)
      show "keeps (stays s req) (request_data g (retrieval_call req ds))"
        using adapter.stays_request [OF g, of s req "retrieval_call req ds" "\<lambda>_. True"] ds
        by (auto simp: confined_call_def)
    next
      fix data
      have "triple (stays s req) (scan_chunks g req ds raws []) ?Q (stays s req)" for raws
        by (rule triple_pre [OF adapter.scan_chunks_own [OF g ds]]) simp
      then show "triple (stays s req) (case (case data of JObj m \<Rightarrow> json_get m ''chunks'' (JArr []) | _ \<Rightarrow> JArr []) of
          JArr raws \<Rightarrow> scan_chunks g req ds raws []
        | _ \<Rightarrow> raise_op (ProviderError ''RagflowProtocolError'')) ?Q (stays s req)"
        by (auto split: json.splits)
    qed
    have "rf_retrieve g req s = bind_op (request_data g (retrieval_call req ds)) (\<lambda>data.
        case (case data of JObj m \<Rightarrow> json_get m ''chunks'' (JArr []) | _ \<Rightarrow> JArr []) of
          JArr raws \<Rightarrow> scan_chunks g req ds raws []
        | _ \<Rightarrow> raise_op (ProviderError ''RagflowProtocolError'')) s"
      by (simp add: rf_retrieve_def bind_op_Inr [of "dataset_ids_for_retrieval req"] q t Inr)
    note run = this [unfolded assms(3), symmetric]
    show ?thesis
    proof (cases r)
      case (Inl e)
      then show ?thesis using triple_Inl [OF tr here] run by simp
    next
      case (Inr cs)
      then show ?thesis using triple_Inr [OF tr here] run by simp
    qed
  qed
qed


section \<open>Ingestion\<close>

text \<open>The mapping read back from the metadata that an upload of the version stores.\<close>

lemma sent_mapping:
  assumes "map_of item ''meta_fields'' = Some (JObj (map (\<lambda>(k, v). (k, JStr v)) (sent_metadata req)))"
    and "ki_project_id req \<noteq> []" "ki_document_version_id req \<noteq> []"
  shows "mapping_from_document g item = Some (wanted_mapping req)"
proof -
  let ?md = "map (\<lambda>(k, v). (k, JStr v)) (sent_metadata req)"
  have un: "map_of (map (\<lambda>(k, v). (k, JStr v)) (unreserved m)) k = None" if "k \<in> set reserved_metadata" for m k
    using that by (induction m) (auto simp: unreserved_def)
  have "project_field \<noteq> version_field" by (simp add: project_field_def version_field_def)
  then have fields: "map_of ?md project_field = Some (JStr (ki_project_id req))"
      "map_of ?md version_field = Some (JStr (ki_document_version_id req))"
    by (simp_all add: sent_metadata_def map_add_def un reserved_metadata_def)
  have keep: "map (\<lambda>(k, v). (k, json_str (rg_repr g) v)) (filter (\<lambda>(k, v). k \<notin> {project_field, version_field} \<and> v \<noteq> JNull)
      (map (\<lambda>(k, v). (k, JStr v)) (unreserved m))) = unreserved m" for m
    by (induction m) (auto simp: unreserved_def reserved_metadata_def json_str_def)
  have "map (\<lambda>(k, v). (k, json_str (rg_repr g) v)) (filter (\<lambda>(k, v). k \<notin> {project_field, version_field} \<and> v \<noteq> JNull) ?md) =
      unreserved (ki_metadata req)"
    unfolding sent_metadata_def using keep [of "ki_metadata req"] by simp
  then show ?thesis using assms fields by (simp add: mapping_from_document_def wanted_mapping_def)
qed

lemma same_mapping_refl: "same_mapping m m"
  by (simp add: same_mapping_def same_dict_def list_all_iff)

definition version_listing :: "'w RagflowConfig \<Rightarrow> KnowledgeIngestionRequest \<Rightarrow> (payload list, 'w) rf_op" where
  "version_listing g req = list_documents g (ki_knowledge_space_id req) []
     (Some (version_condition (ki_project_id req) (ki_document_version_id req)))"

lemma ingest_after_binding:
  assumes "bind_space (ki_project_id req) (ki_knowledge_space_id req) s = (Inr (), s1)" and "rg_object_get g = Some object_get"
    and "version_listing g req s1 = (Inr docs, s2)"
  shows "ingest g req s = bind_op (case List.find (\<lambda>item. case mapping_from_document g item of
                 Some m \<Rightarrow> same_mapping m (wanted_mapping req) | None \<Rightarrow> False) docs of
               Some item \<Rightarrow> of_res (required_string item ''id'')
             | None \<Rightarrow> upload_new_document g object_get req) (\<lambda>document_id.
             return_op (encode_ingestion_job_id (ki_knowledge_space_id req) document_id)) s2"
  using assms unfolding version_listing_def by (simp add: ingest_def bind_op_def)

text \<open>C26: an upload is looked up by its metadata alone: once the provider lists a document with the metadata that an
  upload of the version stores, every later ingestion returns the job id of a listed document with the project,
  the version and the metadata of the request, after nothing but the listing, whether or not its parsing was ever
  started. So after an upload whose parse request failed, no retry starts it.\<close>

theorem ingest_never_starts_parsing_again:
  assumes "init_retry_policy n base most = Inr (rg_policy g)" and "rg_object_get g = Some object_get"
    and "bind_space (ki_project_id req) (ki_knowledge_space_id req) s = (Inr (), s1)"
    and "version_listing g req s1 = (Inr docs, s2)"
    and "item \<in> set docs"
    and "map_of item ''meta_fields'' = Some (JObj (map (\<lambda>(k, v). (k, JStr v)) (sent_metadata req)))"
    and "ki_project_id req \<noteq> []" "ki_document_version_id req \<noteq> []"
    and "\<forall>d\<in>set docs. \<exists>i. required_string d ''id'' = Inr i"
  shows "\<exists>hit m i k. hit \<in> set docs \<and> mapping_from_document g hit = Some m \<and> same_mapping m (wanted_mapping req) \<and>
     required_string hit ''id'' = Inr i \<and>
     ingest g req s = (Inr (encode_ingestion_job_id (ki_knowledge_space_id req) i), s2) \<and>
     rf_sent s2 = rf_sent s @ replicate k (get_call (documents_path (ki_knowledge_space_id req))
       [(''page'', JInt 1), (''page_size'', JInt 100),
        (''metadata_condition'', JStr (json_dumps (rg_repr g) (version_condition (ki_project_id req) (ki_document_version_id req))))])"
proof -
  let ?match = "\<lambda>item. case mapping_from_document g item of Some m \<Rightarrow> same_mapping m (wanted_mapping req) | None \<Rightarrow> False"
  let ?call = "get_call (documents_path (ki_knowledge_space_id req)) [(''page'', JInt 1), (''page_size'', JInt 100),
        (''metadata_condition'', JStr (json_dumps (rg_repr g) (version_condition (ki_project_id req) (ki_document_version_id req))))]"
  have "?match item" by (simp add: sent_mapping [OF assms(6-8)] same_mapping_refl)
  then obtain hit where hit: "List.find ?match docs = Some hit"
    using assms(5) by (cases "List.find ?match docs") (auto simp: find_None_iff)
  then have member: "hit \<in> set docs" and "?match hit" by (auto simp: find_Some_iff)
  then obtain m where m: "mapping_from_document g hit = Some m" "same_mapping m (wanted_mapping req)"
    by (auto split: option.splits)
  obtain i where i: "required_string hit ''id'' = Inr i" using assms(9) member by blast
  have run: "ingest g req s = (Inr (encode_ingestion_job_id (ki_knowledge_space_id req) i), s2)"
    unfolding ingest_after_binding [OF assms(3,2,4)] hit by (simp add: i)
  obtain r where "request_data g ?call s1 = (r, s2)"
    using assms(4) unfolding version_listing_def list_documents_def
    by (auto simp: bind_op_def split: prod.splits sum.splits json.splits option.splits)
  then obtain k where "rf_sent s2 = rf_sent s1 @ replicate k ?call"
    using adapter.request_state(4) [OF policy_adapter [OF assms(1)]] by blast
  moreover have "rf_sent s1 = rf_sent s" by (rule bind_space_cases [OF assms(3)]) simp_all
  ultimately show ?thesis using run member m i by auto
qed

lemma bind_of_Inr: "bind_op (of_res (Inr x)) f = f x"
  by (rule ext) simp

text \<open>What an ingestion sends: apart from calls without a file, the bytes of the object in one upload to the space.\<close>

definition uploads :: "string \<Rightarrow> ObjectPayload \<Rightarrow> RagflowCall \<Rightarrow> bool" where
  "uploads space object call \<longleftrightarrow> rc_file call = None \<or>
     (rc_method call = ''POST'' \<and> rc_path call = documents_path space \<and>
      (\<exists>name. rc_file call = Some (name, op_data object, op_mime_type object)))"

definition sends :: "'w ragflow \<Rightarrow> (RagflowCall \<Rightarrow> bool) \<Rightarrow> 'w ragflow \<Rightarrow> bool" where
  "sends s0 Q s \<longleftrightarrow> (\<exists>cs. rf_sent s = rf_sent s0 @ cs \<and> (\<forall>c\<in>set cs. Q c))"

lemma sends_request:
  assumes "adapter g" and "Q call"
  shows "keeps (sends s0 Q) (request_data g call)"
  by (rule adapter.request_keeps [OF assms(1)]) (use assms(2) in \<open>fastforce simp: sends_def\<close>)

lemma sends_other: "keeps (sends s0 Q) (modify_op (\<lambda>s. s\<lparr>rf_document_mappings := f s\<rparr>))" "keeps (sends s0 Q) (bind_space p d)"
proof -
  show "keeps (sends s0 Q) (modify_op (\<lambda>s. s\<lparr>rf_document_mappings := f s\<rparr>))" by (simp add: sends_def triple_def)
  have "sends s0 Q s'" if "sends s0 Q s" "bind_space p d s = (r, s')" for s s' r
    using that(1) by (rule_tac bind_space_cases [OF that(2)]) (simp_all add: sends_def)
  then show "keeps (sends s0 Q) (bind_space p d)" by (intro tripleI) blast+
qed

text \<open>From storage to the provider: when an object was put and the adapter reads the same store, whatever was put or
  deleted since under other keys, an ingestion of the object's key uploads to the space of the request exactly the
  bytes that were put, with their type, and no other file, whatever the provider answers.\<close>

lemma ingest_uploads_stored_bytes:
  assumes "init_retry_policy n base most = Inr (rg_policy g)"
    and "tree fs" "put_object sha fault u put fs = (Inr so, fs1)" "\<forall>ev\<in>set evs. spares (po_project_id put) u ev"
    and "fs2 = fold (\<lambda>ev fs. snd (apply_store sha ev fs)) evs fs1"
    and "rg_object_get g = Some (\<lambda>key. case get_object sha repr key fs2 of Inr object \<Rightarrow> Inr object | Inl _ \<Rightarrow> Inl OSError)"
    and "ki_object_key req = so_object_key so" and "ingest g req s = (r, s')"
  shows "\<exists>cs. rf_sent s' = rf_sent s @ cs \<and>
     (\<forall>c\<in>set cs. uploads (ki_knowledge_space_id req)
        \<lparr>op_object_key = so_object_key so, op_data = po_data put, op_mime_type = so_mime_type so, op_sha256 = sha (po_data put)\<rparr> c)"
proof -
  let ?object = "\<lparr>op_object_key = so_object_key so, op_data = po_data put, op_mime_type = so_mime_type so, op_sha256 = sha (po_data put)\<rparr>"
  let ?Q = "uploads (ki_knowledge_space_id req) ?object"
  define object_get where "object_get = (\<lambda>key. case get_object sha repr key fs2 of Inr object \<Rightarrow> Inr object | Inl _ \<Rightarrow> Inl OSError)"
  have g: "adapter g" by (rule policy_adapter [OF assms(1)])
  have got: "object_get (ki_object_key req) = Inr ?object"
    using stored_object_read(1) [OF assms(2-4), where repr = repr] assms(5,7) by (simp add: object_get_def)
  have plain: "?Q (json_call verb path body)" "?Q (get_call path params)" for verb path body params
    by (simp_all add: uploads_def json_call_def get_call_def)
  have attached: "?Q \<lparr>rc_method = ''POST'', rc_path = documents_path (ki_knowledge_space_id req), rc_params = [],
      rc_json = None, rc_file = Some (name, op_data ?object, op_mime_type ?object)\<rparr>" for name
    by (simp add: uploads_def)
  have up: "keeps (sends s ?Q) (upload_new_document g object_get req)"
    unfolding upload_new_document_def best_effort_delete_provider_document_def got bind_of_Inr
    by (intro keeps_then keeps_try keeps_of_res sends_request [OF g] sends_other plain)
      (auto intro!: keeps_then keeps_try keeps_of_res sends_request [OF g] sends_other plain attached [simplified])
  have list: "keeps (sends s ?Q) (list_documents g d doc cond)" for d doc cond
    unfolding list_documents_def by (intro keeps_then sends_request [OF g] plain) (auto split: json.splits option.splits)
  have all: "keeps (sends s ?Q) (ingest g req)"
    unfolding ingest_def assms(6) option.case object_get_def [symmetric]
    by (intro keeps_then sends_other list) (auto intro!: keeps_of_res up split: option.splits)
  have "sends s ?Q s" by (simp add: sends_def)
  then have "sends s ?Q s'" using triple_Inl [OF all, of s] triple_Inr [OF all, of s] assms(8) by (cases r) blast+
  then show ?thesis by (simp add: sends_def)
qed


section \<open>Witnesses\<close>

text \<open>A provider that answers from a list, with 500 when it is empty.\<close>

fun canned :: "RagflowCall \<Rightarrow> http_outcome list \<Rightarrow> http_outcome \<times> http_outcome list" where
  "canned call [] = (Http_response 500 None, [])"
| "canned call (out # outs) = (out, outs)"

definition answer_ok :: "json \<Rightarrow> http_outcome" where
  "answer_ok data = Http_response 200 (Some (JObj [(''code'', JInt 0), (''data'', data)]))"

lemma answered:
  assumes "rg_http g call (rf_world s) = (answer_ok data, w)" and "1 \<le> rp_max_attempts (rg_policy g)"
  shows "request_data g call s = (Inr data, s\<lparr>rf_world := w, rf_sent := rf_sent s @ [call]\<rparr>)"
proof -
  obtain m where m: "rp_max_attempts (rg_policy g) = Suc m" using assms(2) by (cases "rp_max_attempts (rg_policy g)") auto
  show ?thesis
    using assms(1) by (simp add: request_data_def rf_request_def m bind_op_def rf_send_def answer_ok_def json_get_def json_is_zero_def)
qed

definition w_config :: "(string \<Rightarrow> ObjectPayload res) \<Rightarrow> http_outcome list RagflowConfig" where
  "w_config get = \<lparr>rg_http = canned, rg_policy = default_policy, rg_object_get = Some get,
     rg_embedding_model = None, rg_chunk_method = ''naive'', rg_repr = (\<lambda>_. []), rg_float = (\<lambda>_. None), rg_page_fuel = 5\<rparr>"

definition w_plain :: "http_outcome list RagflowConfig" where
  "w_plain = w_config (\<lambda>key. Inr \<lparr>op_object_key = key, op_data = ''hello'', op_mime_type = ''text/plain'', op_sha256 = ''hhello''\<rparr>)"

lemma w_policy: "init_retry_policy 3 (1/4) 2 = Inr (rg_policy (w_config get))" "init_retry_policy 3 (1/4) 2 = Inr (rg_policy w_plain)"
  by (simp_all add: w_plain_def init_retry_policy_def w_config_def default_policy_def)

definition w_ingest :: KnowledgeIngestionRequest where
  "w_ingest = \<lparr>ki_project_id = ''demo'', ki_knowledge_space_id = ''ds1'', ki_document_version_id = ''v1'',
     ki_object_key = storage_key ''demo'' 7, ki_metadata = [(''filename'', ''a.txt''), (''section'', ''2'')]\<rparr>"

definition w_document :: json where
  "w_document = JObj [(''id'', JStr ''d1''), (''run'', JStr ''UNSTART''),
     (''meta_fields'', JObj (map (\<lambda>(k, v). (k, JStr v)) (sent_metadata w_ingest)))]"

text \<open>The listing is empty, the upload and its metadata are accepted, the parse request is refused; then the version
  is asked for again.\<close>

definition w_world :: "http_outcome list" where
  "w_world = [answer_ok (JArr []), answer_ok (JArr [JObj [(''id'', JStr ''d1'')]]), answer_ok JNull,
     Http_response 200 (Some (JObj [(''code'', JInt 102)])), answer_ok (JArr [w_document])]"

definition w_state :: "http_outcome list ragflow" where
  "w_state = snd (ingest w_plain w_ingest (init_adapter w_world))"

lemma w_first: "fst (ingest w_plain w_ingest (init_adapter w_world)) = Inl (ProviderError ''RagflowApiError'') \<and>
    rf_world w_state = [answer_ok (JArr [w_document])] \<and> rf_space_to_project w_state ''ds1'' = Some ''demo''"
  by code_simp

lemma ingest_never_starts_parsing_again_witness:
  "\<exists>s2 k call. ingest w_plain w_ingest w_state = (Inr (encode_ingestion_job_id ''ds1'' ''d1''), s2) \<and>
     rf_sent s2 = rf_sent w_state @ replicate k call \<and> rc_method call = ''GET''"
proof -
  obtain r s1 where b: "bind_space ''demo'' ''ds1'' w_state = (r, s1)" by fastforce
  have s1: "r = Inr ()" "rf_world s1 = [answer_ok (JArr [w_document])]"
    using b w_first by (auto simp: bind_space_def)
  obtain item where item: "w_document = JObj item" by (simp add: w_document_def)
  obtain s2 where l: "version_listing w_plain w_ingest s1 = (Inr [item], s2)"
    using answered [of w_plain _ s1 "JArr [w_document]" "[]"] s1(2)
    by (simp add: version_listing_def list_documents_def w_plain_def w_config_def default_policy_def bind_op_def
        dict_items_def item List.map_filter_simps)
  have i: "map_of item ''meta_fields'' = Some (JObj (map (\<lambda>(k, v). (k, JStr v)) (sent_metadata w_ingest)))"
      "\<forall>d\<in>set [item]. \<exists>i. required_string d ''id'' = Inr i"
    using item by (auto simp: w_document_def required_string_def)
  have f: "ki_project_id w_ingest = ''demo''" "ki_knowledge_space_id w_ingest = ''ds1''" "ki_document_version_id w_ingest = ''v1''"
    by (simp_all add: w_ingest_def)
  have o: "\<exists>get. rg_object_get w_plain = Some get" by (simp add: w_plain_def w_config_def)
  then obtain get where o: "rg_object_get w_plain = Some get" ..
  have n: "ki_project_id w_ingest \<noteq> []" "ki_document_version_id w_ingest \<noteq> []" by (simp_all add: f)
  have m: "item \<in> set [item]" by simp
  have b': "bind_space (ki_project_id w_ingest) (ki_knowledge_space_id w_ingest) w_state = (Inr (), s1)"
    using b s1(1) by (simp add: f)
  obtain hit j k where "hit \<in> set [item]" "required_string hit ''id'' = Inr j"
      "ingest w_plain w_ingest w_state = (Inr (encode_ingestion_job_id ''ds1'' j), s2)"
      "rf_sent s2 = rf_sent w_state @ replicate k (get_call (documents_path ''ds1'')
       [(''page'', JInt 1), (''page_size'', JInt 100),
        (''metadata_condition'', JStr (json_dumps (rg_repr w_plain) (version_condition ''demo'' ''v1'')))])"
    using ingest_never_starts_parsing_again [OF w_policy(2) o b' l m i(1) n i(2)] unfolding f by blast
  moreover have "required_string item ''id'' = Inr ''d1''" using item by (auto simp: w_document_def required_string_def)
  moreover have "rc_method (get_call path params) = ''GET''" for path params by (simp add: get_call_def)
  ultimately show ?thesis by auto
qed

lemma dataset_stays_with_project_witness:
  "rf_ok (rf_run w_plain [Status ''x'', Delete_space ''other'' ''ds1'' ''n''] (rf_run w_plain [Bind_authorized ''demo'' ''ds1''] (init_adapter []))) \<and>
   rf_space_to_project (rf_run w_plain [Status ''x'', Delete_space ''other'' ''ds1'' ''n'']
     (rf_run w_plain [Bind_authorized ''demo'' ''ds1''] (init_adapter []))) ''ds1'' = Some ''demo''"
proof -
  have "rf_space_to_project (rf_run w_plain [Bind_authorized ''demo'' ''ds1''] (init_adapter [])) ''ds1'' = Some ''demo''"
    by (simp add: bind_space_def init_adapter_def)
  from dataset_stays_with_project [OF w_policy(2) refl this, of "[Status ''x'', Delete_space ''other'' ''ds1'' ''n'']"]
  show ?thesis by simp
qed

definition w_search :: KnowledgeRetrievalRequest where
  "w_search = \<lparr>rq_project_id = ''demo'', rq_query = ''q'', rq_limit = 10, rq_document_version_ids = [''v1''],
     rq_knowledge_space_ids = [''ds1'']\<rparr>"

definition w_found :: "http_outcome list" where
  "w_found = [answer_ok (JObj [(''chunks'', JArr [
       JObj [(''dataset_id'', JStr ''ds9''), (''document_id'', JStr ''d1''), (''content'', JStr ''other'')],
       JObj [(''dataset_id'', JStr ''ds1''), (''document_id'', JStr ''d1''), (''content'', JStr ''text''), (''similarity'', JFloat (1/2))]])]),
     answer_ok (JArr [w_document])]"

lemma retrieval_isolated_witness:
  "\<exists>c s'. rf_retrieve w_plain w_search (rf_run w_plain [Bind_authorized ''demo'' ''ds1''] (init_adapter w_found)) = (Inr [c], s') \<and>
     own_chunk (rf_run w_plain [Bind_authorized ''demo'' ''ds1''] (init_adapter w_found)) w_search s' c"
proof -
  let ?s = "rf_run w_plain [Bind_authorized ''demo'' ''ds1''] (init_adapter w_found)"
  have one: "map_sum id length (fst (rf_retrieve w_plain w_search ?s)) = Inr 1" by code_simp
  obtain r s' where r: "rf_retrieve w_plain w_search ?s = (r, s')" by fastforce
  then obtain c where "r = Inr [c]" using one by (cases r) (auto simp: length_Suc_conv)
  then show ?thesis using retrieval_isolated [OF w_policy(2) refl r] r by auto
qed

definition w_flaky :: "http_outcome list" where
  "w_flaky = [Http_response 503 None, Http_transient ''ReadTimeout'', answer_ok (JArr []), answer_ok JNull]"

lemma client_retries_bounded_witness:
  "\<exists>r s'. request_data w_plain (get_call datasets_path []) (init_adapter w_flaky) = (r, s') \<and> rf_slept s' = [1/4, 1/2] \<and>
     rf_sent s' = replicate 3 (get_call datasets_path []) \<and> rf_world s' = [answer_ok JNull]"
proof -
  obtain r s' where r: "request_data w_plain (get_call datasets_path []) (init_adapter w_flaky) = (r, s')" by fastforce
  have c: "canned call w_flaky = (Http_response 503 None, tl w_flaky)"
      "canned call (tl w_flaky) = (Http_transient ''ReadTimeout'', tl (tl w_flaky))"
      "canned call (tl (tl w_flaky)) = (answer_ok (JArr []), [answer_ok JNull])" for call
    by (simp_all add: w_flaky_def)
  have run: "consecutive canned call 1 w_flaky = ([Http_response 503 None], tl w_flaky)"
      "consecutive canned call 2 w_flaky = ([Http_response 503 None, Http_transient ''ReadTimeout''], tl (tl w_flaky))"
      "consecutive canned call 3 w_flaky = ([Http_response 503 None, Http_transient ''ReadTimeout'', answer_ok (JArr [])], [answer_ok JNull])"
    for call by (simp_all add: c eval_nat_numeral)
  obtain k outs w where k: "1 \<le> k" "int k \<le> min 1025 3" "consecutive canned (get_call datasets_path []) k w_flaky = (outs, w)"
      "may_retry (last outs) \<longrightarrow> int k = min 1025 3"
      "s' = (init_adapter w_flaky)\<lparr>rf_world := w, rf_sent := replicate k (get_call datasets_path []),
          rf_slept := map (\<lambda>i. min (1/4 * 2 ^ i) 2) [0..<k - 1]\<rparr>"
    using client_retries_bounded [OF w_policy(2) r] by (auto simp: init_adapter_def w_plain_def w_config_def)
  have "k = 1 \<or> k = 2 \<or> k = 3" using k(1,2) by auto
  then have "k = 3" using k(3,4) run by (auto simp: may_retry_def)
  then have "rf_slept s' = [1/4, 1/2]" "rf_sent s' = replicate 3 (get_call datasets_path [])" "rf_world s' = [answer_ok JNull]"
    using k(3,5) run(3) by (simp_all add: eval_nat_numeral)
  then show ?thesis using r by blast
qed

lemma ingest_uploads_stored_bytes_witness:
  "\<exists>fs1 q s'. put_object w_sum No_fault 7 w_put w_fs = (Inr \<lparr>so_object_key = storage_key ''demo'' 7, so_sha256 = ''hhello'',
       so_project_id = ''demo'', so_size_bytes = 5, so_mime_type = ''text/plain''\<rparr>, fs1) \<and>
     ingest (w_config (\<lambda>key. case get_object w_sum (\<lambda>_. []) key fs1 of Inr object \<Rightarrow> Inr object | Inl _ \<Rightarrow> Inl OSError))
       w_ingest (init_adapter w_world) = (q, s') \<and>
     list_all (uploads ''ds1'' \<lparr>op_object_key = storage_key ''demo'' 7, op_data = ''hello'', op_mime_type = ''text/plain'',
       op_sha256 = ''hhello''\<rparr>) (rf_sent s')"
proof -
  define so where "so = \<lparr>so_object_key = storage_key ''demo'' 7, so_sha256 = ''hhello'', so_project_id = ''demo'',
    so_size_bytes = 5, so_mime_type = ''text/plain''\<rparr>"
  obtain r fs1 where "put_object w_sum No_fault 7 w_put w_fs = (r, fs1)" by fastforce
  then have p: "put_object w_sum No_fault 7 w_put w_fs = (Inr so, fs1)" using w_put_returns by (simp add: so_def)
  define get where "get = (\<lambda>key. case get_object w_sum (\<lambda>_. []) key fs1 of Inr object \<Rightarrow> Inr object | Inl _ \<Rightarrow> Inl OSError)"
  obtain q s' where q: "ingest (w_config get) w_ingest (init_adapter w_world) = (q, s')" by fastforce
  have "\<exists>cs. rf_sent s' = rf_sent (init_adapter w_world) @ cs \<and> (\<forall>c\<in>set cs. uploads (ki_knowledge_space_id w_ingest)
        \<lparr>op_object_key = so_object_key so, op_data = po_data w_put, op_mime_type = so_mime_type so, op_sha256 = w_sum (po_data w_put)\<rparr> c)"
    by (rule ingest_uploads_stored_bytes [OF w_policy(1) w_tree p, where evs = "[]" and repr = "\<lambda>_. []" and r = q])
      (use q in \<open>simp_all add: w_config_def get_def so_def w_ingest_def\<close>)
  then have "list_all (uploads ''ds1'' \<lparr>op_object_key = storage_key ''demo'' 7, op_data = ''hello'', op_mime_type = ''text/plain'',
       op_sha256 = ''hhello''\<rparr>) (rf_sent s')"
    by (auto simp: init_adapter_def w_ingest_def w_put_def so_def w_sum_def list_all_iff)
  then show ?thesis using p q unfolding so_def get_def by blast
qed

end
