(* ===== verification/Publication.thy ===== *)
theory Publication
  imports DocumentApiProofs RagflowSafety
begin

text \<open>
  A document's way through the whole program: the API stores what was uploaded, and whatever other requests and
  other objects come between, a publication hands the provider those bytes. And the titles for which it never
  does.
\<close>

section \<open>What an upload leaves behind\<close>

lemma upload_document_rows:
  assumes "upload_document put new_key new_doc new_version c s = (Inr x, s')"
    and "new_doc \<notin> do_id ` set (documents (working s))" and "new_version \<notin> dv_id ` set (versions (working s))"
  obtains stored d v where "put \<lparr>po_project_id = uuid_str (uc_project_id c), po_object_key = ''objects/'' @ uuid_hex new_key,
      po_data = uc_data c, po_mime_type = uc_mime_type c\<rparr> = Inr stored"
    "d \<in> set (documents (working s'))" "do_project_id d = uc_project_id c"
    "v \<in> set (versions (working s'))" "dv_id v = new_version" "dv_document_id v = do_id d"
    "dv_source_uri v = Some (so_object_key stored)" "dv_content_hash v = Some (so_sha256 stored)"
proof -
  obtain stored y db' where p: "put \<lparr>po_project_id = uuid_str (uc_project_id c), po_object_key = ''objects/'' @ uuid_hex new_key,
      po_data = uc_data c, po_mime_type = uc_mime_type c\<rparr> = Inr stored"
    and cd: "create_draft new_doc new_version (upload_draft stored c) (working s) = (Inr y, db')"
    and s': "working s' = audited (upload_audit c (vr_version_id y)) db'"
    using assms(1) by (auto simp: upload_document_def bind_op_Inr_iff on_working_iff split: if_splits)
  obtain d db1 where d: "draft_target new_doc (upload_draft stored c) (working s) = (Inr d, db1)"
    "db' = db1\<lparr>versions := versions db1 @
       [draft_version new_version (do_id d) (next_version_no (do_id d) db1) (upload_draft stored c)]\<rparr>"
    by (rule create_draft_Inr [OF cd]) blast
  have "do_project_id d = uc_project_id c"
    using d(1) by (auto simp: draft_target_def draft_document_def upload_draft_def Let_def split: option.splits if_splits)
  then show thesis
    by (intro that [OF p, of d "draft_version new_version (do_id d) (next_version_no (do_id d) db1) (upload_draft stored c)"])
      (use d(2) s' draft_target_Inr(1) [OF d(1)] in \<open>simp_all add: audited_def draft_version_def upload_draft_def\<close>)
qed

lemma api_upload_rows:
  assumes "document_api mac jv clock env credentials (Api_upload q) db = (Answer code body, db')"
    and "ae_doc env \<notin> do_id ` set (documents db)" "ae_version env \<notin> dv_id ` set (versions db)"
  obtains data stored d v where "decode_content (du_content_base64 q) = Some data"
    "ae_put env \<lparr>po_project_id = uuid_str (du_project_id q), po_object_key = ''objects/'' @ uuid_hex (ae_key env),
      po_data = data, po_mime_type = du_mime_type q\<rparr> = Inr stored"
    "d \<in> set (documents db')" "do_project_id d = du_project_id q"
    "v \<in> set (versions db')" "dv_id v = ae_version env" "dv_document_id v = do_id d"
    "dv_source_uri v = Some (so_object_key stored)" "dv_content_hash v = Some (so_sha256 stored)"
proof -
  obtain user where user: "get_authenticated_identity mac jv clock credentials = Inr user"
    using assms(1) by (auto simp: document_api_def split: sum.splits)
  obtain answer where "get_db_session (api_route env user (Api_upload q)) db = (Inr answer, db')"
    using assms(1) user by (auto simp: document_api_def http_answer_def split: prod.splits sum.splits http_exn.splits)
  then obtain data actor x s where d: "decode_content (du_content_base64 q) = Some data"
    and up: "upload_document (ae_put env) (ae_key env) (ae_doc env) (ae_version env) (upload_command q data actor)
       (begin_session db) = (Inr x, s)" and db': "db' = working s"
    by (auto simp: get_db_session_def upload_route_def calling_def answering_def on_working_simps
        split: if_splits prod.splits sum.splits option.splits)
  show thesis
    by (rule upload_document_rows [OF up]) (use assms(2,3) that [OF d] db' in \<open>simp_all add: upload_command_def\<close>)
qed

section \<open>What stays\<close>

lemma doc_effect_documents: "doc_effect db db' \<Longrightarrow> set (documents db) \<subseteq> set (documents db')"
proof (induction rule: doc_effect.induct)
  case (eff_draft new_doc draft db d db' new_version v)
  then show ?case using draft_target_Inr(5) by force
qed (auto simp: audited_def set_version_status_def publish_rows_def Let_def split: option.splits)

lemma doc_effects_documents: "doc_effect\<^sup>*\<^sup>* db db' \<Longrightarrow> set (documents db) \<subseteq> set (documents db')"
  by (induction rule: rtranclp_induct) (use doc_effect_documents in blast)+

lemma row_by_member: "distinct (map k rows) \<Longrightarrow> x \<in> set rows \<Longrightarrow> row_by k (k x) rows = Some x"
  by (induction rows) (auto simp: row_by_Cons)

lemma later_version:
  assumes "docs_ok db" and "doc_effect\<^sup>*\<^sup>* db db'" and "d \<in> set (documents db)" "v \<in> set (versions db)"
    and "dv_document_id v = do_id d" and "get_version (dv_id v) db' = Inr x"
  shows "vr_project_id x = do_project_id d" and "Some (vr_source_uri x) = dv_source_uri v"
    and "Some (vr_content_hash x) = dv_content_hash v" and "vr_title x = do_title d"
proof -
  obtain w where w: "w \<in> set (versions db')" "version_evolves v w" using doc_effects_evolve [OF assms(2,1,4)] by blast
  have ok: "docs_ok db'" by (rule doc_effects_ok [OF assms(2,1)])
  have "row_by dv_id (dv_id v) (versions db') = Some w"
    using row_by_member [OF docs_okD(2) [OF ok] w(1)] w(2) by (simp add: version_evolves_def version_content_def)
  moreover have "row_by do_id (dv_document_id w) (documents db') = Some d"
    using row_by_member [OF docs_okD(1) [OF ok]] doc_effects_documents [OF assms(2)] assms(3,5) w(2)
    by (auto simp: version_evolves_def version_content_def)
  ultimately have "load_version (dv_id v) db' = Inr (d, w)" by (simp add: load_version_Inr)
  then have "to_record d w = Inr x" using assms(6) by (simp add: get_version_def)
  then show "vr_project_id x = do_project_id d" "Some (vr_source_uri x) = dv_source_uri v"
    "Some (vr_content_hash x) = dv_content_hash v" "vr_title x = do_title d"
    using w(2) by (auto simp: to_record_def version_evolves_def version_content_def split: option.splits)
qed

section \<open>What a publication asks of the provider\<close>

lemma publish_asks:
  assumes "publish_document ingest_port get_status now version_id actor s = (r, s')" and "committed s = working s"
    and "versions (left_committed r s') \<noteq> versions (working s)"
  obtains current code space job st where "get_version version_id (working s) = Inr current"
    "project_code (vr_project_id current) (working s) = Inr code"
    "knowledge_space_id (vr_project_id current) (working s) = Inr space"
    "ingest_port (ingestion_request current code space) = Inr job"
    "get_status job = Inr st" "ks_state st = ING_SUCCEEDED"
proof -
  have "\<exists>x. r = Inr x" using publish_document_cases [OF assms(1,2)] assms(3) by (auto simp: left_committed_def)
  then show thesis using assms(1) that
    by (auto simp: publish_document_def publish_finalize_def bind_op_Inr_iff bind_of_res on_working_iff
        split: if_splits sum.splits)
qed

lemma api_publish_asks:
  assumes "document_api mac jv clock env credentials (Api_publish version_id) db = (answer, db')"
    and "versions db' \<noteq> versions db"
  obtains current code space job st where "get_version version_id db = Inr current"
    "project_code (vr_project_id current) db = Inr code" "knowledge_space_id (vr_project_id current) db = Inr space"
    "ae_ingest env (ingestion_request current code space) = Inr job"
    "ae_status env job = Inr st" "ks_state st = ING_SUCCEEDED"
proof -
  obtain user where user: "get_authenticated_identity mac jv clock credentials = Inr user"
    using assms by (auto simp: document_api_def split: sum.splits)
  obtain r where "get_db_session (publish_route env user version_id) db = (r, db')"
    using assms(1) user by (auto simp: document_api_def split: prod.splits)
  then obtain actor where run: "get_db_session (calling (catch_publish version_id)
         (publish_document (ae_ingest env) (ae_status env) (ae_published_at env) version_id actor)
         (\<lambda>result. answering (version_answer result))) db = (r, db')"
    using authorized_version_session assms(2) unfolding publish_route_def by metis
  let ?m = "publish_document (ae_ingest env) (ae_status env) (ae_published_at env) version_id actor"
  obtain q s where m: "?m (begin_session db) = (q, s)" by fastforce
  have "db' = left_committed q s"
    by (rule session_of_call [where m = ?m, OF run m])
      (use m publish_pending_clean catch_publish_Inr in \<open>fastforce\<close>)
  then show thesis using publish_asks [OF m] assms(2) that by auto
qed

section \<open>From upload to publication\<close>

text \<open>The ports that the production runtime gives the API: the object store and the adapter.\<close>

definition store_put ::
  "(string \<Rightarrow> string) \<Rightarrow> put_fault \<Rightarrow> uuid \<Rightarrow> fs \<Rightarrow> object_put" where
  "store_put sha fault object_id fs req =
     (case fst (put_object sha fault object_id req fs) of
        Inl _ \<Rightarrow> Inl OSError
      | Inr so \<Rightarrow> Inr \<lparr>so_object_key = so_object_key so, so_sha256 = so_sha256 so\<rparr>)"

definition store_get :: "(string \<Rightarrow> string) \<Rightarrow> (json \<Rightarrow> string) \<Rightarrow> fs \<Rightarrow> string \<Rightarrow> ObjectPayload res" where
  "store_get sha repr fs key = (case get_object sha repr key fs of Inr object \<Rightarrow> Inr object | Inl _ \<Rightarrow> Inl OSError)"

definition upload_put :: "ApiEnv \<Rightarrow> DocumentUploadRequest \<Rightarrow> string \<Rightarrow> PutObjectRequest" where
  "upload_put env q data =
     \<lparr>po_project_id = uuid_str (du_project_id q), po_object_key = ''objects/'' @ uuid_hex (ae_key env),
      po_data = data, po_mime_type = du_mime_type q\<rparr>"

text \<open>C19: the bytes that are published are the bytes that were uploaded. When an upload through the API succeeded,
  then after any further document requests of any users, any later puts and any deletes of other objects, a publish
  request for its version that changes a version has ingested it into the active space of the project that the upload
  named, with the hash of the decoded content; every file this ingestion sends, whatever the provider answers, goes
  to that space and is the decoded content; and the provider reported success for its job.\<close>

theorem published_bytes_are_the_uploaded:
  assumes "init_retry_policy n base most = Inr (rg_policy g)" and "tree fs" and "docs_ok db"
    and "ae_doc env \<notin> do_id ` set (documents db)" "ae_version env \<notin> dv_id ` set (versions db)"
    and "ae_put env = store_put sha fault u fs"
    and "document_api mac jv clock env credentials (Api_upload q) db = (Answer code body, db1)"
    and "decode_content (du_content_base64 q) = Some data"
    and "fs1 = snd (put_object sha fault u (upload_put env q data) fs)"
    and "api_request\<^sup>*\<^sup>* db1 db2" and "\<forall>ev\<in>set evs. spares (uuid_str (du_project_id q)) u ev"
    and "rg_object_get g = Some (store_get sha repr (fold (\<lambda>ev fs. snd (apply_store sha ev fs)) evs fs1))"
    and "ae_ingest env2 = (\<lambda>req. fst (ingest g req s))"
    and "document_api mac jv clock2 env2 credentials2 (Api_publish (ae_version env)) db2 = (answer, db3)"
    and "versions db3 \<noteq> versions db2"
  shows "\<exists>current project_code_text space job s' cs st object.
     get_version (ae_version env) db2 = Inr current \<and> vr_content_hash current = sha data \<and>
     knowledge_space_id (du_project_id q) db2 = Inr space \<and> project_code (du_project_id q) db2 = Inr project_code_text \<and>
     ingest g (ingestion_request current project_code_text space) s = (Inr job, s') \<and>
     rf_sent s' = rf_sent s @ cs \<and> op_data object = data \<and> (\<forall>c\<in>set cs. uploads space object c) \<and>
     ae_status env2 job = Inr st \<and> ks_state st = ING_SUCCEEDED"
proof -
  obtain data' stored d v where up: "decode_content (du_content_base64 q) = Some data'"
    "ae_put env \<lparr>po_project_id = uuid_str (du_project_id q), po_object_key = ''objects/'' @ uuid_hex (ae_key env),
      po_data = data', po_mime_type = du_mime_type q\<rparr> = Inr stored"
    "d \<in> set (documents db1)" "do_project_id d = du_project_id q"
    "v \<in> set (versions db1)" "dv_id v = ae_version env" "dv_document_id v = do_id d"
    "dv_source_uri v = Some (so_object_key stored)" "dv_content_hash v = Some (so_sha256 stored)"
    by (rule api_upload_rows [OF assms(7,4,5)])
  obtain so where so: "put_object sha fault u (upload_put env q data) fs = (Inr so, fs1)"
    "so_object_key so = so_object_key stored" "so_sha256 so = so_sha256 stored"
    using up(1,2) assms(6,8,9)
    by (cases "put_object sha fault u (upload_put env q data) fs") (auto simp: store_put_def upload_put_def split: sum.splits)
  have ok1: "docs_ok db1" using doc_effects_ok [OF document_api_effects [OF assms(3-5,7)] assms(3)] .
  have later: "doc_effect\<^sup>*\<^sup>* db1 db2" using api_requests_effects [OF assms(10) ok1] by blast
  obtain current code space job st where c: "get_version (ae_version env) db2 = Inr current"
    "project_code (vr_project_id current) db2 = Inr code" "knowledge_space_id (vr_project_id current) db2 = Inr space"
    "ae_ingest env2 (ingestion_request current code space) = Inr job" "ae_status env2 job = Inr st" "ks_state st = ING_SUCCEEDED"
    by (rule api_publish_asks [OF assms(14,15)])
  note kept = later_version [OF ok1 later up(3,5,7) c(1) [folded up(6)]]
  obtain r s' where run: "ingest g (ingestion_request current code space) s = (r, s')" by fastforce
  then have r: "r = Inr job" using c(4) assms(13) by simp
  have key: "ki_object_key (ingestion_request current code space) = so_object_key so"
      "ki_knowledge_space_id (ingestion_request current code space) = space"
    using kept(2) up(8) so(2) by (simp_all add: ingestion_request_def)
  let ?object = "\<lparr>op_object_key = so_object_key so, op_data = data, op_mime_type = so_mime_type so, op_sha256 = sha data\<rparr>"
  have spared: "\<forall>ev\<in>set evs. spares (po_project_id (upload_put env q data)) u ev" using assms(11) by (simp add: upload_put_def)
  have "\<exists>cs. rf_sent s' = rf_sent s @ cs \<and> (\<forall>c\<in>set cs. uploads space ?object c)"
    using ingest_uploads_stored_bytes [OF assms(1,2) so(1) spared refl assms(12) [unfolded store_get_def [abs_def]] key(1) run]
    by (simp add: key(2) upload_put_def)
  moreover have "vr_content_hash current = sha data"
    using stored_object_read(2) [OF assms(2) so(1) spared] kept(3) up(9) so(3) by (simp add: upload_put_def)
  ultimately show ?thesis using c(1,2,3,5,6) run r kept(1) up(4) by (metis ObjectPayload.select_convs(2))
qed

section \<open>Titles that cannot be published\<close>

text \<open>The provider's file name is the title of the document: when the title is no plain file name, for which it
  suffices that it has a slash, no ingestion of the version ever uploads a file, whatever the store and the provider
  answer, although the API accepts such a title.\<close>

theorem unsafe_title_never_uploaded:
  assumes "init_retry_policy n base most = Inr (rg_policy g)"
    and "CHR ''/'' \<in> set (vr_title current) \<or> 128 < length (utf8_encode (vr_title current))"
    and "ingest g (ingestion_request current code space) s = (r, s')"
  shows "\<exists>cs. rf_sent s' = rf_sent s @ cs \<and> (\<forall>c\<in>set cs. rc_file c = None)"
proof -
  let ?Q = "\<lambda>c. rc_file c = None"
  let ?req = "ingestion_request current code space"
  have g: "adapter g" by (rule policy_adapter [OF assms(1)])
  have "vr_title current \<noteq> []" using assms(2) by auto
  then have name: "\<exists>e. safe_filename (case map_of (ki_metadata ?req) ''filename'' of
         Some name \<Rightarrow> if name = [] then ki_document_version_id ?req @ ''.bin'' else name
       | None \<Rightarrow> ki_document_version_id ?req @ ''.bin'') = Inl e"
    using assms(2) by (auto simp: ingestion_request_def safe_filename_def)
  have "\<exists>e. upload_new_document g object_get ?req s0 = (Inl e, s0)" for object_get s0
    using name by (cases "object_get (ki_object_key ?req)") (auto simp: upload_new_document_def)
  then have up: "keeps (sends s ?Q) (upload_new_document g object_get ?req)" for object_get
    by (intro tripleI) (metis Pair_inject sum.distinct(1))+
  have plain: "?Q (get_call path params)" for path params by (simp add: get_call_def)
  have list: "keeps (sends s ?Q) (list_documents g d doc cond)" for d doc cond
    unfolding list_documents_def by (intro keeps_then sends_request [OF g] plain) (auto split: json.splits option.splits)
  have all: "keeps (sends s ?Q) (ingest g ?req)"
    unfolding ingest_def
    by (cases "rg_object_get g") (auto intro!: keeps_then keeps_of_res sends_other list up split: option.splits)
  have "sends s ?Q s" by (simp add: sends_def)
  then have "sends s ?Q s'" using triple_Inl [OF all, of s] triple_Inr [OF all, of s] assms(3) by (cases r) blast+
  then show ?thesis by (simp add: sends_def)
qed

end
