(* ===== verification/PublicationWitness.thy ===== *)
theory PublicationWitness
  imports Publication
begin

text \<open>
  A document's way evaluated: the manager of project 1 uploads five bytes, submits, approves and publishes them, and
  the provider takes them. And a title with a slash.
\<close>

definition w_members :: doc_db where
  "w_members = empty_docs\<lparr>memberships := memberships sample_docs\<rparr>"

definition w_upload :: DocumentUploadRequest where
  "w_upload = \<lparr>du_company_id = 2, du_project_id = 1, du_document_id = None, du_document_category = API_SPECIFICATION,
     du_title = ''API'', du_version_label = ''v1'', du_authority_level = AL_APPROVED_DESIGN, du_filename = ''a.md'',
     du_mime_type = ''text/plain'', du_content_base64 = ''aGVsbG8='', du_owner_user_id = Some 5, du_supersedes_version_id = None\<rparr>"

definition w_env :: ApiEnv where
  "w_env = w_api_env\<lparr>ae_put := store_put w_sum No_fault 7 w_fs\<rparr>"

definition w_stored :: fs where
  "w_stored = snd (put_object w_sum No_fault 7 (upload_put w_env w_upload ''hello'') w_fs)"

definition w_adapter :: "http_outcome list RagflowConfig" where
  "w_adapter = w_config (store_get w_sum (\<lambda>_. []) w_stored)"

definition w_answers :: "http_outcome list" where
  "w_answers = [answer_ok (JArr []), answer_ok (JArr [JObj [(''id'', JStr ''d1'')]]), answer_ok JNull, answer_ok JNull]"

definition w_publish_env :: ApiEnv where
  "w_publish_env = w_api_env\<lparr>ae_ingest := (\<lambda>req. fst (ingest w_adapter req (init_adapter w_answers))), ae_doc := 11, ae_version := 12\<rparr>"

definition w_route :: "ApiEnv \<Rightarrow> ApiRequest \<Rightarrow> doc_db \<Rightarrow> (http_exn + (string \<times> string) list) \<times> doc_db" where
  "w_route env request = get_db_session (api_route env 5 request)"

definition w_db1 :: doc_db where "w_db1 = snd (w_route w_env (Api_upload w_upload) w_members)"
definition w_db2 :: doc_db where "w_db2 = snd (w_route w_publish_env (Api_submit 102) w_db1)"
definition w_db3 :: doc_db where "w_db3 = snd (w_route w_publish_env (Api_approve 102) w_db2)"
definition w_db4 :: doc_db where "w_db4 = snd (w_route w_publish_env (Api_publish 102) w_db3)"

lemma w_content: "decode_content (du_content_base64 w_upload) = Some ''hello''" by code_simp

definition w_row :: "DocumentLifecycleStatus \<Rightarrow> datetime option \<Rightarrow> DocumentVersionModel" where
  "w_row st at_time = \<lparr>dv_id = 102, dv_document_id = 101, dv_version_no = 1, dv_version_label = ''v1'',
     dv_authority_level = ''approved_design'', dv_lifecycle_status = st, dv_effective_from = None, dv_effective_to = None,
     dv_supersedes_version_id = None, dv_source_uri = Some (storage_key (uuid_str 1) 7), dv_content_hash = Some ''hhello'',
     dv_published_at = at_time, dv_created_by = 5\<rparr>"

lemma w_upload_put: "upload_put w_env w_upload ''hello'' = \<lparr>po_project_id = uuid_str 1, po_object_key = ''objects/'' @ uuid_hex 100, po_data = ''hello'', po_mime_type = ''text/plain''\<rparr>"
  by (simp add: upload_put_def w_env_def w_api_env_def w_upload_def)

lemma w_put: "fst (put_object w_sum No_fault 7 (upload_put w_env w_upload ''hello'') w_fs) = Inr \<lparr>so_object_key = storage_key (uuid_str 1) 7,
     so_sha256 = ''hhello'', so_project_id = uuid_str 1, so_size_bytes = 5, so_mime_type = ''text/plain''\<rparr>"
  unfolding w_upload_put by code_simp

lemma w_store: "store_put w_sum No_fault 7 w_fs \<lparr>po_project_id = uuid_str 1, po_object_key = ''objects/'' @ uuid_hex 100, po_data = ''hello'', po_mime_type = ''text/plain''\<rparr> =
   Inr \<lparr>so_object_key = storage_key (uuid_str 1) 7, so_sha256 = ''hhello''\<rparr>"
  using w_put by (simp add: store_put_def w_upload_put)

lemmas w_route_eval = w_route_def get_db_session_def calling_def answering_def upload_request_valid_def
  authorized_version_def authorize_version_operation_def authorize_project_operation_def auth_eval doc_eval
  empty_docs_def sample_doc_defs bind_res_def

definition w_doc :: DocumentModel where
  "w_doc = \<lparr>do_id = 101, do_company_id = 2, do_project_id = 1, do_document_category = ''api_specification'', do_title = ''API'', do_owner_user_id = Some 5\<rparr>"

definition w_tables :: "DocumentLifecycleStatus \<Rightarrow> doc_db \<Rightarrow> bool" where
  "w_tables st db \<longleftrightarrow> versions db = [w_row st None] \<and> documents db = [w_doc] \<and> memberships db = memberships sample_docs \<and>
     projects db = [sample_project] \<and> knowledge_spaces db = [sample_space]"

lemma w_db1: "w_tables DRAFT w_db1"
  unfolding w_db1_def w_members_def w_route_def api_route.simps upload_route_def
  using w_content
  by (auto simp: w_tables_def w_doc_def w_route_eval w_store [simplified] w_env_def w_api_env_def w_upload_def upload_command_def upload_document_def
     create_draft_def draft_target_def insert_version_def draft_document_def draft_version_def next_version_no_def upload_draft_def w_row_def)

lemma w_uploaded: "\<exists>body. fst (w_route w_env (Api_upload w_upload) w_members) = Inr body"
  unfolding w_members_def w_route_def api_route.simps upload_route_def
  using w_content
  by (auto simp: w_route_eval w_store [simplified] w_env_def w_api_env_def w_upload_def upload_command_def upload_document_def
     create_draft_def draft_target_def insert_version_def draft_document_def draft_version_def next_version_no_def upload_draft_def)

lemma w_db2: "w_tables UNDER_REVIEW w_db2"
  using w_db1 by (simp add: w_db2_def w_tables_def w_doc_def w_route_eval w_publish_env_def w_api_env_def submit_route_def submit_review_def w_row_def)

lemma w_db3: "w_tables APPROVED w_db3"
  using w_db2 by (simp add: w_db3_def w_tables_def w_doc_def w_route_eval w_publish_env_def w_api_env_def approve_route_def approve_document_def w_row_def)

lemma w_object: "store_get w_sum (\<lambda>_. []) w_stored (storage_key (uuid_str 1) 7) = Inr \<lparr>op_object_key = storage_key (uuid_str 1) 7,
    op_data = ''hello'', op_mime_type = ''text/plain'', op_sha256 = ''hhello''\<rparr>"
proof -
  obtain r where p: "put_object w_sum No_fault 7 (upload_put w_env w_upload ''hello'') w_fs = (r, w_stored)"
    by (simp add: w_stored_def prod_eq_iff)
  then have r: "r = Inr \<lparr>so_object_key = storage_key (uuid_str 1) 7, so_sha256 = ''hhello'', so_project_id = uuid_str 1, so_size_bytes = 5, so_mime_type = ''text/plain''\<rparr>"
    using w_put by simp
  show ?thesis using stored_object_read(1) [OF w_tree p [unfolded r], where evs = "[]" and repr = "\<lambda>_. []"]
    by (simp add: store_get_def w_upload_put w_sum_def)
qed

lemma attempts_object_get: "rf_attempts (g\<lparr>rg_object_get := x\<rparr>) call n left s = rf_attempts g call n left s"
proof (induction left arbitrary: n s)
  case (Suc left)
  then show ?case
    by (auto simp: bind_op_def rf_send_def rf_sleep_def split: prod.splits http_outcome.splits sum.splits)
qed simp

lemma request_object_get: "request_data (g\<lparr>rg_object_get := x\<rparr>) = request_data g"
proof -
  have "rf_attempts (g\<lparr>rg_object_get := x\<rparr>) = rf_attempts g" using attempts_object_get by blast
  then show ?thesis by (simp add: request_data_def [abs_def] rf_request_def [abs_def])
qed

lemma ingest_one_object:
  assumes "rg_object_get g = Some get" and "get (ki_object_key req) = Inr object"
  shows "ingest g req = ingest (g\<lparr>rg_object_get := Some (\<lambda>_. Inr object)\<rparr>) req"
proof -
  let ?h = "g\<lparr>rg_object_get := Some (\<lambda>_. Inr object)\<rparr>"
  have l: "list_documents ?h = list_documents g"
    by (intro ext) (simp add: list_documents_def request_object_get split: option.split)
  have m: "mapping_from_document ?h = mapping_from_document g"
    by (intro ext) (simp add: mapping_from_document_def split: option.split json.split)
  have u: "upload_new_document g get req = upload_new_document ?h (\<lambda>_. Inr object) req"
    by (simp add: upload_new_document_def request_object_get best_effort_delete_provider_document_def assms(2))
  show ?thesis using assms(1) by (simp add: ingest_def l m u cong: option.case_cong)
qed


definition w_current :: DocumentVersionRecord where
  "w_current = (case to_record w_doc (w_row APPROVED None) of Inr x \<Rightarrow> x)"

lemma w_job: "fst (ingest (w_adapter\<lparr>rg_object_get := Some (\<lambda>_. Inr \<lparr>op_object_key = storage_key (uuid_str 1) 7,
    op_data = ''hello'', op_mime_type = ''text/plain'', op_sha256 = ''hhello''\<rparr>)\<rparr>) (ingestion_request w_current ''PRJ-A-1'' ''space'') (init_adapter w_answers)) = Inr ''ragflow:space:d1''"
  by code_simp


lemma w_ingested: "fst (ingest w_adapter (ingestion_request w_current ''PRJ-A-1'' ''space'') (init_adapter w_answers)) = Inr ''ragflow:space:d1''"
proof -
  have get: "rg_object_get w_adapter = Some (store_get w_sum (\<lambda>_. []) w_stored)" by (simp add: w_adapter_def w_config_def)
  have key: "ki_object_key (ingestion_request w_current ''PRJ-A-1'' ''space'') = storage_key (uuid_str 1) 7"
    by (simp add: ingestion_request_def w_current_def to_record_def w_row_def)
  show ?thesis unfolding ingest_one_object [OF get w_object [folded key]] using w_job unfolding key .
qed

lemma w_published: "map dv_lifecycle_status (versions w_db4) = [PUBLISHED]"
  using w_db3 w_ingested [unfolded w_current_def to_record_def w_doc_def w_row_def, simplified]
  by (simp add: w_db4_def w_tables_def w_route_eval w_doc_def w_row_def w_publish_env_def w_api_env_def publish_route_def publish_document_def
     publish_finalize_def complete_publication_def load_superseded_def
     publish_rows_def project_code_def knowledge_space_id_def active_ragflow_space_def) 


section \<open>Witnesses\<close>

lemma published_bytes_are_the_uploaded_witness:
  "\<exists>token answer current code space job s' object.
     document_api w_mac w_verifier 1500 w_publish_env (Some (''Bearer'', token)) (Api_publish 102) w_db3 = (answer, w_db4) \<and>
     map dv_lifecycle_status (versions w_db4) = [PUBLISHED] \<and> get_version 102 w_db3 = Inr current \<and>
     vr_content_hash current = ''hhello'' \<and> op_data object = ''hello'' \<and>
     ingest w_adapter (ingestion_request current code space) (init_adapter w_answers) = (Inr job, s') \<and>
     list_all (uploads space object) (rf_sent s')"
proof -
  have secret: "length (utf8_encode w_secret) = 32" by code_simp
  obtain token where t: "mint_evaluation_jwt w_mac 5 w_secret ''pa'' ''api'' 900 1000 = Inr token"
    by (simp add: mint_evaluation_jwt_def secret Let_def)
  have mac: "\<And>k m. length (w_mac k m) = 32" by (simp add: w_mac_def)
  have user: "get_authenticated_identity w_mac w_verifier 1500 (Some (''Bearer'', token)) = Inr 5"
    using minted_identity [OF t w_init _ _ mac, where now = 1500] by (simp add: printable_def)
  have call: "document_api w_mac w_verifier 1500 env (Some (''Bearer'', token)) request db =
      (http_answer request (fst (w_route env request db)), snd (w_route env request db))" for env request db
    by (simp add: document_api_def user w_route_def split: prod.split)
  obtain code body where up: "document_api w_mac w_verifier 1500 w_env (Some (''Bearer'', token)) (Api_upload w_upload) w_members =
      (Answer code body, w_db1)"
    using w_uploaded by (auto simp: call w_db1_def http_answer_def)
  have step: "api_request db (snd (w_route w_publish_env request db))" if "w_tables st db" for st db request
    by (rule api_call [where env = w_publish_env and mac = w_mac and jv = w_verifier and clock = 1500
          and credentials = "Some (''Bearer'', token)"])
      (use that in \<open>simp_all add: call w_tables_def w_publish_env_def w_api_env_def w_row_def w_doc_def\<close>)
  have later: "api_request\<^sup>*\<^sup>* w_db1 w_db3"
  proof (rule rtranclp_trans)
    show "api_request\<^sup>*\<^sup>* w_db1 w_db2" unfolding w_db2_def by (rule r_into_rtranclp, rule step [OF w_db1])
    show "api_request\<^sup>*\<^sup>* w_db2 w_db3" unfolding w_db3_def by (rule r_into_rtranclp, rule step [OF w_db2])
  qed
  have pol: "init_retry_policy 3 (1/4) 2 = Inr (rg_policy w_adapter)" using w_policy(1) by (simp add: w_adapter_def)
  have ok: "docs_ok w_members" by (simp add: docs_ok_def w_members_def empty_docs_def version_numbers_def)
  have fresh: "ae_doc w_env \<notin> do_id ` set (documents w_members)" "ae_version w_env \<notin> dv_id ` set (versions w_members)"
    by (simp_all add: w_members_def empty_docs_def)
  have put: "ae_put w_env = store_put w_sum No_fault 7 w_fs" and version: "ae_version w_env = 102"
    by (simp_all add: w_env_def w_api_env_def)
  have get: "rg_object_get w_adapter = Some (store_get w_sum (\<lambda>_. []) (fold (\<lambda>ev fs. snd (apply_store w_sum ev fs)) [] w_stored))"
    by (simp add: w_adapter_def w_config_def)
  have ingest: "ae_ingest w_publish_env = (\<lambda>req. fst (ingest w_adapter req (init_adapter w_answers)))"
    by (simp add: w_publish_env_def)
  have publish: "document_api w_mac w_verifier 1500 w_publish_env (Some (''Bearer'', token)) (Api_publish 102) w_db3 =
      (http_answer (Api_publish 102) (fst (w_route w_publish_env (Api_publish 102) w_db3)), w_db4)"
    by (simp add: call w_db4_def)
  have changed: "versions w_db4 \<noteq> versions w_db3" using w_published w_db3 by (auto simp: w_tables_def w_row_def)
  have spare: "\<forall>ev\<in>set []. spares (uuid_str (du_project_id w_upload)) 7 ev" by simp
  obtain current project_code_text space job s' cs object where
     "get_version 102 w_db3 = Inr current" "vr_content_hash current = w_sum ''hello''"
     "ingest w_adapter (ingestion_request current project_code_text space) (init_adapter w_answers) = (Inr job, s')"
     "rf_sent s' = rf_sent (init_adapter w_answers) @ cs" "op_data object = ''hello''" "\<forall>c\<in>set cs. uploads space object c"
    using published_bytes_are_the_uploaded [OF pol w_tree ok fresh put up w_content w_stored_def later spare get ingest
        publish [folded version] changed]
    unfolding version by blast
  then show ?thesis using publish w_published
    by (simp add: init_adapter_def w_sum_def list_all_iff) blast
qed

definition w_slashed :: DocumentVersionRecord where
  "w_slashed = w_current\<lparr>vr_title := ''API v1/v2''\<rparr>"

lemma unsafe_title_never_uploaded_witness:
  "\<exists>r s'. ingest w_adapter (ingestion_request w_slashed ''PRJ-A-1'' ''space'') (init_adapter w_answers) = (r, s') \<and>
     list_all (\<lambda>c. rc_file c = None) (rf_sent s')"
proof -
  obtain r s' where run: "ingest w_adapter (ingestion_request w_slashed ''PRJ-A-1'' ''space'') (init_adapter w_answers) = (r, s')"
    by fastforce
  have "init_retry_policy 3 (1/4) 2 = Inr (rg_policy w_adapter)" using w_policy(1) by (simp add: w_adapter_def)
  then show ?thesis
    using unsafe_title_never_uploaded [OF _ _ run] run by (auto simp: w_slashed_def init_adapter_def list_all_iff)
qed

end
