(* ===== verification/EvidenceProofs.thy ===== *)
theory EvidenceProofs
  imports Evidence
begin

text \<open>
  What a pack of governed evidence guarantees: its provenance, the authority policy for conflicting
  claims, and that no contradiction stays undisclosed.
\<close>

section \<open>Metadata\<close>

lemma find_SomeD: "find P xs = Some x \<Longrightarrow> x \<in> set xs \<and> P x"
  by (induction xs) (auto split: if_splits)

lemma current_version_no_newest:
  assumes "current_version_no k db = Some n" and "w \<in> set (versions db)"
    and "dv_document_id w = k" and "dv_lifecycle_status w = PUBLISHED"
  shows "dv_version_no w \<le> n"
proof -
  have w: "dv_version_no w \<in> set (map dv_version_no (filter (\<lambda>v. dv_document_id v = k \<and>
      dv_lifecycle_status v = PUBLISHED) (versions db)))" using assms by auto
  then show ?thesis using assms(1) by (auto simp: current_version_no_def Let_def split: if_splits)
qed

lemma metadata_row:
  assumes "get_document_evidence_metadata ids db = Inr metadata" and "metadata_of metadata k = Some info"
  obtains v d where "v \<in> set (versions db)" "d \<in> set (documents db)" "do_id d = dv_document_id v" "dv_id v = k"
    "evidence_metadata db (v, d) = Inr info"
proof -
  have info: "info \<in> set metadata" "em_document_version_id info = k"
    using find_SomeD [OF assms(2) [unfolded metadata_of_def]] by simp_all
  then have "ids \<noteq> []" using assms(1) by (auto simp: get_document_evidence_metadata_def)
  then obtain v d where "v \<in> set (versions db)" "d \<in> set (documents db)" "do_id d = dv_document_id v"
      "evidence_metadata db (v, d) = Inr info"
    using map_res_Inr_set [OF assms(1) [unfolded get_document_evidence_metadata_def if_not_P [OF \<open>ids \<noteq> []\<close>]] info(1)]
    by auto
  moreover have "dv_id v = k"
    using \<open>evidence_metadata db (v, d) = Inr info\<close> info(2) by (auto simp: evidence_metadata_def bind_res_Inr_iff)
  ultimately show thesis using that by blast
qed

lemma eligible_newest:
  assumes "get_document_evidence_metadata ids db = Inr metadata" and "metadata_of metadata k = Some info"
    and "eligible p today info"
  shows "newest_published db p k"
proof -
  from metadata_row [OF assms(1,2)] obtain v d where
    v: "v \<in> set (versions db)" "d \<in> set (documents db)" "do_id d = dv_document_id v" "dv_id v = k"
      "evidence_metadata db (v, d) = Inr info" .
  then have "do_project_id d = p" "dv_lifecycle_status v = PUBLISHED"
      "current_version_no (dv_document_id v) db = Some (dv_version_no v)"
    using assms(3) by (auto simp: evidence_metadata_def eligible_def bind_res_Inr_iff)
  then show ?thesis
    unfolding newest_published_def using v(1-4) current_version_no_newest by blast
qed

section \<open>Candidates\<close>

lemma parse_chunks_member:
  "(c, v) \<in> set (parse_chunks code chunks) \<longleftrightarrow>
     c \<in> set chunks \<and> ch_project_id c = code \<and> UUID (ch_document_version_id c) = Inr v"
  by (auto simp: parse_chunks_def map_filter_def split: sum.splits) (force split: sum.splits)+

lemma govern_chunks_member:
  "e \<in> set (govern_chunks p code today metadata seen parsed) \<Longrightarrow>
   \<exists>c v info. (c, v) \<in> set parsed \<and> metadata_of metadata v = Some info \<and> eligible p today info \<and>
     e = governed p code c v info"
proof (induction parsed arbitrary: seen)
  case (Cons x rest)
  obtain chunk v where x: "x = (chunk, v)" by (cases x)
  show ?case
  proof (cases "\<exists>seen'. e \<in> set (govern_chunks p code today metadata seen' rest)")
    case True
    then show ?thesis using Cons.IH by (meson list.set_intros(2))
  next
    case False
    then obtain info where "metadata_of metadata v = Some info" "eligible p today info"
        "e = governed p code chunk v info"
      using Cons.prems unfolding x by (fastforce simp: Let_def split: option.splits if_splits)
    then show ?thesis using x by auto
  qed
qed simp

abbreviation evidence_key :: "GovernedEvidence \<Rightarrow> uuid \<times> string" where
  "evidence_key e \<equiv> (ge_document_version_id e, py_strip (ge_content e))"

lemma govern_chunks_distinct:
  "distinct (map evidence_key (govern_chunks p code today metadata seen parsed)) \<and>
   set (map evidence_key (govern_chunks p code today metadata seen parsed)) \<inter> set seen = {}"
proof (induction parsed arbitrary: seen)
  case (Cons x rest)
  obtain chunk v where x: "x = (chunk, v)" by (cases x)
  have key: "evidence_key (governed p code chunk v info) = (v, py_strip (ch_content chunk))" for info
    by (simp add: governed_def)
  show ?case
    using Cons.IH [of seen] Cons.IH [of "(v, py_strip (ch_content chunk)) # seen"] unfolding x
    by (cases "metadata_of metadata v") (auto simp: Let_def key)
qed simp

section \<open>The authority policy\<close>

lemma fromkeys_le_1: "length (fromkeys vs) \<le> 1 \<longleftrightarrow> (\<forall>x\<in>set vs. \<forall>y\<in>set vs. x = y)"
proof -
  have "length (fromkeys vs) = card (set vs)" using distinct_card [of "fromkeys vs"] by simp
  then show ?thesis by (auto simp: card_le_Suc0_iff_eq)
qed

definition agree :: "GovernedEvidence list \<Rightarrow> bool" where
  "agree es \<longleftrightarrow> (\<forall>x\<in>set es. \<forall>y\<in>set es. ge_claim_value x = ge_claim_value y)"

lemma fromkeys_agree: "length (fromkeys (map ge_claim_value es)) \<le> 1 \<longleftrightarrow> agree es"
  unfolding fromkeys_le_1 by (auto simp: agree_def)

definition rank_of :: "GovernedEvidence \<Rightarrow> nat" where
  "rank_of e = authority_rank (ge_authority_level e)"

definition top_of :: "GovernedEvidence list \<Rightarrow> GovernedEvidence list" where
  "top_of es = filter (\<lambda>e. \<forall>c\<in>set es. rank_of e \<le> rank_of c) es"

lemma resolve_group_unfold:
  assumes "es \<noteq> []"
  shows "resolve_group es = (if agree es then es else if agree (top_of es) then top_of es
     else map (\<lambda>e. e\<lparr>ge_unresolved_conflict := True\<rparr>) (top_of es))"
proof -
  let ?ranks = "set (map (\<lambda>e. authority_rank (ge_authority_level e)) es)"
  have min: "authority_rank (ge_authority_level e) = Min ?ranks \<longleftrightarrow> (\<forall>c\<in>set es. rank_of e \<le> rank_of c)"
    if "e \<in> set es" for e
    using that by (subst eq_commute, subst Min_eq_iff) (auto simp: rank_of_def)
  have top: "filter (\<lambda>e. authority_rank (ge_authority_level e) = Min ?ranks) es = top_of es"
    unfolding top_of_def using min by (intro filter_cong) auto
  have "Min ?ranks \<in> ?ranks" using assms by (intro Min_in) auto
  then have "top_of es \<noteq> []" unfolding top [symmetric] by (auto simp: filter_empty_conv)
  then have "length (fromkeys (map ge_claim_value (top_of es))) = 1 \<longleftrightarrow> agree (top_of es)"
    using fromkeys_agree [of "top_of es"] fromkeys_eq_Nil [of "map ge_claim_value (top_of es)"]
    by (simp add: le_Suc_eq)
  then show ?thesis
    using fromkeys_agree [of es] unfolding resolve_group_def Let_def top by simp
qed

text \<open>The items that claim a value for a conflict key.\<close>

definition claims_on :: "string option \<Rightarrow> GovernedEvidence list \<Rightarrow> GovernedEvidence list" where
  "claims_on k es = filter (\<lambda>e. grouped e \<and> ge_conflict_key e = k) es"

lemma resolve_member:
  assumes "\<And>c. c \<in> set cands \<Longrightarrow> \<not> ge_unresolved_conflict c"
  shows "e \<in> set (resolve_explicit_conflicts cands) \<longleftrightarrow>
    (\<exists>c\<in>set cands. let g = claims_on (ge_conflict_key c) cands in
       if \<not> grouped c \<or> agree g then e = c
       else c \<in> set (top_of g) \<and> e = c\<lparr>ge_unresolved_conflict := \<not> agree (top_of g)\<rparr>)"
    (is "?L \<longleftrightarrow> ?R")
proof -
  let ?g = "\<lambda>k. claims_on k cands"
  have unf: "resolve_group (?g k) = (if agree (?g k) then ?g k else if agree (top_of (?g k)) then top_of (?g k)
     else map (\<lambda>e. e\<lparr>ge_unresolved_conflict := True\<rparr>) (top_of (?g k)))"
    if "k \<in> ge_conflict_key ` {c \<in> set cands. grouped c}" for k
    using that by (intro resolve_group_unfold) (auto simp: claims_on_def filter_empty_conv)
  have same: "c\<lparr>ge_unresolved_conflict := False\<rparr> = c" if "c \<in> set cands" for c
    using assms [OF that] by simp
  have sub: "c \<in> set cands \<and> grouped c \<and> ge_conflict_key c = k" if "c \<in> set (top_of (?g k))" for c k
    using that by (auto simp: top_of_def claims_on_def)
  have L: "?L \<longleftrightarrow> (e \<in> set cands \<and> \<not> grouped e) \<or>
      (\<exists>k\<in>ge_conflict_key ` {c \<in> set cands. grouped c}. e \<in> set (resolve_group (?g k)))"
    by (auto simp: resolve_explicit_conflicts_def claims_on_def)
  show ?thesis
  proof
    assume ?L
    then consider "e \<in> set cands" "\<not> grouped e"
      | k where "k \<in> ge_conflict_key ` {c \<in> set cands. grouped c}" "e \<in> set (resolve_group (?g k))"
      unfolding L by blast
    then show ?R
    proof cases
      case 1
      then show ?thesis by (intro bexI [of _ e]) (simp_all add: Let_def)
    next
      case 2
      show ?thesis
      proof (cases "agree (?g k)")
        case True
        then have "e \<in> set (?g k)" using 2 unf by simp
        then show ?thesis using True by (intro bexI [of _ e]) (auto simp: claims_on_def Let_def)
      next
        case False
        then obtain c where c: "c \<in> set (top_of (?g k))" "e = c\<lparr>ge_unresolved_conflict := \<not> agree (top_of (?g k))\<rparr>"
          using 2 unf same sub by (cases "agree (top_of (?g k))") fastforce+
        then show ?thesis using False sub [OF c(1)] by (intro bexI [of _ c]) (auto simp: Let_def)
      qed
    qed
  next
    assume ?R
    then obtain c where c: "c \<in> set cands" "let g = ?g (ge_conflict_key c) in
       if \<not> grouped c \<or> agree g then e = c
       else c \<in> set (top_of g) \<and> e = c\<lparr>ge_unresolved_conflict := \<not> agree (top_of g)\<rparr>" by blast
    show ?L
    proof (cases "grouped c")
      case False
      then show ?thesis unfolding L using c by (auto simp: Let_def)
    next
      case True
      then have k: "ge_conflict_key c \<in> ge_conflict_key ` {c \<in> set cands. grouped c}" using c(1) by blast
      have "e \<in> set (resolve_group (?g (ge_conflict_key c)))"
        unfolding unf [OF k] using c True same [OF c(1)]
        by (auto simp: Let_def claims_on_def split: if_splits)
      then show ?thesis unfolding L using k by blast
    qed
  qed
qed

section \<open>Selection and labels\<close>

lemma select_evidence_sub: "set (select_evidence n cs) \<subseteq> set cs"
  by (auto simp: select_evidence_def Let_def dest: in_set_takeD in_set_dropD)

lemma select_evidence_protected:
  assumes "e \<in> set cs" and "ge_unresolved_conflict e" and "ge_conflict_key e \<noteq> None"
  shows "e \<in> set (select_evidence n cs)"
proof -
  have "e \<in> set (take n cs) \<or> e \<in> set (drop n cs)"
    using assms(1) by (metis append_take_drop_id Un_iff set_append)
  moreover have "ge_conflict_key e \<in> set (map ge_conflict_key
      (filter (\<lambda>e. ge_unresolved_conflict e \<and> ge_conflict_key e \<noteq> None) cs))" (is "_ \<in> set ?keys")
    using assms by auto
  moreover have "?keys \<noteq> []" using calculation(2) by (intro notI) (simp only: list.set empty_iff)
  ultimately show ?thesis
    unfolding select_evidence_def Let_def using assms(2) by (simp only: if_False set_sort set_append) auto
qed

lemma select_evidence_length:
  assumes "\<And>e. e \<in> set cs \<Longrightarrow> \<not> ge_unresolved_conflict e"
  shows "length (select_evidence n cs) \<le> n"
  using assms by (auto simp: select_evidence_def Let_def filter_empty_conv)

lemma label_evidence_labels:
  "map ge_label (label_evidence items) = map evidence_label [1..<Suc (length items)]"
  unfolding label_evidence_def enumerate_eq_zip by (rule nth_equalityI) (simp_all del: upt_Suc)

lemma label_evidence_member:
  "e \<in> set (label_evidence items) \<Longrightarrow> \<exists>c\<in>set items. e = c\<lparr>ge_label := ge_label e\<rparr>"
  unfolding label_evidence_def enumerate_eq_zip by (auto dest: set_zip_rightD)

lemma label_evidence_covers:
  assumes "c \<in> set items"
  shows "\<exists>e\<in>set (label_evidence items). e = c\<lparr>ge_label := ge_label e\<rparr>"
proof -
  obtain i where i: "i < length items" "items ! i = c" using assms by (auto simp: in_set_conv_nth)
  then have "label_evidence items ! i = c\<lparr>ge_label := evidence_label (Suc i)\<rparr>" "i < length (label_evidence items)"
    unfolding label_evidence_def enumerate_eq_zip by (simp_all del: upt_Suc)
  then show ?thesis by (intro bexI [of _ "label_evidence items ! i"]) (simp, metis nth_mem)
qed

lemma conflict_table_some:
  assumes "e1 \<in> set es" "e2 \<in> set es" "ge_unresolved_conflict e1" "ge_unresolved_conflict e2"
    "ge_conflict_key e1 = Some k" "ge_conflict_key e2 = Some k" "ge_claim_value e1 \<noteq> ge_claim_value e2"
  shows "map_of (conflict_table es) k = Some (map ge_label
      (filter (\<lambda>e. ge_unresolved_conflict e \<and> ge_conflict_key e = Some k) es))"
proof -
  define conf where "conf = filter (\<lambda>e. ge_unresolved_conflict e \<and> ge_conflict_key e \<noteq> None) es"
  let ?g = "\<lambda>k. filter (\<lambda>e. ge_conflict_key e = Some k) conf"
  have m: "e1 \<in> set (?g k)" "e2 \<in> set (?g k)" using assms by (auto simp: conf_def)
  then have "\<not> agree (?g k)" using assms(7) unfolding agree_def by blast
  then have two: "1 < length (fromkeys (map ge_claim_value (?g k)))"
    using fromkeys_agree [of "?g k"] by linarith
  have "k \<in> set (map (the \<circ> ge_conflict_key) conf)"
    using assms(1,3,5) by (force simp: conf_def image_iff)
  then have "k \<in> set (filter (\<lambda>k. 1 < length (fromkeys (map ge_claim_value (?g k))))
      (sort (fromkeys (map (the \<circ> ge_conflict_key) conf))))" using two by simp
  then have "map_of (conflict_table es) k = Some (map ge_label (?g k))"
    unfolding conflict_table_def Let_def conf_def [symmetric] map_of_map_restrict by simp
  moreover have "?g k = filter (\<lambda>e. ge_unresolved_conflict e \<and> ge_conflict_key e = Some k) es"
    unfolding conf_def filter_filter by (rule filter_cong) auto
  ultimately show ?thesis by simp
qed

section \<open>The pack\<close>

text \<open>The candidates of a pack: the governed chunks before conflicts are resolved.\<close>

definition pack_candidates ::
  "date \<Rightarrow> uuid \<Rightarrow> string \<Rightarrow> KnowledgeChunk list \<Rightarrow> DocumentEvidenceMetadata list \<Rightarrow> GovernedEvidence list" where
  "pack_candidates today p code chunks metadata = govern_chunks p code today metadata [] (parse_chunks code chunks)"

lemma pack_Inr:
  assumes "pack n today p code chunks db = Inr pk"
  obtains metadata where
    "get_document_evidence_metadata (fromkeys (map snd (parse_chunks code chunks))) db = Inr metadata"
    "gp_evidence pk = label_evidence (select_evidence n (sort_key evidence_order
       (resolve_explicit_conflicts (pack_candidates today p code chunks metadata))))"
    "gp_unresolved_conflicts pk = conflict_table (gp_evidence pk)"
  using assms by (auto simp: pack_def pack_candidates_def Let_def bind_res_Inr_iff)

lemma candidate_fresh: "c \<in> set (pack_candidates today p code chunks metadata) \<Longrightarrow> \<not> ge_unresolved_conflict c"
  unfolding pack_candidates_def by (auto dest!: govern_chunks_member simp: governed_def)

lemma evidence_candidate:
  assumes "e \<in> set (label_evidence (select_evidence n (sort_key evidence_order
      (resolve_explicit_conflicts (pack_candidates today p code chunks metadata)))))"
  obtains c where "c \<in> set (pack_candidates today p code chunks metadata)"
    "e = c\<lparr>ge_label := ge_label e, ge_unresolved_conflict := ge_unresolved_conflict e\<rparr>"
    "grouped c \<and> \<not> agree (claims_on (ge_conflict_key c) (pack_candidates today p code chunks metadata)) \<longrightarrow>
       c \<in> set (top_of (claims_on (ge_conflict_key c) (pack_candidates today p code chunks metadata))) \<and>
       ge_unresolved_conflict e = (\<not> agree (top_of (claims_on (ge_conflict_key c)
         (pack_candidates today p code chunks metadata))))"
proof -
  let ?cands = "pack_candidates today p code chunks metadata"
  obtain r where r: "r \<in> set (resolve_explicit_conflicts ?cands)" "e = r\<lparr>ge_label := ge_label e\<rparr>"
    using label_evidence_member [OF assms] select_evidence_sub by force
  then obtain c where c: "c \<in> set ?cands" "let g = claims_on (ge_conflict_key c) ?cands in
      if \<not> grouped c \<or> agree g then r = c
      else c \<in> set (top_of g) \<and> r = c\<lparr>ge_unresolved_conflict := \<not> agree (top_of g)\<rparr>"
    using resolve_member [of ?cands r] candidate_fresh by blast
  show thesis
  proof (rule that [OF c(1)])
    have "r = c\<lparr>ge_unresolved_conflict := ge_unresolved_conflict r\<rparr>"
      using c(2) by (auto simp: Let_def split: if_splits)
    then show "e = c\<lparr>ge_label := ge_label e, ge_unresolved_conflict := ge_unresolved_conflict e\<rparr>"
      using r(2) by (cases c; cases r; cases e) simp
    have "ge_unresolved_conflict e = ge_unresolved_conflict r" by (subst r(2)) simp
    then show "grouped c \<and> \<not> agree (claims_on (ge_conflict_key c) ?cands) \<longrightarrow> c \<in> set (top_of (claims_on (ge_conflict_key c) ?cands)) \<and>
        ge_unresolved_conflict e = (\<not> agree (top_of (claims_on (ge_conflict_key c) ?cands)))"
      using c(2) by (auto simp: Let_def)
  qed
qed

lemma pack_sound:
  assumes "pack n today p code chunks db = Inr pk"
  shows "(\<forall>e\<in>set (gp_evidence pk).
       newest_published db p (ge_document_version_id e) \<and> ge_project_id e = p \<and>
       ge_lifecycle_status e = PUBLISHED \<and> ge_is_current e \<and>
       in_force today (ge_effective_from e) (ge_effective_to e) \<and>
       (\<exists>c\<in>set chunks. ch_project_id c = code \<and> UUID (ch_document_version_id c) = Inr (ge_document_version_id e) \<and>
          ch_content c = ge_content e)) \<and>
    map ge_label (gp_evidence pk) = map evidence_label [1..<Suc (length (gp_evidence pk))]"
proof -
  obtain metadata where meta: "get_document_evidence_metadata (fromkeys (map snd (parse_chunks code chunks))) db = Inr metadata"
    and ev: "gp_evidence pk = label_evidence (select_evidence n (sort_key evidence_order
       (resolve_explicit_conflicts (pack_candidates today p code chunks metadata))))"
    using assms by (rule pack_Inr)
  {
    fix e assume "e \<in> set (gp_evidence pk)"
    then obtain c where c: "c \<in> set (pack_candidates today p code chunks metadata)"
        "e = c\<lparr>ge_label := ge_label e, ge_unresolved_conflict := ge_unresolved_conflict e\<rparr>"
      unfolding ev by (rule evidence_candidate)
    obtain ch v info where g: "(ch, v) \<in> set (parse_chunks code chunks)" "metadata_of metadata v = Some info"
        "eligible p today info" "c = governed p code ch v info"
      using c(1) unfolding pack_candidates_def by (blast dest: govern_chunks_member)
    have "ge_document_version_id e = v" "ge_project_id e = p" "ge_lifecycle_status e = em_lifecycle_status info"
        "ge_is_current e = em_is_current info" "ge_effective_from e = em_effective_from info"
        "ge_effective_to e = em_effective_to info" "ge_content e = ch_content ch"
      by (subst c(2), simp add: g(4) governed_def)+
    then have "newest_published db p (ge_document_version_id e) \<and> ge_project_id e = p \<and>
       ge_lifecycle_status e = PUBLISHED \<and> ge_is_current e \<and>
       in_force today (ge_effective_from e) (ge_effective_to e) \<and>
       (\<exists>c\<in>set chunks. ch_project_id c = code \<and> UUID (ch_document_version_id c) = Inr (ge_document_version_id e) \<and>
          ch_content c = ge_content e)"
      using eligible_newest [OF meta g(2,3)] g(1,3) unfolding eligible_def parse_chunks_member by auto
  }
  then show ?thesis
    unfolding ev by (simp only: label_evidence_labels length_map) (simp add: label_evidence_def enumerate_eq_zip)
qed

text \<open>The rows that a piece of evidence rests on: its version and the document of that version, in the project,
  published, the newest such version, in force by the dates of the row; and it says what the rows say.\<close>

definition rests_on :: "doc_db \<Rightarrow> uuid \<Rightarrow> date \<Rightarrow> GovernedEvidence \<Rightarrow> bool" where
  "rests_on db p today e \<longleftrightarrow>
     (\<exists>v\<in>set (versions db). \<exists>d\<in>set (documents db).
        dv_id v = ge_document_version_id e \<and> do_id d = dv_document_id v \<and> do_project_id d = p \<and>
        dv_lifecycle_status v = PUBLISHED \<and>
        (\<forall>w\<in>set (versions db). dv_document_id w = dv_document_id v \<longrightarrow> dv_lifecycle_status w = PUBLISHED \<longrightarrow>
           dv_version_no w \<le> dv_version_no v) \<and>
        in_force today (dv_effective_from v) (dv_effective_to v) \<and>
        ge_effective_from e = dv_effective_from v \<and> ge_effective_to e = dv_effective_to v \<and>
        ge_document_title e = do_title d \<and> ge_version_no e = dv_version_no v \<and>
        AuthorityLevel_of (dv_authority_level v) = Inr (ge_authority_level e) \<and>
        DocumentCategory_of (do_document_category d) = Inr (ge_document_category e))"

lemma pack_rests_on:
  assumes "pack n today p code chunks db = Inr pk" and "e \<in> set (gp_evidence pk)"
  shows "rests_on db p today e"
proof -
  obtain metadata where meta: "get_document_evidence_metadata (fromkeys (map snd (parse_chunks code chunks))) db = Inr metadata"
    and ev: "gp_evidence pk = label_evidence (select_evidence n (sort_key evidence_order
       (resolve_explicit_conflicts (pack_candidates today p code chunks metadata))))"
    using assms(1) by (rule pack_Inr)
  obtain c where c: "c \<in> set (pack_candidates today p code chunks metadata)"
      "e = c\<lparr>ge_label := ge_label e, ge_unresolved_conflict := ge_unresolved_conflict e\<rparr>"
    using assms(2) unfolding ev by (rule evidence_candidate)
  obtain ch k info where g: "metadata_of metadata k = Some info" "eligible p today info" "c = governed p code ch k info"
    using c(1) unfolding pack_candidates_def by (blast dest: govern_chunks_member)
  obtain v d where v: "v \<in> set (versions db)" "d \<in> set (documents db)" "do_id d = dv_document_id v" "dv_id v = k"
      "evidence_metadata db (v, d) = Inr info"
    using metadata_row [OF meta g(1)] .
  have e: "ge_document_version_id e = k" "ge_effective_from e = em_effective_from info" "ge_effective_to e = em_effective_to info"
      "ge_document_title e = em_title info" "ge_version_no e = em_version_no info"
      "ge_authority_level e = em_authority_level info" "ge_document_category e = em_document_category info"
    by (subst c(2), simp add: g(3) governed_def)+
  have i: "em_effective_from info = dv_effective_from v" "em_effective_to info = dv_effective_to v" "em_title info = do_title d"
      "em_version_no info = dv_version_no v" "AuthorityLevel_of (dv_authority_level v) = Inr (em_authority_level info)"
      "DocumentCategory_of (do_document_category d) = Inr (em_document_category info)" "em_project_id info = do_project_id d"
      "em_lifecycle_status info = dv_lifecycle_status v"
      "em_is_current info \<Longrightarrow> current_version_no (dv_document_id v) db = Some (dv_version_no v)"
    using v(5) by (auto simp: evidence_metadata_def bind_res_Inr_iff)
  have el: "em_project_id info = p" "em_lifecycle_status info = PUBLISHED" "em_is_current info"
      "in_force today (em_effective_from info) (em_effective_to info)"
    using g(2) by (simp_all add: eligible_def)
  have "\<forall>w\<in>set (versions db). dv_document_id w = dv_document_id v \<longrightarrow> dv_lifecycle_status w = PUBLISHED \<longrightarrow>
      dv_version_no w \<le> dv_version_no v"
    using current_version_no_newest [OF i(9) [OF el(3)]] by blast
  then show ?thesis unfolding rests_on_def using v(1-4) e i el by (intro bexI [OF _ v(1)] bexI [OF _ v(2)]) simp
qed

text \<open>C39: every piece of evidence in a pack quotes a chunk that was retrieved for the project, and rests on a row of
  the tables: a version of a document of this project that is published, the newest published one of its
  document, and in force today by the dates of the row; its title, version, dates, category and authority are
  those of the rows. The pieces are labelled E1, E2, \<dots> in order.\<close>

theorem pack_provenance:
  assumes "pack n today p code chunks db = Inr pk"
  shows "(\<forall>e\<in>set (gp_evidence pk).
       rests_on db p today e \<and> ge_project_id e = p \<and> ge_lifecycle_status e = PUBLISHED \<and> ge_is_current e \<and>
       (\<exists>c\<in>set chunks. ch_project_id c = code \<and> UUID (ch_document_version_id c) = Inr (ge_document_version_id e) \<and>
          ch_content c = ge_content e)) \<and>
    map ge_label (gp_evidence pk) = map evidence_label [1..<Suc (length (gp_evidence pk))]"
  using pack_sound [OF assms] pack_rests_on [OF assms] by blast

lemma grouped_update [simp]:
  "grouped (c\<lparr>ge_label := l\<rparr>) = grouped c" "grouped (c\<lparr>ge_unresolved_conflict := b\<rparr>) = grouped c"
  by (simp_all add: grouped_def)

text \<open>A contradiction between retrieved claims is decided by authority or disclosed, never hidden: two
  pieces of evidence of a pack that claim different values for the same key have the same authority and
  are both listed, by their labels, under that key in the unresolved conflicts; and no piece of the
  pack is contradicted by a candidate of a higher authority.\<close>

theorem pack_contradictions:
  assumes "pack n today p code chunks db = Inr pk"
    and "get_document_evidence_metadata (fromkeys (map snd (parse_chunks code chunks))) db = Inr metadata"
    and "e \<in> set (gp_evidence pk)" and "ge_conflict_key e = Some k" and "ge_claim_value e = Some a"
  shows "(\<forall>e'\<in>set (gp_evidence pk). ge_conflict_key e' = Some k \<longrightarrow> ge_claim_value e' \<noteq> None \<longrightarrow>
       ge_claim_value e' \<noteq> Some a \<longrightarrow>
       authority_rank (ge_authority_level e') = authority_rank (ge_authority_level e) \<and>
       (\<exists>labels. map_of (gp_unresolved_conflicts pk) k = Some labels \<and>
          ge_label e \<in> set labels \<and> ge_label e' \<in> set labels)) \<and>
    (\<forall>c\<in>set (pack_candidates today p code chunks metadata). ge_conflict_key c = Some k \<longrightarrow>
       ge_claim_value c \<noteq> None \<longrightarrow> ge_claim_value c \<noteq> Some a \<longrightarrow>
       authority_rank (ge_authority_level e) \<le> authority_rank (ge_authority_level c))"
proof -
  let ?cands = "pack_candidates today p code chunks metadata"
  let ?g = "claims_on (Some k) ?cands"
  have ev: "gp_evidence pk = label_evidence (select_evidence n (sort_key evidence_order
       (resolve_explicit_conflicts ?cands)))" and tab: "gp_unresolved_conflicts pk = conflict_table (gp_evidence pk)"
    using assms(1,2) by (auto elim: pack_Inr)
  have side: "\<exists>c\<in>set ?g. ge_claim_value c = ge_claim_value x \<and> rank_of c = rank_of x \<and>
      (\<not> agree ?g \<longrightarrow> c \<in> set (top_of ?g) \<and> ge_unresolved_conflict x = (\<not> agree (top_of ?g)))"
    if x: "x \<in> set (gp_evidence pk)" "ge_conflict_key x = Some k" "ge_claim_value x \<noteq> None" for x
  proof -
    obtain c where c: "c \<in> set ?cands"
        "x = c\<lparr>ge_label := ge_label x, ge_unresolved_conflict := ge_unresolved_conflict x\<rparr>"
        "grouped c \<and> \<not> agree (claims_on (ge_conflict_key c) ?cands) \<longrightarrow>
           c \<in> set (top_of (claims_on (ge_conflict_key c) ?cands)) \<and>
           ge_unresolved_conflict x = (\<not> agree (top_of (claims_on (ge_conflict_key c) ?cands)))"
      using x(1) unfolding ev by (rule evidence_candidate)
    have k: "ge_conflict_key c = Some k" "ge_claim_value c = ge_claim_value x" "rank_of c = rank_of x"
      using x(2) by (subst (asm) c(2), simp) (subst c(2), simp add: rank_of_def)+
    then have "grouped c" using x(3) by (simp add: grouped_def)
    then show ?thesis using c(1,3) k by (intro bexI [of _ c]) (auto simp: claims_on_def)
  qed
  obtain c where c: "c \<in> set ?g" "ge_claim_value c = Some a" "rank_of c = rank_of e"
      "\<not> agree ?g \<Longrightarrow> c \<in> set (top_of ?g) \<and> ge_unresolved_conflict e = (\<not> agree (top_of ?g))"
    using side [OF assms(3,4)] assms(5) by auto
  have split: "\<not> agree ?g" if "d \<in> set ?g" "ge_claim_value d \<noteq> Some a" for d
    using c(1,2) that unfolding agree_def by metis
  have top: "rank_of x \<le> rank_of d" if "x \<in> set (top_of ?g)" "d \<in> set ?g" for x d
    using that by (simp add: top_of_def)
  have sub: "x \<in> set ?g" if "x \<in> set (top_of ?g)" for x using that by (simp add: top_of_def)
  have one: "authority_rank (ge_authority_level e') = authority_rank (ge_authority_level e) \<and>
       (\<exists>labels. map_of (gp_unresolved_conflicts pk) k = Some labels \<and>
          ge_label e \<in> set labels \<and> ge_label e' \<in> set labels)"
    if e': "e' \<in> set (gp_evidence pk)" "ge_conflict_key e' = Some k" "ge_claim_value e' \<noteq> None"
      "ge_claim_value e' \<noteq> Some a" for e'
  proof -
    obtain d where d: "d \<in> set ?g" "ge_claim_value d = ge_claim_value e'" "rank_of d = rank_of e'"
        "\<not> agree ?g \<Longrightarrow> d \<in> set (top_of ?g) \<and> ge_unresolved_conflict e' = (\<not> agree (top_of ?g))"
      using side [OF e'(1-3)] by auto
    have no: "\<not> agree ?g" using split [OF d(1)] d(2) e'(4) by simp
    then have tops: "c \<in> set (top_of ?g)" "d \<in> set (top_of ?g)" using c(4) d(4) by auto
    then have "\<not> agree (top_of ?g)" using c(2) d(2) e'(4) unfolding agree_def by metis
    then have "ge_unresolved_conflict e" "ge_unresolved_conflict e'" using c(4) d(4) no by auto
    then have "map_of (gp_unresolved_conflicts pk) k = Some (map ge_label
        (filter (\<lambda>e. ge_unresolved_conflict e \<and> ge_conflict_key e = Some k) (gp_evidence pk)))"
      unfolding tab using conflict_table_some [OF assms(3) e'(1) _ _ assms(4) e'(2)] assms(5) e'(4) by auto
    moreover have "rank_of c = rank_of d"
      using top [OF tops(1) d(1)] top [OF tops(2) c(1)] by simp
    ultimately show ?thesis
      using \<open>ge_unresolved_conflict e\<close> \<open>ge_unresolved_conflict e'\<close> assms(3,4) e'(1,2) c(3) d(3)
      by (auto simp: rank_of_def)
  qed
  have "authority_rank (ge_authority_level e) \<le> authority_rank (ge_authority_level d)"
    if d: "d \<in> set ?cands" "ge_conflict_key d = Some k" "ge_claim_value d \<noteq> None" "ge_claim_value d \<noteq> Some a" for d
  proof -
    have "d \<in> set ?g" using d by (auto simp: claims_on_def grouped_def)
    then show ?thesis using top [of c d] c(3,4) split d(4) by (auto simp: rank_of_def)
  qed
  then show ?thesis using one by blast
qed

section \<open>Two contradicting chunks\<close>

definition sample_chunk :: "string \<Rightarrow> string \<Rightarrow> KnowledgeChunk" where
  "sample_chunk content claim = \<lparr>ch_project_id = ''PRJ-A-1'', ch_document_version_id = uuid_str 20,
     ch_content = content, ch_score = 1 / 2, ch_knowledge_space_id = Some ''space'', ch_provider_ref = None,
     ch_page_no = None, ch_section = None,
     ch_metadata = [(''conflict_key'', ''k''), (''claim_value'', claim)]\<rparr>"

definition sample_chunks :: "KnowledgeChunk list" where
  "sample_chunks = [sample_chunk ''x'' ''a'', sample_chunk ''y'' ''b'']"

lemma sample_pack:
  "map_sum id (\<lambda>pk. (map (\<lambda>e. (ge_label e, ge_claim_value e, ge_conflict_key e)) (gp_evidence pk),
      gp_unresolved_conflicts pk)) (pack 8 (2024, 1, 1) 1 ''PRJ-A-1'' sample_chunks sample_docs) =
   Inr ([(''E1'', Some ''a'', Some ''k''), (''E2'', Some ''b'', Some ''k'')], [(''k'', [''E1'', ''E2''])])"
  by code_simp

lemma sample_packed:
  obtains pk where "pack 8 (2024, 1, 1) 1 ''PRJ-A-1'' sample_chunks sample_docs = Inr pk"
    "map (\<lambda>e. (ge_label e, ge_claim_value e, ge_conflict_key e)) (gp_evidence pk) =
       [(''E1'', Some ''a'', Some ''k''), (''E2'', Some ''b'', Some ''k'')]"
    "gp_unresolved_conflicts pk = [(''k'', [''E1'', ''E2''])]"
  using sample_pack by (cases "pack 8 (2024, 1, 1) 1 ''PRJ-A-1'' sample_chunks sample_docs") auto

theorem pack_provenance_witness:
  "\<exists>pk. pack 8 (2024, 1, 1) 1 ''PRJ-A-1'' sample_chunks sample_docs = Inr pk \<and> length (gp_evidence pk) = 2 \<and>
     (\<forall>e\<in>set (gp_evidence pk). rests_on sample_docs 1 (2024, 1, 1) e)"
proof -
  obtain pk where pk: "pack 8 (2024, 1, 1) 1 ''PRJ-A-1'' sample_chunks sample_docs = Inr pk"
    "map (\<lambda>e. (ge_label e, ge_claim_value e, ge_conflict_key e)) (gp_evidence pk) =
       [(''E1'', Some ''a'', Some ''k''), (''E2'', Some ''b'', Some ''k'')]"
    by (rule sample_packed)
  have "length (gp_evidence pk) = 2" using arg_cong [OF pk(2), of length] by simp
  then show ?thesis using pack_provenance [OF pk(1)] pk(1) by blast
qed

theorem pack_contradictions_witness:
  "\<exists>pk labels. pack 8 (2024, 1, 1) 1 ''PRJ-A-1'' sample_chunks sample_docs = Inr pk \<and>
     map_of (gp_unresolved_conflicts pk) ''k'' = Some labels \<and> {''E1'', ''E2''} \<subseteq> set labels"
proof -
  obtain pk where pk: "pack 8 (2024, 1, 1) 1 ''PRJ-A-1'' sample_chunks sample_docs = Inr pk"
    "map (\<lambda>e. (ge_label e, ge_claim_value e, ge_conflict_key e)) (gp_evidence pk) =
       [(''E1'', Some ''a'', Some ''k''), (''E2'', Some ''b'', Some ''k'')]"
    by (rule sample_packed)
  obtain metadata where m: "get_document_evidence_metadata
      (fromkeys (map snd (parse_chunks ''PRJ-A-1'' sample_chunks))) sample_docs = Inr metadata"
    using pk(1) by (rule pack_Inr)
  obtain e1 e2 where e: "gp_evidence pk = [e1, e2]" "ge_label e1 = ''E1''" "ge_label e2 = ''E2''"
      "ge_claim_value e1 = Some ''a''" "ge_claim_value e2 = Some ''b''"
      "ge_conflict_key e1 = Some ''k''" "ge_conflict_key e2 = Some ''k''"
    using pk(2) by auto
  then have "e1 \<in> set (gp_evidence pk)" "e2 \<in> set (gp_evidence pk)" by simp_all
  moreover have "ge_claim_value e2 \<noteq> None" "ge_claim_value e2 \<noteq> Some ''a''" by (simp_all add: e)
  ultimately obtain labels where "map_of (gp_unresolved_conflicts pk) ''k'' = Some labels"
      "ge_label e1 \<in> set labels" "ge_label e2 \<in> set labels"
    using pack_contradictions [OF pk(1) m _ e(6,4)] e(7) by blast
  then show ?thesis using pk(1) e(2,3) by auto
qed

end
