(* ===== verification/Citation.thy ===== *)
theory Citation
  imports Evidence
begin

text \<open>
  The citation guard (\<open>application/services/citation_guard.py\<close>): which drafts of an answer are grounded
  in a frozen bundle of evidence. The theorem says that the guard accepts exactly the drafts that a
  short declarative definition calls grounded.
\<close>

section \<open>CitationGuard\<close>

record CitationValidationResult =
  cv_valid :: bool
  cv_coverage :: rat
  cv_errors :: "string list"
  cv_used_evidence_ids :: "string list"

definition by_label :: "FrozenEvidenceBundle \<Rightarrow> string \<Rightarrow> FrozenEvidence option" where
  "by_label bundle = dict_get fe_label (fb_evidence bundle)"

definition duplicate_errors :: "FrozenEvidenceBundle \<Rightarrow> string list" where
  "duplicate_errors bundle =
     (let labels = map fe_label (fb_evidence bundle)
      in map (\<lambda>l. ''DUPLICATE_EVIDENCE_LABEL:'' @ l) (filter (\<lambda>l. 1 < count_list labels l) labels))"

text \<open>The errors of one label of a claim.\<close>

definition label_errors :: "FrozenEvidenceBundle \<Rightarrow> uuid \<Rightarrow> string \<Rightarrow> string list" where
  "label_errors bundle project_id label =
     (case by_label bundle label of
        None \<Rightarrow> [''UNKNOWN_EVIDENCE_ID:'' @ label]
      | Some item \<Rightarrow>
          (if fe_project_id item \<noteq> project_id then [''CROSS_PROJECT_EVIDENCE:'' @ label] else []) @
          (if fe_lifecycle_status item \<noteq> PUBLISHED \<or> \<not> fe_is_current item
           then [''NON_CURRENT_EVIDENCE:'' @ label] else []))"

definition claim_errors :: "FrozenEvidenceBundle \<Rightarrow> uuid \<Rightarrow> nat \<Rightarrow> GroundedAnswerClaim \<Rightarrow> string list" where
  "claim_errors bundle project_id index claim =
     (if gc_evidence_ids claim = [] then [''UNCITED_CLAIM:'' @ str_nat index]
      else concat (map (label_errors bundle project_id) (gc_evidence_ids claim)))"

definition disclosure_ids :: "GroundedAnswerDraft \<Rightarrow> string list" where
  "disclosure_ids draft =
     (case gd_conflict_disclosure draft of None \<Rightarrow> [] | Some d \<Rightarrow> gc_evidence_ids d)"

text \<open>A label of the conflict disclosure must be known and of the project; it need not be current.\<close>

definition disclosure_label_errors :: "FrozenEvidenceBundle \<Rightarrow> uuid \<Rightarrow> string \<Rightarrow> string list" where
  "disclosure_label_errors bundle project_id label =
     (case by_label bundle label of
        None \<Rightarrow> [''UNKNOWN_EVIDENCE_ID:'' @ label]
      | Some item \<Rightarrow> if fe_project_id item \<noteq> project_id then [''CROSS_PROJECT_EVIDENCE:'' @ label] else [])"

definition conflict_errors :: "FrozenEvidenceBundle \<Rightarrow> GroundedAnswerDraft \<Rightarrow> string list" where
  "conflict_errors bundle draft =
     map (\<lambda>(key, _). ''MISSING_CONFLICT_DISCLOSURE:'' @ key)
       (filter (\<lambda>(key, required). gd_conflict_disclosure draft = None \<or>
            \<not> set required \<subseteq> set (disclosure_ids draft)) (fb_unresolved_conflicts bundle))"

definition used_labels :: "FrozenEvidenceBundle \<Rightarrow> GroundedAnswerDraft \<Rightarrow> string list" where
  "used_labels bundle draft =
     fromkeys (filter (\<lambda>l. by_label bundle l \<noteq> None)
       (concat (map gc_evidence_ids (gd_claims draft)) @ disclosure_ids draft))"

definition validate_citations ::
  "GroundedAnswerDraft \<Rightarrow> FrozenEvidenceBundle \<Rightarrow> uuid \<Rightarrow> CitationValidationResult" where
  "validate_citations draft bundle project_id =
     (let claims = List.enumerate 1 (gd_claims draft);
          covered = length (filter (\<lambda>(i, c). claim_errors bundle project_id i c = []) claims);
          total = length (gd_claims draft);
          coverage = (if total = 0 then 0 else of_nat covered / of_nat total);
          errors = duplicate_errors bundle @
            concat (map (\<lambda>(i, c). claim_errors bundle project_id i c) claims) @
            concat (map (disclosure_label_errors bundle project_id) (disclosure_ids draft)) @
            conflict_errors bundle draft @ (if total = 0 then [''NO_FACTUAL_CLAIMS''] else [])
      in \<lparr>cv_valid = (errors = [] \<and> coverage = 1), cv_coverage = coverage, cv_errors = fromkeys errors,
          cv_used_evidence_ids = used_labels bundle draft\<rparr>)"

section \<open>Grounded drafts\<close>

text \<open>\<open>cites_current\<close>: the label names a piece of evidence of the project that is published and current.\<close>

definition cites_current :: "FrozenEvidenceBundle \<Rightarrow> uuid \<Rightarrow> string \<Rightarrow> bool" where
  "cites_current bundle project_id label \<longleftrightarrow>
     (\<exists>item\<in>set (fb_evidence bundle). fe_label item = label \<and> fe_project_id item = project_id \<and>
        fe_lifecycle_status item = PUBLISHED \<and> fe_is_current item)"

definition grounded :: "GroundedAnswerDraft \<Rightarrow> FrozenEvidenceBundle \<Rightarrow> uuid \<Rightarrow> bool" where
  "grounded draft bundle project_id \<longleftrightarrow>
     distinct (map fe_label (fb_evidence bundle)) \<and> gd_claims draft \<noteq> [] \<and>
     (\<forall>claim\<in>set (gd_claims draft). gc_evidence_ids claim \<noteq> [] \<and>
        (\<forall>label\<in>set (gc_evidence_ids claim). cites_current bundle project_id label)) \<and>
     (\<forall>label\<in>set (disclosure_ids draft).
        \<exists>item\<in>set (fb_evidence bundle). fe_label item = label \<and> fe_project_id item = project_id) \<and>
     (\<forall>(key, required)\<in>set (fb_unresolved_conflicts bundle).
        gd_conflict_disclosure draft \<noteq> None \<and> set required \<subseteq> set (disclosure_ids draft))"

lemma dict_get_None: "dict_get f xs k = None \<longleftrightarrow> k \<notin> f ` set xs"
  unfolding dict_get_def row_by_def by (auto simp: find_None_iff)

lemma dict_get_distinct:
  assumes "distinct (map f xs)" and "x \<in> set xs"
  shows "dict_get f xs (f x) = Some x"
proof -
  have "dict_get f xs (f x) \<noteq> None" using assms(2) by (simp add: dict_get_None)
  then obtain y where y: "dict_get f xs (f x) = Some y" by blast
  then show ?thesis using assms dict_get_Some [OF y] by (auto dest: inj_onD simp: distinct_map)
qed

lemma duplicate_errors_Nil: "duplicate_errors bundle = [] \<longleftrightarrow> distinct (map fe_label (fb_evidence bundle))"
proof -
  have "distinct xs \<longleftrightarrow> (\<forall>x\<in>set xs. \<not> 1 < count_list xs x)" for xs :: "string list"
  proof (induction xs)
    case (Cons a xs)
    have "0 < count_list xs a \<longleftrightarrow> a \<in> set xs" using count_list_0_iff [of xs a] by auto
    then show ?case using Cons.IH by (cases "a \<in> set xs") (simp_all, metis)
  qed simp
  then show ?thesis by (simp add: duplicate_errors_def Let_def filter_empty_conv)
qed

text \<open>What the parts of the guard report nothing about, when labels are unique.\<close>

lemma by_label_unique:
  assumes "distinct (map fe_label (fb_evidence bundle))" and "by_label bundle l = Some item"
  shows "(\<exists>x\<in>set (fb_evidence bundle). fe_label x = l \<and> Q x) \<longleftrightarrow> Q item"
proof -
  have "item \<in> set (fb_evidence bundle)" "fe_label item = l"
    using assms(2) unfolding by_label_def by (auto dest: dict_get_Some)
  moreover have "x = item" if "x \<in> set (fb_evidence bundle)" "fe_label x = l" for x
    using dict_get_distinct [OF assms(1) that(1)] assms(2) that(2) by (simp add: by_label_def)
  ultimately show ?thesis by blast
qed

lemma label_errors_Nil:
  assumes "distinct (map fe_label (fb_evidence bundle))"
  shows "label_errors bundle p l = [] \<longleftrightarrow> cites_current bundle p l"
proof (cases "by_label bundle l")
  case None
  then have "l \<notin> fe_label ` set (fb_evidence bundle)" by (simp add: by_label_def dict_get_None)
  with None show ?thesis by (auto simp: label_errors_def cites_current_def)
next
  case (Some item)
  show ?thesis unfolding cites_current_def by_label_unique [OF assms Some] by (simp add: label_errors_def Some)
qed

lemma disclosure_label_errors_Nil:
  assumes "distinct (map fe_label (fb_evidence bundle))"
  shows "disclosure_label_errors bundle p l = [] \<longleftrightarrow>
    (\<exists>item\<in>set (fb_evidence bundle). fe_label item = l \<and> fe_project_id item = p)"
proof (cases "by_label bundle l")
  case None
  then have "l \<notin> fe_label ` set (fb_evidence bundle)" by (simp add: by_label_def dict_get_None)
  with None show ?thesis by (auto simp: disclosure_label_errors_def)
next
  case (Some item)
  show ?thesis unfolding by_label_unique [OF assms Some] by (simp add: disclosure_label_errors_def Some)
qed

lemma claims_Nil:
  assumes "distinct (map fe_label (fb_evidence bundle))"
  shows "(\<forall>(i, c)\<in>set (List.enumerate n cs). claim_errors bundle p i c = []) \<longleftrightarrow>
    (\<forall>c\<in>set cs. gc_evidence_ids c \<noteq> [] \<and> (\<forall>l\<in>set (gc_evidence_ids c). cites_current bundle p l))"
  using label_errors_Nil [OF assms]
  by (induction cs arbitrary: n) (auto simp: claim_errors_def)

lemma conflict_errors_Nil:
  "conflict_errors bundle draft = [] \<longleftrightarrow> (\<forall>(key, required)\<in>set (fb_unresolved_conflicts bundle).
     gd_conflict_disclosure draft \<noteq> None \<and> set required \<subseteq> set (disclosure_ids draft))"
  by (auto simp: conflict_errors_def filter_empty_conv)

lemma valid_grounded: "cv_valid (validate_citations draft bundle p) \<longleftrightarrow> grounded draft bundle p"
proof (cases "distinct (map fe_label (fb_evidence bundle))")
  case True
  let ?claims = "List.enumerate 1 (gd_claims draft)"
  let ?covered = "length (filter (\<lambda>(i, c). claim_errors bundle p i c = []) ?claims)"
  have full: "?covered = length (gd_claims draft)" if "\<forall>(i, c)\<in>set ?claims. claim_errors bundle p i c = []"
    using that by (subst filter_True) auto
  have "cv_valid (validate_citations draft bundle p) \<longleftrightarrow> gd_claims draft \<noteq> [] \<and>
      (\<forall>(i, c)\<in>set ?claims. claim_errors bundle p i c = []) \<and>
      (\<forall>l\<in>set (disclosure_ids draft). disclosure_label_errors bundle p l = []) \<and> conflict_errors bundle draft = []"
    using True full by (auto simp: validate_citations_def Let_def duplicate_errors_Nil case_prod_unfold)
  then show ?thesis
    unfolding claims_Nil [OF True] conflict_errors_Nil disclosure_label_errors_Nil [OF True] grounded_def
    using True by blast
qed (simp add: validate_citations_def Let_def duplicate_errors_Nil grounded_def)

lemma set_used_labels:
  assumes "grounded draft bundle p"
  shows "set (used_labels bundle draft) = \<Union> (set ` gc_evidence_ids ` set (gd_claims draft)) \<union> set (disclosure_ids draft)"
proof -
  have "by_label bundle l \<noteq> None"
    if "l \<in> \<Union> (set ` gc_evidence_ids ` set (gd_claims draft)) \<union> set (disclosure_ids draft)" for l
    using that assms unfolding grounded_def cites_current_def by_label_def dict_get_None by fast
  then show ?thesis by (auto simp: used_labels_def)
qed

text \<open>C40: the guard accepts a draft exactly if it is grounded: every claim cites evidence, every cited
  label is a published, current piece of evidence of the project, and every side of every unresolved
  conflict is cited in the disclosure. The labels that the answer will cite are then those of its
  claims and of its disclosure, each once.\<close>

theorem guard_exact:
  "(cv_valid (validate_citations draft bundle p) \<longleftrightarrow> grounded draft bundle p) \<and>
   distinct (cv_used_evidence_ids (validate_citations draft bundle p)) \<and>
   (grounded draft bundle p \<longrightarrow> set (cv_used_evidence_ids (validate_citations draft bundle p)) =
      \<Union> (set ` gc_evidence_ids ` set (gd_claims draft)) \<union> set (disclosure_ids draft))"
  using valid_grounded [of draft "bundle" p] set_used_labels [of draft "bundle" p]
  by (simp add: validate_citations_def Let_def used_labels_def)

text \<open>A draft whose one claim cites the first side of a conflict and whose disclosure cites both sides.\<close>

definition sample_frozen :: "string \<Rightarrow> FrozenEvidence" where
  "sample_frozen label = \<lparr>fe_snapshot_id = 0, fe_label = label, fe_project_id = 1, fe_project_code = ''P'',
     fe_document_version_id = 2, fe_document_category = API_SPECIFICATION, fe_document_title = ''t'', fe_version_no = 1,
     fe_version_label = ''v1'', fe_authority_level = AL_APPROVED_DESIGN, fe_lifecycle_status = PUBLISHED,
     fe_is_current = True, fe_effective_from = None, fe_effective_to = None, fe_content = ''text'',
     fe_content_hash = ''h'', fe_score = 1, fe_knowledge_space_id = None, fe_provider_ref = None, fe_page_no = None,
     fe_section = None, fe_conflict_key = Some ''k'', fe_claim_value = None, fe_unresolved_conflict = True\<rparr>"

definition sample_bundle :: FrozenEvidenceBundle where
  "sample_bundle = \<lparr>fb_evidence = [sample_frozen ''E1'', sample_frozen ''E2''],
     fb_unresolved_conflicts = [(''k'', [''E1'', ''E2''])]\<rparr>"

definition sample_draft :: GroundedAnswerDraft where
  "sample_draft = \<lparr>gd_claims = [\<lparr>gc_text = ''c'', gc_evidence_ids = [''E1'']\<rparr>],
     gd_conflict_disclosure = Some \<lparr>gc_text = ''d'', gc_evidence_ids = [''E1'', ''E2'']\<rparr>\<rparr>"

lemma sample_grounded: "grounded sample_draft sample_bundle 1"
  by (simp add: grounded_def sample_draft_def sample_bundle_def sample_frozen_def cites_current_def disclosure_ids_def)

theorem guard_exact_witness:
  "cv_valid (validate_citations sample_draft sample_bundle 1) \<and>
   set (cv_used_evidence_ids (validate_citations sample_draft sample_bundle 1)) = {''E1'', ''E2''}"
  using guard_exact [of sample_draft sample_bundle 1] sample_grounded
  by (auto simp: sample_draft_def disclosure_ids_def)

end
