(* ===== verification/QATexts.thy ===== *)
theory QATexts
  imports QAStore
begin

text \<open>
  The texts of the question-answering graph, as the bytes of their UTF-8 encoding, and the prompts and
  answers that are put together from them (\<open>agent/nodes/generate_answer.py\<close>, \<open>grade_retrieval.py\<close>,
  \<open>citation_guard.py\<close>, \<open>refuse.py\<close>, \<open>clarify.py\<close>). How a score is printed is an argument.
\<close>

section \<open>Constants\<close>

definition utf8 :: "nat list \<Rightarrow> string" where
  "utf8 = map char_of"

definition QUERY_PREFIX :: string where
  "QUERY_PREFIX = utf8
     [231, 148, 168, 230, 136, 183, 233, 151, 174, 233, 162, 152, 239, 188, 154]"

definition EVIDENCE_HEADING :: string where
  "EVIDENCE_HEADING = utf8
     [229, 143, 175, 229, 188, 149, 231, 148, 168, 32, 69, 118, 105, 100, 101, 110, 99, 101, 239, 188, 154]"

definition CONFLICT_HEADING :: string where
  "CONFLICT_HEADING = utf8
     [228, 187, 165, 228, 184, 139, 229, 134, 178, 231, 170, 129, 230, 156, 170, 232, 131, 189, 233, 128,
      154, 232, 191, 135, 32, 65, 117, 116, 104, 111, 114, 105, 116, 121, 80, 111, 108, 105, 99, 121, 32,
      229, 148, 175, 228, 184, 128, 232, 167, 163, 229, 134, 179, 239, 188, 140, 229, 191, 133, 233, 161,
      187, 230, 152, 190, 229, 188, 143, 230, 138, 171, 233, 156, 178, 239, 188, 154]"

definition RULES_HEADING :: string where
  "RULES_HEADING = utf8
     [232, 190, 147, 229, 135, 186, 232, 167, 132, 229, 136, 153, 239, 188, 154]"

definition RULE_1 :: string where
  "RULE_1 = utf8
     [49, 46, 32, 229, 143, 170, 232, 190, 147, 229, 135, 186, 229, 143, 175, 231, 148, 177, 228, 184, 138,
      232, 191, 176, 32, 69, 118, 105, 100, 101, 110, 99, 101, 32, 230, 148, 175, 230, 146, 145, 231, 154,
      132, 228, 186, 139, 229, 174, 158, 32, 67, 108, 97, 105, 109, 227, 128, 130]"

definition RULE_2 :: string where
  "RULE_2 = utf8
     [50, 46, 32, 230, 175, 143, 230, 157, 161, 32, 67, 108, 97, 105, 109, 32, 229, 191, 133, 233, 161,
      187, 231, 187, 145, 229, 174, 154, 232, 135, 179, 229, 176, 145, 228, 184, 128, 228, 184, 170, 32,
      69, 118, 105, 100, 101, 110, 99, 101, 32, 73, 68, 239, 188, 140, 228, 190, 139, 229, 166, 130, 32,
      69, 49, 227, 128, 130]"

definition RULE_3 :: string where
  "RULE_3 = utf8
     [51, 46, 32, 228, 184, 141, 229, 190, 151, 231, 188, 150, 233, 128, 160, 228, 184, 141, 229, 173, 152,
      229, 156, 168, 231, 154, 132, 32, 69, 118, 105, 100, 101, 110, 99, 101, 32, 73, 68, 227, 128, 130]"

definition RULE_4 :: string where
  "RULE_4 = utf8
     [52, 46, 32, 229, 166, 130, 230, 158, 156, 229, 173, 152, 229, 156, 168, 230, 156, 170, 232, 167, 163,
      229, 134, 179, 229, 134, 178, 231, 170, 129, 239, 188, 140, 99, 111, 110, 102, 108, 105, 99, 116, 95,
      100, 105, 115, 99, 108, 111, 115, 117, 114, 101, 32, 229, 191, 133, 233, 161, 187, 229, 188, 149,
      231, 148, 168, 229, 134, 178, 231, 170, 129, 229, 143, 140, 230, 150, 185, 32, 69, 118, 105, 100,
      101, 110, 99, 101, 227, 128, 130]"

definition RULE_5 :: string where
  "RULE_5 = utf8
     [53, 46, 32, 228, 184, 141, 232, 166, 129, 228, 190, 157, 232, 181, 150, 230, 168, 161, 229, 158, 139,
      232, 135, 170, 232, 186, 171, 231, 159, 165, 232, 175, 134, 232, 161, 165, 229, 133, 133, 233, 161,
      185, 231, 155, 174, 228, 186, 139, 229, 174, 158, 227, 128, 130]"

definition REVISION_HEADING :: string where
  "REVISION_HEADING = utf8
     [10, 10, 228, 184, 138, 228, 184, 128, 230, 172, 161, 232, 141, 137, 231, 168, 191, 230, 156, 170,
      233, 128, 154, 232, 191, 135, 32, 67, 105, 116, 97, 116, 105, 111, 110, 32, 71, 117, 97, 114, 100,
      239, 188, 140, 232, 175, 183, 229, 143, 170, 228, 191, 174, 229, 164, 141, 228, 187, 165, 228, 184,
      139, 233, 151, 174, 233, 162, 152, 239, 188, 140, 228, 184, 141, 229, 162, 158, 229, 138, 160, 230,
      150, 176, 228, 186, 139, 229, 174, 158, 239, 188, 154, 10, 45, 32]"

definition DISCLOSURE_PREFIX :: string where
  "DISCLOSURE_PREFIX = utf8
     [229, 134, 178, 231, 170, 129, 232, 175, 180, 230, 152, 142, 239, 188, 154]"

definition REFUSAL_TEXT :: string where
  "REFUSAL_TEXT = utf8
     [230, 178, 161, 230, 156, 137, 230, 137, 190, 229, 136, 176, 232, 182, 179, 229, 164, 159, 231, 154,
      132, 229, 183, 178, 230, 142, 136, 230, 157, 131, 232, 175, 129, 230, 141, 174, 239, 188, 140, 230,
      151, 160, 230, 179, 149, 229, 143, 175, 233, 157, 160, 229, 155, 158, 231, 173, 148, 227, 128, 130]"

definition NO_ACCESS_TEXT :: string where
  "NO_ACCESS_TEXT = utf8
     [229, 189, 147, 229, 137, 141, 232, 186, 171, 228, 187, 189, 230, 178, 161, 230, 156, 137, 232, 175,
      165, 233, 161, 185, 231, 155, 174, 231, 154, 132, 230, 156, 137, 230, 149, 136, 232, 174, 191, 233,
      151, 174, 230, 157, 131, 233, 153, 144, 227, 128, 130]"

definition CODES_PREFIX :: string where
  "CODES_PREFIX = utf8
     [229, 143, 175, 232, 174, 191, 233, 151, 174, 233, 161, 185, 231, 155, 174, 239, 188, 154]"

definition FULL_STOP :: string where
  "FULL_STOP = utf8
     [227, 128, 130]"

definition CLARIFY_TEXT :: string where
  "CLARIFY_TEXT = utf8
     [232, 175, 183, 230, 152, 142, 231, 161, 174, 232, 191, 153, 230, 172, 161, 233, 151, 174, 233, 162,
      152, 229, 177, 158, 228, 186, 142, 229, 147, 170, 228, 184, 170, 233, 161, 185, 231, 155, 174, 227,
      128, 130]"

definition join_with :: "string \<Rightarrow> string list \<Rightarrow> string" where
  "join_with sep parts = (case parts of [] \<Rightarrow> [] | p # ps \<Rightarrow> p @ concat (map (\<lambda>x. sep @ x) ps))"

definition join_lines :: "string list \<Rightarrow> string" where
  "join_lines = join_with [newline_char]"

definition GRADING_SYSTEM_PROMPT :: string where
  "GRADING_SYSTEM_PROMPT = join_lines
     [''Judge only whether the supplied, already-authorized retrieved chunks are sufficiently relevant'',
      ''and sufficiently complete to attempt evidence governance and answer the user'' @ [CHR 0x27] @ ''s query.'',
      ''Do not decide authority, current/effective version, project membership, knowledge-space access,'',
      ''or citation validity. Those are enforced elsewhere.'',
      ''If one bounded second retrieval is justified, return only a refined standalone query.'',
      ''Never return or request a new project, knowledge space, document ID, or security scope.'']"

section \<open>Prompts and answers\<close>

definition build_grading_prompt ::
  "(score \<Rightarrow> string) \<Rightarrow> string \<Rightarrow> RetrievalPlan \<Rightarrow> KnowledgeChunk list \<Rightarrow> string" where
  "build_grading_prompt show_score query plan chunks = join_lines
     ([''User query: '' @ query, ''Current standalone query: '' @ rp_standalone_query plan, [],
       ''Already-authorized post-filtered retrieved chunks:''] @
      (if chunks = [] then [''(none)'']
       else map (\<lambda>(i, c). ''['' @ str_nat i @ ''] score='' @ show_score (ch_score c) @ '': '' @ ch_content c)
              (List.enumerate 1 chunks)) @
      [[], GRADING_SYSTEM_PROMPT])"

definition evidence_location :: "FrozenEvidence \<Rightarrow> string" where
  "evidence_location item =
     (let parts = (case fe_page_no item of None \<Rightarrow> [] | Some n \<Rightarrow> [''page='' @ str_int n]) @
          (case fe_section item of None \<Rightarrow> [] | Some sec \<Rightarrow> if sec = [] then [] else [''section='' @ sec])
      in if parts = [] then ''location=unknown'' else join_with '', '' parts)"

definition evidence_section :: "FrozenEvidence \<Rightarrow> string" where
  "evidence_section item =
     ''['' @ fe_label item @ ''] authority='' @ AuthorityLevel_value (fe_authority_level item) @
     ''; document='' @ fe_document_title item @ ''; version='' @ fe_version_label item @ ''; '' @
     evidence_location item @ [newline_char] @ fe_content item"

definition build_grounded_evidence_prompt :: "string \<Rightarrow> FrozenEvidenceBundle \<Rightarrow> string" where
  "build_grounded_evidence_prompt query b = join_lines
     ([QUERY_PREFIX @ query, [], EVIDENCE_HEADING] @ map evidence_section (fb_evidence b) @
      (if fb_unresolved_conflicts b = [] then []
       else [[], CONFLICT_HEADING] @
         map (\<lambda>(key, labels). ''- '' @ key @ '': '' @ join_with '', '' labels) (fb_unresolved_conflicts b)) @
      [[], RULES_HEADING, RULE_1, RULE_2, RULE_3, RULE_4, RULE_5])"

text \<open>\<open>rstrip()\<close>.\<close>

definition py_rstrip :: "string \<Rightarrow> string" where
  "py_rstrip s = rev (dropWhile is_space (rev s))"

definition cite :: "string list \<Rightarrow> string" where
  "cite labels = concat (map (\<lambda>l. ''['' @ l @ '']'') labels)"

definition render_answer :: "GroundedAnswerDraft \<Rightarrow> string" where
  "render_answer draft = join_lines
     (map (\<lambda>c. py_rstrip (gc_text c @ '' '' @ cite (gc_evidence_ids c))) (gd_claims draft) @
      (case gd_conflict_disclosure draft of
         None \<Rightarrow> []
       | Some d \<Rightarrow> [py_rstrip (DISCLOSURE_PREFIX @ gc_text d @ '' '' @ cite (gc_evidence_ids d))]))"

definition clarification_text :: "string list \<Rightarrow> string" where
  "clarification_text codes =
     CLARIFY_TEXT @ (if codes = [] then [] else CODES_PREFIX @ join_with '', '' codes @ FULL_STOP)"

definition refusal_text :: "string \<Rightarrow> string" where
  "refusal_text reason =
     (if reason \<in> {''PROJECT_ACCESS_DENIED'', ''NO_AUTHORIZED_PROJECT''} then NO_ACCESS_TEXT else REFUSAL_TEXT)"

end
