(* ===== verification/QAGraph.thy ===== *)
theory QAGraph
  imports QATexts Citation
begin

text \<open>
  The question-answering graph (\<open>agent/graph.py\<close>, \<open>agent/state.py\<close>, \<open>agent/nodes\<close>): its state, its nodes as
  operations on the store, the edges between them, and the executors that run it for a durable run
  (\<open>workers/run_graph.py\<close>, \<open>runtime/qa.py\<close>, \<open>runtime/run_graph.py\<close>).

  What the nodes read from outside the store - the clock, the tables of projects and documents, the
  identifier registry, the prompt configuration, the knowledge provider, the language model - is an argument, given
  separately for every step, since other transactions commit and services answer differently from one step
  to the next.

  LangGraph keeps the last value of every field under the thread id and merges the input of an invocation
  into it; it gives up after 25 steps. These two documented facts are \<open>merge_input\<close> and \<open>RECURSION_LIMIT\<close>.
\<close>

section \<open>agent/state.py\<close>

text \<open>A reference that is not in the dictionary is \<open>None\<close>; \<open>project_id\<close>, \<open>route\<close> and \<open>last_error_code\<close> are always
  there and may hold \<open>None\<close>.\<close>

record AgentState =
  st_run_id :: string
  st_thread_id :: string
  st_user_id :: string
  st_project_id :: "string option"
  st_prompt_snapshot_id :: "string option"
  st_query_analysis_id :: "string option"
  st_project_selection_id :: "string option"
  st_access_scope_id :: "string option"
  st_retrieval_plan_id :: "string option"
  st_retrieval_grade_id :: "string option"
  st_retrieval_round :: "int option"
  st_evidence_bundle_id :: "string option"
  st_answer_draft_id :: "string option"
  st_citation_guard_id :: "string option"
  st_answer_id :: "string option"
  st_issue_candidate_id :: "string option"
  st_issue_draft_id :: "string option"
  st_tool_confirmation_id :: "string option"
  st_issue_creation_id :: "string option"
  st_revision_count :: "int option"
  st_route :: "string option"
  st_last_error_code :: "string option"

definition empty_state :: AgentState where
  "empty_state =
     \<lparr>st_run_id = [], st_thread_id = [], st_user_id = [], st_project_id = None, st_prompt_snapshot_id = None,
      st_query_analysis_id = None, st_project_selection_id = None, st_access_scope_id = None,
      st_retrieval_plan_id = None, st_retrieval_grade_id = None, st_retrieval_round = None,
      st_evidence_bundle_id = None, st_answer_draft_id = None, st_citation_guard_id = None,
      st_answer_id = None, st_issue_candidate_id = None, st_issue_draft_id = None,
      st_tool_confirmation_id = None, st_issue_creation_id = None, st_revision_count = None,
      st_route = None, st_last_error_code = None\<rparr>"

text \<open>\<open>UUID(state[k])\<close>, \<open>state.get(k, 0)\<close>, and the truth value of \<open>state.get(k)\<close>.\<close>

definition need :: "string \<Rightarrow> string option \<Rightarrow> uuid res" where
  "need k v = (case v of None \<Rightarrow> Inl (KeyError k) | Some s \<Rightarrow> UUID s)"

definition need_project :: "AgentState \<Rightarrow> uuid res" where
  "need_project st =
     (case st_project_id st of None \<Rightarrow> Inl (TypeError ''one of the hex arguments must be given'') | Some s \<Rightarrow> UUID s)"

definition counter :: "int option \<Rightarrow> int" where
  "counter v = (case v of None \<Rightarrow> 0 | Some n \<Rightarrow> n)"

definition given :: "string option \<Rightarrow> bool" where
  "given v \<longleftrightarrow> v \<noteq> None \<and> v \<noteq> Some []"

section \<open>What a step reads from outside\<close>

record StructuredLLMRequest =
  lr_request_id :: string
  lr_model_alias :: string
  lr_system_prompt :: string
  lr_user_prompt :: string
  lr_temperature :: rat
  lr_metadata :: "(string \<times> string) list"

record qa_deps =
  qd_now :: datetime
  qd_today :: date
  qd_clock :: rat
  qd_pick :: nat
  qd_docs :: doc_db
  qd_registry :: registry
  qd_configs :: "SystemConfigModel list"
  qd_prompt_ttl :: rat
  qd_retrieve :: "KnowledgeRetrievalRequest \<Rightarrow> KnowledgeChunk list res"
  qd_grade :: "StructuredLLMRequest \<Rightarrow> RetrievalGrade res"
  qd_answer :: "StructuredLLMRequest \<Rightarrow> GroundedAnswerDraft res"
  qd_usage :: "string \<Rightarrow> (int \<times> int) res"
  qd_policy :: TokenCostPolicy
  qd_sha :: "string \<Rightarrow> string"
  qd_show_score :: "score \<Rightarrow> string"
  qd_model_alias :: string
  qd_allow_second_round :: bool
  qd_commit_ok :: bool

text \<open>\<open>LLMTokenUsage\<close> rejects negative counts; the structured answer has the shape of
  \<open>_StructuredGroundedAnswerDraft\<close>.\<close>

definition token_usage :: "int \<times> int \<Rightarrow> (int \<times> int) res" where
  "token_usage usage = (case usage of (input_tokens, output_tokens) \<Rightarrow>
     if input_tokens < 0 \<or> output_tokens < 0 then Inl (ValueError ''token usage cannot be negative'')
     else Inr (input_tokens, output_tokens))"

definition structured_claim_ok :: "GroundedAnswerClaim \<Rightarrow> bool" where
  "structured_claim_ok c \<longleftrightarrow> gc_text c \<noteq> [] \<and> gc_evidence_ids c \<noteq> []"

definition structured_draft :: "GroundedAnswerDraft \<Rightarrow> GroundedAnswerDraft res" where
  "structured_draft d =
     (if gd_claims d \<noteq> [] \<and> list_all structured_claim_ok (gd_claims d) \<and>
         (case gd_conflict_disclosure d of None \<Rightarrow> True | Some c \<Rightarrow> structured_claim_ok c)
      then Inr d else Inl (ValueError ''too_short''))"

type_synonym qa_step = "qa_deps \<Rightarrow> AgentState \<Rightarrow> AgentState qa_op"

section \<open>Nodes up to retrieval\<close>

definition load_prompt_snapshot_node :: qa_step where
  "load_prompt_snapshot_node d st =
     bind_op (of_res (UUID (st_run_id st))) (\<lambda>run_id.
     bind_op (of_res (bind_res (prompt_service (qd_prompt_ttl d)) (\<lambda>cache.
         fst (get_snapshot (qd_clock d) (qd_configs d) ''prompt.qa.answer'' cache)))) (\<lambda>snapshot.
     bind_op (record_prompt_snapshot run_id (qd_model_alias d) snapshot) (\<lambda>artifact_id.
       return_op (st\<lparr>st_prompt_snapshot_id := Some (uuid_str artifact_id)\<rparr>))))"

definition analyze_query_node :: qa_step where
  "analyze_query_node d st =
     bind_op (of_res (UUID (st_run_id st))) (\<lambda>run_id.
     bind_op (qa_load_query run_id) (\<lambda>query.
     bind_op (of_res (analyze query)) (\<lambda>analysis.
     bind_op (qa_save_artifact run_id ''QUERY_ANALYSIS'' (dump_analysis analysis)) (\<lambda>artifact_id.
       return_op (st\<lparr>st_query_analysis_id := Some (uuid_str artifact_id),
                     st_route := Some ''project_knowledge_qa''\<rparr>)))))"

definition dump_selection :: "ProjectSelection \<Rightarrow> payload" where
  "dump_selection sel =
     [(''selected_project_id'', opt_str (map_option uuid_str (se_selected_project_id sel))),
      (''candidate_project_codes'', of_strs (se_candidate_project_codes sel)),
      (''route'', JStr (se_route sel)), (''error_code'', opt_str (se_error_code sel))]"

definition load_analysis_of :: "AgentState \<Rightarrow> QueryAnalysis qa_op" where
  "load_analysis_of st =
     bind_op (of_res (need ''query_analysis_id'' (st_query_analysis_id st))) (\<lambda>artifact_id.
     bind_op (qa_load_artifact artifact_id) (\<lambda>payload. of_res (load_analysis payload)))"

definition select_project_node :: qa_step where
  "select_project_node d st =
     bind_op (of_res (UUID (st_run_id st))) (\<lambda>run_id.
     bind_op (load_analysis_of st) (\<lambda>analysis.
     bind_op (of_res (case st_project_id st of
         None \<Rightarrow> Inr None
       | Some s \<Rightarrow> if s = [] then Inr None else bind_res (UUID s) (\<lambda>u. Inr (Some u)))) (\<lambda>requested.
     bind_op (of_res (UUID (st_user_id st))) (\<lambda>user_id.
     bind_op (of_res (select_project (qd_now d) user_id (project_codes analysis) requested (qd_docs d))) (\<lambda>sel.
     bind_op (qa_save_artifact run_id ''PROJECT_SELECTION'' (dump_selection sel)) (\<lambda>artifact_id.
       return_op (st\<lparr>st_project_id := map_option uuid_str (se_selected_project_id sel),
                     st_project_selection_id := Some (uuid_str artifact_id), st_route := Some (se_route sel),
                     st_last_error_code := se_error_code sel\<rparr>)))))))"

definition resolve_scope_node :: qa_step where
  "resolve_scope_node d st =
     (if \<not> given (st_project_id st)
      then raise_op (ValueError ''project_id is required before scope resolution'')
      else bind_op (of_res (UUID (st_run_id st))) (\<lambda>run_id.
           bind_op (of_res (UUID (st_user_id st))) (\<lambda>user_id.
           bind_op (of_res (need_project st)) (\<lambda>project_id.
           bind_op (of_res (authorize_project (qd_pick d) (qd_now d) user_id project_id (qd_docs d))) (\<lambda>ctx.
           bind_op (qa_save_artifact run_id ''PROJECT_ACCESS_SCOPE'' (serialize_authorized_context ctx))
             (\<lambda>artifact_id. return_op (st\<lparr>st_access_scope_id := Some (uuid_str artifact_id)\<rparr>)))))))"

definition load_context_of :: "AgentState \<Rightarrow> AuthorizedProjectContext qa_op" where
  "load_context_of st =
     bind_op (of_res (need ''access_scope_id'' (st_access_scope_id st))) (\<lambda>artifact_id.
     bind_op (qa_load_artifact artifact_id) (\<lambda>payload. of_res (deserialize_authorized_context payload)))"

definition retrieval_plan ::
  "bool \<Rightarrow> QueryAnalysis \<Rightarrow> AuthorizedProjectContext \<Rightarrow> ExactResolutionResult \<Rightarrow> RetrievalPlan" where
  "retrieval_plan allow_second_round analysis ctx resolution =
     \<lparr>rp_original_query = qa_original_query analysis, rp_standalone_query = qa_standalone_query analysis,
      rp_exact_identifiers = map qi_raw_value (qa_exact_identifiers analysis),
      rp_identifier_resolutions = er_resolutions resolution,
      rp_constrained_document_version_ids = er_constrained_document_version_ids resolution,
      rp_constrained_provider_document_ids = [],
      rp_allowed_categories = sc_allowed_document_categories (cx_scope ctx),
      rp_allow_second_round = allow_second_round\<rparr>"

definition allowed_ids :: "AuthorizedProjectContext \<Rightarrow> uuid list" where
  "allowed_ids ctx = (case sc_allowed_document_version_ids (cx_scope ctx) of None \<Rightarrow> [] | Some ids \<Rightarrow> ids)"

definition resolve_identifiers_node :: qa_step where
  "resolve_identifiers_node d st =
     bind_op (of_res (UUID (st_run_id st))) (\<lambda>run_id.
     bind_op (load_analysis_of st) (\<lambda>analysis.
     bind_op (load_context_of st) (\<lambda>ctx.
     bind_op (of_res (need_project st)) (\<lambda>project_id.
     bind_op (of_res (resolve project_id analysis (allowed_ids ctx) (qd_registry d))) (\<lambda>resolution.
     bind_op (qa_save_artifact run_id ''RETRIEVAL_PLAN''
         (dump_plan (retrieval_plan (qd_allow_second_round d) analysis ctx resolution))) (\<lambda>artifact_id.
       return_op (st\<lparr>st_retrieval_plan_id := Some (uuid_str artifact_id)\<rparr>)))))))"

definition load_plan_of :: "AgentState \<Rightarrow> RetrievalPlan qa_op" where
  "load_plan_of st =
     bind_op (of_res (need ''retrieval_plan_id'' (st_retrieval_plan_id st))) (\<lambda>artifact_id.
     bind_op (qa_load_artifact artifact_id) (\<lambda>payload. of_res (load_plan payload)))"

text \<open>The provider is asked; the request stays on record whatever becomes of the transaction.\<close>

definition ask_provider :: "qa_deps \<Rightarrow> KnowledgeRetrievalRequest \<Rightarrow> KnowledgeChunk list qa_op" where
  "ask_provider d request s = (qd_retrieve d request, s\<lparr>qb_requests := qb_requests s @ [request]\<rparr>)"

definition retrieval_request :: "AuthorizedProjectContext \<Rightarrow> RetrievalPlan \<Rightarrow> KnowledgeRetrievalRequest" where
  "retrieval_request ctx plan =
     \<lparr>rq_project_id = cx_project_code ctx, rq_query = rp_standalone_query plan, rq_limit = 10,
      rq_document_version_ids = map uuid_str (rp_constrained_document_version_ids plan),
      rq_knowledge_space_ids = []\<rparr>"

definition retrieve_node :: qa_step where
  "retrieve_node d st =
     bind_op (of_res (UUID (st_run_id st))) (\<lambda>run_id.
       let current_round = counter (st_retrieval_round st)
       in if 2 \<le> current_round
          then return_op (st\<lparr>st_route := Some ''refusal'', st_last_error_code := Some ''RETRIEVAL_ROUND_LIMIT''\<rparr>)
          else bind_op (load_context_of st) (\<lambda>ctx.
            bind_op (load_plan_of st) (\<lambda>plan.
            bind_op (of_res (constrain_retrieval (retrieval_request ctx plan) ctx)) (\<lambda>constrained.
              case constrained of
                None \<Rightarrow>
                  bind_op (of_res (need_project st)) (\<lambda>project_id.
                  bind_op (save_evidence_bundle run_id project_id (rp_original_query plan) [] (current_round + 1))
                    (\<lambda>bundle_id. return_op (st\<lparr>st_evidence_bundle_id := Some (uuid_str bundle_id),
                       st_route := Some ''refusal'', st_last_error_code := Some ''NO_AUTHORIZED_EVIDENCE''\<rparr>)))
              | Some request \<Rightarrow>
                  bind_op (increment_retrieval_rounds run_id) (\<lambda>_.
                  bind_op (ask_provider d request) (\<lambda>found.
                  bind_op (of_res (need_project st)) (\<lambda>project_id.
                  bind_op (save_evidence_bundle run_id project_id (rp_original_query plan)
                      (postfilter_evidence found ctx) (current_round + 1)) (\<lambda>bundle_id.
                    return_op (st\<lparr>st_evidence_bundle_id := Some (uuid_str bundle_id),
                      st_retrieval_round := Some (current_round + 1), st_route := Some ''grade_retrieval'',
                      st_last_error_code := None\<rparr>))))))))) "

section \<open>Nodes after retrieval\<close>

definition llm_metadata :: "uuid \<Rightarrow> string \<Rightarrow> (string \<times> string) list" where
  "llm_metadata run_id project = [(''run_id'', uuid_str run_id), (''project_id'', project)]"

text \<open>One call of the model with the usage it is charged for.\<close>

definition charge :: "qa_deps \<Rightarrow> uuid \<Rightarrow> string \<Rightarrow> unit qa_op" where
  "charge d run_id request_id =
     bind_op (of_res (bind_res (qd_usage d request_id) token_usage)) (\<lambda>(input_tokens, output_tokens).
       record_llm_usage (qd_policy d) run_id input_tokens output_tokens)"

definition grade_request ::
  "qa_deps \<Rightarrow> AgentState \<Rightarrow> uuid \<Rightarrow> string \<Rightarrow> RetrievalPlan \<Rightarrow> KnowledgeChunk list \<Rightarrow> StructuredLLMRequest" where
  "grade_request d st run_id query plan chunks =
     \<lparr>lr_request_id = uuid_str run_id @ '':qa-retrieval-grade:'' @ str_int (counter (st_retrieval_round st)),
      lr_model_alias = qd_model_alias d, lr_system_prompt = GRADING_SYSTEM_PROMPT,
      lr_user_prompt = build_grading_prompt (qd_show_score d) query plan chunks, lr_temperature = 0,
      lr_metadata = llm_metadata run_id (case st_project_id st of None \<Rightarrow> [] | Some p \<Rightarrow> p)\<rparr>"

definition grade_retrieval_node :: qa_step where
  "grade_retrieval_node d st =
     bind_op (of_res (UUID (st_run_id st))) (\<lambda>run_id.
     bind_op (load_plan_of st) (\<lambda>plan.
     bind_op (of_res (need ''evidence_bundle_id'' (st_evidence_bundle_id st))) (\<lambda>bundle_id.
     bind_op (load_evidence_bundle bundle_id) (\<lambda>chunks.
     bind_op (qa_load_query run_id) (\<lambda>query.
       let request = grade_request d st run_id query plan chunks
       in bind_op (of_res (bind_res (qd_grade d request) validate_consistent_shape)) (\<lambda>grade.
          bind_op (charge d run_id (lr_request_id request)) (\<lambda>_.
          bind_op (qa_save_artifact run_id ''RETRIEVAL_GRADE'' (dump_grade grade)) (\<lambda>grade_id.
            if rg_adequate grade
            then return_op (st\<lparr>st_retrieval_grade_id := Some (uuid_str grade_id),
                   st_route := Some ''govern_evidence'', st_last_error_code := None\<rparr>)
            else case (rg_second_round_justified grade \<and> counter (st_retrieval_round st) < 2 \<and>
                       rp_allow_second_round plan, rg_refined_query grade) of
              (True, Some refined) \<Rightarrow>
                bind_op (qa_save_artifact run_id ''RETRIEVAL_PLAN''
                    (dump_plan (plan\<lparr>rp_standalone_query := py_strip refined\<rparr>))) (\<lambda>refined_plan_id.
                  return_op (st\<lparr>st_retrieval_grade_id := Some (uuid_str grade_id),
                    st_retrieval_plan_id := Some (uuid_str refined_plan_id),
                    st_route := Some ''retrieve_again'', st_last_error_code := None\<rparr>))
            | _ \<Rightarrow> return_op (st\<lparr>st_retrieval_grade_id := Some (uuid_str grade_id),
                   st_route := Some ''refusal'', st_last_error_code := Some ''INSUFFICIENT_EVIDENCE''\<rparr>))))))))) "

definition govern_evidence_node :: qa_step where
  "govern_evidence_node d st =
     bind_op (of_res (UUID (st_run_id st))) (\<lambda>run_id.
     bind_op (of_res (need_project st)) (\<lambda>project_id.
     bind_op (of_res (need ''evidence_bundle_id'' (st_evidence_bundle_id st))) (\<lambda>raw_bundle_id.
     bind_op (load_context_of st) (\<lambda>ctx.
     bind_op (qa_load_query run_id) (\<lambda>query.
     bind_op (load_evidence_bundle raw_bundle_id) (\<lambda>chunks.
     bind_op (of_res (pack 8 (qd_today d) project_id (cx_project_code ctx) chunks (qd_docs d))) (\<lambda>pk.
       if gp_evidence pk = []
       then return_op (st\<lparr>st_route := Some ''refusal'', st_last_error_code := Some ''NO_GOVERNED_EVIDENCE''\<rparr>)
       else bind_op (save_governed_evidence_bundle (qd_sha d) run_id project_id query pk) (\<lambda>bundle_id.
         return_op (st\<lparr>st_evidence_bundle_id := Some (uuid_str bundle_id),
           st_route := Some ''generate_answer'', st_last_error_code := None\<rparr>)))))))))"

definition answer_request ::
  "qa_deps \<Rightarrow> AgentState \<Rightarrow> uuid \<Rightarrow> string \<Rightarrow> string \<Rightarrow> FrozenEvidenceBundle \<Rightarrow> string list \<Rightarrow> StructuredLLMRequest" where
  "answer_request d st run_id query system_prompt b revision_errors =
     \<lparr>lr_request_id = uuid_str run_id @ '':qa-answer:'' @ str_int (counter (st_revision_count st)),
      lr_model_alias = qd_model_alias d, lr_system_prompt = system_prompt,
      lr_user_prompt = build_grounded_evidence_prompt query b @
        (if revision_errors = [] then []
         else REVISION_HEADING @ join_with ([newline_char] @ ''- '') revision_errors),
      lr_temperature = 0,
      lr_metadata = llm_metadata run_id (case st_project_id st of None \<Rightarrow> ''None'' | Some p \<Rightarrow> p)\<rparr>"

definition generate_draft :: "qa_deps \<Rightarrow> AgentState \<Rightarrow> string list \<Rightarrow> uuid qa_op" where
  "generate_draft d st revision_errors =
     bind_op (of_res (UUID (st_run_id st))) (\<lambda>run_id.
     bind_op (qa_load_query run_id) (\<lambda>query.
     bind_op (of_res (need ''prompt_snapshot_id'' (st_prompt_snapshot_id st))) (\<lambda>prompt_id.
     bind_op (qa_load_artifact prompt_id) (\<lambda>prompt_artifact.
     bind_op (of_res (the_or (ValueError ''prompt snapshot content is missing'')
         (str_field prompt_artifact ''content''))) (\<lambda>system_prompt.
     bind_op (of_res (need ''evidence_bundle_id'' (st_evidence_bundle_id st))) (\<lambda>bundle_id.
     bind_op (load_governed_evidence_bundle bundle_id) (\<lambda>b.
       if fb_evidence b = [] then raise_op (ValueError ''answer generation requires governed Evidence'')
       else let request = answer_request d st run_id query system_prompt b revision_errors
         in bind_op (of_res (bind_res (qd_answer d request) structured_draft)) (\<lambda>draft.
            bind_op (charge d run_id (lr_request_id request)) (\<lambda>_.
              qa_save_artifact run_id ''ANSWER_DRAFT'' (dump_draft draft))))))))))"

definition generate_answer_node :: qa_step where
  "generate_answer_node d st =
     bind_op (generate_draft d st []) (\<lambda>draft_id.
       return_op (st\<lparr>st_answer_draft_id := Some (uuid_str draft_id),
         st_revision_count := Some (counter (st_revision_count st)), st_route := Some ''citation_guard'',
         st_last_error_code := None\<rparr>))"

definition revise_answer_node :: qa_step where
  "revise_answer_node d st =
     (let revision_count = counter (st_revision_count st)
      in if 1 \<le> revision_count
         then return_op (st\<lparr>st_route := Some ''refusal'', st_last_error_code := Some ''CITATION_GUARD_FAILED''\<rparr>)
         else bind_op (of_res (need ''citation_guard_id'' (st_citation_guard_id st))) (\<lambda>guard_id.
           bind_op (qa_load_artifact guard_id) (\<lambda>guard_payload.
           bind_op (of_res (case map_of guard_payload ''errors'' of
               Some (JArr errors) \<Rightarrow> map_res str_value errors | _ \<Rightarrow> Inr [])) (\<lambda>errors.
           bind_op (generate_draft d (st\<lparr>st_revision_count := Some (revision_count + 1)\<rparr>) errors) (\<lambda>draft_id.
             return_op (st\<lparr>st_answer_draft_id := Some (uuid_str draft_id),
               st_revision_count := Some (revision_count + 1), st_route := Some ''citation_guard'',
               st_last_error_code := None\<rparr>))))))"

text \<open>\<open>int(label[1:])\<close> of a label \<open>E<n>\<close>.\<close>

definition citation_number :: "string \<Rightarrow> int res" where
  "citation_number label =
     (let digits = tl label
      in if label \<noteq> [] \<and> digits \<noteq> [] \<and> list_all is_digit digits then Inr (int (int10_digits digits))
         else Inl (ValueError ''invalid literal for int() with base 10''))"

definition citation_of :: "FrozenEvidenceBundle \<Rightarrow> string \<Rightarrow> CitationReference res" where
  "citation_of b label =
     bind_res (citation_number label) (\<lambda>n.
       case by_label b label of
         None \<Rightarrow> Inl (KeyError label)
       | Some item \<Rightarrow> Inr \<lparr>cf_citation_no = n, cf_evidence_snapshot_id = fe_snapshot_id item\<rparr>)"

definition dump_guard :: "CitationValidationResult \<Rightarrow> payload" where
  "dump_guard r =
     [(''valid'', JBool (cv_valid r)), (''coverage'', JFloat (cv_coverage r)),
      (''errors'', of_strs (cv_errors r)), (''used_evidence_ids'', of_strs (cv_used_evidence_ids r))]"

definition citation_guard_node :: qa_step where
  "citation_guard_node d st =
     bind_op (of_res (UUID (st_run_id st))) (\<lambda>run_id.
     bind_op (of_res (need_project st)) (\<lambda>project_id.
     bind_op (of_res (need ''answer_draft_id'' (st_answer_draft_id st))) (\<lambda>draft_id.
     bind_op (qa_load_artifact draft_id) (\<lambda>draft_payload.
     bind_op (of_res (load_draft draft_payload)) (\<lambda>draft.
     bind_op (of_res (need ''evidence_bundle_id'' (st_evidence_bundle_id st))) (\<lambda>bundle_id.
     bind_op (load_governed_evidence_bundle bundle_id) (\<lambda>b.
       let outcome = validate_citations draft b project_id
       in bind_op (qa_save_artifact run_id ''CITATION_GUARD'' (dump_guard outcome)) (\<lambda>guard_id.
          if cv_valid outcome
          then bind_op (of_res (map_res (citation_of b) (cv_used_evidence_ids outcome))) (\<lambda>citations.
               bind_op (save_grounded_answer run_id (render_answer draft) citations) (\<lambda>answer_id.
                 return_op (st\<lparr>st_citation_guard_id := Some (uuid_str guard_id),
                   st_answer_id := Some (uuid_str answer_id), st_route := Some ''answered'',
                   st_last_error_code := None\<rparr>)))
          else if counter (st_revision_count st) < 1
          then return_op (st\<lparr>st_citation_guard_id := Some (uuid_str guard_id),
                 st_route := Some ''revise_answer'', st_last_error_code := Some ''CITATION_GUARD_RETRY''\<rparr>)
          else return_op (st\<lparr>st_citation_guard_id := Some (uuid_str guard_id),
                 st_route := Some ''refusal'', st_last_error_code := Some ''CITATION_GUARD_FAILED''\<rparr>)))))))))"

definition refuse_node :: qa_step where
  "refuse_node d st =
     bind_op (of_res (UUID (st_run_id st))) (\<lambda>run_id.
       let reason = or_else (st_last_error_code st) ''REFUSED''
       in bind_op (save_answer run_id (refusal_text reason) (Some reason)) (\<lambda>answer_id.
            return_op (st\<lparr>st_answer_id := Some (uuid_str answer_id), st_route := Some ''refusal''\<rparr>)))"

definition clarify_project_node :: qa_step where
  "clarify_project_node d st =
     bind_op (of_res (UUID (st_run_id st))) (\<lambda>run_id.
     bind_op (of_res (need ''project_selection_id'' (st_project_selection_id st))) (\<lambda>selection_id.
     bind_op (qa_load_artifact selection_id) (\<lambda>sel.
     bind_op (of_res (case map_of sel ''candidate_project_codes'' of
         Some (JArr codes) \<Rightarrow> map_res str_value codes | _ \<Rightarrow> Inr [])) (\<lambda>codes.
     bind_op (save_answer run_id (clarification_text codes) (Some ''PROJECT_CLARIFICATION_REQUIRED'')) (\<lambda>answer_id.
       return_op (st\<lparr>st_answer_id := Some (uuid_str answer_id), st_route := Some ''clarification''\<rparr>))))))"

section \<open>agent/graph.py: the edges\<close>

datatype qa_node =
    LOAD_PROMPT | ANALYZE_QUERY | SELECT_PROJECT | RESOLVE_SCOPE | RESOLVE_IDENTIFIERS | RETRIEVE
  | GRADE_RETRIEVAL | GOVERN_EVIDENCE | GENERATE_ANSWER | CITATION_GUARD | REVISE_ANSWER | REFUSE
  | CLARIFY_PROJECT

fun qa_node_op :: "qa_node \<Rightarrow> qa_step" where
  "qa_node_op LOAD_PROMPT = load_prompt_snapshot_node"
| "qa_node_op ANALYZE_QUERY = analyze_query_node"
| "qa_node_op SELECT_PROJECT = select_project_node"
| "qa_node_op RESOLVE_SCOPE = resolve_scope_node"
| "qa_node_op RESOLVE_IDENTIFIERS = resolve_identifiers_node"
| "qa_node_op RETRIEVE = retrieve_node"
| "qa_node_op GRADE_RETRIEVAL = grade_retrieval_node"
| "qa_node_op GOVERN_EVIDENCE = govern_evidence_node"
| "qa_node_op GENERATE_ANSWER = generate_answer_node"
| "qa_node_op CITATION_GUARD = citation_guard_node"
| "qa_node_op REVISE_ANSWER = revise_answer_node"
| "qa_node_op REFUSE = refuse_node"
| "qa_node_op CLARIFY_PROJECT = clarify_project_node"

definition after_project_selection :: "AgentState \<Rightarrow> qa_node" where
  "after_project_selection st =
     (if st_route st = Some ''clarification'' then CLARIFY_PROJECT
      else if st_route st = Some ''refusal'' then REFUSE else RESOLVE_SCOPE)"

definition after_retrieval :: "AgentState \<Rightarrow> qa_node" where
  "after_retrieval st = (if st_route st = Some ''grade_retrieval'' then GRADE_RETRIEVAL else REFUSE)"

definition after_retrieval_grade :: "AgentState \<Rightarrow> qa_node" where
  "after_retrieval_grade st =
     (if st_route st = Some ''govern_evidence'' then GOVERN_EVIDENCE
      else if st_route st = Some ''retrieve_again'' then RETRIEVE else REFUSE)"

definition after_governance :: "AgentState \<Rightarrow> qa_node" where
  "after_governance st = (if st_route st = Some ''generate_answer'' then GENERATE_ANSWER else REFUSE)"

definition after_citation_guard :: "AgentState \<Rightarrow> qa_node option" where
  "after_citation_guard st =
     (if st_route st = Some ''answered'' then None
      else if st_route st = Some ''revise_answer'' then Some REVISE_ANSWER else Some REFUSE)"

text \<open>\<open>None\<close> is \<open>END\<close>.\<close>

fun qa_next :: "qa_node \<Rightarrow> AgentState \<Rightarrow> qa_node option" where
  "qa_next LOAD_PROMPT st = Some ANALYZE_QUERY"
| "qa_next ANALYZE_QUERY st = Some SELECT_PROJECT"
| "qa_next SELECT_PROJECT st = Some (after_project_selection st)"
| "qa_next RESOLVE_SCOPE st = Some RESOLVE_IDENTIFIERS"
| "qa_next RESOLVE_IDENTIFIERS st = Some RETRIEVE"
| "qa_next RETRIEVE st = Some (after_retrieval st)"
| "qa_next GRADE_RETRIEVAL st = Some (after_retrieval_grade st)"
| "qa_next GOVERN_EVIDENCE st = Some (after_governance st)"
| "qa_next GENERATE_ANSWER st = Some CITATION_GUARD"
| "qa_next CITATION_GUARD st = after_citation_guard st"
| "qa_next REVISE_ANSWER st = Some CITATION_GUARD"
| "qa_next REFUSE st = None"
| "qa_next CLARIFY_PROJECT st = None"

text \<open>
  A run of the graph: at most \<open>fuel\<close> steps, the first of them number \<open>k\<close>. The result is \<open>None\<close> when the
  steps do not suffice, otherwise the result of the run, the last state that was checkpointed and the
  store.
\<close>

fun run_qa ::
  "nat \<Rightarrow> (nat \<Rightarrow> qa_deps) \<Rightarrow> nat \<Rightarrow> qa_node \<Rightarrow> AgentState \<Rightarrow> qa_db \<Rightarrow>
   (AgentState res \<times> AgentState \<times> qa_db) option" where
  "run_qa 0 deps k node st s = None"
| "run_qa (Suc fuel) deps k node st s =
     (case qa_node_op node (deps k) st s of
        (Inl e, s') \<Rightarrow> Some (Inl e, st, s')
      | (Inr st', s') \<Rightarrow>
          (case qa_next node st' of
             None \<Rightarrow> Some (Inr st', st', s')
           | Some next_node \<Rightarrow> run_qa fuel deps (Suc k) next_node st' s'))"

section \<open>workers/run_graph.py and runtime/qa.py\<close>

definition RECURSION_LIMIT :: nat where
  "RECURSION_LIMIT = 25"

definition run_input :: "RunRecord \<Rightarrow> AgentState \<Rightarrow> AgentState" where
  "run_input run saved =
     saved\<lparr>st_run_id := uuid_str (rr_id run), st_thread_id := uuid_str (rr_thread_id run),
       st_user_id := uuid_str (rr_user_id run), st_project_id := Some (uuid_str (rr_project_id run)),
       st_route := None, st_last_error_code := None\<rparr>"

definition refused_outcome :: "string option \<Rightarrow> string option \<Rightarrow> RunGraphOutcome" where
  "refused_outcome ref summary =
     \<lparr>ro_kind = OUT_REFUSED, ro_result_ref = ref, ro_summary = summary, ro_waiting_payload = None\<rparr>"

definition first_ref :: "string option list \<Rightarrow> string option" where
  "first_ref refs = Option.bind (find (\<lambda>r. r \<noteq> None) refs) id"

definition project_state :: "AgentState \<Rightarrow> RunGraphOutcome" where
  "project_state st =
     (if st_route st = Some ''refusal'' then refused_outcome (st_answer_id st) (st_last_error_code st)
      else if st_route st = Some ''cancelled''
      then \<lparr>ro_kind = OUT_CANCELLED, ro_result_ref = None, ro_summary = None, ro_waiting_payload = None\<rparr>
      else \<lparr>ro_kind = OUT_SUCCEEDED,
            ro_result_ref = first_ref [st_answer_id st, st_issue_candidate_id st, st_issue_creation_id st,
              st_issue_draft_id st],
            ro_summary = None, ro_waiting_payload = None\<rparr>)"

text \<open>
  \<open>ProductionQARunExecutor.execute\<close>: the store is committed when the graph returns and rolled back when
  anything raises, also when the commit itself does (\<open>qd_commit_ok\<close> of \<open>deps 0\<close> says whether it succeeds); the checkpoint of the thread, and the requests to the provider, are not rolled back.
  \<open>deps 0\<close> is read by the authorization before the graph, step \<open>k\<close> of the graph reads \<open>deps k\<close>.
\<close>

definition rolled_back :: "qa_db \<Rightarrow> qa_db \<Rightarrow> qa_db" where
  "rolled_back before after = before\<lparr>qb_next := qb_next after, qb_requests := qb_requests after\<rparr>"

definition execute_qa ::
  "(nat \<Rightarrow> qa_deps) \<Rightarrow> RunRecord \<Rightarrow> AgentState \<Rightarrow> qa_db \<Rightarrow> RunGraphOutcome res \<times> AgentState \<times> qa_db" where
  "execute_qa deps run saved s =
     (if rr_business_mode run \<noteq> MODE_QA
      then (Inl (RuntimeError ''production QA executor does not support business mode''), saved, s)
      else case authorize_project (qd_pick (deps 0)) (qd_now (deps 0)) (rr_user_id run) (rr_project_id run)
             (qd_docs (deps 0)) of
        Inl e \<Rightarrow> (Inl e, saved, s)
      | Inr _ \<Rightarrow>
          (case run_qa RECURSION_LIMIT deps 1 LOAD_PROMPT (run_input run saved) s of
             None \<Rightarrow> (Inl (RuntimeError ''GraphRecursionError''), saved, s)
           | Some (Inl e, checkpoint, s') \<Rightarrow> (Inl e, checkpoint, rolled_back s s')
           | Some (Inr st, checkpoint, s') \<Rightarrow>
               if qd_commit_ok (deps 0) then (Inr (project_state st), checkpoint, s')
               else (Inl OSError, checkpoint, rolled_back s s')))"

definition resume_qa :: "RunGraphOutcome res" where
  "resume_qa = Inl (RuntimeError ''QA runs do not support resume'')"

section \<open>runtime/run_graph.py\<close>

text \<open>The executor of a durable run by its business mode.\<close>

definition route_execute ::
  "(RunRecord \<Rightarrow> 'r) \<Rightarrow> (RunRecord \<Rightarrow> 'r) \<Rightarrow> RunRecord \<Rightarrow> 'r" where
  "route_execute qa issue run = (case rr_business_mode run of MODE_QA \<Rightarrow> qa run | _ \<Rightarrow> issue run)"

definition route_resume ::
  "(RunRecord \<Rightarrow> payload \<Rightarrow> RunGraphOutcome res) \<Rightarrow> RunRecord \<Rightarrow> payload \<Rightarrow> RunGraphOutcome res" where
  "route_resume issue run resume_payload =
     (if rr_business_mode run = MODE_QA then Inl RunGraphUnavailable else issue run resume_payload)"

end
