(* ===== verification/QATermination.thy ===== *)
theory QATermination
  imports QAGraph
begin

text \<open>
  Every run of the question-answering graph ends: a node and the two counters of the state bound the
  number of steps that are left, fifteen from the start, which is within the recursion limit.
\<close>

section \<open>What an operation returns, whatever the store\<close>

definition returns :: "('a, 's) op \<Rightarrow> ('a \<Rightarrow> bool) \<Rightarrow> bool" where
  "returns m Q \<longleftrightarrow> (\<forall>s x s'. m s = (Inr x, s') \<longrightarrow> Q x)"

lemma returnsD: "returns m Q \<Longrightarrow> m s = (Inr x, s') \<Longrightarrow> Q x"
  unfolding returns_def by blast

lemma returns_bind: "(\<And>x. returns (f x) Q) \<Longrightarrow> returns (bind_op m f) Q"
  by (fastforce simp: returns_def bind_op_Inr_iff)

lemma returns_return: "Q x \<Longrightarrow> returns (return_op x) Q"
  by (simp add: returns_def)

lemma returns_raise: "returns (raise_op e) Q"
  by (simp add: returns_def)

lemma returns_if: "(b \<Longrightarrow> returns m Q) \<Longrightarrow> (\<not> b \<Longrightarrow> returns n Q) \<Longrightarrow> returns (if b then m else n) Q"
  by simp

lemma returns_case_option:
  "(v = None \<Longrightarrow> returns m Q) \<Longrightarrow> (\<And>x. v = Some x \<Longrightarrow> returns (n x) Q) \<Longrightarrow>
   returns (case v of None \<Rightarrow> m | Some x \<Rightarrow> n x) Q"
  by (cases v) simp_all

lemma returns_let: "returns (f x) Q \<Longrightarrow> returns (let y = x in f y) Q"
  by simp

lemmas returns_rules = returns_if returns_case_option returns_let returns_raise returns_bind returns_return

section \<open>The steps that are left\<close>

text \<open>The counters of retrieval rounds and revisions count upwards from zero.\<close>

definition counters_ok :: "AgentState \<Rightarrow> bool" where
  "counters_ok st \<longleftrightarrow> 0 \<le> counter (st_retrieval_round st) \<and> 0 \<le> counter (st_revision_count st)"

definition rounds_left :: "AgentState \<Rightarrow> nat" where
  "rounds_left st = nat (2 - counter (st_retrieval_round st))"

definition guard_steps :: "AgentState \<Rightarrow> nat" where
  "guard_steps st = (if counter (st_revision_count st) < 1 then 4 else 2)"

fun steps_left :: "qa_node \<Rightarrow> AgentState \<Rightarrow> nat" where
  "steps_left REFUSE st = 1"
| "steps_left CLARIFY_PROJECT st = 1"
| "steps_left CITATION_GUARD st = guard_steps st"
| "steps_left REVISE_ANSWER st = 3"
| "steps_left GENERATE_ANSWER st = 5"
| "steps_left GOVERN_EVIDENCE st = 6"
| "steps_left GRADE_RETRIEVAL st = 7 + 2 * rounds_left st"
| "steps_left RETRIEVE st = (if rounds_left st = 0 then 2 else 6 + 2 * rounds_left st)"
| "steps_left RESOLVE_IDENTIFIERS st = 11"
| "steps_left RESOLVE_SCOPE st = 12"
| "steps_left SELECT_PROJECT st = 13"
| "steps_left ANALYZE_QUERY st = 14"
| "steps_left LOAD_PROMPT st = 15"

definition step_descends :: "qa_node \<Rightarrow> AgentState \<Rightarrow> AgentState \<Rightarrow> bool" where
  "step_descends node st st' \<longleftrightarrow> counters_ok st' \<and>
     (\<forall>n. qa_next node st' = Some n \<longrightarrow> steps_left n st' < steps_left node st)"

lemmas descend_simps = step_descends_def counters_ok_def rounds_left_def guard_steps_def counter_def
  after_project_selection_def after_retrieval_def after_retrieval_grade_def after_governance_def
  after_citation_guard_def

lemma retrieve_descends:
  assumes "counters_ok st"
  shows "returns (retrieve_node d st) (step_descends RETRIEVE st)"
  unfolding retrieve_node_def
  by (intro returns_rules) (use assms in \<open>auto simp: descend_simps split: option.splits if_splits\<close>)

text \<open>The grading node returns one of three states.\<close>

lemma returns_grade:
  assumes "\<And>g. Q (st\<lparr>st_retrieval_grade_id := Some g, st_route := Some ''govern_evidence'',
      st_last_error_code := None\<rparr>)"
    and "\<And>g pl. counter (st_retrieval_round st) < 2 \<Longrightarrow> Q (st\<lparr>st_retrieval_grade_id := Some g,
      st_retrieval_plan_id := Some pl, st_route := Some ''retrieve_again'', st_last_error_code := None\<rparr>)"
    and "\<And>g. Q (st\<lparr>st_retrieval_grade_id := Some g, st_route := Some ''refusal'',
      st_last_error_code := Some ''INSUFFICIENT_EVIDENCE''\<rparr>)"
  shows "returns (grade_retrieval_node d st) Q"
proof -
  have "returns (case (b \<and> counter (st_retrieval_round st) < 2 \<and> c, q) of
        (True, Some refined) \<Rightarrow> bind_op (m refined) (\<lambda>i.
          return_op (st\<lparr>st_retrieval_grade_id := Some g, st_retrieval_plan_id := Some (uuid_str i),
            st_route := Some ''retrieve_again'', st_last_error_code := None\<rparr>))
      | _ \<Rightarrow> return_op (st\<lparr>st_retrieval_grade_id := Some g, st_route := Some ''refusal'',
          st_last_error_code := Some ''INSUFFICIENT_EVIDENCE''\<rparr>)) Q"
    for b c q g and m :: "string \<Rightarrow> uuid qa_op"
    using assms(2,3) by (auto split: bool.split option.split intro!: returns_rules)
  then show ?thesis unfolding grade_retrieval_node_def
    by (intro returns_rules) (use assms(1) in auto)
qed

lemma grade_descends:
  assumes "counters_ok st"
  shows "returns (grade_retrieval_node d st) (step_descends GRADE_RETRIEVAL st)"
  by (rule returns_grade) (use assms in \<open>auto simp: descend_simps\<close>)

lemma guard_descends:
  assumes "counters_ok st"
  shows "returns (citation_guard_node d st) (step_descends CITATION_GUARD st)"
  unfolding citation_guard_node_def
  by (intro returns_rules) (use assms in \<open>auto simp: descend_simps\<close>)

lemma step_descends:
  assumes "counters_ok st"
  shows "returns (qa_node_op node d st) (step_descends node st)"
proof (cases node)
  case RETRIEVE
  then show ?thesis using retrieve_descends [OF assms] by simp
next
  case GRADE_RETRIEVAL
  then show ?thesis using grade_descends [OF assms] by simp
next
  case CITATION_GUARD
  then show ?thesis using guard_descends [OF assms] by simp
qed (simp_all only: qa_node_op.simps load_prompt_snapshot_node_def analyze_query_node_def select_project_node_def
    resolve_scope_node_def resolve_identifiers_node_def govern_evidence_node_def generate_answer_node_def
    revise_answer_node_def refuse_node_def clarify_project_node_def,
    (intro returns_rules; use assms in \<open>auto simp: descend_simps\<close>)+)

lemma run_qa_ends:
  assumes "counters_ok st" and "steps_left node st \<le> fuel"
  shows "run_qa fuel deps k node st s \<noteq> None"
  using assms
proof (induction fuel arbitrary: k node st s)
  case 0
  then show ?case by (cases node) (auto simp: guard_steps_def split: if_splits)
next
  case (Suc fuel)
  show ?case
  proof (cases "qa_node_op node (deps k) st s")
    case (Pair r s')
    show ?thesis
    proof (cases r)
      case (Inr st')
      with Pair have d: "step_descends node st st'"
        using returnsD [OF step_descends [OF Suc.prems(1)]] by blast
      show ?thesis
      proof (cases "qa_next node st'")
        case (Some n)
        then have "run_qa fuel deps (Suc k) n st' s' \<noteq> None"
          using d Suc.prems(2) by (intro Suc.IH) (auto simp: step_descends_def)
        then show ?thesis using Pair Inr Some by simp
      qed (simp add: Pair Inr)
    qed (simp add: Pair)
  qed
qed

text \<open>The fuel beyond the steps that are left makes no difference.\<close>

lemma run_qa_fuel:
  assumes "run_qa fuel deps k node st s = Some r"
  shows "run_qa (fuel + more_fuel) deps k node st s = Some r"
  using assms
  by (induction fuel arbitrary: k node st s)
    (auto split: prod.splits sum.splits option.splits)

text \<open>C7: whatever the services answer and the tables hold, a run of the question-answering graph ends
  after at most fifteen steps: it never exceeds the recursion limit, and its result is the one that any
  larger limit would give.\<close>

theorem qa_run_terminates:
  assumes "counters_ok saved"
  shows "\<exists>r. run_qa 15 deps 1 LOAD_PROMPT (run_input run saved) s = Some r \<and>
    run_qa RECURSION_LIMIT deps 1 LOAD_PROMPT (run_input run saved) s = Some r \<and>
    (\<forall>fuel\<ge>15. run_qa fuel deps 1 LOAD_PROMPT (run_input run saved) s = Some r)"
proof -
  have "counters_ok (run_input run saved)" using assms by (simp add: counters_ok_def run_input_def)
  then obtain r where r: "run_qa 15 deps 1 LOAD_PROMPT (run_input run saved) s = Some r"
    using run_qa_ends [of "run_input run saved" LOAD_PROMPT 15 deps 1 s] by auto
  have "run_qa fuel deps 1 LOAD_PROMPT (run_input run saved) s = Some r" if "15 \<le> fuel" for fuel
    using run_qa_fuel [OF r, of "fuel - 15"] that by simp
  then show ?thesis using r by (simp add: RECURSION_LIMIT_def)
qed

theorem qa_run_terminates_witness:
  "\<forall>deps run s. \<exists>r. run_qa 15 deps 1 LOAD_PROMPT (run_input run empty_state) s = Some r \<and>
    run_qa RECURSION_LIMIT deps 1 LOAD_PROMPT (run_input run empty_state) s = Some r"
proof (intro allI)
  fix deps run s
  have "counters_ok empty_state" by (simp add: counters_ok_def counter_def empty_state_def)
  from qa_run_terminates [OF this, of deps run s]
  show "\<exists>r. run_qa 15 deps 1 LOAD_PROMPT (run_input run empty_state) s = Some r \<and>
    run_qa RECURSION_LIMIT deps 1 LOAD_PROMPT (run_input run empty_state) s = Some r" by blast
qed

end
