(* ===== verification/QAProofs.thy ===== *)
theory QAProofs
  imports QATermination OpHoare EvidenceProofs
begin

text \<open>
  What a run of the question-answering graph may do: ask the knowledge provider only within the scope that
  the user of the run was authorized for, and answer only with a grounded draft over evidence that was
  governed in that run. Both are invariants of the node that comes next, kept by every step.
\<close>

section \<open>Operations that only add artifacts\<close>

text \<open>\<open>extends s s'\<close>: evidence, answers, citations and requests are as before, and every artifact that could
  be read is still read the same.\<close>

definition extends :: "qa_db \<Rightarrow> qa_db \<Rightarrow> bool" where
  "extends s s' \<longleftrightarrow>
     qb_bundles s' = qb_bundles s \<and> qb_snapshots s' = qb_snapshots s \<and> qb_answers s' = qb_answers s \<and>
     qb_citations s' = qb_citations s \<and> qb_requests s' = qb_requests s \<and>
     (\<forall>a p. load_artifact a (qb_runs s) = Inr p \<longrightarrow> load_artifact a (qb_runs s') = Inr p)"

lemma extends_refl [simp]: "extends s s"
  by (simp add: extends_def)

lemma extends_trans: "extends s t \<Longrightarrow> extends t u \<Longrightarrow> extends s u"
  by (simp add: extends_def)

text \<open>\<open>moves R m\<close>: whether it returns or raises, the operation relates the store before and after by \<open>R\<close>.\<close>

definition moves :: "(qa_db \<Rightarrow> qa_db \<Rightarrow> bool) \<Rightarrow> 'a qa_op \<Rightarrow> bool" where
  "moves R m \<longleftrightarrow> (\<forall>s. R s (snd (m s)))"

lemma moves_bind:
  assumes "\<And>s t u. R s t \<Longrightarrow> R t u \<Longrightarrow> R s u" and "moves R m" and "\<And>x. moves R (f x)"
  shows "moves R (bind_op m f)"
  unfolding moves_def
proof
  fix s
  have "R s (snd (m s))" using assms(2) by (simp add: moves_def)
  moreover have "R (snd (m s)) (snd (f x (snd (m s))))" for x
    using assms(3) by (simp add: moves_def)
  ultimately show "R s (snd (bind_op m f s))"
    by (auto simp: bind_op_def intro: assms(1) split: prod.splits sum.splits)
qed

lemma moves_basic:
  assumes "\<And>s. R s s"
  shows "moves R (return_op x)" "moves R (raise_op e)" "moves R (of_res r)" "moves R (read_op g)"
  using assms by (simp_all add: moves_def)

lemma moves_step: "moves R m \<Longrightarrow> m s = (r, s') \<Longrightarrow> R s s'"
  by (metis moves_def snd_conv)

abbreviation adds_artifacts :: "'a qa_op \<Rightarrow> bool" where
  "adds_artifacts \<equiv> moves extends"

definition stable :: "(qa_db \<Rightarrow> bool) \<Rightarrow> bool" where
  "stable I \<longleftrightarrow> (\<forall>s s'. I s \<longrightarrow> extends s s' \<longrightarrow> I s')"

lemma stableD: "stable I \<Longrightarrow> I s \<Longrightarrow> extends s s' \<Longrightarrow> I s'"
  by (auto simp: stable_def)

lemma stable_conj: "stable I \<Longrightarrow> stable J \<Longrightarrow> stable (\<lambda>s. I s \<and> J s)"
  unfolding stable_def by blast

lemma stable_const: "stable (\<lambda>_. F)"
  by (simp add: stable_def)

lemmas adds_bind = moves_bind [OF extends_trans]

lemmas adds_plain = moves_basic [of extends, OF extends_refl]

lemma adds_uuid4: "adds_artifacts uuid4"
  by (simp add: moves_def uuid4_def extends_def)

lemmas adds_basic = adds_plain adds_uuid4

lemma adds_read_runs: "adds_artifacts (read_runs f)"
  by (simp add: read_runs_def adds_basic)

lemma adds_if: "adds_artifacts m \<Longrightarrow> adds_artifacts n \<Longrightarrow> adds_artifacts (if b then m else n)"
  by simp

lemma load_artifact_append:
  assumes "load_artifact a db = Inr p"
  shows "load_artifact a (db\<lparr>events := events db @ evs\<rparr>) = Inr p"
  using assms by (auto simp: load_artifact_def row_by_append split: option.splits)

lemma adds_save: "adds_artifacts (on_runs (save_artifact i run_id t p))"
  by (auto simp: moves_def on_runs_def save_artifact_def append_event_def extends_def bind_op_def Let_def
      load_artifact_append split: prod.splits sum.splits if_splits)

lemma adds_update_run: "adds_artifacts (on_runs (update_run run_id f))"
  by (auto simp: moves_def on_runs_def update_run_def extends_def load_artifact_def
      split: prod.splits sum.splits option.splits)

lemma adds_artifact: "adds_artifacts (qa_save_artifact run_id t p)"
  unfolding qa_save_artifact_def by (intro adds_bind adds_basic adds_read_runs adds_save)

lemma adds_load: "adds_artifacts (qa_load_artifact a)" "adds_artifacts (qa_load_query run_id)"
  by (simp_all add: qa_load_artifact_def qa_load_query_def adds_read_runs)

lemma adds_charge: "adds_artifacts (charge d run_id i)"
  unfolding charge_def record_llm_usage_def split_def by (intro adds_bind adds_basic adds_if adds_update_run)

lemma adds_load_of:
  "adds_artifacts (load_analysis_of st)" "adds_artifacts (load_context_of st)" "adds_artifacts (load_plan_of st)"
  unfolding load_analysis_of_def load_context_of_def load_plan_of_def
  by (auto intro!: adds_bind adds_basic adds_load)

lemma adds_load_evidence:
  "adds_artifacts (load_evidence_bundle b)" "adds_artifacts (load_governed_evidence_bundle b)"
  unfolding load_evidence_bundle_def load_governed_evidence_bundle_def by (intro adds_basic)+

lemma adds_let: "adds_artifacts (f x) \<Longrightarrow> adds_artifacts (let y = x in f y)"
  by simp

lemma adds_rounds: "adds_artifacts (increment_retrieval_rounds run_id)"
  unfolding increment_retrieval_rounds_def by (rule adds_update_run)

lemma adds_prompt: "adds_artifacts (record_prompt_snapshot run_id a p)"
  unfolding record_prompt_snapshot_def by (intro adds_bind adds_update_run adds_artifact)

lemma adds_draft: "adds_artifacts (generate_draft d st errors)"
  unfolding generate_draft_def
  by (intro adds_bind adds_basic adds_load adds_load_evidence adds_if adds_let adds_charge adds_artifact)

lemmas adds_rules = adds_if adds_let adds_bind adds_basic adds_read_runs adds_load adds_load_of
  adds_load_evidence adds_artifact adds_charge adds_rounds adds_prompt adds_draft

lemma keeps_adds: "adds_artifacts m \<Longrightarrow> stable I \<Longrightarrow> triple I m (\<lambda>_. I) I"
  by (rule tripleI) (metis moves_step stableD)+

text \<open>An artifact that was saved can be loaded under the id that was returned.\<close>

lemma save_then_load:
  assumes "qa_save_artifact run_id t p s = (Inr a, s')"
  shows "load_artifact a (qb_runs s') = Inr p"
proof -
  let ?i = "qb_supply s (qb_next s)"
  have a: "row_by ae_id ?i (events (qb_runs s)) = None"
    and s: "on_runs (save_artifact ?i run_id t p) (s\<lparr>qb_next := Suc (qb_next s)\<rparr>) = (Inr a, s')"
    using assms by (auto simp: qa_save_artifact_def uuid4_def read_runs_def bind_op_Inr_iff split: if_splits)
  then show ?thesis
    by (auto simp: on_runs_def save_artifact_def append_event_def bind_op_Inr_iff load_artifact_def Let_def
        row_by_append split: prod.splits if_splits)
qed

lemma triple_save_artifact:
  assumes "stable I"
  shows "triple I (qa_save_artifact run_id t p)
    (\<lambda>a s. I s \<and> load_artifact a (qb_runs s) = Inr p) I"
proof (rule tripleI)
  fix s s' a assume "I s" and r: "qa_save_artifact run_id t p s = (Inr a, s')"
  then show "I s' \<and> load_artifact a (qb_runs s') = Inr p"
    using triple_Inr [OF keeps_adds [OF adds_artifact assms]] save_then_load by blast
qed (rule triple_Inl [OF keeps_adds [OF adds_artifact assms]])

section \<open>Adding evidence\<close>

text \<open>Every snapshot belongs to a bundle: the foreign key.\<close>

definition snapshots_have_bundles :: "qa_db \<Rightarrow> bool" where
  "snapshots_have_bundles s \<longleftrightarrow> es_bundle_id ` set (qb_snapshots s) \<subseteq> eb_id ` set (qb_bundles s)"

lemma insert_snapshot_Inr:
  assumes "insert_snapshot row s = (Inr u, s')"
  shows "s' = s\<lparr>qb_snapshots := qb_snapshots s @ [row\<lparr>es_score := map_option numeric6 (es_score row)\<rparr>]\<rparr>"
    "row_by es_id (es_id row) (qb_snapshots s) = None"
  using assms by (auto simp: insert_snapshot_def split: if_splits)

lemma insert_snapshot_Inl: "insert_snapshot row s = (Inl e, s') \<Longrightarrow> s' = s"
  by (auto simp: insert_snapshot_def split: if_splits)

lemma new_bundle_Inr:
  assumes "new_bundle run_id q s = (Inr b, s')"
  shows "row_by eb_id b (qb_bundles s) = None"
    "s' = s\<lparr>qb_next := Suc (qb_next s),
            qb_bundles := qb_bundles s @ [\<lparr>eb_id = b, eb_run_id = run_id, eb_query_text = q\<rparr>]\<rparr>"
  using assms by (auto simp: new_bundle_def uuid4_def insert_bundle_def bind_op_Inr_iff split: if_splits)

lemma new_bundle_Inl: "new_bundle run_id q s = (Inl e, s') \<Longrightarrow> s' = s\<lparr>qb_next := Suc (qb_next s)\<rparr>"
  by (auto simp: new_bundle_def uuid4_def insert_bundle_def bind_op_Inl_iff split: if_splits)

text \<open>Loops that insert one snapshot after the other.\<close>

definition inserted :: "(EvidenceSnapshotModel \<Rightarrow> bool) \<Rightarrow> qa_db \<Rightarrow> qa_db \<Rightarrow> bool" where
  "inserted P s s' \<longleftrightarrow>
     (\<exists>n rows. s' = s\<lparr>qb_next := n, qb_snapshots := qb_snapshots s @ rows\<rparr> \<and> (\<forall>row\<in>set rows. P row))"

lemma inserted_refl: "inserted P s s"
  unfolding inserted_def by (rule exI [of _ "qb_next s"], rule exI [of _ "[]"]) simp

lemma inserted_trans:
  assumes "inserted P s t" and "inserted P t u"
  shows "inserted P s u"
proof -
  obtain n rows where t: "t = s\<lparr>qb_next := n, qb_snapshots := qb_snapshots s @ rows\<rparr>" "\<forall>row\<in>set rows. P row"
    using assms(1) unfolding inserted_def by blast
  obtain n' rows' where u: "u = t\<lparr>qb_next := n', qb_snapshots := qb_snapshots t @ rows'\<rparr>"
      "\<forall>row\<in>set rows'. P row"
    using assms(2) unfolding inserted_def by blast
  show ?thesis unfolding inserted_def
    by (rule exI [of _ n'], rule exI [of _ "rows @ rows'"]) (use t u in auto)
qed

lemma inserts_uuid4: "moves (inserted P) uuid4"
  unfolding moves_def inserted_def
proof
  fix s
  show "\<exists>n rows. snd (uuid4 s) = s\<lparr>qb_next := n, qb_snapshots := qb_snapshots s @ rows\<rparr> \<and> (\<forall>row\<in>set rows. P row)"
    by (rule exI [of _ "Suc (qb_next s)"], rule exI [of _ "[]"]) (simp add: uuid4_def)
qed

lemma inserts_snapshot:
  assumes "P (row\<lparr>es_score := map_option numeric6 (es_score row)\<rparr>)"
  shows "moves (inserted P) (insert_snapshot row)"
  unfolding moves_def
proof
  fix s
  have "inserted P s (s\<lparr>qb_snapshots := qb_snapshots s @ [row\<lparr>es_score := map_option numeric6 (es_score row)\<rparr>]\<rparr>)"
    unfolding inserted_def
    by (rule exI [of _ "qb_next s"], rule exI [of _ "[row\<lparr>es_score := map_option numeric6 (es_score row)\<rparr>]"])
      (simp add: assms)
  then show "inserted P s (snd (insert_snapshot row s))"
    by (simp add: insert_snapshot_def inserted_refl)
qed

lemma inserts_for_each:
  assumes "\<And>x. x \<in> set xs \<Longrightarrow> moves (inserted P) (body x)"
  shows "moves (inserted P) (for_each xs body)"
  using assms
  by (induction xs) (auto intro: moves_bind inserted_trans moves_basic inserted_refl)

lemmas inserts_rules = moves_bind [OF inserted_trans] inserts_uuid4
  moves_basic [of "inserted P" for P, OF inserted_refl] inserts_snapshot

lemma inserts_candidate:
  "moves (inserted (\<lambda>row. es_bundle_id row = b \<and> es_source_type row = ''retrieval_candidate''))
     (save_candidate b p k x)"
  unfolding save_candidate_def by (cases x) (auto intro!: inserts_rules)

lemma inserts_governed:
  "moves (inserted (\<lambda>row. es_bundle_id row = b)) (save_governed sha b p x)"
  unfolding save_governed_def by (cases x) (auto intro!: inserts_rules)

lemma inserts_marker:
  "moves (inserted (\<lambda>row. es_bundle_id row = b)) (save_round_marker b p k)"
  unfolding save_round_marker_def by (auto intro!: inserts_rules)

section \<open>Governed evidence in the store\<close>

definition governed_row ::
  "(string \<Rightarrow> string) \<Rightarrow> uuid \<Rightarrow> uuid \<Rightarrow> uuid \<Rightarrow> nat \<times> GovernedEvidence \<Rightarrow> EvidenceSnapshotModel" where
  "governed_row sha b p i item =
     (case item of (n, e) \<Rightarrow>
       \<lparr>es_id = i, es_bundle_id = b, es_project_id = p,
        es_document_version_id = Some (ge_document_version_id e), es_source_type = ''governed_evidence'',
        es_source_ref = or_else (ge_provider_ref e) (ge_label e), es_content = ge_content e,
        es_rank = int n, es_score = Some (numeric6 (ge_score e)), es_metadata = governed_metadata sha e\<rparr>)"

definition rows_of ::
  "(string \<Rightarrow> string) \<Rightarrow> uuid \<Rightarrow> uuid \<Rightarrow> EvidenceSnapshotModel list \<Rightarrow> (nat \<times> GovernedEvidence) list \<Rightarrow> bool" where
  "rows_of sha b p = list_all2 (\<lambda>row item. row = governed_row sha b p (es_id row) item)"

lemma save_governed_Inr:
  assumes "save_governed sha b p item s = (Inr u, s')"
  shows "\<exists>i. qb_snapshots s' = qb_snapshots s @ [governed_row sha b p i item] \<and>
    i \<notin> es_id ` set (qb_snapshots s)"
  using assms
  by (cases item)
    (auto simp: save_governed_def uuid4_def bind_op_Inr_iff governed_row_def row_by_None_iff
      insert_snapshot_def intro!: exI [of _ "qb_supply s (qb_next s)"] split: if_splits)

lemma governed_row_fields:
  "es_rank (governed_row sha b p i item) = int (fst item)" "es_bundle_id (governed_row sha b p i item) = b"
  "es_source_type (governed_row sha b p i item) = ''governed_evidence''"
  "es_id (governed_row sha b p i item) = i"
  by (simp_all add: governed_row_def split_def)

lemma save_all_governed:
  assumes "for_each items (save_governed sha b p) s = (Inr u, s')"
  shows "\<exists>rows. qb_snapshots s' = qb_snapshots s @ rows \<and> rows_of sha b p rows items"
  using assms
proof (induction items arbitrary: s)
  case Nil
  then show ?case by (simp add: rows_of_def)
next
  case (Cons item items)
  then obtain s1 where s1: "save_governed sha b p item s = (Inr (), s1)"
      "for_each items (save_governed sha b p) s1 = (Inr u, s')"
    by (auto simp: bind_op_Inr_iff)
  obtain i where i: "qb_snapshots s1 = qb_snapshots s @ [governed_row sha b p i item]"
    using save_governed_Inr [OF s1(1)] by blast
  obtain rows where rows: "qb_snapshots s' = qb_snapshots s1 @ rows" "rows_of sha b p rows items"
    using Cons.IH [OF s1(2)] by blast
  have "es_id (governed_row sha b p i item) = i" by (simp add: governed_row_def split: prod.splits)
  then show ?case
    using i rows by (intro exI [of _ "governed_row sha b p i item # rows"]) (simp add: rows_of_def)
qed

text \<open>The bundle of a pack holds one row per piece of evidence, in the order of the pack.\<close>

definition holds_pack ::
  "(string \<Rightarrow> string) \<Rightarrow> uuid \<Rightarrow> uuid \<Rightarrow> GovernedEvidencePack \<Rightarrow> qa_db \<Rightarrow> bool" where
  "holds_pack sha p b pk s \<longleftrightarrow>
     rows_of sha b p (bundle_rows ''governed_evidence'' b s) (List.enumerate 1 (gp_evidence pk))"

lemma rows_of_props:
  assumes "rows_of sha b p rows items"
  shows "map es_rank rows = map (int \<circ> fst) items" "\<forall>row\<in>set rows. es_bundle_id row = b"
    "\<forall>row\<in>set rows. es_source_type row = ''governed_evidence''"
proof -
  have "es_rank row = int (fst item) \<and> es_bundle_id row = b \<and> es_source_type row = ''governed_evidence''"
    if "row = governed_row sha b p (es_id row) item" for row item
    by (subst (1 2 3) that) (simp add: governed_row_fields)
  then have "list_all2 (\<lambda>row item. es_rank row = int (fst item) \<and> es_bundle_id row = b \<and>
      es_source_type row = ''governed_evidence'') rows items"
    by (intro list_all2_mono [OF assms [unfolded rows_of_def]])
  then show "map es_rank rows = map (int \<circ> fst) items" "\<forall>row\<in>set rows. es_bundle_id row = b"
    "\<forall>row\<in>set rows. es_source_type row = ''governed_evidence''"
    by (induction rule: list_all2_induct) simp_all
qed

lemma save_pack:
  assumes "save_governed_evidence_bundle sha run_id p q pk s = (Inr b, s')" and "snapshots_have_bundles s"
  shows "holds_pack sha p b pk s'"
proof -
  obtain s1 where s1: "new_bundle run_id q s = (Inr b, s1)"
      "for_each (List.enumerate 1 (gp_evidence pk)) (save_governed sha b p) s1 = (Inr (), s')"
    using assms(1) by (auto simp: save_governed_evidence_bundle_def bind_op_Inr_iff)
  obtain rows where rows: "qb_snapshots s' = qb_snapshots s1 @ rows"
      "rows_of sha b p rows (List.enumerate 1 (gp_evidence pk))"
    using save_all_governed [OF s1(2)] by blast
  have "b \<notin> eb_id ` set (qb_bundles s)"
    using new_bundle_Inr(1) [OF s1(1)] by (auto simp: row_by_None_iff)
  then have "filter (\<lambda>r. es_bundle_id r = b \<and> es_source_type r = ''governed_evidence'') (qb_snapshots s) = []"
    using assms(2) by (auto simp: snapshots_have_bundles_def filter_empty_conv)
  moreover have "filter (\<lambda>r. es_bundle_id r = b \<and> es_source_type r = ''governed_evidence'') rows = rows"
    using rows_of_props(2,3) [OF rows(2)] by (simp add: filter_id_conv)
  ultimately have "bundle_rows ''governed_evidence'' b s' = sort_key es_rank rows"
    using rows(1) new_bundle_Inr(2) [OF s1(1)] by (simp add: bundle_rows_def)
  moreover have "sorted (map es_rank rows)"
  proof -
    have "map es_rank rows = map int [1..<1 + length (gp_evidence pk)]"
      unfolding rows_of_props(1) [OF rows(2)] by (simp del: map_map add: map_map [symmetric])
    then show ?thesis by (simp add: sorted_wrt_map del: upt_Suc)
  qed
  ultimately show ?thesis using rows(2) by (simp add: holds_pack_def sorted_sort_id sort_key_id_if_sorted)
qed

section \<open>Reading governed evidence back\<close>

definition frozen :: "(string \<Rightarrow> string) \<Rightarrow> uuid \<Rightarrow> uuid \<Rightarrow> GovernedEvidence \<Rightarrow> FrozenEvidence" where
  "frozen sha p i e =
     \<lparr>fe_snapshot_id = i, fe_label = ge_label e, fe_project_id = p, fe_project_code = ge_project_code e,
      fe_document_version_id = ge_document_version_id e, fe_document_category = ge_document_category e,
      fe_document_title = ge_document_title e, fe_version_no = ge_version_no e,
      fe_version_label = ge_version_label e, fe_authority_level = ge_authority_level e,
      fe_lifecycle_status = ge_lifecycle_status e, fe_is_current = ge_is_current e,
      fe_effective_from = ge_effective_from e, fe_effective_to = ge_effective_to e,
      fe_content = ge_content e, fe_content_hash = content_hash sha e, fe_score = numeric6 (ge_score e),
      fe_knowledge_space_id = ge_knowledge_space_id e,
      fe_provider_ref = Some (or_else (ge_provider_ref e) (ge_label e)), fe_page_no = ge_page_no e,
      fe_section = ge_section e, fe_conflict_key = ge_conflict_key e, fe_claim_value = ge_claim_value e,
      fe_unresolved_conflict = ge_unresolved_conflict e\<rparr>"

lemma str_value_str [simp]: "str_value (JStr x) = Inr x"
  by (simp add: str_value_def)

lemma opt_str_opt:
  "(case opt_str v of JNull \<Rightarrow> Inr None | w \<Rightarrow> bind_res (str_value w) (\<lambda>s. Inr (Some s))) = Inr v"
  by (simp add: opt_str_def split: option.splits)

lemma metadata_of_row:
  "map_of (governed_metadata sha e) ''evidence_label'' = Some (JStr (ge_label e))"
  "map_of (governed_metadata sha e) ''project_code'' = Some (JStr (ge_project_code e))"
  "map_of (governed_metadata sha e) ''knowledge_space_id'' = Some (opt_str (ge_knowledge_space_id e))"
  "map_of (governed_metadata sha e) ''page_no'' = Some (opt_int (ge_page_no e))"
  "map_of (governed_metadata sha e) ''section'' = Some (opt_str (ge_section e))"
  "map_of (governed_metadata sha e) ''document_category'' = Some (JStr (DocumentCategory_value (ge_document_category e)))"
  "map_of (governed_metadata sha e) ''document_title'' = Some (JStr (ge_document_title e))"
  "map_of (governed_metadata sha e) ''version_no'' = Some (JInt (ge_version_no e))"
  "map_of (governed_metadata sha e) ''version_label'' = Some (JStr (ge_version_label e))"
  "map_of (governed_metadata sha e) ''authority_level'' = Some (JStr (AuthorityLevel_value (ge_authority_level e)))"
  "map_of (governed_metadata sha e) ''lifecycle_status'' =
     Some (JStr (DocumentLifecycleStatus_value (ge_lifecycle_status e)))"
  "map_of (governed_metadata sha e) ''is_current'' = Some (JBool (ge_is_current e))"
  "map_of (governed_metadata sha e) ''effective_from'' = Some (opt_date (ge_effective_from e))"
  "map_of (governed_metadata sha e) ''effective_to'' = Some (opt_date (ge_effective_to e))"
  "map_of (governed_metadata sha e) ''content_hash'' = Some (JStr (content_hash sha e))"
  "map_of (governed_metadata sha e) ''conflict_key'' = Some (opt_str (ge_conflict_key e))"
  "map_of (governed_metadata sha e) ''claim_value'' = Some (opt_str (ge_claim_value e))"
  "map_of (governed_metadata sha e) ''unresolved_conflict'' = Some (JBool (ge_unresolved_conflict e))"
  by (simp_all add: governed_metadata_def)

lemma items_of_row:
  "str_item_opt (governed_metadata sha e) ''knowledge_space_id'' = Inr (ge_knowledge_space_id e)"
  "str_item_opt (governed_metadata sha e) ''section'' = Inr (ge_section e)"
  "str_item_opt (governed_metadata sha e) ''conflict_key'' = Inr (ge_conflict_key e)"
  "str_item_opt (governed_metadata sha e) ''claim_value'' = Inr (ge_claim_value e)"
  "str_field (governed_metadata sha e) ''evidence_label'' = Some (ge_label e)"
  "str_field (governed_metadata sha e) ''project_code'' = Some (ge_project_code e)"
  "unresolved_flag (governed_metadata sha e) = ge_unresolved_conflict e"
  "flag_item (governed_metadata sha e) ''is_current'' = Inr (ge_is_current e)"
  "int_item (governed_metadata sha e) ''version_no'' = Inr (ge_version_no e)"
  by (simp_all add: str_item_opt_def str_field_def unresolved_flag_def flag_item_def int_item_def truthy_def
      metadata_of_row opt_str_def split: option.splits)

lemma freeze_governed_row:
  "freeze_row (governed_row sha b p i (n, e)) =
     bind_res (date_field (governed_metadata sha e) ''effective_from'') (\<lambda>from_date.
     bind_res (date_field (governed_metadata sha e) ''effective_to'') (\<lambda>to_date.
       Inr ((frozen sha p i e)\<lparr>fe_effective_from := from_date, fe_effective_to := to_date\<rparr>)))"
proof -
  have "(case opt_int v of JInt j \<Rightarrow> Some j | _ \<Rightarrow> None) = v" for v
    by (simp add: opt_int_def split: option.splits)
  then show ?thesis
    by (simp add: freeze_row_def governed_row_def row_version_def items_of_row str_item_def metadata_of_row
        frozen_def Let_def)
qed

end
