(* ===== verification/QASafety.thy ===== *)
theory QASafety
  imports QAProofs
begin

text \<open>
  The invariant of a run of the question-answering graph and what follows from it: the knowledge provider is
  asked only within the scope the user was authorized for, and an answer is a grounded draft over
  evidence that the run itself retrieved and governed.
\<close>

section \<open>A run, what it may ask and what it holds\<close>

record qa_case =
  qc_deps :: "nat \<Rightarrow> qa_deps"
  qc_run :: RunRecord
  qc_start :: qa_db

text \<open>The context that some step of the run was authorized for.\<close>

definition authorized_ctx :: "qa_case \<Rightarrow> AuthorizedProjectContext \<Rightarrow> bool" where
  "authorized_ctx c ctx \<longleftrightarrow>
     (\<exists>k. authorize_project (qd_pick (qc_deps c k)) (qd_now (qc_deps c k)) (rr_user_id (qc_run c))
        (rr_project_id (qc_run c)) (qd_docs (qc_deps c k)) = Inr ctx)"

definition within_scope :: "AuthorizedProjectContext \<Rightarrow> KnowledgeRetrievalRequest \<Rightarrow> bool" where
  "within_scope ctx r \<longleftrightarrow>
     rq_project_id r = cx_project_code ctx \<and>
     rq_document_version_ids r \<noteq> [] \<and> set (rq_document_version_ids r) \<subseteq> set (allowed_versions ctx) \<and>
     rq_knowledge_space_ids r \<noteq> [] \<and> set (rq_knowledge_space_ids r) \<subseteq> set (cx_knowledge_space_ids ctx)"

lemma constrain_within:
  assumes "constrain_retrieval request ctx = Inr (Some r)"
  shows "within_scope ctx r"
proof -
  have "r = \<lparr>rq_project_id = cx_project_code ctx, rq_query = rq_query request, rq_limit = rq_limit request,
       rq_document_version_ids = restrict_to (allowed_versions ctx) (rq_document_version_ids request),
       rq_knowledge_space_ids = restrict_to (cx_knowledge_space_ids ctx) (rq_knowledge_space_ids request)\<rparr>"
    "restrict_to (allowed_versions ctx) (rq_document_version_ids request) \<noteq> []"
    "restrict_to (cx_knowledge_space_ids ctx) (rq_knowledge_space_ids request) \<noteq> []"
    using assms by (auto simp: constrain_retrieval_def Let_def split: if_splits)
  then show ?thesis by (auto simp: within_scope_def restrict_to_def)
qed

definition base :: "qa_case \<Rightarrow> qa_db \<Rightarrow> bool" where
  "base c s \<longleftrightarrow> snapshots_have_bundles s \<and>
     (\<exists>rs. qb_requests s = qb_requests (qc_start c) @ rs \<and>
        (\<forall>r\<in>set rs. \<exists>ctx. authorized_ctx c ctx \<and> within_scope ctx r))"

definition own :: "qa_case \<Rightarrow> AgentState \<Rightarrow> bool" where
  "own c st \<longleftrightarrow> st_run_id st = uuid_str (rr_id (qc_run c)) \<and> st_user_id st = uuid_str (rr_user_id (qc_run c))"

definition in_project :: "qa_case \<Rightarrow> AgentState \<Rightarrow> bool" where
  "in_project c st \<longleftrightarrow> st_project_id st = Some (uuid_str (rr_project_id (qc_run c)))"

definition has_scope :: "qa_case \<Rightarrow> AgentState \<Rightarrow> qa_db \<Rightarrow> bool" where
  "has_scope c st s \<longleftrightarrow>
     (\<exists>a ctx. st_access_scope_id st = Some (uuid_str a) \<and> authorized_ctx c ctx \<and>
        load_artifact a (qb_runs s) = Inr (serialize_authorized_context ctx))"

text \<open>The governed bundle holds a pack that some step of the run made for the project.\<close>

definition packed :: "qa_case \<Rightarrow> nat \<Rightarrow> string \<Rightarrow> KnowledgeChunk list \<Rightarrow> GovernedEvidencePack \<Rightarrow> bool" where
  "packed c k code chunks pk \<longleftrightarrow>
     pack 8 (qd_today (qc_deps c k)) (rr_project_id (qc_run c)) code chunks (qd_docs (qc_deps c k)) = Inr pk"

definition has_evidence :: "qa_case \<Rightarrow> AgentState \<Rightarrow> qa_db \<Rightarrow> bool" where
  "has_evidence c st s \<longleftrightarrow>
     (\<exists>b k code chunks pk. st_evidence_bundle_id st = Some (uuid_str b) \<and> packed c k code chunks pk \<and>
        holds_pack (qd_sha (qc_deps c k)) (rr_project_id (qc_run c)) b pk s)"

definition qa_inv :: "qa_case \<Rightarrow> qa_node \<Rightarrow> AgentState \<Rightarrow> qa_db \<Rightarrow> bool" where
  "qa_inv c node st s \<longleftrightarrow> base c s \<and> own c st \<and>
     (node \<notin> {REFUSE, CLARIFY_PROJECT} \<longrightarrow> in_project c st) \<and>
     (node \<in> {RESOLVE_IDENTIFIERS, RETRIEVE, GRADE_RETRIEVAL, GOVERN_EVIDENCE} \<longrightarrow> has_scope c st s) \<and>
     (node \<in> {GENERATE_ANSWER, CITATION_GUARD, REVISE_ANSWER} \<longrightarrow> has_evidence c st s)"

lemma stable_base: "stable (base c)"
  by (auto simp: stable_def base_def extends_def snapshots_have_bundles_def)

lemma stable_scope: "stable (has_scope c st)"
  unfolding stable_def has_scope_def extends_def by blast

lemma holds_pack_cong: "qb_snapshots s' = qb_snapshots s \<Longrightarrow> holds_pack sha p b pk s' = holds_pack sha p b pk s"
  by (simp add: holds_pack_def bundle_rows_def)

lemma stable_evidence: "stable (has_evidence c st)"
  unfolding stable_def has_evidence_def extends_def using holds_pack_cong by blast

lemmas stable_rules = stable_conj stable_base stable_scope stable_evidence stable_const

section \<open>Steps that only add artifacts\<close>

text \<open>What a step owes: the invariant of the next node, or the end of the run.\<close>

definition step_ok ::
  "(AgentState \<Rightarrow> qa_db \<Rightarrow> bool) \<Rightarrow> qa_case \<Rightarrow> qa_node \<Rightarrow> AgentState \<Rightarrow> qa_db \<Rightarrow> bool" where
  "step_ok final c node st s \<longleftrightarrow>
     (case qa_next node st of
        Some n \<Rightarrow> qa_inv c n st s
      | None \<Rightarrow> base c s \<and> (st_route st = Some ''answered'' \<longrightarrow> final st s))"

lemma triple_adds:
  assumes "adds_artifacts m" and "stable I" and "returns m Q"
    and "\<And>x s. I s \<Longrightarrow> Q x \<Longrightarrow> R x s" and "\<And>s. I s \<Longrightarrow> E s"
  shows "triple I m R E"
proof (rule tripleI)
  fix s s' x assume "I s" "m s = (Inr x, s')"
  then show "R x s'"
    using triple_Inr [OF keeps_adds [OF assms(1,2)]] returnsD [OF assms(3)] assms(4) by blast
qed (use triple_Inl [OF keeps_adds [OF assms(1,2)]] assms(5) in blast)

definition same_refs :: "AgentState \<Rightarrow> AgentState \<Rightarrow> bool" where
  "same_refs st st' \<longleftrightarrow> st_run_id st' = st_run_id st \<and> st_user_id st' = st_user_id st \<and>
     st_project_id st' = st_project_id st \<and> st_access_scope_id st' = st_access_scope_id st \<and>
     st_evidence_bundle_id st' = st_evidence_bundle_id st"

lemma same_refs_inv:
  assumes "same_refs st st'"
  shows "own c st' = own c st" "in_project c st' = in_project c st" "has_scope c st' s = has_scope c st s"
    "has_evidence c st' s = has_evidence c st s"
  using assms by (simp_all add: same_refs_def own_def in_project_def has_scope_def has_evidence_def)

lemma step_load_prompt:
  "triple (qa_inv c LOAD_PROMPT st) (load_prompt_snapshot_node d st) (step_ok final c LOAD_PROMPT) (base c)"
proof (rule triple_pre, rule triple_adds)
  show "adds_artifacts (load_prompt_snapshot_node d st)"
    unfolding load_prompt_snapshot_node_def by (intro adds_rules)
  show "stable (\<lambda>s. base c s \<and> own c st \<and> in_project c st)" by (intro stable_rules)
  show "returns (load_prompt_snapshot_node d st) (same_refs st)"
    unfolding load_prompt_snapshot_node_def by (intro returns_rules) (simp add: same_refs_def)
qed (auto simp: step_ok_def qa_inv_def same_refs_inv)

lemma step_analyze:
  "triple (qa_inv c ANALYZE_QUERY st) (analyze_query_node d st) (step_ok final c ANALYZE_QUERY) (base c)"
proof (rule triple_pre, rule triple_adds)
  show "adds_artifacts (analyze_query_node d st)"
    unfolding analyze_query_node_def by (intro adds_rules)
  show "stable (\<lambda>s. base c s \<and> own c st \<and> in_project c st)" by (intro stable_rules)
  show "returns (analyze_query_node d st) (same_refs st)"
    unfolding analyze_query_node_def by (intro returns_rules) (simp add: same_refs_def)
qed (auto simp: step_ok_def qa_inv_def same_refs_inv)

lemma bind_of_res_Inr_iff:
  "bind_op (of_res r) f s = (Inr y, t) \<longleftrightarrow> (\<exists>x. r = Inr x \<and> f x s = (Inr y, t))"
  by (cases r) simp_all

lemma uuid_str_nonempty: "uuid_str u \<noteq> []"
  by (simp add: uuid_str_def Let_def)

lemma select_project_requested:
  assumes "select_project now user codes (Some p) db = Inr sel"
  shows "se_selected_project_id sel = Some p \<or> se_route sel \<in> {''refusal'', ''clarification''}"
  using assms
  by (auto simp: select_project_def bind_res_Inr_iff select_among_def selection_def Let_def
      split: option.splits if_splits)

lemma step_select:
  "triple (qa_inv c SELECT_PROJECT st) (select_project_node d st) (step_ok final c SELECT_PROJECT) (base c)"
proof (rule triple_pre)
  let ?I = "\<lambda>s. base c s \<and> own c st \<and> in_project c st"
  let ?Q = "\<lambda>st'. own c st \<and> in_project c st \<longrightarrow> own c st' \<and>
    (in_project c st' \<or> st_route st' \<in> {Some ''refusal'', Some ''clarification''})"
  show "triple ?I (select_project_node d st) (step_ok final c SELECT_PROJECT) (base c)"
  proof (rule triple_adds)
    show "adds_artifacts (select_project_node d st)"
      unfolding select_project_node_def by (intro adds_rules)
    show "stable ?I" by (intro stable_rules)
    show "returns (select_project_node d st) ?Q"
      unfolding returns_def
    proof (intro allI impI)
      fix s st' s' assume r: "select_project_node d st s = (Inr st', s')" and o: "own c st \<and> in_project c st"
      then show "own c st' \<and> (in_project c st' \<or> st_route st' \<in> {Some ''refusal'', Some ''clarification''})"
        using uuid_str_nonempty
        by (auto simp: select_project_node_def bind_of_res_Inr_iff bind_op_Inr_iff own_def in_project_def
            dest!: select_project_requested)
    qed
  qed (auto simp: step_ok_def qa_inv_def after_project_selection_def)
qed (auto simp: qa_inv_def)

lemma step_identifiers:
  "triple (qa_inv c RESOLVE_IDENTIFIERS st) (resolve_identifiers_node d st)
     (step_ok final c RESOLVE_IDENTIFIERS) (base c)"
proof (rule triple_pre, rule triple_adds)
  show "adds_artifacts (resolve_identifiers_node d st)"
    unfolding resolve_identifiers_node_def by (intro adds_rules)
  show "stable (\<lambda>s. base c s \<and> own c st \<and> in_project c st \<and> has_scope c st s)" by (intro stable_rules)
  show "returns (resolve_identifiers_node d st) (same_refs st)"
    unfolding resolve_identifiers_node_def by (intro returns_rules) (simp add: same_refs_def)
qed (auto simp: step_ok_def qa_inv_def same_refs_inv)

lemma adds_case_pair:
  "adds_artifacts m \<Longrightarrow> (\<And>x. adds_artifacts (n x)) \<Longrightarrow>
   adds_artifacts (case (b, v) of (True, Some x) \<Rightarrow> n x | _ \<Rightarrow> m)"
  by (auto split: bool.split option.split)

lemma step_grade:
  "triple (qa_inv c GRADE_RETRIEVAL st) (grade_retrieval_node d st) (step_ok final c GRADE_RETRIEVAL) (base c)"
proof (rule triple_pre, rule triple_adds)
  show "adds_artifacts (grade_retrieval_node d st)"
    unfolding grade_retrieval_node_def by (intro adds_rules adds_case_pair)
  show "stable (\<lambda>s. base c s \<and> own c st \<and> in_project c st \<and> has_scope c st s)" by (intro stable_rules)
  show "returns (grade_retrieval_node d st) (same_refs st)"
    by (rule returns_grade) (simp_all add: same_refs_def)
qed (auto simp: step_ok_def qa_inv_def same_refs_inv after_retrieval_grade_def)

lemma step_generate:
  "triple (qa_inv c GENERATE_ANSWER st) (generate_answer_node d st) (step_ok final c GENERATE_ANSWER) (base c)"
proof (rule triple_pre, rule triple_adds)
  show "adds_artifacts (generate_answer_node d st)"
    unfolding generate_answer_node_def by (intro adds_rules)
  show "stable (\<lambda>s. base c s \<and> own c st \<and> in_project c st \<and> has_evidence c st s)" by (intro stable_rules)
  show "returns (generate_answer_node d st) (same_refs st)"
    unfolding generate_answer_node_def by (intro returns_rules) (simp add: same_refs_def)
qed (auto simp: step_ok_def qa_inv_def same_refs_inv)

lemma step_revise:
  "triple (qa_inv c REVISE_ANSWER st) (revise_answer_node d st) (step_ok final c REVISE_ANSWER) (base c)"
proof (rule triple_pre, rule triple_adds)
  show "adds_artifacts (revise_answer_node d st)"
    unfolding revise_answer_node_def by (intro adds_rules)
  show "stable (\<lambda>s. base c s \<and> own c st \<and> in_project c st \<and> has_evidence c st s)" by (intro stable_rules)
  show "returns (revise_answer_node d st) (same_refs st)"
    unfolding revise_answer_node_def by (intro returns_rules) (simp_all add: same_refs_def)
qed (auto simp: step_ok_def qa_inv_def same_refs_inv)

section \<open>The scope of the run\<close>

lemma own_ids:
  "own c st \<Longrightarrow> UUID (st_run_id st) = Inr (rr_id (qc_run c))"
  "own c st \<Longrightarrow> UUID (st_user_id st) = Inr (rr_user_id (qc_run c))"
  "in_project c st \<Longrightarrow> need_project st = Inr (rr_project_id (qc_run c))"
  by (simp_all add: own_def in_project_def need_project_def)

lemma step_scope:
  "triple (qa_inv c RESOLVE_SCOPE st) (resolve_scope_node (qc_deps c k) st) (step_ok final c RESOLVE_SCOPE) (base c)"
proof (rule tripleI)
  have adds: "adds_artifacts (resolve_scope_node (qc_deps c k) st)"
    unfolding resolve_scope_node_def by (intro adds_rules)
  {
    fix s s' e assume "qa_inv c RESOLVE_SCOPE st s" "resolve_scope_node (qc_deps c k) st s = (Inl e, s')"
    then show "base c s'"
      using triple_Inl [OF keeps_adds [OF adds stable_base]] by (auto simp: qa_inv_def)
  next
    fix s s' x assume i: "qa_inv c RESOLVE_SCOPE st s" and r: "resolve_scope_node (qc_deps c k) st s = (Inr x, s')"
    then have o: "own c st" "in_project c st" and b: "base c s'"
      using triple_Inr [OF keeps_adds [OF adds stable_base]] by (auto simp: qa_inv_def)
    obtain ctx a where "authorize_project (qd_pick (qc_deps c k)) (qd_now (qc_deps c k)) (rr_user_id (qc_run c))
        (rr_project_id (qc_run c)) (qd_docs (qc_deps c k)) = Inr ctx"
      "qa_save_artifact (rr_id (qc_run c)) ''PROJECT_ACCESS_SCOPE'' (serialize_authorized_context ctx) s = (Inr a, s')"
      "x = st\<lparr>st_access_scope_id := Some (uuid_str a)\<rparr>"
      using r o by (auto simp: resolve_scope_node_def own_ids bind_of_res_Inr_iff bind_op_Inr_iff split: if_splits)
    then show "step_ok final c RESOLVE_SCOPE x s'"
      using b o save_then_load
      by (auto simp: step_ok_def qa_inv_def has_scope_def own_def in_project_def authorized_ctx_def)
  }
qed

text \<open>The context that a later node reads is the one the scope node stored.\<close>

lemma load_context:
  assumes "has_scope c st s" and "load_context_of st s = (Inr ctx, s')"
  shows "s' = s \<and> authorized_ctx c ctx"
  using assms
  by (auto simp: has_scope_def load_context_of_def need_def bind_op_Inr_iff qa_load_artifact_def read_runs_def
      deserialize_serialize)

section \<open>Retrieval and governance\<close>

lemma inserted_bundles:
  assumes "inserted (\<lambda>row. es_bundle_id row = b) s s'" and "b \<in> eb_id ` set (qb_bundles s)"
  shows "qb_runs s' = qb_runs s" "qb_requests s' = qb_requests s" "qb_answers s' = qb_answers s"
    "snapshots_have_bundles s \<Longrightarrow> snapshots_have_bundles s'"
proof -
  obtain n rows where s': "s' = s\<lparr>qb_next := n, qb_snapshots := qb_snapshots s @ rows\<rparr>"
      "\<forall>row\<in>set rows. es_bundle_id row = b"
    using assms(1) unfolding inserted_def by blast
  then show "qb_runs s' = qb_runs s" "qb_requests s' = qb_requests s" "qb_answers s' = qb_answers s"
    by simp_all
  show "snapshots_have_bundles s'" if "snapshots_have_bundles s"
    using that assms(2) s' unfolding snapshots_have_bundles_def by (simp add: image_Un image_subset_iff)
qed

lemma inserted_mono: "inserted P s s' \<Longrightarrow> (\<And>row. P row \<Longrightarrow> Q row) \<Longrightarrow> inserted Q s s'"
  unfolding inserted_def by blast

definition evidence_added :: "qa_db \<Rightarrow> qa_db \<Rightarrow> bool" where
  "evidence_added s s' \<longleftrightarrow> qb_runs s' = qb_runs s \<and> qb_requests s' = qb_requests s \<and>
     (snapshots_have_bundles s \<longrightarrow> snapshots_have_bundles s')"

lemma new_bundle_then:
  assumes "\<And>b. moves (inserted (\<lambda>row. es_bundle_id row = b)) (body b)"
  shows "moves evidence_added (bind_op (new_bundle run_id q) body)"
  unfolding moves_def
proof
  fix s
  show "evidence_added s (snd (bind_op (new_bundle run_id q) body s))"
  proof (cases "new_bundle run_id q s")
    case (Pair r s1)
    show ?thesis
    proof (cases r)
      case (Inl e)
      with Pair show ?thesis
        using new_bundle_Inl by (fastforce simp: bind_op_def evidence_added_def snapshots_have_bundles_def)
    next
      case (Inr b)
      with Pair have s1: "s1 = s\<lparr>qb_next := Suc (qb_next s),
            qb_bundles := qb_bundles s @ [\<lparr>eb_id = b, eb_run_id = run_id, eb_query_text = q\<rparr>]\<rparr>"
        using new_bundle_Inr(2) by blast
      then have "b \<in> eb_id ` set (qb_bundles s1)" by simp
      moreover have "inserted (\<lambda>row. es_bundle_id row = b) s1 (snd (body b s1))"
        using assms by (simp add: moves_def)
      ultimately show ?thesis
        using inserted_bundles [of b s1 "snd (body b s1)"] Pair Inr s1
        by (auto simp: bind_op_def evidence_added_def snapshots_have_bundles_def)
    qed
  qed
qed

lemma evidence_bundle_added: "moves evidence_added (save_evidence_bundle run_id p q chunks n)"
proof (cases "n < 1")
  case True
  then show ?thesis by (simp add: save_evidence_bundle_def moves_basic evidence_added_def)
next
  case False
  have "moves (inserted (\<lambda>row. es_bundle_id row = b)) (save_candidate b p n x)" for b x
    using inserts_candidate [of b p n x] unfolding moves_def by (blast intro: inserted_mono)
  then have "moves (inserted (\<lambda>row. es_bundle_id row = b))
      (bind_op (if chunks = [] then save_round_marker b p n else return_op ()) (\<lambda>_.
       bind_op (for_each (List.enumerate 1 chunks) (save_candidate b p n)) (\<lambda>_. return_op b)))" for b
    using inserts_marker [of b p n] by (auto intro!: inserts_rules inserts_for_each)
  then show ?thesis
    unfolding save_evidence_bundle_def using False by (simp only: if_False) (rule new_bundle_then)
qed

lemma governed_bundle_added: "moves evidence_added (save_governed_evidence_bundle sha run_id p q pk)"
  unfolding save_governed_evidence_bundle_def
  by (rule new_bundle_then) (auto intro!: inserts_rules inserts_for_each inserts_governed)

lemma evidence_added_base: "evidence_added s s' \<Longrightarrow> base c s \<Longrightarrow> base c s'"
  by (auto simp: evidence_added_def base_def)

lemma evidence_added_scope: "evidence_added s s' \<Longrightarrow> has_scope c st s \<Longrightarrow> has_scope c st s'"
  by (auto simp: evidence_added_def has_scope_def)

text \<open>The assertion while a node with a scope works.\<close>

definition scoped :: "qa_case \<Rightarrow> AgentState \<Rightarrow> qa_db \<Rightarrow> bool" where
  "scoped c st s \<longleftrightarrow> base c s \<and> has_scope c st s"

lemma stable_scoped: "stable (scoped c st)"
  unfolding scoped_def by (intro stable_rules)

lemma scoped_base: "scoped c st s \<Longrightarrow> base c s"
  by (simp add: scoped_def)

lemma triple_scoped_adds: "adds_artifacts m \<Longrightarrow> triple (scoped c st) m (\<lambda>_. scoped c st) (base c)"
  by (rule triple_post [OF keeps_adds]) (auto simp: stable_scoped scoped_base)

lemma triple_scoped_context:
  "triple (scoped c st) (load_context_of st) (\<lambda>ctx s. scoped c st s \<and> authorized_ctx c ctx) (base c)"
proof (rule tripleI)
  fix s s' ctx assume "scoped c st s" "load_context_of st s = (Inr ctx, s')"
  then show "scoped c st s' \<and> authorized_ctx c ctx" using load_context [of c st s ctx s'] by (auto simp: scoped_def)
qed (use triple_Inl [OF triple_scoped_adds [OF adds_load_of(2)]] in blast)

lemma triple_scoped_added:
  assumes "moves evidence_added m"
  shows "triple (scoped c st) m (\<lambda>_. scoped c st) (base c)"
  by (rule tripleI)
    (use moves_step [OF assms] evidence_added_base evidence_added_scope in \<open>unfold scoped_def, blast+\<close>)

lemma triple_ask:
  assumes "authorized_ctx c ctx" and "within_scope ctx request"
  shows "triple (scoped c st) (ask_provider d request) (\<lambda>_. scoped c st) (base c)"
proof -
  have ask: "scoped c st (s\<lparr>qb_requests := qb_requests s @ [request]\<rparr>)" if "scoped c st s" for s
  proof -
    from that obtain rs where "qb_requests s = qb_requests (qc_start c) @ rs"
        "\<forall>r\<in>set rs. \<exists>ctx. authorized_ctx c ctx \<and> within_scope ctx r"
      unfolding scoped_def base_def by auto
    then have "\<exists>rs'. qb_requests s @ [request] = qb_requests (qc_start c) @ rs' \<and>
        (\<forall>r\<in>set rs'. \<exists>ctx. authorized_ctx c ctx \<and> within_scope ctx r)"
      using assms by (intro exI [of _ "rs @ [request]"]) auto
    then show ?thesis using that by (simp add: scoped_def base_def snapshots_have_bundles_def has_scope_def)
  qed
  show ?thesis by (rule tripleI) (auto simp: ask_provider_def intro: ask scoped_base [OF ask])
qed

lemma triple_of_res_eq:
  "(\<And>s. P s \<Longrightarrow> E s) \<Longrightarrow> triple P (of_res r) (\<lambda>x s. P s \<and> r = Inr x) E"
  by (rule triple_of_res) auto

lemma step_okI_refuse:
  "base c s \<Longrightarrow> own c st \<Longrightarrow> qa_next node st = Some REFUSE \<Longrightarrow> step_ok final c node st s"
  by (simp add: step_ok_def qa_inv_def)

lemma step_retrieve:
  "triple (qa_inv c RETRIEVE st) (retrieve_node d st) (step_ok final c RETRIEVE) (base c)"
proof (rule triple_pre)
  show "triple (\<lambda>s. scoped c st s \<and> (own c st \<and> in_project c st)) (retrieve_node d st)
      (step_ok final c RETRIEVE) (base c)"
  proof (rule triple_fact, elim conjE)
    assume o: "own c st" "in_project c st"
    let ?n = "counter (st_retrieval_round st)"
    let ?p = "rr_project_id (qc_run c)"
    let ?run = "rr_id (qc_run c)"
    have refuse: "scoped c st s \<Longrightarrow> step_ok final c RETRIEVE
        (st\<lparr>st_route := Some ''refusal'', st_last_error_code := e\<rparr>) s"
      "scoped c st s \<Longrightarrow> step_ok final c RETRIEVE (st\<lparr>st_evidence_bundle_id := b, st_route := Some ''refusal'',
         st_last_error_code := e\<rparr>) s" for s e b
      using o by (auto intro!: step_okI_refuse simp: scoped_base own_def after_retrieval_def)
    have again: "scoped c st s \<Longrightarrow> step_ok final c RETRIEVE (st\<lparr>st_evidence_bundle_id := b,
         st_retrieval_round := n, st_route := Some ''grade_retrieval'', st_last_error_code := None\<rparr>) s" for s b n
      using o by (auto simp: step_ok_def qa_inv_def scoped_def own_def in_project_def has_scope_def
          after_retrieval_def)
    have asked: "triple (scoped c st) (bind_op (increment_retrieval_rounds ?run) (\<lambda>_.
          bind_op (ask_provider d request) (\<lambda>found.
          bind_op (save_evidence_bundle ?run ?p q (postfilter_evidence found ctx) (?n + 1)) (\<lambda>bundle_id.
            return_op (st\<lparr>st_evidence_bundle_id := Some (uuid_str bundle_id),
              st_retrieval_round := Some (?n + 1), st_route := Some ''grade_retrieval'',
              st_last_error_code := None\<rparr>))))) (step_ok final c RETRIEVE) (base c)"
      if "authorized_ctx c ctx" "within_scope ctx request" for ctx request q
      by (rule triple_bind [OF triple_scoped_adds [OF adds_rounds]], rule triple_bind [OF triple_ask [OF that]],
          rule triple_bind [OF triple_scoped_added [OF evidence_bundle_added]], rule triple_return, rule again)
    have none: "triple (scoped c st) (bind_op (save_evidence_bundle ?run ?p q [] (?n + 1)) (\<lambda>bundle_id.
            return_op (st\<lparr>st_evidence_bundle_id := Some (uuid_str bundle_id), st_route := Some ''refusal'',
              st_last_error_code := Some ''NO_AUTHORIZED_EVIDENCE''\<rparr>))) (step_ok final c RETRIEVE) (base c)" for q
      by (rule triple_bind [OF triple_scoped_added [OF evidence_bundle_added]], rule triple_return, rule refuse(2))
    show "triple (scoped c st) (retrieve_node d st) (step_ok final c RETRIEVE) (base c)"
      unfolding retrieve_node_def own_ids(1) [OF o(1)] own_ids(3) [OF o(2)] bind_op_basic(3) Let_def
    proof (rule triple_if, rule triple_return, rule refuse(1), assumption)
      show "triple (scoped c st) (bind_op (load_context_of st) (\<lambda>ctx. bind_op (load_plan_of st) (\<lambda>plan.
          bind_op (of_res (constrain_retrieval (retrieval_request ctx plan) ctx)) (\<lambda>constrained. case constrained of
            None \<Rightarrow> bind_op (save_evidence_bundle ?run ?p (rp_original_query plan) [] (?n + 1)) (\<lambda>bundle_id.
              return_op (st\<lparr>st_evidence_bundle_id := Some (uuid_str bundle_id), st_route := Some ''refusal'',
              st_last_error_code := Some ''NO_AUTHORIZED_EVIDENCE''\<rparr>))
          | Some request \<Rightarrow> bind_op (increment_retrieval_rounds ?run) (\<lambda>_.
              bind_op (ask_provider d request) (\<lambda>found.
              bind_op (save_evidence_bundle ?run ?p (rp_original_query plan) (postfilter_evidence found ctx) (?n + 1))
                (\<lambda>bundle_id. return_op (st\<lparr>st_evidence_bundle_id := Some (uuid_str bundle_id),
                  st_retrieval_round := Some (?n + 1), st_route := Some ''grade_retrieval'',
                  st_last_error_code := None\<rparr>)))))))) (step_ok final c RETRIEVE) (base c)"
      proof (rule triple_bind [OF triple_scoped_context], rule triple_fact,
          rule triple_bind [OF triple_scoped_adds [OF adds_load_of(3)]],
          rule triple_bind [OF triple_of_res_eq [OF scoped_base]], assumption, rule triple_fact)
        fix ctx plan constrained
        assume "authorized_ctx c ctx" "constrain_retrieval (retrieval_request ctx plan) ctx = Inr constrained"
        then show "triple (scoped c st) (case constrained of
            None \<Rightarrow> bind_op (save_evidence_bundle ?run ?p (rp_original_query plan) [] (?n + 1)) (\<lambda>bundle_id.
              return_op (st\<lparr>st_evidence_bundle_id := Some (uuid_str bundle_id), st_route := Some ''refusal'',
              st_last_error_code := Some ''NO_AUTHORIZED_EVIDENCE''\<rparr>))
          | Some request \<Rightarrow> bind_op (increment_retrieval_rounds ?run) (\<lambda>_.
              bind_op (ask_provider d request) (\<lambda>found.
              bind_op (save_evidence_bundle ?run ?p (rp_original_query plan) (postfilter_evidence found ctx) (?n + 1))
                (\<lambda>bundle_id. return_op (st\<lparr>st_evidence_bundle_id := Some (uuid_str bundle_id),
                  st_retrieval_round := Some (?n + 1), st_route := Some ''grade_retrieval'',
                  st_last_error_code := None\<rparr>))))) (step_ok final c RETRIEVE) (base c)"
          using none asked constrain_within by (cases constrained) auto
      qed
    qed
  qed
qed (auto simp: qa_inv_def scoped_def)

end
