(* ===== verification/QAAnswers.thy ===== *)
theory QAAnswers
  imports QASafety Citation
begin

text \<open>
  The second half of the invariant of a question-answering run: governance stores the pack it made, the
  citation guard stores an answer only for a grounded draft, with exactly its citations; and the theorems
  about whole runs.
\<close>

section \<open>Governance\<close>

lemma triple_save_pack:
  "triple (scoped c st) (save_governed_evidence_bundle sha run_id p q pk)
     (\<lambda>b s. base c s \<and> holds_pack sha p b pk s) (base c)"
proof (rule tripleI)
  fix s s' b assume i: "scoped c st s" and r: "save_governed_evidence_bundle sha run_id p q pk s = (Inr b, s')"
  then have "base c s'" using moves_step [OF governed_bundle_added r] evidence_added_base scoped_base by blast
  moreover have "snapshots_have_bundles s" using i by (simp add: scoped_def base_def)
  ultimately show "base c s' \<and> holds_pack sha p b pk s'" using save_pack [OF r] by blast
qed (use triple_Inl [OF triple_scoped_added [OF governed_bundle_added]] in blast)

lemma step_govern:
  "triple (qa_inv c GOVERN_EVIDENCE st) (govern_evidence_node (qc_deps c k) st)
     (step_ok final c GOVERN_EVIDENCE) (base c)"
proof (rule triple_pre)
  let ?d = "qc_deps c k"
  let ?p = "rr_project_id (qc_run c)"
  show "triple (\<lambda>s. scoped c st s \<and> (own c st \<and> in_project c st)) (govern_evidence_node ?d st)
      (step_ok final c GOVERN_EVIDENCE) (base c)"
  proof (rule triple_fact, elim conjE)
    assume o: "own c st" "in_project c st"
    have refuse: "scoped c st s \<Longrightarrow> step_ok final c GOVERN_EVIDENCE
        (st\<lparr>st_route := Some ''refusal'', st_last_error_code := e\<rparr>) s" for s e
      using o by (auto intro!: step_okI_refuse simp: scoped_base own_def after_governance_def)
    have governed: "triple (scoped c st) (if gp_evidence pk = []
        then return_op (st\<lparr>st_route := Some ''refusal'', st_last_error_code := Some ''NO_GOVERNED_EVIDENCE''\<rparr>)
        else bind_op (save_governed_evidence_bundle (qd_sha ?d) (rr_id (qc_run c)) ?p query pk) (\<lambda>bundle_id.
          return_op (st\<lparr>st_evidence_bundle_id := Some (uuid_str bundle_id),
            st_route := Some ''generate_answer'', st_last_error_code := None\<rparr>)))
        (step_ok final c GOVERN_EVIDENCE) (base c)"
      if "packed c k code chunks pk" for code chunks pk query
    proof (rule triple_if, rule triple_return, rule refuse, assumption, rule triple_bind [OF triple_save_pack],
        rule triple_return)
      fix b s assume "base c s \<and> holds_pack (qd_sha ?d) ?p b pk s"
      then show "step_ok final c GOVERN_EVIDENCE (st\<lparr>st_evidence_bundle_id := Some (uuid_str b),
            st_route := Some ''generate_answer'', st_last_error_code := None\<rparr>) s"
        using that o
        by (auto simp: step_ok_def qa_inv_def after_governance_def has_evidence_def own_def in_project_def)
    qed
    show "triple (scoped c st) (govern_evidence_node ?d st) (step_ok final c GOVERN_EVIDENCE) (base c)"
      unfolding govern_evidence_node_def own_ids(1) [OF o(1)] own_ids(3) [OF o(2)] bind_op_basic(3)
    proof (rule triple_bind [OF triple_scoped_adds [OF adds_basic(3)]],
        rule triple_bind [OF triple_scoped_adds [OF adds_load_of(2)]],
        rule triple_bind [OF triple_scoped_adds [OF adds_load(2)]],
        rule triple_bind [OF triple_scoped_adds [OF adds_load_evidence(1)]],
        rule triple_bind [OF triple_of_res_eq [OF scoped_base]], assumption, rule triple_fact)
      fix ctx query chunks pk
      assume "pack 8 (qd_today ?d) ?p (cx_project_code ctx) chunks (qd_docs ?d) = Inr pk"
      then show "triple (scoped c st) (if gp_evidence pk = []
        then return_op (st\<lparr>st_route := Some ''refusal'', st_last_error_code := Some ''NO_GOVERNED_EVIDENCE''\<rparr>)
        else bind_op (save_governed_evidence_bundle (qd_sha ?d) (rr_id (qc_run c)) ?p query pk) (\<lambda>bundle_id.
          return_op (st\<lparr>st_evidence_bundle_id := Some (uuid_str bundle_id),
            st_route := Some ''generate_answer'', st_last_error_code := None\<rparr>)))
        (step_ok final c GOVERN_EVIDENCE) (base c)"
        by (intro governed) (simp add: packed_def)
    qed
  qed
qed (auto simp: qa_inv_def scoped_def)

section \<open>Answers\<close>

text \<open>Operations on answers and citations leave the evidence and the requests alone.\<close>

definition same_evidence :: "qa_db \<Rightarrow> qa_db \<Rightarrow> bool" where
  "same_evidence s s' \<longleftrightarrow> qb_bundles s' = qb_bundles s \<and> qb_snapshots s' = qb_snapshots s \<and>
     qb_requests s' = qb_requests s"

lemma same_evidence_refl: "same_evidence s s"
  by (simp add: same_evidence_def)

lemma same_evidence_trans: "same_evidence s t \<Longrightarrow> same_evidence t u \<Longrightarrow> same_evidence s u"
  by (simp add: same_evidence_def)

lemma adds_same: "adds_artifacts m \<Longrightarrow> moves same_evidence m"
  by (simp add: moves_def extends_def same_evidence_def)

lemma same_for_each:
  assumes "\<And>x. moves same_evidence (body x)"
  shows "moves same_evidence (for_each xs body)"
  using assms
  by (induction xs) (auto intro: moves_bind [OF same_evidence_trans] moves_basic same_evidence_refl)

lemma same_modify: "(\<And>s. same_evidence s (f s)) \<Longrightarrow> moves same_evidence (modify_op f)"
  by (simp add: moves_def)

lemma same_updates:
  "same_evidence s (s\<lparr>qb_answers := x\<rparr>)" "same_evidence s (s\<lparr>qb_citations := y\<rparr>)"
  by (simp_all add: same_evidence_def)

lemmas same_bind = moves_bind [OF same_evidence_trans]
lemmas same_basic = moves_basic [of same_evidence, OF same_evidence_refl]

lemma same_inserts: "moves same_evidence (insert_answer a)" "moves same_evidence (insert_citation x)"
  by (simp_all add: moves_def insert_answer_def insert_citation_def same_evidence_refl same_updates)

lemma same_if: "moves same_evidence m \<Longrightarrow> moves same_evidence n \<Longrightarrow> moves same_evidence (if b then m else n)"
  by simp

lemma same_case_list:
  "moves same_evidence m \<Longrightarrow> (\<And>x. moves same_evidence (n x)) \<Longrightarrow> moves same_evidence k \<Longrightarrow>
   moves same_evidence (case xs of [] \<Rightarrow> m | [x] \<Rightarrow> n x | _ \<Rightarrow> k)"
  by (simp split: list.split)

lemma same_save_answer: "moves same_evidence (save_answer run_id t r)"
  unfolding save_answer_def
  by (intro same_bind same_basic same_case_list same_inserts same_modify same_updates adds_same [OF adds_uuid4])

lemma same_grounded_answer: "moves same_evidence (save_grounded_answer run_id t cs)"
  unfolding save_grounded_answer_def save_citation_def
  by (intro same_bind same_basic same_save_answer same_modify same_updates same_for_each same_inserts
      adds_same [OF adds_uuid4])

lemma same_evidence_base: "same_evidence s s' \<Longrightarrow> base c s \<Longrightarrow> base c s'"
  by (simp add: same_evidence_def base_def snapshots_have_bundles_def)

lemma same_evidence_has: "same_evidence s s' \<Longrightarrow> has_evidence c st s \<Longrightarrow> has_evidence c st s'"
  unfolding same_evidence_def has_evidence_def using holds_pack_cong by blast

lemma step_final:
  assumes "moves same_evidence m" and "returns m (\<lambda>st'. qa_next node st' = None \<and> st_route st' \<noteq> Some ''answered'')"
  shows "triple (qa_inv c node st) m (step_ok final c node) (base c)"
proof (rule tripleI)
  fix s s' e assume "qa_inv c node st s" and r: "m s = (Inl e, s')"
  then show "base c s'" using same_evidence_base [OF moves_step [OF assms(1) r]] by (simp add: qa_inv_def)
next
  fix s s' x assume "qa_inv c node st s" and r: "m s = (Inr x, s')"
  then have "base c s'" using same_evidence_base [OF moves_step [OF assms(1) r]] by (simp add: qa_inv_def)
  then show "step_ok final c node x s'" using returnsD [OF assms(2) r] by (simp add: step_ok_def)
qed

lemma step_refuse: "triple (qa_inv c REFUSE st) (refuse_node d st) (step_ok final c REFUSE) (base c)"
proof (rule step_final)
  show "moves same_evidence (refuse_node d st)" unfolding refuse_node_def Let_def
    by (intro same_bind same_save_answer same_basic)
  show "returns (refuse_node d st) (\<lambda>st'. qa_next REFUSE st' = None \<and> st_route st' \<noteq> Some ''answered'')"
    unfolding refuse_node_def by (intro returns_rules) simp
qed

lemma step_clarify:
  "triple (qa_inv c CLARIFY_PROJECT st) (clarify_project_node d st) (step_ok final c CLARIFY_PROJECT) (base c)"
proof (rule step_final)
  show "moves same_evidence (clarify_project_node d st)" unfolding clarify_project_node_def
    by (intro same_bind same_save_answer same_basic adds_same [OF adds_load(1)])
  show "returns (clarify_project_node d st)
      (\<lambda>st'. qa_next CLARIFY_PROJECT st' = None \<and> st_route st' \<noteq> Some ''answered'')"
    unfolding clarify_project_node_def by (intro returns_rules) simp
qed

section \<open>What the guard reads\<close>

text \<open>A piece of frozen evidence is a stored piece of the pack.\<close>

definition freezes ::
  "(string \<Rightarrow> string) \<Rightarrow> uuid \<Rightarrow> qa_db \<Rightarrow> FrozenEvidence \<Rightarrow> GovernedEvidence \<Rightarrow> bool" where
  "freezes sha p s e ge \<longleftrightarrow> fe_snapshot_id e \<in> es_id ` set (qb_snapshots s) \<and>
     e = (frozen sha p (fe_snapshot_id e) ge)\<lparr>fe_effective_from := fe_effective_from e,
            fe_effective_to := fe_effective_to e\<rparr>"

lemma freezesD:
  assumes "freezes sha p s e ge"
  shows "fe_label e = ge_label ge" "fe_project_id e = p" "fe_document_version_id e = ge_document_version_id ge"
    "fe_content e = ge_content ge" "fe_snapshot_id e \<in> es_id ` set (qb_snapshots s)"
proof -
  have e: "e = (frozen sha p (fe_snapshot_id e) ge)\<lparr>fe_effective_from := fe_effective_from e,
      fe_effective_to := fe_effective_to e\<rparr>"
    using assms by (simp add: freezes_def)
  show "fe_label e = ge_label ge" by (subst e) (simp add: frozen_def)
  show "fe_project_id e = p" by (subst e) (simp add: frozen_def)
  show "fe_document_version_id e = ge_document_version_id ge" by (subst e) (simp add: frozen_def)
  show "fe_content e = ge_content ge" by (subst e) (simp add: frozen_def)
  show "fe_snapshot_id e \<in> es_id ` set (qb_snapshots s)" using assms by (simp add: freezes_def)
qed

lemma freeze_row_freezes:
  assumes "freeze_row (governed_row sha b p i item) = Inr e" and "i \<in> es_id ` set (qb_snapshots s)"
  shows "freezes sha p s e (snd item)"
proof (cases item)
  case (Pair n ge)
  with assms(1) obtain x y where "e = (frozen sha p i ge)\<lparr>fe_effective_from := x, fe_effective_to := y\<rparr>"
    unfolding freeze_governed_row by (auto simp: bind_res_Inr_iff freeze_governed_row)
  then show ?thesis using assms(2) Pair by (simp add: freezes_def frozen_def)
qed

lemma load_pack:
  assumes "holds_pack sha p b pk s" and "load_governed_evidence_bundle b s = (Inr fb, s')"
  shows "s' = s" "list_all2 (freezes sha p s) (fb_evidence fb) (gp_evidence pk)"
proof -
  let ?rows = "bundle_rows ''governed_evidence'' b s"
  have s': "s' = s" and l: "map_res freeze_row ?rows = Inr (fb_evidence fb)"
    using assms(2) by (auto simp: load_governed_evidence_bundle_def bind_res_Inr_iff)
  show "s' = s" by (rule s')
  have mem: "es_id row \<in> es_id ` set (qb_snapshots s)" if "row \<in> set ?rows" for row
    using that by (auto simp: bundle_rows_def)
  have rows: "list_all2 (\<lambda>row item. row = governed_row sha b p (es_id row) item) ?rows
      (List.enumerate 1 (gp_evidence pk))"
    using assms(1) by (simp add: holds_pack_def rows_of_def)
  have frz: "list_all2 (\<lambda>row e. freeze_row row = Inr e) ?rows (fb_evidence fb)"
    using l by (simp add: map_res_Inr_iff)
  have len: "length (fb_evidence fb) = length ?rows" "length ?rows = length (gp_evidence pk)"
    using frz rows by (auto dest: list_all2_lengthD)
  show "list_all2 (freezes sha p s) (fb_evidence fb) (gp_evidence pk)"
  proof (rule list_all2_all_nthI)
    show "length (fb_evidence fb) = length (gp_evidence pk)" using len by simp
    fix n assume n: "n < length (fb_evidence fb)"
    have r: "?rows ! n = governed_row sha b p (es_id (?rows ! n)) (List.enumerate 1 (gp_evidence pk) ! n)"
      using list_all2_nthD [OF rows] n len by simp
    have "freeze_row (?rows ! n) = Inr (fb_evidence fb ! n)"
      using list_all2_nthD [OF frz] n len by simp
    then have "freeze_row (governed_row sha b p (es_id (?rows ! n)) (List.enumerate 1 (gp_evidence pk) ! n)) =
        Inr (fb_evidence fb ! n)"
      using r by simp
    from freeze_row_freezes [OF this mem] show "freezes sha p s (fb_evidence fb ! n) (gp_evidence pk ! n)"
      using n len by (simp add: nth_enumerate_eq)
  qed
qed

section \<open>Citations\<close>

lemma citation_number_label [simp]: "citation_number (evidence_label n) = Inr (int n)"
  using str_nat_digits [of n] by (simp add: citation_number_def evidence_label_def Let_def list_all_iff)

lemma list_all2_member:
  assumes "list_all2 P xs ys"
  shows "x \<in> set xs \<Longrightarrow> \<exists>y\<in>set ys. P x y" "y \<in> set ys \<Longrightarrow> \<exists>x\<in>set xs. P x y"
  using assms by (induction rule: list_all2_induct) auto

lemma set_unique_citations:
  assumes "distinct (map cf_citation_no cs)"
  shows "set (unique_citations cs) = set cs"
proof -
  have "set (unique_citations cs) = (\<lambda>n. the (row_by cf_citation_no n cs)) ` cf_citation_no ` set cs"
    by (simp add: unique_citations_def)
  also have "\<dots> = (\<lambda>x. x) ` set cs"
    unfolding image_image using row_by_distinct [OF assms] by (intro image_cong) auto
  finally show ?thesis by simp
qed

lemma insert_all_citations:
  assumes "for_each cs (save_citation a) s = (Inr u, s')"
  shows "qb_answers s' = qb_answers s \<and> (\<exists>rows. qb_citations s' = qb_citations s @ rows \<and>
    (\<forall>r\<in>set rows. ci_answer_id r = a) \<and>
    map (\<lambda>r. (ci_citation_no r, ci_evidence_snapshot_id r)) rows =
      map (\<lambda>x. (cf_citation_no x, cf_evidence_snapshot_id x)) cs)"
  using assms
proof (induction cs arbitrary: s)
  case (Cons x cs)
  then obtain s1 where s1: "save_citation a x s = (Inr (), s1)" "for_each cs (save_citation a) s1 = (Inr u, s')"
    by (auto simp: bind_op_Inr_iff)
  then obtain r where r: "qb_citations s1 = qb_citations s @ [r]" "qb_answers s1 = qb_answers s" "ci_answer_id r = a"
      "ci_citation_no r = cf_citation_no x" "ci_evidence_snapshot_id r = cf_evidence_snapshot_id x"
    by (auto simp: save_citation_def uuid4_def insert_citation_def bind_op_Inr_iff split: if_splits)
  from Cons.IH [OF s1(2)] obtain rows where "qb_citations s' = qb_citations s1 @ rows"
      "\<forall>r\<in>set rows. ci_answer_id r = a" "qb_answers s' = qb_answers s1"
      "map (\<lambda>r. (ci_citation_no r, ci_evidence_snapshot_id r)) rows =
         map (\<lambda>x. (cf_citation_no x, cf_evidence_snapshot_id x)) cs"
    by blast
  then show ?case using r by (intro conjI exI [of _ "r # rows"]) auto
qed simp

lemma save_answer_stores:
  assumes "save_answer run_id t r s = (Inr a, s')"
  shows "\<exists>ans\<in>set (qb_answers s'). aw_id ans = a \<and> aw_run_id ans = run_id \<and> aw_answer_text ans = t \<and>
    aw_refusal_reason ans = r"
proof (cases "filter (\<lambda>x. aw_run_id x = run_id) (qb_answers s)")
  case Nil
  then show ?thesis using assms
    by (auto simp: save_answer_def uuid4_def insert_answer_def bind_op_Inr_iff split: if_splits)
next
  case (Cons row rest)
  have "row \<in> set (filter (\<lambda>x. aw_run_id x = run_id) (qb_answers s))" unfolding Cons by simp
  then have row: "row \<in> set (qb_answers s)" "aw_run_id row = run_id" by simp_all
  show ?thesis
  proof (cases rest)
    case Nil
    then have "a = aw_id row" "qb_answers s' = update_rows (\<lambda>x. aw_id x = aw_id row)
        (\<lambda>x. x\<lparr>aw_answer_text := t, aw_refusal_reason := r\<rparr>) (qb_answers s)"
      using assms Cons by (auto simp: save_answer_def bind_op_Inr_iff)
    then show ?thesis using row
      by (intro bexI [of _ "row\<lparr>aw_answer_text := t, aw_refusal_reason := r\<rparr>"]) (auto simp: update_rows_def)
  qed (use assms Cons in \<open>simp add: save_answer_def\<close>)
qed

lemma save_grounded_stores:
  assumes "save_grounded_answer run_id t cs s = (Inr a, s')"
  shows "(\<exists>ans\<in>set (qb_answers s'). aw_id ans = a \<and> aw_run_id ans = run_id \<and> aw_answer_text ans = t \<and>
      aw_refusal_reason ans = None) \<and>
    (\<lambda>c. (ci_citation_no c, ci_evidence_snapshot_id c)) ` {c \<in> set (qb_citations s'). ci_answer_id c = a} =
      (\<lambda>x. (cf_citation_no x, cf_evidence_snapshot_id x)) ` set (unique_citations cs)"
proof -
  obtain s1 where s1: "save_answer run_id t None s = (Inr a, s1)"
      "for_each (unique_citations cs) (save_citation a)
         (s1\<lparr>qb_citations := filter (\<lambda>c. ci_answer_id c \<noteq> a) (qb_citations s1)\<rparr>) = (Inr (), s')"
    using assms by (auto simp: save_grounded_answer_def bind_op_Inr_iff)
  obtain rows where rows: "qb_answers s' = qb_answers s1"
      "qb_citations s' = filter (\<lambda>c. ci_answer_id c \<noteq> a) (qb_citations s1) @ rows"
      "\<forall>r\<in>set rows. ci_answer_id r = a"
      "map (\<lambda>r. (ci_citation_no r, ci_evidence_snapshot_id r)) rows =
         map (\<lambda>x. (cf_citation_no x, cf_evidence_snapshot_id x)) (unique_citations cs)"
    using insert_all_citations [OF s1(2)] by auto
  have "{c \<in> set (qb_citations s'). ci_answer_id c = a} = set rows" using rows(2,3) by auto
  moreover have "(\<lambda>r. (ci_citation_no r, ci_evidence_snapshot_id r)) ` set rows =
      (\<lambda>x. (cf_citation_no x, cf_evidence_snapshot_id x)) ` set (unique_citations cs)"
    using arg_cong [OF rows(4), of set] by simp
  ultimately show ?thesis using save_answer_stores [OF s1(1)] rows(1) by simp
qed

section \<open>The citation guard\<close>

definition cited_labels :: "GroundedAnswerDraft \<Rightarrow> string set" where
  "cited_labels draft = \<Union> (set ` gc_evidence_ids ` set (gd_claims draft)) \<union> set (disclosure_ids draft)"

text \<open>The citations that belong to an answer, as numbers with the snapshots they point to.\<close>

definition citations_of :: "uuid \<Rightarrow> qa_db \<Rightarrow> (int \<times> uuid) set" where
  "citations_of answer_id s =
     (\<lambda>c. (ci_citation_no c, ci_evidence_snapshot_id c)) ` {c \<in> set (qb_citations s). ci_answer_id c = answer_id}"

definition answer_grounded :: "qa_case \<Rightarrow> AgentState \<Rightarrow> qa_db \<Rightarrow> bool" where
  "answer_grounded c st s \<longleftrightarrow>
     (\<exists>draft b k code chunks pk ans. packed c k code chunks pk \<and>
        list_all2 (freezes (qd_sha (qc_deps c k)) (rr_project_id (qc_run c)) s) (fb_evidence b) (gp_evidence pk) \<and>
        grounded draft b (rr_project_id (qc_run c)) \<and>
        ans \<in> set (qb_answers s) \<and> st_answer_id st = Some (uuid_str (aw_id ans)) \<and>
        aw_run_id ans = rr_id (qc_run c) \<and> aw_answer_text ans = render_answer draft \<and>
        aw_refusal_reason ans = None \<and>
        citations_of (aw_id ans) s = {(int n, fe_snapshot_id e) | n e. e \<in> set (fb_evidence b) \<and>
          fe_label e = evidence_label n \<and> fe_label e \<in> cited_labels draft})"

lemma freezes_labels:
  assumes "packed c k code chunks pk" and "list_all2 (freezes sha p s) (fb_evidence b) (gp_evidence pk)"
  shows "map fe_label (fb_evidence b) = map evidence_label [1..<Suc (length (gp_evidence pk))]"
proof -
  have "map fe_label (fb_evidence b) = map ge_label (gp_evidence pk)"
    using assms(2) by (induction rule: list_all2_induct) (auto dest: freezesD)
  then show ?thesis using pack_sound [OF assms(1) [unfolded packed_def]] by simp
qed

lemma evidence_label_inject [simp]: "evidence_label m = evidence_label n \<longleftrightarrow> m = n"
  by (metis citation_number_label int_int_eq sum.inject(2))

text \<open>What the guard cites when labels are the ones the pack gave out.\<close>

lemma guard_citations:
  assumes "map fe_label (fb_evidence b) = map evidence_label [1..<Suc m]" and "distinct used"
    and "map_res (citation_of b) used = Inr cs"
  shows "(\<lambda>x. (cf_citation_no x, cf_evidence_snapshot_id x)) ` set (unique_citations cs) =
    {(int n, fe_snapshot_id e) | n e. e \<in> set (fb_evidence b) \<and> fe_label e = evidence_label n \<and> fe_label e \<in> set used}"
proof -
  have dist: "distinct (map fe_label (fb_evidence b))"
    unfolding assms(1) by (simp add: distinct_map inj_on_def del: upt_Suc)
  have cite: "list_all2 (\<lambda>l x. citation_of b l = Inr x) used cs"
    using assms(3) by (simp add: map_res_Inr_iff)
  have one: "\<exists>n e. e \<in> set (fb_evidence b) \<and> fe_label e = l \<and> l = evidence_label n \<and>
      cf_citation_no x = int n \<and> cf_evidence_snapshot_id x = fe_snapshot_id e"
    if found: "citation_of b l = Inr x" for l x
  proof -
    obtain item where item: "by_label b l = Some item" "cf_evidence_snapshot_id x = fe_snapshot_id item"
        "citation_number l = Inr (cf_citation_no x)"
      using found by (auto simp: citation_of_def bind_res_Inr_iff split: option.splits)
    then have m: "item \<in> set (fb_evidence b)" "fe_label item = l"
      by (auto simp: by_label_def dest: dict_get_Some)
    then have "l \<in> evidence_label ` set [1..<Suc m]" using assms(1) by (metis image_eqI list.set_map)
    then obtain n where "l = evidence_label n" by blast
    then show ?thesis using item m by auto
  qed
  have inj: "l = l'" if "citation_of b l = Inr x" "citation_of b l' = Inr x'" "cf_citation_no x = cf_citation_no x'"
    for l l' x x'
    using one [OF that(1)] one [OF that(2)] that(3) by auto
  have "distinct (map cf_citation_no cs)"
    using cite assms(2)
  proof (induction rule: list_all2_induct)
    case (Cons l ls x xs)
    have "cf_citation_no y \<noteq> cf_citation_no x" if y: "y \<in> set xs" for y
    proof -
      obtain l' where "citation_of b l' = Inr y" "l' \<in> set ls"
        using list_all2_member(2) [OF Cons.hyps(2) y] by blast
      then show ?thesis using inj [OF _ Cons.hyps(1)] Cons.prems by auto
    qed
    then have "cf_citation_no x \<notin> cf_citation_no ` set xs" by (metis imageE)
    then show ?case using Cons by simp
  qed simp
  then have set_eq: "set (unique_citations cs) = set cs" by (rule set_unique_citations)
  show ?thesis unfolding set_eq
  proof (intro equalityI subsetI)
    fix z assume "z \<in> (\<lambda>x. (cf_citation_no x, cf_evidence_snapshot_id x)) ` set cs"
    then obtain x l where "x \<in> set cs" "l \<in> set used" "citation_of b l = Inr x"
        "z = (cf_citation_no x, cf_evidence_snapshot_id x)"
      using list_all2_member(2) [OF cite] by blast
    then show "z \<in> {(int n, fe_snapshot_id e) | n e. e \<in> set (fb_evidence b) \<and> fe_label e = evidence_label n \<and>
        fe_label e \<in> set used}"
      using one by blast
  next
    fix z assume "z \<in> {(int n, fe_snapshot_id e) | n e. e \<in> set (fb_evidence b) \<and> fe_label e = evidence_label n \<and>
        fe_label e \<in> set used}"
    then obtain n e where z: "z = (int n, fe_snapshot_id e)" "e \<in> set (fb_evidence b)"
        "fe_label e = evidence_label n" "fe_label e \<in> set used" by blast
    then obtain x where x: "x \<in> set cs" "citation_of b (fe_label e) = Inr x"
      using list_all2_member(1) [OF cite z(4)] by blast
    have "by_label b (fe_label e) = Some e" unfolding by_label_def by (rule dict_get_distinct [OF dist z(2)])
    then have "cf_citation_no x = int n \<and> cf_evidence_snapshot_id x = fe_snapshot_id e"
      using x(2) z(3) by (auto simp: citation_of_def)
    then show "z \<in> (\<lambda>x. (cf_citation_no x, cf_evidence_snapshot_id x)) ` set cs" using x(1) z(1) by force
  qed
qed

lemma load_artifact_Inr: "qa_load_artifact a s = (Inr p, s') \<longleftrightarrow> s' = s \<and> load_artifact a (qb_runs s) = Inr p"
  by (auto simp: qa_load_artifact_def read_runs_def)

lemma step_guard:
  "triple (qa_inv c CITATION_GUARD st) (citation_guard_node d st)
     (step_ok (answer_grounded c) c CITATION_GUARD) (base c)"
proof (rule tripleI)
  let ?p = "rr_project_id (qc_run c)"
  have moves: "moves same_evidence (citation_guard_node d st)"
    unfolding citation_guard_node_def Let_def
    by (intro same_bind same_basic same_grounded_answer adds_same [OF adds_load(1)]
        adds_same [OF adds_load_evidence(2)] adds_same [OF adds_artifact] same_if)
  {
    fix s s' e assume "qa_inv c CITATION_GUARD st s" and r: "citation_guard_node d st s = (Inl e, s')"
    then show "base c s'" using same_evidence_base [OF moves_step [OF moves r]] by (simp add: qa_inv_def)
  next
    fix s s' st' assume i: "qa_inv c CITATION_GUARD st s" and r: "citation_guard_node d st s = (Inr st', s')"
    have o: "own c st" "in_project c st" and b: "base c s'" and ev: "has_evidence c st s"
      using i same_evidence_base [OF moves_step [OF moves r]] by (auto simp: qa_inv_def)
    have ev': "has_evidence c st s'" using same_evidence_has [OF moves_step [OF moves r] ev] .
    obtain bid k code chunks pk where pk: "st_evidence_bundle_id st = Some (uuid_str bid)"
        "packed c k code chunks pk" "holds_pack (qd_sha (qc_deps c k)) ?p bid pk s"
      using ev unfolding has_evidence_def by blast
    obtain draft fb s1 s2 g where g: "load_governed_evidence_bundle bid s1 = (Inr fb, s2)" "s1 = s"
        "\<exists>s3. qa_save_artifact (rr_id (qc_run c)) ''CITATION_GUARD'' (dump_guard (validate_citations draft fb ?p)) s2 =
          (Inr g, s3) \<and>
        (if cv_valid (validate_citations draft fb ?p)
          then bind_op (of_res (map_res (citation_of fb) (cv_used_evidence_ids (validate_citations draft fb ?p)))) (\<lambda>citations.
               bind_op (save_grounded_answer (rr_id (qc_run c)) (render_answer draft) citations) (\<lambda>answer_id.
                 return_op (st\<lparr>st_citation_guard_id := Some (uuid_str g),
                   st_answer_id := Some (uuid_str answer_id), st_route := Some ''answered'',
                   st_last_error_code := None\<rparr>)))
          else if counter (st_revision_count st) < 1
          then return_op (st\<lparr>st_citation_guard_id := Some (uuid_str g),
                 st_route := Some ''revise_answer'', st_last_error_code := Some ''CITATION_GUARD_RETRY''\<rparr>)
          else return_op (st\<lparr>st_citation_guard_id := Some (uuid_str g),
                 st_route := Some ''refusal'', st_last_error_code := Some ''CITATION_GUARD_FAILED''\<rparr>)) s3 = (Inr st', s')"
      using r o pk(1)
      by (clarsimp simp: citation_guard_node_def own_ids bind_of_res_Inr_iff bind_op_Inr_iff Let_def need_def
          load_artifact_Inr simp del: if_split) blast
    show "step_ok (answer_grounded c) c CITATION_GUARD st' s'"
    proof (cases "cv_valid (validate_citations draft fb ?p)")
      case False
      then have "same_refs st st'" "st_route st' = Some ''revise_answer'' \<or> st_route st' = Some ''refusal''"
        using g(3) by (auto simp: same_refs_def split: if_splits)
      then show ?thesis using same_refs_inv(1,2,4) [of st st'] o b ev'
        by (auto simp: step_ok_def qa_inv_def after_citation_guard_def)
    next
      case True
      then obtain cs a s3 where cs: "map_res (citation_of fb) (cv_used_evidence_ids (validate_citations draft fb ?p)) = Inr cs"
          "save_grounded_answer (rr_id (qc_run c)) (render_answer draft) cs s3 = (Inr a, s')"
          "st' = st\<lparr>st_citation_guard_id := Some (uuid_str g), st_answer_id := Some (uuid_str a),
             st_route := Some ''answered'', st_last_error_code := None\<rparr>"
        using g(3) by (auto simp: bind_of_res_Inr_iff bind_op_Inr_iff)
      have fz: "list_all2 (freezes (qd_sha (qc_deps c k)) ?p s) (fb_evidence fb) (gp_evidence pk)"
        using load_pack(2) [OF pk(3)] g(1,2) by blast
      have "qb_snapshots s' = qb_snapshots s" using moves_step [OF moves r] by (simp add: same_evidence_def)
      then have fz': "list_all2 (freezes (qd_sha (qc_deps c k)) ?p s') (fb_evidence fb) (gp_evidence pk)"
        using fz by (auto intro: list_all2_mono simp: freezes_def)
      have gr: "grounded draft fb ?p" using True by (simp add: valid_grounded)
      let ?used = "cv_used_evidence_ids (validate_citations draft fb ?p)"
      have used: "distinct ?used" "set ?used = cited_labels draft"
        using set_used_labels [OF gr] by (simp_all add: validate_citations_def Let_def used_labels_def cited_labels_def)
      note stored = save_grounded_stores [OF cs(2)]
      obtain ans where ans: "ans \<in> set (qb_answers s')" "aw_id ans = a" "aw_run_id ans = rr_id (qc_run c)"
          "aw_answer_text ans = render_answer draft" "aw_refusal_reason ans = None"
        using stored by blast
      have "citations_of a s' = {(int n, fe_snapshot_id e) | n e. e \<in> set (fb_evidence fb) \<and>
          fe_label e = evidence_label n \<and> fe_label e \<in> cited_labels draft}"
        using stored guard_citations [OF freezes_labels [OF pk(2) fz] used(1) cs(1)] used(2)
        by (simp add: citations_of_def)
      then have "answer_grounded c st' s'"
        unfolding answer_grounded_def using pk(2) fz' gr ans cs(3)
        by (intro exI [of _ draft] exI [of _ fb] exI [of _ k] exI [of _ code] exI [of _ chunks] exI [of _ pk]
            exI [of _ ans]) simp
      then show ?thesis using b cs(3) by (simp add: step_ok_def after_citation_guard_def)
    qed
  }
qed

section \<open>Whole runs\<close>

lemma qa_step_keeps:
  "triple (qa_inv c node st) (qa_node_op node (qc_deps c k) st) (step_ok (answer_grounded c) c node) (base c)"
  by (cases node)
    (simp_all only: qa_node_op.simps step_load_prompt step_analyze step_select step_scope step_identifiers
      step_retrieve step_grade step_govern step_generate step_guard step_revise step_refuse step_clarify)

lemma run_qa_keeps:
  assumes "qa_inv c node st s" and "run_qa fuel (qc_deps c) k node st s = Some (r, checkpoint, s')"
  shows "base c s' \<and> (\<forall>st'. r = Inr st' \<longrightarrow> st_route st' = Some ''answered'' \<longrightarrow> answer_grounded c st' s')"
  using assms
proof (induction fuel arbitrary: k node st s)
  case (Suc fuel)
  obtain q s1 where step: "qa_node_op node (qc_deps c k) st s = (q, s1)" by fastforce
  show ?case
  proof (cases q)
    case (Inl e)
    then have "base c s1" using triple_Inl [OF qa_step_keeps Suc.prems(1)] step by blast
    then show ?thesis using Suc.prems(2) step Inl by auto
  next
    case (Inr st1)
    then have ok: "step_ok (answer_grounded c) c node st1 s1"
      using triple_Inr [OF qa_step_keeps Suc.prems(1)] step by blast
    show ?thesis
    proof (cases "qa_next node st1")
      case None
      then show ?thesis using ok Suc.prems(2) step Inr by (auto simp: step_ok_def)
    next
      case (Some n)
      then have "qa_inv c n st1 s1" using ok by (simp add: step_ok_def)
      moreover have "run_qa fuel (qc_deps c) (Suc k) n st1 s1 = Some (r, checkpoint, s')"
        using Suc.prems(2) step Inr Some by simp
      ultimately show ?thesis by (rule Suc.IH)
    qed
  qed
qed simp

text \<open>A run that returns has checkpointed the state it returns.\<close>

lemma run_qa_checkpoint:
  "run_qa fuel deps k node st s = Some (Inr st', checkpoint, s') \<Longrightarrow> st' = checkpoint"
  by (induction fuel arbitrary: k node st s) (auto split: prod.splits sum.splits option.splits)

lemma run_starts:
  assumes "snapshots_have_bundles s"
  shows "qa_inv \<lparr>qc_deps = deps, qc_run = run, qc_start = s\<rparr> LOAD_PROMPT (run_input run saved) s"
  using assms by (simp add: qa_inv_def base_def own_def in_project_def run_input_def)

lemma execute_qa_cases:
  assumes "execute_qa deps run saved s = (r, checkpoint, s')"
  obtains (unused) "s' = s" "\<exists>e. r = Inl e" "checkpoint = saved"
  | (failed) e s1 where "run_qa RECURSION_LIMIT deps 1 LOAD_PROMPT (run_input run saved) s = Some (Inl e, checkpoint, s1)"
      "r = Inl e" "s' = rolled_back s s1"
  | (uncommitted) st s1 where "run_qa RECURSION_LIMIT deps 1 LOAD_PROMPT (run_input run saved) s = Some (Inr st, checkpoint, s1)"
      "\<exists>e. r = Inl e" "s' = rolled_back s s1"
  | (returned) st where "run_qa RECURSION_LIMIT deps 1 LOAD_PROMPT (run_input run saved) s = Some (Inr st, checkpoint, s')"
      "r = Inr (project_state st)"
proof (cases "rr_business_mode run = MODE_QA \<and> (\<exists>ctx. authorize_project (qd_pick (deps 0)) (qd_now (deps 0))
    (rr_user_id run) (rr_project_id run) (qd_docs (deps 0)) = Inr ctx)")
  case True
  let ?run = "run_qa RECURSION_LIMIT deps 1 LOAD_PROMPT (run_input run saved) s"
  have e: "(case ?run of None \<Rightarrow> (Inl (RuntimeError ''GraphRecursionError''), saved, s)
           | Some (Inl e, checkpoint, s') \<Rightarrow> (Inl e, checkpoint, rolled_back s s')
           | Some (Inr st, checkpoint, s') \<Rightarrow>
               if qd_commit_ok (deps 0) then (Inr (project_state st), checkpoint, s')
               else (Inl OSError, checkpoint, rolled_back s s')) = (r, checkpoint, s')"
    using assms True by (auto simp: execute_qa_def)
  show thesis
  proof (cases ?run)
    case None
    then show ?thesis using e unused by auto
  next
    case (Some x)
    obtain q st s1 where x: "x = (q, st, s1)" by (cases x)
    show ?thesis
    proof (cases q)
      case (Inl err)
      then show ?thesis using e Some x failed by simp
    next
      case (Inr st1)
      then show ?thesis using e Some x returned uncommitted by (auto split: if_splits)
    qed
  qed
next
  case False
  then show thesis using assms unused by (auto simp: execute_qa_def split: if_splits sum.splits)
qed

text \<open>C2: whatever the language model and the provider answer, and whether or not the run fails, every request
  that a question-answering run sends to the knowledge provider stays within the scope of an authorization of the
  run's user for the run's project: it names at least one document version and only versions that were, at
  that moment, the newest published ones of their documents in the project.\<close>

theorem qa_requests_confined:
  assumes "execute_qa deps run saved s = (r, checkpoint, s')" and "snapshots_have_bundles s"
    and "\<And>k. docs_ok (qd_docs (deps k))"
  shows "\<exists>sent. qb_requests s' = qb_requests s @ sent \<and> (\<forall>q\<in>set sent. \<exists>k ctx.
    authorize_project (qd_pick (deps k)) (qd_now (deps k)) (rr_user_id run) (rr_project_id run) (qd_docs (deps k)) = Inr ctx \<and>
    rq_project_id q = cx_project_code ctx \<and> rq_document_version_ids q \<noteq> [] \<and>
    set (rq_document_version_ids q) \<subseteq> uuid_str ` {v. newest_published (qd_docs (deps k)) (rr_project_id run) v} \<and>
    set (rq_knowledge_space_ids q) \<subseteq> set (cx_knowledge_space_ids ctx))"
proof -
  let ?c = "\<lparr>qc_deps = deps, qc_run = run, qc_start = s\<rparr>"
  have "\<exists>sent. qb_requests s' = qb_requests s @ sent \<and>
      (\<forall>q\<in>set sent. \<exists>ctx. authorized_ctx ?c ctx \<and> within_scope ctx q)"
    using assms(1)
  proof (cases rule: execute_qa_cases)
    case (failed e s1)
    then have "base ?c s1" using run_qa_keeps [OF run_starts [OF assms(2), of deps run saved]] by auto
    then show ?thesis using failed(3) by (simp add: base_def rolled_back_def)
  next
    case (uncommitted st s1)
    then have "base ?c s1" using run_qa_keeps [OF run_starts [OF assms(2), of deps run saved]] by auto
    then show ?thesis using uncommitted(3) by (simp add: base_def rolled_back_def)
  next
    case (returned st)
    then have "base ?c s'" using run_qa_keeps [OF run_starts [OF assms(2), of deps run saved]] by auto
    then show ?thesis by (simp add: base_def)
  qed simp
  then show ?thesis
    using allowed_versions_authorized [OF assms(3)] unfolding authorized_ctx_def within_scope_def by fastforce
qed

text \<open>C1: a question-answering run that ends as answered has stored, as the result it reports, an answer
  without a refusal reason that is the rendering of a grounded draft, and has cited with it exactly the
  evidence that the draft names. Every piece of that evidence was governed in the run: it is a chunk of
  a version that was then the newest published one of its document in the run's project, and in force on that
  day by the dates of its row.\<close>

theorem qa_answer_grounded:
  assumes "execute_qa deps run saved s = (Inr outcome, st, s')" and "snapshots_have_bundles s"
    and "st_route st = Some ''answered''"
  shows "\<exists>draft b ans k (chunks :: KnowledgeChunk list).
    grounded draft b (rr_project_id run) \<and> ans \<in> set (qb_answers s') \<and> aw_run_id ans = rr_id run \<and>
    aw_answer_text ans = render_answer draft \<and> aw_refusal_reason ans = None \<and>
    ro_kind outcome = OUT_SUCCEEDED \<and> ro_result_ref outcome = Some (uuid_str (aw_id ans)) \<and>
    citations_of (aw_id ans) s' = {(int n, fe_snapshot_id e) | n e. e \<in> set (fb_evidence b) \<and>
      fe_label e = evidence_label n \<and> fe_label e \<in> cited_labels draft} \<and>
    (\<forall>e\<in>set (fb_evidence b). fe_snapshot_id e \<in> es_id ` set (qb_snapshots s') \<and>
      newest_published (qd_docs (deps k)) (rr_project_id run) (fe_document_version_id e) \<and>
      (\<exists>v\<in>set (versions (qd_docs (deps k))). dv_id v = fe_document_version_id e \<and>
         in_force (qd_today (deps k)) (dv_effective_from v) (dv_effective_to v)) \<and>
      (\<exists>ch\<in>set chunks. ch_content ch = fe_content e \<and>
         UUID (ch_document_version_id ch) = Inr (fe_document_version_id e)))"
proof -
  let ?c = "\<lparr>qc_deps = deps, qc_run = run, qc_start = s\<rparr>"
  obtain st1 where st1: "run_qa RECURSION_LIMIT deps 1 LOAD_PROMPT (run_input run saved) s = Some (Inr st1, st, s')"
      "outcome = project_state st1"
    using assms(1) by (cases rule: execute_qa_cases) auto
  have "st1 = st" using run_qa_checkpoint [OF st1(1)] .
  then have "answer_grounded ?c st s'"
    using run_qa_keeps [OF run_starts [OF assms(2), of deps run saved]] st1(1) assms(3) by auto
  then obtain draft b k code chunks pk ans where a: "packed ?c k code chunks pk"
      "list_all2 (freezes (qd_sha (deps k)) (rr_project_id run) s') (fb_evidence b) (gp_evidence pk)"
      "grounded draft b (rr_project_id run)" "ans \<in> set (qb_answers s')" "st_answer_id st = Some (uuid_str (aw_id ans))"
      "aw_run_id ans = rr_id run" "aw_answer_text ans = render_answer draft" "aw_refusal_reason ans = None"
      "citations_of (aw_id ans) s' = {(int n, fe_snapshot_id e) | n e. e \<in> set (fb_evidence b) \<and>
          fe_label e = evidence_label n \<and> fe_label e \<in> cited_labels draft}"
    unfolding answer_grounded_def by auto
  have p1: "ro_kind outcome = OUT_SUCCEEDED \<and> ro_result_ref outcome = Some (uuid_str (aw_id ans))"
    using st1(2) \<open>st1 = st\<close> assms(3) a(5) by (simp add: project_state_def first_ref_def)
  have p2: "fe_snapshot_id e \<in> es_id ` set (qb_snapshots s') \<and>
      newest_published (qd_docs (deps k)) (rr_project_id run) (fe_document_version_id e) \<and>
      (\<exists>v\<in>set (versions (qd_docs (deps k))). dv_id v = fe_document_version_id e \<and>
         in_force (qd_today (deps k)) (dv_effective_from v) (dv_effective_to v)) \<and>
      (\<exists>ch\<in>set chunks. ch_content ch = fe_content e \<and>
         UUID (ch_document_version_id ch) = Inr (fe_document_version_id e))" if e: "e \<in> set (fb_evidence b)" for e
  proof -
    obtain ge where ge: "ge \<in> set (gp_evidence pk)" "freezes (qd_sha (deps k)) (rr_project_id run) s' e ge"
      using list_all2_member(1) [OF a(2) e] by blast
    then show ?thesis
      using freezesD [OF ge(2)] pack_sound [OF a(1) [unfolded packed_def]]
        pack_rests_on [OF a(1) [unfolded packed_def] ge(1)]
      unfolding rests_on_def by auto
  qed
  show ?thesis
    by (rule exI [of _ draft], rule exI [of _ b], rule exI [of _ ans], rule exI [of _ k], rule exI [of _ chunks])
      (use a(3,4,6-9) p1 p2 in simp)
qed

end
