(* ===== verification/QAWitness.thy ===== *)
theory QAWitness
  imports QAAnswers
begin

text \<open>
  One question-answering run, evaluated node by node on concrete tables: the query \<open>q\<close> of user 5 in project 1,
  answered from the one published version that the project has.
\<close>

section \<open>The tables and services of the sample\<close>

definition sample_event :: "uuid \<Rightarrow> int \<Rightarrow> string \<Rightarrow> payload \<Rightarrow> AgentEventModel" where
  "sample_event i n t p = \<lparr>ae_id = i, ae_run_id = 7, ae_sequence_no = n, ae_event_type = ARTIFACT_AVAILABLE,
     ae_payload = [(''artifact_type'', JStr t), (''artifact'', JObj p)]\<rparr>"

definition sample_queued :: AgentEventModel where
  "sample_queued = \<lparr>ae_id = 50, ae_run_id = 7, ae_sequence_no = 1, ae_event_type = RUN_QUEUED,
     ae_payload = [(''query_text'', JStr ''q'')]\<rparr>"

definition sample_row :: AgentRunModel where
  "sample_row = new_run_row 7 8 2 1 5 MODE_QA"

definition sample_runs :: "AgentRunModel \<Rightarrow> AgentEventModel list \<Rightarrow> run_db" where
  "sample_runs row evs = \<lparr>threads = [], runs = [row], events = sample_queued # evs, queue = []\<rparr>"

definition sample_store :: "AgentRunModel \<Rightarrow> AgentEventModel list \<Rightarrow> nat \<Rightarrow> qa_db" where
  "sample_store row evs n = \<lparr>qb_runs = sample_runs row evs, qb_bundles = [], qb_snapshots = [], qb_answers = [],
     qb_citations = [], qb_supply = (\<lambda>k. 100 + of_nat k), qb_next = n, qb_requests = []\<rparr>"

definition sample_qa_chunk :: KnowledgeChunk where
  "sample_qa_chunk = \<lparr>ch_project_id = ''PRJ-A-1'', ch_document_version_id = uuid_str 20, ch_content = ''x'',
     ch_score = 1 / 2, ch_knowledge_space_id = Some ''space'', ch_provider_ref = Some ''r'', ch_page_no = None,
     ch_section = None, ch_metadata = []\<rparr>"

definition sample_qa_draft :: GroundedAnswerDraft where
  "sample_qa_draft = \<lparr>gd_claims = [\<lparr>gc_text = ''a'', gc_evidence_ids = [''E1'']\<rparr>], gd_conflict_disclosure = None\<rparr>"

definition sample_deps :: qa_deps where
  "sample_deps = \<lparr>qd_now = 0, qd_today = (2024, 1, 1), qd_clock = 0, qd_pick = 0, qd_docs = sample_docs,
     qd_registry = [], qd_configs = [\<lparr>sy_config_key = ''prompt.qa.answer'',
       sy_config_value = [(''content'', JStr ''p'')], sy_version = 1, sy_content_hash = ''h'', sy_enabled = True\<rparr>],
     qd_prompt_ttl = 30, qd_retrieve = (\<lambda>_. Inr [sample_qa_chunk]),
     qd_grade = (\<lambda>_. Inr \<lparr>rg_adequate = True, rg_reason = ADEQUATE, rg_second_round_justified = False,
       rg_refined_query = None\<rparr>),
     qd_answer = (\<lambda>_. Inr sample_qa_draft), qd_usage = (\<lambda>_. Inr (1, 1)),
     qd_policy = \<lparr>tc_input_rate = None, tc_output_rate = None, tc_currency = ''USD''\<rparr>, qd_sha = (\<lambda>_. ''h''),
     qd_show_score = (\<lambda>_. ''0.5''), qd_model_alias = ''m'', qd_allow_second_round = True, qd_commit_ok = True\<rparr>"

definition sample_qa_run :: RunRecord where
  "sample_qa_run = \<lparr>rr_id = 7, rr_thread_id = 8, rr_company_id = 2, rr_project_id = 1, rr_user_id = 5,
     rr_business_mode = MODE_QA, rr_status = RUNNING, rr_started_at = None, rr_finished_at = None,
     rr_result_ref = None, rr_result_summary = None\<rparr>"

abbreviation sample_input :: AgentState where
  "sample_input \<equiv> run_input sample_qa_run empty_state"

section \<open>The nodes one by one\<close>

lemmas qa_eval = bind_op_def uuid4_def on_runs_def read_runs_def qa_save_artifact_def qa_load_artifact_def
  qa_load_query_def load_query_def save_artifact_def append_event_def load_artifact_def update_run_def events_of_def next_sequence_def
  sample_store_def sample_runs_def sample_event_def sample_queued_def Let_def

definition row1 :: AgentRunModel where
  "row1 = sample_row\<lparr>ar_model_alias := Some ''m'', ar_prompt_version := Some ''1'', ar_prompt_content_hash := Some ''h''\<rparr>"

definition ev1 :: AgentEventModel where
  "ev1 = sample_event 100 2 ''PROMPT_SNAPSHOT'' [(''config_key'', JStr ''prompt.qa.answer''),
     (''content'', JStr ''p''), (''version'', JInt 1), (''content_hash'', JStr ''h'')]"

lemma str_one: "str_nat (Suc 0) = ''1''"
  by code_simp

lemma run1: "load_prompt_snapshot_node sample_deps sample_input (sample_store sample_row [] 0) =
  (Inr (sample_input\<lparr>st_prompt_snapshot_id := Some (uuid_str 100)\<rparr>), sample_store row1 [ev1] 1)"
  by (simp add: load_prompt_snapshot_node_def record_prompt_snapshot_def prompt_service_def get_snapshot_def
      latest_enabled_def run_input_def sample_qa_run_def sample_deps_def qa_eval row1_def ev1_def
      sample_row_def new_run_row_def str_int_def str_one)

text \<open>The lookups that all later nodes share, with the stored artifacts read back by their codecs.\<close>

definition st1 :: AgentState where
  "st1 = sample_input\<lparr>st_prompt_snapshot_id := Some (uuid_str 100)\<rparr>"

lemma st1_fields: "st_run_id st1 = uuid_str 7" "st_user_id st1 = uuid_str 5" "st_project_id st1 = Some (uuid_str 1)"
  "st_route st1 = None" "st_last_error_code st1 = None" "st_retrieval_round st1 = None"
  "st_revision_count st1 = None" "st_prompt_snapshot_id st1 = Some (uuid_str 100)"
  by (simp_all add: st1_def run_input_def sample_qa_run_def empty_state_def)

definition sample_analysis :: QueryAnalysis where
  "sample_analysis = \<lparr>qa_original_query = ''q'', qa_standalone_query = ''q'', qa_exact_identifiers = []\<rparr>"

lemma analyze_q: "analyze ''q'' = Inr sample_analysis"
proof -
  have "extract_text ''q'' = Inr []" by code_simp
  moreover have "py_strip ''q'' = ''q''" by code_simp
  ultimately show ?thesis by (simp add: analyze_def sample_analysis_def Let_def)
qed

lemma strip_q: "py_strip ''q'' = ''q''"
  by code_simp

definition ev2 :: AgentEventModel where
  "ev2 = sample_event 101 3 ''QUERY_ANALYSIS'' (dump_analysis sample_analysis)"

definition st2 :: AgentState where
  "st2 = st1\<lparr>st_query_analysis_id := Some (uuid_str 101), st_route := Some ''project_knowledge_qa''\<rparr>"

lemma run2: "analyze_query_node sample_deps st1 (sample_store row1 [ev1] 1) = (Inr st2, sample_store row1 [ev1, ev2] 2)"
  by (simp add: analyze_query_node_def analyze_q strip_q qa_eval st1_fields st2_def ev1_def ev2_def row1_def
      sample_row_def new_run_row_def)

definition sample_selection :: ProjectSelection where
  "sample_selection = selection (Some 1) [''PRJ-A-1''] ''project_knowledge_qa'' None"

lemma select_q: "select_project 0 5 [] (Some 1) sample_docs = Inr sample_selection"
  by (simp add: select_project_def list_authorized_projects_def list_active_memberships_for_user_def
      select_among_def dict_get_def sample_selection_def selection_def sorted_set_by_def auth_eval sample_doc_defs)

definition ev3 :: AgentEventModel where
  "ev3 = sample_event 102 4 ''PROJECT_SELECTION'' (dump_selection sample_selection)"

definition st3 :: AgentState where
  "st3 = st2\<lparr>st_project_selection_id := Some (uuid_str 102)\<rparr>"

lemma run3: "select_project_node sample_deps st2 (sample_store row1 [ev1, ev2] 2) =
  (Inr st3, sample_store row1 [ev1, ev2, ev3] 3)"
  by (simp add: select_project_node_def load_analysis_of_def need_def qa_eval st1_fields st2_def st3_def ev1_def
      ev2_def ev3_def row1_def sample_row_def new_run_row_def load_dump_analysis select_q sample_deps_def
      project_codes_def sample_analysis_def sample_selection_def selection_def uuid_str_nonempty)

definition sample_ctx :: AuthorizedProjectContext where
  "sample_ctx = \<lparr>cx_scope = \<lparr>sc_company_id = 2, sc_user_id = 5, sc_allowed_client_ids = [3],
       sc_allowed_project_ids = [1], sc_allowed_document_version_ids = Some [20],
       sc_allowed_document_categories = [''api_specification''], sc_role_ids = [''project_manager''],
       sc_max_security_level = 0, sc_policy_version = POLICY_VERSION\<rparr>,
     cx_project_code = ''PRJ-A-1'', cx_knowledge_space_ids = [''space'']\<rparr>"

lemma authorize_q: "authorize_project 0 0 5 1 sample_docs = Inr sample_ctx"
  by (simp add: auth_eval sample_doc_defs list_published_document_access_def published_rows_def
      list_active_knowledge_space_ids_def active_ragflow_space_def sorted_set_by_def sample_ctx_def)

definition ev4 :: AgentEventModel where
  "ev4 = sample_event 103 5 ''PROJECT_ACCESS_SCOPE'' (serialize_authorized_context sample_ctx)"

definition st4 :: AgentState where
  "st4 = st3\<lparr>st_access_scope_id := Some (uuid_str 103)\<rparr>"

lemmas st_defs = st1_fields st2_def st3_def st4_def
lemmas ev_defs = ev1_def ev2_def ev3_def ev4_def row1_def sample_row_def new_run_row_def

lemma st3_project: "st3\<lparr>st_project_id := Some (uuid_str 1)\<rparr> = st3"
  by (simp add: st_defs st1_def run_input_def sample_qa_run_def)

lemma run4: "resolve_scope_node sample_deps st3 (sample_store row1 [ev1, ev2, ev3] 3) =
  (Inr st4, sample_store row1 [ev1, ev2, ev3, ev4] 4)"
  by (simp add: resolve_scope_node_def given_def need_project_def qa_eval st_defs ev_defs sample_deps_def
      authorize_q uuid_str_nonempty)

definition sample_plan :: RetrievalPlan where
  "sample_plan = \<lparr>rp_original_query = ''q'', rp_standalone_query = ''q'', rp_exact_identifiers = [],
     rp_identifier_resolutions = [], rp_constrained_document_version_ids = [],
     rp_constrained_provider_document_ids = [], rp_allowed_categories = [''api_specification''],
     rp_allow_second_round = True\<rparr>"

definition ev5 :: AgentEventModel where
  "ev5 = sample_event 104 6 ''RETRIEVAL_PLAN'' (dump_plan sample_plan)"

definition st5 :: AgentState where
  "st5 = st4\<lparr>st_retrieval_plan_id := Some (uuid_str 104)\<rparr>"

lemma plan_q: "retrieval_plan True sample_analysis sample_ctx \<lparr>er_resolutions = [],
    er_constrained_document_version_ids = []\<rparr> = sample_plan"
  by (simp add: retrieval_plan_def sample_analysis_def sample_ctx_def sample_plan_def)

lemma resolve_q: "resolve 1 sample_analysis ids rows = Inr \<lparr>er_resolutions = [],
    er_constrained_document_version_ids = []\<rparr>"
  by (simp add: resolve_def sample_analysis_def sorted_set_by_def)

lemma run5: "resolve_identifiers_node sample_deps st4 (sample_store row1 [ev1, ev2, ev3, ev4] 4) =
  (Inr st5, sample_store row1 [ev1, ev2, ev3, ev4, ev5] 5)"
  by (simp add: resolve_identifiers_node_def load_analysis_of_def load_context_of_def need_def need_project_def
      qa_eval st_defs st5_def ev_defs ev5_def sample_deps_def load_dump_analysis deserialize_serialize resolve_q plan_q)

section \<open>Retrieval\<close>

definition sample_request_q :: KnowledgeRetrievalRequest where
  "sample_request_q = \<lparr>rq_project_id = ''PRJ-A-1'', rq_query = ''q'', rq_limit = 10,
     rq_document_version_ids = [uuid_str 20], rq_knowledge_space_ids = [''space'']\<rparr>"

lemma constrain_q: "constrain_retrieval (retrieval_request sample_ctx sample_plan) sample_ctx = Inr (Some sample_request_q)"
  by (simp add: constrain_retrieval_def retrieval_request_def sample_ctx_def sample_plan_def allowed_versions_def
      restrict_to_def sorted_set_by_def sample_request_q_def)

lemma postfilter_q: "postfilter_evidence [sample_qa_chunk] sample_ctx = [sample_qa_chunk]"
  by (simp add: postfilter_evidence_def sample_ctx_def sample_qa_chunk_def allowed_versions_def)

definition sample_candidate :: EvidenceSnapshotModel where
  "sample_candidate = \<lparr>es_id = 106, es_bundle_id = 105, es_project_id = 1, es_document_version_id = Some 20,
     es_source_type = ''retrieval_candidate'', es_source_ref = ''r'', es_content = ''x'', es_rank = 1,
     es_score = Some (1 / 2), es_metadata = [(''retrieval_round'', JInt 1), (''project_code'', JStr ''PRJ-A-1''),
       (''knowledge_space_id'', JStr ''space''), (''page_no'', JNull), (''section'', JNull)]\<rparr>"

definition sample_bundle_row :: "uuid \<Rightarrow> EvidenceBundleModel" where
  "sample_bundle_row b = \<lparr>eb_id = b, eb_run_id = 7, eb_query_text = ''q''\<rparr>"

definition row2 :: AgentRunModel where
  "row2 = row1\<lparr>ar_retrieval_rounds := 1\<rparr>"

definition st6 :: AgentState where
  "st6 = st5\<lparr>st_evidence_bundle_id := Some (uuid_str 105), st_retrieval_round := Some 1,
     st_route := Some ''grade_retrieval'', st_last_error_code := None\<rparr>"

definition store6 :: "AgentRunModel \<Rightarrow> AgentEventModel list \<Rightarrow> nat \<Rightarrow> qa_db" where
  "store6 row evs n = (sample_store row ([ev1, ev2, ev3, ev4, ev5] @ evs) n)
     \<lparr>qb_bundles := [sample_bundle_row 105], qb_snapshots := [sample_candidate],
      qb_requests := [sample_request_q]\<rparr>"

lemma half6: "numeric6 (1 / 2) = 1 / 2"
  by code_simp

lemma run6: "retrieve_node sample_deps st5 (sample_store row1 [ev1, ev2, ev3, ev4, ev5] 5) = (Inr st6, store6 row2 [] 7)"
proof -
  have md: "candidate_metadata 1 sample_qa_chunk = [(''retrieval_round'', JInt 1), (''project_code'', JStr ''PRJ-A-1''),
       (''knowledge_space_id'', JStr ''space''), (''page_no'', JNull), (''section'', JNull)]"
    by (simp add: candidate_metadata_def sample_qa_chunk_def dict_update_def AList.updates_def opt_str_def opt_int_def)
  have ch: "UUID (ch_document_version_id sample_qa_chunk) = Inr 20" "ch_provider_ref sample_qa_chunk = Some ''r''"
    "ch_content sample_qa_chunk = ''x''" "ch_score sample_qa_chunk = 1 / 2"
    by (simp_all add: sample_qa_chunk_def)
  have oq: "rp_original_query sample_plan = ''q''"
    by (simp add: sample_plan_def)
  show ?thesis
    by (simp add: retrieve_node_def counter_def load_context_of_def load_plan_of_def need_def need_project_def
        qa_eval st_defs st5_def st6_def ev_defs ev5_def store6_def row2_def load_dump_plan deserialize_serialize
        constrain_q increment_retrieval_rounds_def ask_provider_def sample_deps_def postfilter_q
        save_evidence_bundle_def new_bundle_def insert_bundle_def save_candidate_def insert_snapshot_def
        snapshot_fits_def md ch half6 or_else_def sample_candidate_def sample_bundle_row_def oq)
qed

section \<open>Grading and governance\<close>

definition sample_grade :: RetrievalGrade where
  "sample_grade = \<lparr>rg_adequate = True, rg_reason = ADEQUATE, rg_second_round_justified = False, rg_refined_query = None\<rparr>"

definition ev7 :: AgentEventModel where
  "ev7 = sample_event 107 7 ''RETRIEVAL_GRADE'' (dump_grade sample_grade)"

definition charged :: "int \<Rightarrow> AgentRunModel" where
  "charged n = row2\<lparr>ar_input_tokens := n, ar_output_tokens := n, ar_total_tokens := 2 * n,
     ar_estimated_cost_microunits := 0, ar_cost_currency := ''USD''\<rparr>"

definition st7 :: AgentState where
  "st7 = st6\<lparr>st_retrieval_grade_id := Some (uuid_str 107), st_route := Some ''govern_evidence'',
     st_last_error_code := None\<rparr>"

lemmas run_rows = ev_defs ev5_def store6_def row2_def charged_def sample_deps_def
lemmas state_fields = st_defs st5_def st6_def

lemma load_candidates_q: "load_evidence_bundle 105 (store6 row evs n) = (Inr [sample_qa_chunk], store6 row evs n)"
  by (simp add: load_evidence_bundle_def bundle_rows_def store6_def sample_store_def sample_candidate_def
      load_candidate_def str_value_def str_field_def sample_qa_chunk_def reserved_keys_def)

lemma grade_q: "validate_consistent_shape sample_grade = Inr sample_grade"
  by (simp add: validate_consistent_shape_def sample_grade_def)

lemma charge_q: "charge sample_deps 7 i (store6 row2 evs n) = (Inr (), store6 (charged 1) evs n)"
  "charge sample_deps 7 i (store6 (charged 1) evs n) = (Inr (), store6 (charged 2) evs n)"
  by (simp_all add: charge_def record_llm_usage_def estimate_def token_usage_def qa_eval run_rows)

lemma run7: "grade_retrieval_node sample_deps st6 (store6 row2 [] 7) = (Inr st7, store6 (charged 1) [ev7] 8)"
proof -
  have query: "qa_load_query 7 (store6 row2 [] 7) = (Inr ''q'', store6 row2 [] 7)"
    by (simp add: qa_eval run_rows strip_q)
  have plan: "load_plan_of st6 (store6 row2 [] 7) = (Inr sample_plan, store6 row2 [] 7)"
    by (simp add: load_plan_of_def need_def qa_eval state_fields run_rows load_dump_plan)
  have save: "qa_save_artifact 7 ''RETRIEVAL_GRADE'' (dump_grade sample_grade) (store6 (charged 1) [] 7) =
      (Inr 107, store6 (charged 1) [ev7] 8)"
    by (simp add: qa_eval run_rows ev7_def)
  have ids: "UUID (st_run_id st6) = Inr 7" "need ''evidence_bundle_id'' (st_evidence_bundle_id st6) = Inr 105"
    by (simp_all add: state_fields need_def)
  have ask: "qd_grade sample_deps r = Inr sample_grade" for r
    by (simp add: sample_deps_def sample_grade_def)
  show ?thesis
    by (simp add: grade_retrieval_node_def bind_op_def ids plan query load_candidates_q ask grade_q charge_q save)
       (simp add: st7_def sample_grade_def)
qed

definition sample_governed :: GovernedEvidence where
  "sample_governed = \<lparr>ge_label = ''E1'', ge_project_id = 1, ge_project_code = ''PRJ-A-1'',
     ge_document_version_id = 20, ge_document_category = API_SPECIFICATION, ge_document_title = ''API'',
     ge_version_no = 1, ge_version_label = ''v1'', ge_authority_level = AL_APPROVED_DESIGN,
     ge_lifecycle_status = PUBLISHED, ge_is_current = True, ge_effective_from = None, ge_effective_to = None,
     ge_content = ''x'', ge_score = 1 / 2, ge_knowledge_space_id = Some ''space'', ge_provider_ref = Some ''r'',
     ge_page_no = None, ge_section = None, ge_provider_metadata = [], ge_conflict_key = None,
     ge_claim_value = None, ge_unresolved_conflict = False\<rparr>"

definition sample_pack :: GovernedEvidencePack where
  "sample_pack = \<lparr>gp_evidence = [sample_governed], gp_unresolved_conflicts = []\<rparr>"

lemma pack_q: "pack 8 (2024, 1, 1) 1 ''PRJ-A-1'' [sample_qa_chunk] sample_docs = Inr sample_pack"
proof -
  let ?info = "\<lparr>em_document_version_id = 20, em_document_id = 10, em_project_id = 1,
      em_document_category = API_SPECIFICATION, em_title = ''API'', em_authority_level = AL_APPROVED_DESIGN,
      em_lifecycle_status = PUBLISHED, em_version_no = 1, em_version_label = ''v1'', em_effective_from = None,
      em_effective_to = None, em_is_current = True\<rparr>"
  have parsed: "parse_chunks ''PRJ-A-1'' [sample_qa_chunk] = [(sample_qa_chunk, 20)]"
    by (simp add: parse_chunks_def sample_qa_chunk_def List.map_filter_def)
  have category: "DocumentCategory_of ''api_specification'' = Inr API_SPECIFICATION"
    using DocumentCategory_of_value [of API_SPECIFICATION] by simp
  have level: "AuthorityLevel_of ''approved_design'' = Inr AL_APPROVED_DESIGN"
    using AuthorityLevel_of_value [of AL_APPROVED_DESIGN] by simp
  have metadata: "get_document_evidence_metadata [20] sample_docs = Inr [?info]"
    by (simp add: get_document_evidence_metadata_def evidence_metadata_def current_version_no_def category level
        sample_doc_defs)
  let ?e = "sample_governed\<lparr>ge_label := []\<rparr>"
  have chunks: "govern_chunks 1 ''PRJ-A-1'' (2024, 1, 1) [?info] [] [(sample_qa_chunk, 20)] = [?e]"
    by (simp add: metadata_of_def eligible_def in_force_def governed_def sample_governed_def sample_qa_chunk_def
        text_or_none_def)
  have plain: "\<not> grouped ?e" "\<not> grouped sample_governed" "\<not> ge_unresolved_conflict ?e" "\<not> ge_unresolved_conflict sample_governed"
    by (simp_all add: grouped_def sample_governed_def)
  have label: "?e\<lparr>ge_label := evidence_label (Suc 0)\<rparr> = sample_governed"
    by (simp add: evidence_label_def str_one sample_governed_def)
  have keep: "resolve_explicit_conflicts [?e] = [?e]"
    by (simp add: resolve_explicit_conflicts_def plain)
  have sel: "select_evidence 8 [?e] = [?e]"
    by (simp add: select_evidence_def plain)
  have labeled: "label_evidence [?e] = [sample_governed]"
    by (simp only: label_evidence_def enumerate_simps list.map prod.case label One_nat_def)
  have table: "conflict_table [sample_governed] = []"
    by (simp add: conflict_table_def plain)
  have sorted: "sort_key evidence_order [?e] = [?e]"
    by simp
  have keys: "fromkeys (map snd [(sample_qa_chunk, 20)]) = [20]"
    by simp
  show ?thesis
    by (simp only: pack_def parsed keys metadata bind_res_simps Let_def chunks keep sorted sel labeled table
        sample_pack_def)
qed

definition sample_evidence :: EvidenceSnapshotModel where
  "sample_evidence = governed_row (\<lambda>_. ''h'') 108 1 109 (1, sample_governed)"

definition store8 :: "AgentRunModel \<Rightarrow> AgentEventModel list \<Rightarrow> nat \<Rightarrow> qa_db" where
  "store8 row evs n = (store6 row (ev7 # evs) n)
     \<lparr>qb_bundles := [sample_bundle_row 105, sample_bundle_row 108], qb_snapshots := [sample_candidate, sample_evidence]\<rparr>"

definition st8 :: AgentState where
  "st8 = st7\<lparr>st_evidence_bundle_id := Some (uuid_str 108), st_route := Some ''generate_answer'',
     st_last_error_code := None\<rparr>"

lemma save_q: "save_governed_evidence_bundle (\<lambda>_. ''h'') 7 1 ''q'' sample_pack (store6 (charged 1) [ev7] 8) =
  (Inr 108, store8 (charged 1) [] 10)"
proof -
  let ?s = "store6 (charged 1) [ev7] 8"
  have row: "save_governed (\<lambda>_. ''h'') 108 1 (Suc 0, sample_governed) (?s
      \<lparr>qb_bundles := [sample_bundle_row 105, sample_bundle_row 108], qb_next := 9\<rparr>) = (Inr (), store8 (charged 1) [] 10)"
    by (simp add: save_governed_def uuid4_def bind_op_def insert_snapshot_def snapshot_fits_def store6_def store8_def
        sample_store_def sample_evidence_def governed_row_def sample_bundle_row_def sample_candidate_def
        sample_governed_def or_else_def half6)
  have new: "new_bundle 7 ''q'' ?s = (Inr 108, ?s
      \<lparr>qb_bundles := [sample_bundle_row 105, sample_bundle_row 108], qb_next := 9\<rparr>)"
    by (simp add: new_bundle_def insert_bundle_def sample_bundle_row_def qa_eval store6_def)
  show ?thesis
    by (simp add: save_governed_evidence_bundle_def bind_op_def new row sample_pack_def)
qed

lemma run8: "govern_evidence_node sample_deps st7 (store6 (charged 1) [ev7] 8) = (Inr st8, store8 (charged 1) [] 10)"
proof -
  let ?s = "store6 (charged 1) [ev7] 8"
  have query: "qa_load_query 7 ?s = (Inr ''q'', ?s)"
    by (simp add: qa_eval run_rows ev7_def strip_q)
  have ctx: "load_context_of st7 ?s = (Inr sample_ctx, ?s)"
    by (simp add: load_context_of_def need_def qa_eval state_fields st7_def run_rows ev7_def deserialize_serialize)
  have ids: "UUID (st_run_id st7) = Inr 7" "need ''evidence_bundle_id'' (st_evidence_bundle_id st7) = Inr 105"
    "need_project st7 = Inr 1"
    by (simp_all add: state_fields st7_def need_def need_project_def)
  have pk: "pack 8 (qd_today sample_deps) 1 (cx_project_code sample_ctx) [sample_qa_chunk] (qd_docs sample_deps) =
      Inr sample_pack"
    using pack_q by (simp add: sample_deps_def sample_ctx_def)
  show ?thesis
    by (simp add: govern_evidence_node_def bind_op_def ids query ctx load_candidates_q pk)
       (simp add: sample_pack_def sample_deps_def st8_def save_q [unfolded sample_pack_def])
qed

section \<open>The answer\<close>

definition sample_qa_frozen :: FrozenEvidenceBundle where
  "sample_qa_frozen = \<lparr>fb_evidence = [frozen (\<lambda>_. ''h'') 1 109 sample_governed], fb_unresolved_conflicts = []\<rparr>"

lemma freeze_q: "freeze_row sample_evidence = Inr (frozen (\<lambda>_. ''h'') 1 109 sample_governed)"
proof -
  have "date_field (governed_metadata (\<lambda>_. ''h'') sample_governed) k = Inr None"
    if "k = ''effective_from'' \<or> k = ''effective_to''" for k
    using that by (auto simp: date_field_def metadata_of_row sample_governed_def opt_date_def)
  moreover have "(frozen (\<lambda>_. ''h'') 1 109 sample_governed)\<lparr>fe_effective_from := None, fe_effective_to := None\<rparr> =
      frozen (\<lambda>_. ''h'') 1 109 sample_governed"
    by (simp add: frozen_def sample_governed_def)
  ultimately show ?thesis
    by (simp add: sample_evidence_def freeze_governed_row)
qed

lemma load_frozen_q: "load_governed_evidence_bundle 108 (store8 row evs n) = (Inr sample_qa_frozen, store8 row evs n)"
proof -
  have "bundle_rows ''governed_evidence'' 108 (store8 row evs n) = [sample_evidence]"
    by (simp add: bundle_rows_def store8_def sample_candidate_def sample_evidence_def governed_row_fields)
  moreover have "\<not> fe_unresolved_conflict (frozen (\<lambda>_. ''h'') 1 109 sample_governed)"
    by (simp add: frozen_def sample_governed_def)
  ultimately show ?thesis
    by (simp add: load_governed_evidence_bundle_def freeze_q frozen_conflicts_def sample_qa_frozen_def)
qed

definition ev9 :: AgentEventModel where
  "ev9 = sample_event 110 8 ''ANSWER_DRAFT'' (dump_draft sample_qa_draft)"

definition st9 :: AgentState where
  "st9 = st8\<lparr>st_answer_draft_id := Some (uuid_str 110), st_revision_count := Some 0,
     st_route := Some ''citation_guard'', st_last_error_code := None\<rparr>"

lemma run9: "generate_answer_node sample_deps st8 (store8 (charged 1) [] 10) = (Inr st9, store8 (charged 2) [ev9] 11)"
proof -
  let ?s = "store8 (charged 1) [] 10"
  have query: "qa_load_query 7 ?s = (Inr ''q'', ?s)"
    by (simp add: qa_eval run_rows store8_def ev7_def strip_q)
  have prompt: "qa_load_artifact 100 ?s = (Inr [(''config_key'', JStr ''prompt.qa.answer''),
      (''content'', JStr ''p''), (''version'', JInt 1), (''content_hash'', JStr ''h'')], ?s)"
    by (simp add: qa_eval run_rows store8_def ev7_def)
  have ids: "UUID (st_run_id st8) = Inr 7" "need ''evidence_bundle_id'' (st_evidence_bundle_id st8) = Inr 108"
    "need ''prompt_snapshot_id'' (st_prompt_snapshot_id st8) = Inr 100" "st_revision_count st8 = None"
    by (simp_all add: state_fields st7_def st8_def need_def)
  have ask: "bind_res (qd_answer sample_deps r) structured_draft = Inr sample_qa_draft" for r
    by (simp add: sample_deps_def structured_draft_def structured_claim_ok_def sample_qa_draft_def)
  have pay: "charge sample_deps 7 i ?s = (Inr (), store8 (charged 2) [] 10)" for i
    by (simp add: charge_def record_llm_usage_def estimate_def token_usage_def qa_eval run_rows store8_def)
  have save: "qa_save_artifact 7 ''ANSWER_DRAFT'' (dump_draft sample_qa_draft) (store8 (charged 2) [] 10) =
      (Inr 110, store8 (charged 2) [ev9] 11)"
    by (simp add: qa_eval run_rows store8_def ev7_def ev9_def)
  have some: "fb_evidence sample_qa_frozen \<noteq> []"
    by (simp add: sample_qa_frozen_def)
  have "generate_draft sample_deps st8 [] ?s = (Inr 110, store8 (charged 2) [ev9] 11)"
    by (simp add: generate_draft_def bind_op_def ids query prompt str_field_def load_frozen_q some ask pay save)
  then show ?thesis
    by (simp add: generate_answer_node_def bind_op_def ids st9_def counter_def)
qed

definition sample_outcome :: CitationValidationResult where
  "sample_outcome = validate_citations sample_qa_draft sample_qa_frozen 1"

lemma outcome_q: "cv_valid sample_outcome" "cv_used_evidence_ids sample_outcome = [''E1'']"
proof -
  have f: "fe_label (frozen sha 1 109 sample_governed) = ''E1''" "fe_project_id (frozen sha 1 109 sample_governed) = 1"
      "fe_lifecycle_status (frozen sha 1 109 sample_governed) = PUBLISHED"
      "fe_is_current (frozen sha 1 109 sample_governed)" for sha
    by (simp_all add: frozen_def sample_governed_def)
  have g: "grounded sample_qa_draft sample_qa_frozen 1"
    by (simp add: grounded_def cites_current_def disclosure_ids_def sample_qa_draft_def sample_qa_frozen_def f)
  then show "cv_valid sample_outcome"
    unfolding sample_outcome_def by (simp add: valid_grounded)
  show "cv_used_evidence_ids sample_outcome = [''E1'']"
    by (simp add: sample_outcome_def validate_citations_def Let_def used_labels_def disclosure_ids_def
        by_label_def dict_get_def row_by_def sample_qa_draft_def sample_qa_frozen_def f)
qed

definition ev10 :: AgentEventModel where
  "ev10 = sample_event 111 9 ''CITATION_GUARD'' (dump_guard sample_outcome)"

definition st10 :: AgentState where
  "st10 = st9\<lparr>st_citation_guard_id := Some (uuid_str 111), st_answer_id := Some (uuid_str 112),
     st_route := Some ''answered'', st_last_error_code := None\<rparr>"

definition sample_answered :: qa_db where
  "sample_answered = (store8 (charged 2) [ev9, ev10] 14)
     \<lparr>qb_answers := [\<lparr>aw_id = 112, aw_run_id = 7, aw_answer_text = render_answer sample_qa_draft,
        aw_refusal_reason = None\<rparr>],
      qb_citations := [\<lparr>ci_id = 113, ci_answer_id = 112, ci_evidence_snapshot_id = 109, ci_citation_no = 1,
        ci_quoted_text = None\<rparr>]\<rparr>"

lemma run10: "citation_guard_node sample_deps st9 (store8 (charged 2) [ev9] 11) = (Inr st10, sample_answered)"
proof -
  let ?s = "store8 (charged 2) [ev9] 11"
  let ?s' = "store8 (charged 2) [ev9, ev10] 12"
  have ids: "UUID (st_run_id st9) = Inr 7" "need ''evidence_bundle_id'' (st_evidence_bundle_id st9) = Inr 108"
    "need ''answer_draft_id'' (st_answer_draft_id st9) = Inr 110" "need_project st9 = Inr 1"
    by (simp_all add: state_fields st7_def st8_def st9_def need_def need_project_def)
  have draft: "qa_load_artifact 110 ?s = (Inr (dump_draft sample_qa_draft), ?s)"
    by (simp add: qa_eval run_rows store8_def ev7_def ev9_def)
  have ok: "load_draft (dump_draft sample_qa_draft) = Inr sample_qa_draft"
    by (rule load_dump_draft) (simp add: draft_ok_def sample_qa_draft_def)
  have save: "qa_save_artifact 7 ''CITATION_GUARD'' (dump_guard sample_outcome) ?s = (Inr 111, ?s')"
    by (simp add: qa_eval run_rows store8_def ev7_def ev9_def ev10_def)
  have cites: "citation_of sample_qa_frozen ''E1'' = Inr \<lparr>cf_citation_no = 1, cf_evidence_snapshot_id = 109\<rparr>"
  proof -
    have "citation_number ''E1'' = Inr 1" by code_simp
    moreover have "by_label sample_qa_frozen ''E1'' = Some (frozen (\<lambda>_. ''h'') 1 109 sample_governed)"
      by (simp add: by_label_def dict_get_def row_by_def sample_qa_frozen_def frozen_def sample_governed_def)
    ultimately show ?thesis
      by (simp add: citation_of_def frozen_def)
  qed
  have answer: "save_grounded_answer 7 t [\<lparr>cf_citation_no = 1, cf_evidence_snapshot_id = 109\<rparr>] ?s' =
      (Inr 112, (store8 (charged 2) [ev9, ev10] 14)
        \<lparr>qb_answers := [\<lparr>aw_id = 112, aw_run_id = 7, aw_answer_text = t, aw_refusal_reason = None\<rparr>],
         qb_citations := [\<lparr>ci_id = 113, ci_answer_id = 112, ci_evidence_snapshot_id = 109, ci_citation_no = 1,
           ci_quoted_text = None\<rparr>]\<rparr>)" for t
    by (simp add: save_grounded_answer_def save_answer_def insert_answer_def save_citation_def insert_citation_def
        unique_citations_def sorted_set_by_def uuid4_def bind_op_def modify_op_def row_by_def store8_def store6_def
        sample_store_def sample_evidence_def governed_row_fields sample_candidate_def)
  show ?thesis
    by (simp add: citation_guard_node_def bind_op_def ids draft ok load_frozen_q sample_outcome_def [symmetric]
        outcome_q save cites answer Let_def)
       (simp add: st10_def sample_answered_def)
qed

section \<open>The run as a whole\<close>

lemma run_qa_step: "0 < fuel \<Longrightarrow>
  run_qa fuel deps k node st s =
    (case qa_node_op node (deps k) st s of
       (Inl e, s') \<Rightarrow> Some (Inl e, st, s')
     | (Inr st', s') \<Rightarrow>
         (case qa_next node st' of
            None \<Rightarrow> Some (Inr st', st', s')
          | Some next_node \<Rightarrow> run_qa (fuel - 1) deps (Suc k) next_node st' s'))"
  by (cases fuel) (auto split: prod.split sum.split option.split)

lemma sample_run_ends: "run_qa RECURSION_LIMIT (\<lambda>_. sample_deps) 1 LOAD_PROMPT sample_input (sample_store sample_row [] 0) =
  Some (Inr st10, st10, sample_answered)"
proof -
  have routes: "st_route st3 = Some ''project_knowledge_qa''" "st_route st6 = Some ''grade_retrieval''"
      "st_route st7 = Some ''govern_evidence''" "st_route st8 = Some ''generate_answer''"
      "st_route st10 = Some ''answered''"
    by (simp_all add: st2_def st3_def st6_def st7_def st8_def st10_def)
  show ?thesis
    by (simp add: RECURSION_LIMIT_def run_qa_step run1 st1_def [symmetric] run2 [unfolded One_nat_def] run3 run4 run5 run6 run7 run8 run9 run10
        routes after_project_selection_def after_retrieval_def after_retrieval_grade_def after_governance_def
        after_citation_guard_def)
qed

lemma sample_commits: "qd_commit_ok sample_deps"
  by (simp add: sample_deps_def)

lemma sample_executed: "execute_qa (\<lambda>_. sample_deps) sample_qa_run empty_state (sample_store sample_row [] 0) =
  (Inr (project_state st10), st10, sample_answered)"
proof -
  have "authorize_project (qd_pick sample_deps) (qd_now sample_deps) 5 1 (qd_docs sample_deps) = Inr sample_ctx"
    using authorize_q by (simp add: sample_deps_def)
  then show ?thesis
    using sample_run_ends sample_commits by (simp add: execute_qa_def sample_qa_run_def)
qed

lemma sample_bundles_ok: "snapshots_have_bundles (sample_store sample_row [] 0)"
  by (simp add: snapshots_have_bundles_def sample_store_def)

lemma sample_sent: "qb_requests sample_answered = qb_requests (sample_store sample_row [] 0) @ [sample_request_q]"
  by (simp add: sample_answered_def store8_def store6_def sample_store_def)

lemma qa_requests_confined_witness:
  "\<exists>ctx. authorize_project 0 0 5 1 sample_docs = Inr ctx \<and> rq_project_id sample_request_q = cx_project_code ctx \<and>
    set (rq_document_version_ids sample_request_q) \<subseteq> uuid_str ` {v. newest_published sample_docs 1 v}"
proof -
  have "docs_ok (qd_docs sample_deps)"
    by (simp add: sample_deps_def sample_docs_ok)
  from qa_requests_confined [OF sample_executed sample_bundles_ok this]
  obtain ctx where "authorize_project (qd_pick sample_deps) (qd_now sample_deps) (rr_user_id sample_qa_run)
        (rr_project_id sample_qa_run) (qd_docs sample_deps) = Inr ctx"
      "rq_project_id sample_request_q = cx_project_code ctx"
      "set (rq_document_version_ids sample_request_q) \<subseteq>
         uuid_str ` {v. newest_published (qd_docs sample_deps) (rr_project_id sample_qa_run) v}"
    by (auto simp: sample_sent)
  then show ?thesis
    by (simp add: sample_deps_def sample_qa_run_def)
qed

lemma qa_answer_grounded_witness:
  "\<exists>draft b. grounded draft b 1 \<and> qb_answers sample_answered = [\<lparr>aw_id = 112, aw_run_id = 7,
     aw_answer_text = render_answer draft, aw_refusal_reason = None\<rparr>]"
proof -
  have "st_route st10 = Some ''answered''"
    by (simp add: st10_def)
  from qa_answer_grounded [OF sample_executed sample_bundles_ok this]
  obtain draft b ans where "grounded draft b (rr_project_id sample_qa_run)" "ans \<in> set (qb_answers sample_answered)"
      "aw_answer_text ans = render_answer draft"
    by blast
  then show ?thesis
    by (intro exI [of _ draft] exI [of _ b]) (simp add: sample_answered_def sample_qa_run_def)
qed

end
