(* ===== verification/QAEvidence.thy ===== *)
theory QAEvidence
  imports QAAnswers
begin

text \<open>
  Governed evidence survives its storage: what \<open>save_governed_evidence_bundle\<close> writes,
  \<open>load_governed_evidence_bundle\<close> reads back, with the dates and the conflicts.
\<close>

section \<open>Dates\<close>

lemma length_str_nat: "n < 10 ^ k \<Longrightarrow> 0 < k \<Longrightarrow> length (str_nat n) \<le> k"
proof (induction n arbitrary: k rule: str_nat.induct)
  case (1 n)
  show ?case
  proof (cases "n < 10")
    case True
    then show ?thesis using 1(3) by (subst str_nat.simps) simp
  next
    case False
    moreover obtain j where "k = Suc j" using 1(3) by (cases k) auto
    ultimately have j: "k = Suc j" "0 < j" using 1(2) by (cases j; simp)+
    then have "n div 10 < 10 ^ j" using 1(2) by (simp add: less_mult_imp_div_less)
    then have "length (str_nat (n div 10)) \<le> j" using 1(1) [OF False] j(2) by blast
    then show ?thesis using False j(1) by (subst str_nat.simps) simp
  qed
qed

lemma length_zfill: "length s \<le> w \<Longrightarrow> length (zfill w s) = w"
  by (simp add: zfill_def)

lemma foldl_zeros: "foldl (\<lambda>acc c. acc * 10 + (of_char c - 48)) (0::nat) (replicate n CHR ''0'') = 0"
  by (induction n) (simp_all add: of_char_def)

lemma int10_zfill: "int10_digits (zfill w s) = int10_digits s"
  by (simp add: zfill_def int10_digits_def foldl_zeros)

lemma zfill_digits: "list_all is_digit (zfill w (str_nat n))"
  using str_nat_digits [of n] digit_char_props(1) [of 0] by (auto simp: zfill_def list_all_iff digit_char_def)

lemma fromisoformat_isoformat:
  assumes "valid_date d"
  shows "fromisoformat (isoformat d) = Inr d"
proof (cases d)
  case (fields y m day)
  have bounds: "y < 10 ^ 4" "m < 10 ^ 2" "day < 10 ^ 2"
    using assms fields by (auto split: if_splits)
  define a b c where "a = zfill 4 (str_nat y)" and "b = zfill 2 (str_nat m)" and "c = zfill 2 (str_nat day)"
  have len: "length a = 4" "length b = 2" "length c = 2"
    using bounds by (simp_all add: a_def b_def c_def length_zfill length_str_nat)
  have digits: "list_all is_digit a" "list_all is_digit b" "list_all is_digit c"
    by (simp_all add: a_def b_def c_def zfill_digits)
  have vals: "int10_digits a = y" "int10_digits b = m" "int10_digits c = day"
    by (simp_all add: a_def b_def c_def int10_zfill)
  have iso: "isoformat d = a @ ''-'' @ b @ ''-'' @ c"
    by (simp add: fields a_def b_def c_def)
  have parts: "take 4 (isoformat d) = a" "take 2 (drop 5 (isoformat d)) = b" "drop 8 (isoformat d) = c"
      "isoformat d ! 4 = CHR ''-''" "isoformat d ! 7 = CHR ''-''" "length (isoformat d) = 10"
    unfolding iso by (simp_all add: len nth_append)
  show ?thesis
    unfolding fromisoformat_def Let_def parts vals using digits assms fields by simp
qed

section \<open>Reading a bundle back\<close>

definition dates_ok :: "GovernedEvidence \<Rightarrow> bool" where
  "dates_ok e \<longleftrightarrow> (\<forall>d. ge_effective_from e = Some d \<or> ge_effective_to e = Some d \<longrightarrow> valid_date d)"

lemma isoformat_nonempty: "isoformat d \<noteq> []"
  by (cases d) simp

lemma date_field_opt:
  assumes "map_of md k = Some (opt_date v)" and "\<And>d. v = Some d \<Longrightarrow> valid_date d"
  shows "date_field md k = Inr v"
proof (cases v)
  case (Some d)
  moreover obtain c cs where "isoformat d = c # cs" using isoformat_nonempty by (cases "isoformat d") blast+
  ultimately show ?thesis
    using assms fromisoformat_isoformat [of d] by (simp add: date_field_def opt_date_def)
qed (use assms in \<open>simp add: date_field_def opt_date_def\<close>)

lemma freeze_dated_row:
  assumes "dates_ok e"
  shows "freeze_row (governed_row sha b p i (n, e)) = Inr (frozen sha p i e)"
proof -
  have "date_field (governed_metadata sha e) ''effective_from'' = Inr (ge_effective_from e)"
    "date_field (governed_metadata sha e) ''effective_to'' = Inr (ge_effective_to e)"
    using assms by (auto intro!: date_field_opt simp: metadata_of_row dates_ok_def)
  then show ?thesis by (simp add: freeze_governed_row frozen_def)
qed

definition thaws :: "(string \<Rightarrow> string) \<Rightarrow> uuid \<Rightarrow> FrozenEvidence \<Rightarrow> GovernedEvidence \<Rightarrow> bool" where
  "thaws sha p fe e \<longleftrightarrow> fe = frozen sha p (fe_snapshot_id fe) e"

lemma load_dated_pack:
  assumes "holds_pack sha p b pk s" and "\<forall>e\<in>set (gp_evidence pk). dates_ok e"
  shows "\<exists>items. load_governed_evidence_bundle b s =
      (Inr \<lparr>fb_evidence = items, fb_unresolved_conflicts = frozen_conflicts items\<rparr>, s) \<and>
    list_all2 (thaws sha p) items (gp_evidence pk)"
proof -
  let ?rows = "bundle_rows ''governed_evidence'' b s"
  let ?items = "map (\<lambda>(row, e). frozen sha p (es_id row) e) (zip ?rows (gp_evidence pk))"
  have rows: "list_all2 (\<lambda>row item. row = governed_row sha b p (es_id row) item) ?rows
      (List.enumerate 1 (gp_evidence pk))"
    using assms(1) by (simp add: holds_pack_def rows_of_def)
  then have len: "length ?rows = length (gp_evidence pk)" by (auto dest: list_all2_lengthD)
  have "list_all2 (\<lambda>row e. freeze_row row = Inr e) ?rows ?items"
  proof (rule list_all2_all_nthI)
    fix n assume n: "n < length ?rows"
    have "?rows ! n = governed_row sha b p (es_id (?rows ! n)) (Suc n, gp_evidence pk ! n)"
      using list_all2_nthD [OF rows n] n len by (simp add: nth_enumerate_eq)
    moreover have "dates_ok (gp_evidence pk ! n)" using assms(2) n len by simp
    ultimately have "freeze_row (?rows ! n) = Inr (frozen sha p (es_id (?rows ! n)) (gp_evidence pk ! n))"
      using freeze_dated_row by metis
    then show "freeze_row (?rows ! n) = Inr (?items ! n)" using n len by simp
  qed (simp add: len)
  then have "map_res freeze_row ?rows = Inr ?items" by (simp add: map_res_Inr_iff)
  moreover have "list_all2 (thaws sha p) ?items (gp_evidence pk)"
    using len by (auto simp: list_all2_conv_all_nth thaws_def frozen_def)
  ultimately show ?thesis
    by (intro exI [of _ ?items]) (simp add: load_governed_evidence_bundle_def)
qed

section \<open>The conflicts of a bundle\<close>

lemma list_all2_filter:
  "list_all2 R xs ys \<Longrightarrow> (\<And>x y. R x y \<Longrightarrow> P x = Q y) \<Longrightarrow> list_all2 R (filter P xs) (filter Q ys)"
  by (induction rule: list_all2_induct) auto

lemma list_all2_map_eq: "list_all2 R xs ys \<Longrightarrow> (\<And>x y. R x y \<Longrightarrow> f x = g y) \<Longrightarrow> map f xs = map g ys"
  by (induction rule: list_all2_induct) auto

lemma thaws_fields:
  assumes "thaws sha p fe e"
  shows "fe_label fe = ge_label e" "fe_unresolved_conflict fe = ge_unresolved_conflict e"
    "fe_conflict_key fe = ge_conflict_key e"
  using assms unfolding thaws_def by (metis frozen_def FrozenEvidence.select_convs)+

text \<open>The labels that contradict each other on a key.\<close>

definition sides :: "GovernedEvidence list \<Rightarrow> string \<Rightarrow> string list" where
  "sides es k = map ge_label (filter (\<lambda>e. ge_unresolved_conflict e \<and> ge_conflict_key e = Some k) es)"

lemma frozen_conflicts_of:
  assumes "list_all2 (thaws sha p) items es"
  shows "map_of (frozen_conflicts items) k = (if sides es k = [] then None else Some (sides es k))"
proof -
  define conf where "conf = filter (\<lambda>e. fe_unresolved_conflict e \<and> fe_conflict_key e \<noteq> None) items"
  have labels: "map fe_label (filter (\<lambda>e. fe_conflict_key e = Some k) conf) = sides es k"
    unfolding sides_def conf_def filter_filter
    by (rule list_all2_map_eq [OF list_all2_filter [OF assms]]) (auto simp: thaws_fields)
  have "k \<in> (the \<circ> fe_conflict_key) ` set conf \<longleftrightarrow> filter (\<lambda>e. fe_conflict_key e = Some k) conf \<noteq> []"
    by (force simp: conf_def filter_empty_conv image_iff)
  then have "k \<in> (the \<circ> fe_conflict_key) ` set conf \<longleftrightarrow> sides es k \<noteq> []"
    unfolding labels [symmetric] by simp
  then show ?thesis
    unfolding frozen_conflicts_def Let_def conf_def [symmetric] map_of_map_restrict
    by (simp add: labels restrict_map_def)
qed

text \<open>In a pack, a conflict that is not resolved has at least two sides, and all of them are packed.\<close>

lemma unresolved_contested:
  assumes "pack n today p code chunks db = Inr pk" and "e \<in> set (gp_evidence pk)"
    and "ge_unresolved_conflict e" and "ge_conflict_key e = Some k"
  shows "\<exists>e'\<in>set (gp_evidence pk). ge_unresolved_conflict e' \<and> ge_conflict_key e' = Some k \<and>
    ge_claim_value e' \<noteq> ge_claim_value e"
proof -
  obtain metadata where ev: "gp_evidence pk = label_evidence (select_evidence n (sort_key evidence_order
       (resolve_explicit_conflicts (pack_candidates today p code chunks metadata))))"
    using assms(1) by (rule pack_Inr)
  let ?cands = "pack_candidates today p code chunks metadata"
  note fresh = candidate_fresh [of _ today p code chunks metadata]
  obtain r where r: "r \<in> set (resolve_explicit_conflicts ?cands)" "e = r\<lparr>ge_label := ge_label e\<rparr>"
    using label_evidence_member [OF assms(2) [unfolded ev]] select_evidence_sub by force
  have re: "ge_unresolved_conflict r" "ge_conflict_key r = Some k" "ge_claim_value r = ge_claim_value e"
  proof -
    have "ge_unresolved_conflict e = ge_unresolved_conflict r" "ge_conflict_key e = ge_conflict_key r"
        "ge_claim_value e = ge_claim_value r"
      by (subst r(2), simp)+
    then show "ge_unresolved_conflict r" "ge_conflict_key r = Some k" "ge_claim_value r = ge_claim_value e"
      using assms(3,4) by simp_all
  qed
  let ?g = "claims_on (Some k) ?cands"
  obtain c where c: "c \<in> set ?cands" "let g = claims_on (ge_conflict_key c) ?cands in
      if \<not> grouped c \<or> agree g then r = c
      else c \<in> set (top_of g) \<and> r = c\<lparr>ge_unresolved_conflict := \<not> agree (top_of g)\<rparr>"
    using r(1) resolve_member [of ?cands r] fresh by blast
  let ?gc = "claims_on (ge_conflict_key c) ?cands"
  have "r \<noteq> c" using fresh [OF c(1)] re(1) by metis
  then have split: "\<not> agree ?gc" "c \<in> set (top_of ?gc)" "r = c\<lparr>ge_unresolved_conflict := \<not> agree (top_of ?gc)\<rparr>"
    using c(2) unfolding Let_def by presburger+
  then have ck: "ge_conflict_key c = Some k" using re(2) by simp
  then have rc: "r = c\<lparr>ge_unresolved_conflict := \<not> agree (top_of ?g)\<rparr>" using split(3) by simp
  have "ge_unresolved_conflict r = (\<not> agree (top_of ?g))" by (subst rc) simp
  then have no: "\<not> agree ?g" "\<not> agree (top_of ?g)" "c \<in> set (top_of ?g)"
    using split(1,2) ck re(1) by simp_all
  obtain d where d: "d \<in> set (top_of ?g)" "ge_claim_value d \<noteq> ge_claim_value c"
    using no(2,3) unfolding agree_def by metis
  then have dc: "d \<in> set ?cands" "grouped d" "ge_conflict_key d = Some k"
    by (auto simp: top_of_def claims_on_def)
  let ?d = "d\<lparr>ge_unresolved_conflict := True\<rparr>"
  have "?d \<in> set (resolve_explicit_conflicts ?cands)"
  proof (subst resolve_member)
    show "\<exists>c\<in>set ?cands. let g = claims_on (ge_conflict_key c) ?cands in
       if \<not> grouped c \<or> agree g then ?d = c
       else c \<in> set (top_of g) \<and> ?d = c\<lparr>ge_unresolved_conflict := \<not> agree (top_of g)\<rparr>"
      using dc no d(1) by (intro bexI [of _ d]) (simp_all add: Let_def)
  qed (rule fresh)
  then have "?d \<in> set (select_evidence n (sort_key evidence_order (resolve_explicit_conflicts ?cands)))"
    using dc(3) by (intro select_evidence_protected) simp_all
  then obtain e' where e': "e' \<in> set (gp_evidence pk)" "e' = ?d\<lparr>ge_label := ge_label e'\<rparr>"
    using label_evidence_covers unfolding ev by blast
  have "ge_unresolved_conflict e'" "ge_conflict_key e' = Some k" "ge_claim_value e' = ge_claim_value d"
    by (subst e'(2), simp add: dc(3))+
  moreover have "ge_claim_value r = ge_claim_value c" by (subst rc) simp
  ultimately show ?thesis using e'(1) d(2) re(3) by auto
qed

lemma conflict_table_keys:
  "map_of (conflict_table es) k = Some labels \<Longrightarrow> sides es k \<noteq> []"
  by (force simp: conflict_table_def Let_def map_of_map_restrict restrict_map_def sides_def filter_empty_conv
      split: if_splits)

lemma pack_conflicts:
  assumes "pack n today p code chunks db = Inr pk"
  shows "map_of (gp_unresolved_conflicts pk) k =
    (if sides (gp_evidence pk) k = [] then None else Some (sides (gp_evidence pk) k))"
proof -
  have tab: "gp_unresolved_conflicts pk = conflict_table (gp_evidence pk)"
    using assms by (rule pack_Inr)
  show ?thesis
  proof (cases "sides (gp_evidence pk) k = []")
    case True
    then show ?thesis using conflict_table_keys [of "gp_evidence pk" k] unfolding tab by (cases "map_of (conflict_table (gp_evidence pk)) k") auto
  next
    case False
    then obtain e where e: "e \<in> set (gp_evidence pk)" "ge_unresolved_conflict e" "ge_conflict_key e = Some k"
      by (auto simp: sides_def filter_empty_conv)
    from unresolved_contested [OF assms e] obtain e' where "e' \<in> set (gp_evidence pk)" "ge_unresolved_conflict e'"
        "ge_conflict_key e' = Some k" "ge_claim_value e' \<noteq> ge_claim_value e"
      by blast
    then show ?thesis
      using False conflict_table_some [of e' "gp_evidence pk" e k] e unfolding tab by (simp add: sides_def)
  qed
qed

text \<open>C9: the evidence that governance packed is the evidence that the answer is generated from and checked
  against: the bundle it is saved as can be loaded, piece by piece in the same order and with the same labels,
  versions, contents, dates and conflict marks (the score rounded to six digits), and the conflicts that the loaded bundle
  demands to be disclosed are those that governance left unresolved.\<close>

theorem governed_evidence_roundtrip:
  assumes "pack n today p code chunks db = Inr pk" and "\<forall>e\<in>set (gp_evidence pk). dates_ok e"
    and "save_governed_evidence_bundle sha run_id p q pk s = (Inr b, s')" and "snapshots_have_bundles s"
  shows "\<exists>fb. load_governed_evidence_bundle b s' = (Inr fb, s') \<and>
    list_all2 (\<lambda>fe e. fe = frozen sha p (fe_snapshot_id fe) e) (fb_evidence fb) (gp_evidence pk) \<and>
    map_of (fb_unresolved_conflicts fb) = map_of (gp_unresolved_conflicts pk)"
proof -
  obtain items where items: "load_governed_evidence_bundle b s' =
      (Inr \<lparr>fb_evidence = items, fb_unresolved_conflicts = frozen_conflicts items\<rparr>, s')"
      "list_all2 (thaws sha p) items (gp_evidence pk)"
    using load_dated_pack [OF save_pack [OF assms(3,4)] assms(2)] by blast
  have "map_of (frozen_conflicts items) = map_of (gp_unresolved_conflicts pk)"
    using frozen_conflicts_of [OF items(2)] pack_conflicts [OF assms(1)] by (intro ext) simp
  then show ?thesis using items(1,2) unfolding thaws_def [abs_def] by simp
qed

end
