(* ===== verification/QAThreads.thy ===== *)
theory QAThreads
  imports QAWitness QAEvidence
begin

text \<open>
  Runs of one thread. The checkpoint of a thread survives its runs, and \<open>LangGraphRunExecutor.execute\<close> resets
  neither the retrieval counter nor the revision counter: what a run can still do depends on what earlier runs,
  or earlier attempts at the same run, have used up.
\<close>

section \<open>The nodes before retrieval\<close>

definition early :: "qa_node set" where
  "early = {LOAD_PROMPT, ANALYZE_QUERY, SELECT_PROJECT, RESOLVE_SCOPE, RESOLVE_IDENTIFIERS, RETRIEVE}"

definition exhausted :: "AgentState \<Rightarrow> bool" where
  "exhausted st \<longleftrightarrow> 2 \<le> counter (st_retrieval_round st)"

definition stays_early :: "qa_node \<Rightarrow> AgentState \<Rightarrow> AgentState \<Rightarrow> bool" where
  "stays_early node st st' \<longleftrightarrow> exhausted st' \<and> st_run_id st' = st_run_id st \<and>
     (\<exists>n. qa_next node st' = Some n \<and> n \<in> early \<union> {REFUSE, CLARIFY_PROJECT})"

lemmas early_defs = stays_early_def early_def exhausted_def after_project_selection_def after_retrieval_def

lemma early_returns:
  assumes "node \<in> early" and "exhausted st"
  shows "returns (qa_node_op node d st) (stays_early node st)"
proof (cases "node = RETRIEVE")
  case True
  then show ?thesis
    using assms(2) by (auto simp: retrieve_node_def early_defs Let_def intro!: returns_rules)
next
  case False
  then consider "node = LOAD_PROMPT" | "node = ANALYZE_QUERY" | "node = SELECT_PROJECT" | "node = RESOLVE_SCOPE"
    | "node = RESOLVE_IDENTIFIERS"
    using assms(1) by (auto simp: early_def)
  then show ?thesis
    by cases (simp_all only: qa_node_op.simps load_prompt_snapshot_node_def analyze_query_node_def
      select_project_node_def resolve_scope_node_def resolve_identifiers_node_def,
      (intro returns_rules; use assms(2) in \<open>auto simp: early_defs\<close>)+)
qed

lemma adds_nodes:
  "adds_artifacts (load_prompt_snapshot_node d st)" "adds_artifacts (analyze_query_node d st)"
  "adds_artifacts (select_project_node d st)" "adds_artifacts (resolve_scope_node d st)"
  "adds_artifacts (resolve_identifiers_node d st)"
  subgoal unfolding load_prompt_snapshot_node_def by (intro adds_rules)
  subgoal unfolding analyze_query_node_def by (intro adds_rules)
  subgoal unfolding select_project_node_def by (intro adds_rules)
  subgoal unfolding resolve_scope_node_def by (intro adds_rules)
  subgoal unfolding resolve_identifiers_node_def by (intro adds_rules)
  done

lemma early_adds:
  assumes "node \<in> early" and "exhausted st"
  shows "adds_artifacts (qa_node_op node d st)"
proof (cases "node = RETRIEVE")
  case True
  then have "qa_node_op node d st = bind_op (of_res (UUID (st_run_id st))) (\<lambda>run_id.
      return_op (st\<lparr>st_route := Some ''refusal'', st_last_error_code := Some ''RETRIEVAL_ROUND_LIMIT''\<rparr>))"
    using assms(2) by (simp add: retrieve_node_def exhausted_def Let_def)
  then show ?thesis by (simp only:) (intro adds_rules)
qed (use assms(1) adds_nodes in \<open>auto simp: early_def\<close>)

section \<open>Refusing\<close>

text \<open>\<open>refused_in run_id s s'\<close>: the run has an answer with a refusal reason, and an answer it had before is that
  answer.\<close>

definition refused_in :: "uuid \<Rightarrow> qa_db \<Rightarrow> qa_db \<Rightarrow> bool" where
  "refused_in run_id s s' \<longleftrightarrow> (\<exists>ans\<in>set (qb_answers s'). aw_run_id ans = run_id \<and> aw_refusal_reason ans \<noteq> None \<and>
     (\<forall>old\<in>set (qb_answers s). aw_run_id old = run_id \<longrightarrow> aw_id old = aw_id ans))"

definition same_citations :: "qa_db \<Rightarrow> qa_db \<Rightarrow> bool" where
  "same_citations s s' \<longleftrightarrow> qb_citations s' = qb_citations s \<and> qb_requests s' = qb_requests s"

lemma same_citations_trans: "same_citations s t \<Longrightarrow> same_citations t u \<Longrightarrow> same_citations s u"
  by (simp add: same_citations_def)

lemma extends_citations: "extends s s' \<Longrightarrow> same_citations s s' \<and> qb_answers s' = qb_answers s"
  by (simp add: extends_def same_citations_def)

lemma save_answer_citations: "moves same_citations (save_answer run_id t r)"
  by (auto simp: moves_def save_answer_def bind_op_def uuid4_def insert_answer_def modify_op_def same_citations_def
      split: list.split)

lemma save_answer_refuses:
  assumes "save_answer run_id t (Some reason) s = (Inr a, s')"
  shows "refused_in run_id s s'"
proof (cases "filter (\<lambda>x. aw_run_id x = run_id) (qb_answers s)")
  case Nil
  then show ?thesis
    using assms by (auto simp: save_answer_def uuid4_def insert_answer_def bind_op_Inr_iff refused_in_def
        filter_empty_conv split: if_splits)
next
  case (Cons row rows)
  then have "row \<in> set (filter (\<lambda>x. aw_run_id x = run_id) (qb_answers s))" by simp
  then have row: "row \<in> set (qb_answers s)" "aw_run_id row = run_id" by simp_all
  have one: "rows = []" using assms Cons by (auto simp: save_answer_def bind_op_Inr_iff split: list.splits)
  then have s': "s' = s\<lparr>qb_answers := update_rows (\<lambda>x. aw_id x = aw_id row)
      (\<lambda>x. x\<lparr>aw_answer_text := t, aw_refusal_reason := Some reason\<rparr>) (qb_answers s)\<rparr>"
    using assms Cons by (auto simp: save_answer_def bind_op_Inr_iff)
  have "row\<lparr>aw_answer_text := t, aw_refusal_reason := Some reason\<rparr> \<in> set (qb_answers s')"
    using row by (force simp: s' update_rows_def)
  moreover have "aw_id old = aw_id row" if "old \<in> set (qb_answers s)" "aw_run_id old = run_id" for old
  proof -
    have "old \<in> set (filter (\<lambda>x. aw_run_id x = run_id) (qb_answers s))" using that by simp
    then show ?thesis using Cons one by simp
  qed
  ultimately show ?thesis using row(2) unfolding refused_in_def
    by (intro bexI [of _ "row\<lparr>aw_answer_text := t, aw_refusal_reason := Some reason\<rparr>"]) auto
qed

lemma refusing_node:
  assumes "node \<in> {REFUSE, CLARIFY_PROJECT}"
  shows "moves same_citations (qa_node_op node d st)"
    and "returns (qa_node_op node d st) (\<lambda>st'. qa_next node st' = None \<and>
      st_retrieval_round st' = st_retrieval_round st \<and> st_route st' \<in> {Some ''refusal'', Some ''clarification''})"
    and "qa_node_op node d st s = (Inr st', s') \<Longrightarrow> UUID (st_run_id st) = Inr r \<Longrightarrow> refused_in r s s'"
proof -
  have loads: "qa_load_artifact a t = (Inr p, t') \<longleftrightarrow> load_artifact a (qb_runs t) = Inr p \<and> t' = t" for a t p t'
    by (auto simp: qa_load_artifact_def read_runs_def)
  note cbind = moves_bind [OF same_citations_trans]
  have cbasic: "moves same_citations (return_op x)" "moves same_citations (of_res y)"
      "moves same_citations (qa_load_artifact a)" for x y a
    by (simp_all add: moves_def same_citations_def qa_load_artifact_def read_runs_def)
  have "moves same_citations (refuse_node d st)"
    unfolding refuse_node_def Let_def by (intro cbind cbasic save_answer_citations)
  moreover have "moves same_citations (clarify_project_node d st)"
    unfolding clarify_project_node_def by (intro cbind cbasic save_answer_citations)
  ultimately show "moves same_citations (qa_node_op node d st)" using assms by auto
  show "returns (qa_node_op node d st) (\<lambda>st'. qa_next node st' = None \<and>
      st_retrieval_round st' = st_retrieval_round st \<and> st_route st' \<in> {Some ''refusal'', Some ''clarification''})"
    using assms by (auto simp: refuse_node_def clarify_project_node_def intro!: returns_rules)
  assume r: "qa_node_op node d st s = (Inr st', s')" "UUID (st_run_id st) = Inr r"
  show "refused_in r s s'"
  proof (cases "node = REFUSE")
    case True
    then show ?thesis using r save_answer_refuses by (auto simp: refuse_node_def bind_op_Inr_iff Let_def)
  next
    case False
    then have "node = CLARIFY_PROJECT" using assms by simp
    then show ?thesis
      using r save_answer_refuses
      by (auto simp: clarify_project_node_def bind_op_Inr_iff bind_of_res_Inr_iff loads)
  qed
qed

section \<open>A run of an exhausted thread\<close>

lemma exhausted_run:
  assumes "run_qa fuel deps k node st s = Some (r, checkpoint, s')" and "exhausted st"
    and "node \<in> early \<union> {REFUSE, CLARIFY_PROJECT}" and "UUID (st_run_id st) = Inr run_id"
  shows "exhausted checkpoint \<and> same_citations s s' \<and>
    (\<forall>st'. r = Inr st' \<longrightarrow> st_route st' \<in> {Some ''refusal'', Some ''clarification''} \<and> refused_in run_id s s')"
  using assms
proof (induction fuel arbitrary: k node st s)
  case (Suc fuel)
  obtain q s1 where step: "qa_node_op node (deps k) st s = (q, s1)" by fastforce
  show ?case
  proof (cases "node \<in> early")
    case True
    have ext: "extends s s1" using moves_step [OF early_adds [OF True Suc.prems(2)] step] .
    show ?thesis
    proof (cases q)
      case (Inl e)
      then show ?thesis using Suc.prems(1,2) step extends_citations [OF ext] by auto
    next
      case (Inr st1)
      then obtain n where n: "exhausted st1" "st_run_id st1 = st_run_id st" "qa_next node st1 = Some n"
          "n \<in> early \<union> {REFUSE, CLARIFY_PROJECT}"
        using returnsD [OF early_returns [OF True Suc.prems(2)]] step unfolding stays_early_def by blast
      have "run_qa fuel deps (Suc k) n st1 s1 = Some (r, checkpoint, s')"
        using Suc.prems(1) step Inr n(3) by simp
      from Suc.IH [OF this n(1,4)] n(2) Suc.prems(4) show ?thesis
        using extends_citations [OF ext] by (auto simp: refused_in_def same_citations_def)
    qed
  next
    case False
    then have node: "node \<in> {REFUSE, CLARIFY_PROJECT}" using Suc.prems(3) by simp
    have same: "same_citations s s1" using moves_step [OF refusing_node(1) [OF node] step] .
    show ?thesis
    proof (cases q)
      case (Inl e)
      then show ?thesis using Suc.prems(1,2) step same by auto
    next
      case (Inr st1)
      then have st1: "qa_next node st1 = None" "st_retrieval_round st1 = st_retrieval_round st"
          "st_route st1 \<in> {Some ''refusal'', Some ''clarification''}"
        using returnsD [OF refusing_node(2) [OF node]] step by auto
      then have "checkpoint = st1" "r = Inr st1" "s' = s1" using Suc.prems(1) step Inr by auto
      then show ?thesis
        using st1 same Suc.prems(2,4) refusing_node(3) [OF node] step Inr by (auto simp: exhausted_def)
    qed
  qed
qed simp

text \<open>C8: once the saved state of a thread has two retrieval rounds on record, every later run of the thread, and
  every later attempt at the same run, is refused without asking the knowledge provider (or asked for clarification),
  and the thread stays so. If the run had already been answered, its answer becomes a refusal
  that keeps the citations of the answer.\<close>

theorem exhausted_thread_refuses:
  assumes "execute_qa deps run saved s = (r, checkpoint, s')" and "2 \<le> counter (st_retrieval_round saved)"
  shows "2 \<le> counter (st_retrieval_round checkpoint) \<and> qb_requests s' = qb_requests s \<and>
    qb_citations s' = qb_citations s \<and>
    (\<forall>outcome. r = Inr outcome \<longrightarrow> st_route checkpoint \<in> {Some ''refusal'', Some ''clarification''} \<and>
       (\<exists>ans\<in>set (qb_answers s'). aw_run_id ans = rr_id run \<and> aw_refusal_reason ans \<noteq> None \<and>
          (\<forall>old\<in>set (qb_answers s). aw_run_id old = rr_id run \<longrightarrow> aw_id old = aw_id ans)))"
proof -
  have start: "exhausted (run_input run saved)" "LOAD_PROMPT \<in> early \<union> {REFUSE, CLARIFY_PROJECT}"
      "UUID (st_run_id (run_input run saved)) = Inr (rr_id run)"
    using assms(2) by (simp_all add: exhausted_def run_input_def early_def)
  note run = exhausted_run [OF _ start]
  show ?thesis using assms(1)
  proof (cases rule: execute_qa_cases)
    case unused
    then show ?thesis using assms(2) by auto
  next
    case (failed e s1)
    then show ?thesis using run [OF failed(1)] by (simp add: exhausted_def same_citations_def rolled_back_def)
  next
    case (uncommitted st s1)
    then have "r \<noteq> Inr outcome" for outcome by auto
    then show ?thesis using run [OF uncommitted(1)] uncommitted(3)
      by (simp add: exhausted_def same_citations_def rolled_back_def)
  next
    case (returned st)
    have "st = checkpoint" using run_qa_checkpoint [OF returned(1)] .
    then show ?thesis using run [OF returned(1)] by (simp add: exhausted_def same_citations_def refused_in_def)
  qed
qed

text \<open>The sample run again, after it was answered, on a thread whose counter has reached two.\<close>

definition used_up :: "AgentState \<Rightarrow> AgentState" where
  "used_up st = st\<lparr>st_retrieval_round := Some 2\<rparr>"

definition old_citation :: CitationModel where
  "old_citation = \<lparr>ci_id = 61, ci_answer_id = 60, ci_evidence_snapshot_id = 109, ci_citation_no = 1, ci_quoted_text = None\<rparr>"

definition answered_before :: "qa_db \<Rightarrow> qa_db" where
  "answered_before s = s\<lparr>qb_answers := [\<lparr>aw_id = 60, aw_run_id = 7, aw_answer_text = ''a'', aw_refusal_reason = None\<rparr>],
     qb_citations := [old_citation]\<rparr>"

lemmas again_eval = used_up_def answered_before_def qa_eval

lemma again1: "load_prompt_snapshot_node sample_deps (used_up sample_input) (answered_before (sample_store sample_row [] 0)) =
  (Inr (used_up st1), answered_before (sample_store row1 [ev1] 1))"
  by (simp add: load_prompt_snapshot_node_def record_prompt_snapshot_def prompt_service_def get_snapshot_def
      latest_enabled_def run_input_def sample_qa_run_def sample_deps_def again_eval row1_def ev1_def st1_def
      sample_row_def new_run_row_def str_int_def str_one)

lemma again2: "analyze_query_node sample_deps (used_up st1) (answered_before (sample_store row1 [ev1] 1)) =
  (Inr (used_up st2), answered_before (sample_store row1 [ev1, ev2] 2))"
  by (simp add: analyze_query_node_def analyze_q strip_q again_eval st1_fields st2_def ev1_def ev2_def row1_def
      sample_row_def new_run_row_def)

lemma again3: "select_project_node sample_deps (used_up st2) (answered_before (sample_store row1 [ev1, ev2] 2)) =
  (Inr (used_up st3), answered_before (sample_store row1 [ev1, ev2, ev3] 3))"
  by (simp add: select_project_node_def load_analysis_of_def need_def again_eval st1_fields st2_def st3_def ev1_def
      ev2_def ev3_def row1_def sample_row_def new_run_row_def load_dump_analysis select_q sample_deps_def
      project_codes_def sample_analysis_def sample_selection_def selection_def uuid_str_nonempty)

lemma again4: "resolve_scope_node sample_deps (used_up st3) (answered_before (sample_store row1 [ev1, ev2, ev3] 3)) =
  (Inr (used_up st4), answered_before (sample_store row1 [ev1, ev2, ev3, ev4] 4))"
  by (simp add: resolve_scope_node_def given_def need_project_def again_eval st_defs ev_defs sample_deps_def
      authorize_q uuid_str_nonempty)

lemma again5: "resolve_identifiers_node sample_deps (used_up st4) (answered_before (sample_store row1 [ev1, ev2, ev3, ev4] 4)) =
  (Inr (used_up st5), answered_before (sample_store row1 [ev1, ev2, ev3, ev4, ev5] 5))"
  by (simp add: resolve_identifiers_node_def load_analysis_of_def load_context_of_def need_def need_project_def
      again_eval st_defs st5_def ev_defs ev5_def sample_deps_def load_dump_analysis deserialize_serialize resolve_q plan_q)

lemma again_returns: "\<exists>st. fst (execute_qa (\<lambda>_. sample_deps) sample_qa_run (empty_state\<lparr>st_retrieval_round := Some 2\<rparr>)
    (answered_before (sample_store sample_row [] 0))) = Inr (project_state st)"
proof -
  have input: "run_input sample_qa_run (empty_state\<lparr>st_retrieval_round := Some 2\<rparr>) = used_up sample_input"
    by (simp add: run_input_def used_up_def)
  have whose: "rr_user_id sample_qa_run = 5" "rr_project_id sample_qa_run = 1" "rr_business_mode sample_qa_run = MODE_QA"
    by (simp_all add: sample_qa_run_def)
  have routes: "st_route (used_up st3) = Some ''project_knowledge_qa''"
    by (simp add: used_up_def st2_def st3_def)
  have run_id: "st_run_id (used_up st5) = uuid_str 7" "counter (st_retrieval_round (used_up st5)) = 2"
    by (simp_all add: used_up_def st5_def st_defs counter_def)
  let ?st6 = "(used_up st5)\<lparr>st_route := Some ''refusal'', st_last_error_code := Some ''RETRIEVAL_ROUND_LIMIT''\<rparr>"
  let ?s6 = "answered_before (sample_store row1 [ev1, ev2, ev3, ev4, ev5] 5)"
  have again6: "retrieve_node sample_deps (used_up st5) ?s6 = (Inr ?st6, ?s6)"
    by (simp add: retrieve_node_def run_id)
  obtain st7 s7 where again7: "refuse_node sample_deps ?st6 ?s6 = (Inr st7, s7)"
    by (simp add: refuse_node_def save_answer_def run_id or_else_def answered_before_def bind_op_def Let_def)
  have "run_qa RECURSION_LIMIT (\<lambda>_. sample_deps) 1 LOAD_PROMPT (used_up sample_input)
      (answered_before (sample_store sample_row [] 0)) = Some (Inr st7, st7, s7)"
    by (simp add: RECURSION_LIMIT_def run_qa_step again1 again2 [unfolded One_nat_def] again3 again4 again5 again6 again7 routes
        after_project_selection_def after_retrieval_def)
  moreover have "authorize_project (qd_pick sample_deps) (qd_now sample_deps) 5 1 (qd_docs sample_deps) = Inr sample_ctx"
    using authorize_q by (simp add: sample_deps_def)
  ultimately show ?thesis
    using sample_commits by (simp add: execute_qa_def input whose) blast
qed

theorem exhausted_thread_refuses_witness:
  "\<exists>outcome checkpoint s' ans.
     execute_qa (\<lambda>_. sample_deps) sample_qa_run (empty_state\<lparr>st_retrieval_round := Some 2\<rparr>)
       (answered_before (sample_store sample_row [] 0)) = (Inr outcome, checkpoint, s') \<and>
     qb_requests s' = [] \<and> qb_citations s' = [old_citation] \<and>
     ans \<in> set (qb_answers s') \<and> aw_id ans = 60 \<and> aw_refusal_reason ans \<noteq> None"
proof -
  let ?s = "answered_before (sample_store sample_row [] 0)"
  obtain outcome checkpoint s' where e: "execute_qa (\<lambda>_. sample_deps) sample_qa_run (empty_state\<lparr>st_retrieval_round := Some 2\<rparr>) ?s =
      (Inr outcome, checkpoint, s')"
    using again_returns by (metis prod.collapse)
  have "2 \<le> counter (st_retrieval_round (empty_state\<lparr>st_retrieval_round := Some 2\<rparr>))"
    by (simp add: counter_def)
  from exhausted_thread_refuses [OF e this]
  obtain ans where "ans \<in> set (qb_answers s')" "aw_refusal_reason ans \<noteq> None"
      "\<forall>old\<in>set (qb_answers ?s). aw_run_id old = 7 \<longrightarrow> aw_id old = aw_id ans"
      "qb_requests s' = qb_requests ?s" "qb_citations s' = qb_citations ?s"
    by (auto simp: sample_qa_run_def)
  then show ?thesis using e by (auto simp: answered_before_def sample_store_def)
qed

section \<open>The bundle of the sample run\<close>

theorem governed_evidence_roundtrip_witness:
  "\<exists>fb. load_governed_evidence_bundle 108 (store8 (charged 1) [] 10) = (Inr fb, store8 (charged 1) [] 10) \<and>
    map fe_label (fb_evidence fb) = [''E1'']"
proof -
  have dates: "\<forall>e\<in>set (gp_evidence sample_pack). dates_ok e"
    by (simp add: sample_pack_def dates_ok_def sample_governed_def)
  have bundles: "snapshots_have_bundles (store6 (charged 1) [ev7] 8)"
    by (simp add: snapshots_have_bundles_def store6_def sample_candidate_def sample_bundle_row_def)
  from governed_evidence_roundtrip [OF pack_q dates save_q bundles]
  obtain fb where fb: "load_governed_evidence_bundle 108 (store8 (charged 1) [] 10) = (Inr fb, store8 (charged 1) [] 10)"
      "list_all2 (\<lambda>fe e. fe = frozen (\<lambda>_. ''h'') 1 (fe_snapshot_id fe) e) (fb_evidence fb) [sample_governed]"
    by (auto simp: sample_pack_def)
  have "fe_label fe = ''E1''" if "fe = frozen (\<lambda>_. ''h'') 1 (fe_snapshot_id fe) sample_governed" for fe
    by (subst that) (simp add: frozen_def sample_governed_def)
  then show ?thesis using fb by (auto simp: list_all2_Cons2)
qed

end
