(* ===== verification/IssueGraph.thy ===== *)
theory IssueGraph
  imports QAGraph Issues
begin

text \<open>
  The two graphs of the issue runs (\<open>agent/issue_run_graph.py\<close>, \<open>agent/issue_graph.py\<close>) with their nodes,
  and the executors that run them for a durable run (\<open>workers/run_graph.py\<close>, \<open>runtime/issue.py\<close>).

  An invocation works in one database session; the state \<open>issue_world\<close> holds what that session shows: the
  store of the graphs, and the issue workflow with its session, its idempotency table and its queue.

  The confirmation node interrupts the graph. LangGraph's documented behaviour is the model: the state and
  the node that is to run next are checkpointed under the thread; \<open>Command(resume=v)\<close> runs that node again
  from its beginning, and there \<open>interrupt\<close> returns \<open>v\<close>; an input that is a dictionary is merged into
  the saved state and starts the graph anew. What a resume does on a thread where no node of the graph
  is pending is a parameter (\<open>sd_idle\<close>), as is the ISO format of a time in an artifact.
\<close>

section \<open>Artifacts of the issue nodes\<close>

fun IssueCandidateAction_value :: "IssueCandidateAction \<Rightarrow> string" where
  "IssueCandidateAction_value VIEW_EXISTING = ''view_existing_issue''"
| "IssueCandidateAction_value LINK_EXISTING = ''link_existing_issue''"
| "IssueCandidateAction_value CONTINUE_CREATE = ''continue_create''"
| "IssueCandidateAction_value CANCEL_CREATE = ''cancel''"

definition IssueCandidateAction_of :: "string \<Rightarrow> IssueCandidateAction res" where
  "IssueCandidateAction_of s =
     (case find (\<lambda>a. IssueCandidateAction_value a = s)
        [VIEW_EXISTING, LINK_EXISTING, CONTINUE_CREATE, CANCEL_CREATE] of
        None \<Rightarrow> Inl (ValueError s) | Some a \<Rightarrow> Inr a)"

lemma IssueCandidateAction_of_value [simp]:
  "IssueCandidateAction_of (IssueCandidateAction_value a) = Inr a"
  by (cases a) (simp_all add: IssueCandidateAction_of_def)

definition as_float :: "json \<Rightarrow> rat res" where
  "as_float v = (case v of JFloat q \<Rightarrow> Inr q | JInt i \<Rightarrow> Inr (of_int i) | _ \<Rightarrow> Inl (ValueError ''float_type''))"

definition opt_float :: "rat option \<Rightarrow> json" where
  "opt_float v = (case v of None \<Rightarrow> JNull | Some q \<Rightarrow> JFloat q)"

definition dump_candidate_query :: "IssueCandidateQuery \<Rightarrow> payload" where
  "dump_candidate_query q =
     [(''project_id'', JStr (cq_project_id q)), (''title'', JStr (cq_title q)),
      (''description'', JStr (cq_description q)), (''error_code'', opt_str (cq_error_code q)),
      (''module'', opt_str (cq_module q)), (''statuses'', of_strs (cq_statuses q)),
      (''semantic_scores'', JObj (map (\<lambda>(k, x). (k, JFloat x)) (cq_semantic_scores q))),
      (''limit'', JInt (cq_limit q))]"

definition dump_candidate :: "(datetime \<Rightarrow> string) \<Rightarrow> IssueCandidate \<Rightarrow> payload" where
  "dump_candidate show_time c =
     [(''project_id'', JStr (ic_project_id c)), (''issue_key'', JStr (ic_issue_key c)),
      (''title'', JStr (ic_title c)), (''description'', JStr (ic_description c)),
      (''status'', JStr (ic_status c)), (''issue_type'', JStr (ic_issue_type c)),
      (''priority'', JStr (ic_priority c)), (''module'', opt_str (ic_module c)),
      (''error_code'', opt_str (ic_error_code c)), (''environment'', opt_str (ic_environment c)),
      (''created_at'', opt_str (map_option show_time (ic_created_at c))), (''score'', JFloat (ic_score c)),
      (''reasons'', of_strs (ic_reasons c)), (''semantic_score'', opt_float (ic_semantic_score c))]"

definition dump_candidates :: "(datetime \<Rightarrow> string) \<Rightarrow> IssueCandidateResult \<Rightarrow> payload" where
  "dump_candidates show_time r =
     [(''query'', JObj (dump_candidate_query (cr_query r))),
      (''possible_duplicates'', JArr (map (\<lambda>c. JObj (dump_candidate show_time c)) (cr_possible_duplicates r))),
      (''user_options'', JArr (map (\<lambda>a. JStr (IssueCandidateAction_value a)) (cr_user_options r)))]"

definition load_candidate_query :: "payload \<Rightarrow> IssueCandidateQuery res" where
  "load_candidate_query p =
     bind_res (required p ''project_id'' as_nonempty_str) (\<lambda>project_id.
     bind_res (required p ''title'' as_nonempty_str) (\<lambda>title.
     bind_res (required p ''description'' as_nonempty_str) (\<lambda>description.
     bind_res (defaulted p ''error_code'' None (as_opt as_str)) (\<lambda>error_code.
     bind_res (defaulted p ''module'' None (as_opt as_str)) (\<lambda>modul.
     bind_res (defaulted p ''statuses'' [] (as_list as_str)) (\<lambda>statuses.
     bind_res (defaulted p ''semantic_scores'' [] (as_obj
         (map_res (\<lambda>(k, v). bind_res (as_float v) (\<lambda>x. Inr (k, x)))))) (\<lambda>scores.
     bind_res (defaulted p ''limit'' 5 as_int) (\<lambda>limit.
       if limit < 1 \<or> 20 < limit then Inl (ValueError ''limit'')
       else Inr \<lparr>cq_project_id = project_id, cq_title = title, cq_description = description,
              cq_error_code = error_code, cq_module = modul, cq_statuses = statuses,
              cq_semantic_scores = scores, cq_limit = limit\<rparr>))))))))"

definition load_issue_candidate :: "(string \<Rightarrow> datetime res) \<Rightarrow> payload \<Rightarrow> IssueCandidate res" where
  "load_issue_candidate read_time p =
     bind_res (required p ''project_id'' as_str) (\<lambda>project_id.
     bind_res (required p ''issue_key'' as_str) (\<lambda>issue_key.
     bind_res (required p ''title'' as_str) (\<lambda>title.
     bind_res (required p ''description'' as_str) (\<lambda>description.
     bind_res (required p ''status'' as_str) (\<lambda>status.
     bind_res (required p ''issue_type'' as_str) (\<lambda>issue_type.
     bind_res (required p ''priority'' as_str) (\<lambda>priority.
     bind_res (defaulted p ''module'' None (as_opt as_str)) (\<lambda>modul.
     bind_res (defaulted p ''error_code'' None (as_opt as_str)) (\<lambda>error_code.
     bind_res (defaulted p ''environment'' None (as_opt as_str)) (\<lambda>environment.
     bind_res (defaulted p ''created_at'' None (as_opt (\<lambda>v. bind_res (as_str v) read_time))) (\<lambda>created_at.
     bind_res (required p ''score'' as_float) (\<lambda>score.
     bind_res (required p ''reasons'' (as_list as_str)) (\<lambda>reasons.
     bind_res (defaulted p ''semantic_score'' None (as_opt as_float)) (\<lambda>semantic.
       Inr \<lparr>ic_project_id = project_id, ic_issue_key = issue_key, ic_title = title,
            ic_description = description, ic_status = status, ic_issue_type = issue_type,
            ic_priority = priority, ic_module = modul, ic_error_code = error_code,
            ic_environment = environment, ic_created_at = created_at, ic_score = score,
            ic_reasons = reasons, ic_semantic_score = semantic\<rparr>))))))))))))))"

definition load_candidates :: "(string \<Rightarrow> datetime res) \<Rightarrow> payload \<Rightarrow> IssueCandidateResult res" where
  "load_candidates read_time p =
     bind_res (required p ''query'' (as_obj load_candidate_query)) (\<lambda>q.
     bind_res (required p ''possible_duplicates'' (as_list (as_obj (load_issue_candidate read_time)))) (\<lambda>found.
     bind_res (defaulted p ''user_options'' [VIEW_EXISTING, LINK_EXISTING, CONTINUE_CREATE, CANCEL_CREATE]
         (as_list (\<lambda>v. bind_res (as_str v) IssueCandidateAction_of))) (\<lambda>options.
       Inr \<lparr>cr_query = q, cr_possible_duplicates = found, cr_user_options = options\<rparr>)))"

definition dump_link :: "IssueCandidateLink \<Rightarrow> payload" where
  "dump_link l =
     [(''issue_key'', JStr (cl_issue_key l)), (''rank'', JInt (cl_rank l)),
      (''score'', opt_float (cl_score l)), (''reasons'', of_strs (cl_reasons l))]"

definition dump_confirmation :: "(datetime \<Rightarrow> string) \<Rightarrow> ConfirmationRequest \<Rightarrow> payload" where
  "dump_confirmation show_time c =
     [(''draft_id'', JStr (uuid_str (cf_draft_id c))), (''tool_name'', JStr (cf_tool_name c)),
      (''request_id'', JStr (cf_request_id c)),
      (''request_payload_hash'', JStr (cf_request_payload_hash c)),
      (''expires_at'', JStr (show_time (cf_expires_at c))), (''title'', JStr (cf_title c)),
      (''description'', JStr (cf_description c)), (''issue_type'', JStr (cf_issue_type c)),
      (''priority'', JStr (cf_priority c)), (''module'', opt_str (cf_module c)),
      (''error_code'', opt_str (cf_error_code c)), (''environment'', opt_str (cf_environment c)),
      (''evidence_ids'', of_strs (cf_evidence_ids c)),
      (''possible_duplicates'', JArr (map (\<lambda>l. JObj (dump_link l)) (cf_possible_duplicates c)))]"

fun IssueCreationStatus_value :: "IssueCreationStatus \<Rightarrow> string" where
  "IssueCreationStatus_value CS_CREATED = ''CREATED''"
| "IssueCreationStatus_value ALREADY_CREATED = ''ALREADY_CREATED''"
| "IssueCreationStatus_value PENDING_RECONCILIATION = ''PENDING_RECONCILIATION''"
| "IssueCreationStatus_value RECONCILED = ''RECONCILED''"

definition dump_outcome :: "IssueCreationOutcome \<Rightarrow> payload" where
  "dump_outcome out =
     [(''status'', JStr (IssueCreationStatus_value (oc_status out))),
      (''draft_id'', JStr (uuid_str (oc_draft_id out))), (''request_id'', JStr (oc_request_id out)),
      (''issue_key'', opt_str (oc_issue_key out)), (''issue_status'', opt_str (oc_issue_status out))]"

section \<open>State and surroundings of an invocation\<close>

record issue_world =
  iw_qa :: qa_db
  iw_sys :: issue_sys

type_synonym 'a world_op = "('a, issue_world) op"

definition on_qa :: "'a qa_op \<Rightarrow> 'a world_op" where
  "on_qa m w = (case m (iw_qa w) of (r, q) \<Rightarrow> (r, w\<lparr>iw_qa := q\<rparr>))"

definition on_sys :: "'a issue_op \<Rightarrow> 'a world_op" where
  "on_sys m w = (case m (iw_sys w) of (r, s) \<Rightarrow> (r, w\<lparr>iw_sys := s\<rparr>))"

record issue_deps =
  sd_qa :: qa_deps
  sd_issue :: issue_env
  sd_today :: date
  sd_show_time :: "datetime \<Rightarrow> string"
  sd_read_time :: "string \<Rightarrow> datetime res"

text \<open>The two strings of the resume command that the executor builds.\<close>

type_synonym resume_value = "string \<times> string"

section \<open>The nodes\<close>

definition refuse_with :: "string \<Rightarrow> AgentState \<Rightarrow> AgentState" where
  "refuse_with code st = st\<lparr>st_route := Some ''refusal'', st_last_error_code := Some code\<rparr>"

definition search_issues_node :: "issue_deps \<Rightarrow> AgentState \<Rightarrow> AgentState world_op" where
  "search_issues_node d st =
     (if \<not> given (st_project_id st)
      then return_op (st\<lparr>st_route := Some ''clarification'', st_last_error_code := Some ''PROJECT_REQUIRED''\<rparr>)
      else if \<not> given (st_access_scope_id st) then return_op (refuse_with ''PROJECT_SCOPE_REQUIRED'' st)
      else bind_op (on_qa (load_context_of st)) (\<lambda>ctx.
        case need_project st of
          Inl _ \<Rightarrow> return_op (refuse_with ''INVALID_PROJECT_ID'' st)
        | Inr project_id \<Rightarrow>
            if project_id \<notin> set (sc_allowed_project_ids (cx_scope ctx))
            then return_op (refuse_with ''PROJECT_ACCESS_DENIED'' st)
            else bind_op (of_res (UUID (st_run_id st))) (\<lambda>run_id.
              bind_op (on_qa (qa_load_query run_id)) (\<lambda>query.
              bind_op (on_sys (tracker_op (read_op
                  (find_candidates_from_text (the (st_project_id st)) query 5 [])))) (\<lambda>found.
              bind_op (on_qa (qa_save_artifact run_id ''ISSUE_CANDIDATES''
                  (dump_candidates (sd_show_time d) found))) (\<lambda>artifact_id.
                return_op (st\<lparr>st_issue_candidate_id := Some (uuid_str artifact_id),
                  st_route := Some ''issue_candidates'', st_last_error_code := None\<rparr>)))))))"

definition retrieve_issue_evidence_node :: "issue_deps \<Rightarrow> AgentState \<Rightarrow> AgentState qa_op" where
  "retrieve_issue_evidence_node d st =
     (if \<not> given (st_project_id st) \<or> \<not> given (st_access_scope_id st)
      then return_op (refuse_with ''EVIDENCE_REQUIRED'' st)
      else bind_op (of_res (UUID (st_run_id st))) (\<lambda>run_id.
        bind_op (of_res (need_project st)) (\<lambda>project_id.
        bind_op (load_context_of st) (\<lambda>ctx.
        bind_op (qa_load_query run_id) (\<lambda>query.
        bind_op (of_res (select_document_version_ids (sd_today d) project_id ctx (qd_docs (sd_qa d)))) (\<lambda>ids.
          if ids = [] then return_op (refuse_with ''EVIDENCE_REQUIRED'' st)
          else bind_op (of_res (constrain_retrieval
              \<lparr>rq_project_id = cx_project_code ctx, rq_query = query, rq_limit = 10,
               rq_document_version_ids = map uuid_str ids, rq_knowledge_space_ids = []\<rparr> ctx)) (\<lambda>constrained.
            case constrained of
              None \<Rightarrow> return_op (refuse_with ''EVIDENCE_REQUIRED'' st)
            | Some request \<Rightarrow>
                bind_op (increment_retrieval_rounds run_id) (\<lambda>_.
                bind_op (ask_provider (sd_qa d) request) (\<lambda>found.
                bind_op (of_res (pack 8 (qd_today (sd_qa d)) project_id (cx_project_code ctx)
                    (postfilter_evidence found ctx) (qd_docs (sd_qa d)))) (\<lambda>packed.
                  let pk = packed\<lparr>gp_evidence := filter (\<lambda>item.
                        ge_document_category item \<in> set ALLOWED_CATEGORIES) (gp_evidence packed)\<rparr>
                  in if gp_evidence pk = [] then return_op (refuse_with ''EVIDENCE_REQUIRED'' st)
                     else bind_op (save_governed_evidence_bundle (qd_sha (sd_qa d)) run_id project_id query pk)
                       (\<lambda>bundle_id. return_op (st\<lparr>st_evidence_bundle_id := Some (uuid_str bundle_id),
                          st_route := Some ''issue_evidence_ready'', st_last_error_code := None\<rparr>)))))))))))) "

text \<open>\<open>if candidate_id\<close> and \<open>if bundle_id\<close>: an artifact that the thread names is read, one that it does not name is not.\<close>

definition if_given :: "string option \<Rightarrow> 'a \<Rightarrow> (uuid \<Rightarrow> 'a qa_op) \<Rightarrow> 'a qa_op" where
  "if_given v absent f =
     (if given v then bind_op (of_res (UUID (the v))) f else return_op absent)"

definition build_issue_draft_node :: "issue_deps \<Rightarrow> AgentState \<Rightarrow> AgentState world_op" where
  "build_issue_draft_node d st =
     (if \<not> given (st_project_id st) then return_op (refuse_with ''PROJECT_REQUIRED'' st)
      else if \<not> given (st_access_scope_id st) then return_op (refuse_with ''PROJECT_SCOPE_REQUIRED'' st)
      else bind_op (of_res (UUID (st_run_id st))) (\<lambda>run_id.
        bind_op (on_qa (qa_load_query run_id)) (\<lambda>query.
        bind_op (on_qa (if_given (st_issue_candidate_id st) None (\<lambda>artifact_id.
            bind_op (qa_load_artifact artifact_id) (\<lambda>payload.
            bind_op (of_res (load_candidates (sd_read_time d) payload)) (\<lambda>r. return_op (Some r))))))
          (\<lambda>candidates.
        bind_op (on_qa (if_given (st_evidence_bundle_id st) [] (\<lambda>bundle_id.
            bind_op (load_governed_evidence_bundle bundle_id) (\<lambda>frozen.
              return_op (map (\<lambda>item. uuid_str (fe_snapshot_id item)) (fb_evidence frozen)))))) (\<lambda>evidence_ids.
        bind_op (of_res (need_project st)) (\<lambda>project_id.
        bind_op (of_res (UUID (st_user_id st))) (\<lambda>user_id.
        bind_op (on_sys (create_from_text (sd_issue d) run_id project_id user_id query candidates evidence_ids))
          (\<lambda>draft. return_op (st\<lparr>st_issue_draft_id := Some (uuid_str (dr_id draft)),
             st_route := Some ''confirm_issue_create'', st_last_error_code := None\<rparr>)))))))))"

text \<open>
  The confirmation node: without a resume value it interrupts, with the dump of the confirmation request
  (\<open>Inl\<close>); with one it records the decision.
\<close>

definition decide :: "issue_deps \<Rightarrow> uuid \<Rightarrow> resume_value \<Rightarrow> AgentState \<Rightarrow> AgentState world_op" where
  "decide d draft_id resume st =
     (case ConfirmationAction_of (fst resume) of
        Inl _ \<Rightarrow> return_op (refuse_with ''INVALID_CONFIRMATION_ACTION'' st)
      | Inr action \<Rightarrow>
          bind_op (of_res (UUID (st_user_id st))) (\<lambda>actor_id.
            try_op (on_sys (record_decision (sd_issue d) draft_id actor_id action (snd resume)))
              (\<lambda>e. if e = ConfirmationPayloadMismatch
                   then return_op (refuse_with ''CONFIRMATION_PAYLOAD_MISMATCH'' st)
                   else if e = ConfirmationExpired then return_op (refuse_with ''CONFIRMATION_EXPIRED'' st)
                   else raise_op e)
              (\<lambda>receipt. return_op (st\<lparr>st_tool_confirmation_id := Some (uuid_str (rc_id receipt)),
                 st_route := Some (case action of CANCEL \<Rightarrow> ''cancelled'' | CONFIRM \<Rightarrow> ''execute_issue_create''),
                 st_last_error_code := None\<rparr>))))"

definition confirm_issue_create_node ::
  "issue_deps \<Rightarrow> resume_value option \<Rightarrow> AgentState \<Rightarrow> (payload + AgentState) world_op" where
  "confirm_issue_create_node d resume st =
     (if \<not> given (st_issue_draft_id st) then return_op (Inr (refuse_with ''ISSUE_DRAFT_REQUIRED'' st))
      else bind_op (of_res (UUID (the (st_issue_draft_id st)))) (\<lambda>draft_id.
        bind_op (on_sys (db_op (read_op (prepare_confirmation (sd_issue d) draft_id)))) (\<lambda>prepared.
          case resume of
            None \<Rightarrow> return_op (Inl (dump_confirmation (sd_show_time d) prepared))
          | Some v \<Rightarrow> bind_op (decide d draft_id v st) (\<lambda>st'. return_op (Inr st')))))"

fun is_creation_denied :: "exn \<Rightarrow> bool" where
  "is_creation_denied (IssueCreationDenied _) = True"
| "is_creation_denied _ = False"

definition execute_issue_create_node :: "issue_deps \<Rightarrow> AgentState \<Rightarrow> AgentState world_op" where
  "execute_issue_create_node d st =
     (if \<not> given (st_issue_draft_id st) \<or> \<not> given (st_tool_confirmation_id st)
      then return_op (refuse_with ''CONFIRMATION_REQUIRED'' st)
      else bind_op (of_res (UUID (the (st_issue_draft_id st)))) (\<lambda>draft_id.
        bind_op (of_res (UUID (the (st_tool_confirmation_id st)))) (\<lambda>confirmation_id.
        bind_op (of_res (UUID (st_user_id st))) (\<lambda>actor_id.
          try_op (on_sys (execute_creation (sd_issue d) draft_id confirmation_id actor_id))
            (\<lambda>e. if is_creation_denied e then return_op (refuse_with (exn_name e) st) else raise_op e)
            (\<lambda>out.
              bind_op (of_res (UUID (st_run_id st))) (\<lambda>run_id.
              bind_op (on_qa (qa_save_artifact run_id ''ISSUE_CREATE_RESULT'' (dump_outcome out))) (\<lambda>artifact_id.
                return_op (st\<lparr>st_issue_creation_id := Some (uuid_str artifact_id),
                  st_route := Some (if oc_status out = PENDING_RECONCILIATION then ''issue_create_pending''
                                    else ''issue_created''),
                  st_last_error_code := None\<rparr>))))))))"

section \<open>The graphs\<close>

datatype issue_node = I_SCOPE | I_EVIDENCE | I_SEARCH | I_BUILD | I_CONFIRM | I_EXECUTE

definition plain_node :: "AgentState world_op \<Rightarrow> (payload + AgentState) world_op" where
  "plain_node m = bind_op m (\<lambda>st. return_op (Inr st))"

fun issue_node_op ::
  "issue_node \<Rightarrow> issue_deps \<Rightarrow> resume_value option \<Rightarrow> AgentState \<Rightarrow> (payload + AgentState) world_op" where
  "issue_node_op I_SCOPE d resume st = plain_node (on_qa (resolve_scope_node (sd_qa d) st))"
| "issue_node_op I_EVIDENCE d resume st = plain_node (on_qa (retrieve_issue_evidence_node d st))"
| "issue_node_op I_SEARCH d resume st = plain_node (search_issues_node d st)"
| "issue_node_op I_BUILD d resume st = plain_node (build_issue_draft_node d st)"
| "issue_node_op I_CONFIRM d resume st = confirm_issue_create_node d resume st"
| "issue_node_op I_EXECUTE d resume st = plain_node (execute_issue_create_node d st)"

text \<open>\<open>None\<close> is \<open>END\<close>.\<close>

definition after_issue_evidence :: "AgentState \<Rightarrow> issue_node option" where
  "after_issue_evidence st = (if st_route st = Some ''issue_evidence_ready'' then Some I_SEARCH else None)"

definition after_confirmation :: "AgentState \<Rightarrow> issue_node option" where
  "after_confirmation st = (if st_route st = Some ''execute_issue_create'' then Some I_EXECUTE else None)"

fun create_next :: "issue_node \<Rightarrow> AgentState \<Rightarrow> issue_node option" where
  "create_next I_SCOPE st = Some I_EVIDENCE"
| "create_next I_EVIDENCE st = after_issue_evidence st"
| "create_next I_SEARCH st = Some I_BUILD"
| "create_next I_BUILD st = Some I_CONFIRM"
| "create_next I_CONFIRM st = after_confirmation st"
| "create_next I_EXECUTE st = None"

fun lookup_next :: "issue_node \<Rightarrow> AgentState \<Rightarrow> issue_node option" where
  "lookup_next I_SCOPE st = Some I_SEARCH"
| "lookup_next _ st = None"

text \<open>The checkpoint of a thread: the last state, and the node of the graph that is to run next.\<close>

record checkpoint =
  ck_state :: AgentState
  ck_pending :: "issue_node option"

text \<open>Only the node with which an invocation begins sees its resume value.\<close>

fun run_issue ::
  "nat \<Rightarrow> (issue_node \<Rightarrow> AgentState \<Rightarrow> issue_node option) \<Rightarrow> (nat \<Rightarrow> issue_deps) \<Rightarrow> nat \<Rightarrow>
   resume_value option \<Rightarrow> issue_node \<Rightarrow> AgentState \<Rightarrow> issue_world \<Rightarrow>
   ((payload + AgentState) res \<times> checkpoint \<times> issue_world) option" where
  "run_issue 0 edges deps k resume node st w = None"
| "run_issue (Suc fuel) edges deps k resume node st w =
     (case issue_node_op node (deps k) resume st w of
        (Inl e, w') \<Rightarrow> Some (Inl e, \<lparr>ck_state = st, ck_pending = Some node\<rparr>, w')
      | (Inr (Inl waiting), w') \<Rightarrow>
          Some (Inr (Inl waiting), \<lparr>ck_state = st, ck_pending = Some node\<rparr>, w')
      | (Inr (Inr st'), w') \<Rightarrow>
          (case edges node st' of
             None \<Rightarrow> Some (Inr (Inr st'), \<lparr>ck_state = st', ck_pending = None\<rparr>, w')
           | Some next_node \<Rightarrow> run_issue fuel edges deps (Suc k) None next_node st' w'))"

section \<open>workers/run_graph.py and runtime/issue.py\<close>

definition waiting_outcome_of :: "payload \<Rightarrow> RunGraphOutcome" where
  "waiting_outcome_of waiting =
     \<lparr>ro_kind = OUT_WAITING_CONFIRMATION, ro_result_ref = None, ro_summary = None,
      ro_waiting_payload = Some waiting\<rparr>"

definition project_result :: "payload + AgentState \<Rightarrow> RunGraphOutcome" where
  "project_result r = (case r of Inl waiting \<Rightarrow> waiting_outcome_of waiting | Inr st \<Rightarrow> project_state st)"

definition graph_edges :: "RunBusinessMode \<Rightarrow> (issue_node \<Rightarrow> AgentState \<Rightarrow> issue_node option) option" where
  "graph_edges mode =
     (case mode of ISSUE_LOOKUP \<Rightarrow> Some lookup_next | ISSUE_CREATE \<Rightarrow> Some create_next | _ \<Rightarrow> None)"

fun in_graph :: "RunBusinessMode \<Rightarrow> issue_node \<Rightarrow> bool" where
  "in_graph ISSUE_LOOKUP node \<longleftrightarrow> node \<in> {I_SCOPE, I_SEARCH}"
| "in_graph _ node \<longleftrightarrow> True"

text \<open>
  The surroundings of one invocation: what each step reads, whether the knowledge adapter binds spaces,
  what LangGraph does with a resume when nothing is pending, and whether the commit succeeds.
\<close>

record invocation =
  iv_deps :: "nat \<Rightarrow> issue_deps"
  iv_binds :: bool
  iv_idle :: "AgentState \<Rightarrow> AgentState res"
  iv_commit_ok :: bool

definition bind_authorized_knowledge_spaces :: "invocation \<Rightarrow> RunRecord \<Rightarrow> unit res" where
  "bind_authorized_knowledge_spaces iv run =
     (if rr_business_mode run \<noteq> ISSUE_CREATE \<or> \<not> iv_binds iv then Inr ()
      else let d = sd_qa (iv_deps iv 0)
        in bind_res (authorize_project (qd_pick d) (qd_now d) (rr_user_id run) (rr_project_id run) (qd_docs d))
             (\<lambda>_. Inr ()))"

text \<open>\<open>LangGraphRunExecutor.execute\<close> and \<open>resume\<close>, on the checkpoint of the thread.\<close>

definition graph_execute ::
  "invocation \<Rightarrow> RunRecord \<Rightarrow> checkpoint \<Rightarrow> issue_world \<Rightarrow> RunGraphOutcome res \<times> checkpoint \<times> issue_world" where
  "graph_execute iv run saved w =
     (case graph_edges (rr_business_mode run) of
        None \<Rightarrow> (Inl RunGraphUnavailable, saved, w)
      | Some edges \<Rightarrow>
          (case run_issue RECURSION_LIMIT edges (iv_deps iv) 1 None I_SCOPE (run_input run (ck_state saved)) w of
             None \<Rightarrow> (Inl (RuntimeError ''GraphRecursionError''), saved, w)
           | Some (Inl e, c, w') \<Rightarrow> (Inl e, c, w')
           | Some (Inr r, c, w') \<Rightarrow> (Inr (project_result r), c, w')))"

definition resume_value_of :: "payload \<Rightarrow> resume_value res" where
  "resume_value_of p =
     (case (str_field p ''action'', str_field p ''request_payload_hash'') of
        (Some action, Some h) \<Rightarrow> Inr (action, h)
      | _ \<Rightarrow> Inl RunGraphContractError)"

definition graph_resume ::
  "invocation \<Rightarrow> RunRecord \<Rightarrow> payload \<Rightarrow> checkpoint \<Rightarrow> issue_world \<Rightarrow>
   RunGraphOutcome res \<times> checkpoint \<times> issue_world" where
  "graph_resume iv run resume_payload saved w =
     (case graph_edges (rr_business_mode run) of
        None \<Rightarrow> (Inl RunGraphUnavailable, saved, w)
      | Some edges \<Rightarrow>
          (case resume_value_of resume_payload of
             Inl e \<Rightarrow> (Inl e, saved, w)
           | Inr v \<Rightarrow>
               (case ck_pending saved of
                  Some node \<Rightarrow>
                    if in_graph (rr_business_mode run) node
                    then (case run_issue RECURSION_LIMIT edges (iv_deps iv) 1 (Some v) node (ck_state saved) w of
                            None \<Rightarrow> (Inl (RuntimeError ''GraphRecursionError''), saved, w)
                          | Some (Inl e, c, w') \<Rightarrow> (Inl e, c, w')
                          | Some (Inr r, c, w') \<Rightarrow> (Inr (project_result r), c, w'))
                    else (map_sum id project_state (iv_idle iv (ck_state saved)), saved, w)
                | None \<Rightarrow> (map_sum id project_state (iv_idle iv (ck_state saved)), saved, w))))"

text \<open>
  \<open>_invoke\<close>: a session of its own, committed when the graph returns or is interrupted, rolled back when
  anything raises. The idempotency table, the queue, the checkpoint and the requests to the provider are
  not part of it.
\<close>

definition open_world :: "issue_world \<Rightarrow> issue_world" where
  "open_world w = w\<lparr>iw_sys := (iw_sys w)\<lparr>is_session := begin_session (committed (is_session (iw_sys w)))\<rparr>\<rparr>"

definition roll_world :: "issue_world \<Rightarrow> issue_world \<Rightarrow> issue_world" where
  "roll_world before after =
     \<lparr>iw_qa = rolled_back (iw_qa before) (iw_qa after),
      iw_sys = (iw_sys after)\<lparr>is_session := rollback (is_session (iw_sys after))\<rparr>\<rparr>"

definition close_world ::
  "bool \<Rightarrow> issue_world \<Rightarrow> RunGraphOutcome res \<times> checkpoint \<times> issue_world \<Rightarrow>
   RunGraphOutcome res \<times> checkpoint \<times> issue_world" where
  "close_world commit_ok before result =
     (case result of
        (Inl e, c, w) \<Rightarrow> (Inl e, c, roll_world before w)
      | (Inr out, c, w) \<Rightarrow>
          if commit_ok
          then (Inr out, c, w\<lparr>iw_sys := (iw_sys w)\<lparr>is_session := commit (is_session (iw_sys w))\<rparr>\<rparr>)
          else (Inl OSError, c, roll_world before w))"

definition invoke_issue ::
  "invocation \<Rightarrow> RunRecord \<Rightarrow> payload option \<Rightarrow> checkpoint \<Rightarrow> issue_world \<Rightarrow>
   RunGraphOutcome res \<times> checkpoint \<times> issue_world" where
  "invoke_issue iv run resume_payload saved w =
     (let w0 = open_world w
      in close_world (iv_commit_ok iv) w0
        (case bind_authorized_knowledge_spaces iv run of
           Inl e \<Rightarrow> (Inl e, saved, w0)
         | Inr _ \<Rightarrow>
             (case resume_payload of
                None \<Rightarrow> graph_execute iv run saved w0
              | Some p \<Rightarrow> graph_resume iv run p saved w0)))"

end
