(* ===== verification/IssueProofs.thy ===== *)
theory IssueProofs
  imports Issues
begin

text \<open>
  Properties of the issue workflow. First the text that is hashed for a confirmation: it determines
  the request. Then the contract of a project tracker as a locale, which the sandbox tracker meets,
  also when its answer is lost. Then the invariant of the whole workflow over arbitrary sequences of
  service calls, commits and rollbacks: an issue exists only for a draft that a user confirmed and
  was allowed to create, at most once, and with the confirmed content. Last the behaviour of
  repeated calls, and what is lost when a commit fails after the idempotency record was completed.
\<close>

section \<open>The hashed text determines the request\<close>

lemma hex2_inject:
  assumes "m < 32" and "n < 32" and "hex_digits 2 m = hex_digits 2 n"
  shows "m = n"
proof -
  have "int16_digits 0 (hex_digits 2 m) = int16_digits 0 (hex_digits 2 n)" using assms(3) by simp
  then show ?thesis using assms(1,2) by (simp add: int16_digits_hex)
qed

definition short_esc :: "char \<Rightarrow> char option" where
  "short_esc c = map_of [(CHR 0x22, CHR 0x22), (CHR 0x5C, CHR 0x5C), (CHR 0x0A, CHR ''n''),
     (CHR 0x0D, CHR ''r''), (CHR 0x09, CHR ''t''), (CHR 0x0C, CHR ''f''), (CHR 0x08, CHR ''b'')] c"

lemma json_esc_forms:
  "json_esc c = (case short_esc c of
      Some x \<Rightarrow> [CHR 0x5C, x]
    | None \<Rightarrow> if (of_char c :: nat) < 32 then CHR 0x5C # ''u00'' @ hex_digits 2 (of_char c) else [c])"
  by (simp add: json_esc_def short_esc_def)

lemma short_esc_inject: "short_esc c = Some x \<Longrightarrow> short_esc d = Some x \<Longrightarrow> c = d"
  by (auto simp: short_esc_def split: if_splits)

lemma short_esc_not_u: "short_esc c \<noteq> Some (CHR ''u'')"
  by (auto simp: short_esc_def split: if_splits)

lemma short_esc_None: "short_esc c = None \<Longrightarrow> c \<noteq> CHR 0x22 \<and> c \<noteq> CHR 0x5C"
  by (auto simp: short_esc_def)

lemma json_esc_not_quote: "json_esc c @ u \<noteq> CHR 0x22 # v"
  using short_esc_None [of c] by (simp add: json_esc_forms split: option.split)

lemma json_esc_prefix:
  assumes "json_esc c @ u = json_esc d @ v"
  shows "c = d \<and> u = v"
proof (cases "short_esc c")
  case c: None
  show ?thesis
  proof (cases "short_esc d")
    case None
    then show ?thesis
      using assms c short_esc_None [OF c] short_esc_None [OF None]
        hex2_inject [of "of_char c" "of_char d"]
      by (auto simp: json_esc_forms split: if_splits)
  next
    case (Some y)
    then show ?thesis
      using assms c short_esc_None [OF c] short_esc_not_u [of d]
      by (auto simp: json_esc_forms split: if_splits)
  qed
next
  case c: (Some x)
  show ?thesis
  proof (cases "short_esc d")
    case None
    then show ?thesis
      using assms c short_esc_None [OF None] short_esc_not_u [of c]
      by (auto simp: json_esc_forms split: if_splits)
  next
    case (Some y)
    then show ?thesis using assms c short_esc_inject by (auto simp: json_esc_forms)
  qed
qed

lemma json_body_prefix:
  "concat (map json_esc s) @ CHR 0x22 # u = concat (map json_esc t) @ CHR 0x22 # v
    \<Longrightarrow> s = t \<and> u = v"
proof (induction s arbitrary: t)
  case Nil
  show ?case
  proof (cases t)
    case (Cons d t')
    then have "json_esc d @ (concat (map json_esc t') @ CHR 0x22 # v) = CHR 0x22 # u"
      using Nil by simp
    then show ?thesis using json_esc_not_quote by blast
  qed (use Nil in auto)
next
  case (Cons c s)
  show ?case
  proof (cases t)
    case Nil
    then have "json_esc c @ (concat (map json_esc s) @ CHR 0x22 # u) = CHR 0x22 # v"
      using Cons.prems by simp
    then show ?thesis using json_esc_not_quote by blast
  next
    case t: (Cons d t')
    from Cons.prems have "json_esc c @ (concat (map json_esc s) @ CHR 0x22 # u)
        = json_esc d @ (concat (map json_esc t') @ CHR 0x22 # v)"
      by (simp add: t)
    then show ?thesis using json_esc_prefix Cons.IH t by blast
  qed
qed

lemma json_quote_append [simp]: "json_quote s @ u = json_quote t @ v \<longleftrightarrow> s = t \<and> u = v"
  using json_body_prefix [of s u t v] by (auto simp: json_quote_def)

lemma json_quote_inject [simp]: "json_quote s = json_quote t \<longleftrightarrow> s = t"
  using json_quote_append [of s "[]" t "[]"] by simp

lemma json_opt_append [simp]: "json_opt a @ u = json_opt b @ v \<longleftrightarrow> a = b \<and> u = v"
  by (auto simp: json_opt_def split: option.splits) (auto simp: json_quote_def)

lemma payload_text_same: "payload_text r = payload_text q \<Longrightarrow> r = q"
  unfolding payload_text_def by (intro CreateIssueRequest.equality) simp_all

text \<open>The text whose hash a confirmation carries determines the request in all its fields: two
  requests with the same text are the same request.\<close>

theorem payload_text_injective: "payload_text r = payload_text q \<longleftrightarrow> r = q"
  by (auto dest: payload_text_same)

section \<open>The contract of a project tracker\<close>

text \<open>\<open>made_for req i\<close>: the issue is the one that the request asks for.\<close>

definition made_for :: "CreateIssueRequest \<Rightarrow> SandboxIssueModel \<Rightarrow> bool" where
  "made_for req i \<longleftrightarrow>
     UUID (xr_project_id req) = Inr (si_project_id i) \<and>
     si_client_request_id i = Some (xr_request_id req) \<and> UUID (xr_reporter_id req) = Inr (si_reporter_id i) \<and>
     si_title i = xr_title req \<and> si_description i = xr_description req \<and>
     si_issue_type i = xr_issue_type req \<and> si_priority i = xr_priority req \<and>
     si_module i = xr_module req \<and> si_environment i = xr_environment req"

definition same_request :: "SandboxIssueModel \<Rightarrow> SandboxIssueModel \<Rightarrow> bool" where
  "same_request i j \<longleftrightarrow> si_project_id i = si_project_id j \<and> si_client_request_id i = si_client_request_id j"

text \<open>
  What the creation service relies on: whether the call returns or raises, at most one issue was
  added, the one asked for, and only if there was none for the request; and what it returns is an
  issue for the request.
\<close>

locale issue_tracker =
  fixes create :: "CreateIssueRequest \<Rightarrow> (CreatedIssue, tracker_db) op"
  assumes create_adds: "create req t = (r, t') \<Longrightarrow>
      sandbox_issues t' = sandbox_issues t \<or>
      (\<exists>i. sandbox_issues t' = sandbox_issues t @ [i] \<and> made_for req i \<and>
         (\<forall>j\<in>set (sandbox_issues t). \<not> same_request j i))"
    and create_returns: "create req t = (Inr c, t') \<Longrightarrow>
      \<exists>i\<in>set (sandbox_issues t'). UUID (xr_project_id req) = Inr (si_project_id i) \<and>
        si_client_request_id i = Some (xr_request_id req) \<and> ci_issue_key c = si_issue_key i \<and>
        ci_status c = si_status i"
begin

lemma create_keeps_issues: "create req t = (r, t') \<Longrightarrow> set (sandbox_issues t) \<subseteq> set (sandbox_issues t')"
  using create_adds by fastforce

end

lemma project_uuid_Inr: "project_uuid s = Inr u \<longleftrightarrow> UUID s = Inr u"
  by (auto simp: project_uuid_def split: sum.splits)

lemma issues_of_request_member:
  "i \<in> set (issues_of_request p r t) \<longleftrightarrow>
     i \<in> set (sandbox_issues t) \<and> si_project_id i = p \<and> si_client_request_id i = Some r"
  by (auto simp: issues_of_request_def)

lemma get_issue_Some:
  assumes "get_issue_by_request_id p r t = Inr (Some c)"
  shows "\<exists>i\<in>set (sandbox_issues t). UUID p = Inr (si_project_id i) \<and> si_client_request_id i = Some r \<and>
    ci_issue_key c = si_issue_key i \<and> ci_status c = si_status i"
proof -
  obtain u where u: "UUID p = Inr u"
    and c: "(case issues_of_request u r t of [] \<Rightarrow> None
       | i # _ \<Rightarrow> Some \<lparr>ci_project_id = uuid_str (si_project_id i), ci_request_id = r,
                       ci_issue_key = si_issue_key i, ci_status = si_status i\<rparr>) = Some c"
    using assms by (auto simp: get_issue_by_request_id_def bind_res_Inr_iff project_uuid_Inr)
  then obtain i rest where i: "issues_of_request u r t = i # rest"
    by (cases "issues_of_request u r t") auto
  then have "i \<in> set (sandbox_issues t) \<and> si_project_id i = u \<and> si_client_request_id i = Some r"
    using issues_of_request_member by (metis list.set_intros(1))
  then show ?thesis using u c i by auto
qed

lemma insert_issue_cases:
  assumes "insert_issue row t = (r, t')"
  shows "(r \<noteq> Inr True \<and> t' = t) \<or>
    (r = Inr True \<and> t' = t\<lparr>sandbox_issues := sandbox_issues t @ [row]\<rparr> \<and>
     (\<forall>j\<in>set (sandbox_issues t). \<not> same_request j row))"
  using assms by (auto simp: insert_issue_def same_request_def split: if_splits)

lemma made_for_new_row:
  "UUID (xr_project_id req) = Inr p \<Longrightarrow> UUID (xr_reporter_id req) = Inr u \<Longrightarrow>
     made_for req (new_issue_row now mid p sp u req)"
  by (simp add: made_for_def new_issue_row_def)

text \<open>What the sandbox tracker does, by cases of its result.\<close>

lemma create_issue_cases:
  assumes "create_issue now mid eid req t = (r, t')"
  obtains (same) "sandbox_issues t' = sandbox_issues t"
      "\<forall>c. r = Inr c \<longrightarrow> get_issue_by_request_id (xr_project_id req) (xr_request_id req) t = Inr (Some c)"
  | (added) p sp u i where "UUID (xr_project_id req) = Inr p" "UUID (xr_reporter_id req) = Inr u"
      "i = new_issue_row now mid p sp u req" "sandbox_issues t' = sandbox_issues t @ [i]"
      "\<forall>j\<in>set (sandbox_issues t). \<not> same_request j i"
      "r = Inr \<lparr>ci_project_id = xr_project_id req, ci_request_id = xr_request_id req,
         ci_issue_key = si_issue_key i, ci_status = ''OPEN''\<rparr>"
proof (cases "get_issue_by_request_id (xr_project_id req) (xr_request_id req) t")
  case (Inl e)
  then show ?thesis using assms by (intro same) (auto simp: create_issue_def)
next
  case g: (Inr found)
  show ?thesis
  proof (cases found)
    case (Some c)
    then show ?thesis using assms g by (intro same) (auto simp: create_issue_def)
  next
    case None
    note g = g [unfolded None]
    show ?thesis
    proof (cases "\<exists>p sp u. UUID (xr_project_id req) = Inr p \<and> active_sandbox_project p t = Some sp \<and>
        UUID (xr_reporter_id req) = Inr u")
      case False
      then have "t' = t \<and> (\<forall>c. r \<noteq> Inr c)"
        using assms g
        by (auto simp: create_issue_def bind_of_res project_uuid_def the_or_def Let_def
            split: sum.splits option.splits)
      then show ?thesis by (intro same) auto
    next
      case True
      then obtain p sp u where *: "UUID (xr_project_id req) = Inr p" "active_sandbox_project p t = Some sp"
        "UUID (xr_reporter_id req) = Inr u" by blast
      let ?row = "new_issue_row now mid p sp u req"
      obtain b t1 where ins: "insert_issue ?row t = (b, t1)" by (cases "insert_issue ?row t") auto
      show ?thesis
      proof (cases "b = Inr True")
        case True
        then have t1: "t1 = t\<lparr>sandbox_issues := sandbox_issues t @ [?row]\<rparr>"
          and new: "\<forall>j\<in>set (sandbox_issues t). \<not> same_request j ?row"
          using insert_issue_cases [OF ins] by auto
        have "sandbox_issues t' = sandbox_issues t @ [?row]"
          and "r = Inr \<lparr>ci_project_id = xr_project_id req, ci_request_id = xr_request_id req,
             ci_issue_key = si_issue_key ?row, ci_status = ''OPEN''\<rparr>"
          using assms g * ins True t1 by (auto simp: create_issue_def project_uuid_def bind_op_def Let_def)
        then show ?thesis using * new by (intro added) auto
      next
        case False
        then have "t1 = t" using insert_issue_cases [OF ins] by auto
        then have "t' = t \<and> (\<forall>c. r \<noteq> Inr c)"
          using assms g * ins False
          by (auto simp: create_issue_def project_uuid_def bind_op_def Let_def split: sum.splits if_splits)
        then show ?thesis by (intro same) auto
      qed
    qed
  qed
qed

interpretation sandbox: issue_tracker "create_issue now mid eid" for now mid eid
proof
  fix req t r t' assume c: "create_issue now mid eid req t = (r, t')"
  show "sandbox_issues t' = sandbox_issues t \<or>
      (\<exists>i. sandbox_issues t' = sandbox_issues t @ [i] \<and> made_for req i \<and>
         (\<forall>j\<in>set (sandbox_issues t). \<not> same_request j i))"
    using c by (rule create_issue_cases) (auto intro: made_for_new_row)
next
  fix req t c t' assume c: "create_issue now mid eid req t = (Inr c, t')"
  show "\<exists>i\<in>set (sandbox_issues t'). UUID (xr_project_id req) = Inr (si_project_id i) \<and>
        si_client_request_id i = Some (xr_request_id req) \<and> ci_issue_key c = si_issue_key i \<and>
        ci_status c = si_status i"
    using c
  proof (rule create_issue_cases)
    assume "sandbox_issues t' = sandbox_issues t"
      "\<forall>c'. Inr c = Inr c' \<longrightarrow> get_issue_by_request_id (xr_project_id req) (xr_request_id req) t = Inr (Some c')"
    then show ?thesis using get_issue_Some by auto
  qed (auto simp: new_issue_row_def)
qed

text \<open>A tracker whose answer gets lost after it did its work.\<close>

definition lose_answer ::
  "(CreateIssueRequest \<Rightarrow> (CreatedIssue, tracker_db) op) \<Rightarrow> CreateIssueRequest \<Rightarrow> (CreatedIssue, tracker_db) op"
where
  "lose_answer create req t = (Inl TimeoutError, snd (create req t))"

context issue_tracker
begin

lemma lose_answer_tracker: "issue_tracker (lose_answer create)"
proof
  fix req t r t' assume "lose_answer create req t = (r, t')"
  then have "create req t = (fst (create req t), t')" by (auto simp: lose_answer_def)
  then show "sandbox_issues t' = sandbox_issues t \<or>
      (\<exists>i. sandbox_issues t' = sandbox_issues t @ [i] \<and> made_for req i \<and>
         (\<forall>j\<in>set (sandbox_issues t). \<not> same_request j i))"
    by (rule create_adds)
qed (simp add: lose_answer_def)

end

section \<open>Sequences of calls\<close>

text \<open>
  The steps of the workflow: the service calls, in any order and with any arguments, and the commit
  or rollback of the session in which they are made. An exception is handled by the caller in any way;
  it keeps the session or rolls it back.
\<close>

datatype issue_call =
    CallDraft issue_env uuid uuid uuid string "IssueCandidateResult option" "string list"
  | CallDecide issue_env uuid uuid ConfirmationAction string
  | CallExecute issue_env uuid uuid uuid
  | CallReconcile issue_env uuid
  | CallCommit
  | CallRollback

fun run_call :: "issue_call \<Rightarrow> issue_sys \<Rightarrow> issue_sys" where
  "run_call (CallDraft env run project user txt candidates evidence) s =
     snd (create_from_text env run project user txt candidates evidence s)"
| "run_call (CallDecide env draft actor action h) s = snd (record_decision env draft actor action h s)"
| "run_call (CallExecute env draft confirmation actor) s =
     snd (execute_creation env draft confirmation actor s)"
| "run_call (CallReconcile env draft) s = snd (reconcile env draft s)"
| "run_call CallCommit s = s\<lparr>is_session := commit (is_session s)\<rparr>"
| "run_call CallRollback s = s\<lparr>is_session := rollback (is_session s)\<rparr>"

fun call_env :: "issue_call \<Rightarrow> issue_env option" where
  "call_env (CallDraft env _ _ _ _ _ _) = Some env"
| "call_env (CallDecide env _ _ _ _) = Some env"
| "call_env (CallExecute env _ _ _) = Some env"
| "call_env (CallReconcile env _) = Some env"
| "call_env _ = None"

fun call_draft_ids :: "issue_call \<Rightarrow> uuid list" where
  "call_draft_ids (CallDraft env _ _ _ _ _ _) = [ie_new_draft env]"
| "call_draft_ids _ = []"

definition trace_draft_ids :: "issue_call list \<Rightarrow> uuid list" where
  "trace_draft_ids tr = concat (map call_draft_ids tr)"

definition env_ok :: "(string \<Rightarrow> string) \<Rightarrow> issue_env \<Rightarrow> bool" where
  "env_ok sha env \<longleftrightarrow> ie_sha256 env = sha \<and> issue_tracker (ie_create_issue env)"

definition call_ok :: "(string \<Rightarrow> string) \<Rightarrow> issue_call list \<Rightarrow> issue_call \<Rightarrow> bool" where
  "call_ok sha tr c \<longleftrightarrow>
     (\<forall>env. call_env c = Some env \<longrightarrow> env_ok sha env) \<and>
     set (call_draft_ids c) \<inter> set (trace_draft_ids tr) = {}"

definition issue_start :: "issue_sys \<Rightarrow> bool" where
  "issue_start s \<longleftrightarrow>
     working (is_session s) = committed (is_session s) \<and> issue_drafts (committed (is_session s)) = [] \<and>
     tool_confirmations (committed (is_session s)) = [] \<and>
     (\<forall>i\<in>set (sandbox_issues (tracker (committed (is_session s)))). si_client_request_id i = None) \<and>
     (\<forall>r\<in>set (is_idem s). id_namespace r \<noteq> IDEMPOTENCY_NAMESPACE)"

inductive issue_run :: "(string \<Rightarrow> string) \<Rightarrow> issue_call list \<Rightarrow> issue_sys \<Rightarrow> bool" for sha where
  run_start: "issue_start s \<Longrightarrow> issue_run sha [] s"
| run_step: "issue_run sha tr s \<Longrightarrow> call_ok sha tr c \<Longrightarrow> issue_run sha (tr @ [c]) (run_call c s)"

section \<open>The invariant\<close>

definition drafted :: "issue_call list \<Rightarrow> IssueDraftModel \<Rightarrow> bool" where
  "drafted tr d \<longleftrightarrow>
     (\<exists>env run project user txt cands ev ids.
        CallDraft env run project user txt cands ev \<in> set tr \<and> extract_text (py_strip txt) = Inr ids \<and>
        d = new_draft_row env (draft_command run project user (py_strip txt) ids ev))"

definition content :: "IssueDraftModel \<Rightarrow> IssueDraftModel" where
  "content d = d\<lparr>dr_status := DS_DRAFT, dr_updated_at := 0\<rparr>"

text \<open>\<open>decided\<close>: the user confirmed a draft with this payload hash, in time.\<close>

definition decided :: "(string \<Rightarrow> string) \<Rightarrow> issue_call list \<Rightarrow> uuid \<Rightarrow> string \<Rightarrow> bool" where
  "decided sha tr a h \<longleftrightarrow>
     (\<exists>env d q. CallDecide env (dr_id d) a CONFIRM h \<in> set tr \<and> drafted tr d \<and>
        build_create_request d = Inr q \<and> h = sha (payload_text q) \<and>
        ie_now env \<le> dr_created_at d + ie_ttl env)"

definition confirmed :: "(string \<Rightarrow> string) \<Rightarrow> issue_call list \<Rightarrow> IssueDraftModel \<Rightarrow> bool" where
  "confirmed sha tr d \<longleftrightarrow>
     (\<exists>a q env c context. build_create_request d = Inr q \<and> decided sha tr a (sha (payload_text q)) \<and>
        CallExecute env (dr_id d) c a \<in> set tr \<and>
        authorize_project (ie_pick env) (ie_now env) a (dr_project_id d) (ie_gov env) = Inr context \<and>
        assert_can_create (sc_role_ids (cx_scope context)) = Inr ())"

definition requested :: "SandboxIssueModel list \<Rightarrow> SandboxIssueModel list" where
  "requested issues = filter (\<lambda>i. si_client_request_id i \<noteq> None) issues"

definition has_barrier :: "IdempotencyRecordModel list \<Rightarrow> string \<Rightarrow> bool" where
  "has_barrier rows r \<longleftrightarrow> (\<exists>x\<in>set rows. id_namespace x = IDEMPOTENCY_NAMESPACE \<and> id_request_id x = r)"

definition drafts_ok :: "issue_call list \<Rightarrow> issue_db \<Rightarrow> bool" where
  "drafts_ok tr db \<longleftrightarrow>
     distinct (map dr_id (issue_drafts db)) \<and>
     (\<forall>d\<in>set (issue_drafts db). \<exists>d0. drafted tr d0 \<and> content d = content d0)"

definition issues_ok :: "IdempotencyRecordModel list \<Rightarrow> issue_db \<Rightarrow> bool" where
  "issues_ok rows db \<longleftrightarrow>
     (\<forall>i\<in>set (requested (sandbox_issues (tracker db))).
        \<exists>d\<in>set (issue_drafts db). \<exists>q. build_create_request d = Inr q \<and> made_for q i \<and>
          has_barrier rows (xr_request_id q)) \<and>
     distinct (map (\<lambda>i. (si_project_id i, si_client_request_id i)) (requested (sandbox_issues (tracker db))))"

definition confirmations_ok :: "(string \<Rightarrow> string) \<Rightarrow> issue_call list \<Rightarrow> issue_db \<Rightarrow> bool" where
  "confirmations_ok sha tr db \<longleftrightarrow>
     (\<forall>c\<in>set (tool_confirmations db). tc_status c = TC_CONFIRMED \<longrightarrow>
        (\<exists>a. tc_confirmed_by c = Some a \<and> decided sha tr a (tc_request_payload_hash c)))"

definition db_ok :: "(string \<Rightarrow> string) \<Rightarrow> issue_call list \<Rightarrow> IdempotencyRecordModel list \<Rightarrow> issue_db \<Rightarrow> bool" where
  "db_ok sha tr rows db \<longleftrightarrow> drafts_ok tr db \<and> issues_ok rows db \<and> confirmations_ok sha tr db"

definition idem_ok :: "(string \<Rightarrow> string) \<Rightarrow> issue_call list \<Rightarrow> IdempotencyRecordModel list \<Rightarrow> bool" where
  "idem_ok sha tr rows \<longleftrightarrow>
     (\<forall>r. has_barrier rows r \<longrightarrow>
        (\<exists>d. drafted tr d \<and> r = uuid_str (dr_id d) \<and> confirmed sha tr d))"

definition issue_inv :: "(string \<Rightarrow> string) \<Rightarrow> issue_call list \<Rightarrow> issue_sys \<Rightarrow> bool" where
  "issue_inv sha tr s \<longleftrightarrow>
     idem_ok sha tr (is_idem s) \<and> db_ok sha tr (is_idem s) (committed (is_session s)) \<and>
     db_ok sha tr (is_idem s) (working (is_session s))"

lemmas issue_inv_defs = issue_inv_def db_ok_def

lemma drafted_mono: "drafted tr d \<Longrightarrow> set tr \<subseteq> set tr' \<Longrightarrow> drafted tr' d"
  unfolding drafted_def by blast

lemma decided_mono: "decided sha tr a h \<Longrightarrow> set tr \<subseteq> set tr' \<Longrightarrow> decided sha tr' a h"
  unfolding decided_def using drafted_mono by blast

lemma confirmed_mono: "confirmed sha tr d \<Longrightarrow> set tr \<subseteq> set tr' \<Longrightarrow> confirmed sha tr' d"
  unfolding confirmed_def using decided_mono by blast

lemma issue_inv_mono:
  assumes "issue_inv sha tr s" and sub: "set tr \<subseteq> set tr'"
  shows "issue_inv sha tr' s"
proof -
  have db: "db_ok sha tr' rows db" if "db_ok sha tr rows db" for rows db
    using that drafted_mono [OF _ sub] decided_mono [OF _ sub]
    unfolding db_ok_def drafts_ok_def confirmations_ok_def by meson
  have "idem_ok sha tr' rows" if "idem_ok sha tr rows" for rows
    using that drafted_mono [OF _ sub] confirmed_mono [OF _ sub] unfolding idem_ok_def by meson
  then show ?thesis using assms(1) db unfolding issue_inv_def by blast
qed

lemma issue_start_inv:
  assumes "issue_start s"
  shows "issue_inv sha [] s"
proof -
  have none: "requested (sandbox_issues (tracker (committed (is_session s)))) = []"
    using assms by (simp add: issue_start_def requested_def filter_empty_conv)
  have "db_ok sha [] (is_idem s) (committed (is_session s))"
    using assms none
    by (simp add: issue_start_def db_ok_def drafts_ok_def issues_ok_def confirmations_ok_def)
  moreover have "idem_ok sha [] (is_idem s)"
    using assms unfolding issue_start_def idem_ok_def has_barrier_def by blast
  ultimately show ?thesis using assms by (simp add: issue_inv_def issue_start_def)
qed

lemma build_content: "content d = content e \<Longrightarrow> build_create_request d = build_create_request e"
  unfolding build_create_request_def request_description_def content_def
  by (cases d; cases e) simp

lemma content_fields:
  "content d = content e \<Longrightarrow> dr_id d = dr_id e \<and> dr_project_id d = dr_project_id e \<and>
     dr_created_at d = dr_created_at e"
  by (cases d; cases e) (simp add: content_def)

lemma build_request_fields:
  "build_create_request d = Inr q \<Longrightarrow>
     xr_request_id q = uuid_str (dr_id d) \<and> xr_project_id q = uuid_str (dr_project_id d)"
  by (auto simp: build_create_request_def bind_res_Inr_iff)

section \<open>The database part of a call\<close>

lemma db_op_iff:
  "db_op m s = (r, s') \<longleftrightarrow>
     (\<exists>d. m (working (is_session s)) = (r, d) \<and>
        s' = s\<lparr>is_session := (is_session s)\<lparr>working := d\<rparr>\<rparr>)"
  by (auto simp: db_op_def on_working_def split: prod.splits)

lemma tracker_op_iff:
  "tracker_op m s = (r, s') \<longleftrightarrow>
     (\<exists>t. m (tracker (working (is_session s))) = (r, t) \<and>
        s' = s\<lparr>is_session := (is_session s)\<lparr>working := (working (is_session s))\<lparr>tracker := t\<rparr>\<rparr>\<rparr>)"
  by (auto simp: tracker_op_def db_op_iff split: prod.splits)

lemma idem_op_iff:
  "idem_op m s = (r, s') \<longleftrightarrow> (\<exists>rows. m (is_idem s) = (r, rows) \<and> s' = s\<lparr>is_idem := rows\<rparr>)"
  by (auto simp: idem_op_def split: prod.splits)

text \<open>An operation on the session's copy keeps the invariant if it keeps the copy well-formed.\<close>

lemma triple_db_op:
  assumes "\<And>rows db r db'. db_ok sha tr rows db \<Longrightarrow> m db = (r, db') \<Longrightarrow> db_ok sha tr rows db'"
    and "\<And>rows db x db'. db_ok sha tr rows db \<Longrightarrow> m db = (Inr x, db') \<Longrightarrow> Q x"
  shows "triple (issue_inv sha tr) (db_op m) (\<lambda>x s. issue_inv sha tr s \<and> Q x) (issue_inv sha tr)"
  by (rule tripleI) (use assms in \<open>fastforce simp: db_op_iff issue_inv_def\<close>)+

lemma keeps_db_op:
  assumes "\<And>rows db r db'. db_ok sha tr rows db \<Longrightarrow> m db = (r, db') \<Longrightarrow> db_ok sha tr rows db'"
  shows "keeps (issue_inv sha tr) (db_op m)"
  using triple_db_op [of sha tr m "\<lambda>_. True"] assms by simp

lemma triple_db_read:
  assumes "\<And>rows db x. db_ok sha tr rows db \<Longrightarrow> f db = Inr x \<Longrightarrow> Q x"
  shows "triple (issue_inv sha tr) (db_op (read_op f)) (\<lambda>x s. issue_inv sha tr s \<and> Q x) (issue_inv sha tr)"
  using assms by (intro triple_db_op) auto

lemma db_ok_cong:
  assumes "db_ok sha tr rows db" and "issue_drafts db' = issue_drafts db"
    and "sandbox_issues (tracker db') = sandbox_issues (tracker db)"
    and "tool_confirmations db' = tool_confirmations db"
  shows "db_ok sha tr rows db'"
  using assms by (simp add: db_ok_def drafts_ok_def issues_ok_def confirmations_ok_def)

lemma get_draft_Inr: "get_draft k db = Inr d \<Longrightarrow> d \<in> set (issue_drafts db) \<and> dr_id d = k"
  by (auto simp: get_draft_def dest: row_by_SomeD)

lemma get_draft_drafted:
  assumes "db_ok sha tr rows db" and "get_draft k db = Inr d"
  obtains d0 where "drafted tr d0" "dr_id d0 = k" "content d = content d0"
  using assms get_draft_Inr [OF assms(2)] content_fields
  unfolding db_ok_def drafts_ok_def by metis

subsection \<open>Drafting\<close>

lemma create_draft_ok:
  assumes db: "db_ok sha tr rows db" and run: "repo_create_draft env c db = (r, db')"
    and dr: "drafted tr (new_draft_row env c)"
  shows "db_ok sha tr rows db'"
proof (cases "\<exists>d\<in>set (issue_drafts db). dr_id d = ie_new_draft env")
  case True
  then show ?thesis using db run by (simp add: repo_create_draft_def)
next
  case False
  then have db': "db' = db\<lparr>issue_drafts := issue_drafts db @ [new_draft_row env c]\<rparr>"
    using run by (simp add: repo_create_draft_def Let_def)
  have "dr_id (new_draft_row env c) = ie_new_draft env" by (simp add: new_draft_row_def)
  then have "drafts_ok tr db'"
    using db False dr by (auto simp: db_ok_def drafts_ok_def db')
  moreover have "issues_ok rows db'"
    using db unfolding db_ok_def issues_ok_def db' by fastforce
  ultimately show ?thesis using db by (simp add: db_ok_def confirmations_ok_def db')
qed

lemma save_links_ok:
  assumes "db_ok sha tr rows db" and "save_candidate_links env k links db = (r, db')"
  shows "db_ok sha tr rows db'"
  using assms
  by (auto simp: save_candidate_links_def Let_def split: if_splits sum.splits elim!: db_ok_cong)

lemma create_from_text_keeps:
  assumes "CallDraft env run project user txt cands ev \<in> set tr"
  shows "keeps (issue_inv sha tr) (create_from_text env run project user txt cands ev)"
proof (cases "py_strip txt = []")
  case True
  then show ?thesis by (simp add: create_from_text_def triple_raise)
next
  case False
  have row: "keeps (issue_inv sha tr) (db_op (repo_create_draft env
      (draft_command run project user (py_strip txt) ids ev)))"
    if "extract_text (py_strip txt) = Inr ids" for ids
  proof -
    have "drafted tr (new_draft_row env (draft_command run project user (py_strip txt) ids ev))"
      using assms that unfolding drafted_def by blast
    then show ?thesis by (intro keeps_db_op) (auto intro: create_draft_ok)
  qed
  have links: "keeps (issue_inv sha tr) (db_op (save_candidate_links env k ls))" for k ls
    by (intro keeps_db_op) (auto intro: save_links_ok)
  show ?thesis
    unfolding create_from_text_def Let_def if_not_P [OF False]
  proof (rule triple_bind [OF triple_of_res [where
        Q = "\<lambda>ids s. issue_inv sha tr s \<and> extract_text (py_strip txt) = Inr ids"]])
    fix ids :: "ExtractedIdentifier list"
    show "triple (\<lambda>s. issue_inv sha tr s \<and> extract_text (py_strip txt) = Inr ids)
      (bind_op (db_op (repo_create_draft env (draft_command run project user (py_strip txt) ids ev)))
        (\<lambda>draft. case cands of None \<Rightarrow> return_op draft
          | Some found \<Rightarrow> bind_op (db_op (save_candidate_links env (dr_id draft)
              (candidate_links project found))) (\<lambda>_. return_op draft)))
      (\<lambda>_. issue_inv sha tr) (issue_inv sha tr)"
      by (rule triple_fact, rule triple_bind, erule row, cases cands)
        (auto intro!: triple_return triple_bind [OF links])
  qed auto
qed

subsection \<open>Deciding\<close>

lemma content_update [simp]: "content (r\<lparr>dr_status := st, dr_updated_at := now\<rparr>) = content r"
  by (simp add: content_def)

lemma build_update [simp]:
  "build_create_request (r\<lparr>dr_status := st, dr_updated_at := now\<rparr>) = build_create_request r"
  by (rule build_content) simp

lemma set_status_ok:
  assumes db: "db_ok sha tr rows db" and run: "set_draft_status now k st db = (r, db')"
  shows "db_ok sha tr rows db'"
proof (cases "get_draft k db")
  case (Inl e)
  then show ?thesis using db run by (simp add: set_draft_status_def)
next
  case (Inr d)
  let ?f = "\<lambda>r. r\<lparr>dr_status := st, dr_updated_at := now\<rparr>"
  have db': "db' = db\<lparr>issue_drafts := update_rows (\<lambda>r. dr_id r = k) ?f (issue_drafts db)\<rparr>"
    using run Inr by (simp add: set_draft_status_def)
  have "drafts_ok tr db'"
    using db by (auto simp: db_ok_def drafts_ok_def db' map_update_rows)
  moreover have "\<exists>d\<in>set (update_rows (\<lambda>r. dr_id r = k) ?f (issue_drafts db)). P (build_create_request d)"
    if "d \<in> set (issue_drafts db)" "P (build_create_request d)" for d P
    using that by (intro bexI [of _ "if dr_id d = k then ?f d else d"]) auto
  then have "issues_ok rows db'"
    using db unfolding db_ok_def issues_ok_def db' by simp blast
  ultimately show ?thesis using db by (simp add: db_ok_def confirmations_ok_def db')
qed

lemma keeps_set_status: "keeps (issue_inv sha tr) (db_op (set_draft_status now k st))"
  by (intro keeps_db_op) (auto intro: set_status_ok)

lemma save_confirmation_ok:
  assumes db: "db_ok sha tr rows db" and run: "save_confirmation now receipt db = (r, db')"
    and dec: "rc_status receipt = TC_CONFIRMED \<Longrightarrow>
      decided sha tr (rc_confirmed_by receipt) (rc_request_payload_hash receipt)"
  shows "db_ok sha tr rows db'"
proof -
  have "db' = db \<or> db' = db\<lparr>tool_confirmations := tool_confirmations db @ [confirmation_row now receipt]\<rparr>"
    using run by (auto simp: save_confirmation_def split: list.splits if_splits)
  then show ?thesis
    using db dec
    by (auto simp: db_ok_def drafts_ok_def issues_ok_def confirmations_ok_def confirmation_row_def)
qed

definition prepared_for :: "issue_call list \<Rightarrow> issue_env \<Rightarrow> uuid \<Rightarrow> ConfirmationRequest \<Rightarrow> bool" where
  "prepared_for tr env k p \<longleftrightarrow>
     (\<exists>d q. drafted tr d \<and> dr_id d = k \<and> build_create_request d = Inr q \<and>
        cf_request_payload_hash p = payload_hash env q \<and> cf_expires_at p = dr_created_at d + ie_ttl env)"

lemma prepare_drafted:
  assumes "db_ok sha tr rows db" and "prepare_confirmation env k db = Inr p"
  shows "prepared_for tr env k p"
proof -
  obtain d q where d: "get_draft k db = Inr d" "build_create_request d = Inr q"
    and p: "cf_request_payload_hash p = payload_hash env q" "cf_expires_at p = dr_created_at d + ie_ttl env"
    using assms(2) by (auto simp: prepare_confirmation_def bind_res_Inr_iff)
  obtain d0 where "drafted tr d0" "dr_id d0 = k" "content d = content d0"
    by (rule get_draft_drafted [OF assms(1) d(1)])
  then show ?thesis
    using d p build_content [of d d0] content_fields [of d d0] unfolding prepared_for_def by metis
qed

lemma store_decision_keeps:
  assumes dec: "act = CONFIRM \<Longrightarrow> decided sha tr a (cf_request_payload_hash p)"
  shows "keeps (issue_inv sha tr) (store_decision env k a act p)"
  unfolding store_decision_def Let_def
proof (rule triple_bind [OF keeps_db_op], goal_cases)
  case 1
  then show ?case by auto
next
  case (2 draft)
  have conf: "keeps (issue_inv sha tr) (db_op (save_confirmation (ie_now env)
      \<lparr>rc_id = ie_new_confirmation env, rc_run_id = dr_run_id draft, rc_tool_name = TOOL_NAME,
       rc_request_payload_hash = cf_request_payload_hash p,
       rc_status = (case act of CONFIRM \<Rightarrow> TC_CONFIRMED | CANCEL \<Rightarrow> TC_CANCELLED),
       rc_confirmed_by = a, rc_confirmed_at = ie_now env, rc_expires_at = cf_expires_at p\<rparr>))"
    by (rule keeps_db_op, erule (1) save_confirmation_ok)
      (use dec in \<open>simp split: ConfirmationAction.splits\<close>)
  show ?case
    by (intro triple_bind [OF conf] triple_bind [OF keeps_set_status] triple_return)
qed

lemma record_decision_keeps:
  assumes call: "CallDecide env k a act h \<in> set tr" and sha: "ie_sha256 env = sha"
  shows "keeps (issue_inv sha tr) (record_decision env k a act h)"
  unfolding record_decision_def
proof (rule triple_bind [OF triple_db_read [of sha tr _ "prepared_for tr env k"]])
  fix p
  have "keeps (issue_inv sha tr) (store_decision env k a act p)"
    if prep: "prepared_for tr env k p" and intime: "\<not> cf_expires_at p < ie_now env"
      and hash: "\<not> h \<noteq> cf_request_payload_hash p"
  proof (rule store_decision_keeps)
    assume "act = CONFIRM"
    moreover obtain d q where "drafted tr d" "dr_id d = k" "build_create_request d = Inr q"
      "cf_request_payload_hash p = payload_hash env q" "cf_expires_at p = dr_created_at d + ie_ttl env"
      using prep unfolding prepared_for_def by blast
    ultimately show "decided sha tr a (cf_request_payload_hash p)"
      unfolding decided_def using call hash intime sha
      by (intro exI [of _ env] exI [of _ d] exI [of _ q]) (simp add: payload_hash_def)
  qed
  then show "triple (\<lambda>s. issue_inv sha tr s \<and> prepared_for tr env k p)
    (if cf_expires_at p < ie_now env then raise_op ConfirmationExpired
     else if h \<noteq> cf_request_payload_hash p then raise_op ConfirmationPayloadMismatch
     else store_decision env k a act p) (\<lambda>_. issue_inv sha tr) (issue_inv sha tr)"
    by (intro triple_fact triple_if triple_raise)
qed (auto intro: prepare_drafted)

subsection \<open>Creating\<close>

text \<open>The idempotency table only grows, and a completion changes neither keys nor projects.\<close>

lemma has_barrier_mono: "has_barrier rows r \<Longrightarrow> set rows \<subseteq> set rows' \<Longrightarrow> has_barrier rows' r"
  unfolding has_barrier_def by blast

lemma db_ok_barrier:
  "db_ok sha tr rows db \<Longrightarrow> (\<And>r. has_barrier rows r \<Longrightarrow> has_barrier rows' r) \<Longrightarrow> db_ok sha tr rows' db"
  unfolding db_ok_def issues_ok_def by meson

lemma has_barrier_reserve:
  assumes "idem_reserve env IDEMPOTENCY_NAMESPACE r p rows = (x, rows')"
  shows "has_barrier rows' r' \<longleftrightarrow> has_barrier rows r' \<or> r' = r"
proof (cases "idem_row IDEMPOTENCY_NAMESPACE r rows")
  case None
  then show ?thesis using assms by (auto simp: idem_reserve_def has_barrier_def Let_def)
next
  case (Some m)
  then have "has_barrier rows r" by (auto simp: idem_row_def has_barrier_def find_Some_iff)
  then show ?thesis using assms Some by (auto simp: idem_reserve_def Let_def)
qed

lemma has_barrier_complete:
  assumes "idem_complete now IDEMPOTENCY_NAMESPACE r ty k resp rows = (x, rows')"
  shows "has_barrier rows' r' \<longleftrightarrow> has_barrier rows r'"
proof -
  have key: "has_barrier xs r' \<longleftrightarrow>
      (IDEMPOTENCY_NAMESPACE, r') \<in> set (map (\<lambda>x. (id_namespace x, id_request_id x)) xs)" for xs
    unfolding has_barrier_def by (simp add: image_iff) metis
  show ?thesis
    using assms unfolding key
    by (cases "idem_row IDEMPOTENCY_NAMESPACE r rows")
      (auto simp: idem_complete_def Let_def map_update_rows simp del: set_map)
qed

lemma idem_get_barrier:
  "idem_get IDEMPOTENCY_NAMESPACE r rows = Inr (Some m) \<Longrightarrow> has_barrier rows r"
  by (auto simp: idem_get_def idem_row_def has_barrier_def find_Some_iff split: option.splits)

text \<open>The states between the barrier and the tracker call: the invariant, the draft and the barrier.\<close>

definition draft_there :: "IssueDraftModel \<Rightarrow> issue_sys \<Rightarrow> bool" where
  "draft_there d s \<longleftrightarrow> (\<exists>e\<in>set (issue_drafts (working (is_session s))). content e = content d)"

definition ready :: "(string \<Rightarrow> string) \<Rightarrow> issue_call list \<Rightarrow> IssueDraftModel \<Rightarrow> CreateIssueRequest \<Rightarrow> issue_sys \<Rightarrow> bool"
where
  "ready sha tr d q s \<longleftrightarrow>
     issue_inv sha tr s \<and> draft_there d s \<and> build_create_request d = Inr q \<and>
     has_barrier (is_idem s) (xr_request_id q)"

lemma complete_keeps: "keeps (issue_inv sha tr) (complete_creation env k r c st)"
proof -
  have "keeps (issue_inv sha tr) (idem_op (idem_complete now IDEMPOTENCY_NAMESPACE r ty key resp))"
    for now ty key resp
  proof -
    have "issue_inv sha tr (s\<lparr>is_idem := rows'\<rparr>)"
      if "issue_inv sha tr s" "idem_complete now IDEMPOTENCY_NAMESPACE r ty key resp (is_idem s) = (x, rows')"
      for s x rows'
      using that(1) has_barrier_complete [OF that(2)]
      by (auto simp: issue_inv_def idem_ok_def intro: db_ok_barrier)
    then show ?thesis by (intro tripleI) (auto simp: idem_op_iff)
  qed
  then show ?thesis
    unfolding complete_creation_def by (blast intro: triple_bind triple_return keeps_set_status)
qed

lemma pending_keeps: "keeps (issue_inv sha tr) (pending_outcome env k r)"
proof -
  have "keeps (issue_inv sha tr) (enqueue_reconciliation env k)"
    by (rule tripleI) (auto simp: enqueue_reconciliation_def issue_inv_def split: prod.splits sum.splits)
  then show ?thesis unfolding pending_outcome_def by (blast intro: triple_bind triple_return)
qed

lemma requested_snoc:
  "requested (is @ [i]) = requested is @ (if si_client_request_id i = None then [] else [i])"
  by (simp add: requested_def)

lemma tracker_create_ready:
  assumes env: "issue_tracker (ie_create_issue env)" and r: "ready sha tr d q s"
    and run: "tracker_op (ie_create_issue env q) s = (x, s')"
  shows "issue_inv sha tr s'"
proof -
  let ?db = "working (is_session s)"
  obtain t where t: "ie_create_issue env q (tracker ?db) = (x, t)"
    and s': "s' = s\<lparr>is_session := (is_session s)\<lparr>working := ?db\<lparr>tracker := t\<rparr>\<rparr>\<rparr>"
    using run by (auto simp: tracker_op_iff)
  have inv: "issue_inv sha tr s" and q: "build_create_request d = Inr q"
    and bar: "has_barrier (is_idem s) (xr_request_id q)"
    using r by (auto simp: ready_def)
  obtain e where e: "e \<in> set (issue_drafts ?db)" "build_create_request e = Inr q"
    using r q build_content unfolding ready_def draft_there_def by metis
  have "issues_ok (is_idem s) (?db\<lparr>tracker := t\<rparr>)"
  proof (cases "sandbox_issues t = sandbox_issues (tracker ?db)")
    case True
    then show ?thesis using inv by (simp add: issue_inv_def db_ok_def issues_ok_def)
  next
    case False
    then obtain i where i: "sandbox_issues t = sandbox_issues (tracker ?db) @ [i]" "made_for q i"
      "\<forall>j\<in>set (sandbox_issues (tracker ?db)). \<not> same_request j i"
      using issue_tracker.create_adds [OF env t] by blast
    then have req: "requested (sandbox_issues t) = requested (sandbox_issues (tracker ?db)) @ [i]"
      by (simp add: requested_snoc made_for_def)
    have fresh: "(si_project_id i, si_client_request_id i)
        \<notin> (\<lambda>j. (si_project_id j, si_client_request_id j)) ` set (requested (sandbox_issues (tracker ?db)))"
      using i(3) by (auto simp: requested_def same_request_def)
    have old: "issues_ok (is_idem s) ?db" using inv by (simp add: issue_inv_def db_ok_def)
    have "\<exists>d\<in>set (issue_drafts ?db). \<exists>q. build_create_request d = Inr q \<and> made_for q i \<and>
        has_barrier (is_idem s) (xr_request_id q)"
      using e bar i(2) by blast
    then show ?thesis using old fresh unfolding issues_ok_def by (simp add: req)
  qed
  then show ?thesis
    using inv unfolding s' by (simp add: issue_inv_def db_ok_def drafts_ok_def confirmations_ok_def)
qed

lemma existing_issue_state: "existing_issue q s = (x, s') \<Longrightarrow> s' = s"
  by (auto simp: existing_issue_def tracker_op_iff)

lemma triple_existing:
  "(\<And>s. P s \<Longrightarrow> E s) \<Longrightarrow> triple P (existing_issue q) (\<lambda>_. P) E"
  by (rule tripleI) (auto dest: existing_issue_state)

lemma triple_idem_get:
  "(\<And>s. P s \<Longrightarrow> E s) \<Longrightarrow> triple P (idem_op (read_op (idem_get IDEMPOTENCY_NAMESPACE r)))
     (\<lambda>found s. P s \<and> (found \<noteq> None \<longrightarrow> has_barrier (is_idem s) r)) E"
  by (rule tripleI) (auto simp: idem_op_iff dest: idem_get_barrier)

lemma triple_tracker_create:
  assumes "issue_tracker (ie_create_issue env)"
  shows "triple (ready sha tr d q) (tracker_op (ie_create_issue env q))
    (\<lambda>_. issue_inv sha tr) (issue_inv sha tr)"
  by (rule tripleI) (use tracker_create_ready [OF assms] in blast)+

lemma create_or_reconcile_keeps:
  assumes env: "issue_tracker (ie_create_issue env)"
  shows "triple (ready sha tr d q) (create_or_reconcile env k q b)
    (\<lambda>_. issue_inv sha tr) (issue_inv sha tr)"
proof -
  have inv: "issue_inv sha tr s" if "ready sha tr d q s" for s using that by (simp add: ready_def)
  have attempt: "triple (ready sha tr d q) (try_op (tracker_op (ie_create_issue env q))
      (\<lambda>e. if is_timeout_or_os_error e then pending_outcome env k (xr_request_id q) else raise_op e)
      (\<lambda>created. complete_creation env k (xr_request_id q) created CS_CREATED))
      (\<lambda>_. issue_inv sha tr) (issue_inv sha tr)"
    by (rule triple_try [OF triple_tracker_create [OF env]])
      (auto intro: triple_raise pending_keeps complete_keeps)
  have pending: "triple (ready sha tr d q) (pending_outcome env k (xr_request_id q))
      (\<lambda>_. issue_inv sha tr) (issue_inv sha tr)"
    and complete: "triple (ready sha tr d q) (complete_creation env k (xr_request_id q) found st)
      (\<lambda>_. issue_inv sha tr) (issue_inv sha tr)" for found st
    using triple_pre [OF pending_keeps inv] triple_pre [OF complete_keeps inv] by blast+
  show ?thesis
    unfolding create_or_reconcile_def
  proof (rule triple_bind [OF triple_existing [of "ready sha tr d q", OF inv]])
    fix found :: "CreatedIssue option"
    show "triple (ready sha tr d q) (case found of
         Some f \<Rightarrow> complete_creation env k (xr_request_id q) f ALREADY_CREATED
       | None \<Rightarrow> if \<not> b then pending_outcome env k (xr_request_id q)
           else try_op (tracker_op (ie_create_issue env q))
             (\<lambda>e. if is_timeout_or_os_error e then pending_outcome env k (xr_request_id q) else raise_op e)
             (\<lambda>created. complete_creation env k (xr_request_id q) created CS_CREATED))
       (\<lambda>_. issue_inv sha tr) (issue_inv sha tr)"
      by (cases found; cases b) (simp_all add: attempt pending complete)
  qed
qed

text \<open>The guards of \<open>_execute\<close> give exactly what the invariant asks of a barrier.\<close>

lemma check_confirmation_ok:
  assumes db: "db_ok sha tr rows db" and chk: "check_confirmation env k c a db = Inr (d, conf, q)"
    and call: "CallExecute env k c a \<in> set tr" and sha: "ie_sha256 env = sha"
  shows "build_create_request d = Inr q" and "d \<in> set (issue_drafts db)"
    and "\<exists>d0. drafted tr d0 \<and> content d = content d0 \<and> dr_id d0 = k \<and> confirmed sha tr d0"
proof -
  obtain ctx where g: "get_draft k db = Inr d" "get_confirmation c db = Inr conf"
      "rc_status conf = TC_CONFIRMED" "rc_confirmed_by conf = a" "build_create_request d = Inr q"
      "payload_hash env q = rc_request_payload_hash conf"
      "authorize_project (ie_pick env) (ie_now env) a (dr_project_id d) (ie_gov env) = Inr ctx"
      "assert_can_create (sc_role_ids (cx_scope ctx)) = Inr ()"
    using chk unfolding check_confirmation_def bind_res_Inr_iff
    by (auto split: if_splits sum.splits simp: bind_res_Inr_iff)
  then obtain m where m: "m \<in> set (tool_confirmations db)" "to_confirmation m = Inr conf"
    by (auto simp: get_confirmation_def split: option.splits dest: row_by_SomeD)
  have "tc_status m = TC_CONFIRMED" "tc_confirmed_by m = Some a"
    "tc_request_payload_hash m = payload_hash env q"
    using m(2) g by (auto simp: to_confirmation_def split: option.splits prod.splits)
  then have dec: "decided sha tr a (sha (payload_text q))"
    using db m(1) sha unfolding db_ok_def confirmations_ok_def payload_hash_def by force
  obtain d0 where d0: "drafted tr d0" "dr_id d0 = k" "content d = content d0"
    by (rule get_draft_drafted [OF db g(1)])
  have "confirmed sha tr d0"
    unfolding confirmed_def using dec call d0 g build_content [OF d0(3)] content_fields [OF d0(3)]
    by (intro exI [of _ a] exI [of _ q] exI [of _ env] exI [of _ c] exI [of _ ctx]) simp
  then show "build_create_request d = Inr q" "d \<in> set (issue_drafts db)"
    "\<exists>d0. drafted tr d0 \<and> content d = content d0 \<and> dr_id d0 = k \<and> confirmed sha tr d0"
    using g(5) get_draft_Inr [OF g(1)] d0 by auto
qed

lemma reserve_ready:
  assumes inv: "issue_inv sha tr s" and q: "build_create_request d = Inr q" and there: "draft_there d s"
    and d0: "drafted tr d0" "content d = content d0" "confirmed sha tr d0"
    and run: "idem_op (idem_reserve env IDEMPOTENCY_NAMESPACE (xr_request_id q) p) s = (x, s')"
  shows "ready sha tr d q s'"
proof -
  obtain rows' where r: "idem_reserve env IDEMPOTENCY_NAMESPACE (xr_request_id q) p (is_idem s) = (x, rows')"
    and s': "s' = s\<lparr>is_idem := rows'\<rparr>"
    using run by (auto simp: idem_op_iff)
  have id: "xr_request_id q = uuid_str (dr_id d0)"
    using build_request_fields [OF q] content_fields [OF d0(2)] by simp
  have "idem_ok sha tr rows'"
    using inv d0 id unfolding issue_inv_def idem_ok_def has_barrier_reserve [OF r] by blast
  moreover have "db_ok sha tr rows' db" if "db_ok sha tr (is_idem s) db" for db
    using db_ok_barrier [OF that] has_barrier_reserve [OF r] by blast
  ultimately show ?thesis
    using inv q there has_barrier_reserve [OF r]
    by (simp add: ready_def s' issue_inv_def draft_there_def)
qed

definition checked ::
  "(string \<Rightarrow> string) \<Rightarrow> issue_call list \<Rightarrow> IssueDraftModel \<Rightarrow> CreateIssueRequest \<Rightarrow> issue_sys \<Rightarrow> bool" where
  "checked sha tr d q s \<longleftrightarrow>
     issue_inv sha tr s \<and> draft_there d s \<and> build_create_request d = Inr q \<and>
     (\<exists>d0. drafted tr d0 \<and> content d = content d0 \<and> confirmed sha tr d0)"

lemma triple_check:
  assumes "CallExecute env k c a \<in> set tr" and "ie_sha256 env = sha"
  shows "triple (issue_inv sha tr) (db_op (read_op (check_confirmation env k c a)))
    (\<lambda>(d, conf, q). checked sha tr d q) (issue_inv sha tr)"
proof (rule tripleI)
  fix s s' x assume inv: "issue_inv sha tr s"
    and run: "db_op (read_op (check_confirmation env k c a)) s = (Inr x, s')"
  obtain d conf q where x: "x = (d, conf, q)" by (cases x)
  have s': "s' = s" and chk: "check_confirmation env k c a (working (is_session s)) = Inr (d, conf, q)"
    using run x by (auto simp: db_op_iff)
  have "db_ok sha tr (is_idem s) (working (is_session s))" using inv by (simp add: issue_inv_def)
  from check_confirmation_ok [OF this chk assms] show "(case x of (d, conf, q) \<Rightarrow> checked sha tr d q) s'"
    using inv by (auto simp: x s' checked_def draft_there_def)
qed (auto simp: db_op_iff)

lemma triple_reserve:
  "triple (checked sha tr d q) (idem_op (idem_reserve env IDEMPOTENCY_NAMESPACE (xr_request_id q) p))
     (\<lambda>_. ready sha tr d q) (issue_inv sha tr)"
proof (rule tripleI)
  fix s s' and x :: "IdempotencyRecordModel \<times> bool"
  assume "checked sha tr d q s"
    and "idem_op (idem_reserve env IDEMPOTENCY_NAMESPACE (xr_request_id q) p) s = (Inr x, s')"
  then show "ready sha tr d q s'" using reserve_ready unfolding checked_def by blast
next
  fix s s' e
  assume "checked sha tr d q s"
    and "idem_op (idem_reserve env IDEMPOTENCY_NAMESPACE (xr_request_id q) p) s = (Inl e, s')"
  then have "ready sha tr d q s'" using reserve_ready unfolding checked_def by blast
  then show "issue_inv sha tr s'" by (simp add: ready_def)
qed

lemma execute_keeps:
  assumes call: "CallExecute env k c a \<in> set tr" and env: "env_ok sha env"
  shows "keeps (issue_inv sha tr) (execute_creation env k c a)"
proof -
  have sha: "ie_sha256 env = sha" and trk: "issue_tracker (ie_create_issue env)"
    using env by (auto simp: env_ok_def)
  have inv: "issue_inv sha tr s" if "checked sha tr d q s" for d q s using that by (simp add: checked_def)
  have inv': "issue_inv sha tr s" if "ready sha tr d q s" for d q s using that by (simp add: ready_def)
  have out: "triple P (of_res r) (\<lambda>_. issue_inv sha tr) (issue_inv sha tr)"
    if "\<And>s. P s \<Longrightarrow> issue_inv sha tr s" for P and r :: "IssueCreationOutcome res"
    using that by (intro triple_of_res) auto
  have reserve: "triple (\<lambda>s. checked sha tr d q s \<and> F s)
      (bind_op (idem_op (idem_reserve env IDEMPOTENCY_NAMESPACE (xr_request_id q) p))
        (\<lambda>(record, b). if id_status record = COMPLETED
          then of_res (outcome_from_record (id_response record) (dr_id d) (xr_request_id q) ALREADY_CREATED)
          else create_or_reconcile env (dr_id d) q b))
      (\<lambda>_. issue_inv sha tr) (issue_inv sha tr)" for d q p F
    by (rule triple_bind [OF triple_pre [OF triple_reserve]])
      (auto intro!: out create_or_reconcile_keeps [OF trk] intro: inv')
  have got: "triple (checked sha tr d q)
      (idem_op (read_op (idem_get IDEMPOTENCY_NAMESPACE (xr_request_id q))))
      (\<lambda>found s. checked sha tr d q s \<and> (found \<noteq> None \<longrightarrow> has_barrier (is_idem s) (xr_request_id q)))
      (issue_inv sha tr)" for d q
    by (rule triple_idem_get) (erule inv)
  have body: "triple (checked sha tr d q) (execute_confirmed env d conf q)
      (\<lambda>_. issue_inv sha tr) (issue_inv sha tr)" for d q conf
    unfolding execute_confirmed_def
    by (rule triple_bind [OF got]) (intro triple_if triple_raise out reserve, auto intro: inv)
  show ?thesis
    unfolding execute_creation_def
    by (rule triple_bind [OF triple_check [OF call sha]], unfold split_paired_all prod.case, rule body)
qed

lemma reconcile_keeps:
  assumes env: "env_ok sha env"
  shows "keeps (issue_inv sha tr) (reconcile env k)"
proof -
  have trk: "issue_tracker (ie_create_issue env)" using env by (simp add: env_ok_def)
  define here where "here d s \<longleftrightarrow> issue_inv sha tr s \<and> draft_there d s" for d s
  have hi: "issue_inv sha tr s" if "here d s" for d s using that by (simp add: here_def)
  have ri: "issue_inv sha tr s" if "ready sha tr d q s" for d q s using that by (simp add: ready_def)
  have draft: "triple (issue_inv sha tr) (db_op (read_op (get_draft k))) here (issue_inv sha tr)"
    by (rule tripleI) (auto simp: db_op_iff here_def draft_there_def dest: get_draft_Inr)
  have got: "triple (here d) (idem_op (read_op (idem_get IDEMPOTENCY_NAMESPACE r)))
      (\<lambda>found s. here d s \<and> (found \<noteq> None \<longrightarrow> has_barrier (is_idem s) r)) (issue_inv sha tr)" for d r
    by (rule triple_idem_get) (erule hi)
  have made: "triple (ready sha tr d q) (case existing of Some c \<Rightarrow> return_op c
      | None \<Rightarrow> tracker_op (ie_create_issue env q)) (\<lambda>_. issue_inv sha tr) (issue_inv sha tr)"
    for d q and existing :: "CreatedIssue option"
    by (cases existing) (auto intro: triple_return triple_tracker_create [OF trk] ri)
  have create: "triple (ready sha tr d q) (bind_op (existing_issue q) (\<lambda>existing.
      bind_op (case existing of Some c \<Rightarrow> return_op c | None \<Rightarrow> tracker_op (ie_create_issue env q))
        (\<lambda>created. complete_creation env (dr_id d) (xr_request_id q) created RECONCILED)))
      (\<lambda>_. issue_inv sha tr) (issue_inv sha tr)" for d q
    by (rule triple_bind [OF triple_existing], erule ri, rule triple_bind [OF made], rule complete_keeps)
  have body: "triple (here d) (bind_op (idem_op (read_op (idem_get IDEMPOTENCY_NAMESPACE (xr_request_id q))))
      (\<lambda>found. case found of
         None \<Rightarrow> raise_op
           (IssueCreationDenied ''reconciliation requires a prior confirmed idempotency barrier'')
       | Some record \<Rightarrow>
           if id_status record = COMPLETED
           then of_res (outcome_from_record (id_response record) (dr_id d) (xr_request_id q) RECONCILED)
           else bind_op (existing_issue q) (\<lambda>existing.
             bind_op (case existing of Some c \<Rightarrow> return_op c | None \<Rightarrow> tracker_op (ie_create_issue env q))
               (\<lambda>created. complete_creation env (dr_id d) (xr_request_id q) created RECONCILED))))
      (\<lambda>_. issue_inv sha tr) (issue_inv sha tr)" if "build_create_request d = Inr q" for d q
    by (rule triple_bind [OF got])
      (auto intro!: triple_raise triple_of_res triple_pre [OF create [of d q]]
        simp: ready_def here_def that split: option.splits)
  have request: "triple (here d) (of_res (build_create_request d))
      (\<lambda>q s. here d s \<and> build_create_request d = Inr q) (issue_inv sha tr)" for d
    by (rule triple_of_res) (auto intro: hi)
  show ?thesis
    unfolding reconcile_def
    by (rule triple_bind [OF draft], rule triple_bind [OF request], rule triple_fact, rule body)
qed

section \<open>Every run keeps the invariant\<close>

lemma keeps_snd: "keeps P m \<Longrightarrow> P s \<Longrightarrow> P (snd (m s))"
  by (cases "m s"; cases "fst (m s)") (auto dest: triple_Inr triple_Inl)

lemma run_call_keeps:
  assumes "issue_inv sha tr s" and "c \<in> set tr" and "\<And>env. call_env c = Some env \<Longrightarrow> env_ok sha env"
  shows "issue_inv sha tr (run_call c s)"
proof (cases c)
  case (CallDraft env run project user body cands ev)
  then show ?thesis using keeps_snd [OF create_from_text_keeps] assms by simp
next
  case (CallDecide env k a act h)
  then have "ie_sha256 env = sha" using assms(3) by (simp add: env_ok_def)
  then show ?thesis using keeps_snd [OF record_decision_keeps] assms CallDecide by simp
next
  case (CallExecute env k cf a)
  then show ?thesis using keeps_snd [OF execute_keeps] assms by simp
next
  case (CallReconcile env k)
  then show ?thesis using keeps_snd [OF reconcile_keeps] assms by simp
qed (use assms(1) in \<open>simp_all add: issue_inv_def\<close>)

lemma issue_run_inv: "issue_run sha tr s \<Longrightarrow> issue_inv sha tr s"
proof (induction rule: issue_run.induct)
  case (run_start s)
  then show ?case by (rule issue_start_inv)
next
  case (run_step tr s c)
  have "issue_inv sha (tr @ [c]) s" using run_step.IH by (rule issue_inv_mono) auto
  then show ?case by (rule run_call_keeps) (use run_step.hyps in \<open>auto simp: call_ok_def\<close>)
qed

lemma issue_run_draft_ids: "issue_run sha tr s \<Longrightarrow> distinct (trace_draft_ids tr)"
proof (induction rule: issue_run.induct)
  case (run_step tr s c)
  then show ?case by (cases c) (auto simp: trace_draft_ids_def call_ok_def)
qed (simp add: trace_draft_ids_def)

lemma distinct_concat_map_same:
  "distinct (concat (map f xs)) \<Longrightarrow> x \<in> set xs \<Longrightarrow> y \<in> set xs \<Longrightarrow> k \<in> set (f x) \<Longrightarrow> k \<in> set (f y) \<Longrightarrow> x = y"
  by (induction xs) auto

lemma drafted_unique:
  assumes "distinct (trace_draft_ids tr)" and "drafted tr d" and "drafted tr e" and "dr_id d = dr_id e"
  shows "d = e"
proof -
  obtain env run project user body cands ev ids where
    d: "CallDraft env run project user body cands ev \<in> set tr" "extract_text (py_strip body) = Inr ids"
      "d = new_draft_row env (draft_command run project user (py_strip body) ids ev)"
    using assms(2) unfolding drafted_def by blast
  obtain env' run' project' user' body' cands' ev' ids' where
    e: "CallDraft env' run' project' user' body' cands' ev' \<in> set tr" "extract_text (py_strip body') = Inr ids'"
      "e = new_draft_row env' (draft_command run' project' user' (py_strip body') ids' ev')"
    using assms(3) unfolding drafted_def by blast
  have "ie_new_draft env = ie_new_draft env'" using assms(4) d(3) e(3) by (simp add: new_draft_row_def)
  then have "CallDraft env run project user body cands ev = CallDraft env' run' project' user' body' cands' ev'"
    using distinct_concat_map_same [OF assms(1)[unfolded trace_draft_ids_def] d(1) e(1), of "ie_new_draft env"]
    by simp
  then show ?thesis using d e by simp
qed

section \<open>What the tracker holds\<close>

lemma decided_same:
  assumes dec: "decided sha tr a (sha (payload_text q))" and d: "drafted tr d" "build_create_request d = Inr q"
    and inj: "inj_on sha (payload_text ` {q. \<exists>d. drafted tr d \<and> build_create_request d = Inr q})"
  obtains env where "CallDecide env (dr_id d) a CONFIRM (sha (payload_text q)) \<in> set tr"
    and "ie_now env \<le> dr_created_at d + ie_ttl env \<or> \<not> distinct (trace_draft_ids tr)"
proof -
  obtain env e q' where e: "CallDecide env (dr_id e) a CONFIRM (sha (payload_text q)) \<in> set tr" "drafted tr e"
      "build_create_request e = Inr q'" "sha (payload_text q) = sha (payload_text q')"
      "ie_now env \<le> dr_created_at e + ie_ttl env"
    using dec unfolding decided_def by blast
  have "payload_text q = payload_text q'"
    using inj_onD [OF inj e(4)] d e(2,3) by blast
  then have "q = q'" by (rule payload_text_same)
  then have "dr_id d = dr_id e" using build_request_fields [OF d(2)] build_request_fields [OF e(3)] by simp
  then show thesis using that e drafted_unique [OF _ d(1) e(2)] by auto
qed

lemma issue_of_draft:
  assumes "issue_inv sha tr s" and "i \<in> set (sandbox_issues (tracker (committed (is_session s))))"
    and "si_client_request_id i = Some r"
  obtains d q where "drafted tr d" "build_create_request d = Inr q" "made_for q i" "r = uuid_str (dr_id d)"
    "si_project_id i = dr_project_id d" "has_barrier (is_idem s) r"
proof -
  have i: "i \<in> set (requested (sandbox_issues (tracker (committed (is_session s)))))"
    using assms by (simp add: requested_def)
  obtain d q where d: "d \<in> set (issue_drafts (committed (is_session s)))" "build_create_request d = Inr q"
      "made_for q i" "has_barrier (is_idem s) (xr_request_id q)"
    using assms(1) i unfolding issue_inv_def db_ok_def issues_ok_def by blast
  obtain d0 where d0: "drafted tr d0" "content d = content d0"
    using assms(1) d(1) unfolding issue_inv_def db_ok_def drafts_ok_def by blast
  show thesis
    using that [OF d0(1), of q] d assms(3) build_content [OF d0(2)] content_fields [OF d0(2)]
      build_request_fields [OF d(2)] by (auto simp: made_for_def)
qed

text \<open>C3: every issue that the system created in the tracker was asked for: it has the content of a draft
  made earlier, a user confirmed that very draft before its confirmation expired, and the same user
  executed the creation, being at that time a member of the draft's project in a role that may create
  issues. SHA-256 is assumed not to collide on the drafts at hand.\<close>

theorem issue_needs_confirmation:
  assumes "issue_run sha tr s" and "i \<in> set (sandbox_issues (tracker (committed (is_session s))))"
    and "si_client_request_id i = Some r"
    and "inj_on sha (payload_text ` {q. \<exists>d. drafted tr d \<and> build_create_request d = Inr q})"
  shows "\<exists>d q a env env' c context.
     drafted tr d \<and> build_create_request d = Inr q \<and> made_for q i \<and> r = uuid_str (dr_id d) \<and>
     CallDecide env (dr_id d) a CONFIRM (sha (payload_text q)) \<in> set tr \<and>
     ie_now env \<le> dr_created_at d + ie_ttl env \<and>
     CallExecute env' (dr_id d) c a \<in> set tr \<and>
     authorize_project (ie_pick env') (ie_now env') a (dr_project_id d) (ie_gov env') = Inr context \<and>
     assert_can_create (sc_role_ids (cx_scope context)) = Inr ()"
proof -
  have inv: "issue_inv sha tr s" and dist: "distinct (trace_draft_ids tr)"
    using assms(1) by (rule issue_run_inv, rule issue_run_draft_ids)
  obtain d q where d: "drafted tr d" "build_create_request d = Inr q" "made_for q i" "r = uuid_str (dr_id d)"
      "has_barrier (is_idem s) r"
    using issue_of_draft [OF inv assms(2,3)] by blast
  obtain e where e: "drafted tr e" "r = uuid_str (dr_id e)" "confirmed sha tr e"
    using inv d(5) unfolding issue_inv_def idem_ok_def by blast
  have "confirmed sha tr d" using drafted_unique [OF dist d(1) e(1)] d(4) e by simp
  then obtain a env' c ctx where c: "decided sha tr a (sha (payload_text q))"
      "CallExecute env' (dr_id d) c a \<in> set tr"
      "authorize_project (ie_pick env') (ie_now env') a (dr_project_id d) (ie_gov env') = Inr ctx"
      "assert_can_create (sc_role_ids (cx_scope ctx)) = Inr ()"
    using d(2) unfolding confirmed_def by auto
  from decided_same [OF c(1) d(1,2) assms(4)] obtain env where
    "CallDecide env (dr_id d) a CONFIRM (sha (payload_text q)) \<in> set tr"
    "ie_now env \<le> dr_created_at d + ie_ttl env" using dist by blast
  then show ?thesis using d c by blast
qed

lemma distinct_map_filter_one:
  assumes "distinct (map f xs)" and "\<And>x y. x \<in> set xs \<Longrightarrow> y \<in> set xs \<Longrightarrow> P x \<Longrightarrow> P y \<Longrightarrow> f x = f y"
  shows "length (filter P xs) \<le> 1"
proof (cases "filter P xs")
  case (Cons x ys)
  then have "set (x # ys) = {y \<in> set xs. P y}" by (metis set_filter)
  then have all: "\<And>y. y \<in> set (x # ys) \<Longrightarrow> y \<in> set xs \<and> P y" by blast
  have "distinct (map f (x # ys))" using assms(1) Cons distinct_map_filter by metis
  moreover have "f y = f x" if "y \<in> set ys" for y using all assms(2) that by simp
  ultimately show ?thesis using Cons by (cases ys) (auto simp: image_iff)
qed simp

text \<open>C4: whatever the order of executions, replays, lost answers, reconciliations and rollbacks, the
  tracker holds at most one issue for each draft.\<close>

theorem one_issue_per_draft:
  assumes "issue_run sha tr s"
  shows "length (filter (\<lambda>i. si_client_request_id i = Some (uuid_str k))
     (sandbox_issues (tracker (committed (is_session s))))) \<le> 1"
proof -
  let ?issues = "sandbox_issues (tracker (committed (is_session s)))"
  have inv: "issue_inv sha tr s" and dist: "distinct (trace_draft_ids tr)"
    using assms by (rule issue_run_inv, rule issue_run_draft_ids)
  have "length (filter (\<lambda>i. si_client_request_id i = Some (uuid_str k)) (requested ?issues)) \<le> 1"
  proof (rule distinct_map_filter_one)
    show "distinct (map (\<lambda>i. (si_project_id i, si_client_request_id i)) (requested ?issues))"
      using inv by (simp add: issue_inv_def db_ok_def issues_ok_def)
    fix i j assume "i \<in> set (requested ?issues)" "j \<in> set (requested ?issues)"
      and r: "si_client_request_id i = Some (uuid_str k)" "si_client_request_id j = Some (uuid_str k)"
    then have i: "i \<in> set ?issues" and j: "j \<in> set ?issues" by (auto simp: requested_def)
    obtain d where d: "drafted tr d" "dr_id d = k" "si_project_id i = dr_project_id d"
      using issue_of_draft [OF inv i r(1)] by (metis uuid_str_inject)
    obtain e where e: "drafted tr e" "dr_id e = k" "si_project_id j = dr_project_id e"
      using issue_of_draft [OF inv j r(2)] by (metis uuid_str_inject)
    show "(si_project_id i, si_client_request_id i) = (si_project_id j, si_client_request_id j)"
      using drafted_unique [OF dist d(1) e(1)] d e r by simp
  qed
  moreover have "filter (\<lambda>i. si_client_request_id i = Some (uuid_str k)) (requested ?issues)
      = filter (\<lambda>i. si_client_request_id i = Some (uuid_str k)) ?issues"
    unfolding requested_def filter_filter by (rule filter_cong) auto
  ultimately show ?thesis by simp
qed

end
