(* ===== verification/IssueGraphProofs.thy ===== *)
theory IssueGraphProofs
  imports IssueGraph IssueProofs
begin

text \<open>
  The issue graphs refine the abstract sequences of service calls of \<open>IssueProofs\<close>: whatever runs are
  executed and resumed, in whatever order and on whatever threads, the issue workflow goes through a
  sequence of drafts, decisions, executions, commits and rollbacks, and each decision in it was sent by a
  resume. What is proved of those sequences therefore holds of the running system.
\<close>

section \<open>Operations as sequences of service calls\<close>

definition calls :: "nat \<Rightarrow> (issue_call \<Rightarrow> bool) \<Rightarrow> 'a world_op \<Rightarrow> bool" where
  "calls n P m \<longleftrightarrow> (\<forall>w. \<exists>cs. iw_sys (snd (m w)) = fold run_call cs (iw_sys w) \<and>
     (\<forall>c\<in>set cs. P c) \<and> length cs \<le> n)"

lemma callsI:
  assumes "\<And>w. \<exists>cs. iw_sys (snd (m w)) = fold run_call cs (iw_sys w) \<and> (\<forall>c\<in>set cs. P c) \<and> length cs \<le> n"
  shows "calls n P m"
  using assms unfolding calls_def by blast

lemma calls_none: "(\<And>w. iw_sys (snd (m w)) = iw_sys w) \<Longrightarrow> calls n P m"
  by (rule callsI, rule exI [of _ "[]"]) simp

lemma calls_one: "(\<And>w. iw_sys (snd (m w)) = run_call c (iw_sys w)) \<Longrightarrow> P c \<Longrightarrow> calls (Suc n) P m"
  by (rule callsI, rule exI [of _ "[c]"]) simp

named_theorems calls_rules

lemma calls_basic [calls_rules]:
  "calls n P (return_op x)" "calls n P (raise_op e)" "calls n P (of_res r)"
  by (rule calls_none, simp)+

lemma calls_qa [calls_rules]: "calls n P (on_qa m)"
  by (rule calls_none) (simp add: on_qa_def split: prod.splits)

lemma db_read [simp]: "db_op (read_op f) s = (f (working (is_session s)), s)"
  by (simp add: db_op_def on_working_def)

lemma tracker_read [simp]: "tracker_op (read_op f) s = (f (tracker (working (is_session s))), s)"
  by (simp add: tracker_op_def db_op_def on_working_def)

lemma calls_read [calls_rules]:
  "calls n P (on_sys (db_op (read_op f)))" "calls n P (on_sys (tracker_op (read_op g)))"
  by (rule calls_none, simp add: on_sys_def)+

lemma calls_free_first:
  assumes "calls 0 P m" and "\<And>x. calls n P (f x)"
  shows "calls n P (bind_op m f)"
proof (rule callsI)
  fix w
  have m: "iw_sys (snd (m w)) = iw_sys w" using assms(1) unfolding calls_def by (metis fold_Nil id_apply le_zero_eq length_0_conv)
  show "\<exists>cs. iw_sys (snd (bind_op m f w)) = fold run_call cs (iw_sys w) \<and> (\<forall>c\<in>set cs. P c) \<and> length cs \<le> n"
  proof (cases "fst (m w)")
    case (Inl e)
    then have "bind_op m f w = (Inl e, snd (m w))" by (cases "m w") (simp add: bind_op_def)
    then show ?thesis using m by (auto intro: exI [of _ "[]"])
  next
    case (Inr x)
    then have "bind_op m f w = f x (snd (m w))" by (cases "m w") (simp add: bind_op_def)
    then show ?thesis using m assms(2) [of x] unfolding calls_def by metis
  qed
qed

lemma calls_zero: "calls 0 P m \<longleftrightarrow> (\<forall>w. iw_sys (snd (m w)) = iw_sys w)"
  by (auto simp: calls_def)

lemma calls_free_last:
  assumes "calls n P m" and "\<And>x. calls 0 P (f x)"
  shows "calls n P (bind_op m f)"
proof (rule callsI)
  fix w
  have "iw_sys (snd (bind_op m f w)) = iw_sys (snd (m w))"
    using assms(2) unfolding calls_zero
    by (cases "m w"; cases "fst (m w)") (auto simp: bind_op_def)
  then show "\<exists>cs. iw_sys (snd (bind_op m f w)) = fold run_call cs (iw_sys w) \<and> (\<forall>c\<in>set cs. P c) \<and> length cs \<le> n"
    using assms(1) unfolding calls_def by simp
qed

lemma calls_try:
  assumes "calls n P m" and "\<And>e. calls 0 P (h e)" and "\<And>x. calls 0 P (f x)"
  shows "calls n P (try_op m h f)"
proof (rule callsI)
  fix w
  have "iw_sys (snd (try_op m h f w)) = iw_sys (snd (m w))"
    using assms(2,3) unfolding calls_zero
    by (cases "m w"; cases "fst (m w)") (auto simp: try_op_def)
  then show "\<exists>cs. iw_sys (snd (try_op m h f w)) = fold run_call cs (iw_sys w) \<and> (\<forall>c\<in>set cs. P c) \<and> length cs \<le> n"
    using assms(1) unfolding calls_def by simp
qed

lemma calls_res:
  "(\<And>x. r = Inr x \<Longrightarrow> calls n P (f x)) \<Longrightarrow> calls n P (bind_op (of_res r) f)"
  by (cases r) (auto simp: calls_def bind_op_def intro: exI [of _ "[]"])

lemma calls_if [calls_rules]:
  "(b \<Longrightarrow> calls n P m) \<Longrightarrow> (\<not> b \<Longrightarrow> calls n P m') \<Longrightarrow> calls n P (if b then m else m')"
  by simp

section \<open>The call of each node\<close>

fun node_call :: "issue_node \<Rightarrow> issue_deps \<Rightarrow> resume_value option \<Rightarrow> AgentState \<Rightarrow> issue_call \<Rightarrow> bool" where
  "node_call I_BUILD d resume st (CallDraft env run project user body cands ev) \<longleftrightarrow>
     env = sd_issue d \<and> UUID (st_user_id st) = Inr user"
| "node_call I_CONFIRM d resume st (CallDecide env k a action h) \<longleftrightarrow>
     env = sd_issue d \<and> UUID (st_user_id st) = Inr a \<and> resume = Some (ConfirmationAction_value action, h)"
| "node_call I_EXECUTE d resume st (CallExecute env k c a) \<longleftrightarrow>
     env = sd_issue d \<and> UUID (st_user_id st) = Inr a"
| "node_call _ d resume st _ \<longleftrightarrow> False"

lemma search_calls: "calls 0 P (search_issues_node d st)"
  unfolding search_issues_node_def
  by (intro calls_rules calls_free_first; (split sum.split)?; intro allI impI conjI calls_rules calls_free_first)

lemma build_calls: "calls 1 (node_call I_BUILD d resume st) (build_issue_draft_node d st)"
  unfolding build_issue_draft_node_def One_nat_def
proof (intro calls_rules calls_free_first [OF calls_qa] calls_res)
  fix run query cands ev project user
  assume "UUID (st_user_id st) = Inr user"
  then show "calls (Suc 0) (node_call I_BUILD d resume st)
     (bind_op (on_sys (create_from_text (sd_issue d) run project user query cands ev))
       (\<lambda>draft. return_op (st\<lparr>st_issue_draft_id := Some (uuid_str (dr_id draft)),
          st_route := Some ''confirm_issue_create'', st_last_error_code := None\<rparr>)))"
    by (intro calls_free_last calls_rules calls_one [where c = "CallDraft (sd_issue d) run project user query cands ev"])
      (simp_all add: on_sys_def split: prod.splits)
qed

lemma action_of_value: "ConfirmationAction_of s = Inr a \<Longrightarrow> s = ConfirmationAction_value a"
  by (auto simp: ConfirmationAction_of_def find_Some_iff split: option.splits if_splits)

lemma decide_calls: "calls 1 (node_call I_CONFIRM d (Some v) st) (decide d k v st)"
proof (cases "ConfirmationAction_of (fst v)")
  case (Inr action)
  have v: "v = (ConfirmationAction_value action, snd v)"
    using action_of_value [OF Inr] by (metis prod.collapse)
  have one: "calls (Suc 0) (node_call I_CONFIRM d (Some v) st)
      (on_sys (record_decision (sd_issue d) k a action (snd v)))" if "UUID (st_user_id st) = Inr a" for a
    using that v by (intro calls_one [where c = "CallDecide (sd_issue d) k a action (snd v)"])
      (simp_all add: on_sys_def split: prod.splits)
  show ?thesis
    unfolding decide_def One_nat_def Inr sum.case
    by (rule calls_res, rule calls_try [OF one]) (auto intro: calls_rules)
qed (simp add: decide_def calls_rules)

lemma confirm_calls: "calls 1 (node_call I_CONFIRM d resume st) (confirm_issue_create_node d resume st)"
proof (cases resume)
  case None
  then show ?thesis
    unfolding confirm_issue_create_node_def
    by (auto intro!: calls_rules calls_free_first)
next
  case (Some v)
  then show ?thesis
    unfolding confirm_issue_create_node_def
    by (auto intro!: calls_rules calls_free_first [OF calls_read(1)] calls_res calls_free_last
        decide_calls [unfolded One_nat_def])
qed

lemma execute_calls: "calls 1 (node_call I_EXECUTE d resume st) (execute_issue_create_node d st)"
proof -
  have one: "calls (Suc 0) (node_call I_EXECUTE d resume st) (on_sys (execute_creation (sd_issue d) k c a))"
    if "UUID (st_user_id st) = Inr a" for k c a
    using that by (intro calls_one [where c = "CallExecute (sd_issue d) k c a"])
      (simp_all add: on_sys_def split: prod.splits)
  show ?thesis
    unfolding execute_issue_create_node_def One_nat_def
    by (intro calls_if calls_res calls_try one calls_rules calls_free_first) auto
qed

lemma plain_calls: "calls n P m \<Longrightarrow> calls n P (plain_node m)"
  unfolding plain_node_def by (rule calls_free_last, assumption, rule calls_rules)

lemma node_calls: "calls 1 (node_call node d resume st) (issue_node_op node d resume st)"
  by (cases node) (simp_all add: plain_calls calls_rules build_calls confirm_calls execute_calls
      callsI calls_def [of "Suc 0"] plain_calls [OF search_calls, unfolded calls_zero] calls_none
      del: One_nat_def)

section \<open>A run of the graph\<close>

text \<open>The nodes keep who the state is about.\<close>

definition ids :: "AgentState \<Rightarrow> string \<times> string \<times> string \<times> string option" where
  "ids st = (st_run_id st, st_thread_id st, st_user_id st, st_project_id st)"

definition rets :: "('a \<Rightarrow> bool) \<Rightarrow> ('a, 's) op \<Rightarrow> bool" where
  "rets P m \<longleftrightarrow> (\<forall>s x s'. m s = (Inr x, s') \<longrightarrow> P x)"

lemma rets_return: "P x \<Longrightarrow> rets P (return_op x)"
  by (simp add: rets_def)

lemma rets_raise: "rets P (raise_op e)"
  by (simp add: rets_def)

lemma rets_bind: "(\<And>x. rets P (f x)) \<Longrightarrow> rets P (bind_op m f)"
  by (auto simp: rets_def bind_op_Inr_iff)

lemma rets_try: "(\<And>e. rets P (h e)) \<Longrightarrow> (\<And>x. rets P (f x)) \<Longrightarrow> rets P (try_op m h f)"
  unfolding rets_def by (auto simp: try_op_def split: prod.splits sum.splits)

lemma rets_if: "rets P m \<Longrightarrow> rets P m' \<Longrightarrow> rets P (if b then m else m')"
  by simp

lemma rets_option: "rets P a \<Longrightarrow> (\<And>y. rets P (b y)) \<Longrightarrow> rets P (case x of None \<Rightarrow> a | Some y \<Rightarrow> b y)"
  by (cases x) simp_all

lemma rets_sum: "(\<And>y. rets P (a y)) \<Longrightarrow> (\<And>y. rets P (b y)) \<Longrightarrow> rets P (case x of Inl y \<Rightarrow> a y | Inr y \<Rightarrow> b y)"
  by (cases x) simp_all

lemma rets_qa: "rets P m \<Longrightarrow> rets P (on_qa m)"
  unfolding rets_def on_qa_def by (auto split: prod.splits)

lemma rets_plain: "rets P m \<Longrightarrow> rets (\<lambda>r. \<exists>st. r = Inr st \<and> P st) (plain_node m)"
  unfolding rets_def plain_node_def by (auto simp: bind_op_Inr_iff)

lemmas rets_rules = rets_if rets_bind rets_try rets_raise rets_return rets_qa rets_option rets_sum

lemma refuse_with_fields [simp]:
  "ids (refuse_with code st) = ids st" "st_route (refuse_with code st) = Some ''refusal''"
  by (simp_all add: refuse_with_def ids_def)

lemma scope_ids: "rets (\<lambda>st'. ids st' = ids st) (resolve_scope_node d st)"
  unfolding resolve_scope_node_def by (intro rets_rules) (simp add: ids_def refuse_with_def)

lemma evidence_ids_kept: "rets (\<lambda>st'. ids st' = ids st) (retrieve_issue_evidence_node d st)"
  unfolding retrieve_issue_evidence_node_def Let_def
  by (intro rets_rules) (simp_all add: ids_def refuse_with_def)

lemma search_ids: "rets (\<lambda>st'. ids st' = ids st) (search_issues_node d st)"
  unfolding search_issues_node_def
  by (intro rets_rules) (simp_all add: ids_def refuse_with_def)

lemma build_ids: "rets (\<lambda>st'. ids st' = ids st) (build_issue_draft_node d st)"
  unfolding build_issue_draft_node_def by (intro rets_rules) (simp_all add: ids_def refuse_with_def)

lemma decide_ids: "rets (\<lambda>st'. ids st' = ids st) (decide d k v st)"
  unfolding decide_def
  by (intro rets_rules) (simp_all add: ids_def refuse_with_def)

lemma confirm_ids: "rets (\<lambda>r. case r of Inl _ \<Rightarrow> True | Inr st' \<Rightarrow> ids st' = ids st) (confirm_issue_create_node d resume st)"
proof (cases resume)
  case None
  then show ?thesis
    unfolding confirm_issue_create_node_def None option.case by (intro rets_rules) simp_all
next
  case (Some v)
  have *: "rets (\<lambda>r. case r of Inl _ \<Rightarrow> True | Inr st' \<Rightarrow> ids st' = ids st)
      (bind_op (decide d k v st) (\<lambda>st'. return_op (Inr st')))" for k
    using decide_ids [of st d k v] unfolding rets_def by (force simp: bind_op_Inr_iff)
  show ?thesis
    unfolding confirm_issue_create_node_def Some option.case
    by (rule rets_if [OF rets_return rets_bind [OF rets_bind [OF *]]]) simp
qed

lemma execute_ids: "rets (\<lambda>st'. ids st' = ids st) (execute_issue_create_node d st)"
  unfolding execute_issue_create_node_def by (intro rets_rules) (simp_all add: ids_def refuse_with_def)

lemma node_ids: "rets (\<lambda>r. case r of Inl _ \<Rightarrow> True | Inr st' \<Rightarrow> ids st' = ids st) (issue_node_op node d resume st)"
proof -
  have *: "rets (\<lambda>r. case r of Inl _ \<Rightarrow> True | Inr st' \<Rightarrow> ids st' = ids st) (plain_node m)"
    if "rets (\<lambda>st'. ids st' = ids st) m" for m :: "AgentState world_op"
    using rets_plain [OF that] unfolding rets_def by force
  show ?thesis
    by (cases node) (simp_all add: * rets_qa scope_ids evidence_ids_kept search_ids build_ids confirm_ids execute_ids)
qed

lemma confirm_without_resume:
  "rets (\<lambda>r. case r of Inl _ \<Rightarrow> True | Inr st' \<Rightarrow> st_route st' = Some ''refusal'') (confirm_issue_create_node d None st)"
  unfolding confirm_issue_create_node_def option.case by (intro rets_rules) simp_all

text \<open>The calls that a run can make from a node on.\<close>

fun may_call :: "issue_node \<Rightarrow> (nat \<Rightarrow> issue_deps) \<Rightarrow> resume_value option \<Rightarrow> string \<Rightarrow> issue_call \<Rightarrow> bool" where
  "may_call node deps resume u (CallDraft env run project user body cands ev) \<longleftrightarrow>
     (\<exists>k. env = sd_issue (deps k)) \<and> UUID u = Inr user \<and> node \<notin> {I_CONFIRM, I_EXECUTE}"
| "may_call node deps resume u (CallDecide env k a action h) \<longleftrightarrow>
     (\<exists>k. env = sd_issue (deps k)) \<and> UUID u = Inr a \<and> node = I_CONFIRM \<and>
     resume = Some (ConfirmationAction_value action, h)"
| "may_call node deps resume u (CallExecute env k c a) \<longleftrightarrow>
     (\<exists>k. env = sd_issue (deps k)) \<and> UUID u = Inr a \<and>
     (node = I_EXECUTE \<or> node = I_CONFIRM \<and> resume \<noteq> None)"
| "may_call node deps resume u _ \<longleftrightarrow> False"

definition issue_edges :: "(issue_node \<Rightarrow> AgentState \<Rightarrow> issue_node option) \<Rightarrow> bool" where
  "issue_edges edges \<longleftrightarrow> edges = create_next \<or> edges = lookup_next"

lemma node_may_call: "node_call node (deps k) resume st c \<Longrightarrow> may_call node deps resume (st_user_id st) c"
  by (cases node; cases c) auto

lemma next_may_call:
  assumes "may_call node' deps None u c" and "issue_edges edges" and "edges node st' = Some node'"
    and "node = I_CONFIRM \<Longrightarrow> resume = None \<Longrightarrow> st_route st' = Some ''refusal''"
  shows "may_call node deps resume u c"
  using assms unfolding issue_edges_def
  by (cases resume; cases c; cases node)
    (auto simp: after_issue_evidence_def after_confirmation_def split: if_splits)

definition draft_bound :: "issue_node \<Rightarrow> nat" where
  "draft_bound node = (if node \<in> {I_CONFIRM, I_EXECUTE} then 0 else 1)"

lemma node_draft_bound:
  assumes "length cs \<le> 1" and "\<forall>c\<in>set cs. node_call node d resume st c"
    and "issue_edges edges" and "edges node st' = Some node'"
  shows "length (concat (map call_draft_ids cs)) + draft_bound node' \<le> draft_bound node"
proof (cases cs)
  case Nil
  then show ?thesis using assms(3,4) unfolding issue_edges_def draft_bound_def
    by (cases node) (auto simp: after_issue_evidence_def after_confirmation_def split: if_splits)
next
  case (Cons c rest)
  then show ?thesis using assms unfolding issue_edges_def draft_bound_def
    by (cases node; cases c) (auto simp: after_issue_evidence_def after_confirmation_def split: if_splits)
qed

lemma node_own_bound:
  assumes "length cs \<le> 1" and "\<forall>c\<in>set cs. node_call node d resume st c"
  shows "length (concat (map call_draft_ids cs)) \<le> draft_bound node"
proof (cases cs)
  case (Cons c rest)
  then show ?thesis using assms unfolding draft_bound_def by (cases node; cases c) auto
qed simp

lemma run_issue_calls:
  assumes "run_issue fuel edges deps k resume node st w = Some (r, c, w')" and "issue_edges edges"
  shows "\<exists>cs. iw_sys w' = fold run_call cs (iw_sys w) \<and>
     (\<forall>x\<in>set cs. may_call node deps resume (st_user_id st) x) \<and>
     length (concat (map call_draft_ids cs)) \<le> draft_bound node" and "ids (ck_state c) = ids st"
proof (atomize (full), use assms in \<open>induction fuel arbitrary: k resume node st w\<close>)
  case (Suc fuel)
  obtain q v where op: "issue_node_op node (deps k) resume st w = (q, v)" by fastforce
  obtain cs where cs: "iw_sys v = fold run_call cs (iw_sys w)"
      "\<forall>x\<in>set cs. node_call node (deps k) resume st x" "length cs \<le> 1"
    using node_calls [of node "deps k" resume st] op unfolding calls_def by (metis snd_conv)
  have own: "\<exists>cs. iw_sys v = fold run_call cs (iw_sys w) \<and>
      (\<forall>x\<in>set cs. may_call node deps resume (st_user_id st) x) \<and>
      length (concat (map call_draft_ids cs)) \<le> draft_bound node"
    using cs node_may_call node_own_bound [OF cs(3,2)] by blast
  show ?case
  proof (cases q)
    case (Inl e)
    then show ?thesis using Suc.prems(1) op own by auto
  next
    case (Inr out)
    show ?thesis
    proof (cases out)
      case (Inl waiting)
      then show ?thesis using Suc.prems(1) op own \<open>q = Inr out\<close> by auto
    next
      case (Inr st')
      then have op': "issue_node_op node (deps k) resume st w = (Inr (Inr st'), v)"
        using op \<open>q = Inr out\<close> by simp
      have ids': "ids st' = ids st" using node_ids op' unfolding rets_def by fastforce
      show ?thesis
      proof (cases "edges node st'")
        case None
        then show ?thesis using Suc.prems(1) op' own ids' by auto
      next
        case (Some node')
        then have rest: "run_issue fuel edges deps (Suc k) None node' st' v = Some (r, c, w')"
          using Suc.prems(1) op' by simp
        obtain cs' where cs': "iw_sys w' = fold run_call cs' (iw_sys v)"
            "\<forall>x\<in>set cs'. may_call node' deps None (st_user_id st') x"
            "length (concat (map call_draft_ids cs')) \<le> draft_bound node'" "ids (ck_state c) = ids st'"
          using Suc.IH [OF rest Suc.prems(2)] by blast
        have refused: "st_route st' = Some ''refusal''" if "node = I_CONFIRM" "resume = None"
          using confirm_without_resume op' that unfolding rets_def by fastforce
        have "may_call node deps resume (st_user_id st) x" if "x \<in> set cs'" for x
          using next_may_call [OF _ Suc.prems(2) Some refused] cs'(2) ids' that by (simp add: ids_def refuse_with_def)
        moreover have "length (concat (map call_draft_ids (cs @ cs'))) \<le> draft_bound node"
          using node_draft_bound [OF cs(3,2) Suc.prems(2) Some] cs'(3) by simp
        moreover have "iw_sys w' = fold run_call (cs @ cs') (iw_sys w)" using cs(1) cs'(1) by simp
        ultimately show ?thesis
          using cs(2) node_may_call cs'(4) ids' by (intro conjI exI [of _ "cs @ cs'"]) auto
      qed
    qed
  qed
qed simp

section \<open>The running system\<close>

text \<open>
  The state: the tables, and the checkpoint of every thread. An event is an invocation of the executor for a
  run, a reconciliation job, or anything else: what other parts of the program do to the store and, by a run of
  the question-answering graph for a user on a thread, to the checkpoint of that thread. Both graphs have a
  node \<open>resolve_scope\<close>, and no other name in common: a run of the question-answering graph that raised there
  leaves it pending on the thread, where a resume of an issue run finds it.
\<close>

record graph_sys =
  gs_world :: issue_world
  gs_threads :: "uuid \<Rightarrow> checkpoint"

datatype graph_event =
    Invoke invocation RunRecord "payload option"
  | ReconcileJob bool issue_env QueuedJob
  | Elsewhere qa_db "(uuid \<times> uuid \<times> bool \<times> AgentState) option"

fun apply_event :: "graph_event \<Rightarrow> graph_sys \<Rightarrow> graph_sys" where
  "apply_event (Invoke iv run resume_payload) g =
     (case invoke_issue iv run resume_payload (gs_threads g (rr_thread_id run)) (gs_world g) of
        (_, c, w) \<Rightarrow> \<lparr>gs_world = w, gs_threads = (gs_threads g)(rr_thread_id run := c)\<rparr>)"
| "apply_event (ReconcileJob commit_ok env job) g =
     g\<lparr>gs_world := (gs_world g)\<lparr>iw_sys := snd (reconcile_issue_create_handler commit_ok env job (iw_sys (gs_world g)))\<rparr>\<rparr>"
| "apply_event (Elsewhere store qa) g =
     \<lparr>gs_world = (gs_world g)\<lparr>iw_qa := store\<rparr>,
      gs_threads =
        (case qa of
           None \<Rightarrow> gs_threads g
         | Some (t, user, in_scope, st) \<Rightarrow> (gs_threads g)(t :=
             \<lparr>ck_state = st\<lparr>st_user_id := uuid_str user\<rparr>, ck_pending = if in_scope then Some I_SCOPE else None\<rparr>))\<rparr>"

fun event_envs :: "graph_event \<Rightarrow> issue_env set" where
  "event_envs (Invoke iv _ _) = {sd_issue (iv_deps iv k) | k. True}"
| "event_envs (ReconcileJob _ env _) = {env}"
| "event_envs (Elsewhere _ _) = {}"

fun event_draft_ids :: "graph_event \<Rightarrow> uuid set" where
  "event_draft_ids (Invoke iv _ _) = {ie_new_draft (sd_issue (iv_deps iv k)) | k. True}"
| "event_draft_ids _ = {}"

text \<open>One hash and trackers that keep their contract throughout, and \<open>uuid4\<close> never repeats a draft id.\<close>

definition event_ok :: "(string \<Rightarrow> string) \<Rightarrow> graph_event list \<Rightarrow> graph_event \<Rightarrow> bool" where
  "event_ok sha evs ev \<longleftrightarrow>
     (\<forall>env\<in>event_envs ev. env_ok sha env) \<and>
     (\<forall>old\<in>set evs. event_draft_ids old \<inter> event_draft_ids ev = {})"

inductive graph_run :: "(string \<Rightarrow> string) \<Rightarrow> graph_event list \<Rightarrow> graph_sys \<Rightarrow> bool" for sha where
  graph_start: "issue_start (iw_sys (gs_world g)) \<Longrightarrow> (\<forall>t. ck_pending (gs_threads g t) = None) \<Longrightarrow> graph_run sha [] g"
| graph_step: "graph_run sha evs g \<Longrightarrow> event_ok sha evs ev \<Longrightarrow> graph_run sha (evs @ [ev]) (apply_event ev g)"

text \<open>\<open>started evs t u\<close>: a run of user \<open>u\<close>, of either graph, was executed on thread \<open>t\<close>.\<close>

definition started :: "graph_event list \<Rightarrow> uuid \<Rightarrow> uuid \<Rightarrow> bool" where
  "started evs t u \<longleftrightarrow> (\<exists>iv run. Invoke iv run None \<in> set evs \<and> rr_thread_id run = t \<and> rr_user_id run = u) \<or>
     (\<exists>store in_scope st. Elsewhere store (Some (t, u, in_scope, st)) \<in> set evs)"

text \<open>The event that made a service call.\<close>

fun caused_by :: "graph_event list \<Rightarrow> graph_event \<Rightarrow> issue_call \<Rightarrow> bool" where
  "caused_by evs (Invoke iv run p) (CallDraft env r project user body cands ev) \<longleftrightarrow>
     (\<exists>k. env = sd_issue (iv_deps iv k)) \<and> started evs (rr_thread_id run) user"
| "caused_by evs (Invoke iv run p) (CallDecide env d a action h) \<longleftrightarrow>
     (\<exists>k. env = sd_issue (iv_deps iv k)) \<and> started evs (rr_thread_id run) a \<and>
     (\<exists>q. p = Some q \<and> resume_value_of q = Inr (ConfirmationAction_value action, h))"
| "caused_by evs (Invoke iv run p) (CallExecute env d c a) \<longleftrightarrow>
     (\<exists>k. env = sd_issue (iv_deps iv k)) \<and> started evs (rr_thread_id run) a \<and> p \<noteq> None"
| "caused_by evs (ReconcileJob ok env job) (CallReconcile env' d) \<longleftrightarrow>
     env' = env \<and> UUID (qj_aggregate_id job) = Inr d"
| "caused_by evs (Invoke iv run p) CallCommit \<longleftrightarrow> True"
| "caused_by evs (Invoke iv run p) CallRollback \<longleftrightarrow> True"
| "caused_by evs (ReconcileJob ok env job) CallCommit \<longleftrightarrow> True"
| "caused_by evs (ReconcileJob ok env job) CallRollback \<longleftrightarrow> True"
| "caused_by evs _ _ \<longleftrightarrow> False"

text \<open>A checkpoint with a pending node belongs to a user who started a run on the thread.\<close>

definition thread_ok :: "graph_event list \<Rightarrow> uuid \<Rightarrow> checkpoint \<Rightarrow> bool" where
  "thread_ok evs t c \<longleftrightarrow>
     (ck_pending c \<noteq> None \<longrightarrow> (\<exists>u. st_user_id (ck_state c) = uuid_str u \<and> started evs t u))"

section \<open>An invocation as a sequence of calls\<close>

lemma open_rolls: "iw_sys (open_world w) = run_call CallRollback (iw_sys w)"
  by (cases "is_session (iw_sys w)") (simp add: open_world_def begin_session_def rollback_def)

lemma close_calls:
  assumes "close_world ok before (r, c, w) = (r', c', w')"
  obtains fin where "fin = CallCommit \<or> fin = CallRollback" "iw_sys w' = run_call fin (iw_sys w)" "c' = c"
proof -
  have "c' = c \<and> (iw_sys w' = run_call CallCommit (iw_sys w) \<or> iw_sys w' = run_call CallRollback (iw_sys w))"
    using assms by (auto simp: close_world_def roll_world_def split: sum.splits if_splits)
  then show thesis using that by blast
qed

lemma edges_issue: "graph_edges mode = Some edges \<Longrightarrow> issue_edges edges"
  by (cases mode) (auto simp: graph_edges_def issue_edges_def)

lemma draft_bound_le: "draft_bound node \<le> 1"
  by (simp add: draft_bound_def)

text \<open>What an invocation does between the opening and the closing of its session.\<close>

definition body_calls ::
  "invocation \<Rightarrow> RunRecord \<Rightarrow> payload option \<Rightarrow> checkpoint \<Rightarrow> issue_sys \<Rightarrow> checkpoint \<Rightarrow> issue_sys \<Rightarrow> bool" where
  "body_calls iv run p saved s c s' \<longleftrightarrow>
     (\<exists>cs node v u. s' = fold run_call cs s \<and> (\<forall>x\<in>set cs. may_call node (iv_deps iv) v u x) \<and>
        length (concat (map call_draft_ids cs)) \<le> 1 \<and>
        (case p of
           None \<Rightarrow> node = I_SCOPE \<and> v = None \<and> u = uuid_str (rr_user_id run)
         | Some q \<Rightarrow> cs \<noteq> [] \<longrightarrow> (\<exists>x. v = Some x \<and> resume_value_of q = Inr x) \<and>
             ck_pending saved = Some node \<and> u = st_user_id (ck_state saved))) \<and>
     (c = saved \<or> (case p of
        None \<Rightarrow> st_user_id (ck_state c) = uuid_str (rr_user_id run)
      | Some q \<Rightarrow> ck_pending saved \<noteq> None \<and> st_user_id (ck_state c) = st_user_id (ck_state saved)))"

lemma body_calls_none: "body_calls iv run p saved s saved s"
  unfolding body_calls_def
  by (rule conjI, rule exI [of _ "[]"], rule exI [of _ I_SCOPE], rule exI [of _ None],
      rule exI [of _ "uuid_str (rr_user_id run)"]) (auto split: option.split)

lemma execute_body_calls:
  assumes "graph_execute iv run saved w = (r, c, w')"
  shows "body_calls iv run None saved (iw_sys w) c (iw_sys w')"
proof (cases "graph_edges (rr_business_mode run)")
  case None
  then show ?thesis using assms body_calls_none by (auto simp: graph_execute_def)
next
  case (Some edges)
  show ?thesis
  proof (cases "run_issue RECURSION_LIMIT edges (iv_deps iv) 1 None I_SCOPE (run_input run (ck_state saved)) w")
    case None
    then show ?thesis using assms Some body_calls_none by (auto simp: graph_execute_def)
  next
    case (Some res)
    obtain r0 where run: "run_issue RECURSION_LIMIT edges (iv_deps iv) 1 None I_SCOPE
        (run_input run (ck_state saved)) w = Some (r0, c, w')"
      using assms Some \<open>graph_edges _ = Some edges\<close>
      by (auto simp: graph_execute_def split: prod.splits sum.splits)
    note calls = run_issue_calls [OF run edges_issue [OF \<open>graph_edges _ = Some edges\<close>]]
    have u: "st_user_id (run_input run (ck_state saved)) = uuid_str (rr_user_id run)" by (simp add: run_input_def)
    obtain cs where "iw_sys w' = fold run_call cs (iw_sys w)"
        "\<forall>x\<in>set cs. may_call I_SCOPE (iv_deps iv) None (uuid_str (rr_user_id run)) x"
        "length (concat (map call_draft_ids cs)) \<le> 1"
      using calls(1) draft_bound_le [of I_SCOPE] unfolding u by (meson le_trans)
    then show ?thesis
      using calls(2) u unfolding body_calls_def option.case ids_def by (metis prod.inject)
  qed
qed

lemma resume_body_calls:
  assumes "graph_resume iv run q saved w = (r, c, w')"
  shows "body_calls iv run (Some q) saved (iw_sys w) c (iw_sys w')"
proof -
  have "c = saved \<and> w' = w \<or> (\<exists>edges v node r0. graph_edges (rr_business_mode run) = Some edges \<and>
      resume_value_of q = Inr v \<and> ck_pending saved = Some node \<and>
      run_issue RECURSION_LIMIT edges (iv_deps iv) 1 (Some v) node (ck_state saved) w = Some (r0, c, w'))"
    using assms unfolding graph_resume_def
    by (auto split: option.splits sum.splits if_splits prod.splits)
  then show ?thesis
  proof
    assume "c = saved \<and> w' = w"
    then show ?thesis by (simp add: body_calls_none)
  next
    assume "\<exists>edges v node r0. graph_edges (rr_business_mode run) = Some edges \<and>
      resume_value_of q = Inr v \<and> ck_pending saved = Some node \<and>
      run_issue RECURSION_LIMIT edges (iv_deps iv) 1 (Some v) node (ck_state saved) w = Some (r0, c, w')"
    then obtain edges v node r0 where *: "graph_edges (rr_business_mode run) = Some edges"
        "resume_value_of q = Inr v" "ck_pending saved = Some node"
        "run_issue RECURSION_LIMIT edges (iv_deps iv) 1 (Some v) node (ck_state saved) w = Some (r0, c, w')"
      by blast
    note calls = run_issue_calls [OF *(4) edges_issue [OF *(1)]]
    obtain cs where "iw_sys w' = fold run_call cs (iw_sys w)"
        "\<forall>x\<in>set cs. may_call node (iv_deps iv) (Some v) (st_user_id (ck_state saved)) x"
        "length (concat (map call_draft_ids cs)) \<le> 1"
      using calls(1) draft_bound_le [of node] by (meson le_trans)
    moreover have "st_user_id (ck_state c) = st_user_id (ck_state saved)" using calls(2) by (simp add: ids_def)
    ultimately show ?thesis using *(2,3) unfolding body_calls_def option.case by blast
  qed
qed

lemma invoke_calls:
  assumes "invoke_issue iv run p saved w = (r, c, w')"
  obtains s fin where "body_calls iv run p saved (run_call CallRollback (iw_sys w)) c s"
    "fin = CallCommit \<or> fin = CallRollback" "iw_sys w' = run_call fin s"
proof -
  obtain r0 c0 w0 where mid: "(case bind_authorized_knowledge_spaces iv run of
       Inl e \<Rightarrow> (Inl e, saved, open_world w)
     | Inr _ \<Rightarrow> (case p of None \<Rightarrow> graph_execute iv run saved (open_world w)
                | Some q \<Rightarrow> graph_resume iv run q saved (open_world w))) = (r0, c0, w0)"
    by (metis prod_cases3)
  have body: "body_calls iv run p saved (run_call CallRollback (iw_sys w)) c0 (iw_sys w0)"
    using mid execute_body_calls resume_body_calls body_calls_none
    unfolding open_rolls [symmetric] by (auto split: sum.splits option.splits)
  have "close_world (iv_commit_ok iv) (open_world w) (r0, c0, w0) = (r, c, w')"
    using assms mid by (simp add: invoke_issue_def Let_def)
  then show thesis by (rule close_calls) (use that body in auto)
qed

section \<open>The system refines the sequences of calls\<close>

lemma issue_run_fold:
  assumes "issue_run sha tr s" and "\<And>c env. c \<in> set cs \<Longrightarrow> call_env c = Some env \<Longrightarrow> env_ok sha env"
    and "distinct (trace_draft_ids cs)" and "set (trace_draft_ids cs) \<inter> set (trace_draft_ids tr) = {}"
  shows "issue_run sha (tr @ cs) (fold run_call cs s)"
  using assms
proof (induction cs arbitrary: tr s)
  case (Cons c cs)
  have "call_ok sha tr c" using Cons.prems(2,4) by (auto simp: call_ok_def trace_draft_ids_def)
  then have run: "issue_run sha (tr @ [c]) (run_call c s)" by (rule run_step [OF Cons.prems(1)])
  have "distinct (trace_draft_ids cs)" "set (trace_draft_ids cs) \<inter> set (trace_draft_ids (tr @ [c])) = {}"
    using Cons.prems(3,4) unfolding trace_draft_ids_def by (cases c; auto)+
  moreover have "env_ok sha env" if "d \<in> set cs" "call_env d = Some env" for d env
    using Cons.prems(2) [of d env] that by simp
  ultimately show ?case using Cons.IH [OF run] by simp
qed simp

lemma started_mono: "started evs t u \<Longrightarrow> started (evs @ [ev]) t u"
  unfolding started_def by auto

lemma caused_mono: "caused_by evs ev c \<Longrightarrow> caused_by (evs @ [ev']) ev c"
  by (cases ev; cases c) (auto intro: started_mono)

lemma thread_mono: "thread_ok evs t c \<Longrightarrow> thread_ok (evs @ [ev]) t c"
  unfolding thread_ok_def using started_mono by blast

definition refines :: "(string \<Rightarrow> string) \<Rightarrow> graph_event list \<Rightarrow> graph_sys \<Rightarrow> issue_call list \<Rightarrow> bool" where
  "refines sha evs g tr \<longleftrightarrow>
     issue_run sha tr (iw_sys (gs_world g)) \<and> (\<forall>c\<in>set tr. \<exists>ev\<in>set evs. caused_by evs ev c) \<and>
     set (trace_draft_ids tr) \<subseteq> (\<Union>ev\<in>set evs. event_draft_ids ev) \<and>
     (\<forall>t. thread_ok evs t (gs_threads g t))"

lemma refines_step:
  assumes "refines sha evs g tr" and ok: "event_ok sha evs ev"
    and run: "iw_sys (gs_world g') = fold run_call cs (iw_sys (gs_world g))"
    and cs: "\<And>c. c \<in> set cs \<Longrightarrow> caused_by (evs @ [ev]) ev c"
      "\<And>c env. c \<in> set cs \<Longrightarrow> call_env c = Some env \<Longrightarrow> env \<in> event_envs ev"
      "distinct (trace_draft_ids cs)" "set (trace_draft_ids cs) \<subseteq> event_draft_ids ev"
    and threads: "\<And>t. thread_ok (evs @ [ev]) t (gs_threads g' t)"
  shows "refines sha (evs @ [ev]) g' (tr @ cs)"
proof -
  have fresh: "set (trace_draft_ids cs) \<inter> set (trace_draft_ids tr) = {}"
    using assms(1) ok cs(4) unfolding refines_def event_ok_def by blast
  have env: "env_ok sha env" if "c \<in> set cs" "call_env c = Some env" for c env
    using cs(2) [OF that] ok unfolding event_ok_def by blast
  have "issue_run sha tr (iw_sys (gs_world g))" using assms(1) unfolding refines_def by blast
  then have "issue_run sha (tr @ cs) (iw_sys (gs_world g'))"
    unfolding run by (rule issue_run_fold [OF _ env cs(3) fresh])
  moreover have "\<exists>e\<in>set (evs @ [ev]). caused_by (evs @ [ev]) e c" if "c \<in> set (tr @ cs)" for c
    using that cs(1) assms(1) caused_mono unfolding refines_def by fastforce
  moreover have "set (trace_draft_ids (tr @ cs)) \<subseteq> (\<Union>e\<in>set (evs @ [ev]). event_draft_ids e)"
    using assms(1) cs(4) unfolding refines_def trace_draft_ids_def by auto
  ultimately show ?thesis using threads unfolding refines_def by blast
qed

lemma may_call_env: "may_call node (iv_deps iv) v u c \<Longrightarrow> call_env c = Some env \<Longrightarrow> env \<in> event_envs (Invoke iv run p)"
  by (cases c) auto

lemma may_call_drafts: "may_call node (iv_deps iv) v u c \<Longrightarrow> set (call_draft_ids c) \<subseteq> event_draft_ids (Invoke iv run p)"
  by (cases c) auto

lemma may_call_caused:
  assumes "may_call node (iv_deps iv) v (uuid_str u) c" and "started evs (rr_thread_id run) u"
    and "case p of None \<Rightarrow> node = I_SCOPE \<and> v = None | Some q \<Rightarrow> \<exists>x. v = Some x \<and> resume_value_of q = Inr x"
  shows "caused_by evs (Invoke iv run p) c"
  using assms by (cases c; cases p) auto

lemma distinct_short: "length xs \<le> 1 \<Longrightarrow> distinct xs"
  by (cases xs; cases "tl xs") auto

lemma refines_invoke:
  assumes "refines sha evs g tr" and "event_ok sha evs (Invoke iv run p)"
  shows "\<exists>tr'. refines sha (evs @ [Invoke iv run p]) (apply_event (Invoke iv run p) g) tr'"
proof -
  let ?ev = "Invoke iv run p" and ?t = "rr_thread_id run"
  obtain r c w where inv: "invoke_issue iv run p (gs_threads g ?t) (gs_world g) = (r, c, w)"
    by (metis prod_cases3)
  obtain s fin where body: "body_calls iv run p (gs_threads g ?t) (run_call CallRollback (iw_sys (gs_world g))) c s"
      and fin: "fin = CallCommit \<or> fin = CallRollback" "iw_sys w = run_call fin s"
    by (rule invoke_calls [OF inv])
  obtain cs node v u where cs: "s = fold run_call cs (run_call CallRollback (iw_sys (gs_world g)))"
      "\<forall>x\<in>set cs. may_call node (iv_deps iv) v u x" "length (concat (map call_draft_ids cs)) \<le> 1"
      and who: "case p of None \<Rightarrow> node = I_SCOPE \<and> v = None \<and> u = uuid_str (rr_user_id run)
        | Some q \<Rightarrow> cs \<noteq> [] \<longrightarrow> (\<exists>x. v = Some x \<and> resume_value_of q = Inr x) \<and>
            ck_pending (gs_threads g ?t) = Some node \<and> u = st_user_id (ck_state (gs_threads g ?t))"
    using body unfolding body_calls_def by blast
  have c: "c = gs_threads g ?t \<or> (case p of
        None \<Rightarrow> st_user_id (ck_state c) = uuid_str (rr_user_id run)
      | Some q \<Rightarrow> ck_pending (gs_threads g ?t) \<noteq> None \<and>
          st_user_id (ck_state c) = st_user_id (ck_state (gs_threads g ?t)))"
    using body unfolding body_calls_def by blast
  have old: "thread_ok evs t (gs_threads g t)" for t using assms(1) unfolding refines_def by blast
  have start: "started (evs @ [?ev]) ?t (rr_user_id run)" if "p = None"
    using that unfolding started_def by auto
  have user: "\<exists>a. u = uuid_str a \<and> started (evs @ [?ev]) ?t a" if "cs \<noteq> []"
    using who that start old [of ?t] started_mono unfolding thread_ok_def by (cases p) force+
  have caused: "caused_by (evs @ [?ev]) ?ev x" if "x \<in> set (CallRollback # cs @ [fin])" for x
  proof (cases "x \<in> set cs")
    case True
    then obtain a where "u = uuid_str a" "started (evs @ [?ev]) ?t a" using user by (cases cs) auto
    moreover have "cs \<noteq> []" using True by auto
    ultimately show ?thesis
      using cs(2) True who by (intro may_call_caused [of node iv v a x]) (auto split: option.splits)
  qed (use that fin(1) in auto)
  let ?cs = "CallRollback # cs @ [fin]"
  have "refines sha (evs @ [?ev]) (apply_event ?ev g) (tr @ ?cs)"
  proof (rule refines_step [OF assms _ caused])
    show "iw_sys (gs_world (apply_event ?ev g)) = fold run_call ?cs (iw_sys (gs_world g))"
      using inv fin(2) cs(1) by simp
    show "distinct (trace_draft_ids ?cs)"
      using cs(3) fin(1) by (intro distinct_short) (auto simp: trace_draft_ids_def)
    show "set (trace_draft_ids ?cs) \<subseteq> event_draft_ids ?ev"
      using cs(2) may_call_drafts fin(1) unfolding trace_draft_ids_def by fastforce
    show "env \<in> event_envs ?ev" if "x \<in> set ?cs" "call_env x = Some env" for x env
      using that cs(2) fin(1) may_call_env by auto
    show "thread_ok (evs @ [?ev]) t (gs_threads (apply_event ?ev g) t)" for t
    proof (cases "t = ?t")
      case True
      have "thread_ok (evs @ [?ev]) ?t c"
        using c start thread_mono [OF old [of ?t], of ?ev] unfolding thread_ok_def by (cases p) auto
      then show ?thesis using inv True by simp
    next
      case False
      then show ?thesis using inv thread_mono [OF old] by simp
    qed
  qed
  then show ?thesis by blast
qed

lemma handler_calls:
  obtains cs where "snd (reconcile_issue_create_handler ok env job s) = fold run_call cs s"
    "\<And>c. c \<in> set cs \<Longrightarrow> c = CallRollback \<or> c = CallCommit \<or>
       (\<exists>d. c = CallReconcile env d \<and> UUID (qj_aggregate_id job) = Inr d)"
proof -
  let ?s0 = "s\<lparr>is_session := begin_session (committed (is_session s))\<rparr>"
  have s0: "?s0 = run_call CallRollback s"
    by (cases "is_session s") (simp add: begin_session_def rollback_def)
  let ?m = "bind_op (of_res (UUID (qj_aggregate_id job))) (reconcile env)"
  obtain cs where cs: "snd (?m ?s0) = fold run_call cs ?s0"
      "\<forall>c\<in>set cs. \<exists>d. c = CallReconcile env d \<and> UUID (qj_aggregate_id job) = Inr d"
  proof (cases "UUID (qj_aggregate_id job)")
    case (Inl e)
    then show thesis using that [of "[]"] by simp
  next
    case (Inr d)
    then show thesis using that [of "[CallReconcile env d]"] by simp
  qed
  have "\<exists>fin. (fin = CallCommit \<or> fin = CallRollback) \<and>
      snd (reconcile_issue_create_handler ok env job s) = run_call fin (snd (?m ?s0))"
    by (cases "?m ?s0"; cases "fst (?m ?s0)"; cases ok)
      (auto simp: reconcile_issue_create_handler_def in_session_def
        intro: exI [of _ CallCommit] exI [of _ CallRollback])
  then obtain fin where "fin = CallCommit \<or> fin = CallRollback"
      "snd (reconcile_issue_create_handler ok env job s) = run_call fin (snd (?m ?s0))"
    by blast
  then show thesis using that [of "CallRollback # cs @ [fin]"] cs s0 by auto
qed

lemma graph_refines: "graph_run sha evs g \<Longrightarrow> \<exists>tr. refines sha evs g tr"
proof (induction rule: graph_run.induct)
  case (graph_start g)
  then have "refines sha [] g []"
    by (auto simp: refines_def trace_draft_ids_def thread_ok_def intro: run_start)
  then show ?case by blast
next
  case (graph_step evs g ev)
  then obtain tr where tr: "refines sha evs g tr" by blast
  have old: "thread_ok (evs @ [ev]) t (gs_threads g t)" for t
    using tr thread_mono unfolding refines_def by blast
  show ?case
  proof (cases ev)
    case (Invoke iv run p)
    then show ?thesis using refines_invoke [OF tr] graph_step.hyps(2) by simp
  next
    case (ReconcileJob ok env job)
    obtain cs where cs: "snd (reconcile_issue_create_handler ok env job (iw_sys (gs_world g))) = fold run_call cs (iw_sys (gs_world g))"
        "\<And>c. c \<in> set cs \<Longrightarrow> c = CallRollback \<or> c = CallCommit \<or>
          (\<exists>d. c = CallReconcile env d \<and> UUID (qj_aggregate_id job) = Inr d)"
      by (rule handler_calls [of ok env job "iw_sys (gs_world g)"]) blast
    have none: "trace_draft_ids cs = []" unfolding trace_draft_ids_def using cs(2) by fastforce
    have "refines sha (evs @ [ev]) (apply_event ev g) (tr @ cs)"
      by (rule refines_step [OF tr graph_step.hyps(2)])
        (use cs(1) old in \<open>auto simp: ReconcileJob none dest!: cs(2)\<close>)
    then show ?thesis by blast
  next
    case (Elsewhere store qa)
    have "thread_ok (evs @ [ev]) t (gs_threads (apply_event ev g) t)" for t
    proof (cases qa)
      case (Some x)
      obtain t' user in_scope st where x: "x = (t', user, in_scope, st)" by (cases x)
      have "started (evs @ [ev]) t' user" unfolding started_def using Elsewhere Some x by fastforce
      then show ?thesis using old [of t] Elsewhere Some x by (auto simp: thread_ok_def)
    qed (use old [of t] Elsewhere in simp)
    then have "refines sha (evs @ [ev]) (apply_event ev g) (tr @ [])"
      by (intro refines_step [OF tr graph_step.hyps(2)]) (auto simp: Elsewhere trace_draft_ids_def)
    then show ?thesis by blast
  qed
qed

section \<open>What the running system guarantees\<close>

text \<open>C6: the graphs refine the sequences of service calls: after any events the issue tables are those of a
  sequence of drafts, decisions, executions, reconciliations, commits and rollbacks in which every decision
  was sent by a resume with that action and that hash, every execution was part of a resume, every
  reconciliation was a job, and the acting user is one whose run was executed on the thread.\<close>

theorem issue_graph_refines_calls:
  assumes "graph_run sha evs g"
  shows "\<exists>tr. issue_run sha tr (iw_sys (gs_world g)) \<and> (\<forall>c\<in>set tr. \<exists>ev\<in>set evs. caused_by evs ev c)"
  using graph_refines [OF assms] unfolding refines_def by blast

lemma caused_decide:
  assumes "caused_by evs ev (CallDecide env d a action h)"
  obtains iv run p where "ev = Invoke iv run (Some p)" "str_field p ''action'' = Some (ConfirmationAction_value action)"
    "str_field p ''request_payload_hash'' = Some h" "started evs (rr_thread_id run) a"
  using assms that by (cases ev) (auto simp: resume_value_of_def split: option.splits)

lemma caused_execute:
  assumes "caused_by evs ev (CallExecute env d c a)"
  obtains iv run p k where "ev = Invoke iv run (Some p)" "env = sd_issue (iv_deps iv k)"
    "started evs (rr_thread_id run) a"
  using assms that by (cases ev) auto

lemma drafted_id: "drafted tr d \<Longrightarrow> dr_id d \<in> set (trace_draft_ids tr)"
  unfolding drafted_def trace_draft_ids_def by (force simp: new_draft_row_def)

text \<open>C5: an issue is in the tracker only because a user resumed a run: a resume with the action
  \<open>confirm\<close> and the hash of exactly the content of the issue was sent on a thread on which that user's run had
  been executed, and in a resume the same user was authorized for the project with a role that may create
  issues. No execution of a run, no lookup and no failed or repeated resume alone creates one.\<close>

theorem graph_issue_needs_resume:
  assumes "graph_run sha evs g"
    and "i \<in> set (sandbox_issues (tracker (committed (is_session (iw_sys (gs_world g))))))"
    and "si_client_request_id i = Some r"
  shows "\<exists>q a iv run p iv' run' p' k ctx project.
     made_for q i \<and> xr_request_id q = r \<and>
     (\<exists>ev\<in>set evs. \<exists>d\<in>event_draft_ids ev. r = uuid_str d) \<and>
     Invoke iv run (Some p) \<in> set evs \<and> started evs (rr_thread_id run) a \<and>
     str_field p ''action'' = Some ''confirm'' \<and>
     str_field p ''request_payload_hash'' = Some (sha (payload_text q)) \<and>
     Invoke iv' run' (Some p') \<in> set evs \<and> started evs (rr_thread_id run') a \<and>
     xr_project_id q = uuid_str project \<and>
     authorize_project (ie_pick (sd_issue (iv_deps iv' k))) (ie_now (sd_issue (iv_deps iv' k))) a project
       (ie_gov (sd_issue (iv_deps iv' k))) = Inr ctx \<and>
     assert_can_create (sc_role_ids (cx_scope ctx)) = Inr ()"
proof -
  obtain tr where tr: "issue_run sha tr (iw_sys (gs_world g))" "\<forall>c\<in>set tr. \<exists>ev\<in>set evs. caused_by evs ev c"
      "set (trace_draft_ids tr) \<subseteq> (\<Union>ev\<in>set evs. event_draft_ids ev)"
    using graph_refines [OF assms(1)] unfolding refines_def by blast
  have inv: "issue_inv sha tr (iw_sys (gs_world g))" and dist: "distinct (trace_draft_ids tr)"
    using tr(1) by (rule issue_run_inv, rule issue_run_draft_ids)
  obtain d q where d: "drafted tr d" "build_create_request d = Inr q" "made_for q i" "r = uuid_str (dr_id d)"
      "has_barrier (is_idem (iw_sys (gs_world g))) r"
    using issue_of_draft [OF inv assms(2,3)] by blast
  obtain e where e: "drafted tr e" "r = uuid_str (dr_id e)" "confirmed sha tr e"
    using inv d(5) unfolding issue_inv_def idem_ok_def by blast
  have "confirmed sha tr d" using drafted_unique [OF dist d(1) e(1)] d(4) e by simp
  then obtain a env' c ctx where c: "decided sha tr a (sha (payload_text q))"
      "CallExecute env' (dr_id d) c a \<in> set tr"
      "authorize_project (ie_pick env') (ie_now env') a (dr_project_id d) (ie_gov env') = Inr ctx"
      "assert_can_create (sc_role_ids (cx_scope ctx)) = Inr ()"
    using d(2) unfolding confirmed_def by auto
  from c(1) obtain env x where x: "CallDecide env x a CONFIRM (sha (payload_text q)) \<in> set tr"
    unfolding decided_def by blast
  obtain ev where "ev \<in> set evs" "caused_by evs ev (CallDecide env x a CONFIRM (sha (payload_text q)))"
    using tr(2) x by blast
  then obtain iv run p where res: "Invoke iv run (Some p) \<in> set evs" "started evs (rr_thread_id run) a"
      "str_field p ''action'' = Some ''confirm''" "str_field p ''request_payload_hash'' = Some (sha (payload_text q))"
    by (metis caused_decide ConfirmationAction_value.simps(1))
  obtain ev' where "ev' \<in> set evs" "caused_by evs ev' (CallExecute env' (dr_id d) c a)"
    using tr(2) c(2) by blast
  then obtain iv' run' p' k where exe: "Invoke iv' run' (Some p') \<in> set evs" "started evs (rr_thread_id run') a"
      "env' = sd_issue (iv_deps iv' k)"
    by (metis caused_execute)
  have "\<exists>ev\<in>set evs. \<exists>y\<in>event_draft_ids ev. r = uuid_str y" using tr(3) drafted_id [OF d(1)] d(4) by blast
  then show ?thesis
    using d(3,4) res exe c(3,4) build_request_fields [OF d(2)] by (metis (no_types, lifting))
qed

end
