(* ===== verification/IssueExecution.thy ===== *)
theory IssueExecution
  imports IssueGraphProofs QAProofs
begin

text \<open>
  What one invocation of an issue run does: an execution stops before the first effect on the tracker, and
  a retry of a resume that failed behind the confirmation is refused.
\<close>

section \<open>The last step of a run\<close>

definition ends_with ::
  "(issue_node \<Rightarrow> AgentState \<Rightarrow> issue_node option) \<Rightarrow> issue_deps \<Rightarrow> resume_value option \<Rightarrow> issue_node \<Rightarrow> AgentState \<Rightarrow>
   issue_world \<Rightarrow> (payload + AgentState) res \<Rightarrow> checkpoint \<Rightarrow> issue_world \<Rightarrow> bool" where
  "ends_with edges d resume node st w r c w' \<longleftrightarrow>
     issue_node_op node d resume st w = (r, w') \<and>
     (case r of
        Inr (Inr st') \<Rightarrow> edges node st' = None \<and> c = \<lparr>ck_state = st', ck_pending = None\<rparr>
      | _ \<Rightarrow> c = \<lparr>ck_state = st, ck_pending = Some node\<rparr>)"

lemma run_issue_last:
  assumes "run_issue fuel edges deps k None node st w = Some (r, c, w')" and "J node st w"
    and step: "\<And>k node st w st' w' node'. J node st w \<Longrightarrow>
      issue_node_op node (deps k) None st w = (Inr (Inr st'), w') \<Longrightarrow> edges node st' = Some node' \<Longrightarrow> J node' st' w'"
  obtains k node st w where "J node st w" "ends_with edges (deps k) None node st w r c w'"
proof (atomize_elim, use assms(1,2) in \<open>induction fuel arbitrary: k node st w\<close>)
  case (Suc fuel)
  obtain q v where op: "issue_node_op node (deps k) None st w = (q, v)" by fastforce
  show ?case
  proof (cases "\<exists>st' node'. q = Inr (Inr st') \<and> edges node st' = Some node'")
    case True
    then obtain st' node' where q: "q = Inr (Inr st')" "edges node st' = Some node'" by blast
    then have "run_issue fuel edges deps (Suc k) None node' st' v = Some (r, c, w')"
      using Suc.prems(1) op by simp
    then show ?thesis using Suc.IH step [OF Suc.prems(2)] op q by blast
  next
    case False
    then have "ends_with edges (deps k) None node st w r c w'"
      using Suc.prems(1) op unfolding ends_with_def by (auto split: sum.splits option.splits)
    then show ?thesis using Suc.prems(2) by blast
  qed
qed simp

section \<open>The nodes of an execution\<close>

text \<open>Operations on the store leave the issue workflow alone.\<close>

lemma on_qa_sys: "on_qa m w = (r, w') \<Longrightarrow> iw_sys w' = iw_sys w"
  by (auto simp: on_qa_def split: prod.splits)

lemma calls_zero_sys: "calls 0 P m \<Longrightarrow> m w = (r, w') \<Longrightarrow> iw_sys w' = iw_sys w"
  unfolding calls_zero by (metis snd_conv)

lemma plain_iff: "plain_node m w = (Inr (Inr st), w') \<longleftrightarrow> m w = (Inr st, w')" "plain_node m w \<noteq> (Inr (Inl x), w')"
  by (auto simp: plain_node_def bind_op_Inr_iff)

lemma given_Some: "v \<noteq> [] \<Longrightarrow> given (Some v)"
  by (simp add: given_def)

lemma uuid_str_not_empty: "uuid_str u \<noteq> []"
  by (simp add: uuid_str_def Let_def)

definition scoped :: "AgentState \<Rightarrow> bool" where
  "scoped st \<longleftrightarrow> given (st_project_id st) \<and> given (st_access_scope_id st)"

lemma evidence_route:
  "rets (\<lambda>st'. st_route st' = Some ''refusal'' \<or> (st_route st' = Some ''issue_evidence_ready'' \<and> scoped st'))
     (retrieve_issue_evidence_node d st)"
proof (cases "scoped st")
  case True
  then show ?thesis
    unfolding retrieve_issue_evidence_node_def Let_def by (intro rets_rules) (simp_all add: scoped_def)
next
  case False
  then show ?thesis
    by (auto simp: retrieve_issue_evidence_node_def scoped_def rets_return)
qed

lemma search_scoped: "scoped st \<Longrightarrow> rets scoped (search_issues_node d st)"
  unfolding search_issues_node_def by (intro rets_rules) (simp_all add: scoped_def refuse_with_def)

lemma search_route:
  "rets (\<lambda>st'. st_route st' \<in> {Some ''clarification'', Some ''refusal'', Some ''issue_candidates''})
     (search_issues_node d st)"
  unfolding search_issues_node_def by (intro rets_rules) simp_all

section \<open>What building a draft adds\<close>

text \<open>\<open>added\<close>: the session differs from an earlier one by one new draft and its candidate links.\<close>

definition added :: "issue_env \<Rightarrow> uuid \<Rightarrow> uuid \<Rightarrow> uuid \<Rightarrow> IssueDraftModel \<Rightarrow> issue_sys \<Rightarrow> issue_sys \<Rightarrow> bool" where
  "added env run project user d s s' \<longleftrightarrow>
     is_idem s' = is_idem s \<and> is_jobs s' = is_jobs s \<and> committed (is_session s') = committed (is_session s) \<and>
     tracker (working (is_session s')) = tracker (working (is_session s)) \<and>
     tool_confirmations (working (is_session s')) = tool_confirmations (working (is_session s)) \<and>
     issue_drafts (working (is_session s')) = issue_drafts (working (is_session s)) @ [d] \<and>
     dr_id d \<notin> dr_id ` set (issue_drafts (working (is_session s))) \<and>
     dr_id d = ie_new_draft env \<and> dr_run_id d = run \<and> dr_project_id d = project \<and> dr_created_by d = user \<and>
     dr_status d = DS_DRAFT"

lemma create_from_text_added:
  assumes "create_from_text env run project user body cands ev s = (Inr d, s')"
  shows "added env run project user d s s'"
proof -
  obtain ids s1 where make: "db_op (repo_create_draft env
        (draft_command run project user (py_strip body) ids ev)) s = (Inr d, s1)"
      and links: "s' = s1 \<or> (\<exists>found u. db_op (save_candidate_links env (dr_id d) found) s1 = (Inr u, s'))"
    using assms unfolding create_from_text_def Let_def
    by (force simp: bind_op_Inr_iff split: if_splits option.splits)
  have s1: "added env run project user d s s1"
    using make by (auto simp: db_op_def on_working_def repo_create_draft_def Let_def new_draft_row_def
        draft_command_def added_def split: if_splits)
  have "issue_drafts (working (is_session s')) = issue_drafts (working (is_session s1)) \<and>
      tracker (working (is_session s')) = tracker (working (is_session s1)) \<and>
      tool_confirmations (working (is_session s')) = tool_confirmations (working (is_session s1)) \<and>
      committed (is_session s') = committed (is_session s1) \<and> is_idem s' = is_idem s1 \<and> is_jobs s' = is_jobs s1"
    using links by (auto simp: db_op_def on_working_def save_candidate_links_def bind_op_def get_draft_def Let_def
        split: if_splits prod.splits option.splits sum.splits)
  then show ?thesis using s1 unfolding added_def by metis
qed

lemma build_added:
  assumes "build_issue_draft_node d st w = (Inr st', w')" and "scoped st"
  obtains k run project user where "UUID (st_run_id st) = Inr run" "need_project st = Inr project"
    "UUID (st_user_id st) = Inr user" "added (sd_issue d) run project user k (iw_sys w) (iw_sys w')"
    "st_issue_draft_id st' = Some (uuid_str (dr_id k))"
proof -
  have sc: "given (st_project_id st)" "given (st_access_scope_id st)" using assms(2) by (auto simp: scoped_def)
  obtain run project user query cands ev k w1 where *: "UUID (st_run_id st) = Inr run"
      "need_project st = Inr project" "UUID (st_user_id st) = Inr user" "iw_sys w1 = iw_sys w"
      "on_sys (create_from_text (sd_issue d) run project user query cands ev) w1 = (Inr k, w')"
      "st_issue_draft_id st' = Some (uuid_str (dr_id k))"
    using assms(1) sc unfolding build_issue_draft_node_def
    by (auto simp: bind_op_Inr_iff dest!: on_qa_sys)
  have "added (sd_issue d) run project user k (iw_sys w) (iw_sys w')"
    using *(4,5) create_from_text_added by (auto simp: on_sys_def split: prod.splits)
  then show thesis using that * by blast
qed

section \<open>An execution\<close>

fun lookup_at :: "issue_sys \<Rightarrow> issue_node \<Rightarrow> AgentState \<Rightarrow> issue_world \<Rightarrow> bool" where
  "lookup_at s0 node st w \<longleftrightarrow> node \<in> {I_SCOPE, I_SEARCH} \<and> iw_sys w = s0"

fun create_at ::
  "(nat \<Rightarrow> issue_deps) \<Rightarrow> AgentState \<Rightarrow> issue_sys \<Rightarrow> issue_node \<Rightarrow> AgentState \<Rightarrow> issue_world \<Rightarrow> bool" where
  "create_at deps st0 s0 I_CONFIRM st w \<longleftrightarrow>
     (\<exists>k run project user d. UUID (st_run_id st0) = Inr run \<and> need_project st0 = Inr project \<and>
        UUID (st_user_id st0) = Inr user \<and> added (sd_issue (deps k)) run project user d s0 (iw_sys w) \<and>
        st_issue_draft_id st = Some (uuid_str (dr_id d)))"
| "create_at deps st0 s0 I_EXECUTE st w \<longleftrightarrow> False"
| "create_at deps st0 s0 node st w \<longleftrightarrow>
     ids st = ids st0 \<and> iw_sys w = s0 \<and> (node \<in> {I_SEARCH, I_BUILD} \<longrightarrow> scoped st)"

lemma create_at_step:
  assumes "create_at deps st0 s0 node st w" and "issue_node_op node (deps k) None st w = (Inr (Inr st'), w')"
    and "create_next node st' = Some node'"
  shows "create_at deps st0 s0 node' st' w'"
proof -
  have kept: "ids st' = ids st" using node_ids assms(2) unfolding rets_def by fastforce
  show ?thesis
  proof (cases node)
    case I_SCOPE
    then show ?thesis using assms kept by (auto simp: plain_iff dest: on_qa_sys)
  next
    case I_EVIDENCE
    then have "st_route st' = Some ''issue_evidence_ready''" "node' = I_SEARCH"
      using assms(3) by (auto simp: after_issue_evidence_def split: if_splits)
    moreover have "st_route st' = Some ''refusal'' \<or> scoped st'"
      using assms(2) I_EVIDENCE rets_qa [OF evidence_route] unfolding rets_def by (fastforce simp: plain_iff)
    ultimately show ?thesis using assms I_EVIDENCE kept by (auto simp: plain_iff dest: on_qa_sys)
  next
    case I_SEARCH
    have op: "search_issues_node (deps k) st w = (Inr st', w')" using assms(2) I_SEARCH by (simp add: plain_iff)
    then have "scoped st'" "iw_sys w' = iw_sys w"
      using search_scoped [of st "deps k"] op assms(1) I_SEARCH calls_zero_sys [OF search_calls op]
      unfolding rets_def by (simp, blast, simp)
    then show ?thesis using assms I_SEARCH kept by auto
  next
    case I_BUILD
    have op: "build_issue_draft_node (deps k) st w = (Inr st', w')" using assms(2) I_BUILD by (simp add: plain_iff)
    obtain d run project user where "UUID (st_run_id st) = Inr run" "need_project st = Inr project"
        "UUID (st_user_id st) = Inr user" "added (sd_issue (deps k)) run project user d (iw_sys w) (iw_sys w')"
        "st_issue_draft_id st' = Some (uuid_str (dr_id d))"
      by (rule build_added [OF op]) (use assms(1) I_BUILD in auto)
    then show ?thesis using assms(1,3) I_BUILD by (auto simp: ids_def need_project_def)
  next
    case I_CONFIRM
    then have "st_route st' = Some ''refusal''"
      using confirm_without_resume assms(2) unfolding rets_def by fastforce
    then show ?thesis using assms(3) I_CONFIRM by (simp add: after_confirmation_def)
  qed (use assms in auto)
qed

lemma row_by_added:
  assumes "issue_drafts db = ds @ [d]" and "dr_id d \<notin> dr_id ` set ds"
  shows "get_draft (dr_id d) db = Inr d"
proof -
  have "row_by dr_id (dr_id d) ds = None" using assms(2) by (force simp: row_by_None_iff image_iff)
  then show ?thesis by (simp add: get_draft_def assms(1) row_by_append)
qed

lemma confirm_waits:
  assumes "confirm_issue_create_node dep None st w = (Inr r, w')"
    and "st_issue_draft_id st = Some (uuid_str (dr_id d))" and "get_draft (dr_id d) (working (is_session (iw_sys w))) = Inr d"
  shows "iw_sys w' = iw_sys w \<and> (\<exists>q waiting. r = Inl waiting \<and> build_create_request d = Inr q \<and>
     str_field waiting ''request_payload_hash'' = Some (payload_hash (sd_issue dep) q) \<and>
     str_field waiting ''draft_id'' = Some (uuid_str (dr_id d)))"
  using assms
  by (auto simp: confirm_issue_create_node_def given_def uuid_str_not_empty bind_op_Inr_iff on_sys_def
      prepare_confirmation_def bind_res_Inr_iff dump_confirmation_def split: prod.splits)

text \<open>\<open>waits d q out\<close>: the outcome asks the user to confirm the request made from a draft.\<close>

definition waits :: "issue_env \<Rightarrow> IssueDraftModel \<Rightarrow> RunGraphOutcome \<Rightarrow> bool" where
  "waits env d out \<longleftrightarrow> (\<exists>q waiting. out = waiting_outcome_of waiting \<and> build_create_request d = Inr q \<and>
     str_field waiting ''request_payload_hash'' = Some (payload_hash env q) \<and>
     str_field waiting ''draft_id'' = Some (uuid_str (dr_id d)))"

definition drafted_for :: "RunRecord \<Rightarrow> IssueDraftModel \<Rightarrow> bool" where
  "drafted_for run d \<longleftrightarrow> dr_run_id d = rr_id run \<and> dr_project_id d = rr_project_id run \<and>
     dr_created_by d = rr_user_id run \<and> dr_status d = DS_DRAFT"

lemma create_execution:
  assumes "run_issue fuel create_next deps k None I_SCOPE (run_input run saved) w = Some (Inr r, c, w')"
  shows "(\<exists>st. r = Inr st \<and> st_route st = Some ''refusal'' \<and> iw_sys w' = iw_sys w \<and> ck_pending c = None) \<or>
     (\<exists>d j k. added (sd_issue (deps j)) (rr_id run) (rr_project_id run) (rr_user_id run) d (iw_sys w) (iw_sys w') \<and>
        waits (sd_issue (deps k)) d (project_result r) \<and> ck_pending c = Some I_CONFIRM)"
proof -
  let ?st0 = "run_input run saved"
  have st0: "UUID (st_run_id ?st0) = Inr (rr_id run)" "need_project ?st0 = Inr (rr_project_id run)"
      "UUID (st_user_id ?st0) = Inr (rr_user_id run)"
    by (simp_all add: run_input_def need_project_def)
  obtain j node st u where at: "create_at deps ?st0 (iw_sys w) node st u"
      and last: "ends_with create_next (deps j) None node st u (Inr r) c w'"
    by (rule run_issue_last [OF assms, where J = "create_at deps ?st0 (iw_sys w)"])
      (auto intro: create_at_step)
  have op: "issue_node_op node (deps j) None st u = (Inr r, w')" using last by (simp add: ends_with_def)
  show ?thesis
  proof (cases node)
    case I_EVIDENCE
    then obtain st' where st': "r = Inr st'" "on_qa (retrieve_issue_evidence_node (deps j) st) u = (Inr st', w')"
      using op by (cases r) (auto simp: plain_iff)
    then have "st_route st' \<noteq> Some ''issue_evidence_ready''" "ck_pending c = None"
      using last I_EVIDENCE by (auto simp: ends_with_def after_issue_evidence_def split: if_splits)
    moreover have "st_route st' = Some ''refusal'' \<or> st_route st' = Some ''issue_evidence_ready''"
      using st'(2) rets_qa [OF evidence_route] unfolding rets_def by fastforce
    ultimately show ?thesis using at I_EVIDENCE st'(1) on_qa_sys [OF st'(2)] by auto
  next
    case I_CONFIRM
    then obtain i d where d: "added (sd_issue (deps i)) (rr_id run) (rr_project_id run) (rr_user_id run) d (iw_sys w) (iw_sys u)"
        "st_issue_draft_id st = Some (uuid_str (dr_id d))"
      using at st0 by auto
    have "get_draft (dr_id d) (working (is_session (iw_sys u))) = Inr d"
      using row_by_added d(1) unfolding added_def by blast
    then obtain q waiting where q: "iw_sys w' = iw_sys u" "r = Inl waiting" "build_create_request d = Inr q"
        "str_field waiting ''request_payload_hash'' = Some (payload_hash (sd_issue (deps j)) q)"
        "str_field waiting ''draft_id'' = Some (uuid_str (dr_id d))"
      using confirm_waits d(2) op I_CONFIRM by (metis issue_node_op.simps(5))
    then have "waits (sd_issue (deps j)) d (project_result r)" by (auto simp: waits_def project_result_def)
    moreover have "ck_pending c = Some I_CONFIRM" using last q(2) I_CONFIRM by (auto simp: ends_with_def)
    ultimately show ?thesis using d(1) q(1) by metis
  qed (use at op last in \<open>auto simp: ends_with_def plain_iff split: sum.splits\<close>)
qed

lemma lookup_execution:
  assumes "run_issue fuel lookup_next deps k None I_SCOPE (run_input run saved) w = Some (Inr r, c, w')"
  shows "iw_sys w' = iw_sys w \<and> (\<exists>st. r = Inr st \<and>
     st_route st \<in> {Some ''clarification'', Some ''refusal'', Some ''issue_candidates''})"
proof -
  obtain j node st u where at: "lookup_at (iw_sys w) node st u"
      and last: "ends_with lookup_next (deps j) None node st u (Inr r) c w'"
    by (rule run_issue_last [OF assms, where J = "lookup_at (iw_sys w)"])
      (auto simp: plain_iff dest!: on_qa_sys split: if_splits)
  have op: "issue_node_op node (deps j) None st u = (Inr r, w')" using last by (simp add: ends_with_def)
  show ?thesis
  proof (cases "node = I_SEARCH")
    case True
    then obtain st' where st': "r = Inr st'" "search_issues_node (deps j) st u = (Inr st', w')"
      using op by (cases r) (auto simp: plain_iff)
    then show ?thesis
      using at calls_zero_sys [OF search_calls st'(2)] search_route [of "deps j" st]
      unfolding rets_def by fastforce
  qed (use at op last in \<open>auto simp: ends_with_def plain_iff split: sum.splits\<close>)
qed

text \<open>Six steps suffice, below the limit of 25.\<close>

fun steps_left :: "issue_node \<Rightarrow> nat" where
  "steps_left I_SCOPE = 6"
| "steps_left I_EVIDENCE = 5"
| "steps_left I_SEARCH = 4"
| "steps_left I_BUILD = 3"
| "steps_left I_CONFIRM = 2"
| "steps_left I_EXECUTE = 1"

lemma steps_decrease: "issue_edges edges \<Longrightarrow> edges node st = Some node' \<Longrightarrow> steps_left node' < steps_left node"
  unfolding issue_edges_def
  by (cases node) (auto simp: after_issue_evidence_def after_confirmation_def split: if_splits)

lemma steps_positive: "0 < steps_left node"
  by (cases node) simp_all

lemma run_issue_ends:
  "steps_left node \<le> fuel \<Longrightarrow> issue_edges edges \<Longrightarrow> run_issue fuel edges deps k resume node st w \<noteq> None"
proof (induction fuel arbitrary: k resume node st w)
  case 0
  then show ?case using steps_positive [of node] by simp
next
  case (Suc fuel)
  have "run_issue fuel edges deps (Suc k) None node' st' w' \<noteq> None" if "edges node st' = Some node'" for node' st' w'
    using Suc.IH [of node'] Suc.prems steps_decrease [OF Suc.prems(2) that] by simp
  then show ?case by (simp split: prod.split sum.split option.split)
qed

lemma issue_run_ends: "graph_edges mode = Some edges \<Longrightarrow> run_issue RECURSION_LIMIT edges deps k resume node st w \<noteq> None"
  by (rule run_issue_ends [OF _ edges_issue]) (cases node; simp add: RECURSION_LIMIT_def)+

lemma run_issue_step:
  "0 < fuel \<Longrightarrow> run_issue fuel edges deps k resume node st w =
     (case issue_node_op node (deps k) resume st w of
        (Inl e, w') \<Rightarrow> Some (Inl e, \<lparr>ck_state = st, ck_pending = Some node\<rparr>, w')
      | (Inr (Inl waiting), w') \<Rightarrow>
          Some (Inr (Inl waiting), \<lparr>ck_state = st, ck_pending = Some node\<rparr>, w')
      | (Inr (Inr st'), w') \<Rightarrow>
          (case edges node st' of
             None \<Rightarrow> Some (Inr (Inr st'), \<lparr>ck_state = st', ck_pending = None\<rparr>, w')
           | Some next_node \<Rightarrow> run_issue (fuel - 1) edges deps (Suc k) None next_node st' w'))"
  by (cases fuel) (auto split: prod.split sum.split option.split)

text \<open>\<open>frame\<close>: what a call that makes a draft leaves alone, also when it raises.\<close>

definition frame :: "issue_sys \<Rightarrow> issue_sys \<Rightarrow> bool" where
  "frame s s' \<longleftrightarrow> is_idem s' = is_idem s \<and> is_jobs s' = is_jobs s \<and>
     committed (is_session s') = committed (is_session s) \<and>
     tracker (working (is_session s')) = tracker (working (is_session s)) \<and>
     tool_confirmations (working (is_session s')) = tool_confirmations (working (is_session s))"

lemma frame_db: "(\<And>db. tracker (snd (m db)) = tracker db \<and> tool_confirmations (snd (m db)) = tool_confirmations db) \<Longrightarrow>
    frame s (snd (db_op m s))"
  by (auto simp: frame_def db_op_def on_working_def split: prod.splits) (metis snd_conv)+

lemma frame_trans: "frame s t \<Longrightarrow> frame t u \<Longrightarrow> frame s u"
  by (simp add: frame_def)

lemma frame_refl [simp]: "frame s s"
  by (simp add: frame_def)

lemma frame_bind:
  assumes "\<And>s. frame s (snd (m s))" and "\<And>x s. frame s (snd (f x s))"
  shows "frame s (snd (bind_op m f s))"
  using assms(1) [of s] assms(2) frame_trans
  by (cases "m s"; cases "fst (m s)") (auto simp: bind_op_def intro: frame_trans)

lemma frame_basic: "frame s (snd (return_op x s))" "frame s (snd (raise_op e s))" "frame s (snd (of_res r s))"
  by (simp_all add: frame_def)

lemma create_frame: "frame s (snd (create_from_text env run project user body cands ev s))"
  unfolding create_from_text_def Let_def
proof (cases "py_strip body = []")
  case False
  have make: "frame s (snd (db_op (repo_create_draft env c) s))" for s c
    by (rule frame_db) (simp add: repo_create_draft_def Let_def)
  have links: "frame s (snd (db_op (save_candidate_links env k found) s))" for s k found
    by (rule frame_db) (simp add: save_candidate_links_def Let_def split: sum.split)
  have last: "frame s (snd ((case cands of None \<Rightarrow> return_op d | Some found \<Rightarrow>
      bind_op (db_op (save_candidate_links env (dr_id d) (candidate_links project found))) (\<lambda>_. return_op d)) s))" for d s
    by (cases cands) (auto intro: frame_bind frame_basic links)
  show "frame s (snd ((if py_strip body = [] then raise_op (ValueError ''issue text cannot be blank'')
     else bind_op (of_res (extract_text (py_strip body))) (\<lambda>identifiers.
       bind_op (db_op (repo_create_draft env (draft_command run project user (py_strip body) identifiers ev))) (\<lambda>draft.
         case cands of None \<Rightarrow> return_op draft | Some found \<Rightarrow>
           bind_op (db_op (save_candidate_links env (dr_id draft) (candidate_links project found))) (\<lambda>_. return_op draft)))) s))"
    using False by (simp only: if_False) (rule frame_bind, rule frame_basic, rule frame_bind, rule make, rule last)
qed simp

lemma scope_call_drafts: "may_call I_SCOPE deps None u c \<Longrightarrow> frame s (run_call c s)"
  by (cases c) (auto intro: create_frame)

lemma execution_frame:
  assumes "body_calls iv run None saved s c s'"
  shows "frame s s'"
proof -
  obtain cs u where "s' = fold run_call cs s" "\<forall>x\<in>set cs. may_call I_SCOPE (iv_deps iv) None u x"
    using assms unfolding body_calls_def by auto
  then show ?thesis
  proof (induction cs arbitrary: s)
    case Nil
    then show ?case by (simp add: frame_def)
  next
    case (Cons x cs)
    then show ?case using frame_trans [OF scope_call_drafts] by auto
  qed
qed

text \<open>The outcome of an execution against the session it leaves.\<close>

definition executed :: "invocation \<Rightarrow> RunRecord \<Rightarrow> checkpoint \<Rightarrow> issue_db \<Rightarrow> issue_db \<Rightarrow> RunGraphOutcome \<Rightarrow> bool" where
  "executed iv run c db db' out \<longleftrightarrow>
     (ro_kind out = OUT_REFUSED \<and> db' = db) \<or>
     (rr_business_mode run = ISSUE_LOOKUP \<and> ro_kind out = OUT_SUCCEEDED \<and> db' = db) \<or>
     (rr_business_mode run = ISSUE_CREATE \<and> ck_pending c = Some I_CONFIRM \<and>
      (\<exists>d k. issue_drafts db' = issue_drafts db @ [d] \<and> drafted_for run d \<and>
         waits (sd_issue (iv_deps iv k)) d out))"

lemma project_kinds:
  "st_route st = Some ''refusal'' \<Longrightarrow> ro_kind (project_result (Inr st)) = OUT_REFUSED"
  "st_route st \<in> {Some ''clarification'', Some ''issue_candidates''} \<Longrightarrow>
     ro_kind (project_result (Inr st)) = OUT_SUCCEEDED"
  by (auto simp: project_result_def project_state_def refused_outcome_def)

lemma graph_execute_Inr:
  assumes "graph_execute iv run saved w = (Inr out, c, w')"
  obtains edges r where "graph_edges (rr_business_mode run) = Some edges" "out = project_result r"
    "run_issue RECURSION_LIMIT edges (iv_deps iv) 1 None I_SCOPE (run_input run (ck_state saved)) w = Some (Inr r, c, w')"
  using assms unfolding graph_execute_def by (auto split: option.splits prod.splits sum.splits)

lemma graph_executed:
  assumes "graph_execute iv run saved w = (Inr out, c, w')"
  shows "executed iv run c (working (is_session (iw_sys w))) (working (is_session (iw_sys w'))) out"
proof -
  obtain edges r where e: "graph_edges (rr_business_mode run) = Some edges" "out = project_result r"
      and run: "run_issue RECURSION_LIMIT edges (iv_deps iv) 1 None I_SCOPE (run_input run (ck_state saved)) w
        = Some (Inr r, c, w')"
    by (rule graph_execute_Inr [OF assms])
  show ?thesis
  proof (cases "rr_business_mode run")
    case MODE_QA
    then show ?thesis using e(1) by (simp add: graph_edges_def)
  next
    case ISSUE_LOOKUP
    then have "edges = lookup_next" using e(1) by (simp add: graph_edges_def)
    then have "iw_sys w' = iw_sys w \<and> (\<exists>st. r = Inr st \<and>
        st_route st \<in> {Some ''clarification'', Some ''refusal'', Some ''issue_candidates''})"
      using lookup_execution run by blast
    then show ?thesis
      using e(2) ISSUE_LOOKUP project_kinds unfolding executed_def by auto
  next
    case ISSUE_CREATE
    then have "edges = create_next" using e(1) by (simp add: graph_edges_def)
    then consider st where "r = Inr st" "st_route st = Some ''refusal''" "iw_sys w' = iw_sys w"
      | d j k where "added (sd_issue (iv_deps iv j)) (rr_id run) (rr_project_id run) (rr_user_id run) d (iw_sys w) (iw_sys w')"
          "waits (sd_issue (iv_deps iv k)) d out" "ck_pending c = Some I_CONFIRM"
      using create_execution run e(2) by blast
    then show ?thesis
    proof cases
      case 1
      then show ?thesis using e(2) project_kinds(1) unfolding executed_def by auto
    next
      case 2
      then show ?thesis
        using ISSUE_CREATE unfolding executed_def added_def drafted_for_def by blast
    qed
  qed
qed

section \<open>The store of the graph\<close>

text \<open>\<open>answers_kept\<close>: no answer, no citation, and the status of no run has changed.\<close>

definition answers_kept :: "qa_db \<Rightarrow> qa_db \<Rightarrow> bool" where
  "answers_kept s s' \<longleftrightarrow> qb_answers s' = qb_answers s \<and> qb_citations s' = qb_citations s \<and>
     (\<forall>i. map_option ar_status (row_by ar_id i (runs (qb_runs s'))) = map_option ar_status (row_by ar_id i (runs (qb_runs s))))"

lemma answers_kept_refl [simp]: "answers_kept s s"
  by (simp add: answers_kept_def)

lemma answers_kept_trans: "answers_kept s t \<Longrightarrow> answers_kept t u \<Longrightarrow> answers_kept s u"
  by (simp add: answers_kept_def)

lemmas kept_bind = moves_bind [OF answers_kept_trans]
lemmas kept_basic = moves_basic [of answers_kept, OF answers_kept_refl]

lemma kept_pair: "moves answers_kept (Pair r)"
  by (simp add: moves_def)

lemma kept_read_runs: "moves answers_kept (read_runs f)"
  by (simp add: read_runs_def kept_basic)

lemma kept_uuid4: "moves answers_kept uuid4"
  by (simp add: moves_def uuid4_def answers_kept_def)

lemma kept_artifact: "moves answers_kept (qa_save_artifact run_id t p)"
proof -
  have "moves answers_kept (on_runs (save_artifact i run_id t p))" for i
    by (auto simp: moves_def on_runs_def save_artifact_def append_event_def answers_kept_def bind_op_def Let_def
        split: prod.splits sum.splits if_splits)
  then show ?thesis unfolding qa_save_artifact_def by (intro kept_bind kept_basic kept_uuid4 kept_read_runs)
qed

lemma kept_rounds: "moves answers_kept (increment_retrieval_rounds run_id)"
proof -
  have "map_option ar_status (row_by ar_id i (update_rows (\<lambda>r. ar_id r = run_id)
      (\<lambda>_. run\<lparr>ar_retrieval_rounds := n\<rparr>) rs)) = map_option ar_status (row_by ar_id i rs)"
    if "row_by ar_id run_id rs = Some run" for run n rs i
  proof -
    have id: "ar_id run = run_id" using row_by_SomeD [OF that] by simp
    show ?thesis
    proof (cases "row_by ar_id i rs")
      case (Some a)
      then have "ar_id a = i" by (auto dest: row_by_SomeD)
      then show ?thesis using that Some id by (cases "i = run_id") (simp_all add: row_by_update_rows)
    qed (simp add: row_by_update_rows id)
  qed
  then show ?thesis
    by (auto simp: increment_retrieval_rounds_def moves_def on_runs_def update_run_def answers_kept_def
        split: prod.splits sum.splits option.splits)
qed

lemma kept_loads:
  "moves answers_kept (qa_load_artifact i)" "moves answers_kept (qa_load_query run_id)"
  "moves answers_kept (load_context_of st)" "moves answers_kept (load_governed_evidence_bundle b)"
proof -
  show "moves answers_kept (qa_load_artifact i)" "moves answers_kept (qa_load_query run_id)" for i
    by (simp_all add: qa_load_artifact_def qa_load_query_def kept_read_runs)
  then show "moves answers_kept (load_context_of st)"
    unfolding load_context_of_def by (intro kept_bind kept_basic)
  show "moves answers_kept (load_governed_evidence_bundle b)"
    unfolding load_governed_evidence_bundle_def by (rule kept_basic(4))
qed

lemma kept_provider: "moves answers_kept (ask_provider d request)"
  by (simp add: moves_def ask_provider_def answers_kept_def)

lemma kept_if_given: "(\<And>i. moves answers_kept (f i)) \<Longrightarrow> moves answers_kept (if_given v absent f)"
  unfolding if_given_def by (cases "given v") (auto intro!: kept_bind kept_basic)

lemma kept_bundle: "moves answers_kept (save_governed_evidence_bundle sha run_id project_id query pk)"
proof -
  have "moves answers_kept (insert_bundle row)" "moves answers_kept (insert_snapshot row')" for row row'
    by (simp_all add: moves_def insert_bundle_def insert_snapshot_def answers_kept_def)
  then have parts: "moves answers_kept (new_bundle run_id query)" "moves answers_kept (save_governed sha b project_id x)" for b x
    unfolding new_bundle_def save_governed_def by (cases x; auto intro!: kept_bind kept_basic kept_uuid4 kept_read_runs)+
  have "moves answers_kept (for_each xs (save_governed sha b project_id))" for xs b
    by (induction xs) (auto simp: kept_pair intro!: kept_bind parts)
  then show ?thesis unfolding save_governed_evidence_bundle_def by (intro kept_bind kept_basic parts)
qed

lemma kept_scope: "moves answers_kept (resolve_scope_node d st)"
  unfolding resolve_scope_node_def by (auto intro!: kept_bind kept_basic kept_artifact)

lemma kept_evidence: "moves answers_kept (retrieve_issue_evidence_node d st)"
  unfolding retrieve_issue_evidence_node_def Let_def
  by (auto intro!: kept_bind kept_basic kept_artifact kept_loads kept_rounds kept_provider kept_bundle split: option.splits)

definition world_kept :: "'a world_op \<Rightarrow> bool" where
  "world_kept m \<longleftrightarrow> (\<forall>w. answers_kept (iw_qa w) (iw_qa (snd (m w))))"

lemma world_kept_bind: "world_kept m \<Longrightarrow> (\<And>x. world_kept (f x)) \<Longrightarrow> world_kept (bind_op m f)"
  unfolding world_kept_def bind_op_def
  by (auto split: prod.splits sum.splits) (metis answers_kept_trans snd_conv)+

lemma world_kept_basic: "world_kept (return_op x)" "world_kept (raise_op e)" "world_kept (of_res r)" "world_kept (on_sys n)"
  by (simp_all add: world_kept_def on_sys_def split: prod.split)

lemma world_kept_qa: "moves answers_kept m \<Longrightarrow> world_kept (on_qa m)"
  by (simp add: world_kept_def moves_def on_qa_def split: prod.split) (metis snd_conv)

lemma world_kept_try:
  "world_kept m \<Longrightarrow> (\<And>e. world_kept (h e)) \<Longrightarrow> (\<And>x. world_kept (f x)) \<Longrightarrow> world_kept (try_op m h f)"
  unfolding world_kept_def try_op_def
  by (auto split: prod.splits sum.splits) (metis answers_kept_trans snd_conv)+

lemma node_kept: "world_kept (issue_node_op node d resume st)"
proof -
  have confirm: "world_kept (confirm_issue_create_node d resume st)"
    unfolding confirm_issue_create_node_def decide_def
    by (auto intro!: world_kept_bind world_kept_basic world_kept_try split: option.splits sum.splits)
  have execute: "world_kept (execute_issue_create_node d st)"
    unfolding execute_issue_create_node_def
    by (auto intro!: world_kept_bind world_kept_basic world_kept_try world_kept_qa kept_artifact)
  have search: "world_kept (search_issues_node d st)"
    unfolding search_issues_node_def
    by (auto intro!: world_kept_bind world_kept_basic world_kept_qa kept_artifact kept_loads split: sum.splits)
  have build: "world_kept (build_issue_draft_node d st)"
    unfolding build_issue_draft_node_def
    by (auto intro!: world_kept_bind world_kept_basic world_kept_qa kept_if_given kept_bind kept_basic kept_loads)
  show ?thesis
    by (cases node)
      (auto simp: plain_node_def intro!: confirm world_kept_bind world_kept_basic world_kept_qa kept_scope kept_evidence
        search build execute)
qed

lemma run_issue_kept:
  "run_issue fuel edges deps k resume node st w = Some (r, c, w') \<Longrightarrow> answers_kept (iw_qa w) (iw_qa w')"
proof (induction fuel arbitrary: k resume node st w)
  case (Suc fuel)
  obtain q v where op: "issue_node_op node (deps k) resume st w = (q, v)" by fastforce
  have "answers_kept (iw_qa w) (iw_qa v)" using node_kept op unfolding world_kept_def by (metis snd_conv)
  moreover have "v = w' \<or> answers_kept (iw_qa v) (iw_qa w')"
    using Suc.prems Suc.IH op by (auto split: sum.splits option.splits)
  ultimately show ?case using answers_kept_trans by blast
qed simp

lemma graph_execute_kept: "graph_execute iv run saved w = (r, c, w') \<Longrightarrow> answers_kept (iw_qa w) (iw_qa w')"
  unfolding graph_execute_def using run_issue_kept by (auto split: option.splits prod.splits sum.splits)

text \<open>C10: executing an issue run never reaches the tracker, the idempotency table, the queue or the
  confirmations, and writes no answer, no citation and no run status. Of the tables of the issue workflow, a create
  run either changes nothing and is refused, or it commits exactly one new draft of that run, for its user and
  project, and waits for the confirmation of the hash of the request made from it; a lookup run changes none of
  them. (Its artifacts, and for a create run the counted retrieval rounds and the evidence bundle, are kept in the
  store of the runs.) An exception changes nothing in either store: only the key supply and the log of provider
  requests have moved.\<close>

theorem issue_execution_waits:
  assumes "invoke_issue iv run None saved w = (r, c, w')"
  shows "let db = committed (is_session (iw_sys w)); db' = committed (is_session (iw_sys w'))
     in is_idem (iw_sys w') = is_idem (iw_sys w) \<and> is_jobs (iw_sys w') = is_jobs (iw_sys w) \<and>
        tracker db' = tracker db \<and> tool_confirmations db' = tool_confirmations db \<and>
        answers_kept (iw_qa w) (iw_qa w') \<and>
        (case r of
           Inl _ \<Rightarrow> db' = db \<and>
             iw_qa w' = (iw_qa w)\<lparr>qb_next := qb_next (iw_qa w'), qb_requests := qb_requests (iw_qa w')\<rparr>
         | Inr out \<Rightarrow>
             (ro_kind out = OUT_REFUSED \<and> db' = db) \<or>
             (rr_business_mode run = ISSUE_LOOKUP \<and> ro_kind out = OUT_SUCCEEDED \<and> db' = db) \<or>
             (rr_business_mode run = ISSUE_CREATE \<and> ck_pending c = Some I_CONFIRM \<and>
              (\<exists>d k. issue_drafts db' = issue_drafts db @ [d] \<and> drafted_for run d \<and>
                 waits (sd_issue (iv_deps iv k)) d out)))"
proof -
  let ?w0 = "open_world w"
  have w0: "is_idem (iw_sys ?w0) = is_idem (iw_sys w)" "is_jobs (iw_sys ?w0) = is_jobs (iw_sys w)"
      "committed (is_session (iw_sys ?w0)) = committed (is_session (iw_sys w))"
      "working (is_session (iw_sys ?w0)) = committed (is_session (iw_sys w))" "iw_qa ?w0 = iw_qa w"
    by (simp_all add: open_world_def)
  obtain r0 c0 w1 where mid: "(case bind_authorized_knowledge_spaces iv run of
       Inl e \<Rightarrow> (Inl e, saved, ?w0) | Inr _ \<Rightarrow> graph_execute iv run saved ?w0) = (r0, c0, w1)"
    by (metis prod_cases3)
  have close: "close_world (iv_commit_ok iv) ?w0 (r0, c0, w1) = (r, c, w')"
    using assms unfolding invoke_issue_def Let_def option.case mid .
  have frame: "frame (iw_sys ?w0) (iw_sys w1)"
    using mid execution_frame [OF execute_body_calls] by (auto simp: frame_def split: sum.splits)
  have out: "executed iv run c0 (committed (is_session (iw_sys w))) (working (is_session (iw_sys w1))) out"
    if "r0 = Inr out" for out
    using mid that graph_executed [of iv run saved ?w0] w0(4) by (auto split: sum.splits)
  have "answers_kept (iw_qa w) (iw_qa w1)"
    using mid graph_execute_kept [of iv run saved ?w0] w0(5) by (auto split: sum.splits)
  then have kept: "answers_kept (iw_qa w) (iw_qa w')"
    using close w0(5) unfolding close_world_def
    by (auto simp: roll_world_def rolled_back_def answers_kept_def split: sum.splits if_splits)
  have rolled: "iw_qa w' = (iw_qa w)\<lparr>qb_next := qb_next (iw_qa w'), qb_requests := qb_requests (iw_qa w')\<rparr>" if "r = Inl e" for e
    using close w0(5) that unfolding close_world_def
    by (auto simp: roll_world_def rolled_back_def split: sum.splits if_splits)
  show ?thesis
    using close frame w0 out rolled kept unfolding Let_def close_world_def
    by (auto simp: frame_def roll_world_def executed_def split: sum.splits if_splits)
qed

end
