(* ===== verification/IssueReplay.thy ===== *)
theory IssueReplay
  imports IssueProofs
begin

text \<open>
  What happens when a creation is asked for again: the idempotency record answers, without another
  call of the tracker. The record is committed on its own, before the session that holds the issue,
  and the last theorem shows what that costs when the session is lost.
\<close>

section \<open>The record of an outcome\<close>

text \<open>\<open>recorded k out s\<close>: an outcome with an issue key is what the idempotency record of the draft says.\<close>

definition recorded :: "uuid \<Rightarrow> IssueCreationOutcome \<Rightarrow> issue_sys \<Rightarrow> bool" where
  "recorded k out s \<longleftrightarrow> oc_issue_key out \<noteq> None \<longrightarrow>
     (\<exists>m. idem_get IDEMPOTENCY_NAMESPACE (uuid_str k) (is_idem s) = Inr (Some m) \<and> id_status m = COMPLETED \<and>
        (\<forall>st. outcome_from_record (id_response m) k (uuid_str k) st = Inr (out\<lparr>oc_status := st\<rparr>)))"

lemma recorded_status [simp]: "recorded k (out\<lparr>oc_status := st\<rparr>) s \<longleftrightarrow> recorded k out s"
  by (simp add: recorded_def)

lemma find_update_rows:
  assumes "find P rows = Some m" and "\<And>r. P r \<Longrightarrow> P (f r)"
  shows "find P (update_rows P f rows) = Some (f m)"
  using assms(1) by (induction rows) (auto simp: update_rows_def assms(2) split: if_splits)

lemma outcome_of_response:
  "outcome_from_record (Some (created_response c)) k r st = Inr \<lparr>oc_status = st, oc_draft_id = k,
     oc_request_id = r, oc_issue_key = Some (ci_issue_key c), oc_issue_status = Some (ci_status c)\<rparr>"
  by (simp add: outcome_from_record_def created_response_def response_field_def)

lemma complete_get:
  assumes "idem_complete now ns r ty key (created_response c) rows = (Inr x, rows')"
  obtains m where "idem_get ns r rows' = Inr (Some m)" "id_status m = COMPLETED"
    "id_response m = Some (created_response c)"
proof -
  define fin where "fin m = m\<lparr>id_status := COMPLETED, id_resource_type := Some ty,
      id_resource_id := Some key, id_response := Some (created_response c), id_updated_at := now\<rparr>"
    for m :: IdempotencyRecordModel
  obtain m where m: "idem_row ns r rows = Some m" "to_idem_record (fin m) = Inr x"
      "rows' = update_rows (\<lambda>r'. id_namespace r' = ns \<and> id_request_id r' = r) fin rows"
    using assms by (auto simp: idem_complete_def Let_def fin_def [abs_def] split: option.splits)
  have "idem_row ns r rows' = Some (fin m)"
    using m(1) unfolding m(3) idem_row_def by (rule find_update_rows) (simp add: fin_def)
  then have "idem_get ns r rows' = Inr (Some x)" using m(2) by (simp add: idem_get_def)
  moreover have "x = fin m"
    using m(2) by (auto simp: to_idem_record_def fin_def created_response_def split: if_splits)
  ultimately show thesis using that by (simp add: fin_def)
qed

lemma triple_complete:
  "triple (\<lambda>_. True) (complete_creation env k (uuid_str k) c st) (recorded k) (\<lambda>_. True)"
proof -
  define R where "R s \<longleftrightarrow> (\<exists>m. idem_get IDEMPOTENCY_NAMESPACE (uuid_str k) (is_idem s) = Inr (Some m) \<and>
      id_status m = COMPLETED \<and> id_response m = Some (created_response c))" for s :: issue_sys
  have fin: "triple (\<lambda>_. True) (idem_op (idem_complete now IDEMPOTENCY_NAMESPACE (uuid_str k) ty key
      (created_response c))) (\<lambda>_. R) (\<lambda>_. True)" for now ty key
    by (rule tripleI) (auto simp: idem_op_iff R_def elim!: complete_get)
  have status: "triple R (db_op m) (\<lambda>_. R) (\<lambda>_. True)" for m :: "(IssueDraftModel, issue_db) op"
    by (rule tripleI) (auto simp: db_op_iff R_def)
  have out: "triple R (return_op \<lparr>oc_status = st, oc_draft_id = k, oc_request_id = uuid_str k,
      oc_issue_key = Some (ci_issue_key c), oc_issue_status = Some (ci_status c)\<rparr>) (recorded k) (\<lambda>_. True)"
    by (rule triple_return) (auto simp: R_def recorded_def outcome_of_response)
  show ?thesis
    unfolding complete_creation_def
    by (rule triple_bind [OF fin], rule triple_bind [OF status], rule out)
qed

lemma outcome_any_status:
  assumes "outcome_from_record resp k r st = Inr out"
  shows "outcome_from_record resp k r st' = Inr (out\<lparr>oc_status := st'\<rparr>)"
  using assms
  by (auto simp: outcome_from_record_def bind_res_Inr_iff split: option.splits if_splits)

lemma triple_recorded:
  assumes "\<And>s. P s \<Longrightarrow> idem_get IDEMPOTENCY_NAMESPACE (uuid_str k) (is_idem s) = Inr (Some m)"
    and "id_status m = COMPLETED"
  shows "triple P (of_res (outcome_from_record (id_response m) k (uuid_str k) st)) (recorded k) (\<lambda>_. True)"
  by (rule triple_of_res) (auto simp: recorded_def assms intro: outcome_any_status)

lemma triple_pending: "triple P (pending_outcome env k r) (recorded k) (\<lambda>_. True)"
  unfolding pending_outcome_def
  by (rule triple_bind [where R = "\<lambda>_ _. True"]) (auto simp: triple_def recorded_def split: prod.splits sum.splits)

lemma triple_True: "triple P m (\<lambda>_ _. True) (\<lambda>_. True)"
  by (rule tripleI) auto

lemma create_or_reconcile_recorded:
  assumes "xr_request_id q = uuid_str k"
  shows "triple P (create_or_reconcile env k q b) (recorded k) (\<lambda>_. True)"
proof -
  have fin: "triple P (complete_creation env k (uuid_str k) c st) (recorded k) (\<lambda>_. True)" for P c st
    by (rule triple_pre [OF triple_complete]) simp
  have "triple (\<lambda>_. True) (try_op (tracker_op (ie_create_issue env q))
      (\<lambda>e. if is_timeout_or_os_error e then pending_outcome env k (uuid_str k) else raise_op e)
      (\<lambda>created. complete_creation env k (uuid_str k) created CS_CREATED)) (recorded k) (\<lambda>_. True)"
    by (rule triple_try [OF triple_True]) (auto intro: triple_pending triple_raise fin)
  then show ?thesis
    unfolding create_or_reconcile_def assms
    by (intro triple_bind [OF triple_True]) (simp add: fin triple_pending split: option.split)
qed

lemma execute_recorded: "triple (\<lambda>_. True) (execute_creation env k c a) (recorded k) (\<lambda>_. True)"
proof -
  let ?get = "\<lambda>m (s :: issue_sys). idem_get IDEMPOTENCY_NAMESPACE (uuid_str k) (is_idem s) = Inr (Some m)"
  have chk: "triple (\<lambda>_. True) (db_op (read_op (check_confirmation env k c a)))
      (\<lambda>(d, conf, q) s. dr_id d = k \<and> xr_request_id q = uuid_str k) (\<lambda>_. True)"
    by (rule tripleI) (auto simp: db_op_iff check_confirmation_def bind_res_Inr_iff split: if_splits
        dest!: get_draft_Inr build_request_fields)
  have got: "triple (\<lambda>_. True) (idem_op (read_op (idem_get IDEMPOTENCY_NAMESPACE (uuid_str k))))
      (\<lambda>found s. \<forall>m. found = Some m \<longrightarrow> ?get m s) (\<lambda>_. True)"
    by (rule tripleI) (auto simp: idem_op_iff)
  have res: "triple P (idem_op (idem_reserve env IDEMPOTENCY_NAMESPACE (uuid_str k) p))
      (\<lambda>(record, created) s. ?get record s) (\<lambda>_. True)" for P p
    by (rule tripleI) (auto simp: idem_op_iff idem_reserve_def Let_def bind_res_Inr_iff
        split: option.splits if_splits)
  have reserve: "triple P (bind_op (idem_op (idem_reserve env IDEMPOTENCY_NAMESPACE (uuid_str k) p))
        (\<lambda>(record, b). if id_status record = COMPLETED
          then of_res (outcome_from_record (id_response record) k (uuid_str k) ALREADY_CREATED)
          else create_or_reconcile env k q b)) (recorded k) (\<lambda>_. True)"
    if "xr_request_id q = uuid_str k" for P p q
    by (rule triple_bind [OF res], unfold split_paired_all prod.case)
      (intro triple_if triple_recorded create_or_reconcile_recorded that, simp)
  have body: "triple (\<lambda>s. True \<and> dr_id d = k \<and> xr_request_id q = uuid_str k) (execute_confirmed env d conf q)
      (recorded k) (\<lambda>_. True)" for d conf q
  proof (rule triple_fact)
    assume id: "dr_id d = k \<and> xr_request_id q = uuid_str k"
    show "triple (\<lambda>_. True) (execute_confirmed env d conf q) (recorded k) (\<lambda>_. True)"
      unfolding execute_confirmed_def conjunct1 [OF id] conjunct2 [OF id]
      by (rule triple_bind [OF got])
        (intro triple_if triple_raise reserve conjunct2 [OF id], auto intro!: triple_recorded)
  qed
  show ?thesis
    unfolding execute_creation_def
    by (rule triple_bind [OF chk], unfold split_paired_all prod.case) (use body in simp)
qed

section \<open>Asking again\<close>

lemma execute_completed:
  assumes "check_confirmation env k c a (working (is_session s)) = Inr (d, conf, q)"
    and "recorded k out s" and "oc_issue_key out = Some key"
  shows "execute_creation env k c a s = (Inr (out\<lparr>oc_status := ALREADY_CREATED\<rparr>), s)"
proof -
  have id: "dr_id d = k" "xr_request_id q = uuid_str k"
    using assms(1) by (auto simp: check_confirmation_def bind_res_Inr_iff split: if_splits
        dest!: get_draft_Inr build_request_fields)
  obtain m where "idem_get IDEMPOTENCY_NAMESPACE (uuid_str k) (is_idem s) = Inr (Some m)"
      "id_status m = COMPLETED"
      "outcome_from_record (id_response m) k (uuid_str k) ALREADY_CREATED = Inr (out\<lparr>oc_status := ALREADY_CREATED\<rparr>)"
    using assms(2,3) unfolding recorded_def by auto
  then show ?thesis
    using assms(1) id
    by (simp add: execute_creation_def execute_confirmed_def bind_op_def db_op_def idem_op_def on_working_def)
qed

lemma reconcile_completed:
  assumes "get_draft k (working (is_session s)) = Inr d" and "build_create_request d = Inr q"
    and "recorded k out s" and "oc_issue_key out = Some key"
  shows "reconcile env k s = (Inr (out\<lparr>oc_status := RECONCILED\<rparr>), s)"
proof -
  have id: "dr_id d = k" "xr_request_id q = uuid_str k"
    using get_draft_Inr [OF assms(1)] build_request_fields [OF assms(2)] by auto
  obtain m where "idem_get IDEMPOTENCY_NAMESPACE (uuid_str k) (is_idem s) = Inr (Some m)"
      "id_status m = COMPLETED"
      "outcome_from_record (id_response m) k (uuid_str k) RECONCILED = Inr (out\<lparr>oc_status := RECONCILED\<rparr>)"
    using assms(3,4) unfolding recorded_def by auto
  then show ?thesis
    using assms(1,2) id
    by (simp add: reconcile_def bind_op_def db_op_def idem_op_def on_working_def)
qed

text \<open>Once an execution has returned an issue key, every later execution that passes the guards, by
  any actor and with any confirmation, returns that key and its status as already created and changes
  nothing, whatever happened to the session in between.\<close>

theorem execute_replay:
  assumes "execute_creation env k c a s = (Inr out, s')" and "oc_issue_key out = Some key"
    and "is_idem t = is_idem s'"
    and "check_confirmation env' k c' a' (working (is_session t)) = Inr (d, conf, q)"
  shows "execute_creation env' k c' a' t = (Inr (out\<lparr>oc_status := ALREADY_CREATED\<rparr>), t)"
proof (rule execute_completed [OF assms(4) _ assms(2)])
  have "recorded k out s'" using triple_Inr [OF execute_recorded _ assms(1)] by simp
  then show "recorded k out t" using assms(3) by (simp add: recorded_def)
qed

section \<open>A creation whose session is lost\<close>

lemma keeps_bind: "keeps P m \<Longrightarrow> (\<And>x. keeps P (f x)) \<Longrightarrow> keeps P (bind_op m f)"
  by (rule triple_bind)

abbreviation committed_is :: "issue_db \<Rightarrow> issue_sys \<Rightarrow> bool" where
  "committed_is db s \<equiv> committed (is_session s) = db"

lemma keeps_committed_ops:
  "keeps (committed_is db) (db_op m)"
  "keeps (committed_is db) (tracker_op n)"
  "keeps (committed_is db) (idem_op j)"
  "keeps (committed_is db) (of_res r)"
  "keeps (committed_is db) (enqueue_reconciliation env k)"
  by (rule tripleI; auto simp: db_op_iff tracker_op_iff idem_op_iff of_res_def enqueue_reconciliation_def
      split: prod.splits sum.splits)+

lemma keeps_committed_execute: "keeps (committed_is db) (execute_creation env k c a)"
proof -
  have fin: "keeps (committed_is db) (complete_creation env k r i st)" for k r i st
    unfolding complete_creation_def by (intro keeps_bind keeps_committed_ops triple_return)
  have pend: "keeps (committed_is db) (pending_outcome env k r)" for k r
    unfolding pending_outcome_def by (intro keeps_bind keeps_committed_ops triple_return)
  have attempt: "keeps (committed_is db) (try_op (tracker_op (ie_create_issue env q))
      (\<lambda>e. if is_timeout_or_os_error e then pending_outcome env k r else raise_op e)
      (\<lambda>created. complete_creation env k r created CS_CREATED))" for k r q
    by (rule triple_try [OF keeps_committed_ops(2)]) (auto intro: pend triple_raise fin)
  have "keeps (committed_is db) (create_or_reconcile env k q b)" for k q b
    unfolding create_or_reconcile_def existing_issue_def
    by (rule keeps_bind [OF keeps_committed_ops(2)]) (simp add: fin pend attempt split: option.split)
  then have "keeps (committed_is db) (execute_confirmed env d conf q)" for d conf q
    unfolding execute_confirmed_def
    by (intro keeps_bind keeps_committed_ops triple_if triple_raise)
      (auto intro!: triple_if keeps_committed_ops split: prod.split)
  then show ?thesis
    unfolding execute_creation_def by (intro keeps_bind keeps_committed_ops) (simp split: prod.split)
qed

lemma status_of_complete:
  "triple P (complete_creation env k r c st) (\<lambda>out _. oc_status out = st) (\<lambda>_. True)"
  unfolding complete_creation_def
  by (rule triple_bind [OF triple_True], rule triple_bind [OF triple_True], rule triple_return) simp

lemma status_of_pending: "triple P (pending_outcome env k r) (\<lambda>out _. oc_status out \<noteq> CS_CREATED) (\<lambda>_. True)"
  unfolding pending_outcome_def by (rule triple_bind [OF triple_True], rule triple_return) simp

lemma status_of_record:
  "st \<noteq> CS_CREATED \<Longrightarrow>
     triple P (of_res (outcome_from_record resp k r st)) (\<lambda>out _. oc_status out \<noteq> CS_CREATED) (\<lambda>_. True)"
  by (rule triple_of_res) (auto simp: outcome_from_record_def bind_res_Inr_iff split: option.splits if_splits)

text \<open>\<open>CREATED\<close> is the answer of an execution that found no issue for the request.\<close>

lemma create_first:
  "triple (\<lambda>s. working (is_session s) = db) (create_or_reconcile env k q b)
     (\<lambda>out _. oc_status out = CS_CREATED \<longrightarrow>
        get_issue_by_request_id (xr_project_id q) (xr_request_id q) (tracker db) = Inr None) (\<lambda>_. True)"
proof -
  have look: "triple (\<lambda>s. working (is_session s) = db) (existing_issue q)
      (\<lambda>found _. get_issue_by_request_id (xr_project_id q) (xr_request_id q) (tracker db) = Inr found)
      (\<lambda>_. True)"
    by (rule tripleI) (auto simp: existing_issue_def tracker_op_iff)
  have fin: "triple P (complete_creation env k r c ALREADY_CREATED) (\<lambda>out _. oc_status out = CS_CREATED \<longrightarrow> F) (\<lambda>_. True)"
    and pend: "triple P (pending_outcome env k r) (\<lambda>out _. oc_status out = CS_CREATED \<longrightarrow> F) (\<lambda>_. True)" for P r c F
    by (rule triple_post [OF status_of_complete], auto) (rule triple_post [OF status_of_pending], auto)
  have attempt: "triple (\<lambda>_. F) (try_op m h n) (\<lambda>_ _. F) (\<lambda>_. True)"
    for F and m :: "CreatedIssue issue_op" and h and n :: "CreatedIssue \<Rightarrow> IssueCreationOutcome issue_op"
    by (rule tripleI) auto
  show ?thesis
    unfolding create_or_reconcile_def
    by (rule triple_bind [OF look])
      (auto intro!: fin pend triple_post [OF attempt] split: option.split)
qed

lemma execute_first:
  "triple (\<lambda>s. working (is_session s) = db) (execute_creation env k c a)
     (\<lambda>out _. oc_status out = CS_CREATED \<longrightarrow>
        (\<exists>d conf q. check_confirmation env k c a db = Inr (d, conf, q) \<and>
           get_issue_by_request_id (xr_project_id q) (xr_request_id q) (tracker db) = Inr None)) (\<lambda>_. True)"
proof -
  have chk: "triple (\<lambda>s. working (is_session s) = db) (db_op (read_op (check_confirmation env k c a)))
      (\<lambda>x s. working (is_session s) = db \<and> check_confirmation env k c a db = Inr x) (\<lambda>_. True)"
    by (rule tripleI) (auto simp: db_op_iff)
  have keep: "triple (\<lambda>s. working (is_session s) = db) (idem_op m) (\<lambda>_ s. working (is_session s) = db) (\<lambda>_. True)"
    for m :: "('x, IdempotencyRecordModel list) op"
    by (rule tripleI) (auto simp: idem_op_iff)
  have answer: "triple P (of_res (outcome_from_record resp j r ALREADY_CREATED))
      (\<lambda>out _. oc_status out = CS_CREATED \<longrightarrow> F) (\<lambda>_. True)" for P resp j r F
    by (rule triple_post [OF status_of_record]) auto
  have body: "triple (\<lambda>s. working (is_session s) = db) (execute_confirmed env d conf q)
      (\<lambda>out _. oc_status out = CS_CREATED \<longrightarrow>
        get_issue_by_request_id (xr_project_id q) (xr_request_id q) (tracker db) = Inr None) (\<lambda>_. True)" for d conf q
    unfolding execute_confirmed_def
    by (rule triple_bind [OF keep])
      (intro triple_if triple_raise answer triple_bind [OF keep],
       auto intro!: triple_if answer create_first split: prod.split)
  show ?thesis
    unfolding execute_creation_def
    by (rule triple_bind [OF chk], rule triple_fact)
      (auto intro: triple_post [OF body] split: prod.split)
qed

text \<open>C37: the completed idempotency record is committed before the session with the issue is. When that
  session is lost after an execution returned \<open>CREATED\<close>, the tracker has no issue for the request, and
  from then on both a repeated execution and the reconciliation report the issue as created, without
  creating it.\<close>

theorem lost_session_reports_created:
  assumes "working (is_session s) = committed (is_session s)"
    and "execute_creation env k c a s = (Inr out, s')" and "oc_status out = CS_CREATED"
    and "oc_issue_key out = Some key"
  shows "\<exists>d q. get_draft k (committed (is_session s)) = Inr d \<and> build_create_request d = Inr q \<and>
     get_issue_by_request_id (xr_project_id q) (xr_request_id q)
       (tracker (committed (is_session (run_call CallRollback s')))) = Inr None \<and>
     execute_creation env k c a (run_call CallRollback s')
       = (Inr (out\<lparr>oc_status := ALREADY_CREATED\<rparr>), run_call CallRollback s') \<and>
     reconcile env k (run_call CallRollback s')
       = (Inr (out\<lparr>oc_status := RECONCILED\<rparr>), run_call CallRollback s')"
proof -
  let ?db = "committed (is_session s)" and ?lost = "run_call CallRollback s'"
  obtain d conf q where chk: "check_confirmation env k c a ?db = Inr (d, conf, q)"
      and none: "get_issue_by_request_id (xr_project_id q) (xr_request_id q) (tracker ?db) = Inr None"
    using triple_Inr [OF execute_first assms(1,2)] assms(3) by blast
  have d: "get_draft k ?db = Inr d" "build_create_request d = Inr q"
    using chk by (auto simp: check_confirmation_def bind_res_Inr_iff split: if_splits)
  have "committed (is_session s') = ?db" using triple_Inr [OF keeps_committed_execute _ assms(2)] by simp
  then have lost: "committed (is_session ?lost) = ?db" "working (is_session ?lost) = ?db"
    by (simp_all add: rollback_def)
  have "recorded k out s'" using triple_Inr [OF execute_recorded _ assms(2)] by simp
  then have rec: "recorded k out ?lost" by (simp add: recorded_def)
  show ?thesis
    using d none execute_completed [OF _ rec assms(4)] reconcile_completed [OF _ _ rec assms(4)] chk
    unfolding lost by metis
qed

section \<open>A concrete run\<close>

text \<open>User 5, a member of project 1, drafts an issue, confirms it and executes the creation.\<close>

definition sample_issue_env :: issue_env where
  "sample_issue_env = \<lparr>ie_now = 1, ie_ttl = 60, ie_sha256 = (\<lambda>_. ''h''), ie_pick = 0, ie_gov = sample_docs,
     ie_new_draft = 100, ie_new_candidates = (\<lambda>_. 101), ie_new_confirmation = 102,
     ie_new_idempotency = 103, ie_new_job = 104, ie_create_issue = create_issue 1 105 106\<rparr>"

definition sample_issue_sys :: issue_sys where
  "sample_issue_sys = \<lparr>is_session = begin_session
     \<lparr>tracker = \<lparr>sandbox_projects = [\<lparr>sp_id = 1, sp_project_id = 1, sp_external_key = ''K'',
        sp_status = ''active''\<rparr>], sandbox_issues = [], sandbox_issue_events = []\<rparr>,
      issue_drafts = [], issue_candidates = [], tool_confirmations = []\<rparr>, is_idem = [], is_jobs = []\<rparr>"

definition sample_draft_call :: issue_call where
  "sample_draft_call = CallDraft sample_issue_env 9 1 5 ''x'' None []"

definition sample_draft :: IssueDraftModel where
  "sample_draft =
     \<lparr>dr_id = 100, dr_run_id = 9, dr_project_id = 1, dr_created_by = 5, dr_title = ''x'', dr_description = ''x'',
      dr_issue_type = IssueType_value IT_TASK, dr_proposed_priority = IssuePriority_value MEDIUM,
      dr_module = None, dr_environment = None, dr_reproduction_steps = [],
      dr_expected_behavior = None, dr_actual_behavior = None, dr_evidence_ids = [],
      dr_status = DS_DRAFT, dr_created_at = 1, dr_updated_at = 1\<rparr>"

definition sample_create_request :: CreateIssueRequest where
  "sample_create_request = \<lparr>xr_project_id = uuid_str 1, xr_request_id = uuid_str 100, xr_title = ''x'',
     xr_description = ''x'', xr_issue_type = IssueType_value IT_TASK, xr_priority = IssuePriority_value MEDIUM,
     xr_reporter_id = uuid_str 5, xr_module = None, xr_error_code = None, xr_environment = None\<rparr>"

definition sample_receipt :: ToolConfirmationReceipt where
  "sample_receipt = \<lparr>rc_id = 102, rc_run_id = 9, rc_tool_name = TOOL_NAME, rc_request_payload_hash = ''h'',
     rc_status = TC_CONFIRMED, rc_confirmed_by = 5, rc_confirmed_at = 1, rc_expires_at = 61\<rparr>"

definition sample_calls :: "issue_call list" where
  "sample_calls = [sample_draft_call, CallDecide sample_issue_env 100 5 CONFIRM ''h'', CallCommit]"

definition sample_confirmed :: issue_sys where
  "sample_confirmed = foldl (\<lambda>s c. run_call c s) sample_issue_sys sample_calls"

definition sample_created :: issue_sys where
  "sample_created = run_call CallCommit (run_call (CallExecute sample_issue_env 100 102 5) sample_confirmed)"

lemma sample_text:
  "py_strip ''x'' = ''x''" "extract_text ''x'' = Inr []" "draft_title ''x'' = ''x''" "search MODULE_LABEL ''x'' = None"
  by code_simp+

lemma sample_first_error: "first_error_code [] = None"
  by code_simp

lemma sample_build: "build_create_request sample_draft = Inr sample_create_request"
  by (simp add: build_create_request_def sample_draft_def sample_text request_description_def
      sample_create_request_def sample_first_error)

lemma sample_fields:
  "dr_id sample_draft = 100" "dr_run_id sample_draft = 9" "dr_created_at sample_draft = 1"
  "dr_project_id sample_draft = 1" "rc_status sample_receipt = TC_CONFIRMED" "rc_confirmed_by sample_receipt = 5"
  "rc_request_payload_hash sample_receipt = ''h''" "rc_expires_at sample_receipt = 61"
  "xr_project_id sample_create_request = uuid_str 1" "xr_request_id sample_create_request = uuid_str 100"
  "xr_reporter_id sample_create_request = uuid_str 5"
  by (simp_all add: sample_draft_def sample_receipt_def sample_create_request_def)

lemma sample_drafting:
  "run_call sample_draft_call sample_issue_sys = sample_issue_sys\<lparr>is_session := (is_session sample_issue_sys)\<lparr>
     working := (working (is_session sample_issue_sys))\<lparr>issue_drafts := [sample_draft]\<rparr>\<rparr>\<rparr>"
  by (simp add: Let_def sample_draft_call_def create_from_text_def sample_text db_op_def on_working_def bind_op_def
      repo_create_draft_def new_draft_row_def draft_command_def sample_draft_def sample_issue_env_def
      sample_issue_sys_def begin_session_def)

definition sample_db :: issue_db where
  "sample_db = (working (is_session sample_issue_sys))
     \<lparr>issue_drafts := [sample_draft\<lparr>dr_status := DS_CONFIRMED, dr_updated_at := 1\<rparr>],
      tool_confirmations := [confirmation_row 1 sample_receipt]\<rparr>"

lemma sample_deciding: "sample_confirmed = sample_issue_sys\<lparr>is_session := begin_session sample_db\<rparr>"
proof -
  have "sample_confirmed = run_call CallCommit (run_call (CallDecide sample_issue_env 100 5 CONFIRM ''h'')
      (sample_issue_sys\<lparr>is_session := (is_session sample_issue_sys)\<lparr>
        working := (working (is_session sample_issue_sys))\<lparr>issue_drafts := [sample_draft]\<rparr>\<rparr>\<rparr>))"
    by (simp add: sample_confirmed_def sample_calls_def sample_drafting del: run_call.simps)
  then show ?thesis
    by (simp add: Let_def record_decision_def prepare_confirmation_def get_draft_def row_by_def
        db_op_def on_working_def bind_op_def sample_build sample_fields payload_hash_def store_decision_def save_confirmation_def
        to_confirmation_def confirmation_row_def set_draft_status_def sample_issue_env_def sample_issue_sys_def
        sample_db_def sample_receipt_def begin_session_def commit_def update_rows_def)
qed

definition sample_outcome :: IssueCreationOutcome where
  "sample_outcome = \<lparr>oc_status = CS_CREATED, oc_draft_id = 100, oc_request_id = uuid_str 100,
     oc_issue_key = Some ''K-000105'', oc_issue_status = Some ''OPEN''\<rparr>"

lemma sample_role: "\<exists>ctx. authorize_project 0 1 5 1 sample_docs = Inr ctx \<and>
    assert_can_create (sc_role_ids (cx_scope ctx)) = Inr ()"
  by (simp add: auth_eval sample_doc_defs list_published_document_access_def published_rows_def
      list_active_knowledge_space_ids_def active_ragflow_space_def sorted_set_by_def assert_can_create_def
      ALLOWED_ROLES_def)

lemma sample_checked: "check_confirmation sample_issue_env 100 102 5 sample_db =
    Inr (sample_draft\<lparr>dr_status := DS_CONFIRMED, dr_updated_at := 1\<rparr>, sample_receipt, sample_create_request)"
proof -
  obtain ctx where a: "authorize_project 0 1 5 1 sample_docs = Inr ctx"
      "assert_can_create (sc_role_ids (cx_scope ctx)) = Inr ()"
    using sample_role by blast
  have d: "get_draft 100 sample_db = Inr (sample_draft\<lparr>dr_status := DS_CONFIRMED, dr_updated_at := 1\<rparr>)"
    and c: "get_confirmation 102 sample_db = Inr sample_receipt"
    by (simp_all add: get_draft_def get_confirmation_def row_by_def sample_db_def sample_draft_def
        to_confirmation_def confirmation_row_def sample_receipt_def)
  show ?thesis
    by (simp add: check_confirmation_def d c sample_build payload_hash_def sample_fields sample_issue_env_def a)
qed

lemma sample_key: "new_issue_key \<lparr>sp_id = 1, sp_project_id = 1, sp_external_key = ''K'', sp_status = ''active''\<rparr> 105
    = ''K-000105''"
proof -
  have "zfill 6 (str_nat 105) = ''000105''" by code_simp
  then show ?thesis by (simp add: new_issue_key_def)
qed

definition sample_new_issue :: SandboxIssueModel where
  "sample_new_issue = new_issue_row 1 105 1
     \<lparr>sp_id = 1, sp_project_id = 1, sp_external_key = ''K'', sp_status = ''active''\<rparr> 5 sample_create_request"

lemma sample_tracker_call:
  "create_issue 1 105 106 sample_create_request (tracker sample_db) =
     (Inr \<lparr>ci_project_id = uuid_str 1, ci_request_id = uuid_str 100, ci_issue_key = ''K-000105'', ci_status = ''OPEN''\<rparr>,
      (tracker sample_db)\<lparr>sandbox_issues := [sample_new_issue],
        sandbox_issue_events := [\<lparr>se_id = 106, se_sandbox_issue_id = 105, se_event_type = ''CREATED'',
          se_actor_id = Some 5, se_payload = [(''client_request_id'', JStr (uuid_str 100))]\<rparr>]\<rparr>)"
  and sample_no_issue: "get_issue_by_request_id (uuid_str 1) (uuid_str 100) (tracker sample_db) = Inr None"
  by (simp_all add: create_issue_def get_issue_by_request_id_def issues_of_request_def project_uuid_def
      active_sandbox_project_def insert_issue_def sample_fields sample_db_def sample_issue_sys_def
      begin_session_def bind_op_def Let_def sample_new_issue_def new_issue_row_def sample_key)

lemma sample_execution:
  "\<exists>s'. execute_creation sample_issue_env 100 102 5 sample_confirmed = (Inr sample_outcome, s') \<and>
     sandbox_issues (tracker (working (is_session s'))) = [sample_new_issue]"
proof -
  have w: "sample_confirmed = \<lparr>is_session = \<lparr>committed = sample_db, working = sample_db\<rparr>, is_idem = [], is_jobs = []\<rparr>"
    by (simp add: sample_deciding begin_session_def sample_issue_sys_def)
  have d: "get_draft 100 (sample_db\<lparr>tracker := t\<rparr>) = Inr (sample_draft\<lparr>dr_status := DS_CONFIRMED, dr_updated_at := 1\<rparr>)" for t
    by (simp add: get_draft_def row_by_def sample_db_def sample_fields)
  have e: "ie_now sample_issue_env = 1" "ie_create_issue sample_issue_env = create_issue 1 105 106"
    by (simp_all add: sample_issue_env_def)
  show ?thesis
    by (simp add: execute_creation_def bind_op_def db_op_def on_working_def w sample_checked execute_confirmed_def
        idem_op_def idem_get_def idem_row_def idem_reserve_def Let_def to_idem_record_def sample_fields
        create_or_reconcile_def existing_issue_def tracker_op_def sample_no_issue try_op_def sample_tracker_call
        complete_creation_def idem_complete_def update_rows_def set_draft_status_def d sample_outcome_def
        e)
qed

section \<open>The run satisfies the hypotheses\<close>

abbreviation sample_trace :: "issue_call list" where
  "sample_trace \<equiv> ((([] @ [sample_draft_call]) @ [CallDecide sample_issue_env 100 5 CONFIRM ''h'']) @ [CallCommit]) @
     [CallExecute sample_issue_env 100 102 5] @ [CallCommit]"

lemma sample_env_ok: "env_ok (\<lambda>_. ''h'') sample_issue_env"
  by (simp add: env_ok_def sample_issue_env_def sandbox.issue_tracker_axioms)

lemma sample_call_ok:
  "call_env c = Some sample_issue_env \<or> call_env c = None \<Longrightarrow> call_draft_ids c = [] \<or> trace_draft_ids tr = [] \<Longrightarrow>
     call_ok (\<lambda>_. ''h'') tr c"
  using sample_env_ok by (auto simp: call_ok_def)

lemma sample_run: "issue_run (\<lambda>_. ''h'') sample_trace sample_created"
proof -
  have start: "issue_run (\<lambda>_. ''h'') [] sample_issue_sys"
    by (rule run_start) (simp add: issue_start_def sample_issue_sys_def begin_session_def)
  show ?thesis
    unfolding sample_created_def sample_confirmed_def sample_calls_def foldl.simps append_assoc [symmetric]
    by (intro run_step start sample_call_ok) (simp_all add: sample_draft_call_def trace_draft_ids_def)
qed

lemma sample_created_issues: "sandbox_issues (tracker (committed (is_session sample_created))) = [sample_new_issue]"
  using sample_execution by (auto simp: sample_created_def commit_def)

lemma sample_drafted: "drafted sample_trace d \<Longrightarrow> d = sample_draft"
  by (auto simp: drafted_def sample_draft_call_def sample_text new_draft_row_def draft_command_def sample_draft_def
      sample_issue_env_def)

theorem issue_needs_confirmation_witness:
  "\<exists>d a c context. drafted sample_trace d \<and> uuid_str 100 = uuid_str (dr_id d) \<and>
     CallExecute sample_issue_env (dr_id d) c a \<in> set sample_trace \<and>
     authorize_project 0 1 a (dr_project_id d) sample_docs = Inr context"
proof -
  have i: "sample_new_issue \<in> set (sandbox_issues (tracker (committed (is_session sample_created))))"
    by (simp add: sample_created_issues)
  have r: "si_client_request_id sample_new_issue = Some (uuid_str 100)"
    by (simp add: sample_new_issue_def new_issue_row_def sample_fields)
  have inj: "inj_on (\<lambda>_. ''h'') (payload_text ` {q. \<exists>d. drafted sample_trace d \<and> build_create_request d = Inr q})"
  proof -
    have "q = sample_create_request" if "drafted sample_trace d" "build_create_request d = Inr q" for d q
      using that sample_drafted [OF that(1)] sample_build by simp
    then show ?thesis unfolding inj_on_def by blast
  qed
  obtain d a env c ctx where d: "drafted sample_trace d" "uuid_str 100 = uuid_str (dr_id d)"
      "CallExecute env (dr_id d) c a \<in> set sample_trace"
      "authorize_project (ie_pick env) (ie_now env) a (dr_project_id d) (ie_gov env) = Inr ctx"
    using issue_needs_confirmation [OF sample_run i r inj] by blast
  then have "env = sample_issue_env" by (auto simp: sample_draft_call_def)
  then show ?thesis
    using d by (intro exI [of _ d] exI [of _ a] exI [of _ c] exI [of _ ctx]) (simp add: sample_issue_env_def)
qed

theorem one_issue_per_draft_witness:
  "length (filter (\<lambda>i. si_client_request_id i = Some (uuid_str 100))
     (sandbox_issues (tracker (committed (is_session sample_created))))) \<le> 1 \<and>
   sandbox_issues (tracker (committed (is_session sample_created))) \<noteq> []"
  using one_issue_per_draft [OF sample_run] by (simp add: sample_created_issues)

theorem execute_replay_witness:
  "\<exists>t. execute_creation sample_issue_env 100 102 5 t = (Inr (sample_outcome\<lparr>oc_status := ALREADY_CREATED\<rparr>), t)"
proof -
  obtain s' where s': "execute_creation sample_issue_env 100 102 5 sample_confirmed = (Inr sample_outcome, s')"
    using sample_execution by blast
  let ?t = "s'\<lparr>is_session := begin_session sample_db\<rparr>"
  have k: "oc_issue_key sample_outcome = Some ''K-000105''" by (simp add: sample_outcome_def)
  have c: "check_confirmation sample_issue_env 100 102 5 (working (is_session ?t)) =
      Inr (sample_draft\<lparr>dr_status := DS_CONFIRMED, dr_updated_at := 1\<rparr>, sample_receipt, sample_create_request)"
    using sample_checked by (simp add: begin_session_def)
  have "execute_creation sample_issue_env 100 102 5 ?t = (Inr (sample_outcome\<lparr>oc_status := ALREADY_CREATED\<rparr>), ?t)"
    by (rule execute_replay [OF s' k _ c]) simp
  then show ?thesis by blast
qed

theorem lost_session_reports_created_witness:
  "\<exists>s'. execute_creation sample_issue_env 100 102 5 sample_confirmed = (Inr sample_outcome, s') \<and>
     reconcile sample_issue_env 100 (run_call CallRollback s')
       = (Inr (sample_outcome\<lparr>oc_status := RECONCILED\<rparr>), run_call CallRollback s')"
proof -
  obtain s' where s': "execute_creation sample_issue_env 100 102 5 sample_confirmed = (Inr sample_outcome, s')"
    using sample_execution by blast
  have "working (is_session sample_confirmed) = committed (is_session sample_confirmed)"
    by (simp add: sample_deciding begin_session_def)
  from lost_session_reports_created [OF this s'] show ?thesis using s' by (auto simp: sample_outcome_def)
qed

end
