(* ===== verification/IssueWitness.thy ===== *)
theory IssueWitness
  imports IssueExecution IssueReplay QAWitness
begin

text \<open>
  One issue-create run, evaluated node by node on concrete tables: user 5 executes run 7 on thread 8, confirms
  the draft, and the resume creates the issue.
\<close>

section \<open>The tables and services of the sample\<close>

definition wrun :: RunRecord where
  "wrun = sample_qa_run\<lparr>rr_business_mode := ISSUE_CREATE\<rparr>"

definition wrow :: AgentRunModel where
  "wrow = new_run_row 7 8 2 1 5 ISSUE_CREATE"

definition wqueued :: AgentEventModel where
  "wqueued = \<lparr>ae_id = 50, ae_run_id = 7, ae_sequence_no = 1, ae_event_type = RUN_QUEUED,
     ae_payload = [(''query_text'', JStr ''x'')]\<rparr>"

definition wstore :: "AgentRunModel \<Rightarrow> AgentEventModel list \<Rightarrow> EvidenceBundleModel list \<Rightarrow> EvidenceSnapshotModel list \<Rightarrow>
    KnowledgeRetrievalRequest list \<Rightarrow> nat \<Rightarrow> qa_db" where
  "wstore row evs bs ss rs n = \<lparr>qb_runs = \<lparr>threads = [], runs = [row], events = wqueued # evs, queue = []\<rparr>,
     qb_bundles = bs, qb_snapshots = ss, qb_answers = [], qb_citations = [], qb_supply = (\<lambda>k. 100 + of_nat k),
     qb_next = n, qb_requests = rs\<rparr>"

definition wdocs :: doc_db where
  "wdocs = sample_docs\<lparr>documents := [sample_document\<lparr>do_document_category := ''requirement_baseline''\<rparr>]\<rparr>"

text \<open>Each invocation has a draft id of its own.\<close>

definition wenv :: "uuid \<Rightarrow> issue_env" where
  "wenv n = sample_issue_env\<lparr>ie_new_draft := n\<rparr>"

definition wdeps :: "uuid \<Rightarrow> issue_deps" where
  "wdeps n = \<lparr>sd_qa = sample_deps\<lparr>qd_docs := wdocs\<rparr>, sd_issue = (wenv n), sd_today = (2024, 1, 1),
     sd_show_time = (\<lambda>_. ''t''), sd_read_time = (\<lambda>_. Inr 0)\<rparr>"

definition wctx :: AuthorizedProjectContext where
  "wctx = sample_ctx\<lparr>cx_scope := (cx_scope sample_ctx)\<lparr>sc_allowed_document_categories := [''requirement_baseline'']\<rparr>\<rparr>"

abbreviation wst0 :: AgentState where
  "wst0 \<equiv> run_input wrun empty_state"

lemmas weval = bind_op_def uuid4_def on_runs_def read_runs_def qa_save_artifact_def qa_load_artifact_def
  qa_load_query_def load_query_def save_artifact_def append_event_def load_artifact_def update_run_def events_of_def
  next_sequence_def wstore_def wqueued_def sample_event_def Let_def

lemma strip_x: "py_strip ''x'' = ''x''"
  by code_simp

section \<open>Scope and evidence\<close>

lemma authorize_w: "authorize_project 0 0 5 1 wdocs = Inr wctx"
  by (simp add: wdocs_def wctx_def sample_ctx_def auth_eval sample_doc_defs list_published_document_access_def
      published_rows_def list_active_knowledge_space_ids_def active_ragflow_space_def sorted_set_by_def)

definition we1 :: AgentEventModel where
  "we1 = sample_event 100 2 ''PROJECT_ACCESS_SCOPE'' (serialize_authorized_context wctx)"

definition wst1 :: AgentState where
  "wst1 = wst0\<lparr>st_access_scope_id := Some (uuid_str 100)\<rparr>"

lemma wst1_fields: "st_run_id wst1 = uuid_str 7" "st_user_id wst1 = uuid_str 5" "st_project_id wst1 = Some (uuid_str 1)"
  "st_access_scope_id wst1 = Some (uuid_str 100)"
  by (simp_all add: wst1_def run_input_def wrun_def sample_qa_run_def)

lemma scope_w: "resolve_scope_node (sd_qa (wdeps n)) wst0 (wstore wrow [] [] [] [] 0) =
  (Inr wst1, wstore wrow [we1] [] [] [] 1)"
  by (simp add: resolve_scope_node_def given_def need_project_def weval wdeps_def sample_deps_def authorize_w
      uuid_str_nonempty we1_def wst1_def run_input_def wrun_def sample_qa_run_def wrow_def new_run_row_def)

lemma context_w: "load_context_of wst1 (wstore row [we1] bs ss rs n) = (Inr wctx, wstore row [we1] bs ss rs n)"
  by (simp add: load_context_of_def need_def weval wst1_fields we1_def deserialize_serialize)

lemma query_w:
  assumes "filter (\<lambda>e. ae_event_type e = RUN_QUEUED \<and> ae_run_id e = 7) evs = []"
  shows "qa_load_query 7 (wstore row evs bs ss rs n) = (Inr ''x'', wstore row evs bs ss rs n)"
  using assms
  by (simp add: qa_load_query_def read_runs_def load_query_def events_of_def wstore_def wqueued_def strip_x
      conj_commute)

definition wrequest :: KnowledgeRetrievalRequest where
  "wrequest = sample_request_q\<lparr>rq_query := ''x''\<rparr>"

definition wgoverned :: GovernedEvidence where
  "wgoverned = sample_governed\<lparr>ge_document_category := REQUIREMENT_BASELINE\<rparr>"

definition wpack :: GovernedEvidencePack where
  "wpack = \<lparr>gp_evidence = [wgoverned], gp_unresolved_conflicts = []\<rparr>"

definition winfo :: DocumentEvidenceMetadata where
  "winfo = \<lparr>em_document_version_id = 20, em_document_id = 10, em_project_id = 1,
      em_document_category = REQUIREMENT_BASELINE, em_title = ''API'', em_authority_level = AL_APPROVED_DESIGN,
      em_lifecycle_status = PUBLISHED, em_version_no = 1, em_version_label = ''v1'', em_effective_from = None,
      em_effective_to = None, em_is_current = True\<rparr>"

lemma metadata_w: "get_document_evidence_metadata [20] wdocs = Inr [winfo]"
proof -
  have category: "DocumentCategory_of ''requirement_baseline'' = Inr REQUIREMENT_BASELINE"
    using DocumentCategory_of_value [of REQUIREMENT_BASELINE] by simp
  have level: "AuthorityLevel_of ''approved_design'' = Inr AL_APPROVED_DESIGN"
    using AuthorityLevel_of_value [of AL_APPROVED_DESIGN] by simp
  show ?thesis
    by (simp add: get_document_evidence_metadata_def evidence_metadata_def current_version_no_def category level
        wdocs_def sample_doc_defs winfo_def)
qed

lemma select_w: "select_document_version_ids (2024, 1, 1) 1 wctx wdocs = Inr [20]"
  by (simp add: select_document_version_ids_def wctx_def sample_ctx_def metadata_w metadata_of_def winfo_def
      eligible_def in_force_def ALLOWED_CATEGORIES_def sorted_set_by_def)

lemma constrain_w: "constrain_retrieval \<lparr>rq_project_id = cx_project_code wctx, rq_query = ''x'', rq_limit = 10,
     rq_document_version_ids = [uuid_str 20], rq_knowledge_space_ids = []\<rparr> wctx = Inr (Some wrequest)"
  by (simp add: constrain_retrieval_def wctx_def sample_ctx_def allowed_versions_def restrict_to_def
      sorted_set_by_def wrequest_def sample_request_q_def)

lemma postfilter_w: "postfilter_evidence [sample_qa_chunk] wctx = [sample_qa_chunk]"
  by (simp add: postfilter_evidence_def wctx_def sample_ctx_def sample_qa_chunk_def allowed_versions_def)

lemma pack_w: "pack 8 (2024, 1, 1) 1 ''PRJ-A-1'' [sample_qa_chunk] wdocs = Inr wpack"
proof -
  have parsed: "parse_chunks ''PRJ-A-1'' [sample_qa_chunk] = [(sample_qa_chunk, 20)]"
    by (simp add: parse_chunks_def sample_qa_chunk_def List.map_filter_def)
  let ?e = "wgoverned\<lparr>ge_label := []\<rparr>"
  have chunks: "govern_chunks 1 ''PRJ-A-1'' (2024, 1, 1) [winfo] [] [(sample_qa_chunk, 20)] = [?e]"
    by (simp add: metadata_of_def eligible_def in_force_def governed_def wgoverned_def winfo_def sample_governed_def
        sample_qa_chunk_def text_or_none_def)
  have plain: "\<not> grouped ?e" "\<not> grouped wgoverned" "\<not> ge_unresolved_conflict ?e" "\<not> ge_unresolved_conflict wgoverned"
    by (simp_all add: grouped_def wgoverned_def sample_governed_def)
  have label: "?e\<lparr>ge_label := evidence_label (Suc 0)\<rparr> = wgoverned"
    by (simp add: evidence_label_def str_one wgoverned_def sample_governed_def)
  have keep: "resolve_explicit_conflicts [?e] = [?e]"
    by (simp add: resolve_explicit_conflicts_def plain)
  have sel: "select_evidence 8 [?e] = [?e]"
    by (simp add: select_evidence_def plain)
  have labeled: "label_evidence [?e] = [wgoverned]"
    by (simp only: label_evidence_def enumerate_simps list.map prod.case label One_nat_def)
  have table: "conflict_table [wgoverned] = []"
    by (simp add: conflict_table_def plain)
  have sorted: "sort_key evidence_order [?e] = [?e]"
    by simp
  have keys: "fromkeys (map snd [(sample_qa_chunk, 20)]) = [20]"
    by simp
  show ?thesis
    by (simp only: pack_def parsed keys metadata_w bind_res_simps Let_def chunks keep sorted sel labeled table
        wpack_def)
qed

definition wrow2 :: AgentRunModel where
  "wrow2 = wrow\<lparr>ar_retrieval_rounds := 1\<rparr>"

definition wbundle :: EvidenceBundleModel where
  "wbundle = \<lparr>eb_id = 101, eb_run_id = 7, eb_query_text = ''x''\<rparr>"

definition wevidence :: EvidenceSnapshotModel where
  "wevidence = governed_row (\<lambda>_. ''h'') 101 1 102 (1, wgoverned)"

definition wst2 :: AgentState where
  "wst2 = wst1\<lparr>st_evidence_bundle_id := Some (uuid_str 101), st_route := Some ''issue_evidence_ready'',
     st_last_error_code := None\<rparr>"

lemma save_w: "save_governed_evidence_bundle (\<lambda>_. ''h'') 7 1 ''x'' wpack (wstore row evs [] [] rs 1) =
  (Inr 101, wstore row evs [wbundle] [wevidence] rs 3)"
proof -
  have row: "save_governed (\<lambda>_. ''h'') 101 1 (Suc 0, wgoverned) (wstore row evs [wbundle] [] rs 2) =
      (Inr (), wstore row evs [wbundle] [wevidence] rs 3)"
    by (simp add: save_governed_def uuid4_def bind_op_def insert_snapshot_def snapshot_fits_def wstore_def
        wevidence_def governed_row_def wgoverned_def sample_governed_def or_else_def half6)
  have new: "new_bundle 7 ''x'' (wstore row evs [] [] rs 1) = (Inr 101, wstore row evs [wbundle] [] rs 2)"
    by (simp add: new_bundle_def insert_bundle_def wbundle_def weval)
  show ?thesis
    by (simp add: save_governed_evidence_bundle_def bind_op_def new [unfolded One_nat_def] row wpack_def)
qed

lemma evidence_w: "retrieve_issue_evidence_node (wdeps n) wst1 (wstore wrow [we1] [] [] [] 1) =
  (Inr wst2, wstore wrow2 [we1] [wbundle] [wevidence] [wrequest] 3)"
proof -
  have q: "qa_load_query 7 (wstore wrow [we1] [] [] [] 1) = (Inr ''x'', wstore wrow [we1] [] [] [] 1)"
    by (rule query_w) (simp add: we1_def sample_event_def)
  have ids: "UUID (st_run_id wst1) = Inr 7" "need_project wst1 = Inr 1" "given (st_project_id wst1)"
      "given (st_access_scope_id wst1)"
    by (simp_all add: wst1_fields need_project_def given_def uuid_str_nonempty)
  have inc: "increment_retrieval_rounds 7 (wstore wrow [we1] [] [] [] 1) = (Inr (), wstore wrow2 [we1] [] [] [] 1)"
    by (simp add: increment_retrieval_rounds_def weval wrow_def wrow2_def new_run_row_def)
  have ask: "ask_provider (sd_qa (wdeps n)) wrequest (wstore wrow2 [we1] [] [] [] 1) =
      (Inr [sample_qa_chunk], wstore wrow2 [we1] [] [] [wrequest] 1)"
    by (simp add: ask_provider_def wdeps_def sample_deps_def wstore_def)
  have d: "sd_today (wdeps n) = (2024, 1, 1)" "qd_docs (sd_qa (wdeps n)) = wdocs" "qd_today (sd_qa (wdeps n)) = (2024, 1, 1)"
      "qd_sha (sd_qa (wdeps n)) = (\<lambda>_. ''h'')" "cx_project_code wctx = ''PRJ-A-1''"
    by (simp_all add: wdeps_def sample_deps_def wctx_def sample_ctx_def)
  have keep: "wpack\<lparr>gp_evidence := filter (\<lambda>item. ge_document_category item \<in> set ALLOWED_CATEGORIES) (gp_evidence wpack)\<rparr> = wpack"
    by (simp add: wpack_def wgoverned_def ALLOWED_CATEGORIES_def)
  have some: "filter (\<lambda>item. ge_document_category item \<in> set ALLOWED_CATEGORIES) (gp_evidence wpack) \<noteq> []"
    by (simp add: wpack_def wgoverned_def ALLOWED_CATEGORIES_def)
  show ?thesis
    by (simp add: retrieve_issue_evidence_node_def bind_op_def ids context_w q [unfolded One_nat_def] d
        select_w [unfolded One_nat_def] constrain_w [unfolded d(5)] inc [unfolded One_nat_def]
        ask [unfolded One_nat_def] postfilter_w pack_w [unfolded One_nat_def] keep some
        save_w [unfolded One_nat_def] Let_def)
      (simp add: wst2_def)
qed

section \<open>Candidates and draft\<close>

definition wquery :: IssueCandidateQuery where
  "wquery = \<lparr>cq_project_id = uuid_str 1, cq_title = ''x'', cq_description = ''x'', cq_error_code = None,
     cq_module = None, cq_statuses = [], cq_semantic_scores = [], cq_limit = 5\<rparr>"

definition wfound :: IssueCandidateResult where
  "wfound = \<lparr>cr_query = wquery, cr_possible_duplicates = [],
     cr_user_options = [VIEW_EXISTING, LINK_EXISTING, CONTINUE_CREATE, CANCEL_CREATE]\<rparr>"

lemma find_w: "find_candidates_from_text (uuid_str 1) ''x'' 5 [] (tracker (working (is_session sample_issue_sys))) = Inr wfound"
proof -
  have "search_issues \<lparr>sr_project_id = uuid_str 1, sr_query = None, sr_error_code = None, sr_module = None,
      sr_statuses = [], sr_limit = 100\<rparr> (tracker (working (is_session sample_issue_sys))) = Inr []"
    by (simp add: search_issues_def project_uuid_def build_search_statement_def sample_issue_sys_def begin_session_def)
  then show ?thesis
    by (simp add: find_candidates_from_text_def Let_def sample_text find_candidates_def sample_first_error
        uuid_str_nonempty wfound_def wquery_def List.map_filter_def)
qed

lemma load_w: "load_candidates r (dump_candidates sh wfound) = Inr wfound"
proof -
  have q: "load_candidate_query (dump_candidate_query wquery) = Inr wquery"
    by (simp add: load_candidate_query_def dump_candidate_query_def wquery_def required_def defaulted_def as_str_def
        as_nonempty_str_def as_opt_def opt_str_def as_list_def as_obj_def as_int_def of_strs_def uuid_str_nonempty)
  have o: "map_res (\<lambda>v. bind_res (as_str v) IssueCandidateAction_of)
      (map (\<lambda>a. JStr (IssueCandidateAction_value a)) as) = Inr as" for as
    by (induction as) (simp_all add: as_str_def)
  show ?thesis
    by (simp add: load_candidates_def dump_candidates_def required_def defaulted_def as_obj_def as_list_def q o
        del: IssueCandidateAction_value.simps list.map map_res.simps)
      (simp add: wfound_def q)
qed

definition we2 :: AgentEventModel where
  "we2 = sample_event 103 3 ''ISSUE_CANDIDATES'' (dump_candidates (\<lambda>_. ''t'') wfound)"

definition wst3 :: AgentState where
  "wst3 = wst2\<lparr>st_issue_candidate_id := Some (uuid_str 103), st_route := Some ''issue_candidates'',
     st_last_error_code := None\<rparr>"

definition world :: "qa_db \<Rightarrow> issue_sys \<Rightarrow> issue_world" where
  "world q s = \<lparr>iw_qa = q, iw_sys = s\<rparr>"

lemma on_qa_world: "on_qa m (world q s) = (fst (m q), world (snd (m q)) s)"
  by (simp add: on_qa_def world_def split: prod.split)

lemma on_sys_world: "on_sys m (world q s) = (fst (m s), world q (snd (m s)))"
  by (simp add: on_sys_def world_def split: prod.split)

lemma wst2_fields: "st_run_id wst2 = uuid_str 7" "st_user_id wst2 = uuid_str 5" "st_project_id wst2 = Some (uuid_str 1)"
  "st_access_scope_id wst2 = Some (uuid_str 100)" "st_evidence_bundle_id wst2 = Some (uuid_str 101)"
  "st_issue_candidate_id wst2 = None"
  by (simp_all add: wst2_def wst1_def run_input_def wrun_def sample_qa_run_def empty_state_def)

definition wrs where "wrs = [wrequest]"

lemma search_w: "search_issues_node (wdeps n) wst2 (world (wstore wrow2 [we1] [wbundle] [wevidence] wrs 3) sample_issue_sys) =
  (Inr wst3, world (wstore wrow2 [we1, we2] [wbundle] [wevidence] wrs 4) sample_issue_sys)"
proof -
  let ?q = "wstore wrow2 [we1] [wbundle] [wevidence] wrs 3"
  have q: "qa_load_query 7 ?q = (Inr ''x'', ?q)"
    by (rule query_w) (simp add: we1_def sample_event_def)
  have ctx: "load_context_of wst2 ?q = (Inr wctx, ?q)"
    by (simp add: load_context_of_def need_def weval wst2_fields we1_def deserialize_serialize)
  have ids: "UUID (st_run_id wst2) = Inr 7" "need_project wst2 = Inr 1" "given (st_project_id wst2)"
      "given (st_access_scope_id wst2)" "the (st_project_id wst2) = uuid_str 1" "sd_show_time (wdeps n) = (\<lambda>_. ''t'')"
    by (simp_all add: wst2_fields need_project_def given_def uuid_str_nonempty wdeps_def)
  have mem: "1 \<in> set (sc_allowed_project_ids (cx_scope wctx))" by (simp add: wctx_def sample_ctx_def)
  have save: "qa_save_artifact 7 ''ISSUE_CANDIDATES'' (dump_candidates (\<lambda>_. ''t'') wfound) ?q =
      (Inr 103, wstore wrow2 [we1, we2] [wbundle] [wevidence] wrs 4)"
    by (simp add: weval wrow_def wrow2_def new_run_row_def we1_def we2_def)
  show ?thesis
    by (simp add: search_issues_node_def bind_op_def ids ctx mem q find_w save on_qa_world on_sys_world)
      (simp add: wst3_def)
qed

definition wdraft :: IssueDraftModel where
  "wdraft = IssueReplay.sample_draft\<lparr>dr_run_id := 7, dr_evidence_ids := [uuid_str 102]\<rparr>"

definition wsys1 :: issue_sys where
  "wsys1 = sample_issue_sys\<lparr>is_session := (is_session sample_issue_sys)\<lparr>
     working := (working (is_session sample_issue_sys))\<lparr>issue_drafts := [wdraft]\<rparr>\<rparr>\<rparr>"

definition wst4 :: AgentState where
  "wst4 = wst3\<lparr>st_issue_draft_id := Some (uuid_str 100), st_route := Some ''confirm_issue_create'',
     st_last_error_code := None\<rparr>"

lemma freeze_w: "freeze_row wevidence = Inr (frozen (\<lambda>_. ''h'') 1 102 wgoverned)"
proof -
  have "date_field (governed_metadata (\<lambda>_. ''h'') wgoverned) k = Inr None"
    if "k = ''effective_from'' \<or> k = ''effective_to''" for k
    using that by (auto simp: date_field_def metadata_of_row wgoverned_def sample_governed_def opt_date_def)
  moreover have "(frozen (\<lambda>_. ''h'') 1 102 wgoverned)\<lparr>fe_effective_from := None, fe_effective_to := None\<rparr> =
      frozen (\<lambda>_. ''h'') 1 102 wgoverned"
    by (simp add: frozen_def wgoverned_def sample_governed_def)
  ultimately show ?thesis
    by (simp add: wevidence_def freeze_governed_row)
qed

lemma build_w: "build_issue_draft_node (wdeps 100) wst3 (world (wstore wrow2 [we1, we2] [wbundle] [wevidence] wrs 4) sample_issue_sys) =
  (Inr wst4, world (wstore wrow2 [we1, we2] [wbundle] [wevidence] wrs 4) wsys1)"
proof -
  let ?q = "wstore wrow2 [we1, we2] [wbundle] [wevidence] wrs 4"
  have q: "qa_load_query 7 ?q = (Inr ''x'', ?q)"
    by (rule query_w) (simp add: we1_def we2_def sample_event_def)
  have st: "given (st_project_id wst3)" "given (st_access_scope_id wst3)" "UUID (st_run_id wst3) = Inr 7"
      "need_project wst3 = Inr 1" "UUID (st_user_id wst3) = Inr 5" "st_issue_candidate_id wst3 = Some (uuid_str 103)"
      "st_evidence_bundle_id wst3 = Some (uuid_str 101)" "sd_issue (wdeps 100) = (wenv 100)"
      "given (Some (uuid_str u))" for u
    by (simp_all add: wst3_def wst2_fields need_project_def given_def uuid_str_nonempty wdeps_def)
  have art: "qa_load_artifact 103 ?q = (Inr (dump_candidates (\<lambda>_. ''t'') wfound), ?q)"
    by (simp add: weval we1_def we2_def)
  have rows: "bundle_rows ''governed_evidence'' 101 ?q = [wevidence]"
    by (simp add: bundle_rows_def wstore_def wevidence_def governed_row_fields)
  have fz: "load_governed_evidence_bundle 101 ?q =
      (Inr \<lparr>fb_evidence = [frozen (\<lambda>_. ''h'') 1 102 wgoverned], fb_unresolved_conflicts = frozen_conflicts
        [frozen (\<lambda>_. ''h'') 1 102 wgoverned]\<rparr>, ?q)"
    by (simp add: load_governed_evidence_bundle_def rows freeze_w)
  have id: "fe_snapshot_id (frozen (\<lambda>_. ''h'') 1 102 wgoverned) = 102" by (simp add: frozen_def)
  have create: "create_from_text (wenv 100) 7 1 5 ''x'' (Some wfound) [uuid_str 102] sample_issue_sys = (Inr wdraft, wsys1)"
    by (simp add: Let_def create_from_text_def sample_text db_op_def on_working_def bind_op_def
        repo_create_draft_def new_draft_row_def draft_command_def IssueReplay.sample_draft_def wenv_def sample_issue_env_def
        sample_issue_sys_def begin_session_def save_candidate_links_def candidate_links_def wfound_def wdraft_def wsys1_def)
  have k: "dr_id wdraft = 100" by (simp add: wdraft_def sample_fields)
  show ?thesis
    by (simp add: build_issue_draft_node_def bind_op_def st q if_given_def art load_w fz id create on_qa_world on_sys_world k)
      (simp add: wst4_def)
qed

section \<open>Confirmation and creation\<close>

lemma wdraft_get:
  "get_draft 100 (working (is_session wsys1)) = Inr wdraft" "build_create_request wdraft = Inr sample_create_request"
  "dr_id wdraft = 100" "dr_run_id wdraft = 7" "dr_created_at wdraft = 1" "dr_project_id wdraft = 1"
proof -
  show "build_create_request wdraft = Inr sample_create_request"
    by (simp add: build_create_request_def wdraft_def IssueReplay.sample_draft_def sample_text request_description_def
        sample_create_request_def sample_first_error)
qed (simp_all add: get_draft_def wsys1_def wdraft_def sample_fields)

definition wprepared :: ConfirmationRequest where
  "wprepared = \<lparr>cf_draft_id = 100, cf_tool_name = TOOL_NAME, cf_request_id = uuid_str 100,
     cf_request_payload_hash = ''h'', cf_expires_at = 61, cf_title = ''x'', cf_description = ''x'',
     cf_issue_type = IssueType_value IT_TASK, cf_priority = IssuePriority_value MEDIUM, cf_module = None,
     cf_error_code = None, cf_environment = None, cf_evidence_ids = [uuid_str 102], cf_possible_duplicates = []\<rparr>"

definition wwaiting :: payload where
  "wwaiting = dump_confirmation (\<lambda>_. ''t'') wprepared"

lemma prepare_w:
  assumes "get_draft 100 db = Inr wdraft" and "issue_candidates db = []"
  shows "prepare_confirmation (wenv n) 100 db = Inr wprepared"
proof -
  have "dr_evidence_ids wdraft = [uuid_str 102]" by (simp add: wdraft_def)
  then show ?thesis
    using assms
    by (simp add: prepare_confirmation_def wdraft_get payload_hash_def wenv_def sample_issue_env_def list_candidate_links_def wprepared_def)
      (simp add: sample_create_request_def)
qed

lemma wst4_fields: "st_run_id wst4 = uuid_str 7" "st_user_id wst4 = uuid_str 5" "st_issue_draft_id wst4 = Some (uuid_str 100)"
  by (simp_all add: wst4_def wst3_def wst2_fields)

lemma waits_w: "confirm_issue_create_node (wdeps n) None wst4 (world q wsys1) = (Inr (Inl wwaiting), world q wsys1)"
proof -
  have c: "issue_candidates (working (is_session wsys1)) = []"
    by (simp add: wsys1_def sample_issue_sys_def begin_session_def)
  show ?thesis
    by (simp add: confirm_issue_create_node_def given_def uuid_str_nonempty wst4_fields bind_op_def on_sys_world
        wdeps_def prepare_w [OF wdraft_get(1) c] wwaiting_def)
qed

text \<open>The session after the commit of the execution, and what the resume makes of it.\<close>

definition wsys2 :: issue_sys where
  "wsys2 = wsys1\<lparr>is_session := begin_session (working (is_session wsys1))\<rparr>"

definition wreceipt :: ToolConfirmationReceipt where
  "wreceipt = sample_receipt\<lparr>rc_run_id := 7\<rparr>"

definition wdb :: issue_db where
  "wdb = (working (is_session sample_issue_sys))
     \<lparr>issue_drafts := [wdraft\<lparr>dr_status := DS_CONFIRMED, dr_updated_at := 1\<rparr>],
      tool_confirmations := [confirmation_row 1 wreceipt]\<rparr>"

definition wsys3 :: issue_sys where
  "wsys3 = wsys2\<lparr>is_session := (is_session wsys2)\<lparr>working := wdb\<rparr>\<rparr>"

definition wst5 :: AgentState where
  "wst5 = wst4\<lparr>st_tool_confirmation_id := Some (uuid_str 102), st_route := Some ''execute_issue_create'',
     st_last_error_code := None\<rparr>"

lemma decide_w: "confirm_issue_create_node (wdeps n) (Some (''confirm'', ''h'')) wst4 (world q wsys2) = (Inr (Inr wst5), world q wsys3)"
proof -
  have d: "get_draft 100 (working (is_session wsys2)) = Inr wdraft" "issue_candidates (working (is_session wsys2)) = []"
    using wdraft_get(1) by (simp_all add: wsys2_def wsys1_def sample_issue_sys_def begin_session_def)
  have a: "ConfirmationAction_of ''confirm'' = Inr CONFIRM" using ConfirmationAction_of_value [of CONFIRM] by simp
  have r: "record_decision (wenv n) 100 5 CONFIRM ''h'' wsys2 = (Inr wreceipt, wsys3)"
  proof -
    have p: "db_op (read_op (prepare_confirmation (wenv n) 100)) wsys2 = (Inr wprepared, wsys2)"
      by (simp add: prepare_w [OF d])
    have g: "cf_expires_at wprepared = 61" "cf_request_payload_hash wprepared = ''h''" "ie_now (wenv n) = 1"
        "ie_new_confirmation (wenv n) = 102"
      by (simp_all add: wprepared_def wenv_def sample_issue_env_def)
    have "record_decision (wenv n) 100 5 CONFIRM ''h'' wsys2 = store_decision (wenv n) 100 5 CONFIRM wprepared wsys2"
      by (simp add: record_decision_def bind_op_def p g del: bind_read_op db_read)
    then show ?thesis
      by (simp add: bind_op_def g store_decision_def wdraft_get save_confirmation_def
          db_op_def on_working_def to_confirmation_def confirmation_row_def set_draft_status_def get_draft_def
          wsys2_def wsys1_def wsys3_def wdb_def wreceipt_def sample_receipt_def begin_session_def sample_issue_sys_def)
  qed
  show ?thesis
    by (simp add: confirm_issue_create_node_def decide_def try_op_def given_def uuid_str_nonempty wst4_fields bind_op_def
        on_sys_world wdeps_def prepare_w [OF d] a r)
      (simp add: wst5_def wreceipt_def sample_receipt_def)
qed

lemma checked_w: "check_confirmation (wenv n) 100 102 5 wdb =
    Inr (wdraft\<lparr>dr_status := DS_CONFIRMED, dr_updated_at := 1\<rparr>, wreceipt, sample_create_request)"
proof -
  obtain ctx where a: "authorize_project 0 1 5 1 sample_docs = Inr ctx"
      "assert_can_create (sc_role_ids (cx_scope ctx)) = Inr ()"
    using sample_role by blast
  have d: "get_draft 100 wdb = Inr (wdraft\<lparr>dr_status := DS_CONFIRMED, dr_updated_at := 1\<rparr>)"
    and c: "get_confirmation 102 wdb = Inr wreceipt"
    by (simp_all add: get_draft_def get_confirmation_def wdb_def wdraft_get
        to_confirmation_def confirmation_row_def wreceipt_def sample_receipt_def)
  have b: "build_create_request (wdraft\<lparr>dr_status := DS_CONFIRMED, dr_updated_at := 1\<rparr>) = Inr sample_create_request"
    by (simp add: build_create_request_def wdraft_def IssueReplay.sample_draft_def sample_text request_description_def
        sample_create_request_def sample_first_error)
  have f: "rc_status wreceipt = TC_CONFIRMED" "rc_confirmed_by wreceipt = 5" "rc_request_payload_hash wreceipt = ''h''"
    by (simp_all add: wreceipt_def sample_fields)
  show ?thesis
    by (simp add: check_confirmation_def d c b f payload_hash_def wdraft_get wenv_def sample_issue_env_def a)
qed

lemma execution_w:
  "\<exists>s'. execute_creation (wenv n) 100 102 5 wsys3 = (Inr IssueReplay.sample_outcome, s') \<and>
     sandbox_issues (tracker (working (is_session s'))) = [sample_new_issue]"
proof -
  have w: "wsys3 = \<lparr>is_session = \<lparr>committed = working (is_session wsys1), working = wdb\<rparr>, is_idem = [], is_jobs = []\<rparr>"
    by (simp add: wsys3_def wsys2_def wsys1_def begin_session_def sample_issue_sys_def)
  have t: "tracker wdb = tracker sample_db" by (simp add: wdb_def sample_db_def)
  have d: "get_draft 100 (wdb\<lparr>tracker := t\<rparr>) = Inr (wdraft\<lparr>dr_status := DS_CONFIRMED, dr_updated_at := 1\<rparr>)" for t
    by (simp add: get_draft_def wdb_def wdraft_get)
  have e: "ie_now (wenv n) = 1" "ie_create_issue (wenv n) = create_issue 1 105 106"
      "rc_expires_at wreceipt = 61"
    by (simp_all add: wenv_def sample_issue_env_def wreceipt_def sample_fields)
  show ?thesis
    by (simp add: execute_creation_def bind_op_def db_op_def on_working_def w checked_w execute_confirmed_def
        idem_op_def idem_get_def idem_row_def idem_reserve_def Let_def to_idem_record_def sample_fields wdraft_get
        create_or_reconcile_def existing_issue_def tracker_op_def sample_no_issue try_op_def t sample_tracker_call
        complete_creation_def idem_complete_def update_rows_def set_draft_status_def d IssueReplay.sample_outcome_def
        e)
qed

definition we3 :: AgentEventModel where
  "we3 = sample_event 104 4 ''ISSUE_CREATE_RESULT'' (dump_outcome IssueReplay.sample_outcome)"

definition wst6 :: AgentState where
  "wst6 = wst5\<lparr>st_issue_creation_id := Some (uuid_str 104), st_route := Some ''issue_created'',
     st_last_error_code := None\<rparr>"

definition wq4 :: qa_db where
  "wq4 = wstore wrow2 [we1, we2] [wbundle] [wevidence] wrs 4"

definition wq5 :: qa_db where
  "wq5 = wstore wrow2 [we1, we2, we3] [wbundle] [wevidence] wrs 5"

lemma execute_w:
  "\<exists>s. execute_issue_create_node (wdeps n) wst5 (world wq4 wsys3) = (Inr wst6, world wq5 s) \<and>
     sandbox_issues (tracker (working (is_session s))) = [sample_new_issue]"
proof -
  obtain s where s: "execute_creation (wenv n) 100 102 5 wsys3 = (Inr IssueReplay.sample_outcome, s)"
      "sandbox_issues (tracker (working (is_session s))) = [sample_new_issue]"
    using execution_w by blast
  have save: "qa_save_artifact 7 ''ISSUE_CREATE_RESULT'' (dump_outcome IssueReplay.sample_outcome) wq4 = (Inr 104, wq5)"
    by (simp add: wq4_def wq5_def weval wrow_def wrow2_def new_run_row_def we1_def we2_def we3_def)
  have st: "given (st_issue_draft_id wst5)" "given (st_tool_confirmation_id wst5)" "the (st_issue_draft_id wst5) = uuid_str 100"
      "the (st_tool_confirmation_id wst5) = uuid_str 102" "st_user_id wst5 = uuid_str 5" "st_run_id wst5 = uuid_str 7"
      "sd_issue (wdeps n) = wenv n"
    by (simp_all add: wst5_def wst4_fields given_def uuid_str_nonempty wdeps_def)
  have c: "oc_status IssueReplay.sample_outcome \<noteq> PENDING_RECONCILIATION" by (simp add: IssueReplay.sample_outcome_def)
  have "execute_issue_create_node (wdeps n) wst5 (world wq4 wsys3) = (Inr wst6, world wq5 s)"
    by (simp add: execute_issue_create_node_def bind_op_def try_op_def st on_sys_world on_qa_world s(1) save c)
      (simp add: wst6_def)
  then show ?thesis using s(2) by blast
qed

section \<open>The two invocations\<close>

definition winv :: "uuid \<Rightarrow> invocation" where
  "winv n = \<lparr>iv_deps = (\<lambda>_. wdeps n), iv_binds = True, iv_idle = (\<lambda>_. Inl (RuntimeError [])), iv_commit_ok = True\<rparr>"

definition wpayload :: payload where
  "wpayload = [(''action'', JStr ''confirm''), (''request_payload_hash'', JStr ''h'')]"

definition wworld0 :: issue_world where
  "wworld0 = world (wstore wrow [] [] [] [] 0) sample_issue_sys"

abbreviation wck0 :: checkpoint where
  "wck0 \<equiv> \<lparr>ck_state = empty_state, ck_pending = None\<rparr>"

abbreviation wck4 :: checkpoint where
  "wck4 \<equiv> \<lparr>ck_state = wst4, ck_pending = Some I_CONFIRM\<rparr>"

lemma open_w: "open_world (world q sample_issue_sys) = world q sample_issue_sys" "open_world (world q wsys2) = world q wsys2"
  by (simp_all add: open_world_def world_def sample_issue_sys_def wsys2_def begin_session_def)

lemma bind_w: "bind_authorized_knowledge_spaces (winv n) wrun = Inr ()"
  using authorize_w
  by (simp add: bind_authorized_knowledge_spaces_def winv_def wrun_def sample_qa_run_def wdeps_def sample_deps_def Let_def)

lemma first_w: "invoke_issue (winv 100) wrun None wck0 wworld0 = (Inr (waiting_outcome_of wwaiting), wck4, world wq4 wsys2)"
proof -
  have e: "graph_edges (rr_business_mode wrun) = Some create_next" by (simp add: wrun_def graph_edges_def)
  have d: "iv_deps (winv 100) = (\<lambda>_. wdeps 100)" "iv_commit_ok (winv 100)" by (simp_all add: winv_def)
  have r: "st_route wst2 = Some ''issue_evidence_ready''" by (simp add: wst2_def)
  have "run_issue RECURSION_LIMIT create_next (\<lambda>_. wdeps 100) 1 None I_SCOPE wst0 wworld0 =
      Some (Inr (Inl wwaiting), wck4, world wq4 wsys1)"
    by (simp add: run_issue_step RECURSION_LIMIT_def wworld0_def plain_node_def bind_op_def on_qa_world scope_w
        evidence_w [unfolded One_nat_def] after_issue_evidence_def r wrs_def [symmetric] search_w [folded wq4_def] build_w [folded wq4_def] waits_w)
  then have "graph_execute (winv 100) wrun wck0 wworld0 = (Inr (waiting_outcome_of wwaiting), wck4, world wq4 wsys1)"
    by (simp add: graph_execute_def e d project_result_def)
  moreover have "world wq4 wsys1\<lparr>iw_sys := wsys1\<lparr>is_session := commit (is_session wsys1)\<rparr>\<rparr> = world wq4 wsys2"
    by (simp add: world_def wsys2_def wsys1_def commit_def begin_session_def sample_issue_sys_def)
  moreover have "iw_sys (world wq4 wsys1) = wsys1" by (simp add: world_def)
  moreover have "open_world wworld0 = wworld0" by (simp add: wworld0_def open_w)
  ultimately show ?thesis
    by (simp add: invoke_issue_def bind_w close_world_def d)
qed

lemma second_w:
  "\<exists>w. invoke_issue (winv 200) wrun (Some wpayload) wck4 (world wq4 wsys2) =
       (Inr (project_state wst6), \<lparr>ck_state = wst6, ck_pending = None\<rparr>, w) \<and>
     sandbox_issues (tracker (committed (is_session (iw_sys w)))) = [sample_new_issue]"
proof -
  have e: "graph_edges (rr_business_mode wrun) = Some create_next" "in_graph (rr_business_mode wrun) I_CONFIRM"
    by (simp_all add: wrun_def graph_edges_def)
  have d: "iv_deps (winv 200) = (\<lambda>_. wdeps 200)" "iv_commit_ok (winv 200)" by (simp_all add: winv_def)
  have p: "resume_value_of wpayload = Inr (''confirm'', ''h'')" by (simp add: resume_value_of_def wpayload_def)
  have r: "st_route wst5 = Some ''execute_issue_create''" by (simp add: wst5_def)
  obtain s where s: "execute_issue_create_node (wdeps 200) wst5 (world wq4 wsys3) = (Inr wst6, world wq5 s)"
      "sandbox_issues (tracker (working (is_session s))) = [sample_new_issue]"
    using execute_w by blast
  have "run_issue RECURSION_LIMIT create_next (\<lambda>_. wdeps 200) 1 (Some (''confirm'', ''h'')) I_CONFIRM wst4 (world wq4 wsys2) =
      Some (Inr (Inr wst6), \<lparr>ck_state = wst6, ck_pending = None\<rparr>, world wq5 s)"
    by (simp add: run_issue_step RECURSION_LIMIT_def decide_w after_confirmation_def r plain_node_def bind_op_def s(1))
  then have g: "graph_resume (winv 200) wrun wpayload wck4 (world wq4 wsys2) =
      (Inr (project_state wst6), \<lparr>ck_state = wst6, ck_pending = None\<rparr>, world wq5 s)"
    by (simp add: graph_resume_def e d p project_result_def)
  then show ?thesis
    using s(2) by (simp add: invoke_issue_def bind_w open_w close_world_def d Let_def) (simp add: world_def)
qed

section \<open>The history and the witnesses\<close>

definition wsystem0 :: graph_sys where
  "wsystem0 = \<lparr>gs_world = wworld0, gs_threads = (\<lambda>_. wck0)\<rparr>"

abbreviation wfirst :: graph_event where
  "wfirst \<equiv> Invoke (winv 100) wrun None"

abbreviation wsecond :: graph_event where
  "wsecond \<equiv> Invoke (winv 200) wrun (Some wpayload)"

definition wsystem1 :: graph_sys where
  "wsystem1 = apply_event wfirst wsystem0"

definition wsystem2 :: graph_sys where
  "wsystem2 = apply_event wsecond wsystem1"

lemma env_ok_w: "env_ok (\<lambda>_. ''h'') (wenv n)"
  using sample_env_ok by (simp add: env_ok_def wenv_def)

lemma history_w: "graph_run (\<lambda>_. ''h'') (([] @ [wfirst]) @ [wsecond]) wsystem2"
proof -
  have "graph_run (\<lambda>_. ''h'') [] wsystem0"
    by (rule graph_start) (simp_all add: wsystem0_def wworld0_def world_def issue_start_def sample_issue_sys_def begin_session_def)
  moreover have "event_ok (\<lambda>_. ''h'') [] wfirst"
    by (simp add: event_ok_def winv_def wdeps_def env_ok_w)
  moreover have "event_ok (\<lambda>_. ''h'') ([] @ [wfirst]) wsecond"
    using env_ok_w [of 200] by (simp add: event_ok_def winv_def wdeps_def wenv_def)
  ultimately show ?thesis
    unfolding wsystem2_def wsystem1_def by (intro graph_step)
qed

lemma system1_w: "wsystem1 = \<lparr>gs_world = world wq4 wsys2, gs_threads = (\<lambda>_. wck0)(8 := wck4)\<rparr>"
  using first_w by (simp add: wsystem1_def wsystem0_def wrun_def sample_qa_run_def)

lemma issues_w: "sandbox_issues (tracker (committed (is_session (iw_sys (gs_world wsystem2))))) = [sample_new_issue]"
proof -
  have "rr_thread_id wrun = 8" by (simp add: wrun_def sample_qa_run_def)
  then show ?thesis using second_w by (auto simp: wsystem2_def system1_w)
qed

theorem issue_graph_refines_calls_witness:
  "\<exists>tr. issue_run (\<lambda>_. ''h'') tr (iw_sys (gs_world wsystem2)) \<and> tr \<noteq> []"
proof -
  obtain tr where tr: "issue_run (\<lambda>_. ''h'') tr (iw_sys (gs_world wsystem2))"
    using issue_graph_refines_calls [OF history_w] by blast
  have "tr \<noteq> []"
  proof
    assume "tr = []"
    then have "issue_start (iw_sys (gs_world wsystem2))" using tr by (auto elim: issue_run.cases)
    then show False using issues_w by (simp add: issue_start_def sample_new_issue_def new_issue_row_def sample_fields)
  qed
  then show ?thesis using tr by blast
qed

theorem graph_issue_needs_resume_witness:
  "\<exists>q a. made_for q sample_new_issue \<and> xr_request_id q = uuid_str 100 \<and>
     started [wfirst, wsecond] (rr_thread_id wrun) a \<and>
     (\<exists>k ctx project. authorize_project (ie_pick (sd_issue (iv_deps (winv 200) k))) 1 a project sample_docs = Inr ctx)"
proof -
  have i: "sample_new_issue \<in> set (sandbox_issues (tracker (committed (is_session (iw_sys (gs_world wsystem2))))))"
    by (simp add: issues_w)
  have r: "si_client_request_id sample_new_issue = Some (uuid_str 100)"
    by (simp add: sample_new_issue_def new_issue_row_def sample_fields)
  obtain q a iv' run' p' k ctx project where *: "made_for q sample_new_issue" "xr_request_id q = uuid_str 100"
      "Invoke iv' run' (Some p') \<in> set (([] @ [wfirst]) @ [wsecond])"
      "started (([] @ [wfirst]) @ [wsecond]) (rr_thread_id run') a"
      "authorize_project (ie_pick (sd_issue (iv_deps iv' k))) (ie_now (sd_issue (iv_deps iv' k))) a project
        (ie_gov (sd_issue (iv_deps iv' k))) = Inr ctx"
    using graph_issue_needs_resume [OF history_w i r] by blast
  then have "iv' = winv 200" "run' = wrun" by auto
  moreover have "ie_now (sd_issue (iv_deps (winv 200) k)) = 1" "ie_gov (sd_issue (iv_deps (winv 200) k)) = sample_docs" for k
    by (simp_all add: winv_def wdeps_def wenv_def sample_issue_env_def)
  moreover have "started [wfirst, wsecond] (rr_thread_id run') a" using *(4) by simp
  ultimately show ?thesis using *(1,2,5) by (metis (no_types, lifting))
qed

theorem issue_execution_waits_witness:
  "\<exists>d. issue_drafts (committed (is_session wsys2)) = [d] \<and> drafted_for wrun d \<and>
     waits (wenv 100) d (waiting_outcome_of wwaiting)"
proof -
  have w: "iw_sys wworld0 = sample_issue_sys" "iw_sys (world wq4 wsys2) = wsys2"
    by (simp_all add: wworld0_def world_def)
  have none: "issue_drafts (committed (is_session sample_issue_sys)) = []"
    by (simp add: sample_issue_sys_def begin_session_def)
  have k: "ro_kind (waiting_outcome_of wwaiting) = OUT_WAITING_CONFIRMATION" by (simp add: waiting_outcome_of_def)
  have env: "sd_issue (iv_deps (winv 100) j) = wenv 100" for j by (simp add: winv_def wdeps_def)
  show ?thesis
    using issue_execution_waits [OF first_w] unfolding Let_def w none sum.case env
    by (auto simp: k)
qed

end
