(* ===== verification/IssueRetry.thy ===== *)
theory IssueRetry
  imports IssueExecution IssueReplay
begin

text \<open>
  A resume that confirms a draft and then fails in the execution node: its session is rolled back, with the
  confirmation in it, while the checkpoint of the thread has moved on. The retry of the job runs the execution
  node against a confirmation that is no longer there.
\<close>

section \<open>A confirmation in a session\<close>

lemma keeps_committed_decision: "keeps (committed_is db) (record_decision env k a act h)"
proof -
  have store: "keeps (committed_is db) (store_decision env k a act p)" for p
    unfolding store_decision_def Let_def by (intro keeps_bind keeps_committed_ops triple_return)
  show ?thesis
    unfolding record_decision_def by (intro keeps_bind keeps_committed_ops triple_if triple_raise store)
qed

text \<open>No confirmation of this content is stored yet.\<close>

definition unconfirmed :: "string \<Rightarrow> issue_db \<Rightarrow> bool" where
  "unconfirmed h db \<longleftrightarrow> (\<forall>m\<in>set (tool_confirmations db). tc_request_payload_hash m \<noteq> h)"

lemma decision_new:
  assumes "record_decision env k a act h s = (Inr receipt, s')" and "unconfirmed h (working (is_session s))"
  shows "row_by tc_id (rc_id receipt) (tool_confirmations (working (is_session s))) = None \<and>
     (\<exists>d. get_draft k (working (is_session s)) = Inr d)"
proof -
  let ?db = "working (is_session s)"
  obtain prepared where p: "prepare_confirmation env k ?db = Inr prepared" "h = cf_request_payload_hash prepared"
      "store_decision env k a act prepared s = (Inr receipt, s')"
    using assms(1) unfolding record_decision_def by (auto simp: bind_op_Inr_iff split: if_splits)
  obtain d where d: "get_draft k ?db = Inr d" using p(1) by (auto simp: prepare_confirmation_def bind_res_Inr_iff)
  define r where "r = \<lparr>rc_id = ie_new_confirmation env, rc_run_id = dr_run_id d, rc_tool_name = TOOL_NAME,
    rc_request_payload_hash = h, rc_status = (case act of CONFIRM \<Rightarrow> TC_CONFIRMED | CANCEL \<Rightarrow> TC_CANCELLED),
    rc_confirmed_by = a, rc_confirmed_at = ie_now env, rc_expires_at = cf_expires_at prepared\<rparr>"
  obtain t where save: "save_confirmation (ie_now env) r ?db = (Inr receipt, t)"
    using p d unfolding store_decision_def Let_def r_def by (auto simp: bind_op_Inr_iff db_op_iff)
  have "filter (same_decision r) (tool_confirmations ?db) = []"
    using assms(2) by (auto simp: unconfirmed_def filter_empty_conv same_decision_def r_def)
  then have "receipt = r" "row_by tc_id (rc_id r) (tool_confirmations ?db) = None"
    using save by (auto simp: save_confirmation_def to_confirmation_def confirmation_row_def row_by_None_iff split: if_splits)
  then show ?thesis using d by blast
qed

section \<open>The lost confirmation\<close>

text \<open>A node that ran on a world with this session.\<close>

abbreviation db_of :: "issue_world \<Rightarrow> issue_db" where
  "db_of w \<equiv> committed (is_session (iw_sys w))"

lemma confirm_then_execute:
  assumes "confirm_issue_create_node d (Some v) st w = (Inr (Inr st'), w')"
    and "st_route st' = Some ''execute_issue_create''"
    and "unconfirmed (snd v) (working (is_session (iw_sys w)))"
  obtains k a cid draft where "st_issue_draft_id st' = st_issue_draft_id st" "given (st_issue_draft_id st)"
    "UUID (the (st_issue_draft_id st)) = Inr k" "UUID (st_user_id st') = Inr a"
    "st_tool_confirmation_id st' = Some (uuid_str cid)" "get_draft k (working (is_session (iw_sys w))) = Inr draft"
    "row_by tc_id cid (tool_confirmations (working (is_session (iw_sys w)))) = None"
    "db_of w' = db_of w"
proof -
  have g: "given (st_issue_draft_id st)"
    using assms(1,2) by (auto simp: confirm_issue_create_node_def split: if_splits)
  obtain k where k: "UUID (the (st_issue_draft_id st)) = Inr k" "decide d k v st w = (Inr st', w')"
    using assms(1) g by (auto simp: confirm_issue_create_node_def bind_op_Inr_iff on_sys_def split: prod.splits)
  obtain action where act: "ConfirmationAction_of (fst v) = Inr action"
    using k(2) assms(2) by (auto simp: decide_def split: sum.splits)
  obtain a where a: "UUID (st_user_id st) = Inr a" using k(2) by (auto simp: decide_def act bind_op_Inr_iff)
  obtain r s where r: "on_sys (record_decision (sd_issue d) k a action (snd v)) w = (r, s)" by fastforce
  obtain receipt where rec: "r = Inr receipt" "s = w'"
      "st' = st\<lparr>st_tool_confirmation_id := Some (uuid_str (rc_id receipt)),
         st_route := Some (case action of CANCEL \<Rightarrow> ''cancelled'' | CONFIRM \<Rightarrow> ''execute_issue_create''),
         st_last_error_code := None\<rparr>"
    using k(2) assms(2) r by (cases r) (auto simp: decide_def act a try_op_def split: if_splits)
  have dec: "record_decision (sd_issue d) k a action (snd v) (iw_sys w) = (Inr receipt, iw_sys w')"
    using r rec(1,2) by (auto simp: on_sys_def split: prod.splits)
  have "db_of w' = db_of w"
    using triple_Inr [OF keeps_committed_decision [of "db_of w"] _ dec] by simp
  then show thesis
    using that [of k a "rc_id receipt"] decision_new [OF dec assms(3)] g k(1) a rec(3) by auto
qed

lemma execute_without_confirmation:
  assumes "given (st_issue_draft_id st)" "UUID (the (st_issue_draft_id st)) = Inr k"
    and "st_tool_confirmation_id st = Some (uuid_str cid)" and "UUID (st_user_id st) = Inr a"
    and "get_draft k (working (is_session (iw_sys w))) = Inr draft"
    and "row_by tc_id cid (tool_confirmations (working (is_session (iw_sys w)))) = None"
  shows "execute_issue_create_node d st w = (Inr (refuse_with ''IssueCreationDenied'' st), w)"
  using assms
  by (simp add: execute_issue_create_node_def given_def uuid_str_not_empty try_op_def on_sys_def execute_creation_def
      check_confirmation_def get_confirmation_def bind_op_def)

lemma resume_reaches_execution:
  assumes "run_issue RECURSION_LIMIT create_next deps k (Some v) I_CONFIRM st w = Some (r, c, w')"
    and "ck_pending c = Some I_EXECUTE"
  obtains st' u e where "confirm_issue_create_node (deps k) (Some v) st w = (Inr (Inr st'), u)"
    "st_route st' = Some ''execute_issue_create''" "ck_state c = st'" "r = Inl e"
    "execute_issue_create_node (deps (Suc k)) st' u = (Inl e, w')"
proof -
  obtain q u where op: "confirm_issue_create_node (deps k) (Some v) st w = (q, u)" by fastforce
  obtain st' where st': "q = Inr (Inr st')" "st_route st' = Some ''execute_issue_create''"
    using assms op
    by (auto simp: run_issue_step RECURSION_LIMIT_def after_confirmation_def split: sum.splits if_splits prod.splits)
  obtain q' u' where op': "execute_issue_create_node (deps (Suc k)) st' u = (q', u')" by fastforce
  have "\<exists>e. q' = Inl e \<and> r = Inl e \<and> c = \<lparr>ck_state = st', ck_pending = Some I_EXECUTE\<rparr> \<and> w' = u'"
    using assms op st' op'
    by (cases q') (auto simp: run_issue_step RECURSION_LIMIT_def after_confirmation_def plain_node_def bind_op_def)
  then show thesis using that op st' op' by auto
qed

lemma db_of_execution: "execute_issue_create_node d st u = (r, w) \<Longrightarrow> db_of w = db_of u"
proof -
  assume run: "execute_issue_create_node d st u = (r, w)"
  obtain cs where cs: "iw_sys w = fold run_call cs (iw_sys u)" "\<forall>c\<in>set cs. node_call I_EXECUTE d None st c"
    using execute_calls [of d None st] run unfolding calls_def by (metis snd_conv)
  have "committed (is_session (run_call c s)) = committed (is_session s)" if n: "node_call I_EXECUTE d None st c" for c s
  proof -
    obtain k cid a where "c = CallExecute (sd_issue d) k cid a" using n by (cases c) auto
    then show ?thesis using keeps_snd [OF keeps_committed_execute [of "committed (is_session s)"]] by auto
  qed
  then have "committed (is_session (fold run_call cs s)) = committed (is_session s)" for s
    using cs(2) by (induction cs arbitrary: s) auto
  then show ?thesis using cs(1) by simp
qed

lemma open_db: "working (is_session (iw_sys (open_world w))) = db_of w" "db_of (open_world w) = db_of w"
  by (simp_all add: open_world_def)

text \<open>C11: a confirmed creation whose execution raises is lost. The confirmation is rolled back with the session,
  but the checkpoint has passed it; from then on, every resume of the run, the retries of the job included,
  that gets as far as the graph is refused, without a call of the tracker and whatever it sends.\<close>

theorem lost_confirmation_refused:
  assumes first: "invoke_issue iv run (Some p) saved w = (Inl e, c, w')"
    and pending: "ck_pending saved = Some I_CONFIRM" "ck_pending c = Some I_EXECUTE"
    and hash: "resume_value_of p = Inr v" "unconfirmed (snd v) (db_of w)"
    and again: "resume_value_of p' = Inr v'" "bind_authorized_knowledge_spaces iv' run = Inr ()" "iv_commit_ok iv'"
  shows "db_of w' = db_of w \<and>
     (\<exists>c' w''. invoke_issue iv' run (Some p') c w' =
        (Inr (refused_outcome (st_answer_id (ck_state c)) (Some ''IssueCreationDenied'')), c', w'') \<and>
        db_of w'' = db_of w \<and> is_idem (iw_sys w'') = is_idem (iw_sys w') \<and> is_jobs (iw_sys w'') = is_jobs (iw_sys w'))"
proof -
  let ?w0 = "open_world w" and ?w0' = "open_world w'"
  have changed: "c \<noteq> saved" using pending by auto
  obtain r0 w1 where body: "graph_resume iv run p saved ?w0 = (r0, c, w1)"
      and close: "close_world (iv_commit_ok iv) ?w0 (r0, c, w1) = (Inl e, c, w')"
    using first changed
    by (auto simp: invoke_issue_def Let_def close_world_def split: sum.splits if_splits prod.splits)
  have mode: "rr_business_mode run = ISSUE_CREATE"
    using body changed pending(1) hash(1)
    by (cases "rr_business_mode run") (auto simp: graph_resume_def graph_edges_def split: sum.splits)
  obtain r1 where run: "run_issue RECURSION_LIMIT create_next (iv_deps iv) 1 (Some v) I_CONFIRM (ck_state saved) ?w0
      = Some (r1, c, w1)"
    using body changed mode pending(1) hash(1)
    by (auto simp: graph_resume_def graph_edges_def split: option.splits sum.splits prod.splits)
  obtain st' u e1 where st': "confirm_issue_create_node (iv_deps iv 1) (Some v) (ck_state saved) ?w0 = (Inr (Inr st'), u)"
      "st_route st' = Some ''execute_issue_create''" "ck_state c = st'" "r1 = Inl e1"
      "execute_issue_create_node (iv_deps iv (Suc 1)) st' u = (Inl e1, w1)"
    by (rule resume_reaches_execution [OF run pending(2)])
  have un: "unconfirmed (snd v) (working (is_session (iw_sys ?w0)))" using hash(2) by (simp add: open_db)
  obtain k a cid draft where f: "st_issue_draft_id st' = st_issue_draft_id (ck_state saved)"
      "given (st_issue_draft_id (ck_state saved))" "UUID (the (st_issue_draft_id (ck_state saved))) = Inr k"
      "UUID (st_user_id st') = Inr a" "st_tool_confirmation_id st' = Some (uuid_str cid)"
      "get_draft k (db_of w) = Inr draft" "row_by tc_id cid (tool_confirmations (db_of w)) = None" "db_of u = db_of w"
    using confirm_then_execute [OF st'(1,2) un] by (metis open_db)
  have kept: "db_of w' = db_of w"
    using close db_of_execution [OF st'(5)] f(8)
    by (auto simp: close_world_def roll_world_def split: sum.splits if_splits)
  have "execute_issue_create_node (iv_deps iv' 1) st' ?w0' = (Inr (refuse_with ''IssueCreationDenied'' st'), ?w0')"
    using f kept by (intro execute_without_confirmation) (simp_all add: open_db)
  then have "run_issue RECURSION_LIMIT create_next (iv_deps iv') 1 (Some v') I_EXECUTE st' ?w0' =
      Some (Inr (Inr (refuse_with ''IssueCreationDenied'' st')),
        \<lparr>ck_state = refuse_with ''IssueCreationDenied'' st', ck_pending = None\<rparr>, ?w0')"
    by (simp add: run_issue_step RECURSION_LIMIT_def plain_node_def bind_op_def)
  then have "graph_resume iv' run p' c ?w0' = (Inr (refused_outcome (st_answer_id st') (Some ''IssueCreationDenied'')),
        \<lparr>ck_state = refuse_with ''IssueCreationDenied'' st', ck_pending = None\<rparr>, ?w0')"
    using mode again(1) pending(2) st'(3)
    by (simp add: graph_resume_def graph_edges_def project_result_def project_state_def refuse_with_def)
  then have "invoke_issue iv' run (Some p') c w' = (Inr (refused_outcome (st_answer_id st') (Some ''IssueCreationDenied'')),
        \<lparr>ck_state = refuse_with ''IssueCreationDenied'' st', ck_pending = None\<rparr>,
        ?w0'\<lparr>iw_sys := (iw_sys ?w0')\<lparr>is_session := commit (is_session (iw_sys ?w0'))\<rparr>\<rparr>)"
    using again(2,3) by (simp add: invoke_issue_def close_world_def Let_def)
  then show ?thesis using kept st'(3) by (auto simp: open_db open_world_def)
qed

end
