(* ===== verification/IssueRetryWitness.thy ===== *)
theory IssueRetryWitness
  imports IssueWitness IssueRetry
begin

text \<open>
  The lost confirmation on the sample run: the resume executes the confirmed creation, and the store refuses
  the result event (its run row is gone), so the session is rolled back.
\<close>

definition wq_gone :: qa_db where
  "wq_gone = wq4\<lparr>qb_runs := (qb_runs wq4)\<lparr>runs := []\<rparr>\<rparr>"

abbreviation wck5 :: checkpoint where
  "wck5 \<equiv> \<lparr>ck_state = wst5, ck_pending = Some I_EXECUTE\<rparr>"

lemma save_gone: "\<exists>q. qa_save_artifact 7 ''ISSUE_CREATE_RESULT'' a wq_gone = (Inl (LookupError (uuid_str 7)), q)"
  by (simp add: wq_gone_def wq4_def weval wrow_def wrow2_def new_run_row_def we1_def we2_def)

lemma execute_gone:
  "\<exists>w. execute_issue_create_node (wdeps n) wst5 (world wq_gone wsys3) = (Inl (LookupError (uuid_str 7)), w)"
proof -
  obtain s where s: "execute_creation (wenv n) 100 102 5 wsys3 = (Inr IssueReplay.sample_outcome, s)"
    using execution_w by blast
  obtain q where save: "qa_save_artifact 7 ''ISSUE_CREATE_RESULT'' (dump_outcome IssueReplay.sample_outcome) wq_gone =
      (Inl (LookupError (uuid_str 7)), q)"
    using save_gone by blast
  have st: "given (st_issue_draft_id wst5)" "given (st_tool_confirmation_id wst5)" "the (st_issue_draft_id wst5) = uuid_str 100"
      "the (st_tool_confirmation_id wst5) = uuid_str 102" "st_user_id wst5 = uuid_str 5" "st_run_id wst5 = uuid_str 7"
      "sd_issue (wdeps n) = wenv n"
    by (simp_all add: wst5_def wst4_fields given_def uuid_str_nonempty wdeps_def)
  show ?thesis
    by (simp add: execute_issue_create_node_def bind_op_def try_op_def st on_sys_world on_qa_world s(1) save)
qed

lemma first_gone:
  "\<exists>w. invoke_issue (winv 200) wrun (Some wpayload) wck4 (world wq_gone wsys2) =
     (Inl (LookupError (uuid_str 7)), wck5, w)"
proof -
  have e: "graph_edges (rr_business_mode wrun) = Some create_next" "in_graph (rr_business_mode wrun) I_CONFIRM"
    by (simp_all add: wrun_def graph_edges_def)
  have d: "iv_deps (winv 200) = (\<lambda>_. wdeps 200)" "iv_commit_ok (winv 200)" by (simp_all add: winv_def)
  have p: "resume_value_of wpayload = Inr (''confirm'', ''h'')" by (simp add: resume_value_of_def wpayload_def)
  have r: "st_route wst5 = Some ''execute_issue_create''" by (simp add: wst5_def)
  obtain w where w: "execute_issue_create_node (wdeps 200) wst5 (world wq_gone wsys3) = (Inl (LookupError (uuid_str 7)), w)"
    using execute_gone by blast
  have "run_issue RECURSION_LIMIT create_next (\<lambda>_. wdeps 200) 1 (Some (''confirm'', ''h'')) I_CONFIRM wst4
      (world wq_gone wsys2) = Some (Inl (LookupError (uuid_str 7)), wck5, w)"
    by (simp add: run_issue_step RECURSION_LIMIT_def decide_w after_confirmation_def r plain_node_def bind_op_def w)
  then have "graph_resume (winv 200) wrun wpayload wck4 (world wq_gone wsys2) = (Inl (LookupError (uuid_str 7)), wck5, w)"
    by (simp add: graph_resume_def e d p)
  then show ?thesis
    by (simp add: invoke_issue_def bind_w open_w close_world_def d Let_def)
qed

theorem lost_confirmation_refused_witness:
  "\<exists>w'. invoke_issue (winv 200) wrun (Some wpayload) wck4 (world wq_gone wsys2) =
       (Inl (LookupError (uuid_str 7)), wck5, w') \<and>
     (\<exists>c' w''. invoke_issue (winv 200) wrun (Some wpayload) wck5 w' =
        (Inr (refused_outcome (st_answer_id wst5) (Some ''IssueCreationDenied'')), c', w''))"
proof -
  obtain w' where first: "invoke_issue (winv 200) wrun (Some wpayload) wck4 (world wq_gone wsys2) =
       (Inl (LookupError (uuid_str 7)), wck5, w')"
    using first_gone by blast
  have p: "resume_value_of wpayload = Inr (''confirm'', ''h'')" by (simp add: resume_value_of_def wpayload_def)
  have u: "unconfirmed (snd (''confirm'', ''h'')) (committed (is_session (iw_sys (world wq_gone wsys2))))"
    by (simp add: unconfirmed_def world_def wsys2_def wsys1_def begin_session_def sample_issue_sys_def)
  have c: "iv_commit_ok (winv 200)" by (simp add: winv_def)
  show ?thesis
    using first lost_confirmation_refused [OF first _ _ p u p bind_w c] by auto
qed

end
