(* ===== verification/Spec2Isabelle.thy ===== *)
theory Spec2Isabelle
  imports WorkerProofs PublicationWitness EvidenceProofs Citation QAThreads IssueRetryWitness
begin

text \<open>
  A verification development for the project knowledge agent (\<open>src/src/project_agent\<close>).

  \<^bold>\<open>The program.\<close> Members of a project upload documents to a HTTP API; the versions of a document are reviewed,
  approved, published to an external knowledge provider (RAGFlow) and deleted again. A user asks a question by
  creating a run of a thread: the API writes the run, its first event and a background job in one transaction. A
  worker process claims jobs from a PostgreSQL queue with leases and executes a run as a LangGraph graph: the
  question-answering graph retrieves from the provider, grades and governs the evidence, asks a language model for
  a draft and lets a citation guard decide whether the answer is stored; the issue graphs look for duplicates or draft
  an issue, stop for a confirmation by the user, and create the issue in a project tracker when the run is
  resumed with it. The events of a run are streamed to the client. Everything is held in PostgreSQL except the
  bytes of the documents, which are in an object store on the local file system, and the index of the provider.

  \<^bold>\<open>Conventions.\<close> Operations raise by returning \<open>Inl\<close> of an exception of \<open>Prelude\<close>'s type \<open>exn\<close>, which names
  the Python class and, where the program looks at it, its content. A repository is a record of tables, a table a list
  of records in the order of insertion; an operation on it is \<open>op\<close>, from a session to a result and a session.
  \<open>session\<close> has the committed tables and the working copy, and \<open>with_session\<close> and \<open>transactional\<close> are the
  program's commits and rollbacks. What a transaction reads more than once is read from the working copy: isolation
  between concurrent transactions is PostgreSQL's, and a history interleaves whole transactions, except where
  the program commits in between (the idempotency record of an issue, the job queue), which are separate parts of
  the state. Text is \<open>string\<close>; the characters are ASCII, or the bytes of UTF-8 where a theory says so. Scores and other
  floats are exact rationals. Integers of Python are \<open>int\<close> or \<open>nat\<close>, unbounded as they are there. Times are numbers of
  seconds.

  \<^bold>\<open>The theories and the code.\<close> (paths below \<open>src/src/project_agent\<close>)

  \<^item> \<open>Prelude\<close>: exceptions, results, sessions, operations, tables, \<open>dict.fromkeys\<close>, sorted sets; \<open>PyStr\<close>: string methods,
    UUIDs and decimal numbers; \<open>Regex\<close>: the backtracking matcher of \<open>re\<close>; \<open>OpHoare\<close>: a Hoare calculus for operations.
  \<^item> \<open>Domain\<close>: \<open>domain/enums.py\<close>, \<open>domain/projects.py\<close> and the lifecycle table of \<open>domain/documents.py\<close>.
  \<^item> \<open>Documents\<close>, \<open>DocumentProofs\<close>: the tables and repository of documents and the use cases of
    \<open>application/use_cases\<close>. Each request is a short sequence of effects, from which follow the invariant
    \<open>docs_ok\<close>, that a published version was approved by the owner, that content never changes, and the atomic switch
    from the superseded to the new version.
  \<^item> \<open>Authorization\<close>: membership and publication queries, \<open>application/services/authorization.py\<close> and
    \<open>document_access.py\<close>, \<open>agent/policies/access.py\<close>, \<open>agent/nodes/select_project.py\<close>; retrieval stays in the
    newest published versions of the user's project.
  \<^item> \<open>DocumentApi\<close>, \<open>DocumentApiProofs\<close>: the routes of \<open>api/v1/documents.py\<close> with the identity and the session of
    \<open>api/dependencies.py\<close>. A request changes rows only for a user whose token is signed and in force, who is an
    active member of the project of those rows in a role for the operation. \<open>Publication\<close>, \<open>PublicationWitness\<close>: through
    API, object store and provider adapter, the bytes that a publication sends are those that were uploaded.
  \<^item> \<open>JobQueue\<close>: \<open>infrastructure/jobs/postgres.py\<close> with the step relation \<open>queue_step\<close>; \<open>Runs\<close>, \<open>RunProofs\<close>,
    \<open>RunHandlers\<close>: threads, runs, events (\<open>infrastructure/db/repositories/runs.py\<close>), the services
    \<open>application/services/runs.py\<close> and \<open>run_execution.py\<close>, the handlers of \<open>workers/run_execution.py\<close> and the stream
    of \<open>api/v1/runs.py\<close>. The status of a run is a function of its log (\<open>status_of_event\<close>, a refinement); \<open>Workers\<close>,
    \<open>WorkerProofs\<close>: the worker loop (claiming a batch, heartbeats, settling a job, closing its task, with faults
    of the database at each of them), the handlers' registry, the reaper, the retention sweep and the token buckets
    (\<open>workers\<close>), interleaved by \<open>worker_step\<close>.
  \<^item> \<open>Identifiers\<close>: \<open>domain/identifiers.py\<close>, extraction, registry and resolution. \<open>Tracker\<close>: the sandbox tracker
    with its \<open>LIKE\<close> search, and duplicate candidates.
  \<^item> \<open>Evidence\<close>, \<open>EvidenceProofs\<close>, \<open>Citation\<close>: \<open>domain/evidence.py\<close>, the governance of retrieved chunks, the evidence of
    issues, the citation guard, which is equivalent to a declarative definition.
  \<^item> \<open>Codec\<close>, \<open>QAStore\<close>, \<open>QATexts\<close>, \<open>QAGraph\<close>: the artifacts as JSON, the store of the graph with usage, snapshots,
    answers and citations, the texts and prompts, and the question-answering graph with all its nodes and edges
    (\<open>agent\<close>) and its executor (\<open>workers/run_graph.py\<close>, \<open>runtime/qa.py\<close>). \<open>QATermination\<close>: the graph ends;
    \<open>QAProofs\<close>, \<open>QASafety\<close>, \<open>QAAnswers\<close>: the invariant of the node that comes next and the theorems on whole runs;
    \<open>QAEvidence\<close>: stored evidence loads back; \<open>QAThreads\<close>: the runs of one thread share its counters;
    \<open>QAWitness\<close>: one run evaluated on concrete tables.
  \<^item> \<open>Issues\<close>, \<open>IssueProofs\<close>, \<open>IssueReplay\<close>: drafts, confirmations, idempotent creation and reconciliation
    (\<open>application/services/issue_*.py\<close>, \<open>infrastructure/db/repositories/issue_workflow.py\<close>,
    \<open>workers/issue_reconciliation.py\<close>) as sequences of calls, commits and rollbacks with any tracker that meets a
    contract (a locale, interpreted by the sandbox tracker). \<open>IssueGraph\<close>, \<open>IssueGraphProofs\<close>, \<open>IssueExecution\<close>, \<open>IssueRetry\<close>:
    the issue graphs and their executor (\<open>agent/issue_run_graph.py\<close>, \<open>runtime/issue.py\<close>) refine those
    sequences; \<open>IssueWitness\<close>, \<open>IssueRetryWitness\<close>: concrete runs.
  \<^item> \<open>Json\<close>: \<open>json.loads\<close>; \<open>ObjectStore\<close>, \<open>ObjectProofs\<close>: \<open>infrastructure/object_store/local.py\<close> over a tree of
    directories, files and links, in which the system calls of a put and of a delete may fail, refining a map; \<open>Jwt\<close>, \<open>JwtProofs\<close>:
    \<open>infrastructure/auth/jwt.py\<close>, \<open>api/dependencies.py\<close> and the minting of \<open>evaluation/auth.py\<close>; \<open>Ragflow\<close>, \<open>RagflowProofs\<close>,
    \<open>RagflowSafety\<close>: \<open>infrastructure/ragflow\<close>, the client with its retries and the adapter with its bindings, against
    any server.

  \<^bold>\<open>Bounds and fuel.\<close> \<open>run_qa\<close> takes fifteen steps at most and \<open>run_issue\<close> six, which is proved, and both are within
  LangGraph's recursion limit of 25, the fuel they are given. The matcher's repetitions and the JSON reader are bounded
  by the length of the text, since every iteration reads a character (lemmas of \<open>Regex\<close> and \<open>Json\<close>). The paging
  loop of the RAGFlow adapter ends only when the server's answers let it: it has the fuel
  \<open>rg_page_fuel\<close>, any number, and its exhaustion is the outcome \<open>fuel_exhausted\<close>, which is no exception of the
  program; the theorems hold for every amount. The event stream reads a list of polls, one per
  second of the program's loop; its liveness is stated for the polls after the end of a run.

  \<^bold>\<open>Parameters\<close> stand for what is not in the repository: the language model, the knowledge provider (for the
  graph) and the HTTP server behind it (for the adapter), SHA-256 and HMAC, the clock, \<open>uuid4()\<close>, the rows that other
  transactions have locked, trigram similarity, the faults of system calls, \<open>repr\<close> and the printing of floats.
  LangGraph's checkpoints, \<open>interrupt\<close> and \<open>Command(resume=...)\<close> are modelled by their documentation.
  Where a theorem needs a property of a parameter it is a named hypothesis (collision-freeness of hashes on the
  inputs compared, freshness of keys), and its witness instantiates it.

  \<^bold>\<open>Not modelled.\<close> Pure wiring and input and output: \<open>main.py\<close>, \<open>runtime/api.py\<close>, \<open>config.py\<close>, \<open>cli\<close>,
  \<open>api/v1/health.py\<close>, the request models and error responses of \<open>api/v1/runs.py\<close>, logging, metrics and
  their sanitization (\<open>observability\<close>, except \<open>cost.py\<close>), the column definitions and
  constraints of \<open>infrastructure/db/models\<close> (the tables are records here, and the constraints that operations rely
  on are checked in them), migrations and scripts. \<open>infrastructure/llm/adapter.py\<close> and
  \<open>application/services/metadata_suggestion.py\<close> call the language model, which is a parameter. The offline
  \<open>evaluation\<close> package measures the running system and is no part of it, apart from the tokens it mints.
  \<open>agent/issue_graph.py\<close> composes nodes that are modelled, and production code never builds it. The Chinese labels and
  punctuation that patterns and prompts also accept are outside the model of text.
\<close>

end
